(* ===== verification/Prelude.thy ===== *)
theory Prelude
  imports Complex_Main
begin

text \<open>
  What every theory of the development shares.

  \<^item> \<open>exn\<close>: a raised Python exception, its class and the constant part of its message
    (for \<open>TransactionBlockedError\<close> the reason code). \<open>is_instance\<close> is the subclass
    relation the \<open>except\<close> clauses of the program test.
  \<^item> \<open>('a, 's) outcome\<close>: what a call leaves behind, a value or an exception \<^emph>\<open>and\<close> the
    state, since a Python call that raises keeps the effects it had before. \<open>seq\<close>
    runs the next statement only after a normal return, \<open>handle\<close> is an \<open>except\<close> block.
  \<^item> Lists used as Python dicts and tuples: \<open>first_such\<close> (\<open>next(... for ...)\<close>),
    \<open>dict_set\<close>, and string helpers (\<open>strip\<close>, substring test, decimal numerals).
\<close>

named_theorems outcome_simps \<open>unfolding and splitting of outcomes\<close>

section \<open>Exceptions\<close>

datatype exn_class =
    BaseExceptionClass | KeyboardInterrupt | ExceptionClass
  | ValueError | RuntimeError | KeyError | TypeError | ExnTimeoutError | ConnectionError
  | FileNotFoundError | PermissionError | ValidationError | UnicodeError
  | WorkflowError
  | DossierError | DossierAlreadyExistsError | DossierNotFoundError | RevisionConflictError
  | FileLockTimeoutError
  | AuditLogConflictError
  | TransactionError | TransactionConflictError | TransactionIntegrityError
  | TransactionBlockedError
  | ProgramRepositoryError | ProgramVersionConflictError | EnrollmentRevisionConflictError
  | EducationProgramError
  | IdempotencyError | IdempotencyConflictError
  | PipelineRunConflictError | PipelineRunIntegrityError
  | PipelineJobError | PipelineJobConflictError | PipelineJobIntegrityError
  | PipelineJobClaimError | PipelineJobPayloadRejectedError
  | ReviewProfileError | ReviewProfileCollisionError | ReviewProfileUnavailableError
  | AttributeError | OSError | BatchConflictError | RuntimeConfigError | CaseIntegrityError
  | StructuredModelOutputError | EvidenceGoldError | GoldBenchmarkError
  | PptxSourceError | SlideRenderError | ProjectSourceIntegrityError
  | DoclingUnavailableError | ModelGatewayError | ApiProblemError | JwkSetUnavailableError
  | StopIteration | IndexError

datatype exn = Exn (exn_cls: exn_class) (exn_msg: string)

text \<open>
  The direct base class, as the \<open>class\<close> statements of the source give it.
  \<open>KeyboardInterrupt\<close> stands for whatever ends the process at a point where the program is
  not looking: it derives from \<open>BaseException\<close> and no \<open>except Exception\<close> catches it.
\<close>

fun base_class :: "exn_class \<Rightarrow> exn_class" where
  "base_class WorkflowError = ValueError"
| "base_class ValidationError = ValueError"
| "base_class UnicodeError = ValueError"
| "base_class EducationProgramError = ValueError"
| "base_class ReviewProfileError = ValueError"
| "base_class ReviewProfileCollisionError = ReviewProfileError"
| "base_class ReviewProfileUnavailableError = ReviewProfileError"
| "base_class DossierError = RuntimeError"
| "base_class DossierAlreadyExistsError = DossierError"
| "base_class DossierNotFoundError = DossierError"
| "base_class RevisionConflictError = DossierError"
| "base_class FileLockTimeoutError = DossierError"
| "base_class AuditLogConflictError = RuntimeError"
| "base_class TransactionError = RuntimeError"
| "base_class TransactionConflictError = TransactionError"
| "base_class TransactionIntegrityError = TransactionError"
| "base_class TransactionBlockedError = TransactionError"
| "base_class ProgramRepositoryError = RuntimeError"
| "base_class ProgramVersionConflictError = ProgramRepositoryError"
| "base_class EnrollmentRevisionConflictError = ProgramRepositoryError"
| "base_class IdempotencyError = RuntimeError"
| "base_class IdempotencyConflictError = IdempotencyError"
| "base_class PipelineRunConflictError = RuntimeError"
| "base_class PipelineRunIntegrityError = RuntimeError"
| "base_class PipelineJobError = RuntimeError"
| "base_class PipelineJobConflictError = PipelineJobError"
| "base_class PipelineJobIntegrityError = PipelineJobError"
| "base_class PipelineJobClaimError = PipelineJobError"
| "base_class PipelineJobPayloadRejectedError = PipelineJobError"
| "base_class FileNotFoundError = OSError"
| "base_class PermissionError = OSError"
| "base_class ExnTimeoutError = OSError"
| "base_class ConnectionError = OSError"
| "base_class BatchConflictError = RuntimeError"
| "base_class RuntimeConfigError = ValueError"
| "base_class CaseIntegrityError = RuntimeError"
| "base_class StructuredModelOutputError = ValueError"
| "base_class EvidenceGoldError = ValueError"
| "base_class GoldBenchmarkError = ValueError"
| "base_class PptxSourceError = ValueError"
| "base_class SlideRenderError = PptxSourceError"
| "base_class ProjectSourceIntegrityError = PptxSourceError"
| "base_class DoclingUnavailableError = RuntimeError"
| "base_class ModelGatewayError = RuntimeError"
| "base_class JwkSetUnavailableError = RuntimeError"
| "base_class BaseExceptionClass = BaseExceptionClass"
| "base_class KeyboardInterrupt = BaseExceptionClass"
| "base_class ExceptionClass = BaseExceptionClass"
| "base_class _ = ExceptionClass"

text \<open>No class is more than four steps below \<open>BaseException\<close>.\<close>

definition ancestors :: "exn_class \<Rightarrow> exn_class list" where
  "ancestors c = (let b = base_class c; b2 = base_class b; b3 = base_class b2
     in [c, b, b2, b3, base_class b3])"

definition is_instance :: "exn \<Rightarrow> exn_class \<Rightarrow> bool" where
  "is_instance e c \<longleftrightarrow> c \<in> set (ancestors (exn_cls e))"

lemma is_instance_self [simp]: "is_instance (Exn c m) c"
  by (simp add: is_instance_def ancestors_def Let_def)

lemma is_instance_Exception:
  "is_instance e ExceptionClass \<longleftrightarrow> exn_cls e \<notin> {BaseExceptionClass, KeyboardInterrupt}"
  by (cases "exn_cls e") (simp_all add: is_instance_def ancestors_def)

text \<open>\<open>type(error).__name__\<close>.\<close>

fun class_name :: "exn_class \<Rightarrow> string" where
  "class_name BaseExceptionClass = ''BaseException''"
| "class_name KeyboardInterrupt = ''KeyboardInterrupt''"
| "class_name ExceptionClass = ''Exception''"
| "class_name ValueError = ''ValueError''"
| "class_name RuntimeError = ''RuntimeError''"
| "class_name KeyError = ''KeyError''"
| "class_name TypeError = ''TypeError''"
| "class_name ExnTimeoutError = ''TimeoutError''"
| "class_name ConnectionError = ''ConnectionError''"
| "class_name FileNotFoundError = ''FileNotFoundError''"
| "class_name PermissionError = ''PermissionError''"
| "class_name ValidationError = ''ValidationError''"
| "class_name UnicodeError = ''UnicodeError''"
| "class_name WorkflowError = ''WorkflowError''"
| "class_name DossierError = ''DossierError''"
| "class_name DossierAlreadyExistsError = ''DossierAlreadyExistsError''"
| "class_name DossierNotFoundError = ''DossierNotFoundError''"
| "class_name RevisionConflictError = ''RevisionConflictError''"
| "class_name FileLockTimeoutError = ''FileLockTimeoutError''"
| "class_name AuditLogConflictError = ''AuditLogConflictError''"
| "class_name TransactionError = ''TransactionError''"
| "class_name TransactionConflictError = ''TransactionConflictError''"
| "class_name TransactionIntegrityError = ''TransactionIntegrityError''"
| "class_name TransactionBlockedError = ''TransactionBlockedError''"
| "class_name ProgramRepositoryError = ''ProgramRepositoryError''"
| "class_name ProgramVersionConflictError = ''ProgramVersionConflictError''"
| "class_name EnrollmentRevisionConflictError = ''EnrollmentRevisionConflictError''"
| "class_name EducationProgramError = ''EducationProgramError''"
| "class_name IdempotencyError = ''IdempotencyError''"
| "class_name IdempotencyConflictError = ''IdempotencyConflictError''"
| "class_name PipelineRunConflictError = ''PipelineRunConflictError''"
| "class_name PipelineRunIntegrityError = ''PipelineRunIntegrityError''"
| "class_name PipelineJobError = ''PipelineJobError''"
| "class_name PipelineJobConflictError = ''PipelineJobConflictError''"
| "class_name PipelineJobIntegrityError = ''PipelineJobIntegrityError''"
| "class_name PipelineJobClaimError = ''PipelineJobClaimError''"
| "class_name PipelineJobPayloadRejectedError = ''PipelineJobPayloadRejectedError''"
| "class_name ReviewProfileError = ''ReviewProfileError''"
| "class_name ReviewProfileCollisionError = ''ReviewProfileCollisionError''"
| "class_name ReviewProfileUnavailableError = ''ReviewProfileUnavailableError''"
| "class_name AttributeError = ''AttributeError''"
| "class_name OSError = ''OSError''"
| "class_name BatchConflictError = ''BatchConflictError''"
| "class_name RuntimeConfigError = ''RuntimeConfigError''"
| "class_name CaseIntegrityError = ''CaseIntegrityError''"
| "class_name StructuredModelOutputError = ''StructuredModelOutputError''"
| "class_name EvidenceGoldError = ''EvidenceGoldError''"
| "class_name GoldBenchmarkError = ''GoldBenchmarkError''"
| "class_name PptxSourceError = ''PptxSourceError''"
| "class_name SlideRenderError = ''SlideRenderError''"
| "class_name ProjectSourceIntegrityError = ''ProjectSourceIntegrityError''"
| "class_name DoclingUnavailableError = ''DoclingUnavailableError''"
| "class_name ModelGatewayError = ''ModelGatewayError''"
| "class_name ApiProblemError = ''ApiProblemError''"
| "class_name JwkSetUnavailableError = ''JwkSetUnavailableError''"
| "class_name StopIteration = ''StopIteration''"
| "class_name IndexError = ''IndexError''"

lemma length_class_name: "length (class_name c) \<le> 40"
  by (cases c) simp_all

definition exn_is :: "exn \<Rightarrow> exn_class list \<Rightarrow> bool" where
  "exn_is e cs \<longleftrightarrow> list_ex (is_instance e) cs"

section \<open>Outcomes\<close>

type_synonym 'a res = "exn + 'a"

type_synonym ('a, 's) outcome = "'a res \<times> 's"

definition seq :: "('a, 's) outcome \<Rightarrow> ('a \<Rightarrow> 's \<Rightarrow> ('b, 's) outcome) \<Rightarrow> ('b, 's) outcome" where
  "seq r f = (case r of (Inl e, s) \<Rightarrow> (Inl e, s) | (Inr a, s) \<Rightarrow> f a s)"

definition handle :: "('a, 's) outcome \<Rightarrow> (exn \<Rightarrow> 's \<Rightarrow> ('a, 's) outcome) \<Rightarrow> ('a, 's) outcome" where
  "handle r h = (case r of (Inl e, s) \<Rightarrow> h e s | (Inr a, s) \<Rightarrow> (Inr a, s))"

text \<open>A check that raises or lets the state through.\<close>

definition guard :: "bool \<Rightarrow> exn \<Rightarrow> 's \<Rightarrow> (unit, 's) outcome" where
  "guard ok e s = (if ok then (Inr (), s) else (Inl e, s))"

text \<open>A pure fallible computation, run in a state it does not change.\<close>

definition pure :: "'a res \<Rightarrow> 's \<Rightarrow> ('a, 's) outcome" where
  "pure r s = (r, s)"

lemma seq_simps [simp]:
  "seq (Inl e, s) f = (Inl e, s)"
  "seq (Inr a, s) f = f a s"
  by (simp_all add: seq_def)

lemma handle_simps [simp]:
  "handle (Inl e, s) h = h e s"
  "handle (Inr a, s) h = (Inr a, s)"
  by (simp_all add: handle_def)

lemma guard_simps [simp]:
  "guard True e s = (Inr (), s)"
  "guard False e s = (Inl e, s)"
  by (simp_all add: guard_def)

lemma seq_Inr [outcome_simps]:
  "seq r f = (Inr b, t) \<longleftrightarrow> (\<exists>a s. r = (Inr a, s) \<and> f a s = (Inr b, t))"
  by (cases r; cases "fst r") auto

lemma seq_Inl [outcome_simps]:
  "seq r f = (Inl e, t) \<longleftrightarrow> r = (Inl e, t) \<or> (\<exists>a s. r = (Inr a, s) \<and> f a s = (Inl e, t))"
  by (cases r; cases "fst r") auto

lemma guard_Inr [outcome_simps]:
  "guard ok e s = (Inr u, t) \<longleftrightarrow> ok \<and> t = s"
  by (auto simp: guard_def)

lemma guard_Inl [outcome_simps]:
  "guard ok e s = (Inl e', t) \<longleftrightarrow> \<not> ok \<and> e' = e \<and> t = s"
  by (auto simp: guard_def)

lemma handle_Inr [outcome_simps]:
  "handle r h = (Inr b, t) \<longleftrightarrow> r = (Inr b, t) \<or> (\<exists>e s. r = (Inl e, s) \<and> h e s = (Inr b, t))"
  by (cases r; cases "fst r") auto

lemma pure_eq [outcome_simps]:
  "pure r s = (v, t) \<longleftrightarrow> r = v \<and> t = s"
  by (auto simp: pure_def)

lemma snd_guard [simp]: "snd (guard ok e s) = s"
  by (simp add: guard_def)

lemma snd_pure [simp]: "snd (pure r s) = s"
  by (simp add: pure_def)

text \<open>What holds of the state whether or not a step raises.\<close>

lemma seq_keeps:
  "Q (snd r) \<Longrightarrow> (\<And>a s. Q s \<Longrightarrow> Q (snd (f a s))) \<Longrightarrow> Q (snd (seq r f))"
  by (cases r; cases "fst r") auto

lemma handle_keeps:
  "Q (snd r) \<Longrightarrow> (\<And>e s. Q s \<Longrightarrow> Q (snd (h e s))) \<Longrightarrow> Q (snd (handle r h))"
  by (cases r; cases "fst r") auto

text \<open>A step of pure checks and of guards that has changed the state came to its end.\<close>

lemma seq_pure_snd: "seq r (\<lambda>v. pure (f v)) = (res, s') \<Longrightarrow> snd r = s'"
  by (cases r; cases "fst r") (simp_all add: pure_def)

lemma seq_pure_step:
  assumes "seq (pure x s) f = (r, s')" "s' \<noteq> s"
  obtains a where "x = Inr a" "f a s = (r, s')"
  using assms by (cases x) (auto simp: pure_def)

lemma seq_pure_Inr [simp]: "seq (pure (Inr a) s) f = f a s"
  by (simp add: pure_def)

lemma seq_pure_Inl [simp]: "seq (pure (Inl e) s) f = (Inl e, s)"
  by (simp add: pure_def)

lemma if_step:
  assumes "(if c then (Inl x, s) else g) = (r, s')" "s' \<noteq> s"
  obtains "\<not> c" "g = (r, s')"
  using assms by (auto split: if_splits)

lemma pred_option_code [code]:
  "pred_option P None \<longleftrightarrow> True" "pred_option P (Some x) \<longleftrightarrow> P x"
  by simp_all

section \<open>Lists as Python sequences and dicts\<close>

text \<open>\<open>next((x for x in xs if p x), None)\<close>.\<close>

fun first_such :: "('a \<Rightarrow> bool) \<Rightarrow> 'a list \<Rightarrow> 'a option" where
  "first_such p [] = None"
| "first_such p (x # xs) = (if p x then Some x else first_such p xs)"

lemma first_such_Some: "first_such p xs = Some x \<Longrightarrow> x \<in> set xs \<and> p x"
  by (induction xs) (auto split: if_splits)

lemma first_such_None: "first_such p xs = None \<longleftrightarrow> (\<forall>x \<in> set xs. \<not> p x)"
  by (induction xs) auto

lemma first_such_distinct:
  "distinct (map f xs) \<Longrightarrow> x \<in> set xs \<Longrightarrow> first_such (\<lambda>y. f y = f x) xs = Some x"
  by (induction xs) (auto simp: rev_image_eqI)

lemma first_such_map_replace:
  "first_such (\<lambda>y. f y = k) xs = Some x \<Longrightarrow> f z = k \<Longrightarrow>
   first_such (\<lambda>y. f y = k) (map (\<lambda>y. if f y = k then z else y) xs) = Some z"
  by (induction xs) (auto split: if_splits)

text \<open>\<open>d[k] = v\<close> on a dict kept in insertion order.\<close>

fun dict_set :: "'k \<Rightarrow> 'v \<Rightarrow> ('k \<times> 'v) list \<Rightarrow> ('k \<times> 'v) list" where
  "dict_set k v [] = [(k, v)]"
| "dict_set k v ((k', v') # d) = (if k' = k then (k, v) # d else (k', v') # dict_set k v d)"

lemma map_of_dict_set [simp]: "map_of (dict_set k v d) = (map_of d)(k \<mapsto> v)"
  by (induction d) (auto simp: fun_eq_iff)

lemma keys_dict_set: "fst ` set (dict_set k v d) = insert k (fst ` set d)"
proof (induction d)
  case (Cons kv d)
  then show ?case by (cases kv) (simp add: insert_commute)
qed simp

lemma distinct_dict_set: "distinct (map fst d) \<Longrightarrow> distinct (map fst (dict_set k v d))"
proof (induction d)
  case (Cons kv d)
  then show ?case
    using keys_dict_set [of k v d] by (cases kv) auto
qed simp

text \<open>Sorting by a second key and then, stably, by a first one orders by the pair.\<close>

lemma lex_sorted:
  assumes "sorted (map f ys)" and "\<And>k. sorted (map g (filter (\<lambda>y. f y = k) ys))"
  shows "sorted_wrt (\<lambda>a b. f a < f b \<or> f a = f b \<and> g a \<le> g b) ys"
  using assms
proof (induction ys)
  case (Cons y ys)
  have "sorted (map g (filter (\<lambda>z. f z = k) ys))" for k
    using Cons.prems(2) [of k] by (auto split: if_splits)
  moreover have "f y < f z \<or> f y = f z \<and> g y \<le> g z" if "z \<in> set ys" for z
  proof -
    have "f y \<le> f z" using Cons.prems(1) that by simp
    moreover have "g y \<le> g z" if "f z = f y" using Cons.prems(2) [of "f y"] \<open>z \<in> set ys\<close> that by auto
    ultimately show ?thesis by (metis order_le_less)
  qed
  ultimately show ?case using Cons.IH Cons.prems(1) by simp
qed simp

lemma sort_key_lex:
  "sorted_wrt (\<lambda>a b. f a < f b \<or> f a = f b \<and> g a \<le> g b) (sort_key f (sort_key g xs))"
proof (rule lex_sorted)
  fix k
  show "sorted (map g (filter (\<lambda>y. f y = k) (sort_key f (sort_key g xs))))"
    by (simp add: sort_key_stable) (rule sorted_filter, simp)
qed simp

text \<open>\<open>{key(x): x for x in xs}\<close>.\<close>

definition dict_by :: "('a \<Rightarrow> 'k) \<Rightarrow> 'a list \<Rightarrow> ('k \<times> 'a) list" where
  "dict_by key xs = fold (\<lambda>x d. dict_set (key x) x d) xs []"

lemma dict_by_Nil: "dict_by key xs = [] \<longleftrightarrow> xs = []"
proof -
  have "fold (\<lambda>x d. dict_set (key x) x d) xs d = [] \<longleftrightarrow> xs = [] \<and> d = []" for d
  proof (induction xs arbitrary: d)
    case (Cons x xs)
    have "dict_set (key x) x d \<noteq> []" by (cases d) (auto split: if_splits)
    with Cons show ?case by simp
  qed simp
  then show ?thesis by (simp add: dict_by_def)
qed

lemma dict_set_fresh: "k \<notin> fst ` set d \<Longrightarrow> dict_set k v d = d @ [(k, v)]"
  by (induction d) auto

lemma distinct_dict_by: "distinct (map fst (dict_by key xs))"
proof -
  have "distinct (map fst d) \<Longrightarrow> distinct (map fst (fold (\<lambda>x d. dict_set (key x) x d) xs d))" for d
    by (induction xs arbitrary: d) (simp_all add: distinct_dict_set)
  then show ?thesis by (simp add: dict_by_def)
qed

lemma keys_dict_by: "fst ` set (dict_by key xs) = key ` set xs"
proof -
  have "fst ` set (fold (\<lambda>x d. dict_set (key x) x d) xs d) = key ` set xs \<union> fst ` set d" for d
    by (induction xs arbitrary: d) (auto simp: keys_dict_set)
  then show ?thesis by (simp add: dict_by_def)
qed

lemma dict_by_distinct: "distinct (map key xs) \<Longrightarrow> dict_by key xs = map (\<lambda>x. (key x, x)) xs"
proof -
  have "distinct (map key xs) \<Longrightarrow> fst ` set d \<inter> key ` set xs = {} \<Longrightarrow>
      fold (\<lambda>x d. dict_set (key x) x d) xs d = d @ map (\<lambda>x. (key x, x)) xs" for d
    by (induction xs arbitrary: d) (auto simp: dict_set_fresh)
  then show "distinct (map key xs) \<Longrightarrow> ?thesis" by (simp add: dict_by_def)
qed

text \<open>As many entries as elements: no key came twice.\<close>

lemma length_dict_by: "length (dict_by key xs) = length xs \<longleftrightarrow> distinct (map key xs)"
proof
  assume "length (dict_by key xs) = length xs"
  moreover have "length (dict_by key xs) = card (key ` set xs)"
    using distinct_card [OF distinct_dict_by [of key xs]] keys_dict_by [of key xs] by simp
  ultimately show "distinct (map key xs)" by (intro card_distinct) simp
qed (simp add: dict_by_distinct)

section \<open>Strings\<close>

text \<open>
  A Python string is a list of characters; characters are code points below 256. \<open>str.strip\<close>
  removes the characters of that range for which \<open>str.isspace\<close> holds.
\<close>

definition py_space :: "char \<Rightarrow> bool" where
  "py_space c \<longleftrightarrow> (of_char c :: nat) \<in> set ([9, 10, 11, 12, 13, 28, 29, 30, 31, 32, 133, 160])"

definition strip :: "string \<Rightarrow> string" where
  "strip s = rev (dropWhile py_space (rev (dropWhile py_space s)))"

lemma strip_Nil [simp]: "strip [] = []"
  by (simp add: strip_def)

text \<open>Character ranges of the regular expressions of the schemas.\<close>

definition char_between :: "char \<Rightarrow> char \<Rightarrow> char \<Rightarrow> bool" where
  "char_between a b c \<longleftrightarrow> (of_char a :: nat) \<le> of_char c \<and> (of_char c :: nat) \<le> of_char b"

definition is_lower :: "char \<Rightarrow> bool" where
  "is_lower c = char_between (CHR ''a'') (CHR ''z'') c"

definition is_upper :: "char \<Rightarrow> bool" where
  "is_upper c = char_between (CHR ''A'') (CHR ''Z'') c"

definition is_digit :: "char \<Rightarrow> bool" where
  "is_digit c = char_between (CHR ''0'') (CHR ''9'') c"

definition is_alnum :: "char \<Rightarrow> bool" where
  "is_alnum c \<longleftrightarrow> is_lower c \<or> is_upper c \<or> is_digit c"

lemmas char_class_defs = char_between_def is_lower_def is_upper_def is_digit_def is_alnum_def

text \<open>\<open>^[first][rest]{lo,hi}$\<close>.\<close>

fun matches_id :: "(char \<Rightarrow> bool) \<Rightarrow> (char \<Rightarrow> bool) \<Rightarrow> nat \<Rightarrow> nat \<Rightarrow> string \<Rightarrow> bool" where
  "matches_id first rest lo hi [] = False"
| "matches_id first rest lo hi (c # cs) \<longleftrightarrow>
     first c \<and> list_all rest cs \<and> lo \<le> length cs \<and> length cs \<le> hi"

text \<open>\<open>^[a-f0-9]{64}$\<close>.\<close>

definition is_sha256 :: "string \<Rightarrow> bool" where
  "is_sha256 s \<longleftrightarrow> length s = 64 \<and>
     list_all (\<lambda>c. is_digit c \<or> char_between (CHR ''a'') (CHR ''f'') c) s"

text \<open>A digest for examples.\<close>

definition demo_sha :: string where
  "demo_sha = replicate 64 (CHR ''0'')"

lemma demo_sha [simp]: "is_sha256 demo_sha"
  by (simp add: is_sha256_def demo_sha_def list_all_iff char_class_defs)

text \<open>\<open>^\d+\.\d+\.\d+(?:-[0-9A-Za-z.-]+)?$\<close>; digits and dots exclude each other, so reading greedily
  loses nothing.\<close>

definition eat_number :: "string \<Rightarrow> string option" where
  "eat_number s = (if takeWhile is_digit s = [] then None else Some (dropWhile is_digit s))"

definition eat_dot :: "string option \<Rightarrow> string option" where
  "eat_dot s = (case s of Some (c # cs) \<Rightarrow> if c = CHR ''.'' then Some cs else None | _ \<Rightarrow> None)"

definition is_semver :: "string \<Rightarrow> bool" where
  "is_semver s =
     (case Option.bind (eat_dot (Option.bind (eat_dot (eat_number s)) eat_number)) eat_number of
        None \<Rightarrow> False
      | Some [] \<Rightarrow> True
      | Some (c # cs) \<Rightarrow> c = CHR ''-'' \<and> cs \<noteq> [] \<and>
          list_all (\<lambda>c. is_alnum c \<or> c = CHR ''.'' \<or> c = CHR ''-'') cs)"

text \<open>JSON values; an object lists its members in key order, the canonical form that is stored.\<close>

datatype json =
    JNull | JBool bool | JInt int | JFloat rat | JStr string
  | JList "json list" | JObj "(string \<times> json) list"

definition json_get :: "(string \<times> json) list \<Rightarrow> string \<Rightarrow> json" where
  "json_get members k = (case map_of members k of None \<Rightarrow> JNull | Some v \<Rightarrow> v)"

text \<open>\<open>needle in haystack\<close>.\<close>

fun starts_with :: "string \<Rightarrow> string \<Rightarrow> bool" where
  "starts_with [] s = True"
| "starts_with (p # ps) [] = False"
| "starts_with (p # ps) (c # cs) = (p = c \<and> starts_with ps cs)"

fun str_in :: "string \<Rightarrow> string \<Rightarrow> bool" where
  "str_in needle [] = (needle = [])"
| "str_in needle (c # cs) = (starts_with needle (c # cs) \<or> str_in needle cs)"

lemma starts_with_append [simp]: "starts_with p (p @ s)"
  by (induction p) simp_all

definition ends_with :: "string \<Rightarrow> string \<Rightarrow> bool" where
  "ends_with suffix s = starts_with (rev suffix) (rev s)"

text \<open>\<open>str.casefold\<close> on code points below 256; the micro sign, whose fold is above, is kept.\<close>

definition casefold_char :: "char \<Rightarrow> string" where
  "casefold_char c =
     (let n = (of_char c :: nat) in
      if n = 223 then ''ss''
      else if 65 \<le> n \<and> n \<le> 90 \<or> 192 \<le> n \<and> n \<le> 222 \<and> n \<noteq> 215 then [char_of (n + 32)]
      else [c])"

definition casefold :: "string \<Rightarrow> string" where
  "casefold s = concat (map casefold_char s)"

text \<open>\<open>round\<close> to an integer, halves to even.\<close>

definition round_half_even :: "rat \<Rightarrow> int" where
  "round_half_even q =
     (let f = floor q; d = q - of_int f in
      if d < 1 / 2 \<or> d = 1 / 2 \<and> even f then f else f + 1)"

lemma round_half_even_nonneg: "0 \<le> q \<Longrightarrow> 0 \<le> round_half_even q"
  by (simp add: round_half_even_def Let_def)

lemma round_half_even_le: "q \<le> of_int n \<Longrightarrow> round_half_even q \<le> n"
proof -
  assume q: "q \<le> of_int n"
  show ?thesis
  proof (cases "floor q = n")
    case True
    with q have "q = of_int n" by (metis floor_less_iff less_irrefl order_le_less floor_le_iff of_int_floor_le antisym)
    with True show ?thesis by (simp add: round_half_even_def)
  next
    case False
    with q have "floor q < n" by (metis floor_mono floor_of_int order_le_less)
    then show ?thesis by (simp add: round_half_even_def Let_def)
  qed
qed

text \<open>\<open>s[:n]\<close> of a Python sequence.\<close>

definition py_take :: "int \<Rightarrow> 'a list \<Rightarrow> 'a list" where
  "py_take n xs = (if 0 \<le> n then take (nat n) xs else take (length xs - nat (- n)) xs)"

text \<open>\<open>tuple(dict.fromkeys(xs))\<close>: the first occurrence of each.\<close>

fun dict_fromkeys :: "'a list \<Rightarrow> 'a list" where
  "dict_fromkeys [] = []"
| "dict_fromkeys (x # xs) = x # filter (\<lambda>y. y \<noteq> x) (dict_fromkeys xs)"

lemma set_dict_fromkeys [simp]: "set (dict_fromkeys xs) = set xs"
  by (induction xs) auto

lemma distinct_dict_fromkeys [simp]: "distinct (dict_fromkeys xs)"
  by (induction xs) auto

lemma length_py_take: "0 \<le> n \<Longrightarrow> length (py_take n xs) \<le> nat n"
  by (simp add: py_take_def)

text \<open>Truthiness of an optional string: \<open>None\<close> and \<open>""\<close> are false.\<close>

definition truthy :: "string option \<Rightarrow> bool" where
  "truthy o' = (case o' of None \<Rightarrow> False | Some s \<Rightarrow> s \<noteq> [])"

lemma truthy_simps [simp]:
  "truthy None = False"
  "truthy (Some s) = (s \<noteq> [])"
  by (simp_all add: truthy_def)

text \<open>\<open>a or b\<close> on an optional string.\<close>

definition str_or :: "string option \<Rightarrow> string \<Rightarrow> string" where
  "str_or o' d = (if truthy o' then the o' else d)"

text \<open>Decimal numerals, \<open>str(n)\<close>.\<close>

definition digit :: "nat \<Rightarrow> char" where
  "digit d = char_of (48 + d)"

fun dec :: "nat \<Rightarrow> string" where
  "dec n = (if n < 10 then [digit n] else dec (n div 10) @ [digit (n mod 10)])"

declare dec.simps [simp del]

lemma digit_inj: "a < 10 \<Longrightarrow> b < 10 \<Longrightarrow> digit a = digit b \<longleftrightarrow> a = b"
proof
  assume ab: "a < 10" "b < 10" and eq: "digit a = digit b"
  have "(of_char (digit a) :: nat) = of_char (digit b)" using eq by simp
  with ab show "a = b" by (simp add: digit_def)
qed simp

lemma dec_nonempty [simp]: "dec n \<noteq> []"
  by (subst dec.simps) simp

lemma dec_small: "n < 10 \<Longrightarrow> dec n = [digit n]"
  by (subst dec.simps) simp

lemma dec_large: "\<not> n < 10 \<Longrightarrow> dec n = dec (n div 10) @ [digit (n mod 10)]"
  by (subst dec.simps) simp

lemma dec_inj: "dec m = dec n \<longleftrightarrow> m = n"
proof (induction m arbitrary: n rule: less_induct)
  case (less m)
  consider "m < 10" "n < 10" | "m < 10" "\<not> n < 10" | "\<not> m < 10" "n < 10" | "\<not> m < 10" "\<not> n < 10"
    by blast
  then show ?case
  proof cases
    case 1
    then show ?thesis by (simp add: dec_small digit_inj)
  next
    case 2
    then show ?thesis by (auto simp: dec_small dec_large Cons_eq_append_conv)
  next
    case 3
    then show ?thesis by (auto simp: dec_small dec_large append_eq_Cons_conv)
  next
    case 4
    then have "dec (m div 10) = dec (n div 10) \<longleftrightarrow> m div 10 = n div 10" by (intro less.IH) simp
    with 4 have "dec m = dec n \<longleftrightarrow> m div 10 = n div 10 \<and> m mod 10 = n mod 10"
      by (simp add: dec_large digit_inj)
    then show ?thesis by (metis div_mult_mod_eq)
  qed
qed

text \<open>\<open>str(i)\<close>.\<close>

definition str_int :: "int \<Rightarrow> string" where
  "str_int i = (if i < 0 then CHR ''-'' # dec (nat (- i)) else dec (nat i))"

end
