(* ===== verification/TwoGate.thy ===== *)
theory TwoGate
  imports Prelude
begin

text \<open>
  The two-gate workflow of \<open>workflows/two_gate.py\<close> and the notification port of
  \<open>notifications/base.py\<close>: the transition table, the two operations on a workflow record,
  the self-check of the table, and the runs these operations generate. The locale
  \<open>notification_port\<close> is what the workflow relies on when it asks for administrator approval;
  it is interpreted here on the recording notifier and, in \<open>Outbox\<close>, on the durable outbox.
\<close>

section \<open>Notification port\<close>

record notification_event =
  ev_type :: string
  ev_project_id :: string
  ev_stage :: string
  ev_required_role :: string
  ev_revision :: "int option"
  ev_report_ref :: "string option"

text \<open>\<open>NotificationPort.send\<close>: it changes the state of the adapter or raises.\<close>

type_synonym 'n sender = "notification_event \<Rightarrow> 'n \<Rightarrow> (unit, 'n) outcome"

definition recording_send :: "notification_event list sender" where
  "recording_send event events = (Inr (), events @ [event])"

text \<open>
  A port keeps what it has recorded, and a send that returns has recorded its event; a send
  that raises need not.
\<close>

locale notification_port =
  fixes port_send :: "'n sender"
    and recorded :: "'n \<Rightarrow> notification_event \<Rightarrow> bool"
  assumes send_records: "port_send ev n = (Inr u, n') \<Longrightarrow> recorded n' ev"
    and send_keeps: "port_send ev n = (r, n') \<Longrightarrow> recorded n ev' \<Longrightarrow> recorded n' ev'"

interpretation recording: notification_port recording_send "\<lambda>events ev. ev \<in> set events"
  by unfold_locales (auto simp: recording_send_def)

section \<open>Workflow state and transition table\<close>

datatype actor_role = SYSTEM | SUBMITTER | PROJECT_OWNER | MENTOR | ADMINISTRATOR

datatype project_status =
    DRAFT
  | REGISTRATION_READY
  | REGISTRATION_UNDER_REVIEW
  | REGISTRATION_HITL_PENDING
  | REGISTRATION_APPROVED
  | REGISTRATION_REJECTED
  | IN_PROGRESS
  | COMPLETION_READY
  | COMPLETION_APPROVAL_PENDING
  | COMPLETION_REGISTERED
  | COMPLETION_UNDER_REVIEW
  | COMPLETION_HITL_PENDING
  | COMPLETION_ACCEPTED
  | COMPLETION_NOT_ACCEPTED

fun status_value :: "project_status \<Rightarrow> string" where
  "status_value DRAFT = ''draft''"
| "status_value REGISTRATION_READY = ''registration_ready''"
| "status_value REGISTRATION_UNDER_REVIEW = ''registration_under_review''"
| "status_value REGISTRATION_HITL_PENDING = ''registration_hitl_pending''"
| "status_value REGISTRATION_APPROVED = ''registration_approved''"
| "status_value REGISTRATION_REJECTED = ''registration_rejected''"
| "status_value IN_PROGRESS = ''in_progress''"
| "status_value COMPLETION_READY = ''completion_ready''"
| "status_value COMPLETION_APPROVAL_PENDING = ''completion_approval_pending''"
| "status_value COMPLETION_REGISTERED = ''completion_registered''"
| "status_value COMPLETION_UNDER_REVIEW = ''completion_under_review''"
| "status_value COMPLETION_HITL_PENDING = ''completion_hitl_pending''"
| "status_value COMPLETION_ACCEPTED = ''completion_accepted''"
| "status_value COMPLETION_NOT_ACCEPTED = ''completion_not_accepted''"

record workflow_record =
  wr_project_id :: string
  wr_status :: project_status
  wr_mentor_ref :: "string option"

record transition_rule =
  rule_source :: project_status
  rule_target :: project_status
  rule_roles :: "actor_role set"
  rule_notification_event :: "string option"

definition mk_rule ::
  "project_status \<Rightarrow> project_status \<Rightarrow> actor_role set \<Rightarrow> string option \<Rightarrow> transition_rule" where
  "mk_rule source target roles event =
     \<lparr>rule_source = source, rule_target = target, rule_roles = roles,
      rule_notification_event = event\<rparr>"

definition TRANSITIONS :: "(string \<times> transition_rule) list" where
  "TRANSITIONS =
   [(''submit_registration'',
       mk_rule DRAFT REGISTRATION_READY {SUBMITTER, PROJECT_OWNER} None),
    (''start_registration_evaluation'',
       mk_rule REGISTRATION_READY REGISTRATION_UNDER_REVIEW {SYSTEM} None),
    (''publish_registration_draft'',
       mk_rule REGISTRATION_UNDER_REVIEW REGISTRATION_HITL_PENDING {SYSTEM}
         (Some ''registration_admin_approval_requested'')),
    (''approve_registration'',
       mk_rule REGISTRATION_HITL_PENDING REGISTRATION_APPROVED {ADMINISTRATOR} None),
    (''reject_registration'',
       mk_rule REGISTRATION_HITL_PENDING REGISTRATION_REJECTED {ADMINISTRATOR} None),
    (''start_execution'',
       mk_rule REGISTRATION_APPROVED IN_PROGRESS {PROJECT_OWNER, ADMINISTRATOR} None),
    (''request_completion'',
       mk_rule IN_PROGRESS COMPLETION_READY {PROJECT_OWNER} None),
    (''request_completion_submission_approval'',
       mk_rule COMPLETION_READY COMPLETION_APPROVAL_PENDING {PROJECT_OWNER} None),
    (''approve_completion_submission'',
       mk_rule COMPLETION_APPROVAL_PENDING COMPLETION_REGISTERED
         {MENTOR, PROJECT_OWNER, ADMINISTRATOR} None),
    (''start_completion_evaluation'',
       mk_rule COMPLETION_REGISTERED COMPLETION_UNDER_REVIEW {SYSTEM} None),
    (''publish_completion_draft'',
       mk_rule COMPLETION_UNDER_REVIEW COMPLETION_HITL_PENDING {SYSTEM}
         (Some ''completion_admin_approval_requested'')),
    (''accept_completion'',
       mk_rule COMPLETION_HITL_PENDING COMPLETION_ACCEPTED {ADMINISTRATOR} None),
    (''decline_completion'',
       mk_rule COMPLETION_HITL_PENDING COMPLETION_NOT_ACCEPTED {ADMINISTRATOR} None)]"

section \<open>Operations\<close>

definition assign_mentor :: "workflow_record \<Rightarrow> string \<Rightarrow> actor_role \<Rightarrow> workflow_record res" where
  "assign_mentor record' mentor_ref actor =
     (if actor \<notin> {PROJECT_OWNER, ADMINISTRATOR} then
        Inl (Exn WorkflowError ''only a project owner or administrator may assign a mentor'')
      else if wr_status record' \<notin> {REGISTRATION_APPROVED, IN_PROGRESS} then
        Inl (Exn WorkflowError ''mentor assignment is allowed only after registration approval'')
      else if strip mentor_ref = [] then
        Inl (Exn WorkflowError ''mentor_ref must not be empty'')
      else Inr (record'\<lparr>wr_mentor_ref := Some mentor_ref\<rparr>))"

text \<open>The guards of \<open>transition\<close> up to the notification; the rule is the result.\<close>

definition transition_guard ::
  "workflow_record \<Rightarrow> string \<Rightarrow> actor_role \<Rightarrow> transition_rule res" where
  "transition_guard record' trigger actor =
     (case map_of TRANSITIONS trigger of
        None \<Rightarrow> Inl (Exn WorkflowError ''unknown transition trigger'')
      | Some rule \<Rightarrow>
          if wr_status record' \<noteq> rule_source rule then
            Inl (Exn WorkflowError ''trigger requires another status'')
          else if actor \<notin> rule_roles rule then
            Inl (Exn WorkflowError ''role is not allowed to execute trigger'')
          else if trigger = ''approve_completion_submission'' \<and>
                  truthy (wr_mentor_ref record') \<and> actor \<noteq> MENTOR then
            Inl (Exn WorkflowError ''an assigned mentor must approve the completion submission'')
          else if trigger = ''approve_completion_submission'' \<and>
                  \<not> truthy (wr_mentor_ref record') \<and> actor \<notin> {PROJECT_OWNER, ADMINISTRATOR} then
            Inl (Exn WorkflowError ''without a mentor, the owner or administrator must approve'')
          else Inr rule)"

definition approval_request ::
  "string \<Rightarrow> string \<Rightarrow> int option \<Rightarrow> string option \<Rightarrow> notification_event" where
  "approval_request event project_id revision report_ref =
     \<lparr>ev_type = event, ev_project_id = project_id,
      ev_stage = (if str_in ''registration'' event then ''registration'' else ''completion''),
      ev_required_role = ''administrator'', ev_revision = revision, ev_report_ref = report_ref\<rparr>"

definition transition ::
  "'n sender option \<Rightarrow> workflow_record \<Rightarrow> string \<Rightarrow> actor_role \<Rightarrow> int option \<Rightarrow> string option \<Rightarrow>
   'n \<Rightarrow> (workflow_record, 'n) outcome" where
  "transition notifier record' trigger actor revision report_ref n =
     seq (pure (transition_guard record' trigger actor) n) (\<lambda>rule n.
     seq (if truthy (rule_notification_event rule) then
            case notifier of
              None \<Rightarrow> (Inl (Exn WorkflowError
                         ''administrator approval notification is required''), n)
            | Some send \<Rightarrow>
                send (approval_request (the (rule_notification_event rule))
                        (wr_project_id record') revision report_ref) n
          else (Inr (), n)) (\<lambda>_ n.
     (Inr (record'\<lparr>wr_status := rule_target rule\<rparr>), n)))"

text \<open>\<open>TRANSITIONS[trigger]\<close> is subscripted in the second loop; both keys are in the table.\<close>

definition human_only_targets :: "project_status set" where
  "human_only_targets = {REGISTRATION_APPROVED, REGISTRATION_REJECTED,
     COMPLETION_ACCEPTED, COMPLETION_NOT_ACCEPTED}"

definition approval_transition_errors ::
  "(string \<times> transition_rule) list \<Rightarrow> string list res" where
  "approval_transition_errors table =
     (let errors = map (\<lambda>(trigger, rule).
              trigger @ '': final gate transition must be administrator-only'')
            (filter (\<lambda>(trigger, rule).
               rule_target rule \<in> human_only_targets \<and> rule_roles rule \<noteq> {ADMINISTRATOR}) table);
          hitl = [''publish_registration_draft'', ''publish_completion_draft'']
      in if list_ex (\<lambda>trigger. map_of table trigger = None) hitl then
           Inl (Exn KeyError ''trigger'')
         else
           Inr (errors @ map (\<lambda>trigger. trigger @ '': HITL transition must emit a notification'')
             (filter (\<lambda>trigger.
                \<not> truthy (rule_notification_event (the (map_of table trigger)))) hitl)))"

section \<open>Runs\<close>

text \<open>
  A client drives a record by calling the two operations, in any order and with any
  arguments; a call that raises leaves the record as it was (the record is immutable), while
  the notifier keeps what the call did to it. The trace lists the successful transitions
  with the role that made them.
\<close>

datatype call =
    Trigger string actor_role "int option" "string option"
  | AssignMentor string actor_role

inductive workflow_run ::
  "'n sender option \<Rightarrow> workflow_record \<Rightarrow> 'n \<Rightarrow> (string \<times> actor_role) list \<Rightarrow>
   workflow_record \<Rightarrow> 'n \<Rightarrow> bool" for notifier where
  run_start: "workflow_run notifier r n [] r n"
| run_trigger:
    "workflow_run notifier r n tr r1 n1 \<Longrightarrow>
     transition notifier r1 trigger actor rv rp n1 = (Inr r2, n2) \<Longrightarrow>
     workflow_run notifier r n (tr @ [(trigger, actor)]) r2 n2"
| run_trigger_raises:
    "workflow_run notifier r n tr r1 n1 \<Longrightarrow>
     transition notifier r1 trigger actor rv rp n1 = (Inl e, n2) \<Longrightarrow>
     workflow_run notifier r n tr r1 n2"
| run_mentor:
    "workflow_run notifier r n tr r1 n1 \<Longrightarrow> assign_mentor r1 m actor = Inr r2 \<Longrightarrow>
     workflow_run notifier r n tr r2 n1"

text \<open>The triggers that lead from a fresh record to each status.\<close>

definition registration_path :: "string list" where
  "registration_path =
     [''submit_registration'', ''start_registration_evaluation'', ''publish_registration_draft'']"

definition completion_path :: "string list" where
  "completion_path = registration_path @
     [''approve_registration'', ''start_execution'', ''request_completion'',
      ''request_completion_submission_approval'', ''approve_completion_submission'',
      ''start_completion_evaluation'', ''publish_completion_draft'']"

fun path_to :: "project_status \<Rightarrow> string list" where
  "path_to DRAFT = []"
| "path_to REGISTRATION_READY = take 1 completion_path"
| "path_to REGISTRATION_UNDER_REVIEW = take 2 completion_path"
| "path_to REGISTRATION_HITL_PENDING = registration_path"
| "path_to REGISTRATION_APPROVED = registration_path @ [''approve_registration'']"
| "path_to REGISTRATION_REJECTED = registration_path @ [''reject_registration'']"
| "path_to IN_PROGRESS = take 5 completion_path"
| "path_to COMPLETION_READY = take 6 completion_path"
| "path_to COMPLETION_APPROVAL_PENDING = take 7 completion_path"
| "path_to COMPLETION_REGISTERED = take 8 completion_path"
| "path_to COMPLETION_UNDER_REVIEW = take 9 completion_path"
| "path_to COMPLETION_HITL_PENDING = completion_path"
| "path_to COMPLETION_ACCEPTED = completion_path @ [''accept_completion'']"
| "path_to COMPLETION_NOT_ACCEPTED = completion_path @ [''decline_completion'']"

section \<open>Lemmas\<close>

lemma transition_Inr:
  "transition notifier r trigger actor rv rp n = (Inr r', n') \<longleftrightarrow>
   (\<exists>rule. transition_guard r trigger actor = Inr rule \<and>
      r' = r\<lparr>wr_status := rule_target rule\<rparr> \<and>
      (if truthy (rule_notification_event rule)
       then \<exists>send. notifier = Some send \<and>
              send (approval_request (the (rule_notification_event rule)) (wr_project_id r) rv rp) n
                = (Inr (), n')
       else n' = n))"
  by (auto simp: transition_def outcome_simps split: option.splits if_splits)

lemma transition_guard_Inr:
  "transition_guard r trigger actor = Inr rule \<longleftrightarrow>
   map_of TRANSITIONS trigger = Some rule \<and> wr_status r = rule_source rule \<and>
   actor \<in> rule_roles rule \<and>
   (trigger = ''approve_completion_submission'' \<longrightarrow>
      (if truthy (wr_mentor_ref r) then actor = MENTOR else actor \<in> {PROJECT_OWNER, ADMINISTRATOR}))"
  by (auto simp: transition_guard_def split: option.splits)

lemma rule_path:
  assumes "map_of TRANSITIONS trigger = Some rule"
  shows "path_to (rule_target rule) = path_to (rule_source rule) @ [trigger]"
  using assms
  by (simp add: TRANSITIONS_def mk_rule_def completion_path_def registration_path_def
      split: if_splits) (auto simp: completion_path_def registration_path_def)

lemma assign_mentor_Inr:
  "assign_mentor r m actor = Inr r' \<longleftrightarrow>
   actor \<in> {PROJECT_OWNER, ADMINISTRATOR} \<and> wr_status r \<in> {REGISTRATION_APPROVED, IN_PROGRESS} \<and>
   strip m \<noteq> [] \<and> r' = r\<lparr>wr_mentor_ref := Some m\<rparr>"
  by (auto simp: assign_mentor_def split: if_splits)

lemma workflow_run_path:
  "workflow_run notifier r n tr r' n' \<Longrightarrow> path_to (wr_status r') = path_to (wr_status r) @ map fst tr"
  by (induction rule: workflow_run.induct)
     (auto simp: transition_Inr transition_guard_Inr rule_path assign_mentor_Inr)

lemma workflow_run_roles:
  "workflow_run notifier r n tr r' n' \<Longrightarrow> (trigger, actor) \<in> set tr \<Longrightarrow>
   \<exists>rule. map_of TRANSITIONS trigger = Some rule \<and> actor \<in> rule_roles rule"
  by (induction rule: workflow_run.induct)
     (auto simp: transition_Inr transition_guard_Inr)

lemma workflow_run_project [simp]:
  "workflow_run notifier r n tr r' n' \<Longrightarrow> wr_project_id r' = wr_project_id r"
  by (induction rule: workflow_run.induct) (auto simp: transition_Inr assign_mentor_Inr)

text \<open>The trace determines the record's status, and every status is its unique path.\<close>

lemma path_to_inj: "path_to s = path_to t \<Longrightarrow> s = t"
  by (cases s; cases t) (simp_all add: completion_path_def registration_path_def)

text \<open>The triggers that decide a gate.\<close>

definition decision_triggers :: "string set" where
  "decision_triggers = {''approve_registration'', ''reject_registration'', ''accept_completion'',
     ''decline_completion''}"

lemma decision_roles:
  assumes "map_of TRANSITIONS trigger = Some rule" and "trigger \<in> decision_triggers"
  shows "rule_roles rule = {ADMINISTRATOR}"
  using assms(2,1) unfolding decision_triggers_def by (elim insertE) (simp_all add: TRANSITIONS_def mk_rule_def, auto)

text \<open>What the notifier has been asked to record once a run has entered a gate.\<close>

definition gate_requested ::
  "('n \<Rightarrow> notification_event \<Rightarrow> bool) \<Rightarrow> 'n \<Rightarrow> string \<Rightarrow> string list \<Rightarrow> bool" where
  "gate_requested recorded n project_id triggers \<longleftrightarrow>
     (''publish_registration_draft'' \<in> set triggers \<longrightarrow>
        (\<exists>rv rp. recorded n
           (approval_request ''registration_admin_approval_requested'' project_id rv rp))) \<and>
     (''publish_completion_draft'' \<in> set triggers \<longrightarrow>
        (\<exists>rv rp. recorded n
           (approval_request ''completion_admin_approval_requested'' project_id rv rp)))"

lemma table_events:
  "map_of TRANSITIONS ''publish_registration_draft'' = Some rule \<Longrightarrow>
     rule_notification_event rule = Some ''registration_admin_approval_requested''"
  "map_of TRANSITIONS ''publish_completion_draft'' = Some rule \<Longrightarrow>
     rule_notification_event rule = Some ''completion_admin_approval_requested''"
  by (auto simp: TRANSITIONS_def mk_rule_def)

context notification_port
begin

lemma transition_keeps:
  assumes "transition (Some port_send) r trigger actor rv rp n = (res, n')" "recorded n ev"
  shows "recorded n' ev"
  using assms send_keeps
  by (auto simp: transition_def pure_def seq_def split: sum.splits prod.splits if_splits)

lemma gate_requested_keeps:
  "transition (Some port_send) r trigger actor rv rp n = (res, n') \<Longrightarrow>
   gate_requested recorded n pid ts \<Longrightarrow> gate_requested recorded n' pid ts"
  unfolding gate_requested_def by (meson transition_keeps)

lemma run_requests:
  assumes "workflow_run (Some port_send) r n tr r' n'"
  shows "gate_requested recorded n' (wr_project_id r) (map fst tr)"
  using assms
proof (induction rule: workflow_run.induct)
  case (run_trigger r n tr r1 n1 trigger actor rv rp r2 n2)
  then have kept: "gate_requested recorded n2 (wr_project_id r) (map fst tr)"
    using gate_requested_keeps by blast
  have sent: "\<exists>send. Some port_send = Some send \<and>
      send (approval_request ev (wr_project_id r) rv rp) n1 = (Inr (), n2)"
    if "map_of TRANSITIONS trigger = Some rule" "rule_notification_event rule = Some ev" "ev \<noteq> []"
    for rule ev
    using run_trigger.hyps(2) that workflow_run_project [OF run_trigger.hyps(1)]
    by (auto simp: transition_Inr transition_guard_Inr)
  have known: "\<exists>rule. map_of TRANSITIONS trigger = Some rule"
    using run_trigger.hyps(2) by (auto simp: transition_Inr transition_guard_Inr)
  show ?case
    using kept known sent send_records
    by (fastforce simp: gate_requested_def dest: table_events)
next
  case (run_trigger_raises r n tr r1 n1 trigger actor rv rp e n2)
  then show ?case using gate_requested_keeps by blast
qed (simp_all add: gate_requested_def)

lemma status_requested:
  assumes "workflow_run (Some port_send) r n tr r' n'" "wr_status r = DRAFT"
  shows "gate_requested recorded n' (wr_project_id r') (path_to (wr_status r'))"
  using run_requests [OF assms(1)] workflow_run_path [OF assms(1)]
    workflow_run_project [OF assms(1)] assms(2)
  by simp

end

text \<open>The table's self-check passes exactly when both of its promises hold of the table.\<close>

lemma approval_transition_errors_Nil:
  "approval_transition_errors table = Inr [] \<longleftrightarrow>
   (\<forall>(trigger, rule) \<in> set table.
      rule_target rule \<in> human_only_targets \<longrightarrow> rule_roles rule = {ADMINISTRATOR}) \<and>
   (\<forall>trigger \<in> {''publish_registration_draft'', ''publish_completion_draft''}.
      \<exists>rule. map_of table trigger = Some rule \<and> truthy (rule_notification_event rule))"
  by (auto simp: approval_transition_errors_def Let_def filter_empty_conv split: option.splits if_splits)

lemma TRANSITIONS_checked: "approval_transition_errors TRANSITIONS = Inr []"
  by (simp add: approval_transition_errors_def TRANSITIONS_def mk_rule_def human_only_targets_def
      insert_commute)

text \<open>A client's calls, executed in order: the run they make.\<close>

fun drive ::
  "'n sender option \<Rightarrow> call list \<Rightarrow> workflow_record \<Rightarrow> 'n \<Rightarrow>
   (string \<times> actor_role) list \<times> workflow_record \<times> 'n" where
  "drive notifier [] r n = ([], r, n)"
| "drive notifier (Trigger trigger actor rv rp # cs) r n =
     (case transition notifier r trigger actor rv rp n of
        (Inl e, n') \<Rightarrow> drive notifier cs r n'
      | (Inr r', n') \<Rightarrow>
          (let (tr, last') = drive notifier cs r' n' in ((trigger, actor) # tr, last')))"
| "drive notifier (AssignMentor m actor # cs) r n =
     (case assign_mentor r m actor of
        Inl e \<Rightarrow> drive notifier cs r n
      | Inr r' \<Rightarrow> drive notifier cs r' n)"

lemma drive_run:
  "workflow_run notifier r0 n0 tr0 r n \<Longrightarrow> drive notifier cs r n = (tr, r', n') \<Longrightarrow>
   workflow_run notifier r0 n0 (tr0 @ tr) r' n'"
proof (induction notifier cs r n arbitrary: tr0 tr rule: drive.induct)
  case (2 notifier trigger actor rv rp cs r n)
  show ?case
  proof (cases "transition notifier r trigger actor rv rp n")
    case (Pair res n1)
    show ?thesis
    proof (cases res)
      case (Inl e)
      with 2(3) Pair have "workflow_run notifier r0 n0 tr0 r n1" by (auto intro: run_trigger_raises)
      moreover have "drive notifier cs r n1 = (tr, r', n')" using 2(4) Pair Inl by simp
      ultimately show ?thesis using 2(1) [OF Pair [symmetric] Inl] by simp
    next
      case (Inr r1)
      obtain tr1 where tr1: "drive notifier cs r1 n1 = (tr1, r', n')" "tr = (trigger, actor) # tr1"
        using 2(4) Pair Inr by (auto split: prod.splits)
      have "workflow_run notifier r0 n0 (tr0 @ [(trigger, actor)]) r1 n1"
        using 2(3) Pair Inr by (auto intro: run_trigger)
      from 2(2) [OF Pair [symmetric] Inr this tr1(1)] tr1(2) show ?thesis by simp
    qed
  qed
next
  case (3 notifier m actor cs r n)
  show ?case
  proof (cases "assign_mentor r m actor")
    case (Inl e)
    with 3(4) have "drive notifier cs r n = (tr, r', n')" by simp
    with 3(1) [OF Inl 3(3)] show ?thesis .
  next
    case (Inr r1)
    with 3(4) have "drive notifier cs r1 n = (tr, r', n')" by simp
    with 3(2) [OF Inr run_mentor [OF 3(3) Inr]] show ?thesis .
  qed
qed simp

definition fresh_record :: "string \<Rightarrow> workflow_record" where
  "fresh_record project_id =
     \<lparr>wr_project_id = project_id, wr_status = DRAFT, wr_mentor_ref = None\<rparr>"

section \<open>Properties\<close>

text \<open>
  C1. Whatever the calls, their order and the notifier, a record that started as a draft and is
  now in some status has made exactly the transitions of the one path that leads to that
  status: no gate can be skipped, repeated or entered twice. Every approval, rejection,
  acceptance and declination on the way was made by an administrator.
\<close>

theorem two_gate_path:
  assumes "workflow_run notifier r n tr r' n'" and "wr_status r = DRAFT"
  shows "map fst tr = path_to (wr_status r') \<and>
    (\<forall>(trigger, actor) \<in> set tr.
       trigger \<in> decision_triggers \<longrightarrow> actor = ADMINISTRATOR)"
proof -
  have "map fst tr = path_to (wr_status r')"
    using workflow_run_path [OF assms(1)] assms(2) by simp
  moreover have "actor = ADMINISTRATOR"
    if tr: "(trigger, actor) \<in> set tr" and "trigger \<in> decision_triggers" for trigger actor
  proof -
    obtain rule where "map_of TRANSITIONS trigger = Some rule" "actor \<in> rule_roles rule"
      using workflow_run_roles [OF assms(1) tr] by blast
    with decision_roles [OF _ that(2)] show ?thesis by simp
  qed
  ultimately show ?thesis by blast
qed

definition demo_calls :: "call list" where
  "demo_calls =
     [Trigger ''submit_registration'' SUBMITTER None None,
      Trigger ''accept_completion'' ADMINISTRATOR None None,
      Trigger ''start_registration_evaluation'' SYSTEM None None,
      Trigger ''publish_registration_draft'' SYSTEM (Some 2) (Some ''r.html''),
      Trigger ''approve_registration'' SYSTEM None None,
      Trigger ''approve_registration'' ADMINISTRATOR None None,
      AssignMentor ''m1'' PROJECT_OWNER,
      Trigger ''start_execution'' PROJECT_OWNER None None]"

lemma demo_drive:
  "drive (Some recording_send) demo_calls (fresh_record ''p'') [] =
    ([(''submit_registration'', SUBMITTER), (''start_registration_evaluation'', SYSTEM),
      (''publish_registration_draft'', SYSTEM), (''approve_registration'', ADMINISTRATOR),
      (''start_execution'', PROJECT_OWNER)],
     \<lparr>wr_project_id = ''p'', wr_status = IN_PROGRESS, wr_mentor_ref = Some ''m1''\<rparr>,
     [approval_request ''registration_admin_approval_requested'' ''p'' (Some 2) (Some ''r.html'')])"
  by (simp add: demo_calls_def fresh_record_def transition_def transition_guard_def pure_def
      TRANSITIONS_def mk_rule_def recording_send_def assign_mentor_def strip_def py_space_def)

theorem two_gate_path_witness:
  "\<exists>tr r' n'. drive (Some recording_send) demo_calls (fresh_record ''p'') [] = (tr, r', n') \<and>
     map fst tr = path_to (wr_status r') \<and> wr_status r' = IN_PROGRESS"
  using two_gate_path [OF drive_run [OF run_start demo_drive]]
  unfolding demo_drive by (simp add: fresh_record_def)

text \<open>
  A transition into a human gate is fail-closed: it succeeds only from the right status, by
  the system, with a notifier whose \<open>send\<close> of the administrator request returned; without a
  notifier, or when \<open>send\<close> raises, the call raises and the record keeps its status.
\<close>

theorem publish_draft_fail_closed:
  "(transition notifier r ''publish_completion_draft'' actor rv rp n = (Inr r', n') \<longleftrightarrow>
     wr_status r = COMPLETION_UNDER_REVIEW \<and> actor = SYSTEM \<and>
     r' = r\<lparr>wr_status := COMPLETION_HITL_PENDING\<rparr> \<and>
     (\<exists>send. notifier = Some send \<and>
        send \<lparr>ev_type = ''completion_admin_approval_requested'', ev_project_id = wr_project_id r,
              ev_stage = ''completion'', ev_required_role = ''administrator'',
              ev_revision = rv, ev_report_ref = rp\<rparr> n = (Inr (), n'))) \<and>
   (transition notifier r ''publish_registration_draft'' actor rv rp n = (Inr r', n') \<longleftrightarrow>
     wr_status r = REGISTRATION_UNDER_REVIEW \<and> actor = SYSTEM \<and>
     r' = r\<lparr>wr_status := REGISTRATION_HITL_PENDING\<rparr> \<and>
     (\<exists>send. notifier = Some send \<and>
        send \<lparr>ev_type = ''registration_admin_approval_requested'', ev_project_id = wr_project_id r,
              ev_stage = ''registration'', ev_required_role = ''administrator'',
              ev_revision = rv, ev_report_ref = rp\<rparr> n = (Inr (), n')))"
  by (auto simp: transition_Inr transition_guard_Inr TRANSITIONS_def mk_rule_def approval_request_def)

text \<open>
  The completion submission is approved by the assigned mentor when there is one, and by the
  owner or an administrator otherwise; nobody else can move the record on.
\<close>

theorem completion_submission_approval:
  "(\<exists>n'. transition notifier r ''approve_completion_submission'' actor rv rp n = (Inr r', n')) \<longleftrightarrow>
     wr_status r = COMPLETION_APPROVAL_PENDING \<and>
     (if wr_mentor_ref r \<notin> {None, Some ''''} then actor = MENTOR
      else actor \<in> {PROJECT_OWNER, ADMINISTRATOR}) \<and>
     r' = r\<lparr>wr_status := COMPLETION_REGISTERED\<rparr>"
  by (cases "wr_mentor_ref r")
     (auto simp: transition_Inr transition_guard_Inr TRANSITIONS_def mk_rule_def)

end
