(* ===== verification/Domain.thy ===== *)
theory Domain
  imports TwoGate
begin

text \<open>
  The frozen value objects of \<open>schemas/domain.py\<close>, one record per class with the class's
  fields, and for each constrained class a predicate with the field constraints that
  \<open>model_validate\<close> enforces (the constructor enforces them too; \<open>model_copy\<close> does not).
  Times are integers, ratios are rationals, a \<open>dict[str, str]\<close> is a list of pairs in key order.
\<close>

section \<open>Enumerations\<close>

datatype review_stage = REGISTRATION | COMPLETION

fun stage_value :: "review_stage \<Rightarrow> string" where
  "stage_value REGISTRATION = ''registration''"
| "stage_value COMPLETION = ''completion''"

datatype assessment = MET | PARTIALLY_MET | NOT_MET | INSUFFICIENT_EVIDENCE | NOT_APPLICABLE

datatype agent_recommendation = PASS | NEEDS_CHANGES | REJECT | ACCEPT | NOT_ACCEPT

datatype review_policy_status = POLICY_DRAFT | OFFLINE_REFERENCE | PUBLISHED | RETIRED

datatype pipeline_status =
  SUCCEEDED | WAITING_HUMAN | BLOCKED | STALE | RETRYABLE_FAILURE | TERMINAL_FAILURE | CANCELLED

section \<open>Evidence and artifacts\<close>

definition is_project_id :: "string \<Rightarrow> bool" where
  "is_project_id = matches_id is_alnum (\<lambda>c. is_alnum c \<or> c = CHR ''_'' \<or> c = CHR ''-'') 0 127"

record artifact_ref =
  ar_artifact_id :: string
  ar_role :: string
  ar_uri :: string
  ar_media_type :: string
  ar_sha256 :: string
  ar_byte_size :: int
  ar_metadata :: "(string \<times> string) list"

definition artifact_ref_valid :: "artifact_ref \<Rightarrow> bool" where
  "artifact_ref_valid a \<longleftrightarrow> is_sha256 (ar_sha256 a) \<and> 0 \<le> ar_byte_size a"

record snapshot_ref =
  sn_snapshot_id :: string
  sn_dossier_revision :: int
  sn_dossier_sha256 :: string
  sn_uri :: string

definition snapshot_ref_valid :: "snapshot_ref \<Rightarrow> bool" where
  "snapshot_ref_valid s \<longleftrightarrow> 1 \<le> sn_dossier_revision s \<and> is_sha256 (sn_dossier_sha256 s)"

record evidence_locator =
  el_artifact_id :: string
  el_locator :: string
  el_excerpt :: string
  el_source :: string

definition evidence_locator_valid :: "evidence_locator \<Rightarrow> bool" where
  "evidence_locator_valid e \<longleftrightarrow> length (el_excerpt e) \<le> 500"

record slide_evidence =
  sl_slide_number :: int
  sl_text :: string
  sl_tags :: "string list"
  sl_text_source :: string
  sl_image_count :: int
  sl_is_blank :: bool

definition slide_evidence_valid :: "slide_evidence \<Rightarrow> bool" where
  "slide_evidence_valid s \<longleftrightarrow> 1 \<le> sl_slide_number s \<and> 0 \<le> sl_image_count s"

record parser_run_manifest =
  pm_parser_id :: string
  pm_status :: string
  pm_source_sha256 :: string
  pm_page_count :: int
  pm_pages_with_text :: int
  pm_text_chars :: int
  pm_warnings :: "string list"

definition parser_run_valid :: "parser_run_manifest \<Rightarrow> bool" where
  "parser_run_valid m \<longleftrightarrow> is_sha256 (pm_source_sha256 m) \<and> 0 \<le> pm_page_count m \<and>
     0 \<le> pm_pages_with_text m \<and> 0 \<le> pm_text_chars m"

record evidence_document =
  ed_artifact :: artifact_ref
  ed_slides :: "slide_evidence list"
  ed_warnings :: "string list"
  ed_parser_id :: string
  ed_parser_runs :: "parser_run_manifest list"

text \<open>\<open>"\n".join(slide.text for slide in slides if slide.text)\<close>.\<close>

fun join_with :: "string \<Rightarrow> string list \<Rightarrow> string" where
  "join_with sep [] = []"
| "join_with sep [x] = x"
| "join_with sep (x # y # ys) = x @ sep @ join_with sep (y # ys)"

definition evidence_text :: "evidence_document \<Rightarrow> string" where
  "evidence_text d =
     join_with [CHR 0x0A] (filter (\<lambda>t. t \<noteq> []) (map sl_text (ed_slides d)))"

record criterion_result =
  cr_criterion_id :: string
  cr_title :: string
  cr_assessment :: assessment
  cr_observation :: string
  cr_evidence_refs :: "evidence_locator list"
  cr_risk_flags :: "string list"
  cr_follow_up_questions :: "string list"

definition criterion_result_valid :: "criterion_result \<Rightarrow> bool" where
  "criterion_result_valid c \<longleftrightarrow> list_all evidence_locator_valid (cr_evidence_refs c)"

section \<open>Review context, profile and report\<close>

record review_context =
  rc_program_id :: "string option"
  rc_program_version :: "string option"
  rc_enrollment_id :: "string option"
  rc_milestone_id :: "string option"
  rc_learner_ref :: "string option"
  rc_business_unit_id :: "string option"
  rc_proposer_org_id :: "string option"
  rc_certification_level :: "string option"

definition empty_context :: review_context where
  "empty_context =
     \<lparr>rc_program_id = None, rc_program_version = None, rc_enrollment_id = None,
      rc_milestone_id = None, rc_learner_ref = None, rc_business_unit_id = None,
      rc_proposer_org_id = None, rc_certification_level = None\<rparr>"

record review_profile_ref =
  rp_policy_id :: string
  rp_version :: string
  rp_sha256 :: string
  rp_status :: review_policy_status
  rp_source_uri :: string

definition is_policy_id :: "string \<Rightarrow> bool" where
  "is_policy_id = matches_id (\<lambda>c. is_lower c \<or> is_digit c)
     (\<lambda>c. is_lower c \<or> is_digit c \<or> c \<in> set ''._-'') 2 127"

definition review_profile_ref_valid :: "review_profile_ref \<Rightarrow> bool" where
  "review_profile_ref_valid r \<longleftrightarrow>
     is_policy_id (rp_policy_id r) \<and> is_semver (rp_version r) \<and> is_sha256 (rp_sha256 r)"

definition profile_selector :: "review_profile_ref \<Rightarrow> string" where
  "profile_selector r = rp_policy_id r @ ''@'' @ rp_version r"

record reviewer_adjustment =
  ra_criterion_id :: string
  ra_from_assessment :: assessment
  ra_to_assessment :: assessment
  ra_reason :: string
  ra_evidence_refs :: "evidence_locator list"

definition reviewer_adjustment_valid :: "reviewer_adjustment \<Rightarrow> bool" where
  "reviewer_adjustment_valid a \<longleftrightarrow> 1 \<le> length (ra_reason a) \<and> length (ra_reason a) \<le> 2000 \<and>
     list_all evidence_locator_valid (ra_evidence_refs a)"

record retrieval_summary =
  rs_status :: string
  rs_adapter :: string
  rs_similarity_portion :: rat
  rs_corpus_snapshot_id :: "string option"
  rs_case_ids :: "string list"

definition retrieval_summary_valid :: "retrieval_summary \<Rightarrow> bool" where
  "retrieval_summary_valid r \<longleftrightarrow> 0 \<le> rs_similarity_portion r \<and> rs_similarity_portion r \<le> 1 / 4"

record model_run_manifest =
  mm_profile_id :: string
  mm_provider :: string
  mm_model :: string
  mm_api_mode :: string
  mm_structured_output_mode :: string
  mm_max_output_tokens :: "int option"
  mm_capabilities :: "string list"
  mm_request_sha256 :: string
  mm_response_sha256 :: string
  mm_response_id :: "string option"
  mm_latency_ms :: int
  mm_live :: bool

definition model_run_valid :: "model_run_manifest \<Rightarrow> bool" where
  "model_run_valid m \<longleftrightarrow> is_sha256 (mm_request_sha256 m) \<and> is_sha256 (mm_response_sha256 m) \<and>
     0 \<le> mm_latency_ms m"

record effective_config_ref =
  ec_schema_version :: string
  ec_config_sha256 :: string
  ec_effective_sha256 :: string
  ec_profile_name :: string
  ec_source_uri :: string
  ec_source_map :: "(string \<times> string) list"

definition effective_config_valid :: "effective_config_ref \<Rightarrow> bool" where
  "effective_config_valid c \<longleftrightarrow> is_sha256 (ec_config_sha256 c) \<and> is_sha256 (ec_effective_sha256 c)"

record evaluation_report =
  er_schema_version :: string
  er_report_id :: string
  er_run_id :: string
  er_project_id :: string
  er_stage :: review_stage
  er_base_revision :: int
  er_snapshot :: snapshot_ref
  er_review_profile :: review_profile_ref
  er_rubric_id :: string
  er_rubric_version :: string
  er_checklist_refs :: "string list"
  er_reference_ids :: "string list"
  er_evaluator_id :: string
  er_model_run :: "model_run_manifest option"
  er_parser_runs :: "parser_run_manifest list"
  er_generated_at :: int
  er_criteria :: "criterion_result list"
  er_recommendation :: agent_recommendation
  er_recommendation_summary :: string
  er_retrieval :: retrieval_summary
  er_baseline_report_id :: "string option"
  er_proposal_artifact_sha256 :: "string option"
  er_evaluated_artifact_sha256 :: string
  er_evaluated_evidence_sha256 :: string
  er_limitations :: "string list"

definition evaluation_report_valid :: "evaluation_report \<Rightarrow> bool" where
  "evaluation_report_valid r \<longleftrightarrow> is_project_id (er_project_id r) \<and> 1 \<le> er_base_revision r \<and>
     snapshot_ref_valid (er_snapshot r) \<and> review_profile_ref_valid (er_review_profile r) \<and>
     pred_option model_run_valid (er_model_run r) \<and>
     list_all parser_run_valid (er_parser_runs r) \<and>
     list_all criterion_result_valid (er_criteria r) \<and>
     retrieval_summary_valid (er_retrieval r) \<and>
     is_sha256 (er_evaluated_evidence_sha256 r)"

section \<open>Decisions, notifications and the dossier\<close>

record human_decision =
  hd_stage :: review_stage
  hd_command :: string
  hd_actor_id :: string
  hd_actor_role :: string
  hd_rationale :: string
  hd_report_id :: string
  hd_adjustments :: "reviewer_adjustment list"
  hd_decided_at :: int
  hd_source :: string
  hd_authority_context :: string

definition human_decision_valid :: "human_decision \<Rightarrow> bool" where
  "human_decision_valid d \<longleftrightarrow> 1 \<le> length (hd_rationale d) \<and> length (hd_rationale d) \<le> 4000 \<and>
     list_all reviewer_adjustment_valid (hd_adjustments d)"

record notification_record =
  nr_event_type :: string
  nr_stage :: review_stage
  nr_required_role :: string
  nr_report_id :: string
  nr_dossier_revision :: int
  nr_delivery_status :: string
  nr_recorded_at :: int

definition notification_record_valid :: "notification_record \<Rightarrow> bool" where
  "notification_record_valid n \<longleftrightarrow> 1 \<le> nr_dossier_revision n"

record stage_review =
  st_submission_artifact_id :: "string option"
  st_snapshot :: "snapshot_ref option"
  st_report_id :: "string option"
  st_report_json_uri :: "string option"
  st_report_markdown_uri :: "string option"
  st_review_profile :: "review_profile_ref option"
  st_decision :: "human_decision option"

definition stage_review_valid :: "stage_review \<Rightarrow> bool" where
  "stage_review_valid s \<longleftrightarrow> pred_option snapshot_ref_valid (st_snapshot s) \<and>
     pred_option review_profile_ref_valid (st_review_profile s) \<and>
     pred_option human_decision_valid (st_decision s)"

definition empty_stage :: stage_review where
  "empty_stage =
     \<lparr>st_submission_artifact_id = None, st_snapshot = None, st_report_id = None,
      st_report_json_uri = None, st_report_markdown_uri = None, st_review_profile = None,
      st_decision = None\<rparr>"

record execution_record =
  xr_started_at :: "int option"
  xr_completion_submitted_at :: "int option"
  xr_mentor_ref :: "string option"
  xr_notes :: "string list"

definition empty_execution :: execution_record where
  "empty_execution =
     \<lparr>xr_started_at = None, xr_completion_submitted_at = None, xr_mentor_ref = None,
      xr_notes = []\<rparr>"

definition CURRENT_DOSSIER_SCHEMA :: string where
  "CURRENT_DOSSIER_SCHEMA = ''axcalib.dossier/v1alpha2''"

record project_dossier =
  pd_schema_version :: string
  pd_project_id :: string
  pd_display_id :: string
  pd_title :: string
  pd_revision :: int
  pd_status :: project_status
  pd_created_at :: int
  pd_updated_at :: int
  pd_review_context :: review_context
  pd_review_profile :: "review_profile_ref option"
  pd_effective_config :: "effective_config_ref option"
  pd_artifacts :: "artifact_ref list"
  pd_registration :: stage_review
  pd_execution :: execution_record
  pd_completion :: stage_review
  pd_notifications :: "notification_record list"
  pd_audit_event_ids :: "string list"

definition dossier_valid :: "project_dossier \<Rightarrow> bool" where
  "dossier_valid d \<longleftrightarrow> pd_schema_version d = CURRENT_DOSSIER_SCHEMA \<and>
     is_project_id (pd_project_id d) \<and>
     1 \<le> length (pd_title d) \<and> length (pd_title d) \<le> 300 \<and> 1 \<le> pd_revision d \<and>
     pred_option review_profile_ref_valid (pd_review_profile d) \<and>
     pred_option effective_config_valid (pd_effective_config d) \<and>
     list_all artifact_ref_valid (pd_artifacts d) \<and>
     stage_review_valid (pd_registration d) \<and> stage_review_valid (pd_completion d) \<and>
     list_all notification_record_valid (pd_notifications d)"

record audit_event =
  ae_event_id :: string
  ae_project_id :: string
  ae_event_type :: string
  ae_actor_id :: string
  ae_actor_role :: string
  ae_dossier_revision :: int
  ae_occurred_at :: int
  ae_details :: "(string \<times> json) list"

definition audit_event_valid :: "audit_event \<Rightarrow> bool" where
  "audit_event_valid e \<longleftrightarrow> 1 \<le> ae_dossier_revision e"

lemma dossier_valid_save:
  "dossier_valid d \<Longrightarrow> 1 \<le> r \<Longrightarrow> dossier_valid (d\<lparr>pd_revision := r, pd_updated_at := now\<rparr>)"
  by (simp add: dossier_valid_def)

section \<open>Results of the pipelines\<close>

record pipeline_result =
  pr_pipeline_id :: string
  pr_pipeline_version :: string
  pr_status :: pipeline_status
  pr_project_id :: string
  pr_dossier_status :: project_status
  pr_dossier_revision :: int
  pr_dossier_uri :: string
  pr_report_id :: "string option"
  pr_report_json_uri :: "string option"
  pr_report_markdown_uri :: "string option"
  pr_allowed_commands :: "string list"
  pr_message :: string

record dossier_freeze_result =
  fr_pipeline_id :: string
  fr_pipeline_version :: string
  fr_status :: pipeline_status
  fr_project_id :: string
  fr_expected_revision :: int
  fr_current_revision :: int
  fr_snapshot :: "snapshot_ref option"
  fr_message :: string

record workflow_run_summary =
  ws_project_id :: string
  ws_final_status :: project_status
  ws_dossier_uri :: string
  ws_registration_report_uri :: string
  ws_completion_report_uri :: "string option"
  ws_registration_decision :: "human_decision option"
  ws_completion_decision :: "human_decision option"
  ws_notification_count :: nat
  ws_audit_uri :: string

section \<open>A dossier for examples\<close>

definition demo_dossier :: "string \<Rightarrow> string list \<Rightarrow> project_dossier" where
  "demo_dossier project_id events =
     \<lparr>pd_schema_version = CURRENT_DOSSIER_SCHEMA, pd_project_id = project_id,
      pd_display_id = project_id, pd_title = ''t'', pd_revision = 1, pd_status = DRAFT,
      pd_created_at = 0, pd_updated_at = 0, pd_review_context = empty_context,
      pd_review_profile = None, pd_effective_config = None, pd_artifacts = [],
      pd_registration = empty_stage, pd_execution = empty_execution, pd_completion = empty_stage,
      pd_notifications = [], pd_audit_event_ids = events\<rparr>"

lemma demo_dossier_simps [simp]:
  "pd_schema_version (demo_dossier p es) = CURRENT_DOSSIER_SCHEMA"
  "pd_project_id (demo_dossier p es) = p"
  "pd_revision (demo_dossier p es) = 1"
  "pd_audit_event_ids (demo_dossier p es) = es"
  "dossier_valid (demo_dossier p es) = is_project_id p"
  by (simp_all add: demo_dossier_def dossier_valid_def empty_stage_def stage_review_valid_def)

lemma is_project_id_p [simp]: "is_project_id ''p''"
  by (simp add: is_project_id_def char_class_defs)

end
