(* ===== verification/Journal.thy ===== *)
theory Journal
  imports Domain "HOL-Library.Char_ord" "HOL-Library.List_Lexorder"
begin

text \<open>
  The append-only hash-chained transaction journal of \<open>runtime/transactions.py\<close>
  (\<open>TransactionJournal\<close> and its event and record classes). It is generic in the plan type:
  \<open>runtime/enrollment_transactions.py\<close> keeps the same journal for its own plans.

  A journal directory maps file names to lines. A line is empty, no JSON, JSON that is no
  object, an object with its right hash that the event class rejects (a line of another journal
  class), or an event with the hash the line claims for it. What depends on SHA-256 and on the
  plan class is gathered in a \<open>journal_env\<close>: the digest of an event's canonical JSON, the digest
  of a text, the validators of the plan class, and the transaction id of a plan.

  A file is its lines: an appended event is read back as one line.  In the source \<open>str.splitlines\<close> reads them, which
  also splits at U+0085, U+2028 and U+2029, and the JSON that is written leaves these unescaped; so what is proved
  here is for events whose texts have none of these three characters.  With one, the file does not read any more.
\<close>

declare map_of_eq_Some_iff [simp del]

section \<open>Events, lines and records\<close>

datatype transaction_status =
  PREPARED | APPLYING | RECONCILE_REQUIRED | RECONCILING | TX_BLOCKED | COMMITTED

record 'p journal_event =
  je_transaction_id :: string
  je_sequence :: nat
  je_status :: transaction_status
  je_occurred_at :: int
  je_previous :: "string option"
  je_reason_code :: "string option"
  je_plan :: "'p option"

datatype 'p journal_line =
  EmptyJournalLine | BadJournalLine | NonObjectJournalLine | ForeignJournalLine
  | JournalLine "'p journal_event" "string option"

type_synonym 'p journal_file = "'p journal_line list"

text \<open>A validated event carries its hash.\<close>

type_synonym 'p hashed_event = "'p journal_event \<times> string"

record 'p journal_record =
  jr_plan :: 'p
  jr_events :: "'p hashed_event list"

record 'p journal_env =
  jn_sha_event :: "'p journal_event \<Rightarrow> string"
  jn_sha_text :: "string \<Rightarrow> string"
  jn_plan_ok :: "'p \<Rightarrow> bool"
  jn_tid :: "'p \<Rightarrow> string"

type_synonym 'p journal_dir = "(string \<times> 'p journal_file) list"

definition latest_status :: "'p journal_record \<Rightarrow> transaction_status" where
  "latest_status r = je_status (fst (last (jr_events r)))"

section \<open>Reading\<close>

text \<open>\<open>TransactionJournalEvent.model_validate\<close>: the field constraints of the class.\<close>

definition journal_event_valid :: "'p journal_env \<Rightarrow> 'p journal_event \<Rightarrow> string \<Rightarrow> bool" where
  "journal_event_valid env ev h \<longleftrightarrow>
     1 \<le> je_sequence ev \<and> pred_option is_sha256 (je_previous ev) \<and>
     pred_option (\<lambda>r. length r \<le> 200) (je_reason_code ev) \<and>
     pred_option (jn_plan_ok env) (je_plan ev) \<and> is_sha256 h"

text \<open>
  The loop of \<open>_read_unlocked\<close> at line number \<open>n\<close>, with the hash of the line before, the plan of
  the first line and the events read so far.
\<close>

fun journal_scan ::
  "'p journal_env \<Rightarrow> nat \<Rightarrow> string option \<Rightarrow> 'p option \<Rightarrow> 'p hashed_event list \<Rightarrow>
   'p journal_file \<Rightarrow> 'p journal_record res" where
  "journal_scan env n previous plan events [] =
     (case plan of
        Some p \<Rightarrow>
          if events = [] then Inl (Exn TransactionIntegrityError ''transaction journal is empty'')
          else Inr \<lparr>jr_plan = p, jr_events = events\<rparr>
      | None \<Rightarrow> Inl (Exn TransactionIntegrityError ''transaction journal is empty''))"
| "journal_scan env n previous plan events (EmptyJournalLine # ls) =
     Inl (Exn TransactionIntegrityError ''transaction journal contains an empty line'')"
| "journal_scan env n previous plan events (BadJournalLine # ls) =
     Inl (Exn TransactionIntegrityError ''invalid transaction journal JSON at line'')"
| "journal_scan env n previous plan events (NonObjectJournalLine # ls) =
     Inl (Exn TransactionIntegrityError ''transaction journal line must be an object'')"
| "journal_scan env n previous plan events (ForeignJournalLine # ls) =
     Inl (Exn ValidationError ''TransactionJournalEvent'')"
| "journal_scan env n previous plan events (JournalLine ev claimed # ls) =
     (let h = jn_sha_event env ev;
          first_bad = (je_status ev \<noteq> PREPARED \<or> je_plan ev = None);
          plan' = (if n = 1 then je_plan ev else plan)
      in if claimed \<noteq> Some h then
           Inl (Exn TransactionIntegrityError ''transaction journal hash mismatch'')
         else if \<not> journal_event_valid env ev h then
           Inl (Exn ValidationError ''TransactionJournalEvent'')
         else if je_sequence ev \<noteq> n \<or> je_previous ev \<noteq> previous then
           Inl (Exn TransactionIntegrityError ''transaction journal sequence is broken'')
         else if n = 1 \<and> first_bad then
           Inl (Exn TransactionIntegrityError ''first journal event must contain a prepared plan'')
         else if n \<noteq> 1 \<and> je_plan ev \<noteq> None then
           Inl (Exn TransactionIntegrityError
             ''transaction plan may appear only in the first event'')
         else if plan' \<noteq> None \<and> je_transaction_id ev \<noteq> jn_tid env (the plan') then
           Inl (Exn TransactionIntegrityError ''transaction journal identity changed'')
         else journal_scan env (n + 1) (Some h) plan' (events @ [(ev, h)]) ls)"

definition journal_read ::
  "'p journal_env \<Rightarrow> string \<Rightarrow> 'p journal_dir \<Rightarrow> 'p journal_record res" where
  "journal_read env path dir =
     (case map_of dir path of
        None \<Rightarrow> Inl (Exn TransactionError ''transaction journal does not exist'')
      | Some ls \<Rightarrow> journal_scan env 1 None None [] ls)"

section \<open>Writing\<close>

definition is_transaction_id :: "string \<Rightarrow> bool" where
  "is_transaction_id = matches_id is_alnum (\<lambda>c. is_alnum c \<or> c \<in> set ''._:-'') 0 127"

definition journal_path_for :: "'p journal_env \<Rightarrow> string \<Rightarrow> string res" where
  "journal_path_for env transaction_id =
     (if is_transaction_id transaction_id then
        Inr (''transaction-'' @ take 24 (jn_sha_text env transaction_id) @ ''.jsonl'')
      else Inl (Exn TransactionError ''invalid transaction_id''))"

text \<open>\<open>_append_unlocked\<close>: the line is written before the file is read back.\<close>

definition journal_append ::
  "'p journal_env \<Rightarrow> string \<Rightarrow> string \<Rightarrow> transaction_status \<Rightarrow> string option \<Rightarrow> 'p option \<Rightarrow> int \<Rightarrow>
   'p journal_dir \<Rightarrow> ('p journal_record, 'p journal_dir) outcome" where
  "journal_append env path transaction_id status reason plan now dir =
     seq (if map_of dir path = None then (Inr None, dir)
          else seq (pure (journal_read env path dir) dir) (\<lambda>r dir. (Inr (Some r), dir)))
       (\<lambda>existing dir.
     let ev = \<lparr>je_transaction_id = transaction_id,
               je_sequence = (case existing of None \<Rightarrow> 1 | Some r \<Rightarrow> length (jr_events r) + 1),
               je_status = status, je_occurred_at = now,
               je_previous = (case existing of None \<Rightarrow> None | Some r \<Rightarrow> Some (snd (last (jr_events r)))),
               je_reason_code = reason, je_plan = plan\<rparr>;
         line = JournalLine ev (Some (jn_sha_event env ev));
         ls = (case map_of dir path of None \<Rightarrow> [] | Some ls \<Rightarrow> ls);
         dir = dict_set path (ls @ [line]) dir
     in pure (journal_read env path dir) dir)"

definition journal_prepare ::
  "'p journal_env \<Rightarrow> 'p \<Rightarrow> int \<Rightarrow> 'p journal_dir \<Rightarrow> ('p journal_record, 'p journal_dir) outcome" where
  "journal_prepare env plan now dir =
     seq (pure (journal_path_for env (jn_tid env plan)) dir) (\<lambda>path dir.
     if map_of dir path \<noteq> None then
       seq (pure (journal_read env path dir) dir) (\<lambda>r dir.
       if jr_plan r \<noteq> plan then
         (Inl (Exn TransactionConflictError
            ''transaction ID was reused for a different plan''), dir)
       else (Inr r, dir))
     else journal_append env path (jn_tid env plan) PREPARED None (Some plan) now dir)"

definition journal_append_status ::
  "'p journal_env \<Rightarrow> string \<Rightarrow> transaction_status \<Rightarrow> string option \<Rightarrow> int \<Rightarrow>
   'p journal_dir \<Rightarrow> ('p journal_record, 'p journal_dir) outcome" where
  "journal_append_status env transaction_id status reason now dir =
     seq (pure (journal_path_for env transaction_id) dir) (\<lambda>path dir.
     seq (pure (journal_read env path dir) dir) (\<lambda>r dir.
     if latest_status r = COMMITTED then (Inr r, dir)
     else journal_append env path transaction_id status reason None now dir))"

definition journal_load :: "'p journal_env \<Rightarrow> string \<Rightarrow> 'p journal_dir \<Rightarrow> 'p journal_record res" where
  "journal_load env transaction_id dir =
     (case journal_path_for env transaction_id of
        Inl e \<Rightarrow> Inl e | Inr path \<Rightarrow> journal_read env path dir)"

fun read_all :: "'p journal_env \<Rightarrow> string list \<Rightarrow> 'p journal_dir \<Rightarrow> 'p journal_record list res" where
  "read_all env [] dir = Inr []"
| "read_all env (path # paths) dir =
     (case journal_read env path dir of
        Inl e \<Rightarrow> Inl e
      | Inr r \<Rightarrow> (case read_all env paths dir of Inl e \<Rightarrow> Inl e | Inr rs \<Rightarrow> Inr (r # rs)))"

definition journal_records :: "'p journal_env \<Rightarrow> 'p journal_dir \<Rightarrow> 'p journal_record list res" where
  "journal_records env dir = read_all env (sort (map fst dir)) dir"

section \<open>The chain\<close>

text \<open>A chain of events from line number \<open>n\<close> on, under the first line's plan.\<close>

fun chain :: "'p journal_env \<Rightarrow> 'p \<Rightarrow> nat \<Rightarrow> string option \<Rightarrow> 'p hashed_event list \<Rightarrow> bool" where
  "chain env plan n previous [] = True"
| "chain env plan n previous ((ev, h) # es) \<longleftrightarrow>
     h = jn_sha_event env ev \<and> journal_event_valid env ev h \<and>
     je_sequence ev = n \<and> je_previous ev = previous \<and>
     (if n = 1 then je_status ev = PREPARED \<and> je_plan ev = Some plan else je_plan ev = None) \<and>
     je_transaction_id ev = jn_tid env plan \<and> chain env plan (n + 1) (Some h) es"

definition line_of :: "'p hashed_event \<Rightarrow> 'p journal_line" where
  "line_of e = JournalLine (fst e) (Some (snd e))"

definition record_ok :: "'p journal_env \<Rightarrow> 'p journal_record \<Rightarrow> bool" where
  "record_ok env r \<longleftrightarrow> jr_events r \<noteq> [] \<and> chain env (jr_plan r) 1 None (jr_events r)"

lemma journal_scan_later:
  "1 < n \<Longrightarrow> events \<noteq> [] \<Longrightarrow>
   journal_scan env n previous (Some p) events ls = Inr r \<longleftrightarrow>
   (\<exists>es. ls = map line_of es \<and> chain env p n previous es \<and>
      r = \<lparr>jr_plan = p, jr_events = events @ es\<rparr>)"
proof (induction ls arbitrary: n previous events)
  case Nil
  then show ?case by auto
next
  case (Cons l ls)
  show ?case
  proof (cases l)
    case (JournalLine ev claimed)
    have IH: "journal_scan env (Suc n) (Some (jn_sha_event env ev)) (Some p)
        (events @ [(ev, jn_sha_event env ev)]) ls = Inr r \<longleftrightarrow>
      (\<exists>es. ls = map line_of es \<and> chain env p (Suc n) (Some (jn_sha_event env ev)) es \<and>
         r = \<lparr>jr_plan = p, jr_events = (events @ [(ev, jn_sha_event env ev)]) @ es\<rparr>)"
      using Cons.IH [of "Suc n" "events @ [(ev, jn_sha_event env ev)]"
          "Some (jn_sha_event env ev)"] Cons.prems by simp
    have "(\<exists>es. l # ls = map line_of es \<and> Q es) \<longleftrightarrow>
        (\<exists>h es. claimed = Some h \<and> ls = map line_of es \<and> Q ((ev, h) # es))" for Q
      using JournalLine by (auto simp: Cons_eq_map_conv line_of_def)
    then show ?thesis
      using JournalLine Cons.prems IH by (auto simp: Let_def)
  qed (auto simp: Cons_eq_map_conv line_of_def)
qed

lemma journal_scan_Inr:
  "journal_scan env 1 None None [] ls = Inr r \<longleftrightarrow> record_ok env r \<and> ls = map line_of (jr_events r)"
proof (cases ls)
  case Nil
  then show ?thesis by (auto simp: record_ok_def)
next
  case (Cons l ls')
  show ?thesis
  proof (cases l)
    case (JournalLine ev claimed)
    have "record_ok env r \<and> ls = map line_of (jr_events r) \<longleftrightarrow>
        (\<exists>h es. claimed = Some h \<and> ls' = map line_of es \<and> jr_events r = (ev, h) # es \<and>
           chain env (jr_plan r) 1 None ((ev, h) # es))"
      using Cons JournalLine
      by (auto simp: record_ok_def Cons_eq_map_conv line_of_def)
    moreover have "journal_scan env 2 (Some (jn_sha_event env ev)) (Some p)
        [(ev, jn_sha_event env ev)] ls' = Inr r \<longleftrightarrow>
        (\<exists>es. ls' = map line_of es \<and> chain env p 2 (Some (jn_sha_event env ev)) es \<and>
           r = \<lparr>jr_plan = p, jr_events = (ev, jn_sha_event env ev) # es\<rparr>)" for p
      using journal_scan_later [of 2 "[(ev, jn_sha_event env ev)]" env
          "Some (jn_sha_event env ev)" p ls' r] by simp
    ultimately show ?thesis
      using Cons JournalLine
      by (cases r) (auto simp: Let_def numeral_2_eq_2 split: if_splits)
  qed (use Cons in \<open>auto simp: record_ok_def Cons_eq_map_conv line_of_def\<close>)
qed

lemma chain_append:
  "chain env p n previous (xs @ ys) \<longleftrightarrow> chain env p n previous xs \<and>
   chain env p (n + length xs) (if xs = [] then previous else Some (snd (last xs))) ys"
  by (induction xs arbitrary: n previous) auto

lemma record_ok_first:
  assumes "record_ok env r"
  shows "\<exists>ev h es. jr_events r = (ev, h) # es \<and> je_plan ev = Some (jr_plan r) \<and>
    jn_plan_ok env (jr_plan r)"
proof -
  from assms obtain ev h es where "jr_events r = (ev, h) # es"
    "je_plan ev = Some (jr_plan r)" "journal_event_valid env ev h"
    by (cases "jr_events r") (auto simp: record_ok_def)
  then show ?thesis by (auto simp: journal_event_valid_def)
qed

section \<open>A file that holds a record\<close>

definition journal_file_of :: "'p journal_env \<Rightarrow> string \<Rightarrow> string" where
  "journal_file_of env tid = ''transaction-'' @ take 24 (jn_sha_text env tid) @ ''.jsonl''"

definition holds :: "'p journal_env \<Rightarrow> 'p journal_dir \<Rightarrow> 'p journal_record \<Rightarrow> bool" where
  "holds env dir r \<longleftrightarrow> record_ok env r \<and> is_transaction_id (jn_tid env (jr_plan r)) \<and>
     map_of dir (journal_file_of env (jn_tid env (jr_plan r))) = Some (map line_of (jr_events r))"

text \<open>SHA-256 digests are printed as 64 hexadecimal digits.\<close>

definition env_ok :: "'p journal_env \<Rightarrow> bool" where
  "env_ok env \<longleftrightarrow> (\<forall>ev. is_sha256 (jn_sha_event env ev))"

lemma journal_path_for_if:
  "journal_path_for env tid =
     (if is_transaction_id tid then Inr (journal_file_of env tid)
      else Inl (Exn TransactionError ''invalid transaction_id''))"
  by (simp add: journal_path_for_def journal_file_of_def)

lemma journal_read_Inr:
  "journal_read env path dir = Inr r \<longleftrightarrow>
     record_ok env r \<and> map_of dir path = Some (map line_of (jr_events r))"
  by (auto simp: journal_read_def journal_scan_Inr [unfolded One_nat_def] split: option.splits)

lemma holds_load:
  "holds env dir r \<Longrightarrow> journal_load env (jn_tid env (jr_plan r)) dir = Inr r"
  "holds env dir r \<Longrightarrow> journal_read env (journal_file_of env (jn_tid env (jr_plan r))) dir = Inr r"
  by (simp_all add: holds_def journal_load_def journal_path_for_if journal_read_Inr)

definition next_event ::
  "'p journal_env \<Rightarrow> 'p journal_record \<Rightarrow> transaction_status \<Rightarrow> string option \<Rightarrow> int \<Rightarrow> 'p hashed_event"
where
  "next_event env r status reason now =
     (let ev = \<lparr>je_transaction_id = jn_tid env (jr_plan r), je_sequence = length (jr_events r) + 1,
                je_status = status, je_occurred_at = now,
                je_previous = Some (snd (last (jr_events r))), je_reason_code = reason,
                je_plan = None\<rparr>
      in (ev, jn_sha_event env ev))"

definition add_event ::
  "'p journal_env \<Rightarrow> 'p journal_record \<Rightarrow> transaction_status \<Rightarrow> string option \<Rightarrow> int \<Rightarrow> 'p journal_record"
where
  "add_event env r status reason now =
     r\<lparr>jr_events := jr_events r @ [next_event env r status reason now]\<rparr>"

lemma add_event_simps [simp]:
  "jr_plan (add_event env r status reason now) = jr_plan r"
  "latest_status (add_event env r status reason now) = status"
  by (simp_all add: add_event_def latest_status_def next_event_def Let_def)

lemma last_hash_sha:
  "chain env p n previous es \<Longrightarrow> es \<noteq> [] \<Longrightarrow> env_ok env \<Longrightarrow> is_sha256 (snd (last es))"
  by (induction es arbitrary: n previous) (auto simp: env_ok_def split: if_splits)

lemma record_ok_add_event:
  assumes "record_ok env r" "env_ok env" "pred_option (\<lambda>c. length c \<le> 200) reason"
  shows "record_ok env (add_event env r status reason now)"
proof -
  have "is_sha256 (snd (last (jr_events r)))"
    using last_hash_sha [OF _ _ assms(2)] assms(1) by (auto simp: record_ok_def)
  then show ?thesis
    using assms
    by (auto simp: record_ok_def add_event_def chain_append next_event_def Let_def
        journal_event_valid_def env_ok_def)
qed

text \<open>The lines that a status event adds; other files are not touched.\<close>

definition extended_dir ::
  "'p journal_env \<Rightarrow> 'p journal_record \<Rightarrow> 'p journal_dir \<Rightarrow> 'p journal_dir" where
  "extended_dir env r dir =
     dict_set (journal_file_of env (jn_tid env (jr_plan r))) (map line_of (jr_events r)) dir"

lemma map_of_extended_dir:
  "map_of (extended_dir env r dir) p =
     (if p = journal_file_of env (jn_tid env (jr_plan r)) then Some (map line_of (jr_events r))
      else map_of dir p)"
  by (simp add: extended_dir_def)

lemma holds_extended_dir:
  "record_ok env r \<Longrightarrow> is_transaction_id (jn_tid env (jr_plan r)) \<Longrightarrow> holds env (extended_dir env r dir) r"
  by (simp add: holds_def map_of_extended_dir)

lemma append_status_holds:
  assumes h: "holds env dir r" and env: "env_ok env"
    and reason: "pred_option (\<lambda>c. length c \<le> 200) reason"
  shows "journal_append_status env (jn_tid env (jr_plan r)) status reason now dir =
    (if latest_status r = COMMITTED then (Inr r, dir)
     else let r' = add_event env r status reason now in (Inr r', extended_dir env r' dir))"
proof (cases "latest_status r = COMMITTED")
  case True
  with h holds_load(2) [OF h] show ?thesis
    by (simp add: journal_append_status_def journal_path_for_if pure_def holds_def)
next
  case False
  let ?r' = "add_event env r status reason now"
  let ?path = "journal_file_of env (jn_tid env (jr_plan r))"
  have read: "journal_read env ?path dir = Inr r" using holds_load(2) [OF h] .
  have tid: "is_transaction_id (jn_tid env (jr_plan r))"
    and at_path: "map_of dir ?path = Some (map line_of (jr_events r))"
    using h by (auto simp: holds_def)
  have ok: "record_ok env ?r'" using record_ok_add_event [OF _ env reason] h by (simp add: holds_def)
  have written: "dict_set ?path (map line_of (jr_events r) @ [line_of (next_event env r status reason now)]) dir
      = extended_dir env ?r' dir"
    by (simp add: extended_dir_def add_event_def)
  have reread: "journal_read env ?path (extended_dir env ?r' dir) = Inr ?r'"
    using ok by (simp add: journal_read_Inr map_of_extended_dir)
  have "journal_append env ?path (jn_tid env (jr_plan r)) status reason None now dir =
      (Inr ?r', extended_dir env ?r' dir)"
    using read at_path reread written
    by (simp add: journal_append_def pure_def next_event_def Let_def line_of_def)
  then show ?thesis
    using False read tid
    by (simp add: journal_append_status_def journal_path_for_if pure_def Let_def)
qed

definition prepared_record :: "'p journal_env \<Rightarrow> 'p \<Rightarrow> int \<Rightarrow> 'p journal_record" where
  "prepared_record env plan now =
     (let ev = \<lparr>je_transaction_id = jn_tid env plan, je_sequence = 1, je_status = PREPARED,
                je_occurred_at = now, je_previous = None, je_reason_code = None,
                je_plan = Some plan\<rparr>
      in \<lparr>jr_plan = plan, jr_events = [(ev, jn_sha_event env ev)]\<rparr>)"

lemma prepared_record_simps [simp]:
  "jr_plan (prepared_record env plan now) = plan"
  "latest_status (prepared_record env plan now) = PREPARED"
  by (simp_all add: prepared_record_def Let_def latest_status_def)

lemma record_ok_prepared:
  "env_ok env \<Longrightarrow> jn_plan_ok env plan \<Longrightarrow> record_ok env (prepared_record env plan now)"
  by (simp add: prepared_record_def Let_def record_ok_def journal_event_valid_def env_ok_def)

lemma prepare_new:
  assumes "env_ok env" "jn_plan_ok env plan" "is_transaction_id (jn_tid env plan)"
    and "map_of dir (journal_file_of env (jn_tid env plan)) = None"
  shows "journal_prepare env plan now dir =
    (Inr (prepared_record env plan now), extended_dir env (prepared_record env plan now) dir)"
proof -
  let ?r = "prepared_record env plan now"
  have "journal_read env (journal_file_of env (jn_tid env plan)) (extended_dir env ?r dir) = Inr ?r"
    using record_ok_prepared [OF assms(1,2)] by (simp add: journal_read_Inr map_of_extended_dir)
  moreover have "extended_dir env ?r dir = dict_set (journal_file_of env (jn_tid env plan))
      (map line_of (jr_events ?r)) dir"
    by (simp add: extended_dir_def)
  ultimately show ?thesis
    using assms(3,4)
    by (simp add: journal_prepare_def journal_append_def journal_path_for_if pure_def
        prepared_record_def Let_def line_of_def)
qed

lemma prepare_again:
  assumes "holds env dir r" "jn_tid env plan = jn_tid env (jr_plan r)"
  shows "journal_prepare env plan now dir =
    (if plan = jr_plan r then (Inr r, dir)
     else (Inl (Exn TransactionConflictError
            ''transaction ID was reused for a different plan''), dir))"
  using assms(1) holds_load(2) [OF assms(1)]
  by (auto simp: journal_prepare_def journal_path_for_if pure_def holds_def assms(2))

section \<open>Properties\<close>

text \<open>Two chains under one plan whose last hashes agree are equal, read from the end.\<close>

definition chain_events :: "'p hashed_event list \<Rightarrow> 'p journal_event set" where
  "chain_events es = fst ` set es"

lemma chain_hash: "chain env p n previous es \<Longrightarrow> e \<in> set es \<Longrightarrow> snd e = jn_sha_event env (fst e)"
  by (induction es arbitrary: n previous) (auto split: if_splits)

lemma chain_snoc_sequence:
  "chain env p n previous (es @ [e]) \<Longrightarrow> je_sequence (fst e) = n + length es"
  by (cases e) (simp add: chain_append split: if_splits)

lemma chain_snoc_previous:
  "chain env p n previous (es @ [e]) \<Longrightarrow>
   je_previous (fst e) = (if es = [] then previous else Some (snd (last es)))"
  by (cases e) (simp add: chain_append split: if_splits)

lemma chain_last_unique:
  assumes "chain env p 1 None es" "chain env q 1 None es'" "es \<noteq> []" "es' \<noteq> []"
    and "snd (last es) = snd (last es')"
    and "inj_on (jn_sha_event env) (chain_events es \<union> chain_events es')"
  shows "es = es'"
  using assms
proof (induction es arbitrary: es' rule: rev_induct)
  case (snoc e es)
  obtain d e' where d: "es' = d @ [e']" using snoc.prems(4) by (cases es' rule: rev_cases) auto
  have hashes: "snd e = jn_sha_event env (fst e)" "snd e' = jn_sha_event env (fst e')"
    using chain_hash [OF snoc.prems(1)] chain_hash [OF snoc.prems(2)] d by auto
  have "fst e = fst e'"
  proof (rule inj_onD [OF snoc.prems(6)])
    show "jn_sha_event env (fst e) = jn_sha_event env (fst e')" using hashes snoc.prems(5) d by simp
  qed (simp_all add: chain_events_def d)
  with hashes have e: "e = e'" by (simp add: prod_eq_iff)
  have len: "length es = length d"
    using chain_snoc_sequence [OF snoc.prems(1)] chain_snoc_sequence [of env q 1 None d e']
      snoc.prems(2) d e by simp
  have "es = d"
  proof (cases "es = []")
    case True
    with len show ?thesis by simp
  next
    case False
    with len have "d \<noteq> []" by auto
    have "snd (last es) = snd (last d)"
      using chain_snoc_previous [OF snoc.prems(1)] chain_snoc_previous [of env q 1 None d e']
        snoc.prems(2) d e False \<open>d \<noteq> []\<close> by simp
    moreover have "inj_on (jn_sha_event env) (chain_events es \<union> chain_events d)"
      by (rule inj_on_subset [OF snoc.prems(6)]) (auto simp: chain_events_def d)
    ultimately show ?thesis
      using snoc.IH [of d] snoc.prems(1,2) False \<open>d \<noteq> []\<close> by (simp add: d chain_append)
  qed
  with d e show ?case by simp
qed simp

lemma chain_first_plan:
  "chain env p 1 None es \<Longrightarrow> es \<noteq> [] \<Longrightarrow> je_plan (fst (hd es)) = Some p"
  by (cases es) auto

text \<open>
  C7. The journal is tamper-evident: two journal files that both read without an error and whose
  last lines carry the same hash are the same file, line by line, and have the same plan. So no
  line of a journal can be changed, removed, added or moved without changing the hash of its last
  line, as long as SHA-256 tells the events of the two files apart.
\<close>

theorem journal_tamper_evident:
  assumes "journal_read env path dir = Inr r" and "journal_read env path' dir' = Inr r'"
    and "snd (last (jr_events r)) = snd (last (jr_events r'))"
    and "inj_on (jn_sha_event env) (chain_events (jr_events r) \<union> chain_events (jr_events r'))"
  shows "r = r' \<and> map_of dir path = map_of dir' path'"
proof -
  have ok: "record_ok env r" "record_ok env r'"
    and lines: "map_of dir path = Some (map line_of (jr_events r))"
      "map_of dir' path' = Some (map line_of (jr_events r'))"
    using assms(1,2) by (auto simp: journal_read_Inr)
  from ok assms(3,4) have same: "jr_events r = jr_events r'"
    by (intro chain_last_unique) (auto simp: record_ok_def)
  with ok have "Some (jr_plan r) = Some (jr_plan r')"
    by (metis chain_first_plan record_ok_def)
  with same lines show ?thesis by (cases r; cases r') simp
qed

definition demo_journal_env :: "string journal_env" where
  "demo_journal_env =
     \<lparr>jn_sha_event = (\<lambda>ev. if je_status ev = PREPARED then replicate 64 (CHR ''0'')
                          else replicate 64 (CHR ''1'')),
      jn_sha_text = (\<lambda>t. t), jn_plan_ok = (\<lambda>_. True), jn_tid = (\<lambda>p. p)\<rparr>"

lemma demo_journal_env_ok [simp]: "env_ok demo_journal_env"
  by (simp add: env_ok_def demo_journal_env_def is_sha256_def list_all_iff char_class_defs)

lemma demo_tid: "is_transaction_id ''t1'' \<and> is_transaction_id ''t2''"
  by (simp add: is_transaction_id_def char_class_defs)

theorem journal_tamper_evident_witness:
  "\<exists>r dir. journal_read demo_journal_env (journal_file_of demo_journal_env ''t1'') dir = Inr r \<and>
     length (jr_events r) = 2 \<and>
     (\<forall>r' dir'. journal_read demo_journal_env (journal_file_of demo_journal_env ''t1'') dir' = Inr r' \<longrightarrow>
        jr_events r' = jr_events r \<longrightarrow> r = r')"
proof -
  let ?r = "add_event demo_journal_env (prepared_record demo_journal_env ''t1'' 0) APPLYING None 1"
  let ?dir = "extended_dir demo_journal_env ?r []"
  let ?path = "journal_file_of demo_journal_env ''t1''"
  have ok: "record_ok demo_journal_env ?r"
    by (intro record_ok_add_event record_ok_prepared) (simp_all, simp add: demo_journal_env_def)
  have "jn_tid demo_journal_env (jr_plan ?r) = ''t1''" by (simp add: demo_journal_env_def)
  with ok have read: "journal_read demo_journal_env ?path ?dir = Inr ?r"
    by (simp add: journal_read_Inr map_of_extended_dir)
  have events: "jr_events ?r = [hd (jr_events ?r), last (jr_events ?r)]"
    "je_status (fst (hd (jr_events ?r))) = PREPARED" "je_status (fst (last (jr_events ?r))) = APPLYING"
    by (simp_all add: add_event_def prepared_record_def next_event_def Let_def)
  have "\<forall>ev. jn_sha_event demo_journal_env ev =
      (if je_status ev = PREPARED then replicate 64 (CHR ''0'') else replicate 64 (CHR ''1''))"
    by (simp add: demo_journal_env_def)
  then have "inj_on (jn_sha_event demo_journal_env)
      {fst (hd (jr_events ?r)), fst (last (jr_events ?r))}"
    using events(2,3) by (simp add: inj_on_def)
  moreover have "chain_events (jr_events ?r) = {fst (hd (jr_events ?r)), fst (last (jr_events ?r))}"
    unfolding chain_events_def by (subst events(1)) simp
  ultimately have inj: "inj_on (jn_sha_event demo_journal_env) (chain_events (jr_events ?r))" by simp
  have same: "\<forall>r' dir'. journal_read demo_journal_env ?path dir' = Inr r' \<longrightarrow>
      jr_events r' = jr_events ?r \<longrightarrow> ?r = r'"
  proof (intro allI impI)
    fix r' dir'
    assume other: "journal_read demo_journal_env ?path dir' = Inr r'" "jr_events r' = jr_events ?r"
    show "?r = r'" using journal_tamper_evident [OF read other(1)] other(2) inj by simp
  qed
  have "length (jr_events ?r) = 2" by (simp add: add_event_def prepared_record_def Let_def)
  with read same show ?thesis by blast
qed

text \<open>
  A committed journal is closed: once the latest status is \<open>COMMITTED\<close>, no status event and
  no retry with the same or another plan of the same transaction id changes any journal file;
  the identical plan gets the record back, any other plan the conflict error.
\<close>

theorem committed_journal_closed:
  assumes "holds env dir r" and "latest_status r = COMMITTED"
    and "env_ok env" and "pred_option (\<lambda>c. length c \<le> 200) reason"
    and "jn_tid env plan = jn_tid env (jr_plan r)"
  shows "journal_append_status env (jn_tid env (jr_plan r)) status reason now dir = (Inr r, dir) \<and>
    journal_prepare env plan now dir =
      (if plan = jr_plan r then (Inr r, dir)
       else (Inl (Exn TransactionConflictError
              ''transaction ID was reused for a different plan''), dir))"
  using append_status_holds [OF assms(1,3,4), of status now] assms(2) prepare_again [OF assms(1,5)]
  by simp

lemma demo_committed:
  "\<exists>r dir. holds demo_journal_env dir r \<and> latest_status r = COMMITTED \<and> jr_plan r = ''t1''"
proof -
  let ?r = "add_event demo_journal_env (prepared_record demo_journal_env ''t1'' 0) COMMITTED None 1"
  have "record_ok demo_journal_env ?r"
    by (intro record_ok_add_event record_ok_prepared) (simp_all, simp add: demo_journal_env_def)
  then have "holds demo_journal_env (extended_dir demo_journal_env ?r []) ?r"
    using demo_tid by (intro holds_extended_dir) (simp_all add: demo_journal_env_def)
  then show ?thesis by (intro exI) (rule conjI, assumption, simp)
qed

theorem committed_journal_closed_witness:
  "\<exists>r dir. latest_status r = COMMITTED \<and>
     journal_append_status demo_journal_env ''t1'' RECONCILING None 5 dir = (Inr r, dir) \<and>
     journal_prepare demo_journal_env ''t1'' 5 dir = (Inr r, dir)"
proof -
  obtain r dir where r: "holds demo_journal_env dir r" "latest_status r = COMMITTED" "jr_plan r = ''t1''"
    using demo_committed by blast
  have "jn_tid demo_journal_env p = p" for p by (simp add: demo_journal_env_def)
  with committed_journal_closed [OF r(1,2), of None "''t1''" RECONCILING 5] r show ?thesis
    by fastforce
qed

end
