(* ===== verification/AuditLog.thy ===== *)
theory AuditLog
  imports Domain
begin

text \<open>
  The append-only audit log of \<open>audit/log.py\<close>. A log is the list of its lines; a line is blank,
  no JSON, JSON that is no object, or the dump of an event. The log is generic in the event
  type, as in the source (project events and program events); \<open>eid\<close> reads the event id.
  As for the journals, an event is one line: no text in it has one of the characters U+0085, U+2028 and U+2029, which
  \<open>json.dumps\<close> leaves as they are and \<open>str.splitlines\<close> takes for the end of a line.
  The locale \<open>append_once_log\<close> is the contract the transaction coordinators use.
\<close>

section \<open>Operations\<close>

datatype 'e audit_line = BlankLine | NotJson | NotObject | EventLine 'e

type_synonym 'e audit_file = "'e audit_line list"

fun audit_read :: "'e audit_file \<Rightarrow> 'e list res" where
  "audit_read [] = Inr []"
| "audit_read (BlankLine # ls) = audit_read ls"
| "audit_read (NotJson # ls) = Inl (Exn ValueError ''JSONDecodeError'')"
| "audit_read (NotObject # ls) = Inl (Exn ValueError ''invalid audit event at line'')"
| "audit_read (EventLine e # ls) =
     (case audit_read ls of Inl x \<Rightarrow> Inl x | Inr es \<Rightarrow> Inr (e # es))"

text \<open>The loop over the current entries: \<open>None\<close> when no entry has the id.\<close>

fun audit_scan :: "('e \<Rightarrow> string) \<Rightarrow> 'e \<Rightarrow> 'e list \<Rightarrow> bool res option" where
  "audit_scan eid event [] = None"
| "audit_scan eid event (current # es) =
     (if eid current \<noteq> eid event then audit_scan eid event es
      else if current \<noteq> event then
        Some (Inl (Exn AuditLogConflictError ''audit event ID has different content''))
      else Some (Inr False))"

definition append_once :: "('e \<Rightarrow> string) \<Rightarrow> 'e \<Rightarrow> 'e audit_file \<Rightarrow> (bool, 'e audit_file) outcome" where
  "append_once eid event lf =
     seq (pure (audit_read lf) lf) (\<lambda>current lf.
     case audit_scan eid event current of
       Some r \<Rightarrow> (r, lf)
     | None \<Rightarrow> (Inr True, lf @ [EventLine event]))"

definition audit_append :: "('e \<Rightarrow> string) \<Rightarrow> 'e \<Rightarrow> 'e audit_file \<Rightarrow> (unit, 'e audit_file) outcome" where
  "audit_append eid event lf = seq (append_once eid event lf) (\<lambda>_ lf. (Inr (), lf))"

definition audit_contains :: "('e \<Rightarrow> string) \<Rightarrow> string \<Rightarrow> 'e audit_file \<Rightarrow> bool res" where
  "audit_contains eid event_id lf =
     (case audit_read lf of Inl e \<Rightarrow> Inl e | Inr es \<Rightarrow> Inr (list_ex (\<lambda>e. eid e = event_id) es))"

definition audit_entries :: "'e audit_file \<Rightarrow> 'e list res" where
  "audit_entries lf = audit_read lf"

section \<open>The contract of a log that appends an event once\<close>

locale append_once_log =
  fixes append :: "'e \<Rightarrow> 'l \<Rightarrow> (bool, 'l) outcome"
    and entries :: "'l \<Rightarrow> 'e list res"
    and ident :: "'e \<Rightarrow> string"
  assumes append_written:
      "append e l = (Inr True, l') \<Longrightarrow>
       \<exists>es. entries l = Inr es \<and> entries l' = Inr (es @ [e]) \<and> ident e \<notin> ident ` set es"
    and append_present: "append e l = (Inr False, l') \<Longrightarrow> l' = l \<and> (\<exists>es. entries l = Inr es \<and> e \<in> set es)"
    and append_raises: "append e l = (Inl x, l') \<Longrightarrow> l' = l"
    and append_accepts:
      "entries l = Inr es \<Longrightarrow> distinct (map ident es) \<Longrightarrow> e \<in> set es \<or> ident e \<notin> ident ` set es \<Longrightarrow>
       \<exists>l'. append e l = (Inr (e \<notin> set es), l')"
begin

text \<open>Whatever is appended, entries are only added at the end and ids stay unique.\<close>

lemma append_keeps:
  assumes "append e l = (r, l')" "entries l = Inr es" "distinct (map ident es)"
  shows "\<exists>es'. entries l' = Inr (es @ es') \<and> distinct (map ident (es @ es')) \<and> length es' \<le> 1 \<and>
    (\<forall>b. r = Inr b \<longrightarrow> e \<in> set (es @ es') \<and> (b \<longleftrightarrow> es' \<noteq> []))"
proof (cases r)
  case (Inl x)
  with assms append_raises show ?thesis by fastforce
next
  case (Inr b)
  show ?thesis
  proof (cases b)
    case True
    with assms Inr append_written [of e l l'] show ?thesis by fastforce
  next
    case False
    with assms Inr append_present [of e l l'] show ?thesis by fastforce
  qed
qed

lemma append_again:
  assumes "append e l = (Inr b, l')" "entries l = Inr es" "distinct (map ident es)"
  shows "append e l' = (Inr False, l')"
proof -
  from append_keeps [OF assms] obtain es' where es':
    "entries l' = Inr (es @ es')" "distinct (map ident (es @ es'))" "e \<in> set (es @ es')"
    by auto
  with append_accepts [of l' "es @ es'" e] obtain l'' where
    "append e l' = (Inr False, l'')" by auto
  with append_present show ?thesis by blast
qed

end

section \<open>The file log meets it\<close>

lemma audit_scan_None: "audit_scan eid event es = None \<longleftrightarrow> eid event \<notin> eid ` set es"
  by (induction es) auto

lemma audit_scan_Inr: "audit_scan eid event es = Some (Inr b) \<Longrightarrow> b = False \<and> event \<in> set es"
  by (induction es) (auto split: if_splits)

lemma audit_scan_present:
  "distinct (map eid es) \<Longrightarrow> event \<in> set es \<Longrightarrow> audit_scan eid event es = Some (Inr False)"
  by (induction es) (auto simp: rev_image_eqI)

lemma audit_read_snoc:
  "audit_read (lf' @ [EventLine e]) =
     (case audit_read lf' of Inl x \<Rightarrow> Inl x | Inr es \<Rightarrow> Inr (es @ [e]))"
  by (induction lf' rule: audit_read.induct) (simp_all split: sum.splits)

lemma append_once_eq:
  "append_once eid e lf =
     (case audit_read lf of
        Inl x \<Rightarrow> (Inl x, lf)
      | Inr es \<Rightarrow> if eid e \<notin> eid ` set es then (Inr True, lf @ [EventLine e])
                  else (the (audit_scan eid e es), lf))"
  by (auto simp: append_once_def pure_def seq_def audit_scan_None [symmetric]
      split: sum.splits option.splits)

lemma append_once_scan:
  "audit_read lf = Inr es \<Longrightarrow> eid e \<in> eid ` set es \<Longrightarrow>
   \<exists>r. audit_scan eid e es = Some r \<and> append_once eid e lf = (r, lf)"
  using audit_scan_None [of eid e es] by (auto simp: append_once_eq)

lemma append_once_True:
  "append_once eid e lf = (Inr True, lf') \<longleftrightarrow>
   (\<exists>es. audit_read lf = Inr es \<and> eid e \<notin> eid ` set es \<and> lf' = lf @ [EventLine e])"
proof -
  have "append_once eid e lf \<noteq> (Inr True, lf')"
    if "audit_read lf = Inr es" "eid e \<in> eid ` set es" for es
    using append_once_scan [OF that] audit_scan_Inr [of eid e es] by fastforce
  then show ?thesis by (auto simp: append_once_eq split: sum.splits)
qed

lemma append_once_False:
  assumes "append_once eid e lf = (Inr False, lf')"
  shows "lf' = lf \<and> (\<exists>es. audit_read lf = Inr es \<and> e \<in> set es)"
proof (cases "audit_read lf")
  case (Inl x)
  with assms show ?thesis by (simp add: append_once_eq)
next
  case (Inr es)
  show ?thesis
  proof (cases "eid e \<in> eid ` set es")
    case True
    from append_once_scan [OF Inr True] assms audit_scan_Inr [of eid e es] Inr show ?thesis by auto
  next
    case False
    with Inr assms show ?thesis by (simp add: append_once_eq)
  qed
qed

lemma append_once_Inl: "append_once eid e lf = (Inl x, lf') \<Longrightarrow> lf' = lf"
  by (auto simp: append_once_eq split: sum.splits if_splits)

lemma audit_read_Inl: "audit_read lf = Inl x \<Longrightarrow> exn_cls x = ValueError"
  by (induction lf rule: audit_read.induct) (auto split: sum.splits)

lemma audit_scan_Inl: "audit_scan eid e es = Some (Inl x) \<Longrightarrow> exn_cls x = AuditLogConflictError"
  by (induction es) (auto split: if_splits)

lemma append_once_raises:
  assumes "append_once eid e lf = (Inl x, lf')"
  shows "exn_cls x = ValueError \<or> exn_cls x = AuditLogConflictError"
proof (cases "audit_read lf")
  case (Inl y)
  with assms show ?thesis by (simp add: append_once_eq) (metis audit_read_Inl)
next
  case (Inr es)
  show ?thesis
  proof (cases "eid e \<in> eid ` set es")
    case True
    from append_once_scan [OF Inr True] assms show ?thesis by (auto dest: audit_scan_Inl)
  next
    case False
    with Inr assms show ?thesis by (simp add: append_once_eq)
  qed
qed

interpretation audit: append_once_log "append_once eid" audit_entries eid
proof
  fix e :: 'a and l l' :: "'a audit_file"
  assume "append_once eid e l = (Inr True, l')"
  then show "\<exists>es. audit_entries l = Inr es \<and> audit_entries l' = Inr (es @ [e]) \<and>
      eid e \<notin> eid ` set es"
    by (auto simp: append_once_True audit_entries_def audit_read_snoc)
next
  fix e :: 'a and l l' :: "'a audit_file"
  assume "append_once eid e l = (Inr False, l')"
  then show "l' = l \<and> (\<exists>es. audit_entries l = Inr es \<and> e \<in> set es)"
    unfolding audit_entries_def by (rule append_once_False)
next
  fix e :: 'a and l l' :: "'a audit_file" and x
  assume "append_once eid e l = (Inl x, l')"
  then show "l' = l" by (rule append_once_Inl)
next
  fix e :: 'a and l :: "'a audit_file" and es
  assume es: "audit_entries l = Inr es" "distinct (map eid es)" "e \<in> set es \<or> eid e \<notin> eid ` set es"
  show "\<exists>l'. append_once eid e l = (Inr (e \<notin> set es), l')"
  proof (cases "e \<in> set es")
    case True
    with es append_once_scan [of l es eid e] audit_scan_present [of eid es e] show ?thesis
      by (auto simp: audit_entries_def)
  next
    case False
    with es show ?thesis by (auto simp: append_once_eq audit_entries_def)
  qed
qed

section \<open>Properties\<close>

text \<open>
  The log is append-only and has one entry per event id: if the entries of a readable log
  have distinct ids, so have the entries after any sequence of appends, which begin with the
  old entries; an append that returned can be repeated without effect, and an append of
  another event under a known id changes nothing.
\<close>

theorem audit_append_only:
  assumes "audit_entries lf = Inr es" and "distinct (map eid es)"
  shows "\<exists>es'. audit_entries (fold (\<lambda>e f. snd (append_once eid e f)) events lf) = Inr (es @ es') \<and>
    distinct (map eid (es @ es')) \<and> set es' \<subseteq> set events"
  using assms
proof (induction events arbitrary: lf es)
  case (Cons e events)
  obtain r lf1 where step: "append_once eid e lf = (r, lf1)" by fastforce
  from audit.append_keeps [OF step Cons.prems] obtain es1 where es1:
    "audit_entries lf1 = Inr (es @ es1)" "distinct (map eid (es @ es1))" "length es1 \<le> 1"
    "\<forall>b. r = Inr b \<longrightarrow> e \<in> set (es @ es1) \<and> (b \<longleftrightarrow> es1 \<noteq> [])" by blast
  have "set es1 \<subseteq> {e}"
  proof (cases "r = Inr True")
    case True
    with step es1(1) Cons.prems(1) show ?thesis
      by (auto simp: append_once_True audit_entries_def audit_read_snoc)
  next
    case False
    then have "lf1 = lf"
      using step by (cases r) (auto dest: append_once_Inl append_once_False)
    with es1(1) Cons.prems(1) show ?thesis by simp
  qed
  moreover obtain es2 where
    "audit_entries (fold (\<lambda>e f. snd (append_once eid e f)) events lf1) = Inr ((es @ es1) @ es2)"
    "distinct (map eid ((es @ es1) @ es2))" "set es2 \<subseteq> set events"
    using Cons.IH [OF es1(1,2)] by blast
  ultimately show ?case
    using step by (intro exI [of _ "es1 @ es2"]) (auto simp del: map_append)
qed simp

definition demo_event :: "string \<Rightarrow> string \<Rightarrow> int \<Rightarrow> audit_event" where
  "demo_event event_id project_id r =
     \<lparr>ae_event_id = event_id, ae_project_id = project_id, ae_event_type = ''t'',
      ae_actor_id = ''a'', ae_actor_role = ''system'', ae_dossier_revision = r,
      ae_occurred_at = 0, ae_details = []\<rparr>"

theorem audit_append_only_witness:
  "\<exists>es'. audit_entries (fold (\<lambda>e f. snd (append_once ae_event_id e f))
       [demo_event ''a'' ''p'' 1, demo_event ''b'' ''p'' 2, demo_event ''a'' ''p'' 3] [BlankLine])
     = Inr ([] @ es') \<and> distinct (map ae_event_id ([] @ es'))"
  using audit_append_only [of "[BlankLine]" "[]" ae_event_id
      "[demo_event ''a'' ''p'' 1, demo_event ''b'' ''p'' 2, demo_event ''a'' ''p'' 3]"]
  by (auto simp: audit_entries_def)

lemma append_once_first:
  "append_once eid e lf =
     (case audit_read lf of
        Inl x \<Rightarrow> (Inl x, lf)
      | Inr es \<Rightarrow>
          (case first_such (\<lambda>c. eid c = eid e) es of
             None \<Rightarrow> (Inr True, lf @ [EventLine e])
           | Some c \<Rightarrow>
               if c = e then (Inr False, lf)
               else (Inl (Exn AuditLogConflictError ''audit event ID has different content''),
                     lf)))"
proof -
  have "audit_scan eid e es =
     (case first_such (\<lambda>c. eid c = eid e) es of
        None \<Rightarrow> None
      | Some c \<Rightarrow> Some (if c = e then Inr False
          else Inl (Exn AuditLogConflictError ''audit event ID has different content'')))" for es
    by (induction es) auto
  then show ?thesis
    by (auto simp: append_once_def pure_def seq_def split: sum.splits option.splits)
qed

text \<open>
  \<open>append_once\<close> of an event with a new id writes exactly one line; with a known id it writes
  nothing and returns \<open>False\<close> when the first entry of that id is the same event, and raises the
  conflict error otherwise; a log that cannot be read makes it raise and stays as it is.
\<close>

theorem append_once_cases:
  "append_once eid e lf =
     (case audit_read lf of
        Inl x \<Rightarrow> (Inl x, lf)
      | Inr es \<Rightarrow>
          (case first_such (\<lambda>c. eid c = eid e) es of
             None \<Rightarrow> (Inr True, lf @ [EventLine e])
           | Some c \<Rightarrow>
               if c = e then (Inr False, lf)
               else (Inl (Exn AuditLogConflictError ''audit event ID has different content''),
                     lf)))"
  by (rule append_once_first)

end
