(* ===== verification/Coordinator.thy ===== *)
theory Coordinator
  imports Journal AuditLog
begin

text \<open>
  What the two transaction coordinators of the program have in common.
  \<open>runtime/transactions.py\<close> (project dossiers) and \<open>runtime/enrollment_transactions.py\<close>
  (enrollments) run the same protocol: write the plan to a hash-chained journal, verify the
  required artifacts, bring the repository to the target revision, append one audit event, mark
  the journal committed; \<open>reconcile\<close> finishes or blocks what an interrupted run left behind.
  The protocol is written here once over the operations that differ, gathered in a
  \<open>coordinator\<close> record; \<open>ProjectTransactions\<close> and \<open>EnrollmentTransactions\<close> supply the two
  records. The locale \<open>recoverable_store\<close> states what the protocol needs of the repository
  step; recovery, soundness of a commit and safety of a block are proved in it.

  Clock readings of one call are \<open>t 0, t 1, ...\<close> in the order the call makes them; each write of
  one file is atomic, so a crash falls between the writes.
\<close>

section \<open>Artifacts of the workspace\<close>

text \<open>The content of a regular file: JSON text, or bytes that do not decode to JSON.\<close>

datatype file_content = JsonText json | OtherText string

text \<open>The files below a root by relative path; \<open>Escaping\<close> is a path that resolves outside of it.\<close>

datatype file_entry = RegularFile file_content | Escaping

type_synonym file_tree = "string \<Rightarrow> file_entry option"

datatype artifact_kind = REPORT_JSON | REPORT_MARKDOWN | NOTIFICATION_OUTBOX

fun kind_value :: "artifact_kind \<Rightarrow> string" where
  "kind_value REPORT_JSON = ''report_json''"
| "kind_value REPORT_MARKDOWN = ''report_markdown''"
| "kind_value NOTIFICATION_OUTBOX = ''notification_outbox''"

record artifact_requirement =
  tr_kind :: artifact_kind
  tr_relative_path :: string
  tr_sha256 :: string
  tr_expected_report_id :: "string option"
  tr_expected_delivery_status :: "string option"

fun split_on :: "char \<Rightarrow> string \<Rightarrow> string list" where
  "split_on c [] = [[]]"
| "split_on c (x # xs) =
     (if x = c then [] # split_on c xs
      else (case split_on c xs of [] \<Rightarrow> [[x]] | p # ps \<Rightarrow> (x # p) # ps))"

text \<open>\<open>validate_relative_path\<close>: the parts of a \<open>PurePosixPath\<close> are the non-empty ones but \<open>.\<close>.\<close>

definition validate_relative_path :: "string \<Rightarrow> string res" where
  "validate_relative_path value' =
     (let normalized = map (\<lambda>c. if c = CHR 0x5C then CHR ''/'' else c) value';
          parts = filter (\<lambda>p. p \<noteq> [] \<and> p \<noteq> ''.'') (split_on (CHR ''/'') normalized)
      in if starts_with ''/'' normalized \<or> ''..'' \<in> set parts then
           Inl (Exn ValueError ''transaction artifact path must stay inside the workspace'')
         else Inr (if parts = [] then ''.'' else join_with ''/'' parts))"

definition make_requirement ::
  "artifact_kind \<Rightarrow> string \<Rightarrow> string \<Rightarrow> string option \<Rightarrow> string option \<Rightarrow> artifact_requirement res" where
  "make_requirement kind path sha report_id delivery_status =
     (if path = [] \<or> 1000 < length path \<or> \<not> is_sha256 sha \<or>
         delivery_status \<notin> {None, Some ''recorded''} then
        Inl (Exn ValidationError ''TransactionArtifactRequirement'')
      else case validate_relative_path path of
        Inl e \<Rightarrow> Inl (Exn ValidationError (exn_msg e))
      | Inr normalized \<Rightarrow>
          Inr \<lparr>tr_kind = kind, tr_relative_path = normalized, tr_sha256 = sha,
               tr_expected_report_id = report_id, tr_expected_delivery_status = delivery_status\<rparr>)"

definition requirement_valid :: "artifact_requirement \<Rightarrow> bool" where
  "requirement_valid r \<longleftrightarrow>
     make_requirement (tr_kind r) (tr_relative_path r) (tr_sha256 r) (tr_expected_report_id r)
       (tr_expected_delivery_status r) = Inr r"

definition tx_blocked :: "string \<Rightarrow> exn" where
  "tx_blocked reason_code = Exn TransactionBlockedError reason_code"

section \<open>State and operations\<close>

record ('p, 'e, 'd) tx_state =
  tx_journal :: "'p journal_dir"
  tx_audit :: "'e audit_file"
  tx_store :: 'd
  tx_files :: file_tree

record ('p, 'e, 'd, 'v) coordinator =
  co_jenv :: "'p journal_env"
  co_owner :: "'p \<Rightarrow> string"
  co_event :: "'p \<Rightarrow> 'e"
  co_event_id :: "'e \<Rightarrow> string"
  co_verify :: "'p \<Rightarrow> file_tree \<Rightarrow> unit res"
  co_ensure :: "'p \<Rightarrow> int \<Rightarrow> 'd \<Rightarrow> ('v \<times> bool, 'd) outcome"
  co_load :: "'p \<Rightarrow> 'd \<Rightarrow> 'v res"
  co_store_name :: string
  co_inject :: "string \<Rightarrow> exn option"

abbreviation co_tid :: "('p, 'e, 'd, 'v) coordinator \<Rightarrow> 'p \<Rightarrow> string" where
  "co_tid C p \<equiv> jn_tid (co_jenv C) p"

definition on_journal ::
  "('p journal_dir \<Rightarrow> ('a, 'p journal_dir) outcome) \<Rightarrow> ('p, 'e, 'd) tx_state \<Rightarrow>
   ('a, ('p, 'e, 'd) tx_state) outcome" where
  "on_journal f s = (fst (f (tx_journal s)), s\<lparr>tx_journal := snd (f (tx_journal s))\<rparr>)"

definition on_store ::
  "('d \<Rightarrow> ('a, 'd) outcome) \<Rightarrow> ('p, 'e, 'd) tx_state \<Rightarrow> ('a, ('p, 'e, 'd) tx_state) outcome" where
  "on_store f s = (fst (f (tx_store s)), s\<lparr>tx_store := snd (f (tx_store s))\<rparr>)"

definition on_audit ::
  "('e audit_file \<Rightarrow> ('a, 'e audit_file) outcome) \<Rightarrow> ('p, 'e, 'd) tx_state \<Rightarrow>
   ('a, ('p, 'e, 'd) tx_state) outcome" where
  "on_audit f s = (fst (f (tx_audit s)), s\<lparr>tx_audit := snd (f (tx_audit s))\<rparr>)"

definition inject ::
  "('p, 'e, 'd, 'v) coordinator \<Rightarrow> string \<Rightarrow> 's \<Rightarrow> (unit, 's) outcome" where
  "inject C boundary s = (case co_inject C boundary of None \<Rightarrow> (Inr (), s) | Some e \<Rightarrow> (Inl e, s))"

definition set_status ::
  "('p, 'e, 'd, 'v) coordinator \<Rightarrow> string \<Rightarrow> transaction_status \<Rightarrow> string option \<Rightarrow> int \<Rightarrow>
   ('p, 'e, 'd) tx_state \<Rightarrow> ('p journal_record, ('p, 'e, 'd) tx_state) outcome" where
  "set_status C tid status reason now =
     on_journal (journal_append_status (co_jenv C) tid status reason now)"

text \<open>The body of the \<open>try\<close> of \<open>_execute\<close>.\<close>

definition co_apply ::
  "('p, 'e, 'd, 'v) coordinator \<Rightarrow> int \<Rightarrow> 'p \<Rightarrow> ('p, 'e, 'd) tx_state \<Rightarrow>
   ('v, ('p, 'e, 'd) tx_state) outcome" where
  "co_apply C now plan s =
     seq (inject C ''after_prepare'' s) (\<lambda>_ s.
     seq (pure (co_verify C plan (tx_files s)) s) (\<lambda>_ s.
     seq (on_store (co_ensure C plan now) s) (\<lambda>(v, _) s.
     seq (inject C (''after_'' @ co_store_name C) s) (\<lambda>_ s.
     seq (on_audit (append_once (co_event_id C) (co_event C plan)) s) (\<lambda>_ s.
     seq (inject C ''after_audit'' s) (\<lambda>_ s.
     (Inr v, s)))))))"

definition co_execute ::
  "('p, 'e, 'd, 'v) coordinator \<Rightarrow> (nat \<Rightarrow> int) \<Rightarrow> 'p \<Rightarrow> ('p, 'e, 'd) tx_state \<Rightarrow>
   ('v, ('p, 'e, 'd) tx_state) outcome" where
  "co_execute C t plan s =
     seq (on_journal (journal_prepare (co_jenv C) plan (t 0)) s) (\<lambda>r s.
     if latest_status r = COMMITTED then pure (co_load C plan (tx_store s)) s
     else
       seq (set_status C (co_tid C plan) APPLYING None (t 1) s) (\<lambda>_ s.
       seq (handle (co_apply C (t 2) plan s) (\<lambda>e s.
              if is_instance e ExceptionClass then
                (Inl e, snd (set_status C (co_tid C plan) RECONCILE_REQUIRED
                               (Some (class_name (exn_cls e))) (t 3) s))
              else (Inl e, s))) (\<lambda>v s.
       seq (set_status C (co_tid C plan) COMMITTED None (t 3) s) (\<lambda>_ s.
       (Inr v, s)))))"

datatype reconciliation_status = RECONCILED_COMMITTED | ALREADY_COMMITTED | RECONCILED_BLOCKED

record reconciliation_result =
  rr_transaction_id :: string
  rr_owner :: string
  rr_status :: reconciliation_status
  rr_recovered :: "string list"
  rr_reason_code :: "string option"

text \<open>The body of the \<open>try\<close> of \<open>reconcile\<close>; the list of what it recovered.\<close>

definition co_repair ::
  "('p, 'e, 'd, 'v) coordinator \<Rightarrow> int \<Rightarrow> 'p \<Rightarrow> ('p, 'e, 'd) tx_state \<Rightarrow>
   (string list, ('p, 'e, 'd) tx_state) outcome" where
  "co_repair C now plan s =
     seq (pure (co_verify C plan (tx_files s)) s) (\<lambda>_ s.
     seq (on_store (co_ensure C plan now) s) (\<lambda>(_, changed) s.
     seq (on_audit (append_once (co_event_id C) (co_event C plan)) s) (\<lambda>written s.
     (Inr ((if changed then [co_store_name C] else []) @ (if written then [''audit''] else [])),
      s))))"

definition co_reconcile ::
  "('p, 'e, 'd, 'v) coordinator \<Rightarrow> (nat \<Rightarrow> int) \<Rightarrow> string \<Rightarrow> ('p, 'e, 'd) tx_state \<Rightarrow>
   (reconciliation_result, ('p, 'e, 'd) tx_state) outcome" where
  "co_reconcile C t tid s =
     seq (pure (journal_load (co_jenv C) tid (tx_journal s)) s) (\<lambda>r s.
     let plan = jr_plan r;
         result = \<lambda>status recovered reason.
           \<lparr>rr_transaction_id = tid, rr_owner = co_owner C plan, rr_status = status,
            rr_recovered = recovered, rr_reason_code = reason\<rparr>
     in if latest_status r = COMMITTED then (Inr (result ALREADY_COMMITTED [] None), s)
        else
          seq (set_status C tid RECONCILING None (t 0) s) (\<lambda>_ s.
          case co_repair C (t 1) plan s of
            (Inl e, s) \<Rightarrow>
              if exn_is e [TransactionBlockedError, TransactionConflictError] then
                (let reason = (if is_instance e TransactionBlockedError then exn_msg e
                               else ''revision_conflict'')
                 in seq (set_status C tid TX_BLOCKED (Some reason) (t 2) s) (\<lambda>_ s.
                    (Inr (result RECONCILED_BLOCKED [] (Some reason)), s)))
              else (Inl e, s)
          | (Inr recovered, s) \<Rightarrow>
              seq (set_status C tid COMMITTED None (t 2) s) (\<lambda>_ s.
              (Inr (result RECONCILED_COMMITTED recovered None), s))))"

fun reconcile_each ::
  "('p, 'e, 'd, 'v) coordinator \<Rightarrow> (nat \<Rightarrow> nat \<Rightarrow> int) \<Rightarrow> 'p journal_record list \<Rightarrow>
   ('p, 'e, 'd) tx_state \<Rightarrow> (reconciliation_result list, ('p, 'e, 'd) tx_state) outcome" where
  "reconcile_each C t [] s = (Inr [], s)"
| "reconcile_each C t (r # rs) s =
     seq (co_reconcile C (t (length rs)) (co_tid C (jr_plan r)) s) (\<lambda>x s.
     seq (reconcile_each C t rs s) (\<lambda>xs s. (Inr (x # xs), s)))"

definition co_reconcile_all ::
  "('p, 'e, 'd, 'v) coordinator \<Rightarrow> (nat \<Rightarrow> nat \<Rightarrow> int) \<Rightarrow>
   ('p, 'e, 'd) tx_state \<Rightarrow> (reconciliation_result list, ('p, 'e, 'd) tx_state) outcome" where
  "co_reconcile_all C t s =
     seq (pure (journal_records (co_jenv C) (tx_journal s)) s) (\<lambda>rs s. reconcile_each C t rs s)"

section \<open>What a plan needs, and what an interrupted run leaves\<close>

text \<open>A plan that is ready to run: nothing of it has been written yet.\<close>

definition ready ::
  "('p, 'e, 'd, 'v) coordinator \<Rightarrow> ('p \<Rightarrow> 'd \<Rightarrow> bool) \<Rightarrow> 'p \<Rightarrow> ('p, 'e, 'd) tx_state \<Rightarrow> bool" where
  "ready C applicable plan s \<longleftrightarrow>
     env_ok (co_jenv C) \<and> jn_plan_ok (co_jenv C) plan \<and> is_transaction_id (co_tid C plan) \<and>
     map_of (tx_journal s) (journal_file_of (co_jenv C) (co_tid C plan)) = None \<and>
     co_verify C plan (tx_files s) = Inr () \<and> applicable plan (tx_store s) \<and>
     (\<exists>es. audit_read (tx_audit s) = Inr es \<and>
        co_event_id C (co_event C plan) \<notin> co_event_id C ` set es)"

text \<open>How far the two guarded files have come since \<open>s0\<close>: neither, the repository, or both.\<close>

definition progress ::
  "('p, 'e, 'd, 'v) coordinator \<Rightarrow> ('p \<Rightarrow> int \<Rightarrow> 'd \<Rightarrow> 'd) \<Rightarrow> 'p \<Rightarrow> ('p, 'e, 'd) tx_state \<Rightarrow>
   nat \<Rightarrow> ('p, 'e, 'd) tx_state \<Rightarrow> bool" where
  "progress C eff plan s0 k s \<longleftrightarrow>
     tx_files s = tx_files s0 \<and>
     tx_audit s = tx_audit s0 @ (if k = 2 then [EventLine (co_event C plan)] else []) \<and>
     (if k = 0 then tx_store s = tx_store s0 else \<exists>now. tx_store s = eff plan now (tx_store s0))"

text \<open>
  A state between two writes of a run of \<open>plan\<close> that started in \<open>s0\<close>: the journal holds the
  plan, and it is marked committed only when both files are written.
\<close>

definition mid_transaction ::
  "('p, 'e, 'd, 'v) coordinator \<Rightarrow> ('p \<Rightarrow> int \<Rightarrow> 'd \<Rightarrow> 'd) \<Rightarrow> 'p \<Rightarrow> ('p, 'e, 'd) tx_state \<Rightarrow>
   ('p, 'e, 'd) tx_state \<Rightarrow> bool" where
  "mid_transaction C eff plan s0 s \<longleftrightarrow>
     (\<exists>r k. holds (co_jenv C) (tx_journal s) r \<and> jr_plan r = plan \<and> k \<le> 2 \<and>
        progress C eff plan s0 k s \<and> (latest_status r = COMMITTED \<longrightarrow> k = 2))"

text \<open>The state after an uninterrupted run, up to the clock reading stored in the repository.\<close>

definition finished ::
  "('p, 'e, 'd, 'v) coordinator \<Rightarrow> ('p \<Rightarrow> int \<Rightarrow> 'd \<Rightarrow> 'd) \<Rightarrow> 'p \<Rightarrow> ('p, 'e, 'd) tx_state \<Rightarrow>
   ('p, 'e, 'd) tx_state \<Rightarrow> bool" where
  "finished C eff plan s0 s \<longleftrightarrow>
     (\<exists>r. holds (co_jenv C) (tx_journal s) r \<and> jr_plan r = plan \<and> latest_status r = COMMITTED) \<and>
     progress C eff plan s0 2 s"

lemma on_simps [simp]:
  "on_journal f s = (fst (f (tx_journal s)), s\<lparr>tx_journal := snd (f (tx_journal s))\<rparr>)"
  "on_store g s = (fst (g (tx_store s)), s\<lparr>tx_store := snd (g (tx_store s))\<rparr>)"
  "on_audit h s = (fst (h (tx_audit s)), s\<lparr>tx_audit := snd (h (tx_audit s))\<rparr>)"
  by (simp_all add: on_journal_def on_store_def on_audit_def)

lemma set_status_holds:
  assumes "holds (co_jenv C) (tx_journal s) r" "env_ok (co_jenv C)"
    "pred_option (\<lambda>c. length c \<le> 200) reason" "tid = co_tid C (jr_plan r)"
  shows "set_status C tid status reason now s =
    (if latest_status r = COMMITTED then (Inr r, s)
     else let r' = add_event (co_jenv C) r status reason now
          in (Inr r', s\<lparr>tx_journal := extended_dir (co_jenv C) r' (tx_journal s)\<rparr>))"
  using append_status_holds [OF assms(1-3), of status now] assms(4)
  by (simp add: set_status_def Let_def)

lemma holds_extend:
  assumes "holds env dir r" "env_ok env" "pred_option (\<lambda>c. length c \<le> 200) reason"
  shows "holds env (extended_dir env (add_event env r status reason now) dir) (add_event env r status reason now)"
  using assms by (intro holds_extended_dir record_ok_add_event) (simp_all add: holds_def)

text \<open>A status that is set where the journal holds a record leaves the other files alone.\<close>

lemma set_status_next:
  assumes "holds (co_jenv C) (tx_journal s) r" "env_ok (co_jenv C)"
    "pred_option (\<lambda>c. length c \<le> 200) reason" "tid = co_tid C (jr_plan r)"
    "latest_status r \<noteq> COMMITTED"
  shows "\<exists>r' j. set_status C tid status reason now s = (Inr r', s\<lparr>tx_journal := j\<rparr>) \<and>
    holds (co_jenv C) j r' \<and> jr_plan r' = jr_plan r \<and> latest_status r' = status"
proof (intro exI conjI)
  let ?r = "add_event (co_jenv C) r status reason now"
  show "set_status C tid status reason now s =
      (Inr ?r, s\<lparr>tx_journal := extended_dir (co_jenv C) ?r (tx_journal s)\<rparr>)"
    using set_status_holds [OF assms(1-4), of status now] assms(5) by (simp add: Let_def)
  show "holds (co_jenv C) (extended_dir (co_jenv C) ?r (tx_journal s)) ?r"
    by (rule holds_extend [OF assms(1-3)])
qed simp_all

lemma progress_journal [simp]:
  "progress C eff plan s0 k (s\<lparr>tx_journal := j\<rparr>) = progress C eff plan s0 k s"
  by (simp add: progress_def)

section \<open>The contract of the repository step\<close>

locale recoverable_store =
  fixes C :: "('p, 'e, 'd, 'v) coordinator"
    and applicable :: "'p \<Rightarrow> 'd \<Rightarrow> bool"
    and eff :: "'p \<Rightarrow> int \<Rightarrow> 'd \<Rightarrow> 'd"
    and applied :: "'p \<Rightarrow> 'd \<Rightarrow> bool"
  assumes ensure_fresh:
      "jn_plan_ok (co_jenv C) p \<Longrightarrow> applicable p d \<Longrightarrow>
       \<exists>v. co_ensure C p now d = (Inr (v, True), eff p now d)"
    and ensure_again:
      "jn_plan_ok (co_jenv C) p \<Longrightarrow> applicable p d \<Longrightarrow>
       \<exists>v. co_ensure C p now' (eff p now d) = (Inr (v, False), eff p now d)"
    and ensure_raises:
      "jn_plan_ok (co_jenv C) p \<Longrightarrow> co_ensure C p now d = (Inl e, d') \<Longrightarrow> d' = d"
    and ensure_applied:
      "jn_plan_ok (co_jenv C) p \<Longrightarrow> co_ensure C p now d = (Inr (v, b), d') \<Longrightarrow>
       applied p d' \<and> (\<not> b \<longrightarrow> d' = d)"
begin

lemma apply_progress:
  assumes rd: "ready C applicable plan s0" and s: "progress C eff plan s0 0 s"
  shows "\<exists>k \<le> 2. progress C eff plan s0 k (snd (co_apply C now plan s)) \<and>
    tx_journal (snd (co_apply C now plan s)) = tx_journal s \<and>
    (\<forall>v. fst (co_apply C now plan s) = Inr v \<longrightarrow> k = 2)"
proof -
  let ?s1 = "s\<lparr>tx_store := eff plan now (tx_store s0)\<rparr>"
  let ?s2 = "?s1\<lparr>tx_audit := tx_audit s0 @ [EventLine (co_event C plan)]\<rparr>"
  have start: "tx_store s = tx_store s0" "tx_audit s = tx_audit s0" "tx_files s = tx_files s0"
    using s by (auto simp: progress_def)
  have verify: "co_verify C plan (tx_files s0) = Inr ()"
    and plan: "jn_plan_ok (co_jenv C) plan" "applicable plan (tx_store s0)"
    using rd by (auto simp: ready_def)
  obtain v where ens: "co_ensure C plan now (tx_store s0) = (Inr (v, True), eff plan now (tx_store s0))"
    using ensure_fresh [OF plan] by blast
  have aud: "append_once (co_event_id C) (co_event C plan) (tx_audit s0) =
      (Inr True, tx_audit s0 @ [EventLine (co_event C plan)])"
    using rd by (auto simp: ready_def append_once_True)
  have p: "progress C eff plan s0 0 s" "progress C eff plan s0 1 ?s1" "progress C eff plan s0 2 ?s2"
    using s start by (auto simp: progress_def)
  have run: "co_apply C now plan s =
      (case co_inject C ''after_prepare'' of
         Some e \<Rightarrow> (Inl e, s)
       | None \<Rightarrow> (case co_inject C (''after_'' @ co_store_name C) of
           Some e \<Rightarrow> (Inl e, ?s1)
         | None \<Rightarrow> (case co_inject C ''after_audit'' of
             Some e \<Rightarrow> (Inl e, ?s2) | None \<Rightarrow> (Inr v, ?s2))))"
    using start verify ens aud
    by (simp add: co_apply_def inject_def pure_def split: option.split)
  show ?thesis
  proof (cases "co_inject C ''after_prepare''")
    case (Some e)
    with run p(1) show ?thesis by (intro exI [of _ 0]) simp
  next
    case N1: None
    show ?thesis
    proof (cases "co_inject C (''after_'' @ co_store_name C)")
      case (Some e)
      with run N1 p(2) show ?thesis by (intro exI [of _ 1]) simp
    next
      case None
      with run N1 p(3) show ?thesis
        by (intro exI [of _ 2]) (simp split: option.split)
    qed
  qed
qed

lemma execute_mid:
  assumes rd: "ready C applicable plan s0"
  shows "mid_transaction C eff plan s0 (snd (co_execute C t plan s0))"
    and "fst (co_execute C t plan s0) = Inr v \<Longrightarrow>
         finished C eff plan s0 (snd (co_execute C t plan s0))"
proof -
  let ?env = "co_jenv C"
  let ?r0 = "prepared_record ?env plan (t 0)"
  have env: "env_ok ?env" and plan: "jn_plan_ok ?env plan" and tid: "is_transaction_id (co_tid C plan)"
    using rd by (auto simp: ready_def)
  let ?s0 = "s0\<lparr>tx_journal := extended_dir ?env ?r0 (tx_journal s0)\<rparr>"
  have prep: "journal_prepare ?env plan (t 0) (tx_journal s0) =
      (Inr ?r0, extended_dir ?env ?r0 (tx_journal s0))"
    using prepare_new [OF env plan tid] rd by (auto simp: ready_def)
  have h0: "holds ?env (tx_journal ?s0) ?r0"
    using holds_extended_dir [OF record_ok_prepared [OF env plan]] tid by simp
  obtain r1 j1 where st1: "set_status C (co_tid C plan) APPLYING None (t 1) ?s0 = (Inr r1, ?s0\<lparr>tx_journal := j1\<rparr>)"
    "holds ?env j1 r1" "jr_plan r1 = plan" "latest_status r1 = APPLYING"
    using set_status_next [OF h0 env, of None "co_tid C plan" APPLYING "t 1"] by auto
  let ?s1 = "s0\<lparr>tx_journal := j1\<rparr>"
  have p1: "progress C eff plan s0 0 ?s1" by (simp add: progress_def)
  obtain res s2 where ap: "co_apply C (t 2) plan ?s1 = (res, s2)" by fastforce
  from apply_progress [OF rd p1, of "t 2"] ap obtain k where k: "k \<le> 2"
    "progress C eff plan s0 k s2" "tx_journal s2 = j1" "\<forall>v. res = Inr v \<longrightarrow> k = 2" by auto
  have run: "co_execute C t plan s0 =
     seq (handle (res, s2) (\<lambda>e s.
              if is_instance e ExceptionClass then
                (Inl e, snd (set_status C (co_tid C plan) RECONCILE_REQUIRED
                               (Some (class_name (exn_cls e))) (t 3) s))
              else (Inl e, s))) (\<lambda>v s.
       seq (set_status C (co_tid C plan) COMMITTED None (t 3) s) (\<lambda>_ s. (Inr v, s)))"
    using prep st1(1) ap by (simp add: co_execute_def)
  have h2: "holds ?env (tx_journal s2) r1" using st1(2) k(3) by simp
  have "mid_transaction C eff plan s0 (snd (co_execute C t plan s0)) \<and>
    (\<forall>v. fst (co_execute C t plan s0) = Inr v \<longrightarrow> finished C eff plan s0 (snd (co_execute C t plan s0)))"
  proof (cases res)
    case (Inl e)
    have reason: "pred_option (\<lambda>c. length c \<le> 200) (Some (class_name (exn_cls e)))"
      using length_class_name [of "exn_cls e"] by simp
    obtain r3 j3 where st3: "set_status C (co_tid C plan) RECONCILE_REQUIRED
        (Some (class_name (exn_cls e))) (t 3) s2 = (Inr r3, s2\<lparr>tx_journal := j3\<rparr>)"
      "holds ?env j3 r3" "jr_plan r3 = plan" "latest_status r3 = RECONCILE_REQUIRED"
      using set_status_next [OF h2 env reason, of "co_tid C plan" RECONCILE_REQUIRED "t 3"] st1(3,4) by auto
    have "mid_transaction C eff plan s0 s2"
      using h2 k st1(3,4) unfolding mid_transaction_def by (intro exI [of _ r1] exI [of _ k]) simp
    moreover have "mid_transaction C eff plan s0 (s2\<lparr>tx_journal := j3\<rparr>)"
      using st3 k unfolding mid_transaction_def by (intro exI [of _ r3] exI [of _ k]) simp
    ultimately show ?thesis using run Inl st3(1) by simp
  next
    case (Inr v)
    obtain r3 j3 where st3: "set_status C (co_tid C plan) COMMITTED None (t 3) s2 =
        (Inr r3, s2\<lparr>tx_journal := j3\<rparr>)"
      "holds ?env j3 r3" "jr_plan r3 = plan" "latest_status r3 = COMMITTED"
      using set_status_next [OF h2 env, of None "co_tid C plan" COMMITTED "t 3"] st1(3,4) by auto
    have "k = 2" using k(4) Inr by blast
    with st3 k have "mid_transaction C eff plan s0 (s2\<lparr>tx_journal := j3\<rparr>)"
      unfolding mid_transaction_def by (intro exI [of _ r3] exI [of _ k]) simp
    moreover have "finished C eff plan s0 (s2\<lparr>tx_journal := j3\<rparr>)"
      using st3 k(2) \<open>k = 2\<close> unfolding finished_def by (intro conjI exI [of _ r3]) simp_all
    ultimately show ?thesis using run Inr st3(1) by simp
  qed
  then show "mid_transaction C eff plan s0 (snd (co_execute C t plan s0))"
    and "fst (co_execute C t plan s0) = Inr v \<Longrightarrow>
         finished C eff plan s0 (snd (co_execute C t plan s0))"
    by blast+
qed

end

context recoverable_store
begin

text \<open>A ready plan that nothing interrupts returns, with both files written and the journal closed.\<close>

lemma execute_returns:
  assumes rd: "ready C applicable plan s0" and calm: "\<And>b. co_inject C b = None"
    and val: "co_ensure C plan (t 2) (tx_store s0) = (Inr (v, True), eff plan (t 2) (tx_store s0))"
  shows "\<exists>s1. co_execute C t plan s0 = (Inr v, s1) \<and> tx_store s1 = eff plan (t 2) (tx_store s0) \<and>
    tx_audit s1 = tx_audit s0 @ [EventLine (co_event C plan)] \<and> tx_files s1 = tx_files s0"
proof -
  let ?env = "co_jenv C"
  let ?r0 = "prepared_record ?env plan (t 0)"
  have env: "env_ok ?env" and plan: "jn_plan_ok ?env plan" and tid: "is_transaction_id (co_tid C plan)"
    using rd by (auto simp: ready_def)
  let ?s0 = "s0\<lparr>tx_journal := extended_dir ?env ?r0 (tx_journal s0)\<rparr>"
  have prep: "journal_prepare ?env plan (t 0) (tx_journal s0) =
      (Inr ?r0, extended_dir ?env ?r0 (tx_journal s0))"
    using prepare_new [OF env plan tid] rd by (auto simp: ready_def)
  have h0: "holds ?env (tx_journal ?s0) ?r0"
    using holds_extended_dir [OF record_ok_prepared [OF env plan]] tid by simp
  obtain r1 j1 where st1: "set_status C (co_tid C plan) APPLYING None (t 1) ?s0 = (Inr r1, ?s0\<lparr>tx_journal := j1\<rparr>)"
    "holds ?env j1 r1" "jr_plan r1 = plan" "latest_status r1 = APPLYING"
    using set_status_next [OF h0 env, of None "co_tid C plan" APPLYING "t 1"] by auto
  let ?s2 = "s0\<lparr>tx_journal := j1, tx_store := eff plan (t 2) (tx_store s0),
    tx_audit := tx_audit s0 @ [EventLine (co_event C plan)]\<rparr>"
  have "append_once (co_event_id C) (co_event C plan) (tx_audit s0) =
      (Inr True, tx_audit s0 @ [EventLine (co_event C plan)])"
    using rd by (auto simp: ready_def append_once_True)
  then have ap: "co_apply C (t 2) plan (s0\<lparr>tx_journal := j1\<rparr>) = (Inr v, ?s2)"
    using rd calm val by (simp add: co_apply_def inject_def pure_def ready_def)
  obtain r3 j3 where "set_status C (co_tid C plan) COMMITTED None (t 3) ?s2 =
      (Inr r3, ?s2\<lparr>tx_journal := j3\<rparr>)"
    using set_status_next [of C ?s2 r1 None "co_tid C plan" COMMITTED "t 3"] st1(2-4) env by auto
  with prep st1(1) ap show ?thesis by (simp add: co_execute_def)
qed

text \<open>One reconciliation finishes whatever an interrupted run of a ready plan has left.\<close>

lemma repair_finishes:
  assumes rd: "ready C applicable plan s0" and s: "progress C eff plan s0 k s" "k \<le> 2"
  shows "\<exists>rec s'. co_repair C now plan s = (Inr rec, s') \<and> progress C eff plan s0 2 s' \<and>
    tx_journal s' = tx_journal s \<and>
    rec = (if k = 0 then [co_store_name C] else []) @ (if k < 2 then [''audit''] else [])"
proof -
  let ?ev = "EventLine (co_event C plan)"
  have start: "tx_files s = tx_files s0" "tx_audit s = tx_audit s0 @ (if k = 2 then [?ev] else [])"
    using s by (auto simp: progress_def)
  have verify: "co_verify C plan (tx_files s0) = Inr ()"
    and plan: "jn_plan_ok (co_jenv C) plan" "applicable plan (tx_store s0)"
    using rd by (auto simp: ready_def)
  obtain now' where store: "if k = 0 then tx_store s = tx_store s0
      else tx_store s = eff plan now' (tx_store s0)"
    using s by (auto simp: progress_def split: if_splits)
  let ?eff = "if k = 0 then eff plan now (tx_store s0) else eff plan now' (tx_store s0)"
  obtain v where ens: "co_ensure C plan now (tx_store s) = (Inr (v, k = 0), ?eff)"
    using ensure_fresh [OF plan, of now] ensure_again [OF plan, of now now'] store
    by (cases "k = 0") auto
  obtain es where es: "audit_read (tx_audit s0) = Inr es"
    "co_event_id C (co_event C plan) \<notin> co_event_id C ` set es"
    using rd by (auto simp: ready_def)
  have aud: "append_once (co_event_id C) (co_event C plan) (tx_audit s) =
      (Inr (k < 2), tx_audit s0 @ [?ev])"
  proof (cases "k = 2")
    case True
    have "audit_scan (co_event_id C) (co_event C plan) (xs @ [co_event C plan]) = Some (Inr False)"
      if "co_event_id C (co_event C plan) \<notin> co_event_id C ` set xs" for xs
      using that by (induction xs) auto
    with es True start show ?thesis by (simp add: append_once_eq audit_read_snoc)
  next
    case False
    with es start s(2) show ?thesis by (simp add: append_once_eq)
  qed
  have "progress C eff plan s0 2 (s\<lparr>tx_store := ?eff, tx_audit := tx_audit s0 @ [?ev]\<rparr>)"
    using start(1) by (auto simp: progress_def)
  with start verify ens aud show ?thesis
    by (simp add: co_repair_def pure_def)
qed

lemma reconcile_mid:
  assumes rd: "ready C applicable plan s0" and mid: "mid_transaction C eff plan s0 s"
  shows "\<exists>r s'. co_reconcile C t (co_tid C plan) s = (Inr r, s') \<and>
    rr_status r \<in> {RECONCILED_COMMITTED, ALREADY_COMMITTED} \<and> finished C eff plan s0 s'"
proof -
  let ?env = "co_jenv C"
  have env: "env_ok ?env" using rd by (simp add: ready_def)
  obtain r k where r: "holds ?env (tx_journal s) r" "jr_plan r = plan" "k \<le> 2"
    "progress C eff plan s0 k s" "latest_status r = COMMITTED \<longrightarrow> k = 2"
    using mid by (auto simp: mid_transaction_def)
  have load: "journal_load ?env (co_tid C plan) (tx_journal s) = Inr r"
    using holds_load(1) [OF r(1)] r(2) by simp
  show ?thesis
  proof (cases "latest_status r = COMMITTED")
    case True
    with r load show ?thesis
      by (auto simp: co_reconcile_def pure_def Let_def finished_def)
  next
    case False
    obtain r1 j1 where st1: "set_status C (co_tid C plan) RECONCILING None (t 0) s =
        (Inr r1, s\<lparr>tx_journal := j1\<rparr>)"
      "holds ?env j1 r1" "jr_plan r1 = plan" "latest_status r1 = RECONCILING"
      using set_status_next [OF r(1) env, of None "co_tid C plan" RECONCILING "t 0"] r(2) False by auto
    have "progress C eff plan s0 k (s\<lparr>tx_journal := j1\<rparr>)" using r(4) by simp
    from repair_finishes [OF rd this r(3)] obtain rec s2 where s2:
      "co_repair C (t 1) plan (s\<lparr>tx_journal := j1\<rparr>) = (Inr rec, s2)"
      "progress C eff plan s0 2 s2" "tx_journal s2 = j1" by fastforce
    have "holds ?env (tx_journal s2) r1" using st1(2) s2(3) by simp
    then obtain r3 j3 where st3: "set_status C (co_tid C plan) COMMITTED None (t 2) s2 =
        (Inr r3, s2\<lparr>tx_journal := j3\<rparr>)"
      "holds ?env j3 r3" "jr_plan r3 = plan" "latest_status r3 = COMMITTED"
      using set_status_next [OF _ env, of s2 r1 None "co_tid C plan" COMMITTED "t 2"] st1(3,4) by auto
    have "finished C eff plan s0 (s2\<lparr>tx_journal := j3\<rparr>)"
      using st3 s2(2) unfolding finished_def by (intro conjI exI [of _ r3]) simp_all
    with False load st1(1) s2(1) st3(1) r(2) show ?thesis
      by (simp add: co_reconcile_def pure_def Let_def)
  qed
qed

lemma reconcile_finished:
  assumes "finished C eff plan s0 s"
  shows "\<exists>r. co_reconcile C t (co_tid C plan) s = (Inr r, s) \<and> rr_status r = ALREADY_COMMITTED"
proof -
  obtain r where r: "holds (co_jenv C) (tx_journal s) r" "jr_plan r = plan" "latest_status r = COMMITTED"
    using assms by (auto simp: finished_def)
  with holds_load(1) [OF r(1)] show ?thesis by (simp add: co_reconcile_def pure_def Let_def)
qed

text \<open>A reconciled commit is real: the repository shows the target and the audit log the event.\<close>

lemma repair_sound:
  assumes "jn_plan_ok (co_jenv C) plan"
  shows "case co_repair C now plan s of
      (Inr rec, s') \<Rightarrow> applied plan (tx_store s') \<and> tx_journal s' = tx_journal s \<and>
        tx_files s' = tx_files s \<and>
        (\<exists>es. audit_read (tx_audit s') = Inr es \<and> co_event C plan \<in> set es)
    | (Inl e, s') \<Rightarrow> tx_journal s' = tx_journal s \<and> tx_files s' = tx_files s \<and>
        tx_audit s' = tx_audit s \<and>
        (exn_cls e = AuditLogConflictError \<or> exn_cls e = ValueError \<or> tx_store s' = tx_store s)"
proof (cases "co_verify C plan (tx_files s)")
  case (Inl e)
  then show ?thesis by (simp add: co_repair_def pure_def)
next
  case V: (Inr u)
  obtain res d where ens: "co_ensure C plan now (tx_store s) = (res, d)" by fastforce
  show ?thesis
  proof (cases res)
    case (Inl e)
    with V ens ensure_raises [OF assms, of now "tx_store s" e d] show ?thesis
      by (simp add: co_repair_def pure_def)
  next
    case (Inr vb)
    obtain v b where vb: "vb = (v, b)" by fastforce
    have ap: "applied plan d" using ensure_applied [OF assms, of now "tx_store s" v b d] ens Inr vb by simp
    obtain wr a where aud: "append_once (co_event_id C) (co_event C plan) (tx_audit s) = (wr, a)"
      by fastforce
    show ?thesis
    proof (cases wr)
      case W: (Inl x)
      have "a = tx_audit s" using append_once_Inl [OF aud [unfolded W]] .
      moreover have "exn_cls x = ValueError \<or> exn_cls x = AuditLogConflictError"
        using append_once_raises [OF aud [unfolded W]] .
      ultimately show ?thesis using V ens Inr vb aud W by (auto simp: co_repair_def pure_def)
    next
      case W: (Inr b')
      have "\<exists>es. audit_read a = Inr es \<and> co_event C plan \<in> set es"
      proof (cases b')
        case True
        with aud W show ?thesis by (auto simp: append_once_True audit_read_snoc)
      next
        case False
        with aud W show ?thesis by (auto dest: append_once_False)
      qed
      with V ens Inr vb aud W ap show ?thesis by (simp add: co_repair_def pure_def)
    qed
  qed
qed

lemma reconcile_outcome:
  assumes env: "env_ok (co_jenv C)" and rec: "co_reconcile C t tid s = (Inr r, s')"
  shows "\<exists>q. journal_load (co_jenv C) tid (tx_journal s) = Inr q \<and> tx_files s' = tx_files s \<and>
    (case rr_status r of
       ALREADY_COMMITTED \<Rightarrow> latest_status q = COMMITTED \<and> s' = s
     | RECONCILED_COMMITTED \<Rightarrow> applied (jr_plan q) (tx_store s') \<and>
         (\<exists>es. audit_read (tx_audit s') = Inr es \<and> co_event C (jr_plan q) \<in> set es)
     | RECONCILED_BLOCKED \<Rightarrow> tx_store s' = tx_store s \<and> tx_audit s' = tx_audit s)"
proof -
  obtain q where load: "journal_load (co_jenv C) tid (tx_journal s) = Inr q"
    using rec by (auto simp: co_reconcile_def outcome_simps)
  have ok: "jn_plan_ok (co_jenv C) (jr_plan q)"
    using load record_ok_first by (auto simp: journal_load_def journal_read_Inr split: sum.splits)
  have keep: "\<And>st rs n x s1 s2. set_status C tid st rs n s1 = (x, s2) \<Longrightarrow>
      tx_store s2 = tx_store s1 \<and> tx_audit s2 = tx_audit s1 \<and> tx_files s2 = tx_files s1"
    by (auto simp: set_status_def)
  show ?thesis
  proof (cases "latest_status q = COMMITTED")
    case True
    with load rec show ?thesis by (auto simp: co_reconcile_def pure_def Let_def)
  next
    case False
    obtain r1 s1 where st1: "set_status C tid RECONCILING None (t 0) s = (Inr r1, s1)"
      using load rec False by (auto simp: co_reconcile_def pure_def Let_def outcome_simps)
    obtain res s2 where rep: "co_repair C (t 1) (jr_plan q) s1 = (res, s2)" by fastforce
    note sound = repair_sound [OF ok, where now = "t 1" and s = s1]
    show ?thesis
    proof (cases res)
      case (Inl e)
      have blocked: "exn_is e [TransactionBlockedError, TransactionConflictError]"
        "rr_status r = RECONCILED_BLOCKED"
        "\<exists>x rs. set_status C tid TX_BLOCKED rs (t 2) s2 = (Inr x, s')"
        using load rec False st1 rep Inl
        by (auto simp: co_reconcile_def pure_def Let_def outcome_simps split: if_splits)
      then have "exn_cls e \<noteq> AuditLogConflictError" "exn_cls e \<noteq> ValueError"
        by (cases "exn_cls e"; simp add: exn_is_def is_instance_def ancestors_def)+
      with sound rep Inl have "tx_store s2 = tx_store s1" "tx_audit s2 = tx_audit s1"
        "tx_files s2 = tx_files s1" by auto
      with blocked keep [OF st1] show ?thesis
        using load by (auto dest!: keep)
    next
      case (Inr l)
      have committed: "rr_status r = RECONCILED_COMMITTED"
        "\<exists>x. set_status C tid COMMITTED None (t 2) s2 = (Inr x, s')"
        using load rec False st1 rep Inr
        by (auto simp: co_reconcile_def pure_def Let_def outcome_simps)
      with sound rep Inr keep [OF st1] show ?thesis
        using load by (auto dest!: keep)
    qed
  qed
qed

end

section \<open>What a run can do to the files, in any workspace\<close>

lemma prepare_fresh:
  assumes "map_of dir (journal_file_of env (jn_tid env plan)) = None"
    and "journal_prepare env plan now dir = (Inr r, dir')"
  shows "jr_plan r = plan \<and> latest_status r = PREPARED \<and> jn_plan_ok env plan"
proof -
  let ?path = "journal_file_of env (jn_tid env plan)"
  let ?ev = "\<lparr>je_transaction_id = jn_tid env plan, je_sequence = 1, je_status = PREPARED,
     je_occurred_at = now, je_previous = None, je_reason_code = None, je_plan = Some plan\<rparr>"
  have "journal_read env ?path
      (dict_set ?path [JournalLine ?ev (Some (jn_sha_event env ?ev))] dir) = Inr r"
    using assms by (auto simp: journal_prepare_def journal_path_for_if journal_append_def
        outcome_simps pure_def Let_def split: if_splits)
  then have ok: "record_ok env r" and "map line_of (jr_events r) = [JournalLine ?ev (Some (jn_sha_event env ?ev))]"
    by (auto simp: journal_read_Inr)
  then have "jr_events r = [(?ev, jn_sha_event env ?ev)]"
    by (auto simp: map_eq_Cons_conv line_of_def prod_eq_iff)
  with ok show ?thesis
    by (auto simp: record_ok_def latest_status_def journal_event_valid_def)
qed

lemma set_status_keeps:
  "set_status C tid st rs n s = (x, s') \<Longrightarrow>
   tx_store s' = tx_store s \<and> tx_audit s' = tx_audit s \<and> tx_files s' = tx_files s"
  by (auto simp: set_status_def)

lemma co_apply_files: "co_apply C now plan s = (res, s') \<Longrightarrow> tx_files s' = tx_files s"
  by (auto simp: co_apply_def inject_def seq_def pure_def split: sum.splits prod.splits option.splits)

text \<open>The repository after the \<open>try\<close> body: as before, or what the repository step made of it after
  the requirements were verified.\<close>

lemma co_apply_store:
  assumes "co_apply C now plan s = (res, s')"
  shows "tx_store s' = tx_store s \<and> (\<forall>v. res \<noteq> Inr v) \<or>
    co_verify C plan (tx_files s) = Inr () \<and>
    (\<exists>r. co_ensure C plan now (tx_store s) = (r, tx_store s') \<and> (\<forall>v. res = Inr v \<longrightarrow>
       (\<exists>b. r = Inr (v, b)) \<and>
       (\<exists>es. audit_read (tx_audit s') = Inr es \<and> co_event C plan \<in> set es)))"
proof (cases "co_inject C ''after_prepare''")
  case (Some e)
  with assms show ?thesis by (auto simp: co_apply_def inject_def)
next
  case N: None
  show ?thesis
  proof (cases "co_verify C plan (tx_files s)")
    case (Inl e)
    with N assms show ?thesis by (auto simp: co_apply_def inject_def pure_def)
  next
    case V: (Inr u)
    obtain r d where ens: "co_ensure C plan now (tx_store s) = (r, d)" by fastforce
    show ?thesis
    proof (cases r)
      case (Inl e)
      with N V ens assms show ?thesis by (auto simp: co_apply_def inject_def pure_def)
    next
      case (Inr vb)
      obtain v b where vb: "vb = (v, b)" by fastforce
      have store: "tx_store s' = d"
        using N V ens Inr vb assms
        by (auto simp: co_apply_def inject_def pure_def seq_def
            split: option.splits sum.splits prod.splits)
      have vv: "v' = v \<and> (\<exists>es. audit_read (tx_audit s') = Inr es \<and> co_event C plan \<in> set es)"
        if "res = Inr v'" for v'
      proof -
        have "v' = v" "\<exists>wb. append_once (co_event_id C) (co_event C plan) (tx_audit s) = (Inr wb, tx_audit s')"
          using that N V ens Inr vb assms
          by (auto simp: prod_eq_iff co_apply_def inject_def pure_def seq_def
              split: option.splits sum.splits prod.splits)
        then obtain wb where v: "v' = v"
          and app: "append_once (co_event_id C) (co_event C plan) (tx_audit s) = (Inr wb, tx_audit s')"
          by blast
        have "\<exists>es. audit_read (tx_audit s') = Inr es \<and> co_event C plan \<in> set es"
        proof (cases wb)
          case True
          with app show ?thesis by (auto simp: append_once_True audit_read_snoc)
        next
          case False
          with app show ?thesis by (auto dest: append_once_False)
        qed
        with v show ?thesis ..
      qed
      show ?thesis
        using V ens store Inr vb vv by (intro disjI2 conjI exI [of _ r]) auto
    qed
  qed
qed

text \<open>The same for a run under a transaction id that the journal does not know.\<close>

lemma co_execute_fresh:
  assumes "map_of (tx_journal s) (journal_file_of (co_jenv C) (co_tid C plan)) = None"
    and "co_execute C t plan s = (res, s')"
  shows "tx_files s' = tx_files s \<and>
    (tx_store s' = tx_store s \<and> (\<forall>v. res \<noteq> Inr v) \<or>
     jn_plan_ok (co_jenv C) plan \<and> co_verify C plan (tx_files s) = Inr () \<and>
     (\<exists>r. co_ensure C plan (t 2) (tx_store s) = (r, tx_store s') \<and> (\<forall>v. res = Inr v \<longrightarrow>
        (\<exists>b. r = Inr (v, b)) \<and>
        (\<exists>es. audit_read (tx_audit s') = Inr es \<and> co_event C plan \<in> set es))))"
proof -
  let ?env = "co_jenv C"
  obtain r0 j0 where prep: "journal_prepare ?env plan (t 0) (tx_journal s) = (r0, j0)" by fastforce
  show ?thesis
  proof (cases r0)
    case (Inl e)
    with prep assms(2) show ?thesis by (auto simp: co_execute_def)
  next
    case (Inr q)
    have q: "latest_status q = PREPARED" "jn_plan_ok ?env plan"
      using prepare_fresh [OF assms(1), of "t 0" q j0] prep Inr by auto
    obtain x s1 where st: "set_status C (co_tid C plan) APPLYING None (t 1) (s\<lparr>tx_journal := j0\<rparr>) = (x, s1)"
      by fastforce
    have k1: "tx_store s1 = tx_store s" "tx_files s1 = tx_files s"
      using set_status_keeps [OF st] by auto
    show ?thesis
    proof (cases x)
      case X: (Inl e)
      with prep Inr q st assms(2) k1 show ?thesis by (auto simp: co_execute_def)
    next
      case X: (Inr q1)
      obtain y s2 where ap: "co_apply C (t 2) plan s1 = (y, s2)" by fastforce
      note f2 = co_apply_files [OF ap] and st2 = co_apply_store [OF ap]
      have run: "(res, s') =
        seq (handle (y, s2) (\<lambda>e s.
              if is_instance e ExceptionClass then
                (Inl e, snd (set_status C (co_tid C plan) RECONCILE_REQUIRED
                               (Some (class_name (exn_cls e))) (t 3) s))
              else (Inl e, s))) (\<lambda>v s.
          seq (set_status C (co_tid C plan) COMMITTED None (t 3) s) (\<lambda>_ s. (Inr v, s)))"
        using prep Inr q st X ap assms(2) by (simp add: co_execute_def)
      have keep: "tx_store s' = tx_store s2" "tx_audit s' = tx_audit s2" "tx_files s' = tx_files s2"
        "\<And>v. res = Inr v \<Longrightarrow> y = Inr v"
      proof -
        show "tx_store s' = tx_store s2" "tx_audit s' = tx_audit s2" "tx_files s' = tx_files s2"
          using run by (cases y; auto simp: seq_def set_status_def split: sum.splits prod.splits if_splits)+
        show "res = Inr v \<Longrightarrow> y = Inr v" for v
          using run by (cases y) (auto simp: seq_def split: sum.splits prod.splits if_splits)
      qed
      show ?thesis using st2 keep k1 f2 q(2) by auto
    qed
  qed
qed


section \<open>A run touches no journal but its own\<close>

lemma journal_other:
  assumes "f \<noteq> path"
  shows "map_of (snd (journal_append env path tid st reason plan now dir)) f = map_of dir f"
proof (cases "map_of dir path")
  case (Some ls)
  with assms show ?thesis
    by (cases "journal_read env path dir") (simp_all add: journal_append_def pure_def Let_def)
qed (use assms in \<open>simp add: journal_append_def pure_def Let_def\<close>)

lemma set_status_other:
  assumes "f \<noteq> journal_file_of (co_jenv C) tid"
  shows "map_of (tx_journal (snd (set_status C tid st reason now s))) f = map_of (tx_journal s) f"
  using journal_other [OF assms]
  by (cases "journal_read (co_jenv C) (journal_file_of (co_jenv C) tid) (tx_journal s)")
     (auto simp: set_status_def journal_append_status_def journal_path_for_if pure_def)

lemma prepare_other:
  assumes "f \<noteq> journal_file_of env (jn_tid env plan)"
  shows "map_of (snd (journal_prepare env plan now dir)) f = map_of dir f"
  using journal_other [OF assms]
  by (cases "journal_read env (journal_file_of env (jn_tid env plan)) dir")
     (auto simp: journal_prepare_def journal_path_for_if pure_def)

lemma co_apply_journal: "tx_journal (snd (co_apply C now plan s)) = tx_journal s"
  by (auto simp: co_apply_def inject_def seq_def pure_def split: sum.splits prod.splits option.splits)

lemma co_execute_other:
  assumes f: "f \<noteq> journal_file_of (co_jenv C) (co_tid C plan)"
  shows "map_of (tx_journal (snd (co_execute C t plan s))) f = map_of (tx_journal s) f"
proof -
  let ?Q = "\<lambda>s'. map_of (tx_journal s') f = map_of (tx_journal s) f"
  have st: "?Q (snd (set_status C (co_tid C plan) st reason now s'))" if "?Q s'" for st reason now s'
    using set_status_other [OF f] that by simp
  have rest: "?Q (snd (seq (set_status C (co_tid C plan) APPLYING None (t 1) s') (\<lambda>_ s.
       seq (handle (co_apply C (t 2) plan s) (\<lambda>e s.
              if is_instance e ExceptionClass then
                (Inl e, snd (set_status C (co_tid C plan) RECONCILE_REQUIRED
                               (Some (class_name (exn_cls e))) (t 3) s))
              else (Inl e, s))) (\<lambda>v s.
       seq (set_status C (co_tid C plan) COMMITTED None (t 3) s) (\<lambda>_ s.
       (Inr v, s))))))" if "?Q s'" for s'
    using that by (intro seq_keeps [where Q = ?Q] handle_keeps [where Q = ?Q])
      (simp_all add: st co_apply_journal)
  show ?thesis
    unfolding co_execute_def
    by (rule seq_keeps [where Q = ?Q]) (use rest in \<open>simp_all add: prepare_other [OF f]\<close>)
qed

end
