(* ===== verification/DossierStore.thy ===== *)
theory DossierStore
  imports Domain
begin

text \<open>
  The local repositories of \<open>dossier/repository.py\<close> and \<open>dossier/migrations.py\<close>: file names,
  the bounded replace and lock loops, the dossier repository with its compare-and-swap save,
  schema migration on load, and the content-addressed snapshots.

  A repository directory maps file names to file contents. A section that the source runs
  under \<open>exclusive_file_lock\<close> is one atomic operation; the lock loop itself is modelled
  separately. The YAML text of a dossier is represented by what its parser returns
  (\<open>stored_yaml\<close>), which is where the third-party parser ends. The locale
  \<open>cas_repository\<close> is the contract the services rely on; \<open>ProgramStore\<close> interprets it on the
  enrollment repository as well.
\<close>

section \<open>File names, replace and lock loops\<close>

definition validate_project_id :: "string \<Rightarrow> string res" where
  "validate_project_id project_id =
     (if is_project_id project_id then Inr project_id
      else Inl (Exn DossierError ''invalid project_id''))"

definition dossier_path_for :: "string \<Rightarrow> string res" where
  "dossier_path_for project_id =
     (case validate_project_id project_id of
        Inl e \<Rightarrow> Inl e
      | Inr safe_project_id \<Rightarrow> Inr (''AXC-'' @ safe_project_id @ ''.axc.yaml''))"

definition ATOMIC_REPLACE_ATTEMPTS :: nat where
  "ATOMIC_REPLACE_ATTEMPTS = 6"

text \<open>
  \<open>os.replace\<close> at each attempt either works or raises; time is counted in units of the initial
  backoff of 20 ms. The result is what the loop returns and the time slept.
\<close>

fun replace_attempts :: "(nat \<Rightarrow> exn option) \<Rightarrow> nat \<Rightarrow> nat list \<Rightarrow> unit res \<times> nat" where
  "replace_attempts os_replace slept [] = (Inr (), slept)"
| "replace_attempts os_replace slept (attempt # rest) =
     (case os_replace attempt of
        None \<Rightarrow> (Inr (), slept)
      | Some e \<Rightarrow>
          if \<not> is_instance e PermissionError then (Inl e, slept)
          else if attempt + 1 = ATOMIC_REPLACE_ATTEMPTS then (Inl e, slept)
          else replace_attempts os_replace (slept + 2 ^ attempt) rest)"

definition replace_with_bounded_retry :: "(nat \<Rightarrow> exn option) \<Rightarrow> unit res \<times> nat" where
  "replace_with_bounded_retry os_replace = replace_attempts os_replace 0 [0..<ATOMIC_REPLACE_ATTEMPTS]"

lemma replace_attempts_iff:
  "xs \<noteq> [] \<Longrightarrow> Suc (last xs) = ATOMIC_REPLACE_ATTEMPTS \<Longrightarrow>
   ATOMIC_REPLACE_ATTEMPTS \<notin> Suc ` set (butlast xs) \<Longrightarrow>
   fst (replace_attempts os_replace slept xs) = Inr () \<longleftrightarrow>
   (\<exists>k < length xs. os_replace (xs ! k) = None \<and>
      (\<forall>j < k. \<exists>e. os_replace (xs ! j) = Some e \<and> is_instance e PermissionError))"
proof (induction xs arbitrary: slept)
  case (Cons a xs)
  show ?case
  proof (cases xs)
    case Nil
    then show ?thesis using Cons.prems by (auto split: option.splits)
  next
    case (Cons b ys)
    then have "fst (replace_attempts os_replace (slept + 2 ^ a) xs) = Inr () \<longleftrightarrow>
       (\<exists>k < length xs. os_replace (xs ! k) = None \<and>
          (\<forall>j < k. \<exists>e. os_replace (xs ! j) = Some e \<and> is_instance e PermissionError))"
      using Cons.prems by (intro Cons.IH) auto
    then show ?thesis
      using Cons Cons.prems
      by (cases "os_replace a") (simp_all add: Ex_less_Suc2 All_less_Suc2)
  qed
qed simp

lemma replace_succeeds_iff:
  "fst (replace_with_bounded_retry os_replace) = Inr () \<longleftrightarrow>
   (\<exists>k < ATOMIC_REPLACE_ATTEMPTS. os_replace k = None \<and>
      (\<forall>j < k. \<exists>e. os_replace j = Some e \<and> is_instance e PermissionError))"
proof -
  have six: "[0..<ATOMIC_REPLACE_ATTEMPTS] = [0, 1, 2, 3, 4, 5]"
    by (simp add: ATOMIC_REPLACE_ATTEMPTS_def upt_rec)
  have "fst (replace_with_bounded_retry os_replace) = Inr () \<longleftrightarrow>
    (\<exists>k < length [0..<ATOMIC_REPLACE_ATTEMPTS]. os_replace ([0..<ATOMIC_REPLACE_ATTEMPTS] ! k) = None \<and>
      (\<forall>j < k. \<exists>e. os_replace ([0..<ATOMIC_REPLACE_ATTEMPTS] ! j) = Some e \<and>
         is_instance e PermissionError))"
    unfolding replace_with_bounded_retry_def
    unfolding six by (rule replace_attempts_iff) (simp_all add: ATOMIC_REPLACE_ATTEMPTS_def)
  then show ?thesis by (auto simp: nth_upt)
qed

lemma replace_slept_bound: "snd (replace_with_bounded_retry os_replace) \<le> 31"
  by (simp add: replace_with_bounded_retry_def ATOMIC_REPLACE_ATTEMPTS_def upt_rec
      split: option.splits)

text \<open>
  The acquisition loop of \<open>exclusive_file_lock\<close>: \<open>attempt i\<close> is what opening the lock file gives at attempt \<open>i\<close>,
  the new file, \<open>FileExistsError\<close> or another error, and \<open>clock i\<close> the monotonic clock that is then read.  The
  result is the number of the attempt that got the lock, or what was raised.
\<close>

datatype lock_attempt = LockCreated | LockHeld | LockFails exn

partial_function (option) lock_loop ::
  "(nat \<Rightarrow> lock_attempt) \<Rightarrow> (nat \<Rightarrow> int) \<Rightarrow> int \<Rightarrow> nat \<Rightarrow> nat res option" where
  "lock_loop attempt clock deadline i =
     (case attempt i of
        LockCreated \<Rightarrow> Some (Inr i)
      | LockFails e \<Rightarrow> Some (Inl e)
      | LockHeld \<Rightarrow>
          if deadline \<le> clock i then
            Some (Inl (Exn FileLockTimeoutError ''timed out acquiring lock''))
          else lock_loop attempt clock deadline (Suc i))"

text \<open>How the loop ends at attempt \<open>n\<close>, after attempts that all found the lock held before the deadline.\<close>

definition lock_ends :: "(nat \<Rightarrow> lock_attempt) \<Rightarrow> (nat \<Rightarrow> int) \<Rightarrow> int \<Rightarrow> nat \<Rightarrow> nat \<Rightarrow> nat res \<Rightarrow> bool" where
  "lock_ends attempt clock deadline i n r \<longleftrightarrow>
     i \<le> n \<and> (\<forall>k. i \<le> k \<and> k < n \<longrightarrow> attempt k = LockHeld \<and> clock k < deadline) \<and>
     (case r of
        Inr k \<Rightarrow> k = n \<and> attempt n = LockCreated
      | Inl e \<Rightarrow> attempt n = LockFails e \<or>
          attempt n = LockHeld \<and> deadline \<le> clock n \<and> exn_cls e = FileLockTimeoutError)"

lemma lock_loop_reaches:
  assumes "deadline \<le> clock (i + m)"
  shows "\<exists>r n. lock_loop attempt clock deadline i = Some r \<and> lock_ends attempt clock deadline i n r"
  using assms
proof (induction m arbitrary: i)
  case 0
  then show ?case
    by (subst lock_loop.simps, intro exI [where x = i] exI [where x = "case attempt i of LockCreated \<Rightarrow> Inr i
        | LockFails e \<Rightarrow> Inl e | LockHeld \<Rightarrow> Inl (Exn FileLockTimeoutError ''timed out acquiring lock'')"])
      (auto simp: lock_ends_def split: lock_attempt.splits)
next
  case (Suc m)
  show ?case
  proof (cases "attempt i = LockHeld \<and> clock i < deadline")
    case True
    from Suc.IH [of "Suc i"] Suc.prems obtain r n where
      "lock_loop attempt clock deadline (Suc i) = Some r" "lock_ends attempt clock deadline (Suc i) n r"
      by auto
    moreover from this(2) True have "lock_ends attempt clock deadline i n r"
      unfolding lock_ends_def by (metis Suc_leD Suc_leI le_neq_implies_less)
    ultimately show ?thesis
      using True by (subst lock_loop.simps) auto
  next
    case False
    then show ?thesis
      by (subst lock_loop.simps, cases "attempt i")
        (auto simp: lock_ends_def intro!: exI [where x = i])
  qed
qed

lemma clock_advances:
  fixes clock :: "nat \<Rightarrow> int"
  assumes "\<And>i. clock i + poll \<le> clock (Suc i)"
  shows "clock i + int n * poll \<le> clock (i + n)"
proof (induction n)
  case (Suc n)
  then show ?case using assms [of "i + n"] by (simp add: algebra_simps)
qed simp

section \<open>Schema migration\<close>

text \<open>
  What the YAML parser returns for a dossier file: something that is no mapping, or a mapping
  with its \<open>schema_version\<close> entry and, when the remaining fields have the types of the
  schema, those fields (constraints are checked by \<open>model_validate\<close>).
\<close>

type_synonym raw_dossier = "string option \<times> project_dossier option"

datatype stored_yaml = NotAnObject | YamlObject raw_dossier

type_synonym migration = "raw_dossier \<Rightarrow> raw_dossier res"

type_synonym migration_registry = "((string \<times> string) \<times> migration) list"

definition register_migration ::
  "string \<Rightarrow> string \<Rightarrow> migration \<Rightarrow> migration_registry \<Rightarrow> (unit, migration_registry) outcome" where
  "register_migration from_version to_version m registry =
     (if map_of registry (from_version, to_version) \<noteq> None then
        (Inl (Exn ValueError ''dossier migration already registered''), registry)
      else if from_version = [] \<or> to_version = [] \<or> from_version = to_version then
        (Inl (Exn ValueError ''dossier migration versions must be distinct and non-empty''), registry)
      else (Inr (), dict_set (from_version, to_version) m registry))"

definition migrate ::
  "migration_registry \<Rightarrow> raw_dossier \<Rightarrow> string \<Rightarrow> string \<Rightarrow> raw_dossier res" where
  "migrate registry value' from_version to_version =
     (case map_of registry (from_version, to_version) of
        None \<Rightarrow> Inl (Exn KeyError ''dossier migration is not allowlisted'')
      | Some m \<Rightarrow>
          (case m value' of
             Inl e \<Rightarrow> Inl e
           | Inr candidate \<Rightarrow>
               if fst candidate \<noteq> Some to_version then
                 Inl (Exn ValueError ''dossier migration did not set the declared target version'')
               else Inr candidate))"

definition V1ALPHA1 :: string where
  "V1ALPHA1 = ''axcalib.dossier/v1alpha1''"

definition migrate_v1alpha1_to_v1alpha2 :: migration where
  "migrate_v1alpha1_to_v1alpha2 value' =
     (if fst value' \<noteq> Some V1ALPHA1 then
        Inl (Exn ValueError ''v1alpha1 migration received a different schema version'')
      else Inr (Some CURRENT_DOSSIER_SCHEMA, snd value'))"

definition default_dossier_migrations :: migration_registry where
  "default_dossier_migrations =
     snd (register_migration V1ALPHA1 CURRENT_DOSSIER_SCHEMA migrate_v1alpha1_to_v1alpha2 [])"

section \<open>Dossier repository\<close>

type_synonym dossier_dir = "string \<Rightarrow> stored_yaml option"

text \<open>\<open>ProjectDossier.model_validate\<close>; a missing \<open>schema_version\<close> takes its default.\<close>

definition dossier_model_validate :: "raw_dossier \<Rightarrow> project_dossier res" where
  "dossier_model_validate raw =
     (case snd raw of
        None \<Rightarrow> Inl (Exn ValidationError ''ProjectDossier'')
      | Some d \<Rightarrow>
          (let d' = d\<lparr>pd_schema_version :=
                      (case fst raw of None \<Rightarrow> CURRENT_DOSSIER_SCHEMA | Some v \<Rightarrow> v)\<rparr>
           in if dossier_valid d' then Inr d' else Inl (Exn ValidationError ''ProjectDossier'')))"

definition dossier_from_raw :: "raw_dossier \<Rightarrow> project_dossier res" where
  "dossier_from_raw raw =
     (if fst raw = Some V1ALPHA1 then
        (case migrate default_dossier_migrations raw V1ALPHA1 CURRENT_DOSSIER_SCHEMA of
           Inl e \<Rightarrow> Inl e
         | Inr raw' \<Rightarrow> dossier_model_validate raw')
      else if fst raw \<noteq> Some CURRENT_DOSSIER_SCHEMA then
        Inl (Exn DossierError ''unsupported dossier schema version'')
      else dossier_model_validate raw)"

definition dossier_load :: "string \<Rightarrow> dossier_dir \<Rightarrow> project_dossier res" where
  "dossier_load project_id dir =
     (case dossier_path_for project_id of
        Inl e \<Rightarrow> Inl e
      | Inr path \<Rightarrow>
          (case dir path of
             None \<Rightarrow> Inl (Exn DossierNotFoundError ''dossier not found'')
           | Some NotAnObject \<Rightarrow> Inl (Exn DossierError ''dossier YAML root must be an object'')
           | Some (YamlObject raw) \<Rightarrow>
               (case dossier_from_raw raw of
                  Inl e \<Rightarrow> Inl e
                | Inr d \<Rightarrow>
                    if pd_project_id d \<noteq> project_id then
                      Inl (Exn DossierError
                        ''dossier content project_id does not match its repository path'')
                    else Inr d)))"

text \<open>\<open>_write\<close>: the dumped mapping carries the dossier's own \<open>schema_version\<close>.\<close>

definition dossier_write :: "string \<Rightarrow> project_dossier \<Rightarrow> dossier_dir \<Rightarrow> dossier_dir" where
  "dossier_write path d dir = dir(path \<mapsto> YamlObject (Some (pd_schema_version d), Some d))"

definition dossier_create :: "project_dossier \<Rightarrow> dossier_dir \<Rightarrow> (string, dossier_dir) outcome" where
  "dossier_create d dir =
     seq (pure (dossier_path_for (pd_project_id d)) dir) (\<lambda>path dir.
     if dir path \<noteq> None then
       (Inl (Exn DossierAlreadyExistsError ''dossier already exists''), dir)
     else (Inr path, dossier_write path d dir))"

definition dossier_save ::
  "project_dossier \<Rightarrow> int \<Rightarrow> int \<Rightarrow> dossier_dir \<Rightarrow> (project_dossier, dossier_dir) outcome" where
  "dossier_save d expected_revision now dir =
     seq (pure (dossier_path_for (pd_project_id d)) dir) (\<lambda>path dir.
     seq (pure (dossier_load (pd_project_id d) dir) dir) (\<lambda>current dir.
     if pd_revision current \<noteq> expected_revision then
       (Inl (Exn RevisionConflictError ''expected revision; current revision is''), dir)
     else
       (let updated = d\<lparr>pd_revision := expected_revision + 1, pd_updated_at := now\<rparr>
        in (Inr updated, dossier_write path updated dir))))"

section \<open>Snapshot repository\<close>

record snapshot_envelope =
  se_snapshot_id :: string
  se_dossier_revision :: int
  se_dossier_sha256 :: string
  se_dossier :: project_dossier

text \<open>A snapshot file holds an envelope or other text.\<close>

type_synonym snapshot_dir = "string \<Rightarrow> snapshot_envelope option option"

definition snapshot_freeze ::
  "(project_dossier \<Rightarrow> string) \<Rightarrow> string \<Rightarrow> project_dossier \<Rightarrow> snapshot_dir \<Rightarrow>
   (snapshot_ref, snapshot_dir) outcome" where
  "snapshot_freeze dossier_sha256 root_dir d dir =
     seq (pure (validate_project_id (pd_project_id d)) dir) (\<lambda>_ dir.
     let digest = dossier_sha256 d;
         snapshot_id = ''snap-'' @ pd_project_id d @ ''-'' @ str_int (pd_revision d) @ ''-'' @
           take 12 digest;
         path = snapshot_id @ ''.json'';
         content = \<lparr>se_snapshot_id = snapshot_id, se_dossier_revision = pd_revision d,
                    se_dossier_sha256 = digest, se_dossier = d\<rparr>;
         ref' = \<lparr>sn_snapshot_id = snapshot_id, sn_dossier_revision = pd_revision d,
                 sn_dossier_sha256 = digest, sn_uri = root_dir @ ''/'' @ path\<rparr>
     in case dir path of
          None \<Rightarrow> (Inr ref', dir(path \<mapsto> Some content))
        | Some existing \<Rightarrow>
            if existing \<noteq> Some content then
              (Inl (Exn DossierError ''immutable snapshot integrity failure''), dir)
            else (Inr ref', dir))"

section \<open>The compare-and-swap contract\<close>

text \<open>
  What a client of a repository with revisions may rely on. \<open>ok\<close> is the model's validity, which
  a save that skips validation does not check but the next load does.
\<close>

locale cas_repository =
  fixes load :: "'k \<Rightarrow> 's \<Rightarrow> 'v res"
    and save :: "'v \<Rightarrow> int \<Rightarrow> int \<Rightarrow> 's \<Rightarrow> ('v, 's) outcome"
    and key :: "'v \<Rightarrow> 'k"
    and rev_of :: "'v \<Rightarrow> int"
    and ok :: "'v \<Rightarrow> bool"
    and stale :: exn_class
  assumes save_current:
      "load (key v) s = Inr c \<Longrightarrow> rev_of c = r \<Longrightarrow> \<exists>v' s'. save v r now s = (Inr v', s')"
    and save_returns:
      "save v r now s = (Inr v', s') \<Longrightarrow>
       (\<exists>c. load (key v) s = Inr c \<and> rev_of c = r) \<and> key v' = key v \<and> rev_of v' = r + 1 \<and>
       (ok v \<longrightarrow> 0 \<le> r \<longrightarrow> ok v' \<and> load (key v) s' = Inr v')"
    and save_raises: "save v r now s = (Inl e, s') \<Longrightarrow> s' = s"
    and save_stale:
      "load (key v) s = Inr c \<Longrightarrow> rev_of c \<noteq> r \<Longrightarrow> \<exists>m. save v r now s = (Inl (Exn stale m), s)"
    and save_other: "save v r now s = (res, s') \<Longrightarrow> k \<noteq> key v \<Longrightarrow> load k s' = load k s"

text \<open>Writers that each hold a value, the revision they loaded and a clock reading.\<close>

fun save_all ::
  "('v \<Rightarrow> int \<Rightarrow> int \<Rightarrow> 's \<Rightarrow> ('v, 's) outcome) \<Rightarrow> ('v \<times> int \<times> int) list \<Rightarrow> 's \<Rightarrow> 'v res list \<times> 's"
where
  "save_all save [] s = ([], s)"
| "save_all save ((v, r, now) # ws) s =
     (let rest = save_all save ws (snd (save v r now s))
      in (fst (save v r now s) # fst rest, snd rest))"

lemma length_save_all: "length (fst (save_all save ws s)) = length ws"
  by (induction save ws s rule: save_all.induct) (simp_all add: Let_def)

context cas_repository
begin

lemma stale_writers:
  "load k s = Inr c \<Longrightarrow> \<forall>(v, r, now) \<in> set ws. key v = k \<and> r \<noteq> rev_of c \<Longrightarrow>
   list_all (\<lambda>r. \<exists>m. r = Inl (Exn stale m)) (fst (save_all save ws s)) \<and>
   snd (save_all save ws s) = s"
proof (induction ws)
  case (Cons w ws)
  obtain v r now where w: "w = (v, r, now)" by (cases w)
  with Cons.prems have "key v = k" "rev_of c \<noteq> r" by auto
  with Cons.prems(1) obtain m where "save v r now s = (Inl (Exn stale m), s)"
    using save_stale by blast
  with Cons w show ?case by (simp add: Let_def)
qed simp

text \<open>Of any writers that loaded the same revision, the first one wins and the others get the
  stale-revision error; nothing they wrote survives.\<close>

lemma one_winner:
  assumes "load k s = Inr c" and "key v = k" "ok v" "0 \<le> rev_of c"
    and ws: "\<forall>(w, r, t) \<in> set ws. key w = k \<and> r = rev_of c"
  shows "\<exists>v' s'. save v (rev_of c) now s = (Inr v', s') \<and> load k s' = Inr v' \<and>
    rev_of v' = rev_of c + 1 \<and>
    (\<exists>rs. save_all save ((v, rev_of c, now) # ws) s = (Inr v' # rs, s') \<and>
       list_all (\<lambda>r. \<exists>m. r = Inl (Exn stale m)) rs \<and> length rs = length ws)"
proof -
  obtain v' s' where sv: "save v (rev_of c) now s = (Inr v', s')"
    using save_current assms by blast
  with save_returns assms have v': "rev_of v' = rev_of c + 1" "load k s' = Inr v'" by blast+
  have "\<forall>(w, r, t) \<in> set ws. key w = k \<and> r \<noteq> rev_of v'"
    using ws v'(1) by auto
  from stale_writers [OF v'(2) this]
  have "list_all (\<lambda>r. \<exists>m. r = Inl (Exn stale m)) (fst (save_all save ws s'))"
    "snd (save_all save ws s') = s'" by auto
  moreover have "length (fst (save_all save ws s')) = length ws"
    by (rule length_save_all)
  ultimately show ?thesis
    using sv v' by (simp add: Let_def)
qed

text \<open>Saves never lower a revision.\<close>

lemma revision_grows:
  assumes "save v r now s = (res, s')" "ok v" "0 \<le> r" "load k s = Inr c"
  shows "\<exists>c'. load k s' = Inr c' \<and> rev_of c \<le> rev_of c'"
proof (cases "k = key v")
  case False
  then show ?thesis using save_other assms by fastforce
next
  case True
  show ?thesis
  proof (cases res)
    case (Inl e)
    then show ?thesis using save_raises assms by blast
  next
    case (Inr v')
    with save_returns assms have sv: "\<exists>c. load (key v) s = Inr c \<and> rev_of c = r"
      "rev_of v' = r + 1" "load (key v) s' = Inr v'" by blast+
    with assms(4) True show ?thesis by auto
  qed
qed

end

section \<open>The dossier repository meets it\<close>

abbreviation dossier_file :: "string \<Rightarrow> string" where
  "dossier_file p \<equiv> ''AXC-'' @ p @ ''.axc.yaml''"

lemma dossier_path_for_if:
  "dossier_path_for p =
     (if is_project_id p then Inr (dossier_file p)
      else Inl (Exn DossierError ''invalid project_id''))"
  by (simp add: dossier_path_for_def validate_project_id_def)

lemma migrate_current:
  "dossier_from_raw (Some V1ALPHA1, body) = dossier_from_raw (Some CURRENT_DOSSIER_SCHEMA, body)"
  by (simp add: dossier_from_raw_def default_dossier_migrations_def register_migration_def
      migrate_def migrate_v1alpha1_to_v1alpha2_def V1ALPHA1_def CURRENT_DOSSIER_SCHEMA_def)

lemma dossier_from_raw_valid: "dossier_from_raw raw = Inr d \<Longrightarrow> dossier_valid d"
  by (auto simp: dossier_from_raw_def dossier_model_validate_def Let_def
      split: if_splits option.splits sum.splits)

lemma dossier_load_valid:
  "dossier_load p dir = Inr d \<Longrightarrow> dossier_valid d \<and> pd_project_id d = p \<and> is_project_id p"
  by (auto simp: dossier_load_def dossier_path_for_if dest: dossier_from_raw_valid
      split: sum.splits option.splits stored_yaml.splits if_splits)

lemma dossier_from_raw_dump:
  "dossier_valid d \<Longrightarrow> dossier_from_raw (Some (pd_schema_version d), Some d) = Inr d"
  by (auto simp: dossier_from_raw_def dossier_model_validate_def Let_def dossier_valid_def
      V1ALPHA1_def CURRENT_DOSSIER_SCHEMA_def)

lemma dossier_load_written:
  assumes "dossier_valid d"
  shows "dossier_load (pd_project_id d) (dossier_write (dossier_file (pd_project_id d)) d dir) = Inr d"
  using dossier_from_raw_dump [OF assms] assms
  by (simp add: dossier_load_def dossier_write_def dossier_path_for_if)
     (simp add: dossier_valid_def)

lemma dossier_load_other:
  assumes "p \<noteq> pd_project_id d"
  shows "dossier_load p (dossier_write (dossier_file (pd_project_id d)) d dir) = dossier_load p dir"
  using assms by (simp add: dossier_load_def dossier_write_def dossier_path_for_if)

lemma dossier_save_Inr:
  "dossier_save d r now dir = (Inr d', dir') \<longleftrightarrow>
   is_project_id (pd_project_id d) \<and>
   (\<exists>c. dossier_load (pd_project_id d) dir = Inr c \<and> pd_revision c = r) \<and>
   d' = d\<lparr>pd_revision := r + 1, pd_updated_at := now\<rparr> \<and>
   dir' = dossier_write (dossier_file (pd_project_id d)) d' dir"
  by (auto simp: dossier_save_def outcome_simps Let_def dossier_path_for_if split: if_splits)

lemma dossier_save_Inl: "dossier_save d r now dir = (Inl e, dir') \<Longrightarrow> dir' = dir"
  by (auto simp: dossier_save_def outcome_simps Let_def split: if_splits)

interpretation dossiers: cas_repository dossier_load dossier_save pd_project_id pd_revision
  dossier_valid RevisionConflictError
proof
  fix v :: project_dossier and s c r now
  assume "dossier_load (pd_project_id v) s = Inr c" "pd_revision c = r"
  then show "\<exists>v' s'. dossier_save v r now s = (Inr v', s')"
    using dossier_load_valid by (auto simp: dossier_save_Inr)
next
  fix v :: project_dossier and r now s v' s'
  assume sv: "dossier_save v r now s = (Inr v', s')"
  then show "(\<exists>c. dossier_load (pd_project_id v) s = Inr c \<and> pd_revision c = r) \<and>
       pd_project_id v' = pd_project_id v \<and> pd_revision v' = r + 1 \<and>
       (dossier_valid v \<longrightarrow> 0 \<le> r \<longrightarrow> dossier_valid v' \<and> dossier_load (pd_project_id v) s' = Inr v')"
    using dossier_load_written [of v'] dossier_valid_save [of v "r + 1" now]
    by (auto simp: dossier_save_Inr)
next
  fix v :: project_dossier and r now s e s'
  assume "dossier_save v r now s = (Inl e, s')"
  then show "s' = s" by (rule dossier_save_Inl)
next
  fix v :: project_dossier and s c r now
  assume "dossier_load (pd_project_id v) s = Inr c" "pd_revision c \<noteq> r"
  then show "\<exists>m. dossier_save v r now s = (Inl (Exn RevisionConflictError m), s)"
    using dossier_load_valid
    by (auto simp: dossier_save_def dossier_path_for_if pure_def)
next
  fix v :: project_dossier and r now s res s' k
  assume sv: "dossier_save v r now s = (res, s')" and k: "k \<noteq> pd_project_id v"
  show "dossier_load k s' = dossier_load k s"
  proof (cases res)
    case (Inl e)
    with sv show ?thesis by (auto dest: dossier_save_Inl)
  next
    case (Inr v')
    with sv k dossier_load_other [of k v' s] show ?thesis by (auto simp: dossier_save_Inr)
  qed
qed

section \<open>Properties\<close>

lemma dossier_create_cases:
  "dossier_create d dir = (Inr path, dir') \<longleftrightarrow>
     is_project_id (pd_project_id d) \<and> path = dossier_file (pd_project_id d) \<and>
     dir path = None \<and> dir' = dossier_write path d dir"
  "dossier_create d dir = (Inl e, dir') \<Longrightarrow> dir' = dir"
  by (auto simp: dossier_create_def outcome_simps dossier_path_for_if split: if_splits)

text \<open>
  C10. Of any number of writers that loaded the same revision of a dossier and save in turn, the
  first one succeeds, what it saved is what the next load returns, one revision higher, and
  every other writer gets the revision conflict: no update is lost or overwritten.
\<close>

theorem dossier_one_winner:
  assumes "dossier_load k dir = Inr c" and "pd_project_id d = k" and "dossier_valid d"
    and "\<forall>(w, r, t) \<in> set ws. pd_project_id w = k \<and> r = pd_revision c"
  shows "\<exists>d' dir' rs. save_all dossier_save ((d, pd_revision c, now) # ws) dir = (Inr d' # rs, dir') \<and>
    dossier_load k dir' = Inr d' \<and>
    d' = d\<lparr>pd_revision := pd_revision c + 1, pd_updated_at := now\<rparr> \<and> length rs = length ws \<and>
    list_all (\<lambda>r. \<exists>m. r = Inl (Exn RevisionConflictError m)) rs"
proof -
  have "0 \<le> pd_revision c"
    using dossier_load_valid [OF assms(1)] by (simp add: dossier_valid_def)
  from dossiers.one_winner [OF assms(1-3) this assms(4), of now] obtain d' dir' where
    "dossier_save d (pd_revision c) now dir = (Inr d', dir')" "dossier_load k dir' = Inr d'"
    "\<exists>rs. save_all dossier_save ((d, pd_revision c, now) # ws) dir = (Inr d' # rs, dir') \<and>
       list_all (\<lambda>r. \<exists>m. r = Inl (Exn RevisionConflictError m)) rs \<and> length rs = length ws"
    by blast
  then show ?thesis by (auto simp: dossier_save_Inr)
qed

lemma demo_dossier_load:
  "dossier_load ''p'' (dossier_write (dossier_file ''p'') (demo_dossier ''p'' es) dir) =
     Inr (demo_dossier ''p'' es)"
  using dossier_load_written [of "demo_dossier ''p'' es" dir] by simp

theorem dossier_one_winner_witness:
  "\<exists>d' dir' rs.
     save_all dossier_save [(demo_dossier ''p'' [''e1''], 1, 5), (demo_dossier ''p'' [''e2''], 1, 6)]
       (dossier_write (dossier_file ''p'') (demo_dossier ''p'' []) Map.empty) = (Inr d' # rs, dir') \<and>
     dossier_load ''p'' dir' = Inr d' \<and> pd_revision d' = 2 \<and> pd_audit_event_ids d' = [''e1''] \<and>
     (\<exists>m. rs = [Inl (Exn RevisionConflictError m)])"
  using dossier_one_winner [OF demo_dossier_load [of "[]" Map.empty],
      of "demo_dossier ''p'' [''e1'']" "[(demo_dossier ''p'' [''e2''], 1, 6)]" 5]
  by (auto simp: length_Suc_conv)

text \<open>
  Creating a dossier never touches an existing file: it either changes nothing and raises, or
  it writes the only new file, after which the dossier loads as it was given.
\<close>

theorem dossier_create_once:
  assumes "dossier_create d dir = (res, dir')" and "dossier_valid d"
  shows "case res of
      Inl e \<Rightarrow> dir' = dir
    | Inr path \<Rightarrow> dir path = None \<and> (\<forall>p. p \<noteq> path \<longrightarrow> dir' p = dir p) \<and>
        dossier_load (pd_project_id d) dir' = Inr d \<and>
        dossier_create d dir' = (Inl (Exn DossierAlreadyExistsError ''dossier already exists''), dir')"
proof (cases res)
  case (Inl e)
  with assms show ?thesis by (auto dest: dossier_create_cases(2))
next
  case (Inr path)
  with assms have new: "path = dossier_file (pd_project_id d)" "dir path = None"
    "dir' = dossier_write path d dir" "is_project_id (pd_project_id d)"
    by (auto simp: dossier_create_cases)
  then have "dossier_create d dir' =
      (Inl (Exn DossierAlreadyExistsError ''dossier already exists''), dir')"
    by (simp add: dossier_create_def dossier_path_for_if pure_def dossier_write_def)
  with new Inr dossier_load_written [OF assms(2), of dir] show ?thesis
    by (auto simp: dossier_write_def)
qed

theorem dossier_create_once_witness:
  "\<exists>dir'. dossier_create (demo_dossier ''p'' [''e'']) Map.empty = (Inr (dossier_file ''p''), dir') \<and>
     dossier_load ''p'' dir' = Inr (demo_dossier ''p'' [''e''])"
proof -
  have run: "dossier_create (demo_dossier ''p'' [''e'']) Map.empty = (Inr (dossier_file ''p''),
      dossier_write (dossier_file ''p'') (demo_dossier ''p'' [''e'']) Map.empty)"
    by (simp add: dossier_create_cases)
  from dossier_create_once [OF run] run show ?thesis by simp
qed

text \<open>
  Snapshots are immutable: freezing keeps every snapshot file as it is; when it returns, the
  named file holds exactly the given dossier under its revision and digest, and freezing the
  same dossier again returns the same reference and changes nothing.
\<close>

theorem snapshot_freeze_immutable:
  assumes "snapshot_freeze h root_dir d dir = (res, dir')"
  shows "(\<forall>path c. dir path = Some c \<longrightarrow> dir' path = Some c) \<and>
    (case res of
       Inl e \<Rightarrow> dir' = dir
     | Inr ref' \<Rightarrow>
         dir' (sn_snapshot_id ref' @ ''.json'') =
           Some (Some \<lparr>se_snapshot_id = sn_snapshot_id ref', se_dossier_revision = pd_revision d,
                       se_dossier_sha256 = h d, se_dossier = d\<rparr>) \<and>
         sn_dossier_revision ref' = pd_revision d \<and> sn_dossier_sha256 ref' = h d \<and>
         snapshot_freeze h root_dir d dir' = (Inr ref', dir'))"
  using assms
  by (auto simp: snapshot_freeze_def Let_def outcome_simps pure_def seq_def validate_project_id_def
      split: sum.splits option.splits if_splits prod.splits)

theorem snapshot_freeze_immutable_witness:
  "\<exists>ref' dir'. snapshot_freeze (\<lambda>d. demo_sha) ''s'' (demo_dossier ''p'' []) Map.empty = (Inr ref', dir') \<and>
     snapshot_freeze (\<lambda>d. demo_sha) ''s'' (demo_dossier ''p'' []) dir' = (Inr ref', dir')"
proof -
  obtain ref' dir' where run:
    "snapshot_freeze (\<lambda>d. demo_sha) ''s'' (demo_dossier ''p'' []) Map.empty = (Inr ref', dir')"
    by (auto simp: snapshot_freeze_def Let_def validate_project_id_def pure_def)
  from snapshot_freeze_immutable [OF run] run show ?thesis by simp
qed

text \<open>
  C21. With a monotonic clock that advances by at least the poll interval from one attempt to the next, acquiring a
  file lock always ends: with the lock, at an attempt that created the lock file; with the error of an attempt that
  failed otherwise; or with the timeout error, and then only at an attempt that found the lock held once the clock
  had reached the start plus the timeout.  Every earlier attempt found the lock held before that instant, so there
  are at most as many of them as poll intervals begin within the timeout, 200 for the defaults of 10 s and 50 ms.
\<close>

theorem lock_acquisition_ends:
  assumes "\<And>i. clock i + poll \<le> clock (Suc i)" and "0 < poll" and "start \<le> clock 0" and "0 \<le> timeout"
  shows "\<exists>r n. lock_loop attempt clock (start + timeout) 0 = Some r \<and> (n = 0 \<or> int (n - 1) * poll < timeout) \<and>
    (\<forall>k < n. attempt k = LockHeld \<and> clock k < start + timeout) \<and>
    (case r of
       Inr k \<Rightarrow> k = n \<and> attempt n = LockCreated
     | Inl e \<Rightarrow> attempt n = LockFails e \<or>
         attempt n = LockHeld \<and> start + timeout \<le> clock n \<and> exn_cls e = FileLockTimeoutError)"
proof -
  have far: "start + int n * poll \<le> clock n" for n
    using clock_advances [of clock poll 0 n] assms(1,3) by simp
  have "timeout \<le> int (nat timeout) * poll" using assms(2,4) by (simp add: mult_le_cancel_left1)
  with far [of "nat timeout"] have "start + timeout \<le> clock (0 + nat timeout)" by simp
  from lock_loop_reaches [where clock = clock and i = 0 and m = "nat timeout", OF this, of attempt] obtain r n where
    r: "lock_loop attempt clock (start + timeout) 0 = Some r" "lock_ends attempt clock (start + timeout) 0 n r" by blast
  have "int (n - 1) * poll < timeout" if "n \<noteq> 0"
  proof -
    have "clock (n - 1) < start + timeout" using that r(2) by (simp add: lock_ends_def)
    with far [of "n - 1"] show ?thesis by linarith
  qed
  moreover have "\<forall>k < n. attempt k = LockHeld \<and> clock k < start + timeout" using r(2) by (simp add: lock_ends_def)
  moreover note conjunct2 [OF conjunct2 [OF r(2) [unfolded lock_ends_def]]]
  ultimately show ?thesis
    by (intro exI [where x = r] exI [where x = n] conjI r(1)) (blast, assumption+)
qed

text \<open>The lock is held for three attempts.\<close>

definition demo_lock :: "nat \<Rightarrow> lock_attempt" where
  "demo_lock i = (if i < 3 then LockHeld else LockCreated)"

theorem lock_acquisition_ends_witness:
  "lock_loop demo_lock (\<lambda>i. 50 * int i) (0 + 10000) 0 = Some (Inr 3)"
proof -
  from lock_acquisition_ends [of "\<lambda>i. 50 * int i" 50 0 10000 demo_lock]
  obtain r n where r: "lock_loop demo_lock (\<lambda>i. 50 * int i) (0 + 10000) 0 = Some r"
      "\<forall>k < n. demo_lock k = LockHeld \<and> 50 * int k < 0 + 10000"
      "case r of Inr k \<Rightarrow> k = n \<and> demo_lock n = LockCreated | Inl e \<Rightarrow> demo_lock n = LockFails e \<or>
         demo_lock n = LockHeld \<and> 0 + 10000 \<le> 50 * int n \<and> exn_cls e = FileLockTimeoutError"
    by auto
  have "\<not> 3 < n" using r(2) by (auto simp: demo_lock_def)
  with r(1,3) show ?thesis by (cases r) (auto simp: demo_lock_def split: if_splits)
qed

end
