(* ===== verification/ProjectTransactions.thy ===== *)
theory ProjectTransactions
  imports Coordinator DossierStore
begin

text \<open>
  The project transactions of \<open>runtime/transactions.py\<close>: the plan with its validators, the
  repository step \<open>_ensure_dossier\<close>, the artifact requirements, and the coordinator's public
  operations as instances of the protocol of \<open>Coordinator\<close>.

  A \<open>tx_env\<close> holds what depends on SHA-256 (of the canonical JSON of a journal event, a dossier,
  and a dossier without its \<open>updated_at\<close>; of a text; of a file's bytes) and the injected
  failure callback.
\<close>

section \<open>Plans\<close>

datatype tx_operation = OP_CREATE | OP_UPDATE

record project_plan =
  pp_transaction_id :: string
  pp_operation :: tx_operation
  pp_project_id :: string
  pp_command :: string
  pp_idempotency_key :: string
  pp_base_revision :: int
  pp_target_revision :: int
  pp_base_dossier_sha256 :: "string option"
  pp_candidate_dossier :: project_dossier
  pp_audit_event :: audit_event
  pp_required_artifacts :: "artifact_requirement list"

text \<open>The field constraints and \<open>validate_plan_integrity\<close>.\<close>

definition plan_integrity :: "project_plan \<Rightarrow> bool" where
  "plan_integrity p \<longleftrightarrow>
     (let candidate = pp_candidate_dossier p; event = pp_audit_event p in
      pd_project_id candidate = pp_project_id p \<and> ae_project_id event = pp_project_id p \<and>
      ae_event_id event \<in> set (pd_audit_event_ids candidate) \<and>
      ae_dossier_revision event = pp_target_revision p \<and>
      (case pp_operation p of
         OP_CREATE \<Rightarrow> pp_base_revision p = 0 \<and> pp_target_revision p = 1 \<and>
           pd_revision candidate = 1 \<and> pp_base_dossier_sha256 p = None
       | OP_UPDATE \<Rightarrow> pp_target_revision p = pp_base_revision p + 1 \<and>
           pd_revision candidate = pp_base_revision p \<and> pp_base_dossier_sha256 p \<noteq> None))"

definition plan_constructible :: "project_plan \<Rightarrow> bool" where
  "plan_constructible p \<longleftrightarrow>
     is_transaction_id (pp_transaction_id p) \<and>
     1 \<le> length (pp_command p) \<and> length (pp_command p) \<le> 200 \<and>
     1 \<le> length (pp_idempotency_key p) \<and> length (pp_idempotency_key p) \<le> 128 \<and>
     0 \<le> pp_base_revision p \<and> 1 \<le> pp_target_revision p \<and>
     pred_option is_sha256 (pp_base_dossier_sha256 p) \<and> plan_integrity p"

text \<open>
  The constructor takes the nested dossier, event and requirements as the instances they are;
  reading a plan back from a journal line validates them as well.
\<close>

definition plan_readable :: "project_plan \<Rightarrow> bool" where
  "plan_readable p \<longleftrightarrow> plan_constructible p \<and> dossier_valid (pp_candidate_dossier p) \<and>
     audit_event_valid (pp_audit_event p) \<and> list_all requirement_valid (pp_required_artifacts p)"

record tx_env =
  tx_sha_event :: "project_plan journal_event \<Rightarrow> string"
  tx_sha_text :: "string \<Rightarrow> string"
  tx_sha_dossier :: "project_dossier \<Rightarrow> string"
  tx_sha_semantic :: "project_dossier \<Rightarrow> string"
  tx_sha_file :: "file_content \<Rightarrow> string"
  tx_inject :: "string \<Rightarrow> exn option"

definition tx_jenv :: "tx_env \<Rightarrow> project_plan journal_env" where
  "tx_jenv env = \<lparr>jn_sha_event = tx_sha_event env, jn_sha_text = tx_sha_text env,
     jn_plan_ok = plan_readable, jn_tid = pp_transaction_id\<rparr>"

text \<open>The digest of the dump with \<open>revision\<close> set to the target and \<open>updated_at\<close> removed.\<close>

definition target_semantic_sha256 :: "tx_env \<Rightarrow> project_dossier \<Rightarrow> int \<Rightarrow> string" where
  "target_semantic_sha256 env d target_revision =
     tx_sha_semantic env (d\<lparr>pd_revision := target_revision, pd_updated_at := 0\<rparr>)"

section \<open>Requirements\<close>

definition verify_requirement ::
  "tx_env \<Rightarrow> file_tree \<Rightarrow> artifact_requirement \<Rightarrow> unit res" where
  "verify_requirement env files r =
     (case files (tr_relative_path r) of
        Some Escaping \<Rightarrow> Inl (tx_blocked ''artifact_path_escape'')
      | None \<Rightarrow> Inl (tx_blocked (''missing_'' @ kind_value (tr_kind r)))
      | Some (RegularFile content) \<Rightarrow>
          if tx_sha_file env content \<noteq> tr_sha256 r then
            Inl (tx_blocked (''changed_'' @ kind_value (tr_kind r)))
          else if truthy (tr_expected_report_id r) \<or> truthy (tr_expected_delivery_status r) then
            (case content of
               JsonText (JObj members) \<Rightarrow>
                 if tr_expected_report_id r \<noteq> None \<and>
                    json_get members ''report_id'' \<noteq> JStr (the (tr_expected_report_id r)) then
                   Inl (tx_blocked ''report_id_mismatch'')
                 else if tr_expected_delivery_status r \<noteq> None \<and>
                    json_get members ''delivery_status'' \<noteq> JStr (the (tr_expected_delivery_status r)) then
                   Inl (tx_blocked ''notification_not_recorded'')
                 else Inr ()
             | _ \<Rightarrow> Inl (tx_blocked (''invalid_'' @ kind_value (tr_kind r))))
          else Inr ())"

fun verify_requirements ::
  "tx_env \<Rightarrow> file_tree \<Rightarrow> artifact_requirement list \<Rightarrow> unit res" where
  "verify_requirements env files [] = Inr ()"
| "verify_requirements env files (r # rs) =
     (case verify_requirement env files r of
        Inl e \<Rightarrow> Inl e | Inr _ \<Rightarrow> verify_requirements env files rs)"

text \<open>\<open>require_file\<close>; \<open>relative\<close> is the path relative to the workspace, if it lies inside.\<close>

definition require_file ::
  "tx_env \<Rightarrow> file_tree \<Rightarrow> string option \<Rightarrow> artifact_kind \<Rightarrow> string option \<Rightarrow> string option \<Rightarrow>
   artifact_requirement res" where
  "require_file env files relative kind report_id delivery_status =
     (case relative of
        None \<Rightarrow> Inl (Exn TransactionError ''transaction artifact is outside the workspace'')
      | Some path \<Rightarrow>
          (case files path of
             Some (RegularFile content) \<Rightarrow>
               make_requirement kind path (tx_sha_file env content) report_id delivery_status
           | _ \<Rightarrow> Inl (tx_blocked (''missing_'' @ kind_value kind))))"

section \<open>The repository step\<close>

definition verify_target :: "tx_env \<Rightarrow> project_dossier \<Rightarrow> project_plan \<Rightarrow> unit res" where
  "verify_target env d p =
     (if pd_revision d \<noteq> pp_target_revision p then
        Inl (tx_blocked ''dossier_target_revision_mismatch'')
      else if ae_event_id (pp_audit_event p) \<notin> set (pd_audit_event_ids d) then
        Inl (tx_blocked ''dossier_target_missing_event'')
      else if target_semantic_sha256 env d (pd_revision d) \<noteq>
              target_semantic_sha256 env (pp_candidate_dossier p) (pp_target_revision p) then
        Inl (tx_blocked ''dossier_target_hash_mismatch'')
      else Inr ())"

definition ensure_dossier ::
  "tx_env \<Rightarrow> project_plan \<Rightarrow> int \<Rightarrow> dossier_dir \<Rightarrow> (project_dossier \<times> bool, dossier_dir) outcome" where
  "ensure_dossier env p now dir =
     seq (pure (dossier_path_for (pp_project_id p)) dir) (\<lambda>path dir.
     case pp_operation p of
       OP_CREATE \<Rightarrow>
         if dir path = None then
           seq (dossier_create (pp_candidate_dossier p) dir) (\<lambda>_ dir.
           (Inr (pp_candidate_dossier p, True), dir))
         else
           seq (pure (dossier_load (pp_project_id p) dir) dir) (\<lambda>current dir.
           seq (pure (verify_target env current p) dir) (\<lambda>_ dir.
           (Inr (current, False), dir)))
     | OP_UPDATE \<Rightarrow>
         seq (pure (dossier_load (pp_project_id p) dir) dir) (\<lambda>current dir.
         if pd_revision current = pp_base_revision p then
           if Some (tx_sha_dossier env current) \<noteq> pp_base_dossier_sha256 p then
             (Inl (tx_blocked ''base_dossier_hash_mismatch''), dir)
           else
             seq (dossier_save (pp_candidate_dossier p) (pp_base_revision p) now dir) (\<lambda>saved dir.
             seq (pure (verify_target env saved p) dir) (\<lambda>_ dir.
             (Inr (saved, True), dir)))
         else if pp_target_revision p \<le> pd_revision current then
           if ae_event_id (pp_audit_event p) \<notin> set (pd_audit_event_ids current) then
             (Inl (tx_blocked ''target_revision_missing_event''), dir)
           else
             seq (if pd_revision current = pp_target_revision p
                  then pure (verify_target env current p) dir else (Inr (), dir)) (\<lambda>_ dir.
             (Inr (current, False), dir))
         else (Inl (tx_blocked ''dossier_revision_conflict''), dir)))"

section \<open>The coordinator\<close>

type_synonym project_ws = "(project_plan, audit_event, dossier_dir) tx_state"

definition project_coordinator ::
  "tx_env \<Rightarrow> (project_plan, audit_event, dossier_dir, project_dossier) coordinator" where
  "project_coordinator env =
     \<lparr>co_jenv = tx_jenv env, co_owner = pp_project_id, co_event = pp_audit_event,
      co_event_id = ae_event_id,
      co_verify = (\<lambda>p files. verify_requirements env files (pp_required_artifacts p)),
      co_ensure = ensure_dossier env, co_load = (\<lambda>p. dossier_load (pp_project_id p)),
      co_store_name = ''dossier'', co_inject = tx_inject env\<rparr>"

definition tx_execute ::
  "tx_env \<Rightarrow> (nat \<Rightarrow> int) \<Rightarrow> project_plan \<Rightarrow> project_ws \<Rightarrow> (project_dossier, project_ws) outcome" where
  "tx_execute env = co_execute (project_coordinator env)"

definition tx_reconcile ::
  "tx_env \<Rightarrow> (nat \<Rightarrow> int) \<Rightarrow> string \<Rightarrow> project_ws \<Rightarrow> (reconciliation_result, project_ws) outcome" where
  "tx_reconcile env = co_reconcile (project_coordinator env)"

definition tx_reconcile_all ::
  "tx_env \<Rightarrow> (nat \<Rightarrow> nat \<Rightarrow> int) \<Rightarrow> project_ws \<Rightarrow> (reconciliation_result list, project_ws) outcome" where
  "tx_reconcile_all env = co_reconcile_all (project_coordinator env)"

definition construct_plan :: "project_plan \<Rightarrow> project_plan res" where
  "construct_plan p =
     (if plan_constructible p then Inr p else Inl (Exn ValidationError ''ProjectTransactionPlan''))"

definition execute_create ::
  "tx_env \<Rightarrow> (nat \<Rightarrow> int) \<Rightarrow> project_dossier \<Rightarrow> audit_event \<Rightarrow> string \<Rightarrow> string \<Rightarrow>
   artifact_requirement list \<Rightarrow> project_ws \<Rightarrow> (project_dossier, project_ws) outcome" where
  "execute_create env t d event command idempotency_key required ws =
     seq (pure (construct_plan
            \<lparr>pp_transaction_id = ''txn-'' @ ae_event_id event, pp_operation = OP_CREATE,
             pp_project_id = pd_project_id d, pp_command = command,
             pp_idempotency_key = idempotency_key, pp_base_revision = 0, pp_target_revision = 1,
             pp_base_dossier_sha256 = None, pp_candidate_dossier = d, pp_audit_event = event,
             pp_required_artifacts = required\<rparr>) ws) (\<lambda>plan ws.
     tx_execute env t plan ws)"

definition execute_update ::
  "tx_env \<Rightarrow> (nat \<Rightarrow> int) \<Rightarrow> project_dossier \<Rightarrow> int \<Rightarrow> audit_event \<Rightarrow> string \<Rightarrow> string \<Rightarrow>
   artifact_requirement list \<Rightarrow> project_ws \<Rightarrow> (project_dossier, project_ws) outcome" where
  "execute_update env t d expected_revision event command idempotency_key required ws =
     seq (pure (dossier_load (pd_project_id d) (tx_store ws)) ws) (\<lambda>base ws.
     if pd_revision base \<noteq> expected_revision then
       (Inl (Exn TransactionConflictError ''expected revision; current revision is''), ws)
     else
       seq (pure (construct_plan
              \<lparr>pp_transaction_id = ''txn-'' @ ae_event_id event, pp_operation = OP_UPDATE,
               pp_project_id = pd_project_id d, pp_command = command,
               pp_idempotency_key = idempotency_key, pp_base_revision = expected_revision,
               pp_target_revision = expected_revision + 1,
               pp_base_dossier_sha256 = Some (tx_sha_dossier env base),
               pp_candidate_dossier = d, pp_audit_event = event,
               pp_required_artifacts = required\<rparr>) ws) (\<lambda>plan ws.
       tx_execute env t plan ws))"

section \<open>Committed anchors\<close>

text \<open>
  The journals under \<open>archive/\<close>, by their directory; \<open>None\<close> is a journal file that resolves
  outside of the archive.
\<close>

type_synonym archive = "(string \<times> project_plan journal_dir) option list"

fun archived_records ::
  "tx_env \<Rightarrow> (string \<times> project_plan journal_dir) list \<Rightarrow> project_plan journal_record list res" where
  "archived_records env [] = Inr []"
| "archived_records env ((parent, dir) # ps) =
     (case journal_records (tx_jenv env) dir of
        Inl e \<Rightarrow> Inl e
      | Inr rs \<Rightarrow> (case archived_records env ps of Inl e \<Rightarrow> Inl e | Inr rs' \<Rightarrow> Inr (rs @ rs')))"

definition artifact_matches ::
  "string \<Rightarrow> artifact_kind \<Rightarrow> string \<Rightarrow> string option \<Rightarrow> project_plan journal_record list \<Rightarrow> string list" where
  "artifact_matches project_id kind path report_id records =
     remdups (concat (map (\<lambda>r. map tr_sha256 (filter (\<lambda>q. tr_kind q = kind \<and>
         tr_relative_path q = path \<and>
         (report_id = None \<or> tr_expected_report_id q = report_id)) (pp_required_artifacts (jr_plan r))))
       (filter (\<lambda>r. latest_status r = COMMITTED \<and> pp_project_id (jr_plan r) = project_id) records)))"

definition expected_artifact_sha256 ::
  "tx_env \<Rightarrow> archive \<Rightarrow> project_plan journal_dir \<Rightarrow> string \<Rightarrow> artifact_kind \<Rightarrow> string \<Rightarrow>
   string option \<Rightarrow> string option res" where
  "expected_artifact_sha256 env archive journal project_id kind relative_path report_id =
     (case validate_relative_path relative_path of
        Inl e \<Rightarrow> Inl e
      | Inr path \<Rightarrow>
     (case journal_records (tx_jenv env) journal of
        Inl e \<Rightarrow> Inl e
      | Inr active \<Rightarrow>
     (if list_ex (\<lambda>x. x = None) archive then
        Inl (Exn TransactionIntegrityError
          ''archived transaction journal escapes the workspace archive'')
      else
     (case archived_records env (sort_key fst (map the archive)) of
        Inl e \<Rightarrow> Inl e
      | Inr archived \<Rightarrow>
     (case artifact_matches project_id kind path report_id (active @ archived) of
        [] \<Rightarrow> Inr None
      | [sha] \<Rightarrow> Inr (Some sha)
      | _ \<Rightarrow> Inl (Exn TransactionIntegrityError
               ''committed transaction journals disagree on an artifact hash''))))))"

text \<open>What an anchor is: a requirement of a plan of the project whose journal, active or archived, says committed.\<close>

definition committed_requirement ::
  "tx_env \<Rightarrow> archive \<Rightarrow> project_plan journal_dir \<Rightarrow> string \<Rightarrow> artifact_requirement \<Rightarrow> bool" where
  "committed_requirement env archive journal project_id q \<longleftrightarrow>
     (\<exists>active archived r. journal_records (tx_jenv env) journal = Inr active \<and>
        archived_records env (sort_key fst (map the archive)) = Inr archived \<and>
        r \<in> set active \<union> set archived \<and> latest_status r = COMMITTED \<and>
        pp_project_id (jr_plan r) = project_id \<and> q \<in> set (pp_required_artifacts (jr_plan r)))"

lemma expected_artifact_Some:
  assumes "expected_artifact_sha256 env archive journal project_id kind relative (Some rid) = Inr (Some sha)"
  shows "\<exists>q. committed_requirement env archive journal project_id q \<and> tr_kind q = kind \<and>
    validate_relative_path relative = Inr (tr_relative_path q) \<and> tr_expected_report_id q = Some rid \<and> tr_sha256 q = sha"
proof -
  obtain path active archived where reads: "validate_relative_path relative = Inr path"
      "journal_records (tx_jenv env) journal = Inr active"
      "archived_records env (sort_key fst (map the archive)) = Inr archived"
    and one: "artifact_matches project_id kind path (Some rid) (active @ archived) = [sha]"
    using assms by (auto simp: expected_artifact_sha256_def split: sum.splits if_splits list.splits)
  from one have "sha \<in> set (artifact_matches project_id kind path (Some rid) (active @ archived))" by simp
  with reads show ?thesis
    by (fastforce simp: artifact_matches_def committed_requirement_def)
qed

section \<open>The repository step meets the protocol's contract\<close>

definition plan_applicable :: "tx_env \<Rightarrow> project_plan \<Rightarrow> dossier_dir \<Rightarrow> bool" where
  "plan_applicable env p dir \<longleftrightarrow>
     (case pp_operation p of
        OP_CREATE \<Rightarrow> dir (dossier_file (pp_project_id p)) = None
      | OP_UPDATE \<Rightarrow> (\<exists>c. dossier_load (pp_project_id p) dir = Inr c \<and>
          pd_revision c = pp_base_revision p \<and> pp_base_dossier_sha256 p = Some (tx_sha_dossier env c)))"

definition target_dossier :: "project_plan \<Rightarrow> int \<Rightarrow> project_dossier" where
  "target_dossier p now =
     (case pp_operation p of
        OP_CREATE \<Rightarrow> pp_candidate_dossier p
      | OP_UPDATE \<Rightarrow> (pp_candidate_dossier p)
          \<lparr>pd_revision := pp_target_revision p, pd_updated_at := now\<rparr>)"

definition plan_effect :: "project_plan \<Rightarrow> int \<Rightarrow> dossier_dir \<Rightarrow> dossier_dir" where
  "plan_effect p now dir = dossier_write (dossier_file (pp_project_id p)) (target_dossier p now) dir"

definition plan_applied :: "project_plan \<Rightarrow> dossier_dir \<Rightarrow> bool" where
  "plan_applied p dir \<longleftrightarrow>
     (\<exists>c. dossier_load (pp_project_id p) dir = Inr c \<and>
        ae_event_id (pp_audit_event p) \<in> set (pd_audit_event_ids c) \<and>
        pp_target_revision p \<le> pd_revision c)"

lemma plan_readable_facts:
  assumes "plan_readable p"
  shows "plan_integrity p" "dossier_valid (pp_candidate_dossier p)"
    "is_project_id (pp_project_id p)" "pd_project_id (pp_candidate_dossier p) = pp_project_id p"
    "ae_event_id (pp_audit_event p) \<in> set (pd_audit_event_ids (pp_candidate_dossier p))"
    "1 \<le> pp_target_revision p" "is_transaction_id (pp_transaction_id p)"
  using assms
  by (auto simp: plan_readable_def plan_constructible_def plan_integrity_def dossier_valid_def Let_def)

lemma target_dossier_facts:
  assumes "plan_readable p"
  shows "dossier_valid (target_dossier p now)" "pd_project_id (target_dossier p now) = pp_project_id p"
    "pd_revision (target_dossier p now) = pp_target_revision p"
    "verify_target env (target_dossier p now) p = Inr ()"
    "ae_event_id (pp_audit_event p) \<in> set (pd_audit_event_ids (target_dossier p now))"
proof -
  note f = plan_readable_facts [OF assms]
  show valid: "dossier_valid (target_dossier p now)"
    using f by (auto simp: target_dossier_def dossier_valid_save split: tx_operation.split)
  show "pd_project_id (target_dossier p now) = pp_project_id p"
    using f by (auto simp: target_dossier_def split: tx_operation.split)
  show rv: "pd_revision (target_dossier p now) = pp_target_revision p"
    using f(1) by (auto simp: target_dossier_def plan_integrity_def Let_def split: tx_operation.splits)
  show ids: "ae_event_id (pp_audit_event p) \<in> set (pd_audit_event_ids (target_dossier p now))"
    using f by (auto simp: target_dossier_def split: tx_operation.split)
  have "(target_dossier p now)\<lparr>pd_revision := pp_target_revision p, pd_updated_at := 0\<rparr> =
      (pp_candidate_dossier p)\<lparr>pd_revision := pp_target_revision p, pd_updated_at := 0\<rparr>"
    by (auto simp: target_dossier_def split: tx_operation.split)
  with rv ids show "verify_target env (target_dossier p now) p = Inr ()"
    by (simp add: verify_target_def target_semantic_sha256_def)
qed

lemma load_plan_effect:
  assumes "plan_readable p"
  shows "dossier_load (pp_project_id p) (plan_effect p now dir) = Inr (target_dossier p now)"
  using dossier_load_written [OF target_dossier_facts(1) [OF assms], of now dir]
    target_dossier_facts(2) [OF assms, of now]
  by (simp add: plan_effect_def)

lemma ensure_dossier_fresh:
  assumes ok: "plan_readable p" and ap: "plan_applicable env p dir"
  shows "ensure_dossier env p now dir = (Inr (target_dossier p now, True), plan_effect p now dir)"
proof (cases "pp_operation p")
  case OP_CREATE
  with ap plan_readable_facts [OF ok] show ?thesis
    by (simp add: ensure_dossier_def pure_def dossier_path_for_if plan_applicable_def
        dossier_create_def plan_effect_def target_dossier_def)
next
  case OP_UPDATE
  note f = plan_readable_facts [OF ok]
  obtain c where c: "dossier_load (pp_project_id p) dir = Inr c" "pd_revision c = pp_base_revision p"
    "pp_base_dossier_sha256 p = Some (tx_sha_dossier env c)"
    using ap OP_UPDATE by (auto simp: plan_applicable_def)
  have tr: "pp_target_revision p = pp_base_revision p + 1"
    using f(1) OP_UPDATE by (simp add: plan_integrity_def Let_def)
  have save: "dossier_save (pp_candidate_dossier p) (pp_base_revision p) now dir =
      (Inr (target_dossier p now), plan_effect p now dir)"
    using f c tr OP_UPDATE by (simp add: dossier_save_Inr target_dossier_def plan_effect_def)
  show ?thesis
    using OP_UPDATE c save f(3) target_dossier_facts(4) [OF ok, of env now]
    by (simp add: ensure_dossier_def pure_def dossier_path_for_if)
qed

lemma ensure_dossier_again:
  assumes ok: "plan_readable p"
  shows "ensure_dossier env p now' (plan_effect p now dir) =
    (Inr (target_dossier p now, False), plan_effect p now dir)"
proof -
  note f = plan_readable_facts [OF ok] and t = target_dossier_facts [OF ok, where now = now]
  have present: "plan_effect p now dir (dossier_file (pp_project_id p)) =
      Some (YamlObject (Some (pd_schema_version (target_dossier p now)), Some (target_dossier p now)))"
    by (simp add: plan_effect_def dossier_write_def)
  show ?thesis
  proof (cases "pp_operation p")
    case OP_CREATE
    with present f(3) load_plan_effect [OF ok, of now dir] t(4) [of env] show ?thesis
      by (simp add: ensure_dossier_def pure_def dossier_path_for_if)
  next
    case OP_UPDATE
    have "pp_target_revision p = pp_base_revision p + 1"
      using f(1) OP_UPDATE by (simp add: plan_integrity_def Let_def)
    with OP_UPDATE f(3) load_plan_effect [OF ok, of now dir] t show ?thesis
      by (simp add: ensure_dossier_def pure_def dossier_path_for_if)
  qed
qed

lemma ensure_dossier_raises:
  assumes ok: "plan_readable p" and run: "ensure_dossier env p now dir = (Inl e, dir')"
  shows "dir' = dir"
proof (cases "plan_applicable env p dir")
  case True
  with ensure_dossier_fresh [OF ok] run show ?thesis by simp
next
  case False
  with run show ?thesis
    by (cases "pp_operation p")
       (auto simp: ensure_dossier_def outcome_simps plan_applicable_def dossier_path_for_if
         split: if_splits)
qed

lemma ensure_dossier_applied:
  assumes ok: "plan_readable p" and run: "ensure_dossier env p now dir = (Inr (v, b), dir')"
  shows "plan_applied p dir' \<and> (\<not> b \<longrightarrow> dir' = dir)"
proof (cases "plan_applicable env p dir")
  case True
  with ensure_dossier_fresh [OF ok] run load_plan_effect [OF ok] target_dossier_facts [OF ok]
  show ?thesis by (auto simp: plan_applied_def)
next
  case False
  with run show ?thesis
    by (cases "pp_operation p")
       (auto simp: ensure_dossier_def outcome_simps plan_applicable_def dossier_path_for_if
         plan_applied_def verify_target_def split: if_splits)
qed

lemma project_coordinator_simps [simp]:
  "co_jenv (project_coordinator env) = tx_jenv env"
  "co_owner (project_coordinator env) = pp_project_id"
  "co_event (project_coordinator env) = pp_audit_event"
  "co_event_id (project_coordinator env) = ae_event_id"
  "co_verify (project_coordinator env) p files = verify_requirements env files (pp_required_artifacts p)"
  "co_ensure (project_coordinator env) = ensure_dossier env"
  "co_store_name (project_coordinator env) = ''dossier''"
  "co_inject (project_coordinator env) = tx_inject env"
  "co_load (project_coordinator env) p = dossier_load (pp_project_id p)"
  by (simp_all add: project_coordinator_def)

lemma tx_jenv_simps [simp]:
  "jn_plan_ok (tx_jenv env) = plan_readable" "jn_tid (tx_jenv env) = pp_transaction_id"
  "jn_sha_event (tx_jenv env) = tx_sha_event env" "jn_sha_text (tx_jenv env) = tx_sha_text env"
  by (simp_all add: tx_jenv_def)

interpretation project: recoverable_store "project_coordinator env" "plan_applicable env"
  plan_effect plan_applied
proof
  fix p d now now' v b d' e
  assume ok: "jn_plan_ok (co_jenv (project_coordinator env)) p"
  then have r: "plan_readable p" by simp
  show "plan_applicable env p d \<Longrightarrow>
      \<exists>v. co_ensure (project_coordinator env) p now d = (Inr (v, True), plan_effect p now d)"
    using ensure_dossier_fresh [OF r] by auto
  show "plan_applicable env p d \<Longrightarrow>
      \<exists>v. co_ensure (project_coordinator env) p now' (plan_effect p now d) =
        (Inr (v, False), plan_effect p now d)"
    using ensure_dossier_again [OF r] by auto
  show "co_ensure (project_coordinator env) p now d = (Inl e, d') \<Longrightarrow> d' = d"
    using ensure_dossier_raises [OF r] by simp
  show "co_ensure (project_coordinator env) p now d = (Inr (v, b), d') \<Longrightarrow>
      plan_applied p d' \<and> (\<not> b \<longrightarrow> d' = d)"
    using ensure_dossier_applied [OF r] by simp
qed

section \<open>An example workspace\<close>

definition demo_tx_env :: tx_env where
  "demo_tx_env =
     \<lparr>tx_sha_event = (\<lambda>_. demo_sha), tx_sha_text = (\<lambda>t. t), tx_sha_dossier = (\<lambda>_. demo_sha),
      tx_sha_semantic = (\<lambda>_. demo_sha), tx_sha_file = (\<lambda>_. demo_sha), tx_inject = (\<lambda>_. None)\<rparr>"

definition demo_requirement :: artifact_requirement where
  "demo_requirement =
     \<lparr>tr_kind = REPORT_JSON, tr_relative_path = ''r'', tr_sha256 = demo_sha,
      tr_expected_report_id = None, tr_expected_delivery_status = None\<rparr>"

definition demo_plan :: project_plan where
  "demo_plan =
     \<lparr>pp_transaction_id = ''t1'', pp_operation = OP_CREATE, pp_project_id = ''p'', pp_command = ''c'',
      pp_idempotency_key = ''k'', pp_base_revision = 0, pp_target_revision = 1,
      pp_base_dossier_sha256 = None, pp_candidate_dossier = demo_dossier ''p'' [''e''],
      pp_audit_event = demo_event ''e'' ''p'' 1, pp_required_artifacts = [demo_requirement]\<rparr>"

definition demo_ws :: project_ws where
  "demo_ws = \<lparr>tx_journal = [], tx_audit = [], tx_store = Map.empty,
     tx_files = [''r'' \<mapsto> RegularFile (OtherText ''x'')]\<rparr>"

lemma demo_env_ok [simp]: "env_ok (tx_jenv demo_tx_env)"
  by (simp add: env_ok_def demo_tx_env_def)

lemma demo_plan_readable [simp]: "plan_readable demo_plan"
  using demo_tid
  by (simp add: plan_readable_def plan_constructible_def plan_integrity_def demo_plan_def
      demo_event_def audit_event_valid_def requirement_valid_def demo_requirement_def
      make_requirement_def validate_relative_path_def Let_def)

lemma demo_ready: "ready (project_coordinator demo_tx_env) (plan_applicable demo_tx_env) demo_plan demo_ws"
  using demo_tid demo_plan_readable
  by (simp add: ready_def demo_ws_def plan_applicable_def verify_requirement_def)
     (simp add: demo_plan_def demo_tx_env_def demo_requirement_def verify_requirement_def)

lemma demo_plan_fields [simp]:
  "pp_transaction_id demo_plan = ''t1''" "pp_project_id demo_plan = ''p''"
  "pp_required_artifacts demo_plan = [demo_requirement]"
  by (simp_all add: demo_plan_def)

section \<open>Properties\<close>

lemma verify_requirement_inject:
  "verify_requirement (env\<lparr>tx_inject := fault\<rparr>) files r = verify_requirement env files r"
  by (simp add: verify_requirement_def split: option.split file_entry.split)

lemma verify_requirements_inject:
  "verify_requirements (env\<lparr>tx_inject := fault\<rparr>) files rs = verify_requirements env files rs"
  by (induction rs) (simp_all add: verify_requirement_inject split: sum.split)

lemma verify_requirements_bad:
  "q \<in> set rs \<Longrightarrow> verify_requirement env files q \<noteq> Inr () \<Longrightarrow>
   \<exists>e. verify_requirements env files rs = Inl e"
  by (induction rs) (auto split: sum.splits)

lemma plan_load_finished:
  assumes "finished (project_coordinator env) plan_effect plan ws ws'" "plan_readable plan"
  shows "\<exists>now. dossier_load (pp_project_id plan) (tx_store ws') = Inr (target_dossier plan now) \<and>
    tx_audit ws' = tx_audit ws @ [EventLine (pp_audit_event plan)] \<and> tx_files ws' = tx_files ws"
  using assms(1) load_plan_effect [OF assms(2)] by (auto simp: finished_def progress_def)

text \<open>
  C2. Crash recovery. Run a plan that is ready in \<open>ws\<close> with any failure injected at any boundary,
  an error that the coordinator sees or the death of the process; one reconciliation then ends
  committed, the dossier is the plan's target, the audit log has exactly one new line, the plan's
  event, the transaction's journal record reads back with this plan and COMMITTED as its last status,
  no other file changed, and a second reconciliation answers that it is already committed and
  changes nothing.
\<close>

theorem crash_recovery:
  assumes "ready (project_coordinator env) (plan_applicable env) plan ws"
    and "tx_execute (env\<lparr>tx_inject := fault\<rparr>) t plan ws = (res, ws1)"
  shows "\<exists>r ws2 now recorded r'. tx_reconcile env t' (pp_transaction_id plan) ws1 = (Inr r, ws2) \<and>
    rr_status r \<in> {RECONCILED_COMMITTED, ALREADY_COMMITTED} \<and>
    dossier_load (pp_project_id plan) (tx_store ws2) = Inr (target_dossier plan now) \<and>
    tx_store ws2 = plan_effect plan now (tx_store ws) \<and>
    tx_audit ws2 = tx_audit ws @ [EventLine (pp_audit_event plan)] \<and>
    journal_load (tx_jenv env) (pp_transaction_id plan) (tx_journal ws2) = Inr recorded \<and>
    jr_plan recorded = plan \<and> latest_status recorded = COMMITTED \<and>
    tx_files ws2 = tx_files ws \<and>
    tx_reconcile env t'' (pp_transaction_id plan) ws2 = (Inr r', ws2) \<and> rr_status r' = ALREADY_COMMITTED"
proof -
  let ?env = "env\<lparr>tx_inject := fault\<rparr>"
  have sha: "verify_requirements ?env files rs = verify_requirements env files rs" for files rs
    by (rule verify_requirements_inject)
  have same: "tx_jenv ?env = tx_jenv env" "plan_applicable ?env = plan_applicable env"
    by (simp_all add: tx_jenv_def fun_eq_iff plan_applicable_def split: tx_operation.split)
  have "ready (project_coordinator ?env) (plan_applicable ?env) plan ws"
    using assms(1) by (simp add: ready_def same sha)
  from project.execute_mid(1) [OF this, of t] assms(2)
  have "mid_transaction (project_coordinator ?env) plan_effect plan ws ws1"
    by (simp add: tx_execute_def)
  then have mid: "mid_transaction (project_coordinator env) plan_effect plan ws ws1"
    by (simp add: mid_transaction_def progress_def same cong: if_cong)
  have ok: "plan_readable plan" using assms(1) by (simp add: ready_def)
  from project.reconcile_mid [OF assms(1) mid, of t'] obtain r ws2 where
    "tx_reconcile env t' (pp_transaction_id plan) ws1 = (Inr r, ws2)"
    "rr_status r \<in> {RECONCILED_COMMITTED, ALREADY_COMMITTED}"
    and fin: "finished (project_coordinator env) plan_effect plan ws ws2"
    by (auto simp: tx_reconcile_def)
  moreover obtain r' where "tx_reconcile env t'' (pp_transaction_id plan) ws2 = (Inr r', ws2)"
    "rr_status r' = ALREADY_COMMITTED"
    using project.reconcile_finished [OF fin, of t''] by (auto simp: tx_reconcile_def)
  moreover obtain recorded where "journal_load (tx_jenv env) (pp_transaction_id plan) (tx_journal ws2) = Inr recorded"
    "jr_plan recorded = plan" "latest_status recorded = COMMITTED"
    using fin holds_load [of "tx_jenv env"] by (fastforce simp: finished_def)
  ultimately show ?thesis
    using load_plan_effect [OF ok] by (auto simp: finished_def progress_def)
qed

theorem crash_recovery_witness:
  "\<exists>r ws2. tx_reconcile demo_tx_env int ''t1''
       (snd (tx_execute (demo_tx_env\<lparr>tx_inject := (\<lambda>b. if b = ''after_dossier''
          then Some (Exn KeyboardInterrupt []) else None)\<rparr>) int demo_plan demo_ws)) = (Inr r, ws2) \<and>
     rr_status r \<noteq> RECONCILED_BLOCKED \<and>
     tx_audit ws2 = [EventLine (pp_audit_event demo_plan)]"
proof -
  obtain res ws1 where run: "tx_execute (demo_tx_env\<lparr>tx_inject := (\<lambda>b. if b = ''after_dossier''
          then Some (Exn KeyboardInterrupt []) else None)\<rparr>) int demo_plan demo_ws = (res, ws1)"
    by fastforce
  from crash_recovery [OF demo_ready run, of int int] run show ?thesis
    by (auto simp: demo_ws_def)
qed

text \<open>
  An execution that returns is complete: the dossier is the plan's target, the event is the
  one new audit line, and the journal says committed; executing the same plan again returns the
  dossier and changes nothing.
\<close>

theorem execute_commits:
  assumes "ready (project_coordinator env) (plan_applicable env) plan ws"
    and "tx_execute env t plan ws = (Inr d, ws1)"
  shows "\<exists>now. dossier_load (pp_project_id plan) (tx_store ws1) = Inr (target_dossier plan now) \<and>
    tx_audit ws1 = tx_audit ws @ [EventLine (pp_audit_event plan)] \<and>
    tx_execute env t' plan ws1 = (Inr (target_dossier plan now), ws1)"
proof -
  have ok: "plan_readable plan" using assms(1) by (simp add: ready_def)
  have fin: "finished (project_coordinator env) plan_effect plan ws ws1"
    using project.execute_mid(2) [OF assms(1), of t d] assms(2) by (simp add: tx_execute_def)
  obtain now where now: "dossier_load (pp_project_id plan) (tx_store ws1) = Inr (target_dossier plan now)"
    "tx_audit ws1 = tx_audit ws @ [EventLine (pp_audit_event plan)]"
    using plan_load_finished [OF fin ok] by blast
  obtain r where r: "holds (tx_jenv env) (tx_journal ws1) r" "jr_plan r = plan" "latest_status r = COMMITTED"
    using fin by (auto simp: finished_def)
  have "journal_prepare (tx_jenv env) plan (t' 0) (tx_journal ws1) = (Inr r, tx_journal ws1)"
    using prepare_again [OF r(1), of plan "t' 0"] r(2) by simp
  with r now show ?thesis
    by (auto simp: tx_execute_def co_execute_def pure_def)
qed

lemma demo_execute: "\<exists>d ws1. tx_execute demo_tx_env int demo_plan demo_ws = (Inr d, ws1)"
proof -
  let ?C = "project_coordinator demo_tx_env" and ?r0 = "prepared_record (tx_jenv demo_tx_env) demo_plan 0"
  let ?s0 = "demo_ws\<lparr>tx_journal := extended_dir (tx_jenv demo_tx_env) ?r0 []\<rparr>"
  have plan: "jn_plan_ok (tx_jenv demo_tx_env) demo_plan"
    and tid: "is_transaction_id (jn_tid (tx_jenv demo_tx_env) demo_plan)"
    using demo_tid by simp_all
  have prep: "journal_prepare (tx_jenv demo_tx_env) demo_plan 0 [] =
      (Inr ?r0, extended_dir (tx_jenv demo_tx_env) ?r0 [])"
    using prepare_new [OF demo_env_ok plan tid, of "[]" 0] by simp
  have h0: "holds (tx_jenv demo_tx_env) (tx_journal ?s0) ?r0"
    using holds_extended_dir [OF record_ok_prepared [OF demo_env_ok plan]] tid by simp
  obtain r1 j1 where st1: "set_status ?C ''t1'' APPLYING None 1 ?s0 = (Inr r1, ?s0\<lparr>tx_journal := j1\<rparr>)"
    "holds (tx_jenv demo_tx_env) j1 r1" "jr_plan r1 = demo_plan" "latest_status r1 = APPLYING"
    using set_status_next [of ?C ?s0 ?r0 None "''t1''" APPLYING 1] h0 by auto
  obtain v ws2 where ap: "co_apply ?C 2 demo_plan (demo_ws\<lparr>tx_journal := j1\<rparr>) = (Inr v, ws2)"
    "tx_journal ws2 = j1"
  proof -
    have "ensure_dossier demo_tx_env demo_plan 2 Map.empty =
        (Inr (target_dossier demo_plan 2, True), plan_effect demo_plan 2 Map.empty)"
      using demo_ready by (intro ensure_dossier_fresh) (simp_all add: ready_def demo_ws_def)
    moreover have "verify_requirement demo_tx_env [''r'' \<mapsto> RegularFile (OtherText ''x'')]
        demo_requirement = Inr ()"
      by (simp add: verify_requirement_def demo_requirement_def demo_tx_env_def)
    moreover have "tx_inject demo_tx_env b = None" for b by (simp add: demo_tx_env_def)
    ultimately show thesis
      using that by (simp add: co_apply_def inject_def pure_def demo_ws_def append_once_eq)
  qed
  obtain r3 j3 where "set_status ?C ''t1'' COMMITTED None 3 ws2 = (Inr r3, ws2\<lparr>tx_journal := j3\<rparr>)"
    using set_status_next [of ?C ws2 r1 None "''t1''" COMMITTED 3] st1(2-4) ap(2) by auto
  with prep st1(1) ap(1) show ?thesis
    by (simp add: tx_execute_def co_execute_def) (simp add: demo_ws_def)
qed

theorem execute_commits_witness:
  "\<exists>d ws1 d'. tx_execute demo_tx_env int demo_plan demo_ws = (Inr d, ws1) \<and>
     tx_execute demo_tx_env int demo_plan ws1 = (Inr d', ws1) \<and>
     tx_audit ws1 = [EventLine (demo_event ''e'' ''p'' 1)]"
proof -
  obtain d ws1 where run: "tx_execute demo_tx_env int demo_plan demo_ws = (Inr d, ws1)"
    using demo_execute by blast
  from execute_commits [OF demo_ready run, of int] run show ?thesis
    by (auto simp: demo_ws_def demo_plan_def)
qed

text \<open>
  Reconciliation is honest and safe, in any workspace whatsoever: reported as committed, the
  dossier loads with the event listed and at least the target revision, and the readable audit
  log contains the event; reported as blocked, neither the dossiers nor the audit log have
  changed; reported as already committed, nothing at all has.
\<close>

theorem reconcile_honest:
  assumes "env_ok (tx_jenv env)" and "tx_reconcile env t tid ws = (Inr r, ws')"
  shows "\<exists>q. journal_load (tx_jenv env) tid (tx_journal ws) = Inr q \<and>
    (case rr_status r of
       ALREADY_COMMITTED \<Rightarrow> latest_status q = COMMITTED \<and> ws' = ws
     | RECONCILED_COMMITTED \<Rightarrow>
         (\<exists>c. dossier_load (pp_project_id (jr_plan q)) (tx_store ws') = Inr c \<and>
            ae_event_id (pp_audit_event (jr_plan q)) \<in> set (pd_audit_event_ids c) \<and>
            pp_target_revision (jr_plan q) \<le> pd_revision c) \<and>
         (\<exists>es. audit_read (tx_audit ws') = Inr es \<and> pp_audit_event (jr_plan q) \<in> set es)
     | RECONCILED_BLOCKED \<Rightarrow> tx_store ws' = tx_store ws \<and> tx_audit ws' = tx_audit ws)"
  using project.reconcile_outcome [of env t tid ws r ws'] assms
  by (auto simp: tx_reconcile_def plan_applied_def split: reconciliation_status.splits)

definition demo_prepared_ws :: "file_tree \<Rightarrow> project_ws" where
  "demo_prepared_ws files =
     \<lparr>tx_journal = extended_dir (tx_jenv demo_tx_env)
        (prepared_record (tx_jenv demo_tx_env) demo_plan 0) [],
      tx_audit = [], tx_store = Map.empty, tx_files = files\<rparr>"

lemma demo_prepared_holds:
  "holds (tx_jenv demo_tx_env) (tx_journal (demo_prepared_ws files))
     (prepared_record (tx_jenv demo_tx_env) demo_plan 0)"
  using demo_tid
  by (simp add: demo_prepared_ws_def holds_extended_dir record_ok_prepared)

theorem reconcile_honest_witness:
  "\<exists>r ws'. tx_reconcile demo_tx_env int ''t1'' (demo_prepared_ws (tx_files demo_ws)) = (Inr r, ws') \<and>
     rr_status r = RECONCILED_COMMITTED \<and>
     (\<exists>es. audit_read (tx_audit ws') = Inr es \<and> pp_audit_event demo_plan \<in> set es)"
proof -
  let ?ws = "demo_prepared_ws (tx_files demo_ws)"
  let ?q = "prepared_record (tx_jenv demo_tx_env) demo_plan 0"
  have load: "journal_load (tx_jenv demo_tx_env) ''t1'' (tx_journal ?ws) = Inr ?q"
    using holds_load(1) [OF demo_prepared_holds] by simp
  have "progress (project_coordinator demo_tx_env) plan_effect demo_plan demo_ws 0 ?ws"
    by (simp add: progress_def demo_prepared_ws_def demo_ws_def)
  then have "mid_transaction (project_coordinator demo_tx_env) plan_effect demo_plan demo_ws ?ws"
    unfolding mid_transaction_def using demo_prepared_holds
    by (intro exI [of _ ?q] exI [of _ 0]) simp
  from project.reconcile_mid [OF demo_ready this, of int] obtain r ws' where run:
    "tx_reconcile demo_tx_env int ''t1'' ?ws = (Inr r, ws')"
    "rr_status r \<in> {RECONCILED_COMMITTED, ALREADY_COMMITTED}"
    by (auto simp: tx_reconcile_def)
  from reconcile_honest [OF demo_env_ok run(1)] load run show ?thesis by auto
qed

text \<open>
  A plan whose artifacts were removed or changed is never applied: reconciling it raises
  nothing and reports a block with the artifact's reason, leaving dossiers and audit log alone.
\<close>

lemma verify_requirement_reason:
  "verify_requirement env files q = Inl e \<Longrightarrow> exn_cls e = TransactionBlockedError \<and> length (exn_msg e) \<le> 200"
  by (cases "tr_kind q")
     (auto simp: verify_requirement_def tx_blocked_def split: option.splits file_entry.splits
       file_content.splits json.splits if_splits)

lemma verify_requirements_reason:
  "verify_requirements env files rs = Inl e \<Longrightarrow>
   exn_cls e = TransactionBlockedError \<and> length (exn_msg e) \<le> 200"
  by (induction rs) (auto split: sum.splits dest: verify_requirement_reason)

theorem changed_artifact_blocks:
  assumes "env_ok (tx_jenv env)" and "holds (tx_jenv env) (tx_journal ws) q"
    and "latest_status q \<noteq> COMMITTED" and "a \<in> set (pp_required_artifacts (jr_plan q))"
    and "\<forall>content. tx_files ws (tr_relative_path a) = Some (RegularFile content) \<longrightarrow>
           tx_sha_file env content \<noteq> tr_sha256 a"
  shows "\<exists>r ws'. tx_reconcile env t (pp_transaction_id (jr_plan q)) ws = (Inr r, ws') \<and>
    rr_status r = RECONCILED_BLOCKED \<and> tx_store ws' = tx_store ws \<and> tx_audit ws' = tx_audit ws"
proof -
  let ?C = "project_coordinator env" and ?tid = "pp_transaction_id (jr_plan q)"
  have "verify_requirement env (tx_files ws) a \<noteq> Inr ()"
    using assms(5) by (auto simp: verify_requirement_def split: option.splits file_entry.splits)
  then obtain e where bad: "verify_requirements env (tx_files ws) (pp_required_artifacts (jr_plan q)) = Inl e"
    using verify_requirements_bad [OF assms(4)] by blast
  then have e: "exn_cls e = TransactionBlockedError" "length (exn_msg e) \<le> 200"
    using verify_requirements_reason by blast+
  obtain r1 j1 where st1: "set_status ?C ?tid RECONCILING None (t 0) ws = (Inr r1, ws\<lparr>tx_journal := j1\<rparr>)"
    "holds (tx_jenv env) j1 r1" "jr_plan r1 = jr_plan q" "latest_status r1 = RECONCILING"
    using set_status_next [of ?C ws q None ?tid RECONCILING "t 0"] assms(1-3) by auto
  obtain r2 j2 where st2: "set_status ?C ?tid TX_BLOCKED (Some (exn_msg e)) (t 2) (ws\<lparr>tx_journal := j1\<rparr>) =
      (Inr r2, ws\<lparr>tx_journal := j2\<rparr>)"
    using set_status_next [of ?C "ws\<lparr>tx_journal := j1\<rparr>" r1 "Some (exn_msg e)" ?tid TX_BLOCKED "t 2"]
      assms(1) st1(2-4) e(2) by auto
  have rep: "co_repair ?C (t 1) (jr_plan q) (ws\<lparr>tx_journal := j1\<rparr>) = (Inl e, ws\<lparr>tx_journal := j1\<rparr>)"
    using bad by (simp add: co_repair_def pure_def)
  have "exn_is e [TransactionBlockedError, TransactionConflictError]" "is_instance e TransactionBlockedError"
    using e(1) by (simp_all add: exn_is_def is_instance_def ancestors_def)
  with holds_load(1) [OF assms(2)] assms(3) st1(1) rep st2 show ?thesis
    by (simp add: tx_reconcile_def co_reconcile_def pure_def Let_def)
qed

theorem changed_artifact_blocks_witness:
  "\<exists>r ws'. tx_reconcile demo_tx_env int ''t1'' (demo_prepared_ws Map.empty) = (Inr r, ws') \<and>
     rr_status r = RECONCILED_BLOCKED \<and> tx_audit ws' = []"
  using changed_artifact_blocks [OF demo_env_ok demo_prepared_holds [of Map.empty], of demo_requirement int]
  by (auto simp: demo_prepared_ws_def)

text \<open>
  A conflict the reconciliation does not block on: when the audit log already has another
  event under the plan's event id, \<open>reconcile\<close> raises the audit log's error, not a blocked result,
  after it has written the plan's dossier, and the journal stays in \<open>RECONCILING\<close>.
\<close>

theorem audit_conflict_escapes:
  assumes "env_ok (tx_jenv env)" and "holds (tx_jenv env) (tx_journal ws) q"
    and "latest_status q \<noteq> COMMITTED" and "plan_applicable env (jr_plan q) (tx_store ws)"
    and "verify_requirements env (tx_files ws) (pp_required_artifacts (jr_plan q)) = Inr ()"
    and "audit_read (tx_audit ws) = Inr es"
    and "first_such (\<lambda>c. ae_event_id c = ae_event_id (pp_audit_event (jr_plan q))) es = Some other"
    and "other \<noteq> pp_audit_event (jr_plan q)"
  shows "\<exists>e ws' q'. tx_reconcile env t (pp_transaction_id (jr_plan q)) ws = (Inl e, ws') \<and>
    exn_cls e = AuditLogConflictError \<and> tx_audit ws' = tx_audit ws \<and>
    tx_store ws' = plan_effect (jr_plan q) (t 1) (tx_store ws) \<and>
    holds (tx_jenv env) (tx_journal ws') q' \<and> latest_status q' = RECONCILING"
proof -
  let ?C = "project_coordinator env" and ?p = "jr_plan q"
  have ok: "plan_readable ?p"
    using assms(2) record_ok_first by (fastforce simp: holds_def)
  obtain r1 j1 where st1: "set_status ?C (pp_transaction_id ?p) RECONCILING None (t 0) ws =
      (Inr r1, ws\<lparr>tx_journal := j1\<rparr>)"
    "holds (tx_jenv env) j1 r1" "latest_status r1 = RECONCILING"
    using set_status_next [of ?C ws q None "pp_transaction_id ?p" RECONCILING "t 0"] assms(1-3) by auto
  have ens: "ensure_dossier env ?p (t 1) (tx_store ws) =
      (Inr (target_dossier ?p (t 1), True), plan_effect ?p (t 1) (tx_store ws))"
    using ensure_dossier_fresh [OF ok assms(4)] .
  have "append_once ae_event_id (pp_audit_event ?p) (tx_audit ws) =
      (Inl (Exn AuditLogConflictError ''audit event ID has different content''), tx_audit ws)"
    using assms(6-8) by (simp add: append_once_first)
  with ens assms(5) have "co_repair ?C (t 1) ?p (ws\<lparr>tx_journal := j1\<rparr>) =
      (Inl (Exn AuditLogConflictError ''audit event ID has different content''),
       ws\<lparr>tx_journal := j1, tx_store := plan_effect ?p (t 1) (tx_store ws)\<rparr>)"
    by (simp add: co_repair_def pure_def)
  with holds_load(1) [OF assms(2)] assms(3) st1 show ?thesis
    by (simp add: tx_reconcile_def co_reconcile_def pure_def Let_def exn_is_def is_instance_def
        ancestors_def) blast
qed

theorem audit_conflict_escapes_witness:
  "\<exists>e ws'. tx_reconcile demo_tx_env int ''t1''
       ((demo_prepared_ws (tx_files demo_ws))\<lparr>tx_audit := [EventLine (demo_event ''e'' ''q'' 7)]\<rparr>) = (Inl e, ws') \<and>
     exn_cls e = AuditLogConflictError \<and>
     tx_store ws' = plan_effect demo_plan 1 Map.empty"
proof -
  let ?ws = "(demo_prepared_ws (tx_files demo_ws))\<lparr>tx_audit := [EventLine (demo_event ''e'' ''q'' 7)]\<rparr>"
  let ?q = "prepared_record (tx_jenv demo_tx_env) demo_plan 0"
  have h: "holds (tx_jenv demo_tx_env) (tx_journal ?ws) ?q" using demo_prepared_holds by simp
  have ap: "plan_applicable demo_tx_env (jr_plan ?q) (tx_store ?ws)"
    "verify_requirements demo_tx_env (tx_files ?ws) (pp_required_artifacts (jr_plan ?q)) = Inr ()"
    using demo_ready by (simp_all add: ready_def demo_prepared_ws_def demo_ws_def)
  have ev: "pp_audit_event demo_plan = demo_event ''e'' ''p'' 1" by (simp add: demo_plan_def)
  show ?thesis
    using audit_conflict_escapes [OF demo_env_ok h _ ap, of "[demo_event ''e'' ''q'' 7]"
        "demo_event ''e'' ''q'' 7" int]
    by (auto simp: ev) (auto simp: demo_event_def demo_prepared_ws_def)
qed

text \<open>
  An update from a stale revision is refused before anything is written: the call raises the
  conflict error and the workspace, its journal included, is what it was.
\<close>

theorem stale_update_refused:
  assumes "dossier_load (pd_project_id d) (tx_store ws) = Inr base" and "pd_revision base \<noteq> n"
  shows "execute_update env t d n event command key required ws =
    (Inl (Exn TransactionConflictError ''expected revision; current revision is''), ws)"
  using assms by (simp add: execute_update_def pure_def)

theorem stale_update_refused_witness:
  "execute_update demo_tx_env int (demo_dossier ''p'' [''e'']) 2 (demo_event ''e'' ''p'' 3) ''c'' ''k'' []
     (demo_ws\<lparr>tx_store := dossier_write (dossier_file ''p'') (demo_dossier ''p'' []) Map.empty\<rparr>) =
   (Inl (Exn TransactionConflictError ''expected revision; current revision is''),
    demo_ws\<lparr>tx_store := dossier_write (dossier_file ''p'') (demo_dossier ''p'' []) Map.empty\<rparr>)"
  by (rule stale_update_refused [of _ _ "demo_dossier ''p'' []"])
     (use demo_dossier_load [of "[]" Map.empty] in simp_all)

lemma read_all_foreign:
  "path \<in> set paths \<Longrightarrow> map_of dir path = Some (ForeignJournalLine # ls) \<Longrightarrow>
   \<exists>e. read_all env paths dir = Inl e"
  by (induction paths) (auto simp: journal_read_def split: sum.splits)

lemma archived_records_bad:
  "(parent, dir) \<in> set ps \<Longrightarrow> journal_records (tx_jenv env) dir = Inl e \<Longrightarrow>
   \<exists>e. archived_records env ps = Inl e"
  by (induction ps) (auto split: sum.splits)

text \<open>
  One journal of another class among the archived ones hides every anchor: if an archived
  \<open>transactions\<close> directory has a file whose first line the project journal's event class rejects
  (as \<open>runtime/maintenance.py\<close> archives the education journals), looking up the committed hash
  of any artifact of any project fails; the case view then cannot read a single report.
\<close>

theorem foreign_archive_hides_anchors:
  assumes "Some (parent, dir) \<in> set archive" and "map_of dir path = Some (ForeignJournalLine # ls)"
  shows "\<exists>e. expected_artifact_sha256 env archive journal project_id kind relative_path report_id = Inl e"
proof -
  have "path \<in> set (sort (map fst dir))" using map_of_SomeD [OF assms(2)] by force
  then obtain e where "journal_records (tx_jenv env) dir = Inl e"
    unfolding journal_records_def using read_all_foreign assms(2) by blast
  moreover have "(parent, dir) \<in> set (sort_key fst (map the archive))" using assms(1) by force
  ultimately obtain e' where "archived_records env (sort_key fst (map the archive)) = Inl e'"
    using archived_records_bad by blast
  then show ?thesis
    by (auto simp: expected_artifact_sha256_def split: sum.splits)
qed

theorem foreign_archive_hides_anchors_witness:
  "\<exists>e. expected_artifact_sha256 demo_tx_env
     [Some (''archive/r/education/transactions'', [(''transaction-0.jsonl'', [ForeignJournalLine])])]
     [] ''p'' REPORT_JSON ''r'' None = Inl e"
  by (rule foreign_archive_hides_anchors
        [where path = "''transaction-0.jsonl''" and ls = "[]"
          and dir = "[(''transaction-0.jsonl'', [ForeignJournalLine])]"]) simp_all

end
