(* ===== verification/Outbox.thy ===== *)
theory Outbox
  imports Domain "HOL-Library.Char_ord" "HOL-Library.List_Lexorder"
begin

text \<open>
  The durable notification outbox of \<open>notifications/outbox.py\<close>: one file per event, under a
  name computed from the event, that records the delivery attempts; delivery itself is the
  injected \<open>downstream\<close> port (\<open>down\<close>). The outbox interprets \<open>notification_port\<close>, so the
  facts proved in \<open>TwoGate\<close> for any port hold for a workflow that notifies through it.

  \<open>sha\<close> stands for the hexadecimal SHA-256 of a text, \<open>clock i\<close> for the time the \<open>i\<close>-th reading
  of the clock returns; the state counts the readings.
\<close>

declare map_of_eq_Some_iff [simp del]

section \<open>State\<close>

record outbox_entry =
  oe_event_type :: string
  oe_project_id :: string
  oe_stage :: string
  oe_required_role :: string
  oe_revision :: "int option"
  oe_report_ref :: "string option"
  oe_attempts :: nat
  oe_delivery_status :: string
  oe_last_error :: "exn_class option"
  oe_updated_at :: int

text \<open>A file holds an entry, or (\<open>None\<close>) JSON that is no object.\<close>

record 'n outbox =
  ob_files :: "(string \<times> outbox_entry option) list"
  ob_down :: 'n
  ob_reads :: nat

section \<open>Operations\<close>

definition outbox_identity :: "notification_event \<Rightarrow> string" where
  "outbox_identity ev = join_with ''|''
     [ev_type ev, ev_project_id ev, ev_stage ev, ev_required_role ev,
      (case ev_revision ev of None \<Rightarrow> '''' | Some r \<Rightarrow> if r = 0 then '''' else str_int r),
      (case ev_report_ref ev of None \<Rightarrow> '''' | Some r \<Rightarrow> r)]"

definition outbox_path_for :: "(string \<Rightarrow> string) \<Rightarrow> notification_event \<Rightarrow> string" where
  "outbox_path_for sha ev = ''notification-'' @ take 24 (sha (outbox_identity ev)) @ ''.json''"

definition outbox_load :: "string \<Rightarrow> 'n outbox \<Rightarrow> outbox_entry option res" where
  "outbox_load path ob =
     (case map_of (ob_files ob) path of
        None \<Rightarrow> Inr None
      | Some None \<Rightarrow> Inl (Exn ValueError ''invalid notification outbox record'')
      | Some (Some entry) \<Rightarrow> Inr (Some entry))"

definition outbox_write :: "string \<Rightarrow> outbox_entry \<Rightarrow> 'n outbox \<Rightarrow> 'n outbox" where
  "outbox_write path entry ob = ob\<lparr>ob_files := dict_set path (Some entry) (ob_files ob)\<rparr>"

definition outbox_entry_for ::
  "notification_event \<Rightarrow> nat \<Rightarrow> string \<Rightarrow> int \<Rightarrow> outbox_entry" where
  "outbox_entry_for ev attempts status now =
     \<lparr>oe_event_type = ev_type ev, oe_project_id = ev_project_id ev, oe_stage = ev_stage ev,
      oe_required_role = ev_required_role ev, oe_revision = ev_revision ev,
      oe_report_ref = ev_report_ref ev, oe_attempts = attempts, oe_delivery_status = status,
      oe_last_error = None, oe_updated_at = now\<rparr>"

text \<open>The event that \<open>retry_failed\<close> rebuilds from a record.\<close>

definition outbox_event :: "outbox_entry \<Rightarrow> notification_event" where
  "outbox_event en =
     \<lparr>ev_type = oe_event_type en, ev_project_id = oe_project_id en, ev_stage = oe_stage en,
      ev_required_role = oe_required_role en, ev_revision = oe_revision en,
      ev_report_ref = oe_report_ref en\<rparr>"

definition tick :: "'n outbox \<Rightarrow> 'n outbox" where
  "tick ob = ob\<lparr>ob_reads := Suc (ob_reads ob)\<rparr>"

definition outbox_send ::
  "(string \<Rightarrow> string) \<Rightarrow> (nat \<Rightarrow> int) \<Rightarrow> 'n sender \<Rightarrow> 'n outbox sender" where
  "outbox_send sha clock down ev ob =
     (let path = outbox_path_for sha ev in
      seq (pure (outbox_load path ob) ob) (\<lambda>current ob.
      if pred_option (\<lambda>en. oe_delivery_status en = ''recorded'') current \<and> current \<noteq> None then
        (Inr (), ob)
      else
        (let attempts = (case current of None \<Rightarrow> 1 | Some en \<Rightarrow> oe_attempts en + 1);
             entry = outbox_entry_for ev attempts ''pending'' (clock (ob_reads ob));
             ob = outbox_write path entry (tick ob);
             (sent, n) = down ev (ob_down ob);
             ob = ob\<lparr>ob_down := n\<rparr>
         in case sent of
              Inl e \<Rightarrow>
                if is_instance e ExceptionClass then
                  (Inl e, outbox_write path
                     (entry\<lparr>oe_delivery_status := ''failed'', oe_last_error := Some (exn_cls e),
                            oe_updated_at := clock (ob_reads ob)\<rparr>) (tick ob))
                else (Inl e, ob)
            | Inr _ \<Rightarrow>
                (Inr (), outbox_write path
                   (entry\<lparr>oe_delivery_status := ''recorded'', oe_last_error := None,
                          oe_updated_at := clock (ob_reads ob)\<rparr>) (tick ob)))))"

definition outbox_sorted_paths :: "'n outbox \<Rightarrow> string list" where
  "outbox_sorted_paths ob = sort (map fst (ob_files ob))"

fun load_all :: "string list \<Rightarrow> 'n outbox \<Rightarrow> outbox_entry list res" where
  "load_all [] ob = Inr []"
| "load_all (path # paths) ob =
     (case outbox_load path ob of
        Inl e \<Rightarrow> Inl e
      | Inr None \<Rightarrow> load_all paths ob
      | Inr (Some en) \<Rightarrow>
          (case load_all paths ob of Inl e \<Rightarrow> Inl e | Inr ens \<Rightarrow> Inr (en # ens)))"

definition outbox_entries :: "'n outbox \<Rightarrow> outbox_entry list res" where
  "outbox_entries ob = load_all (outbox_sorted_paths ob) ob"

fun retry_paths ::
  "(string \<Rightarrow> string) \<Rightarrow> (nat \<Rightarrow> int) \<Rightarrow> 'n sender \<Rightarrow> string list \<Rightarrow> nat \<Rightarrow> 'n outbox \<Rightarrow>
   (nat, 'n outbox) outcome" where
  "retry_paths sha clock down [] delivered ob = (Inr delivered, ob)"
| "retry_paths sha clock down (path # paths) delivered ob =
     seq (pure (outbox_load path ob) ob) (\<lambda>entry ob.
     case entry of
       None \<Rightarrow> retry_paths sha clock down paths delivered ob
     | Some en \<Rightarrow>
         if oe_delivery_status en \<noteq> ''failed'' then
           retry_paths sha clock down paths delivered ob
         else
           seq (outbox_send sha clock down (outbox_event en) ob) (\<lambda>_ ob.
           retry_paths sha clock down paths (delivered + 1) ob))"

definition retry_failed ::
  "(string \<Rightarrow> string) \<Rightarrow> (nat \<Rightarrow> int) \<Rightarrow> 'n sender \<Rightarrow> 'n outbox \<Rightarrow> (nat, 'n outbox) outcome" where
  "retry_failed sha clock down ob = retry_paths sha clock down (outbox_sorted_paths ob) 0 ob"

section \<open>Lemmas\<close>

abbreviation outbox_file :: "'n outbox \<Rightarrow> string \<Rightarrow> outbox_entry option option" where
  "outbox_file ob path \<equiv> map_of (ob_files ob) path"

definition delivery_recorded :: "(string \<Rightarrow> string) \<Rightarrow> 'n outbox \<Rightarrow> notification_event \<Rightarrow> bool" where
  "delivery_recorded sha ob ev \<longleftrightarrow>
     (\<exists>en. outbox_file ob (outbox_path_for sha ev) = Some (Some en) \<and>
        oe_delivery_status en = ''recorded'')"

lemma outbox_write_file [simp]:
  "outbox_file (outbox_write path en ob) p = (if p = path then Some (Some en) else outbox_file ob p)"
  by (simp add: outbox_write_def)

lemma outbox_fields [simp]:
  "ob_files (tick ob) = ob_files ob" "ob_down (tick ob) = ob_down ob"
  "ob_reads (tick ob) = Suc (ob_reads ob)"
  "ob_down (outbox_write path en ob) = ob_down ob"
  "ob_reads (outbox_write path en ob) = ob_reads ob"
  by (simp_all add: tick_def outbox_write_def)

lemma outbox_event_entry [simp]: "outbox_event (outbox_entry_for ev a s now) = ev"
  by (simp add: outbox_event_def outbox_entry_for_def)

lemma outbox_event_update [simp]:
  "outbox_event (en\<lparr>oe_delivery_status := s\<rparr>) = outbox_event en"
  "outbox_event (en\<lparr>oe_last_error := le\<rparr>) = outbox_event en"
  "outbox_event (en\<lparr>oe_updated_at := t\<rparr>) = outbox_event en"
  by (simp_all add: outbox_event_def)

lemma outbox_entry_for_fields [simp]:
  "oe_attempts (outbox_entry_for ev a s now) = a"
  "oe_delivery_status (outbox_entry_for ev a s now) = s"
  by (simp_all add: outbox_entry_for_def)

text \<open>The three ways a send ends, as facts about the files.\<close>

definition attempts_at :: "'n outbox \<Rightarrow> string \<Rightarrow> nat" where
  "attempts_at ob path = (case outbox_file ob path of Some (Some en) \<Rightarrow> oe_attempts en | _ \<Rightarrow> 0)"

lemma outbox_send_recorded:
  "delivery_recorded sha ob ev \<Longrightarrow> outbox_send sha clock down ev ob = (Inr (), ob)"
  by (auto simp: delivery_recorded_def outbox_send_def outbox_load_def pure_def)

lemma outbox_send_invalid:
  "outbox_file ob (outbox_path_for sha ev) = Some None \<Longrightarrow>
   outbox_send sha clock down ev ob =
     (Inl (Exn ValueError ''invalid notification outbox record''), ob)"
  by (simp add: outbox_send_def outbox_load_def pure_def)

lemma outbox_send_attempt:
  assumes "\<not> delivery_recorded sha ob ev" "outbox_file ob (outbox_path_for sha ev) \<noteq> Some None"
  shows "\<exists>en. outbox_event en = ev \<and>
     oe_attempts en = attempts_at ob (outbox_path_for sha ev) + 1 \<and>
     (\<forall>p. outbox_file (snd (outbox_send sha clock down ev ob)) p =
        (if p = outbox_path_for sha ev then Some (Some en) else outbox_file ob p)) \<and>
     (case down ev (ob_down ob) of
        (Inr _, n) \<Rightarrow> fst (outbox_send sha clock down ev ob) = Inr () \<and>
           oe_delivery_status en = ''recorded''
      | (Inl e, n) \<Rightarrow> fst (outbox_send sha clock down ev ob) = Inl e \<and>
           oe_delivery_status en = (if is_instance e ExceptionClass then ''failed'' else ''pending''))"
proof (cases "outbox_file ob (outbox_path_for sha ev)")
  case None
  then show ?thesis
    using assms
    by (cases "down ev (ob_down ob)"; cases "fst (down ev (ob_down ob))")
       (auto simp: outbox_send_def outbox_load_def pure_def Let_def attempts_at_def)
next
  case (Some c)
  with assms obtain en where en: "outbox_file ob (outbox_path_for sha ev) = Some (Some en)"
    "oe_delivery_status en \<noteq> ''recorded''"
    by (cases c) (auto simp: delivery_recorded_def)
  then show ?thesis
    by (cases "down ev (ob_down ob)"; cases "fst (down ev (ob_down ob))")
       (auto simp: outbox_send_def outbox_load_def pure_def Let_def attempts_at_def)
qed

interpretation durable: notification_port "outbox_send sha clock down" "delivery_recorded sha"
proof
  fix ev :: notification_event and n n' :: "'a outbox" and u
  assume sent: "outbox_send sha clock down ev n = (Inr u, n')"
  show "delivery_recorded sha n' ev"
  proof (cases "delivery_recorded sha n ev")
    case True
    with sent show ?thesis by (simp add: outbox_send_recorded)
  next
    case False
    with sent have "outbox_file n (outbox_path_for sha ev) \<noteq> Some None"
      by (auto dest: outbox_send_invalid [of n sha ev clock down])
    from outbox_send_attempt [OF False this, of clock down] sent show ?thesis
      by (cases "down ev (ob_down n)"; cases "fst (down ev (ob_down n))")
         (auto simp: delivery_recorded_def)
  qed
next
  fix ev ev' :: notification_event and n n' :: "'a outbox" and r
  assume sent: "outbox_send sha clock down ev n = (r, n')" and old: "delivery_recorded sha n ev'"
  show "delivery_recorded sha n' ev'"
  proof (cases "outbox_path_for sha ev' = outbox_path_for sha ev")
    case True
    with old have "delivery_recorded sha n ev" by (simp add: delivery_recorded_def)
    with sent old show ?thesis by (simp add: outbox_send_recorded)
  next
    case False
    consider "delivery_recorded sha n ev" | "outbox_file n (outbox_path_for sha ev) = Some None"
      | "\<not> delivery_recorded sha n ev" "outbox_file n (outbox_path_for sha ev) \<noteq> Some None"
      by blast
    then show ?thesis
    proof cases
      case 3
      from outbox_send_attempt [OF this, of clock down] sent old False show ?thesis
        by (auto simp: delivery_recorded_def)
    qed (use sent old in \<open>simp_all add: outbox_send_recorded outbox_send_invalid\<close>)
  qed
qed

text \<open>Every file is the record of the event its name is computed from.\<close>

definition outbox_wf :: "(string \<Rightarrow> string) \<Rightarrow> 'n outbox \<Rightarrow> bool" where
  "outbox_wf sha ob \<longleftrightarrow> distinct (map fst (ob_files ob)) \<and>
     (\<forall>p c. outbox_file ob p = Some c \<longrightarrow>
        (\<exists>en. c = Some en \<and> p = outbox_path_for sha (outbox_event en)))"

lemma outbox_wf_entry:
  "outbox_wf sha ob \<Longrightarrow> outbox_file ob p = Some (Some en) \<Longrightarrow>
   outbox_path_for sha (outbox_event en) = p"
  unfolding outbox_wf_def by (metis option.inject)

lemma distinct_outbox_write:
  "distinct (map fst (ob_files ob)) \<Longrightarrow> distinct (map fst (ob_files (outbox_write path en ob)))"
  by (simp add: outbox_write_def distinct_dict_set)

lemma outbox_send_distinct:
  "distinct (map fst (ob_files ob)) \<Longrightarrow>
   distinct (map fst (ob_files (snd (outbox_send sha clock down ev ob))))"
  by (auto simp: outbox_send_def seq_def pure_def Let_def distinct_outbox_write
      split: sum.splits prod.splits if_splits)

lemma outbox_send_wf:
  assumes "outbox_wf sha ob"
  shows "outbox_wf sha (snd (outbox_send sha clock down ev ob))"
proof (cases "delivery_recorded sha ob ev")
  case True
  with assms show ?thesis by (simp add: outbox_send_recorded)
next
  case False
  moreover have "outbox_file ob (outbox_path_for sha ev) \<noteq> Some None"
    using assms by (auto simp: outbox_wf_def)
  ultimately obtain en where
    "outbox_event en = ev"
    "\<forall>p. outbox_file (snd (outbox_send sha clock down ev ob)) p =
        (if p = outbox_path_for sha ev then Some (Some en) else outbox_file ob p)"
    using outbox_send_attempt [of sha ob ev clock down] by blast
  with assms outbox_send_distinct [of ob sha clock down ev] show ?thesis
    by (auto simp: outbox_wf_def)
qed

definition is_failed :: "'n outbox \<Rightarrow> string \<Rightarrow> bool" where
  "is_failed ob p \<longleftrightarrow>
     (\<exists>en. outbox_file ob p = Some (Some en) \<and> oe_delivery_status en = ''failed'')"

text \<open>What a file becomes when its record is retried with a downstream that delivers.\<close>

definition retried :: "'n outbox \<Rightarrow> 'n outbox \<Rightarrow> string \<Rightarrow> bool" where
  "retried ob ob' p \<longleftrightarrow>
     (\<exists>en en'. outbox_file ob p = Some (Some en) \<and> outbox_file ob' p = Some (Some en') \<and>
        outbox_event en' = outbox_event en \<and> oe_attempts en' = oe_attempts en + 1 \<and>
        oe_delivery_status en' = ''recorded'')"

text \<open>A downstream adapter that accepts every event.\<close>

definition delivers :: "'n sender \<Rightarrow> bool" where
  "delivers down \<longleftrightarrow> (\<forall>ev n. \<exists>n'. down ev n = (Inr (), n'))"

lemma outbox_send_delivers:
  assumes wf: "outbox_wf sha ob" and en: "outbox_file ob p = Some (Some en)"
    and "oe_delivery_status en = ''failed''" and down: "delivers down"
  shows "\<exists>ob'. outbox_send sha clock down (outbox_event en) ob = (Inr (), ob') \<and>
    outbox_wf sha ob' \<and> retried ob ob' p \<and> (\<forall>q. q \<noteq> p \<longrightarrow> outbox_file ob' q = outbox_file ob q)"
proof -
  let ?ev = "outbox_event en"
  have p: "outbox_path_for sha ?ev = p" using outbox_wf_entry [OF wf en] .
  obtain n' where n': "down ?ev (ob_down ob) = (Inr (), n')" using down unfolding delivers_def by blast
  obtain en' where
    "outbox_event en' = ?ev" "oe_attempts en' = attempts_at ob p + 1"
    "\<forall>q. outbox_file (snd (outbox_send sha clock down ?ev ob)) q =
        (if q = p then Some (Some en') else outbox_file ob q)"
    "fst (outbox_send sha clock down ?ev ob) = Inr ()" "oe_delivery_status en' = ''recorded''"
    using outbox_send_attempt [of sha ob ?ev clock down] p en assms(3) n'
    by (auto simp: delivery_recorded_def)
  then show ?thesis
    using en outbox_send_wf [OF wf, where clock = clock and down = down and ev = ?ev]
    by (intro exI [of _ "snd (outbox_send sha clock down ?ev ob)"])
       (auto simp: retried_def attempts_at_def prod_eq_iff)
qed

lemma retry_paths_delivers:
  assumes "outbox_wf sha ob" "distinct ps" and down: "delivers down"
  shows "\<exists>ob'. retry_paths sha clock down ps d ob = (Inr (d + length (filter (is_failed ob) ps)), ob') \<and>
    (\<forall>p. if p \<in> set ps \<and> is_failed ob p then retried ob ob' p
         else outbox_file ob' p = outbox_file ob p)"
  using assms(1,2)
proof (induction ps arbitrary: ob d)
  case (Cons p ps)
  show ?case
  proof (cases "is_failed ob p")
    case True
    then obtain en where en: "outbox_file ob p = Some (Some en)" "oe_delivery_status en = ''failed''"
      by (auto simp: is_failed_def)
    from outbox_send_delivers [OF Cons.prems(1) this down] obtain ob1 where ob1:
      "outbox_send sha clock down (outbox_event en) ob = (Inr (), ob1)" "outbox_wf sha ob1"
      "retried ob ob1 p" "\<forall>q. q \<noteq> p \<longrightarrow> outbox_file ob1 q = outbox_file ob q" by blast
    have same: "is_failed ob1 q = is_failed ob q" if "q \<in> set ps" for q
      using that ob1(4) Cons.prems(2) by (auto simp: is_failed_def)
    have "distinct ps" using Cons.prems(2) by simp
    from Cons.IH [OF ob1(2) this, of "d + 1"] obtain ob' where ob':
      "retry_paths sha clock down ps (d + 1) ob1 =
         (Inr (d + 1 + length (filter (is_failed ob1) ps)), ob')"
      "\<forall>q. if q \<in> set ps \<and> is_failed ob1 q then retried ob1 ob' q
           else outbox_file ob' q = outbox_file ob1 q" by blast
    have "filter (is_failed ob1) ps = filter (is_failed ob) ps"
      using same by (auto intro: filter_cong)
    then have "retry_paths sha clock down (p # ps) d ob =
        (Inr (d + length (filter (is_failed ob) (p # ps))), ob')"
      using True en ob1(1) ob'(1) by (simp add: outbox_load_def pure_def)
    moreover have "if q \<in> set (p # ps) \<and> is_failed ob q then retried ob ob' q
        else outbox_file ob' q = outbox_file ob q" for q
    proof (cases "q = p")
      case True
      have "outbox_file ob' p = outbox_file ob1 p" using ob'(2) Cons.prems(2) by auto
      with True ob1(3) \<open>is_failed ob p\<close> show ?thesis by (simp add: retried_def)
    next
      case False
      with ob'(2) [rule_format, of q] ob1(4) same [of q] show ?thesis
        by (auto simp: retried_def split: if_splits)
    qed
    ultimately show ?thesis by blast
  next
    case False
    have "retry_paths sha clock down (p # ps) d ob = retry_paths sha clock down ps d ob"
    proof (cases "outbox_file ob p")
      case None
      then show ?thesis by (simp add: outbox_load_def pure_def)
    next
      case (Some c)
      with Cons.prems(1) obtain en where "outbox_file ob p = Some (Some en)"
        by (auto simp: outbox_wf_def)
      with False show ?thesis by (simp add: outbox_load_def pure_def is_failed_def)
    qed
    moreover have "filter (is_failed ob) (p # ps) = filter (is_failed ob) ps"
      using False by simp
    moreover have "q \<in> set (p # ps) \<and> is_failed ob q \<longleftrightarrow> q \<in> set ps \<and> is_failed ob q" for q
      using False by auto
    ultimately show ?thesis using Cons.IH [OF Cons.prems(1), of d] Cons.prems(2) by simp
  qed
qed simp

section \<open>Properties\<close>

text \<open>
  A workflow that notifies through the durable outbox, in whatever way it is driven from a
  fresh record and whatever the downstream adapter does, has a delivery record with status
  \<open>recorded\<close> for the registration request once the record is at or past the registration gate,
  and one for the completion request at or past the completion gate.
\<close>

theorem two_gate_durably_notified:
  assumes "workflow_run (Some (outbox_send sha clock down)) r n tr r' n'" and "wr_status r = DRAFT"
  shows "gate_requested (delivery_recorded sha) n' (wr_project_id r) (path_to (wr_status r'))"
  using durable.status_requested [OF assms] workflow_run_project [OF assms(1)] by simp

theorem two_gate_durably_notified_witness:
  "\<exists>tr r' n'. drive (Some (outbox_send (\<lambda>t. t) int recording_send)) demo_calls (fresh_record ''p'')
       \<lparr>ob_files = [], ob_down = [], ob_reads = 0\<rparr> = (tr, r', n') \<and>
     gate_requested (delivery_recorded (\<lambda>t. t)) n' ''p'' (path_to (wr_status r'))"
proof -
  obtain tr r' n' where run: "drive (Some (outbox_send (\<lambda>t. t) int recording_send)) demo_calls
      (fresh_record ''p'') \<lparr>ob_files = [], ob_down = [], ob_reads = 0\<rparr> = (tr, r', n')"
    using prod_cases3 by blast
  with two_gate_durably_notified [OF drive_run [OF run_start run]] show ?thesis
    by (simp add: fresh_record_def)
qed

text \<open>
  C14. A send that returned is final: sending the same event again, at any time and through any
  downstream adapter, returns at once, delivers nothing a second time and leaves the outbox
  as it is.
\<close>

theorem outbox_delivers_once:
  assumes "outbox_send sha clock down ev ob = (Inr u, ob')"
  shows "outbox_send sha clock' down' ev ob' = (Inr (), ob')"
  using durable.send_records [OF assms] by (rule outbox_send_recorded)

theorem outbox_delivers_once_witness:
  "\<exists>ob'. outbox_send (\<lambda>t. t) int recording_send
      (approval_request ''x'' ''p'' None None) \<lparr>ob_files = [], ob_down = [], ob_reads = 0\<rparr> = (Inr (), ob') \<and>
    ob_down ob' = [approval_request ''x'' ''p'' None None] \<and>
    outbox_send (\<lambda>t. t) int recording_send (approval_request ''x'' ''p'' None None) ob' = (Inr (), ob')"
proof -
  obtain ob' where run: "outbox_send (\<lambda>t. t) int recording_send
      (approval_request ''x'' ''p'' None None) \<lparr>ob_files = [], ob_down = [], ob_reads = 0\<rparr> = (Inr (), ob')"
    "ob_down ob' = [approval_request ''x'' ''p'' None None]"
    by (simp add: outbox_send_def outbox_load_def pure_def recording_send_def Let_def)
  from outbox_delivers_once [OF run(1)] run show ?thesis by blast
qed

text \<open>
  C20. \<open>retry_failed\<close> with a downstream adapter that delivers: it returns the number of failed
  records, each of them is afterwards recorded with one more attempt and the same event, and
  every other record, the pending ones included, is untouched.
\<close>

theorem retry_failed_delivers:
  assumes "outbox_wf sha ob" and "delivers down"
  shows "\<exists>ob'. retry_failed sha clock down ob =
      (Inr (card {p. is_failed ob p}), ob') \<and>
    (\<forall>p. if is_failed ob p then retried ob ob' p else outbox_file ob' p = outbox_file ob p)"
proof -
  let ?ps = "outbox_sorted_paths ob"
  have ps: "distinct ?ps" "\<And>p. is_failed ob p \<Longrightarrow> p \<in> set ?ps"
    using assms(1) by (auto simp: outbox_sorted_paths_def outbox_wf_def is_failed_def
        dest!: map_of_SomeD intro: rev_image_eqI)
  have "set (filter (is_failed ob) ?ps) = {p. is_failed ob p}" using ps(2) by auto
  with ps(1) have "length (filter (is_failed ob) ?ps) = card {p. is_failed ob p}"
    by (metis distinct_card distinct_filter)
  with retry_paths_delivers [OF assms(1) ps(1) assms(2), where clock = clock and d = 0] ps(2)
  show ?thesis unfolding retry_failed_def by auto
qed

definition demo_outbox :: "notification_event list outbox" where
  "demo_outbox =
     (let ev = approval_request ''x'' ''p'' None None
      in \<lparr>ob_files = [(outbox_path_for (\<lambda>t. t) ev, Some (outbox_entry_for ev 1 ''failed'' 0))],
          ob_down = [], ob_reads = 0\<rparr>)"

theorem retry_failed_delivers_witness:
  "\<exists>ob'. retry_failed (\<lambda>t. t) int recording_send demo_outbox = (Inr 1, ob') \<and>
     retried demo_outbox ob' (outbox_path_for (\<lambda>t. t) (approval_request ''x'' ''p'' None None))"
proof -
  have wf: "outbox_wf (\<lambda>t. t) demo_outbox"
    by (simp add: outbox_wf_def demo_outbox_def Let_def)
  have failed: "is_failed demo_outbox p \<longleftrightarrow>
      p = outbox_path_for (\<lambda>t. t) (approval_request ''x'' ''p'' None None)" for p
    by (simp add: is_failed_def demo_outbox_def Let_def)
  have "delivers recording_send" by (simp add: delivers_def recording_send_def)
  then have "\<exists>ob'. retry_failed (\<lambda>t. t) int recording_send demo_outbox =
      (Inr (card {p. is_failed demo_outbox p}), ob') \<and>
    (\<forall>p. if is_failed demo_outbox p then retried demo_outbox ob' p
         else outbox_file ob' p = outbox_file demo_outbox p)"
    by (rule retry_failed_delivers [OF wf])
  then show ?thesis by (auto simp: failed)
qed

end
