(* ===== verification/EducationSchema.thy ===== *)
theory EducationSchema
  imports Domain "HOL-Library.Multiset"
begin

text \<open>
  The education contracts of \<open>schemas/education.py\<close>: programs made of levels and milestones,
  enrollments with the progress of each milestone, and the validators of these classes as
  predicates. Points and scores are rationals; \<open>fsum\<close> is Python's sum of a sequence of floats,
  whose rounding is left open.
\<close>

section \<open>Programs\<close>

datatype program_status = PROGRAM_DRAFT | PROGRAM_OFFLINE_REFERENCE | PROGRAM_PUBLISHED | PROGRAM_RETIRED

datatype milestone_kind = LEARNING_ACTIVITY | PROJECT_CERTIFICATION | ASSESSMENT

datatype milestone_status =
  LOCKED | AVAILABLE | MS_IN_PROGRESS | WAITING_REVIEW | NEEDS_ACTION | MS_COMPLETED

datatype enrollment_status =
  EN_ACTIVE | EN_HITL_PENDING | EN_COMPLETED | EN_RETURNED | EN_WITHDRAWN

definition is_identifier :: "string \<Rightarrow> bool" where
  "is_identifier = matches_id is_alnum (\<lambda>c. is_alnum c \<or> c \<in> set ''._-'') 0 127"

definition length_between :: "nat \<Rightarrow> nat \<Rightarrow> string \<Rightarrow> bool" where
  "length_between lo hi s \<longleftrightarrow> lo \<le> length s \<and> length s \<le> hi"

datatype requirement_spec =
    ManualConfirmation (rq_id: string) (rq_title: string) (rq_role: string) (rq_points: rat)
  | ScoreAtLeast (rq_id: string) (rq_title: string) (rq_passing: rat) (rq_role: string) (rq_points: rat)
  | ProjectStatusIs (rq_id: string) (rq_title: string) (rq_status: string) (rq_points: rat)

definition reviewer_roles :: "string list" where
  "reviewer_roles = [''instructor'', ''mentor'', ''administrator'']"

fun requirement_spec_valid :: "requirement_spec \<Rightarrow> bool" where
  "requirement_spec_valid (ManualConfirmation i t r p) \<longleftrightarrow>
     is_identifier i \<and> length_between 1 300 t \<and> r \<in> set reviewer_roles \<and> 0 < p \<and> p \<le> 1000"
| "requirement_spec_valid (ScoreAtLeast i t s r p) \<longleftrightarrow>
     is_identifier i \<and> length_between 1 300 t \<and> 0 \<le> s \<and> s \<le> 100 \<and>
     r \<in> set reviewer_roles \<and> 0 < p \<and> p \<le> 1000"
| "requirement_spec_valid (ProjectStatusIs i t s p) \<longleftrightarrow>
     is_identifier i \<and> length_between 1 300 t \<and>
     s \<in> {''registration_approved'', ''completion_accepted''} \<and> 0 < p \<and> p \<le> 1000"

definition is_project_requirement :: "requirement_spec \<Rightarrow> bool" where
  "is_project_requirement q = (case q of ProjectStatusIs _ _ _ _ \<Rightarrow> True | _ \<Rightarrow> False)"

datatype completion_mode = ALL_REQUIRED | MINIMUM_POINTS

record completion_rule =
  cm_mode :: completion_mode
  cm_minimum_points :: "rat option"

definition completion_rule_valid :: "completion_rule \<Rightarrow> bool" where
  "completion_rule_valid r \<longleftrightarrow>
     pred_option (\<lambda>p. 0 < p \<and> p \<le> 10000) (cm_minimum_points r) \<and>
     (cm_mode r = MINIMUM_POINTS \<longleftrightarrow> cm_minimum_points r \<noteq> None)"

record milestone_spec =
  ml_milestone_id :: string
  ml_title :: string
  ml_sequence :: int
  ml_kind :: milestone_kind
  ml_prerequisites :: "string list"
  ml_pipeline_id :: string
  ml_pipeline_version :: string
  ml_requirements :: "requirement_spec list"
  ml_completion_rule :: completion_rule
  ml_required :: bool

definition is_pipeline_id :: "string \<Rightarrow> bool" where
  "is_pipeline_id = matches_id is_lower (\<lambda>c. is_lower c \<or> is_digit c \<or> c \<in> set ''._-'') 2 127"

definition is_pipeline_version :: "string \<Rightarrow> bool" where
  "is_pipeline_version s \<longleftrightarrow> (case s of c # d # cs \<Rightarrow>
       c = CHR ''v'' \<and> list_all (\<lambda>c. is_alnum c \<or> c \<in> set ''._-'') (d # cs) | _ \<Rightarrow> False)"

definition milestone_spec_valid :: "(rat list \<Rightarrow> rat) \<Rightarrow> milestone_spec \<Rightarrow> bool" where
  "milestone_spec_valid fsum m \<longleftrightarrow>
     is_identifier (ml_milestone_id m) \<and> length_between 1 300 (ml_title m) \<and> 1 \<le> ml_sequence m \<and>
     is_pipeline_id (ml_pipeline_id m) \<and> is_pipeline_version (ml_pipeline_version m) \<and>
     ml_requirements m \<noteq> [] \<and> list_all requirement_spec_valid (ml_requirements m) \<and>
     completion_rule_valid (ml_completion_rule m) \<and>
     distinct (map rq_id (ml_requirements m)) \<and>
     (ml_kind m = PROJECT_CERTIFICATION \<longrightarrow>
        length (filter is_project_requirement (ml_requirements m)) = 1) \<and>
     (cm_mode (ml_completion_rule m) = MINIMUM_POINTS \<longrightarrow>
        the (cm_minimum_points (ml_completion_rule m)) \<le> fsum (map rq_points (ml_requirements m)))"

record program_level =
  lv_level_id :: string
  lv_title :: string
  lv_sequence :: int
  lv_milestones :: "milestone_spec list"

record education_program =
  ep_program_id :: string
  ep_version :: string
  ep_title :: string
  ep_description :: string
  ep_status :: program_status
  ep_owner_ref :: string
  ep_levels :: "program_level list"

section \<open>The prerequisite graph\<close>

type_synonym positions = "(string \<times> (int \<times> int)) list"

definition graph_error :: "string \<Rightarrow> exn" where
  "graph_error message = Exn ValidationError message"

text \<open>The inner and the outer loop that fill \<open>positions\<close>.\<close>

fun place_milestones :: "int \<Rightarrow> milestone_spec list \<Rightarrow> positions \<Rightarrow> positions res" where
  "place_milestones level_sequence [] positions = Inr positions"
| "place_milestones level_sequence (m # ms) positions =
     (if map_of positions (ml_milestone_id m) \<noteq> None then
        Inl (graph_error ''milestone IDs must be unique across a program'')
      else place_milestones level_sequence ms
             (positions @ [(ml_milestone_id m, (level_sequence, ml_sequence m))]))"

fun place_levels :: "program_level list \<Rightarrow> positions \<Rightarrow> positions res" where
  "place_levels [] positions = Inr positions"
| "place_levels (l # ls) positions =
     (if \<not> distinct (map ml_sequence (lv_milestones l)) then
        Inl (graph_error ''milestone sequences must be unique within a level'')
      else case place_milestones (lv_sequence l) (lv_milestones l) positions of
        Inl e \<Rightarrow> Inl e
      | Inr positions' \<Rightarrow> place_levels ls positions')"

text \<open>\<open>prior < current\<close> on pairs.\<close>

definition position_less :: "int \<times> int \<Rightarrow> int \<times> int \<Rightarrow> bool" where
  "position_less p q \<longleftrightarrow> fst p < fst q \<or> fst p = fst q \<and> snd p < snd q"

fun check_prerequisites :: "positions \<Rightarrow> int \<times> int \<Rightarrow> string list \<Rightarrow> unit res" where
  "check_prerequisites positions current [] = Inr ()"
| "check_prerequisites positions current (p # ps) =
     (case map_of positions p of
        None \<Rightarrow> Inl (graph_error ''unknown milestone prerequisite'')
      | Some prior \<Rightarrow>
          if \<not> position_less prior current then
            Inl (graph_error ''a prerequisite must precede its dependent milestone'')
          else check_prerequisites positions current ps)"

fun check_milestones :: "positions \<Rightarrow> milestone_spec list \<Rightarrow> unit res" where
  "check_milestones positions [] = Inr ()"
| "check_milestones positions (m # ms) =
     (case check_prerequisites positions (the (map_of positions (ml_milestone_id m)))
             (ml_prerequisites m) of
        Inl e \<Rightarrow> Inl e | Inr _ \<Rightarrow> check_milestones positions ms)"

definition validate_graph :: "education_program \<Rightarrow> unit res" where
  "validate_graph p =
     (if \<not> distinct (map lv_level_id (ep_levels p)) then
        Inl (graph_error ''program level IDs must be unique'')
      else if \<not> distinct (map lv_sequence (ep_levels p)) then
        Inl (graph_error ''program level sequences must be unique'')
      else case place_levels (ep_levels p) [] of
        Inl e \<Rightarrow> Inl e
      | Inr positions \<Rightarrow> check_milestones positions (concat (map lv_milestones (ep_levels p))))"

definition program_level_valid :: "(rat list \<Rightarrow> rat) \<Rightarrow> program_level \<Rightarrow> bool" where
  "program_level_valid fsum l \<longleftrightarrow>
     is_identifier (lv_level_id l) \<and> length_between 1 300 (lv_title l) \<and> 1 \<le> lv_sequence l \<and>
     lv_milestones l \<noteq> [] \<and> list_all (milestone_spec_valid fsum) (lv_milestones l)"

definition program_valid :: "(rat list \<Rightarrow> rat) \<Rightarrow> education_program \<Rightarrow> bool" where
  "program_valid fsum p \<longleftrightarrow>
     is_identifier (ep_program_id p) \<and> is_semver (ep_version p) \<and> length_between 1 300 (ep_title p) \<and>
     length_between 1 4000 (ep_description p) \<and> length_between 1 300 (ep_owner_ref p) \<and>
     ep_levels p \<noteq> [] \<and> list_all (program_level_valid fsum) (ep_levels p) \<and>
     validate_graph p = Inr ()"

definition program_milestones :: "education_program \<Rightarrow> (string \<times> milestone_spec) list" where
  "program_milestones p =
     concat (map (\<lambda>l. map (\<lambda>m. (lv_level_id l, m)) (sort_key ml_sequence (lv_milestones l)))
       (sort_key lv_sequence (ep_levels p)))"

section \<open>Enrollments\<close>

record program_ref =
  pf_program_id :: string
  pf_version :: string
  pf_sha256 :: string
  pf_source_uri :: string

definition program_ref_valid :: "program_ref \<Rightarrow> bool" where
  "program_ref_valid r \<longleftrightarrow>
     is_identifier (pf_program_id r) \<and> is_semver (pf_version r) \<and> is_sha256 (pf_sha256 r)"

definition program_selector :: "program_ref \<Rightarrow> string" where
  "program_selector r = pf_program_id r @ ''@'' @ pf_version r"

datatype result_source = SRC_MANUAL | SRC_SCORE | SRC_PROJECT

record requirement_result =
  rt_requirement_id :: string
  rt_satisfied :: bool
  rt_points_awarded :: rat
  rt_source :: result_source
  rt_actor_id :: string
  rt_actor_role :: string
  rt_evidence_ref :: string
  rt_observed_value :: string
  rt_recorded_at :: int

definition requirement_result_valid :: "requirement_result \<Rightarrow> bool" where
  "requirement_result_valid r \<longleftrightarrow> is_identifier (rt_requirement_id r) \<and>
     0 \<le> rt_points_awarded r \<and> rt_points_awarded r \<le> 1000"

record milestone_progress =
  mp_milestone_id :: string
  mp_level_id :: string
  mp_goal_title :: string
  mp_pipeline_id :: string
  mp_pipeline_version :: string
  mp_status :: milestone_status
  mp_bound_project_id :: "string option"
  mp_results :: "requirement_result list"
  mp_started_at :: "int option"
  mp_completed_at :: "int option"

definition milestone_progress_valid :: "milestone_progress \<Rightarrow> bool" where
  "milestone_progress_valid m \<longleftrightarrow>
     is_identifier (mp_milestone_id m) \<and> is_identifier (mp_level_id m) \<and>
     length_between 1 300 (mp_goal_title m) \<and> list_all requirement_result_valid (mp_results m) \<and>
     distinct (map rt_requirement_id (mp_results m)) \<and>
     (mp_status m = MS_COMPLETED \<longleftrightarrow> mp_completed_at m \<noteq> None)"

record program_notification =
  pn_event_type :: string
  pn_required_role :: string
  pn_enrollment_revision :: int
  pn_recorded_at :: int

datatype completion_command = CMD_APPROVE | CMD_RETURN

record completion_decision =
  cd_command :: completion_command
  cd_actor_id :: string
  cd_actor_role :: string
  cd_rationale :: string
  cd_decided_at :: int
  cd_source :: string
  cd_authority_context :: string

definition completion_decision_valid :: "completion_decision \<Rightarrow> bool" where
  "completion_decision_valid d \<longleftrightarrow> cd_actor_role d = ''administrator'' \<and>
     length_between 1 4000 (cd_rationale d)"

record program_audit_event =
  pa_event_id :: string
  pa_enrollment_id :: string
  pa_event_type :: string
  pa_actor_id :: string
  pa_actor_role :: string
  pa_enrollment_revision :: int
  pa_occurred_at :: int
  pa_details :: "(string \<times> json) list"

definition program_audit_event_valid :: "program_audit_event \<Rightarrow> bool" where
  "program_audit_event_valid e \<longleftrightarrow> is_identifier (pa_enrollment_id e) \<and> 1 \<le> pa_enrollment_revision e"

record education_enrollment =
  ee_enrollment_id :: string
  ee_learner_ref :: string
  ee_program :: program_ref
  ee_revision :: int
  ee_status :: enrollment_status
  ee_created_at :: int
  ee_updated_at :: int
  ee_milestones :: "milestone_progress list"
  ee_notifications :: "program_notification list"
  ee_decisions :: "completion_decision list"
  ee_audit_event_ids :: "string list"

text \<open>\<open>validate_enrollment_integrity\<close>, and with the field constraints \<open>enrollment_valid\<close>.\<close>

definition enrollment_integrity :: "education_enrollment \<Rightarrow> bool" where
  "enrollment_integrity e \<longleftrightarrow>
     distinct (map mp_milestone_id (ee_milestones e)) \<and>
     (ee_status e = EN_HITL_PENDING \<longrightarrow> ee_notifications e \<noteq> []) \<and>
     (ee_status e = EN_COMPLETED \<longrightarrow>
        ee_decisions e \<noteq> [] \<and> cd_command (last (ee_decisions e)) = CMD_APPROVE) \<and>
     (ee_status e = EN_RETURNED \<longrightarrow>
        ee_decisions e \<noteq> [] \<and> cd_command (last (ee_decisions e)) = CMD_RETURN)"

definition enrollment_valid :: "education_enrollment \<Rightarrow> bool" where
  "enrollment_valid e \<longleftrightarrow>
     is_identifier (ee_enrollment_id e) \<and> length_between 1 300 (ee_learner_ref e) \<and>
     program_ref_valid (ee_program e) \<and> 1 \<le> ee_revision e \<and>
     list_all milestone_progress_valid (ee_milestones e) \<and>
     list_all (\<lambda>n. 1 \<le> pn_enrollment_revision n) (ee_notifications e) \<and>
     list_all completion_decision_valid (ee_decisions e) \<and> enrollment_integrity e"

lemma enrollment_valid_save:
  "enrollment_valid e \<Longrightarrow> 1 \<le> r \<Longrightarrow> enrollment_valid (e\<lparr>ee_revision := r, ee_updated_at := now\<rparr>)"
  by (simp add: enrollment_valid_def enrollment_integrity_def)

section \<open>Prerequisites precede their dependents\<close>

lemma place_milestones_Inr:
  "place_milestones s ms positions = Inr positions' \<Longrightarrow>
   positions' = positions @ map (\<lambda>m. (ml_milestone_id m, (s, ml_sequence m))) ms \<and>
   (distinct (map fst positions) \<longrightarrow> distinct (map fst positions'))"
  by (induction ms arbitrary: positions)
     (force simp: map_of_eq_None_iff split: if_splits)+

definition level_positions :: "program_level \<Rightarrow> positions" where
  "level_positions l = map (\<lambda>m. (ml_milestone_id m, (lv_sequence l, ml_sequence m))) (lv_milestones l)"

lemma place_levels_Inr:
  "place_levels ls positions = Inr positions' \<Longrightarrow>
   positions' = positions @ concat (map level_positions ls) \<and>
   (distinct (map fst positions) \<longrightarrow> distinct (map fst positions')) \<and>
   (\<forall>l \<in> set ls. distinct (map ml_sequence (lv_milestones l)))"
proof (induction ls arbitrary: positions)
  case (Cons l ls)
  then obtain p1 where p1: "place_milestones (lv_sequence l) (lv_milestones l) positions = Inr p1"
    "place_levels ls p1 = Inr positions'" "distinct (map ml_sequence (lv_milestones l))"
    by (auto split: if_splits sum.splits)
  have first: "p1 = positions @ level_positions l"
    "distinct (map fst positions) \<longrightarrow> distinct (map fst p1)"
    using place_milestones_Inr [OF p1(1)] unfolding level_positions_def by blast+
  have rest: "positions' = p1 @ concat (map level_positions ls)"
    "distinct (map fst p1) \<longrightarrow> distinct (map fst positions')"
    "\<forall>l \<in> set ls. distinct (map ml_sequence (lv_milestones l))"
    using Cons.IH [OF p1(2)] by blast+
  show ?case
  proof (intro conjI)
    show "positions' = positions @ concat (map level_positions (l # ls))"
      using first(1) rest(1) by simp
    show "distinct (map fst positions) \<longrightarrow> distinct (map fst positions')"
      using first(2) rest(2) by blast
    show "\<forall>l \<in> set (l # ls). distinct (map ml_sequence (lv_milestones l))"
      using p1(3) rest(3) by simp
  qed
qed simp

lemma check_prerequisites_Inr:
  "check_prerequisites positions current ps = Inr () \<longleftrightarrow>
   (\<forall>p \<in> set ps. \<exists>prior. map_of positions p = Some prior \<and> position_less prior current)"
  by (induction ps) (auto split: option.splits)

lemma check_milestones_Inr:
  "check_milestones positions ms = Inr () \<longleftrightarrow>
   (\<forall>m \<in> set ms. check_prerequisites positions (the (map_of positions (ml_milestone_id m)))
      (ml_prerequisites m) = Inr ())"
  by (induction ms) (auto split: sum.splits)

text \<open>The milestones in execution order, each with its level.\<close>

definition placed :: "education_program \<Rightarrow> (program_level \<times> milestone_spec) list" where
  "placed p = concat (map (\<lambda>l. map (\<lambda>m. (l, m)) (sort_key ml_sequence (lv_milestones l)))
     (sort_key lv_sequence (ep_levels p)))"

definition place :: "program_level \<times> milestone_spec \<Rightarrow> int \<times> int" where
  "place x = (lv_sequence (fst x), ml_sequence (snd x))"

lemma program_milestones_placed:
  "program_milestones p = map (\<lambda>x. (lv_level_id (fst x), snd x)) (placed p)"
  by (simp add: program_milestones_def placed_def map_concat o_def)

lemma sorted_key_strict:
  assumes "distinct (map f xs)"
  shows "sorted_wrt (\<lambda>x y. f x < f y) (sort_key f xs)"
proof -
  have "distinct (map f (sort_key f xs))"
    using assms by (metis distinct_map distinct_sort set_sort)
  moreover have "sorted (map f (sort_key f xs))" by simp
  ultimately have "sorted_wrt (<) (map f (sort_key f xs))" by (simp add: strict_sorted_iff)
  then show ?thesis by (simp add: sorted_wrt_map)
qed

lemma placed_sorted_levels:
  "sorted_wrt (\<lambda>l l'. lv_sequence l < lv_sequence l') ls \<Longrightarrow>
   \<forall>l \<in> set ls. distinct (map ml_sequence (lv_milestones l)) \<Longrightarrow>
   sorted_wrt (\<lambda>x y. position_less (place x) (place y))
     (concat (map (\<lambda>l. map (\<lambda>m. (l, m)) (sort_key ml_sequence (lv_milestones l))) ls))"
proof (induction ls)
  case (Cons l ls)
  have "sorted_wrt (\<lambda>m m'. position_less (place (l, m)) (place (l, m')))
      (sort_key ml_sequence (lv_milestones l))"
    using sorted_key_strict [of ml_sequence "lv_milestones l"] Cons.prems(2)
    by (simp add: place_def position_less_def)
  with Cons show ?case
    by (auto simp: sorted_wrt_append sorted_wrt_map place_def position_less_def)
qed simp

lemma validate_graph_placed:
  assumes "validate_graph p = Inr ()"
  shows "sorted_wrt (\<lambda>x y. position_less (place x) (place y)) (placed p)"
    and "distinct (map (\<lambda>x. ml_milestone_id (snd x)) (placed p))"
    and "x \<in> set (placed p) \<Longrightarrow> q \<in> set (ml_prerequisites (snd x)) \<Longrightarrow>
         \<exists>y \<in> set (placed p). ml_milestone_id (snd y) = q \<and> position_less (place y) (place x)"
proof -
  obtain positions where lv: "distinct (map lv_sequence (ep_levels p))"
    and pl: "place_levels (ep_levels p) [] = Inr positions"
    and ck: "check_milestones positions (concat (map lv_milestones (ep_levels p))) = Inr ()"
    using assms by (auto simp: validate_graph_def split: if_splits sum.splits)
  note pos = place_levels_Inr [OF pl, simplified]
  show "sorted_wrt (\<lambda>x y. position_less (place x) (place y)) (placed p)"
    unfolding placed_def
    by (rule placed_sorted_levels) (use sorted_key_strict [OF lv] pos in auto)
  have "mset (map (\<lambda>x. (ml_milestone_id (snd x), place x)) (placed p)) = mset positions"
  proof -
    have "mset (map (\<lambda>x. (ml_milestone_id (snd x), place x))
        (concat (map (\<lambda>l. map (\<lambda>m. (l, m)) (sort_key ml_sequence (lv_milestones l))) ls))) =
        mset (concat (map level_positions ls))" for ls
    proof (induction ls)
      case (Cons l ls)
      have one: "mset (map (\<lambda>x. (ml_milestone_id (snd x), place x))
          (map (\<lambda>m. (l, m)) (sort_key ml_sequence (lv_milestones l)))) = mset (level_positions l)"
        by (simp add: level_positions_def place_def image_mset.compositionality o_def)
      show ?case
        by (simp only: list.map concat.simps map_append mset_append one Cons.IH)
    qed simp
    moreover have "mset (concat (map level_positions ls)) =
        sum_mset (image_mset (\<lambda>l. mset (level_positions l)) (mset ls))" for ls
      by (induction ls) simp_all
    then have "mset (concat (map level_positions (sort_key lv_sequence (ep_levels p)))) =
        mset (concat (map level_positions (ep_levels p)))"
      by simp
    ultimately show ?thesis using pos by (simp add: placed_def)
  qed
  then have ms: "mset (map (\<lambda>x. (ml_milestone_id (snd x), place x)) (placed p)) = mset positions" .
  from arg_cong [OF ms, of "image_mset fst"]
  have "mset (map (\<lambda>x. ml_milestone_id (snd x)) (placed p)) = mset (map fst positions)"
    by (simp add: image_mset.compositionality o_def)
  then show dist: "distinct (map (\<lambda>x. ml_milestone_id (snd x)) (placed p))"
    using pos by (metis mset_eq_imp_distinct_iff)
  assume x: "x \<in> set (placed p)" and q: "q \<in> set (ml_prerequisites (snd x))"
  have sets: "(i, pl) \<in> set positions \<longleftrightarrow>
      (\<exists>y \<in> set (placed p). i = ml_milestone_id (snd y) \<and> pl = place y)" for i pl
  proof -
    have "set positions = (\<lambda>x. (ml_milestone_id (snd x), place x)) ` set (placed p)"
      using mset_eq_setD [OF ms] by simp
    then show ?thesis by auto
  qed
  have at: "map_of positions (ml_milestone_id (snd x)) = Some (place x)"
    using pos x sets by (intro map_of_is_SomeI) auto
  have "snd x \<in> set (concat (map lv_milestones (ep_levels p)))"
    using x by (auto simp: placed_def)
  with ck q obtain prior where prior: "map_of positions q = Some prior"
    "position_less prior (the (map_of positions (ml_milestone_id (snd x))))"
    unfolding check_milestones_Inr check_prerequisites_Inr by blast
  with sets [of q prior] map_of_SomeD [OF prior(1)] at
  show "\<exists>y \<in> set (placed p). ml_milestone_id (snd y) = q \<and> position_less (place y) (place x)"
    by auto
qed

section \<open>Properties\<close>

text \<open>
  C13. A program that passes its validator can be worked through in order: milestone ids are
  unique, and in the execution order of \<open>milestones()\<close> every prerequisite of a milestone is
  itself a milestone that stands before it; so the prerequisite relation has no cycle.
\<close>

theorem prerequisites_precede:
  assumes "validate_graph p = Inr ()" and "j < length (program_milestones p)"
    and "q \<in> set (ml_prerequisites (snd (program_milestones p ! j)))"
  shows "distinct (map (\<lambda>x. ml_milestone_id (snd x)) (program_milestones p)) \<and>
    (\<exists>i < j. ml_milestone_id (snd (program_milestones p ! i)) = q)"
proof
  note v = validate_graph_placed [OF assms(1)]
  show "distinct (map (\<lambda>x. ml_milestone_id (snd x)) (program_milestones p))"
    using v(2) by (simp add: program_milestones_placed o_def)
  have j: "j < length (placed p)" using assms(2) by (simp add: program_milestones_placed)
  then have "q \<in> set (ml_prerequisites (snd (placed p ! j)))"
    using assms(3) by (simp add: program_milestones_placed)
  from v(3) [OF nth_mem [OF j] this] obtain i where i: "i < length (placed p)"
    "ml_milestone_id (snd (placed p ! i)) = q" "position_less (place (placed p ! i)) (place (placed p ! j))"
    by (auto simp: in_set_conv_nth)
  have "\<not> j < i"
  proof
    assume "j < i"
    from sorted_wrt_nth_less [OF v(1) this i(1)] i(3) show False by (auto simp: position_less_def)
  qed
  moreover have "i \<noteq> j" using i(3) by (auto simp: position_less_def)
  ultimately have "i < j" by simp
  with i(2) j show "\<exists>i < j. ml_milestone_id (snd (program_milestones p ! i)) = q"
    by (auto simp: program_milestones_placed)
qed

definition demo_milestone :: "string \<Rightarrow> int \<Rightarrow> string list \<Rightarrow> milestone_spec" where
  "demo_milestone i n ps =
     \<lparr>ml_milestone_id = i, ml_title = ''t'', ml_sequence = n, ml_kind = LEARNING_ACTIVITY,
      ml_prerequisites = ps, ml_pipeline_id = ''abc'', ml_pipeline_version = ''v1'',
      ml_requirements = [ManualConfirmation ''r'' ''t'' ''instructor'' 1],
      ml_completion_rule = \<lparr>cm_mode = ALL_REQUIRED, cm_minimum_points = None\<rparr>, ml_required = True\<rparr>"

definition demo_program :: education_program where
  "demo_program =
     \<lparr>ep_program_id = ''g'', ep_version = ''1.0.0'', ep_title = ''t'', ep_description = ''d'',
      ep_status = PROGRAM_PUBLISHED, ep_owner_ref = ''o'',
      ep_levels = [\<lparr>lv_level_id = ''b'', lv_title = ''t'', lv_sequence = 2,
                    lv_milestones = [demo_milestone ''z'' 1 [''x'', ''y'']]\<rparr>,
                   \<lparr>lv_level_id = ''a'', lv_title = ''t'', lv_sequence = 1,
                    lv_milestones = [demo_milestone ''y'' 2 [''x''], demo_milestone ''x'' 1 []]\<rparr>]\<rparr>"

lemma demo_graph: "validate_graph demo_program = Inr ()"
  by (simp add: validate_graph_def demo_program_def demo_milestone_def position_less_def)

lemma demo_milestones:
  "map (\<lambda>x. ml_milestone_id (snd x)) (program_milestones demo_program) = [''x'', ''y'', ''z'']"
  by (simp add: program_milestones_def demo_program_def demo_milestone_def)

theorem prerequisites_precede_witness:
  "\<exists>i < 2. ml_milestone_id (snd (program_milestones demo_program ! i)) = ''y''"
  using prerequisites_precede [OF demo_graph, of 2 "''y''"]
  by (simp add: program_milestones_def demo_program_def demo_milestone_def)

end
