(* ===== verification/ProgramStore.thy ===== *)
theory ProgramStore
  imports EducationSchema DossierStore
begin

text \<open>
  The education repositories of \<open>programs/repository.py\<close>: immutable program versions, bound to
  their content hash, and revisioned enrollments. The enrollment repository meets the same
  \<open>cas_repository\<close> contract as the dossier repository, with its own stale-revision error.
\<close>

section \<open>Program repository\<close>

text \<open>A program file parses to a program (whose validity the load checks) or does not.\<close>

type_synonym program_dir = "string \<Rightarrow> education_program option option"

record program_env =
  pe_sha_program :: "education_program \<Rightarrow> string"
  pe_fsum :: "rat list \<Rightarrow> rat"
  pe_root :: string

definition program_path_for :: "string \<Rightarrow> string \<Rightarrow> string res" where
  "program_path_for program_id version =
     (if \<not> is_identifier program_id \<or> \<not> is_identifier version then
        Inl (Exn ProgramRepositoryError ''invalid program selector'')
      else Inr (program_id @ ''@'' @ version @ ''.program.yaml''))"

definition program_load_path :: "program_env \<Rightarrow> education_program option \<Rightarrow> education_program res" where
  "program_load_path env content =
     (case content of
        Some p \<Rightarrow> if program_valid (pe_fsum env) p then Inr p
                  else Inl (Exn ValidationError ''EducationProgram'')
      | None \<Rightarrow> Inl (Exn ValidationError ''EducationProgram''))"

definition program_ref_for :: "program_env \<Rightarrow> education_program \<Rightarrow> string \<Rightarrow> program_ref" where
  "program_ref_for env p path =
     \<lparr>pf_program_id = ep_program_id p, pf_version = ep_version p, pf_sha256 = pe_sha_program env p,
      pf_source_uri = pe_root env @ ''/'' @ path\<rparr>"

definition program_publish ::
  "program_env \<Rightarrow> education_program \<Rightarrow> program_dir \<Rightarrow> (program_ref, program_dir) outcome" where
  "program_publish env p dir =
     seq (pure (program_path_for (ep_program_id p) (ep_version p)) dir) (\<lambda>path dir.
     seq (case dir path of
            None \<Rightarrow> (Inr (), dir(path \<mapsto> Some p))
          | Some content \<Rightarrow>
              seq (pure (program_load_path env content) dir) (\<lambda>existing dir.
              if pe_sha_program env existing \<noteq> pe_sha_program env p then
                (Inl (Exn ProgramVersionConflictError
                   ''program selector already has different content''), dir)
              else (Inr (), dir))) (\<lambda>_ dir.
     (Inr (program_ref_for env p path), dir)))"

text \<open>\<open>selector.rsplit("@", 1)\<close>; \<open>None\<close> when there is no \<open>@\<close>.\<close>

fun rsplit_at :: "string \<Rightarrow> (string \<times> string) option" where
  "rsplit_at [] = None"
| "rsplit_at (c # cs) =
     (case rsplit_at cs of
        Some (a, b) \<Rightarrow> Some (c # a, b)
      | None \<Rightarrow> if c = CHR ''@'' then Some ([], cs) else None)"

definition program_resolve ::
  "program_env \<Rightarrow> string \<Rightarrow> program_dir \<Rightarrow> (education_program \<times> program_ref) res" where
  "program_resolve env selector dir =
     (case rsplit_at selector of
        None \<Rightarrow> Inl (Exn ProgramRepositoryError ''program selector must be program_id@version'')
      | Some (program_id, version) \<Rightarrow>
     (case program_path_for program_id version of
        Inl e \<Rightarrow> Inl e
      | Inr path \<Rightarrow>
     (case dir path of
        None \<Rightarrow> Inl (Exn ProgramRepositoryError ''program not found'')
      | Some content \<Rightarrow>
     (case program_load_path env content of
        Inl e \<Rightarrow> Inl e
      | Inr p \<Rightarrow>
          if ep_program_id p \<noteq> program_id \<or> ep_version p \<noteq> version then
            Inl (Exn ProgramRepositoryError
              ''program content selector does not match its repository path'')
          else Inr (p, program_ref_for env p path)))))"

section \<open>Enrollment repository\<close>

type_synonym enrollment_dir = "string \<Rightarrow> education_enrollment option option"

definition enrollment_path_for :: "string \<Rightarrow> string res" where
  "enrollment_path_for enrollment_id =
     (if is_identifier enrollment_id then Inr (''AXE-'' @ enrollment_id @ ''.enrollment.yaml'')
      else Inl (Exn ProgramRepositoryError ''invalid enrollment_id''))"

definition enrollment_load :: "string \<Rightarrow> enrollment_dir \<Rightarrow> education_enrollment res" where
  "enrollment_load enrollment_id dir =
     (case enrollment_path_for enrollment_id of
        Inl e \<Rightarrow> Inl e
      | Inr path \<Rightarrow>
     (case dir path of
        None \<Rightarrow> Inl (Exn ProgramRepositoryError ''enrollment not found'')
      | Some None \<Rightarrow> Inl (Exn ValidationError ''EducationEnrollment'')
      | Some (Some e) \<Rightarrow>
          if \<not> enrollment_valid e then Inl (Exn ValidationError ''EducationEnrollment'')
          else if ee_enrollment_id e \<noteq> enrollment_id then
            Inl (Exn ProgramRepositoryError
              ''enrollment content ID does not match its repository path'')
          else Inr e))"

definition enrollment_create ::
  "education_enrollment \<Rightarrow> enrollment_dir \<Rightarrow> (string, enrollment_dir) outcome" where
  "enrollment_create e dir =
     seq (pure (enrollment_path_for (ee_enrollment_id e)) dir) (\<lambda>path dir.
     if dir path \<noteq> None then
       (Inl (Exn ProgramRepositoryError ''enrollment already exists''), dir)
     else (Inr path, dir(path \<mapsto> Some e)))"

definition enrollment_save ::
  "education_enrollment \<Rightarrow> int \<Rightarrow> int \<Rightarrow> enrollment_dir \<Rightarrow>
   (education_enrollment, enrollment_dir) outcome" where
  "enrollment_save e expected_revision now dir =
     seq (pure (enrollment_path_for (ee_enrollment_id e)) dir) (\<lambda>path dir.
     seq (pure (enrollment_load (ee_enrollment_id e) dir) dir) (\<lambda>current dir.
     if ee_revision current \<noteq> expected_revision then
       (Inl (Exn EnrollmentRevisionConflictError ''expected revision; current revision is''), dir)
     else
       (let updated = e\<lparr>ee_revision := expected_revision + 1, ee_updated_at := now\<rparr>
        in (Inr updated, dir(path \<mapsto> Some updated)))))"

section \<open>Lemmas\<close>

abbreviation enrollment_file :: "string \<Rightarrow> string" where
  "enrollment_file i \<equiv> ''AXE-'' @ i @ ''.enrollment.yaml''"

lemma enrollment_load_valid:
  "enrollment_load i dir = Inr e \<Longrightarrow> enrollment_valid e \<and> ee_enrollment_id e = i \<and> is_identifier i"
  by (auto simp: enrollment_load_def enrollment_path_for_def split: option.splits if_splits)

lemma enrollment_load_written:
  "enrollment_valid e \<Longrightarrow>
   enrollment_load (ee_enrollment_id e) (dir(enrollment_file (ee_enrollment_id e) \<mapsto> Some e)) = Inr e"
  by (simp add: enrollment_load_def enrollment_path_for_def) (simp add: enrollment_valid_def)

lemma enrollment_load_other:
  "i \<noteq> ee_enrollment_id e \<Longrightarrow>
   enrollment_load i (dir(enrollment_file (ee_enrollment_id e) \<mapsto> Some e)) = enrollment_load i dir"
  by (simp add: enrollment_load_def enrollment_path_for_def)

lemma enrollment_save_Inr:
  "enrollment_save e r now dir = (Inr e', dir') \<longleftrightarrow>
   is_identifier (ee_enrollment_id e) \<and>
   (\<exists>c. enrollment_load (ee_enrollment_id e) dir = Inr c \<and> ee_revision c = r) \<and>
   e' = e\<lparr>ee_revision := r + 1, ee_updated_at := now\<rparr> \<and>
   dir' = dir(enrollment_file (ee_enrollment_id e) \<mapsto> Some e')"
  by (auto simp: enrollment_save_def outcome_simps Let_def enrollment_path_for_def split: if_splits)

lemma enrollment_save_Inl: "enrollment_save e r now dir = (Inl x, dir') \<Longrightarrow> dir' = dir"
  by (auto simp: enrollment_save_def outcome_simps Let_def split: if_splits)

interpretation enrollments: cas_repository enrollment_load enrollment_save ee_enrollment_id
  ee_revision enrollment_valid EnrollmentRevisionConflictError
proof
  fix v :: education_enrollment and s c r now
  assume "enrollment_load (ee_enrollment_id v) s = Inr c" "ee_revision c = r"
  then show "\<exists>v' s'. enrollment_save v r now s = (Inr v', s')"
    using enrollment_load_valid by (auto simp: enrollment_save_Inr)
next
  fix v :: education_enrollment and r now s v' s'
  assume sv: "enrollment_save v r now s = (Inr v', s')"
  then show "(\<exists>c. enrollment_load (ee_enrollment_id v) s = Inr c \<and> ee_revision c = r) \<and>
       ee_enrollment_id v' = ee_enrollment_id v \<and> ee_revision v' = r + 1 \<and>
       (enrollment_valid v \<longrightarrow> 0 \<le> r \<longrightarrow>
          enrollment_valid v' \<and> enrollment_load (ee_enrollment_id v) s' = Inr v')"
    using enrollment_load_written [of v'] enrollment_valid_save [of v "r + 1" now]
    by (auto simp: enrollment_save_Inr)
next
  fix v :: education_enrollment and r now s e s'
  assume "enrollment_save v r now s = (Inl e, s')"
  then show "s' = s" by (rule enrollment_save_Inl)
next
  fix v :: education_enrollment and s c r now
  assume "enrollment_load (ee_enrollment_id v) s = Inr c" "ee_revision c \<noteq> r"
  then show "\<exists>m. enrollment_save v r now s = (Inl (Exn EnrollmentRevisionConflictError m), s)"
    using enrollment_load_valid
    by (auto simp: enrollment_save_def enrollment_path_for_def pure_def)
next
  fix v :: education_enrollment and r now s res s' k
  assume sv: "enrollment_save v r now s = (res, s')" and k: "k \<noteq> ee_enrollment_id v"
  show "enrollment_load k s' = enrollment_load k s"
  proof (cases res)
    case (Inl e)
    with sv show ?thesis by (auto dest: enrollment_save_Inl)
  next
    case (Inr v')
    with sv k enrollment_load_other [of k v' s] show ?thesis by (auto simp: enrollment_save_Inr)
  qed
qed

lemma rsplit_at_None: "rsplit_at s = None \<longleftrightarrow> CHR ''@'' \<notin> set s"
  by (induction s) (auto split: option.splits)

lemma rsplit_at_selector:
  "CHR ''@'' \<notin> set b \<Longrightarrow> rsplit_at (a @ CHR ''@'' # b) = Some (a, b)"
  using rsplit_at_None [of b] by (induction a) simp_all

lemma is_identifier_at: "is_identifier s \<Longrightarrow> CHR ''@'' \<notin> set s"
  by (cases s) (auto simp: is_identifier_def list_all_iff char_class_defs)

lemma program_path_for_inj:
  assumes "program_path_for i v = Inr path" "program_path_for i' v' = Inr path"
  shows "i = i' \<and> v = v'"
proof -
  have ids: "is_identifier i" "is_identifier v" "is_identifier i'" "is_identifier v'"
    and eq: "i @ CHR ''@'' # (v @ ''.program.yaml'') = i' @ CHR ''@'' # (v' @ ''.program.yaml'')"
    using assms by (auto simp: program_path_for_def split: if_splits)
  have "CHR ''@'' \<notin> set (w @ ''.program.yaml'')" if "is_identifier w" for w
    using is_identifier_at [OF that] by simp
  with ids have split: "rsplit_at (i @ CHR ''@'' # (v @ ''.program.yaml'')) = Some (i, v @ ''.program.yaml'')"
    "rsplit_at (i' @ CHR ''@'' # (v' @ ''.program.yaml'')) = Some (i', v' @ ''.program.yaml'')"
    by (intro rsplit_at_selector; simp)+
  have "Some (i, v @ ''.program.yaml'') = Some (i', v' @ ''.program.yaml'')"
    unfolding split [symmetric] eq ..
  then show ?thesis by simp
qed

section \<open>Properties\<close>

text \<open>
  Published programs are immutable: publishing changes no file that exists, it either raises
  and changes nothing or returns the reference by which the program, or one with the same
  content hash that was there before, resolves from then on.
\<close>

theorem publish_immutable:
  assumes "program_publish env p dir = (res, dir')" and "program_valid (pe_fsum env) p"
    and "\<forall>path c q. dir path = Some c \<longrightarrow> program_load_path env c = Inr q \<longrightarrow>
           program_path_for (ep_program_id q) (ep_version q) = Inr path"
  shows "(\<forall>path c. dir path = Some c \<longrightarrow> dir' path = Some c) \<and>
    (case res of
       Inl e \<Rightarrow> dir' = dir
     | Inr ref' \<Rightarrow> \<exists>q. program_resolve env (program_selector ref') dir' = Inr (q, ref') \<and>
         pe_sha_program env q = pe_sha_program env p)"
proof (cases "program_path_for (ep_program_id p) (ep_version p)")
  case (Inl e)
  with assms(1) show ?thesis by (auto simp: program_publish_def pure_def)
next
  case (Inr path)
  have ids: "is_identifier (ep_program_id p)" "is_identifier (ep_version p)"
    using Inr by (auto simp: program_path_for_def split: if_splits)
  have sel: "rsplit_at (ep_program_id p @ ''@'' @ ep_version p) = Some (ep_program_id p, ep_version p)"
    using rsplit_at_selector [OF is_identifier_at [OF ids(2)]] by simp
  show ?thesis
  proof (cases "dir path")
    case None
    with assms(1,2) Inr sel show ?thesis
      by (auto simp: program_publish_def pure_def program_resolve_def program_selector_def
          program_ref_for_def program_load_path_def)
  next
    case (Some c)
    show ?thesis
    proof (cases "program_load_path env c")
      case (Inl e)
      with Some assms(1) Inr show ?thesis by (auto simp: program_publish_def pure_def)
    next
      case Q: (Inr q)
      have "program_path_for (ep_program_id q) (ep_version q) = Inr path"
        using assms(3) Some Q by blast
      with Inr have same: "ep_program_id q = ep_program_id p" "ep_version q = ep_version p"
        using program_path_for_inj by blast+
      with Some Q assms(1) Inr sel show ?thesis
        by (auto simp: program_publish_def pure_def program_resolve_def program_selector_def
            program_ref_for_def split: if_splits)
    qed
  qed
qed

definition demo_program_env :: program_env where
  "demo_program_env = \<lparr>pe_sha_program = (\<lambda>p. if ep_status p = PROGRAM_PUBLISHED then demo_sha else []),
     pe_fsum = sum_list, pe_root = ''r''\<rparr>"

lemma demo_program_valid: "program_valid sum_list demo_program"
  using demo_graph
  by (simp add: program_valid_def)
     (simp add: demo_program_def demo_milestone_def program_level_valid_def milestone_spec_valid_def
      is_identifier_def length_between_def is_semver_def eat_number_def eat_dot_def
      is_pipeline_id_def is_pipeline_version_def reviewer_roles_def completion_rule_valid_def
      char_class_defs)

theorem publish_immutable_witness:
  "\<exists>ref' dir' q. program_publish demo_program_env demo_program Map.empty = (Inr ref', dir') \<and>
     program_resolve demo_program_env (program_selector ref') dir' = Inr (q, ref')"
proof -
  have "is_identifier ''g''" "is_identifier ''1.0.0''"
    by (simp_all add: is_identifier_def char_class_defs)
  then obtain ref' dir' where run:
    "program_publish demo_program_env demo_program Map.empty = (Inr ref', dir')"
    by (simp add: program_publish_def pure_def program_path_for_def demo_program_def)
  from publish_immutable [OF run] demo_program_valid run show ?thesis
    by (auto simp: demo_program_env_def)
qed

text \<open>
  The enrollment repository loses no update either: of any writers that loaded the same
  revision the first succeeds and its enrollment is what loads next, every other writer gets the
  enrollment revision conflict.
\<close>

theorem enrollment_one_winner:
  assumes "enrollment_load k dir = Inr c" and "ee_enrollment_id e = k" and "enrollment_valid e"
    and "\<forall>(w, r, t) \<in> set ws. ee_enrollment_id w = k \<and> r = ee_revision c"
  shows "\<exists>e' dir' rs. save_all enrollment_save ((e, ee_revision c, now) # ws) dir = (Inr e' # rs, dir') \<and>
    enrollment_load k dir' = Inr e' \<and>
    e' = e\<lparr>ee_revision := ee_revision c + 1, ee_updated_at := now\<rparr> \<and> length rs = length ws \<and>
    list_all (\<lambda>r. \<exists>m. r = Inl (Exn EnrollmentRevisionConflictError m)) rs"
proof -
  have "0 \<le> ee_revision c"
    using enrollment_load_valid [OF assms(1)] by (simp add: enrollment_valid_def)
  from enrollments.one_winner [OF assms(1-3) this assms(4), of now] obtain e' dir' where
    "enrollment_save e (ee_revision c) now dir = (Inr e', dir')" "enrollment_load k dir' = Inr e'"
    "\<exists>rs. save_all enrollment_save ((e, ee_revision c, now) # ws) dir = (Inr e' # rs, dir') \<and>
       list_all (\<lambda>r. \<exists>m. r = Inl (Exn EnrollmentRevisionConflictError m)) rs \<and> length rs = length ws"
    by blast
  then show ?thesis by (auto simp: enrollment_save_Inr)
qed

definition demo_enrollment :: "string list \<Rightarrow> education_enrollment" where
  "demo_enrollment events =
     \<lparr>ee_enrollment_id = ''n'', ee_learner_ref = ''l'',
      ee_program = \<lparr>pf_program_id = ''g'', pf_version = ''1.0.0'', pf_sha256 = demo_sha,
                    pf_source_uri = ''u''\<rparr>,
      ee_revision = 1, ee_status = EN_ACTIVE, ee_created_at = 0, ee_updated_at = 0,
      ee_milestones = [], ee_notifications = [], ee_decisions = [], ee_audit_event_ids = events\<rparr>"

lemma demo_enrollment_valid [simp]: "enrollment_valid (demo_enrollment es)"
  by (simp add: enrollment_valid_def enrollment_integrity_def demo_enrollment_def program_ref_valid_def
      is_identifier_def length_between_def is_semver_def eat_number_def eat_dot_def char_class_defs)

lemma demo_enrollment_simps [simp]:
  "ee_enrollment_id (demo_enrollment es) = ''n''" "ee_revision (demo_enrollment es) = 1"
  "ee_audit_event_ids (demo_enrollment es) = es"
  by (simp_all add: demo_enrollment_def)

theorem enrollment_one_winner_witness:
  "\<exists>e' dir' m. save_all enrollment_save [(demo_enrollment [''a''], 1, 5), (demo_enrollment [''b''], 1, 6)]
       [enrollment_file ''n'' \<mapsto> Some (demo_enrollment [])] =
         ([Inr e', Inl (Exn EnrollmentRevisionConflictError m)], dir') \<and>
     ee_audit_event_ids e' = [''a'']"
proof -
  have "enrollment_load ''n'' [enrollment_file ''n'' \<mapsto> Some (demo_enrollment [])] = Inr (demo_enrollment [])"
    using enrollment_load_written [of "demo_enrollment []" Map.empty] by simp
  from enrollment_one_winner [OF this, of "demo_enrollment [''a'']" "[(demo_enrollment [''b''], 1, 6)]" 5]
  show ?thesis by (auto simp: length_Suc_conv)
qed

end
