(* ===== verification/EnrollmentTransactions.thy ===== *)
theory EnrollmentTransactions
  imports Coordinator ProgramStore
begin

text \<open>
  The enrollment transactions of \<open>runtime/enrollment_transactions.py\<close>: the same protocol as for
  project dossiers, with plans over enrollments and program audit events, the requirement that
  an artifact is a recorded outbox entry, and the enrollment repository. The files are those
  below the parent of the education workspace.
\<close>

section \<open>Plans\<close>

datatype enrollment_operation = EN_CREATE | EN_UPDATE

record enrollment_plan =
  np_transaction_id :: string
  np_operation :: enrollment_operation
  np_enrollment_id :: string
  np_command :: string
  np_idempotency_key :: string
  np_base_revision :: int
  np_target_revision :: int
  np_base_enrollment_sha256 :: "string option"
  np_candidate :: education_enrollment
  np_audit_event :: program_audit_event
  np_required_artifacts :: "artifact_requirement list"

definition enrollment_plan_integrity :: "enrollment_plan \<Rightarrow> bool" where
  "enrollment_plan_integrity p \<longleftrightarrow>
     (let candidate = np_candidate p; event = np_audit_event p in
      ee_enrollment_id candidate = np_enrollment_id p \<and>
      pa_enrollment_id event = np_enrollment_id p \<and>
      pa_event_id event \<in> set (ee_audit_event_ids candidate) \<and>
      pa_enrollment_revision event = np_target_revision p \<and>
      (case np_operation p of
         EN_CREATE \<Rightarrow> np_base_revision p = 0 \<and> np_target_revision p = 1 \<and>
           ee_revision candidate = 1 \<and> np_base_enrollment_sha256 p = None
       | EN_UPDATE \<Rightarrow> np_target_revision p = np_base_revision p + 1 \<and>
           ee_revision candidate = np_base_revision p \<and> np_base_enrollment_sha256 p \<noteq> None))"

definition enrollment_plan_constructible :: "enrollment_plan \<Rightarrow> bool" where
  "enrollment_plan_constructible p \<longleftrightarrow>
     is_transaction_id (np_transaction_id p) \<and>
     1 \<le> length (np_command p) \<and> length (np_command p) \<le> 200 \<and>
     1 \<le> length (np_idempotency_key p) \<and> length (np_idempotency_key p) \<le> 128 \<and>
     0 \<le> np_base_revision p \<and> 1 \<le> np_target_revision p \<and>
     pred_option is_sha256 (np_base_enrollment_sha256 p) \<and> enrollment_plan_integrity p"

text \<open>Reading a plan from a journal line validates the nested objects as well.\<close>

definition enrollment_plan_readable :: "enrollment_plan \<Rightarrow> bool" where
  "enrollment_plan_readable p \<longleftrightarrow> enrollment_plan_constructible p \<and> enrollment_valid (np_candidate p) \<and>
     program_audit_event_valid (np_audit_event p) \<and>
     list_all requirement_valid (np_required_artifacts p)"

record etx_env =
  etx_sha_event :: "enrollment_plan journal_event \<Rightarrow> string"
  etx_sha_text :: "string \<Rightarrow> string"
  etx_sha_enrollment :: "education_enrollment \<Rightarrow> string"
  etx_sha_semantic :: "education_enrollment \<Rightarrow> string"
  etx_sha_file :: "file_content \<Rightarrow> string"
  etx_inject :: "string \<Rightarrow> exn option"

definition etx_jenv :: "etx_env \<Rightarrow> enrollment_plan journal_env" where
  "etx_jenv env = \<lparr>jn_sha_event = etx_sha_event env, jn_sha_text = etx_sha_text env,
     jn_plan_ok = enrollment_plan_readable, jn_tid = np_transaction_id\<rparr>"

definition enrollment_semantic_sha256 :: "etx_env \<Rightarrow> education_enrollment \<Rightarrow> int \<Rightarrow> string" where
  "enrollment_semantic_sha256 env e target_revision =
     etx_sha_semantic env (e\<lparr>ee_revision := target_revision, ee_updated_at := 0\<rparr>)"

section \<open>Requirements\<close>

definition verify_outbox_requirement ::
  "etx_env \<Rightarrow> file_tree \<Rightarrow> artifact_requirement \<Rightarrow> unit res" where
  "verify_outbox_requirement env files r =
     (case files (tr_relative_path r) of
        Some Escaping \<Rightarrow> Inl (tx_blocked ''artifact_path_escape'')
      | None \<Rightarrow> Inl (tx_blocked (''missing_'' @ kind_value (tr_kind r)))
      | Some (RegularFile content) \<Rightarrow>
          if etx_sha_file env content \<noteq> tr_sha256 r then
            Inl (tx_blocked (''changed_'' @ kind_value (tr_kind r)))
          else
            (case content of
               JsonText (JObj members) \<Rightarrow>
                 if json_get members ''delivery_status'' \<noteq>
                    (case tr_expected_delivery_status r of None \<Rightarrow> JNull | Some s \<Rightarrow> JStr s) then
                   Inl (tx_blocked ''notification_not_recorded'')
                 else Inr ()
             | _ \<Rightarrow> Inl (tx_blocked (''invalid_'' @ kind_value (tr_kind r)))))"

fun verify_outbox_requirements ::
  "etx_env \<Rightarrow> file_tree \<Rightarrow> artifact_requirement list \<Rightarrow> unit res" where
  "verify_outbox_requirements env files [] = Inr ()"
| "verify_outbox_requirements env files (r # rs) =
     (case verify_outbox_requirement env files r of
        Inl e \<Rightarrow> Inl e | Inr _ \<Rightarrow> verify_outbox_requirements env files rs)"

definition require_outbox ::
  "etx_env \<Rightarrow> file_tree \<Rightarrow> string option \<Rightarrow> artifact_requirement res" where
  "require_outbox env files relative =
     (case relative of
        None \<Rightarrow> Inl (Exn TransactionError ''education outbox is outside the AXCalib workspace'')
      | Some path \<Rightarrow>
          (case files path of
             Some (RegularFile content) \<Rightarrow>
               make_requirement NOTIFICATION_OUTBOX path (etx_sha_file env content) None
                 (Some ''recorded'')
           | _ \<Rightarrow> Inl (tx_blocked ''missing_notification_outbox'')))"

section \<open>The repository step\<close>

definition verify_enrollment_target ::
  "etx_env \<Rightarrow> education_enrollment \<Rightarrow> enrollment_plan \<Rightarrow> unit res" where
  "verify_enrollment_target env e p =
     (if ee_revision e \<noteq> np_target_revision p then
        Inl (tx_blocked ''enrollment_target_revision_mismatch'')
      else if pa_event_id (np_audit_event p) \<notin> set (ee_audit_event_ids e) then
        Inl (tx_blocked ''enrollment_target_missing_event'')
      else if enrollment_semantic_sha256 env e (ee_revision e) \<noteq>
              enrollment_semantic_sha256 env (np_candidate p) (np_target_revision p) then
        Inl (tx_blocked ''enrollment_target_hash_mismatch'')
      else Inr ())"

definition ensure_enrollment ::
  "etx_env \<Rightarrow> enrollment_plan \<Rightarrow> int \<Rightarrow> enrollment_dir \<Rightarrow>
   (education_enrollment \<times> bool, enrollment_dir) outcome" where
  "ensure_enrollment env p now dir =
     seq (pure (enrollment_path_for (np_enrollment_id p)) dir) (\<lambda>path dir.
     case np_operation p of
       EN_CREATE \<Rightarrow>
         if dir path = None then
           seq (enrollment_create (np_candidate p) dir) (\<lambda>_ dir.
           (Inr (np_candidate p, True), dir))
         else
           seq (pure (enrollment_load (np_enrollment_id p) dir) dir) (\<lambda>current dir.
           seq (pure (verify_enrollment_target env current p) dir) (\<lambda>_ dir.
           (Inr (current, False), dir)))
     | EN_UPDATE \<Rightarrow>
         seq (pure (enrollment_load (np_enrollment_id p) dir) dir) (\<lambda>current dir.
         if ee_revision current = np_base_revision p then
           if Some (etx_sha_enrollment env current) \<noteq> np_base_enrollment_sha256 p then
             (Inl (tx_blocked ''base_enrollment_hash_mismatch''), dir)
           else
             seq (enrollment_save (np_candidate p) (np_base_revision p) now dir) (\<lambda>saved dir.
             seq (pure (verify_enrollment_target env saved p) dir) (\<lambda>_ dir.
             (Inr (saved, True), dir)))
         else if np_target_revision p \<le> ee_revision current then
           if pa_event_id (np_audit_event p) \<notin> set (ee_audit_event_ids current) then
             (Inl (tx_blocked ''target_revision_missing_event''), dir)
           else
             seq (if ee_revision current = np_target_revision p
                  then pure (verify_enrollment_target env current p) dir else (Inr (), dir)) (\<lambda>_ dir.
             (Inr (current, False), dir))
         else (Inl (tx_blocked ''enrollment_revision_conflict''), dir)))"

section \<open>The coordinator\<close>

type_synonym enrollment_ws = "(enrollment_plan, program_audit_event, enrollment_dir) tx_state"

definition enrollment_coordinator ::
  "etx_env \<Rightarrow> (enrollment_plan, program_audit_event, enrollment_dir, education_enrollment) coordinator"
where
  "enrollment_coordinator env =
     \<lparr>co_jenv = etx_jenv env, co_owner = np_enrollment_id, co_event = np_audit_event,
      co_event_id = pa_event_id,
      co_verify = (\<lambda>p files. verify_outbox_requirements env files (np_required_artifacts p)),
      co_ensure = ensure_enrollment env, co_load = (\<lambda>p. enrollment_load (np_enrollment_id p)),
      co_store_name = ''enrollment'', co_inject = etx_inject env\<rparr>"

definition etx_execute ::
  "etx_env \<Rightarrow> (nat \<Rightarrow> int) \<Rightarrow> enrollment_plan \<Rightarrow> enrollment_ws \<Rightarrow>
   (education_enrollment, enrollment_ws) outcome" where
  "etx_execute env = co_execute (enrollment_coordinator env)"

definition etx_reconcile ::
  "etx_env \<Rightarrow> (nat \<Rightarrow> int) \<Rightarrow> string \<Rightarrow> enrollment_ws \<Rightarrow>
   (reconciliation_result, enrollment_ws) outcome" where
  "etx_reconcile env = co_reconcile (enrollment_coordinator env)"

definition etx_reconcile_all ::
  "etx_env \<Rightarrow> (nat \<Rightarrow> nat \<Rightarrow> int) \<Rightarrow> enrollment_ws \<Rightarrow>
   (reconciliation_result list, enrollment_ws) outcome" where
  "etx_reconcile_all env = co_reconcile_all (enrollment_coordinator env)"

definition construct_enrollment_plan :: "enrollment_plan \<Rightarrow> enrollment_plan res" where
  "construct_enrollment_plan p =
     (if enrollment_plan_constructible p then Inr p
      else Inl (Exn ValidationError ''EnrollmentTransactionPlan''))"

definition etx_execute_create ::
  "etx_env \<Rightarrow> (nat \<Rightarrow> int) \<Rightarrow> education_enrollment \<Rightarrow> program_audit_event \<Rightarrow> string \<Rightarrow> string \<Rightarrow>
   enrollment_ws \<Rightarrow> (education_enrollment, enrollment_ws) outcome" where
  "etx_execute_create env t e event command idempotency_key ws =
     seq (pure (construct_enrollment_plan
            \<lparr>np_transaction_id = ''txn-edu-'' @ pa_event_id event, np_operation = EN_CREATE,
             np_enrollment_id = ee_enrollment_id e, np_command = command,
             np_idempotency_key = idempotency_key, np_base_revision = 0, np_target_revision = 1,
             np_base_enrollment_sha256 = None, np_candidate = e, np_audit_event = event,
             np_required_artifacts = []\<rparr>) ws) (\<lambda>plan ws.
     etx_execute env t plan ws)"

definition etx_execute_update ::
  "etx_env \<Rightarrow> (nat \<Rightarrow> int) \<Rightarrow> education_enrollment \<Rightarrow> int \<Rightarrow> program_audit_event \<Rightarrow> string \<Rightarrow> string \<Rightarrow>
   artifact_requirement list \<Rightarrow> enrollment_ws \<Rightarrow> (education_enrollment, enrollment_ws) outcome" where
  "etx_execute_update env t e expected_revision event command idempotency_key required ws =
     seq (pure (enrollment_load (ee_enrollment_id e) (tx_store ws)) ws) (\<lambda>base ws.
     if ee_revision base \<noteq> expected_revision then
       (Inl (Exn TransactionConflictError ''expected enrollment revision; current is''), ws)
     else
       seq (pure (construct_enrollment_plan
              \<lparr>np_transaction_id = ''txn-edu-'' @ pa_event_id event, np_operation = EN_UPDATE,
               np_enrollment_id = ee_enrollment_id e, np_command = command,
               np_idempotency_key = idempotency_key, np_base_revision = expected_revision,
               np_target_revision = expected_revision + 1,
               np_base_enrollment_sha256 = Some (etx_sha_enrollment env base),
               np_candidate = e, np_audit_event = event,
               np_required_artifacts = required\<rparr>) ws) (\<lambda>plan ws.
       etx_execute env t plan ws))"

section \<open>The repository step meets the protocol's contract\<close>

definition enrollment_applicable :: "etx_env \<Rightarrow> enrollment_plan \<Rightarrow> enrollment_dir \<Rightarrow> bool" where
  "enrollment_applicable env p dir \<longleftrightarrow>
     (case np_operation p of
        EN_CREATE \<Rightarrow> dir (enrollment_file (np_enrollment_id p)) = None
      | EN_UPDATE \<Rightarrow> (\<exists>c. enrollment_load (np_enrollment_id p) dir = Inr c \<and>
          ee_revision c = np_base_revision p \<and>
          np_base_enrollment_sha256 p = Some (etx_sha_enrollment env c)))"

definition target_enrollment :: "enrollment_plan \<Rightarrow> int \<Rightarrow> education_enrollment" where
  "target_enrollment p now =
     (case np_operation p of
        EN_CREATE \<Rightarrow> np_candidate p
      | EN_UPDATE \<Rightarrow> (np_candidate p)\<lparr>ee_revision := np_target_revision p, ee_updated_at := now\<rparr>)"

definition enrollment_effect :: "enrollment_plan \<Rightarrow> int \<Rightarrow> enrollment_dir \<Rightarrow> enrollment_dir" where
  "enrollment_effect p now dir =
     dir(enrollment_file (np_enrollment_id p) \<mapsto> Some (target_enrollment p now))"

definition enrollment_applied :: "enrollment_plan \<Rightarrow> enrollment_dir \<Rightarrow> bool" where
  "enrollment_applied p dir \<longleftrightarrow>
     (\<exists>c. enrollment_load (np_enrollment_id p) dir = Inr c \<and>
        pa_event_id (np_audit_event p) \<in> set (ee_audit_event_ids c) \<and>
        np_target_revision p \<le> ee_revision c)"

lemma enrollment_plan_facts:
  assumes "enrollment_plan_readable p"
  shows "enrollment_plan_integrity p" "enrollment_valid (np_candidate p)"
    "is_identifier (np_enrollment_id p)" "ee_enrollment_id (np_candidate p) = np_enrollment_id p"
    "pa_event_id (np_audit_event p) \<in> set (ee_audit_event_ids (np_candidate p))"
    "1 \<le> np_target_revision p" "is_transaction_id (np_transaction_id p)"
  using assms
  by (auto simp: enrollment_plan_readable_def enrollment_plan_constructible_def
      enrollment_plan_integrity_def enrollment_valid_def Let_def)

lemma target_enrollment_facts:
  assumes "enrollment_plan_readable p"
  shows "enrollment_valid (target_enrollment p now)"
    "ee_enrollment_id (target_enrollment p now) = np_enrollment_id p"
    "ee_revision (target_enrollment p now) = np_target_revision p"
    "verify_enrollment_target env (target_enrollment p now) p = Inr ()"
    "pa_event_id (np_audit_event p) \<in> set (ee_audit_event_ids (target_enrollment p now))"
proof -
  note f = enrollment_plan_facts [OF assms]
  show "enrollment_valid (target_enrollment p now)"
    using f by (auto simp: target_enrollment_def enrollment_valid_save split: enrollment_operation.split)
  show "ee_enrollment_id (target_enrollment p now) = np_enrollment_id p"
    using f by (auto simp: target_enrollment_def split: enrollment_operation.split)
  show rv: "ee_revision (target_enrollment p now) = np_target_revision p"
    using f(1) by (auto simp: target_enrollment_def enrollment_plan_integrity_def Let_def
        split: enrollment_operation.splits)
  show ids: "pa_event_id (np_audit_event p) \<in> set (ee_audit_event_ids (target_enrollment p now))"
    using f by (auto simp: target_enrollment_def split: enrollment_operation.split)
  have "(target_enrollment p now)\<lparr>ee_revision := np_target_revision p, ee_updated_at := 0\<rparr> =
      (np_candidate p)\<lparr>ee_revision := np_target_revision p, ee_updated_at := 0\<rparr>"
    by (auto simp: target_enrollment_def split: enrollment_operation.split)
  with rv ids show "verify_enrollment_target env (target_enrollment p now) p = Inr ()"
    by (simp add: verify_enrollment_target_def enrollment_semantic_sha256_def)
qed

lemma load_enrollment_effect:
  assumes "enrollment_plan_readable p"
  shows "enrollment_load (np_enrollment_id p) (enrollment_effect p now dir) = Inr (target_enrollment p now)"
  using enrollment_load_written [OF target_enrollment_facts(1) [OF assms], of now dir]
    target_enrollment_facts(2) [OF assms, of now]
  by (simp add: enrollment_effect_def)

lemma ensure_enrollment_fresh:
  assumes ok: "enrollment_plan_readable p" and ap: "enrollment_applicable env p dir"
  shows "ensure_enrollment env p now dir = (Inr (target_enrollment p now, True), enrollment_effect p now dir)"
proof (cases "np_operation p")
  case EN_CREATE
  with ap enrollment_plan_facts [OF ok] show ?thesis
    by (simp add: ensure_enrollment_def pure_def enrollment_path_for_def enrollment_applicable_def
        enrollment_create_def enrollment_effect_def target_enrollment_def)
next
  case EN_UPDATE
  note f = enrollment_plan_facts [OF ok]
  obtain c where c: "enrollment_load (np_enrollment_id p) dir = Inr c" "ee_revision c = np_base_revision p"
    "np_base_enrollment_sha256 p = Some (etx_sha_enrollment env c)"
    using ap EN_UPDATE by (auto simp: enrollment_applicable_def)
  have tr: "np_target_revision p = np_base_revision p + 1"
    using f(1) EN_UPDATE by (simp add: enrollment_plan_integrity_def Let_def)
  have save: "enrollment_save (np_candidate p) (np_base_revision p) now dir =
      (Inr (target_enrollment p now), enrollment_effect p now dir)"
    using f c tr EN_UPDATE by (simp add: enrollment_save_Inr target_enrollment_def enrollment_effect_def)
  show ?thesis
    using EN_UPDATE c save f(3) target_enrollment_facts(4) [OF ok, of env now]
    by (simp add: ensure_enrollment_def pure_def enrollment_path_for_def)
qed

lemma ensure_enrollment_again:
  assumes ok: "enrollment_plan_readable p"
  shows "ensure_enrollment env p now' (enrollment_effect p now dir) =
    (Inr (target_enrollment p now, False), enrollment_effect p now dir)"
proof -
  note f = enrollment_plan_facts [OF ok] and t = target_enrollment_facts [OF ok, where now = now]
  have present: "enrollment_effect p now dir (enrollment_file (np_enrollment_id p)) =
      Some (Some (target_enrollment p now))"
    by (simp add: enrollment_effect_def)
  show ?thesis
  proof (cases "np_operation p")
    case EN_CREATE
    with present f(3) load_enrollment_effect [OF ok, of now dir] t(4) [of env] show ?thesis
      by (simp add: ensure_enrollment_def pure_def enrollment_path_for_def)
  next
    case EN_UPDATE
    have "np_target_revision p = np_base_revision p + 1"
      using f(1) EN_UPDATE by (simp add: enrollment_plan_integrity_def Let_def)
    with EN_UPDATE f(3) load_enrollment_effect [OF ok, of now dir] t show ?thesis
      by (simp add: ensure_enrollment_def pure_def enrollment_path_for_def)
  qed
qed

lemma ensure_enrollment_raises:
  assumes ok: "enrollment_plan_readable p" and run: "ensure_enrollment env p now dir = (Inl e, dir')"
  shows "dir' = dir"
proof (cases "enrollment_applicable env p dir")
  case True
  with ensure_enrollment_fresh [OF ok] run show ?thesis by simp
next
  case False
  with run show ?thesis
    by (cases "np_operation p")
       (auto simp: ensure_enrollment_def outcome_simps enrollment_applicable_def
         enrollment_path_for_def split: if_splits)
qed

lemma ensure_enrollment_applied:
  assumes ok: "enrollment_plan_readable p" and run: "ensure_enrollment env p now dir = (Inr (v, b), dir')"
  shows "enrollment_applied p dir' \<and> (\<not> b \<longrightarrow> dir' = dir)"
proof (cases "enrollment_applicable env p dir")
  case True
  with ensure_enrollment_fresh [OF ok] run load_enrollment_effect [OF ok] target_enrollment_facts [OF ok]
  show ?thesis by (auto simp: enrollment_applied_def)
next
  case False
  with run show ?thesis
    by (cases "np_operation p")
       (auto simp: ensure_enrollment_def outcome_simps enrollment_applicable_def
         enrollment_path_for_def enrollment_applied_def verify_enrollment_target_def split: if_splits)
qed

lemma enrollment_coordinator_simps [simp]:
  "co_jenv (enrollment_coordinator env) = etx_jenv env"
  "co_owner (enrollment_coordinator env) = np_enrollment_id"
  "co_event (enrollment_coordinator env) = np_audit_event"
  "co_event_id (enrollment_coordinator env) = pa_event_id"
  "co_verify (enrollment_coordinator env) p files =
     verify_outbox_requirements env files (np_required_artifacts p)"
  "co_ensure (enrollment_coordinator env) = ensure_enrollment env"
  "co_store_name (enrollment_coordinator env) = ''enrollment''"
  "co_inject (enrollment_coordinator env) = etx_inject env"
  "co_load (enrollment_coordinator env) p = enrollment_load (np_enrollment_id p)"
  by (simp_all add: enrollment_coordinator_def)

lemma etx_jenv_simps [simp]:
  "jn_plan_ok (etx_jenv env) = enrollment_plan_readable" "jn_tid (etx_jenv env) = np_transaction_id"
  "jn_sha_event (etx_jenv env) = etx_sha_event env" "jn_sha_text (etx_jenv env) = etx_sha_text env"
  by (simp_all add: etx_jenv_def)

interpretation enrollment: recoverable_store "enrollment_coordinator env" "enrollment_applicable env"
  enrollment_effect enrollment_applied
proof
  fix p d now now' v b d' e
  assume ok: "jn_plan_ok (co_jenv (enrollment_coordinator env)) p"
  then have r: "enrollment_plan_readable p" by simp
  show "enrollment_applicable env p d \<Longrightarrow>
      \<exists>v. co_ensure (enrollment_coordinator env) p now d = (Inr (v, True), enrollment_effect p now d)"
    using ensure_enrollment_fresh [OF r] by auto
  show "enrollment_applicable env p d \<Longrightarrow>
      \<exists>v. co_ensure (enrollment_coordinator env) p now' (enrollment_effect p now d) =
        (Inr (v, False), enrollment_effect p now d)"
    using ensure_enrollment_again [OF r] by auto
  show "co_ensure (enrollment_coordinator env) p now d = (Inl e, d') \<Longrightarrow> d' = d"
    using ensure_enrollment_raises [OF r] by simp
  show "co_ensure (enrollment_coordinator env) p now d = (Inr (v, b), d') \<Longrightarrow>
      enrollment_applied p d' \<and> (\<not> b \<longrightarrow> d' = d)"
    using ensure_enrollment_applied [OF r] by simp
qed

section \<open>What an update can do, in any workspace\<close>

definition fresh_event :: "etx_env \<Rightarrow> enrollment_ws \<Rightarrow> string \<Rightarrow> bool" where
  "fresh_event env ws event_id \<longleftrightarrow>
     map_of (tx_journal ws) (journal_file_of (etx_jenv env) (''txn-edu-'' @ event_id)) = None"

text \<open>
  An update under a new event id either leaves the enrollments alone and does not return, or it
  saves the valid candidate over the revision that it was computed from.
\<close>

definition saved_as :: "education_enrollment \<Rightarrow> int \<Rightarrow> education_enrollment" where
  "saved_as e now = e\<lparr>ee_revision := ee_revision e + 1, ee_updated_at := now\<rparr>"

lemma etx_update_store:
  assumes fresh: "fresh_event env ws (pa_event_id event)"
    and run: "etx_execute_update env t e n event command key required ws = (res, ws')"
  shows "tx_files ws' = tx_files ws \<and>
    (tx_store ws' = tx_store ws \<and> (\<forall>v. res \<noteq> Inr v) \<or>
     ee_revision e = n \<and> enrollment_valid e \<and>
     verify_outbox_requirements env (tx_files ws) required = Inr () \<and>
     (\<exists>base. enrollment_load (ee_enrollment_id e) (tx_store ws) = Inr base \<and> ee_revision base = n) \<and>
     tx_store ws' = (tx_store ws)(enrollment_file (ee_enrollment_id e) \<mapsto> Some (saved_as e (t 2))) \<and>
     (\<forall>v. res = Inr v \<longrightarrow> v = saved_as e (t 2) \<and>
        (\<exists>es. audit_read (tx_audit ws') = Inr es \<and> event \<in> set es)))"
proof (cases "enrollment_load (ee_enrollment_id e) (tx_store ws)")
  case (Inl x)
  with run show ?thesis by (auto simp: etx_execute_update_def pure_def)
next
  case (Inr base)
  let ?plan = "\<lparr>np_transaction_id = ''txn-edu-'' @ pa_event_id event, np_operation = EN_UPDATE,
     np_enrollment_id = ee_enrollment_id e, np_command = command,
     np_idempotency_key = key, np_base_revision = n, np_target_revision = n + 1,
     np_base_enrollment_sha256 = Some (etx_sha_enrollment env base),
     np_candidate = e, np_audit_event = event, np_required_artifacts = required\<rparr>"
  show ?thesis
  proof (cases "ee_revision base = n \<and> enrollment_plan_constructible ?plan")
    case False
    with Inr run show ?thesis
      by (auto simp: etx_execute_update_def pure_def construct_enrollment_plan_def split: if_splits)
  next
    case True
    with Inr run have "co_execute (enrollment_coordinator env) t ?plan ws = (res, ws')"
      by (simp add: etx_execute_update_def pure_def construct_enrollment_plan_def etx_execute_def)
    from co_execute_fresh [OF _ this] fresh have files: "tx_files ws' = tx_files ws" and
      store: "tx_store ws' = tx_store ws \<and> (\<forall>v. res \<noteq> Inr v) \<or>
        enrollment_plan_readable ?plan \<and> verify_outbox_requirements env (tx_files ws) required = Inr () \<and>
        (\<exists>r. ensure_enrollment env ?plan (t 2) (tx_store ws) = (r, tx_store ws') \<and>
          (\<forall>v. res = Inr v \<longrightarrow> (\<exists>b. r = Inr (v, b)) \<and>
             (\<exists>es. audit_read (tx_audit ws') = Inr es \<and> event \<in> set es)))"
      by (auto simp: fresh_event_def)
    show ?thesis
    proof (cases "tx_store ws' = tx_store ws \<and> (\<forall>v. res \<noteq> Inr v)")
      case True
      with files show ?thesis by simp
    next
      case False
      with store obtain r where ok: "enrollment_plan_readable ?plan"
        and ver: "verify_outbox_requirements env (tx_files ws) required = Inr ()"
        and r: "ensure_enrollment env ?plan (t 2) (tx_store ws) = (r, tx_store ws')"
          "\<forall>v. res = Inr v \<longrightarrow> (\<exists>b. r = Inr (v, b)) \<and>
             (\<exists>es. audit_read (tx_audit ws') = Inr es \<and> event \<in> set es)"
        by blast
      have "enrollment_applicable env ?plan (tx_store ws)"
        using Inr \<open>ee_revision base = n \<and> _\<close> by (simp add: enrollment_applicable_def)
      from ensure_enrollment_fresh [OF ok this, of "t 2"] r(1)
      have eff: "r = Inr (target_enrollment ?plan (t 2), True)"
        "tx_store ws' = enrollment_effect ?plan (t 2) (tx_store ws)" by auto
      have f: "enrollment_valid e" "ee_revision e = n"
        using enrollment_plan_facts(1,2) [OF ok] by (simp_all add: enrollment_plan_integrity_def)
      then have "target_enrollment ?plan (t 2) = saved_as e (t 2)"
        by (simp add: target_enrollment_def saved_as_def)
      with eff f files ver Inr \<open>ee_revision base = n \<and> _\<close> r(2) show ?thesis
        by (auto simp: enrollment_effect_def)
    qed
  qed
qed

lemma etx_create_store:
  assumes fresh: "fresh_event env ws (pa_event_id event)"
    and run: "etx_execute_create env t e event command key ws = (res, ws')"
  shows "tx_files ws' = tx_files ws \<and>
    (tx_store ws' = tx_store ws \<or>
     enrollment_valid e \<and> tx_store ws (enrollment_file (ee_enrollment_id e)) = None \<and>
     tx_store ws' = (tx_store ws)(enrollment_file (ee_enrollment_id e) \<mapsto> Some e))"
proof -
  let ?plan = "\<lparr>np_transaction_id = ''txn-edu-'' @ pa_event_id event, np_operation = EN_CREATE,
     np_enrollment_id = ee_enrollment_id e, np_command = command,
     np_idempotency_key = key, np_base_revision = 0, np_target_revision = 1,
     np_base_enrollment_sha256 = None, np_candidate = e, np_audit_event = event,
     np_required_artifacts = []\<rparr>"
  show ?thesis
  proof (cases "enrollment_plan_constructible ?plan")
    case False
    with run show ?thesis
      by (auto simp: etx_execute_create_def pure_def construct_enrollment_plan_def split: if_splits)
  next
    case True
    with run have "co_execute (enrollment_coordinator env) t ?plan ws = (res, ws')"
      by (simp add: etx_execute_create_def pure_def construct_enrollment_plan_def etx_execute_def)
    from co_execute_fresh [OF _ this] fresh have files: "tx_files ws' = tx_files ws" and
      store: "tx_store ws' = tx_store ws \<or> enrollment_plan_readable ?plan \<and>
        (\<exists>r. ensure_enrollment env ?plan (t 2) (tx_store ws) = (r, tx_store ws'))"
      by (auto simp: fresh_event_def)
    show ?thesis
    proof (cases "tx_store ws' = tx_store ws")
      case True
      with files show ?thesis by simp
    next
      case False
      with store obtain r where ok: "enrollment_plan_readable ?plan"
        and r: "ensure_enrollment env ?plan (t 2) (tx_store ws) = (r, tx_store ws')" by blast
      note f = enrollment_plan_facts [OF ok]
      have new: "tx_store ws (enrollment_file (ee_enrollment_id e)) = None"
      proof (rule ccontr)
        assume "tx_store ws (enrollment_file (ee_enrollment_id e)) \<noteq> None"
        with r have "tx_store ws' = tx_store ws"
          by (cases r) (auto simp: ensure_enrollment_def outcome_simps split: if_splits
              simp: enrollment_path_for_def)
        with False show False ..
      qed
      then have "enrollment_applicable env ?plan (tx_store ws)" by (simp add: enrollment_applicable_def)
      from ensure_enrollment_fresh [OF ok this, of "t 2"] r new f(2) files show ?thesis
        by (auto simp: enrollment_effect_def target_enrollment_def)
    qed
  qed
qed

text \<open>What a run needs in order to return: nothing injected, a valid plan under a new id, a log that
  reads and does not have the event.\<close>

definition calm :: "etx_env \<Rightarrow> enrollment_ws \<Rightarrow> program_audit_event \<Rightarrow> bool" where
  "calm env ws event \<longleftrightarrow> etx_inject env = (\<lambda>_. None) \<and> env_ok (etx_jenv env) \<and>
     (\<forall>e. is_sha256 (etx_sha_enrollment env e)) \<and> fresh_event env ws (pa_event_id event) \<and>
     is_transaction_id (''txn-edu-'' @ pa_event_id event) \<and>
     (\<exists>es. audit_read (tx_audit ws) = Inr es \<and> pa_event_id event \<notin> pa_event_id ` set es)"

lemma etx_execute_returns:
  assumes rd: "ready (enrollment_coordinator env) (enrollment_applicable env) plan ws"
    and "etx_inject env = (\<lambda>_. None)"
  shows "\<exists>ws'. etx_execute env t plan ws = (Inr (target_enrollment plan (t 2)), ws') \<and>
    tx_store ws' = enrollment_effect plan (t 2) (tx_store ws) \<and>
    tx_audit ws' = tx_audit ws @ [EventLine (np_audit_event plan)] \<and> tx_files ws' = tx_files ws"
  using enrollment.execute_returns [OF rd, of t "target_enrollment plan (t 2)"] assms(2)
    ensure_enrollment_fresh [of plan env "tx_store ws" "t 2"] rd
  by (simp add: ready_def etx_execute_def)

lemma etx_update_returns:
  assumes calm: "calm env ws event" and base: "enrollment_load (ee_enrollment_id e) (tx_store ws) = Inr base"
    and e: "enrollment_valid e" "ee_revision e = ee_revision base" "n = ee_revision base"
    and ev: "pa_enrollment_id event = ee_enrollment_id e" "pa_event_id event \<in> set (ee_audit_event_ids e)"
      "pa_enrollment_revision event = n + 1"
    and strings: "length_between 1 200 command" "length_between 1 128 key"
    and required: "list_all requirement_valid required"
      "verify_outbox_requirements env (tx_files ws) required = Inr ()"
  shows "\<exists>ws'. etx_execute_update env t e n event command key required ws = (Inr (saved_as e (t 2)), ws') \<and>
    tx_store ws' = (tx_store ws)(enrollment_file (ee_enrollment_id e) \<mapsto> Some (saved_as e (t 2))) \<and>
    tx_audit ws' = tx_audit ws @ [EventLine event] \<and> tx_files ws' = tx_files ws"
proof -
  let ?plan = "\<lparr>np_transaction_id = ''txn-edu-'' @ pa_event_id event, np_operation = EN_UPDATE,
     np_enrollment_id = ee_enrollment_id e, np_command = command,
     np_idempotency_key = key, np_base_revision = n, np_target_revision = n + 1,
     np_base_enrollment_sha256 = Some (etx_sha_enrollment env base),
     np_candidate = e, np_audit_event = event, np_required_artifacts = required\<rparr>"
  have id: "is_identifier (ee_enrollment_id e)" and n: "1 \<le> n"
    using e by (auto simp: enrollment_valid_def)
  have con: "enrollment_plan_constructible ?plan"
    using calm e ev strings n
    by (auto simp: enrollment_plan_constructible_def enrollment_plan_integrity_def calm_def length_between_def)
  moreover have "program_audit_event_valid event"
    using id ev n by (simp add: program_audit_event_valid_def)
  ultimately have ok: "enrollment_plan_readable ?plan"
    using e required by (simp add: enrollment_plan_readable_def)
  have "ready (enrollment_coordinator env) (enrollment_applicable env) ?plan ws"
    unfolding ready_def
    using ok calm base required e by (auto simp: calm_def fresh_event_def enrollment_applicable_def)
  from etx_execute_returns [OF this, of t] calm obtain ws' where
    run: "etx_execute env t ?plan ws = (Inr (target_enrollment ?plan (t 2)), ws')"
    and ws': "tx_store ws' = enrollment_effect ?plan (t 2) (tx_store ws)"
      "tx_audit ws' = tx_audit ws @ [EventLine event]" "tx_files ws' = tx_files ws"
    by (auto simp: calm_def)
  have tgt: "target_enrollment ?plan (t 2) = saved_as e (t 2)"
    using e by (simp add: target_enrollment_def saved_as_def)
  have "etx_execute_update env t e n event command key required ws = etx_execute env t ?plan ws"
    using base e con by (simp add: etx_execute_update_def pure_def construct_enrollment_plan_def)
  with run ws' tgt show ?thesis by (simp add: enrollment_effect_def)
qed

lemma etx_create_returns:
  assumes calm: "calm env ws event" and free: "tx_store ws (enrollment_file (ee_enrollment_id e)) = None"
    and e: "enrollment_valid e" "ee_revision e = 1"
    and ev: "pa_enrollment_id event = ee_enrollment_id e" "pa_event_id event \<in> set (ee_audit_event_ids e)"
      "pa_enrollment_revision event = 1"
    and strings: "length_between 1 200 command" "length_between 1 128 key"
  shows "\<exists>ws'. etx_execute_create env t e event command key ws = (Inr e, ws') \<and>
    tx_store ws' = (tx_store ws)(enrollment_file (ee_enrollment_id e) \<mapsto> Some e) \<and>
    tx_audit ws' = tx_audit ws @ [EventLine event] \<and> tx_files ws' = tx_files ws"
proof -
  let ?plan = "\<lparr>np_transaction_id = ''txn-edu-'' @ pa_event_id event, np_operation = EN_CREATE,
     np_enrollment_id = ee_enrollment_id e, np_command = command,
     np_idempotency_key = key, np_base_revision = 0, np_target_revision = 1,
     np_base_enrollment_sha256 = None, np_candidate = e, np_audit_event = event,
     np_required_artifacts = []\<rparr>"
  have id: "is_identifier (ee_enrollment_id e)" using e by (auto simp: enrollment_valid_def)
  have con: "enrollment_plan_constructible ?plan"
    using calm e ev strings
    by (auto simp: enrollment_plan_constructible_def enrollment_plan_integrity_def calm_def length_between_def)
  moreover have "program_audit_event_valid event"
    using id ev by (simp add: program_audit_event_valid_def)
  ultimately have ok: "enrollment_plan_readable ?plan"
    using e by (simp add: enrollment_plan_readable_def)
  have "ready (enrollment_coordinator env) (enrollment_applicable env) ?plan ws"
    unfolding ready_def
    using ok calm free by (auto simp: calm_def fresh_event_def enrollment_applicable_def)
  from etx_execute_returns [OF this, of t] calm obtain ws' where
    run: "etx_execute env t ?plan ws = (Inr (target_enrollment ?plan (t 2)), ws')"
    and ws': "tx_store ws' = enrollment_effect ?plan (t 2) (tx_store ws)"
      "tx_audit ws' = tx_audit ws @ [EventLine event]" "tx_files ws' = tx_files ws"
    by (auto simp: calm_def)
  have tgt: "target_enrollment ?plan (t 2) = e" by (simp add: target_enrollment_def)
  have "etx_execute_create env t e event command key ws = etx_execute env t ?plan ws"
    using con by (simp add: etx_execute_create_def pure_def construct_enrollment_plan_def)
  with run ws' tgt show ?thesis by (simp add: enrollment_effect_def)
qed

section \<open>Properties\<close>

lemma verify_outbox_inject:
  "verify_outbox_requirements (env\<lparr>etx_inject := fault\<rparr>) files rs =
   verify_outbox_requirements env files rs"
proof -
  have "verify_outbox_requirement (env\<lparr>etx_inject := fault\<rparr>) files r =
      verify_outbox_requirement env files r" for r
    by (simp add: verify_outbox_requirement_def split: option.split file_entry.split)
  then show ?thesis by (induction rs) (simp_all split: sum.split)
qed

text \<open>
  C15. Crash recovery for enrollments: whatever is injected at whatever boundary while a ready
  plan runs, one reconciliation ends committed with the plan's enrollment and exactly one new
  audit line, without touching the outbox files, and a second one changes nothing.
\<close>

theorem enrollment_crash_recovery:
  assumes "ready (enrollment_coordinator env) (enrollment_applicable env) plan ws"
    and "etx_execute (env\<lparr>etx_inject := fault\<rparr>) t plan ws = (res, ws1)"
  shows "\<exists>r ws2 now r'. etx_reconcile env t' (np_transaction_id plan) ws1 = (Inr r, ws2) \<and>
    rr_status r \<in> {RECONCILED_COMMITTED, ALREADY_COMMITTED} \<and>
    enrollment_load (np_enrollment_id plan) (tx_store ws2) = Inr (target_enrollment plan now) \<and>
    tx_audit ws2 = tx_audit ws @ [EventLine (np_audit_event plan)] \<and> tx_files ws2 = tx_files ws \<and>
    etx_reconcile env t'' (np_transaction_id plan) ws2 = (Inr r', ws2) \<and>
    rr_status r' = ALREADY_COMMITTED"
proof -
  let ?env = "env\<lparr>etx_inject := fault\<rparr>"
  have same: "etx_jenv ?env = etx_jenv env" "enrollment_applicable ?env = enrollment_applicable env"
    by (simp_all add: etx_jenv_def fun_eq_iff enrollment_applicable_def
        split: enrollment_operation.split)
  have "ready (enrollment_coordinator ?env) (enrollment_applicable ?env) plan ws"
    using assms(1) by (simp add: ready_def same verify_outbox_inject)
  from enrollment.execute_mid(1) [OF this, of t] assms(2)
  have "mid_transaction (enrollment_coordinator ?env) enrollment_effect plan ws ws1"
    by (simp add: etx_execute_def)
  then have mid: "mid_transaction (enrollment_coordinator env) enrollment_effect plan ws ws1"
    by (simp add: mid_transaction_def progress_def same cong: if_cong)
  have ok: "enrollment_plan_readable plan" using assms(1) by (simp add: ready_def)
  from enrollment.reconcile_mid [OF assms(1) mid, of t'] obtain r ws2 where
    rec: "etx_reconcile env t' (np_transaction_id plan) ws1 = (Inr r, ws2)"
      "rr_status r \<in> {RECONCILED_COMMITTED, ALREADY_COMMITTED}"
    and fin: "finished (enrollment_coordinator env) enrollment_effect plan ws ws2"
    by (auto simp: etx_reconcile_def)
  obtain r' where "etx_reconcile env t'' (np_transaction_id plan) ws2 = (Inr r', ws2)"
    "rr_status r' = ALREADY_COMMITTED"
    using enrollment.reconcile_finished [OF fin, of t''] by (auto simp: etx_reconcile_def)
  with rec fin show ?thesis
    using load_enrollment_effect [OF ok] by (auto simp: finished_def progress_def)
qed

definition demo_etx_env :: etx_env where
  "demo_etx_env =
     \<lparr>etx_sha_event = (\<lambda>_. demo_sha), etx_sha_text = (\<lambda>t. t), etx_sha_enrollment = (\<lambda>_. demo_sha),
      etx_sha_semantic = (\<lambda>_. demo_sha), etx_sha_file = (\<lambda>_. demo_sha), etx_inject = (\<lambda>_. None)\<rparr>"

definition demo_enrollment_plan :: enrollment_plan where
  "demo_enrollment_plan =
     \<lparr>np_transaction_id = ''t1'', np_operation = EN_UPDATE, np_enrollment_id = ''n'',
      np_command = ''c'', np_idempotency_key = ''k'', np_base_revision = 1, np_target_revision = 2,
      np_base_enrollment_sha256 = Some demo_sha, np_candidate = demo_enrollment [''e''],
      np_audit_event =
        \<lparr>pa_event_id = ''e'', pa_enrollment_id = ''n'', pa_event_type = ''x'', pa_actor_id = ''a'',
         pa_actor_role = ''system'', pa_enrollment_revision = 2, pa_occurred_at = 0, pa_details = []\<rparr>,
      np_required_artifacts = []\<rparr>"

definition demo_enrollment_ws :: enrollment_ws where
  "demo_enrollment_ws =
     \<lparr>tx_journal = [], tx_audit = [],
      tx_store = [enrollment_file ''n'' \<mapsto> Some (demo_enrollment [])], tx_files = Map.empty\<rparr>"

lemma demo_enrollment_loads:
  "enrollment_load ''n'' [''AXE-n.enrollment.yaml'' \<mapsto> Some (demo_enrollment [])] = Inr (demo_enrollment [])"
  using enrollment_load_written [of "demo_enrollment []" Map.empty] by simp

lemma demo_enrollment_ready:
  "ready (enrollment_coordinator demo_etx_env) (enrollment_applicable demo_etx_env)
     demo_enrollment_plan demo_enrollment_ws"
proof -
  have "env_ok (etx_jenv demo_etx_env)" by (simp add: env_ok_def demo_etx_env_def)
  moreover have "is_identifier ''n''" by (simp add: is_identifier_def char_class_defs)
  then have "enrollment_plan_readable demo_enrollment_plan"
    using demo_tid
    by (simp add: enrollment_plan_readable_def enrollment_plan_constructible_def
        enrollment_plan_integrity_def demo_enrollment_plan_def program_audit_event_valid_def)
  moreover have "enrollment_applicable demo_etx_env demo_enrollment_plan (tx_store demo_enrollment_ws)"
    using demo_enrollment_loads
    by (simp add: enrollment_applicable_def demo_enrollment_plan_def demo_enrollment_ws_def
        demo_etx_env_def)
  ultimately show ?thesis
    using demo_tid
    by (simp add: ready_def demo_enrollment_ws_def) (simp add: demo_enrollment_plan_def)
qed

theorem enrollment_crash_recovery_witness:
  "\<exists>r ws2. etx_reconcile demo_etx_env int ''t1''
       (snd (etx_execute (demo_etx_env\<lparr>etx_inject := (\<lambda>b. if b = ''after_enrollment''
          then Some (Exn KeyboardInterrupt []) else None)\<rparr>) int demo_enrollment_plan
          demo_enrollment_ws)) = (Inr r, ws2) \<and>
     rr_status r \<noteq> RECONCILED_BLOCKED \<and> length (tx_audit ws2) = 1"
proof -
  obtain res ws1 where run: "etx_execute (demo_etx_env\<lparr>etx_inject := (\<lambda>b. if b = ''after_enrollment''
          then Some (Exn KeyboardInterrupt []) else None)\<rparr>) int demo_enrollment_plan
          demo_enrollment_ws = (res, ws1)"
    by fastforce
  have "np_transaction_id demo_enrollment_plan = ''t1''" by (simp add: demo_enrollment_plan_def)
  with enrollment_crash_recovery [OF demo_enrollment_ready run, of int int] run show ?thesis
    by (auto simp: demo_enrollment_ws_def)
qed

text \<open>
  Reconciling an enrollment transaction is honest in any workspace: committed means that the
  enrollment loads with the event listed and at least the target revision and that the audit log
  has the event; blocked means that neither has changed.
\<close>

theorem enrollment_reconcile_honest:
  assumes "env_ok (etx_jenv env)" and "etx_reconcile env t tid ws = (Inr r, ws')"
  shows "\<exists>q. journal_load (etx_jenv env) tid (tx_journal ws) = Inr q \<and>
    (case rr_status r of
       ALREADY_COMMITTED \<Rightarrow> latest_status q = COMMITTED \<and> ws' = ws
     | RECONCILED_COMMITTED \<Rightarrow>
         (\<exists>c. enrollment_load (np_enrollment_id (jr_plan q)) (tx_store ws') = Inr c \<and>
            pa_event_id (np_audit_event (jr_plan q)) \<in> set (ee_audit_event_ids c) \<and>
            np_target_revision (jr_plan q) \<le> ee_revision c) \<and>
         (\<exists>es. audit_read (tx_audit ws') = Inr es \<and> np_audit_event (jr_plan q) \<in> set es)
     | RECONCILED_BLOCKED \<Rightarrow> tx_store ws' = tx_store ws \<and> tx_audit ws' = tx_audit ws)"
  using enrollment.reconcile_outcome [of env t tid ws r ws'] assms
  by (auto simp: etx_reconcile_def enrollment_applied_def split: reconciliation_status.splits)

theorem enrollment_reconcile_honest_witness:
  "\<exists>r ws'. etx_reconcile demo_etx_env int ''t1''
       (demo_enrollment_ws\<lparr>tx_journal := extended_dir (etx_jenv demo_etx_env)
          (prepared_record (etx_jenv demo_etx_env) demo_enrollment_plan 0) []\<rparr>) = (Inr r, ws') \<and>
     (rr_status r = RECONCILED_COMMITTED \<longrightarrow>
        (\<exists>es. audit_read (tx_audit ws') = Inr es \<and> np_audit_event demo_enrollment_plan \<in> set es))"
proof -
  let ?C = "enrollment_coordinator demo_etx_env"
  let ?q = "prepared_record (etx_jenv demo_etx_env) demo_enrollment_plan 0"
  let ?ws = "demo_enrollment_ws\<lparr>tx_journal := extended_dir (etx_jenv demo_etx_env) ?q []\<rparr>"
  have rd: "env_ok (etx_jenv demo_etx_env)" "enrollment_plan_readable demo_enrollment_plan"
    "np_transaction_id demo_enrollment_plan = ''t1''"
    using demo_enrollment_ready by (simp_all add: ready_def) (simp add: demo_enrollment_plan_def)
  have h: "holds (etx_jenv demo_etx_env) (tx_journal ?ws) ?q"
    using rd demo_tid by (simp add: holds_extended_dir record_ok_prepared)
  have load: "journal_load (etx_jenv demo_etx_env) ''t1'' (tx_journal ?ws) = Inr ?q"
    using holds_load(1) [OF h] rd(3) by simp
  have "mid_transaction ?C enrollment_effect demo_enrollment_plan demo_enrollment_ws ?ws"
    unfolding mid_transaction_def using h
    by (intro exI [of _ ?q] exI [of _ 0]) (simp add: progress_def)
  from enrollment.reconcile_mid [OF demo_enrollment_ready this, of int] rd(3) obtain r ws' where run:
    "etx_reconcile demo_etx_env int ''t1'' ?ws = (Inr r, ws')"
    by (auto simp: etx_reconcile_def)
  from enrollment_reconcile_honest [OF rd(1) run] load run show ?thesis by auto
qed

end
