(* ===== verification/OutboxFiles.thy ===== *)
theory OutboxFiles
  imports Coordinator Outbox
begin

text \<open>
  The outbox directory as part of the workspace that a transaction coordinator sees: the outbox
  (\<open>notifications/outbox.py\<close>) writes JSON files, the coordinators verify them as artifacts.
\<close>

text \<open>The JSON object of an outbox file, its members in key order.\<close>

definition opt_json :: "('a \<Rightarrow> json) \<Rightarrow> 'a option \<Rightarrow> json" where
  "opt_json f o' = (case o' of None \<Rightarrow> JNull | Some x \<Rightarrow> f x)"

definition outbox_entry_json :: "outbox_entry \<Rightarrow> json" where
  "outbox_entry_json en = JObj
     [(''attempts'', JInt (int (oe_attempts en))),
      (''delivery_status'', JStr (oe_delivery_status en)),
      (''event_type'', JStr (oe_event_type en)),
      (''last_error'', opt_json (\<lambda>c. JStr (class_name c)) (oe_last_error en)),
      (''project_id'', JStr (oe_project_id en)),
      (''report_ref'', opt_json JStr (oe_report_ref en)),
      (''required_role'', JStr (oe_required_role en)),
      (''revision'', opt_json JInt (oe_revision en)),
      (''schema_version'', JStr ''axcalib.notification-outbox/v1alpha1''),
      (''stage'', JStr (oe_stage en)),
      (''updated_at'', JInt (oe_updated_at en))]"

text \<open>The files of an outbox in the directory \<open>d\<close>, over the other files of the tree.\<close>

definition outbox_tree :: "string \<Rightarrow> 'n outbox \<Rightarrow> file_tree \<Rightarrow> file_tree" where
  "outbox_tree d ob files path =
     (case map_of (map (\<lambda>(name, en). (d @ ''/'' @ name, en)) (ob_files ob)) path of
        None \<Rightarrow> files path
      | Some None \<Rightarrow> Some (RegularFile (JsonText JNull))
      | Some (Some en) \<Rightarrow> Some (RegularFile (JsonText (outbox_entry_json en))))"

lemma outbox_tree_other:
  "\<not> starts_with (d @ ''/'') path \<Longrightarrow> outbox_tree d ob files path = files path"
proof -
  assume no: "\<not> starts_with (d @ ''/'') path"
  have out: "path \<noteq> d @ ''/'' @ name" for name
    using no starts_with_append [of "d @ ''/''" name] by auto
  have "path \<notin> fst ` set (map (\<lambda>(name, en). (d @ ''/'' @ name, en)) (ob_files ob))"
  proof
    assume "path \<in> fst ` set (map (\<lambda>(name, en). (d @ ''/'' @ name, en)) (ob_files ob))"
    then obtain name en where "path = d @ ''/'' @ name" by auto
    with out [of name] show False by simp
  qed
  then have "map_of (map (\<lambda>(name, en). (d @ ''/'' @ name, en)) (ob_files ob)) path = None"
    by (simp add: map_of_eq_None_iff)
  then show ?thesis by (simp add: outbox_tree_def)
qed

lemma map_of_prefix:
  "map_of (map (\<lambda>(name, en). (d @ name, en)) xs) (d @ n) = map_of xs n"
  by (induction xs) auto

lemma outbox_tree_file:
  "outbox_file ob name = Some (Some en) \<Longrightarrow>
   outbox_tree d ob files (d @ ''/'' @ name) = Some (RegularFile (JsonText (outbox_entry_json en)))"
  using map_of_prefix [of "d @ ''/''" "ob_files ob" name] by (simp add: outbox_tree_def)

end
