(* ===== verification/EducationService.thy ===== *)
theory EducationService
  imports EnrollmentTransactions OutboxFiles
begin

text \<open>
  The education service of \<open>programs/service.py\<close>: publishing programs, enrolling learners,
  recording evidence for milestone requirements, evaluating milestones, unlocking dependents,
  requesting the administrator's completion decision through the outbox, and applying it.
  Every change of an enrollment goes through an enrollment transaction.

  An \<open>edu_env\<close> holds what the service is built with: the transaction and program environments,
  the notifier (the durable outbox or another port), where the outbox lies below the workspace's
  parent, and the formatting of a score. \<open>t 0, t 1, ...\<close> are the clock readings of a call and
  \<open>uid 0, uid 1\<close> the uuids it draws.
\<close>

section \<open>State\<close>

datatype 'n edu_notifier = DurableOutbox "nat \<Rightarrow> int" "'n sender" | OtherNotifier "'n sender"

record 'n edu_env =
  ed_tx :: etx_env
  ed_programs :: program_env
  ed_notifier :: "'n edu_notifier"
  ed_outbox_dir :: "string option"
  ed_enrollment_root :: string
  ed_dossier_root :: string
  ed_format_score :: "rat \<Rightarrow> string"

record 'n edu_state =
  es_programs :: program_dir
  es_dossiers :: dossier_dir
  es_tx :: enrollment_ws
  es_outbox :: "'n outbox"

definition on_tx ::
  "(enrollment_ws \<Rightarrow> ('a, enrollment_ws) outcome) \<Rightarrow> 'n edu_state \<Rightarrow> ('a, 'n edu_state) outcome" where
  "on_tx f s = (fst (f (es_tx s)), s\<lparr>es_tx := snd (f (es_tx s))\<rparr>)"

text \<open>The outbox files as files of the tree that the transaction coordinator sees.\<close>

definition with_outbox_files :: "'n edu_env \<Rightarrow> 'n outbox \<Rightarrow> file_tree \<Rightarrow> file_tree" where
  "with_outbox_files env ob files =
     (case ed_outbox_dir env of None \<Rightarrow> files | Some d \<Rightarrow> outbox_tree d ob files)"

definition notify :: "'n edu_env \<Rightarrow> notification_event \<Rightarrow> 'n edu_state \<Rightarrow> (unit, 'n edu_state) outcome" where
  "notify env ev s =
     (case ed_notifier env of
        DurableOutbox clock down \<Rightarrow>
          (let (r, ob) = outbox_send (etx_sha_text (ed_tx env)) clock down ev (es_outbox s)
           in (r, s\<lparr>es_outbox := ob,
                    es_tx := (es_tx s)\<lparr>tx_files := with_outbox_files env ob (tx_files (es_tx s))\<rparr>\<rparr>))
      | OtherNotifier send \<Rightarrow>
          (let (r, n) = send ev (ob_down (es_outbox s))
           in (r, s\<lparr>es_outbox := (es_outbox s)\<lparr>ob_down := n\<rparr>\<rparr>)))"

record edu_result =
  xe_status :: string
  xe_enrollment_id :: string
  xe_enrollment_status :: enrollment_status
  xe_revision :: int
  xe_uri :: string
  xe_active_milestones :: "string list"
  xe_allowed_commands :: "string list"

section \<open>Guards and lookups\<close>

definition edu_error :: "string \<Rightarrow> exn" where
  "edu_error message = Exn EducationProgramError message"

definition require_revision :: "education_enrollment \<Rightarrow> int option \<Rightarrow> unit res" where
  "require_revision e expected =
     (if expected \<noteq> None \<and> Some (ee_revision e) \<noteq> expected then
        Inl (edu_error ''expected enrollment revision; current revision is'')
      else Inr ())"

definition require_active :: "education_enrollment \<Rightarrow> unit res" where
  "require_active e =
     (if ee_status e \<notin> {EN_ACTIVE, EN_RETURNED} then
        Inl (edu_error ''enrollment cannot progress from status'')
      else Inr ())"

definition require_role :: "string \<Rightarrow> string \<Rightarrow> unit res" where
  "require_role required actor_role =
     (if actor_role \<noteq> required \<and> actor_role \<noteq> ''administrator'' then
        Inl (edu_error ''requirement needs another role'')
      else Inr ())"

definition require_project_context ::
  "project_dossier \<Rightarrow> education_enrollment \<Rightarrow> education_program \<Rightarrow> milestone_spec \<Rightarrow>
   string option \<Rightarrow> unit res" where
  "require_project_context d e p m organization_id =
     (let c = pd_review_context d in
      if rc_program_id c \<noteq> Some (ep_program_id p) \<or> rc_program_version c \<noteq> Some (ep_version p) \<or>
         rc_enrollment_id c \<noteq> Some (ee_enrollment_id e) \<or>
         rc_milestone_id c \<noteq> Some (ml_milestone_id m) \<or>
         rc_learner_ref c \<noteq> Some (ee_learner_ref e) \<or>
         organization_id \<noteq> None \<and> rc_proposer_org_id c \<noteq> organization_id then
        Inl (edu_error
          ''project dossier education context does not match this enrollment milestone'')
      else Inr ())"

definition lookup_milestone :: "education_program \<Rightarrow> string \<Rightarrow> milestone_spec res" where
  "lookup_milestone p milestone_id =
     (case first_such (\<lambda>x. ml_milestone_id (snd x) = milestone_id) (program_milestones p) of
        None \<Rightarrow> Inl (edu_error ''unknown milestone'') | Some x \<Rightarrow> Inr (snd x))"

definition lookup_progress :: "education_enrollment \<Rightarrow> string \<Rightarrow> milestone_progress res" where
  "lookup_progress e milestone_id =
     (case first_such (\<lambda>x. mp_milestone_id x = milestone_id) (ee_milestones e) of
        None \<Rightarrow> Inl (edu_error ''unknown milestone progress'') | Some x \<Rightarrow> Inr x)"

definition lookup_requirement :: "milestone_spec \<Rightarrow> string \<Rightarrow> requirement_spec res" where
  "lookup_requirement m requirement_id =
     (case first_such (\<lambda>x. rq_id x = requirement_id) (ml_requirements m) of
        None \<Rightarrow> Inl (edu_error ''unknown requirement'') | Some x \<Rightarrow> Inr x)"

definition edu_context ::
  "'n edu_env \<Rightarrow> string \<Rightarrow> string \<Rightarrow> 'n edu_state \<Rightarrow>
   (education_enrollment \<times> education_program \<times> milestone_spec) res" where
  "edu_context env enrollment_id milestone_id s =
     (case enrollment_load enrollment_id (tx_store (es_tx s)) of
        Inl x \<Rightarrow> Inl x
      | Inr e \<Rightarrow>
     (case program_resolve (ed_programs env) (program_selector (ee_program e)) (es_programs s) of
        Inl x \<Rightarrow> Inl x
      | Inr (p, reference) \<Rightarrow>
          if pf_sha256 reference \<noteq> pf_sha256 (ee_program e) then
            Inl (edu_error ''program content changed after enrollment'')
          else (case lookup_milestone p milestone_id of
                  Inl x \<Rightarrow> Inl x | Inr m \<Rightarrow> Inr (e, p, m))))"

definition project_status_satisfies :: "project_status \<Rightarrow> string \<Rightarrow> bool" where
  "project_status_satisfies current required =
     (if required = ''completion_accepted'' then current = COMPLETION_ACCEPTED
      else current \<in> {REGISTRATION_APPROVED, IN_PROGRESS, COMPLETION_READY,
        COMPLETION_APPROVAL_PENDING, COMPLETION_REGISTERED, COMPLETION_UNDER_REVIEW,
        COMPLETION_HITL_PENDING, COMPLETION_ACCEPTED, COMPLETION_NOT_ACCEPTED})"

section \<open>Milestones\<close>

text \<open>\<open>results\<close> is the dict of the progress's results by requirement id, in its order.\<close>

definition results_dict :: "requirement_result list \<Rightarrow> (string \<times> requirement_result) list" where
  "results_dict rs = foldl (\<lambda>d r. dict_set (rt_requirement_id r) r d) [] rs"

definition rule_complete ::
  "(rat list \<Rightarrow> rat) \<Rightarrow> milestone_spec \<Rightarrow> requirement_result list \<Rightarrow> bool" where
  "rule_complete fsum m rs =
     (case cm_mode (ml_completion_rule m) of
        ALL_REQUIRED \<Rightarrow>
          list_all (\<lambda>q. case map_of (results_dict rs) (rq_id q) of
             None \<Rightarrow> False | Some r \<Rightarrow> rt_satisfied r) (ml_requirements m)
      | MINIMUM_POINTS \<Rightarrow>
          (case cm_minimum_points (ml_completion_rule m) of None \<Rightarrow> 0 | Some p \<Rightarrow> p) \<le>
          fsum (map rt_points_awarded (filter rt_satisfied (map snd (results_dict rs)))))"

definition evaluate_milestone ::
  "(rat list \<Rightarrow> rat) \<Rightarrow> int \<Rightarrow> milestone_progress \<Rightarrow> milestone_spec \<Rightarrow> milestone_progress" where
  "evaluate_milestone fsum now item m =
     (let results = map snd (results_dict (mp_results item)) in
      if rule_complete fsum m (mp_results item) then
        item\<lparr>mp_status := MS_COMPLETED, mp_completed_at := Some now\<rparr>
      else
        (case first_such (\<lambda>r. rt_source r = SRC_PROJECT) results of
           Some r \<Rightarrow>
             if \<not> rt_satisfied r then
               if rt_observed_value r \<in> {status_value REGISTRATION_HITL_PENDING,
                                          status_value COMPLETION_HITL_PENDING} then
                 item\<lparr>mp_status := WAITING_REVIEW\<rparr>
               else if rt_observed_value r \<in> {status_value REGISTRATION_REJECTED,
                                               status_value COMPLETION_NOT_ACCEPTED} then
                 item\<lparr>mp_status := NEEDS_ACTION\<rparr>
               else item\<lparr>mp_status := MS_IN_PROGRESS\<rparr>
             else if list_ex (\<lambda>r. \<not> rt_satisfied r) results then
               item\<lparr>mp_status := NEEDS_ACTION\<rparr>
             else item
         | None \<Rightarrow>
             if list_ex (\<lambda>r. \<not> rt_satisfied r) results then item\<lparr>mp_status := NEEDS_ACTION\<rparr>
             else item))"

definition completed_ids :: "milestone_progress list \<Rightarrow> string list" where
  "completed_ids ms = map mp_milestone_id (filter (\<lambda>m. mp_status m = MS_COMPLETED) ms)"

definition program_specs :: "education_program \<Rightarrow> string \<Rightarrow> milestone_spec option" where
  "program_specs p = map_of (rev (map (\<lambda>x. (ml_milestone_id (snd x), snd x)) (program_milestones p)))"

fun unlock_each ::
  "(string \<Rightarrow> milestone_spec option) \<Rightarrow> string list \<Rightarrow> milestone_progress list \<Rightarrow>
   milestone_progress list res" where
  "unlock_each specs completed [] = Inr []"
| "unlock_each specs completed (m # ms) =
     (if mp_status m = LOCKED then
        (case specs (mp_milestone_id m) of
           None \<Rightarrow> Inl (Exn KeyError ''milestone_id'')
         | Some sp \<Rightarrow>
             (case unlock_each specs completed ms of
                Inl e \<Rightarrow> Inl e
              | Inr ms' \<Rightarrow>
                  Inr ((if set (ml_prerequisites sp) \<subseteq> set completed
                        then m\<lparr>mp_status := AVAILABLE\<rparr> else m) # ms')))
      else (case unlock_each specs completed ms of Inl e \<Rightarrow> Inl e | Inr ms' \<Rightarrow> Inr (m # ms')))"

definition unlock_dependents ::
  "milestone_progress list \<Rightarrow> education_program \<Rightarrow> milestone_progress list res" where
  "unlock_dependents ms p = unlock_each (program_specs p) (completed_ids ms) ms"

definition replace_progress ::
  "milestone_progress list \<Rightarrow> milestone_progress \<Rightarrow> milestone_progress list" where
  "replace_progress ms updated =
     map (\<lambda>m. if mp_milestone_id m = mp_milestone_id updated then updated else m) ms"

section \<open>Results, events and the transaction of a change\<close>

definition edu_result_for :: "'n edu_env \<Rightarrow> education_enrollment \<Rightarrow> edu_result res" where
  "edu_result_for env e =
     (case enrollment_path_for (ee_enrollment_id e) of
        Inl x \<Rightarrow> Inl x
      | Inr path \<Rightarrow>
          (let waiting = (ee_status e = EN_HITL_PENDING)
           in Inr \<lparr>xe_status = (if waiting then ''waiting_human'' else ''succeeded''),
                   xe_enrollment_id = ee_enrollment_id e, xe_enrollment_status = ee_status e,
                   xe_revision = ee_revision e, xe_uri = ed_enrollment_root env @ ''/'' @ path,
                   xe_active_milestones = map mp_milestone_id (filter (\<lambda>m. mp_status m \<in>
                     {AVAILABLE, MS_IN_PROGRESS, WAITING_REVIEW, NEEDS_ACTION}) (ee_milestones e)),
                   xe_allowed_commands =
                     (if waiting then [''approve'', ''return_for_revision''] else [])\<rparr>))"

definition edu_event ::
  "string \<Rightarrow> string \<Rightarrow> int \<Rightarrow> string \<Rightarrow> string \<Rightarrow> string \<Rightarrow> (string \<times> json) list \<Rightarrow> int \<Rightarrow>
   program_audit_event" where
  "edu_event event_id enrollment_id rv event_type actor_id actor_role details now =
     \<lparr>pa_event_id = event_id, pa_enrollment_id = enrollment_id, pa_event_type = event_type,
      pa_actor_id = actor_id, pa_actor_role = actor_role, pa_enrollment_revision = rv,
      pa_occurred_at = now, pa_details = details\<rparr>"

definition edu_event_id :: "string \<Rightarrow> string" where
  "edu_event_id uuid = ''evt-edu-'' @ uuid"

text \<open>
  The common tail of the changing operations: \<open>model_copy\<close> with the event id added, the event for
  the next revision, \<open>execute_update\<close> from the loaded revision.
\<close>

definition edu_update ::
  "'n edu_env \<Rightarrow> (nat \<Rightarrow> int) \<Rightarrow> string \<Rightarrow> education_enrollment \<Rightarrow> string \<Rightarrow> string \<Rightarrow> string \<Rightarrow>
   (string \<times> json) list \<Rightarrow> artifact_requirement list \<Rightarrow> 'n edu_state \<Rightarrow>
   (education_enrollment, 'n edu_state) outcome" where
  "edu_update env t event_id changed event_type actor_id actor_role details required =
     on_tx (etx_execute_update (ed_tx env) (\<lambda>i. t (i + 1))
       (changed\<lparr>ee_audit_event_ids := ee_audit_event_ids changed @ [event_id]\<rparr>)
       (ee_revision changed)
       (edu_event event_id (ee_enrollment_id changed) (ee_revision changed + 1) event_type
          actor_id actor_role details (t 0))
       event_type event_id required)"

definition save_progress_event ::
  "'n edu_env \<Rightarrow> (nat \<Rightarrow> int) \<Rightarrow> string \<Rightarrow> education_enrollment \<Rightarrow> milestone_progress \<Rightarrow> string \<Rightarrow>
   string \<Rightarrow> string \<Rightarrow> (string \<times> json) list \<Rightarrow> 'n edu_state \<Rightarrow>
   (education_enrollment, 'n edu_state) outcome" where
  "save_progress_event env t event_id e item event_type actor_id actor_role details =
     edu_update env t event_id
       (e\<lparr>ee_status := EN_ACTIVE, ee_milestones := replace_progress (ee_milestones e) item\<rparr>)
       event_type actor_id actor_role details []"

section \<open>Requesting the completion decision\<close>

definition required_ids :: "education_program \<Rightarrow> string list" where
  "required_ids p =
     remdups (map (\<lambda>x. ml_milestone_id (snd x)) (filter (\<lambda>x. ml_required (snd x)) (program_milestones p)))"

definition completion_notification :: "education_enrollment \<Rightarrow> notification_event" where
  "completion_notification e =
     \<lparr>ev_type = ''education_program_completion_approval_requested'',
      ev_project_id = ee_enrollment_id e,
      ev_stage = ''education_program_completion:r'' @ str_int (ee_revision e),
      ev_required_role = ''administrator'', ev_revision = Some (ee_revision e + 1),
      ev_report_ref = Some (''education-enrollment:'' @ ee_enrollment_id e @ ''@r'' @
        str_int (ee_revision e))\<rparr>"

definition outbox_requirement ::
  "'n edu_env \<Rightarrow> notification_event \<Rightarrow> 'n edu_state \<Rightarrow> artifact_requirement res" where
  "outbox_requirement env ev s =
     require_outbox (ed_tx env) (tx_files (es_tx s))
       (map_option (\<lambda>d. d @ ''/'' @ outbox_path_for (etx_sha_text (ed_tx env)) ev) (ed_outbox_dir env))"

definition request_program_completion_if_ready ::
  "'n edu_env \<Rightarrow> (nat \<Rightarrow> int) \<Rightarrow> string \<Rightarrow> education_enrollment \<Rightarrow> education_program \<Rightarrow>
   'n edu_state \<Rightarrow> (education_enrollment, 'n edu_state) outcome" where
  "request_program_completion_if_ready env t uuid e p s =
     (if \<not> set (required_ids p) \<subseteq> set (completed_ids (ee_milestones e)) then (Inr e, s)
      else if ee_status e = EN_HITL_PENDING then (Inr e, s)
      else
        seq (notify env (completion_notification e) s) (\<lambda>_ s.
        case ed_notifier env of
          OtherNotifier send \<Rightarrow>
            (Inl (edu_error ''education completion requires a durable notification outbox''), s)
        | DurableOutbox clock down \<Rightarrow>
            seq (pure (outbox_requirement env (completion_notification e) s) s) (\<lambda>requirement s.
            edu_update env (\<lambda>i. t (i + 1)) (edu_event_id uuid)
              (e\<lparr>ee_status := EN_HITL_PENDING,
                 ee_notifications := ee_notifications e @
                   [\<lparr>pn_event_type = ''education_program_completion_approval_requested'',
                     pn_required_role = ''administrator'',
                     pn_enrollment_revision = ee_revision e + 1, pn_recorded_at = t 0\<rparr>]\<rparr>)
              ''program_completion_requested'' ''system:education-runtime'' ''system''
              [(''required_milestones'', JStr (join_with '','' (sort (required_ids p))))]
              [requirement] s)))"

section \<open>Recording evidence\<close>

definition construct_result :: "requirement_result \<Rightarrow> requirement_result res" where
  "construct_result r =
     (if requirement_result_valid r then Inr r else Inl (Exn ValidationError ''RequirementResult''))"

definition source_value :: "result_source \<Rightarrow> string" where
  "source_value src =
     (case src of SRC_MANUAL \<Rightarrow> ''manual_confirmation'' | SRC_SCORE \<Rightarrow> ''score''
      | SRC_PROJECT \<Rightarrow> ''project_dossier'')"

text \<open>The progress with the new result in place, before it is evaluated.\<close>

definition add_result :: "milestone_progress \<Rightarrow> requirement_result \<Rightarrow> int \<Rightarrow> milestone_progress" where
  "add_result item r now =
     item\<lparr>mp_status := MS_IN_PROGRESS,
          mp_started_at := (case mp_started_at item of None \<Rightarrow> Some now | Some x \<Rightarrow> Some x),
          mp_results := sort_key rt_requirement_id
            (map snd (dict_set (rt_requirement_id r) r (results_dict (mp_results item))))\<rparr>"

definition record_requirement ::
  "'n edu_env \<Rightarrow> (nat \<Rightarrow> int) \<Rightarrow> (nat \<Rightarrow> string) \<Rightarrow> education_enrollment \<Rightarrow> education_program \<Rightarrow>
   milestone_spec \<Rightarrow> requirement_result \<Rightarrow> string \<Rightarrow> string \<Rightarrow> string \<Rightarrow> 'n edu_state \<Rightarrow>
   (edu_result, 'n edu_state) outcome" where
  "record_requirement env t uid e p m r actor_id actor_role authority s =
     seq (pure (lookup_progress e (ml_milestone_id m)) s) (\<lambda>item s.
     if mp_status item \<notin> {AVAILABLE, MS_IN_PROGRESS, WAITING_REVIEW, NEEDS_ACTION} then
       (Inl (edu_error ''requirement cannot be recorded at this milestone status''), s)
     else
       (let updated = evaluate_milestone (pe_fsum (ed_programs env)) (t 1) (add_result item r (t 0)) m in
        seq (pure (unlock_dependents (replace_progress (ee_milestones e) updated) p) s) (\<lambda>ms s.
        seq (edu_update env (\<lambda>i. t (i + 2)) (edu_event_id (uid 0))
               (e\<lparr>ee_status := EN_ACTIVE, ee_milestones := ms\<rparr>)
               ''requirement_recorded'' actor_id actor_role
               [(''authority_context'', JStr authority), (''milestone_id'', JStr (ml_milestone_id m)),
                (''requirement_id'', JStr (rt_requirement_id r)),
                (''satisfied'', JBool (rt_satisfied r)),
                (''source'', JStr (source_value (rt_source r)))] [] s) (\<lambda>saved s.
        seq (request_program_completion_if_ready env (\<lambda>i. t (i + 10)) (uid 1) saved p s) (\<lambda>saved s.
        pure (edu_result_for env saved) s)))))"

definition record_manual_confirmation ::
  "'n edu_env \<Rightarrow> (nat \<Rightarrow> int) \<Rightarrow> (nat \<Rightarrow> string) \<Rightarrow> string \<Rightarrow> string \<Rightarrow> string \<Rightarrow> string \<Rightarrow> string \<Rightarrow>
   string \<Rightarrow> int option \<Rightarrow> string \<Rightarrow> 'n edu_state \<Rightarrow> (edu_result, 'n edu_state) outcome" where
  "record_manual_confirmation env t uid enrollment_id milestone_id requirement_id actor_id
     actor_role evidence_ref expected authority s =
     seq (pure (edu_context env enrollment_id milestone_id s) s) (\<lambda>(e, p, m) s.
     seq (pure (require_revision e expected) s) (\<lambda>_ s.
     seq (pure (require_active e) s) (\<lambda>_ s.
     seq (pure (lookup_requirement m requirement_id) s) (\<lambda>q s.
     case q of
       ManualConfirmation i title role points \<Rightarrow>
         seq (pure (require_role role actor_role) s) (\<lambda>_ s.
         seq (pure (construct_result
                \<lparr>rt_requirement_id = requirement_id, rt_satisfied = True, rt_points_awarded = points,
                 rt_source = SRC_MANUAL, rt_actor_id = actor_id, rt_actor_role = actor_role,
                 rt_evidence_ref = evidence_ref, rt_observed_value = ''confirmed'',
                 rt_recorded_at = t 0\<rparr>) s) (\<lambda>r s.
         record_requirement env (\<lambda>i. t (i + 1)) uid e p m r actor_id actor_role authority s))
     | _ \<Rightarrow> (Inl (edu_error ''requirement is not a manual confirmation''), s)))))"

definition record_score ::
  "'n edu_env \<Rightarrow> (nat \<Rightarrow> int) \<Rightarrow> (nat \<Rightarrow> string) \<Rightarrow> string \<Rightarrow> string \<Rightarrow> string \<Rightarrow> rat \<Rightarrow> string \<Rightarrow>
   string \<Rightarrow> string \<Rightarrow> int option \<Rightarrow> string \<Rightarrow> 'n edu_state \<Rightarrow> (edu_result, 'n edu_state) outcome" where
  "record_score env t uid enrollment_id milestone_id requirement_id score actor_id
     actor_role evidence_ref expected authority s =
     seq (pure (edu_context env enrollment_id milestone_id s) s) (\<lambda>(e, p, m) s.
     seq (pure (require_revision e expected) s) (\<lambda>_ s.
     seq (pure (require_active e) s) (\<lambda>_ s.
     seq (pure (lookup_requirement m requirement_id) s) (\<lambda>q s.
     case q of
       ScoreAtLeast i title passing role points \<Rightarrow>
         seq (pure (require_role role actor_role) s) (\<lambda>_ s.
         if \<not> (0 \<le> score \<and> score \<le> 100) then
           (Inl (edu_error ''score must be between 0 and 100''), s)
         else
         seq (pure (construct_result
                \<lparr>rt_requirement_id = requirement_id, rt_satisfied = (passing \<le> score),
                 rt_points_awarded = (if passing \<le> score then points else 0),
                 rt_source = SRC_SCORE, rt_actor_id = actor_id, rt_actor_role = actor_role,
                 rt_evidence_ref = evidence_ref,
                 rt_observed_value = ed_format_score env score @ ''/100'',
                 rt_recorded_at = t 0\<rparr>) s) (\<lambda>r s.
         record_requirement env (\<lambda>i. t (i + 1)) uid e p m r actor_id actor_role authority s))
     | _ \<Rightarrow> (Inl (edu_error ''requirement is not a score threshold''), s)))))"

definition sync_project_milestone ::
  "'n edu_env \<Rightarrow> (nat \<Rightarrow> int) \<Rightarrow> (nat \<Rightarrow> string) \<Rightarrow> string \<Rightarrow> string \<Rightarrow> string \<Rightarrow> string \<Rightarrow>
   string option \<Rightarrow> int option \<Rightarrow> string \<Rightarrow> 'n edu_state \<Rightarrow> (edu_result, 'n edu_state) outcome" where
  "sync_project_milestone env t uid enrollment_id milestone_id actor_id actor_role
     organization_id expected authority s =
     seq (pure (edu_context env enrollment_id milestone_id s) s) (\<lambda>(e, p, m) s.
     seq (pure (require_revision e expected) s) (\<lambda>_ s.
     seq (pure (require_active e) s) (\<lambda>_ s.
     seq (pure (lookup_progress e milestone_id) s) (\<lambda>item s.
     if \<not> truthy (mp_bound_project_id item) then
       (Inl (edu_error ''project milestone has no bound dossier''), s)
     else
     seq (pure (dossier_load (the (mp_bound_project_id item)) (es_dossiers s)) s) (\<lambda>d s.
     seq (pure (require_project_context d e p m organization_id) s) (\<lambda>_ s.
     case first_such is_project_requirement (ml_requirements m) of
       Some (ProjectStatusIs i title required points) \<Rightarrow>
         (let satisfied = project_status_satisfies (pd_status d) required in
         seq (pure (dossier_path_for (pd_project_id d)) s) (\<lambda>path s.
         seq (pure (construct_result
                \<lparr>rt_requirement_id = i, rt_satisfied = satisfied,
                 rt_points_awarded = (if satisfied then points else 0), rt_source = SRC_PROJECT,
                 rt_actor_id = ''system:education-runtime'', rt_actor_role = ''system'',
                 rt_evidence_ref = ed_dossier_root env @ ''/'' @ path @ ''#revision='' @
                   str_int (pd_revision d),
                 rt_observed_value = status_value (pd_status d), rt_recorded_at = t 0\<rparr>) s) (\<lambda>r s.
         record_requirement env (\<lambda>i. t (i + 1)) uid e p m r actor_id actor_role authority s)))
     | _ \<Rightarrow> (Inl (edu_error ''project milestone has no project status requirement''), s)))))))"

section \<open>The other operations\<close>

definition ALLOWED_MILESTONE_PIPELINES :: "(string \<times> string) list" where
  "ALLOWED_MILESTONE_PIPELINES =
     [(''education.manual-confirmation'', ''v1alpha1''), (''education.score-assessment'', ''v1alpha1''),
      (''two-gate-pptx'', ''v1alpha1'')]"

definition publish_program ::
  "'n edu_env \<Rightarrow> education_program \<Rightarrow> 'n edu_state \<Rightarrow> (program_ref, 'n edu_state) outcome" where
  "publish_program env p s =
     (if ep_status p \<notin> {PROGRAM_OFFLINE_REFERENCE, PROGRAM_PUBLISHED} then
        (Inl (edu_error
           ''only offline_reference or published programs may accept enrollments''), s)
      else if list_ex (\<lambda>x. (ml_pipeline_id (snd x), ml_pipeline_version (snd x)) \<notin>
                set ALLOWED_MILESTONE_PIPELINES) (program_milestones p) then
        (Inl (edu_error ''program contains non-allowlisted pipelines''), s)
      else
        (let (r, dir) = program_publish (ed_programs env) p (es_programs s)
         in (r, s\<lparr>es_programs := dir\<rparr>)))"

definition initial_progress :: "string \<times> milestone_spec \<Rightarrow> milestone_progress" where
  "initial_progress x =
     (let m = snd x in
      \<lparr>mp_milestone_id = ml_milestone_id m, mp_level_id = fst x, mp_goal_title = ml_title m,
       mp_pipeline_id = ml_pipeline_id m, mp_pipeline_version = ml_pipeline_version m,
       mp_status = (if ml_prerequisites m \<noteq> [] then LOCKED else AVAILABLE),
       mp_bound_project_id = None, mp_results = [], mp_started_at = None, mp_completed_at = None\<rparr>)"

definition enroll ::
  "'n edu_env \<Rightarrow> (nat \<Rightarrow> int) \<Rightarrow> (nat \<Rightarrow> string) \<Rightarrow> string \<Rightarrow> string \<Rightarrow> string option \<Rightarrow>
   string option \<Rightarrow> string option \<Rightarrow> string \<Rightarrow> 'n edu_state \<Rightarrow> (edu_result, 'n edu_state) outcome" where
  "enroll env t uid selector learner_ref enrollment_id organization_id actor_id authority s =
     seq (pure (program_resolve (ed_programs env) selector (es_programs s)) s) (\<lambda>(p, reference) s.
     if ep_status p \<notin> {PROGRAM_OFFLINE_REFERENCE, PROGRAM_PUBLISHED} then
       (Inl (edu_error ''the selected program is not open for enrollment''), s)
     else
       (let event_id = edu_event_id (uid 1);
            e = \<lparr>ee_enrollment_id = str_or enrollment_id (uid 0), ee_learner_ref = learner_ref,
                 ee_program = reference, ee_revision = 1, ee_status = EN_ACTIVE,
                 ee_created_at = t 0, ee_updated_at = t 1,
                 ee_milestones = map initial_progress (program_milestones p),
                 ee_notifications = [], ee_decisions = [], ee_audit_event_ids = [event_id]\<rparr>
        in if \<not> enrollment_valid e then (Inl (Exn ValidationError ''EducationEnrollment''), s)
           else
             seq (on_tx (etx_execute_create (ed_tx env) (\<lambda>i. t (i + 3)) e
                    (edu_event event_id (ee_enrollment_id e) 1 ''learner_enrolled''
                       (str_or actor_id learner_ref) ''learner''
                       [(''authority_context'', JStr authority),
                        (''organization_id'', JStr (str_or organization_id '''')),
                        (''program'', JStr (program_selector reference)),
                        (''program_sha256'', JStr (pf_sha256 reference))] (t 2))
                    ''learner_enrolled'' event_id) s) (\<lambda>saved s.
             pure (edu_result_for env saved) s)))"

definition start_milestone ::
  "'n edu_env \<Rightarrow> (nat \<Rightarrow> int) \<Rightarrow> (nat \<Rightarrow> string) \<Rightarrow> string \<Rightarrow> string \<Rightarrow> string \<Rightarrow> int option \<Rightarrow>
   string \<Rightarrow> 'n edu_state \<Rightarrow> (edu_result, 'n edu_state) outcome" where
  "start_milestone env t uid enrollment_id milestone_id actor_id expected authority s =
     seq (pure (enrollment_load enrollment_id (tx_store (es_tx s))) s) (\<lambda>e s.
     seq (pure (require_revision e expected) s) (\<lambda>_ s.
     seq (pure (require_active e) s) (\<lambda>_ s.
     seq (pure (lookup_progress e milestone_id) s) (\<lambda>item s.
     if mp_status item \<notin> {AVAILABLE, NEEDS_ACTION} then
       (Inl (edu_error ''milestone cannot start from status''), s)
     else
       seq (save_progress_event env (\<lambda>i. t (i + 1)) (edu_event_id (uid 0)) e
              (item\<lparr>mp_status := MS_IN_PROGRESS,
                    mp_started_at := (case mp_started_at item of None \<Rightarrow> Some (t 0) | Some x \<Rightarrow> Some x)\<rparr>)
              ''milestone_started'' actor_id ''learner''
              [(''authority_context'', JStr authority), (''milestone_id'', JStr milestone_id)] s)
         (\<lambda>saved s. pure (edu_result_for env saved) s)))))"

definition bind_project ::
  "'n edu_env \<Rightarrow> (nat \<Rightarrow> int) \<Rightarrow> (nat \<Rightarrow> string) \<Rightarrow> string \<Rightarrow> string \<Rightarrow> string \<Rightarrow> string \<Rightarrow>
   string option \<Rightarrow> int option \<Rightarrow> string \<Rightarrow> 'n edu_state \<Rightarrow> (edu_result, 'n edu_state) outcome" where
  "bind_project env t uid enrollment_id milestone_id project_id actor_id organization_id
     expected authority s =
     seq (pure (edu_context env enrollment_id milestone_id s) s) (\<lambda>(e, p, m) s.
     seq (pure (require_revision e expected) s) (\<lambda>_ s.
     seq (pure (require_active e) s) (\<lambda>_ s.
     if ml_kind m \<noteq> PROJECT_CERTIFICATION then
       (Inl (edu_error ''only a project milestone may bind a dossier''), s)
     else
     seq (pure (dossier_load project_id (es_dossiers s)) s) (\<lambda>d s.
     seq (pure (require_project_context d e p m organization_id) s) (\<lambda>_ s.
     seq (pure (lookup_progress e milestone_id) s) (\<lambda>item s.
     if truthy (mp_bound_project_id item) \<and> mp_bound_project_id item \<noteq> Some project_id then
       (Inl (edu_error ''milestone already has a different project dossier''), s)
     else if mp_status item \<notin> {AVAILABLE, MS_IN_PROGRESS, NEEDS_ACTION} then
       (Inl (edu_error ''project cannot be bound at the current milestone status''), s)
     else
       seq (save_progress_event env (\<lambda>i. t (i + 1)) (edu_event_id (uid 0)) e
              (item\<lparr>mp_bound_project_id := Some project_id, mp_status := MS_IN_PROGRESS,
                    mp_started_at := (case mp_started_at item of None \<Rightarrow> Some (t 0) | Some x \<Rightarrow> Some x)\<rparr>)
              ''project_bound'' actor_id ''learner''
              [(''authority_context'', JStr authority), (''milestone_id'', JStr milestone_id),
               (''project_id'', JStr project_id)] s)
         (\<lambda>saved s. pure (edu_result_for env saved) s)))))))"

definition reopen :: "string list \<Rightarrow> milestone_progress \<Rightarrow> milestone_progress" where
  "reopen ids m =
     (if mp_milestone_id m \<in> set ids then
        m\<lparr>mp_status := NEEDS_ACTION, mp_completed_at := None, mp_results := []\<rparr>
      else m)"

definition command_value :: "completion_command \<Rightarrow> string" where
  "command_value c = (case c of CMD_APPROVE \<Rightarrow> ''approve'' | CMD_RETURN \<Rightarrow> ''return_for_revision'')"

definition decide_program_completion ::
  "'n edu_env \<Rightarrow> (nat \<Rightarrow> int) \<Rightarrow> (nat \<Rightarrow> string) \<Rightarrow> string \<Rightarrow> completion_command \<Rightarrow> string \<Rightarrow>
   string \<Rightarrow> string list \<Rightarrow> int option \<Rightarrow> string \<Rightarrow> 'n edu_state \<Rightarrow> (edu_result, 'n edu_state) outcome"
where
  "decide_program_completion env t uid enrollment_id command actor_id rationale
     reopen_ids expected authority s =
     seq (pure (enrollment_load enrollment_id (tx_store (es_tx s))) s) (\<lambda>e s.
     seq (pure (require_revision e expected) s) (\<lambda>_ s.
     if ee_status e \<noteq> EN_HITL_PENDING then
       (Inl (edu_error ''program completion is not awaiting an administrator''), s)
     else if strip rationale = [] then
       (Inl (edu_error ''administrator rationale must not be empty''), s)
     else
       (let decision = \<lparr>cd_command = command, cd_actor_id = actor_id,
                        cd_actor_role = ''administrator'', cd_rationale = strip rationale,
                        cd_decided_at = t 0, cd_source = ''explicit_command_input'',
                        cd_authority_context = authority\<rparr> in
        if \<not> completion_decision_valid decision then
          (Inl (Exn ValidationError ''ProgramCompletionDecision''), s)
        else if command = CMD_RETURN \<and> reopen_ids = [] then
          (Inl (edu_error ''return_for_revision requires at least one reopened milestone''), s)
        else if command = CMD_RETURN \<and>
                \<not> set reopen_ids \<subseteq> set (map mp_milestone_id (ee_milestones e)) then
          (Inl (edu_error ''unknown reopened milestones''), s)
        else
          seq (edu_update env (\<lambda>i. t (i + 1)) (edu_event_id (uid 0))
                 (e\<lparr>ee_status := (if command = CMD_RETURN then EN_RETURNED else EN_COMPLETED),
                    ee_milestones := (if command = CMD_RETURN
                      then map (reopen reopen_ids) (ee_milestones e) else ee_milestones e),
                    ee_decisions := ee_decisions e @ [decision]\<rparr>)
                 ''program_completion_decided'' actor_id ''administrator''
                 [(''authority_context'', JStr authority), (''command'', JStr (command_value command)),
                  (''reopened_milestones'', JStr (join_with '','' reopen_ids))] [] s)
            (\<lambda>saved s. pure (edu_result_for env saved) s))))"

end
