(* ===== verification/Lifecycle.thy ===== *)
theory Lifecycle
  imports EducationService
begin

text \<open>
  What the operations of \<open>programs/service.py\<close> promise about an enrollment, as an abstract machine:
  a course is the status of an enrollment with its milestones and the decisions about it, and
  \<^theory_text>\<open>lifecycle\<close> lists the only ways in which it moves.  The second half shows that every operation
  of the service, on any arguments and on every error path, moves the stored enrollments along this
  machine, and reads the guarantees off it.
\<close>

section \<open>The abstract machine\<close>

type_synonym course = "enrollment_status \<times> milestone_progress list \<times> completion_decision list"

definition course_of :: "education_enrollment \<Rightarrow> course" where
  "course_of e = (ee_status e, ee_milestones e, ee_decisions e)"

definition open_status :: "enrollment_status set" where
  "open_status = {EN_ACTIVE, EN_RETURNED}"

definition recordable :: "milestone_status set" where
  "recordable = {AVAILABLE, MS_IN_PROGRESS, WAITING_REVIEW, NEEDS_ACTION}"

inductive lifecycle :: "(rat list \<Rightarrow> rat) \<Rightarrow> education_program \<Rightarrow> course \<Rightarrow> course \<Rightarrow> bool"
  for fsum :: "rat list \<Rightarrow> rat" and p :: education_program where
  work: "st \<in> open_status \<Longrightarrow> item \<in> set ms \<Longrightarrow> mp_status item \<in> recordable \<Longrightarrow>
     mp_milestone_id item' = mp_milestone_id item \<Longrightarrow> mp_status item' = MS_IN_PROGRESS \<Longrightarrow>
     lifecycle fsum p (st, ms, ds) (EN_ACTIVE, replace_progress ms item', ds)"
| evidence: "st \<in> open_status \<Longrightarrow> item \<in> set ms \<Longrightarrow> mp_status item \<in> recordable \<Longrightarrow>
     program_specs p (mp_milestone_id item) = Some m \<Longrightarrow>
     unlock_dependents
       (replace_progress ms (evaluate_milestone fsum now (add_result item r now') m)) p = Inr ms' \<Longrightarrow>
     lifecycle fsum p (st, ms, ds) (EN_ACTIVE, ms', ds)"
| request: "set (required_ids p) \<subseteq> set (completed_ids ms) \<Longrightarrow>
     lifecycle fsum p (EN_ACTIVE, ms, ds) (EN_HITL_PENDING, ms, ds)"
| approve: "cd_command d = CMD_APPROVE \<Longrightarrow> cd_actor_role d = ''administrator'' \<Longrightarrow>
     lifecycle fsum p (EN_HITL_PENDING, ms, ds) (EN_COMPLETED, ms, ds @ [d])"
| send_back: "cd_command d = CMD_RETURN \<Longrightarrow> cd_actor_role d = ''administrator'' \<Longrightarrow> ids \<noteq> [] \<Longrightarrow>
     lifecycle fsum p (EN_HITL_PENDING, ms, ds) (EN_RETURNED, map (reopen ids) ms, ds @ [d])"

definition first_course :: "education_program \<Rightarrow> course" where
  "first_course p = (EN_ACTIVE, map initial_progress (program_milestones p), [])"

definition milestone_earned ::
  "(rat list \<Rightarrow> rat) \<Rightarrow> education_program \<Rightarrow> milestone_progress \<Rightarrow> bool" where
  "milestone_earned fsum p m \<longleftrightarrow>
     (\<exists>sp. program_specs p (mp_milestone_id m) = Some sp \<and> rule_complete fsum sp (mp_results m))"

definition prerequisites_met :: "education_program \<Rightarrow> milestone_progress list \<Rightarrow> milestone_progress \<Rightarrow> bool" where
  "prerequisites_met p ms m \<longleftrightarrow>
     (\<forall>sp. program_specs p (mp_milestone_id m) = Some sp \<longrightarrow>
        set (ml_prerequisites sp) \<subseteq> set (completed_ids ms))"

definition never_returned :: "completion_decision list \<Rightarrow> bool" where
  "never_returned ds \<longleftrightarrow> CMD_RETURN \<notin> cd_command ` set ds"

definition course_ok :: "(rat list \<Rightarrow> rat) \<Rightarrow> education_program \<Rightarrow> course \<Rightarrow> bool" where
  "course_ok fsum p c \<longleftrightarrow> (case c of (st, ms, ds) \<Rightarrow>
     map mp_milestone_id ms = map (\<lambda>x. ml_milestone_id (snd x)) (program_milestones p) \<and>
     (\<forall>m \<in> set ms. mp_status m = MS_COMPLETED \<longrightarrow> milestone_earned fsum p m) \<and>
     (st \<in> {EN_HITL_PENDING, EN_COMPLETED} \<longrightarrow> set (required_ids p) \<subseteq> set (completed_ids ms)) \<and>
     (st = EN_COMPLETED \<longrightarrow> ds \<noteq> [] \<and> cd_command (last ds) = CMD_APPROVE \<and>
        cd_actor_role (last ds) = ''administrator'') \<and>
     (never_returned ds \<longrightarrow> (\<forall>m \<in> set ms. mp_status m \<noteq> LOCKED \<longrightarrow> prerequisites_met p ms m)))"

definition ids_distinct :: "education_program \<Rightarrow> bool" where
  "ids_distinct p \<longleftrightarrow> distinct (map (\<lambda>x. ml_milestone_id (snd x)) (program_milestones p))"

lemma course_okD:
  assumes "course_ok fsum p (st, ms, ds)"
  shows "map mp_milestone_id ms = map (\<lambda>x. ml_milestone_id (snd x)) (program_milestones p)"
    and "m \<in> set ms \<Longrightarrow> mp_status m = MS_COMPLETED \<Longrightarrow> milestone_earned fsum p m"
    and "st \<in> {EN_HITL_PENDING, EN_COMPLETED} \<Longrightarrow> set (required_ids p) \<subseteq> set (completed_ids ms)"
    and "st = EN_COMPLETED \<Longrightarrow> cd_command (last ds) = CMD_APPROVE \<and>
      cd_actor_role (last ds) = ''administrator''"
    and "never_returned ds \<Longrightarrow> m \<in> set ms \<Longrightarrow> mp_status m \<noteq> LOCKED \<Longrightarrow> prerequisites_met p ms m"
  using assms by (auto simp: course_ok_def)

section \<open>Lemmas about the pieces\<close>

lemma set_completed_ids:
  "set (completed_ids ms) = mp_milestone_id ` {m \<in> set ms. mp_status m = MS_COMPLETED}"
  by (auto simp: completed_ids_def)

lemma replace_progress_ids [simp]:
  "map mp_milestone_id (replace_progress ms item) = map mp_milestone_id ms"
  by (simp add: replace_progress_def)

lemma set_replace_progress:
  assumes "distinct (map mp_milestone_id ms)" "item \<in> set ms" "mp_milestone_id item' = mp_milestone_id item"
  shows "set (replace_progress ms item') = insert item' (set ms - {item})"
proof -
  have "mp_milestone_id m = mp_milestone_id item \<longleftrightarrow> m = item" if "m \<in> set ms" for m
    using that assms(1,2) by (auto simp: distinct_map dest: inj_onD)
  then show ?thesis using assms(2,3) by (auto simp: replace_progress_def image_iff)
qed

lemma evaluate_milestone_keeps [simp]:
  "mp_milestone_id (evaluate_milestone fsum now item m) = mp_milestone_id item"
  "mp_results (evaluate_milestone fsum now item m) = mp_results item"
  by (simp_all add: evaluate_milestone_def Let_def split: option.split)

lemma add_result_simps [simp]:
  "mp_milestone_id (add_result item r now) = mp_milestone_id item"
  "mp_status (add_result item r now) = MS_IN_PROGRESS"
  by (simp_all add: add_result_def)

lemma evaluate_milestone_status:
  assumes "mp_status item = MS_IN_PROGRESS"
  shows "mp_status (evaluate_milestone fsum now item m) = MS_COMPLETED \<longleftrightarrow>
           rule_complete fsum m (mp_results item)"
    and "mp_status (evaluate_milestone fsum now item m) \<noteq> LOCKED"
  using assms by (auto simp: evaluate_milestone_def Let_def split: option.split)

lemma unlock_each_Inr:
  "unlock_each specs completed ms = Inr ms' \<Longrightarrow>
   list_all2 (\<lambda>m m'. m' = m \<or> mp_status m = LOCKED \<and> m' = m\<lparr>mp_status := AVAILABLE\<rparr> \<and>
     (\<exists>sp. specs (mp_milestone_id m) = Some sp \<and> set (ml_prerequisites sp) \<subseteq> set completed)) ms ms'"
  by (induction ms arbitrary: ms') (auto split: if_splits option.splits sum.splits)

lemma unlock_dependents_Inr:
  assumes "unlock_dependents ms p = Inr ms'"
  shows "map mp_milestone_id ms' = map mp_milestone_id ms"
    and "set (completed_ids ms') = set (completed_ids ms)"
    and "m' \<in> set ms' \<Longrightarrow> m' \<in> set ms \<or> mp_status m' = AVAILABLE \<and> prerequisites_met p ms m'"
proof -
  note u = unlock_each_Inr [OF assms [unfolded unlock_dependents_def]]
  then show "map mp_milestone_id ms' = map mp_milestone_id ms"
    by (induction rule: list_all2_induct) auto
  have "filter (\<lambda>m. mp_status m = MS_COMPLETED) ms' = filter (\<lambda>m. mp_status m = MS_COMPLETED) ms"
    using u by (induction rule: list_all2_induct) auto
  then show "set (completed_ids ms') = set (completed_ids ms)" by (simp add: completed_ids_def)
  assume "m' \<in> set ms'"
  then obtain i where i: "i < length ms'" "m' = ms' ! i" by (auto simp: in_set_conv_nth)
  with u have "i < length ms" by (simp add: list_all2_lengthD)
  with list_all2_nthD2 [OF u i(1)] i(2)
  show "m' \<in> set ms \<or> mp_status m' = AVAILABLE \<and> prerequisites_met p ms m'"
    by (auto simp: prerequisites_met_def)
qed

lemma program_specs_eq:
  assumes "ids_distinct p" "x \<in> set (program_milestones p)"
  shows "program_specs p (ml_milestone_id (snd x)) = Some (snd x)"
  using assms unfolding program_specs_def
  by (intro map_of_is_SomeI) (auto simp: ids_distinct_def o_def rev_map [symmetric])

section \<open>The machine keeps its promises\<close>

text \<open>One milestone that was open gets a new progress, earned if it is completed.\<close>

lemma course_ok_replace:
  assumes ok: "course_ok fsum p (st, ms, ds)" and dist: "ids_distinct p"
    and item: "item \<in> set ms" "mp_status item \<in> recordable" "mp_milestone_id item' = mp_milestone_id item"
    and new: "mp_status item' \<noteq> LOCKED" "mp_status item' = MS_COMPLETED \<Longrightarrow> milestone_earned fsum p item'"
  shows "course_ok fsum p (EN_ACTIVE, replace_progress ms item', ds)"
proof -
  have ids: "map mp_milestone_id ms = map (\<lambda>x. ml_milestone_id (snd x)) (program_milestones p)"
    using ok by (simp add: course_ok_def)
  with dist have "distinct (map mp_milestone_id ms)" by (simp add: ids_distinct_def)
  note set' = set_replace_progress [OF this item(1,3)]
  have not_done: "mp_status item \<noteq> MS_COMPLETED" "mp_status item \<noteq> LOCKED"
    using item(2) by (auto simp: recordable_def)
  have mono: "set (completed_ids ms) \<subseteq> set (completed_ids (replace_progress ms item'))"
    using not_done(1) by (auto simp: set_completed_ids set')
  have met: "prerequisites_met p (replace_progress ms item') m"
    if "prerequisites_met p ms m" for m
    using that mono by (force simp: prerequisites_met_def)
  have same: "prerequisites_met p ms item' = prerequisites_met p ms item"
    using item(3) by (simp add: prerequisites_met_def)
  have "prerequisites_met p (replace_progress ms item') m"
    if "never_returned ds" "m \<in> set (replace_progress ms item')" "mp_status m \<noteq> LOCKED" for m
  proof -
    have old: "prerequisites_met p ms m" if "m \<in> set ms" "mp_status m \<noteq> LOCKED" for m
      using ok \<open>never_returned ds\<close> that by (simp add: course_ok_def)
    show ?thesis
    proof (cases "m = item'")
      case True
      then show ?thesis using met same old [OF item(1) not_done(2)] by simp
    next
      case False
      then show ?thesis using met old that by (simp add: set')
    qed
  qed
  moreover have "milestone_earned fsum p m"
    if "m \<in> set (replace_progress ms item')" "mp_status m = MS_COMPLETED" for m
    using that new(2) ok by (auto simp: set' course_ok_def)
  ultimately show ?thesis using ids by (simp add: course_ok_def)
qed

lemma course_ok_unlock:
  assumes ok: "course_ok fsum p (EN_ACTIVE, ms, ds)" and un: "unlock_dependents ms p = Inr ms'"
  shows "course_ok fsum p (EN_ACTIVE, ms', ds)"
proof -
  note u = unlock_dependents_Inr [OF un]
  have met: "prerequisites_met p ms' m = prerequisites_met p ms m" for m
    using u(2) by (simp add: prerequisites_met_def)
  have "prerequisites_met p ms' m" if "never_returned ds" "m \<in> set ms'" "mp_status m \<noteq> LOCKED" for m
    using u(3) [OF that(2)] that ok by (auto simp: met course_ok_def)
  moreover have "milestone_earned fsum p m" if "m \<in> set ms'" "mp_status m = MS_COMPLETED" for m
    using u(3) [OF that(1)] that(2) ok by (auto simp: course_ok_def)
  ultimately show ?thesis using ok u(1) by (simp add: course_ok_def)
qed

lemma lifecycle_ok:
  assumes "lifecycle fsum p c c'" and "course_ok fsum p c" and "ids_distinct p"
  shows "course_ok fsum p c'"
  using assms
proof (induction rule: lifecycle.induct)
  case (work st item ms item' ds)
  then show ?case by (intro course_ok_replace [of fsum p st]) auto
next
  case (evidence st item ms m now r now' ms' ds)
  let ?item = "evaluate_milestone fsum now (add_result item r now') m"
  have "course_ok fsum p (EN_ACTIVE, replace_progress ms ?item, ds)"
    using evidence
    by (intro course_ok_replace [of fsum p st])
       (auto simp: evaluate_milestone_status milestone_earned_def)
  from course_ok_unlock [OF this] evidence show ?case by simp
next
  case (request ms ds)
  then show ?case by (simp add: course_ok_def)
next
  case (approve d ms ds)
  then show ?case by (simp add: course_ok_def never_returned_def)
next
  case (send_back d ids ms ds)
  have ids: "mp_milestone_id \<circ> reopen ids = mp_milestone_id" by (auto simp: reopen_def)
  have "milestone_earned fsum p m"
    if "m \<in> set (map (reopen ids) ms)" "mp_status m = MS_COMPLETED" for m
    using that send_back by (auto simp: reopen_def course_ok_def split: if_splits)
  then show ?case using send_back by (simp add: course_ok_def never_returned_def ids)
qed

lemma first_course_ok:
  assumes "ids_distinct p"
  shows "course_ok fsum p (first_course p)"
proof -
  have "prerequisites_met p ms (initial_progress x)"
    if "x \<in> set (program_milestones p)" "mp_status (initial_progress x) \<noteq> LOCKED" for x ms
    using that program_specs_eq [OF assms that(1)]
    by (auto simp: prerequisites_met_def initial_progress_def Let_def split: if_splits)
  moreover have "mp_status (initial_progress x) \<noteq> MS_COMPLETED"
    "mp_milestone_id (initial_progress x) = ml_milestone_id (snd x)" for x
    by (simp_all add: initial_progress_def Let_def)
  ultimately show ?thesis by (auto simp: course_ok_def first_course_def)
qed

lemma lifecycle_run_ok:
  "(lifecycle fsum p)\<^sup>*\<^sup>* (first_course p) c \<Longrightarrow> ids_distinct p \<Longrightarrow> course_ok fsum p c"
  by (induction rule: rtranclp_induct) (auto intro: first_course_ok lifecycle_ok)

section \<open>What one change writes\<close>

text \<open>
  The part of the state that matters here.  \<open>advance\<close> is what an operation may do to it: it leaves
  the enrollments alone or moves one enrollment along the machine under a higher revision, it keeps
  what the outbox has delivered, and when the enrollment waits for the administrator the request
  for that revision has been delivered.
\<close>

abbreviation enrollments_of :: "'n edu_state \<Rightarrow> enrollment_dir" where
  "enrollments_of s \<equiv> tx_store (es_tx s)"

definition request_delivered :: "'n edu_env \<Rightarrow> 'n edu_state \<Rightarrow> education_enrollment \<Rightarrow> bool" where
  "request_delivered env s e \<longleftrightarrow> delivery_recorded (etx_sha_text (ed_tx env)) (es_outbox s)
     (completion_notification (e\<lparr>ee_revision := ee_revision e - 1\<rparr>))"

definition follows ::
  "'n edu_env \<Rightarrow> education_program \<Rightarrow> education_enrollment \<Rightarrow> education_enrollment \<Rightarrow> bool" where
  "follows env p e e' \<longleftrightarrow> enrollment_valid e' \<and> ee_enrollment_id e' = ee_enrollment_id e \<and>
     ee_program e' = ee_program e \<and> ee_revision e < ee_revision e' \<and>
     (lifecycle (pe_fsum (ed_programs env)) p)\<^sup>+\<^sup>+ (course_of e) (course_of e')"

definition keeps_around :: "'n edu_env \<Rightarrow> 'n edu_state \<Rightarrow> 'n edu_state \<Rightarrow> bool" where
  "keeps_around env s s' \<longleftrightarrow> es_programs s' = es_programs s \<and> es_dossiers s' = es_dossiers s \<and>
     (\<forall>ev. delivery_recorded (etx_sha_text (ed_tx env)) (es_outbox s) ev \<longrightarrow>
        delivery_recorded (etx_sha_text (ed_tx env)) (es_outbox s') ev)"

definition advance ::
  "'n edu_env \<Rightarrow> education_program \<Rightarrow> education_enrollment \<Rightarrow> 'n edu_state \<Rightarrow> 'n edu_state \<Rightarrow> bool" where
  "advance env p e s s' \<longleftrightarrow> keeps_around env s s' \<and>
     (enrollments_of s' = enrollments_of s \<or>
      (\<exists>e'. follows env p e e' \<and> (ee_status e' = EN_HITL_PENDING \<longrightarrow> request_delivered env s' e') \<and>
        enrollments_of s' = (enrollments_of s)(enrollment_file (ee_enrollment_id e) \<mapsto> Some e')))"

lemma keeps_around_refl [simp]: "keeps_around env s s"
  by (simp add: keeps_around_def)

lemma advance_refl [simp]: "advance env p e s s"
  by (simp add: advance_def)

lemma request_delivered_mono:
  "request_delivered env s e \<Longrightarrow> keeps_around env s s' \<Longrightarrow> request_delivered env s' e"
  by (simp add: request_delivered_def keeps_around_def)

lemma load_stored:
  "enrollment_load i dir = Inr e \<Longrightarrow>
   enrollment_valid e \<and> ee_enrollment_id e = i \<and> dir (enrollment_file i) = Some (Some e)"
  by (auto simp: enrollment_load_def enrollment_path_for_def split: if_splits option.splits)

lemma stored_load:
  "enrollment_valid e \<Longrightarrow> dir (enrollment_file (ee_enrollment_id e)) = Some (Some e) \<Longrightarrow>
   enrollment_load (ee_enrollment_id e) dir = Inr e"
  by (auto simp: enrollment_load_def enrollment_path_for_def enrollment_valid_def)

lemma etx_update_other:
  assumes "f \<noteq> journal_file_of (etx_jenv env) (''txn-edu-'' @ pa_event_id event)"
  shows "map_of (tx_journal (snd (etx_execute_update env t e n event command key required ws))) f =
    map_of (tx_journal ws) f"
  using co_execute_other [of f "enrollment_coordinator env"] assms
  by (auto simp: etx_execute_update_def pure_def construct_enrollment_plan_def etx_execute_def seq_def
      split: sum.splits)

lemma edu_update_effect:
  assumes run: "edu_update env t event_id changed ty actor role details required s = (res, s')"
    and fresh: "fresh_event (ed_tx env) (es_tx s) event_id"
    and base: "enrollment_load (ee_enrollment_id changed) (enrollments_of s) = Inr e"
    and rv: "ee_revision changed = ee_revision e"
  shows "es_programs s' = es_programs s \<and> es_dossiers s' = es_dossiers s \<and> es_outbox s' = es_outbox s \<and>
    (enrollments_of s' = enrollments_of s \<and> (\<forall>v. res \<noteq> Inr v) \<or>
     (\<exists>e'. enrollment_valid e' \<and> ee_enrollment_id e' = ee_enrollment_id changed \<and>
        ee_program e' = ee_program changed \<and> ee_revision e' = ee_revision e + 1 \<and>
        course_of e' = course_of changed \<and> (\<forall>v. res = Inr v \<longrightarrow> v = e') \<and>
        enrollments_of s' = (enrollments_of s)(enrollment_file (ee_enrollment_id changed) \<mapsto> Some e')))"
proof -
  let ?c = "changed\<lparr>ee_audit_event_ids := ee_audit_event_ids changed @ [event_id]\<rparr>"
  let ?ev = "edu_event event_id (ee_enrollment_id changed) (ee_revision changed + 1) ty actor role
    details (t 0)"
  obtain ws' where ws': "etx_execute_update (ed_tx env) (\<lambda>i. t (i + 1)) ?c (ee_revision changed) ?ev
      ty event_id required (es_tx s) = (res, ws')" "s' = s\<lparr>es_tx := ws'\<rparr>"
    using run by (cases "etx_execute_update (ed_tx env) (\<lambda>i. t (i + 1)) ?c (ee_revision changed) ?ev
      ty event_id required (es_tx s)") (auto simp: edu_update_def on_tx_def)
  have "fresh_event (ed_tx env) (es_tx s) (pa_event_id ?ev)" using fresh by (simp add: edu_event_def)
  from etx_update_store [OF this ws'(1)] rv
  consider "tx_store ws' = enrollments_of s" "\<forall>v. res \<noteq> Inr v"
    | "enrollment_valid ?c" "tx_store ws' = (enrollments_of s)
         (enrollment_file (ee_enrollment_id changed) \<mapsto> Some (saved_as ?c (t 3)))"
      "\<forall>v. res = Inr v \<longrightarrow> v = saved_as ?c (t 3)"
    by (auto simp: eval_nat_numeral)
  then show ?thesis
  proof cases
    case 1
    with ws'(2) show ?thesis by simp
  next
    case 2
    let ?e = "saved_as ?c (t 3)"
    have "enrollment_valid ?e"
      using 2(1) by (auto simp: enrollment_valid_def enrollment_integrity_def saved_as_def)
    moreover have "course_of ?e = course_of changed" by (simp add: course_of_def saved_as_def)
    ultimately show ?thesis
      using 2 ws'(2) rv by (intro conjI disjI2 exI [of _ ?e]) (simp_all add: saved_as_def)
  qed
qed


text \<open>A change of the loaded enrollment along the machine.\<close>

lemma edu_update_advance:
  assumes run: "edu_update env t event_id changed ty actor role details required s = (res, s')"
    and fresh: "fresh_event (ed_tx env) (es_tx s) event_id"
    and base: "enrollment_load i (enrollments_of s) = Inr e"
    and same: "ee_enrollment_id changed = ee_enrollment_id e" "ee_program changed = ee_program e"
      "ee_revision changed = ee_revision e"
    and move: "lifecycle (pe_fsum (ed_programs env)) p (course_of e) (course_of changed)"
    and asked: "ee_status changed = EN_HITL_PENDING \<Longrightarrow>
      delivery_recorded (etx_sha_text (ed_tx env)) (es_outbox s) (completion_notification e)"
  shows "advance env p e s s'"
    and "res = Inr v \<Longrightarrow> follows env p e v \<and> ee_status v = ee_status changed \<and>
      ee_milestones v = ee_milestones changed \<and>
      enrollments_of s' = (enrollments_of s)(enrollment_file (ee_enrollment_id e) \<mapsto> Some v)"
proof -
  have "enrollment_load (ee_enrollment_id changed) (enrollments_of s) = Inr e"
    using load_stored [OF base] base same(1) by simp
  note eff = edu_update_effect [OF run fresh this same(3)]
  have fol: "follows env p e e'"
    if "enrollment_valid e'" "ee_enrollment_id e' = ee_enrollment_id changed"
      "ee_program e' = ee_program changed" "ee_revision e' = ee_revision e + 1"
      "course_of e' = course_of changed" for e'
    using that move same by (auto simp: follows_def)
  have del: "request_delivered env s' e'"
    if "ee_enrollment_id e' = ee_enrollment_id changed" "ee_revision e' = ee_revision e + 1"
      "course_of e' = course_of changed" "ee_status e' = EN_HITL_PENDING" for e'
  proof -
    have "completion_notification (e'\<lparr>ee_revision := ee_revision e' - 1\<rparr>) = completion_notification e"
      using that same by (simp add: completion_notification_def)
    then show ?thesis
      using that eff asked by (auto simp: request_delivered_def course_of_def)
  qed
  show "advance env p e s s'"
    using eff fol del same(1) by (auto simp: advance_def keeps_around_def)
  show "res = Inr v \<Longrightarrow> follows env p e v \<and> ee_status v = ee_status changed \<and>
      ee_milestones v = ee_milestones changed \<and>
      enrollments_of s' = (enrollments_of s)(enrollment_file (ee_enrollment_id e) \<mapsto> Some v)"
    using eff fol same(1) by (auto simp: course_of_def)
qed

lemma edu_update_other:
  "f \<noteq> journal_file_of (etx_jenv (ed_tx env)) (''txn-edu-'' @ event_id) \<Longrightarrow>
   map_of (tx_journal (es_tx (snd (edu_update env t event_id c ty a r d q s)))) f =
   map_of (tx_journal (es_tx s)) f"
  by (simp add: edu_update_def on_tx_def etx_update_other edu_event_def)

lemma advance_trans:
  assumes first: "advance env p e s s1" "follows env p e e1" "ee_status e1 = EN_ACTIVE"
      "enrollments_of s1 = (enrollments_of s)(enrollment_file (ee_enrollment_id e) \<mapsto> Some e1)"
    and second: "advance env p e1 s1 s2"
  shows "advance env p e s s2"
proof -
  have around: "keeps_around env s s2"
    using first(1) second by (auto simp: advance_def keeps_around_def)
  have id: "ee_enrollment_id e1 = ee_enrollment_id e" using first(2) by (simp add: follows_def)
  have tr: "follows env p e e'" if "follows env p e1 e'" for e'
    using that first(2) by (auto simp: follows_def)
  from second consider "enrollments_of s2 = enrollments_of s1"
    | e' where "follows env p e1 e'" "ee_status e' = EN_HITL_PENDING \<longrightarrow> request_delivered env s2 e'"
      "enrollments_of s2 = (enrollments_of s1)(enrollment_file (ee_enrollment_id e1) \<mapsto> Some e')"
    by (auto simp: advance_def)
  then show ?thesis
  proof cases
    case 1
    then show ?thesis using around first by (auto simp: advance_def)
  next
    case 2
    then show ?thesis using around first(4) tr id by (auto simp: advance_def)
  qed
qed

text \<open>Sending a notification writes only to the outbox.\<close>

lemma notify_effect:
  assumes "notify env ev s = (r, s')"
  shows "keeps_around env s s' \<and> enrollments_of s' = enrollments_of s \<and>
    tx_journal (es_tx s') = tx_journal (es_tx s) \<and>
    (\<forall>clock down. ed_notifier env = DurableOutbox clock down \<longrightarrow> r = Inr () \<longrightarrow>
       delivery_recorded (etx_sha_text (ed_tx env)) (es_outbox s') ev)"
proof (cases "ed_notifier env")
  case (DurableOutbox clock down)
  let ?sha = "etx_sha_text (ed_tx env)"
  obtain r' ob where o: "outbox_send ?sha clock down ev (es_outbox s) = (r', ob)" by fastforce
  have "delivery_recorded ?sha ob ev'" if "delivery_recorded ?sha (es_outbox s) ev'" for ev'
    using durable.send_keeps [OF o that] .
  moreover have "delivery_recorded ?sha ob ev" if "r' = Inr ()"
    using durable.send_records [OF o [unfolded that]] .
  ultimately show ?thesis
    using assms DurableOutbox o by (auto simp: notify_def keeps_around_def)
next
  case (OtherNotifier send)
  with assms show ?thesis
    by (auto simp: notify_def keeps_around_def delivery_recorded_def split: prod.splits)
qed


lemma request_advance:
  assumes run: "request_program_completion_if_ready env t uuid e p s = (res, s')"
    and fresh: "fresh_event (ed_tx env) (es_tx s) (edu_event_id uuid)"
    and base: "enrollment_load i (enrollments_of s) = Inr e" and st: "ee_status e = EN_ACTIVE"
  shows "advance env p e s s'"
proof (cases "set (required_ids p) \<subseteq> set (completed_ids (ee_milestones e))")
  case False
  with run show ?thesis by (auto simp: request_program_completion_if_ready_def)
next
  case ready: True
  obtain r s1 where n: "notify env (completion_notification e) s = (r, s1)" by fastforce
  note n' = notify_effect [OF n]
  have only_notified: "advance env p e s s1" using n' by (simp add: advance_def)
  show ?thesis
  proof (cases r)
    case (Inl x)
    with run ready st n only_notified show ?thesis
      by (simp add: request_program_completion_if_ready_def)
  next
    case r: (Inr u)
    show ?thesis
    proof (cases "ed_notifier env")
      case (OtherNotifier send)
      with run ready st n r only_notified show ?thesis
        by (simp add: request_program_completion_if_ready_def)
    next
      case D: (DurableOutbox clock down)
      show ?thesis
      proof (cases "outbox_requirement env (completion_notification e) s1")
        case (Inl x)
        with run ready st n r D only_notified show ?thesis
          by (simp add: request_program_completion_if_ready_def pure_def)
      next
        case (Inr requirement)
        let ?c = "e\<lparr>ee_status := EN_HITL_PENDING,
           ee_notifications := ee_notifications e @
             [\<lparr>pn_event_type = ''education_program_completion_approval_requested'',
               pn_required_role = ''administrator'',
               pn_enrollment_revision = ee_revision e + 1, pn_recorded_at = t 0\<rparr>]\<rparr>"
        have upd: "edu_update env (\<lambda>i. t (i + 1)) (edu_event_id uuid) ?c
            ''program_completion_requested'' ''system:education-runtime'' ''system''
            [(''required_milestones'', JStr (join_with '','' (sort (required_ids p))))]
            [requirement] s1 = (res, s')"
          using run ready st n r D Inr by (simp add: request_program_completion_if_ready_def pure_def)
        have "advance env p e s1 s'"
        proof (rule edu_update_advance(1) [OF upd])
          show "fresh_event (ed_tx env) (es_tx s1) (edu_event_id uuid)"
            using fresh n' by (simp add: fresh_event_def)
          show "enrollment_load i (enrollments_of s1) = Inr e" using base n' by simp
          show "lifecycle (pe_fsum (ed_programs env)) p (course_of e) (course_of ?c)"
            using ready st by (auto simp: course_of_def intro: lifecycle.request)
          show "delivery_recorded (etx_sha_text (ed_tx env)) (es_outbox s1) (completion_notification e)"
            using n' D r by simp
        qed simp_all
        with n' show ?thesis by (auto simp: advance_def keeps_around_def)
      qed
    qed
  qed
qed

section \<open>Every operation moves along the machine\<close>

text \<open>Two new event ids: the journal knows neither, and their files differ.\<close>

definition new_ids :: "'n edu_env \<Rightarrow> 'n edu_state \<Rightarrow> (nat \<Rightarrow> string) \<Rightarrow> bool" where
  "new_ids env s uid \<longleftrightarrow>
     fresh_event (ed_tx env) (es_tx s) (edu_event_id (uid 0)) \<and>
     fresh_event (ed_tx env) (es_tx s) (edu_event_id (uid 1)) \<and>
     journal_file_of (etx_jenv (ed_tx env)) (''txn-edu-'' @ edu_event_id (uid 1)) \<noteq>
     journal_file_of (etx_jenv (ed_tx env)) (''txn-edu-'' @ edu_event_id (uid 0))"

lemma lookup_progress_Inr:
  "lookup_progress e i = Inr item \<Longrightarrow> item \<in> set (ee_milestones e) \<and> mp_milestone_id item = i"
  by (auto simp: lookup_progress_def dest!: first_such_Some split: option.splits)

lemma require_active_Inr: "require_active e = Inr u \<longleftrightarrow> ee_status e \<in> open_status"
  by (auto simp: require_active_def open_status_def)

lemma evidence_advance:
  assumes run: "record_requirement env t uid e p m r actor role authority s = (res, s')"
    and ids: "new_ids env s uid" and base: "enrollment_load i (enrollments_of s) = Inr e"
    and st: "ee_status e \<in> open_status"
    and spec: "program_specs p (ml_milestone_id m) = Some m"
  shows "advance env p e s s'"
proof (cases "lookup_progress e (ml_milestone_id m)")
  case (Inl x)
  with run show ?thesis by (simp add: record_requirement_def pure_def)
next
  case L: (Inr item)
  note item = lookup_progress_Inr [OF L]
  let ?upd = "evaluate_milestone (pe_fsum (ed_programs env)) (t 1) (add_result item r (t 0)) m"
  show ?thesis
  proof (cases "mp_status item \<in> recordable")
    case False
    with L run show ?thesis by (auto simp: record_requirement_def pure_def recordable_def)
  next
    case rec: True
    then have rec': "\<not> mp_status item \<notin> {AVAILABLE, MS_IN_PROGRESS, WAITING_REVIEW, NEEDS_ACTION}"
      by (simp add: recordable_def)
    show ?thesis
    proof (cases "unlock_dependents (replace_progress (ee_milestones e) ?upd) p")
      case (Inl x)
      with run show ?thesis
        unfolding record_requirement_def L pure_def seq_simps if_not_P [OF rec'] by (simp add: Let_def)
    next
      case U: (Inr ms)
      let ?c = "e\<lparr>ee_status := EN_ACTIVE, ee_milestones := ms\<rparr>"
      let ?details = "[(''authority_context'', JStr authority), (''milestone_id'', JStr (ml_milestone_id m)),
                (''requirement_id'', JStr (rt_requirement_id r)),
                (''satisfied'', JBool (rt_satisfied r)),
                (''source'', JStr (source_value (rt_source r)))]"
      obtain q s1 where u: "edu_update env (\<lambda>i. t (i + 2)) (edu_event_id (uid 0)) ?c
          ''requirement_recorded'' actor role ?details [] s = (q, s1)" by fastforce
      have move: "lifecycle (pe_fsum (ed_programs env)) p (course_of e) (course_of ?c)"
        using lifecycle.evidence [OF st _ rec, of "ee_milestones e"] item spec U
        by (auto simp: course_of_def)
      have fresh: "fresh_event (ed_tx env) (es_tx s) (edu_event_id (uid 0))"
        using ids by (simp add: new_ids_def)
      note adv = edu_update_advance [OF u fresh base _ _ _ move, simplified]
      show ?thesis
      proof (cases q)
        case (Inl x)
        with U run u adv(1) show ?thesis
          unfolding record_requirement_def L pure_def seq_simps if_not_P [OF rec'] by (simp add: Let_def)
      next
        case q: (Inr v)
        note v = adv(2) [OF q]
        obtain q2 s2 where c: "request_program_completion_if_ready env (\<lambda>i. t (i + 10)) (uid 1) v p s1 = (q2, s2)"
          by fastforce
        have s2: "s' = s2"
          using U run u q c
          unfolding record_requirement_def L pure_def seq_simps if_not_P [OF rec']
          by (cases q2) (simp_all add: Let_def)
        have "map_of (tx_journal (es_tx (snd (q, s1)))) f = map_of (tx_journal (es_tx s)) f"
          if "f \<noteq> journal_file_of (etx_jenv (ed_tx env)) (''txn-edu-'' @ edu_event_id (uid 0))" for f
          unfolding u [symmetric] using that by (rule edu_update_other)
        then have "fresh_event (ed_tx env) (es_tx s1) (edu_event_id (uid 1))"
          using ids by (simp add: new_ids_def fresh_event_def)
        moreover have "enrollment_load (ee_enrollment_id v) (enrollments_of s1) = Inr v"
          using v by (intro stored_load) (auto simp: follows_def)
        ultimately have "advance env p v s1 s2"
          using request_advance [OF c] v by simp
        with v show ?thesis unfolding s2 by (intro advance_trans [OF adv(1)]) simp_all
      qed
    qed
  qed
qed


text \<open>The operations that record evidence load the program that the enrollment is pinned to.\<close>

definition resolves ::
  "'n edu_env \<Rightarrow> program_dir \<Rightarrow> education_enrollment \<Rightarrow> education_program \<Rightarrow> bool" where
  "resolves env dir e p \<longleftrightarrow>
     (\<exists>ref. program_resolve (ed_programs env) (program_selector (ee_program e)) dir = Inr (p, ref))"

lemma program_resolve_Inr:
  "program_resolve env selector dir = Inr (p, ref) \<longleftrightarrow>
   (\<exists>i v path. rsplit_at selector = Some (i, v) \<and> program_path_for i v = Inr path \<and>
      dir path = Some (Some p) \<and> program_valid (pe_fsum env) p \<and> ep_program_id p = i \<and>
      ep_version p = v \<and> ref = program_ref_for env p path)"
  by (auto simp: program_resolve_def program_load_path_def split: option.splits sum.splits if_splits)

lemma program_valid_ids: "program_valid fsum p \<Longrightarrow> ids_distinct p"
  using validate_graph_placed(2)
  by (auto simp: program_valid_def ids_distinct_def program_milestones_placed o_def)

lemma resolves_ids: "resolves env dir e p \<Longrightarrow> ids_distinct p"
  by (auto simp: resolves_def program_resolve_Inr intro: program_valid_ids)

lemma resolves_unique: "resolves env dir e p \<Longrightarrow> resolves env dir e q \<Longrightarrow> q = p"
  by (auto simp: resolves_def)

lemma edu_context_Inr:
  assumes "edu_context env i mid s = Inr (e, p, m)"
  shows "enrollment_load i (enrollments_of s) = Inr e" and "resolves env (es_programs s) e p"
    and "program_specs p (ml_milestone_id m) = Some m" and "ml_milestone_id m = mid"
proof -
  have look: "lookup_milestone p mid = Inr m" and load: "enrollment_load i (enrollments_of s) = Inr e"
    and res: "\<exists>ref. program_resolve (ed_programs env) (program_selector (ee_program e)) (es_programs s) = Inr (p, ref)"
    using assms by (auto simp: edu_context_def split: sum.splits if_splits)
  show "enrollment_load i (enrollments_of s) = Inr e" by fact
  show r: "resolves env (es_programs s) e p" using res by (simp add: resolves_def)
  obtain x where x: "x \<in> set (program_milestones p)" "snd x = m" "ml_milestone_id (snd x) = mid"
    using look by (auto simp: lookup_milestone_def dest!: first_such_Some split: option.splits)
  with program_specs_eq [OF resolves_ids [OF r] x(1)]
  show "program_specs p (ml_milestone_id m) = Some m" "ml_milestone_id m = mid" by auto
qed

definition moves :: "'n edu_env \<Rightarrow> string \<Rightarrow> 'n edu_state \<Rightarrow> 'n edu_state \<Rightarrow> bool" where
  "moves env i s s' \<longleftrightarrow> s' = s \<or> (\<exists>e. enrollment_load i (enrollments_of s) = Inr e \<and>
     (\<forall>p. resolves env (es_programs s) e p \<longrightarrow> advance env p e s s'))"

lemma moves_refl [simp]: "moves env i s s"
  by (simp add: moves_def)

lemma recorded_moves:
  assumes "edu_context env i mid s = Inr (e, p, m)" "ee_status e \<in> open_status"
    and "record_requirement env t uid e p m r actor role authority s = (res, s')" "new_ids env s uid"
  shows "moves env i s s'"
proof -
  note x = edu_context_Inr [OF assms(1)]
  have "advance env p e s s'" by (rule evidence_advance [OF assms(3,4) x(1) assms(2) x(3)])
  with x show ?thesis by (auto simp: moves_def dest: resolves_unique)
qed

lemma record_manual_confirmation_moves:
  assumes "record_manual_confirmation env t uid i mid rid actor role ref expected authority s = (res, s')"
    and "new_ids env s uid"
  shows "moves env i s s'"
proof (rule ccontr)
  assume no: "\<not> moves env i s s'"
  then have "s' \<noteq> s" by auto
  with assms(1) obtain e p m r where "edu_context env i mid s = Inr (e, p, m)"
    "ee_status e \<in> open_status"
    "record_requirement env (\<lambda>i. t (i + 1)) uid e p m r actor role authority s = (res, s')"
    unfolding record_manual_confirmation_def
    by (auto simp: seq_def pure_def require_active_Inr split: sum.splits requirement_spec.splits)
  from recorded_moves [OF this assms(2)] no show False by simp
qed

lemma record_score_moves:
  assumes "record_score env t uid i mid rid score actor role ref expected authority s = (res, s')"
    and "new_ids env s uid"
  shows "moves env i s s'"
proof (rule ccontr)
  assume no: "\<not> moves env i s s'"
  then have "s' \<noteq> s" by auto
  with assms(1) obtain e p m r where "edu_context env i mid s = Inr (e, p, m)"
    "ee_status e \<in> open_status"
    "record_requirement env (\<lambda>i. t (i + 1)) uid e p m r actor role authority s = (res, s')"
    unfolding record_score_def
    by (auto simp: seq_def pure_def require_active_Inr
        split: sum.splits requirement_spec.splits if_splits)
  from recorded_moves [OF this assms(2)] no show False by simp
qed

lemma sync_project_milestone_moves:
  assumes "sync_project_milestone env t uid i mid actor role org expected authority s = (res, s')"
    and "new_ids env s uid"
  shows "moves env i s s'"
proof (rule ccontr)
  assume no: "\<not> moves env i s s'"
  then have "s' \<noteq> s" by auto
  with assms(1) obtain e p m r where "edu_context env i mid s = Inr (e, p, m)"
    "ee_status e \<in> open_status"
    "record_requirement env (\<lambda>i. t (i + 1)) uid e p m r actor role authority s = (res, s')"
    unfolding sync_project_milestone_def Let_def
    by (auto simp: seq_def pure_def require_active_Inr
        split: sum.splits requirement_spec.splits if_splits option.splits)
  from recorded_moves [OF this assms(2)] no show False by simp
qed

text \<open>Starting a milestone and binding a project put one open milestone in progress.\<close>

lemma save_progress_moves:
  assumes run: "snd (save_progress_event env t (edu_event_id (uid 0)) e item' ty actor role details s) = s'"
    and ids: "new_ids env s uid" and load: "enrollment_load i (enrollments_of s) = Inr e"
    and st: "ee_status e \<in> open_status" and item: "lookup_progress e mid = Inr item"
      "mp_status item \<in> recordable" "mp_milestone_id item' = mp_milestone_id item"
      "mp_status item' = MS_IN_PROGRESS"
  shows "moves env i s s'"
proof -
  let ?c = "e\<lparr>ee_status := EN_ACTIVE, ee_milestones := replace_progress (ee_milestones e) item'\<rparr>"
  have "lifecycle (pe_fsum (ed_programs env)) p (course_of e) (course_of ?c)" for p
    using lifecycle.work [OF st, of item "ee_milestones e" item'] lookup_progress_Inr [OF item(1)] item
    by (auto simp: course_of_def)
  moreover have "fresh_event (ed_tx env) (es_tx s) (edu_event_id (uid 0))"
    using ids by (simp add: new_ids_def)
  moreover obtain res where "save_progress_event env t (edu_event_id (uid 0)) e item' ty actor role
      details s = (res, s')" using run by (metis prod.collapse)
  ultimately have "advance env p e s s'" for p
    using edu_update_advance(1) [OF _ _ load] unfolding save_progress_event_def by force
  with load show ?thesis by (auto simp: moves_def)
qed

lemma start_milestone_moves:
  assumes run: "start_milestone env t uid i mid actor expected authority s = (res, s')"
    and ids: "new_ids env s uid"
  shows "moves env i s s'"
proof (cases "s' = s")
  case False
  from run False show ?thesis
    unfolding start_milestone_def
  proof (elim seq_pure_step if_step)
    fix e u u' item
    assume e: "enrollment_load i (enrollments_of s) = Inr e" "require_active e = Inr u'"
      "lookup_progress e mid = Inr item"
    let ?item = "item\<lparr>mp_status := MS_IN_PROGRESS,
      mp_started_at := (case mp_started_at item of None \<Rightarrow> Some (t 0) | Some x \<Rightarrow> Some x)\<rparr>"
    assume item: "\<not> mp_status item \<notin> {AVAILABLE, NEEDS_ACTION}"
      and "seq (save_progress_event env (\<lambda>i. t (i + 1)) (edu_event_id (uid 0)) e ?item
              ''milestone_started'' actor ''learner''
              [(''authority_context'', JStr authority), (''milestone_id'', JStr mid)] s)
         (\<lambda>saved s. pure (edu_result_for env saved) s) = (res, s')"
    from save_progress_moves [OF seq_pure_snd [OF this(2)] ids e(1) _ e(3)] e(2) item
    show "moves env i s s'" by (auto simp: require_active_Inr recordable_def)
  qed
qed simp

lemma bind_project_moves:
  assumes run: "bind_project env t uid i mid pid actor org expected authority s = (res, s')"
    and ids: "new_ids env s uid"
  shows "moves env i s s'"
proof (cases "s' = s")
  case ne: False
  obtain e p m where c: "edu_context env i mid s = Inr (e, p, m)"
    using run ne unfolding bind_project_def by (elim seq_pure_step) auto
  from run ne show ?thesis
    unfolding bind_project_def c seq_pure_Inr prod.case
  proof (elim seq_pure_step if_step)
    fix u d u' u'' item
    assume e: "require_active e = Inr u" "lookup_progress e mid = Inr item"
    let ?item = "item\<lparr>mp_bound_project_id := Some pid, mp_status := MS_IN_PROGRESS,
      mp_started_at := (case mp_started_at item of None \<Rightarrow> Some (t 0) | Some x \<Rightarrow> Some x)\<rparr>"
    assume item: "\<not> mp_status item \<notin> {AVAILABLE, MS_IN_PROGRESS, NEEDS_ACTION}"
      and "seq (save_progress_event env (\<lambda>i. t (i + 1)) (edu_event_id (uid 0)) e ?item
              ''project_bound'' actor ''learner''
              [(''authority_context'', JStr authority), (''milestone_id'', JStr mid),
               (''project_id'', JStr pid)] s)
         (\<lambda>saved s. pure (edu_result_for env saved) s) = (res, s')"
    from save_progress_moves [OF seq_pure_snd [OF this(2)] ids edu_context_Inr(1) [OF c] _ e(2)]
      e(1) item
    show "moves env i s s'" by (auto simp: require_active_Inr recordable_def)
  qed
qed simp

lemma decide_program_completion_moves:
  assumes run: "decide_program_completion env t uid i command actor rationale reopen_ids expected
      authority s = (res, s')"
    and ids: "new_ids env s uid"
  shows "moves env i s s'"
proof (cases "s' = s")
  case ne: False
  let ?d = "\<lparr>cd_command = command, cd_actor_id = actor, cd_actor_role = ''administrator'',
    cd_rationale = strip rationale, cd_decided_at = t 0, cd_source = ''explicit_command_input'',
    cd_authority_context = authority\<rparr>"
  from run ne show ?thesis
    unfolding decide_program_completion_def Let_def
  proof (elim seq_pure_step if_step)
    fix e :: education_enrollment and u
    let ?c = "e\<lparr>ee_status := (if command = CMD_RETURN then EN_RETURNED else EN_COMPLETED),
      ee_milestones := (if command = CMD_RETURN
        then map (reopen reopen_ids) (ee_milestones e) else ee_milestones e),
      ee_decisions := ee_decisions e @ [?d]\<rparr>"
    assume load: "enrollment_load i (enrollments_of s) = Inr e"
      and st: "\<not> ee_status e \<noteq> EN_HITL_PENDING" and re: "\<not> (command = CMD_RETURN \<and> reopen_ids = [])"
      and upd: "seq (edu_update env (\<lambda>i. t (i + 1)) (edu_event_id (uid 0)) ?c
                 ''program_completion_decided'' actor ''administrator''
                 [(''authority_context'', JStr authority), (''command'', JStr (command_value command)),
                  (''reopened_milestones'', JStr (join_with '','' reopen_ids))] [] s)
            (\<lambda>saved s. pure (edu_result_for env saved) s) = (res, s')"
    obtain r where r: "edu_update env (\<lambda>i. t (i + 1)) (edu_event_id (uid 0)) ?c
                 ''program_completion_decided'' actor ''administrator''
                 [(''authority_context'', JStr authority), (''command'', JStr (command_value command)),
                  (''reopened_milestones'', JStr (join_with '','' reopen_ids))] [] s = (r, s')"
      using seq_pure_snd [OF upd] by (metis prod.collapse)
    have "lifecycle (pe_fsum (ed_programs env)) p (course_of e) (course_of ?c)" for p
      using st re lifecycle.approve [of ?d] lifecycle.send_back [of ?d reopen_ids]
      by (cases command) (simp_all add: course_of_def)
    moreover have "fresh_event (ed_tx env) (es_tx s) (edu_event_id (uid 0))"
      using ids by (simp add: new_ids_def)
    ultimately have "advance env p e s s'" for p
      using edu_update_advance(1) [OF r _ load] by (cases command) simp_all
    with load show "moves env i s s'" by (auto simp: moves_def)
  qed
qed simp

text \<open>Enrolling creates an enrollment at the start of the machine, or changes nothing that counts.\<close>

definition enrolled :: "'n edu_env \<Rightarrow> 'n edu_state \<Rightarrow> 'n edu_state \<Rightarrow> bool" where
  "enrolled env s s' \<longleftrightarrow> keeps_around env s s' \<and>
     (enrollments_of s' = enrollments_of s \<or>
      (\<exists>e p. enrollment_valid e \<and> enrollments_of s (enrollment_file (ee_enrollment_id e)) = None \<and>
         resolves env (es_programs s) e p \<and> course_of e = first_course p \<and>
         enrollments_of s' = (enrollments_of s)(enrollment_file (ee_enrollment_id e) \<mapsto> Some e)))"

lemma resolve_again:
  assumes "program_resolve env selector dir = Inr (p, ref)"
  shows "program_resolve env (program_selector ref) dir = Inr (p, ref)"
proof -
  obtain i v path where r: "rsplit_at selector = Some (i, v)" "program_path_for i v = Inr path"
    "dir path = Some (Some p)" "program_valid (pe_fsum env) p" "ep_program_id p = i"
    "ep_version p = v" "ref = program_ref_for env p path"
    using assms by (auto simp: program_resolve_Inr)
  have "is_identifier v" using r(2) by (auto simp: program_path_for_def split: if_splits)
  then have "rsplit_at (program_selector ref) = Some (i, v)"
    using r rsplit_at_selector [OF is_identifier_at]
    by (simp add: program_selector_def program_ref_for_def)
  with r show ?thesis by (auto simp: program_resolve_Inr)
qed

lemma enroll_enrolls:
  assumes run: "enroll env t uid selector learner eid org actor authority s = (res, s')"
    and ids: "new_ids env s uid"
  shows "enrolled env s s'"
proof (cases "s' = s")
  case ne: False
  obtain p ref where c: "program_resolve (ed_programs env) selector (es_programs s) = Inr (p, ref)"
    using run ne unfolding enroll_def by (elim seq_pure_step) auto
  let ?e = "\<lparr>ee_enrollment_id = str_or eid (uid 0), ee_learner_ref = learner,
     ee_program = ref, ee_revision = 1, ee_status = EN_ACTIVE,
     ee_created_at = t 0, ee_updated_at = t 1,
     ee_milestones = map initial_progress (program_milestones p),
     ee_notifications = [], ee_decisions = [], ee_audit_event_ids = [edu_event_id (uid 1)]\<rparr>"
  let ?ev = "edu_event (edu_event_id (uid 1)) (ee_enrollment_id ?e) 1 ''learner_enrolled''
     (str_or actor learner) ''learner''
     [(''authority_context'', JStr authority), (''organization_id'', JStr (str_or org '''')),
      (''program'', JStr (program_selector ref)), (''program_sha256'', JStr (pf_sha256 ref))] (t 2)"
  obtain r ws' where cr: "etx_execute_create (ed_tx env) (\<lambda>i. t (i + 3)) ?e ?ev ''learner_enrolled''
      (edu_event_id (uid 1)) (es_tx s) = (r, ws')" by fastforce
  from run ne have "snd (on_tx (etx_execute_create (ed_tx env) (\<lambda>i. t (i + 3)) ?e ?ev
      ''learner_enrolled'' (edu_event_id (uid 1))) s) = s'"
    unfolding enroll_def c seq_pure_Inr prod.case Let_def
    by (elim if_step) (assumption+, rule seq_pure_snd, assumption)
  with cr have s': "s' = s\<lparr>es_tx := ws'\<rparr>" by (simp add: on_tx_def)
  have "fresh_event (ed_tx env) (es_tx s) (pa_event_id ?ev)"
    using ids by (simp add: new_ids_def edu_event_def)
  note eff = etx_create_store [OF this cr]
  have "resolves env (es_programs s) ?e p" using resolve_again [OF c] by (auto simp: resolves_def)
  moreover have "course_of ?e = first_course p" by (simp add: course_of_def first_course_def)
  moreover have "keeps_around env s s'" using s' by (simp add: keeps_around_def)
  ultimately show ?thesis
    unfolding enrolled_def using eff s' by (intro conjI) (auto intro!: exI [of _ ?e] exI [of _ p])
qed (simp add: enrolled_def)

section \<open>Runs of the service\<close>

text \<open>
  One operation with arbitrary arguments, whether it returns or raises; the project dossiers are
  changed by other parts of the system between operations.
\<close>

inductive edu_step :: "'n edu_env \<Rightarrow> 'n edu_state \<Rightarrow> 'n edu_state \<Rightarrow> bool" for env :: "'n edu_env" where
  publishes: "publish_program env p s = (r, s') \<Longrightarrow> edu_step env s s'"
| dossiers: "edu_step env s (s\<lparr>es_dossiers := dir\<rparr>)"
| enrolls: "enroll env t uid sel learner eid org actor auth s = (r, s') \<Longrightarrow> new_ids env s uid \<Longrightarrow>
     edu_step env s s'"
| starts: "start_milestone env t uid i mid actor expected auth s = (r, s') \<Longrightarrow> new_ids env s uid \<Longrightarrow>
     edu_step env s s'"
| binds: "bind_project env t uid i mid pid actor org expected auth s = (r, s') \<Longrightarrow> new_ids env s uid \<Longrightarrow>
     edu_step env s s'"
| confirms: "record_manual_confirmation env t uid i mid rid actor role ref expected auth s = (r, s') \<Longrightarrow>
     new_ids env s uid \<Longrightarrow> edu_step env s s'"
| scores: "record_score env t uid i mid rid score actor role ref expected auth s = (r, s') \<Longrightarrow>
     new_ids env s uid \<Longrightarrow> edu_step env s s'"
| syncs: "sync_project_milestone env t uid i mid actor role org expected auth s = (r, s') \<Longrightarrow>
     new_ids env s uid \<Longrightarrow> edu_step env s s'"
| decides: "decide_program_completion env t uid i cmd actor why ids expected auth s = (r, s') \<Longrightarrow>
     new_ids env s uid \<Longrightarrow> edu_step env s s'"

text \<open>
  What holds of every stored enrollment, seen from an earlier moment: \<open>origin\<close> holds the enrollments that were there
  then.  One that was there has the program it had and has gone on from its course; one that was not has come
  from the first course of its program.
\<close>

definition goes_on ::
  "(rat list \<Rightarrow> rat) \<Rightarrow> education_program \<Rightarrow> education_enrollment option \<Rightarrow> education_enrollment \<Rightarrow> bool" where
  "goes_on fsum p before' e \<longleftrightarrow>
     (case before' of
        None \<Rightarrow> (lifecycle fsum p)\<^sup>*\<^sup>* (first_course p) (course_of e)
      | Some d \<Rightarrow> ee_program e = ee_program d \<and> (e = d \<or> ee_revision d < ee_revision e) \<and>
          (lifecycle fsum p)\<^sup>*\<^sup>* (course_of d) (course_of e))"

type_synonym origin = "string \<Rightarrow> education_enrollment option"

definition sound_enrollment :: "origin \<Rightarrow> 'n edu_env \<Rightarrow> 'n edu_state \<Rightarrow> education_enrollment \<Rightarrow> bool" where
  "sound_enrollment origin env s e \<longleftrightarrow> enrollment_valid e \<and>
     (\<exists>p. resolves env (es_programs s) e p \<and>
        goes_on (pe_fsum (ed_programs env)) p (origin (ee_enrollment_id e)) e) \<and>
     (ee_status e = EN_HITL_PENDING \<longrightarrow> request_delivered env s e)"

definition sound :: "origin \<Rightarrow> 'n edu_env \<Rightarrow> 'n edu_state \<Rightarrow> bool" where
  "sound origin env s \<longleftrightarrow> (\<forall>path c. enrollments_of s path = Some c \<longrightarrow>
     (\<exists>e. c = Some e \<and> path = enrollment_file (ee_enrollment_id e) \<and> sound_enrollment origin env s e)) \<and>
     (\<forall>i. origin i \<noteq> None \<longrightarrow> enrollments_of s (enrollment_file i) \<noteq> None)"

lemma goes_on_follows:
  assumes "goes_on (pe_fsum (ed_programs env)) p d e" and "follows env p e e'"
  shows "goes_on (pe_fsum (ed_programs env)) p d e'"
  using assms unfolding goes_on_def follows_def
  by (auto split: option.splits dest: tranclp_into_rtranclp intro: rtranclp_trans)

lemma sound_enrollment_around:
  "sound_enrollment origin env s e \<Longrightarrow> keeps_around env s s' \<Longrightarrow> sound_enrollment origin env s' e"
  using request_delivered_mono [of env s e s'] by (auto simp: sound_enrollment_def keeps_around_def)

lemma moves_sound:
  assumes "moves env i s s'" and "sound origin env s"
  shows "sound origin env s'"
proof (cases "s' = s")
  case False
  with assms(1) obtain e where load: "enrollment_load i (enrollments_of s) = Inr e"
    and adv: "\<And>p. resolves env (es_programs s) e p \<Longrightarrow> advance env p e s s'"
    by (auto simp: moves_def)
  have "sound_enrollment origin env s e"
    using load_stored [OF load] assms(2) by (auto simp: sound_def)
  then obtain p where p: "resolves env (es_programs s) e p"
    "goes_on (pe_fsum (ed_programs env)) p (origin (ee_enrollment_id e)) e"
    by (auto simp: sound_enrollment_def)
  note adv = adv [OF p(1)]
  then have around: "keeps_around env s s'" by (simp add: advance_def)
  have new: "sound_enrollment origin env s' e'"
    if "follows env p e e'" "ee_status e' = EN_HITL_PENDING \<longrightarrow> request_delivered env s' e'" for e'
    unfolding sound_enrollment_def
  proof (intro conjI exI)
    show "enrollment_valid e'" using that by (simp add: follows_def)
    show "resolves env (es_programs s') e' p"
      using that p(1) around by (simp add: follows_def resolves_def keeps_around_def)
    show "goes_on (pe_fsum (ed_programs env)) p (origin (ee_enrollment_id e')) e'"
      using goes_on_follows [OF p(2) that(1)] that(1) by (simp add: follows_def)
  qed (use that in simp)
  have old: "\<exists>e. c = Some e \<and> path = enrollment_file (ee_enrollment_id e) \<and> sound_enrollment origin env s' e"
    if "enrollments_of s path = Some c" for path c
    using that assms(2) sound_enrollment_around [OF _ around] unfolding sound_def by blast
  have there: "enrollments_of s (enrollment_file i) \<noteq> None" if "origin i \<noteq> None" for i
    using that assms(2) by (simp add: sound_def)
  from adv consider "enrollments_of s' = enrollments_of s"
    | e' where "follows env p e e'" "ee_status e' = EN_HITL_PENDING \<longrightarrow> request_delivered env s' e'"
      "enrollments_of s' = (enrollments_of s)(enrollment_file (ee_enrollment_id e) \<mapsto> Some e')"
    by (auto simp: advance_def)
  then show ?thesis
  proof cases
    case 1
    with old there show ?thesis by (simp add: sound_def)
  next
    case 2
    then have "ee_enrollment_id e' = ee_enrollment_id e" by (simp add: follows_def)
    with 2 old new there show ?thesis by (auto simp: sound_def)
  qed
qed (use assms in simp)


lemma enrolled_sound:
  assumes "enrolled env s s'" and "sound origin env s"
  shows "sound origin env s'"
proof -
  have around: "keeps_around env s s'" using assms(1) by (simp add: enrolled_def)
  have old: "\<exists>e. c = Some e \<and> path = enrollment_file (ee_enrollment_id e) \<and> sound_enrollment origin env s' e"
    if "enrollments_of s path = Some c" for path c
    using that assms(2) sound_enrollment_around [OF _ around] unfolding sound_def by blast
  have there: "enrollments_of s (enrollment_file i) \<noteq> None" if "origin i \<noteq> None" for i
    using that assms(2) by (simp add: sound_def)
  from assms(1) consider "enrollments_of s' = enrollments_of s"
    | e p where "enrollment_valid e" "enrollments_of s (enrollment_file (ee_enrollment_id e)) = None" "resolves env (es_programs s) e p" "course_of e = first_course p"
      "enrollments_of s' = (enrollments_of s)(enrollment_file (ee_enrollment_id e) \<mapsto> Some e)"
    by (auto simp: enrolled_def)
  then show ?thesis
  proof cases
    case 1
    with old there show ?thesis by (simp add: sound_def)
  next
    case 2
    have "ee_status e = EN_ACTIVE" using 2(4) by (simp add: course_of_def first_course_def)
    moreover have "resolves env (es_programs s') e p"
      using 2(3) around by (simp add: resolves_def keeps_around_def)
    moreover have "origin (ee_enrollment_id e) = None" using there 2(2) by blast
    ultimately have "sound_enrollment origin env s' e" using 2 by (auto simp: sound_enrollment_def goes_on_def)
    with 2(5) old there show ?thesis by (auto simp: sound_def)
  qed
qed

lemma publish_sound:
  assumes "publish_program env p s = (r, s')" and "sound origin env s"
  shows "sound origin env s'"
proof (cases "s' = s")
  case False
  with assms(1) obtain dir res where pub: "program_publish (ed_programs env) p (es_programs s) = (res, dir)"
    "s' = s\<lparr>es_programs := dir\<rparr>"
    by (cases "program_publish (ed_programs env) p (es_programs s)")
       (auto simp: publish_program_def split: if_splits)
  have grow: "dir path = Some c" if "es_programs s path = Some c" for path c
    using pub(1) that
    by (auto simp: program_publish_def seq_def pure_def split: sum.splits option.splits if_splits prod.splits)
  have "sound_enrollment origin env s' e" if "sound_enrollment origin env s e" for e
    using that grow pub(2)
    by (fastforce simp: sound_enrollment_def resolves_def program_resolve_Inr request_delivered_def)
  with assms(2) pub(2) show ?thesis unfolding sound_def by fastforce
qed (use assms in simp)

lemma edu_step_sound:
  assumes "edu_step env s s'" and "sound origin env s"
  shows "sound origin env s'"
  using assms
proof (induction rule: edu_step.induct)
  case (dossiers s dir)
  have "sound_enrollment origin env (s\<lparr>es_dossiers := dir\<rparr>) e = sound_enrollment origin env s e" for e
    by (simp add: sound_enrollment_def request_delivered_def)
  with dossiers show ?case by (simp add: sound_def)
qed (blast intro: publish_sound enrolled_sound moves_sound enroll_enrolls start_milestone_moves
       bind_project_moves record_manual_confirmation_moves record_score_moves
       sync_project_milestone_moves decide_program_completion_moves)+

lemma edu_run_keeps_sound: "(edu_step env)\<^sup>*\<^sup>* s s' \<Longrightarrow> sound origin env s \<Longrightarrow> sound origin env s'"
  by (induction rule: rtranclp_induct) (blast intro: edu_step_sound)+

lemma edu_run_sound:
  assumes "(edu_step env)\<^sup>*\<^sup>* s s'" and "enrollments_of s = Map.empty"
  shows "sound Map.empty env s'"
  by (rule edu_run_keeps_sound [OF assms(1)]) (simp add: sound_def assms(2))

lemma sound_load:
  assumes "sound origin env s" and "enrollment_load i (enrollments_of s) = Inr e"
  shows "sound_enrollment origin env s e"
  using load_stored [OF assms(2)] assms(1) by (auto simp: sound_def)

lemma sound_empty_load:
  assumes "sound Map.empty env s" and "enrollment_load i (enrollments_of s) = Inr e"
  obtains p where "resolves env (es_programs s) e p"
    "(lifecycle (pe_fsum (ed_programs env)) p)\<^sup>*\<^sup>* (first_course p) (course_of e)"
  using sound_load [OF assms] by (auto simp: sound_enrollment_def goes_on_def)

text \<open>What is stored at a moment is an origin for everything that comes after it.\<close>

definition loaded_at :: "'n edu_state \<Rightarrow> origin" where
  "loaded_at s i = (case enrollment_load i (enrollments_of s) of Inl _ \<Rightarrow> None | Inr e \<Rightarrow> Some e)"

lemma sound_from_moment:
  assumes "sound origin env s"
  shows "sound (loaded_at s) env s"
  unfolding sound_def
proof (intro conjI allI impI)
  fix path c assume "enrollments_of s path = Some c"
  with assms obtain e where e: "c = Some e" "path = enrollment_file (ee_enrollment_id e)" "sound_enrollment origin env s e"
    unfolding sound_def by blast
  have "loaded_at s (ee_enrollment_id e) = Some e"
    using stored_load [of e "enrollments_of s"] e \<open>enrollments_of s path = Some c\<close>
    by (simp add: loaded_at_def sound_enrollment_def)
  with e show "\<exists>e. c = Some e \<and> path = enrollment_file (ee_enrollment_id e) \<and> sound_enrollment (loaded_at s) env s e"
    by (auto simp: sound_enrollment_def goes_on_def)
next
  fix i assume "loaded_at s i \<noteq> None"
  then show "enrollments_of s (enrollment_file i) \<noteq> None"
    using load_stored [of i "enrollments_of s"] by (cases "enrollment_load i (enrollments_of s)") (auto simp: loaded_at_def)
qed

text \<open>An enrollment that was there stays there.\<close>

lemma sound_there:
  assumes "sound origin env s" and "origin i = Some d"
  shows "\<exists>e. enrollment_load i (enrollments_of s) = Inr e"
proof -
  obtain c where "enrollments_of s (enrollment_file i) = Some c" using assms by (fastforce simp: sound_def)
  with assms(1) obtain e where "c = Some e" "enrollment_file i = enrollment_file (ee_enrollment_id e)"
      "sound_enrollment origin env s e" unfolding sound_def by blast
  with \<open>enrollments_of s (enrollment_file i) = Some c\<close> stored_load [of e "enrollments_of s"] show ?thesis
    by (auto simp: sound_enrollment_def)
qed

end
