(* ===== verification/CourseRuns.thy ===== *)
theory CourseRuns
  imports Lifecycle
begin

text \<open>
  What the life cycle gives for runs of the education service: the properties of every reachable
  state, with a course on a concrete program run from enrollment to approval, whose operations
  return because nothing interrupts their transactions.
\<close>

section \<open>Operations that return\<close>

text \<open>Nothing is injected and the event id is new everywhere: a change of a stored enrollment returns.\<close>

lemma edu_update_returns:
  assumes calm: "calm (ed_tx env) (es_tx s) (edu_event event_id i r' ty actor role details 0)"
    and base: "enrollment_load i (enrollments_of s) = Inr base"
    and c: "enrollment_valid changed" "ee_enrollment_id changed = i" "ee_revision changed = ee_revision base"
    and strings: "length_between 1 200 ty" "length_between 1 128 event_id"
    and required: "list_all requirement_valid required"
      "verify_outbox_requirements (ed_tx env) (tx_files (es_tx s)) required = Inr ()"
    and v: "v = saved_as (changed\<lparr>ee_audit_event_ids := ee_audit_event_ids changed @ [event_id]\<rparr>) (t 3)"
  shows "\<exists>ws'. edu_update env t event_id changed ty actor role details required s =
      (Inr v, s\<lparr>es_tx := ws'\<rparr>) \<and>
    tx_store ws' = (enrollments_of s)(enrollment_file i \<mapsto> Some v) \<and> tx_files ws' = tx_files (es_tx s) \<and>
    tx_audit ws' = tx_audit (es_tx s) @
      [EventLine (edu_event event_id i (ee_revision changed + 1) ty actor role details (t 0))] \<and>
    (\<forall>f. f \<noteq> journal_file_of (etx_jenv (ed_tx env)) (''txn-edu-'' @ event_id) \<longrightarrow>
       map_of (tx_journal ws') f = map_of (tx_journal (es_tx s)) f)"
proof -
  let ?c = "changed\<lparr>ee_audit_event_ids := ee_audit_event_ids changed @ [event_id]\<rparr>"
  let ?ev = "edu_event event_id i (ee_revision changed + 1) ty actor role details (t 0)"
  have "calm (ed_tx env) (es_tx s) ?ev" using calm by (simp add: calm_def edu_event_def)
  moreover have "enrollment_valid ?c"
    using c(1) by (auto simp: enrollment_valid_def enrollment_integrity_def)
  ultimately obtain ws' where ws':
    "etx_execute_update (ed_tx env) (\<lambda>i. t (i + 1)) ?c (ee_revision changed) ?ev ty event_id required
       (es_tx s) = (Inr (saved_as ?c (t 3)), ws')"
    "tx_store ws' = (enrollments_of s)(enrollment_file i \<mapsto> Some (saved_as ?c (t 3)))"
    "tx_audit ws' = tx_audit (es_tx s) @ [EventLine ?ev]" "tx_files ws' = tx_files (es_tx s)"
    using etx_update_returns [of "ed_tx env" "es_tx s" ?ev ?c base "ee_revision base" ty event_id required
        "\<lambda>i. t (i + 1)"] base c strings required
    by (auto simp: edu_event_def eval_nat_numeral)
  have "map_of (tx_journal ws') f = map_of (tx_journal (es_tx s)) f"
    if "f \<noteq> journal_file_of (etx_jenv (ed_tx env)) (''txn-edu-'' @ event_id)" for f
    using etx_update_other [where ws = "es_tx s" and event = ?ev and f = f and env = "ed_tx env"] ws'(1) that
    by (metis edu_event_def program_audit_event.select_convs(1) snd_conv)
  with ws' c v show ?thesis by (auto simp: edu_update_def on_tx_def)
qed

section \<open>A course on a concrete program\<close>

definition small_program :: education_program where
  "small_program =
     \<lparr>ep_program_id = ''g'', ep_version = ''1.0.0'', ep_title = ''t'', ep_description = ''d'',
      ep_status = PROGRAM_PUBLISHED, ep_owner_ref = ''o'',
      ep_levels = [\<lparr>lv_level_id = ''a'', lv_title = ''t'', lv_sequence = 1,
                    lv_milestones = [demo_milestone ''x'' 1 []]\<rparr>]\<rparr>"

definition demo_edu_env :: "unit edu_env" where
  "demo_edu_env =
     \<lparr>ed_tx = demo_etx_env,
      ed_programs = \<lparr>pe_sha_program = (\<lambda>_. demo_sha), pe_fsum = sum_list, pe_root = ''r''\<rparr>,
      ed_notifier = DurableOutbox (\<lambda>_. 0) (\<lambda>_ n. (Inr (), n)), ed_outbox_dir = Some ''o'',
      ed_enrollment_root = ''e'', ed_dossier_root = ''d'', ed_format_score = (\<lambda>_. '''')\<rparr>"

definition demo_edu_start :: "unit edu_state" where
  "demo_edu_start =
     \<lparr>es_programs = [''g@1.0.0.program.yaml'' \<mapsto> Some small_program], es_dossiers = Map.empty,
      es_tx = \<lparr>tx_journal = [], tx_audit = [], tx_store = Map.empty, tx_files = Map.empty\<rparr>,
      es_outbox = \<lparr>ob_files = [], ob_down = (), ob_reads = 0\<rparr>\<rparr>"

definition demo_uid :: "string \<Rightarrow> nat \<Rightarrow> string" where
  "demo_uid k i = (if i = 0 then k @ ''0'' else k @ ''1'')"

definition demo_enrolled :: "unit edu_state" where
  "demo_enrolled = snd (enroll demo_edu_env (\<lambda>_. 0) (demo_uid ''a'') ''g@1.0.0'' ''l'' (Some ''n'') None None ''u''
     demo_edu_start)"

definition demo_confirmed :: "unit edu_state" where
  "demo_confirmed = snd (record_manual_confirmation demo_edu_env (\<lambda>_. 0) (demo_uid ''b'') ''n'' ''x'' ''r''
     ''i'' ''instructor'' ''ref'' None ''u'' demo_enrolled)"

definition demo_approved :: "unit edu_state" where
  "demo_approved = snd (decide_program_completion demo_edu_env (\<lambda>_. 0) (demo_uid ''c'') ''n'' CMD_APPROVE
     ''adm'' ''fine'' [] None ''u'' demo_confirmed)"

definition status_at :: "unit edu_state \<Rightarrow> (enrollment_status \<times> int) option" where
  "status_at s = (case enrollment_load ''n'' (enrollments_of s) of
     Inl _ \<Rightarrow> None | Inr e \<Rightarrow> Some (ee_status e, ee_revision e))"


definition demo_event_for :: "string \<Rightarrow> program_audit_event" where
  "demo_event_for event_id = edu_event event_id ''n'' 0 [] [] [] [] 0"

definition demo_first :: education_enrollment where
  "demo_first =
     \<lparr>ee_enrollment_id = ''n'', ee_learner_ref = ''l'',
      ee_program = \<lparr>pf_program_id = ''g'', pf_version = ''1.0.0'', pf_sha256 = demo_sha,
                    pf_source_uri = ''r/g@1.0.0.program.yaml''\<rparr>,
      ee_revision = 1, ee_status = EN_ACTIVE, ee_created_at = 0, ee_updated_at = 0,
      ee_milestones = [initial_progress (''a'', demo_milestone ''x'' 1 [])],
      ee_notifications = [], ee_decisions = [], ee_audit_event_ids = [edu_event_id ''a1'']\<rparr>"

lemma small_program_facts:
  "program_milestones small_program = [(''a'', demo_milestone ''x'' 1 [])]"
  "program_valid sum_list small_program"
  "program_resolve (ed_programs demo_edu_env) ''g@1.0.0'' (es_programs demo_edu_start) =
     Inr (small_program, ee_program demo_first)"
proof -
  show "program_milestones small_program = [(''a'', demo_milestone ''x'' 1 [])]"
    by (simp add: program_milestones_def small_program_def demo_milestone_def)
  have "validate_graph small_program = Inr ()"
    by (simp add: validate_graph_def small_program_def demo_milestone_def position_less_def)
  then show valid: "program_valid sum_list small_program"
    by (simp add: program_valid_def)
       (simp add: small_program_def demo_milestone_def program_level_valid_def milestone_spec_valid_def
        is_identifier_def length_between_def is_semver_def eat_number_def eat_dot_def
        is_pipeline_id_def is_pipeline_version_def reviewer_roles_def completion_rule_valid_def
        char_class_defs)
  have "is_identifier ''g''" "is_identifier ''1.0.0''"
    by (simp_all add: is_identifier_def char_class_defs)
  then show "program_resolve (ed_programs demo_edu_env) ''g@1.0.0'' (es_programs demo_edu_start) =
     Inr (small_program, ee_program demo_first)"
    using valid
    by (simp add: program_resolve_def program_path_for_def program_load_path_def demo_edu_env_def
        demo_edu_start_def demo_first_def program_ref_for_def) (simp add: small_program_def)
qed

lemma demo_first_valid: "enrollment_valid demo_first"
  by (simp add: enrollment_valid_def enrollment_integrity_def demo_first_def program_ref_valid_def
      milestone_progress_valid_def initial_progress_def demo_milestone_def Let_def
      is_identifier_def length_between_def is_semver_def eat_number_def eat_dot_def char_class_defs)

text \<open>The state after each operation, as far as the next one looks; \<open>us\<close> are the uuids drawn.\<close>

abbreviation demo_file :: "string \<Rightarrow> string" where
  "demo_file u \<equiv> journal_file_of (etx_jenv demo_etx_env) (''txn-edu-'' @ edu_event_id u)"

definition demo_at :: "unit edu_state \<Rightarrow> education_enrollment \<Rightarrow> string list \<Rightarrow> bool" where
  "demo_at s e us \<longleftrightarrow> es_programs s = es_programs demo_edu_start \<and>
     enrollment_load ''n'' (enrollments_of s) = Inr e \<and>
     (\<exists>es. tx_audit (es_tx s) = map EventLine es \<and> pa_event_id ` set es \<subseteq> edu_event_id ` set us) \<and>
     (\<forall>u. length u = 2 \<longrightarrow> u \<notin> set us \<longrightarrow> map_of (tx_journal (es_tx s)) (demo_file u) = None)"

lemma demo_file_eq:
  assumes "length u = 2" "length v = 2"
  shows "demo_file u = demo_file v \<longleftrightarrow> u = v"
  using assms by (simp add: journal_file_of_def etx_jenv_def demo_etx_env_def edu_event_id_def)

lemma audit_read_events: "audit_read (map EventLine es) = Inr es"
  by (induction es) simp_all

lemma demo_calm:
  assumes at: "demo_at s e us" and u: "u \<notin> set us" "length u = 2" "list_all is_alnum u"
  shows "calm demo_etx_env (es_tx s) (edu_event (edu_event_id u) i r ty a b d n)"
proof -
  have "is_transaction_id (''txn-edu-'' @ edu_event_id u)"
    using u(2,3) by (auto simp: is_transaction_id_def edu_event_id_def list_all_iff char_class_defs)
  moreover obtain es where es: "tx_audit (es_tx s) = map EventLine es"
    "pa_event_id ` set es \<subseteq> edu_event_id ` set us"
    using at by (auto simp: demo_at_def)
  have "edu_event_id u \<notin> edu_event_id ` set us" using u(1) by (auto simp: edu_event_id_def)
  with es(2) have "edu_event_id u \<notin> pa_event_id ` set es" by blast
  moreover have "map_of (tx_journal (es_tx s)) (demo_file u) = None"
    using at u by (simp add: demo_at_def)
  ultimately show ?thesis
    using es(1) by (simp add: calm_def fresh_event_def edu_event_def audit_read_events)
      (simp add: env_ok_def demo_etx_env_def etx_jenv_def)
qed

lemma demo_update:
  assumes at: "demo_at s e us" and u: "u \<notin> set us" "length u = 2" "list_all is_alnum u"
    and c: "enrollment_valid c" "ee_enrollment_id c = ''n''" "ee_revision c = ee_revision e"
    and ty: "length_between 1 200 ty"
    and required: "list_all requirement_valid required"
      "verify_outbox_requirements demo_etx_env (tx_files (es_tx s)) required = Inr ()"
    and v: "v = saved_as (c\<lparr>ee_audit_event_ids := ee_audit_event_ids c @ [edu_event_id u]\<rparr>) (t 3)"
  shows "\<exists>s'. edu_update demo_edu_env t (edu_event_id u) c ty a r d required s = (Inr v, s') \<and>
    demo_at s' v (u # us) \<and> es_outbox s' = es_outbox s \<and> tx_files (es_tx s') = tx_files (es_tx s)"
proof -
  have env: "ed_tx demo_edu_env = demo_etx_env" by (simp add: demo_edu_env_def)
  have base: "enrollment_load ''n'' (enrollments_of s) = Inr e" using at by (simp add: demo_at_def)
  have "length_between 1 128 (edu_event_id u)" using u(2) by (simp add: edu_event_id_def length_between_def)
  from edu_update_returns [where env = demo_edu_env and s = s and event_id = "edu_event_id u" and i = "''n''"
      and base = e and changed = c and ty = ty and t = t and v = v and required = required
      and actor = a and role = r and details = d and r' = 0,
      unfolded env, OF demo_calm [OF at u] base c ty this required v] obtain ws' where
    run: "edu_update demo_edu_env t (edu_event_id u) c ty a r d required s = (Inr v, s\<lparr>es_tx := ws'\<rparr>)"
    and ws': "tx_store ws' = (enrollments_of s)(enrollment_file ''n'' \<mapsto> Some v)"
      "tx_files ws' = tx_files (es_tx s)"
      "tx_audit ws' = tx_audit (es_tx s) @
        [EventLine (edu_event (edu_event_id u) ''n'' (ee_revision c + 1) ty a r d (t 0))]"
      "\<And>f. f \<noteq> demo_file u \<Longrightarrow> map_of (tx_journal ws') f = map_of (tx_journal (es_tx s)) f"
    by blast
  obtain es where es: "tx_audit (es_tx s) = map EventLine es"
    "pa_event_id ` set es \<subseteq> edu_event_id ` set us"
    using at by (auto simp: demo_at_def)
  have aud: "\<exists>es. tx_audit ws' = map EventLine es \<and> pa_event_id ` set es \<subseteq> edu_event_id ` set (u # us)"
    using es ws'(3)
    by (intro exI [of _ "es @ [edu_event (edu_event_id u) ''n'' (ee_revision c + 1) ty a r d (t 0)]"])
       (auto simp: edu_event_def)
  have "1 \<le> ee_revision e" using load_stored [OF base] by (simp add: enrollment_valid_def)
  then have "enrollment_valid v" "ee_enrollment_id v = ''n''"
    using c v by (auto simp: enrollment_valid_def enrollment_integrity_def saved_as_def)
  from stored_load [OF this(1), of "tx_store ws'"] this(2)
  have load: "enrollment_load ''n'' (tx_store ws') = Inr v" by (simp add: ws'(1))
  have "map_of (tx_journal ws') (demo_file w) = None" if "length w = 2" "w \<notin> set (u # us)" for w
  proof -
    have "demo_file w \<noteq> demo_file u" using that u(2) unfolding demo_file_eq [OF that(1) u(2)] by simp
    from ws'(4) [OF this] that at show ?thesis by (simp add: demo_at_def)
  qed
  with aud load at have "demo_at (s\<lparr>es_tx := ws'\<rparr>) v (u # us)" by (simp add: demo_at_def)
  with run ws'(2) show ?thesis by auto
qed

lemma etx_create_other:
  assumes "f \<noteq> journal_file_of (etx_jenv env) (''txn-edu-'' @ pa_event_id event)"
  shows "map_of (tx_journal (snd (etx_execute_create env t e event command key ws))) f =
    map_of (tx_journal ws) f"
  using co_execute_other [of f "enrollment_coordinator env"] assms
  by (auto simp: etx_execute_create_def pure_def construct_enrollment_plan_def etx_execute_def seq_def
      split: sum.splits)

lemma demo_journal_empty: "tx_journal (es_tx demo_edu_start) = []"
  by (simp add: demo_edu_start_def)

lemma demo_enroll:
  "\<exists>r s. enroll demo_edu_env (\<lambda>_. 0) (demo_uid ''a'') ''g@1.0.0'' ''l'' (Some ''n'') None None ''u''
     demo_edu_start = (r, s) \<and> demo_at s demo_first [''a1''] \<and> es_outbox s = es_outbox demo_edu_start \<and>
     tx_files (es_tx s) = Map.empty"
proof -
  let ?ws = "es_tx demo_edu_start"
  let ?ev = "edu_event (edu_event_id ''a1'') ''n'' 1 ''learner_enrolled'' ''l'' ''learner''
     [(''authority_context'', JStr ''u''), (''organization_id'', JStr ''''),
      (''program'', JStr ''g@1.0.0''), (''program_sha256'', JStr demo_sha)] 0"
  have calm: "calm demo_etx_env ?ws ?ev"
    by (auto simp: calm_def fresh_event_def edu_event_def demo_edu_start_def env_ok_def demo_etx_env_def
        etx_jenv_def is_transaction_id_def edu_event_id_def char_class_defs)
  obtain ws' where ws': "etx_execute_create demo_etx_env (\<lambda>i. 0) demo_first ?ev ''learner_enrolled''
      (edu_event_id ''a1'') ?ws = (Inr demo_first, ws')"
    "tx_store ws' = [enrollment_file ''n'' \<mapsto> Some demo_first]"
    "tx_audit ws' = [EventLine ?ev]" "tx_files ws' = Map.empty"
    using etx_create_returns [OF calm, of demo_first "''learner_enrolled''" "edu_event_id ''a1''" "\<lambda>i. 0"]
      demo_first_valid
    by (auto simp: demo_edu_start_def demo_first_def edu_event_def length_between_def edu_event_id_def)
  have eq: "\<lparr>ee_enrollment_id = str_or (Some ''n'') (demo_uid ''a'' 0), ee_learner_ref = ''l'',
     ee_program = ee_program demo_first, ee_revision = 1, ee_status = EN_ACTIVE,
     ee_created_at = 0, ee_updated_at = 0,
     ee_milestones = map initial_progress (program_milestones small_program),
     ee_notifications = [], ee_decisions = [], ee_audit_event_ids = [edu_event_id (demo_uid ''a'' 1)]\<rparr>
     = demo_first"
    by (simp add: small_program_facts demo_first_def demo_uid_def str_or_def truthy_def)
  have open': "\<not> ep_status small_program \<notin> {PROGRAM_OFFLINE_REFERENCE, PROGRAM_PUBLISHED}"
    by (simp add: small_program_def)
  have valid: "\<not> \<not> enrollment_valid demo_first" using demo_first_valid by simp
  have args: "edu_event_id (demo_uid ''a'' 1) = edu_event_id ''a1''" "ee_enrollment_id demo_first = ''n''"
    "str_or None ''l'' = ''l''" "str_or None '''' = ''''" "ed_tx demo_edu_env = demo_etx_env"
    "program_selector (ee_program demo_first) = ''g@1.0.0''" "pf_sha256 (ee_program demo_first) = demo_sha"
    by (simp_all add: demo_uid_def demo_first_def str_or_def truthy_def program_selector_def demo_edu_env_def)
  have run: "enroll demo_edu_env (\<lambda>_. 0) (demo_uid ''a'') ''g@1.0.0'' ''l'' (Some ''n'') None None ''u''
     demo_edu_start = seq (on_tx (etx_execute_create demo_etx_env (\<lambda>i. 0) demo_first ?ev
       ''learner_enrolled'' (edu_event_id ''a1'')) demo_edu_start) (\<lambda>saved. pure (edu_result_for demo_edu_env saved))"
    unfolding enroll_def small_program_facts(3) seq_pure_Inr prod.case Let_def if_not_P [OF open'] eq
    unfolding if_not_P [OF valid] args by (rule refl)
  have load: "enrollment_load ''n'' (tx_store ws') = Inr demo_first"
    using stored_load [OF demo_first_valid, of "tx_store ws'"] ws'(2) by (simp add: demo_first_def)
  have "map_of (tx_journal ws') (demo_file u) = None" if "length u = 2" "u \<noteq> ''a1''" for u
  proof -
    have "demo_file u \<noteq> demo_file ''a1''" using that demo_file_eq [of u "''a1''"] by auto
    then show ?thesis
      using etx_create_other [where f = "demo_file u" and env = demo_etx_env and event = ?ev and ws = ?ws] ws'(1)
      by (metis demo_journal_empty edu_event_def map_of.simps(1) program_audit_event.select_convs(1) snd_conv)
  qed
  with load ws' have "demo_at (demo_edu_start\<lparr>es_tx := ws'\<rparr>) demo_first [''a1'']"
    by (auto simp: demo_at_def edu_event_def intro!: exI [of _ "[?ev]"])
  with run ws' show ?thesis
    by (auto simp: on_tx_def pure_def)
qed


definition demo_result :: requirement_result where
  "demo_result =
     \<lparr>rt_requirement_id = ''r'', rt_satisfied = True, rt_points_awarded = 1, rt_source = SRC_MANUAL,
      rt_actor_id = ''i'', rt_actor_role = ''instructor'', rt_evidence_ref = ''ref'',
      rt_observed_value = ''confirmed'', rt_recorded_at = 0\<rparr>"

definition demo_done :: milestone_progress where
  "demo_done = (initial_progress (''a'', demo_milestone ''x'' 1 []))
     \<lparr>mp_status := MS_COMPLETED, mp_started_at := Some 0, mp_results := [demo_result],
      mp_completed_at := Some 0\<rparr>"

definition demo_second :: education_enrollment where
  "demo_second = saved_as (demo_first\<lparr>ee_status := EN_ACTIVE, ee_milestones := [demo_done],
     ee_audit_event_ids := [edu_event_id ''a1'', edu_event_id ''b0'']\<rparr>) 0"

definition demo_third :: education_enrollment where
  "demo_third = saved_as (demo_second\<lparr>ee_status := EN_HITL_PENDING,
     ee_notifications := [\<lparr>pn_event_type = ''education_program_completion_approval_requested'',
       pn_required_role = ''administrator'', pn_enrollment_revision = 3, pn_recorded_at = 0\<rparr>],
     ee_audit_event_ids := [edu_event_id ''a1'', edu_event_id ''b0'', edu_event_id ''b1'']\<rparr>) 0"

lemma demo_evaluate:
  "unlock_dependents (replace_progress (ee_milestones demo_first)
     (evaluate_milestone sum_list 0 (add_result (initial_progress (''a'', demo_milestone ''x'' 1 []))
        demo_result 0) (demo_milestone ''x'' 1 []))) small_program = Inr [demo_done]"
  by (simp add: unlock_dependents_def replace_progress_def evaluate_milestone_def add_result_def
      rule_complete_def results_dict_def demo_milestone_def demo_first_def demo_done_def demo_result_def
      initial_progress_def Let_def)

lemma demo_second_valid:
  "enrollment_valid (demo_first\<lparr>ee_status := EN_ACTIVE, ee_milestones := [demo_done]\<rparr>)"
  using demo_first_valid
  by (simp add: enrollment_valid_def enrollment_integrity_def demo_done_def demo_first_def
      milestone_progress_valid_def initial_progress_def demo_milestone_def Let_def
      requirement_result_valid_def demo_result_def is_identifier_def length_between_def char_class_defs)

lemma demo_third_valid:
  "enrollment_valid (demo_second\<lparr>ee_status := EN_HITL_PENDING,
     ee_notifications := [\<lparr>pn_event_type = ''education_program_completion_approval_requested'',
       pn_required_role = ''administrator'', pn_enrollment_revision = 3, pn_recorded_at = 0\<rparr>]\<rparr>)"
  using demo_second_valid
  by (simp add: enrollment_valid_def enrollment_integrity_def demo_second_def saved_as_def demo_first_def)

text \<open>The request goes out and is found on disk.\<close>

definition demo_outbox_file :: string where
  "demo_outbox_file = ''o/notification-education_program_comple.json''"

definition demo_requirement' :: artifact_requirement where
  "demo_requirement' = \<lparr>tr_kind = NOTIFICATION_OUTBOX, tr_relative_path = demo_outbox_file,
     tr_sha256 = demo_sha, tr_expected_report_id = None, tr_expected_delivery_status = Some ''recorded''\<rparr>"

lemma demo_requirement_valid: "requirement_valid demo_requirement'"
  by (simp add: requirement_valid_def demo_requirement'_def make_requirement_def demo_outbox_file_def
      validate_relative_path_def)

lemma demo_outbox_path:
  "outbox_path_for (etx_sha_text demo_etx_env) (completion_notification demo_second) =
     ''notification-education_program_comple.json''"
  by (simp add: outbox_path_for_def demo_etx_env_def outbox_identity_def completion_notification_def)

lemma demo_notify:
  assumes "es_outbox s = es_outbox demo_edu_start" "tx_files (es_tx s) = Map.empty"
  shows "\<exists>s1. notify demo_edu_env (completion_notification demo_second) s = (Inr (), s1) \<and>
    es_programs s1 = es_programs s \<and> enrollments_of s1 = enrollments_of s \<and>
    tx_audit (es_tx s1) = tx_audit (es_tx s) \<and> tx_journal (es_tx s1) = tx_journal (es_tx s) \<and>
    outbox_requirement demo_edu_env (completion_notification demo_second) s1 = Inr demo_requirement' \<and>
    verify_outbox_requirements demo_etx_env (tx_files (es_tx s1)) [demo_requirement'] = Inr ()"
proof -
  let ?ev = "completion_notification demo_second"
  let ?en = "(outbox_entry_for ?ev 1 ''pending'' 0)
    \<lparr>oe_delivery_status := ''recorded'', oe_last_error := None, oe_updated_at := 0\<rparr>"
  obtain ob where send: "outbox_send (etx_sha_text demo_etx_env) (\<lambda>_. 0) (\<lambda>_ n. (Inr (), n)) ?ev (es_outbox s) =
      (Inr (), ob)"
    and ob: "ob_files ob = [(''notification-education_program_comple.json'', Some ?en)]"
    using assms(1)
    by (simp add: outbox_send_def demo_outbox_path outbox_load_def pure_def demo_edu_start_def Let_def
        outbox_write_def tick_def)
  let ?files = "with_outbox_files demo_edu_env ob (tx_files (es_tx s))"
  have file': "?files demo_outbox_file = Some (RegularFile (JsonText (outbox_entry_json ?en)))"
    by (simp add: with_outbox_files_def outbox_tree_def demo_edu_env_def ob demo_outbox_file_def)
  let ?s1 = "s\<lparr>es_outbox := ob, es_tx := (es_tx s)\<lparr>tx_files := ?files\<rparr>\<rparr>"
  have "notify demo_edu_env ?ev s = (Inr (), ?s1)"
    using send by (simp add: notify_def demo_edu_env_def)
  moreover have "outbox_requirement demo_edu_env ?ev ?s1 = Inr demo_requirement'"
  proof -
    have env: "ed_tx demo_edu_env = demo_etx_env" "ed_outbox_dir demo_edu_env = Some ''o''"
      "etx_sha_file demo_etx_env c = demo_sha" for c
      by (simp_all add: demo_edu_env_def demo_etx_env_def)
    have "''o'' @ ''/'' @ ''notification-education_program_comple.json'' = demo_outbox_file"
      by (simp add: demo_outbox_file_def)
    with file' demo_requirement_valid show ?thesis
      by (simp add: outbox_requirement_def require_outbox_def env demo_outbox_path [unfolded env]
          requirement_valid_def) (simp add: demo_requirement'_def)
  qed
  moreover have "verify_outbox_requirements demo_etx_env ?files [demo_requirement'] = Inr ()"
    using file'
    by (simp add: verify_outbox_requirement_def demo_requirement'_def demo_etx_env_def
        outbox_entry_json_def json_get_def)
  ultimately show ?thesis by (intro exI [of _ ?s1]) simp
qed


lemma demo_context:
  assumes "demo_at s demo_first us"
  shows "edu_context demo_edu_env ''n'' ''x'' s =
    Inr (demo_first, small_program, demo_milestone ''x'' 1 [])"
proof -
  have "program_selector (ee_program demo_first) = ''g@1.0.0''"
    by (simp add: demo_first_def program_selector_def)
  moreover have "lookup_milestone small_program ''x'' = Inr (demo_milestone ''x'' 1 [])"
    by (simp add: lookup_milestone_def small_program_facts) (simp add: demo_milestone_def)
  ultimately show ?thesis
    using assms small_program_facts(3) by (simp add: edu_context_def demo_at_def)
qed

lemma demo_confirm:
  assumes at: "demo_at s demo_first [''a1'']" and ob: "es_outbox s = es_outbox demo_edu_start"
    and files: "tx_files (es_tx s) = Map.empty"
  shows "\<exists>r s'. record_manual_confirmation demo_edu_env (\<lambda>_. 0) (demo_uid ''b'') ''n'' ''x'' ''r''
     ''i'' ''instructor'' ''ref'' None ''u'' s = (r, s') \<and> demo_at s' demo_third [''b1'', ''b0'', ''a1'']"
proof -
  let ?m = "demo_milestone ''x'' 1 []" and ?item = "initial_progress (''a'', demo_milestone ''x'' 1 [])"
  let ?d1 = "[(''authority_context'', JStr ''u''), (''milestone_id'', JStr ''x''),
     (''requirement_id'', JStr ''r''), (''satisfied'', JBool True),
     (''source'', JStr ''manual_confirmation'')]"
  have c1: "demo_second = saved_as ((demo_first\<lparr>ee_status := EN_ACTIVE, ee_milestones := [demo_done]\<rparr>)
      \<lparr>ee_audit_event_ids := ee_audit_event_ids (demo_first\<lparr>ee_status := EN_ACTIVE,
         ee_milestones := [demo_done]\<rparr>) @ [edu_event_id ''b0'']\<rparr>) 0"
    by (simp add: demo_second_def demo_first_def)
  obtain s1 where s1: "edu_update demo_edu_env (\<lambda>_. 0) (edu_event_id ''b0'')
      (demo_first\<lparr>ee_status := EN_ACTIVE, ee_milestones := [demo_done]\<rparr>) ''requirement_recorded'' ''i''
      ''instructor'' ?d1 [] s = (Inr demo_second, s1)" "demo_at s1 demo_second [''b0'', ''a1'']"
      "es_outbox s1 = es_outbox s" "tx_files (es_tx s1) = Map.empty"
    using demo_update [OF at _ _ _ demo_second_valid, where u = "''b0''" and t = "\<lambda>_. 0" and required = "[]"
        and ty = "''requirement_recorded''" and a = "''i''" and r = "''instructor''" and d = ?d1, OF _ _ _ _ _ _ _ _ c1]
      files
    by (auto simp: demo_first_def length_between_def char_class_defs)
  obtain s2 where s2: "notify demo_edu_env (completion_notification demo_second) s1 = (Inr (), s2)"
    "es_programs s2 = es_programs s1" "enrollments_of s2 = enrollments_of s1"
    "tx_audit (es_tx s2) = tx_audit (es_tx s1)" "tx_journal (es_tx s2) = tx_journal (es_tx s1)"
    "outbox_requirement demo_edu_env (completion_notification demo_second) s2 = Inr demo_requirement'"
    "verify_outbox_requirements demo_etx_env (tx_files (es_tx s2)) [demo_requirement'] = Inr ()"
    using demo_notify [of s1] s1(3,4) ob by auto
  have at2: "demo_at s2 demo_second [''b0'', ''a1'']" using s1(2) s2(2-5) by (simp add: demo_at_def)
  let ?note = "\<lparr>pn_event_type = ''education_program_completion_approval_requested'',
     pn_required_role = ''administrator'', pn_enrollment_revision = 3, pn_recorded_at = 0\<rparr>"
  let ?d2 = "[(''required_milestones'', JStr ''x'')]"
  have c2: "demo_third = saved_as ((demo_second\<lparr>ee_status := EN_HITL_PENDING, ee_notifications := [?note]\<rparr>)
      \<lparr>ee_audit_event_ids := ee_audit_event_ids (demo_second\<lparr>ee_status := EN_HITL_PENDING,
         ee_notifications := [?note]\<rparr>) @ [edu_event_id ''b1'']\<rparr>) 0"
    by (simp add: demo_third_def demo_second_def demo_first_def saved_as_def)
  obtain s3 where s3: "edu_update demo_edu_env (\<lambda>_. 0) (edu_event_id ''b1'')
      (demo_second\<lparr>ee_status := EN_HITL_PENDING, ee_notifications := [?note]\<rparr>)
      ''program_completion_requested'' ''system:education-runtime'' ''system'' ?d2 [demo_requirement'] s2 =
      (Inr demo_third, s3)" "demo_at s3 demo_third [''b1'', ''b0'', ''a1'']"
    using demo_update [OF at2 _ _ _ demo_third_valid, where u = "''b1''" and t = "\<lambda>_. 0"
        and required = "[demo_requirement']" and ty = "''program_completion_requested''"
        and a = "''system:education-runtime''" and r = "''system''" and d = ?d2, OF _ _ _ _ _ _ _ _ c2]
      s2(7) demo_requirement_valid
    by (auto simp: demo_second_def demo_first_def saved_as_def length_between_def char_class_defs)
  have ready: "\<not> \<not> set (required_ids small_program) \<subseteq> set (completed_ids (ee_milestones demo_second))"
    "ee_status demo_second \<noteq> EN_HITL_PENDING" "ee_revision demo_second + 1 = 3"
    "ee_notifications demo_second = []" "sort (required_ids small_program) = [''x'']"
    by (simp_all add: required_ids_def small_program_facts completed_ids_def demo_second_def saved_as_def
        demo_first_def demo_done_def demo_milestone_def initial_progress_def Let_def)
  have request: "request_program_completion_if_ready demo_edu_env (\<lambda>_. 0) ''b1'' demo_second small_program s1 =
      (Inr demo_third, s3)"
    unfolding request_program_completion_if_ready_def if_not_P [OF ready(1)] if_not_P [OF ready(2)] s2(1)
      seq_simps s2(6) seq_pure_Inr ready(3-5)
    using s3(1) by (simp add: demo_edu_env_def)
  have item: "lookup_progress demo_first ''x'' = Inr ?item" "ml_milestone_id ?m = ''x''"
    "\<not> mp_status ?item \<notin> {AVAILABLE, MS_IN_PROGRESS, WAITING_REVIEW, NEEDS_ACTION}"
    "pe_fsum (ed_programs demo_edu_env) = sum_list" "demo_uid ''b'' 0 = ''b0''" "demo_uid ''b'' 1 = ''b1''"
    "rt_requirement_id demo_result = ''r''" "rt_satisfied demo_result = True"
    "source_value (rt_source demo_result) = ''manual_confirmation''"
    by (simp_all add: lookup_progress_def demo_first_def initial_progress_def demo_milestone_def Let_def
        demo_edu_env_def demo_uid_def demo_result_def source_value_def)
  have record': "record_requirement demo_edu_env (\<lambda>_. 0) (demo_uid ''b'') demo_first small_program ?m demo_result
      ''i'' ''instructor'' ''u'' s = pure (edu_result_for demo_edu_env demo_third) s3"
    unfolding record_requirement_def item seq_pure_Inr if_not_P [OF item(3)] Let_def demo_evaluate
      s1(1) seq_simps request by (rule refl)
  have q: "require_revision demo_first None = Inr ()" "require_active demo_first = Inr ()"
    "lookup_requirement ?m ''r'' = Inr (ManualConfirmation ''r'' ''t'' ''instructor'' 1)"
    "require_role ''instructor'' ''instructor'' = Inr ()" "construct_result demo_result = Inr demo_result"
    by (simp_all add: require_revision_def require_active_def demo_first_def lookup_requirement_def
        demo_milestone_def require_role_def construct_result_def demo_result_def
        requirement_result_valid_def is_identifier_def char_class_defs)
  have "record_manual_confirmation demo_edu_env (\<lambda>_. 0) (demo_uid ''b'') ''n'' ''x'' ''r''
     ''i'' ''instructor'' ''ref'' None ''u'' s = pure (edu_result_for demo_edu_env demo_third) s3"
    unfolding record_manual_confirmation_def demo_context [OF at] seq_pure_Inr prod.case q
      requirement_spec.case demo_result_def [symmetric] record' by (rule refl)
  with s3(2) show ?thesis by (simp add: pure_def)
qed

text \<open>An administrator approves.\<close>

definition demo_decision :: completion_decision where
  "demo_decision = \<lparr>cd_command = CMD_APPROVE, cd_actor_id = ''adm'', cd_actor_role = ''administrator'',
     cd_rationale = ''fine'', cd_decided_at = 0, cd_source = ''explicit_command_input'',
     cd_authority_context = ''u''\<rparr>"

definition demo_fourth :: education_enrollment where
  "demo_fourth = saved_as (demo_third\<lparr>ee_status := EN_COMPLETED, ee_decisions := [demo_decision],
     ee_audit_event_ids := ee_audit_event_ids demo_third @ [edu_event_id ''c0'']\<rparr>) 0"

lemma demo_approve:
  assumes at: "demo_at s demo_third [''b1'', ''b0'', ''a1'']"
  shows "\<exists>r s'. decide_program_completion demo_edu_env (\<lambda>_. 0) (demo_uid ''c'') ''n'' CMD_APPROVE
     ''adm'' ''fine'' [] None ''u'' s = (r, s') \<and> demo_at s' demo_fourth [''c0'', ''b1'', ''b0'', ''a1'']"
proof -
  let ?c = "demo_third\<lparr>ee_status := EN_COMPLETED, ee_milestones := ee_milestones demo_third,
     ee_decisions := [demo_decision]\<rparr>"
  let ?d = "[(''authority_context'', JStr ''u''), (''command'', JStr ''approve''),
     (''reopened_milestones'', JStr '''')]"
  have valid: "enrollment_valid ?c"
    using demo_third_valid
    by (simp add: enrollment_valid_def enrollment_integrity_def demo_third_def saved_as_def
        demo_second_def demo_first_def demo_decision_def completion_decision_valid_def length_between_def)
  have c: "demo_fourth = saved_as (?c\<lparr>ee_audit_event_ids := ee_audit_event_ids ?c @ [edu_event_id ''c0'']\<rparr>) 0"
    by (simp add: demo_fourth_def)
  obtain s' where s': "edu_update demo_edu_env (\<lambda>_. 0) (edu_event_id ''c0'') ?c
      ''program_completion_decided'' ''adm'' ''administrator'' ?d [] s = (Inr demo_fourth, s')"
      "demo_at s' demo_fourth [''c0'', ''b1'', ''b0'', ''a1'']"
    using demo_update [OF at _ _ _ valid, where u = "''c0''" and t = "\<lambda>_. 0" and required = "[]"
        and ty = "''program_completion_decided''" and a = "''adm''" and r = "''administrator''" and d = ?d,
        OF _ _ _ _ _ _ _ _ c]
    by (auto simp: demo_third_def demo_second_def demo_first_def saved_as_def length_between_def
        char_class_defs)
  have pre: "enrollment_load ''n'' (enrollments_of s) = Inr demo_third"
    "require_revision demo_third None = Inr ()" "ee_status demo_third = EN_HITL_PENDING"
    "ee_decisions demo_third = []" "strip ''fine'' = ''fine''" "completion_decision_valid demo_decision"
    "demo_uid ''c'' 0 = ''c0''" "command_value CMD_APPROVE = ''approve''" "join_with '','' [] = ''''"
    using at by (simp_all add: demo_at_def require_revision_def demo_third_def demo_second_def demo_first_def
        saved_as_def strip_def py_space_def demo_decision_def completion_decision_valid_def
        length_between_def demo_uid_def command_value_def)
  have "decide_program_completion demo_edu_env (\<lambda>_. 0) (demo_uid ''c'') ''n'' CMD_APPROVE
     ''adm'' ''fine'' [] None ''u'' s = pure (edu_result_for demo_edu_env demo_fourth) s'"
    unfolding decide_program_completion_def pre seq_pure_Inr Let_def demo_decision_def [symmetric]
    using s'(1) pre(3-6) by simp
  with s'(2) show ?thesis by (simp add: pure_def)
qed


lemma demo_new_ids:
  assumes "demo_at s e us" and "length k = 1" and "list_all is_alnum k"
    and "k @ ''0'' \<notin> set us" "k @ ''1'' \<notin> set us"
  shows "new_ids demo_edu_env s (demo_uid k)"
proof -
  have env: "ed_tx demo_edu_env = demo_etx_env" by (simp add: demo_edu_env_def)
  have "demo_file (k @ ''1'') \<noteq> demo_file (k @ ''0'')"
    using demo_file_eq [of "k @ ''1''" "k @ ''0''"] assms(2) by simp
  moreover have "map_of (tx_journal (es_tx s)) (demo_file (k @ i)) = None" if "i \<in> {''0'', ''1''}" for i
    using assms that by (auto simp: demo_at_def)
  ultimately show ?thesis
    by (simp add: new_ids_def demo_uid_def fresh_event_def env)
qed

lemma demo_course_history:
  "\<exists>s1 s2. (edu_step demo_edu_env)\<^sup>*\<^sup>* demo_edu_start s1 \<and> demo_at s1 demo_third [''b1'', ''b0'', ''a1''] \<and>
     edu_step demo_edu_env s1 s2 \<and> demo_at s2 demo_fourth [''c0'', ''b1'', ''b0'', ''a1'']"
proof -
  have "fresh_event demo_etx_env (es_tx demo_edu_start) u" for u
    by (simp add: fresh_event_def demo_journal_empty)
  then have "new_ids demo_edu_env demo_edu_start (demo_uid ''a'')"
    using demo_file_eq [of "''a1''" "''a0''"]
    by (simp add: new_ids_def demo_uid_def) (simp add: demo_edu_env_def)
  with demo_enroll obtain s1 where s1: "edu_step demo_edu_env demo_edu_start s1" "demo_at s1 demo_first [''a1'']"
    "es_outbox s1 = es_outbox demo_edu_start" "tx_files (es_tx s1) = Map.empty"
    by (blast intro: edu_step.enrolls)
  have "new_ids demo_edu_env s1 (demo_uid ''b'')"
    using demo_new_ids [OF s1(2), of "''b''"] by (simp add: char_class_defs)
  with demo_confirm [OF s1(2-4)] obtain s2 where s2: "edu_step demo_edu_env s1 s2"
    "demo_at s2 demo_third [''b1'', ''b0'', ''a1'']"
    by (blast intro: edu_step.confirms)
  have run2: "(edu_step demo_edu_env)\<^sup>*\<^sup>* demo_edu_start s2"
    using s1(1) s2(1) by (blast intro: rtranclp.intros)
  have "new_ids demo_edu_env s2 (demo_uid ''c'')"
    using demo_new_ids [OF s2(2), of "''c''"] by (simp add: char_class_defs)
  with demo_approve [OF s2(2)] obtain s3 where "edu_step demo_edu_env s2 s3"
    "demo_at s3 demo_fourth [''c0'', ''b1'', ''b0'', ''a1'']"
    by (blast intro: edu_step.decides)
  with run2 s2(2) show ?thesis by blast
qed

lemma demo_runs:
  "\<exists>s. (edu_step demo_edu_env)\<^sup>*\<^sup>* demo_edu_start s \<and> demo_at s demo_third [''b1'', ''b0'', ''a1'']"
  "\<exists>s. (edu_step demo_edu_env)\<^sup>*\<^sup>* demo_edu_start s \<and> demo_at s demo_fourth [''c0'', ''b1'', ''b0'', ''a1'']"
  using demo_course_history by (blast intro: rtranclp.rtrancl_into_rtrancl)+

lemma demo_start_empty: "enrollments_of demo_edu_start = Map.empty"
  by (simp add: demo_edu_start_def)

section \<open>Properties\<close>

text \<open>
  C5. The service refines the life cycle: between any two moments of a run of its operations from an empty
  enrollment repository, with any arguments, failures included, every enrollment goes along the life cycle and no
  other way.  One that was there at the first moment is still there at the second, under the same program, either
  as it was or under a higher revision, and its course is reached from the course it had by the moves of the life cycle alone;
  one that was not there has come from the first course of its program, which resolves.
\<close>

theorem service_refines_lifecycle:
  assumes "(edu_step env)\<^sup>*\<^sup>* s0 s1" and "enrollments_of s0 = Map.empty" and later: "(edu_step env)\<^sup>*\<^sup>* s1 s2"
  shows "(\<forall>e. enrollment_load i (enrollments_of s2) = Inr e \<longrightarrow>
      (\<exists>p ref. program_resolve (ed_programs env) (program_selector (ee_program e)) (es_programs s2) = Inr (p, ref) \<and>
         (case enrollment_load i (enrollments_of s1) of
            Inr d \<Rightarrow> ee_program e = ee_program d \<and> (e = d \<or> ee_revision d < ee_revision e) \<and>
              (lifecycle (pe_fsum (ed_programs env)) p)\<^sup>*\<^sup>* (course_of d) (course_of e)
          | Inl _ \<Rightarrow> (lifecycle (pe_fsum (ed_programs env)) p)\<^sup>*\<^sup>* (first_course p) (course_of e)))) \<and>
    (\<forall>d. enrollment_load i (enrollments_of s1) = Inr d \<longrightarrow> (\<exists>e. enrollment_load i (enrollments_of s2) = Inr e))"
proof -
  have sound: "sound (loaded_at s1) env s2"
    by (rule edu_run_keeps_sound [OF later sound_from_moment [OF edu_run_sound [OF assms(1,2)]]])
  show ?thesis
  proof (intro conjI allI impI)
    fix e assume e: "enrollment_load i (enrollments_of s2) = Inr e"
    then have "ee_enrollment_id e = i" by (rule load_stored [THEN conjunct2, THEN conjunct1])
    with sound_load [OF sound e]
    show "\<exists>p ref. program_resolve (ed_programs env) (program_selector (ee_program e)) (es_programs s2) = Inr (p, ref) \<and>
         (case enrollment_load i (enrollments_of s1) of
            Inr d \<Rightarrow> ee_program e = ee_program d \<and> (e = d \<or> ee_revision d < ee_revision e) \<and>
              (lifecycle (pe_fsum (ed_programs env)) p)\<^sup>*\<^sup>* (course_of d) (course_of e)
          | Inl _ \<Rightarrow> (lifecycle (pe_fsum (ed_programs env)) p)\<^sup>*\<^sup>* (first_course p) (course_of e))"
      by (cases "enrollment_load i (enrollments_of s1)")
        (auto simp: sound_enrollment_def resolves_def goes_on_def loaded_at_def)
  next
    fix d assume "enrollment_load i (enrollments_of s1) = Inr d"
    then show "\<exists>e. enrollment_load i (enrollments_of s2) = Inr e"
      by (intro sound_there [OF sound, of i d]) (simp add: loaded_at_def)
  qed
qed

theorem service_refines_lifecycle_witness:
  "\<exists>s1 s2 d e p. (edu_step demo_edu_env)\<^sup>*\<^sup>* demo_edu_start s1 \<and> (edu_step demo_edu_env)\<^sup>*\<^sup>* s1 s2 \<and>
     enrollment_load ''n'' (enrollments_of s1) = Inr d \<and> enrollment_load ''n'' (enrollments_of s2) = Inr e \<and>
     ee_status d = EN_HITL_PENDING \<and> ee_status e = EN_COMPLETED \<and>
     (lifecycle (pe_fsum (ed_programs demo_edu_env)) p)\<^sup>*\<^sup>* (course_of d) (course_of e)"
proof -
  obtain s1 s2 where s: "(edu_step demo_edu_env)\<^sup>*\<^sup>* demo_edu_start s1" "(edu_step demo_edu_env)\<^sup>*\<^sup>* s1 s2"
    "enrollment_load ''n'' (enrollments_of s1) = Inr demo_third" "enrollment_load ''n'' (enrollments_of s2) = Inr demo_fourth"
    using demo_course_history by (auto simp: demo_at_def)
  have "ee_status demo_third = EN_HITL_PENDING" "ee_status demo_fourth = EN_COMPLETED"
    by (simp_all add: demo_third_def demo_fourth_def saved_as_def)
  with service_refines_lifecycle [OF s(1) demo_start_empty s(2), of "''n''"] s show ?thesis by fastforce
qed

text \<open>
  C11. Completion is earned: an enrollment that waits for the administrator or is completed has
  every required milestone of its program completed, each of them by results that satisfy the
  milestone's rule, and a completed one carries an administrator's approval as its last decision.
\<close>

theorem completion_is_earned:
  assumes "(edu_step env)\<^sup>*\<^sup>* s0 s" and "enrollments_of s0 = Map.empty"
    and "enrollment_load i (enrollments_of s) = Inr e" and "ee_status e \<in> {EN_HITL_PENDING, EN_COMPLETED}"
  shows "\<exists>p ref. program_resolve (ed_programs env) (program_selector (ee_program e)) (es_programs s) = Inr (p, ref) \<and>
    (\<forall>x \<in> set (program_milestones p). ml_required (snd x) \<longrightarrow>
       (\<exists>m \<in> set (ee_milestones e). mp_milestone_id m = ml_milestone_id (snd x) \<and>
          mp_status m = MS_COMPLETED \<and>
          rule_complete (pe_fsum (ed_programs env)) (snd x) (mp_results m))) \<and>
    (ee_status e = EN_COMPLETED \<longrightarrow> cd_command (last (ee_decisions e)) = CMD_APPROVE \<and>
       cd_actor_role (last (ee_decisions e)) = ''administrator'')"
proof -
  obtain p where p: "resolves env (es_programs s) e p"
    "(lifecycle (pe_fsum (ed_programs env)) p)\<^sup>*\<^sup>* (first_course p) (course_of e)"
    by (rule sound_empty_load [OF edu_run_sound [OF assms(1,2)] assms(3)])
  note dist = resolves_ids [OF p(1)]
  note ok = course_okD [OF lifecycle_run_ok [OF p(2) dist, unfolded course_of_def]]
  have "\<exists>m \<in> set (ee_milestones e). mp_milestone_id m = ml_milestone_id (snd x) \<and>
      mp_status m = MS_COMPLETED \<and> rule_complete (pe_fsum (ed_programs env)) (snd x) (mp_results m)"
    if x: "x \<in> set (program_milestones p)" "ml_required (snd x)" for x
  proof -
    have "ml_milestone_id (snd x) \<in> set (completed_ids (ee_milestones e))"
      using ok(3) [OF assms(4)] x by (auto simp: required_ids_def)
    then obtain m where "m \<in> set (ee_milestones e)" "mp_milestone_id m = ml_milestone_id (snd x)"
      "mp_status m = MS_COMPLETED" by (auto simp: completed_ids_def)
    moreover from ok(2) [OF this(1,3)] this(2) program_specs_eq [OF dist x(1)]
    have "rule_complete (pe_fsum (ed_programs env)) (snd x) (mp_results m)"
      by (simp add: milestone_earned_def)
    ultimately show ?thesis by blast
  qed
  moreover have "ee_status e = EN_COMPLETED \<longrightarrow> cd_command (last (ee_decisions e)) = CMD_APPROVE \<and>
       cd_actor_role (last (ee_decisions e)) = ''administrator''"
    using ok(4) by blast
  moreover obtain ref where "program_resolve (ed_programs env) (program_selector (ee_program e))
      (es_programs s) = Inr (p, ref)" using p(1) by (auto simp: resolves_def)
  ultimately show ?thesis by blast
qed

theorem completion_is_earned_witness:
  "\<exists>s e. (edu_step demo_edu_env)\<^sup>*\<^sup>* demo_edu_start s \<and> enrollment_load ''n'' (enrollments_of s) = Inr e \<and>
     ee_status e = EN_COMPLETED \<and> cd_command (last (ee_decisions e)) = CMD_APPROVE"
proof -
  obtain s where s: "(edu_step demo_edu_env)\<^sup>*\<^sup>* demo_edu_start s"
    "enrollment_load ''n'' (enrollments_of s) = Inr demo_fourth"
    using demo_runs(2) by (auto simp: demo_at_def)
  have st: "ee_status demo_fourth = EN_COMPLETED" by (simp add: demo_fourth_def saved_as_def)
  from completion_is_earned [OF s(1) demo_start_empty s(2)] s st show ?thesis by blast
qed


text \<open>
  Milestones open in order: as long as no decision has sent the enrollment back, a milestone
  that is no longer locked has all the prerequisites that its program names for it completed.
\<close>

theorem milestones_open_in_order:
  assumes "(edu_step env)\<^sup>*\<^sup>* s0 s" and "enrollments_of s0 = Map.empty"
    and "enrollment_load i (enrollments_of s) = Inr e" and "never_returned (ee_decisions e)"
  shows "\<exists>p ref. program_resolve (ed_programs env) (program_selector (ee_program e)) (es_programs s) = Inr (p, ref) \<and>
    (\<forall>x \<in> set (program_milestones p). \<forall>m \<in> set (ee_milestones e).
       mp_milestone_id m = ml_milestone_id (snd x) \<and> mp_status m \<noteq> LOCKED \<longrightarrow>
       (\<forall>q \<in> set (ml_prerequisites (snd x)). \<exists>m' \<in> set (ee_milestones e).
          mp_milestone_id m' = q \<and> mp_status m' = MS_COMPLETED))"
proof -
  obtain p where p: "resolves env (es_programs s) e p"
    "(lifecycle (pe_fsum (ed_programs env)) p)\<^sup>*\<^sup>* (first_course p) (course_of e)"
    by (rule sound_empty_load [OF edu_run_sound [OF assms(1,2)] assms(3)])
  note dist = resolves_ids [OF p(1)]
  note ok = course_okD(5) [OF lifecycle_run_ok [OF p(2) dist, unfolded course_of_def] assms(4)]
  have "\<exists>m' \<in> set (ee_milestones e). mp_milestone_id m' = q \<and> mp_status m' = MS_COMPLETED"
    if "x \<in> set (program_milestones p)" "m \<in> set (ee_milestones e)"
      "mp_milestone_id m = ml_milestone_id (snd x)" "mp_status m \<noteq> LOCKED"
      "q \<in> set (ml_prerequisites (snd x))" for x m q
  proof -
    have "q \<in> set (completed_ids (ee_milestones e))"
      using ok [OF that(2,4)] program_specs_eq [OF dist that(1)] that(3,5)
      by (auto simp: prerequisites_met_def)
    then show ?thesis by (auto simp: completed_ids_def)
  qed
  moreover obtain ref where "program_resolve (ed_programs env) (program_selector (ee_program e))
      (es_programs s) = Inr (p, ref)" using p(1) by (auto simp: resolves_def)
  ultimately show ?thesis by blast
qed

theorem milestones_open_in_order_witness:
  "\<exists>s e p ref. (edu_step demo_edu_env)\<^sup>*\<^sup>* demo_edu_start s \<and> enrollment_load ''n'' (enrollments_of s) = Inr e \<and>
     never_returned (ee_decisions e) \<and>
     program_resolve (ed_programs demo_edu_env) (program_selector (ee_program e)) (es_programs s) = Inr (p, ref)"
proof -
  obtain s where s: "(edu_step demo_edu_env)\<^sup>*\<^sup>* demo_edu_start s"
    "enrollment_load ''n'' (enrollments_of s) = Inr demo_fourth"
    using demo_runs(2) by (auto simp: demo_at_def)
  have "never_returned (ee_decisions demo_fourth)"
    by (simp add: demo_fourth_def saved_as_def demo_decision_def never_returned_def)
  with milestones_open_in_order [OF s(1) demo_start_empty s(2) this] s show ?thesis by blast
qed

text \<open>
  Nobody waits unheard: when an enrollment waits for the administrator, the outbox holds the
  completion request for the revision before, delivered.
\<close>

theorem waiting_means_delivered:
  assumes "(edu_step env)\<^sup>*\<^sup>* s0 s" and "enrollments_of s0 = Map.empty"
    and "enrollment_load i (enrollments_of s) = Inr e" and "ee_status e = EN_HITL_PENDING"
  shows "\<exists>en. outbox_file (es_outbox s) (outbox_path_for (etx_sha_text (ed_tx env))
      (completion_notification (e\<lparr>ee_revision := ee_revision e - 1\<rparr>))) = Some (Some en) \<and>
    oe_delivery_status en = ''recorded''"
  using sound_load [OF edu_run_sound [OF assms(1,2)] assms(3)] assms(4)
  by (auto simp: sound_enrollment_def request_delivered_def delivery_recorded_def)

theorem waiting_means_delivered_witness:
  "\<exists>s e en. (edu_step demo_edu_env)\<^sup>*\<^sup>* demo_edu_start s \<and> enrollment_load ''n'' (enrollments_of s) = Inr e \<and>
     ee_status e = EN_HITL_PENDING \<and> en \<in> ran (outbox_file (es_outbox s)) \<and> en \<noteq> None"
proof -
  obtain s where s: "(edu_step demo_edu_env)\<^sup>*\<^sup>* demo_edu_start s"
    "enrollment_load ''n'' (enrollments_of s) = Inr demo_third"
    using demo_runs(1) by (auto simp: demo_at_def)
  have st: "ee_status demo_third = EN_HITL_PENDING" by (simp add: demo_third_def saved_as_def)
  from waiting_means_delivered [OF s(1) demo_start_empty s(2) st] s st show ?thesis
    by (blast intro: ranI)
qed

text \<open>
  Where a failed request leaves an enrollment: when every milestone is completed but the
  status is still active, because the notifier raised after the last result was saved, no
  operation moves it any more.  Each one raises and changes nothing, so the request is never sent.
\<close>

theorem unrequested_completion_is_stuck:
  assumes load: "enrollment_load i (enrollments_of s) = Inr e" and st: "ee_status e = EN_ACTIVE"
    and all_done: "\<forall>m \<in> set (ee_milestones e). mp_status m = MS_COMPLETED"
  shows "(\<exists>x. start_milestone env t uid i mid actor expected auth s = (Inl x, s)) \<and>
    (\<exists>x. bind_project env t uid i mid pid actor org expected auth s = (Inl x, s)) \<and>
    (\<exists>x. record_manual_confirmation env t uid i mid rid actor role ref expected auth s = (Inl x, s)) \<and>
    (\<exists>x. record_score env t uid i mid rid score actor role ref expected auth s = (Inl x, s)) \<and>
    (\<exists>x. sync_project_milestone env t uid i mid actor role org expected auth s = (Inl x, s)) \<and>
    (\<exists>x. decide_program_completion env t uid i cmd actor why ids expected auth s = (Inl x, s))"
proof -
  have item: "\<exists>x. lookup_progress e j = Inl x \<or> (\<exists>m. lookup_progress e j = Inr m \<and> mp_status m = MS_COMPLETED)"
    for j using lookup_progress_Inr [of e j] all_done by (cases "lookup_progress e j") auto
  have rec: "\<exists>x. record_requirement env t' uid e p m r a ro au s = (Inl x, s)" for t' p m r a ro au
    using item [of "ml_milestone_id m"] by (auto simp: record_requirement_def pure_def)
  have ctx: "(\<exists>x. edu_context env i mid s = Inl x) \<or> (\<exists>p m. edu_context env i mid s = Inr (e, p, m))"
    using load by (auto simp: edu_context_def split: sum.split)
  show ?thesis
  proof (intro conjI)
    show "\<exists>x. start_milestone env t uid i mid actor expected auth s = (Inl x, s)"
      using load item [of mid] by (auto simp: start_milestone_def pure_def seq_def split: sum.split)
    show "\<exists>x. bind_project env t uid i mid pid actor org expected auth s = (Inl x, s)"
      using ctx item [of mid] by (auto simp: bind_project_def pure_def seq_def split: sum.split)
    show "\<exists>x. record_manual_confirmation env t uid i mid rid actor role ref expected auth s = (Inl x, s)"
      using ctx rec by (auto simp: record_manual_confirmation_def pure_def seq_def
          split: sum.split requirement_spec.split)
    show "\<exists>x. record_score env t uid i mid rid score actor role ref expected auth s = (Inl x, s)"
      using ctx rec by (auto simp: record_score_def pure_def seq_def
          split: sum.split requirement_spec.split)
    show "\<exists>x. sync_project_milestone env t uid i mid actor role org expected auth s = (Inl x, s)"
      using ctx rec by (auto simp: sync_project_milestone_def pure_def seq_def Let_def
          split: sum.split requirement_spec.split option.split)
    show "\<exists>x. decide_program_completion env t uid i cmd actor why ids expected auth s = (Inl x, s)"
      using load st by (auto simp: decide_program_completion_def pure_def seq_def split: sum.split)
  qed
qed


theorem unrequested_completion_is_stuck_witness:
  "\<exists>x. record_manual_confirmation demo_edu_env (\<lambda>_. 0) (demo_uid ''b'') ''n'' ''x'' ''r'' ''i'' ''instructor''
     ''ref'' None ''u'' (demo_edu_start\<lparr>es_tx := (es_tx demo_edu_start)
       \<lparr>tx_store := [enrollment_file ''n'' \<mapsto> Some demo_second]\<rparr>\<rparr>) =
     (Inl x, demo_edu_start\<lparr>es_tx := (es_tx demo_edu_start)
       \<lparr>tx_store := [enrollment_file ''n'' \<mapsto> Some demo_second]\<rparr>\<rparr>)"
proof -
  let ?s = "demo_edu_start\<lparr>es_tx := (es_tx demo_edu_start)
    \<lparr>tx_store := [enrollment_file ''n'' \<mapsto> Some demo_second]\<rparr>\<rparr>"
  have id: "ee_enrollment_id demo_second = ''n''"
    and st: "ee_status demo_second = EN_ACTIVE"
    and ms: "\<forall>m \<in> set (ee_milestones demo_second). mp_status m = MS_COMPLETED"
    by (simp_all add: demo_second_def saved_as_def demo_first_def demo_done_def)
  have valid: "enrollment_valid demo_second"
    using demo_second_valid
    by (simp add: enrollment_valid_def enrollment_integrity_def demo_second_def saved_as_def demo_first_def)
  have "enrollment_load ''n'' (enrollments_of ?s) = Inr demo_second"
    using stored_load [OF valid, of "enrollments_of ?s"] id by simp
  from unrequested_completion_is_stuck [OF this st ms] show ?thesis by blast
qed

end
