(* ===== verification/Execution.thy ===== *)
theory Execution
  imports Prelude Domain "HOL-Library.Char_ord" "HOL-Library.List_Lexorder"
begin

text \<open>
  \<open>pipelines/base.py\<close> and \<open>runtime/execution.py\<close>: the registry of allowlisted pipelines and the
  executor that checkpoints one run per run id.  The files of the executor's directory are one map
  from file names, as on disk: checkpoints, results and cancellation requests share the name space.
  A pipeline is a function on the world \<open>'w\<close> that it acts on; the request and result types of a
  binding are their pydantic adapters, functions on JSON values that may raise.  All timestamps are
  instants: a value without time zone, which the validators reject, is not represented.
\<close>

section \<open>Contexts and the registry\<close>

record pipeline_context =
  pc_run_id :: string
  pc_actor_id :: string
  pc_actor_role :: string
  pc_idempotency_key :: "string option"
  pc_expected_revision :: "int option"
  pc_requested_at :: int
  pc_deadline_at :: "int option"
  pc_cancel_requested :: bool
  pc_metadata :: "(string \<times> string) list"

definition is_safe_id :: "string \<Rightarrow> bool" where
  "is_safe_id = matches_id is_alnum (\<lambda>c. is_alnum c \<or> c \<in> set ''._:-'') 0 127"

definition pipeline_context_valid :: "pipeline_context \<Rightarrow> bool" where
  "pipeline_context_valid c \<longleftrightarrow>
     is_safe_id (pc_run_id c) \<and>
     1 \<le> length (pc_actor_id c) \<and> length (pc_actor_id c) \<le> 300 \<and>
     1 \<le> length (pc_actor_role c) \<and> length (pc_actor_role c) \<le> 100 \<and>
     pred_option is_safe_id (pc_idempotency_key c) \<and>
     pred_option (\<lambda>r. 1 \<le> r) (pc_expected_revision c) \<and>
     pred_option (\<lambda>d. pc_requested_at c < d) (pc_deadline_at c) \<and>
     length (pc_metadata c) \<le> 32 \<and>
     list_all (\<lambda>(k, v). is_safe_id k \<and> length v \<le> 500) (pc_metadata c)"

definition cancellation_requested :: "pipeline_context \<Rightarrow> int \<Rightarrow> bool" where
  "cancellation_requested c now \<longleftrightarrow>
     pc_cancel_requested c \<or> (case pc_deadline_at c of None \<Rightarrow> False | Some d \<Rightarrow> d \<le> now)"

text \<open>A pipeline's \<open>run\<close> and \<open>arun\<close>, on the world.\<close>

type_synonym 'w pipeline_run = "json \<Rightarrow> pipeline_context \<Rightarrow> 'w \<Rightarrow> (json, 'w) outcome"

record 'w pipeline_binding =
  pb_factory :: "unit res"
  pb_run :: "'w pipeline_run"
  pb_arun :: "'w pipeline_run"
  pb_request_type :: string
  pb_result_type :: string
  pb_request_adapter :: "json \<Rightarrow> json res"
  pb_result_adapter :: "json \<Rightarrow> json res"

type_synonym 'w pipeline_registry = "((string \<times> string) \<times> 'w pipeline_binding) list"

definition register_pipeline ::
  "string \<Rightarrow> string \<Rightarrow> 'w pipeline_binding \<Rightarrow> 'w pipeline_registry \<Rightarrow> (unit, 'w pipeline_registry) outcome" where
  "register_pipeline pipeline_id version binding reg =
     (if map_of reg (pipeline_id, version) \<noteq> None then
        (Inl (Exn ValueError ''pipeline already registered''), reg)
      else if pipeline_id = [] \<or> version = [] then
        (Inl (Exn ValueError ''pipeline_id and version must not be empty''), reg)
      else (Inr (), dict_set (pipeline_id, version) binding reg))"

definition registry_binding :: "string \<Rightarrow> string \<Rightarrow> 'w pipeline_registry \<Rightarrow> 'w pipeline_binding res" where
  "registry_binding pipeline_id version reg =
     (case map_of reg (pipeline_id, version) of
        None \<Rightarrow> Inl (Exn KeyError ''pipeline is not allowlisted'')
      | Some b \<Rightarrow> Inr b)"

definition registry_create :: "string \<Rightarrow> string \<Rightarrow> 'w pipeline_registry \<Rightarrow> 'w pipeline_binding res" where
  "registry_create pipeline_id version reg =
     (case map_of reg (pipeline_id, version) of
        None \<Rightarrow> Inl (Exn KeyError ''pipeline is not allowlisted'')
      | Some b \<Rightarrow> (case pb_factory b of Inl e \<Rightarrow> Inl e | Inr _ \<Rightarrow> Inr b))"

definition validate_request :: "string \<Rightarrow> string \<Rightarrow> json \<Rightarrow> 'w pipeline_registry \<Rightarrow> json res" where
  "validate_request pipeline_id version value' reg =
     (case registry_binding pipeline_id version reg of
        Inl e \<Rightarrow> Inl e | Inr b \<Rightarrow> pb_request_adapter b value')"

definition validate_result :: "string \<Rightarrow> string \<Rightarrow> json \<Rightarrow> 'w pipeline_registry \<Rightarrow> json res" where
  "validate_result pipeline_id version value' reg =
     (case registry_binding pipeline_id version reg of
        Inl e \<Rightarrow> Inl e | Inr b \<Rightarrow> pb_result_adapter b value')"

record pipeline_descriptor =
  pd_pipeline_id :: string
  pd_pipeline_version :: string
  pd_request_type :: string
  pd_result_type :: string

text \<open>\<open>sorted(bindings.items())\<close> orders by id and version, which no two bindings share.\<close>

definition registry_sorted :: "'w pipeline_registry \<Rightarrow> ((string \<times> string) \<times> 'w pipeline_binding) list" where
  "registry_sorted reg = sort_key (\<lambda>x. fst (fst x)) (sort_key (\<lambda>x. snd (fst x)) reg)"

definition registry_keys :: "'w pipeline_registry \<Rightarrow> (string \<times> string) list" where
  "registry_keys reg = map fst (registry_sorted reg)"

definition registry_descriptors :: "'w pipeline_registry \<Rightarrow> pipeline_descriptor list" where
  "registry_descriptors reg = map (\<lambda>((i, v), b).
     \<lparr>pd_pipeline_id = i, pd_pipeline_version = v, pd_request_type = pb_request_type b,
      pd_result_type = pb_result_type b\<rparr>) (registry_sorted reg)"

section \<open>Runs\<close>

datatype run_status =
    RUN_PREPARED | RUN_RUNNING | RUN_SUCCEEDED | RUN_WAITING_HUMAN | RUN_BLOCKED | RUN_STALE
  | RUN_RETRYABLE_FAILURE | RUN_TERMINAL_FAILURE | RUN_CANCELLED

fun run_status_value :: "run_status \<Rightarrow> string" where
  "run_status_value RUN_PREPARED = ''prepared''"
| "run_status_value RUN_RUNNING = ''running''"
| "run_status_value RUN_SUCCEEDED = ''succeeded''"
| "run_status_value RUN_WAITING_HUMAN = ''waiting_human''"
| "run_status_value RUN_BLOCKED = ''blocked''"
| "run_status_value RUN_STALE = ''stale''"
| "run_status_value RUN_RETRYABLE_FAILURE = ''retryable_failure''"
| "run_status_value RUN_TERMINAL_FAILURE = ''terminal_failure''"
| "run_status_value RUN_CANCELLED = ''cancelled''"

definition all_run_statuses :: "run_status list" where
  "all_run_statuses = [RUN_PREPARED, RUN_RUNNING, RUN_SUCCEEDED, RUN_WAITING_HUMAN, RUN_BLOCKED,
     RUN_STALE, RUN_RETRYABLE_FAILURE, RUN_TERMINAL_FAILURE, RUN_CANCELLED]"

text \<open>\<open>PipelineRunStatus(s)\<close>.\<close>

definition run_status_of :: "string \<Rightarrow> run_status option" where
  "run_status_of s = first_such (\<lambda>st. run_status_value st = s) all_run_statuses"

definition TERMINAL_RUN_STATUSES :: "run_status list" where
  "TERMINAL_RUN_STATUSES = [RUN_SUCCEEDED, RUN_WAITING_HUMAN, RUN_BLOCKED, RUN_STALE,
     RUN_TERMINAL_FAILURE, RUN_CANCELLED]"

record run_record =
  rn_context :: pipeline_context
  rn_pipeline_id :: string
  rn_pipeline_version :: string
  rn_request_sha256 :: string
  rn_status :: run_status
  rn_prepared_at :: int
  rn_updated_at :: int
  rn_attempt :: nat
  rn_result_uri :: "string option"
  rn_result_sha256 :: "string option"
  rn_error_code :: "string option"

definition run_record_valid :: "run_record \<Rightarrow> bool" where
  "run_record_valid r \<longleftrightarrow> pipeline_context_valid (rn_context r) \<and> is_sha256 (rn_request_sha256 r) \<and>
     pred_option is_sha256 (rn_result_sha256 r) \<and>
     (rn_result_uri r = None) = (rn_result_sha256 r = None)"

record execution_result =
  xr_run_id :: string
  xr_pipeline_id :: string
  xr_pipeline_version :: string
  xr_status :: run_status
  xr_attempt :: nat
  xr_checkpoint_uri :: string
  xr_output :: "json option"
  xr_error_code :: "string option"
  xr_replayed :: bool

text \<open>What a file of the directory holds; a cancellation request keeps who asked and when.\<close>

datatype run_file = RunFile run_record | ResultFile json | CancelFile string int | OtherRunFile string

record 'w exec_env =
  xv_sha_json :: "json \<Rightarrow> string"
  xv_sha_file :: "run_file \<Rightarrow> string"
  xv_file_json :: "run_file \<Rightarrow> json res"
  xv_root :: string
  xv_registry :: "'w pipeline_registry"

record 'w exec_state =
  xs_files :: "string \<Rightarrow> run_file option"
  xs_world :: 'w

section \<open>Paths\<close>

definition validate_run_id :: "string \<Rightarrow> unit res" where
  "validate_run_id run_id =
     (if is_safe_id run_id then Inr () else Inl (Exn ValidationError ''PipelineContext''))"

definition record_name :: "string \<Rightarrow> string" where
  "record_name run_id = ''run-'' @ run_id @ ''.json''"

definition result_name :: "string \<Rightarrow> string" where
  "result_name run_id = ''run-'' @ run_id @ ''.result.json''"

definition cancel_name :: "string \<Rightarrow> string" where
  "cancel_name run_id = ''run-'' @ run_id @ ''.cancel.json''"

text \<open>\<open>_record_path\<close>, \<open>_result_path\<close> and \<open>_cancel_path\<close> validate the id first.\<close>

definition record_path :: "string \<Rightarrow> string res" where
  "record_path run_id = (case validate_run_id run_id of Inl e \<Rightarrow> Inl e | Inr _ \<Rightarrow> Inr (record_name run_id))"

definition result_path :: "string \<Rightarrow> string res" where
  "result_path run_id = (case validate_run_id run_id of Inl e \<Rightarrow> Inl e | Inr _ \<Rightarrow> Inr (result_name run_id))"

definition cancel_path :: "string \<Rightarrow> string res" where
  "cancel_path run_id = (case validate_run_id run_id of Inl e \<Rightarrow> Inl e | Inr _ \<Rightarrow> Inr (cancel_name run_id))"

section \<open>Operations on checkpoints\<close>

definition write_file :: "string \<Rightarrow> run_file \<Rightarrow> 'w exec_state \<Rightarrow> 'w exec_state" where
  "write_file path f s = s\<lparr>xs_files := (xs_files s)(path \<mapsto> f)\<rparr>"

text \<open>\<open>PipelineRunRecord.model_validate_json(path.read_text())\<close>.\<close>

definition parse_record :: "run_file \<Rightarrow> run_record res" where
  "parse_record f =
     (case f of RunFile r \<Rightarrow> if run_record_valid r then Inr r else Inl (Exn ValidationError ''PipelineRunRecord'')
      | _ \<Rightarrow> Inl (Exn ValidationError ''PipelineRunRecord''))"

definition context_identity ::
  "pipeline_context \<Rightarrow> string \<times> string \<times> string option \<times> int option \<times> (string \<times> string) list" where
  "context_identity c = (pc_actor_id c, pc_actor_role c, pc_idempotency_key c, pc_expected_revision c,
     sort_key fst (pc_metadata c))"

definition same_run :: "string \<Rightarrow> string \<Rightarrow> string \<Rightarrow> pipeline_context \<Rightarrow> run_record \<Rightarrow> bool" where
  "same_run pipeline_id version sha ctx r \<longleftrightarrow>
     rn_pipeline_id r = pipeline_id \<and> rn_pipeline_version r = version \<and>
     rn_request_sha256 r = sha \<and> context_identity (rn_context r) = context_identity ctx"

definition exec_prepare ::
  "int \<Rightarrow> string \<Rightarrow> string \<Rightarrow> string \<Rightarrow> pipeline_context \<Rightarrow> 'w exec_state \<Rightarrow>
   (run_record, 'w exec_state) outcome" where
  "exec_prepare now pipeline_id version sha ctx s =
     seq (pure (record_path (pc_run_id ctx)) s) (\<lambda>path s.
     case xs_files s path of
       Some f \<Rightarrow>
         seq (pure (parse_record f) s) (\<lambda>current s.
         if \<not> same_run pipeline_id version sha ctx current then
           (Inl (Exn PipelineRunConflictError ''run ID was reused for a different pipeline or request''), s)
         else (Inr current, s))
     | None \<Rightarrow>
         (let r = \<lparr>rn_context = ctx, rn_pipeline_id = pipeline_id, rn_pipeline_version = version,
                   rn_request_sha256 = sha, rn_status = RUN_PREPARED, rn_prepared_at = now,
                   rn_updated_at = now, rn_attempt = 0, rn_result_uri = None,
                   rn_result_sha256 = None, rn_error_code = None\<rparr>
          in (Inr r, write_file path (RunFile r) s)))"

definition exec_update ::
  "int \<Rightarrow> run_record \<Rightarrow> run_status \<Rightarrow> nat option \<Rightarrow> string option \<Rightarrow> string option \<Rightarrow> string option \<Rightarrow>
   'w exec_state \<Rightarrow> run_record \<times> 'w exec_state" where
  "exec_update now r status attempt result_uri result_sha error_code s =
     (let r' = r\<lparr>rn_status := status, rn_updated_at := now,
                 rn_attempt := (case attempt of None \<Rightarrow> rn_attempt r | Some a \<Rightarrow> a),
                 rn_result_uri := result_uri, rn_result_sha256 := result_sha,
                 rn_error_code := error_code\<rparr>
      in (r', write_file (record_name (pc_run_id (rn_context r))) (RunFile r') s))"

definition store_result ::
  "'w exec_env \<Rightarrow> int \<Rightarrow> run_record \<Rightarrow> run_status \<Rightarrow> json option \<Rightarrow> 'w exec_state \<Rightarrow>
   run_record \<times> 'w exec_state" where
  "store_result env now r status output s =
     (case output of
        None \<Rightarrow> exec_update now r status None None None None s
      | Some v \<Rightarrow>
          (let path = result_name (pc_run_id (rn_context r)) in
           exec_update now r status None (Some (xv_root env @ ''/'' @ path))
             (Some (xv_sha_file env (ResultFile v))) None (write_file path (ResultFile v) s)))"

definition result_from_record ::
  "'w exec_env \<Rightarrow> run_record \<Rightarrow> bool \<Rightarrow> 'w exec_state \<Rightarrow> execution_result res" where
  "result_from_record env r replayed s =
     (let answer = (\<lambda>output. \<lparr>xr_run_id = pc_run_id (rn_context r), xr_pipeline_id = rn_pipeline_id r,
            xr_pipeline_version = rn_pipeline_version r, xr_status = rn_status r,
            xr_attempt = rn_attempt r,
            xr_checkpoint_uri = xv_root env @ ''/'' @ record_name (pc_run_id (rn_context r)),
            xr_output = output, xr_error_code = rn_error_code r, xr_replayed = replayed\<rparr>)
      in if \<not> truthy (rn_result_uri r) then Inr (answer None)
         else
           (let name = result_name (pc_run_id (rn_context r)) in
            case xs_files s name of
              Some f \<Rightarrow>
                if rn_result_uri r \<noteq> Some (xv_root env @ ''/'' @ name) then
                  Inl (Exn PipelineRunIntegrityError ''pipeline result reference is invalid'')
                else if Some (xv_sha_file env f) \<noteq> rn_result_sha256 r then
                  Inl (Exn PipelineRunIntegrityError ''pipeline result hash does not match checkpoint'')
                else (case xv_file_json env f of
                        Inl e \<Rightarrow> Inl e
                      | Inr (JObj ms) \<Rightarrow> Inr (answer (Some (JObj ms)))
                      | Inr _ \<Rightarrow> Inr (answer None))
            | None \<Rightarrow> Inl (Exn PipelineRunIntegrityError ''pipeline result reference is invalid'')))"

definition exec_cancelled :: "int \<Rightarrow> pipeline_context \<Rightarrow> 'w exec_state \<Rightarrow> bool" where
  "exec_cancelled now ctx s \<longleftrightarrow>
     cancellation_requested ctx now \<or> xs_files s (cancel_name (pc_run_id ctx)) \<noteq> None"

definition output_status :: "json \<Rightarrow> run_status res" where
  "output_status v =
     (case v of
        JObj ms \<Rightarrow>
          (case map_of ms ''status'' of
             None \<Rightarrow> Inr RUN_SUCCEEDED
           | Some (JStr raw) \<Rightarrow>
               (case run_status_of raw of
                  Some st \<Rightarrow> Inr st
                | None \<Rightarrow> Inl (Exn ValueError ''pipeline returned an unsupported status''))
           | Some _ \<Rightarrow> Inl (Exn ValueError ''pipeline returned an unsupported status''))
      | _ \<Rightarrow> Inl (Exn AttributeError ''get''))"

definition failure_status :: "exn \<Rightarrow> run_status" where
  "failure_status e =
     (if exn_is e [ExnTimeoutError, ConnectionError] then RUN_RETRYABLE_FAILURE else RUN_TERMINAL_FAILURE)"

section \<open>Cancellation and inspection\<close>

definition request_cancel ::
  "int \<Rightarrow> string \<Rightarrow> string \<Rightarrow> 'w exec_state \<Rightarrow> (string, 'w exec_state) outcome" where
  "request_cancel now run_id actor_id s =
     (if \<not> (is_safe_id run_id \<and> 1 \<le> length actor_id \<and> length actor_id \<le> 300) then
        (Inl (Exn ValidationError ''PipelineContext''), s)
      else
        (let path = cancel_name run_id in
         if xs_files s path \<noteq> None then (Inr path, s)
         else (Inr path, write_file path (CancelFile actor_id now) s)))"

definition exec_load :: "string \<Rightarrow> 'w exec_state \<Rightarrow> run_record res" where
  "exec_load run_id s =
     (case record_path run_id of
        Inl e \<Rightarrow> Inl e
      | Inr path \<Rightarrow>
          (case xs_files s path of
             None \<Rightarrow> Inl (Exn FileNotFoundError ''pipeline run not found'')
           | Some f \<Rightarrow> parse_record f))"

definition exec_inspect :: "'w exec_env \<Rightarrow> string \<Rightarrow> 'w exec_state \<Rightarrow> execution_result res" where
  "exec_inspect env run_id s =
     (case exec_load run_id s of Inl e \<Rightarrow> Inl e | Inr r \<Rightarrow> result_from_record env r False s)"

definition prepare_run ::
  "'w exec_env \<Rightarrow> int \<Rightarrow> string \<Rightarrow> string \<Rightarrow> json \<Rightarrow> pipeline_context \<Rightarrow> 'w exec_state \<Rightarrow>
   (execution_result, 'w exec_state) outcome" where
  "prepare_run env now pipeline_id version payload ctx s =
     seq (pure (validate_request pipeline_id version payload (xv_registry env)) s) (\<lambda>request s.
     seq (pure (record_path (pc_run_id ctx)) s) (\<lambda>path s.
     let existed = (xs_files s path \<noteq> None) in
     seq (exec_prepare now pipeline_id version (xv_sha_json env request) ctx s) (\<lambda>r s.
     pure (result_from_record env r existed s) s)))"

section \<open>Execution\<close>

text \<open>
  The body of the \<open>try\<close>: validate, create, run, validate the output and read its status.
  \<open>cancel_during\<close> is the actor of a cancellation request that another process files while the
  pipeline runs.
\<close>

definition cancel_arrives :: "int \<Rightarrow> string option \<Rightarrow> pipeline_context \<Rightarrow> 'w exec_state \<Rightarrow> 'w exec_state" where
  "cancel_arrives now cancel_during ctx s =
     (case cancel_during of None \<Rightarrow> s | Some actor \<Rightarrow> snd (request_cancel now (pc_run_id ctx) actor s))"

definition run_pipeline ::
  "('w pipeline_binding \<Rightarrow> 'w pipeline_run) \<Rightarrow> 'w exec_env \<Rightarrow> int \<Rightarrow> string \<Rightarrow> string \<Rightarrow> json \<Rightarrow>
   pipeline_context \<Rightarrow> string option \<Rightarrow> 'w exec_state \<Rightarrow> (json \<times> run_status, 'w exec_state) outcome" where
  "run_pipeline entry env now pipeline_id version payload ctx cancel_during s =
     seq (pure (validate_request pipeline_id version payload (xv_registry env)) s) (\<lambda>request s.
     seq (pure (registry_create pipeline_id version (xv_registry env)) s) (\<lambda>b s.
     let (out, w) = entry b request ctx (xs_world s);
         s = cancel_arrives now cancel_during ctx (s\<lparr>xs_world := w\<rparr>)
     in seq (out, s) (\<lambda>output s.
        seq (pure (validate_result pipeline_id version output (xv_registry env)) s) (\<lambda>v s.
        seq (pure (output_status v) s) (\<lambda>status s. (Inr (v, status), s))))))"

definition execute_with ::
  "('w pipeline_binding \<Rightarrow> 'w pipeline_run) \<Rightarrow> 'w exec_env \<Rightarrow> (nat \<Rightarrow> int) \<Rightarrow> string \<Rightarrow> string \<Rightarrow> json \<Rightarrow>
   pipeline_context \<Rightarrow> string option \<Rightarrow> 'w exec_state \<Rightarrow> (execution_result, 'w exec_state) outcome" where
  "execute_with entry env t pipeline_id version payload ctx cancel_during s =
     seq (exec_prepare (t 0) pipeline_id version (xv_sha_json env payload) ctx s) (\<lambda>r s.
     if rn_status r \<in> set TERMINAL_RUN_STATUSES then pure (result_from_record env r True s) s
     else if exec_cancelled (t 1) ctx s then
       (let (r, s) = exec_update (t 2) r RUN_CANCELLED None None None None s
        in pure (result_from_record env r False s) s)
     else
       (let (r, s) = exec_update (t 2) r RUN_RUNNING (Some (rn_attempt r + 1)) None None None s
        in case run_pipeline entry env (t 3) pipeline_id version payload ctx cancel_during s of
             (Inr (v, status), s) \<Rightarrow>
               (let (status, output) =
                      (if exec_cancelled (t 4) ctx s then (RUN_CANCELLED, None) else (status, Some v));
                    (r, s) = store_result env (t 5) r status output s
                in pure (result_from_record env r False s) s)
           | (Inl e, s) \<Rightarrow>
               if is_instance e ExceptionClass then
                 (let (r, s) = exec_update (t 5) r (failure_status e) None None None
                                 (Some (class_name (exn_cls e))) s
                  in pure (result_from_record env r False s) s)
               else (Inl e, s)))"

text \<open>\<open>execute\<close> and \<open>aexecute\<close> hold the lease of the run from the checkpoint to the answer.\<close>

definition execute_run ::
  "'w exec_env \<Rightarrow> (nat \<Rightarrow> int) \<Rightarrow> string \<Rightarrow> string \<Rightarrow> json \<Rightarrow> pipeline_context \<Rightarrow> string option \<Rightarrow>
   'w exec_state \<Rightarrow> (execution_result, 'w exec_state) outcome" where
  "execute_run env t pipeline_id version payload ctx cancel_during s =
     seq (pure (validate_run_id (pc_run_id ctx)) s) (\<lambda>_ s.
     execute_with pb_run env t pipeline_id version payload ctx cancel_during s)"

definition aexecute_run ::
  "'w exec_env \<Rightarrow> (nat \<Rightarrow> int) \<Rightarrow> string \<Rightarrow> string \<Rightarrow> json \<Rightarrow> pipeline_context \<Rightarrow> string option \<Rightarrow>
   'w exec_state \<Rightarrow> (execution_result, 'w exec_state) outcome" where
  "aexecute_run env t pipeline_id version payload ctx cancel_during s =
     seq (pure (validate_run_id (pc_run_id ctx)) s) (\<lambda>_ s.
     execute_with pb_arun env t pipeline_id version payload ctx cancel_during s)"

section \<open>The files of different runs\<close>

text \<open>Ids without a dot keep the files of different runs apart; \<open>SAFE_ID\<close> allows the dot.\<close>

definition dotless :: "string \<Rightarrow> bool" where
  "dotless k \<longleftrightarrow> CHR ''.'' \<notin> set k"

lemma names_inj [simp]:
  "record_name k = record_name j \<longleftrightarrow> k = j" "result_name k = result_name j \<longleftrightarrow> k = j"
  "cancel_name k = cancel_name j \<longleftrightarrow> k = j"
  by (simp_all add: record_name_def result_name_def cancel_name_def)

lemma result_is_record: "result_name k = record_name (k @ ''.result'')"
  by (simp add: record_name_def result_name_def)

lemma cancel_is_record: "cancel_name k = record_name (k @ ''.cancel'')"
  by (simp add: record_name_def cancel_name_def)

lemma result_not_cancel [simp]: "result_name k \<noteq> cancel_name j" "cancel_name j \<noteq> result_name k"
proof -
  have "rev (result_name k) \<noteq> rev (cancel_name j)"
    by (simp add: result_name_def cancel_name_def)
  then show "result_name k \<noteq> cancel_name j" "cancel_name j \<noteq> result_name k" by auto
qed

lemma names_apart [simp]:
  assumes "dotless j"
  shows "record_name j \<noteq> result_name k" "record_name j \<noteq> cancel_name k"
  using assms by (auto simp: result_is_record cancel_is_record dotless_def)

definition run_names :: "string \<Rightarrow> string set" where
  "run_names k = {record_name k, result_name k, cancel_name k}"

text \<open>An operation on run \<open>k\<close> touches no file but the three of \<open>k\<close>.\<close>

definition touches_only :: "string \<Rightarrow> 'w exec_state \<Rightarrow> 'w exec_state \<Rightarrow> bool" where
  "touches_only k s s' \<longleftrightarrow> (\<forall>path. path \<notin> run_names k \<longrightarrow> xs_files s' path = xs_files s path)"

lemma touches_refl [simp]: "touches_only k s s"
  by (simp add: touches_only_def)

lemma touches_trans: "touches_only k s s' \<Longrightarrow> touches_only k s' s'' \<Longrightarrow> touches_only k s s''"
  by (simp add: touches_only_def)

lemma touches_world [simp]:
  "touches_only k s (s'\<lparr>xs_world := w\<rparr>) = touches_only k s s'"
  by (simp add: touches_only_def)

lemma touches_write [simp]:
  "path \<in> run_names k \<Longrightarrow> touches_only k s s' \<Longrightarrow> touches_only k s (write_file path f s')"
  by (auto simp: touches_only_def write_file_def)

lemma in_run_names [simp]:
  "record_name k \<in> run_names k" "result_name k \<in> run_names k" "cancel_name k \<in> run_names k"
  by (simp_all add: run_names_def)

lemma exec_update_touches:
  "touches_only (pc_run_id (rn_context r)) s s1 \<Longrightarrow>
   exec_update now r st a u h e s1 = (r', s') \<Longrightarrow> touches_only (pc_run_id (rn_context r)) s s' \<and>
   rn_context r' = rn_context r"
  by (auto simp: exec_update_def Let_def)

lemma exec_prepare_touches:
  "touches_only (pc_run_id ctx) s (snd (exec_prepare now pid v sha ctx s))"
  by (auto simp: exec_prepare_def pure_def record_path_def validate_run_id_def seq_def Let_def
      split: option.split sum.split)

lemma request_cancel_touches: "touches_only k s (snd (request_cancel now k actor s))"
  by (simp add: request_cancel_def Let_def)

lemma exec_prepare_Inr:
  "exec_prepare now pid v sha ctx s = (Inr r, s') \<Longrightarrow>
   same_run pid v sha ctx r \<and> is_safe_id (pc_run_id ctx)"
  by (auto simp: exec_prepare_def outcome_simps record_path_def validate_run_id_def same_run_def Let_def
      split: option.splits if_splits)


text \<open>A checkpoint names the run whose file it is in.\<close>

definition filed :: "'w exec_state \<Rightarrow> bool" where
  "filed s \<longleftrightarrow> (\<forall>k r. xs_files s (record_name k) = Some (RunFile r) \<longrightarrow> pc_run_id (rn_context r) = k)"

lemma filed_write:
  "filed s \<Longrightarrow> (\<And>k r. path = record_name k \<Longrightarrow> f = RunFile r \<Longrightarrow> pc_run_id (rn_context r) = k) \<Longrightarrow>
   filed (write_file path f s)"
  by (auto simp: filed_def write_file_def)

lemma filed_world [simp]: "filed (s\<lparr>xs_world := w\<rparr>) = filed s"
  by (simp add: filed_def)

text \<open>Steps on run \<open>k\<close> that keep all this.\<close>

definition own_step :: "string \<Rightarrow> 'w exec_state \<Rightarrow> 'w exec_state \<Rightarrow> bool" where
  "own_step k s s' \<longleftrightarrow> touches_only k s s' \<and> (filed s \<longrightarrow> filed s')"

lemma own_step_refl [simp]: "own_step k s s"
  by (simp add: own_step_def)

lemma own_step_trans [trans]: "own_step k s s' \<Longrightarrow> own_step k s' s'' \<Longrightarrow> own_step k s s''"
  using touches_trans by (auto simp: own_step_def)

lemma own_step_world [simp]: "own_step k s (s'\<lparr>xs_world := w\<rparr>) = own_step k s s'"
  by (simp add: own_step_def)

lemma own_update:
  assumes "pc_run_id (rn_context r) = k"
  shows "own_step k s (snd (exec_update now r st a u h e s))"
    and "pc_run_id (rn_context (fst (exec_update now r st a u h e s))) = k"
  using assms by (auto simp: exec_update_def Let_def own_step_def intro: filed_write)

lemma own_store:
  assumes "pc_run_id (rn_context r) = k"
  shows "own_step k s (snd (store_result env now r st out s))"
proof (cases out)
  case (Some v)
  have "own_step k s (write_file (result_name k) (ResultFile v) s)"
    by (auto simp: own_step_def intro: filed_write)
  from own_step_trans [OF this own_update(1) [OF assms]] show ?thesis
    using assms Some by (simp add: store_result_def Let_def)
qed (simp add: store_result_def own_update(1) [OF assms])

lemma own_prepare: "own_step (pc_run_id ctx) s (snd (exec_prepare now pid v sha ctx s))"
proof (cases "is_safe_id (pc_run_id ctx) \<and> xs_files s (record_name (pc_run_id ctx)) = None")
  case True
  then show ?thesis
    by (simp add: exec_prepare_def record_path_def validate_run_id_def Let_def own_step_def)
       (auto intro: filed_write)
next
  case False
  then have "snd (exec_prepare now pid v sha ctx s) = s"
    by (auto simp: exec_prepare_def record_path_def validate_run_id_def pure_def seq_def
        split: sum.split option.split)
  then show ?thesis by simp
qed

lemma own_cancel: "own_step k s (snd (request_cancel now k actor s))"
  by (auto simp: request_cancel_def Let_def own_step_def intro!: filed_write)

lemma own_arrives: "own_step (pc_run_id ctx) s (cancel_arrives now c ctx s)"
  by (simp add: cancel_arrives_def own_cancel split: option.split)

lemma own_run_pipeline:
  "own_step (pc_run_id ctx) s (snd (run_pipeline entry env now pid v payload ctx c s))"
proof -
  let ?Q = "own_step (pc_run_id ctx) s"
  show ?thesis
    unfolding run_pipeline_def
    by (intro seq_keeps [where Q = ?Q])
       (auto simp: Let_def split: prod.split
         intro!: seq_keeps [where Q = ?Q] own_step_trans [OF _ own_arrives])
qed

lemma prepared_run_id:
  assumes "exec_prepare now pid v sha ctx s = (Inr r, s')" and "filed s"
  shows "pc_run_id (rn_context r) = pc_run_id ctx"
proof (cases "xs_files s (record_name (pc_run_id ctx))")
  case None
  with assms(1) show ?thesis
    by (auto simp: exec_prepare_def record_path_def validate_run_id_def Let_def split: if_splits)
next
  case (Some f)
  with assms(1) have "parse_record f = Inr r"
    by (auto simp: exec_prepare_def record_path_def validate_run_id_def outcome_simps split: if_splits)
  then have "f = RunFile r" by (auto simp: parse_record_def split: run_file.splits if_splits)
  with Some assms(2) show ?thesis by (simp add: filed_def)
qed

lemma own_execute:
  assumes "filed s"
  shows "own_step (pc_run_id ctx) s (snd (execute_with entry env t pid v payload ctx c s))"
proof -
  let ?k = "pc_run_id ctx"
  obtain x s1 where prep: "exec_prepare (t 0) pid v (xv_sha_json env payload) ctx s = (x, s1)" by fastforce
  have own1: "own_step ?k s s1" using own_prepare [of ctx s "t 0" pid v] prep by (metis snd_conv)
  show ?thesis
  proof (cases x)
    case (Inl e)
    with prep own1 show ?thesis by (simp add: execute_with_def)
  next
    case (Inr r)
    have id: "pc_run_id (rn_context r) = ?k" using prepared_run_id prep Inr assms by blast
    obtain r2 s2 where c: "exec_update (t 2) r RUN_CANCELLED None None None None s1 = (r2, s2)" by fastforce
    have own2: "own_step ?k s s2" using own_step_trans [OF own1 own_update(1) [OF id]] c by (metis snd_conv)
    obtain r3 s3 where u: "exec_update (t 2) r RUN_RUNNING (Some (rn_attempt r + 1)) None None None s1 = (r3, s3)"
      by fastforce
    have own3: "own_step ?k s s3" using own_step_trans [OF own1 own_update(1) [OF id]] u by (metis snd_conv)
    have id3: "pc_run_id (rn_context r3) = ?k" using own_update(2) [OF id] u by (metis fst_conv)
    obtain y s4 where run: "run_pipeline entry env (t 3) pid v payload ctx c s3 = (y, s4)" by fastforce
    have own4: "own_step ?k s s4" using own_step_trans [OF own3 own_run_pipeline] run by (metis snd_conv)
    have fin: "own_step ?k s (snd (store_result env n r3 st out s4))"
      "own_step ?k s (snd (exec_update n r3 st a u' h e s4))" for n st out a u' h e
      using own_step_trans [OF own4 own_store [OF id3]] own_step_trans [OF own4 own_update(1) [OF id3]]
      by blast+
    show ?thesis
      using prep Inr own1 c own2 u run own4 fin
      by (auto simp: execute_with_def Let_def split: prod.split sum.split) (metis snd_conv)+
  qed
qed

section \<open>Sequences of operations\<close>

inductive exec_step :: "'w exec_env \<Rightarrow> 'w exec_state \<Rightarrow> 'w exec_state \<Rightarrow> bool" for env :: "'w exec_env" where
  executes: "execute_run env t pid v payload ctx c s = (x, s') \<Longrightarrow> dotless (pc_run_id ctx) \<Longrightarrow> exec_step env s s'"
| aexecutes: "aexecute_run env t pid v payload ctx c s = (x, s') \<Longrightarrow> dotless (pc_run_id ctx) \<Longrightarrow> exec_step env s s'"
| prepares: "prepare_run env now pid v payload ctx s = (y, s') \<Longrightarrow> dotless (pc_run_id ctx) \<Longrightarrow> exec_step env s s'"
| cancels: "request_cancel now k actor s = (z, s') \<Longrightarrow> dotless k \<Longrightarrow> exec_step env s s'"
| elsewhere: "exec_step env s (s\<lparr>xs_world := w\<rparr>)"

definition same_run_files :: "string \<Rightarrow> 'w exec_state \<Rightarrow> 'w exec_state \<Rightarrow> bool" where
  "same_run_files j s s' \<longleftrightarrow> xs_files s' (record_name j) = xs_files s (record_name j) \<and>
     xs_files s' (result_name j) = xs_files s (result_name j)"

lemma same_run_files_refl [simp]: "same_run_files j s s"
  by (simp add: same_run_files_def)

lemma touches_other:
  assumes "touches_only k s s'" "dotless j" "dotless k" "k \<noteq> j"
  shows "same_run_files j s s'"
proof -
  have "record_name j \<notin> run_names k" "result_name j \<notin> run_names k"
    using assms(2-4) names_apart(1) [OF assms(3), of j, symmetric] by (auto simp: run_names_def)
  with assms(1) show ?thesis by (simp add: touches_only_def same_run_files_def)
qed

lemma terminal_execute:
  assumes load: "exec_load j s = Inr r" and final': "rn_status r \<in> set TERMINAL_RUN_STATUSES"
    and j: "pc_run_id ctx = j"
  shows "execute_with entry env t pid v payload ctx c s =
    (if same_run pid v (xv_sha_json env payload) ctx r then (result_from_record env r True s, s)
     else (Inl (Exn PipelineRunConflictError ''run ID was reused for a different pipeline or request''), s))"
proof -
  obtain f where f: "is_safe_id j" "xs_files s (record_name j) = Some f" "parse_record f = Inr r"
    using load by (auto simp: exec_load_def record_path_def validate_run_id_def split: if_splits option.splits)
  have "exec_prepare (t 0) pid v (xv_sha_json env payload) ctx s =
    (if same_run pid v (xv_sha_json env payload) ctx r then (Inr r, s)
     else (Inl (Exn PipelineRunConflictError ''run ID was reused for a different pipeline or request''), s))"
    using f j by (simp add: exec_prepare_def record_path_def validate_run_id_def)
  with final' show ?thesis by (simp add: execute_with_def pure_def)
qed

lemma prepare_keeps_files:
  assumes "exec_load j s = Inr r" "pc_run_id ctx = j"
  shows "snd (prepare_run env now pid v payload ctx s) = s"
proof -
  obtain f where f: "is_safe_id j" "xs_files s (record_name j) = Some f" "parse_record f = Inr r"
    using assms(1) by (auto simp: exec_load_def record_path_def validate_run_id_def split: if_splits option.splits)
  show ?thesis
    using f assms(2)
    by (cases "validate_request pid v payload (xv_registry env)")
       (simp_all add: prepare_run_def exec_prepare_def record_path_def validate_run_id_def Let_def)
qed

lemma prepare_run_own: "own_step (pc_run_id ctx) s (snd (prepare_run env now pid v payload ctx s))"
proof -
  let ?Q = "own_step (pc_run_id ctx) s"
  show ?thesis
    unfolding prepare_run_def Let_def
    by (intro seq_keeps [where Q = ?Q]) (auto intro: own_step_trans [OF _ own_prepare])
qed

lemma execute_run_own:
  assumes "filed s"
  shows "own_step (pc_run_id ctx) s (snd (execute_run env t pid v payload ctx c s))"
    and "own_step (pc_run_id ctx) s (snd (aexecute_run env t pid v payload ctx c s))"
  using own_execute [OF assms]
  by (simp_all add: execute_run_def aexecute_run_def validate_run_id_def)

lemma exec_step_keeps:
  assumes "exec_step env s s'" and "filed s" and load: "exec_load j s = Inr r"
    and final': "rn_status r \<in> set TERMINAL_RUN_STATUSES" and j: "dotless j"
  shows "same_run_files j s s' \<and> filed s'"
  using assms(1,2)
proof (cases rule: exec_step.cases)
  case (executes t pid v payload ctx c x)
  have s': "s' = snd (execute_run env t pid v payload ctx c s)" using executes by simp
  have own: "own_step (pc_run_id ctx) s s'" using execute_run_own(1) [OF assms(2)] s' by metis
  show ?thesis
  proof (cases "pc_run_id ctx = j")
    case True
    have "s' = s" using terminal_execute [OF load final' True] s'
      by (simp add: execute_run_def validate_run_id_def)
    with assms(2) show ?thesis by simp
  qed (use own touches_other j executes(2) assms(2) in \<open>auto simp: own_step_def\<close>)
next
  case (aexecutes t pid v payload ctx c x)
  have s': "s' = snd (aexecute_run env t pid v payload ctx c s)" using aexecutes by simp
  have own: "own_step (pc_run_id ctx) s s'" using execute_run_own(2) [OF assms(2)] s' by metis
  show ?thesis
  proof (cases "pc_run_id ctx = j")
    case True
    have "s' = s" using terminal_execute [OF load final' True] s'
      by (simp add: aexecute_run_def validate_run_id_def)
    with assms(2) show ?thesis by simp
  qed (use own touches_other j aexecutes(2) assms(2) in \<open>auto simp: own_step_def\<close>)
next
  case (prepares now pid v payload ctx y)
  have s': "s' = snd (prepare_run env now pid v payload ctx s)" using prepares by simp
  have own: "own_step (pc_run_id ctx) s s'" using prepare_run_own s' by metis
  show ?thesis
  proof (cases "pc_run_id ctx = j")
    case True
    with prepare_keeps_files [OF load] s' assms(2) show ?thesis by simp
  qed (use own touches_other j prepares(2) assms(2) in \<open>auto simp: own_step_def\<close>)
next
  case (cancels now k actor z)
  have s': "s' = snd (request_cancel now k actor s)" using cancels by simp
  have "same_run_files j s s'"
    using s' j by (auto simp: request_cancel_def Let_def same_run_files_def write_file_def)
  moreover have "own_step k s s'" using own_cancel s' by metis
  ultimately show ?thesis using assms(2) by (simp add: own_step_def)
next
  case (elsewhere w)
  with assms(2) show ?thesis by (simp add: same_run_files_def)
qed

lemma same_files_load:
  "same_run_files j s s' \<Longrightarrow> exec_load j s = Inr r \<Longrightarrow> exec_load j s' = Inr r"
  by (auto simp: same_run_files_def exec_load_def record_path_def validate_run_id_def
      split: if_splits option.splits)

lemma exec_run_keeps:
  assumes "(exec_step env)\<^sup>*\<^sup>* s s'" and "filed s" and "exec_load j s = Inr r"
    and "rn_status r \<in> set TERMINAL_RUN_STATUSES" and "dotless j"
  shows "same_run_files j s s' \<and> filed s'"
  using assms(1)
proof (induction rule: rtranclp_induct)
  case (step y z)
  then have "same_run_files j s y" "filed y" by auto
  with exec_step_keeps [OF step(2) this(2) same_files_load [OF this(1) assms(3)] assms(4,5)]
  show ?case by (simp add: same_run_files_def)
qed (use assms(2) in simp)

section \<open>Properties\<close>

text \<open>
  C9. A finished run stays finished, as far as run ids without a dot go: once the checkpoint of a run whose id has no
  dot is terminal, whatever is executed, prepared or cancelled afterwards on runs whose ids have no dot either, the
  checkpoint still loads, and executing the run again with the same request answers from the checkpoint, marked as a
  replay, exactly as it would have answered at first; no file and nothing of the world changes.  With dots this is
  not so, although \<open>SAFE_ID\<close> allows them: the checkpoint of a run \<open>k.result\<close> is the result file of the run \<open>k\<close>.
\<close>

theorem terminal_runs_are_final:
  assumes "(exec_step env)\<^sup>*\<^sup>* s s'" and "filed s" and "exec_load j s = Inr r"
    and "rn_status r \<in> set TERMINAL_RUN_STATUSES" and "dotless j"
    and "pc_run_id ctx = j" and "same_run pid v (xv_sha_json env payload) ctx r"
  shows "exec_load j s' = Inr r \<and>
    execute_run env t pid v payload ctx c s' = (result_from_record env r True s, s')"
proof -
  have same: "same_run_files j s s'" using exec_run_keeps [OF assms(1-5)] ..
  note load = same_files_load [OF this assms(3)]
  have id: "pc_run_id (rn_context r) = j"
    using assms(2,3)
    by (auto simp: exec_load_def record_path_def validate_run_id_def parse_record_def filed_def
        split: if_splits option.splits run_file.splits)
  have "result_from_record env r True s' = result_from_record env r True s"
    using same id by (simp add: result_from_record_def same_run_files_def)
  moreover have "is_safe_id j" using assms(3)
    by (auto simp: exec_load_def record_path_def validate_run_id_def split: if_splits)
  ultimately show ?thesis
    using terminal_execute [OF load assms(4,6)] assms(6,7) load
    by (simp add: execute_run_def validate_run_id_def)
qed


text \<open>A registry with one pipeline that succeeds, and a context for run \<open>k\<close>.\<close>

definition demo_binding :: "nat pipeline_binding" where
  "demo_binding = \<lparr>pb_factory = Inr (), pb_run = (\<lambda>_ _ n. (Inr (JObj []), n + 1)),
     pb_arun = (\<lambda>_ _ n. (Inr (JObj []), n + 1)), pb_request_type = ''q'', pb_result_type = ''r'',
     pb_request_adapter = Inr, pb_result_adapter = Inr\<rparr>"

definition demo_exec_env :: "nat exec_env" where
  "demo_exec_env = \<lparr>xv_sha_json = (\<lambda>_. demo_sha), xv_sha_file = (\<lambda>_. demo_sha),
     xv_file_json = (\<lambda>f. case f of ResultFile v \<Rightarrow> Inr v | _ \<Rightarrow> Inl (Exn ValueError ''json'')),
     xv_root = ''x'', xv_registry = [((''p'', ''v''), demo_binding)]\<rparr>"

definition demo_run_context :: "string \<Rightarrow> pipeline_context" where
  "demo_run_context k = \<lparr>pc_run_id = k, pc_actor_id = ''a'', pc_actor_role = ''b'',
     pc_idempotency_key = None, pc_expected_revision = None, pc_requested_at = 0,
     pc_deadline_at = None, pc_cancel_requested = False, pc_metadata = []\<rparr>"

definition demo_exec_start :: "nat exec_state" where
  "demo_exec_start = \<lparr>xs_files = Map.empty, xs_world = 0\<rparr>"

definition demo_run_record :: run_record where
  "demo_run_record = \<lparr>rn_context = demo_run_context ''k'', rn_pipeline_id = ''p'',
     rn_pipeline_version = ''v'', rn_request_sha256 = demo_sha, rn_status = RUN_SUCCEEDED,
     rn_prepared_at = 0, rn_updated_at = 0, rn_attempt = 1,
     rn_result_uri = Some (''x/'' @ result_name ''k''), rn_result_sha256 = Some demo_sha,
     rn_error_code = None\<rparr>"

lemma demo_safe_id: "is_safe_id ''k''" "is_safe_id ''k.cancel''"
  by (simp_all add: is_safe_id_def char_class_defs)

definition demo_exec_done :: "nat exec_state" where
  "demo_exec_done = snd (execute_run demo_exec_env (\<lambda>_. 0) ''p'' ''v'' JNull (demo_run_context ''k'') None
     demo_exec_start)"

lemma demo_exec:
  "xs_files demo_exec_done (record_name ''k'') = Some (RunFile demo_run_record)"
  "xs_files demo_exec_done (result_name ''k'') = Some (ResultFile (JObj []))"
  by code_simp+

theorem terminal_runs_are_final_witness:
  "\<exists>x. execute_run demo_exec_env (\<lambda>_. 9) ''p'' ''v'' JNull (demo_run_context ''k'') None demo_exec_done =
     (Inr x, demo_exec_done) \<and> xr_replayed x \<and> xr_output x = Some (JObj [])"
proof -
  have "filed demo_exec_start" by (simp add: filed_def demo_exec_start_def)
  with execute_run_own(1) [OF this] have filed: "filed demo_exec_done"
    unfolding own_step_def demo_exec_done_def by blast
  have load: "exec_load ''k'' demo_exec_done = Inr demo_run_record"
    using demo_safe_id
    by (simp add: exec_load_def record_path_def validate_run_id_def demo_exec parse_record_def
        run_record_valid_def demo_run_record_def demo_run_context_def pipeline_context_valid_def)
  have rest: "rn_status demo_run_record \<in> set TERMINAL_RUN_STATUSES" "dotless ''k''"
    "pc_run_id (demo_run_context ''k'') = ''k''"
    "same_run ''p'' ''v'' (xv_sha_json demo_exec_env JNull) (demo_run_context ''k'') demo_run_record"
    by (simp_all add: demo_run_record_def TERMINAL_RUN_STATUSES_def dotless_def demo_run_context_def
        same_run_def demo_exec_env_def)
  have "\<exists>x. result_from_record demo_exec_env demo_run_record True demo_exec_done = Inr x \<and>
      xr_replayed x \<and> xr_output x = Some (JObj [])"
    using demo_exec(2)
    by (simp add: result_from_record_def Let_def demo_run_record_def demo_run_context_def demo_exec_env_def)
  with terminal_runs_are_final [OF rtranclp.rtrancl_refl filed load rest, of "\<lambda>_. 9" None] show ?thesis
    by auto
qed


text \<open>Whatever the executor answers is what the checkpoint on disk says.\<close>

lemma exec_update_stored:
  assumes "exec_update now r st a u h e s = (r', s')" "pc_run_id (rn_context r) = k"
  shows "xs_files s' (record_name k) = Some (RunFile r')" and "pc_run_id (rn_context r') = k"
    and "xs_world s' = xs_world s"
  using assms by (auto simp: exec_update_def Let_def write_file_def)

lemma store_result_stored:
  assumes "store_result env now r st out s = (r', s')" "pc_run_id (rn_context r) = k"
  shows "xs_files s' (record_name k) = Some (RunFile r')"
  using assms
  by (cases out) (auto simp: store_result_def Let_def exec_update_def write_file_def)

lemma prepared_stored:
  assumes "exec_prepare now pid v sha ctx s = (Inr r, s')"
  shows "xs_files s' (record_name (pc_run_id ctx)) = Some (RunFile r)"
proof (cases "xs_files s (record_name (pc_run_id ctx))")
  case None
  with assms show ?thesis
    by (auto simp: exec_prepare_def record_path_def validate_run_id_def Let_def write_file_def split: if_splits)
next
  case (Some f)
  with assms have "parse_record f = Inr r" "s' = s"
    by (auto simp: exec_prepare_def record_path_def validate_run_id_def outcome_simps split: if_splits)
  with Some show ?thesis by (auto simp: parse_record_def split: run_file.splits if_splits)
qed

lemma execute_answer:
  assumes "execute_with entry env t pid v payload ctx c s = (Inr x, s')" and "filed s"
  shows "\<exists>r b. xs_files s' (record_name (pc_run_id ctx)) = Some (RunFile r) \<and>
    result_from_record env r b s' = Inr x"
proof -
  let ?k = "pc_run_id ctx"
  obtain z s1 where prep: "exec_prepare (t 0) pid v (xv_sha_json env payload) ctx s = (z, s1)" by fastforce
  with assms(1) obtain r where z: "z = Inr r" by (cases z) (auto simp: execute_with_def)
  have id: "pc_run_id (rn_context r) = ?k" using prepared_run_id prep z assms(2) by blast
  obtain r3 s3 where u: "exec_update (t 2) r RUN_RUNNING (Some (rn_attempt r + 1)) None None None s1 = (r3, s3)"
    by fastforce
  note id3 = exec_update_stored(2) [OF u id]
  obtain y s4 where run: "run_pipeline entry env (t 3) pid v payload ctx c s3 = (y, s4)" by fastforce
  show ?thesis
    using assms(1) prep z u run prepared_stored [OF prep [unfolded z]]
    by (auto simp: execute_with_def Let_def pure_def split: prod.splits sum.splits if_splits
        intro: exec_update_stored(1) [OF _ id] exec_update_stored(1) [OF _ id3] store_result_stored [OF _ id3])
qed

text \<open>
  No tampered result is ever handed out: after an execution that answered with an output,
  inspecting the run while its checkpoint is the same either raises or gives that very output,
  whatever has happened to the result file, if no other content has the hash of the stored one.
\<close>

theorem output_survives_or_raises:
  assumes "execute_run env t pid v payload ctx c s = (Inr x, s')" and "filed s"
    and "xr_output x = Some out"
    and "\<forall>f g. xs_files s' (result_name (pc_run_id ctx)) = Some g \<longrightarrow> xv_sha_file env f = xv_sha_file env g \<longrightarrow> f = g"
    and "xs_files s'' (record_name (pc_run_id ctx)) = xs_files s' (record_name (pc_run_id ctx))"
    and "exec_inspect env (pc_run_id ctx) s'' = Inr y"
  shows "xr_output y = Some out"
proof -
  let ?name = "result_name (pc_run_id ctx)"
  have "execute_with pb_run env t pid v payload ctx c s = (Inr x, s')" and safe: "is_safe_id (pc_run_id ctx)"
    using assms(1) by (auto simp: execute_run_def validate_run_id_def split: if_splits)
  from execute_answer [OF this(1) assms(2)] obtain r b where
    r: "xs_files s' (record_name (pc_run_id ctx)) = Some (RunFile r)"
    "result_from_record env r b s' = Inr x" by blast
  have "filed s'" using execute_run_own(1) [OF assms(2), of ctx env t pid v payload c] assms(1,2)
    by (simp add: own_step_def)
  with r(1) have id: "pc_run_id (rn_context r) = pc_run_id ctx" by (simp add: filed_def)
  obtain f where f: "xs_files s' ?name = Some f" "Some (xv_sha_file env f) = rn_result_sha256 r"
    "\<exists>ms. xv_file_json env f = Inr (JObj ms) \<and> out = JObj ms" "truthy (rn_result_uri r)"
    using r(2) assms(3) id
    by (auto simp: result_from_record_def Let_def split: if_splits option.splits sum.splits json.splits)
  have "result_from_record env r False s'' = Inr y"
    using assms(5,6) r(1) safe
    by (auto simp: exec_inspect_def exec_load_def record_path_def validate_run_id_def parse_record_def
        split: if_splits)
  then obtain f'' where f'': "xs_files s'' ?name = Some f''" "Some (xv_sha_file env f'') = rn_result_sha256 r"
    "\<forall>ms. xv_file_json env f'' = Inr (JObj ms) \<longrightarrow> xr_output y = Some (JObj ms)"
    using f(4) id
    by (auto simp: result_from_record_def Let_def split: if_splits option.splits sum.splits json.splits)
  have "xv_sha_file env f'' = xv_sha_file env f" using f(2) f''(2) by (metis option.inject)
  then have "f'' = f" using assms(4) f(1) by blast
  with f(3) f''(3) show ?thesis by blast
qed

text \<open>
  Async is sync: where the pipelines' two entry points agree, \<open>aexecute\<close> does exactly what
  \<open>execute\<close> does, for every request, state and interruption.
\<close>

theorem aexecute_equals_execute:
  assumes "\<forall>b \<in> ran (map_of (xv_registry env)). pb_arun b = pb_run b"
  shows "aexecute_run env t pid v payload ctx c s = execute_run env t pid v payload ctx c s"
proof -
  have eq: "run_pipeline pb_arun env now pid v payload ctx c = run_pipeline pb_run env now pid v payload ctx c"
    for now
  proof (rule ext)
    fix s
    show "run_pipeline pb_arun env now pid v payload ctx c s = run_pipeline pb_run env now pid v payload ctx c s"
  proof (cases "registry_create pid v (xv_registry env)")
    case (Inl e)
    then show ?thesis
      by (cases "validate_request pid v payload (xv_registry env)") (simp_all add: run_pipeline_def)
  next
    case (Inr b)
    then have "pb_arun b = pb_run b"
      using assms by (auto simp: registry_create_def intro: ranI split: option.splits sum.splits)
    with Inr show ?thesis
      by (cases "validate_request pid v payload (xv_registry env)") (simp_all add: run_pipeline_def)
    qed
  qed
  show ?thesis unfolding aexecute_run_def execute_run_def execute_with_def eq by (rule refl)
qed

theorem aexecute_equals_execute_witness:
  "aexecute_run demo_exec_env (\<lambda>_. 0) ''p'' ''v'' JNull (demo_run_context ''k'') None demo_exec_start =
   execute_run demo_exec_env (\<lambda>_. 0) ''p'' ''v'' JNull (demo_run_context ''k'') None demo_exec_start"
  by (rule aexecute_equals_execute) (simp add: demo_exec_env_def demo_binding_def)

text \<open>A run that is cancelled when it is about to start.\<close>

lemma cancelled_run:
  assumes "exec_prepare (t 0) pid v (xv_sha_json env payload) ctx s = (Inr r, s1)"
    and "rn_status r \<notin> set TERMINAL_RUN_STATUSES" and "exec_cancelled (t 1) ctx s1"
  shows "\<exists>x s'. execute_run env t pid v payload ctx c s = (Inr x, s') \<and> xr_status x = RUN_CANCELLED \<and>
    xr_output x = None \<and> xr_attempt x = rn_attempt r \<and> xs_world s' = xs_world s"
proof -
  have safe: "is_safe_id (pc_run_id ctx)" using exec_prepare_Inr [OF assms(1)] by simp
  have w: "xs_world s1 = xs_world s"
    using assms(1)
    by (auto simp: exec_prepare_def record_path_def validate_run_id_def outcome_simps Let_def write_file_def
        split: option.splits if_splits)
  obtain r2 s2 where u: "exec_update (t 2) r RUN_CANCELLED None None None None s1 = (r2, s2)" by fastforce
  then have r2: "rn_status r2 = RUN_CANCELLED" "rn_result_uri r2 = None" "rn_attempt r2 = rn_attempt r"
    "xs_world s2 = xs_world s1"
    by (auto simp: exec_update_def Let_def write_file_def)
  have "execute_run env t pid v payload ctx c s = (result_from_record env r2 False s2, s2)"
    using assms safe u by (simp add: execute_run_def validate_run_id_def execute_with_def pure_def)
  with r2 w show ?thesis by (simp add: result_from_record_def Let_def)
qed

text \<open>
  A cancelled run does not start: with its cancellation on file or its deadline past, a run
  that is not finished is marked cancelled without an output, and the world is left alone.
\<close>

theorem cancelled_run_never_starts:
  assumes "exec_prepare (t 0) pid v (xv_sha_json env payload) ctx s = (Inr r, s1)"
    and "rn_status r \<notin> set TERMINAL_RUN_STATUSES" and "exec_cancelled (t 1) ctx s1"
  shows "\<exists>x s'. execute_run env t pid v payload ctx c s = (Inr x, s') \<and> xr_status x = RUN_CANCELLED \<and>
    xr_output x = None \<and> xr_attempt x = rn_attempt r \<and> xs_world s' = xs_world s"
  using assms by (rule cancelled_run)

text \<open>
  Run ids share one name space with the side files: preparing the run \<open>k.cancel\<close> writes its
  checkpoint where the cancellation request of the run \<open>k\<close> would be, so \<open>k\<close> is cancelled before
  it starts although nobody asked for it.
\<close>

theorem run_id_collision:
  assumes "prepare_run env now pid v payload ctx s = (Inr x, s1)" and "pc_run_id ctx = k @ ''.cancel''"
    and "is_safe_id k" and "xs_files s (record_name k) = None" and "filed s" and "pc_run_id ctx' = k"
  shows "\<exists>y s'. execute_run env t pid' v' payload' ctx' c s1 = (Inr y, s') \<and>
    xr_status y = RUN_CANCELLED \<and> xr_attempt y = 0 \<and> xs_world s' = xs_world s1"
proof -
  obtain request r where p: "exec_prepare now pid v (xv_sha_json env request) ctx s = (Inr r, s1)"
    using assms(1) by (auto simp: prepare_run_def outcome_simps Let_def)
  have "xs_files s1 (cancel_name k) = Some (RunFile r)"
    using prepared_stored [OF p] assms(2) by (simp add: cancel_is_record)
  moreover have k: "xs_files s1 (record_name k) = None"
  proof -
    have "record_name k \<notin> run_names (k @ ''.cancel'')"
    proof -
      have "length k \<noteq> length (k @ ''.cancel'')" "length (record_name k) < length (result_name (k @ ''.cancel''))"
        "length (record_name k) < length (cancel_name (k @ ''.cancel''))"
        by (simp_all add: record_name_def result_name_def cancel_name_def)
      then show ?thesis by (auto simp: run_names_def)
    qed
    then show ?thesis
      using exec_prepare_touches [of ctx s now pid v "xv_sha_json env request"] p assms(2,4)
      by (simp add: touches_only_def)
  qed
  have filed: "filed s1"
    using own_prepare [of ctx s now pid v "xv_sha_json env request"] p assms(5) by (simp add: own_step_def)
  obtain r' s2 where n: "exec_prepare (t 0) pid' v' (xv_sha_json env payload') ctx' s1 = (Inr r', s2)"
    "rn_status r' = RUN_PREPARED" "rn_attempt r' = 0" "xs_files s2 = (xs_files s1)(record_name k \<mapsto> RunFile r')"
    using k assms(3,6)
    by (simp add: exec_prepare_def record_path_def validate_run_id_def Let_def write_file_def)
  have "cancel_name k \<noteq> record_name k" by (simp add: cancel_name_def record_name_def)
  ultimately have "exec_cancelled (t 1) ctx' s2"
    using n(4) assms(6) by (simp add: exec_cancelled_def)
  moreover have "rn_status r' \<notin> set TERMINAL_RUN_STATUSES" using n(2) by (simp add: TERMINAL_RUN_STATUSES_def)
  ultimately show ?thesis using cancelled_run [of t pid' v' env payload' ctx' s1 r' s2 c] n(1,3) by auto
qed


definition strict_exec_env :: "nat exec_env" where
  "strict_exec_env = demo_exec_env\<lparr>xv_sha_file := (\<lambda>f. if f = ResultFile (JObj []) then demo_sha else '''')\<rparr>"

definition strict_exec :: "(execution_result, nat exec_state) outcome" where
  "strict_exec = execute_run strict_exec_env (\<lambda>_. 0) ''p'' ''v'' JNull (demo_run_context ''k'') None demo_exec_start"

lemma strict_exec_facts:
  "(case fst strict_exec of Inl _ \<Rightarrow> None | Inr x \<Rightarrow> Some (xr_output x, xr_status x)) =
     Some (Some (JObj []), RUN_SUCCEEDED)"
  "xs_files (snd strict_exec) (result_name ''k'') = Some (ResultFile (JObj []))"
  "(case exec_inspect strict_exec_env ''k'' (snd strict_exec) of Inl _ \<Rightarrow> None | Inr y \<Rightarrow> Some (xr_attempt y)) =
     Some 1"
  by code_simp+

theorem output_survives_or_raises_witness:
  "\<exists>y. exec_inspect strict_exec_env ''k'' (snd strict_exec) = Inr y \<and> xr_output y = Some (JObj [])"
proof -
  obtain x where x: "execute_run strict_exec_env (\<lambda>_. 0) ''p'' ''v'' JNull (demo_run_context ''k'') None
      demo_exec_start = (Inr x, snd strict_exec)" "xr_output x = Some (JObj [])"
  proof (cases "fst strict_exec")
    case (Inr x)
    then have "strict_exec = (Inr x, snd strict_exec)" by (simp add: prod_eq_iff)
    with that Inr strict_exec_facts(1) show thesis by (simp add: strict_exec_def [symmetric])
  qed (use strict_exec_facts(1) in simp)
  obtain y where y: "exec_inspect strict_exec_env ''k'' (snd strict_exec) = Inr y"
    using strict_exec_facts(3) by (auto split: sum.splits)
  have k: "pc_run_id (demo_run_context ''k'') = ''k''" by (simp add: demo_run_context_def)
  have pre: "\<forall>f g. xs_files (snd strict_exec) (result_name (pc_run_id (demo_run_context ''k''))) = Some g \<longrightarrow>
      xv_sha_file strict_exec_env f = xv_sha_file strict_exec_env g \<longrightarrow> f = g"
    using strict_exec_facts(2) by (auto simp: k strict_exec_env_def demo_sha_def split: if_splits)
  have "filed demo_exec_start" by (simp add: filed_def demo_exec_start_def)
  from output_survives_or_raises [OF x(1) this x(2) pre refl] y k show ?thesis by simp
qed

theorem cancelled_run_never_starts_witness:
  "\<exists>x s'. execute_run demo_exec_env (\<lambda>_. 0) ''p'' ''v'' JNull
     ((demo_run_context ''k'')\<lparr>pc_cancel_requested := True\<rparr>) None demo_exec_start = (Inr x, s') \<and>
     xr_status x = RUN_CANCELLED \<and> xs_world s' = 0"
proof -
  let ?c = "(demo_run_context ''k'')\<lparr>pc_cancel_requested := True\<rparr>"
  have k: "pc_run_id ?c = ''k''" by (simp add: demo_run_context_def)
  obtain r s1 where p: "exec_prepare 0 ''p'' ''v'' (xv_sha_json demo_exec_env JNull) ?c demo_exec_start = (Inr r, s1)"
    "rn_status r = RUN_PREPARED"
    using demo_safe_id(1) k
    by (simp add: exec_prepare_def record_path_def validate_run_id_def Let_def demo_exec_start_def)
  have "exec_cancelled 0 ?c s1" by (simp add: exec_cancelled_def cancellation_requested_def)
  moreover have "rn_status r \<notin> set TERMINAL_RUN_STATUSES" using p(2) by (simp add: TERMINAL_RUN_STATUSES_def)
  ultimately show ?thesis
    using cancelled_run_never_starts [of "\<lambda>_. 0" "''p''" "''v''" demo_exec_env JNull ?c demo_exec_start r s1 None] p(1)
    by (auto simp: demo_exec_start_def)
qed

theorem run_id_collision_witness:
  "\<exists>x s1 y s'. prepare_run demo_exec_env 0 ''p'' ''v'' JNull (demo_run_context ''k.cancel'') demo_exec_start = (Inr x, s1) \<and>
     execute_run demo_exec_env (\<lambda>_. 0) ''p'' ''v'' JNull (demo_run_context ''k'') None s1 = (Inr y, s') \<and>
     xr_status y = RUN_CANCELLED"
proof -
  have k: "pc_run_id (demo_run_context j) = j" for j by (simp add: demo_run_context_def)
  obtain x s1 where p: "prepare_run demo_exec_env 0 ''p'' ''v'' JNull (demo_run_context ''k.cancel'') demo_exec_start =
      (Inr x, s1)"
    using demo_safe_id(2)
    by (simp add: prepare_run_def validate_request_def registry_binding_def demo_exec_env_def demo_binding_def
        exec_prepare_def record_path_def validate_run_id_def Let_def demo_exec_start_def k result_from_record_def
        pure_def)
  have "filed demo_exec_start" by (simp add: filed_def demo_exec_start_def)
  from run_id_collision [OF p _ demo_safe_id(1) _ this k, of "\<lambda>_. 0" "''p''" "''v''" JNull None] p show ?thesis
    by (auto simp: k demo_exec_start_def)
qed

end
