(* ===== verification/JobQueue.thy ===== *)
theory JobQueue
  imports Execution
begin

text \<open>
  \<open>runtime/worker.py\<close>: the durable queue of one host and its worker.  The queue's directory is a
  list of named files.  A lock is held around one file at a time, so what an operation does under one lock is one
  step, and \<open>enqueue\<close>, \<open>claim_next\<close> and \<open>execute_claim\<close> are several: each takes a function \<open>between\<close> of the number of
  the locked section, what other processes do before it.  The properties quantify over interleavings of these
  sections (\<open>queue_run\<close>), and every whole operation is shown to be one.  The steps of the executor on its own files
  are those of \<open>Execution\<close>.  Instants are microseconds.  What \<open>executor.execute\<close>
  does is an argument of \<open>execute_claim\<close>: the executor of \<open>Execution\<close>, or a lease timeout.
\<close>

section \<open>Payloads\<close>

definition MAX_JOB_PAYLOAD_BYTES :: nat where
  "MAX_JOB_PAYLOAD_BYTES = 1024 * 1024"

definition SENSITIVE_PAYLOAD_KEYS :: "string list" where
  "SENSITIVE_PAYLOAD_KEYS = [''access_token'', ''api_key'', ''authorization'', ''credential'',
     ''password'', ''refresh_token'', ''secret'']"

definition is_sensitive_key :: "string \<Rightarrow> bool" where
  "is_sensitive_key k \<longleftrightarrow> casefold k \<in> set SENSITIVE_PAYLOAD_KEYS"

fun sensitive_location :: "json \<Rightarrow> string option"
  and sensitive_member :: "(string \<times> json) list \<Rightarrow> string option"
  and sensitive_item :: "json list \<Rightarrow> string option" where
  "sensitive_location (JObj ms) = sensitive_member ms"
| "sensitive_location (JList vs) = sensitive_item vs"
| "sensitive_location _ = None"
| "sensitive_member [] = None"
| "sensitive_member ((k, v) # ms) =
     (if is_sensitive_key k then Some k
      else (case sensitive_location v of Some found \<Rightarrow> Some found | None \<Rightarrow> sensitive_member ms))"
| "sensitive_item [] = None"
| "sensitive_item (v # vs) =
     (case sensitive_location v of Some found \<Rightarrow> Some found | None \<Rightarrow> sensitive_item vs)"

definition payload_value :: "json \<Rightarrow> (string \<times> json) list res" where
  "payload_value v =
     (case v of JObj ms \<Rightarrow> Inr ms
      | _ \<Rightarrow> Inl (Exn PipelineJobPayloadRejectedError ''queued pipeline payload must be an object''))"

definition validate_payload :: "(json \<Rightarrow> nat) \<Rightarrow> (string \<times> json) list \<Rightarrow> unit res" where
  "validate_payload size_of payload =
     (if MAX_JOB_PAYLOAD_BYTES < size_of (JObj payload) then
        Inl (Exn PipelineJobPayloadRejectedError ''queued pipeline payload exceeds 1 MiB'')
      else if sensitive_location (JObj payload) \<noteq> None then
        Inl (Exn PipelineJobPayloadRejectedError ''queued pipeline payload contains a forbidden key'')
      else Inr ())"

section \<open>Jobs\<close>

datatype job_status = JOB_QUEUED | JOB_CLAIMED | JOB_COMPLETED | JOB_EXHAUSTED | JOB_BLOCKED

definition FINAL_JOB_STATUSES :: "job_status list" where
  "FINAL_JOB_STATUSES = [JOB_COMPLETED, JOB_EXHAUSTED, JOB_BLOCKED]"

record job_record =
  jb_run_id :: string
  jb_pipeline_id :: string
  jb_pipeline_version :: string
  jb_request_sha256 :: string
  jb_payload :: "(string \<times> json) list"
  jb_context :: pipeline_context
  jb_status :: job_status
  jb_queued_at :: int
  jb_updated_at :: int
  jb_available_at :: int
  jb_max_attempts :: nat
  jb_claim_id :: "string option"
  jb_worker_id :: "string option"
  jb_lease_expires_at :: "int option"
  jb_final_run_status :: "run_status option"
  jb_error_code :: "string option"

text \<open>The field constraints and \<open>validate_claim_and_time\<close>.\<close>

definition job_record_valid :: "job_record \<Rightarrow> bool" where
  "job_record_valid j \<longleftrightarrow>
     is_safe_id (jb_run_id j) \<and> is_safe_id (jb_pipeline_id j) \<and> is_safe_id (jb_pipeline_version j) \<and>
     is_sha256 (jb_request_sha256 j) \<and> pipeline_context_valid (jb_context j) \<and>
     1 \<le> jb_max_attempts j \<and> jb_max_attempts j \<le> 20 \<and>
     (if jb_status j = JOB_CLAIMED
      then jb_claim_id j \<noteq> None \<and> jb_worker_id j \<noteq> None \<and> jb_lease_expires_at j \<noteq> None
      else jb_claim_id j = None \<and> jb_worker_id j = None \<and> jb_lease_expires_at j = None) \<and>
     (jb_status j = JOB_COMPLETED \<longrightarrow> jb_final_run_status j \<noteq> None)"

datatype job_file = JobFile job_record | BadJobFile

type_synonym job_dir = "(string \<times> job_file) list"

record 'w queue_env =
  qv_exec :: "'w exec_env"
  qv_json_size :: "json \<Rightarrow> nat"
  qv_max_attempts :: nat
  qv_retry_backoff :: rat

record 'w queue_state =
  qs_jobs :: job_dir
  qs_exec :: "'w exec_state"

definition make_queue :: "'w exec_env \<Rightarrow> (json \<Rightarrow> nat) \<Rightarrow> nat \<Rightarrow> rat \<Rightarrow> 'w queue_env res" where
  "make_queue executor size_of max_attempts retry_backoff_seconds =
     (if \<not> (1 \<le> max_attempts \<and> max_attempts \<le> 20) then
        Inl (Exn ValueError ''max_attempts must be between 1 and 20'')
      else if \<not> (0 \<le> retry_backoff_seconds \<and> retry_backoff_seconds \<le> 300) then
        Inl (Exn ValueError ''retry_backoff_seconds must be between 0 and 300'')
      else Inr \<lparr>qv_exec = executor, qv_json_size = size_of, qv_max_attempts = max_attempts,
                qv_retry_backoff = retry_backoff_seconds\<rparr>)"

definition job_name :: "string \<Rightarrow> string" where
  "job_name run_id = ''job-'' @ run_id @ ''.json''"

definition job_path :: "string \<Rightarrow> string res" where
  "job_path run_id = (case validate_run_id run_id of Inl e \<Rightarrow> Inl e | Inr _ \<Rightarrow> Inr (job_name run_id))"

definition load_job :: "'w queue_env \<Rightarrow> string \<Rightarrow> job_dir \<Rightarrow> job_record res" where
  "load_job env path dir =
     (case map_of dir path of
        Some (JobFile j) \<Rightarrow>
          if \<not> job_record_valid j then Inl (Exn PipelineJobIntegrityError ''pipeline job record is invalid'')
          else if path \<noteq> job_name (jb_run_id j) then
            Inl (Exn PipelineJobIntegrityError ''pipeline job path does not match its run ID'')
          else if xv_sha_json (qv_exec env) (JObj (jb_payload j)) \<noteq> jb_request_sha256 j then
            Inl (Exn PipelineJobIntegrityError ''pipeline job payload hash does not match'')
          else if pc_run_id (jb_context j) \<noteq> jb_run_id j then
            Inl (Exn PipelineJobIntegrityError ''pipeline job context run ID does not match'')
          else (case validate_payload (qv_json_size env) (jb_payload j) of
                  Inl e \<Rightarrow> Inl e | Inr _ \<Rightarrow> Inr j)
      | _ \<Rightarrow> Inl (Exn PipelineJobIntegrityError ''pipeline job record is invalid''))"

definition job_load :: "'w queue_env \<Rightarrow> string \<Rightarrow> job_dir \<Rightarrow> job_record res" where
  "job_load env run_id dir =
     (case job_path run_id of
        Inl e \<Rightarrow> Inl e
      | Inr path \<Rightarrow>
          if map_of dir path = None then Inl (Exn FileNotFoundError ''pipeline job not found'')
          else load_job env path dir)"

definition write_job :: "string \<Rightarrow> job_record \<Rightarrow> job_dir \<Rightarrow> job_dir" where
  "write_job path j dir = dict_set path (JobFile j) dir"

definition verify_identity ::
  "'w queue_env \<Rightarrow> job_record \<Rightarrow> string \<Rightarrow> string \<Rightarrow> string \<Rightarrow> pipeline_context \<Rightarrow> unit res" where
  "verify_identity env j pipeline_id version sha ctx =
     (if jb_pipeline_id j \<noteq> pipeline_id \<or> jb_pipeline_version j \<noteq> version \<or>
         jb_request_sha256 j \<noteq> sha \<or> context_identity (jb_context j) \<noteq> context_identity ctx \<or>
         jb_max_attempts j \<noteq> qv_max_attempts env then
        Inl (Exn PipelineJobConflictError ''run ID was reused for a different queued pipeline or request'')
      else Inr ())"

section \<open>Enqueueing\<close>

definition existing_job ::
  "'w queue_env \<Rightarrow> string \<Rightarrow> string \<Rightarrow> string \<Rightarrow> string \<Rightarrow> pipeline_context \<Rightarrow> 'w queue_state \<Rightarrow>
   (execution_result, 'w queue_state) outcome" where
  "existing_job env path pipeline_id version sha ctx q =
     seq (pure (load_job env path (qs_jobs q)) q) (\<lambda>existing q.
     seq (pure (verify_identity env existing pipeline_id version sha ctx) q) (\<lambda>_ q.
     seq (pure (exec_inspect (qv_exec env) (pc_run_id ctx) (qs_exec q)) q) (\<lambda>x q.
     (Inr (x\<lparr>xr_replayed := True\<rparr>), q))))"

definition queued_job ::
  "'w queue_env \<Rightarrow> int \<Rightarrow> string \<Rightarrow> string \<Rightarrow> string \<Rightarrow> (string \<times> json) list \<Rightarrow> pipeline_context \<Rightarrow>
   execution_result \<Rightarrow> job_record" where
  "queued_job env now pipeline_id version sha payload ctx prepared =
     (let (status, final) =
        (if xr_status prepared \<in> set TERMINAL_RUN_STATUSES then (JOB_COMPLETED, Some (xr_status prepared))
         else if xr_status prepared = RUN_RETRYABLE_FAILURE \<and> qv_max_attempts env \<le> xr_attempt prepared
         then (JOB_EXHAUSTED, None) else (JOB_QUEUED, None))
      in \<lparr>jb_run_id = pc_run_id ctx, jb_pipeline_id = pipeline_id, jb_pipeline_version = version,
          jb_request_sha256 = sha, jb_payload = payload, jb_context = ctx, jb_status = status,
          jb_queued_at = now, jb_updated_at = now, jb_available_at = now,
          jb_max_attempts = qv_max_attempts env, jb_claim_id = None, jb_worker_id = None,
          jb_lease_expires_at = None, jb_final_run_status = final,
          jb_error_code = xr_error_code prepared\<rparr>)"

text \<open>
  An operation locks one job file at a time: \<open>between i\<close> is what other processes do before its \<open>i\<close>-th locked section.
\<close>

type_synonym 'w others = "nat \<Rightarrow> 'w queue_state \<Rightarrow> 'w queue_state"

text \<open>The end of \<open>enqueue\<close>: the candidate, and the second section, which looks again whether the file is there.\<close>

definition enqueue_commit ::
  "'w queue_env \<Rightarrow> int \<Rightarrow> string \<Rightarrow> string \<Rightarrow> string \<Rightarrow> (string \<times> json) list \<Rightarrow> pipeline_context \<Rightarrow> execution_result \<Rightarrow>
   'w queue_state \<Rightarrow> (execution_result, 'w queue_state) outcome" where
  "enqueue_commit env now pipeline_id version sha payload ctx prepared q =
     (if xr_status prepared = RUN_RUNNING then
        (Inl (Exn PipelineJobConflictError ''run is already executing outside the local queue''), q)
      else
        (let candidate = queued_job env now pipeline_id version sha payload ctx prepared; path = job_name (pc_run_id ctx) in
         if \<not> job_record_valid candidate then (Inl (Exn ValidationError ''PipelineJobRecord''), q)
         else if map_of (qs_jobs q) path \<noteq> None then existing_job env path pipeline_id version sha ctx q
         else (Inr prepared, q\<lparr>qs_jobs := write_job path candidate (qs_jobs q)\<rparr>)))"

definition enqueue ::
  "'w queue_env \<Rightarrow> 'w others \<Rightarrow> (nat \<Rightarrow> int) \<Rightarrow> string \<Rightarrow> string \<Rightarrow> json \<Rightarrow> pipeline_context \<Rightarrow> 'w queue_state \<Rightarrow>
   (execution_result, 'w queue_state) outcome" where
  "enqueue env between t pipeline_id version payload ctx q =
     seq (pure (validate_request pipeline_id version payload (xv_registry (qv_exec env))) q) (\<lambda>validated q.
     seq (pure (payload_value validated) q) (\<lambda>value' q.
     seq (pure (validate_payload (qv_json_size env) value') q) (\<lambda>_ q.
     let sha = xv_sha_json (qv_exec env) (JObj value') in
     seq (pure (job_path (pc_run_id ctx)) q) (\<lambda>path q.
     let q = between 0 q in
     if map_of (qs_jobs q) path \<noteq> None then existing_job env path pipeline_id version sha ctx q
     else
       (let q = between 1 q;
            (r, x) = prepare_run (qv_exec env) (t 0) pipeline_id version validated ctx (qs_exec q) in
        seq (r, q\<lparr>qs_exec := x\<rparr>) (\<lambda>prepared q.
        enqueue_commit env (t 1) pipeline_id version sha value' ctx prepared (between 2 q)))))))"

section \<open>Claiming\<close>

definition is_available :: "job_record \<Rightarrow> int \<Rightarrow> bool" where
  "is_available j now \<longleftrightarrow>
     (case jb_status j of
        JOB_QUEUED \<Rightarrow> jb_available_at j \<le> now
      | JOB_CLAIMED \<Rightarrow> (case jb_lease_expires_at j of None \<Rightarrow> False | Some l \<Rightarrow> l \<le> now)
      | _ \<Rightarrow> False)"

definition seconds_us :: "rat \<Rightarrow> int" where
  "seconds_us s = round_half_even (s * 1000000)"

definition is_job_name :: "string \<Rightarrow> bool" where
  "is_job_name n \<longleftrightarrow> starts_with ''job-'' n \<and> starts_with (rev ''.json'') (rev (drop 4 n))"

text \<open>The first loop of \<open>claim_next\<close>, over the sorted files: each is read under its own lock, and one that does not load raises.\<close>

fun claim_scan ::
  "'w queue_env \<Rightarrow> 'w others \<Rightarrow> nat \<Rightarrow> int \<Rightarrow> string list \<Rightarrow> 'w queue_state \<Rightarrow>
   (((int \<times> string) \<times> string) list, 'w queue_state) outcome" where
  "claim_scan env between i now [] q = (Inr [], q)"
| "claim_scan env between i now (path # paths) q =
     (let q = between i q in
      seq (pure (load_job env path (qs_jobs q)) q) (\<lambda>j q.
      seq (claim_scan env between (Suc i) now paths q) (\<lambda>rest q.
      (Inr ((if is_available j now then [((jb_queued_at j, jb_run_id j), path)] else []) @ rest), q))))"

definition claimed_by :: "job_record \<Rightarrow> int \<Rightarrow> string \<Rightarrow> string \<Rightarrow> rat \<Rightarrow> job_record" where
  "claimed_by j now claim_id worker lease_seconds =
     j\<lparr>jb_status := JOB_CLAIMED, jb_updated_at := now, jb_claim_id := Some claim_id,
       jb_worker_id := Some worker, jb_lease_expires_at := Some (now + seconds_us lease_seconds),
       jb_final_run_status := None\<rparr>"

text \<open>
  The second loop: each candidate is read again under its lock, and the first that is still available is claimed.
\<close>

definition claim_path ::
  "'w queue_env \<Rightarrow> int \<Rightarrow> string \<Rightarrow> string \<Rightarrow> rat \<Rightarrow> string \<Rightarrow> 'w queue_state \<Rightarrow>
   (job_record option, 'w queue_state) outcome" where
  "claim_path env now claim_id worker lease_seconds path q =
     seq (pure (load_job env path (qs_jobs q)) q) (\<lambda>j q.
     if \<not> is_available j now then (Inr None, q)
     else (let c = claimed_by j now claim_id worker lease_seconds
           in (Inr (Some c), q\<lparr>qs_jobs := write_job path c (qs_jobs q)\<rparr>)))"

fun claim_from ::
  "'w queue_env \<Rightarrow> 'w others \<Rightarrow> nat \<Rightarrow> int \<Rightarrow> string \<Rightarrow> string \<Rightarrow> rat \<Rightarrow> string list \<Rightarrow> 'w queue_state \<Rightarrow>
   (job_record option, 'w queue_state) outcome" where
  "claim_from env between i now claim_id worker lease_seconds [] q = (Inr None, q)"
| "claim_from env between i now claim_id worker lease_seconds (path # paths) q =
     seq (claim_path env now claim_id worker lease_seconds path (between i q)) (\<lambda>c q.
     case c of
       None \<Rightarrow> claim_from env between (Suc i) now claim_id worker lease_seconds paths q
     | Some c \<Rightarrow> (Inr (Some c), q))"

definition validate_safe_id :: "string \<Rightarrow> unit res" where
  "validate_safe_id v = (if is_safe_id v then Inr () else Inl (Exn ValueError ''must be a safe identifier''))"

text \<open>\<open>sorted(candidates)\<close> orders by \<open>queued_at\<close>, then by \<open>run_id\<close>.\<close>

definition sorted_candidates :: "((int \<times> string) \<times> string) list \<Rightarrow> string list" where
  "sorted_candidates cs = map snd (sort_key (\<lambda>c. fst (fst c)) (sort_key (\<lambda>c. snd (fst c)) cs))"

definition claim_next ::
  "'w queue_env \<Rightarrow> 'w others \<Rightarrow> int \<Rightarrow> string \<Rightarrow> string \<Rightarrow> rat \<Rightarrow> 'w queue_state \<Rightarrow>
   (job_record option, 'w queue_state) outcome" where
  "claim_next env between now claim_id worker lease_seconds q =
     seq (pure (validate_safe_id worker) q) (\<lambda>_ q.
     if \<not> (1 \<le> lease_seconds \<and> lease_seconds \<le> 86400) then
       (Inl (Exn ValueError ''lease_seconds must be between 1 and 86400''), q)
     else
       (let paths = sort (filter is_job_name (map fst (qs_jobs q))) in
        seq (claim_scan env between 0 now paths q) (\<lambda>candidates q.
        claim_from env between (length paths) now claim_id worker lease_seconds (sorted_candidates candidates) q)))"

section \<open>Executing a claim\<close>

definition check_claim ::
  "'w queue_env \<Rightarrow> job_record \<Rightarrow> string \<Rightarrow> int \<Rightarrow> 'w queue_state \<Rightarrow> (job_record, 'w queue_state) outcome" where
  "check_claim env claim worker started_at q =
     seq (pure (validate_safe_id worker) q) (\<lambda>_ q.
     seq (pure (job_path (jb_run_id claim)) q) (\<lambda>path q.
     seq (pure (load_job env path (qs_jobs q)) q) (\<lambda>current q.
     if jb_status current \<noteq> JOB_CLAIMED \<or> jb_claim_id current \<noteq> jb_claim_id claim \<or>
        jb_worker_id current \<noteq> Some worker \<or>
        (case jb_lease_expires_at current of None \<Rightarrow> True | Some l \<Rightarrow> l \<le> started_at) then
       (Inl (Exn PipelineJobClaimError ''worker does not own an active job claim''), q)
     else (Inr current, q))))"

definition release :: "job_record \<Rightarrow> job_status \<Rightarrow> int \<Rightarrow> int \<Rightarrow> job_record" where
  "release j status now available_at =
     j\<lparr>jb_status := status, jb_updated_at := now, jb_available_at := available_at, jb_claim_id := None,
       jb_worker_id := None, jb_lease_expires_at := None\<rparr>"

definition block_claim ::
  "'w queue_env \<Rightarrow> job_record \<Rightarrow> string \<Rightarrow> string \<Rightarrow> int \<Rightarrow> 'w queue_state \<Rightarrow> (unit, 'w queue_state) outcome" where
  "block_claim env claim worker error_code now q =
     seq (pure (job_path (jb_run_id claim)) q) (\<lambda>path q.
     seq (pure (load_job env path (qs_jobs q)) q) (\<lambda>latest q.
     if jb_claim_id latest \<noteq> jb_claim_id claim \<or> jb_worker_id latest \<noteq> Some worker then (Inr (), q)
     else (Inr (), q\<lparr>qs_jobs := write_job path
            ((release latest JOB_BLOCKED now now)\<lparr>jb_error_code := Some error_code\<rparr>) (qs_jobs q)\<rparr>)))"

definition retry_delay :: "rat \<Rightarrow> nat \<Rightarrow> rat" where
  "retry_delay backoff attempt = min (backoff * 2 ^ (attempt - 1)) 300"

definition finished_job :: "'w queue_env \<Rightarrow> job_record \<Rightarrow> execution_result \<Rightarrow> int \<Rightarrow> job_record" where
  "finished_job env j x now =
     (let (status, available_at, final) =
        (if xr_status x = RUN_RETRYABLE_FAILURE then
           (if xr_attempt x < jb_max_attempts j then
              (JOB_QUEUED, now + seconds_us (retry_delay (qv_retry_backoff env) (xr_attempt x)), None)
            else (JOB_EXHAUSTED, now, None))
         else (JOB_COMPLETED, now, Some (xr_status x)))
      in (release j status now available_at)\<lparr>jb_final_run_status := final, jb_error_code := xr_error_code x\<rparr>)"

definition finish_claim ::
  "'w queue_env \<Rightarrow> job_record \<Rightarrow> string \<Rightarrow> execution_result \<Rightarrow> int \<Rightarrow> 'w queue_state \<Rightarrow>
   (execution_result, 'w queue_state) outcome" where
  "finish_claim env current worker x now q =
     seq (pure (job_path (jb_run_id current)) q) (\<lambda>path q.
     seq (pure (load_job env path (qs_jobs q)) q) (\<lambda>latest q.
     if jb_claim_id latest \<noteq> jb_claim_id current \<or> jb_worker_id latest \<noteq> Some worker then
       (Inl (Exn PipelineJobClaimError ''job claim changed while the pipeline was executing''), q)
     else (Inr x, q\<lparr>qs_jobs := write_job path (finished_job env latest x now) (qs_jobs q)\<rparr>)))"

type_synonym 'w executor = "job_record \<Rightarrow> 'w exec_state \<Rightarrow> (execution_result, 'w exec_state) outcome"

definition execute_claim ::
  "'w queue_env \<Rightarrow> 'w executor \<Rightarrow> 'w others \<Rightarrow> (nat \<Rightarrow> int) \<Rightarrow> job_record \<Rightarrow> string \<Rightarrow> 'w queue_state \<Rightarrow>
   (execution_result, 'w queue_state) outcome" where
  "execute_claim env run between t claim worker q =
     seq (check_claim env claim worker (t 0) (between 0 q)) (\<lambda>current q.
     let q = between 1 q; (r, x) = run current (qs_exec q); q = between 2 (q\<lparr>qs_exec := x\<rparr>)
     in case r of
          Inl e \<Rightarrow>
            if is_instance e ExceptionClass then
              (case block_claim env current worker (class_name (exn_cls e)) (t 1) q of
                 (Inl e', q) \<Rightarrow> (Inl e', q) | (Inr _, q) \<Rightarrow> (Inl e, q))
            else (Inl e, q)
        | Inr result \<Rightarrow> finish_claim env current worker result (t 1) q)"

definition local_executor :: "'w queue_env \<Rightarrow> (nat \<Rightarrow> int) \<Rightarrow> string option \<Rightarrow> 'w executor" where
  "local_executor env t cancel_during j =
     execute_run (qv_exec env) t (jb_pipeline_id j) (jb_pipeline_version j) (JObj (jb_payload j))
       (jb_context j) cancel_during"

text \<open>\<open>between True\<close> is for the claim, \<open>between False\<close> for its execution.\<close>

definition run_once ::
  "'w queue_env \<Rightarrow> 'w executor \<Rightarrow> (bool \<Rightarrow> 'w others) \<Rightarrow> (nat \<Rightarrow> int) \<Rightarrow> string \<Rightarrow> string \<Rightarrow> rat \<Rightarrow> 'w queue_state \<Rightarrow>
   (execution_result option, 'w queue_state) outcome" where
  "run_once env run between t claim_id worker lease_seconds q =
     seq (claim_next env (between True) (t 0) claim_id worker lease_seconds q) (\<lambda>claim q.
     case claim of
       None \<Rightarrow> (Inr None, q)
     | Some c \<Rightarrow>
         seq (execute_claim env run (between False) (\<lambda>i. t (i + 1)) c worker q) (\<lambda>x q. (Inr (Some x), q)))"

text \<open>The worker is the queue with a name and a lease.\<close>

record worker =
  wk_worker_id :: string
  wk_lease_seconds :: rat

definition make_worker :: "string \<Rightarrow> rat \<Rightarrow> worker res" where
  "make_worker worker_id lease_seconds =
     (case validate_safe_id worker_id of
        Inl e \<Rightarrow> Inl e | Inr _ \<Rightarrow> Inr \<lparr>wk_worker_id = worker_id, wk_lease_seconds = lease_seconds\<rparr>)"

definition worker_run_once ::
  "'w queue_env \<Rightarrow> 'w executor \<Rightarrow> (bool \<Rightarrow> 'w others) \<Rightarrow> (nat \<Rightarrow> int) \<Rightarrow> string \<Rightarrow> worker \<Rightarrow> 'w queue_state \<Rightarrow>
   (execution_result option, 'w queue_state) outcome" where
  "worker_run_once env run between t claim_id w q =
     run_once env run between t claim_id (wk_worker_id w) (wk_lease_seconds w) q"


section \<open>What a job file that loads says\<close>

definition job_ok :: "'w queue_env \<Rightarrow> string \<Rightarrow> job_record \<Rightarrow> bool" where
  "job_ok env path j \<longleftrightarrow> job_record_valid j \<and> path = job_name (jb_run_id j) \<and>
     xv_sha_json (qv_exec env) (JObj (jb_payload j)) = jb_request_sha256 j \<and>
     pc_run_id (jb_context j) = jb_run_id j \<and>
     validate_payload (qv_json_size env) (jb_payload j) = Inr ()"

lemma load_job_Inr:
  "load_job env path dir = Inr j \<longleftrightarrow> map_of dir path = Some (JobFile j) \<and> job_ok env path j"
  by (auto simp: load_job_def job_ok_def split: option.splits job_file.splits if_splits sum.splits)

lemma job_okD:
  assumes "job_ok env path j"
  shows "path = job_name (jb_run_id j)" "is_safe_id (jb_run_id j)" "job_record_valid j"
  using assms by (simp_all add: job_ok_def job_record_valid_def)

lemma job_path_safe [simp]: "is_safe_id k \<Longrightarrow> job_path k = Inr (job_name k)"
  by (simp add: job_path_def validate_run_id_def)

lemma job_path_Inr: "job_path k = Inr path \<longleftrightarrow> is_safe_id k \<and> path = job_name k"
  by (auto simp: job_path_def validate_run_id_def split: if_splits)

lemma job_name_inj [simp]: "job_name k = job_name k' \<longleftrightarrow> k = k'"
  by (simp add: job_name_def)

lemma is_job_name [simp]: "is_job_name (job_name k)"
  by (simp add: is_job_name_def job_name_def)

lemma map_of_write_job [simp]: "map_of (write_job path j dir) = (map_of dir)(path \<mapsto> JobFile j)"
  by (simp add: write_job_def)

text \<open>The records the queue writes over a job that loads load again.\<close>

lemma job_ok_claimed: "job_ok env path j \<Longrightarrow> job_ok env path (claimed_by j now cid w secs)"
  by (auto simp: job_ok_def job_record_valid_def claimed_by_def)

lemma job_ok_finished: "job_ok env path j \<Longrightarrow> job_ok env path (finished_job env j x now)"
  by (auto simp: job_ok_def job_record_valid_def finished_job_def release_def split: if_splits)

lemma job_ok_blocked:
  "job_ok env path j \<Longrightarrow> job_ok env path ((release j JOB_BLOCKED now now)\<lparr>jb_error_code := e\<rparr>)"
  by (auto simp: job_ok_def job_record_valid_def release_def split: if_splits)

text \<open>Each operation writes at most one file.\<close>

lemma claim_path_writes:
  assumes "claim_path env now cid w secs path q = (r, q')"
  shows "(q' = q \<and> (\<forall>c. r \<noteq> Inr (Some c))) \<or>
    (\<exists>j. load_job env path (qs_jobs q) = Inr j \<and> is_available j now \<and>
       r = Inr (Some (claimed_by j now cid w secs)) \<and>
       q' = q\<lparr>qs_jobs := write_job path (claimed_by j now cid w secs) (qs_jobs q)\<rparr>)"
  using assms
  by (cases "load_job env path (qs_jobs q)") (auto simp: claim_path_def Let_def split: if_splits)

lemma finish_claim_writes:
  assumes "finish_claim env current w x now q = (r, q')"
  shows "(q' = q \<and> (\<exists>e. r = Inl e)) \<or>
    (\<exists>path j. load_job env path (qs_jobs q) = Inr j \<and> path = job_name (jb_run_id current) \<and>
       jb_claim_id j = jb_claim_id current \<and> jb_worker_id j = Some w \<and> r = Inr x \<and>
       q' = q\<lparr>qs_jobs := write_job path (finished_job env j x now) (qs_jobs q)\<rparr>)"
  using assms
  by (cases r) (auto simp: finish_claim_def outcome_simps job_path_Inr split: if_splits)

lemma block_claim_writes:
  assumes "block_claim env current w e now q = (r, q')"
  shows "q' = q \<or>
    (\<exists>path j. load_job env path (qs_jobs q) = Inr j \<and> path = job_name (jb_run_id current) \<and>
       jb_claim_id j = jb_claim_id current \<and> jb_worker_id j = Some w \<and>
       q' = q\<lparr>qs_jobs := write_job path ((release j JOB_BLOCKED now now)\<lparr>jb_error_code := Some e\<rparr>) (qs_jobs q)\<rparr>)"
  using assms
  by (cases r) (auto simp: block_claim_def outcome_simps job_path_Inr split: if_splits)

lemma existing_job_keeps: "existing_job env path pid v sha ctx q = (r, q') \<Longrightarrow> q' = q"
  by (cases r) (auto simp: existing_job_def outcome_simps)

lemma check_claim_keeps: "check_claim env claim w now q = (r, q') \<Longrightarrow> q' = q"
  by (cases r) (auto simp: check_claim_def outcome_simps split: if_splits)

lemma enqueue_commit_writes:
  assumes "enqueue_commit env now pid v (xv_sha_json (qv_exec env) (JObj ms)) ms ctx p q = (r, q')"
    and "validate_payload (qv_json_size env) ms = Inr ()"
  shows "q' = q \<or>
    (\<exists>j. map_of (qs_jobs q) (job_name (pc_run_id ctx)) = None \<and> job_ok env (job_name (pc_run_id ctx)) j \<and>
       jb_status j \<noteq> JOB_CLAIMED \<and> q' = q\<lparr>qs_jobs := write_job (job_name (pc_run_id ctx)) j (qs_jobs q)\<rparr>)"
proof -
  let ?j = "queued_job env now pid v (xv_sha_json (qv_exec env) (JObj ms)) ms ctx p"
  have "jb_status ?j \<noteq> JOB_CLAIMED" by (simp add: queued_job_def)
  moreover have "job_ok env (job_name (pc_run_id ctx)) ?j" if "job_record_valid ?j"
    using that assms(2) by (auto simp: job_ok_def queued_job_def split: if_splits prod.splits)
  ultimately show ?thesis
    using assms(1) by (auto simp: enqueue_commit_def Let_def dest!: existing_job_keeps split: if_splits)
qed


section \<open>Interleaved steps\<close>

text \<open>
  One locked section of any process, with what it carries: a claim its clock, the end of an execution
  the claim it was made for.  A claim may try any file, whatever its process has seen before.  \<open>Working\<close> is anything
  that leaves the queue's directory alone; a section that only reads is no step.
\<close>

datatype queue_act = Enqueueing | Claiming int | Finishing "string option" | Blocking "string option" | Working

inductive queue_step :: "'w queue_env \<Rightarrow> queue_act \<Rightarrow> 'w queue_state \<Rightarrow> 'w queue_state \<Rightarrow> bool"
  for env :: "'w queue_env" where
  enqueues: "enqueue_commit env now pid v (xv_sha_json (qv_exec env) (JObj ms)) ms ctx p q = (x, q') \<Longrightarrow>
    validate_payload (qv_json_size env) ms = Inr () \<Longrightarrow> queue_step env Enqueueing q q'"
| claims: "claim_path env now cid w secs path q = (c, q') \<Longrightarrow> queue_step env (Claiming now) q q'"
| finishes: "finish_claim env j w x now q = (y, q') \<Longrightarrow> queue_step env (Finishing (jb_claim_id j)) q q'"
| blocks: "block_claim env j w e now q = (z, q') \<Longrightarrow> queue_step env (Blocking (jb_claim_id j)) q q'"
| works: "queue_step env Working q (q\<lparr>qs_exec := x\<rparr>)"

inductive_cases enqueuing_step: "queue_step env Enqueueing q q'"

inductive queue_run :: "'w queue_env \<Rightarrow> (queue_act \<Rightarrow> bool) \<Rightarrow> 'w queue_state \<Rightarrow> 'w queue_state \<Rightarrow> bool"
  for env :: "'w queue_env" and P :: "queue_act \<Rightarrow> bool" where
  run_none: "queue_run env P q q"
| run_step: "queue_run env P q q' \<Longrightarrow> queue_step env a q' q'' \<Longrightarrow> P a \<Longrightarrow> queue_run env P q q''"

text \<open>What a step does to the directory: nothing, or one file.\<close>

inductive job_write :: "'w queue_env \<Rightarrow> queue_act \<Rightarrow> job_dir \<Rightarrow> job_dir \<Rightarrow> bool" for env :: "'w queue_env" where
  keep: "job_write env a dir dir"
| add: "map_of dir path = None \<Longrightarrow> job_ok env path j \<Longrightarrow> jb_status j \<noteq> JOB_CLAIMED \<Longrightarrow>
    job_write env Enqueueing dir (write_job path j dir)"
| claim: "load_job env path dir = Inr j \<Longrightarrow> is_available j now \<Longrightarrow>
    job_write env (Claiming now) dir (write_job path (claimed_by j now cid w secs) dir)"
| finish: "load_job env path dir = Inr j \<Longrightarrow>
    job_write env (Finishing (jb_claim_id j)) dir (write_job path (finished_job env j x now) dir)"
| block: "load_job env path dir = Inr j \<Longrightarrow>
    job_write env (Blocking (jb_claim_id j)) dir
      (write_job path ((release j JOB_BLOCKED now now)\<lparr>jb_error_code := Some e\<rparr>) dir)"

lemma queue_step_writes: "queue_step env a q q' \<Longrightarrow> job_write env a (qs_jobs q) (qs_jobs q')"
proof (induction rule: queue_step.induct)
  case (enqueues now pid v ms ctx p q x q')
  from enqueue_commit_writes [OF this] show ?case by (auto intro: job_write.intros)
next
  case (claims now cid w secs path q c q')
  from claim_path_writes [OF this] show ?case by (auto intro: job_write.intros)
next
  case (finishes j w x now q y q')
  from finish_claim_writes [OF this] show ?case
    by (metis job_write.finish job_write.keep queue_state.select_convs(1) queue_state.surjective
        queue_state.update_convs(1))
next
  case (blocks j w e now q z q')
  from block_claim_writes [OF this] show ?case
    by (metis job_write.block job_write.keep queue_state.select_convs(1) queue_state.surjective
        queue_state.update_convs(1))
qed (simp add: job_write.keep)

text \<open>A job that no step of the run may touch is still there.\<close>

lemma job_untouched:
  assumes "job_write env a dir dir'" and "load_job env path dir = Inr j"
    and "\<And>now. a = Claiming now \<Longrightarrow> \<not> is_available j now"
    and "a \<noteq> Finishing (jb_claim_id j)" and "a \<noteq> Blocking (jb_claim_id j)"
  shows "load_job env path dir' = Inr j"
  using assms
  by (cases rule: job_write.cases) (auto simp: load_job_Inr)

lemma job_untouched_run:
  assumes "queue_run env P q q'" and "load_job env path (qs_jobs q) = Inr j"
    and "\<And>now. P (Claiming now) \<Longrightarrow> \<not> is_available j now"
    and "\<not> P (Finishing (jb_claim_id j))" and "\<not> P (Blocking (jb_claim_id j))"
  shows "load_job env path (qs_jobs q') = Inr j"
  using assms(1,2)
proof (induction rule: queue_run.induct)
  case (run_step q q' a q'')
  then show ?case
    using job_untouched [OF queue_step_writes [OF run_step.hyps(2)] run_step.IH [OF run_step.prems]] assms(3-5)
    by blast
qed

text \<open>
  The operations of the queue are such runs: each is a sequence of its own sections and of what others do between them.
\<close>

lemma queue_run_trans [trans]: "queue_run env P q q' \<Longrightarrow> queue_run env P q' q'' \<Longrightarrow> queue_run env P q q''"
  by (rotate_tac, induction rule: queue_run.induct) (auto intro: queue_run.intros)

lemma one_step: "queue_step env a q q' \<Longrightarrow> P a \<Longrightarrow> queue_run env P q q'"
  by (rule run_step [OF run_none])

lemma run_then: "queue_run env P q q' \<Longrightarrow> queue_step env a q' q'' \<Longrightarrow> P a \<Longrightarrow> queue_run env P q q''"
  by (rule run_step)

lemma enqueue_run:
  assumes others: "\<And>i q. queue_run env P q (between i q)" and "P Working" "P Enqueueing"
    and run: "enqueue env between t pid v payload ctx q = (r, q')"
  shows "queue_run env P q q'"
proof -
  consider (raised) e where "r = Inl e" "q' = q"
    | (valid) validated ms where "validate_request pid v payload (xv_registry (qv_exec env)) = Inr validated"
        "payload_value validated = Inr ms" "validate_payload (qv_json_size env) ms = Inr ()" "is_safe_id (pc_run_id ctx)"
    using run
    by (cases "validate_request pid v payload (xv_registry (qv_exec env))"; cases "is_safe_id (pc_run_id ctx)")
      (auto simp: enqueue_def outcome_simps seq_def pure_def job_path_def validate_run_id_def Let_def split: sum.splits)
  then show ?thesis
  proof cases
    case valid
    let ?path = "job_name (pc_run_id ctx)" and ?sha = "xv_sha_json (qv_exec env) (JObj ms)"
    let ?q1 = "between 0 q" and ?q2 = "between 1 (between 0 q)"
    show ?thesis
    proof (cases "map_of (qs_jobs ?q1) ?path")
      case (Some f)
      with run valid have "existing_job env ?path pid v ?sha ctx ?q1 = (r, q')"
        by (simp add: enqueue_def Let_def)
      from existing_job_keeps [OF this] others [of q 0] show ?thesis by simp
    next
      case None
      obtain p x where p: "prepare_run (qv_exec env) (t 0) pid v validated ctx (qs_exec ?q2) = (p, x)" by fastforce
      let ?q3 = "?q2\<lparr>qs_exec := x\<rparr>"
      have q3: "queue_run env P q ?q3"
        using run_step [OF queue_run_trans [OF others others] works] assms(2) by blast
      show ?thesis
      proof (cases p)
        case (Inl e)
        with run valid None p q3 show ?thesis by (simp add: enqueue_def Let_def)
      next
        case (Inr prepared)
        with run valid None p have "enqueue_commit env (t 1) pid v ?sha ms ctx prepared (between 2 ?q3) = (r, q')"
          by (simp add: enqueue_def Let_def)
        from run_step [OF queue_run_trans [OF q3 others] enqueues [OF this valid(3)]] assms(3) show ?thesis by blast
      qed
    qed
  qed (simp add: run_none)
qed

lemma claim_scan_run:
  assumes others: "\<And>i q. queue_run env P q (between i q)"
  shows "claim_scan env between i now paths q = (r, q') \<Longrightarrow> queue_run env P q q'"
proof (induction paths arbitrary: i q r)
  case (Cons path paths)
  show ?case
  proof (cases "load_job env path (qs_jobs (between i q))")
    case (Inl e)
    with Cons.prems others [of q i] show ?thesis by simp
  next
    case (Inr j)
    with Cons.prems obtain z where z: "claim_scan env between (Suc i) now paths (between i q) = (z, q')"
      by (cases "claim_scan env between (Suc i) now paths (between i q)"; cases "fst (claim_scan env between (Suc i) now paths (between i q))")
        auto
    from queue_run_trans [OF others Cons.IH [OF z]] show ?thesis .
  qed
qed (simp add: run_none)

lemma claim_from_run:
  assumes others: "\<And>i q. queue_run env P q (between i q)" and "P (Claiming now)"
  shows "claim_from env between i now cid w secs paths q = (r, q') \<Longrightarrow> queue_run env P q q'"
proof (induction paths arbitrary: i q)
  case (Cons path paths)
  obtain z q1 where z: "claim_path env now cid w secs path (between i q) = (z, q1)" by fastforce
  have q1: "queue_run env P q q1" using run_step [OF others claims [OF z]] assms(2) by blast
  from Cons.prems z consider "q' = q1" | "claim_from env between (Suc i) now cid w secs paths q1 = (r, q')"
    by (cases z) (auto split: option.splits)
  then show ?case
  proof cases
    case 2
    from queue_run_trans [OF q1 Cons.IH [OF this]] show ?thesis .
  qed (use q1 in simp)
qed (simp add: run_none)

lemma claim_next_run:
  assumes others: "\<And>i q. queue_run env P q (between i q)" and "P (Claiming now)"
    and run: "claim_next env between now cid w secs q = (r, q')"
  shows "queue_run env P q q'"
proof -
  let ?paths = "sort (filter is_job_name (map fst (qs_jobs q)))"
  obtain z q1 where z: "claim_scan env between 0 now ?paths q = (z, q1)" by fastforce
  note q1 = claim_scan_run [of env P, OF others z]
  from run z consider "q' = q" | "q' = q1"
    | cs where "claim_from env between (length ?paths) now cid w secs (sorted_candidates cs) q1 = (r, q')"
    by (cases z; cases "validate_safe_id w") (auto simp: claim_next_def Let_def split: if_splits)
  then show ?thesis
  proof cases
    case 3
    from queue_run_trans [OF q1 claim_from_run [of env P, OF others assms(2) 3]] show ?thesis .
  qed (use q1 in \<open>simp_all add: run_none\<close>)
qed

lemma execute_claim_run:
  assumes others: "\<And>i q. queue_run env P q (between i q)"
    and P: "P Working" "P (Finishing (jb_claim_id claim))" "P (Blocking (jb_claim_id claim))"
    and run': "execute_claim env run between t claim w q = (r, q')"
  shows "queue_run env P q q'"
proof (cases "fst (check_claim env claim w (t 0) (between 0 q))")
  case (Inl e)
  with run' have "q' = between 0 q"
    by (cases "check_claim env claim w (t 0) (between 0 q)") (auto simp: execute_claim_def dest: check_claim_keeps)
  then show ?thesis using others by simp
next
  case (Inr current)
  let ?q1 = "between 1 (between 0 q)"
  from Inr have check: "check_claim env claim w (t 0) (between 0 q) = (Inr current, between 0 q)"
    by (metis check_claim_keeps prod.collapse)
  then have id: "jb_claim_id current = jb_claim_id claim"
    by (auto simp: check_claim_def outcome_simps split: if_splits)
  obtain y x where y: "run current (qs_exec ?q1) = (y, x)" by fastforce
  let ?q2 = "between 2 (?q1\<lparr>qs_exec := x\<rparr>)"
  have w: "queue_run env P q ?q2"
    by (rule queue_run_trans [OF run_step [OF queue_run_trans [OF others others] works] others]) (rule P(1))
  show ?thesis
  proof (cases y)
    case (Inr result)
    with run' check y have "finish_claim env current w result (t 1) ?q2 = (r, q')"
      by (simp add: execute_claim_def Let_def)
    from run_step [OF w finishes [OF this]] id P(2) show ?thesis by simp
  next
    case (Inl e)
    obtain z q'' where z: "block_claim env current w (class_name (exn_cls e)) (t 1) ?q2 = (z, q'')"
      by fastforce
    have "q' = q'' \<or> q' = ?q2"
      using run' check y Inl z by (auto simp: execute_claim_def Let_def split: sum.splits if_splits)
    with run_step [OF w blocks [OF z]] w id P(3) show ?thesis by auto
  qed
qed


section \<open>The order of candidates\<close>

lemma hd_lex_sort:
  fixes f :: "'a \<Rightarrow> int" and g :: "'a \<Rightarrow> string"
  assumes "x \<in> set xs" and "h = hd (sort_key f (sort_key g xs))"
  shows "h \<in> set xs" and "f h < f x \<or> f h = f x \<and> g h \<le> g x"
proof -
  let ?ys = "sort_key f (sort_key g xs)"
  have x: "x \<in> set ?ys" using assms(1) by simp
  then obtain hs where ys: "?ys = h # hs" using assms(2) by (cases ?ys) auto
  then have "h \<in> set ?ys" by simp
  then show "h \<in> set xs" by simp
  show "f h < f x \<or> f h = f x \<and> g h \<le> g x"
    using sort_key_lex [of f g xs] x unfolding ys by auto
qed

text \<open>When nobody else is at work, a scan sees one directory.\<close>

lemma claim_scan_quiet:
  assumes "claim_scan env (\<lambda>_ q. q) i now paths q = (Inr cs, q')"
  shows "q' = q \<and> set cs = {((jb_queued_at j, jb_run_id j), path) | j path.
           path \<in> set paths \<and> load_job env path (qs_jobs q) = Inr j \<and> is_available j now}"
  using assms
proof (induction paths arbitrary: cs i)
  case (Cons path paths)
  then obtain j where j: "load_job env path (qs_jobs q) = Inr j" by (cases "load_job env path (qs_jobs q)") auto
  with Cons.prems obtain rest where rest: "claim_scan env (\<lambda>_ q. q) (Suc i) now paths q = (Inr rest, q')"
    "cs = (if is_available j now then [((jb_queued_at j, jb_run_id j), path)] else []) @ rest"
    by (auto simp: outcome_simps)
  from Cons.IH [OF rest(1)] j show ?case by (auto simp: rest(2))
qed simp

lemma sorted_candidates_Cons:
  assumes "cs \<noteq> []"
  shows "\<exists>h \<in> set cs. \<exists>ps. sorted_candidates cs = snd h # ps \<and>
    (\<forall>c \<in> set cs. fst (fst h) < fst (fst c) \<or> fst (fst h) = fst (fst c) \<and> snd (fst h) \<le> snd (fst c))"
proof -
  let ?ys = "sort_key (\<lambda>c. fst (fst c)) (sort_key (\<lambda>c. snd (fst c)) cs)"
  obtain c0 where "c0 \<in> set cs" using assms by (cases cs) auto
  note lex = hd_lex_sort [of _ cs _ "\<lambda>c. fst (fst c)" "\<lambda>c. snd (fst c)", OF _ refl]
  have "?ys \<noteq> []" using assms by (metis set_empty set_sort)
  then have "sorted_candidates cs = snd (hd ?ys) # map snd (tl ?ys)"
    unfolding sorted_candidates_def by (cases ?ys) simp_all
  then show ?thesis using lex(1) [OF \<open>c0 \<in> set cs\<close>] lex(2) by blast
qed

section \<open>Properties\<close>

text \<open>
  The queue is fair by age: a claim that comes back with a job took an available one queued no
  later than any other available job (equal times in the order of the run ids), and wrote only its
  file; a claim that comes back empty found no available job and wrote nothing.
\<close>

theorem claim_takes_oldest:
  assumes "claim_next env (\<lambda>_ q. q) now cid w secs q = (Inr c, q')"
  shows "case c of
      None \<Rightarrow> q' = q \<and> (\<forall>path j. load_job env path (qs_jobs q) = Inr j \<longrightarrow> \<not> is_available j now)
    | Some claimed \<Rightarrow> (\<exists>path j. load_job env path (qs_jobs q) = Inr j \<and> is_available j now \<and>
        claimed = claimed_by j now cid w secs \<and> q' = q\<lparr>qs_jobs := write_job path claimed (qs_jobs q)\<rparr> \<and>
        (\<forall>path' j'. load_job env path' (qs_jobs q) = Inr j' \<and> is_available j' now \<longrightarrow>
          jb_queued_at j < jb_queued_at j' \<or>
          jb_queued_at j = jb_queued_at j' \<and> jb_run_id j \<le> jb_run_id j'))"
proof -
  let ?paths = "sort (filter is_job_name (map fst (qs_jobs q)))"
  obtain cs q1 where cs: "claim_scan env (\<lambda>_ q. q) 0 now ?paths q = (Inr cs, q1)"
    and from'': "claim_from env (\<lambda>_ q. q) (length ?paths) now cid w secs (sorted_candidates cs) q1 = (Inr c, q')"
    using assms by (auto simp: claim_next_def outcome_simps Let_def split: if_splits)
  note in_cs = claim_scan_quiet [OF cs, THEN conjunct2] and same = claim_scan_quiet [OF cs, THEN conjunct1]
  note from' = from'' [unfolded same]
  have names: "path \<in> set ?paths" if "load_job env path (qs_jobs q) = Inr j" for path j
  proof -
    have "path \<in> set (map fst (qs_jobs q))" using that by (force simp: load_job_Inr dest: map_of_SomeD)
    moreover have "is_job_name path" using that by (metis is_job_name job_okD(1) load_job_Inr)
    ultimately show ?thesis by simp
  qed
  show ?thesis
  proof (cases "cs = []")
    case True
    with from' have "c = None" "q' = q" by (auto simp: sorted_candidates_def)
    with in_cs True names show ?thesis by auto
  next
    case False
    then obtain h ps where h: "h \<in> set cs" "sorted_candidates cs = snd h # ps"
      "\<forall>x \<in> set cs. fst (fst h) < fst (fst x) \<or> fst (fst h) = fst (fst x) \<and> snd (fst h) \<le> snd (fst x)"
      using sorted_candidates_Cons by blast
    from h(1) obtain j path where j: "h = ((jb_queued_at j, jb_run_id j), path)"
      "load_job env path (qs_jobs q) = Inr j" "is_available j now" unfolding in_cs by blast
    have least: "jb_queued_at j < jb_queued_at j' \<or> jb_queued_at j = jb_queued_at j' \<and> jb_run_id j \<le> jb_run_id j'"
      if "load_job env path' (qs_jobs q) = Inr j'" "is_available j' now" for path' j'
    proof -
      have "((jb_queued_at j', jb_run_id j'), path') \<in> set cs" unfolding in_cs using that names by blast
      with h(3) j(1) show ?thesis by fastforce
    qed
    have "c = Some (claimed_by j now cid w secs)"
      "q' = q\<lparr>qs_jobs := write_job path (claimed_by j now cid w secs) (qs_jobs q)\<rparr>"
      using from' h(2) j by (auto simp: Let_def claim_path_def)
    with j(2,3) least show ?thesis by auto
  qed
qed

text \<open>The steps that others may take around a claim \<open>cid\<close> that is leased until \<open>lease\<close>.\<close>

definition other_act :: "int \<Rightarrow> string \<Rightarrow> queue_act \<Rightarrow> bool" where
  "other_act lease cid a \<longleftrightarrow>
     (case a of Claiming now \<Rightarrow> now < lease | Finishing c \<Rightarrow> c \<noteq> Some cid | Blocking c \<Rightarrow> c \<noteq> Some cid | _ \<Rightarrow> True)"

text \<open>
  C8. A lease protects its job: between the check of a claim and its end, whatever locked sections other processes
  run, in any interleaving, of enqueueing, claiming before the lease expires, finishing or blocking for claims of
  their own, the job stays as it was and the end of the execution is written over it; nor does a whole
  \<open>claim_next\<close> get it, whose scan may have seen the job before it was claimed, with such sections between its own.
\<close>

theorem lease_protects_job:
  assumes "check_claim env claim w started q = (Inr current, q)"
    and "jb_lease_expires_at current = Some lease" and "jb_claim_id claim = Some cid"
    and "queue_run env (other_act lease cid) q q'"
  shows "load_job env (job_name (jb_run_id claim)) (qs_jobs q') = Inr current \<and>
    (\<forall>between now' cid' w' secs paths i.
       (\<forall>i q. queue_run env (other_act lease cid) q (between i q)) \<and> now' < lease \<longrightarrow>
       load_job env (job_name (jb_run_id claim)) (qs_jobs (snd (claim_next env between now' cid' w' secs q'))) = Inr current \<and>
       load_job env (job_name (jb_run_id claim))
         (qs_jobs (snd (claim_from env between i now' cid' w' secs paths q'))) = Inr current) \<and>
    finish_claim env current w x now q' =
      (Inr x, q'\<lparr>qs_jobs := write_job (job_name (jb_run_id claim)) (finished_job env current x now) (qs_jobs q')\<rparr>)"
proof -
  let ?path = "job_name (jb_run_id claim)"
  have c: "load_job env ?path (qs_jobs q) = Inr current" "jb_status current = JOB_CLAIMED"
    "jb_claim_id current = jb_claim_id claim" "jb_worker_id current = Some w" "is_safe_id (jb_run_id claim)"
    using assms(1) by (auto simp: check_claim_def outcome_simps job_path_Inr split: if_splits)
  have id: "jb_run_id current = jb_run_id claim"
    using c(1) by (auto simp: load_job_Inr job_ok_def)
  have stays: "load_job env ?path (qs_jobs q2) = Inr current" if "queue_run env (other_act lease cid) q q2" for q2
    by (rule job_untouched_run [OF that c(1)])
       (auto simp: c(2,3) assms(2,3) is_available_def other_act_def)
  have "queue_run env (other_act lease cid) q (snd (claim_next env between now' cid' w' secs q'))"
      "queue_run env (other_act lease cid) q (snd (claim_from env between i now' cid' w' secs paths q'))"
    if "\<forall>i q. queue_run env (other_act lease cid) q (between i q)" "now' < lease" for between now' cid' w' secs paths i
  proof -
    have "other_act lease cid (Claiming now')" using that(2) by (simp add: other_act_def)
    moreover have "queue_run env (other_act lease cid) q (between i q)" for i q using that(1) by blast
    ultimately show "queue_run env (other_act lease cid) q (snd (claim_next env between now' cid' w' secs q'))"
        "queue_run env (other_act lease cid) q (snd (claim_from env between i now' cid' w' secs paths q'))"
      by (intro queue_run_trans [OF assms(4)] claim_next_run [where between = between, OF _ _ prod.collapse [symmetric]]
          claim_from_run [where between = between, OF _ _ prod.collapse [symmetric]]; simp)+
  qed
  with stays have "\<forall>between now' cid' w' secs paths i.
       (\<forall>i q. queue_run env (other_act lease cid) q (between i q)) \<and> now' < lease \<longrightarrow>
       load_job env ?path (qs_jobs (snd (claim_next env between now' cid' w' secs q'))) = Inr current \<and>
       load_job env ?path (qs_jobs (snd (claim_from env between i now' cid' w' secs paths q'))) = Inr current"
    by blast
  with c id stays [OF assms(4)] show ?thesis by (simp add: finish_claim_def pure_def)
qed

text \<open>
  Settled jobs stay settled: a job that is completed, exhausted or blocked is never changed and
  never claimed again, whatever is enqueued, claimed at any time, or ended for a claim.
\<close>

theorem settled_jobs_are_final:
  assumes "load_job env path (qs_jobs q) = Inr j" and "jb_status j \<in> set FINAL_JOB_STATUSES"
    and "queue_run env (\<lambda>a. a \<noteq> Finishing None \<and> a \<noteq> Blocking None) q q'"
  shows "load_job env path (qs_jobs q') = Inr j \<and> \<not> is_available j now"
proof -
  have av: "\<not> is_available j now" for now
    using assms(2) by (auto simp: FINAL_JOB_STATUSES_def is_available_def)
  have "jb_claim_id j = None"
    using assms(1,2) by (auto simp: load_job_Inr job_ok_def job_record_valid_def FINAL_JOB_STATUSES_def split: if_splits)
  then show ?thesis using job_untouched_run [OF assms(3,1)] av by auto
qed


text \<open>The keys of a JSON value, at any depth.\<close>

inductive key_in :: "string \<Rightarrow> json \<Rightarrow> bool" where
  here: "(k, v) \<in> set ms \<Longrightarrow> key_in k (JObj ms)"
| member: "(k', v) \<in> set ms \<Longrightarrow> key_in k v \<Longrightarrow> key_in k (JObj ms)"
| item: "v \<in> set vs \<Longrightarrow> key_in k v \<Longrightarrow> key_in k (JList vs)"

inductive_simps key_in_simps [simp]:
  "key_in k JNull" "key_in k (JBool b)" "key_in k (JInt i)" "key_in k (JFloat r)" "key_in k (JStr s)"
  "key_in k (JList vs)" "key_in k (JObj ms)"

lemma no_sensitive_key:
  "sensitive_location v = None \<Longrightarrow> key_in k v \<Longrightarrow> \<not> is_sensitive_key k"
  "sensitive_member ms = None \<Longrightarrow> key_in k (JObj ms) \<Longrightarrow> \<not> is_sensitive_key k"
  "sensitive_item vs = None \<Longrightarrow> key_in k (JList vs) \<Longrightarrow> \<not> is_sensitive_key k"
proof (induction v and ms and vs rule: sensitive_location_sensitive_member_sensitive_item.induct)
  case (5 k' v ms)
  then have none: "\<not> is_sensitive_key k'" "sensitive_location v = None" "sensitive_member ms = None"
    by (auto split: if_splits option.splits)
  from "5.prems"(2) consider "k = k'" | "key_in k v" | "key_in k (JObj ms)" by auto
  then show ?case using "5.IH" none by cases auto
next
  case (7 v vs)
  then have none: "sensitive_location v = None" "sensitive_item vs = None"
    by (auto split: option.splits)
  from "7.prems"(2) consider "key_in k v" | "key_in k (JList vs)" by auto
  then show ?case using "7.IH" none by cases auto
qed simp_all

text \<open>A directory that only the queue has written.\<close>

definition jobs_ok :: "'w queue_env \<Rightarrow> job_dir \<Rightarrow> bool" where
  "jobs_ok env dir \<longleftrightarrow> distinct (map fst dir) \<and>
     (\<forall>(path, f) \<in> set dir. \<exists>j. f = JobFile j \<and> job_ok env path j)"

lemma set_dict_set:
  "distinct (map fst d) \<Longrightarrow> set (dict_set k v d) = insert (k, v) {x \<in> set d. fst x \<noteq> k}"
  by (induction d) (fastforce split: if_splits)+

lemma jobs_ok_write: "jobs_ok env dir \<Longrightarrow> job_ok env path j \<Longrightarrow> jobs_ok env (write_job path j dir)"
  by (auto simp: jobs_ok_def write_job_def distinct_dict_set set_dict_set)

lemma jobs_ok_step: "job_write env a dir dir' \<Longrightarrow> jobs_ok env dir \<Longrightarrow> jobs_ok env dir'"
  by (induction rule: job_write.induct)
     (auto simp: load_job_Inr intro!: jobs_ok_write job_ok_claimed job_ok_finished job_ok_blocked)

lemma jobs_ok_run: "queue_run env P q q' \<Longrightarrow> jobs_ok env (qs_jobs q) \<Longrightarrow> jobs_ok env (qs_jobs q')"
  by (induction rule: queue_run.induct) (blast intro: jobs_ok_step queue_step_writes)+

lemma jobs_ok_load: "jobs_ok env dir \<Longrightarrow> (path, f) \<in> set dir \<Longrightarrow> \<exists>j. load_job env path dir = Inr j"
  by (fastforce simp: jobs_ok_def load_job_Inr)

lemma job_write_keys: "job_write env a dir dir' \<Longrightarrow> fst ` set dir \<subseteq> fst ` set dir'"
  by (induction rule: job_write.induct) (auto simp: write_job_def keys_dict_set)

lemma queue_run_keys: "queue_run env P q q' \<Longrightarrow> fst ` set (qs_jobs q) \<subseteq> fst ` set (qs_jobs q')"
  by (induction rule: queue_run.induct) (blast dest: queue_step_writes job_write_keys)+

text \<open>Whatever others do in between, as the queue does it, a file that was there is there and loads.\<close>

lemma job_there:
  assumes "jobs_ok env (qs_jobs q)" "queue_run env P q q'" "path \<in> fst ` set (qs_jobs q)"
  shows "\<exists>j. load_job env path (qs_jobs q') = Inr j"
proof -
  have "path \<in> fst ` set (qs_jobs q')" using queue_run_keys [OF assms(2)] assms(3) by blast
  then obtain f where "(path, f) \<in> set (qs_jobs q')" by auto
  from jobs_ok_load [OF jobs_ok_run [OF assms(2,1)] this] show ?thesis .
qed

lemma claim_scan_loads:
  assumes others: "\<And>i q. queue_run env P q (between i q)"
  shows "jobs_ok env (qs_jobs q) \<Longrightarrow> set paths \<subseteq> fst ` set (qs_jobs q) \<Longrightarrow>
    \<exists>cs q'. claim_scan env between i now paths q = (Inr cs, q') \<and> snd ` set cs \<subseteq> set paths"
proof (induction paths arbitrary: i q)
  case (Cons path paths)
  have "path \<in> fst ` set (qs_jobs q)" using Cons.prems(2) by simp
  then obtain j where j: "load_job env path (qs_jobs (between i q)) = Inr j"
    using job_there [OF Cons.prems(1) others] by blast
  have "set paths \<subseteq> fst ` set (qs_jobs (between i q))"
    using queue_run_keys [OF others] Cons.prems(2) by fastforce
  from Cons.IH [OF jobs_ok_run [OF others Cons.prems(1)] this, of "Suc i"] j show ?case by fastforce
qed simp

lemma claim_from_loads:
  assumes others: "\<And>i q. queue_run env (\<lambda>_. True) q (between i q)"
  shows "jobs_ok env (qs_jobs q) \<Longrightarrow> set paths \<subseteq> fst ` set (qs_jobs q) \<Longrightarrow>
    \<exists>c. fst (claim_from env between i now cid w secs paths q) = Inr c"
proof (induction paths arbitrary: i q)
  case (Cons path paths)
  have "path \<in> fst ` set (qs_jobs q)" using Cons.prems(2) by simp
  then obtain j where j: "load_job env path (qs_jobs (between i q)) = Inr j"
    using job_there [OF Cons.prems(1) others] by blast
  have "set paths \<subseteq> fst ` set (qs_jobs (between i q))"
    using queue_run_keys [OF others] Cons.prems(2) by fastforce
  from Cons.IH [OF jobs_ok_run [OF others Cons.prems(1)] this, of "Suc i"] j show ?case
    by (auto simp: claim_path_def Let_def)
qed simp

lemma claim_next_locks:
  assumes "is_safe_id w" "1 \<le> secs" "secs \<le> 86400" and "paths = sort (filter is_job_name (map fst (qs_jobs q)))"
    and "claim_scan env between 0 now paths q = (Inr cs, q1)"
  shows "claim_next env between now cid w secs q =
    claim_from env between (length paths) now cid w secs (sorted_candidates cs) q1"
proof -
  have "claim_next env between now cid w secs q =
      seq (claim_scan env between 0 now paths q) (\<lambda>candidates q.
        claim_from env between (length paths) now cid w secs (sorted_candidates candidates) q)"
    using assms(1-3) unfolding claim_next_def Let_def assms(4)
    by (simp add: validate_safe_id_def del: length_sort)
  then show ?thesis by (simp only: assms(5) seq_simps)
qed

lemma claim_next_loads:
  assumes others: "\<And>i q. queue_run env (\<lambda>_. True) q (between i q)"
    and ok: "jobs_ok env (qs_jobs q)" and args: "is_safe_id w" "1 \<le> secs" "secs \<le> 86400"
  shows "\<exists>c. fst (claim_next env between now cid w secs q) = Inr c"
proof -
  define paths where "paths = sort (filter is_job_name (map fst (qs_jobs q)))"
  have keys: "set paths \<subseteq> fst ` set (qs_jobs q)" by (auto simp: paths_def)
  have "\<exists>cs q1. claim_scan env between 0 now paths q = (Inr cs, q1) \<and> snd ` set cs \<subseteq> set paths"
    by (rule claim_scan_loads [OF others ok keys])
  then obtain cs q1 where cs: "claim_scan env between 0 now paths q = (Inr cs, q1)" "snd ` set cs \<subseteq> set paths"
    by (elim exE conjE)
  have run: "queue_run env (\<lambda>_. True) q q1" by (rule claim_scan_run [OF others cs(1)])
  have "set (sorted_candidates cs) = snd ` set cs" by (simp add: sorted_candidates_def)
  also have "\<dots> \<subseteq> fst ` set (qs_jobs q1)"
    by (rule subset_trans [OF cs(2) subset_trans [OF keys queue_run_keys [OF run]]])
  finally have "\<exists>c. fst (claim_from env between (length paths) now cid w secs (sorted_candidates cs) q1) = Inr c"
    by (rule claim_from_loads [OF others jobs_ok_run [OF run ok]])
  then show ?thesis unfolding claim_next_locks [OF args paths_def cs(1)] .
qed

text \<open>
  C12. Every job on disk can be read: starting from an empty directory, whatever is enqueued,
  claimed, finished or blocked in any order, every file of the queue loads, under the name of its
  run, and no payload in it has a key that names a credential, at any depth.  So no claim by a worker
  with a proper name and lease ever fails, whatever other processes do in the queue between its locked sections.
\<close>

theorem stored_jobs_load:
  assumes "queue_run env (\<lambda>_. True) q q'" and "qs_jobs q = []"
  shows "(\<forall>(path, f) \<in> set (qs_jobs q'). \<exists>j. load_job env path (qs_jobs q') = Inr j \<and>
      path = job_name (jb_run_id j) \<and> (\<forall>k. key_in k (JObj (jb_payload j)) \<longrightarrow> \<not> is_sensitive_key k)) \<and>
    (\<forall>w secs now cid between. is_safe_id w \<and> 1 \<le> secs \<and> secs \<le> 86400 \<and>
        (\<forall>i q. queue_run env (\<lambda>_. True) q (between i q)) \<longrightarrow>
      (\<exists>c. fst (claim_next env between now cid w secs q') = Inr c))"
proof -
  have ok: "jobs_ok env (qs_jobs q')"
    using jobs_ok_run [OF assms(1)] assms(2) by (simp add: jobs_ok_def)
  have "path = job_name (jb_run_id j) \<and> (\<forall>k. key_in k (JObj (jb_payload j)) \<longrightarrow> \<not> is_sensitive_key k)"
    if "load_job env path (qs_jobs q') = Inr j" for path j
    using that no_sensitive_key(1) [of "JObj (jb_payload j)"]
    by (auto simp: load_job_Inr job_ok_def validate_payload_def split: if_splits)
  with jobs_ok_load [OF ok] claim_next_loads [OF _ ok] show ?thesis by blast
qed

text \<open>The delay and its rounding.\<close>

lemma retry_delay_le: "retry_delay b n \<le> 300"
  by (simp add: retry_delay_def)

lemma retry_delay_nonneg: "0 \<le> b \<Longrightarrow> 0 \<le> retry_delay b n"
  by (simp add: retry_delay_def)

lemma retry_delay_mono: "0 \<le> b \<Longrightarrow> m \<le> n \<Longrightarrow> retry_delay b m \<le> retry_delay b n"
proof -
  assume "0 \<le> b" "m \<le> n"
  then have "b * 2 ^ (m - 1) \<le> b * 2 ^ (n - 1)"
    by (intro mult_left_mono power_increasing) simp_all
  then show ?thesis by (simp add: retry_delay_def min.coboundedI1)
qed

text \<open>
  Retries back off within bounds: the delay before the next attempt never shrinks as attempts
  are used up, and a job that failed with attempts left is queued again, not before its failure and
  available within five minutes of it.
\<close>

theorem retries_back_off:
  assumes "make_queue executor size_of m b = Inr env" and "xr_status x = RUN_RETRYABLE_FAILURE"
    and "xr_attempt x < jb_max_attempts j" and "attempt \<le> xr_attempt x"
  shows "retry_delay (qv_retry_backoff env) attempt \<le> retry_delay (qv_retry_backoff env) (xr_attempt x) \<and>
    jb_status (finished_job env j x now) = JOB_QUEUED \<and>
    now \<le> jb_available_at (finished_job env j x now) \<and>
    is_available (finished_job env j x now) (now + 300 * 1000000)"
proof -
  have b: "0 \<le> qv_retry_backoff env" using assms(1) by (auto simp: make_queue_def split: if_splits)
  let ?us = "seconds_us (retry_delay (qv_retry_backoff env) (xr_attempt x))"
  have "0 \<le> ?us" unfolding seconds_us_def
    using retry_delay_nonneg [OF b] by (intro round_half_even_nonneg) simp
  moreover have "?us \<le> 300 * 1000000" unfolding seconds_us_def
    using retry_delay_le [of "qv_retry_backoff env" "xr_attempt x"] by (intro round_half_even_le) simp
  ultimately show ?thesis
    using retry_delay_mono [OF b assms(4)] assms(2,3)
    by (simp add: finished_job_def release_def is_available_def)
qed

text \<open>
  A reclaimed job ends blocked although its run succeeds: when a lease expires under a worker
  that still executes, the run's own lock makes the second worker's execution time out, which blocks
  the job for good, and the first worker, whose run then ends well, raises and cannot record it.
\<close>

theorem expired_lease_blocks_job:
  assumes "load_job env (job_name k) (qs_jobs q) = Inr j" and "jb_status j = JOB_CLAIMED"
    and "claim_path env now cid w secs (job_name k) q = (Inr (Some c), qc)"
    and "jb_claim_id j \<noteq> Some cid" and "t 0 < now + seconds_us secs" and "is_safe_id w"
  shows "\<exists>q' b. execute_claim env (\<lambda>_ s. (Inl (Exn FileLockTimeoutError ''timed out acquiring lock''), s))
      (\<lambda>_ q. q) t c w qc = (Inl (Exn FileLockTimeoutError ''timed out acquiring lock''), q') \<and>
    load_job env (job_name k) (qs_jobs q') = Inr b \<and> jb_status b = JOB_BLOCKED \<and>
    finish_claim env j w1 x now' q' =
      (Inl (Exn PipelineJobClaimError ''job claim changed while the pipeline was executing''), q') \<and>
    (\<forall>t. \<not> is_available b t)"
proof -
  let ?dir = "write_job (job_name k) c (qs_jobs q)"
  have c: "c = claimed_by j now cid w secs" "qc = q\<lparr>qs_jobs := ?dir\<rparr>"
    using claim_path_writes [OF assms(3)] assms(1) by auto
  have k: "jb_run_id c = k" using assms(1) by (auto simp: c load_job_Inr job_ok_def claimed_by_def)
  have ok: "job_ok env (job_name k) j" "is_safe_id k" "jb_run_id j = k"
    using assms(1) by (auto simp: load_job_Inr job_ok_def job_record_valid_def)
  have load: "load_job env (job_name k) ?dir = Inr c"
    using job_ok_claimed [OF ok(1)] by (simp add: load_job_Inr c(1))
  have check: "check_claim env c w (t 0) (q\<lparr>qs_jobs := ?dir\<rparr>) = (Inr c, q\<lparr>qs_jobs := ?dir\<rparr>)"
    using load k assms(5,6) ok(2)
    by (simp add: check_claim_def validate_safe_id_def) (simp add: c(1) claimed_by_def)
  let ?b = "(release c JOB_BLOCKED (t 1) (t 1))\<lparr>jb_error_code := Some ''FileLockTimeoutError''\<rparr>"
  let ?q' = "q\<lparr>qs_jobs := write_job (job_name k) ?b ?dir\<rparr>"
  have block: "block_claim env c w ''FileLockTimeoutError'' (t 1) (q\<lparr>qs_jobs := ?dir\<rparr>) = (Inr (), ?q')"
    using load k ok(2) by (simp add: block_claim_def) (simp add: c(1) claimed_by_def)
  have "is_instance (Exn FileLockTimeoutError ''timed out acquiring lock'') ExceptionClass"
    by (simp add: is_instance_Exception)
  with check block have "execute_claim env (\<lambda>_ s. (Inl (Exn FileLockTimeoutError ''timed out acquiring lock''), s))
      (\<lambda>_ q. q) t c w qc = (Inl (Exn FileLockTimeoutError ''timed out acquiring lock''), ?q')"
    by (simp add: execute_claim_def Let_def c(2))
  moreover have b: "load_job env (job_name k) (qs_jobs ?q') = Inr ?b"
    using job_ok_blocked [OF job_ok_claimed [OF ok(1)]] by (simp add: load_job_Inr c(1))
  moreover have "jb_claim_id j \<noteq> None"
    using ok(1) assms(2) by (auto simp: job_ok_def job_record_valid_def)
  then have "finish_claim env j w1 x now' ?q' =
      (Inl (Exn PipelineJobClaimError ''job claim changed while the pipeline was executing''), ?q')"
    using b ok(2,3) by (simp add: finish_claim_def release_def)
  moreover have "jb_status ?b = JOB_BLOCKED" "\<not> is_available ?b t'" for t'
    by (simp_all add: release_def is_available_def)
  ultimately show ?thesis by blast
qed


section \<open>Examples\<close>

definition demo_queue_env :: "nat queue_env" where
  "demo_queue_env = \<lparr>qv_exec = demo_exec_env, qv_json_size = (\<lambda>_. 2), qv_max_attempts = 3, qv_retry_backoff = 1\<rparr>"

definition demo_job :: "string \<Rightarrow> int \<Rightarrow> job_record" where
  "demo_job k n = \<lparr>jb_run_id = k, jb_pipeline_id = ''p'', jb_pipeline_version = ''v'',
     jb_request_sha256 = demo_sha, jb_payload = [], jb_context = demo_run_context k,
     jb_status = JOB_QUEUED, jb_queued_at = n, jb_updated_at = n, jb_available_at = n,
     jb_max_attempts = 3, jb_claim_id = None, jb_worker_id = None, jb_lease_expires_at = None,
     jb_final_run_status = None, jb_error_code = None\<rparr>"

text \<open>Two jobs: \<open>a\<close> was queued after \<open>k\<close>.\<close>

definition demo_dir :: job_dir where
  "demo_dir = [(job_name ''a'', JobFile (demo_job ''a'' 7)), (job_name ''k'', JobFile (demo_job ''k'' 5))]"

definition demo_claim :: job_record where
  "demo_claim = claimed_by (demo_job ''k'' 5) 10 ''c'' ''w'' 60"

definition demo_claimed :: job_dir where
  "demo_claimed = [(job_name ''a'', JobFile (demo_job ''a'' 7)), (job_name ''k'', JobFile demo_claim)]"

lemma demo_job_ok:
  assumes "k = ''a'' \<or> k = ''k''"
  shows "job_ok demo_queue_env (job_name k) (demo_job k n)"
  using assms
  by (auto simp: job_ok_def job_record_valid_def demo_job_def demo_queue_env_def demo_exec_env_def
      validate_payload_def MAX_JOB_PAYLOAD_BYTES_def pipeline_context_valid_def demo_run_context_def
      is_safe_id_def char_class_defs)

lemma demo_safe_workers: "is_safe_id ''w''" "is_safe_id ''u''"
  by (simp_all add: is_safe_id_def char_class_defs)

lemma demo_names: "job_name ''a'' \<noteq> job_name ''k''"
  by simp

lemma demo_seconds: "seconds_us 60 = 60000000"
  by (simp add: seconds_us_def round_half_even_def)

definition demo_queue :: "nat queue_state" where
  "demo_queue = \<lparr>qs_jobs = demo_claimed, qs_exec = demo_exec_start\<rparr>"

lemma demo_claim:
  "jb_lease_expires_at demo_claim = Some 60000010" "jb_claim_id demo_claim = Some ''c''"
  "jb_run_id demo_claim = ''k''" "jb_status demo_claim = JOB_CLAIMED" "jb_worker_id demo_claim = Some ''w''"
  "jb_queued_at demo_claim = 5" "job_ok demo_queue_env (job_name ''k'') demo_claim"
  using job_ok_claimed [OF demo_job_ok [of "''k''" 5], of 10 "''c''" "''w''" 60]
  by (simp_all add: demo_claim_def claimed_by_def demo_job_def demo_seconds)

lemma demo_claim_load: "load_job demo_queue_env (job_name ''k'') (qs_jobs demo_queue) = Inr demo_claim"
  by (simp add: load_job_Inr demo_queue_def demo_claimed_def demo_claim)

lemma demo_checked: "check_claim demo_queue_env demo_claim ''w'' 20 demo_queue = (Inr demo_claim, demo_queue)"
  using demo_safe_id(1) demo_safe_workers(1) demo_claim_load
  by (simp add: check_claim_def validate_safe_id_def demo_claim)

definition demo_waiting :: "nat queue_state" where
  "demo_waiting = \<lparr>qs_jobs = demo_dir, qs_exec = demo_exec_start\<rparr>"

theorem claim_takes_oldest_witness:
  "\<exists>q. claim_next demo_queue_env (\<lambda>_ q. q) 10 ''c'' ''w'' 60 demo_waiting = (Inr (Some demo_claim), q)"
proof -
  have dir: "qs_jobs demo_waiting = demo_dir" by (simp add: demo_waiting_def)
  have loads: "load_job demo_queue_env path (qs_jobs demo_waiting) = Inr j \<longleftrightarrow>
      path = job_name ''a'' \<and> j = demo_job ''a'' 7 \<or> path = job_name ''k'' \<and> j = demo_job ''k'' 5" for path j
    using demo_job_ok unfolding dir by (auto simp: load_job_Inr demo_dir_def)
  have "jobs_ok demo_queue_env (qs_jobs demo_waiting)" using demo_job_ok unfolding dir by (simp add: jobs_ok_def demo_dir_def)
  from claim_next_loads [OF run_none this demo_safe_workers(1), of 60 10 "''c''"] obtain c where
    "fst (claim_next demo_queue_env (\<lambda>_ q. q) 10 ''c'' ''w'' 60 demo_waiting) = Inr c" by auto
  then obtain q' where c: "claim_next demo_queue_env (\<lambda>_ q. q) 10 ''c'' ''w'' 60 demo_waiting = (Inr c, q')"
    by (metis prod.collapse)
  have av: "is_available (demo_job ''k'' 5) 10" by (simp add: is_available_def demo_job_def)
  have k: "load_job demo_queue_env (job_name ''k'') (qs_jobs demo_waiting) = Inr (demo_job ''k'' 5)"
    unfolding loads by blast
  show ?thesis
  proof (cases c)
    case None
    with claim_takes_oldest [OF c] k av show ?thesis by auto
  next
    case (Some claimed)
    from claim_takes_oldest [OF c] obtain path j where j: "load_job demo_queue_env path (qs_jobs demo_waiting) = Inr j"
      "claimed = claimed_by j 10 ''c'' ''w'' 60"
      "\<forall>path' j'. load_job demo_queue_env path' (qs_jobs demo_waiting) = Inr j' \<and> is_available j' 10 \<longrightarrow>
        jb_queued_at j < jb_queued_at j' \<or> jb_queued_at j = jb_queued_at j' \<and> jb_run_id j \<le> jb_run_id j'"
      unfolding Some by auto
    from j(3) [rule_format, OF conjI [OF k av]] have "jb_queued_at j \<le> jb_queued_at (demo_job ''k'' 5)"
      by fastforce
    then have "jb_queued_at j \<le> 5" by (simp add: demo_job_def)
    moreover have "jb_queued_at (demo_job ''a'' 7) = 7" by (simp add: demo_job_def)
    moreover have "j = demo_job ''a'' 7 \<or> j = demo_job ''k'' 5" using j(1) unfolding loads by blast
    ultimately have "j = demo_job ''k'' 5" by fastforce
    with j(2) c Some show ?thesis by (simp add: demo_claim_def)
  qed
qed

text \<open>
  While \<open>w\<close> holds \<open>k\<close>, the worker \<open>u\<close>, which saw both jobs free before, tries \<open>k\<close> in vain and claims \<open>a\<close>.
\<close>

definition demo_second :: "nat queue_state" where
  "demo_second = snd (claim_path demo_queue_env 25 ''d'' ''u'' 60 (job_name ''a'')
     (snd (claim_path demo_queue_env 25 ''d'' ''u'' 60 (job_name ''k'') demo_queue)))"

lemma demo_second_run: "P (Claiming 25) \<Longrightarrow> queue_run demo_queue_env P demo_queue demo_second"
  unfolding demo_second_def by (metis claims one_step prod.collapse queue_run_trans)

text \<open>The run ended without success on its last attempt.\<close>

definition demo_result :: execution_result where
  "demo_result = \<lparr>xr_run_id = ''k'', xr_pipeline_id = ''p'', xr_pipeline_version = ''v'',
     xr_status = RUN_RETRYABLE_FAILURE, xr_attempt = 2, xr_checkpoint_uri = ''u'', xr_output = None,
     xr_error_code = Some ''TimeoutError'', xr_replayed = False\<rparr>"

theorem lease_protects_job_witness:
  "\<exists>q. finish_claim demo_queue_env demo_claim ''w'' demo_result 30 demo_second = (Inr demo_result, q)"
proof -
  have "other_act 60000010 ''c'' (Claiming 25)" by (simp add: other_act_def)
  then have "queue_run demo_queue_env (other_act 60000010 ''c'') demo_queue demo_second" by (rule demo_second_run)
  from lease_protects_job [OF demo_checked demo_claim(1,2) this] show ?thesis by simp
qed

theorem retries_back_off_witness:
  "jb_status (finished_job demo_queue_env demo_claim demo_result 30) = JOB_QUEUED"
proof -
  have "make_queue demo_exec_env (\<lambda>_. 2) 3 1 = Inr demo_queue_env"
    by (simp add: make_queue_def demo_queue_env_def)
  moreover have "xr_status demo_result = RUN_RETRYABLE_FAILURE"
    "xr_attempt demo_result < jb_max_attempts demo_claim" "1 \<le> xr_attempt demo_result"
    by (simp_all add: demo_result_def demo_claim_def claimed_by_def demo_job_def)
  ultimately show ?thesis using retries_back_off [of demo_exec_env "\<lambda>_. 2" 3 1] by blast
qed

definition demo_settled :: "nat queue_state" where
  "demo_settled = demo_queue\<lparr>qs_jobs := write_job (job_name ''k'')
     (finished_job demo_queue_env demo_claim (demo_result\<lparr>xr_status := RUN_SUCCEEDED\<rparr>) 30) demo_claimed\<rparr>"

lemma demo_settled_load:
  "load_job demo_queue_env (job_name ''k'') (qs_jobs demo_settled) =
     Inr (finished_job demo_queue_env demo_claim (demo_result\<lparr>xr_status := RUN_SUCCEEDED\<rparr>) 30)"
  "jb_status (finished_job demo_queue_env demo_claim (demo_result\<lparr>xr_status := RUN_SUCCEEDED\<rparr>) 30) = JOB_COMPLETED"
  using job_ok_finished [OF demo_claim(7)]
  by (simp_all add: load_job_Inr demo_settled_def) (simp add: finished_job_def demo_result_def release_def)

theorem settled_jobs_are_final_witness:
  "\<exists>q' j. queue_step demo_queue_env (Finishing (Some ''c'')) demo_settled q' \<and>
     load_job demo_queue_env (job_name ''k'') (qs_jobs q') = Inr j \<and> jb_status j = JOB_COMPLETED"
proof -
  obtain y q' where "finish_claim demo_queue_env demo_claim ''w'' demo_result 40 demo_settled = (y, q')" by fastforce
  from finishes [OF this] have s: "queue_step demo_queue_env (Finishing (Some ''c'')) demo_settled q'"
    by (simp add: demo_claim)
  have "jb_status (finished_job demo_queue_env demo_claim (demo_result\<lparr>xr_status := RUN_SUCCEEDED\<rparr>) 30)
    \<in> set FINAL_JOB_STATUSES" by (simp add: demo_settled_load FINAL_JOB_STATUSES_def)
  from settled_jobs_are_final [OF demo_settled_load(1) this run_step [OF run_none s]] s
  show ?thesis using demo_settled_load(2) by auto
qed

theorem stored_jobs_load_witness:
  "\<exists>c. fst (claim_next demo_queue_env (\<lambda>_ q. q) 10 ''c'' ''w'' 60 (snd (enqueue demo_queue_env (\<lambda>_ q. q) (\<lambda>_. 0) ''p'' ''v''
     (JObj []) (demo_run_context ''k'') \<lparr>qs_jobs = [], qs_exec = demo_exec_start\<rparr>))) = Inr c"
proof -
  let ?q = "\<lparr>qs_jobs = [], qs_exec = demo_exec_start\<rparr>"
  obtain x q' where q': "enqueue demo_queue_env (\<lambda>_ q. q) (\<lambda>_. 0) ''p'' ''v'' (JObj []) (demo_run_context ''k'') ?q = (x, q')"
    by fastforce
  have "queue_run demo_queue_env (\<lambda>_. True) ?q q'" by (rule enqueue_run [OF run_none _ _ q']) simp_all
  note all = conjunct2 [OF stored_jobs_load [OF this], rule_format]
  have "\<exists>c. fst (claim_next demo_queue_env (\<lambda>_ q. q) 10 ''c'' ''w'' 60 q') = Inr c"
    by (rule all) (simp_all add: run_none demo_safe_workers)
  with q' show ?thesis by simp
qed

text \<open>The lease of \<open>k\<close> has expired when \<open>u\<close> claims.\<close>

definition demo_late_claim :: job_record where
  "demo_late_claim = claimed_by demo_claim 90000000 ''d'' ''u'' 60"

definition demo_held :: "nat queue_state" where
  "demo_held = \<lparr>qs_jobs = [(job_name ''k'', JobFile demo_claim)], qs_exec = demo_exec_start\<rparr>"

lemma demo_held_load: "load_job demo_queue_env (job_name ''k'') (qs_jobs demo_held) = Inr demo_claim"
  by (simp add: load_job_Inr demo_held_def demo_claim)

lemma demo_late:
  "\<exists>qc. claim_path demo_queue_env 90000000 ''d'' ''u'' 60 (job_name ''k'') demo_held = (Inr (Some demo_late_claim), qc)"
  using demo_held_load by (simp add: claim_path_def is_available_def demo_claim demo_late_claim_def Let_def)

theorem expired_lease_blocks_job_witness:
  "\<exists>q' b. load_job demo_queue_env (job_name ''k'') (qs_jobs q') = Inr b \<and> jb_status b = JOB_BLOCKED \<and>
     fst (finish_claim demo_queue_env demo_claim ''w'' demo_result 95000000 q') =
       Inl (Exn PipelineJobClaimError ''job claim changed while the pipeline was executing'')"
proof -
  obtain qc where c: "claim_path demo_queue_env 90000000 ''d'' ''u'' 60 (job_name ''k'') demo_held =
      (Inr (Some demo_late_claim), qc)" using demo_late by blast
  from expired_lease_blocks_job [OF demo_held_load demo_claim(4) c _ _ demo_safe_workers(2),
      of "\<lambda>_. 90000001" "''w''" demo_result 95000000]
  show ?thesis by (simp add: demo_claim demo_seconds) (metis fst_conv)
qed

end
