(* ===== verification/Idempotency.thy ===== *)
theory Idempotency
  imports Execution
begin

text \<open>
  \<open>runtime/idempotency.py\<close>: one record per idempotency key, written before and after the call it
  guards.  A record is a JSON object or does not parse; the call acts on the world beside the store,
  and its result type is a pair of \<open>model_dump\<close> and \<open>model_validate\<close>.  A run holds the lock of the
  record from reading it to writing the result, so it is one step.
\<close>

datatype idem_file = IdemJson json | IdemBadFile

record idem_env =
  iv_sha_json :: "json \<Rightarrow> string"
  iv_sha_str :: "string \<Rightarrow> string"
  iv_iso :: "int \<Rightarrow> string"

record 'w idem_state =
  is_files :: "string \<Rightarrow> idem_file option"
  is_world :: 'w

text \<open>\<open>KEY_PATTERN\<close> is the pattern of run ids.\<close>

definition is_idempotency_key :: "string \<Rightarrow> bool" where
  "is_idempotency_key = is_safe_id"

definition idem_path :: "idem_env \<Rightarrow> string \<Rightarrow> string" where
  "idem_path env key = ''idempotency-'' @ take 24 (iv_sha_str env key) @ ''.json''"

definition idem_load :: "string \<Rightarrow> 'w idem_state \<Rightarrow> (string \<times> json) list option res" where
  "idem_load path s =
     (case is_files s path of
        None \<Rightarrow> Inr None
      | Some IdemBadFile \<Rightarrow> Inl (Exn ValueError ''JSONDecodeError'')
      | Some (IdemJson v) \<Rightarrow>
          (case v of JObj ms \<Rightarrow> Inr (Some ms) | _ \<Rightarrow> Inl (Exn IdempotencyError ''invalid idempotency record'')))"

definition idem_write :: "string \<Rightarrow> json \<Rightarrow> 'w idem_state \<Rightarrow> 'w idem_state" where
  "idem_write path v s = s\<lparr>is_files := (is_files s)(path \<mapsto> IdemJson v)\<rparr>"

text \<open>
  The three records, their members in key order: \<open>started\<close>, with \<open>last_error\<close> after a failure and
  with \<open>result\<close> after a success.
\<close>

definition idem_started :: "string \<Rightarrow> string \<Rightarrow> string \<Rightarrow> string \<Rightarrow> json" where
  "idem_started key operation sha time = JObj [(''key'', JStr key), (''operation'', JStr operation),
     (''request_sha256'', JStr sha), (''schema_version'', JStr ''axcalib.idempotency/v1alpha1''),
     (''status'', JStr ''running''), (''updated_at'', JStr time)]"

definition idem_failed :: "string \<Rightarrow> string \<Rightarrow> string \<Rightarrow> string \<Rightarrow> string \<Rightarrow> json" where
  "idem_failed key operation sha error time = JObj [(''key'', JStr key), (''last_error'', JStr error),
     (''operation'', JStr operation), (''request_sha256'', JStr sha),
     (''schema_version'', JStr ''axcalib.idempotency/v1alpha1''),
     (''status'', JStr ''retryable_failure''), (''updated_at'', JStr time)]"

definition idem_succeeded :: "string \<Rightarrow> string \<Rightarrow> string \<Rightarrow> json \<Rightarrow> string \<Rightarrow> json" where
  "idem_succeeded key operation sha result time = JObj [(''key'', JStr key),
     (''operation'', JStr operation), (''request_sha256'', JStr sha), (''result'', result),
     (''schema_version'', JStr ''axcalib.idempotency/v1alpha1''), (''status'', JStr ''succeeded''),
     (''updated_at'', JStr time)]"

text \<open>What a record that is there and not empty says about a request.\<close>

definition idem_existing ::
  "(string \<times> json) list option \<Rightarrow> string \<Rightarrow> string \<Rightarrow> (json \<Rightarrow> 'r res) \<Rightarrow> 'r option res" where
  "idem_existing existing operation sha validate =
     (case existing of
        None \<Rightarrow> Inr None
      | Some [] \<Rightarrow> Inr None
      | Some ms \<Rightarrow>
          if json_get ms ''operation'' \<noteq> JStr operation \<or> json_get ms ''request_sha256'' \<noteq> JStr sha then
            Inl (Exn IdempotencyConflictError ''idempotency key was already used for a different request'')
          else if json_get ms ''status'' = JStr ''succeeded'' then
            (case map_of ms ''result'' of
               None \<Rightarrow> Inl (Exn KeyError ''result'')
             | Some v \<Rightarrow> (case validate v of Inl e \<Rightarrow> Inl e | Inr r \<Rightarrow> Inr (Some r)))
          else Inr None)"

definition idem_execute ::
  "idem_env \<Rightarrow> (nat \<Rightarrow> int) \<Rightarrow> string \<Rightarrow> string \<Rightarrow> json \<Rightarrow> ('r \<Rightarrow> json) \<Rightarrow> (json \<Rightarrow> 'r res) \<Rightarrow>
   ('w \<Rightarrow> ('r, 'w) outcome) \<Rightarrow> 'w idem_state \<Rightarrow> ('r, 'w idem_state) outcome" where
  "idem_execute env t key operation request dump validate call s =
     (if \<not> is_idempotency_key key then (Inl (Exn IdempotencyError ''invalid idempotency key''), s)
      else
        (let path = idem_path env key; sha = iv_sha_json env request in
         seq (pure (idem_load path s) s) (\<lambda>existing s.
         seq (pure (idem_existing existing operation sha validate) s) (\<lambda>replay s.
         case replay of
           Some r \<Rightarrow> (Inr r, s)
         | None \<Rightarrow>
             (let s = idem_write path (idem_started key operation sha (iv_iso env (t 0))) s;
                  (result, w) = call (is_world s); s = s\<lparr>is_world := w\<rparr>
              in case result of
                   Inl e \<Rightarrow>
                     if is_instance e ExceptionClass then
                       (Inl e, idem_write path
                         (idem_failed key operation sha (class_name (exn_cls e)) (iv_iso env (t 1))) s)
                     else (Inl e, s)
                 | Inr r \<Rightarrow>
                     (Inr r, idem_write path (idem_succeeded key operation sha (dump r) (iv_iso env (t 1))) s))))))"

section \<open>Records\<close>

definition idem_members :: "json \<Rightarrow> (string \<times> json) list" where
  "idem_members v = (case v of JObj ms \<Rightarrow> ms | _ \<Rightarrow> [])"

text \<open>A record that binds its key to an operation and a request.\<close>

definition idem_binds :: "string \<Rightarrow> string \<Rightarrow> idem_file option \<Rightarrow> bool" where
  "idem_binds operation sha f \<longleftrightarrow> (\<exists>ms. f = Some (IdemJson (JObj ms)) \<and> ms \<noteq> [] \<and>
     json_get ms ''operation'' = JStr operation \<and> json_get ms ''request_sha256'' = JStr sha)"

definition idem_holds :: "string \<Rightarrow> string \<Rightarrow> json \<Rightarrow> idem_file option \<Rightarrow> bool" where
  "idem_holds operation sha v f \<longleftrightarrow> (\<exists>ms. f = Some (IdemJson (JObj ms)) \<and> ms \<noteq> [] \<and>
     json_get ms ''operation'' = JStr operation \<and> json_get ms ''request_sha256'' = JStr sha \<and>
     json_get ms ''status'' = JStr ''succeeded'' \<and> map_of ms ''result'' = Some v)"

lemma idem_holds_binds: "idem_holds operation sha v f \<Longrightarrow> idem_binds operation sha f"
  by (auto simp: idem_holds_def idem_binds_def)

lemma idem_records [simp]:
  "idem_binds operation sha (Some (IdemJson (idem_started key operation sha a)))"
  "idem_binds operation sha (Some (IdemJson (idem_failed key operation sha e a)))"
  "idem_binds operation sha (Some (IdemJson (idem_succeeded key operation sha v a)))"
  "idem_holds operation sha v (Some (IdemJson (idem_succeeded key operation sha v a)))"
  by (simp_all add: idem_binds_def idem_holds_def idem_started_def idem_failed_def idem_succeeded_def
      json_get_def)

lemma idem_write_files [simp]:
  "is_files (idem_write path v s) = (is_files s)(path \<mapsto> IdemJson v)"
  "is_world (idem_write path v s) = is_world s"
  by (simp_all add: idem_write_def)

text \<open>A run with a record that binds another request, and with one that holds a result.\<close>

lemma idem_execute_conflict:
  assumes "is_idempotency_key key" and "idem_binds operation sha (is_files s (idem_path env key))"
    and "operation' \<noteq> operation \<or> iv_sha_json env request \<noteq> sha"
  shows "idem_execute env t key operation' request dump validate call s =
    (Inl (Exn IdempotencyConflictError ''idempotency key was already used for a different request''), s)"
  using assms
  by (auto simp: idem_binds_def idem_execute_def Let_def idem_load_def idem_existing_def
      split: list.splits)

lemma idem_execute_replay:
  assumes "is_idempotency_key key"
    and "idem_holds operation (iv_sha_json env request) v (is_files s (idem_path env key))"
  shows "idem_execute env t key operation request dump validate call s = (validate v, s)"
  using assms
  by (auto simp: idem_holds_def idem_execute_def Let_def idem_load_def idem_existing_def
      split: list.splits sum.split)

text \<open>A run that comes back has its result on file; every run binds its key.\<close>

lemma idem_execute_Inr:
  assumes "idem_execute env t key operation request dump validate call s = (Inr r, s')"
  shows "is_idempotency_key key \<and> (\<exists>v. (v = dump r \<or> validate v = Inr r) \<and>
    idem_holds operation (iv_sha_json env request) v (is_files s' (idem_path env key)))"
proof -
  let ?path = "idem_path env key" and ?sha = "iv_sha_json env request"
  from assms obtain existing replay where key: "is_idempotency_key key"
    and load: "idem_load ?path s = Inr existing" "idem_existing existing operation ?sha validate = Inr replay"
    by (auto simp: idem_execute_def Let_def outcome_simps split: if_splits)
  show ?thesis
  proof (cases replay)
    case None
    with assms key load have "is_files s' ?path = Some (IdemJson (idem_succeeded key operation ?sha (dump r) (iv_iso env (t 1))))"
      by (auto simp: idem_execute_def Let_def split: prod.splits sum.splits if_splits)
    with key show ?thesis by auto
  next
    case (Some r')
    with assms key load have "s' = s" "r' = r" by (simp_all add: idem_execute_def Let_def)
    moreover obtain ms where "is_files s ?path = Some (IdemJson (JObj ms))" "existing = Some ms" "ms \<noteq> []"
      using load Some by (auto simp: idem_load_def idem_existing_def split: option.splits idem_file.splits json.splits list.splits)
    ultimately show ?thesis
      using load(2) Some key
      by (auto simp: idem_existing_def idem_holds_def split: list.splits if_splits option.splits sum.splits)
  qed
qed

text \<open>
  Any sequence of runs, with whatever keys, requests and calls, and of changes of the world.  The
  results of these runs stand for their JSON form, which is all the store sees of them.
\<close>

inductive idem_step :: "idem_env \<Rightarrow> 'w idem_state \<Rightarrow> 'w idem_state \<Rightarrow> bool" for env :: idem_env where
  runs: "idem_execute env t key operation request (dump :: json \<Rightarrow> json) validate call s = (x, s') \<Longrightarrow> idem_step env s s'"
| elsewhere: "idem_step env s (s\<lparr>is_world := w\<rparr>)"

lemma idem_execute_other:
  assumes "path \<noteq> idem_path env key"
  shows "is_files (snd (idem_execute env t key operation request dump validate call s)) path = is_files s path"
  using assms
  by (auto simp: idem_execute_def Let_def seq_def pure_def split: sum.split option.split prod.split)

lemma idem_execute_same:
  assumes "idem_binds operation (iv_sha_json env request) (is_files s (idem_path env key))"
  shows "idem_binds operation (iv_sha_json env request)
    (is_files (snd (idem_execute env t key operation request dump validate call s)) (idem_path env key))"
  using assms
  by (auto simp: idem_execute_def Let_def seq_def pure_def split: sum.split option.split prod.split)

lemma idem_step_keeps:
  assumes "idem_step env s s'"
  shows "idem_binds op sha (is_files s path) \<Longrightarrow> idem_binds op sha (is_files s' path)"
    and "idem_holds op sha v (is_files s path) \<Longrightarrow> idem_holds op sha v (is_files s' path)"
proof -
  have "(idem_binds op sha (is_files s path) \<longrightarrow> idem_binds op sha (is_files s' path)) \<and>
    (idem_holds op sha v (is_files s path) \<longrightarrow> idem_holds op sha v (is_files s' path))"
    using assms
  proof (cases rule: idem_step.cases)
    case (runs t key operation request dump validate call x)
    then have s': "s' = snd (idem_execute env t key operation request dump validate call s)" by simp
    have stays: "\<not> is_idempotency_key key \<Longrightarrow> s' = s" using runs by (simp add: idem_execute_def)
    consider "path \<noteq> idem_path env key" | "\<not> is_idempotency_key key"
      | (own) "path = idem_path env key" "is_idempotency_key key" by blast
    then show ?thesis
    proof cases
      case own
      have "is_files s' path = is_files s path" if "idem_holds op sha v (is_files s path)"
        using that own idem_holds_binds [OF that]
        by (cases "operation = op \<and> iv_sha_json env request = sha")
           (auto simp: s' idem_execute_replay idem_execute_conflict)
      moreover have "idem_binds op sha (is_files s' path)" if "idem_binds op sha (is_files s path)"
        using that own
        by (cases "operation = op \<and> iv_sha_json env request = sha")
           (auto simp: s' idem_execute_same idem_execute_conflict)
      ultimately show ?thesis by simp
    qed (use stays in \<open>simp_all add: s' idem_execute_other\<close>)
  qed simp
  then show "idem_binds op sha (is_files s path) \<Longrightarrow> idem_binds op sha (is_files s' path)"
    "idem_holds op sha v (is_files s path) \<Longrightarrow> idem_holds op sha v (is_files s' path)" by auto
qed

lemma idem_run_keeps:
  assumes "(idem_step env)\<^sup>*\<^sup>* s s'"
  shows "idem_binds op sha (is_files s path) \<Longrightarrow> idem_binds op sha (is_files s' path)"
    and "idem_holds op sha v (is_files s path) \<Longrightarrow> idem_holds op sha v (is_files s' path)"
  using assms by (induction rule: rtranclp_induct) (blast intro: idem_step_keeps)+

section \<open>Properties\<close>

text \<open>
  C16. Answered once, answered for ever: after a run has returned a result that survives a round trip
  through its own model, running the same operation with the same key and request returns that
  result and changes nothing, whatever runs under whatever keys came between: the call is never made
  again, even if its result would now be another.
\<close>

theorem idempotent_replay:
  assumes "idem_execute env t key operation request dump validate call s = (Inr r, s1)"
    and "validate (dump r) = Inr r" and "(idem_step env)\<^sup>*\<^sup>* s1 s2"
  shows "idem_execute env t' key operation request dump validate call' s2 = (Inr r, s2)"
proof -
  obtain v where v: "v = dump r \<or> validate v = Inr r" and key: "is_idempotency_key key"
    and "idem_holds operation (iv_sha_json env request) v (is_files s1 (idem_path env key))"
    using idem_execute_Inr [OF assms(1)] by blast
  then have "idem_holds operation (iv_sha_json env request) v (is_files s2 (idem_path env key))"
    using idem_run_keeps(2) [OF assms(3)] by blast
  with v assms(2) show ?thesis by (auto simp: idem_execute_replay [OF key])
qed

text \<open>
  A key belongs to its first request: once a call was made for it, whether it returned, raised or
  never came back, another operation or request under the same key is refused and changes nothing,
  whatever came between; and a call that raised is made again by the next run of the same request.
\<close>

theorem key_belongs_to_request:
  assumes "idem_execute env t key operation request dump validate call s = (x, s1)"
    and "is_files s (idem_path env key) = None" and "is_idempotency_key key"
    and "(idem_step env)\<^sup>*\<^sup>* s1 s2"
    and "operation' \<noteq> operation \<or> iv_sha_json env request' \<noteq> iv_sha_json env request"
  shows "idem_execute env t' key operation' request' dump' validate' call' s2 =
    (Inl (Exn IdempotencyConflictError ''idempotency key was already used for a different request''), s2)"
proof -
  have "idem_binds operation (iv_sha_json env request) (is_files s1 (idem_path env key))"
    using assms(1-3) idem_holds_binds
    by (auto simp: idem_execute_def Let_def idem_load_def idem_existing_def split: prod.splits sum.splits if_splits)
  from idem_run_keeps(1) [OF assms(4) this] show ?thesis
    using idem_execute_conflict [OF assms(3) _ assms(5)] by blast
qed

text \<open>Only the class of a failure is stored: calls that fail alike leave the same records.\<close>

lemma failure_keeps_only_class:
  assumes "call (is_world s) = (Inl e, w)" and "call' (is_world s) = (Inl e', w)" and "exn_cls e = exn_cls e'"
  shows "snd (idem_execute env t key operation request dump validate call s) =
    snd (idem_execute env t key operation request dump validate call' s)"
  using assms
  by (auto simp: idem_execute_def Let_def seq_def pure_def is_instance_def split: sum.split option.split)

definition demo_idem_env :: idem_env where
  "demo_idem_env = \<lparr>iv_sha_json = (\<lambda>v. case v of JStr s \<Rightarrow> s | _ \<Rightarrow> ''''), iv_sha_str = (\<lambda>s. s), iv_iso = (\<lambda>_. ''now'')\<rparr>"

definition demo_idem_start :: "nat idem_state" where
  "demo_idem_start = \<lparr>is_files = Map.empty, is_world = 0\<rparr>"

text \<open>A call that counts itself.\<close>

definition demo_call :: "nat \<Rightarrow> (nat, nat) outcome" where
  "demo_call n = (Inr n, n + 1)"

definition demo_dump :: "nat \<Rightarrow> json" where
  "demo_dump n = JInt (int n)"

definition demo_validate :: "json \<Rightarrow> nat res" where
  "demo_validate v = (case v of JInt i \<Rightarrow> Inr (nat i) | _ \<Rightarrow> Inl (Exn ValidationError ''int''))"

lemma demo_key: "is_idempotency_key ''k''"
  by (simp add: is_idempotency_key_def demo_safe_id)

lemma demo_idem_first:
  "\<exists>s. idem_execute demo_idem_env (\<lambda>_. 0) ''k'' ''op'' (JStr ''a'') demo_dump demo_validate demo_call demo_idem_start = (Inr 0, s)"
  using demo_key
  by (simp add: idem_execute_def Let_def idem_load_def demo_idem_start_def idem_existing_def demo_call_def)

theorem idempotent_replay_witness:
  "\<exists>s. idem_execute demo_idem_env (\<lambda>_. 9) ''k'' ''op'' (JStr ''a'') demo_dump demo_validate (\<lambda>n. (Inr (n + 7), n)) s =
     (Inr 0, s)"
proof -
  obtain s where "idem_execute demo_idem_env (\<lambda>_. 0) ''k'' ''op'' (JStr ''a'') demo_dump demo_validate demo_call
      demo_idem_start = (Inr 0, s)" using demo_idem_first by blast
  moreover have "demo_validate (demo_dump 0) = Inr 0" by (simp add: demo_validate_def demo_dump_def)
  ultimately show ?thesis by (blast intro: idempotent_replay)
qed

theorem key_belongs_to_request_witness:
  "\<exists>s. idem_execute demo_idem_env (\<lambda>_. 9) ''k'' ''op'' (JStr ''b'') demo_dump demo_validate demo_call s =
     (Inl (Exn IdempotencyConflictError ''idempotency key was already used for a different request''), s)"
proof -
  obtain s where s: "idem_execute demo_idem_env (\<lambda>_. 0) ''k'' ''op'' (JStr ''a'') demo_dump demo_validate demo_call
      demo_idem_start = (Inr 0, s)" using demo_idem_first by blast
  have "is_files demo_idem_start (idem_path demo_idem_env ''k'') = None"
    "''op'' \<noteq> ''op'' \<or> iv_sha_json demo_idem_env (JStr ''b'') \<noteq> iv_sha_json demo_idem_env (JStr ''a'')"
    by (simp_all add: demo_idem_start_def demo_idem_env_def)
  from key_belongs_to_request [OF s this(1) demo_key rtranclp.rtrancl_refl this(2)] show ?thesis by blast
qed

end
