(* ===== verification/Policies.thy ===== *)
theory Policies
  imports Domain "HOL-Library.Char_ord" "HOL-Library.List_Lexorder"
begin

text \<open>
  \<open>policies/registry.py\<close>: review policy packs, their validators, the built-in pack and the registry
  that binds an id and a version to one content.  \<open>canonical_policy_sha256\<close> is a parameter, a function
  of the pack; so are the Korean literals of the built-in pack, whose characters are above 255.
\<close>

section \<open>Packs\<close>

datatype reference_authority = NORMATIVE | GUIDANCE | HISTORICAL

record review_reference =
  rf_reference_id :: string
  rf_title :: string
  rf_authority :: reference_authority
  rf_uri :: string
  rf_version :: string
  rf_sha256 :: "string option"

definition review_reference_valid :: "review_reference \<Rightarrow> bool" where
  "review_reference_valid r \<longleftrightarrow>
     matches_id is_alnum (\<lambda>c. is_alnum c \<or> c \<in> set ''._-'') 1 127 (rf_reference_id r) \<and>
     1 \<le> length (rf_title r) \<and> length (rf_title r) \<le> 300 \<and>
     1 \<le> length (rf_version r) \<and> length (rf_version r) \<le> 100 \<and>
     pred_option is_sha256 (rf_sha256 r)"

record criterion_definition =
  cd_criterion_id :: string
  cd_title :: string
  cd_required_tags :: "string list"
  cd_follow_up :: string
  cd_critical :: bool
  cd_blocking_recommendation :: "agent_recommendation option"

definition criterion_definition_valid :: "criterion_definition \<Rightarrow> bool" where
  "criterion_definition_valid c \<longleftrightarrow>
     matches_id is_upper (\<lambda>c. is_upper c \<or> is_digit c \<or> c \<in> set ''_-'') 2 127 (cd_criterion_id c) \<and>
     1 \<le> length (cd_title c) \<and> length (cd_title c) \<le> 300 \<and> cd_required_tags c \<noteq> [] \<and>
     1 \<le> length (cd_follow_up c) \<and> length (cd_follow_up c) \<le> 2000"

record stage_policy =
  sp_stage :: review_stage
  sp_rubric_id :: string
  sp_rubric_version :: string
  sp_checklist_refs :: "string list"
  sp_references :: "review_reference list"
  sp_criteria :: "criterion_definition list"
  sp_all_met :: agent_recommendation
  sp_gap :: agent_recommendation

definition stage_vocabulary :: "review_stage \<Rightarrow> agent_recommendation list" where
  "stage_vocabulary st =
     (case st of REGISTRATION \<Rightarrow> [PASS, NEEDS_CHANGES, REJECT] | COMPLETION \<Rightarrow> [ACCEPT, NEEDS_CHANGES, NOT_ACCEPT])"

text \<open>\<open>validate_stage_semantics\<close>.\<close>

definition stage_semantics :: "stage_policy \<Rightarrow> bool" where
  "stage_semantics p \<longleftrightarrow>
     distinct (map cd_criterion_id (sp_criteria p)) \<and> distinct (map rf_reference_id (sp_references p)) \<and>
     (let allowed = stage_vocabulary (sp_stage p) in
      sp_all_met p \<in> set allowed \<and> sp_gap p \<in> set allowed \<and>
      list_all (\<lambda>c. pred_option (\<lambda>r. r \<in> set allowed) (cd_blocking_recommendation c)) (sp_criteria p))"

definition stage_policy_valid :: "stage_policy \<Rightarrow> bool" where
  "stage_policy_valid p \<longleftrightarrow> is_policy_id (sp_rubric_id p) \<and> is_semver (sp_rubric_version p) \<and>
     sp_checklist_refs p \<noteq> [] \<and> sp_criteria p \<noteq> [] \<and>
     list_all review_reference_valid (sp_references p) \<and>
     list_all criterion_definition_valid (sp_criteria p) \<and> stage_semantics p"

record policy_pack =
  pk_policy_id :: string
  pk_version :: string
  pk_status :: review_policy_status
  pk_owner :: string
  pk_approval_ref :: "string option"
  pk_description :: string
  pk_registration :: stage_policy
  pk_completion :: stage_policy

text \<open>\<open>validate_gate_binding\<close>.\<close>

definition gate_binding :: "policy_pack \<Rightarrow> bool" where
  "gate_binding p \<longleftrightarrow> sp_stage (pk_registration p) = REGISTRATION \<and>
     sp_stage (pk_completion p) = COMPLETION \<and>
     (pk_status p = PUBLISHED \<longrightarrow> truthy (pk_approval_ref p))"

definition policy_pack_valid :: "policy_pack \<Rightarrow> bool" where
  "policy_pack_valid p \<longleftrightarrow> is_policy_id (pk_policy_id p) \<and> is_semver (pk_version p) \<and>
     1 \<le> length (pk_owner p) \<and> length (pk_owner p) \<le> 200 \<and>
     1 \<le> length (pk_description p) \<and> length (pk_description p) \<le> 1000 \<and>
     stage_policy_valid (pk_registration p) \<and> stage_policy_valid (pk_completion p) \<and> gate_binding p"

definition for_stage :: "review_stage \<Rightarrow> policy_pack \<Rightarrow> stage_policy" where
  "for_stage st p = (if st = REGISTRATION then pk_registration p else pk_completion p)"

record resolved_profile =
  rv_ref :: review_profile_ref
  rv_policy :: policy_pack

section \<open>The built-in pack\<close>

definition builtin_criterion ::
  "(string \<Rightarrow> string) \<Rightarrow> (string \<Rightarrow> string) \<Rightarrow> string \<Rightarrow> string list \<Rightarrow> bool \<Rightarrow> agent_recommendation option \<Rightarrow>
   criterion_definition" where
  "builtin_criterion title follow_up i tags critical blocking =
     \<lparr>cd_criterion_id = i, cd_title = title i, cd_required_tags = tags, cd_follow_up = follow_up i,
      cd_critical = critical, cd_blocking_recommendation = blocking\<rparr>"

definition builtin_registration :: "(string \<Rightarrow> string) \<Rightarrow> (string \<Rightarrow> string) \<Rightarrow> stage_policy" where
  "builtin_registration title follow_up =
     \<lparr>sp_stage = REGISTRATION, sp_rubric_id = ''axcalib.registration-checklist'', sp_rubric_version = ''1.0.0'',
      sp_checklist_refs = [''docs/rubrics/registration_checklist.md''],
      sp_references = [\<lparr>rf_reference_id = ''registration-checklist-guide'',
        rf_title = ''AXCalib registration checklist guide'', rf_authority = GUIDANCE,
        rf_uri = ''docs/rubrics/registration_checklist.md'', rf_version = ''0.1.0-draft'',
        rf_sha256 = Some ''3661a7ce6140ac70f1efe51f9eaae1c5885fae238894771277b701340813ec5a''\<rparr>],
      sp_criteria =
        [builtin_criterion title follow_up ''REG-PROBLEM-GOAL'' [''problem'', ''goal''] True (Some REJECT),
         builtin_criterion title follow_up ''REG-SCOPE-METHOD'' [''scope'', ''method''] False None,
         builtin_criterion title follow_up ''REG-PLAN-VALIDATION'' [''roadmap'', ''validation_plan''] False None,
         builtin_criterion title follow_up ''REG-KPI'' [''kpi_plan'', ''quantitative_target''] True None,
         builtin_criterion title follow_up ''REG-RISK'' [''risk'', ''limitation''] False None,
         builtin_criterion title follow_up ''REG-DATA-GOVERNANCE'' [''data'', ''security''] True None,
         builtin_criterion title follow_up ''REG-ROLE-RESOURCE'' [''role'', ''resource''] False None],
      sp_all_met = PASS, sp_gap = NEEDS_CHANGES\<rparr>"

definition builtin_completion :: "(string \<Rightarrow> string) \<Rightarrow> (string \<Rightarrow> string) \<Rightarrow> stage_policy" where
  "builtin_completion title follow_up =
     \<lparr>sp_stage = COMPLETION, sp_rubric_id = ''axcalib.completion-checklist'', sp_rubric_version = ''1.0.0'',
      sp_checklist_refs = [''docs/rubrics/completion_checklist.md''],
      sp_references = [\<lparr>rf_reference_id = ''completion-checklist-guide'',
        rf_title = ''AXCalib completion checklist guide'', rf_authority = GUIDANCE,
        rf_uri = ''docs/rubrics/completion_checklist.md'', rf_version = ''0.1.0-draft'',
        rf_sha256 = Some ''260f4fdfedddae2cd8cc22f98afd1d8ea9586384d1126d809e2966d298354649''\<rparr>],
      sp_criteria =
        [builtin_criterion title follow_up ''COM-DELIVERABLE'' [''deliverable'', ''result''] True (Some NOT_ACCEPT),
         builtin_criterion title follow_up ''COM-KPI'' [''result'', ''quantitative_target''] True (Some NOT_ACCEPT),
         builtin_criterion title follow_up ''COM-EXECUTION'' [''result'', ''reproducibility''] True (Some NOT_ACCEPT),
         builtin_criterion title follow_up ''COM-CHANGE'' [''change''] False None,
         builtin_criterion title follow_up ''COM-RISK-FOLLOWUP'' [''risk'', ''limitation''] False None],
      sp_all_met = ACCEPT, sp_gap = NEEDS_CHANGES\<rparr>"

definition builtin_default_policy :: "(string \<Rightarrow> string) \<Rightarrow> (string \<Rightarrow> string) \<Rightarrow> policy_pack" where
  "builtin_default_policy title follow_up =
     \<lparr>pk_policy_id = ''axcalib.default'', pk_version = ''1.0.0'', pk_status = OFFLINE_REFERENCE,
      pk_owner = ''unassigned:evaluation-owner'', pk_approval_ref = None,
      pk_description = ''Synthetic/offline two-gate reference policy; not an approved production rubric.'',
      pk_registration = builtin_registration title follow_up,
      pk_completion = builtin_completion title follow_up\<rparr>"

section \<open>The registry\<close>

type_synonym profile_registry = "((string \<times> string) \<times> resolved_profile) list"

definition profile_ref_of :: "(policy_pack \<Rightarrow> string) \<Rightarrow> policy_pack \<Rightarrow> string \<Rightarrow> review_profile_ref" where
  "profile_ref_of sha policy source_uri =
     \<lparr>rp_policy_id = pk_policy_id policy, rp_version = pk_version policy, rp_sha256 = sha policy,
      rp_status = pk_status policy, rp_source_uri = source_uri\<rparr>"

definition register_profile ::
  "(policy_pack \<Rightarrow> string) \<Rightarrow> policy_pack \<Rightarrow> string \<Rightarrow> profile_registry \<Rightarrow>
   (resolved_profile, profile_registry) outcome" where
  "register_profile sha policy source_uri reg =
     (let ref = profile_ref_of sha policy source_uri;
          resolved = \<lparr>rv_ref = ref, rv_policy = policy\<rparr>;
          key = (pk_policy_id policy, pk_version policy)
      in if \<not> review_profile_ref_valid ref then (Inl (Exn ValidationError ''ReviewProfileRef''), reg)
         else if pred_option (\<lambda>existing. rp_sha256 (rv_ref existing) \<noteq> sha policy) (map_of reg key) \<and>
                 map_of reg key \<noteq> None then
           (Inl (Exn ReviewProfileCollisionError ''policy id/version collision''), reg)
         else (Inr resolved, dict_set key resolved reg))"

text \<open>A YAML file: a mapping with the content of a pack, another value, or none at all.\<close>

datatype policy_file = PolicyYaml policy_pack | NotAMapping | BadYaml

definition load_policy_file ::
  "(policy_pack \<Rightarrow> string) \<Rightarrow> string \<times> policy_file \<Rightarrow> profile_registry \<Rightarrow>
   (resolved_profile, profile_registry) outcome" where
  "load_policy_file sha f reg =
     (case snd f of
        BadYaml \<Rightarrow> (Inl (Exn ExceptionClass ''YAMLError''), reg)
      | NotAMapping \<Rightarrow> (Inl (Exn ReviewProfileError ''review policy must be a mapping''), reg)
      | PolicyYaml policy \<Rightarrow>
          if policy_pack_valid policy then register_profile sha policy (fst f) reg
          else (Inl (Exn ValidationError ''ReviewPolicyPack''), reg))"

fun load_policy_files ::
  "(policy_pack \<Rightarrow> string) \<Rightarrow> (string \<times> policy_file) list \<Rightarrow> profile_registry \<Rightarrow>
   (resolved_profile list, profile_registry) outcome" where
  "load_policy_files sha [] reg = (Inr [], reg)"
| "load_policy_files sha (f # fs) reg =
     seq (load_policy_file sha f reg) (\<lambda>p reg.
     seq (load_policy_files sha fs reg) (\<lambda>ps reg. (Inr (p # ps), reg)))"

text \<open>A directory that is not there is \<open>None\<close>; no file ends in both extensions.\<close>

definition load_policy_directory ::
  "(policy_pack \<Rightarrow> string) \<Rightarrow> (string \<times> policy_file) list option \<Rightarrow> profile_registry \<Rightarrow>
   (resolved_profile list, profile_registry) outcome" where
  "load_policy_directory sha dir reg =
     (case dir of
        None \<Rightarrow> (Inr [], reg)
      | Some files \<Rightarrow> load_policy_files sha (sort_key fst
          (filter (\<lambda>f. ends_with ''.yaml'' (fst f)) files @ filter (\<lambda>f. ends_with ''.yml'' (fst f)) files)) reg)"

text \<open>\<open>selector.rsplit("@", 1)\<close>, unpacked into two.\<close>

definition rsplit_at :: "string \<Rightarrow> (string \<times> string) option" where
  "rsplit_at s =
     (if CHR ''@'' \<notin> set s then None
      else Some (rev (tl (dropWhile (\<lambda>c. c \<noteq> CHR ''@'') (rev s))), rev (takeWhile (\<lambda>c. c \<noteq> CHR ''@'') (rev s))))"

definition resolve_profile :: "string \<Rightarrow> string option \<Rightarrow> bool \<Rightarrow> profile_registry \<Rightarrow> resolved_profile res" where
  "resolve_profile selector expected_sha256 allow_offline_reference reg =
     (case rsplit_at selector of
        None \<Rightarrow> Inl (Exn ReviewProfileUnavailableError ''review profile selector must use policy_id@version'')
      | Some key \<Rightarrow>
          (case map_of reg key of
             None \<Rightarrow> Inl (Exn ReviewProfileUnavailableError ''review profile is not registered'')
           | Some profile \<Rightarrow>
               if truthy expected_sha256 \<and> Some (rp_sha256 (rv_ref profile)) \<noteq> expected_sha256 then
                 Inl (Exn ReviewProfileUnavailableError ''review profile hash mismatch'')
               else if pk_status (rv_policy profile) = PUBLISHED then Inr profile
               else if allow_offline_reference \<and> pk_status (rv_policy profile) = OFFLINE_REFERENCE then Inr profile
               else Inl (Exn ReviewProfileUnavailableError
                      ''review profile status is not selectable in this runtime'')))"

definition resolve_profile_ref :: "review_profile_ref \<Rightarrow> bool \<Rightarrow> profile_registry \<Rightarrow> resolved_profile res" where
  "resolve_profile_ref ref allow_offline_reference reg =
     resolve_profile (profile_selector ref) (Some (rp_sha256 ref)) allow_offline_reference reg"

definition builtin_registry ::
  "(policy_pack \<Rightarrow> string) \<Rightarrow> (string \<Rightarrow> string) \<Rightarrow> (string \<Rightarrow> string) \<Rightarrow> (unit, profile_registry) outcome" where
  "builtin_registry sha title follow_up =
     seq (register_profile sha (builtin_default_policy title follow_up) ''builtin://axcalib.default/1.0.0'' [])
       (\<lambda>_ reg. (Inr (), reg))"


section \<open>Selectors\<close>

lemma rsplit_at_append:
  assumes "CHR ''@'' \<notin> set v"
  shows "rsplit_at (i @ ''@'' @ v) = Some (i, v)"
proof -
  have "rev (i @ ''@'' @ v) = rev v @ CHR ''@'' # rev i" by simp
  moreover have "takeWhile (\<lambda>c. c \<noteq> CHR ''@'') (rev v @ CHR ''@'' # rev i) = rev v"
    "dropWhile (\<lambda>c. c \<noteq> CHR ''@'') (rev v @ CHR ''@'' # rev i) = CHR ''@'' # rev i"
    using assms by (auto simp: takeWhile_append dropWhile_append)
  ultimately show ?thesis by (simp add: rsplit_at_def)
qed

lemma at_not_digit: "\<not> is_digit (CHR ''@'')"
  by (simp add: char_class_defs)

lemma eat_number_at: "eat_number s = Some r \<Longrightarrow> CHR ''@'' \<notin> set r \<Longrightarrow> CHR ''@'' \<notin> set s"
  using takeWhile_dropWhile_id [of is_digit s] set_takeWhileD [of "CHR ''@''" is_digit s] at_not_digit
  by (metis UnE eat_number_def option.distinct(1) option.inject set_append)

lemma eat_dot_at: "eat_dot x = Some r \<Longrightarrow> \<exists>s. x = Some s \<and> (CHR ''@'' \<notin> set r \<longrightarrow> CHR ''@'' \<notin> set s)"
  by (auto simp: eat_dot_def split: option.splits list.splits if_splits)

lemma semver_no_at:
  assumes "is_semver s"
  shows "CHR ''@'' \<notin> set s"
proof -
  obtain t where t: "Option.bind (eat_dot (Option.bind (eat_dot (eat_number s)) eat_number)) eat_number = Some t"
    and rest: "t = [] \<or> (\<exists>cs. t = CHR ''-'' # cs \<and> list_all (\<lambda>c. is_alnum c \<or> c = CHR ''.'' \<or> c = CHR ''-'') cs)"
    using assms by (auto simp: is_semver_def split: option.splits list.splits)
  obtain d where d: "eat_dot (Option.bind (eat_dot (eat_number s)) eat_number) = Some d" "eat_number d = Some t"
    using t by (auto simp: bind_eq_Some_conv)
  obtain c where c: "Option.bind (eat_dot (eat_number s)) eat_number = Some c" "CHR ''@'' \<notin> set d \<longrightarrow> CHR ''@'' \<notin> set c"
    using eat_dot_at [OF d(1)] by blast
  obtain b where b: "eat_dot (eat_number s) = Some b" "eat_number b = Some c"
    using c(1) by (auto simp: bind_eq_Some_conv)
  obtain a where a: "eat_number s = Some a" "CHR ''@'' \<notin> set b \<longrightarrow> CHR ''@'' \<notin> set a"
    using eat_dot_at [OF b(1)] by blast
  have "\<not> (is_alnum (CHR ''@'') \<or> CHR ''@'' = CHR ''.'' \<or> CHR ''@'' = CHR ''-'')"
    by (simp add: char_class_defs)
  then have "CHR ''@'' \<notin> set t"
    using rest by (auto simp: list_all_iff)
  then show ?thesis using a b c d eat_number_at by blast
qed

lemma rsplit_selector:
  "is_semver (rp_version r) \<Longrightarrow> rsplit_at (profile_selector r) = Some (rp_policy_id r, rp_version r)"
  by (simp add: profile_selector_def rsplit_at_append [simplified] semver_no_at)

section \<open>What a registry can hold\<close>

definition registry_ok :: "(policy_pack \<Rightarrow> string) \<Rightarrow> profile_registry \<Rightarrow> bool" where
  "registry_ok sha reg \<longleftrightarrow> (\<forall>key p. map_of reg key = Some p \<longrightarrow>
     key = (pk_policy_id (rv_policy p), pk_version (rv_policy p)) \<and> policy_pack_valid (rv_policy p) \<and>
     (\<exists>uri. rv_ref p = profile_ref_of sha (rv_policy p) uri))"

text \<open>The hash of every entry stays.\<close>

definition registry_grows :: "profile_registry \<Rightarrow> profile_registry \<Rightarrow> bool" where
  "registry_grows reg reg' \<longleftrightarrow> (\<forall>key p. map_of reg key = Some p \<longrightarrow>
     (\<exists>p'. map_of reg' key = Some p' \<and> rp_sha256 (rv_ref p') = rp_sha256 (rv_ref p)))"

inductive registry_step :: "(policy_pack \<Rightarrow> string) \<Rightarrow> profile_registry \<Rightarrow> profile_registry \<Rightarrow> bool"
  for sha :: "policy_pack \<Rightarrow> string" where
  registers: "register_profile sha policy uri reg = (r, reg') \<Longrightarrow> policy_pack_valid policy \<Longrightarrow> registry_step sha reg reg'"
| loads_file: "load_policy_file sha f reg = (r, reg') \<Longrightarrow> registry_step sha reg reg'"
| loads_directory: "load_policy_directory sha dir reg = (rs, reg') \<Longrightarrow> registry_step sha reg reg'"

lemma registry_grows_refl [simp]: "registry_grows reg reg"
  by (simp add: registry_grows_def)

lemma registry_grows_trans: "registry_grows a b \<Longrightarrow> registry_grows b c \<Longrightarrow> registry_grows a c"
  unfolding registry_grows_def by metis

lemma profile_ref_sha [simp]: "rp_sha256 (profile_ref_of sha policy uri) = sha policy"
  by (simp add: profile_ref_of_def)

lemma register_cases:
  assumes "register_profile sha policy uri reg = (r, reg')"
  shows "reg' = reg \<or>
    (\<forall>p. map_of reg (pk_policy_id policy, pk_version policy) = Some p \<longrightarrow> rp_sha256 (rv_ref p) = sha policy) \<and>
    map_of reg' = (map_of reg)((pk_policy_id policy, pk_version policy) \<mapsto>
      \<lparr>rv_ref = profile_ref_of sha policy uri, rv_policy = policy\<rparr>)"
  using assms by (auto simp: register_profile_def Let_def split: if_splits)

lemma register_keeps:
  assumes "register_profile sha policy uri reg = (r, reg')"
  shows "registry_grows reg reg'" and "policy_pack_valid policy \<Longrightarrow> registry_ok sha reg \<Longrightarrow> registry_ok sha reg'"
  using register_cases [OF assms] by (auto simp: registry_grows_def registry_ok_def split: if_splits) blast

lemma load_file_keeps:
  assumes "load_policy_file sha f reg = (r, reg')"
  shows "registry_grows reg reg' \<and> (registry_ok sha reg \<longrightarrow> registry_ok sha reg')"
  using assms register_keeps
  by (auto simp: load_policy_file_def split: policy_file.splits if_splits)

lemma load_files_keep:
  "load_policy_files sha fs reg = (r, reg') \<Longrightarrow>
   registry_grows reg reg' \<and> (registry_ok sha reg \<longrightarrow> registry_ok sha reg')"
proof (induction fs arbitrary: reg r reg')
  case (Cons f fs)
  obtain p reg1 where f: "load_policy_file sha f reg = (p, reg1)" by fastforce
  obtain ps reg2 where fs: "load_policy_files sha fs reg1 = (ps, reg2)" by fastforce
  have "reg' = reg1 \<or> reg' = reg2"
    using Cons.prems f fs by (cases p; cases ps) auto
  with Cons.IH [OF fs] load_file_keeps [OF f] show ?case using registry_grows_trans by blast
qed simp

lemma registry_step_keeps:
  "registry_step sha reg reg' \<Longrightarrow> registry_grows reg reg' \<and> (registry_ok sha reg \<longrightarrow> registry_ok sha reg')"
  by (induction rule: registry_step.induct)
     (auto dest: register_keeps load_file_keeps load_files_keep simp: load_policy_directory_def
       split: option.splits)

lemma registry_run_keeps:
  "(registry_step sha)\<^sup>*\<^sup>* reg reg' \<Longrightarrow> registry_grows reg reg' \<and> (registry_ok sha reg \<longrightarrow> registry_ok sha reg')"
  by (induction rule: rtranclp_induct) (auto dest: registry_step_keeps intro: registry_grows_trans)

lemma registry_ok_Nil [simp]: "registry_ok sha []"
  by (simp add: registry_ok_def)

definition selectable :: "bool \<Rightarrow> review_policy_status \<Rightarrow> bool" where
  "selectable allow st \<longleftrightarrow> st = PUBLISHED \<or> allow \<and> st = OFFLINE_REFERENCE"

section \<open>Properties\<close>

text \<open>
  C18. A frozen profile resolves to what was frozen: the reference of a registered pack, kept in a
  dossier, resolves in every later state of the registry to the very same pack, when its status can be
  selected and no other pack has its hash; registering other content under its id and version cannot
  replace it.
\<close>

theorem frozen_profile_resolves:
  assumes "(registry_step sha)\<^sup>*\<^sup>* [] reg" and "policy_pack_valid policy"
    and "register_profile sha policy uri reg = (Inr p, reg1)" and "(registry_step sha)\<^sup>*\<^sup>* reg1 reg2"
    and "\<forall>policy'. sha policy' = sha policy \<longrightarrow> policy' = policy" and "selectable allow (pk_status policy)"
  shows "\<exists>p'. resolve_profile_ref (rv_ref p) allow reg2 = Inr p' \<and> rv_policy p' = policy"
proof -
  let ?key = "(pk_policy_id policy, pk_version policy)"
  have p: "rv_ref p = profile_ref_of sha policy uri" "map_of reg1 ?key = Some p"
    using assms(3) by (auto simp: register_profile_def Let_def split: if_splits)
  have "registry_ok sha reg1" using registry_run_keeps [OF assms(1)] register_keeps(2) [OF assms(3,2)] by simp
  with registry_run_keeps [OF assms(4)] have ok: "registry_ok sha reg2" and "registry_grows reg1 reg2" by auto
  from this(2) p obtain p' where p': "map_of reg2 ?key = Some p'" "rp_sha256 (rv_ref p') = sha policy"
    unfolding registry_grows_def by (fastforce simp: profile_ref_of_def)
  with ok assms(5) have policy: "rv_policy p' = policy"
    by (fastforce simp: registry_ok_def profile_ref_of_def)
  have "is_semver (pk_version policy)" using assms(2) by (simp add: policy_pack_valid_def)
  then have "rsplit_at (profile_selector (rv_ref p)) = Some ?key"
    using rsplit_selector [of "rv_ref p"] p(1) by (simp add: profile_ref_of_def)
  then show ?thesis
    using p' policy p(1) assms(6) by (auto simp: resolve_profile_ref_def resolve_profile_def profile_ref_of_def selectable_def)
qed

text \<open>
  Resolution fails closed: whatever was registered or loaded, a reference with a proper hash
  resolves only to a valid pack of its id and version whose canonical hash is the one of the reference
  and whose status can be selected; any other reference raises.
\<close>

theorem resolve_fails_closed:
  assumes "(registry_step sha)\<^sup>*\<^sup>* [] reg" and "review_profile_ref_valid ref"
    and "resolve_profile_ref ref allow reg = Inr p"
  shows "policy_pack_valid (rv_policy p) \<and> sha (rv_policy p) = rp_sha256 ref \<and>
    pk_policy_id (rv_policy p) = rp_policy_id ref \<and> pk_version (rv_policy p) = rp_version ref \<and>
    selectable allow (pk_status (rv_policy p))"
proof -
  have ok: "registry_ok sha reg" using registry_run_keeps [OF assms(1)] by simp
  have "is_semver (rp_version ref)" "rp_sha256 ref \<noteq> []"
    using assms(2) by (auto simp: review_profile_ref_valid_def is_sha256_def)
  then have p: "map_of reg (rp_policy_id ref, rp_version ref) = Some p" "rp_sha256 (rv_ref p) = rp_sha256 ref"
    "selectable allow (pk_status (rv_policy p))"
    using assms(3)
    by (auto simp: resolve_profile_ref_def resolve_profile_def rsplit_selector selectable_def
        split: option.splits if_splits)
  from ok p(1) have "(rp_policy_id ref, rp_version ref) = (pk_policy_id (rv_policy p), pk_version (rv_policy p))"
    "policy_pack_valid (rv_policy p)" "\<exists>uri. rv_ref p = profile_ref_of sha (rv_policy p) uri"
    unfolding registry_ok_def by blast+
  with p show ?thesis by (auto simp: profile_ref_of_def)
qed

text \<open>
  The built-in pack is well formed: with titles and follow-ups of allowed lengths it satisfies
  every validator, so both its gates use only their own vocabulary, and the default selector resolves
  to it where offline references are allowed and raises where they are not.
\<close>

theorem builtin_pack_valid:
  assumes "\<forall>i. 1 \<le> length (title i) \<and> length (title i) \<le> 300"
    and "\<forall>i. 1 \<le> length (follow_up i) \<and> length (follow_up i) \<le> 2000"
    and "is_sha256 (sha (builtin_default_policy title follow_up))"
  shows "policy_pack_valid (builtin_default_policy title follow_up) \<and>
    (\<exists>p. resolve_profile ''axcalib.default@1.0.0'' None True (snd (builtin_registry sha title follow_up)) = Inr p \<and>
      rv_policy p = builtin_default_policy title follow_up) \<and>
    (\<exists>e. resolve_profile ''axcalib.default@1.0.0'' None False (snd (builtin_registry sha title follow_up)) = Inl e)"
proof -
  let ?pack = "builtin_default_policy title follow_up"
  have reg: "stage_policy_valid (builtin_registration title follow_up)"
    and com: "stage_policy_valid (builtin_completion title follow_up)"
    using assms(1,2)
    by (simp_all add: builtin_registration_def builtin_completion_def stage_policy_valid_def stage_semantics_def
        builtin_criterion_def criterion_definition_valid_def review_reference_valid_def stage_vocabulary_def
        is_policy_id_def is_semver_def eat_number_def eat_dot_def is_sha256_def char_class_defs)
  have pack: "policy_pack_valid ?pack"
    using reg com
    by (simp add: policy_pack_valid_def builtin_default_policy_def gate_binding_def is_policy_id_def is_semver_def
        eat_number_def eat_dot_def char_class_defs builtin_registration_def builtin_completion_def)
  then have "review_profile_ref_valid (profile_ref_of sha ?pack ''builtin://axcalib.default/1.0.0'')"
    using assms(3) by (simp add: review_profile_ref_valid_def profile_ref_of_def policy_pack_valid_def)
  then have "snd (builtin_registry sha title follow_up) =
      [((''axcalib.default'', ''1.0.0''), \<lparr>rv_ref = profile_ref_of sha ?pack ''builtin://axcalib.default/1.0.0'',
        rv_policy = ?pack\<rparr>)]"
    by (simp add: builtin_registry_def register_profile_def Let_def) (simp add: builtin_default_policy_def)
  moreover have "rsplit_at ''axcalib.default@1.0.0'' = Some (''axcalib.default'', ''1.0.0'')"
    by (simp add: rsplit_at_def)
  moreover have "pk_status ?pack = OFFLINE_REFERENCE" by (simp add: builtin_default_policy_def)
  ultimately show ?thesis using pack by (simp add: resolve_profile_def)
qed


definition demo_policy :: policy_pack where
  "demo_policy = builtin_default_policy (\<lambda>_. ''t'') (\<lambda>_. ''q'')"

text \<open>A hash that tells the example from every other pack.\<close>

definition demo_policy_sha :: "policy_pack \<Rightarrow> string" where
  "demo_policy_sha p = (if p = demo_policy then demo_sha else [])"

lemma demo_policy:
  "policy_pack_valid demo_policy"
  "\<exists>p reg. register_profile demo_policy_sha demo_policy ''u'' [] = (Inr p, reg) \<and> reg = [((''axcalib.default'', ''1.0.0''), p)] \<and>
     rv_ref p = profile_ref_of demo_policy_sha demo_policy ''u'' \<and> rv_policy p = demo_policy"
proof -
  show valid: "policy_pack_valid demo_policy"
    by (simp add: demo_policy_def builtin_default_policy_def policy_pack_valid_def builtin_registration_def
        builtin_completion_def stage_policy_valid_def stage_semantics_def gate_binding_def
        builtin_criterion_def criterion_definition_valid_def review_reference_valid_def stage_vocabulary_def
        is_policy_id_def is_semver_def eat_number_def eat_dot_def is_sha256_def char_class_defs)
  then have "review_profile_ref_valid (profile_ref_of demo_policy_sha demo_policy ''u'')"
    by (simp add: review_profile_ref_valid_def profile_ref_of_def policy_pack_valid_def demo_policy_sha_def)
  moreover have "pk_policy_id demo_policy = ''axcalib.default''" "pk_version demo_policy = ''1.0.0''"
    by (simp_all add: demo_policy_def builtin_default_policy_def)
  ultimately show "\<exists>p reg. register_profile demo_policy_sha demo_policy ''u'' [] = (Inr p, reg) \<and>
     reg = [((''axcalib.default'', ''1.0.0''), p)] \<and>
     rv_ref p = profile_ref_of demo_policy_sha demo_policy ''u'' \<and> rv_policy p = demo_policy"
    by (simp add: register_profile_def Let_def)
qed

theorem frozen_profile_resolves_witness:
  "\<exists>reg p. resolve_profile_ref (profile_ref_of demo_policy_sha demo_policy ''u'') True reg = Inr p \<and>
     rv_policy p = demo_policy"
proof -
  obtain p reg where p: "register_profile demo_policy_sha demo_policy ''u'' [] = (Inr p, reg)"
    "rv_ref p = profile_ref_of demo_policy_sha demo_policy ''u''" using demo_policy(2) by blast
  have "\<forall>policy'. demo_policy_sha policy' = demo_policy_sha demo_policy \<longrightarrow> policy' = demo_policy"
    by (simp add: demo_policy_sha_def demo_sha_def)
  moreover have "selectable True (pk_status demo_policy)"
    by (simp add: selectable_def demo_policy_def builtin_default_policy_def)
  ultimately show ?thesis
    using frozen_profile_resolves [OF rtranclp.rtrancl_refl demo_policy(1) p(1) rtranclp.rtrancl_refl] p(2)
    by fastforce
qed

theorem resolve_fails_closed_witness:
  "\<exists>reg p. resolve_profile_ref (profile_ref_of demo_policy_sha demo_policy ''u'') True reg = Inr p \<and>
     policy_pack_valid (rv_policy p)"
proof -
  let ?ref = "profile_ref_of demo_policy_sha demo_policy ''u''"
  obtain p reg where p: "register_profile demo_policy_sha demo_policy ''u'' [] = (Inr p, reg)"
    "reg = [((''axcalib.default'', ''1.0.0''), p)]" "rv_ref p = ?ref" "rv_policy p = demo_policy"
    using demo_policy(2) by blast
  have run: "(registry_step demo_policy_sha)\<^sup>*\<^sup>* [] reg"
    using registry_step.registers [OF p(1) demo_policy(1)] by blast
  have valid: "review_profile_ref_valid ?ref"
    using demo_policy(1) by (simp add: review_profile_ref_valid_def profile_ref_of_def policy_pack_valid_def demo_policy_sha_def)
  have "rp_policy_id ?ref = ''axcalib.default''" "rp_version ?ref = ''1.0.0''"
    "pk_status demo_policy = OFFLINE_REFERENCE"
    by (simp_all add: profile_ref_of_def demo_policy_def builtin_default_policy_def)
  moreover have "is_semver (rp_version ?ref)" using valid by (simp add: review_profile_ref_valid_def)
  ultimately have "resolve_profile_ref ?ref True reg = Inr p"
    using p(2-4) by (simp add: resolve_profile_ref_def resolve_profile_def rsplit_selector)
  with resolve_fails_closed [OF run valid this] show ?thesis by blast
qed

theorem builtin_pack_valid_witness:
  "policy_pack_valid (builtin_default_policy (\<lambda>_. ''t'') (\<lambda>_. ''q''))"
  using builtin_pack_valid [of "\<lambda>_. ''t''" "\<lambda>_. ''q''" "\<lambda>_. demo_sha"] by simp

end
