(* ===== verification/Retrieval.thy ===== *)
theory Retrieval
  imports Prelude "HOL-Library.Char_ord" "HOL-Library.List_Lexorder"
begin

text \<open>
  \<open>retrieval/base.py\<close> and \<open>evaluation/similarity.py\<close>: the lexical retriever and the null retriever
  behind one port, the corpus loader and the similarity policy.  Scores are rationals, rounded to six
  digits as \<open>round\<close> does on the exact quotient; a set of tokens is a list without repetition.
\<close>

section \<open>The port\<close>

record historical_case =
  hc_case_id :: string
  hc_stage :: string
  hc_text :: string
  hc_corpus_snapshot_id :: string

record retrieval_hit =
  rh_case_id :: string
  rh_score :: rat
  rh_matched_terms :: "string list"

record retrieval_result =
  rl_status :: string
  rl_stage :: string
  rl_adapter :: string
  rl_corpus_snapshot_id :: "string option"
  rl_hits :: "retrieval_hit list"

text \<open>\<open>search(query, stage=..., limit=...)\<close>.\<close>

type_synonym case_retriever = "string \<Rightarrow> string \<Rightarrow> int \<Rightarrow> retrieval_result"

definition null_search :: case_retriever where
  "null_search query stage limit =
     \<lparr>rl_status = ''not_configured'', rl_stage = stage, rl_adapter = ''null'',
      rl_corpus_snapshot_id = None, rl_hits = []\<rparr>"

section \<open>Tokens\<close>

definition is_token_char :: "char \<Rightarrow> bool" where
  "is_token_char c \<longleftrightarrow> is_alnum c \<or> c = CHR ''_''"

text \<open>\<open>re.findall\<close> of the longest runs of characters of a class.\<close>

function find_runs :: "(char \<Rightarrow> bool) \<Rightarrow> string \<Rightarrow> string list" where
  "find_runs p s =
     (let t = dropWhile (\<lambda>c. \<not> p c) s in
      if t = [] then [] else takeWhile p t # find_runs p (dropWhile p t))"
  by pat_completeness auto

termination
proof (relation "measure (\<lambda>(p, s). length s)")
  fix p :: "char \<Rightarrow> bool" and s t
  assume t: "t = dropWhile (\<lambda>c. \<not> p c) s" "t \<noteq> []"
  then obtain c cs where c: "t = c # cs" "p c"
    by (metis hd_dropWhile list.exhaust_sel)
  then have "length (dropWhile p t) \<le> length cs" by (simp add: length_dropWhile_le)
  also have "length cs < length t" using c by simp
  also have "length t \<le> length s" using t(1) by (simp add: length_dropWhile_le)
  finally show "((p, dropWhile p t), p, s) \<in> measure (\<lambda>(p, s). length s)" by simp
qed simp

declare find_runs.simps [simp del]

definition tokens :: "string \<Rightarrow> string list" where
  "tokens s = remdups (find_runs is_token_char (casefold s))"

section \<open>Lexical search\<close>

definition common_terms :: "string list \<Rightarrow> string list \<Rightarrow> string list" where
  "common_terms q c = filter (\<lambda>t. t \<in> set c) q"

definition overlap_score :: "string list \<Rightarrow> string list \<Rightarrow> rat" where
  "overlap_score q c =
     (let union = remdups (q @ c) in
      if union = [] then 0 else of_nat (length (common_terms q c)) / of_nat (length union))"

definition round_6 :: "rat \<Rightarrow> rat" where
  "round_6 x = of_int (round_half_even (x * 1000000)) / 1000000"

definition lexical_hit :: "string list \<Rightarrow> historical_case \<Rightarrow> retrieval_hit option" where
  "lexical_hit q c =
     (let terms = tokens (hc_text c); score = overlap_score q terms in
      if score > 0 then
        Some \<lparr>rh_case_id = hc_case_id c, rh_score = round_6 score, rh_matched_terms = sort (common_terms q terms)\<rparr>
      else None)"

text \<open>\<open>sort(key=lambda hit: (-hit.score, hit.case_id))\<close>.\<close>

definition sort_hits :: "retrieval_hit list \<Rightarrow> retrieval_hit list" where
  "sort_hits hits = sort_key (\<lambda>h. - rh_score h) (sort_key rh_case_id hits)"

fun join_commas :: "string list \<Rightarrow> string" where
  "join_commas [] = []"
| "join_commas [x] = x"
| "join_commas (x # y # ys) = x @ '','' @ join_commas (y # ys)"

definition lexical_search :: "historical_case list \<Rightarrow> case_retriever" where
  "lexical_search cases query stage limit =
     (let q = tokens query; eligible = filter (\<lambda>c. hc_stage c = stage) cases;
          snapshot = join_commas (sort (remdups (map hc_corpus_snapshot_id eligible)))
      in \<lparr>rl_status = ''completed'', rl_stage = stage, rl_adapter = ''lexical'',
          rl_corpus_snapshot_id = (if snapshot = [] then None else Some snapshot),
          rl_hits = py_take limit (sort_hits (List.map_filter (lexical_hit q) eligible))\<rparr>)"

section \<open>The corpus\<close>

text \<open>\<open>str(v)\<close> of a JSON value; for numbers with a fraction and for containers it is a parameter.\<close>

definition py_str :: "(json \<Rightarrow> string) \<Rightarrow> json \<Rightarrow> string" where
  "py_str other v =
     (case v of JStr s \<Rightarrow> s | JInt i \<Rightarrow> str_int i | JNull \<Rightarrow> ''None''
      | JBool b \<Rightarrow> (if b then ''True'' else ''False'') | _ \<Rightarrow> other v)"

definition case_field :: "(json \<Rightarrow> string) \<Rightarrow> string \<Rightarrow> (string \<times> json) list \<Rightarrow> string res" where
  "case_field other k ms = (case map_of ms k of None \<Rightarrow> Inl (Exn KeyError k) | Some v \<Rightarrow> Inr (py_str other v))"

fun load_cases :: "(json \<Rightarrow> string) \<Rightarrow> json list \<Rightarrow> historical_case list res" where
  "load_cases other [] = Inr []"
| "load_cases other (JObj ms # items) =
     (case case_field other ''case_id'' ms of Inl e \<Rightarrow> Inl e | Inr i \<Rightarrow>
     (case case_field other ''stage'' ms of Inl e \<Rightarrow> Inl e | Inr st \<Rightarrow>
     (case case_field other ''text'' ms of Inl e \<Rightarrow> Inl e | Inr t \<Rightarrow>
     (case case_field other ''corpus_snapshot_id'' ms of Inl e \<Rightarrow> Inl e | Inr n \<Rightarrow>
       if st \<noteq> ''registration'' \<and> st \<noteq> ''completion'' then Inl (Exn ValueError ''invalid historical-case stage'')
       else (case load_cases other items of
               Inl e \<Rightarrow> Inl e
             | Inr cs \<Rightarrow> Inr (\<lparr>hc_case_id = i, hc_stage = st, hc_text = t, hc_corpus_snapshot_id = n\<rparr> # cs))))))"
| "load_cases other (_ # items) = Inl (Exn ValueError ''historical-case entries must be objects'')"

text \<open>The value that \<open>json.loads\<close> gave.\<close>

definition load_historical_cases :: "(json \<Rightarrow> string) \<Rightarrow> json \<Rightarrow> historical_case list res" where
  "load_historical_cases other data =
     (case data of
        JObj ms \<Rightarrow>
          if json_get ms ''schema_version'' \<noteq> JStr ''axcalib.historical-cases/v1alpha1'' then
            Inl (Exn ValueError ''unsupported historical-case corpus schema_version'')
          else (case json_get ms ''cases'' of
                  JList items \<Rightarrow> load_cases other items
                | _ \<Rightarrow> Inl (Exn ValueError ''historical-case corpus cases must be an array''))
      | _ \<Rightarrow> Inl (Exn AttributeError ''get''))"

section \<open>The similarity policy\<close>

record similarity_policy =
  sm_adapter :: string
  sm_stage :: string
  sm_portion :: rat
  sm_required_for_decision :: bool

definition DISABLED_ADAPTERS :: "string list" where
  "DISABLED_ADAPTERS = ['''', ''disabled'', ''null'']"

definition similarity_errors :: "similarity_policy \<Rightarrow> string list" where
  "similarity_errors p =
     (if sm_stage p \<in> {''registration'', ''completion''} then []
      else [''stage must be registration or completion'']) @
     (if 0 \<le> sm_portion p \<and> sm_portion p \<le> 1 then []
      else [''similarity_portion must be between 0.0 and 1.0'']) @
     (if sm_adapter p \<in> set DISABLED_ADAPTERS \<and> sm_portion p > 0
      then [''a positive portion requires a configured retrieval adapter''] else []) @
     (if sm_required_for_decision p \<and> sm_adapter p \<in> set DISABLED_ADAPTERS
      then [''required retrieval cannot use a disabled/null adapter''] else [])"

definition similarity_warnings :: "similarity_policy \<Rightarrow> string list" where
  "similarity_warnings p =
     (if sm_portion p > 1 / 4 then [''similarity_portion above 0.25 requires explicit Evaluation Owner approval'']
      else [])"

section \<open>What a search returns\<close>

lemma tokens_distinct [simp]: "distinct (tokens s)"
  by (simp add: tokens_def)

lemma overlap_score_bounds:
  assumes "distinct q"
  shows "0 \<le> overlap_score q c" and "overlap_score q c \<le> 1"
    and "overlap_score q c > 0 \<longleftrightarrow> (\<exists>t \<in> set q. t \<in> set c)"
proof -
  have "length (common_terms q c) = card (set q \<inter> set c)"
    using assms by (metis common_terms_def distinct_card distinct_filter set_filter Int_def Collect_conj_eq Collect_mem_eq)
  moreover have "length (remdups (q @ c)) = card (set q \<union> set c)" by (simp add: length_remdups_card_conv)
  moreover have "card (set q \<inter> set c) \<le> card (set q \<union> set c)" by (intro card_mono) auto
  moreover have "remdups (q @ c) = [] \<longleftrightarrow> set q \<union> set c = {}" by simp
  moreover have "card (set q \<inter> set c) > 0 \<longleftrightarrow> (\<exists>t \<in> set q. t \<in> set c)" by (auto simp: card_gt_0_iff)
  moreover have "card (set q \<inter> set c) > 0 \<Longrightarrow> card (set q \<union> set c) > 0"
    by (metis calculation(3) less_le_trans)
  ultimately show "0 \<le> overlap_score q c" "overlap_score q c \<le> 1"
    "overlap_score q c > 0 \<longleftrightarrow> (\<exists>t \<in> set q. t \<in> set c)"
    by (auto simp: overlap_score_def Let_def divide_le_eq zero_less_divide_iff)
qed


text \<open>The order of hits: by score from the best, equal scores by case id.\<close>

definition ranks_before :: "retrieval_hit \<Rightarrow> retrieval_hit \<Rightarrow> bool" where
  "ranks_before a b \<longleftrightarrow> rh_score a > rh_score b \<or> rh_score a = rh_score b \<and> rh_case_id a \<le> rh_case_id b"

lemma sort_hits_ranked: "sorted_wrt ranks_before (sort_hits hits)"
  using sort_key_lex [of "\<lambda>h. - rh_score h" rh_case_id hits]
  by (simp add: sort_hits_def ranks_before_def [abs_def])

lemma set_sort_hits [simp]: "set (sort_hits hits) = set hits"
  by (simp add: sort_hits_def)

lemma take_ranked:
  assumes "sorted_wrt r xs" and "x \<in> set xs"
  shows "x \<in> set (take n xs) \<or> length (take n xs) = n \<and> (\<forall>y \<in> set (take n xs). r y x)"
proof -
  have "x \<in> set (take n xs) \<or> x \<in> set (drop n xs)"
    using assms(2) by (metis UnE append_take_drop_id set_append)
  moreover have "\<forall>y \<in> set (take n xs). r y x" if "x \<in> set (drop n xs)"
    using assms(1) that by (metis append_take_drop_id sorted_wrt_append)
  moreover have "length (take n xs) = n" if "x \<in> set (drop n xs)"
    using that by (cases "n \<le> length xs") auto
  ultimately show ?thesis by blast
qed

lemma round_6_bounds: "0 \<le> x \<Longrightarrow> 0 \<le> round_6 x" "x \<le> 1 \<Longrightarrow> round_6 x \<le> 1"
  using round_half_even_nonneg [of "x * 1000000"] round_half_even_le [of "x * 1000000" 1000000]
  by (simp_all add: round_6_def)

lemma lexical_hit_Some:
  assumes "lexical_hit q c = Some h" and "distinct q"
  shows "rh_case_id h = hc_case_id c" and "0 \<le> rh_score h" and "rh_score h \<le> 1"
    and "set (rh_matched_terms h) = set q \<inter> set (tokens (hc_text c))" and "rh_matched_terms h \<noteq> []"
proof -
  have h: "overlap_score q (tokens (hc_text c)) > 0"
    "h = \<lparr>rh_case_id = hc_case_id c, rh_score = round_6 (overlap_score q (tokens (hc_text c))),
      rh_matched_terms = sort (common_terms q (tokens (hc_text c)))\<rparr>"
    using assms(1) by (auto simp: lexical_hit_def Let_def split: if_splits)
  show "rh_case_id h = hc_case_id c" "0 \<le> rh_score h" "rh_score h \<le> 1"
    using h round_6_bounds overlap_score_bounds(1,2) [OF assms(2)] by (simp_all add: less_imp_le)
  show m: "set (rh_matched_terms h) = set q \<inter> set (tokens (hc_text c))"
    by (auto simp: h(2) common_terms_def)
  show "rh_matched_terms h \<noteq> []"
    using h(1) overlap_score_bounds(3) [OF assms(2)] m by (metis IntI empty_iff list.set(1))
qed

text \<open>
  The lexical search returns the best hits: at most \<open>limit\<close>, best score first and equal scores by
  case id, each with a score between 0 and 1 and the terms that the query shares with a case of the
  asked stage; a case of that stage that shares a term and is not returned ranks behind every returned
  one, and there are then \<open>limit\<close> of them.
\<close>

theorem lexical_search_best:
  assumes "0 \<le> limit" and "hits = rl_hits (lexical_search cases query stage limit)"
  shows "length hits \<le> nat limit \<and> sorted_wrt ranks_before hits \<and>
    (\<forall>h \<in> set hits. 0 \<le> rh_score h \<and> rh_score h \<le> 1 \<and> (\<exists>c \<in> set cases. hc_stage c = stage \<and>
       hc_case_id c = rh_case_id h \<and> rh_matched_terms h \<noteq> [] \<and>
       set (rh_matched_terms h) = set (tokens query) \<inter> set (tokens (hc_text c)))) \<and>
    (\<forall>c \<in> set cases. hc_stage c = stage \<and> set (tokens query) \<inter> set (tokens (hc_text c)) \<noteq> {} \<longrightarrow>
       (\<exists>h. lexical_hit (tokens query) c = Some h \<and>
         (h \<in> set hits \<or> length hits = nat limit \<and> (\<forall>h' \<in> set hits. ranks_before h' h))))"
proof -
  let ?q = "tokens query"
  let ?all = "List.map_filter (lexical_hit ?q) (filter (\<lambda>c. hc_stage c = stage) cases)"
  have hits: "hits = take (nat limit) (sort_hits ?all)"
    using assms by (simp add: lexical_search_def Let_def py_take_def)
  have all: "h \<in> set ?all \<longleftrightarrow> (\<exists>c \<in> set cases. hc_stage c = stage \<and> lexical_hit ?q c = Some h)" for h
    by (auto simp: List.map_filter_def image_iff)
  have "0 \<le> rh_score h \<and> rh_score h \<le> 1 \<and> (\<exists>c \<in> set cases. hc_stage c = stage \<and>
       hc_case_id c = rh_case_id h \<and> rh_matched_terms h \<noteq> [] \<and>
       set (rh_matched_terms h) = set ?q \<inter> set (tokens (hc_text c)))" if "h \<in> set hits" for h
  proof -
    have "h \<in> set ?all" using that in_set_takeD hits set_sort_hits by metis
    then obtain c where c: "c \<in> set cases" "hc_stage c = stage" "lexical_hit ?q c = Some h" using all by blast
    from lexical_hit_Some [OF c(3) tokens_distinct] c(1,2) show ?thesis by metis
  qed
  moreover have "\<exists>h. lexical_hit ?q c = Some h \<and>
         (h \<in> set hits \<or> length hits = nat limit \<and> (\<forall>h' \<in> set hits. ranks_before h' h))"
    if c: "c \<in> set cases" "hc_stage c = stage" "set ?q \<inter> set (tokens (hc_text c)) \<noteq> {}" for c
  proof -
    have "overlap_score ?q (tokens (hc_text c)) > 0"
      using c(3) overlap_score_bounds(3) [OF tokens_distinct] by blast
    then obtain h where h: "lexical_hit ?q c = Some h" by (simp add: lexical_hit_def Let_def)
    with c all have "h \<in> set (sort_hits ?all)" by auto
    from take_ranked [OF sort_hits_ranked this] h hits show ?thesis by blast
  qed
  moreover have "sorted_wrt ranks_before hits" using sort_hits_ranked hits by (simp add: sorted_wrt_take)
  moreover have "length hits \<le> nat limit" using hits by simp
  ultimately show ?thesis by blast
qed

theorem lexical_search_best_witness:
  "\<exists>h. lexical_hit (tokens ''b'') \<lparr>hc_case_id = ''c'', hc_stage = ''s'', hc_text = ''a b'', hc_corpus_snapshot_id = ''n''\<rparr> = Some h \<and>
     h \<in> set (rl_hits (lexical_search [\<lparr>hc_case_id = ''c'', hc_stage = ''s'', hc_text = ''a b'', hc_corpus_snapshot_id = ''n''\<rparr>]
       ''b'' ''s'' 5))"
proof -
  let ?c = "\<lparr>hc_case_id = ''c'', hc_stage = ''s'', hc_text = ''a b'', hc_corpus_snapshot_id = ''n''\<rparr>"
  let ?hits = "rl_hits (lexical_search [?c] ''b'' ''s'' 5)"
  have shared: "''b'' \<in> set (tokens ''b'') \<inter> set (tokens (hc_text ?c))"
    by (simp add: tokens_def casefold_def casefold_char_def find_runs.simps is_token_char_def char_class_defs)
  have few: "length ?hits \<le> 1"
    by (simp add: lexical_search_def Let_def py_take_def sort_hits_def List.map_filter_def)
  from lexical_search_best [of 5 ?hits, OF _ refl] shared obtain h where "lexical_hit (tokens ''b'') ?c = Some h"
    "h \<in> set ?hits \<or> length ?hits = nat 5" by fastforce
  with few show ?thesis by auto
qed

end
