(* ===== verification/Evaluator.thy ===== *)
theory Evaluator
  imports Policies Retrieval
begin

text \<open>
  \<open>evaluation/offline.py\<close>: the deterministic evaluator of the two gates.  It compares the tags of the
  slides with the tags the criteria of the frozen policy require.  The Korean literals, the two hashes
  and the retriever are fields of a record; the clock reading is an argument.
\<close>

section \<open>The evaluator\<close>

record offline_texts =
  ot_all :: string
  ot_found :: string
  ot_missing :: string
  ot_none :: string
  ot_rejected :: string
  ot_registration_gap :: string
  ot_registration_met :: string
  ot_not_accepted :: string
  ot_completion_gap :: string
  ot_completion_met :: string
  ot_baseline_title :: string
  ot_baseline_observation :: "string \<Rightarrow> string \<Rightarrow> string"
  ot_reuse_title :: string
  ot_reuse_observation :: string
  ot_reuse_excerpt :: string
  ot_reuse_question :: string
  ot_limit_tags :: string
  ot_limit_similarity :: string
  ot_limit_sidecar :: string

record offline_evaluator =
  ov_texts :: offline_texts
  ov_sha_str :: "string \<Rightarrow> string"
  ov_sha_evidence :: "evidence_document \<Rightarrow> string"
  ov_search :: case_retriever
  ov_registration_portion :: rat
  ov_completion_portion :: rat
  ov_default_profile :: resolved_profile

definition EVALUATOR_ID :: string where
  "EVALUATOR_ID = ''axcalib.offline-evidence-tags/v1''"

text \<open>The constructor: no retriever is the null one, no profile the built-in one.\<close>

definition make_offline_evaluator ::
  "offline_texts \<Rightarrow> (string \<Rightarrow> string) \<Rightarrow> (evidence_document \<Rightarrow> string) \<Rightarrow> case_retriever option \<Rightarrow> rat \<Rightarrow> rat \<Rightarrow>
   resolved_profile option \<Rightarrow> profile_registry \<Rightarrow> offline_evaluator res" where
  "make_offline_evaluator texts sha_str sha_evidence retriever rp cp default_profile builtin =
     (if \<not> list_all (\<lambda>p. 0 \<le> p \<and> p \<le> 1 / 4) [rp, cp] then
        Inl (Exn ValueError ''offline similarity portions must be between 0.0 and 0.25'')
      else
        (case (case default_profile of
                 Some p \<Rightarrow> Inr p
               | None \<Rightarrow> resolve_profile ''axcalib.default@1.0.0'' None True builtin) of
           Inl e \<Rightarrow> Inl e
         | Inr p \<Rightarrow>
             Inr \<lparr>ov_texts = texts, ov_sha_str = sha_str, ov_sha_evidence = sha_evidence,
                  ov_search = (case retriever of None \<Rightarrow> null_search | Some r \<Rightarrow> r),
                  ov_registration_portion = rp, ov_completion_portion = cp, ov_default_profile = p\<rparr>))"

definition stage_portion :: "offline_evaluator \<Rightarrow> review_stage \<Rightarrow> rat" where
  "stage_portion E st = (case st of REGISTRATION \<Rightarrow> ov_registration_portion E | COMPLETION \<Rightarrow> ov_completion_portion E)"

section \<open>Criteria\<close>

text \<open>The loop of \<open>_locators\<close>: at most three slides that have text and one of the tags.\<close>

fun locator_scan :: "evidence_document \<Rightarrow> string set \<Rightarrow> nat \<Rightarrow> slide_evidence list \<Rightarrow> evidence_locator list" where
  "locator_scan ed tags n [] = []"
| "locator_scan ed tags n (slide # slides) =
     (let hit = (\<exists>t \<in> set (sl_tags slide). t \<in> tags) \<and> sl_text slide \<noteq> [];
          refs = (if hit then
                    [\<lparr>el_artifact_id = ar_artifact_id (ed_artifact ed),
                      el_locator = ar_uri (ed_artifact ed) @ ''#slide='' @ str_int (sl_slide_number slide),
                      el_excerpt = take 500 (sl_text slide), el_source = sl_text_source slide\<rparr>] else []);
          n = n + length refs
      in refs @ (if n = 3 then [] else locator_scan ed tags n slides))"

definition locators :: "evidence_document \<Rightarrow> string set \<Rightarrow> evidence_locator list" where
  "locators ed tags = locator_scan ed tags 0 (ed_slides ed)"

definition present_tags :: "evidence_document \<Rightarrow> string set" where
  "present_tags ed = \<Union> (set (map (\<lambda>s. set (sl_tags s)) (ed_slides ed)))"

definition matched_tags :: "criterion_definition \<Rightarrow> evidence_document \<Rightarrow> string list" where
  "matched_tags c ed = filter (\<lambda>t. t \<in> present_tags ed) (cd_required_tags c)"

definition criterion_assessment :: "criterion_definition \<Rightarrow> evidence_document \<Rightarrow> assessment" where
  "criterion_assessment c ed =
     (if length (matched_tags c ed) = length (cd_required_tags c) then MET
      else if matched_tags c ed \<noteq> [] then PARTIALLY_MET else INSUFFICIENT_EVIDENCE)"

definition comma_space :: "string list \<Rightarrow> string" where
  "comma_space xs = join_with '', '' xs"

definition evaluate_definition ::
  "offline_texts \<Rightarrow> criterion_definition \<Rightarrow> evidence_document \<Rightarrow> criterion_result" where
  "evaluate_definition T c ed =
     (let matched = matched_tags c ed; a = criterion_assessment c ed;
          missing = filter (\<lambda>t. t \<notin> present_tags ed) (cd_required_tags c)
      in \<lparr>cr_criterion_id = cd_criterion_id c, cr_title = cd_title c, cr_assessment = a,
          cr_observation =
            (if a = MET then ot_all T @ comma_space matched
             else if a = PARTIALLY_MET then
               ot_found T @ comma_space matched @ ot_missing T @ comma_space missing
             else ot_none T),
          cr_evidence_refs = locators ed (set (if matched \<noteq> [] then matched else cd_required_tags c)),
          cr_risk_flags = (if cd_critical c \<and> a \<noteq> MET then [''critical_evidence_gap''] else []),
          cr_follow_up_questions = (if a = MET then [] else [cd_follow_up c])\<rparr>)"

text \<open>\<open>_recommend\<close>: the results by criterion id, later ones first.\<close>

definition is_failure :: "assessment \<Rightarrow> bool" where
  "is_failure a \<longleftrightarrow> a = NOT_MET \<or> a = INSUFFICIENT_EVIDENCE"

definition result_for :: "string \<Rightarrow> criterion_result list \<Rightarrow> criterion_result option" where
  "result_for i rs = first_such (\<lambda>r. cr_criterion_id r = i) (rev rs)"

fun blocking_scan :: "criterion_result list \<Rightarrow> criterion_definition list \<Rightarrow> agent_recommendation option res" where
  "blocking_scan rs [] = Inr None"
| "blocking_scan rs (c # cs) =
     (case result_for (cd_criterion_id c) rs of
        None \<Rightarrow> Inl (Exn KeyError (cd_criterion_id c))
      | Some r \<Rightarrow>
          if cd_blocking_recommendation c \<noteq> None \<and> is_failure (cr_assessment r)
          then Inr (cd_blocking_recommendation c)
          else blocking_scan rs cs)"

definition recommend :: "stage_policy \<Rightarrow> criterion_result list \<Rightarrow> agent_recommendation res" where
  "recommend p rs =
     (case blocking_scan rs (sp_criteria p) of
        Inl e \<Rightarrow> Inl e
      | Inr (Some b) \<Rightarrow> Inr b
      | Inr None \<Rightarrow> Inr (if list_ex (\<lambda>r. cr_assessment r \<noteq> MET) rs then sp_gap p else sp_all_met p))"

section \<open>Reports\<close>

definition report_seed ::
  "offline_evaluator \<Rightarrow> project_dossier \<Rightarrow> review_stage \<Rightarrow> snapshot_ref \<Rightarrow> evidence_document \<Rightarrow> resolved_profile \<Rightarrow> string" where
  "report_seed E d st snap ed profile =
     join_with ''|'' [pd_project_id d, stage_value st, str_int (sn_dossier_revision snap), sn_dossier_sha256 snap,
       ov_sha_evidence E ed, rp_sha256 (rv_ref profile), EVALUATOR_ID]"

definition report_limitations :: "offline_evaluator \<Rightarrow> evidence_document \<Rightarrow> string list" where
  "report_limitations E ed = dict_fromkeys
     ([ot_limit_tags (ov_texts E), ot_limit_similarity (ov_texts E)] @
      (if list_ex (\<lambda>s. str_in ''sidecar'' (sl_text_source s)) (ed_slides ed)
       then [ot_limit_sidecar (ov_texts E)] else []) @ ed_warnings ed)"

definition offline_report ::
  "offline_evaluator \<Rightarrow> int \<Rightarrow> project_dossier \<Rightarrow> review_stage \<Rightarrow> snapshot_ref \<Rightarrow> evidence_document \<Rightarrow>
   criterion_result list \<Rightarrow> agent_recommendation \<Rightarrow> string \<Rightarrow> resolved_profile \<Rightarrow> stage_policy \<Rightarrow> string option \<Rightarrow>
   string option \<Rightarrow> evaluation_report res" where
  "offline_report E now d st snap ed criteria recommendation summary profile policy baseline proposal_sha =
     (let digest = ov_sha_str E (report_seed E d st snap ed profile);
          retrieval = ov_search E (evidence_text ed) (stage_value st) 5;
          report =
            \<lparr>er_schema_version = ''axcalib.evaluation-report/v1alpha1'',
             er_report_id = ''report-'' @ stage_value st @ ''-'' @ take 16 digest,
             er_run_id = ''run-'' @ stage_value st @ ''-'' @ take 16 (drop 16 digest),
             er_project_id = pd_project_id d, er_stage = st, er_base_revision = sn_dossier_revision snap,
             er_snapshot = snap, er_review_profile = rv_ref profile, er_rubric_id = sp_rubric_id policy,
             er_rubric_version = sp_rubric_version policy, er_checklist_refs = sp_checklist_refs policy,
             er_reference_ids = map rf_reference_id (sp_references policy), er_evaluator_id = EVALUATOR_ID,
             er_model_run = None, er_parser_runs = ed_parser_runs ed, er_generated_at = now,
             er_criteria = criteria, er_recommendation = recommendation, er_recommendation_summary = summary,
             er_retrieval = \<lparr>rs_status = rl_status retrieval, rs_adapter = rl_adapter retrieval,
               rs_similarity_portion = stage_portion E st,
               rs_corpus_snapshot_id = rl_corpus_snapshot_id retrieval,
               rs_case_ids = map rh_case_id (rl_hits retrieval)\<rparr>,
             er_baseline_report_id = baseline, er_proposal_artifact_sha256 = proposal_sha,
             er_evaluated_artifact_sha256 = ar_sha256 (ed_artifact ed),
             er_evaluated_evidence_sha256 = ov_sha_evidence E ed,
             er_limitations = report_limitations E ed\<rparr>
      in if evaluation_report_valid report then Inr report else Inl (Exn ValidationError ''EvaluationReport''))"

definition profile_or_default :: "offline_evaluator \<Rightarrow> resolved_profile option \<Rightarrow> resolved_profile" where
  "profile_or_default E profile = (case profile of None \<Rightarrow> ov_default_profile E | Some p \<Rightarrow> p)"

definition evaluate_registration ::
  "offline_evaluator \<Rightarrow> int \<Rightarrow> project_dossier \<Rightarrow> snapshot_ref \<Rightarrow> evidence_document \<Rightarrow> resolved_profile option \<Rightarrow>
   evaluation_report res" where
  "evaluate_registration E now d snap ed profile =
     (let resolved = profile_or_default E profile; policy = pk_registration (rv_policy resolved);
          criteria = map (\<lambda>c. evaluate_definition (ov_texts E) c ed) (sp_criteria policy)
      in case recommend policy criteria of
           Inl e \<Rightarrow> Inl e
         | Inr r \<Rightarrow>
             (let summary = (if r = REJECT then ot_rejected (ov_texts E)
                             else if r = NEEDS_CHANGES then ot_registration_gap (ov_texts E)
                             else ot_registration_met (ov_texts E))
              in offline_report E now d REGISTRATION snap ed criteria r summary resolved policy None None))"

definition baseline_result :: "offline_texts \<Rightarrow> artifact_ref \<Rightarrow> evaluation_report \<Rightarrow> criterion_result" where
  "baseline_result T proposal report =
     \<lparr>cr_criterion_id = ''COM-REGISTRATION-BASELINE'', cr_title = ot_baseline_title T, cr_assessment = MET,
      cr_observation = ot_baseline_observation T (er_report_id report) (sn_snapshot_id (er_snapshot report)),
      cr_evidence_refs = [\<lparr>el_artifact_id = ar_artifact_id proposal,
        el_locator = ''report:'' @ er_report_id report, el_excerpt = er_recommendation_summary report,
        el_source = ''registration_report''\<rparr>],
      cr_risk_flags = [], cr_follow_up_questions = []\<rparr>"

definition reuse_result :: "offline_texts \<Rightarrow> evidence_document \<Rightarrow> criterion_result" where
  "reuse_result T ed =
     \<lparr>cr_criterion_id = ''COM-DELIVERABLE'', cr_title = ot_reuse_title T, cr_assessment = NOT_MET,
      cr_observation = ot_reuse_observation T,
      cr_evidence_refs = [\<lparr>el_artifact_id = ar_artifact_id (ed_artifact ed),
        el_locator = ''artifact:sha256='' @ ar_sha256 (ed_artifact ed), el_excerpt = ot_reuse_excerpt T,
        el_source = ''deterministic_hash_comparison''\<rparr>],
      cr_risk_flags = [''proposal_reused_as_final''], cr_follow_up_questions = [ot_reuse_question T]\<rparr>"

definition completion_criteria ::
  "offline_evaluator \<Rightarrow> bool \<Rightarrow> stage_policy \<Rightarrow> evidence_document \<Rightarrow> criterion_result list res" where
  "completion_criteria E same policy ed =
     (let rs = map (\<lambda>c. evaluate_definition (ov_texts E) c ed) (sp_criteria policy) in
      if \<not> same then Inr rs
      else if \<not> criterion_result_valid (reuse_result (ov_texts E) ed) then Inl (Exn ValidationError ''CriterionResult'')
      else if rs = [] then Inl (Exn IndexError ''list assignment index out of range'')
      else Inr (rs[0 := reuse_result (ov_texts E) ed]))"

definition evaluate_completion ::
  "offline_evaluator \<Rightarrow> int \<Rightarrow> project_dossier \<Rightarrow> snapshot_ref \<Rightarrow> evidence_document \<Rightarrow> evaluation_report \<Rightarrow>
   resolved_profile option \<Rightarrow> evaluation_report res" where
  "evaluate_completion E now d snap ed registration_report profile =
     (let resolved = profile_or_default E profile; policy = pk_completion (rv_policy resolved) in
      case first_such (\<lambda>a. ar_role a = ''registration_proposal'') (pd_artifacts d) of
        None \<Rightarrow> Inl (Exn StopIteration '''')
      | Some proposal \<Rightarrow>
          (let same = (ar_sha256 proposal = ar_sha256 (ed_artifact ed));
               baseline = baseline_result (ov_texts E) proposal registration_report
           in if \<not> criterion_result_valid baseline then Inl (Exn ValidationError ''EvidenceLocator'')
              else
                (case completion_criteria E same policy ed of
                   Inl e \<Rightarrow> Inl e
                 | Inr results \<Rightarrow>
                     (case recommend policy results of
                        Inl e \<Rightarrow> Inl e
                      | Inr r \<Rightarrow>
                          (let r = (if same then NOT_ACCEPT else r);
                               summary = (if r = NOT_ACCEPT then ot_not_accepted (ov_texts E)
                                          else if r = NEEDS_CHANGES then ot_completion_gap (ov_texts E)
                                          else ot_completion_met (ov_texts E))
                           in offline_report E now d COMPLETION snap ed (baseline # results) r summary resolved
                                policy (Some (er_report_id registration_report)) (Some (ar_sha256 proposal)))))))"


section \<open>The verdict as a function of the tags\<close>

text \<open>
  What a policy says of a set of tags: the blocking recommendation of the first criterion that has one
  and of whose tags none is there; else the gap recommendation if some tag of some criterion is
  missing; else the one for a full match.
\<close>

definition tags_absent :: "criterion_definition \<Rightarrow> string set \<Rightarrow> bool" where
  "tags_absent c T \<longleftrightarrow> (\<forall>t \<in> set (cd_required_tags c). t \<notin> T)"

definition tags_complete :: "criterion_definition \<Rightarrow> string set \<Rightarrow> bool" where
  "tags_complete c T \<longleftrightarrow> (\<forall>t \<in> set (cd_required_tags c). t \<in> T)"

definition policy_verdict :: "stage_policy \<Rightarrow> string set \<Rightarrow> agent_recommendation" where
  "policy_verdict p T =
     (case first_such (\<lambda>c. cd_blocking_recommendation c \<noteq> None \<and> tags_absent c T) (sp_criteria p) of
        Some c \<Rightarrow> the (cd_blocking_recommendation c)
      | None \<Rightarrow> if list_all (\<lambda>c. tags_complete c T) (sp_criteria p) then sp_all_met p else sp_gap p)"

lemma assessment_tags:
  assumes "cd_required_tags c \<noteq> []"
  shows "criterion_assessment c ed = MET \<longleftrightarrow> tags_complete c (present_tags ed)"
    and "is_failure (criterion_assessment c ed) \<longleftrightarrow> tags_absent c (present_tags ed)"
proof -
  let ?p = "\<lambda>t. t \<in> present_tags ed"
  have len: "length (filter ?p xs) = length xs \<longleftrightarrow> (\<forall>t \<in> set xs. ?p t)" for xs
    by (metis filter_True length_filter_less less_irrefl)
  have nil: "filter ?p xs = [] \<longleftrightarrow> (\<forall>t \<in> set xs. \<not> ?p t)" for xs
    by (auto simp: filter_empty_conv)
  show "criterion_assessment c ed = MET \<longleftrightarrow> tags_complete c (present_tags ed)"
    by (simp add: criterion_assessment_def matched_tags_def len tags_complete_def)
  obtain t where "t \<in> set (cd_required_tags c)" using assms by (cases "cd_required_tags c") auto
  then show "is_failure (criterion_assessment c ed) \<longleftrightarrow> tags_absent c (present_tags ed)"
    by (auto simp: is_failure_def criterion_assessment_def matched_tags_def len nil tags_absent_def)
qed

lemma evaluate_definition_simps [simp]:
  "cr_criterion_id (evaluate_definition T c ed) = cd_criterion_id c"
  "cr_assessment (evaluate_definition T c ed) = criterion_assessment c ed"
  by (simp_all add: evaluate_definition_def Let_def)

lemma result_for_distinct:
  assumes "distinct (map cr_criterion_id rs)" and "r \<in> set rs"
  shows "result_for (cr_criterion_id r) rs = Some r"
  using assms first_such_distinct [of cr_criterion_id "rev rs" r]
  by (simp add: result_for_def rev_map [symmetric])

lemma blocking_scan_tags:
  assumes "\<forall>c \<in> set cs. result_for (cd_criterion_id c) rs = Some (evaluate_definition T c ed)"
    and "\<forall>c \<in> set cs. cd_required_tags c \<noteq> []"
  shows "blocking_scan rs cs =
    Inr (Option.bind (first_such (\<lambda>c. cd_blocking_recommendation c \<noteq> None \<and> tags_absent c (present_tags ed)) cs)
      cd_blocking_recommendation)"
  using assms by (induction cs) (auto simp: assessment_tags)

lemma policy_criteria:
  assumes "stage_policy_valid p"
  shows "\<forall>c \<in> set (sp_criteria p). cd_required_tags c \<noteq> []" and "distinct (map cd_criterion_id (sp_criteria p))"
    and "sp_criteria p \<noteq> []"
  using assms by (auto simp: stage_policy_valid_def stage_semantics_def list_all_iff criterion_definition_valid_def)

lemma recommend_verdict:
  assumes "stage_policy_valid p"
  shows "recommend p (map (\<lambda>c. evaluate_definition T c ed) (sp_criteria p)) = Inr (policy_verdict p (present_tags ed))"
proof -
  let ?rs = "map (\<lambda>c. evaluate_definition T c ed) (sp_criteria p)"
  let ?first = "first_such (\<lambda>c. cd_blocking_recommendation c \<noteq> None \<and> tags_absent c (present_tags ed)) (sp_criteria p)"
  have d: "distinct (map cr_criterion_id ?rs)" using policy_criteria(2) [OF assms] by (simp add: comp_def)
  have "\<forall>c \<in> set (sp_criteria p). result_for (cd_criterion_id c) ?rs = Some (evaluate_definition T c ed)"
    using result_for_distinct [OF d] by force
  note scan = blocking_scan_tags [OF this policy_criteria(1) [OF assms]]
  have all: "list_ex (\<lambda>r. cr_assessment r \<noteq> MET) ?rs \<longleftrightarrow> \<not> list_all (\<lambda>c. tags_complete c (present_tags ed)) (sp_criteria p)"
    using policy_criteria(1) [OF assms] by (auto simp: list_ex_iff list_all_iff assessment_tags)
  show ?thesis
  proof (cases ?first)
    case (Some c)
    with first_such_Some [OF Some] show ?thesis by (auto simp: recommend_def scan policy_verdict_def)
  qed (simp add: recommend_def scan policy_verdict_def all)
qed

lemma verdict_vocabulary:
  assumes "stage_policy_valid p"
  shows "policy_verdict p T \<in> set (stage_vocabulary (sp_stage p))"
proof (cases "first_such (\<lambda>c. cd_blocking_recommendation c \<noteq> None \<and> tags_absent c T) (sp_criteria p)")
  case (Some c)
  from first_such_Some [OF Some] assms have "pred_option (\<lambda>r. r \<in> set (stage_vocabulary (sp_stage p))) (cd_blocking_recommendation c)"
    "cd_blocking_recommendation c \<noteq> None"
    by (auto simp: stage_policy_valid_def stage_semantics_def list_all_iff Let_def)
  with Some show ?thesis by (auto simp: policy_verdict_def)
next
  case None
  with assms show ?thesis by (simp add: policy_verdict_def stage_policy_valid_def stage_semantics_def Let_def)
qed

section \<open>Well-formed reports\<close>

lemma locator_scan_valid: "list_all evidence_locator_valid (locator_scan ed tags n slides)"
  by (induction slides arbitrary: n) (auto simp: Let_def evidence_locator_valid_def)

lemma locator_scan_length: "n < 3 \<Longrightarrow> n + length (locator_scan ed tags n slides) \<le> 3"
proof (induction slides arbitrary: n)
  case (Cons slide slides)
  then show ?case using Cons.IH [of n] Cons.IH [of "n + 1"] by (auto simp: Let_def)
qed simp

lemma evaluate_definition_valid: "criterion_result_valid (evaluate_definition T c ed)"
  by (simp add: criterion_result_valid_def evaluate_definition_def Let_def locators_def locator_scan_valid)

text \<open>What the evaluator is given: values that passed their validators, and hashes that are hashes.\<close>

definition offline_inputs ::
  "offline_evaluator \<Rightarrow> project_dossier \<Rightarrow> snapshot_ref \<Rightarrow> evidence_document \<Rightarrow> resolved_profile \<Rightarrow> bool" where
  "offline_inputs E d snap ed profile \<longleftrightarrow> dossier_valid d \<and> snapshot_ref_valid snap \<and>
     list_all parser_run_valid (ed_parser_runs ed) \<and> is_sha256 (ov_sha_evidence E ed) \<and>
     policy_pack_valid (rv_policy profile) \<and> review_profile_ref_valid (rv_ref profile) \<and>
     (\<forall>st. 0 \<le> stage_portion E st \<and> stage_portion E st \<le> 1 / 4)"

lemma offline_report_Inr:
  assumes "offline_inputs E d snap ed profile" and "list_all criterion_result_valid criteria"
  obtains r where "offline_report E now d st snap ed criteria rec summary profile policy b ps = Inr r"
    "evaluation_report_valid r" "er_recommendation r = rec" "er_criteria r = criteria"
    "er_recommendation_summary r = summary"
  using assms
  by (auto simp: offline_report_def Let_def offline_inputs_def evaluation_report_valid_def dossier_valid_def
      snapshot_ref_valid_def retrieval_summary_valid_def)

section \<open>Properties\<close>

text \<open>
  C17. The registration recommendation is the policy's: for inputs that passed their validators the
  evaluator always produces a valid report, and its recommendation is what the frozen policy says of
  the set of tags in the evidence, a word of the registration gate; how often and where a tag occurs
  and what the slides say does not matter.
\<close>

theorem registration_follows_policy:
  assumes "offline_inputs E d snap ed profile"
  shows "\<exists>r. evaluate_registration E now d snap ed (Some profile) = Inr r \<and> evaluation_report_valid r \<and>
    er_recommendation r = policy_verdict (pk_registration (rv_policy profile)) (present_tags ed) \<and>
    er_recommendation r \<in> {PASS, NEEDS_CHANGES, REJECT}"
proof -
  let ?p = "pk_registration (rv_policy profile)"
  have p: "stage_policy_valid ?p" "sp_stage ?p = REGISTRATION"
    using assms by (simp_all add: offline_inputs_def policy_pack_valid_def gate_binding_def)
  have "list_all criterion_result_valid (map (\<lambda>c. evaluate_definition (ov_texts E) c ed) (sp_criteria ?p))"
    by (simp add: list_all_iff evaluate_definition_valid)
  from offline_report_Inr [OF assms this] obtain r where r:
    "evaluate_registration E now d snap ed (Some profile) = Inr r" "evaluation_report_valid r"
    "er_recommendation r = policy_verdict ?p (present_tags ed)"
    by (simp add: evaluate_registration_def profile_or_default_def Let_def recommend_verdict [OF p(1)]) metis
  then show ?thesis
    using verdict_vocabulary [OF p(1), of "present_tags ed"] p(2) by (simp add: stage_vocabulary_def)
qed

text \<open>How far a recommendation is on the way to registration.\<close>

fun registration_rank :: "agent_recommendation \<Rightarrow> nat" where
  "registration_rank REJECT = 0"
| "registration_rank NEEDS_CHANGES = 1"
| "registration_rank _ = 2"

text \<open>
  More evidence never hurts: under a policy whose blocking recommendations reject, whose gap asks
  for changes and whose full match passes, as the built-in one does, a report on evidence that has all
  the tags of another, and maybe more, never recommends less.
\<close>

theorem more_evidence_never_hurts:
  assumes "policy_pack_valid (rv_policy profile)" and "p = pk_registration (rv_policy profile)"
    and "\<forall>c \<in> set (sp_criteria p). cd_blocking_recommendation c \<in> {None, Some REJECT}"
    and "sp_gap p = NEEDS_CHANGES" and "sp_all_met p = PASS"
    and "present_tags ed \<subseteq> present_tags ed'"
    and "evaluate_registration E now d snap ed (Some profile) = Inr r"
    and "evaluate_registration E' now' d' snap' ed' (Some profile) = Inr r'"
  shows "registration_rank (er_recommendation r) \<le> registration_rank (er_recommendation r')"
proof -
  let ?blocks = "\<lambda>T c. cd_blocking_recommendation c \<noteq> None \<and> tags_absent c T"
  have valid: "stage_policy_valid p" using assms(1,2) by (simp add: policy_pack_valid_def)
  have rec: "er_recommendation x = policy_verdict p (present_tags e)"
    if "evaluate_registration F n q s e (Some profile) = Inr x" for F n q s e x
    using that recommend_verdict [OF valid, of "ov_texts F" e]
    by (auto simp: evaluate_registration_def profile_or_default_def Let_def assms(2) offline_report_def
        split: if_splits)
  have sub: "?blocks (present_tags ed') c \<Longrightarrow> ?blocks (present_tags ed) c"
    "tags_complete c (present_tags ed) \<Longrightarrow> tags_complete c (present_tags ed')" for c
    using assms(6) by (auto simp: tags_absent_def tags_complete_def)
  show ?thesis
  proof (cases "first_such (?blocks (present_tags ed)) (sp_criteria p)")
    case (Some c)
    with first_such_Some [OF Some] assms(3) have "policy_verdict p (present_tags ed) = REJECT"
      by (auto simp: policy_verdict_def)
    with rec [OF assms(7)] show ?thesis by simp
  next
    case None
    then have "first_such (?blocks (present_tags ed')) (sp_criteria p) = None"
      using sub(1) by (auto simp: first_such_None)
    with None rec [OF assms(7)] rec [OF assms(8)] sub(2) assms(4,5) show ?thesis
      by (auto simp: policy_verdict_def list_all_iff)
  qed
qed


lemma reused_results:
  assumes "stage_policy_valid p" and "sp_criteria p = c # cs" and "cd_criterion_id c = ''COM-DELIVERABLE''"
  shows "\<exists>b. recommend p ((map (\<lambda>c. evaluate_definition T c ed) (sp_criteria p))[0 := reuse_result T ed]) = Inr b"
proof -
  let ?rs = "(map (\<lambda>c. evaluate_definition T c ed) (sp_criteria p))[0 := reuse_result T ed]"
  have ids: "map cr_criterion_id ?rs = map cd_criterion_id (sp_criteria p)"
    using assms(2,3) by (simp add: reuse_result_def)
  then have d: "distinct (map cr_criterion_id ?rs)" using policy_criteria(2) [OF assms(1)] by simp
  have found: "\<exists>r. result_for (cd_criterion_id x) ?rs = Some r" if "x \<in> set (sp_criteria p)" for x
  proof -
    have "cd_criterion_id x \<in> set (map cr_criterion_id ?rs)" using that unfolding ids by simp
    then obtain r where "r \<in> set ?rs" "cr_criterion_id r = cd_criterion_id x" by auto
    then show ?thesis using result_for_distinct [OF d] by metis
  qed
  have "\<exists>b. blocking_scan ?rs xs = Inr b" if "set xs \<subseteq> set (sp_criteria p)" for xs
    using that by (induction xs) (use found in \<open>fastforce split: option.split\<close>)+
  then obtain b where "blocking_scan ?rs (sp_criteria p) = Inr b" by blast
  then show ?thesis by (cases b) (simp_all add: recommend_def)
qed

text \<open>
  A proposal is not a result: for valid inputs and literals, under a policy whose first completion
  criterion is the deliverable, as in the built-in one, the completion evaluation of a submission with
  the hash of the registration proposal always ends in a report that recommends not to accept and
  flags the reuse, whatever tags the evidence has; for any other submission it follows the policy.
\<close>

theorem reused_proposal_not_accepted:
  assumes "offline_inputs E d snap ed profile" and "p = pk_completion (rv_policy profile)"
    and "first_such (\<lambda>a. ar_role a = ''registration_proposal'') (pd_artifacts d) = Some proposal"
    and "length (er_recommendation_summary reg) \<le> 500" and "length (ot_reuse_excerpt (ov_texts E)) \<le> 500"
    and "cd_criterion_id (hd (sp_criteria p)) = ''COM-DELIVERABLE''"
  shows "\<exists>r. evaluate_completion E now d snap ed reg (Some profile) = Inr r \<and> evaluation_report_valid r \<and>
    er_recommendation r =
      (if ar_sha256 (ed_artifact ed) = ar_sha256 proposal then NOT_ACCEPT else policy_verdict p (present_tags ed)) \<and>
    (ar_sha256 (ed_artifact ed) = ar_sha256 proposal \<longrightarrow> reuse_result (ov_texts E) ed \<in> set (er_criteria r))"
proof -
  let ?same = "ar_sha256 proposal = ar_sha256 (ed_artifact ed)"
  let ?rs = "map (\<lambda>c. evaluate_definition (ov_texts E) c ed) (sp_criteria p)"
  let ?rs' = "if ?same then ?rs[0 := reuse_result (ov_texts E) ed] else ?rs"
  have p: "stage_policy_valid p" using assms(1,2) by (simp add: offline_inputs_def policy_pack_valid_def)
  obtain c cs where c: "sp_criteria p = c # cs" "cd_criterion_id c = ''COM-DELIVERABLE''"
    using policy_criteria(3) [OF p] assms(6) by (cases "sp_criteria p") auto
  have valid: "criterion_result_valid (baseline_result (ov_texts E) proposal reg)"
    "criterion_result_valid (reuse_result (ov_texts E) ed)"
    using assms(4,5) by (simp_all add: criterion_result_valid_def baseline_result_def reuse_result_def evidence_locator_valid_def)
  then have crit: "completion_criteria E ?same p ed = Inr ?rs'"
    using c(1) by (auto simp: completion_criteria_def Let_def)
  obtain b where b: "recommend p ?rs' = Inr b" "\<not> ?same \<longrightarrow> b = policy_verdict p (present_tags ed)"
    using reused_results [OF p c] recommend_verdict [OF p, of "ov_texts E" ed] by (cases ?same) auto
  have "list_all criterion_result_valid (baseline_result (ov_texts E) proposal reg # ?rs')"
    using valid evaluate_definition_valid c(1) by (auto simp: list_all_iff)
  note report = offline_report_Inr [OF assms(1) this]
  let ?rec = "if ?same then NOT_ACCEPT else b"
  let ?summary = "if ?rec = NOT_ACCEPT then ot_not_accepted (ov_texts E)
    else if ?rec = NEEDS_CHANGES then ot_completion_gap (ov_texts E) else ot_completion_met (ov_texts E)"
  obtain r where r: "offline_report E now d COMPLETION snap ed (baseline_result (ov_texts E) proposal reg # ?rs') ?rec
      ?summary profile p (Some (er_report_id reg)) (Some (ar_sha256 proposal)) = Inr r"
    "evaluation_report_valid r" "er_recommendation r = ?rec"
    "er_criteria r = baseline_result (ov_texts E) proposal reg # ?rs'"
    using report [of now COMPLETION ?rec ?summary p "Some (er_report_id reg)" "Some (ar_sha256 proposal)"] by metis
  moreover have "evaluate_completion E now d snap ed reg (Some profile) = Inr r"
    unfolding evaluate_completion_def profile_or_default_def Let_def option.case assms(2) [symmetric] assms(3) crit b(1)
      sum.case r(1) using valid(1) by simp
  moreover have "?same \<longrightarrow> reuse_result (ov_texts E) ed \<in> set ?rs'" using c(1) by auto
  ultimately show ?thesis using b(2) by (auto simp: eq_commute)
qed

text \<open>
  Under another policy the reuse check itself fails: when the first completion criterion of a
  valid policy is not the deliverable, the result of the check takes its place, and the evaluation of
  a reused proposal raises \<open>KeyError\<close> instead of reporting.
\<close>

theorem reuse_check_raises:
  assumes "offline_inputs E d snap ed profile" and "p = pk_completion (rv_policy profile)"
    and "first_such (\<lambda>a. ar_role a = ''registration_proposal'') (pd_artifacts d) = Some proposal"
    and "length (er_recommendation_summary reg) \<le> 500" and "length (ot_reuse_excerpt (ov_texts E)) \<le> 500"
    and "cd_criterion_id (hd (sp_criteria p)) \<noteq> ''COM-DELIVERABLE''"
    and "ar_sha256 (ed_artifact ed) = ar_sha256 proposal"
  shows "evaluate_completion E now d snap ed reg (Some profile) = Inl (Exn KeyError (cd_criterion_id (hd (sp_criteria p))))"
proof -
  let ?rs = "(map (\<lambda>c. evaluate_definition (ov_texts E) c ed) (sp_criteria p))[0 := reuse_result (ov_texts E) ed]"
  have p: "stage_policy_valid p" using assms(1,2) by (simp add: offline_inputs_def policy_pack_valid_def)
  obtain c cs where c: "sp_criteria p = c # cs" "cd_criterion_id c \<noteq> ''COM-DELIVERABLE''"
    using policy_criteria(3) [OF p] assms(6) by (cases "sp_criteria p") auto
  have valid: "criterion_result_valid (baseline_result (ov_texts E) proposal reg)"
    "criterion_result_valid (reuse_result (ov_texts E) ed)"
    using assms(4,5) by (simp_all add: criterion_result_valid_def baseline_result_def reuse_result_def evidence_locator_valid_def)
  have "\<forall>x \<in> set cs. cd_criterion_id x \<noteq> cd_criterion_id c"
    using policy_criteria(2) [OF p] c(1) by (simp add: image_iff) metis
  then have "result_for (cd_criterion_id c) ?rs = None"
    using c by (auto simp: result_for_def first_such_None reuse_result_def)
  then have "recommend p ?rs = Inl (Exn KeyError (cd_criterion_id c))"
    using c(1) by (simp add: recommend_def)
  then show ?thesis
    using valid c(1) assms(3,7)
    by (simp add: evaluate_completion_def profile_or_default_def Let_def assms(2) [symmetric] completion_criteria_def)
qed


section \<open>Examples\<close>

definition demo_texts :: offline_texts where
  "demo_texts = \<lparr>ot_all = [], ot_found = [], ot_missing = [], ot_none = [], ot_rejected = ''r'', ot_registration_gap = ''g'',
     ot_registration_met = ''m'', ot_not_accepted = ''n'', ot_completion_gap = ''g'', ot_completion_met = ''m'',
     ot_baseline_title = [], ot_baseline_observation = (\<lambda>_ _. []), ot_reuse_title = [], ot_reuse_observation = [],
     ot_reuse_excerpt = [], ot_reuse_question = [], ot_limit_tags = [], ot_limit_similarity = [], ot_limit_sidecar = []\<rparr>"

definition demo_profile :: "policy_pack \<Rightarrow> resolved_profile" where
  "demo_profile pack = \<lparr>rv_ref = profile_ref_of (\<lambda>_. demo_sha) pack ''u'', rv_policy = pack\<rparr>"

definition demo_evaluator :: offline_evaluator where
  "demo_evaluator = \<lparr>ov_texts = demo_texts, ov_sha_str = (\<lambda>_. demo_sha), ov_sha_evidence = (\<lambda>_. demo_sha),
     ov_search = null_search, ov_registration_portion = 0, ov_completion_portion = 0,
     ov_default_profile = demo_profile demo_policy\<rparr>"

definition demo_artifact :: "string \<Rightarrow> artifact_ref" where
  "demo_artifact role = \<lparr>ar_artifact_id = role, ar_role = role, ar_uri = ''u'', ar_media_type = ''m'',
     ar_sha256 = demo_sha, ar_byte_size = 1, ar_metadata = []\<rparr>"

text \<open>Evidence with one slide.\<close>

definition demo_evidence :: "string list \<Rightarrow> evidence_document" where
  "demo_evidence tags = \<lparr>ed_artifact = demo_artifact ''completion_final'',
     ed_slides = [\<lparr>sl_slide_number = 1, sl_text = ''t'', sl_tags = tags, sl_text_source = ''x'', sl_image_count = 0,
       sl_is_blank = False\<rparr>],
     ed_warnings = [], ed_parser_id = ''q'', ed_parser_runs = []\<rparr>"

definition demo_snapshot :: snapshot_ref where
  "demo_snapshot = \<lparr>sn_snapshot_id = ''s'', sn_dossier_revision = 1, sn_dossier_sha256 = demo_sha, sn_uri = ''u''\<rparr>"

definition demo_reviewed :: project_dossier where
  "demo_reviewed = (demo_dossier ''p'' [])\<lparr>pd_artifacts := [demo_artifact ''registration_proposal'']\<rparr>"

lemma demo_inputs:
  assumes "policy_pack_valid pack"
  shows "offline_inputs demo_evaluator demo_reviewed demo_snapshot (demo_evidence tags) (demo_profile pack)"
proof -
  have "dossier_valid demo_reviewed"
    by (simp add: demo_reviewed_def demo_dossier_def dossier_valid_def demo_artifact_def artifact_ref_valid_def
        empty_stage_def stage_review_valid_def)
  moreover have "review_profile_ref_valid (rv_ref (demo_profile pack))"
    using assms by (simp add: demo_profile_def profile_ref_of_def review_profile_ref_valid_def policy_pack_valid_def)
  ultimately show ?thesis
    using assms
    by (simp add: offline_inputs_def demo_snapshot_def snapshot_ref_valid_def demo_evidence_def demo_evaluator_def
        demo_profile_def stage_portion_def split: review_stage.split)
qed

theorem registration_follows_policy_witness:
  "\<exists>r. evaluate_registration demo_evaluator 0 demo_reviewed demo_snapshot (demo_evidence [''goal'']) (Some (demo_profile demo_policy)) =
     Inr r \<and> evaluation_report_valid r"
  using registration_follows_policy [OF demo_inputs [OF demo_policy(1)]] by blast

lemma demo_policy_registration:
  "\<forall>c \<in> set (sp_criteria (pk_registration demo_policy)). cd_blocking_recommendation c \<in> {None, Some REJECT}"
  "sp_gap (pk_registration demo_policy) = NEEDS_CHANGES" "sp_all_met (pk_registration demo_policy) = PASS"
  by (auto simp: demo_policy_def builtin_default_policy_def builtin_registration_def builtin_criterion_def)

lemma demo_report:
  "\<exists>r. evaluate_registration demo_evaluator 0 demo_reviewed demo_snapshot (demo_evidence tags) (Some (demo_profile demo_policy)) = Inr r"
proof -
  have "stage_policy_valid (pk_registration demo_policy)" using demo_policy(1) by (simp add: policy_pack_valid_def)
  moreover have "list_all criterion_result_valid
      (map (\<lambda>c. evaluate_definition demo_texts c (demo_evidence tags)) (sp_criteria (pk_registration demo_policy)))"
    by (simp add: list_all_iff evaluate_definition_valid)
  note offline_report_Inr [OF demo_inputs [OF demo_policy(1), of tags] this, of 0 REGISTRATION]
  ultimately show ?thesis
    by (simp add: evaluate_registration_def profile_or_default_def Let_def demo_evaluator_def demo_profile_def
        recommend_verdict) metis
qed

theorem more_evidence_never_hurts_witness:
  "\<exists>r r'. evaluate_registration demo_evaluator 0 demo_reviewed demo_snapshot (demo_evidence [''goal'']) (Some (demo_profile demo_policy)) = Inr r \<and>
     evaluate_registration demo_evaluator 0 demo_reviewed demo_snapshot (demo_evidence [''goal'', ''risk'']) (Some (demo_profile demo_policy)) = Inr r' \<and>
     registration_rank (er_recommendation r) \<le> registration_rank (er_recommendation r')"
proof -
  obtain r r' where r:
    "evaluate_registration demo_evaluator 0 demo_reviewed demo_snapshot (demo_evidence [''goal'']) (Some (demo_profile demo_policy)) = Inr r"
    "evaluate_registration demo_evaluator 0 demo_reviewed demo_snapshot (demo_evidence [''goal'', ''risk'']) (Some (demo_profile demo_policy)) = Inr r'"
    using demo_report by blast
  have "policy_pack_valid (rv_policy (demo_profile demo_policy))"
    "pk_registration demo_policy = pk_registration (rv_policy (demo_profile demo_policy))"
    "present_tags (demo_evidence [''goal'']) \<subseteq> present_tags (demo_evidence [''goal'', ''risk''])"
    using demo_policy(1) by (auto simp: demo_profile_def present_tags_def demo_evidence_def)
  from more_evidence_never_hurts [OF this(1,2) demo_policy_registration this(3) r] r show ?thesis by blast
qed

text \<open>A registration report, and a policy whose first criterion is another.\<close>

definition demo_registered :: evaluation_report where
  "demo_registered = \<lparr>er_schema_version = [], er_report_id = ''report-1'', er_run_id = ''run-1'', er_project_id = ''p'',
     er_stage = REGISTRATION, er_base_revision = 1, er_snapshot = demo_snapshot,
     er_review_profile = rv_ref (demo_profile demo_policy), er_rubric_id = [], er_rubric_version = [],
     er_checklist_refs = [], er_reference_ids = [], er_evaluator_id = EVALUATOR_ID, er_model_run = None,
     er_parser_runs = [], er_generated_at = 0, er_criteria = [], er_recommendation = PASS,
     er_recommendation_summary = ''ok'', er_retrieval = \<lparr>rs_status = [], rs_adapter = [],
       rs_similarity_portion = 0, rs_corpus_snapshot_id = None, rs_case_ids = []\<rparr>,
     er_baseline_report_id = None, er_proposal_artifact_sha256 = None, er_evaluated_artifact_sha256 = demo_sha,
     er_evaluated_evidence_sha256 = demo_sha, er_limitations = []\<rparr>"

definition demo_other_policy :: policy_pack where
  "demo_other_policy = demo_policy\<lparr>pk_completion := (pk_completion demo_policy)
     \<lparr>sp_criteria := tl (sp_criteria (pk_completion demo_policy))\<rparr>\<rparr>"

lemma demo_other_policy:
  "policy_pack_valid demo_other_policy"
  "cd_criterion_id (hd (sp_criteria (pk_completion demo_other_policy))) = ''COM-KPI''"
  "cd_criterion_id (hd (sp_criteria (pk_completion demo_policy))) = ''COM-DELIVERABLE''"
proof -
  have "pk_completion demo_policy = builtin_completion (\<lambda>_. ''t'') (\<lambda>_. ''q'')"
    by (simp add: demo_policy_def builtin_default_policy_def)
  note completion = this
  show "cd_criterion_id (hd (sp_criteria (pk_completion demo_other_policy))) = ''COM-KPI''"
    "cd_criterion_id (hd (sp_criteria (pk_completion demo_policy))) = ''COM-DELIVERABLE''"
    by (simp_all add: demo_other_policy_def completion builtin_completion_def builtin_criterion_def)
  have "stage_policy_valid (pk_completion demo_policy)" using demo_policy(1) by (simp add: policy_pack_valid_def)
  then have "stage_policy_valid ((pk_completion demo_policy)\<lparr>sp_criteria := tl (sp_criteria (pk_completion demo_policy))\<rparr>)"
    by (simp add: completion builtin_completion_def stage_policy_valid_def stage_semantics_def Let_def)
  with demo_policy(1) show "policy_pack_valid demo_other_policy"
    by (simp add: policy_pack_valid_def gate_binding_def demo_other_policy_def)
qed

lemma demo_proposal:
  "first_such (\<lambda>a. ar_role a = ''registration_proposal'') (pd_artifacts demo_reviewed) =
     Some (demo_artifact ''registration_proposal'')"
  "length (er_recommendation_summary demo_registered) \<le> 500"
  "length (ot_reuse_excerpt (ov_texts demo_evaluator)) \<le> 500"
  "ar_sha256 (ed_artifact (demo_evidence tags)) = ar_sha256 (demo_artifact ''registration_proposal'')"
  by (simp_all add: demo_reviewed_def demo_artifact_def demo_registered_def demo_evaluator_def demo_texts_def
      demo_evidence_def)

theorem reused_proposal_not_accepted_witness:
  "\<exists>r. evaluate_completion demo_evaluator 0 demo_reviewed demo_snapshot (demo_evidence [''result'']) demo_registered
     (Some (demo_profile demo_policy)) = Inr r \<and> er_recommendation r = NOT_ACCEPT"
  using reused_proposal_not_accepted [OF demo_inputs [OF demo_policy(1), of "[''result'']"] refl demo_proposal(1-3), of 0]
    demo_other_policy(3) demo_proposal(4)
  by (auto simp: demo_profile_def)

theorem reuse_check_raises_witness:
  "evaluate_completion demo_evaluator 0 demo_reviewed demo_snapshot (demo_evidence [''result'']) demo_registered
     (Some (demo_profile demo_other_policy)) = Inl (Exn KeyError ''COM-KPI'')"
  using reuse_check_raises [OF demo_inputs [OF demo_other_policy(1), of "[''result'']"] refl demo_proposal(1-3), of 0]
    demo_other_policy(2) demo_proposal(4)
  by (simp add: demo_profile_def)

end
