(* ===== verification/Ingest.thy ===== *)
theory Ingest
  imports Domain Retrieval
begin

text \<open>
  \<open>ingest/pptx.py\<close>: the extractor of evidence from a presentation.  The files that a path can name
  are a \<open>source_dir\<close>; a file has its SHA-256 and size, and holds a package, a text, or neither.  The
  zip and XML parsers are outside the model: a package lists its entries with their sizes and gives,
  per name, what reading and parsing that entry yields.  Paths are absolute and resolved.  The Korean
  literals, the keyword table and the sidecar label, are parameters (\<open>pptx_env\<close>).
\<close>

section \<open>Files and packages\<close>

text \<open>Reading an entry may raise; its XML may not parse; else its text nodes, its pictures and whether
  one of its relationships is external.\<close>

datatype zip_part = Unreadable exn | BadXml | XmlPart "string option list" nat bool

text \<open>\<open>zp_names\<close> is the order in which the set of names is iterated.\<close>

record zip_package =
  zp_infos :: "(string \<times> int) list"
  zp_names :: "string list"
  zp_part :: "string \<Rightarrow> zip_part"

datatype source_text = SourceJson json | NotJson | NotUtf8

record source_file =
  sf_sha256 :: string
  sf_size :: int
  sf_package :: "zip_package option"
  sf_text :: source_text

type_synonym source_dir = "string \<Rightarrow> source_file option"

record pptx_env =
  px_keywords :: "(string \<times> string list) list"
  px_label :: string
  px_str :: "json \<Rightarrow> string"

definition PPTX_MEDIA_TYPE :: string where
  "PPTX_MEDIA_TYPE = ''application/vnd.openxmlformats-officedocument.presentationml.presentation''"

definition PARSER_ID :: string where
  "PARSER_ID = ''axcalib.pptx-ooxml/v1''"

definition SIDECAR_SCHEMA :: string where
  "SIDECAR_SCHEMA = ''axcalib.pptx-sidecar/v1''"

definition MAX_SLIDES :: nat where
  "MAX_SLIDES = 64"

definition MAX_PACKAGE_ENTRIES :: nat where
  "MAX_PACKAGE_ENTRIES = 5000"

definition MAX_UNCOMPRESSED_BYTES :: int where
  "MAX_UNCOMPRESSED_BYTES = 250 * 1024 * 1024"

definition pptx_error :: "string \<Rightarrow> exn" where
  "pptx_error message = Exn PptxSourceError message"

section \<open>Strings\<close>

text \<open>\<open>Path.suffix\<close>: from the last dot of the last component, neither its first nor its last character.\<close>

definition path_name :: "string \<Rightarrow> string" where
  "path_name p = rev (takeWhile (\<lambda>c. c \<noteq> CHR ''/'') (rev p))"

definition path_suffix :: "string \<Rightarrow> string" where
  "path_suffix p =
     (let n = path_name p; after = rev (takeWhile (\<lambda>c. c \<noteq> CHR ''.'') (rev n))
      in if CHR ''.'' \<notin> set n \<or> after = [] \<or> length n \<le> length after + 1 then []
         else CHR ''.'' # after)"

text \<open>\<open>" ".join(s.split())\<close>.\<close>

definition squeeze :: "string \<Rightarrow> string" where
  "squeeze s = join_with '' '' (find_runs (\<lambda>c. \<not> py_space c) s)"

definition read_digits :: "string \<Rightarrow> int" where
  "read_digits ds = foldl (\<lambda>n c. 10 * n + (of_char c - 48)) 0 ds"

text \<open>
  \<open>SLIDE_PATTERN\<close>, whose \<open>$\<close> also matches before a final line feed; the number it captures.  The \<open>ValueError\<close> of
  \<open>int\<close> for a number of more than 4300 digits is left out.
\<close>

definition slide_number_of :: "string \<Rightarrow> int option" where
  "slide_number_of name =
     (let s = (if name \<noteq> [] \<and> last name = CHR 0x0A then butlast name else name);
          ds = take (length s - 20) (drop 16 s)
      in if starts_with ''ppt/slides/slide'' s \<and> ends_with ''.xml'' s \<and> 20 < length s \<and> list_all is_digit ds
         then Some (read_digits ds) else None)"

section \<open>Tags\<close>

definition infer_tags :: "pptx_env \<Rightarrow> string \<Rightarrow> string list" where
  "infer_tags env text =
     (let normalized = casefold text;
          tags = map fst (filter (\<lambda>(tag, keywords). list_ex (\<lambda>k. str_in (casefold k) normalized) keywords)
                   (px_keywords env));
          extra = (if ''kpi_plan'' \<in> set tags \<and> list_ex is_digit normalized then [''quantitative_target''] else [])
      in sort (remdups (tags @ extra)))"

section \<open>Artifacts\<close>

definition pptx_artifact_ref :: "source_dir \<Rightarrow> string \<Rightarrow> string \<Rightarrow> string option \<Rightarrow> artifact_ref res" where
  "pptx_artifact_ref src path role sidecar =
     (if casefold (path_suffix path) \<noteq> ''.pptx'' then
        Inl (pptx_error ''only .pptx input is supported by the offline parser'')
      else (case src path of
        None \<Rightarrow> Inl (pptx_error ''PPTX source does not exist'')
      | Some f \<Rightarrow>
          (case (case sidecar of
                   None \<Rightarrow> Inr [(''parser_id'', PARSER_ID)]
                 | Some sp \<Rightarrow>
                     (case src sp of
                        None \<Rightarrow> Inl (pptx_error ''PPTX sidecar does not exist'')
                      | Some sf \<Rightarrow>
                          Inr [(''parser_id'', PARSER_ID), (''sidecar_byte_size'', str_int (sf_size sf)),
                               (''sidecar_media_type'', ''application/json''),
                               (''sidecar_sha256'', sf_sha256 sf), (''sidecar_uri'', sp)])) of
             Inl e \<Rightarrow> Inl e
           | Inr metadata \<Rightarrow>
               (let a = \<lparr>ar_artifact_id = ''artifact-'' @ role @ ''-'' @ take 16 (sf_sha256 f), ar_role = role,
                         ar_uri = path, ar_media_type = PPTX_MEDIA_TYPE, ar_sha256 = sf_sha256 f,
                         ar_byte_size = sf_size f, ar_metadata = metadata\<rparr>
                in if artifact_ref_valid a then Inr a else Inl (Exn ValidationError ''ArtifactRef'')))))"

section \<open>Sidecars\<close>

text \<open>\<open>isinstance(v, int)\<close> and the value; a Boolean is an integer of Python.\<close>

definition json_int :: "json \<Rightarrow> int option" where
  "json_int v = (case v of JInt i \<Rightarrow> Some i | JBool b \<Rightarrow> Some (if b then 1 else 0) | _ \<Rightarrow> None)"

type_synonym sidecar_item = "(string \<times> json) list"

fun check_sidecar_slides :: "int list \<Rightarrow> json list \<Rightarrow> sidecar_item list res" where
  "check_sidecar_slides seen [] = Inr []"
| "check_sidecar_slides seen (v # vs) =
     (case v of
        JObj ms \<Rightarrow>
          (case json_int (json_get ms ''slide'') of
             None \<Rightarrow> Inl (pptx_error ''each sidecar slide must have an integer slide number'')
           | Some n \<Rightarrow>
               if n < 1 \<or> n > int MAX_SLIDES then
                 Inl (pptx_error ''sidecar slide number is outside the allowed range'')
               else if n \<in> set seen then Inl (pptx_error ''sidecar contains a duplicate slide number'')
               else (case map_of ms ''tags'' of
                       Some (JList _) \<Rightarrow> map_sum id ((#) ms) (check_sidecar_slides (n # seen) vs)
                     | None \<Rightarrow> map_sum id ((#) ms) (check_sidecar_slides (n # seen) vs)
                     | Some _ \<Rightarrow> Inl (pptx_error ''sidecar slide tags must be an array'')))
      | _ \<Rightarrow> Inl (pptx_error ''each sidecar slide must have an integer slide number''))"

definition json_or :: "(string \<times> json) list \<Rightarrow> string \<Rightarrow> json \<Rightarrow> json" where
  "json_or ms k d = (case map_of ms k of None \<Rightarrow> d | Some v \<Rightarrow> v)"

definition load_sidecar :: "pptx_env \<Rightarrow> source_dir \<Rightarrow> string option \<Rightarrow> string \<Rightarrow> sidecar_item list res" where
  "load_sidecar env src path source_sha256 =
     (case path of
        None \<Rightarrow> Inr []
      | Some p \<Rightarrow>
          (case src p of
             None \<Rightarrow> Inl (pptx_error ''invalid PPTX sidecar'')
           | Some f \<Rightarrow>
               (case sf_text f of
                  NotJson \<Rightarrow> Inl (pptx_error ''invalid PPTX sidecar'')
                | NotUtf8 \<Rightarrow> Inl (Exn ValueError ''UnicodeDecodeError'')
                | SourceJson data \<Rightarrow>
                    (case data of
                       JObj ms \<Rightarrow>
                         if json_get ms ''schema_version'' \<noteq> JStr SIDECAR_SCHEMA then
                           Inl (pptx_error ''sidecar schema_version must be the supported one'')
                         else if casefold (py_str (px_str env) (json_or ms ''source_sha256'' (JStr ''''))) \<noteq> source_sha256 then
                           Inl (pptx_error ''sidecar source_sha256 does not match the PPTX'')
                         else (case json_get ms ''slides'' of
                                 JList items \<Rightarrow> check_sidecar_slides [] items
                               | _ \<Rightarrow> Inl (pptx_error ''sidecar slides must be an array''))
                     | _ \<Rightarrow> Inl (Exn AttributeError ''get'')))))"

text \<open>\<open>sidecar_slides.get(slide_number, {})\<close>.\<close>

definition annotation_for :: "sidecar_item list \<Rightarrow> int \<Rightarrow> sidecar_item" where
  "annotation_for items n =
     (case first_such (\<lambda>ms. json_int (json_get ms ''slide'') = Some n) (rev items) of None \<Rightarrow> [] | Some ms \<Rightarrow> ms)"

definition annotated_tags :: "pptx_env \<Rightarrow> sidecar_item \<Rightarrow> string list" where
  "annotated_tags env ms = (case json_or ms ''tags'' (JList []) of JList ts \<Rightarrow> map (py_str (px_str env)) ts | _ \<Rightarrow> [])"

section \<open>Slides\<close>

definition slide_evidence_of ::
  "pptx_env \<Rightarrow> sidecar_item list \<Rightarrow> int \<Rightarrow> string option list \<Rightarrow> nat \<Rightarrow> slide_evidence" where
  "slide_evidence_of env items n texts pics =
     (let chunks = map (\<lambda>t. squeeze (case t of None \<Rightarrow> '''' | Some s \<Rightarrow> s)) texts;
          ooxml = join_with '' '' (filter (\<lambda>c. c \<noteq> []) chunks);
          note = annotation_for items n;
          summary = squeeze (py_str (px_str env) (json_or note ''summary'' (JStr '''')));
          (text, origin) =
            (if ooxml \<noteq> [] \<and> summary \<noteq> [] then
               (ooxml @ [CHR 0x0A] @ px_label env @ summary, ''ooxml+verified_sidecar'')
             else if ooxml \<noteq> [] then (ooxml, ''ooxml'')
             else if summary \<noteq> [] then (summary, ''verified_sidecar'')
             else ('''', ''none''))
      in \<lparr>sl_slide_number = n, sl_text = text,
          sl_tags = sort (remdups (infer_tags env ooxml @ annotated_tags env note)),
          sl_text_source = origin, sl_image_count = int pics, sl_is_blank = (text = [] \<and> pics = 0)\<rparr>)"

definition slide_warnings :: "slide_evidence \<Rightarrow> string list" where
  "slide_warnings s =
     (if sl_image_count s \<noteq> 0 \<and> sl_text s = [] then
        [''slide '' @ str_int (sl_slide_number s) @ '': image-only evidence has no verified text''] else [])"

fun extract_slides ::
  "pptx_env \<Rightarrow> zip_package \<Rightarrow> sidecar_item list \<Rightarrow> (int \<times> string) list \<Rightarrow> slide_evidence list res" where
  "extract_slides env pkg items [] = Inr []"
| "extract_slides env pkg items ((n, name) # rest) =
     (case zp_part pkg name of
        Unreadable e \<Rightarrow> Inl e
      | BadXml \<Rightarrow> Inl (pptx_error ''slide contains invalid XML'')
      | XmlPart texts pics _ \<Rightarrow>
          (let s = slide_evidence_of env items n texts pics in
           if \<not> slide_evidence_valid s then Inl (Exn ValidationError ''SlideEvidence'')
           else map_sum id ((#) s) (extract_slides env pkg items rest)))"

text \<open>The loop over the relationship files: whether one of them has an external target.\<close>

fun external_scan :: "zip_package \<Rightarrow> string list \<Rightarrow> bool res" where
  "external_scan pkg [] = Inr False"
| "external_scan pkg (name # names) =
     (if \<not> ends_with ''.rels'' name then external_scan pkg names
      else (case zp_part pkg name of
              Unreadable e \<Rightarrow> Inl e
            | BadXml \<Rightarrow> external_scan pkg names
            | XmlPart _ _ external \<Rightarrow> if external then Inr True else external_scan pkg names))"

definition slide_names :: "zip_package \<Rightarrow> (int \<times> string) list" where
  "slide_names pkg = sort_key fst (List.map_filter
     (\<lambda>name. map_option (\<lambda>n. (n, name)) (slide_number_of name)) (zp_names pkg))"

definition pptx_package_check :: "zip_package \<Rightarrow> unit res" where
  "pptx_package_check pkg =
     (if length (zp_infos pkg) > MAX_PACKAGE_ENTRIES then Inl (pptx_error ''PPTX package has too many entries'')
      else if sum_list (map snd (zp_infos pkg)) > MAX_UNCOMPRESSED_BYTES then
        Inl (pptx_error ''PPTX uncompressed package exceeds the offline safety limit'')
      else if list_ex (\<lambda>name. str_in ''vbaproject'' (casefold name)) (zp_names pkg) then
        Inl (pptx_error ''macro-enabled PPTX content is not allowed'')
      else if slide_names pkg = [] then Inl (pptx_error ''PPTX contains no slides'')
      else if length (slide_names pkg) > MAX_SLIDES then Inl (pptx_error ''PPTX contains more than 64 slides'')
      else Inr ())"

definition pptx_extract ::
  "pptx_env \<Rightarrow> source_dir \<Rightarrow> string \<Rightarrow> string \<Rightarrow> string option \<Rightarrow> evidence_document res" where
  "pptx_extract env src path role sidecar =
     (case pptx_artifact_ref src path role sidecar of
        Inl e \<Rightarrow> Inl e
      | Inr a \<Rightarrow>
     (case load_sidecar env src sidecar (ar_sha256 a) of
        Inl e \<Rightarrow> Inl e
      | Inr items \<Rightarrow>
     (case Option.bind (src path) sf_package of
        None \<Rightarrow> Inl (pptx_error ''invalid PPTX package'')
      | Some pkg \<Rightarrow>
     (case pptx_package_check pkg of
        Inl e \<Rightarrow> Inl e
      | Inr _ \<Rightarrow>
     (case extract_slides env pkg items (slide_names pkg) of
        Inl e \<Rightarrow> Inl e
      | Inr slides \<Rightarrow>
     (case external_scan pkg (zp_names pkg) of
        Inl e \<Rightarrow> Inl e
      | Inr external \<Rightarrow>
          Inr \<lparr>ed_artifact = a, ed_slides = slides,
               ed_warnings = concat (map slide_warnings slides) @
                 (if external then [''external relationship present but not fetched''] else []),
               ed_parser_id = PARSER_ID, ed_parser_runs = []\<rparr>))))))"

section \<open>What an extraction returns\<close>

lemma map_sum_Inr: "map_sum id f r = Inr y \<longleftrightarrow> (\<exists>x. r = Inr x \<and> y = f x)"
  by (cases r) auto

lemma extract_slides_Inr:
  "extract_slides env pkg items ns = Inr ss \<Longrightarrow>
   map sl_slide_number ss = map fst ns \<and>
   (\<forall>s \<in> set ss. slide_evidence_valid s \<and>
      (\<exists>n texts pics. s = slide_evidence_of env items n texts pics))"
proof (induction ns arbitrary: ss)
  case (Cons x ns)
  obtain n name where x: "x = (n, name)" by fastforce
  from Cons.prems x obtain texts pics external ss' where s:
    "ss = slide_evidence_of env items n texts pics # ss'" "extract_slides env pkg items ns = Inr ss'"
    "slide_evidence_valid (slide_evidence_of env items n texts pics)"
    by (auto simp: Let_def map_sum_Inr split: zip_part.splits if_splits)
  moreover have "sl_slide_number (slide_evidence_of env items n texts pics) = n"
    by (simp add: slide_evidence_of_def Let_def split: prod.split)
  ultimately show ?case using Cons.IH x by auto
qed simp

lemma no_annotation: "annotation_for [] n = []"
  by (simp add: annotation_for_def)

lemma no_summary: "squeeze (py_str other (json_or [] ''summary'' (JStr ''''))) = []"
  by (simp add: json_or_def py_str_def squeeze_def find_runs.simps)

lemma slide_evidence_facts:
  assumes "s = slide_evidence_of env items n texts pics"
  shows "sorted (sl_tags s) \<and> distinct (sl_tags s) \<and>
   (sl_is_blank s \<longleftrightarrow> sl_text s = [] \<and> sl_image_count s = 0)"
    and "items = [] \<Longrightarrow> sl_text_source s \<in> {''ooxml'', ''none''} \<and> set (sl_tags s) = set (infer_tags env (sl_text s))"
proof -
  show "sorted (sl_tags s) \<and> distinct (sl_tags s) \<and>
   (sl_is_blank s \<longleftrightarrow> sl_text s = [] \<and> sl_image_count s = 0)"
    unfolding assms slide_evidence_of_def Let_def by (simp split: prod.split)
  assume items: "items = []"
  have "annotated_tags env [] = []" by (simp add: annotated_tags_def json_or_def)
  then show "sl_text_source s \<in> {''ooxml'', ''none''} \<and> set (sl_tags s) = set (infer_tags env (sl_text s))"
    unfolding assms slide_evidence_of_def items no_annotation no_summary Let_def by simp
qed

lemma check_sidecar_numbers:
  "check_sidecar_slides seen vs = Inr items \<Longrightarrow>
   \<exists>ns. map (\<lambda>ms. json_int (json_get ms ''slide'')) items = map Some ns \<and> distinct ns \<and>
     set ns \<inter> set seen = {} \<and> (\<forall>n \<in> set ns. 1 \<le> n \<and> n \<le> int MAX_SLIDES)"
proof (induction vs arbitrary: seen items)
  case (Cons v vs)
  from Cons.prems obtain ms n items' where v: "items = ms # items'" "json_int (json_get ms ''slide'') = Some n"
    "1 \<le> n" "n \<le> int MAX_SLIDES" "n \<notin> set seen" "check_sidecar_slides (n # seen) vs = Inr items'"
    by (auto simp: map_sum_Inr split: json.splits option.splits if_splits)
  from Cons.IH [OF v(6)] obtain ns where
    "map (\<lambda>ms. json_int (json_get ms ''slide'')) items' = map Some ns" "distinct ns"
    "set ns \<inter> set (n # seen) = {}" "\<forall>n \<in> set ns. 1 \<le> n \<and> n \<le> int MAX_SLIDES" by blast
  with v show ?case by (intro exI [of _ "n # ns"]) auto
qed simp

lemma pptx_extract_Inr:
  assumes "pptx_extract env src path role sidecar = Inr ed"
  obtains a items pkg where "pptx_artifact_ref src path role sidecar = Inr a"
    "load_sidecar env src sidecar (ar_sha256 a) = Inr items" "Option.bind (src path) sf_package = Some pkg"
    "pptx_package_check pkg = Inr ()" "extract_slides env pkg items (slide_names pkg) = Inr (ed_slides ed)"
    "ed_artifact ed = a" "ed_parser_runs ed = []"
  using assms by (auto simp: pptx_extract_def split: sum.splits option.splits)

lemma pptx_artifact_ref_Inr:
  assumes "pptx_artifact_ref src path role sidecar = Inr a"
  obtains f where "src path = Some f" "ar_sha256 a = sf_sha256 f" "ar_uri a = path" "ar_role a = role"
    "artifact_ref_valid a" "casefold (path_suffix path) = ''.pptx''"
  using assms by (auto simp: pptx_artifact_ref_def Let_def split: if_splits option.splits sum.splits)

definition sidecar_names :: "pptx_env \<Rightarrow> source_file \<Rightarrow> string \<Rightarrow> bool" where
  "sidecar_names env f sha \<longleftrightarrow> (\<exists>ms. sf_text f = SourceJson (JObj ms) \<and>
     casefold (py_str (px_str env) (json_or ms ''source_sha256'' (JStr ''''))) = sha)"

lemma load_sidecar_bound:
  "load_sidecar env src (Some p) sha = Inr items \<Longrightarrow> \<exists>f. src p = Some f \<and> sidecar_names env f sha"
  by (auto simp: load_sidecar_def sidecar_names_def split: option.splits source_text.splits json.splits if_splits)

text \<open>
  C22. What an extraction returns is traceable and bounded: between one and sixty-four slides in
  ascending order, each with sorted tags without repetition, of the very file that the artifact
  reference hashes; text and tags of a sidecar appear only when the sidecar names that hash, and
  without a sidecar every tag is inferred from the text of its own slide.
\<close>

theorem extraction_bounded:
  assumes "pptx_extract env src path role sidecar = Inr ed"
  shows "1 \<le> length (ed_slides ed) \<and> length (ed_slides ed) \<le> MAX_SLIDES \<and>
    sorted (map sl_slide_number (ed_slides ed)) \<and>
    (\<forall>s \<in> set (ed_slides ed). 1 \<le> sl_slide_number s \<and> sorted (sl_tags s) \<and> distinct (sl_tags s)) \<and>
    (\<exists>f. src path = Some f \<and> ar_sha256 (ed_artifact ed) = sf_sha256 f) \<and>
    (case sidecar of
       Some p \<Rightarrow> \<exists>f. src p = Some f \<and> sidecar_names env f (ar_sha256 (ed_artifact ed))
     | None \<Rightarrow> \<forall>s \<in> set (ed_slides ed). sl_text_source s \<in> {''ooxml'', ''none''} \<and>
         set (sl_tags s) = set (infer_tags env (sl_text s)))"
proof -
  obtain a items pkg where p: "pptx_artifact_ref src path role sidecar = Inr a"
    "load_sidecar env src sidecar (ar_sha256 a) = Inr items" "pptx_package_check pkg = Inr ()"
    "extract_slides env pkg items (slide_names pkg) = Inr (ed_slides ed)" "ed_artifact ed = a"
    by (rule pptx_extract_Inr [OF assms])
  note ss = extract_slides_Inr [OF p(4)]
  from ss have numbers: "map sl_slide_number (ed_slides ed) = map fst (slide_names pkg)" ..
  then have len: "length (ed_slides ed) = length (slide_names pkg)" by (metis length_map)
  have nonempty: "slide_names pkg \<noteq> []" and few: "length (slide_names pkg) \<le> MAX_SLIDES"
    using p(3) by (auto simp: pptx_package_check_def split: if_splits)
  have order: "sorted (map fst (slide_names pkg))" by (simp add: slide_names_def)
  have each: "\<forall>s \<in> set (ed_slides ed). 1 \<le> sl_slide_number s \<and> sorted (sl_tags s) \<and> distinct (sl_tags s)"
    using ss slide_evidence_facts(1) by (fastforce simp: slide_evidence_valid_def)
  have own: "\<forall>s \<in> set (ed_slides ed). sl_text_source s \<in> {''ooxml'', ''none''} \<and>
      set (sl_tags s) = set (infer_tags env (sl_text s))" if "sidecar = None"
    using ss slide_evidence_facts(2) p(2) that by (fastforce simp: load_sidecar_def)
  have hash: "\<exists>f. src path = Some f \<and> ar_sha256 (ed_artifact ed) = sf_sha256 f"
    using p(1,5) by (auto elim: pptx_artifact_ref_Inr)
  have named: "\<exists>f. src q = Some f \<and> sidecar_names env f (ar_sha256 (ed_artifact ed))" if "sidecar = Some q" for q
    using load_sidecar_bound p(2,5) that by blast
  show ?thesis
    unfolding numbers len
    by (intro conjI each hash order few) (use nonempty own named in \<open>simp_all add: Suc_le_eq split: option.split\<close>)
qed

definition demo_pptx :: pptx_env where
  "demo_pptx = \<lparr>px_keywords = [(''goal'', [''g''])], px_label = ''note: '', px_str = (\<lambda>_. '''')\<rparr>"

definition demo_package :: zip_package where
  "demo_package = \<lparr>zp_infos = [(''ppt/slides/slide1.xml'', 9)], zp_names = [''ppt/slides/slide1.xml''],
     zp_part = (\<lambda>_. XmlPart [Some '' g  h''] 0 False)\<rparr>"

definition demo_sources :: source_dir where
  "demo_sources =
     [''/p.pptx'' \<mapsto> \<lparr>sf_sha256 = demo_sha, sf_size = 9, sf_package = Some demo_package, sf_text = NotUtf8\<rparr>,
      ''/p.json'' \<mapsto> \<lparr>sf_sha256 = demo_sha, sf_size = 5, sf_package = None, sf_text = SourceJson (JObj
         [(''schema_version'', JStr SIDECAR_SCHEMA),
          (''slides'', JList [JObj [(''slide'', JInt 1), (''summary'', JStr ''x''), (''tags'', JList [JStr ''kpi''])]]),
          (''source_sha256'', JStr demo_sha)])\<rparr>]"

lemma casefold_demo_sha [simp]: "casefold demo_sha = demo_sha"
  by (simp add: demo_sha_def casefold_def casefold_char_def eval_nat_numeral)

lemma demo_slide_names: "slide_names demo_package = [(1, ''ppt/slides/slide1.xml'')]"
  by (simp add: slide_names_def demo_package_def slide_number_of_def read_digits_def Let_def ends_with_def
      List.map_filter_def is_digit_def char_between_def)

lemma demo_artifact: "\<exists>a. pptx_artifact_ref demo_sources ''/p.pptx'' ''r'' (Some ''/p.json'') = Inr a \<and> ar_sha256 a = demo_sha"
  by (simp add: pptx_artifact_ref_def demo_sources_def path_suffix_def path_name_def Let_def casefold_def
      casefold_char_def artifact_ref_valid_def)

lemma demo_sidecar: "\<exists>items. load_sidecar demo_pptx demo_sources (Some ''/p.json'') demo_sha = Inr items"
  by (simp add: load_sidecar_def demo_sources_def json_get_def json_or_def py_str_def MAX_SLIDES_def json_int_def)

theorem extraction_bounded_witness:
  "\<exists>ed f. pptx_extract demo_pptx demo_sources ''/p.pptx'' ''r'' (Some ''/p.json'') = Inr ed \<and>
     1 \<le> length (ed_slides ed) \<and> length (ed_slides ed) \<le> MAX_SLIDES \<and>
     demo_sources ''/p.json'' = Some f \<and> sidecar_names demo_pptx f (ar_sha256 (ed_artifact ed))"
proof -
  obtain a items where a: "pptx_artifact_ref demo_sources ''/p.pptx'' ''r'' (Some ''/p.json'') = Inr a"
    "load_sidecar demo_pptx demo_sources (Some ''/p.json'') (ar_sha256 a) = Inr items"
    using demo_artifact demo_sidecar by metis
  have pkg: "Option.bind (demo_sources ''/p.pptx'') sf_package = Some demo_package" by (simp add: demo_sources_def)
  have check: "pptx_package_check demo_package = Inr ()"
    unfolding pptx_package_check_def demo_slide_names
    by (simp add: demo_package_def MAX_PACKAGE_ENTRIES_def MAX_UNCOMPRESSED_BYTES_def MAX_SLIDES_def casefold_def
        casefold_char_def)
  have "\<exists>ss. extract_slides demo_pptx demo_package items (slide_names demo_package) = Inr ss"
    unfolding demo_slide_names
    by (simp add: demo_package_def Let_def slide_evidence_valid_def slide_evidence_of_def split: prod.split)
  moreover have "external_scan demo_package (zp_names demo_package) = Inr False"
    by (simp add: demo_package_def ends_with_def)
  ultimately obtain ed where ed: "pptx_extract demo_pptx demo_sources ''/p.pptx'' ''r'' (Some ''/p.json'') = Inr ed"
    using a pkg check by (auto simp: pptx_extract_def)
  from extraction_bounded [OF this] ed show ?thesis by auto
qed

end
