(* ===== verification/ProjectService.thy ===== *)
theory ProjectService
  imports ProjectTransactions OutboxFiles Evaluator Ingest
begin

text \<open>
  The project service of \<open>pipelines/project.py\<close>: it takes a project from its proposal through both
  gates.  An operation loads the dossier, asks the workflow for the transition, writes reports and
  notifications where a gate opens, and saves dossier and audit event in one transaction.

  A \<open>project_env\<close> holds what the service is built with: the workspace's path, the transaction
  environment, the delivery port of the outbox, the review profiles, the evaluator, the optional second
  parser, and as parameters the adapters that print and read a report and the Korean literals.  A
  \<open>svc_call\<close> holds what one call reads: the clock, the uuids it draws, and the source files.  URIs are
  absolute resolved paths.
\<close>

section \<open>The service and its state\<close>

record evidence_evaluator =
  vl_registration :: "int \<Rightarrow> project_dossier \<Rightarrow> snapshot_ref \<Rightarrow> evidence_document \<Rightarrow> resolved_profile option \<Rightarrow>
    evaluation_report res"
  vl_completion :: "int \<Rightarrow> project_dossier \<Rightarrow> snapshot_ref \<Rightarrow> evidence_document \<Rightarrow> evaluation_report \<Rightarrow>
    resolved_profile option \<Rightarrow> evaluation_report res"

definition offline_as_evaluator :: "offline_evaluator \<Rightarrow> evidence_evaluator" where
  "offline_as_evaluator E = \<lparr>vl_registration = evaluate_registration E, vl_completion = evaluate_completion E\<rparr>"

record docling_result =
  dl_slides :: "slide_evidence list"
  dl_manifest :: parser_run_manifest

record 'n project_env =
  pv_workspace :: string
  pv_tx :: tx_env
  pv_clock :: "nat \<Rightarrow> int"
  pv_down :: "'n sender"
  pv_profiles :: profile_registry
  pv_default_profile :: string
  pv_config :: "effective_config_ref option"
  pv_evaluator :: evidence_evaluator
  pv_pptx :: pptx_env
  pv_docling :: "(source_dir \<Rightarrow> string \<Rightarrow> docling_result res) option"
  pv_dump_report :: "evaluation_report \<Rightarrow> json"
  pv_parse_report :: "json \<Rightarrow> evaluation_report res"
  pv_markdown :: "evaluation_report \<Rightarrow> string"
  pv_text :: "string \<Rightarrow> string"

record svc_call =
  sc_t :: "nat \<Rightarrow> int"
  sc_uid :: "nat \<Rightarrow> string"
  sc_src :: source_dir

record 'n project_state =
  pj_ws :: project_ws
  pj_snapshots :: snapshot_dir
  pj_outbox :: "'n outbox"

definition PIPELINE_ID :: string where
  "PIPELINE_ID = ''two-gate-pptx''"

definition PIPELINE_VERSION :: string where
  "PIPELINE_VERSION = ''v1alpha1''"

definition on_ws ::
  "(project_ws \<Rightarrow> ('a, project_ws) outcome) \<Rightarrow> 'n project_state \<Rightarrow> ('a, 'n project_state) outcome" where
  "on_ws f s = (fst (f (pj_ws s)), s\<lparr>pj_ws := snd (f (pj_ws s))\<rparr>)"

definition on_snapshots ::
  "(snapshot_dir \<Rightarrow> ('a, snapshot_dir) outcome) \<Rightarrow> 'n project_state \<Rightarrow> ('a, 'n project_state) outcome" where
  "on_snapshots f s = (fst (f (pj_snapshots s)), s\<lparr>pj_snapshots := snd (f (pj_snapshots s))\<rparr>)"

abbreviation pj_store :: "'n project_state \<Rightarrow> dossier_dir" where
  "pj_store s \<equiv> tx_store (pj_ws s)"

text \<open>The durable outbox lies in the workspace, where the transactions verify its files.\<close>

definition pj_send :: "'n project_env \<Rightarrow> 'n project_state sender" where
  "pj_send env ev s =
     (let (r, ob) = outbox_send (tx_sha_text (pv_tx env)) (pv_clock env) (pv_down env) ev (pj_outbox s)
      in (r, s\<lparr>pj_outbox := ob,
               pj_ws := (pj_ws s)\<lparr>tx_files := outbox_tree ''outbox'' ob (tx_files (pj_ws s))\<rparr>\<rparr>))"

fun role_value :: "actor_role \<Rightarrow> string" where
  "role_value SYSTEM = ''system''"
| "role_value SUBMITTER = ''submitter''"
| "role_value PROJECT_OWNER = ''project_owner''"
| "role_value MENTOR = ''mentor''"
| "role_value ADMINISTRATOR = ''administrator''"

fun recommendation_value :: "agent_recommendation \<Rightarrow> string" where
  "recommendation_value PASS = ''pass''"
| "recommendation_value NEEDS_CHANGES = ''needs_changes''"
| "recommendation_value REJECT = ''reject''"
| "recommendation_value ACCEPT = ''accept''"
| "recommendation_value NOT_ACCEPT = ''not_accept''"

section \<open>Helpers\<close>

text \<open>\<open>path.relative_to(workspace)\<close>.\<close>

definition workspace_relative :: "'n project_env \<Rightarrow> string \<Rightarrow> string option" where
  "workspace_relative env uri =
     (let root = pv_workspace env @ ''/'' in
      if starts_with root uri then Some (drop (length root) uri) else None)"

definition dossier_uri :: "'n project_env \<Rightarrow> string \<Rightarrow> string" where
  "dossier_uri env project_id = pv_workspace env @ ''/dossiers/'' @ dossier_file project_id"

definition stage_review_of :: "review_stage \<Rightarrow> project_dossier \<Rightarrow> stage_review" where
  "stage_review_of st d = (case st of REGISTRATION \<Rightarrow> pd_registration d | COMPLETION \<Rightarrow> pd_completion d)"

definition with_stage_review :: "review_stage \<Rightarrow> stage_review \<Rightarrow> project_dossier \<Rightarrow> project_dossier" where
  "with_stage_review st rv d =
     (case st of REGISTRATION \<Rightarrow> d\<lparr>pd_registration := rv\<rparr> | COMPLETION \<Rightarrow> d\<lparr>pd_completion := rv\<rparr>)"

definition submission_artifact :: "project_dossier \<Rightarrow> string option \<Rightarrow> artifact_ref res" where
  "submission_artifact d artifact_id =
     (case artifact_id of
        None \<Rightarrow> Inl (Exn RuntimeError ''submission artifact is missing'')
      | Some i \<Rightarrow>
          (case first_such (\<lambda>a. ar_artifact_id a = i) (pd_artifacts d) of
             None \<Rightarrow> Inl (Exn RuntimeError ''submission artifact not found'') | Some a \<Rightarrow> Inr a))"

definition record_of :: "project_dossier \<Rightarrow> workflow_record" where
  "record_of d = \<lparr>wr_project_id = pd_project_id d, wr_status = pd_status d,
     wr_mentor_ref = xr_mentor_ref (pd_execution d)\<rparr>"

definition svc_transition ::
  "'n project_env \<Rightarrow> project_dossier \<Rightarrow> string \<Rightarrow> actor_role \<Rightarrow> 'n project_state \<Rightarrow>
   (workflow_record, 'n project_state) outcome" where
  "svc_transition env d trigger role s = transition (Some (pj_send env)) (record_of d) trigger role None None s"

definition required_report_id :: "stage_review \<Rightarrow> string res" where
  "required_report_id rv =
     (if truthy (st_report_id rv) then Inr (the (st_report_id rv))
      else Inl (Exn RuntimeError ''review report is missing''))"

text \<open>The text of the file behind a URI, a file of the workspace or one outside of it.\<close>

definition read_json_text :: "'n project_env \<Rightarrow> svc_call \<Rightarrow> string \<Rightarrow> 'n project_state \<Rightarrow> json res" where
  "read_json_text env c uri s =
     (case Option.bind (workspace_relative env uri) (tx_files (pj_ws s)) of
        Some (RegularFile (JsonText j)) \<Rightarrow> Inr j
      | Some (RegularFile (OtherText _)) \<Rightarrow> Inl (Exn ValidationError ''EvaluationReport'')
      | _ \<Rightarrow>
          (case sc_src c uri of
             None \<Rightarrow> Inl (Exn FileNotFoundError uri)
           | Some f \<Rightarrow>
               (case sf_text f of
                  SourceJson j \<Rightarrow> Inr j
                | NotJson \<Rightarrow> Inl (Exn ValidationError ''EvaluationReport'')
                | NotUtf8 \<Rightarrow> Inl (Exn ValueError ''UnicodeDecodeError''))))"

definition load_report :: "'n project_env \<Rightarrow> svc_call \<Rightarrow> stage_review \<Rightarrow> 'n project_state \<Rightarrow> evaluation_report res" where
  "load_report env c rv s =
     (if \<not> truthy (st_report_json_uri rv) then Inl (Exn RuntimeError ''registration report JSON is missing'')
      else (case read_json_text env c (the (st_report_json_uri rv)) s of
              Inl e \<Rightarrow> Inl e | Inr j \<Rightarrow> pv_parse_report env j))"

definition review_profile :: "'n project_env \<Rightarrow> project_dossier \<Rightarrow> resolved_profile res" where
  "review_profile env d =
     (case pd_review_profile d of
        None \<Rightarrow> Inl (Exn RuntimeError ''dossier has no frozen review profile'')
      | Some ref \<Rightarrow> resolve_profile_ref ref True (pv_profiles env))"

fun validate_adjustments_from ::
  "criterion_result list \<Rightarrow> string list \<Rightarrow> reviewer_adjustment list \<Rightarrow> unit res" where
  "validate_adjustments_from criteria seen [] = Inr ()"
| "validate_adjustments_from criteria seen (a # rest) =
     (if ra_criterion_id a \<in> set seen then Inl (Exn ValueError ''duplicate reviewer adjustment'')
      else (case result_for (ra_criterion_id a) criteria of
              None \<Rightarrow> Inl (Exn ValueError ''reviewer adjustment criterion is not in the Agent report'')
            | Some r \<Rightarrow>
                if cr_assessment r \<noteq> ra_from_assessment a then
                  Inl (Exn ValueError ''reviewer adjustment base assessment is stale'')
                else validate_adjustments_from criteria (ra_criterion_id a # seen) rest))"

definition validate_adjustments :: "evaluation_report \<Rightarrow> reviewer_adjustment list \<Rightarrow> unit res" where
  "validate_adjustments report adjustments = validate_adjustments_from (er_criteria report) [] adjustments"

section \<open>Evidence\<close>

text \<open>A slide without text takes text and tags of the second parser.\<close>

definition merge_slide :: "slide_evidence list \<Rightarrow> slide_evidence \<Rightarrow> slide_evidence" where
  "merge_slide parsed_slides slide =
     (case first_such (\<lambda>p. sl_slide_number p = sl_slide_number slide) (rev parsed_slides) of
        None \<Rightarrow> slide
      | Some parsed \<Rightarrow>
          if sl_text parsed \<noteq> [] \<and> sl_text slide = [] then
            slide\<lparr>sl_text := sl_text parsed, sl_tags := sl_tags parsed,
                  sl_text_source := sl_text_source parsed, sl_is_blank := False\<rparr>
          else slide)"

definition merge_docling :: "docling_result \<Rightarrow> evidence_document \<Rightarrow> evidence_document" where
  "merge_docling dl ed =
     (let m = dl_manifest dl;
          warnings = ed_warnings ed @ pm_warnings m @
            (if pm_page_count m \<noteq> int (length (ed_slides ed)) then
               [''Docling and OOXML slide counts differ; OOXML slide numbering was retained.''] else [])
      in ed\<lparr>ed_slides := map (merge_slide (dl_slides dl)) (ed_slides ed),
            ed_parser_id := ed_parser_id ed @ ''+'' @ pm_parser_id m,
            ed_parser_runs := ed_parser_runs ed @ [m], ed_warnings := dict_fromkeys warnings\<rparr>)"

definition svc_extract :: "'n project_env \<Rightarrow> svc_call \<Rightarrow> artifact_ref \<Rightarrow> evidence_document res" where
  "svc_extract env c a =
     (let sidecar = map_of (ar_metadata a) ''sidecar_uri'' in
      case pptx_extract (pv_pptx env) (sc_src c) (ar_uri a) (ar_role a)
             (if truthy sidecar then sidecar else None) of
        Inl e \<Rightarrow> Inl e
      | Inr ed \<Rightarrow>
          if ar_sha256 (ed_artifact ed) \<noteq> ar_sha256 a then
            Inl (Exn ProjectSourceIntegrityError ''proposal evidence changed after dossier registration'')
          else if map_of (ar_metadata a) ''sidecar_sha256'' \<noteq> map_of (ar_metadata (ed_artifact ed)) ''sidecar_sha256'' then
            Inl (Exn RuntimeError ''sidecar evidence changed after dossier registration'')
          else
            (case pv_docling env of
               None \<Rightarrow> Inr ed
             | Some parser \<Rightarrow> map_sum id (\<lambda>dl. merge_docling dl ed) (parser (sc_src c) (ar_uri a))))"

section \<open>Reports and saves\<close>

record rendered_report =
  rd_report_id :: string
  rd_json_path :: string
  rd_markdown_path :: string

text \<open>\<open>ReportRenderer.render\<close>: both files of a report, under the workspace.\<close>

definition render_report ::
  "'n project_env \<Rightarrow> evaluation_report \<Rightarrow> 'n project_state \<Rightarrow> (rendered_report, 'n project_state) outcome" where
  "render_report env report s =
     (let base = ''reports/'' @ er_project_id report @ ''/'' @ stage_value (er_stage report) @ ''/'' @ er_report_id report;
          files = (tx_files (pj_ws s))
            (base @ ''.json'' \<mapsto> RegularFile (JsonText (pv_dump_report env report)),
             base @ ''.md'' \<mapsto> RegularFile (OtherText (pv_markdown env report)))
      in (Inr \<lparr>rd_report_id = er_report_id report, rd_json_path = pv_workspace env @ ''/'' @ base @ ''.json'',
               rd_markdown_path = pv_workspace env @ ''/'' @ base @ ''.md''\<rparr>,
          s\<lparr>pj_ws := (pj_ws s)\<lparr>tx_files := files\<rparr>\<rparr>))"

text \<open>The gate that a dossier in a waiting status waits at.\<close>

definition waiting_stage :: "project_status \<Rightarrow> review_stage option" where
  "waiting_stage st =
     (if st = REGISTRATION_HITL_PENDING then Some REGISTRATION
      else if st = COMPLETION_HITL_PENDING then Some COMPLETION else None)"

definition gate_requirements ::
  "'n project_env \<Rightarrow> project_dossier \<Rightarrow> review_stage \<Rightarrow> int \<Rightarrow> 'n project_state \<Rightarrow> artifact_requirement list res" where
  "gate_requirements env d st target_revision s =
     (let rv = stage_review_of st d; files = tx_files (pj_ws s) in
      if \<not> truthy (st_report_id rv) \<or> \<not> truthy (st_report_json_uri rv) \<or> \<not> truthy (st_report_markdown_uri rv) then
        Inl (Exn RuntimeError ''HITL transaction requires both rendered report files'')
      else (case first_such (\<lambda>n. nr_stage n = st \<and> Some (nr_report_id n) = st_report_id rv \<and>
                nr_dossier_revision n = target_revision) (rev (pd_notifications d)) of
        None \<Rightarrow> Inl (Exn RuntimeError ''HITL transaction requires a recorded notification'')
      | Some n \<Rightarrow>
          if nr_delivery_status n \<noteq> ''recorded'' then
            Inl (Exn RuntimeError ''HITL transaction requires a recorded notification'')
          else
            (let event = \<lparr>ev_type = nr_event_type n, ev_project_id = pd_project_id d, ev_stage = stage_value st,
                   ev_required_role = nr_required_role n, ev_revision = Some target_revision,
                   ev_report_ref = st_report_id rv\<rparr>;
                 require = require_file (pv_tx env) files
             in case require (workspace_relative env (the (st_report_json_uri rv))) REPORT_JSON (st_report_id rv) None of
                  Inl e \<Rightarrow> Inl e
                | Inr q1 \<Rightarrow>
               (case require (workspace_relative env (the (st_report_markdown_uri rv))) REPORT_MARKDOWN None None of
                  Inl e \<Rightarrow> Inl e
                | Inr q2 \<Rightarrow>
               (case require (Some (''outbox/'' @ outbox_path_for (tx_sha_text (pv_tx env)) event))
                       NOTIFICATION_OUTBOX None (Some ''recorded'') of
                  Inl e \<Rightarrow> Inl e
                | Inr q3 \<Rightarrow> Inr [q1, q2, q3])))))"

definition transaction_requirements ::
  "'n project_env \<Rightarrow> project_dossier \<Rightarrow> int \<Rightarrow> 'n project_state \<Rightarrow> artifact_requirement list res" where
  "transaction_requirements env d target_revision s =
     (case waiting_stage (pd_status d) of None \<Rightarrow> Inr [] | Some st \<Rightarrow> gate_requirements env d st target_revision s)"

definition str_details :: "(string \<times> string) list \<Rightarrow> (string \<times> json) list" where
  "str_details ds = map (\<lambda>(k, v). (k, JStr v)) ds"

text \<open>\<open>_save_event\<close>; \<open>uid\<close> is the uuid it draws.\<close>

definition save_event ::
  "'n project_env \<Rightarrow> (nat \<Rightarrow> int) \<Rightarrow> string \<Rightarrow> project_dossier \<Rightarrow> int \<Rightarrow> string \<Rightarrow> string \<Rightarrow> actor_role \<Rightarrow>
   (string \<times> string) list \<Rightarrow> 'n project_state \<Rightarrow> (project_dossier, 'n project_state) outcome" where
  "save_event env t uid d expected_revision event_type actor_id role details s =
     (let event_id = ''evt-'' @ uid;
          candidate = d\<lparr>pd_audit_event_ids := pd_audit_event_ids d @ [event_id]\<rparr>;
          event = \<lparr>ae_event_id = event_id, ae_project_id = pd_project_id d, ae_event_type = event_type,
                   ae_actor_id = actor_id, ae_actor_role = role_value role,
                   ae_dossier_revision = expected_revision + 1, ae_occurred_at = t 0,
                   ae_details = str_details details\<rparr>
      in if \<not> audit_event_valid event then (Inl (Exn ValidationError ''AuditEvent''), s)
         else
           seq (pure (transaction_requirements env candidate (expected_revision + 1) s) s) (\<lambda>required s.
           on_ws (execute_update (pv_tx env) (\<lambda>i. t (Suc i)) candidate expected_revision event event_type
             event_id required) s))"

definition svc_result ::
  "'n project_env \<Rightarrow> project_dossier \<Rightarrow> string \<Rightarrow> evaluation_report option \<Rightarrow> string list \<Rightarrow> pipeline_result" where
  "svc_result env d message report allowed_commands =
     \<lparr>pr_pipeline_id = PIPELINE_ID, pr_pipeline_version = PIPELINE_VERSION,
      pr_status = (if allowed_commands \<noteq> [] then WAITING_HUMAN else SUCCEEDED),
      pr_project_id = pd_project_id d, pr_dossier_status = pd_status d, pr_dossier_revision = pd_revision d,
      pr_dossier_uri = dossier_uri env (pd_project_id d), pr_report_id = map_option er_report_id report,
      pr_report_json_uri = (case report of None \<Rightarrow> None | Some r \<Rightarrow> st_report_json_uri (stage_review_of (er_stage r) d)),
      pr_report_markdown_uri =
        (case report of None \<Rightarrow> None | Some r \<Rightarrow> st_report_markdown_uri (stage_review_of (er_stage r) d)),
      pr_allowed_commands = allowed_commands, pr_message = message\<rparr>"

section \<open>Operations\<close>

definition upper_ascii :: "string \<Rightarrow> string" where
  "upper_ascii s = map (\<lambda>c. if is_lower c then char_of (of_char c - 32 :: nat) else c) s"

text \<open>\<open>uid 0\<close> is the uuid of a project without id, \<open>uid 1\<close> that of the event; the clock is read for the
  dossier twice, for the event, and by the transaction.\<close>

definition svc_create_project ::
  "'n project_env \<Rightarrow> svc_call \<Rightarrow> string \<Rightarrow> string \<Rightarrow> string option \<Rightarrow> string option \<Rightarrow> string option \<Rightarrow>
   review_context option \<Rightarrow> string \<Rightarrow> actor_role \<Rightarrow> string option \<Rightarrow> string option \<Rightarrow> 'n project_state \<Rightarrow>
   (project_dossier, 'n project_state) outcome" where
  "svc_create_project env c proposal title sidecar project_id profile_selector' context' actor_id role
     expected_proposal expected_sidecar s =
     (let identifier = str_or project_id (sc_uid c 0) in
      seq (pure (resolve_profile (str_or profile_selector' (pv_default_profile env)) None True (pv_profiles env)) s)
        (\<lambda>profile s.
      seq (pure (pptx_artifact_ref (sc_src c) proposal ''registration_proposal'' sidecar) s) (\<lambda>a s.
      if expected_proposal \<noteq> None \<and> Some (ar_sha256 a) \<noteq> expected_proposal then
        (Inl (Exn ProjectSourceIntegrityError ''proposal hash changed before dossier registration''), s)
      else if expected_sidecar \<noteq> None \<and> map_of (ar_metadata a) ''sidecar_sha256'' \<noteq> expected_sidecar then
        (Inl (Exn ProjectSourceIntegrityError ''sidecar hash changed before dossier registration''), s)
      else
        (let event_id = ''evt-'' @ sc_uid c 1; ref = rv_ref profile;
             d = \<lparr>pd_schema_version = CURRENT_DOSSIER_SCHEMA, pd_project_id = identifier,
                  pd_display_id = ''AXC-'' @ upper_ascii (take 8 identifier), pd_title = strip title,
                  pd_revision = 1, pd_status = DRAFT, pd_created_at = sc_t c 0, pd_updated_at = sc_t c 1,
                  pd_review_context = (case context' of None \<Rightarrow> empty_context | Some x \<Rightarrow> x),
                  pd_review_profile = Some ref, pd_effective_config = pv_config env, pd_artifacts = [a],
                  pd_registration = empty_stage\<lparr>st_submission_artifact_id := Some (ar_artifact_id a),
                    st_review_profile := Some ref\<rparr>,
                  pd_execution = empty_execution, pd_completion = empty_stage, pd_notifications = [],
                  pd_audit_event_ids = [event_id]\<rparr>;
             event = \<lparr>ae_event_id = event_id, ae_project_id = identifier, ae_event_type = ''project_created'',
                  ae_actor_id = actor_id, ae_actor_role = role_value role, ae_dossier_revision = 1,
                  ae_occurred_at = sc_t c 2, ae_details = str_details
                    [(''artifact_id'', ar_artifact_id a), (''artifact_sha256'', ar_sha256 a),
                     (''review_profile'', profile_selector ref), (''review_profile_sha256'', rp_sha256 ref)]\<rparr>
         in if \<not> is_project_id identifier \<or> strip title = [] \<or> 300 < length (strip title) then
              (Inl (Exn ValidationError ''ProjectDossier''), s)
            else on_ws (execute_create (pv_tx env) (\<lambda>i. sc_t c (i + 3)) d event ''project_created'' event_id []) s))))"

definition svc_expected_report_sha256 ::
  "'n project_env \<Rightarrow> archive \<Rightarrow> string \<Rightarrow> string \<Rightarrow> string \<Rightarrow> 'n project_state \<Rightarrow> string option res" where
  "svc_expected_report_sha256 env archive project_id report_id report_path s =
     (case workspace_relative env report_path of
        None \<Rightarrow> Inl (Exn RuntimeError ''report is outside the project workspace'')
      | Some relative \<Rightarrow>
          expected_artifact_sha256 (pv_tx env) archive (tx_journal (pj_ws s)) project_id REPORT_JSON relative (Some report_id))"

definition svc_submit_registration ::
  "'n project_env \<Rightarrow> svc_call \<Rightarrow> string \<Rightarrow> 'n project_state \<Rightarrow> (pipeline_result, 'n project_state) outcome" where
  "svc_submit_registration env c p s =
     seq (pure (dossier_load p (pj_store s)) s) (\<lambda>d s.
     seq (svc_transition env d ''submit_registration'' SUBMITTER s) (\<lambda>r s.
     seq (save_event env (sc_t c) (sc_uid c 0) (d\<lparr>pd_status := wr_status r\<rparr>) (pd_revision d)
            ''registration_submitted'' ''submitter:local'' SUBMITTER [(''trigger'', ''submit_registration'')] s) (\<lambda>saved s.
     (Inr (svc_result env saved (pv_text env ''registration_submitted'') None []), s))))"

text \<open>What both evaluations do once the evaluator has answered: render the report, open the gate, which
  notifies the administrator, and save.\<close>

definition publish_draft ::
  "'n project_env \<Rightarrow> svc_call \<Rightarrow> review_stage \<Rightarrow> project_dossier \<Rightarrow> resolved_profile \<Rightarrow> snapshot_ref \<Rightarrow>
   evaluation_report \<Rightarrow> 'n project_state \<Rightarrow> (pipeline_result, 'n project_state) outcome" where
  "publish_draft env c st d profile snapshot report s =
     seq (render_report env report s) (\<lambda>rendered s.
     seq (svc_transition env d (''start_'' @ stage_value st @ ''_evaluation'') SYSTEM s) (\<lambda>r s.
     seq (transition (Some (pj_send env)) r (''publish_'' @ stage_value st @ ''_draft'') SYSTEM
            (Some (pd_revision d + 1)) (Some (er_report_id report)) s) (\<lambda>r s.
     let notification = \<lparr>nr_event_type = stage_value st @ ''_admin_approval_requested'', nr_stage = st,
           nr_required_role = role_value ADMINISTRATOR, nr_report_id = er_report_id report,
           nr_dossier_revision = pd_revision d + 1, nr_delivery_status = ''recorded'', nr_recorded_at = sc_t c 1\<rparr>;
         review = (stage_review_of st d)\<lparr>st_snapshot := Some snapshot, st_report_id := Some (er_report_id report),
           st_report_json_uri := Some (rd_json_path rendered), st_report_markdown_uri := Some (rd_markdown_path rendered),
           st_review_profile := Some (rv_ref profile)\<rparr>;
         updated = with_stage_review st review
           (d\<lparr>pd_status := wr_status r, pd_notifications := pd_notifications d @ [notification]\<rparr>)
     in seq (save_event env (\<lambda>i. sc_t c (i + 2)) (sc_uid c 0) updated (pd_revision d)
          (stage_value st @ ''_draft_published'') ''system:offline-evaluator'' SYSTEM
          [(''notification_event'', nr_event_type notification),
           (''recommendation'', recommendation_value (er_recommendation report)),
           (''report_id'', er_report_id report), (''review_profile_sha256'', rp_sha256 (rv_ref profile)),
           (''snapshot_id'', sn_snapshot_id snapshot)] s) (\<lambda>saved s.
        (Inr (svc_result env saved (pv_text env (stage_value st @ ''_draft_published'')) (Some report)
           (if st = REGISTRATION then [''approve'', ''reject''] else [''accept'', ''not_accept''])), s)))))"

definition svc_evaluate_registration ::
  "'n project_env \<Rightarrow> svc_call \<Rightarrow> string \<Rightarrow> 'n project_state \<Rightarrow> (pipeline_result, 'n project_state) outcome" where
  "svc_evaluate_registration env c p s =
     seq (pure (dossier_load p (pj_store s)) s) (\<lambda>d s.
     seq (pure (review_profile env d) s) (\<lambda>profile s.
     seq (on_snapshots (snapshot_freeze (tx_sha_dossier (pv_tx env)) (pv_workspace env @ ''/snapshots'') d) s) (\<lambda>snapshot s.
     seq (pure (submission_artifact d (st_submission_artifact_id (pd_registration d))) s) (\<lambda>a s.
     seq (pure (svc_extract env c a) s) (\<lambda>ed s.
     seq (pure (vl_registration (pv_evaluator env) (sc_t c 0) d snapshot ed (Some profile)) s) (\<lambda>report s.
     publish_draft env c REGISTRATION d profile snapshot report s))))))"

definition svc_evaluate_completion ::
  "'n project_env \<Rightarrow> svc_call \<Rightarrow> string \<Rightarrow> 'n project_state \<Rightarrow> (pipeline_result, 'n project_state) outcome" where
  "svc_evaluate_completion env c p s =
     seq (pure (dossier_load p (pj_store s)) s) (\<lambda>d s.
     seq (pure (review_profile env d) s) (\<lambda>profile s.
     seq (on_snapshots (snapshot_freeze (tx_sha_dossier (pv_tx env)) (pv_workspace env @ ''/snapshots'') d) s) (\<lambda>snapshot s.
     seq (pure (submission_artifact d (st_submission_artifact_id (pd_completion d))) s) (\<lambda>a s.
     seq (pure (svc_extract env c a) s) (\<lambda>ed s.
     seq (pure (load_report env c (pd_registration d) s) s) (\<lambda>registration_report s.
     seq (pure (vl_completion (pv_evaluator env) (sc_t c 0) d snapshot ed registration_report (Some profile)) s) (\<lambda>report s.
     publish_draft env c COMPLETION d profile snapshot report s)))))))"

text \<open>What both decisions do; \<open>agree\<close> is the command that opens the next phase.\<close>

definition svc_decide ::
  "'n project_env \<Rightarrow> svc_call \<Rightarrow> review_stage \<Rightarrow> string \<Rightarrow> string \<Rightarrow> string \<Rightarrow> string \<Rightarrow> string \<Rightarrow>
   reviewer_adjustment list \<Rightarrow> int option \<Rightarrow> string \<Rightarrow> string \<Rightarrow> 'n project_state \<Rightarrow>
   (project_dossier, 'n project_state) outcome" where
  "svc_decide env c st trigger p command actor_id rationale adjustments expected_revision authority event_type s =
     seq (pure (dossier_load p (pj_store s)) s) (\<lambda>d s.
     if expected_revision \<noteq> None \<and> Some (pd_revision d) \<noteq> expected_revision then
       (Inl (Exn RevisionConflictError ''expected revision; current revision is''), s)
     else if strip rationale = [] then (Inl (Exn ValueError ''administrator rationale must not be empty''), s)
     else
       seq (svc_transition env d trigger ADMINISTRATOR s) (\<lambda>r s.
       seq (pure (required_report_id (stage_review_of st d)) s) (\<lambda>report_id s.
       seq (pure (load_report env c (stage_review_of st d) s) s) (\<lambda>report s.
       seq (pure (validate_adjustments report adjustments) s) (\<lambda>_ s.
       let decision = \<lparr>hd_stage = st, hd_command = command, hd_actor_id = actor_id,
             hd_actor_role = role_value ADMINISTRATOR, hd_rationale = strip rationale, hd_report_id = report_id,
             hd_adjustments = adjustments, hd_decided_at = sc_t c 0, hd_source = ''explicit_command_input'',
             hd_authority_context = authority\<rparr>
       in if 4000 < length (strip rationale) then (Inl (Exn ValidationError ''HumanDecision''), s)
          else
            save_event env (\<lambda>i. sc_t c (Suc i)) (sc_uid c 0)
              (with_stage_review st ((stage_review_of st d)\<lparr>st_decision := Some decision\<rparr>) (d\<lparr>pd_status := wr_status r\<rparr>))
              (pd_revision d) event_type actor_id ADMINISTRATOR
              [(''adjusted_criteria'', join_with '','' (map ra_criterion_id adjustments)),
               (''adjustment_count'', str_int (int (length adjustments))), (''command'', command),
               (''report_id'', report_id)] s)))))"

definition svc_decide_registration ::
  "'n project_env \<Rightarrow> svc_call \<Rightarrow> string \<Rightarrow> string \<Rightarrow> string \<Rightarrow> string \<Rightarrow> reviewer_adjustment list \<Rightarrow> int option \<Rightarrow>
   string \<Rightarrow> 'n project_state \<Rightarrow> (pipeline_result, 'n project_state) outcome" where
  "svc_decide_registration env c p command actor_id rationale adjustments expected_revision authority s =
     seq (svc_decide env c REGISTRATION
            (if command = ''approve'' then ''approve_registration'' else ''reject_registration'')
            p command actor_id rationale adjustments expected_revision authority ''registration_decided'' s) (\<lambda>saved s.
     (Inr (svc_result env saved
        (pv_text env (if command = ''reject'' then ''registration_rejected'' else ''registration_approved'')) None []), s))"

definition svc_decide_completion ::
  "'n project_env \<Rightarrow> svc_call \<Rightarrow> string \<Rightarrow> string \<Rightarrow> string \<Rightarrow> string \<Rightarrow> reviewer_adjustment list \<Rightarrow> int option \<Rightarrow>
   string \<Rightarrow> 'n project_state \<Rightarrow> (pipeline_result, 'n project_state) outcome" where
  "svc_decide_completion env c p command actor_id rationale adjustments expected_revision authority s =
     seq (svc_decide env c COMPLETION
            (if command = ''accept'' then ''accept_completion'' else ''decline_completion'')
            p command actor_id rationale adjustments expected_revision authority ''completion_decided'' s) (\<lambda>saved s.
     (Inr (svc_result env saved (pv_text env ''completion_decided'') None []), s))"

definition svc_assign_mentor ::
  "'n project_env \<Rightarrow> svc_call \<Rightarrow> string \<Rightarrow> string \<Rightarrow> 'n project_state \<Rightarrow> (pipeline_result, 'n project_state) outcome" where
  "svc_assign_mentor env c p mentor_ref s =
     seq (pure (dossier_load p (pj_store s)) s) (\<lambda>d s.
     seq (pure (assign_mentor (record_of d) mentor_ref PROJECT_OWNER) s) (\<lambda>r s.
     seq (save_event env (sc_t c) (sc_uid c 0)
            (d\<lparr>pd_execution := (pd_execution d)\<lparr>xr_mentor_ref := wr_mentor_ref r\<rparr>\<rparr>) (pd_revision d)
            ''mentor_assigned'' ''project-owner:local'' PROJECT_OWNER [(''mentor_ref'', mentor_ref)] s) (\<lambda>saved s.
     (Inr (svc_result env saved (pv_text env ''mentor_assigned'') None []), s))))"

definition svc_start_execution ::
  "'n project_env \<Rightarrow> svc_call \<Rightarrow> string \<Rightarrow> 'n project_state \<Rightarrow> (pipeline_result, 'n project_state) outcome" where
  "svc_start_execution env c p s =
     seq (pure (dossier_load p (pj_store s)) s) (\<lambda>d s.
     seq (svc_transition env d ''start_execution'' PROJECT_OWNER s) (\<lambda>r s.
     seq (save_event env (\<lambda>i. sc_t c (Suc i)) (sc_uid c 0)
            (d\<lparr>pd_status := wr_status r, pd_execution := (pd_execution d)\<lparr>xr_started_at := Some (sc_t c 0)\<rparr>\<rparr>) (pd_revision d)
            ''execution_started'' ''project-owner:local'' PROJECT_OWNER [(''trigger'', ''start_execution'')] s) (\<lambda>saved s.
     (Inr (svc_result env saved (pv_text env ''execution_started'') None []), s))))"

definition svc_record_progress ::
  "'n project_env \<Rightarrow> svc_call \<Rightarrow> string \<Rightarrow> string \<Rightarrow> string option \<Rightarrow> string option \<Rightarrow> int option \<Rightarrow> 'n project_state \<Rightarrow>
   (pipeline_result, 'n project_state) outcome" where
  "svc_record_progress env c p note artifact_path sidecar expected_revision s =
     seq (pure (dossier_load p (pj_store s)) s) (\<lambda>d s.
     if expected_revision \<noteq> None \<and> Some (pd_revision d) \<noteq> expected_revision then
       (Inl (Exn RevisionConflictError ''expected revision; current revision is''), s)
     else if pd_status d \<noteq> IN_PROGRESS then
       (Inl (Exn ValueError ''progress can be recorded only while the project is in progress''), s)
     else if strip note = [] then (Inl (Exn ValueError ''progress note must not be empty''), s)
     else
       seq (pure (case artifact_path of
                    None \<Rightarrow> Inr (pd_artifacts d, ''none'')
                  | Some path \<Rightarrow>
                      map_sum id (\<lambda>a.
                        (if list_all (\<lambda>b. ar_artifact_id b \<noteq> ar_artifact_id a) (pd_artifacts d)
                         then pd_artifacts d @ [a] else pd_artifacts d, ar_artifact_id a))
                        (pptx_artifact_ref (sc_src c) path ''progress_evidence'' sidecar)) s) (\<lambda>(artifacts, artifact_id) s.
       seq (save_event env (sc_t c) (sc_uid c 0)
              (d\<lparr>pd_execution := (pd_execution d)\<lparr>xr_notes := xr_notes (pd_execution d) @ [strip note]\<rparr>,
                 pd_artifacts := artifacts\<rparr>) (pd_revision d)
              ''progress_recorded'' ''project-owner:local'' PROJECT_OWNER
              [(''artifact_id'', artifact_id), (''note_length'', str_int (int (length (strip note))))] s) (\<lambda>saved s.
       (Inr (svc_result env saved (pv_text env ''progress_recorded'') None []), s))))"

definition svc_submit_completion ::
  "'n project_env \<Rightarrow> svc_call \<Rightarrow> string \<Rightarrow> string \<Rightarrow> string option \<Rightarrow> string \<Rightarrow> actor_role \<Rightarrow> 'n project_state \<Rightarrow>
   (pipeline_result, 'n project_state) outcome" where
  "svc_submit_completion env c p final_path sidecar approval_actor approval_role s =
     seq (pure (dossier_load p (pj_store s)) s) (\<lambda>d s.
     seq (pure (pptx_artifact_ref (sc_src c) final_path ''completion_final'' sidecar) s) (\<lambda>a s.
     seq (svc_transition env d ''request_completion'' PROJECT_OWNER s) (\<lambda>r s.
     seq (transition (Some (pj_send env)) r ''request_completion_submission_approval'' PROJECT_OWNER None None s) (\<lambda>r s.
     seq (transition (Some (pj_send env)) r ''approve_completion_submission'' approval_role None None s) (\<lambda>r s.
     seq (save_event env (\<lambda>i. sc_t c (Suc i)) (sc_uid c 0)
            (d\<lparr>pd_status := wr_status r, pd_artifacts := pd_artifacts d @ [a],
               pd_completion := empty_stage\<lparr>st_submission_artifact_id := Some (ar_artifact_id a),
                 st_review_profile := pd_review_profile d\<rparr>,
               pd_execution := (pd_execution d)\<lparr>xr_completion_submitted_at := Some (sc_t c 0)\<rparr>\<rparr>) (pd_revision d)
            ''completion_registered'' approval_actor approval_role
            [(''approval_role'', role_value approval_role), (''artifact_id'', ar_artifact_id a),
             (''artifact_sha256'', ar_sha256 a)] s) (\<lambda>saved s.
     (Inr (svc_result env saved (pv_text env ''completion_registered'') None []), s)))))))"

section \<open>The whole run\<close>

record two_gate_request =
  tg_proposal_path :: string
  tg_title :: string
  tg_proposal_sidecar_path :: "string option"
  tg_final_path :: "string option"
  tg_final_sidecar_path :: "string option"
  tg_project_id :: "string option"
  tg_idempotency_key :: "string option"
  tg_administrator_id :: string
  tg_registration_decision :: "string option"
  tg_registration_rationale :: "string option"
  tg_completion_decision :: "string option"
  tg_completion_rationale :: "string option"
  tg_mentor_ref :: "string option"
  tg_review_profile :: string
  tg_review_context :: review_context

text \<open>\<open>decisions_require_rationales\<close>, after the field constraints.\<close>

definition decisions_require_rationales :: "two_gate_request \<Rightarrow> bool" where
  "decisions_require_rationales q \<longleftrightarrow>
     (truthy (tg_registration_decision q) \<longrightarrow> strip (str_or (tg_registration_rationale q) '''') \<noteq> []) \<and>
     (truthy (tg_completion_decision q) \<longrightarrow> strip (str_or (tg_completion_rationale q) '''') \<noteq> []) \<and>
     (truthy (tg_completion_decision q) \<longrightarrow> tg_registration_decision q = Some ''approve'')"

definition two_gate_request_valid :: "two_gate_request \<Rightarrow> bool" where
  "two_gate_request_valid q \<longleftrightarrow>
     1 \<le> length (tg_title q) \<and> length (tg_title q) \<le> 300 \<and>
     pred_option (matches_id is_alnum (\<lambda>c. is_alnum c \<or> c \<in> set ''._:-'') 0 127) (tg_idempotency_key q) \<and>
     tg_registration_decision q \<in> {None, Some ''approve'', Some ''reject''} \<and>
     tg_completion_decision q \<in> {None, Some ''accept'', Some ''not_accept''} \<and> decisions_require_rationales q"

definition svc_summary ::
  "'n project_env \<Rightarrow> string \<Rightarrow> string option \<Rightarrow> string option \<Rightarrow> 'n project_state \<Rightarrow> workflow_run_summary res" where
  "svc_summary env p registration_uri completion_uri s =
     (case dossier_load p (pj_store s) of
        Inl e \<Rightarrow> Inl e
      | Inr d \<Rightarrow>
          if \<not> truthy registration_uri then
            Inl (Exn RuntimeError ''registration report URI is required for a workflow summary'')
          else Inr \<lparr>ws_project_id = p, ws_final_status = pd_status d, ws_dossier_uri = dossier_uri env p,
            ws_registration_report_uri = the registration_uri, ws_completion_report_uri = completion_uri,
            ws_registration_decision = st_decision (pd_registration d),
            ws_completion_decision = st_decision (pd_completion d),
            ws_notification_count = length (pd_notifications d),
            ws_audit_uri = pv_workspace env @ ''/audit/events.jsonl''\<rparr>)"

text \<open>What follows an approval; \<open>c i\<close> is the \<open>i\<close>-th call.\<close>

definition run_second_gate ::
  "'n project_env \<Rightarrow> (nat \<Rightarrow> svc_call) \<Rightarrow> two_gate_request \<Rightarrow> string \<Rightarrow> string option \<Rightarrow> 'n project_state \<Rightarrow>
   (workflow_run_summary, 'n project_state) outcome" where
  "run_second_gate env c q p registration_uri s =
     seq (if truthy (tg_mentor_ref q) then
            seq (svc_assign_mentor env (c 4) p (the (tg_mentor_ref q)) s) (\<lambda>_ s. (Inr (), s))
          else (Inr (), s)) (\<lambda>_ s.
     seq (svc_start_execution env (c 5) p s) (\<lambda>_ s.
     let final_path = (case tg_final_path q of None \<Rightarrow> tg_proposal_path q | Some f \<Rightarrow> f);
         final_sidecar = (if tg_final_sidecar_path q = None \<and> final_path = tg_proposal_path q
                          then tg_proposal_sidecar_path q else tg_final_sidecar_path q)
     in
     seq (svc_submit_completion env (c 6) p final_path final_sidecar (str_or (tg_mentor_ref q) ''project-owner:local'')
            (if truthy (tg_mentor_ref q) then MENTOR else PROJECT_OWNER) s) (\<lambda>_ s.
     seq (svc_evaluate_completion env (c 7) p s) (\<lambda>completion_result s.
     seq (case tg_completion_decision q of
            None \<Rightarrow> (Inr (), s)
          | Some command \<Rightarrow>
              seq (svc_decide_completion env (c 8) p command (tg_administrator_id q)
                     (str_or (tg_completion_rationale q) '''') [] None ''offline_unverified_actor'' s) (\<lambda>_ s. (Inr (), s))) (\<lambda>_ s.
     pure (svc_summary env p registration_uri (pr_report_markdown_uri completion_result) s) s)))))"

definition run_two_gate ::
  "'n project_env \<Rightarrow> (nat \<Rightarrow> svc_call) \<Rightarrow> two_gate_request \<Rightarrow> 'n project_state \<Rightarrow>
   (workflow_run_summary, 'n project_state) outcome" where
  "run_two_gate env c q s =
     seq (svc_create_project env (c 0) (tg_proposal_path q) (tg_title q) (tg_proposal_sidecar_path q) (tg_project_id q)
            (Some (tg_review_profile q)) (Some (tg_review_context q)) ''submitter:local'' SUBMITTER None None s) (\<lambda>d s.
     let p = pd_project_id d in
     seq (svc_submit_registration env (c 1) p s) (\<lambda>_ s.
     seq (svc_evaluate_registration env (c 2) p s) (\<lambda>result s.
     let uri = pr_report_markdown_uri result in
     case tg_registration_decision q of
       None \<Rightarrow> pure (svc_summary env p uri None s) s
     | Some command \<Rightarrow>
         seq (svc_decide_registration env (c 3) p command (tg_administrator_id q)
                (str_or (tg_registration_rationale q) '''') [] None ''offline_unverified_actor'' s) (\<lambda>_ s.
         if command = ''reject'' then pure (svc_summary env p uri None s) s
         else run_second_gate env c q p uri s))))"

end
