(* ===== verification/ProjectRuns.thy ===== *)
theory ProjectRuns
  imports ProjectService
begin

text \<open>
  What the runs of the project service (\<open>pipelines/project.py\<close>) keep: every stored dossier is where a
  run of the two-gate workflow can be, its open gates have their requests delivered in the outbox, and
  its decided gates carry an administrator's decision on the gate's report.
\<close>

section \<open>What a transaction can do to the dossiers\<close>

definition fresh_tx :: "tx_env \<Rightarrow> project_ws \<Rightarrow> string \<Rightarrow> bool" where
  "fresh_tx env ws event_id \<longleftrightarrow>
     map_of (tx_journal ws) (journal_file_of (tx_jenv env) (''txn-'' @ event_id)) = None"

definition saved_dossier :: "project_dossier \<Rightarrow> int \<Rightarrow> project_dossier" where
  "saved_dossier d now = d\<lparr>pd_revision := pd_revision d + 1, pd_updated_at := now\<rparr>"

lemma execute_update_store:
  assumes fresh: "fresh_tx env ws (ae_event_id event)"
    and run: "execute_update env t d n event command key required ws = (res, ws')"
  shows "tx_files ws' = tx_files ws \<and>
    (tx_store ws' = tx_store ws \<and> (\<forall>v. res \<noteq> Inr v) \<or>
     pd_revision d = n \<and> dossier_valid d \<and> verify_requirements env (tx_files ws) required = Inr () \<and>
     (\<exists>base. dossier_load (pd_project_id d) (tx_store ws) = Inr base \<and> pd_revision base = n) \<and>
     tx_store ws' = dossier_write (dossier_file (pd_project_id d)) (saved_dossier d (t 2)) (tx_store ws) \<and>
     (\<forall>v. res = Inr v \<longrightarrow> v = saved_dossier d (t 2) \<and>
        (\<exists>es. audit_read (tx_audit ws') = Inr es \<and> event \<in> set es)))"
proof (cases "dossier_load (pd_project_id d) (tx_store ws)")
  case (Inl x)
  with run show ?thesis by (auto simp: execute_update_def pure_def)
next
  case (Inr base)
  let ?plan = "\<lparr>pp_transaction_id = ''txn-'' @ ae_event_id event, pp_operation = OP_UPDATE,
     pp_project_id = pd_project_id d, pp_command = command, pp_idempotency_key = key,
     pp_base_revision = n, pp_target_revision = n + 1,
     pp_base_dossier_sha256 = Some (tx_sha_dossier env base),
     pp_candidate_dossier = d, pp_audit_event = event, pp_required_artifacts = required\<rparr>"
  show ?thesis
  proof (cases "pd_revision base = n \<and> plan_constructible ?plan")
    case False
    with Inr run show ?thesis
      by (auto simp: execute_update_def pure_def construct_plan_def split: if_splits)
  next
    case True
    with Inr run have "co_execute (project_coordinator env) t ?plan ws = (res, ws')"
      by (simp add: execute_update_def pure_def construct_plan_def tx_execute_def)
    from co_execute_fresh [OF _ this] fresh have files: "tx_files ws' = tx_files ws" and
      store: "tx_store ws' = tx_store ws \<and> (\<forall>v. res \<noteq> Inr v) \<or>
        plan_readable ?plan \<and> verify_requirements env (tx_files ws) required = Inr () \<and>
        (\<exists>r. ensure_dossier env ?plan (t 2) (tx_store ws) = (r, tx_store ws') \<and>
          (\<forall>v. res = Inr v \<longrightarrow> (\<exists>b. r = Inr (v, b)) \<and>
             (\<exists>es. audit_read (tx_audit ws') = Inr es \<and> event \<in> set es)))"
      by (auto simp: fresh_tx_def)
    show ?thesis
    proof (cases "tx_store ws' = tx_store ws \<and> (\<forall>v. res \<noteq> Inr v)")
      case True
      with files show ?thesis by simp
    next
      case False
      with store obtain r where ok: "plan_readable ?plan"
        and ver: "verify_requirements env (tx_files ws) required = Inr ()"
        and r: "ensure_dossier env ?plan (t 2) (tx_store ws) = (r, tx_store ws')"
          "\<forall>v. res = Inr v \<longrightarrow> (\<exists>b. r = Inr (v, b)) \<and>
             (\<exists>es. audit_read (tx_audit ws') = Inr es \<and> event \<in> set es)"
        by blast
      have "plan_applicable env ?plan (tx_store ws)"
        using Inr \<open>pd_revision base = n \<and> _\<close> by (simp add: plan_applicable_def)
      from ensure_dossier_fresh [OF ok this, of "t 2"] r(1)
      have eff: "r = Inr (target_dossier ?plan (t 2), True)"
        "tx_store ws' = plan_effect ?plan (t 2) (tx_store ws)" by auto
      have f: "dossier_valid d" "pd_revision d = n"
        using plan_readable_facts(1,2) [OF ok] by (simp_all add: plan_integrity_def)
      then have "target_dossier ?plan (t 2) = saved_dossier d (t 2)"
        by (simp add: target_dossier_def saved_dossier_def)
      with eff f files ver Inr \<open>pd_revision base = n \<and> _\<close> r(2) show ?thesis
        by (auto simp: plan_effect_def)
    qed
  qed
qed

lemma execute_create_store:
  assumes fresh: "fresh_tx env ws (ae_event_id event)"
    and run: "execute_create env t d event command key [] ws = (res, ws')"
  shows "tx_files ws' = tx_files ws \<and>
    (tx_store ws' = tx_store ws \<and> (\<forall>v. res = Inr v \<longrightarrow> tx_store ws (dossier_file (pd_project_id d)) \<noteq> None) \<or>
     dossier_valid d \<and> tx_store ws (dossier_file (pd_project_id d)) = None \<and>
     tx_store ws' = dossier_write (dossier_file (pd_project_id d)) d (tx_store ws) \<and> (\<forall>v. res = Inr v \<longrightarrow> v = d))"
proof -
  let ?plan = "\<lparr>pp_transaction_id = ''txn-'' @ ae_event_id event, pp_operation = OP_CREATE,
     pp_project_id = pd_project_id d, pp_command = command, pp_idempotency_key = key,
     pp_base_revision = 0, pp_target_revision = 1, pp_base_dossier_sha256 = None,
     pp_candidate_dossier = d, pp_audit_event = event, pp_required_artifacts = []\<rparr>"
  show ?thesis
  proof (cases "plan_constructible ?plan")
    case False
    with run show ?thesis
      by (auto simp: execute_create_def pure_def construct_plan_def split: if_splits)
  next
    case True
    with run have "co_execute (project_coordinator env) t ?plan ws = (res, ws')"
      by (simp add: execute_create_def pure_def construct_plan_def tx_execute_def)
    from co_execute_fresh [OF _ this] fresh have files: "tx_files ws' = tx_files ws" and
      store: "tx_store ws' = tx_store ws \<and> (\<forall>v. res \<noteq> Inr v) \<or> plan_readable ?plan \<and>
        (\<exists>r. ensure_dossier env ?plan (t 2) (tx_store ws) = (r, tx_store ws') \<and> (\<forall>v. res = Inr v \<longrightarrow> (\<exists>b. r = Inr (v, b))))"
      by (auto simp: fresh_tx_def)
    show ?thesis
    proof (cases "tx_store ws' = tx_store ws \<and> (\<forall>v. res \<noteq> Inr v)")
      case True
      with files show ?thesis by simp
    next
      case False
      with store obtain r where ok: "plan_readable ?plan"
        and r: "ensure_dossier env ?plan (t 2) (tx_store ws) = (r, tx_store ws')"
          "\<forall>v. res = Inr v \<longrightarrow> (\<exists>b. r = Inr (v, b))" by blast
      note f = plan_readable_facts [OF ok]
      show ?thesis
      proof (cases "tx_store ws (dossier_file (pd_project_id d)) = None")
        case True
        then have "plan_applicable env ?plan (tx_store ws)" by (simp add: plan_applicable_def)
        from ensure_dossier_fresh [OF ok this, of "t 2"] r True f(2) files show ?thesis
          by (auto simp: plan_effect_def target_dossier_def)
      next
        case False
        with r(1) f(3) have "tx_store ws' = tx_store ws"
          by (cases r) (auto simp: ensure_dossier_def outcome_simps dossier_path_for_if split: if_splits)
        with False files show ?thesis by simp
      qed
    qed
  qed
qed

lemma execute_update_other:
  assumes "f \<noteq> journal_file_of (tx_jenv env) (''txn-'' @ ae_event_id event)"
  shows "map_of (tx_journal (snd (execute_update env t d n event command key required ws))) f = map_of (tx_journal ws) f"
  using co_execute_other [of f "project_coordinator env"] assms
  by (auto simp: execute_update_def pure_def construct_plan_def tx_execute_def seq_def split: sum.splits)

lemma execute_create_other:
  assumes "f \<noteq> journal_file_of (tx_jenv env) (''txn-'' @ ae_event_id event)"
  shows "map_of (tx_journal (snd (execute_create env t d event command key required ws))) f = map_of (tx_journal ws) f"
  using co_execute_other [of f "project_coordinator env"] assms
  by (auto simp: execute_create_def pure_def construct_plan_def tx_execute_def seq_def split: sum.splits)

text \<open>The same for a save of the service; nothing but the workspace's store, journal and log changes.\<close>

definition fresh_uid :: "'n project_env \<Rightarrow> 'n project_state \<Rightarrow> string \<Rightarrow> bool" where
  "fresh_uid env s uid \<longleftrightarrow> fresh_tx (pv_tx env) (pj_ws s) (''evt-'' @ uid)"

definition with_event :: "string \<Rightarrow> project_dossier \<Rightarrow> project_dossier" where
  "with_event uid d = d\<lparr>pd_audit_event_ids := pd_audit_event_ids d @ [''evt-'' @ uid]\<rparr>"

lemma save_event_effect:
  assumes run: "save_event env t uid d n ty actor role details s = (res, s')"
    and fresh: "fresh_uid env s uid"
  shows "pj_outbox s' = pj_outbox s \<and> pj_snapshots s' = pj_snapshots s \<and> tx_files (pj_ws s') = tx_files (pj_ws s) \<and>
    (pj_store s' = pj_store s \<and> (\<forall>v. res \<noteq> Inr v) \<or>
     (let e = with_event uid d; v = saved_dossier e (t 3) in
      pd_revision d = n \<and> dossier_valid e \<and>
      (\<exists>base. dossier_load (pd_project_id d) (pj_store s) = Inr base \<and> pd_revision base = n) \<and>
      pj_store s' = dossier_write (dossier_file (pd_project_id d)) v (pj_store s) \<and> (\<forall>w. res = Inr w \<longrightarrow> w = v)))"
proof -
  let ?event = "\<lparr>ae_event_id = ''evt-'' @ uid, ae_project_id = pd_project_id d, ae_event_type = ty,
     ae_actor_id = actor, ae_actor_role = role_value role, ae_dossier_revision = n + 1,
     ae_occurred_at = t 0, ae_details = str_details details\<rparr>"
  show ?thesis
  proof (cases "audit_event_valid ?event \<and> (\<exists>rs. transaction_requirements env (with_event uid d) (n + 1) s = Inr rs)")
    case False
    with run show ?thesis
      by (cases "transaction_requirements env (with_event uid d) (n + 1) s")
         (auto simp: save_event_def Let_def with_event_def split: if_splits)
  next
    case True
    then obtain rs where rs: "transaction_requirements env (with_event uid d) (n + 1) s = Inr rs"
      and ok: "audit_event_valid ?event" by blast
    obtain ws' where ex: "execute_update (pv_tx env) (\<lambda>i. t (Suc i)) (with_event uid d) n ?event ty (''evt-'' @ uid) rs (pj_ws s)
        = (res, ws')" and s': "s' = s\<lparr>pj_ws := ws'\<rparr>"
      using run rs ok by (auto simp: save_event_def Let_def with_event_def on_ws_def prod_eq_iff)
    have "fresh_tx (pv_tx env) (pj_ws s) (ae_event_id ?event)" using fresh by (simp add: fresh_uid_def)
    note st = execute_update_store [OF this ex]
    have id: "pd_project_id (with_event uid d) = pd_project_id d" "pd_revision (with_event uid d) = pd_revision d"
      by (simp_all add: with_event_def)
    show ?thesis
      unfolding Let_def using st [unfolded id] by (elim conjE disjE) (simp_all add: s' eval_nat_numeral)
  qed
qed

lemma save_event_other:
  assumes "f \<noteq> journal_file_of (tx_jenv (pv_tx env)) (''txn-evt-'' @ uid)"
  shows "map_of (tx_journal (pj_ws (snd (save_event env t uid d n ty actor role details s)))) f =
    map_of (tx_journal (pj_ws s)) f"
proof -
  have "map_of (tx_journal (snd (execute_update (pv_tx env) t' e n
      \<lparr>ae_event_id = ''evt-'' @ uid, ae_project_id = i, ae_event_type = ty, ae_actor_id = actor,
       ae_actor_role = r, ae_dossier_revision = k, ae_occurred_at = o', ae_details = ds\<rparr> c key rs (pj_ws s)))) f =
    map_of (tx_journal (pj_ws s)) f" for t' e n i r k o' ds c key rs
    by (rule execute_update_other) (use assms in simp)
  then show ?thesis
    by (cases "transaction_requirements env (with_event uid d) (n + 1) s")
       (simp_all add: save_event_def Let_def on_ws_def with_event_def)
qed


section \<open>What holds of every stored dossier\<close>

definition gate_past :: "review_stage \<Rightarrow> project_status \<Rightarrow> bool" where
  "gate_past st status \<longleftrightarrow> ''publish_'' @ stage_value st @ ''_draft'' \<in> set (path_to status)"

text \<open>How a gate was decided, if it was.\<close>

definition gate_decision :: "review_stage \<Rightarrow> project_status \<Rightarrow> bool option" where
  "gate_decision st status =
     (let (agree, refuse) = (case st of REGISTRATION \<Rightarrow> (''approve_registration'', ''reject_registration'')
        | COMPLETION \<Rightarrow> (''accept_completion'', ''decline_completion''))
      in if agree \<in> set (path_to status) then Some True
         else if refuse \<in> set (path_to status) then Some False else None)"

lemma gate_tables [simp]:
  "gate_past REGISTRATION status \<longleftrightarrow> status \<notin> {DRAFT, REGISTRATION_READY, REGISTRATION_UNDER_REVIEW}"
  "gate_past COMPLETION status \<longleftrightarrow>
     status \<in> {COMPLETION_HITL_PENDING, COMPLETION_ACCEPTED, COMPLETION_NOT_ACCEPTED}"
  "gate_decision REGISTRATION status =
     (if status \<in> {DRAFT, REGISTRATION_READY, REGISTRATION_UNDER_REVIEW, REGISTRATION_HITL_PENDING} then None
      else Some (status \<noteq> REGISTRATION_REJECTED))"
  "gate_decision COMPLETION status =
     (if status = COMPLETION_ACCEPTED then Some True else if status = COMPLETION_NOT_ACCEPTED then Some False else None)"
  by (cases status; simp add: gate_past_def gate_decision_def completion_path_def registration_path_def)+

definition agreeing_command :: "review_stage \<Rightarrow> string" where
  "agreeing_command st = (case st of REGISTRATION \<Rightarrow> ''approve'' | COMPLETION \<Rightarrow> ''accept'')"

definition gate_request :: "review_stage \<Rightarrow> string \<Rightarrow> int \<Rightarrow> string \<Rightarrow> notification_event" where
  "gate_request st p revision report_id =
     approval_request (stage_value st @ ''_admin_approval_requested'') p (Some revision) (Some report_id)"

text \<open>A gate that is open or past has its request for the stage's report delivered; a decided one carries
  the decision of an administrator on that report, with a rationale and the command that the status says.\<close>

definition gate_sound :: "(string \<Rightarrow> string) \<Rightarrow> 'n outbox \<Rightarrow> project_dossier \<Rightarrow> review_stage \<Rightarrow> bool" where
  "gate_sound sha ob d st \<longleftrightarrow>
     (gate_past st (pd_status d) \<longrightarrow>
        (\<exists>i revision. st_report_id (stage_review_of st d) = Some i \<and> revision \<le> pd_revision d \<and>
           delivery_recorded sha ob (gate_request st (pd_project_id d) revision i))) \<and>
     (\<forall>b. gate_decision st (pd_status d) = Some b \<longrightarrow>
        (\<exists>h. st_decision (stage_review_of st d) = Some h \<and> hd_stage h = st \<and> hd_actor_role h = ''administrator'' \<and>
           hd_rationale h \<noteq> [] \<and> Some (hd_report_id h) = st_report_id (stage_review_of st d) \<and>
           (hd_command h = agreeing_command st \<longleftrightarrow> b)))"

text \<open>\<open>org\<close> is where each project was when the observation began.\<close>

definition reached :: "(string \<Rightarrow> workflow_record) \<Rightarrow> string \<Rightarrow> workflow_record \<Rightarrow> bool" where
  "reached org p r \<longleftrightarrow> (\<exists>tr events. workflow_run (Some recording_send) (org p) [] tr r events)"

definition project_sound :: "(string \<Rightarrow> workflow_record) \<Rightarrow> (string \<Rightarrow> string) \<Rightarrow> 'n outbox \<Rightarrow> project_dossier \<Rightarrow> bool" where
  "project_sound org sha ob d \<longleftrightarrow> reached org (pd_project_id d) (record_of d) \<and> (\<forall>st. gate_sound sha ob d st)"

abbreviation pv_sha :: "'n project_env \<Rightarrow> string \<Rightarrow> string" where
  "pv_sha env \<equiv> tx_sha_text (pv_tx env)"

definition all_sound :: "(string \<Rightarrow> workflow_record) \<Rightarrow> 'n project_env \<Rightarrow> 'n project_state \<Rightarrow> bool" where
  "all_sound org env s \<longleftrightarrow>
     (\<forall>p d. dossier_load p (pj_store s) = Inr d \<longrightarrow> project_sound org (pv_sha env) (pj_outbox s) d) \<and>
     (\<forall>p. pj_store s (dossier_file p) = None \<longrightarrow> org p = fresh_record p)"

text \<open>What the steps before a save leave: the dossiers, the journal, and every recorded delivery.\<close>

definition around :: "'n project_env \<Rightarrow> 'n project_state \<Rightarrow> 'n project_state \<Rightarrow> bool" where
  "around env s s' \<longleftrightarrow> pj_store s' = pj_store s \<and> tx_journal (pj_ws s') = tx_journal (pj_ws s) \<and>
     (\<forall>ev. delivery_recorded (pv_sha env) (pj_outbox s) ev \<longrightarrow> delivery_recorded (pv_sha env) (pj_outbox s') ev)"

lemma around_refl [simp]: "around env s s"
  by (simp add: around_def)

lemma around_trans [trans]: "around env s s' \<Longrightarrow> around env s' s'' \<Longrightarrow> around env s s''"
  by (simp add: around_def)

lemma around_fresh: "around env s s' \<Longrightarrow> fresh_uid env s' uid = fresh_uid env s uid"
  by (simp add: around_def fresh_uid_def fresh_tx_def)

lemma gate_sound_keeps:
  assumes "gate_sound sha ob d st" and "\<And>ev. delivery_recorded sha ob ev \<Longrightarrow> delivery_recorded sha ob' ev"
    and "gate_past st (pd_status d') \<longrightarrow> gate_past st (pd_status d)"
    and "gate_decision st (pd_status d') \<in> {None, gate_decision st (pd_status d)}"
    and "stage_review_of st d' = stage_review_of st d" "pd_project_id d' = pd_project_id d" "pd_revision d \<le> pd_revision d'"
  shows "gate_sound sha ob' d' st"
  unfolding gate_sound_def
proof (intro conjI allI impI)
  assume "gate_past st (pd_status d')"
  with assms(1,3) obtain i revision where "st_report_id (stage_review_of st d) = Some i" "revision \<le> pd_revision d"
    "delivery_recorded sha ob (gate_request st (pd_project_id d) revision i)" by (auto simp: gate_sound_def)
  with assms(2) [of "gate_request st (pd_project_id d) revision i"] assms(5-7)
  show "\<exists>i revision. st_report_id (stage_review_of st d') = Some i \<and> revision \<le> pd_revision d' \<and>
     delivery_recorded sha ob' (gate_request st (pd_project_id d') revision i)"
    by (intro exI [of _ i] exI [of _ revision]) simp
next
  fix b assume "gate_decision st (pd_status d') = Some b"
  with assms(4) have "gate_decision st (pd_status d) = Some b" by auto
  with assms(1,5) show "\<exists>h. st_decision (stage_review_of st d') = Some h \<and> hd_stage h = st \<and>
      hd_actor_role h = ''administrator'' \<and> hd_rationale h \<noteq> [] \<and>
      Some (hd_report_id h) = st_report_id (stage_review_of st d') \<and> (hd_command h = agreeing_command st \<longleftrightarrow> b)"
    unfolding gate_sound_def by simp
qed

lemma project_sound_keeps:
  assumes "project_sound org sha ob d" "\<And>ev. delivery_recorded sha ob ev \<Longrightarrow> delivery_recorded sha ob' ev"
  shows "project_sound org sha ob' d"
  using assms gate_sound_keeps [of sha ob d _ ob' d] by (auto simp: project_sound_def)

lemma all_sound_around: "all_sound org env s \<Longrightarrow> around env s s' \<Longrightarrow> all_sound org env s'"
  using project_sound_keeps [of org "pv_sha env" "pj_outbox s" _ "pj_outbox s'"]
  unfolding all_sound_def around_def by simp

lemma dossier_write_None: "dossier_write f d dir g = None \<Longrightarrow> dir g = None"
  by (simp add: dossier_write_def split: if_splits)

lemma saved_fields [simp]:
  "pd_project_id (saved_dossier d now) = pd_project_id d" "pd_status (saved_dossier d now) = pd_status d"
  "pd_revision (saved_dossier d now) = pd_revision d + 1" "pd_execution (saved_dossier d now) = pd_execution d"
  "stage_review_of st (saved_dossier d now) = stage_review_of st d"
  "pd_project_id (with_event uid d) = pd_project_id d" "pd_status (with_event uid d) = pd_status d"
  "pd_revision (with_event uid d) = pd_revision d" "pd_execution (with_event uid d) = pd_execution d"
  "stage_review_of st (with_event uid d) = stage_review_of st d"
  "record_of (saved_dossier d now) = record_of d" "record_of (with_event uid d) = record_of d"
  by (simp_all add: saved_dossier_def with_event_def stage_review_of_def record_of_def split: review_stage.split)

lemma dossier_load_saved:
  assumes "dossier_valid d"
  shows "dossier_load q (dossier_write (dossier_file (pd_project_id d)) (saved_dossier d now) dir) =
    (if q = pd_project_id d then Inr (saved_dossier d now) else dossier_load q dir)"
proof -
  have "dossier_valid (saved_dossier d now)" using assms by (simp add: saved_dossier_def dossier_valid_def)
  from dossier_load_written [OF this, of dir] dossier_load_other [of q "saved_dossier d now" dir] show ?thesis by simp
qed

text \<open>A save keeps the property when the candidate has it once saved.\<close>

lemma save_event_sound:
  assumes run: "save_event env t uid d n ty actor role details s1 = (res, s')"
    and "all_sound org env s" "around env s s1" "fresh_uid env s uid"
    and d: "\<And>now. project_sound org (pv_sha env) (pj_outbox s1) (saved_dossier (with_event uid d) now)"
  shows "all_sound org env s'"
proof -
  have sound: "all_sound org env s1" and "fresh_uid env s1 uid"
    using assms(2-4) all_sound_around around_fresh by blast+
  from save_event_effect [OF run this(2)] consider "pj_outbox s' = pj_outbox s1" "pj_store s' = pj_store s1"
    | v where "pj_outbox s' = pj_outbox s1" "dossier_valid (with_event uid d)"
      "pj_store s' = dossier_write (dossier_file (pd_project_id d)) (saved_dossier (with_event uid d) v) (pj_store s1)"
    by (auto simp: Let_def)
  then show ?thesis
  proof cases
    case 1
    with sound show ?thesis by (simp add: all_sound_def)
  next
    case 2
    with sound d show ?thesis
      using dossier_load_saved [OF 2(2)] by (auto simp: all_sound_def dest!: dossier_write_None)
  qed
qed

section \<open>Transitions of the service\<close>

interpretation project_port: notification_port "pj_send env" "\<lambda>s ev. delivery_recorded (pv_sha env) (pj_outbox s) ev"
proof
  fix ev ev' :: notification_event and n n' :: "'a project_state" and u r
  show "delivery_recorded (pv_sha env) (pj_outbox n') ev" if "pj_send env ev n = (Inr u, n')"
    using that durable.send_records [of "pv_sha env" "pv_clock env" "pv_down env" ev "pj_outbox n" u]
    by (auto simp: pj_send_def split: prod.splits)
  show "delivery_recorded (pv_sha env) (pj_outbox n') ev'"
    if "pj_send env ev n = (r, n')" "delivery_recorded (pv_sha env) (pj_outbox n) ev'"
    using that durable.send_keeps [of "pv_sha env" "pv_clock env" "pv_down env" ev "pj_outbox n" r]
    by (auto simp: pj_send_def split: prod.splits)
qed

lemma pj_send_around: "pj_send env ev s = (r, s') \<Longrightarrow> around env s s'"
  using project_port.send_keeps [of env ev s r s'] by (auto simp: around_def pj_send_def split: prod.splits)

lemma transition_around:
  assumes "transition (Some (pj_send env)) r trigger role rv rp s = (res, s')"
  shows "around env s s'"
  using assms pj_send_around [of env _ s _ s']
  by (auto simp: transition_def pure_def seq_def split: sum.splits prod.splits if_splits)

lemma transition_reached:
  assumes "transition (Some send) r trigger role rv rp s = (Inr r', s')"
  obtains rule where "map_of TRANSITIONS trigger = Some rule" "wr_status r = rule_source rule"
    "r' = r\<lparr>wr_status := rule_target rule\<rparr>" "role \<in> rule_roles rule" "reached org p r \<Longrightarrow> reached org p r'"
proof -
  from assms obtain rule where g: "transition_guard r trigger role = Inr rule" "r' = r\<lparr>wr_status := rule_target rule\<rparr>"
    by (auto simp: transition_Inr)
  have "\<exists>events'. transition (Some recording_send) r trigger role rv rp events = (Inr r', events')" for events
    using g by (auto simp: transition_Inr recording_send_def)
  then have "reached org p r'" if "reached org p r"
    using that unfolding reached_def by (meson run_trigger)
  with g show ?thesis using that by (auto simp: transition_guard_Inr)
qed

lemma record_of_status: "(record_of d)\<lparr>wr_status := st\<rparr> = record_of (d\<lparr>pd_status := st\<rparr>)"
  by (simp add: record_of_def)

lemma record_of_fields [simp]:
  "wr_status (record_of d) = pd_status d" "wr_project_id (record_of d) = pd_project_id d"
  by (simp_all add: record_of_def)

text \<open>Steps in sequence: what holds after each of them, raised or not, holds after all.\<close>

lemma seq_all:
  assumes "\<And>e. r = (Inl e, snd r) \<Longrightarrow> Q (snd r)" "\<And>a. r = (Inr a, snd r) \<Longrightarrow> Q (snd (f a (snd r)))"
  shows "Q (snd (seq r f))"
  using assms by (cases r; cases "fst r") auto

lemma seq_pure_all:
  assumes "Q s" "\<And>a. x = Inr a \<Longrightarrow> Q (snd (f a s))"
  shows "Q (snd (seq (pure x s) f))"
  using assms by (cases x) auto

lemma all_sound_load:
  "all_sound org env s \<Longrightarrow> dossier_load p (pj_store s) = Inr d \<Longrightarrow>
   project_sound org (pv_sha env) (pj_outbox s) d \<and> dossier_valid d \<and> pd_project_id d = p"
  using dossier_load_valid by (auto simp: all_sound_def)

text \<open>A change of status by a transition that neither opens nor decides a gate.\<close>

definition gate_kept :: "review_stage \<Rightarrow> project_dossier \<Rightarrow> project_dossier \<Rightarrow> bool" where
  "gate_kept st d e \<longleftrightarrow>
     (gate_past st (pd_status e) \<longrightarrow> gate_past st (pd_status d) \<and> stage_review_of st e = stage_review_of st d) \<and>
     (gate_decision st (pd_status e) \<noteq> None \<longrightarrow>
        gate_decision st (pd_status e) = gate_decision st (pd_status d) \<and> stage_review_of st e = stage_review_of st d)"

lemma sound_moved:
  assumes d: "project_sound org sha ob d" and kept: "\<And>ev. delivery_recorded sha ob ev \<Longrightarrow> delivery_recorded sha ob' ev"
    and e: "pd_project_id e = pd_project_id d" "pd_revision d \<le> pd_revision e" "reached org (pd_project_id d) (record_of e)"
    and gates: "gate_kept REGISTRATION d e" "gate_kept COMPLETION d e"
  shows "project_sound org sha ob' e"
proof -
  have "gate_sound sha ob' e st" for st
  proof -
    have g: "gate_kept st d e" using gates by (cases st) auto
    show ?thesis
    proof (cases "stage_review_of st e = stage_review_of st d")
      case True
      with d g e show ?thesis
        by (intro gate_sound_keeps [of sha ob d st ob' e]) (auto simp: project_sound_def kept gate_kept_def)
    next
      case False
      with g show ?thesis by (auto simp: gate_sound_def gate_kept_def)
    qed
  qed
  with e show ?thesis by (simp add: project_sound_def)
qed

lemma save_all_sound:
  assumes "all_sound org env s" "around env s s1" "fresh_uid env s uid"
    and "\<And>now. project_sound org (pv_sha env) (pj_outbox s1) (saved_dossier (with_event uid d) now)"
  shows "all_sound org env (snd (save_event env t uid d n ty actor role details s1))"
  using save_event_sound [OF _ assms] by (metis prod.collapse)

lemma saved_result_all:
  "Q (snd r) \<Longrightarrow> Q (snd (seq r (\<lambda>a s. (Inr (g a s), s))))"
  by (rule seq_all) simp_all

lemma stage_review_simps [simp]:
  "stage_review_of REGISTRATION d = pd_registration d" "stage_review_of COMPLETION d = pd_completion d"
  by (simp_all add: stage_review_of_def)

lemma around_kept:
  "around env s s' \<Longrightarrow> delivery_recorded (pv_sha env) (pj_outbox s) ev \<Longrightarrow> delivery_recorded (pv_sha env) (pj_outbox s') ev"
  by (simp add: around_def)

text \<open>A transition or another step that keeps the dossiers, in front of more steps.\<close>

lemma around_all:
  assumes "all_sound org env s" "around env s s1" "\<And>res s2. r = (res, s2) \<Longrightarrow> around env s1 s2"
    and "\<And>a s2. r = (Inr a, s2) \<Longrightarrow> around env s s2 \<Longrightarrow> all_sound org env (snd (f a s2))"
  shows "all_sound org env (snd (seq r f))"
proof (rule seq_all)
  have "around env s (snd r)" using assms(2,3) around_trans by (metis prod.collapse)
  then show "all_sound org env (snd r)" by (rule all_sound_around [OF assms(1)])
  show "all_sound org env (snd (f a (snd r)))" if "r = (Inr a, snd r)" for a
    using assms(4) [OF that] \<open>around env s (snd r)\<close> .
qed

lemmas transition_all = around_all [OF _ _ transition_around]

text \<open>Saving a dossier whose status was moved without opening or deciding a gate.\<close>

lemma save_moved:
  assumes s: "all_sound org env s" and ar: "around env s s1" and fresh: "fresh_uid env s uid"
    and load: "dossier_load p (pj_store s) = Inr d"
    and e: "pd_project_id e = p" "pd_revision d \<le> pd_revision e" "reached org p (record_of e)"
    and gates: "gate_kept REGISTRATION d e" "gate_kept COMPLETION d e"
  shows "all_sound org env (snd (save_event env t uid e n ty actor role details s1))"
proof (rule save_all_sound [OF s ar fresh])
  fix now
  note d = all_sound_load [OF s load]
  have "gate_kept st d (saved_dossier (with_event uid e) now) \<longleftrightarrow> gate_kept st d e" for st
    unfolding gate_kept_def saved_fields ..
  with gates show "project_sound org (pv_sha env) (pj_outbox s1) (saved_dossier (with_event uid e) now)"
    by (intro sound_moved [where d = d, OF _ around_kept [OF ar]]) (use d e in simp_all)
qed

lemma status_move:
  assumes "transition (Some send) (record_of d) trigger role rv rp s = (Inr r, s')" "reached org p (record_of d)"
  shows "\<exists>rule. map_of TRANSITIONS trigger = Some rule \<and> pd_status d = rule_source rule \<and>
    wr_status r = rule_target rule \<and> reached org p r \<and> r = record_of (d\<lparr>pd_status := wr_status r\<rparr>)"
proof -
  obtain rule where "map_of TRANSITIONS trigger = Some rule" "pd_status d = rule_source rule"
    "r = record_of (d\<lparr>pd_status := rule_target rule\<rparr>)" "reached org p r"
    using assms(2) by (auto intro: transition_reached [OF assms(1), where p = p] simp: record_of_status)
  then show ?thesis by (intro exI [of _ rule]) simp
qed

lemma submit_registration_sound:
  assumes s: "all_sound org env s" and fresh: "fresh_uid env s (sc_uid c 0)"
  shows "all_sound org env (snd (svc_submit_registration env c p s))"
  unfolding svc_submit_registration_def svc_transition_def
proof (rule seq_pure_all [where Q = "all_sound org env", OF s], rule transition_all [OF s around_refl], assumption,
    rule saved_result_all [where Q = "all_sound org env"])
  fix d r s2 assume load: "dossier_load p (pj_store s) = Inr d" and ar: "around env s s2"
    and tr: "transition (Some (pj_send env)) (record_of d) ''submit_registration'' SUBMITTER None None s = (Inr r, s2)"
  note d = all_sound_load [OF s load]
  from status_move [OF tr, where p = p and org = org] d have m: "pd_status d = DRAFT" "wr_status r = REGISTRATION_READY"
    "reached org p (record_of (d\<lparr>pd_status := wr_status r\<rparr>))"
    by (auto simp: project_sound_def TRANSITIONS_def mk_rule_def)
  show "all_sound org env (snd (save_event env (sc_t c) (sc_uid c 0) (d\<lparr>pd_status := wr_status r\<rparr>) (pd_revision d)
      ''registration_submitted'' ''submitter:local'' SUBMITTER [(''trigger'', ''submit_registration'')] s2))"
    by (rule save_moved [OF s ar fresh load]) (use d m in \<open>simp_all add: gate_kept_def\<close>)
qed

lemma start_execution_sound:
  assumes s: "all_sound org env s" and fresh: "fresh_uid env s (sc_uid c 0)"
  shows "all_sound org env (snd (svc_start_execution env c p s))"
  unfolding svc_start_execution_def svc_transition_def
proof (rule seq_pure_all [where Q = "all_sound org env", OF s], rule transition_all [OF s around_refl], assumption,
    rule saved_result_all [where Q = "all_sound org env"])
  fix d r s2 assume load: "dossier_load p (pj_store s) = Inr d" and ar: "around env s s2"
    and tr: "transition (Some (pj_send env)) (record_of d) ''start_execution'' PROJECT_OWNER None None s = (Inr r, s2)"
  note d = all_sound_load [OF s load]
  let ?e = "d\<lparr>pd_status := wr_status r, pd_execution := (pd_execution d)\<lparr>xr_started_at := Some (sc_t c 0)\<rparr>\<rparr>"
  have "record_of ?e = record_of (d\<lparr>pd_status := wr_status r\<rparr>)" by (simp add: record_of_def)
  with status_move [OF tr, where p = p and org = org] d have m: "pd_status d = REGISTRATION_APPROVED" "wr_status r = IN_PROGRESS"
    "reached org p (record_of ?e)"
    by (auto simp: project_sound_def TRANSITIONS_def mk_rule_def)
  show "all_sound org env (snd (save_event env (\<lambda>i. sc_t c (Suc i)) (sc_uid c 0) ?e (pd_revision d)
      ''execution_started'' ''project-owner:local'' PROJECT_OWNER [(''trigger'', ''start_execution'')] s2))"
    by (rule save_moved [OF s ar fresh load]) (use d m in \<open>simp_all add: gate_kept_def\<close>)
qed

lemma assign_mentor_sound:
  assumes s: "all_sound org env s" and fresh: "fresh_uid env s (sc_uid c 0)"
  shows "all_sound org env (snd (svc_assign_mentor env c p m s))"
  unfolding svc_assign_mentor_def
proof (rule seq_pure_all [where Q = "all_sound org env", OF s], rule seq_pure_all [where Q = "all_sound org env", OF s],
    rule saved_result_all [where Q = "all_sound org env"])
  fix d r assume load: "dossier_load p (pj_store s) = Inr d"
    and as: "assign_mentor (record_of d) m PROJECT_OWNER = Inr r"
  note d = all_sound_load [OF s load]
  let ?e = "d\<lparr>pd_execution := (pd_execution d)\<lparr>xr_mentor_ref := wr_mentor_ref r\<rparr>\<rparr>"
  have "r = record_of ?e" using as by (auto simp: assign_mentor_Inr record_of_def)
  moreover have "reached org p r" using d as unfolding project_sound_def reached_def by (blast intro: run_mentor)
  ultimately show "all_sound org env (snd (save_event env (sc_t c) (sc_uid c 0) ?e (pd_revision d)
      ''mentor_assigned'' ''project-owner:local'' PROJECT_OWNER [(''mentor_ref'', m)] s))"
    by (intro save_moved [OF s around_refl fresh load]) (use d in \<open>simp_all add: gate_kept_def\<close>)
qed

lemma if_all:
  assumes "c \<Longrightarrow> Q (snd x)" "\<not> c \<Longrightarrow> Q (snd y)"
  shows "Q (snd (if c then x else y))"
  using assms by simp

lemma raise_all: "Q s \<Longrightarrow> Q (snd (Inl e, s))"
  by simp

lemma record_progress_sound:
  assumes s: "all_sound org env s" and fresh: "fresh_uid env s (sc_uid c 0)"
  shows "all_sound org env (snd (svc_record_progress env c p note path sidecar revision s))"
  unfolding svc_record_progress_def
proof (rule seq_pure_all [where Q = "all_sound org env", OF s], (rule if_all [where Q = "all_sound org env"],
      rule raise_all [where Q = "all_sound org env"], rule s)+, rule seq_pure_all [where Q = "all_sound org env", OF s])
  fix d and ai :: "artifact_ref list \<times> string" assume load: "dossier_load p (pj_store s) = Inr d"
  note d = all_sound_load [OF s load]
  obtain as i where ai: "ai = (as, i)" by fastforce
  let ?e = "d\<lparr>pd_execution := (pd_execution d)\<lparr>xr_notes := xr_notes (pd_execution d) @ [strip note]\<rparr>, pd_artifacts := as\<rparr>"
  have "record_of ?e = record_of d" by (simp add: record_of_def)
  then have r: "reached org p (record_of ?e)" using d by (auto simp: project_sound_def)
  have "all_sound org env (snd (save_event env (sc_t c) (sc_uid c 0) ?e (pd_revision d)
      ''progress_recorded'' ''project-owner:local'' PROJECT_OWNER
      [(''artifact_id'', i), (''note_length'', str_int (int (length (strip note))))] s))"
    by (rule save_moved [OF s around_refl fresh load]) (use d r in \<open>simp_all add: gate_kept_def\<close>)
  then show "all_sound org env (snd ((case ai of (artifacts, artifact_id) \<Rightarrow> \<lambda>s.
      seq (save_event env (sc_t c) (sc_uid c 0)
        (d\<lparr>pd_execution := (pd_execution d)\<lparr>xr_notes := xr_notes (pd_execution d) @ [strip note]\<rparr>, pd_artifacts := artifacts\<rparr>)
        (pd_revision d) ''progress_recorded'' ''project-owner:local'' PROJECT_OWNER
        [(''artifact_id'', artifact_id), (''note_length'', str_int (int (length (strip note))))] s)
      (\<lambda>saved s. (Inr (svc_result env saved (pv_text env ''progress_recorded'') None []), s))) s))"
    unfolding ai prod.case by (rule saved_result_all [where Q = "all_sound org env"])
qed

text \<open>A transition that starts from a record that is already on the way of the dossier.\<close>

lemma record_move:
  assumes "transition (Some send) (record_of d) trigger role rv rp s = (Inr r, s')" "reached org p (record_of d)"
    and "map_of TRANSITIONS trigger = Some rule"
  shows "pd_status d = rule_source rule \<and> r = record_of (d\<lparr>pd_status := rule_target rule\<rparr>) \<and>
    reached org p (record_of (d\<lparr>pd_status := rule_target rule\<rparr>))"
  using status_move [OF assms(1,2)] assms(3) by auto

lemma submit_completion_sound:
  assumes s: "all_sound org env s" and fresh: "fresh_uid env s (sc_uid c 0)"
  shows "all_sound org env (snd (svc_submit_completion env c p path sidecar actor role s))"
  unfolding svc_submit_completion_def svc_transition_def
proof (rule seq_pure_all [where Q = "all_sound org env", OF s], rule seq_pure_all [where Q = "all_sound org env", OF s],
    rule transition_all [OF s around_refl], assumption, rule transition_all [OF s], assumption, assumption,
    rule transition_all [OF s], assumption, assumption, rule saved_result_all [where Q = "all_sound org env"])
  fix d a r1 s1 r2 s2 r3 s3
  assume load: "dossier_load p (pj_store s) = Inr d" and ar: "around env s s3"
    and tr: "transition (Some (pj_send env)) (record_of d) ''request_completion'' PROJECT_OWNER None None s = (Inr r1, s1)"
      "transition (Some (pj_send env)) r1 ''request_completion_submission_approval'' PROJECT_OWNER None None s1 = (Inr r2, s2)"
      "transition (Some (pj_send env)) r2 ''approve_completion_submission'' role None None s2 = (Inr r3, s3)"
  note d = all_sound_load [OF s load]
  let ?e = "d\<lparr>pd_status := wr_status r3, pd_artifacts := pd_artifacts d @ [a],
     pd_completion := empty_stage\<lparr>st_submission_artifact_id := Some (ar_artifact_id a),
       st_review_profile := pd_review_profile d\<rparr>,
     pd_execution := (pd_execution d)\<lparr>xr_completion_submitted_at := Some (sc_t c 0)\<rparr>\<rparr>"
  have "reached org p (record_of d)" using d by (auto simp: project_sound_def)
  from record_move [OF tr(1) this] have 1: "pd_status d = IN_PROGRESS" "r1 = record_of (d\<lparr>pd_status := COMPLETION_READY\<rparr>)"
    "reached org p (record_of (d\<lparr>pd_status := COMPLETION_READY\<rparr>))"
    by (auto simp: TRANSITIONS_def mk_rule_def)
  from record_move [OF tr(2) [unfolded 1(2)] 1(3)] have 2: "r2 = record_of (d\<lparr>pd_status := COMPLETION_APPROVAL_PENDING\<rparr>)"
    "reached org p (record_of (d\<lparr>pd_status := COMPLETION_APPROVAL_PENDING\<rparr>))"
    by (auto simp: TRANSITIONS_def mk_rule_def)
  from record_move [OF tr(3) [unfolded 2(1)] 2(2)] have 3: "r3 = record_of (d\<lparr>pd_status := COMPLETION_REGISTERED\<rparr>)"
    "reached org p (record_of (d\<lparr>pd_status := COMPLETION_REGISTERED\<rparr>))"
    by (auto simp: TRANSITIONS_def mk_rule_def)
  have "record_of ?e = record_of (d\<lparr>pd_status := COMPLETION_REGISTERED\<rparr>)" using 3(1) by (simp add: record_of_def)
  with 3 have m: "wr_status r3 = COMPLETION_REGISTERED" "reached org p (record_of ?e)" by simp_all
  show "all_sound org env (snd (save_event env (\<lambda>i. sc_t c (Suc i)) (sc_uid c 0) ?e (pd_revision d)
      ''completion_registered'' actor role
      [(''approval_role'', role_value role), (''artifact_id'', ar_artifact_id a),
       (''artifact_sha256'', ar_sha256 a)] s3))"
    by (rule save_moved [OF s ar fresh load]) (use d 1 m in \<open>simp_all add: gate_kept_def\<close>)
qed

section \<open>Opening a gate\<close>

lemma pj_send_recorded: "pj_send env ev s = (Inr u, s') \<Longrightarrow> delivery_recorded (pv_sha env) (pj_outbox s') ev"
  by (rule project_port.send_records)

lemma gate_transitions:
  "map_of TRANSITIONS (''start_'' @ stage_value st @ ''_evaluation'') = Some
     (case st of REGISTRATION \<Rightarrow> mk_rule REGISTRATION_READY REGISTRATION_UNDER_REVIEW {SYSTEM} None
      | COMPLETION \<Rightarrow> mk_rule COMPLETION_REGISTERED COMPLETION_UNDER_REVIEW {SYSTEM} None)"
  "map_of TRANSITIONS (''publish_'' @ stage_value st @ ''_draft'') = Some
     (case st of REGISTRATION \<Rightarrow> mk_rule REGISTRATION_UNDER_REVIEW REGISTRATION_HITL_PENDING {SYSTEM}
         (Some ''registration_admin_approval_requested'')
      | COMPLETION \<Rightarrow> mk_rule COMPLETION_UNDER_REVIEW COMPLETION_HITL_PENDING {SYSTEM}
         (Some ''completion_admin_approval_requested''))"
  by (cases st; simp add: TRANSITIONS_def)+

definition waiting_status :: "review_stage \<Rightarrow> project_status" where
  "waiting_status st = (case st of REGISTRATION \<Rightarrow> REGISTRATION_HITL_PENDING | COMPLETION \<Rightarrow> COMPLETION_HITL_PENDING)"

lemma publish_requests:
  assumes "transition (Some (pj_send env)) r (''publish_'' @ stage_value st @ ''_draft'') SYSTEM (Some n) (Some i) s = (Inr r', s')"
  shows "delivery_recorded (pv_sha env) (pj_outbox s') (gate_request st (wr_project_id r) n i)"
proof -
  have "pj_send env (gate_request st (wr_project_id r) n i) s = (Inr (), s')"
    using assms unfolding transition_Inr transition_guard_Inr gate_transitions
    by (cases st) (auto simp: mk_rule_def gate_request_def)
  then show ?thesis by (rule pj_send_recorded)
qed

lemma render_around: "around env s (snd (render_report env report s))"
  by (simp add: render_report_def around_def Let_def)

lemma render_around': "render_report env report s = (res, s') \<Longrightarrow> around env s s'"
  using render_around [of env s report] by simp

lemma project_sound_other_gate:
  assumes d: "project_sound org sha ob d" and kept: "\<And>ev. delivery_recorded sha ob ev \<Longrightarrow> delivery_recorded sha ob' ev"
    and e: "pd_project_id e = pd_project_id d" "pd_revision d \<le> pd_revision e" "reached org (pd_project_id d) (record_of e)"
    and own: "gate_sound sha ob' e st" and other: "\<And>st'. st' \<noteq> st \<Longrightarrow> gate_kept st' d e"
  shows "project_sound org sha ob' e"
proof -
  have "gate_sound sha ob' e st'" for st'
  proof (cases "st' = st")
    case False
    then have g: "gate_kept st' d e" by (rule other)
    show ?thesis
    proof (cases "stage_review_of st' e = stage_review_of st' d")
      case True
      with d g e show ?thesis
        by (intro gate_sound_keeps [of sha ob d st' ob' e]) (auto simp: project_sound_def kept gate_kept_def)
    next
      case False
      with g show ?thesis by (auto simp: gate_sound_def gate_kept_def)
    qed
  qed (simp add: own)
  with e show ?thesis by (simp add: project_sound_def)
qed

lemma with_stage_simps [simp]:
  "pd_project_id (with_stage_review st rv d) = pd_project_id d" "pd_status (with_stage_review st rv d) = pd_status d"
  "pd_revision (with_stage_review st rv d) = pd_revision d" "pd_execution (with_stage_review st rv d) = pd_execution d"
  "record_of (with_stage_review st rv d) = record_of d"
  "stage_review_of st (with_stage_review st rv d) = rv"
  "st' \<noteq> st \<Longrightarrow> stage_review_of st' (with_stage_review st rv d) = stage_review_of st' d"
  by (cases st; cases st'; simp add: with_stage_review_def stage_review_of_def record_of_def)+

lemma publish_draft_sound:
  assumes s: "all_sound org env s" and fresh: "fresh_uid env s (sc_uid c 0)" and ar0: "around env s s0"
    and load: "dossier_load p (pj_store s) = Inr d"
  shows "all_sound org env (snd (publish_draft env c st d profile snapshot report s0))"
  unfolding publish_draft_def svc_transition_def Let_def
proof (rule around_all [OF s ar0 render_around'], assumption, rule transition_all [OF s], assumption, assumption,
    rule transition_all [OF s], assumption, assumption, rule saved_result_all [where Q = "all_sound org env"])
  fix rendered s1 r1 s2 r2 s3
  assume ar: "around env s s3"
    and tr: "transition (Some (pj_send env)) (record_of d) (''start_'' @ stage_value st @ ''_evaluation'') SYSTEM None None s1 = (Inr r1, s2)"
      "transition (Some (pj_send env)) r1 (''publish_'' @ stage_value st @ ''_draft'') SYSTEM (Some (pd_revision d + 1))
         (Some (er_report_id report)) s2 = (Inr r2, s3)"
  note d = all_sound_load [OF s load]
  let ?rv = "(stage_review_of st d)\<lparr>st_snapshot := Some snapshot, st_report_id := Some (er_report_id report),
     st_report_json_uri := Some (rd_json_path rendered), st_report_markdown_uri := Some (rd_markdown_path rendered),
     st_review_profile := Some (rv_ref profile)\<rparr>"
  have p: "reached org p (record_of d)" "pd_project_id d = p" using d by (auto simp: project_sound_def)
  define mid where "mid = (case st of REGISTRATION \<Rightarrow> REGISTRATION_UNDER_REVIEW | COMPLETION \<Rightarrow> COMPLETION_UNDER_REVIEW)"
  from record_move [OF tr(1) p(1) gate_transitions(1)] have 1: "r1 = record_of (d\<lparr>pd_status := mid\<rparr>)"
    "reached org p (record_of (d\<lparr>pd_status := mid\<rparr>))"
    "pd_status d = (case st of REGISTRATION \<Rightarrow> REGISTRATION_READY | COMPLETION \<Rightarrow> COMPLETION_REGISTERED)"
    by (auto simp: mid_def mk_rule_def split: review_stage.splits)
  from record_move [OF tr(2) [unfolded 1(1)] 1(2) gate_transitions(2)]
  have 2: "r2 = record_of (d\<lparr>pd_status := waiting_status st\<rparr>)" "reached org p r2"
    by (auto simp: waiting_status_def mk_rule_def split: review_stage.splits)
  have sent: "delivery_recorded (pv_sha env) (pj_outbox s3) (gate_request st p (pd_revision d + 1) (er_report_id report))"
    using publish_requests [OF tr(2)] 1(1) p(2) by simp
  show "all_sound org env (snd (save_event env (\<lambda>i. sc_t c (i + 2)) (sc_uid c 0)
      (with_stage_review st ?rv (d\<lparr>pd_status := wr_status r2, pd_notifications := ns\<rparr>)) (pd_revision d) ty actor role details s3))"
    for ns ty actor role details
  proof (rule save_all_sound [OF s ar fresh])
    fix now
    let ?e = "saved_dossier (with_event (sc_uid c 0)
      (with_stage_review st ?rv (d\<lparr>pd_status := wr_status r2, pd_notifications := ns\<rparr>))) now"
    have status: "pd_status ?e = waiting_status st" using 2(1) by simp
    have "record_of ?e = r2" using 2(1) by (simp add: record_of_def)
    then have reached: "reached org (pd_project_id d) (record_of ?e)" using 2(2) p(2) by simp
    have own: "gate_sound (pv_sha env) (pj_outbox s3) ?e st"
      unfolding gate_sound_def status using sent p(2)
      by (cases st) (auto simp: waiting_status_def)
    have other: "gate_kept st' d ?e" if "st' \<noteq> st" for st'
      unfolding gate_kept_def status using that 1(3)
      by (cases st; cases st') (simp_all add: waiting_status_def with_stage_review_def)
    show "project_sound org (pv_sha env) (pj_outbox s3) ?e"
      by (rule project_sound_other_gate [OF _ around_kept [OF ar] _ _ reached own other])
        (use d in simp_all)
  qed
qed

lemma snapshots_around: "on_snapshots f s = (res, s') \<Longrightarrow> around env s s'"
  by (auto simp: on_snapshots_def around_def)

lemma evaluate_registration_sound:
  assumes s: "all_sound org env s" and fresh: "fresh_uid env s (sc_uid c 0)"
  shows "all_sound org env (snd (svc_evaluate_registration env c p s))"
  unfolding svc_evaluate_registration_def
proof (rule seq_pure_all [where Q = "all_sound org env", OF s], rule seq_pure_all [where Q = "all_sound org env", OF s],
    rule around_all [OF s around_refl snapshots_around], assumption)
  fix d profile snapshot s1
  assume load: "dossier_load p (pj_store s) = Inr d" and ar: "around env s s1"
  note s1 = all_sound_around [OF s ar]
  show "all_sound org env (snd (seq (pure (submission_artifact d (st_submission_artifact_id (pd_registration d))) s1) (\<lambda>a s.
     seq (pure (svc_extract env c a) s) (\<lambda>ed s.
     seq (pure (vl_registration (pv_evaluator env) (sc_t c 0) d snapshot ed (Some profile)) s) (\<lambda>report s.
     publish_draft env c REGISTRATION d profile snapshot report s)))))"
    by (rule seq_pure_all [where Q = "all_sound org env", OF s1])+ (rule publish_draft_sound [OF s fresh ar load])
qed

lemma evaluate_completion_sound:
  assumes s: "all_sound org env s" and fresh: "fresh_uid env s (sc_uid c 0)"
  shows "all_sound org env (snd (svc_evaluate_completion env c p s))"
  unfolding svc_evaluate_completion_def
proof (rule seq_pure_all [where Q = "all_sound org env", OF s], rule seq_pure_all [where Q = "all_sound org env", OF s],
    rule around_all [OF s around_refl snapshots_around], assumption)
  fix d profile snapshot s1
  assume load: "dossier_load p (pj_store s) = Inr d" and ar: "around env s s1"
  note s1 = all_sound_around [OF s ar]
  show "all_sound org env (snd (seq (pure (submission_artifact d (st_submission_artifact_id (pd_completion d))) s1) (\<lambda>a s.
     seq (pure (svc_extract env c a) s) (\<lambda>ed s.
     seq (pure (load_report env c (pd_registration d) s) s) (\<lambda>registration_report s.
     seq (pure (vl_completion (pv_evaluator env) (sc_t c 0) d snapshot ed registration_report (Some profile)) s) (\<lambda>report s.
     publish_draft env c COMPLETION d profile snapshot report s))))))"
    by (rule seq_pure_all [where Q = "all_sound org env", OF s1])+ (rule publish_draft_sound [OF s fresh ar load])
qed

section \<open>Deciding a gate\<close>

text \<open>What a decision's trigger does, and what it means.\<close>

definition decides :: "review_stage \<Rightarrow> string \<Rightarrow> string \<Rightarrow> bool" where
  "decides st trigger command \<longleftrightarrow> trigger =
     (case st of REGISTRATION \<Rightarrow> if command = ''approve'' then ''approve_registration'' else ''reject_registration''
      | COMPLETION \<Rightarrow> if command = ''accept'' then ''accept_completion'' else ''decline_completion'')"

lemma decide_moves:
  assumes "decides st trigger command" and "transition (Some send) (record_of d) trigger role rv rp s = (Inr r, s')"
    and "reached org p (record_of d)"
  shows "pd_status d = waiting_status st \<and> r = record_of (d\<lparr>pd_status := wr_status r\<rparr>) \<and> reached org p r \<and>
    gate_decision st (wr_status r) = Some (command = agreeing_command st) \<and>
    wr_status r \<in> (case st of REGISTRATION \<Rightarrow> {REGISTRATION_APPROVED, REGISTRATION_REJECTED}
      | COMPLETION \<Rightarrow> {COMPLETION_ACCEPTED, COMPLETION_NOT_ACCEPTED})"
  using status_move [OF assms(2,3)] assms(1)
  by (cases st) (auto simp: decides_def agreeing_command_def waiting_status_def TRANSITIONS_def mk_rule_def split: if_splits)

lemma required_report_id_Inr: "required_report_id rv = Inr i \<longleftrightarrow> st_report_id rv = Some i \<and> i \<noteq> []"
  by (cases "st_report_id rv") (auto simp: required_report_id_def)

lemma decide_sound:
  assumes s: "all_sound org env s" and fresh: "fresh_uid env s (sc_uid c 0)" and dec: "decides st trigger command"
  shows "all_sound org env (snd (svc_decide env c st trigger p command actor rationale adjustments revision authority ty s))"
  unfolding svc_decide_def svc_transition_def Let_def
proof (rule seq_pure_all [where Q = "all_sound org env", OF s], (rule if_all [where Q = "all_sound org env"],
      rule raise_all [where Q = "all_sound org env"], rule s)+, rule transition_all [OF s around_refl], assumption)
  fix d r s1
  assume load: "dossier_load p (pj_store s) = Inr d" and ar: "around env s s1" and nonblank: "strip rationale \<noteq> []"
    and tr: "transition (Some (pj_send env)) (record_of d) trigger ADMINISTRATOR None None s = (Inr r, s1)"
  note d = all_sound_load [OF s load] and s1 = all_sound_around [OF s ar]
  have p: "reached org p (record_of d)" "pd_project_id d = p" using d by (auto simp: project_sound_def)
  note m = decide_moves [OF dec tr p(1)]
  have save: "all_sound org env (snd (save_event env t uid (with_stage_review st ((stage_review_of st d)\<lparr>st_decision := Some h\<rparr>)
      (d\<lparr>pd_status := wr_status r\<rparr>)) n ty' actor' role details s1))"
    if h: "hd_stage h = st" "hd_command h = command" "hd_actor_role h = ''administrator''" "hd_rationale h = strip rationale"
      "st_report_id (stage_review_of st d) = Some (hd_report_id h)" and "uid = sc_uid c 0" for t uid h n ty' actor' role details
  proof (rule save_all_sound [OF s ar])
    show "fresh_uid env s uid" using fresh that by simp
    fix now
    let ?e = "saved_dossier (with_event uid (with_stage_review st ((stage_review_of st d)\<lparr>st_decision := Some h\<rparr>)
      (d\<lparr>pd_status := wr_status r\<rparr>))) now"
    have status: "pd_status ?e = wr_status r" by simp
    have "record_of ?e = r" using m by (simp add: record_of_def)
    then have reached: "reached org (pd_project_id d) (record_of ?e)" using m p(2) by simp
    have before: "gate_past st (pd_status d)" using m by (cases st) (simp_all add: waiting_status_def)
    have "gate_sound (pv_sha env) (pj_outbox s) d st" using d by (simp add: project_sound_def)
    with before obtain i n where "st_report_id (stage_review_of st d) = Some i" "n \<le> pd_revision d"
      "delivery_recorded (pv_sha env) (pj_outbox s) (gate_request st p n i)"
      using p(2) unfolding gate_sound_def by auto
    then have "\<exists>n \<le> pd_revision d + 1. delivery_recorded (pv_sha env) (pj_outbox s1) (gate_request st p n i)"
      using around_kept [OF ar] by (intro exI [of _ n]) simp
    then have own: "gate_sound (pv_sha env) (pj_outbox s1) ?e st"
      unfolding gate_sound_def status using \<open>_ = Some i\<close> h nonblank m p(2) by (auto split: review_stage.splits)
    have other: "gate_kept st' d ?e" if "st' \<noteq> st" for st'
      unfolding gate_kept_def status using that m
      by (cases st; cases st') (auto simp: waiting_status_def with_stage_review_def)
    show "project_sound org (pv_sha env) (pj_outbox s1) ?e"
      by (rule project_sound_other_gate [OF _ around_kept [OF ar] _ _ reached own other])
        (use d in simp_all)
  qed
  show "all_sound org env (snd (seq (pure (required_report_id (stage_review_of st d)) s1) (\<lambda>report_id s.
       seq (pure (load_report env c (stage_review_of st d) s) s) (\<lambda>report s.
       seq (pure (validate_adjustments report adjustments) s) (\<lambda>_ s.
       if 4000 < length (strip rationale) then (Inl (Exn ValidationError ''HumanDecision''), s)
       else save_event env (\<lambda>i. sc_t c (Suc i)) (sc_uid c 0)
              (with_stage_review st ((stage_review_of st d)\<lparr>st_decision := Some
                \<lparr>hd_stage = st, hd_command = command, hd_actor_id = actor,
                 hd_actor_role = role_value ADMINISTRATOR, hd_rationale = strip rationale, hd_report_id = report_id,
                 hd_adjustments = adjustments, hd_decided_at = sc_t c 0, hd_source = ''explicit_command_input'',
                 hd_authority_context = authority\<rparr>\<rparr>) (d\<lparr>pd_status := wr_status r\<rparr>))
              (pd_revision d) ty actor ADMINISTRATOR
              [(''adjusted_criteria'', join_with '','' (map ra_criterion_id adjustments)),
               (''adjustment_count'', str_int (int (length adjustments))), (''command'', command),
               (''report_id'', report_id)] s)))))"
    by (rule seq_pure_all [where Q = "all_sound org env", OF s1], (rule seq_pure_all [where Q = "all_sound org env", OF s1])+,
        rule if_all [where Q = "all_sound org env"], rule raise_all [where Q = "all_sound org env"], rule s1, rule save)
      (auto simp: required_report_id_Inr)
qed

lemma decide_registration_sound:
  "all_sound org env s \<Longrightarrow> fresh_uid env s (sc_uid c 0) \<Longrightarrow>
   all_sound org env (snd (svc_decide_registration env c p command actor rationale adjustments revision authority s))"
  unfolding svc_decide_registration_def
  by (rule saved_result_all [where Q = "all_sound org env"], rule decide_sound) (auto simp: decides_def)

lemma decide_completion_sound:
  "all_sound org env s \<Longrightarrow> fresh_uid env s (sc_uid c 0) \<Longrightarrow>
   all_sound org env (snd (svc_decide_completion env c p command actor rationale adjustments revision authority s))"
  unfolding svc_decide_completion_def
  by (rule saved_result_all [where Q = "all_sound org env"], rule decide_sound) (auto simp: decides_def)

section \<open>A new project\<close>

lemma new_project_sound:
  assumes "pd_status d = DRAFT" "pd_execution d = empty_execution" "org (pd_project_id d) = fresh_record (pd_project_id d)"
  shows "project_sound org sha ob d"
proof -
  have "record_of d = fresh_record (pd_project_id d)"
    using assms by (simp add: record_of_def fresh_record_def empty_execution_def)
  then have "reached org (pd_project_id d) (record_of d)" unfolding reached_def assms(3) by (metis run_start)
  moreover have "gate_sound sha ob d st" for st using assms by (cases st) (simp_all add: gate_sound_def)
  ultimately show ?thesis by (simp add: project_sound_def)
qed

lemma create_sound:
  assumes s: "all_sound org env s" and fresh: "fresh_uid env s (sc_uid c 1)"
  shows "all_sound org env (snd (svc_create_project env c path title sidecar project_id profile context' actor role ep es s))"
  unfolding svc_create_project_def Let_def
proof ((rule seq_pure_all [where Q = "all_sound org env", OF s])+, (rule if_all [where Q = "all_sound org env"],
      rule raise_all [where Q = "all_sound org env"], rule s)+)
  fix pr a
  have created: "all_sound org env (snd (on_ws (execute_create (pv_tx env) t d event command key []) s))"
    if "ae_event_id event = ''evt-'' @ sc_uid c 1" "pd_status d = DRAFT" "pd_execution d = empty_execution"
    for t d event command key
  proof -
    obtain res ws' where run: "execute_create (pv_tx env) t d event command key [] (pj_ws s) = (res, ws')" by fastforce
    have "fresh_tx (pv_tx env) (pj_ws s) (ae_event_id event)" using fresh that by (simp add: fresh_uid_def)
    from execute_create_store [OF this run] consider "tx_store ws' = pj_store s"
      | "dossier_valid d" "tx_store ws' = dossier_write (dossier_file (pd_project_id d)) d (pj_store s)"
        "pj_store s (dossier_file (pd_project_id d)) = None" by auto
    then show ?thesis
    proof cases
      case 1
      with s run show ?thesis by (simp add: all_sound_def on_ws_def)
    next
      case 2
      have "org (pd_project_id d) = fresh_record (pd_project_id d)" using s 2(3) by (simp add: all_sound_def)
      then have "project_sound org (pv_sha env) (pj_outbox s) d'" if "dossier_load q (tx_store ws') = Inr d'" for q d'
        using s that dossier_load_written [OF 2(1), of "pj_store s"] dossier_load_other [of q d "pj_store s"]
          new_project_sound [of d org] \<open>pd_status d = DRAFT\<close> \<open>pd_execution d = empty_execution\<close>
        unfolding 2(2) by (cases "q = pd_project_id d") (auto simp: all_sound_def)
      moreover have "org q = fresh_record q" if "tx_store ws' (dossier_file q) = None" for q
        using s that dossier_write_None unfolding 2(2) all_sound_def by blast
      ultimately show ?thesis using run by (simp add: all_sound_def on_ws_def)
    qed
  qed
  show "all_sound org env (snd (on_ws (execute_create (pv_tx env) (\<lambda>i. sc_t c (i + 3)) 
     \<lparr>pd_schema_version = CURRENT_DOSSIER_SCHEMA, pd_project_id = str_or project_id (sc_uid c 0),
                  pd_display_id = ''AXC-'' @ upper_ascii (take 8 (str_or project_id (sc_uid c 0))), pd_title = strip title,
                  pd_revision = 1, pd_status = DRAFT, pd_created_at = sc_t c 0, pd_updated_at = sc_t c 1,
                  pd_review_context = (case context' of None \<Rightarrow> empty_context | Some x \<Rightarrow> x),
                  pd_review_profile = Some (rv_ref pr), pd_effective_config = pv_config env, pd_artifacts = [a],
                  pd_registration = empty_stage\<lparr>st_submission_artifact_id := Some (ar_artifact_id a),
                    st_review_profile := Some (rv_ref pr)\<rparr>,
                  pd_execution = empty_execution, pd_completion = empty_stage, pd_notifications = [],
                  pd_audit_event_ids = [''evt-'' @ sc_uid c 1]\<rparr>
     \<lparr>ae_event_id = ''evt-'' @ sc_uid c 1, ae_project_id = str_or project_id (sc_uid c 0), ae_event_type = ''project_created'',
                  ae_actor_id = actor, ae_actor_role = role_value role, ae_dossier_revision = 1,
                  ae_occurred_at = sc_t c 2, ae_details = str_details
                    [(''artifact_id'', ar_artifact_id a), (''artifact_sha256'', ar_sha256 a),
                     (''review_profile'', profile_selector (rv_ref pr)), (''review_profile_sha256'', rp_sha256 (rv_ref pr))]\<rparr>
     ''project_created'' (''evt-'' @ sc_uid c 1) []) s))"
    by (rule created) simp_all
qed

section \<open>An operation writes no journal but its own\<close>

lemma around_keeps_fresh: "around env s s' \<Longrightarrow> fresh_uid env s u \<Longrightarrow> fresh_uid env s' u"
  by (simp add: around_fresh)

text \<open>Two uuids name different journal files.\<close>

definition apart :: "'n project_env \<Rightarrow> string \<Rightarrow> string \<Rightarrow> bool" where
  "apart env u v \<longleftrightarrow> journal_file_of (tx_jenv (pv_tx env)) (''txn-evt-'' @ u) \<noteq>
     journal_file_of (tx_jenv (pv_tx env)) (''txn-evt-'' @ v)"

lemma save_event_fresh:
  "fresh_uid env s u \<Longrightarrow> apart env u uid \<Longrightarrow> fresh_uid env (snd (save_event env t uid d n ty actor role details s)) u"
  using save_event_other [of "journal_file_of (tx_jenv (pv_tx env)) (''txn-evt-'' @ u)" env uid t d n ty actor role details s]
  by (simp add: fresh_uid_def fresh_tx_def apart_def)

lemma transition_fresh:
  "fresh_uid env s u \<Longrightarrow> fresh_uid env (snd (transition (Some (pj_send env)) r trigger role rv rp s)) u"
  using transition_around [of env r trigger role rv rp s] by (metis around_fresh prod.collapse)

lemma if_keeps: "Q (snd x) \<Longrightarrow> Q (snd y) \<Longrightarrow> Q (snd (if c then x else y))"
  by simp

lemma publish_draft_fresh:
  assumes "fresh_uid env s u" "apart env u (sc_uid c 0)"
  shows "fresh_uid env (snd (publish_draft env c st d profile snapshot report s)) u"
  unfolding publish_draft_def svc_transition_def Let_def
  by (intro seq_keeps [where Q = "\<lambda>s. fresh_uid env s u"] transition_fresh save_event_fresh assms
      around_keeps_fresh [OF render_around]) (simp_all add: assms)

lemma op_fresh:
  assumes "fresh_uid env s u" "apart env u (sc_uid c 0)"
  shows "fresh_uid env (snd (svc_submit_registration env c p s)) u"
    "fresh_uid env (snd (svc_evaluate_registration env c p s)) u"
    "fresh_uid env (snd (svc_decide_registration env c p command actor rationale adjustments revision authority s)) u"
    "fresh_uid env (snd (svc_assign_mentor env c p m s)) u"
    "fresh_uid env (snd (svc_start_execution env c p s)) u"
    "fresh_uid env (snd (svc_submit_completion env c p path sidecar actor role s)) u"
    "fresh_uid env (snd (svc_evaluate_completion env c p s)) u"
    "fresh_uid env (snd (svc_decide_completion env c p command actor rationale adjustments revision authority s)) u"
proof -
  let ?Q = "\<lambda>s. fresh_uid env s u"
  have snap: "?Q (snd (on_snapshots f s'))" if "?Q s'" for f :: "snapshot_dir \<Rightarrow> (snapshot_ref, snapshot_dir) outcome" and s'
    using that around_keeps_fresh snapshots_around by (metis prod.collapse)
  have decide: "?Q (snd (svc_decide env c st trigger p command actor rationale adjustments revision authority ty s))" for st trigger ty
    unfolding svc_decide_def svc_transition_def Let_def
    by (intro seq_keeps [where Q = ?Q] if_keeps [where Q = ?Q] transition_fresh save_event_fresh assms)
      (simp_all add: assms)
  show "?Q (snd (svc_submit_registration env c p s))"
    unfolding svc_submit_registration_def svc_transition_def
    by (intro seq_keeps [where Q = ?Q] transition_fresh save_event_fresh assms) (simp_all add: assms)
  show "?Q (snd (svc_evaluate_registration env c p s))"
    unfolding svc_evaluate_registration_def
    by (intro seq_keeps [where Q = ?Q] snap publish_draft_fresh assms) (simp_all add: assms)
  show "?Q (snd (svc_evaluate_completion env c p s))"
    unfolding svc_evaluate_completion_def
    by (intro seq_keeps [where Q = ?Q] snap publish_draft_fresh assms) (simp_all add: assms)
  show "?Q (snd (svc_decide_registration env c p command actor rationale adjustments revision authority s))"
    unfolding svc_decide_registration_def by (intro seq_keeps [where Q = ?Q] decide) simp_all
  show "?Q (snd (svc_decide_completion env c p command actor rationale adjustments revision authority s))"
    unfolding svc_decide_completion_def by (intro seq_keeps [where Q = ?Q] decide) simp_all
  show "?Q (snd (svc_assign_mentor env c p m s))"
    unfolding svc_assign_mentor_def
    by (intro seq_keeps [where Q = ?Q] save_event_fresh assms) (simp_all add: assms)
  show "?Q (snd (svc_start_execution env c p s))"
    unfolding svc_start_execution_def svc_transition_def
    by (intro seq_keeps [where Q = ?Q] transition_fresh save_event_fresh assms) (simp_all add: assms)
  show "?Q (snd (svc_submit_completion env c p path sidecar actor role s))"
    unfolding svc_submit_completion_def svc_transition_def
    by (intro seq_keeps [where Q = ?Q] transition_fresh save_event_fresh assms) (simp_all add: assms)
qed

lemma create_fresh:
  assumes "fresh_uid env s u" "apart env u (sc_uid c 1)"
  shows "fresh_uid env (snd (svc_create_project env c path title sidecar project_id profile context' actor role ep es s)) u"
proof -
  let ?Q = "\<lambda>s. fresh_uid env s u"
  have created: "?Q (snd (on_ws (execute_create (pv_tx env) t d event command key []) s))"
    if "ae_event_id event = ''evt-'' @ sc_uid c 1" for t d event command key
    using assms that execute_create_other [of "journal_file_of (tx_jenv (pv_tx env)) (''txn-evt-'' @ u)" "pv_tx env" event t d command key "[]" "pj_ws s"]
    by (simp add: fresh_uid_def fresh_tx_def apart_def on_ws_def)
  show ?thesis
    unfolding svc_create_project_def Let_def
    by (rule seq_pure_all [where Q = ?Q] seq_keeps [where Q = ?Q] if_keeps [where Q = ?Q] raise_all [where Q = ?Q] assms created | simp)+
qed

end
