(* ===== verification/ProjectProgress.thy ===== *)
theory ProjectProgress
  imports ProjectRuns
begin

text \<open>
  Operations of the project service on a quiet workspace: a save that nothing interrupts returns.  The
  example service of the last section goes with its project to the first gate.
\<close>

section \<open>A save that nothing interrupts\<close>

definition quiet :: "'n project_env \<Rightarrow> 'n project_state \<Rightarrow> audit_event list \<Rightarrow> bool" where
  "quiet env s es \<longleftrightarrow> tx_inject (pv_tx env) = (\<lambda>_. None) \<and> env_ok (tx_jenv (pv_tx env)) \<and>
     (\<forall>d. is_sha256 (tx_sha_dossier (pv_tx env) d)) \<and> audit_read (tx_audit (pj_ws s)) = Inr es"

definition new_uid :: "'n project_env \<Rightarrow> 'n project_state \<Rightarrow> audit_event list \<Rightarrow> string \<Rightarrow> bool" where
  "new_uid env s es uid \<longleftrightarrow> fresh_uid env s uid \<and> is_transaction_id (''txn-evt-'' @ uid) \<and>
     ''evt-'' @ uid \<notin> ae_event_id ` set es"

lemma new_uid_length: "new_uid env s es uid \<Longrightarrow> length uid \<le> 120"
  by (simp add: new_uid_def is_transaction_id_def)

lemma tx_execute_returns:
  assumes rd: "ready (project_coordinator env) (plan_applicable env) plan ws" and "tx_inject env = (\<lambda>_. None)"
  shows "\<exists>ws'. tx_execute env t plan ws = (Inr (target_dossier plan (t 2)), ws') \<and>
    tx_store ws' = plan_effect plan (t 2) (tx_store ws) \<and>
    tx_audit ws' = tx_audit ws @ [EventLine (pp_audit_event plan)] \<and> tx_files ws' = tx_files ws"
  using project.execute_returns [OF rd, of t "target_dossier plan (t 2)"] assms(2)
    ensure_dossier_fresh [of plan env "tx_store ws" "t 2"] rd
  by (simp add: ready_def tx_execute_def)

lemma quiet_ready:
  assumes "quiet env s es" "new_uid env s es uid" and plan: "plan_readable plan" "pp_transaction_id plan = ''txn-evt-'' @ uid"
    "ae_event_id (pp_audit_event plan) = ''evt-'' @ uid" "plan_applicable (pv_tx env) plan (pj_store s)"
    "verify_requirements (pv_tx env) (tx_files (pj_ws s)) (pp_required_artifacts plan) = Inr ()"
  shows "ready (project_coordinator (pv_tx env)) (plan_applicable (pv_tx env)) plan (pj_ws s)"
  using assms by (simp add: ready_def quiet_def new_uid_def fresh_uid_def fresh_tx_def)

lemma quiet_after:
  "quiet env s es \<Longrightarrow> tx_audit ws' = tx_audit (pj_ws s) @ [EventLine event] \<Longrightarrow>
   quiet env (s\<lparr>pj_ws := ws'\<rparr>) (es @ [event])"
  by (simp add: quiet_def audit_read_snoc)

lemma create_quiet:
  assumes q: "quiet env s es" and u: "new_uid env s es uid" and d: "dossier_valid d" "pd_revision d = 1"
    and free: "pj_store s (dossier_file (pd_project_id d)) = None"
    and ev: "ae_event_id event = ''evt-'' @ uid" "ae_project_id event = pd_project_id d" "ae_dossier_revision event = 1"
      "''evt-'' @ uid \<in> set (pd_audit_event_ids d)"
    and command: "command \<noteq> []" "length command \<le> 200"
  shows "\<exists>ws'. on_ws (execute_create (pv_tx env) t d event command (''evt-'' @ uid) []) s = (Inr d, s\<lparr>pj_ws := ws'\<rparr>) \<and>
    tx_store ws' = dossier_write (dossier_file (pd_project_id d)) d (pj_store s) \<and> tx_files ws' = tx_files (pj_ws s) \<and>
    quiet env (s\<lparr>pj_ws := ws'\<rparr>) (es @ [event])"
proof -
  let ?plan = "\<lparr>pp_transaction_id = ''txn-'' @ ae_event_id event, pp_operation = OP_CREATE,
     pp_project_id = pd_project_id d, pp_command = command, pp_idempotency_key = ''evt-'' @ uid,
     pp_base_revision = 0, pp_target_revision = 1, pp_base_dossier_sha256 = None,
     pp_candidate_dossier = d, pp_audit_event = event, pp_required_artifacts = []\<rparr>"
  have con: "plan_constructible ?plan"
    using u d ev command new_uid_length [OF u]
    by (simp add: plan_constructible_def plan_integrity_def new_uid_def Suc_le_eq)
  then have "plan_readable ?plan" using d ev by (simp add: plan_readable_def audit_event_valid_def)
  then have "ready (project_coordinator (pv_tx env)) (plan_applicable (pv_tx env)) ?plan (pj_ws s)"
    using free ev by (intro quiet_ready [OF q u]) (simp_all add: plan_applicable_def)
  from tx_execute_returns [OF this, of t] q obtain ws' where
    "tx_execute (pv_tx env) t ?plan (pj_ws s) = (Inr d, ws')"
    "tx_store ws' = dossier_write (dossier_file (pd_project_id d)) d (pj_store s)"
    "tx_audit ws' = tx_audit (pj_ws s) @ [EventLine event]" "tx_files ws' = tx_files (pj_ws s)"
    by (auto simp: quiet_def target_dossier_def plan_effect_def)
  with con quiet_after [OF q, of ws' event] show ?thesis
    by (intro exI [of _ ws']) (simp add: on_ws_def execute_create_def pure_def construct_plan_def)
qed

lemma save_event_quiet:
  assumes q: "quiet env s es" and u: "new_uid env s es uid" and d: "dossier_valid d" "pd_revision d = n"
    and base: "dossier_load (pd_project_id d) (pj_store s) = Inr base" "pd_revision base = n"
    and ty: "ty \<noteq> []" "length ty \<le> 200"
    and required: "transaction_requirements env (with_event uid d) (n + 1) s = Inr rs" "list_all requirement_valid rs"
      "verify_requirements (pv_tx env) (tx_files (pj_ws s)) rs = Inr ()"
  shows "\<exists>ws' event. save_event env t uid d n ty actor role details s =
      (Inr (saved_dossier (with_event uid d) (t 3)), s\<lparr>pj_ws := ws'\<rparr>) \<and>
    tx_store ws' = dossier_write (dossier_file (pd_project_id d)) (saved_dossier (with_event uid d) (t 3)) (pj_store s) \<and>
    tx_files ws' = tx_files (pj_ws s) \<and> quiet env (s\<lparr>pj_ws := ws'\<rparr>) (es @ [event]) \<and> ae_event_id event = ''evt-'' @ uid"
proof -
  let ?e = "with_event uid d"
  let ?event = "\<lparr>ae_event_id = ''evt-'' @ uid, ae_project_id = pd_project_id d, ae_event_type = ty,
     ae_actor_id = actor, ae_actor_role = role_value role, ae_dossier_revision = n + 1,
     ae_occurred_at = t 0, ae_details = str_details details\<rparr>"
  let ?plan = "\<lparr>pp_transaction_id = ''txn-'' @ ae_event_id ?event, pp_operation = OP_UPDATE,
     pp_project_id = pd_project_id ?e, pp_command = ty, pp_idempotency_key = ''evt-'' @ uid,
     pp_base_revision = n, pp_target_revision = n + 1,
     pp_base_dossier_sha256 = Some (tx_sha_dossier (pv_tx env) base),
     pp_candidate_dossier = ?e, pp_audit_event = ?event, pp_required_artifacts = rs\<rparr>"
  have valid: "dossier_valid ?e" and n: "1 \<le> n" using d by (auto simp: with_event_def dossier_valid_def)
  have ids: "''evt-'' @ uid \<in> set (pd_audit_event_ids ?e)" by (simp add: with_event_def)
  have con: "plan_constructible ?plan"
    using u d n ty ids q new_uid_length [OF u]
    by (simp add: plan_constructible_def plan_integrity_def new_uid_def quiet_def Suc_le_eq)
  then have "plan_readable ?plan" using valid n required(2) by (simp add: plan_readable_def audit_event_valid_def)
  moreover have "plan_applicable (pv_tx env) ?plan (pj_store s)" using base by (simp add: plan_applicable_def)
  ultimately have rd: "ready (project_coordinator (pv_tx env)) (plan_applicable (pv_tx env)) ?plan (pj_ws s)"
    using required(3) by (intro quiet_ready [OF q u]) simp_all
  have tgt: "target_dossier ?plan now = saved_dossier ?e now" for now
    using d by (simp add: target_dossier_def saved_dossier_def with_event_def)
  from tx_execute_returns [OF rd, of "\<lambda>i. t (Suc i)"] q tgt [of "t 3"] obtain ws' where
    run: "tx_execute (pv_tx env) (\<lambda>i. t (Suc i)) ?plan (pj_ws s) = (Inr (saved_dossier ?e (t 3)), ws')"
    and ws': "tx_store ws' = dossier_write (dossier_file (pd_project_id d)) (saved_dossier ?e (t 3)) (pj_store s)"
      "tx_audit ws' = tx_audit (pj_ws s) @ [EventLine ?event]" "tx_files ws' = tx_files (pj_ws s)"
    by (auto simp: quiet_def plan_effect_def numeral_3_eq_3 numeral_2_eq_2)
  have "execute_update (pv_tx env) (\<lambda>i. t (Suc i)) ?e n ?event ty (''evt-'' @ uid) rs (pj_ws s) =
      tx_execute (pv_tx env) (\<lambda>i. t (Suc i)) ?plan (pj_ws s)"
    using base con by (simp add: execute_update_def pure_def construct_plan_def)
  with run have "save_event env t uid d n ty actor role details s = (Inr (saved_dossier ?e (t 3)), s\<lparr>pj_ws := ws'\<rparr>)"
    using required(1) n by (simp add: save_event_def Let_def on_ws_def audit_event_valid_def with_event_def pure_def)
  with ws' quiet_after [OF q, of ws' ?event] show ?thesis by (intro exI [of _ ws'] exI [of _ ?event]) simp
qed


section \<open>An example service\<close>

definition demo_report :: evaluation_report where
  "demo_report = \<lparr>er_schema_version = ''s'', er_report_id = ''r'', er_run_id = ''n'', er_project_id = ''p'',
     er_stage = REGISTRATION, er_base_revision = 2, er_snapshot = demo_snapshot,
     er_review_profile = rv_ref (demo_profile demo_policy), er_rubric_id = ''b'', er_rubric_version = ''1'',
     er_checklist_refs = [], er_reference_ids = [], er_evaluator_id = ''e'', er_model_run = None,
     er_parser_runs = [], er_generated_at = 0, er_criteria = [], er_recommendation = PASS,
     er_recommendation_summary = '''',
     er_retrieval = \<lparr>rs_status = ''skipped'', rs_adapter = ''none'', rs_similarity_portion = 0,
       rs_corpus_snapshot_id = None, rs_case_ids = []\<rparr>,
     er_baseline_report_id = None, er_proposal_artifact_sha256 = None,
     er_evaluated_artifact_sha256 = demo_sha, er_evaluated_evidence_sha256 = demo_sha, er_limitations = []\<rparr>"

definition demo_service :: "notification_event list project_env" where
  "demo_service = \<lparr>pv_workspace = ''/w'', pv_tx = demo_tx_env, pv_clock = int, pv_down = recording_send,
     pv_profiles = [((''axcalib.default'', ''1.0.0''), demo_profile demo_policy)],
     pv_default_profile = ''axcalib.default@1.0.0'', pv_config = None,
     pv_evaluator = \<lparr>vl_registration = (\<lambda>_ _ _ _ _. Inr demo_report), vl_completion = (\<lambda>_ _ _ _ _ _. Inr demo_report)\<rparr>,
     pv_pptx = demo_pptx, pv_docling = None,
     pv_dump_report = (\<lambda>r. JObj [(''report_id'', JStr (er_report_id r))]), pv_parse_report = (\<lambda>_. Inr demo_report),
     pv_markdown = (\<lambda>_. ''m''), pv_text = (\<lambda>t. t)\<rparr>"

definition demo_call :: "nat \<Rightarrow> svc_call" where
  "demo_call i = \<lparr>sc_t = int, sc_uid = (\<lambda>j. ''u'' @ replicate i (CHR ''a'') @ replicate j (CHR ''b'')), sc_src = demo_sources\<rparr>"

definition demo_start :: "notification_event list project_state" where
  "demo_start = \<lparr>pj_ws = \<lparr>tx_journal = [], tx_audit = [], tx_store = Map.empty, tx_files = Map.empty\<rparr>,
     pj_snapshots = Map.empty, pj_outbox = \<lparr>ob_files = [], ob_down = [], ob_reads = 0\<rparr>\<rparr>"

definition demo_proposal :: artifact_ref where
  "demo_proposal = \<lparr>ar_artifact_id = ''artifact-registration_proposal-'' @ take 16 demo_sha,
     ar_role = ''registration_proposal'', ar_uri = ''/p.pptx'', ar_media_type = PPTX_MEDIA_TYPE,
     ar_sha256 = demo_sha, ar_byte_size = 9, ar_metadata = [(''parser_id'', PARSER_ID)]\<rparr>"

definition demo_draft :: project_dossier where
  "demo_draft = (demo_dossier ''p'' [''evt-ub''])\<lparr>pd_display_id := ''AXC-P'', pd_title := ''T'', pd_updated_at := 1,
     pd_review_profile := Some (rv_ref (demo_profile demo_policy)), pd_artifacts := [demo_proposal],
     pd_registration := empty_stage\<lparr>st_submission_artifact_id := Some (ar_artifact_id demo_proposal),
       st_review_profile := Some (rv_ref (demo_profile demo_policy))\<rparr>\<rparr>"

lemma demo_proposal_ref: "pptx_artifact_ref demo_sources ''/p.pptx'' ''registration_proposal'' None = Inr demo_proposal"
  by (simp add: pptx_artifact_ref_def demo_sources_def path_suffix_def path_name_def Let_def casefold_def
      casefold_char_def artifact_ref_valid_def demo_proposal_def)

lemma demo_profile_facts:
  "review_profile_ref_valid (rv_ref (demo_profile demo_policy))"
  "profile_selector (rv_ref (demo_profile demo_policy)) = ''axcalib.default@1.0.0''"
  "pk_status (rv_policy (demo_profile demo_policy)) = OFFLINE_REFERENCE"
  "rp_sha256 (rv_ref (demo_profile demo_policy)) = demo_sha"
proof -
  show "review_profile_ref_valid (rv_ref (demo_profile demo_policy))"
    using demo_policy(1) by (simp add: demo_profile_def profile_ref_of_def review_profile_ref_valid_def policy_pack_valid_def)
  have "pk_policy_id demo_policy = ''axcalib.default''" "pk_version demo_policy = ''1.0.0''" "pk_status demo_policy = OFFLINE_REFERENCE"
    by (simp_all add: demo_policy_def builtin_default_policy_def)
  then show "profile_selector (rv_ref (demo_profile demo_policy)) = ''axcalib.default@1.0.0''"
    "pk_status (rv_policy (demo_profile demo_policy)) = OFFLINE_REFERENCE"
    "rp_sha256 (rv_ref (demo_profile demo_policy)) = demo_sha"
    by (simp_all add: demo_profile_def profile_ref_of_def profile_selector_def)
qed

lemma demo_resolves:
  "resolve_profile ''axcalib.default@1.0.0'' None True (pv_profiles demo_service) = Inr (demo_profile demo_policy)"
  "resolve_profile_ref (rv_ref (demo_profile demo_policy)) True (pv_profiles demo_service) = Inr (demo_profile demo_policy)"
proof -
  have "rsplit_at ''axcalib.default@1.0.0'' = Some (''axcalib.default'', ''1.0.0'')"
    using rsplit_at_append [of "''1.0.0''" "''axcalib.default''"] by simp
  then show "resolve_profile ''axcalib.default@1.0.0'' None True (pv_profiles demo_service) = Inr (demo_profile demo_policy)"
    "resolve_profile_ref (rv_ref (demo_profile demo_policy)) True (pv_profiles demo_service) = Inr (demo_profile demo_policy)"
    by (simp_all add: resolve_profile_def resolve_profile_ref_def demo_service_def demo_profile_facts)
qed

lemma demo_draft_simps [simp]:
  "pd_project_id demo_draft = ''p''" "pd_revision demo_draft = 1" "pd_status demo_draft = DRAFT" "dossier_valid demo_draft"
proof -
  show "dossier_valid demo_draft"
    using demo_profile_facts(1)
    by (simp add: demo_draft_def demo_dossier_def dossier_valid_def demo_proposal_def artifact_ref_valid_def
        empty_stage_def stage_review_valid_def)
qed (simp_all add: demo_draft_def demo_dossier_def)

lemma demo_quiet: "quiet demo_service demo_start []"
  using demo_env_ok by (simp add: quiet_def demo_service_def demo_start_def) (simp add: demo_tx_env_def)

lemma demo_jenv: "journal_file_of (tx_jenv (pv_tx demo_service)) tid = ''transaction-'' @ take 24 tid @ ''.jsonl''"
  by (simp add: journal_file_of_def demo_service_def demo_tx_env_def tx_jenv_def)

lemma demo_new: "new_uid demo_service demo_start [] (sc_uid (demo_call i) j)" if "i < 9" "j < 2"
  using that by (auto simp: new_uid_def fresh_uid_def fresh_tx_def demo_start_def is_transaction_id_def demo_call_def
      list_all_iff is_alnum_def char_class_defs)


text \<open>Every uuid of the example has its own journal file.\<close>

lemma demo_apart:
  assumes "sc_uid (demo_call i) j \<noteq> sc_uid (demo_call k) l" "i < 9" "k < 9" "j < 2" "l < 2"
  shows "apart demo_service (sc_uid (demo_call i) j) (sc_uid (demo_call k) l)"
  using assms by (simp add: apart_def demo_jenv demo_call_def)

definition demo_create :: "notification_event list project_state \<Rightarrow> (project_dossier, notification_event list project_state) outcome" where
  "demo_create = svc_create_project demo_service (demo_call 0) ''/p.pptx'' ''T'' None (Some ''p'') (Some ''axcalib.default@1.0.0'')
     (Some empty_context) ''submitter:local'' SUBMITTER None None"

lemma demo_created:
  "\<exists>ws event. demo_create demo_start = (Inr demo_draft, demo_start\<lparr>pj_ws := ws\<rparr>) \<and>
    dossier_load ''p'' (tx_store ws) = Inr demo_draft \<and> tx_files ws = Map.empty \<and>
    quiet demo_service (demo_start\<lparr>pj_ws := ws\<rparr>) [event] \<and> ae_event_id event = ''evt-ub''"
proof -
  have uid: "sc_uid (demo_call 0) 1 = ''ub''" "sc_uid (demo_call 0) (Suc 0) = ''ub''" by (simp_all add: demo_call_def)
  have call: "sc_src (demo_call 0) = demo_sources" "sc_t (demo_call 0) = int" "pv_config demo_service = None"
    "ar_sha256 demo_proposal = demo_sha" by (simp_all add: demo_call_def demo_service_def demo_proposal_def)
  have call: "sc_src (demo_call 0) = demo_sources" "sc_t (demo_call 0) = int" "pv_config demo_service = None"
    "ar_sha256 demo_proposal = demo_sha" by (simp_all add: demo_call_def demo_service_def demo_proposal_def)
  have up: "upper_ascii ''p'' = ''P''" by code_simp
  define event where "event = \<lparr>ae_event_id = ''evt-ub'', ae_project_id = ''p'', ae_event_type = ''project_created'',
     ae_actor_id = ''submitter:local'', ae_actor_role = role_value SUBMITTER, ae_dossier_revision = 1,
     ae_occurred_at = 2, ae_details = str_details
       [(''artifact_id'', ar_artifact_id demo_proposal), (''artifact_sha256'', demo_sha),
        (''review_profile'', ''axcalib.default@1.0.0''), (''review_profile_sha256'', demo_sha)]\<rparr>"
  have "\<exists>ws'. on_ws (execute_create (pv_tx demo_service) (\<lambda>i. int (i + 3)) demo_draft event ''project_created'' (''evt-'' @ ''ub'') []) demo_start
      = (Inr demo_draft, demo_start\<lparr>pj_ws := ws'\<rparr>) \<and>
    tx_store ws' = dossier_write (dossier_file (pd_project_id demo_draft)) demo_draft (pj_store demo_start) \<and>
    tx_files ws' = tx_files (pj_ws demo_start) \<and> quiet demo_service (demo_start\<lparr>pj_ws := ws'\<rparr>) ([] @ [event])"
  proof (intro create_quiet [OF demo_quiet])
    show "new_uid demo_service demo_start [] ''ub''" using demo_new [of 0 1] by (simp add: uid)
    show "''evt-'' @ ''ub'' \<in> set (pd_audit_event_ids demo_draft)" by (simp add: demo_draft_def)
  qed (simp_all add: event_def demo_start_def)
  then obtain ws' where ws': "on_ws (execute_create (pv_tx demo_service) (\<lambda>i. int (i + 3)) demo_draft event ''project_created'' ''evt-ub'' []) demo_start
      = (Inr demo_draft, demo_start\<lparr>pj_ws := ws'\<rparr>)"
    "tx_store ws' = dossier_write (dossier_file ''p'') demo_draft (pj_store demo_start)"
    "tx_files ws' = Map.empty" "quiet demo_service (demo_start\<lparr>pj_ws := ws'\<rparr>) [event]"
    by (auto simp: demo_start_def)
  have "demo_create demo_start =
      on_ws (execute_create (pv_tx demo_service) (\<lambda>i. int (i + 3)) demo_draft event ''project_created'' ''evt-ub'' []) demo_start"
    using demo_resolves(1) demo_proposal_ref demo_profile_facts
    by (simp add: demo_create_def svc_create_project_def Let_def uid up call event_def demo_draft_def demo_dossier_def
        strip_def py_space_def str_or_def)
  with ws' dossier_load_written [of demo_draft "pj_store demo_start"] show ?thesis
    by (intro exI [of _ ws'] exI [of _ event]) (simp add: event_def)
qed


lemma new_uid_fresh: "new_uid env s es u \<Longrightarrow> fresh_uid env s u"
  by (simp add: new_uid_def)

definition demo_submitted :: project_dossier where
  "demo_submitted = saved_dossier (with_event ''ua'' (demo_draft\<lparr>pd_status := REGISTRATION_READY\<rparr>)) 3"

lemma demo_submitted_simps [simp]:
  "pd_project_id demo_submitted = ''p''" "pd_revision demo_submitted = 2" "pd_status demo_submitted = REGISTRATION_READY"
  "dossier_valid demo_submitted" "pd_review_profile demo_submitted = Some (rv_ref (demo_profile demo_policy))"
  "pd_artifacts demo_submitted = [demo_proposal]" "pd_notifications demo_submitted = []"
  "pd_registration demo_submitted = empty_stage\<lparr>st_submission_artifact_id := Some (ar_artifact_id demo_proposal),
       st_review_profile := Some (rv_ref (demo_profile demo_policy))\<rparr>"
proof -
  show "dossier_valid demo_submitted"
    using demo_draft_simps(4) by (simp add: demo_submitted_def saved_dossier_def with_event_def dossier_valid_def)
qed (simp_all add: demo_submitted_def saved_dossier_def with_event_def demo_draft_def demo_dossier_def)

lemma demo_submit:
  assumes q: "quiet demo_service s es" and u: "new_uid demo_service s es ''ua''"
    and load: "dossier_load ''p'' (pj_store s) = Inr demo_draft"
  shows "\<exists>r ws event. svc_submit_registration demo_service (demo_call 1) ''p'' s = (Inr r, s\<lparr>pj_ws := ws\<rparr>) \<and>
    dossier_load ''p'' (tx_store ws) = Inr demo_submitted \<and> tx_files ws = tx_files (pj_ws s) \<and>
    quiet demo_service (s\<lparr>pj_ws := ws\<rparr>) (es @ [event]) \<and> ae_event_id event = ''evt-ua''"
proof -
  have uid: "sc_uid (demo_call 1) 0 = ''ua''" "sc_t (demo_call 1) = int"
    "sc_uid (demo_call (Suc 0)) 0 = ''ua''" "sc_t (demo_call (Suc 0)) = int" by (simp_all add: demo_call_def)
  let ?e = "demo_draft\<lparr>pd_status := REGISTRATION_READY\<rparr>"
  have e: "dossier_valid ?e" "pd_project_id ?e = ''p''" "pd_revision ?e = 1"
    using demo_draft_simps(4) by (simp_all add: dossier_valid_def)
  have tr: "svc_transition demo_service demo_draft ''submit_registration'' SUBMITTER s =
      (Inr ((record_of demo_draft)\<lparr>wr_status := REGISTRATION_READY\<rparr>), s)"
    by (simp add: svc_transition_def transition_def transition_guard_def pure_def TRANSITIONS_def mk_rule_def)
  have "\<exists>ws' event. save_event demo_service int ''ua'' ?e 1 ''registration_submitted'' ''submitter:local'' SUBMITTER
      [(''trigger'', ''submit_registration'')] s =
      (Inr (saved_dossier (with_event ''ua'' ?e) (int 3)), s\<lparr>pj_ws := ws'\<rparr>) \<and>
    tx_store ws' = dossier_write (dossier_file (pd_project_id ?e)) (saved_dossier (with_event ''ua'' ?e) (int 3)) (pj_store s) \<and>
    tx_files ws' = tx_files (pj_ws s) \<and> quiet demo_service (s\<lparr>pj_ws := ws'\<rparr>) (es @ [event]) \<and>
    ae_event_id event = ''evt-'' @ ''ua''"
    by (rule save_event_quiet [OF q u e(1,3), where base = demo_draft and rs = "[]"])
      (use e load in \<open>simp_all add: transaction_requirements_def waiting_stage_def with_event_def\<close>)
  then obtain ws' event where save: "save_event demo_service int ''ua'' ?e 1 ''registration_submitted'' ''submitter:local'' SUBMITTER
      [(''trigger'', ''submit_registration'')] s = (Inr demo_submitted, s\<lparr>pj_ws := ws'\<rparr>)"
    and ws': "tx_store ws' = dossier_write (dossier_file ''p'') demo_submitted (pj_store s)"
      "tx_files ws' = tx_files (pj_ws s)" "quiet demo_service (s\<lparr>pj_ws := ws'\<rparr>) (es @ [event])"
      "ae_event_id event = ''evt-ua''"
    using e by (auto simp: demo_submitted_def)
  have "\<exists>r. svc_submit_registration demo_service (demo_call 1) ''p'' s = (Inr r, s\<lparr>pj_ws := ws'\<rparr>)"
    using save load tr by (simp add: svc_submit_registration_def uid)
  with ws' dossier_load_written [of demo_submitted "pj_store s"] show ?thesis
    by (auto intro!: exI [of _ ws'] exI [of _ event])
qed


lemma demo_extract: "\<exists>ed. svc_extract demo_service (demo_call 2) demo_proposal = Inr ed"
proof -
  have pkg: "Option.bind (demo_sources ''/p.pptx'') sf_package = Some demo_package" by (simp add: demo_sources_def)
  have check: "pptx_package_check demo_package = Inr ()"
    unfolding pptx_package_check_def demo_slide_names
    by (simp add: demo_package_def MAX_PACKAGE_ENTRIES_def MAX_UNCOMPRESSED_BYTES_def MAX_SLIDES_def casefold_def
        casefold_char_def)
  have "\<exists>ss. extract_slides demo_pptx demo_package [] (slide_names demo_package) = Inr ss"
    unfolding demo_slide_names
    by (simp add: demo_package_def Let_def slide_evidence_valid_def slide_evidence_of_def split: prod.split)
  moreover have "external_scan demo_package (zp_names demo_package) = Inr False"
    by (simp add: demo_package_def ends_with_def)
  ultimately obtain ed where "pptx_extract demo_pptx demo_sources ''/p.pptx'' ''registration_proposal'' None = Inr ed"
    "ed_artifact ed = demo_proposal"
    using demo_proposal_ref pkg check by (auto simp: pptx_extract_def load_sidecar_def)
  moreover have "ar_uri demo_proposal = ''/p.pptx''" "ar_role demo_proposal = ''registration_proposal''"
    "map_of (ar_metadata demo_proposal) ''sidecar_uri'' = None" by (simp_all add: demo_proposal_def)
  ultimately show ?thesis by (simp add: svc_extract_def Let_def) (simp add: demo_service_def demo_call_def)
qed

lemma demo_send:
  assumes "pj_outbox s = pj_outbox demo_start"
  shows "\<exists>ob en. pj_send demo_service ev s =
      (Inr (), s\<lparr>pj_outbox := ob, pj_ws := (pj_ws s)\<lparr>tx_files := outbox_tree ''outbox'' ob (tx_files (pj_ws s))\<rparr>\<rparr>) \<and>
    outbox_file ob (outbox_path_for (\<lambda>t. t) ev) = Some (Some en) \<and> oe_delivery_status en = ''recorded''"
proof -
  let ?ob = "snd (outbox_send (\<lambda>t. t) int recording_send ev (pj_outbox s))"
  from outbox_send_attempt [of "\<lambda>t. t" "pj_outbox s" ev int recording_send] assms
  have "\<exists>en. outbox_file ?ob (outbox_path_for (\<lambda>t. t) ev) = Some (Some en) \<and> oe_delivery_status en = ''recorded''"
    "fst (outbox_send (\<lambda>t. t) int recording_send ev (pj_outbox s)) = Inr ()"
    by (auto simp: demo_start_def delivery_recorded_def recording_send_def)
  moreover have "pj_send demo_service ev s = (fst (outbox_send (\<lambda>t. t) int recording_send ev (pj_outbox s)),
     s\<lparr>pj_outbox := ?ob, pj_ws := (pj_ws s)\<lparr>tx_files := outbox_tree ''outbox'' ?ob (tx_files (pj_ws s))\<rparr>\<rparr>)"
    by (simp add: pj_send_def demo_service_def demo_tx_env_def split: prod.split)
  ultimately show ?thesis by metis
qed


definition demo_review :: stage_review where
  "demo_review = (pd_registration demo_submitted)\<lparr>
     st_snapshot := Some \<lparr>sn_snapshot_id = ''snap-p-2-'' @ take 12 demo_sha, sn_dossier_revision = 2,
       sn_dossier_sha256 = demo_sha, sn_uri = ''/w/snapshots/snap-p-2-'' @ take 12 demo_sha @ ''.json''\<rparr>,
     st_report_id := Some ''r'', st_report_json_uri := Some ''/w/reports/p/registration/r.json'',
     st_report_markdown_uri := Some ''/w/reports/p/registration/r.md'',
     st_review_profile := Some (rv_ref (demo_profile demo_policy))\<rparr>"

definition demo_request :: notification_record where
  "demo_request = \<lparr>nr_event_type = ''registration_admin_approval_requested'', nr_stage = REGISTRATION,
     nr_required_role = ''administrator'', nr_report_id = ''r'', nr_dossier_revision = 3,
     nr_delivery_status = ''recorded'', nr_recorded_at = 1\<rparr>"

definition demo_waiting :: project_dossier where
  "demo_waiting = demo_submitted\<lparr>pd_status := REGISTRATION_HITL_PENDING, pd_notifications := [demo_request],
     pd_registration := demo_review\<rparr>"

lemma demo_waiting_simps [simp]:
  "pd_project_id demo_waiting = ''p''" "pd_revision demo_waiting = 2" "pd_status demo_waiting = REGISTRATION_HITL_PENDING"
  "dossier_valid demo_waiting" "pd_registration demo_waiting = demo_review" "pd_notifications demo_waiting = [demo_request]"
proof -
  show "dossier_valid demo_waiting"
    using demo_submitted_simps(4) demo_profile_facts(1)
    by (simp add: demo_waiting_def dossier_valid_def demo_request_def notification_record_valid_def demo_review_def
        stage_review_valid_def empty_stage_def snapshot_ref_valid_def)
qed (simp_all add: demo_waiting_def)

definition demo_request_event :: notification_event where
  "demo_request_event = approval_request ''registration_admin_approval_requested'' ''p'' (Some 3) (Some ''r'')"

text \<open>The files that the open gate stands on are there.\<close>

lemma demo_required:
  assumes files: "tx_files (pj_ws s) = outbox_tree ''outbox'' ob (Map.empty
      (''reports/p/registration/r.json'' \<mapsto> RegularFile (JsonText (JObj [(''report_id'', JStr ''r'')])),
       ''reports/p/registration/r.md'' \<mapsto> RegularFile (OtherText ''m'')))"
    and en: "outbox_file ob (outbox_path_for (\<lambda>t. t) demo_request_event) = Some (Some en)" "oe_delivery_status en = ''recorded''"
  shows "\<exists>rs. transaction_requirements demo_service (with_event uid demo_waiting) 3 s = Inr rs \<and>
    list_all requirement_valid rs \<and> verify_requirements (pv_tx demo_service) (tx_files (pj_ws s)) rs = Inr ()"
proof -
  have tx: "pv_tx demo_service = demo_tx_env" "pv_workspace demo_service = ''/w''" by (simp_all add: demo_service_def)
  have path: "outbox_path_for (\<lambda>t. t) demo_request_event = ''notification-registration_admin_appro.json''"
    by (simp add: outbox_path_for_def demo_request_event_def outbox_identity_def approval_request_def)
  have json: "tx_files (pj_ws s) ''reports/p/registration/r.json'' = Some (RegularFile (JsonText (JObj [(''report_id'', JStr ''r'')])))"
    and md: "tx_files (pj_ws s) ''reports/p/registration/r.md'' = Some (RegularFile (OtherText ''m''))"
    by (simp_all add: files outbox_tree_other)
  have box: "tx_files (pj_ws s) ''outbox/notification-registration_admin_appro.json'' = Some (RegularFile (JsonText (outbox_entry_json en)))"
    using outbox_tree_file [OF en(1), of "''outbox''"] unfolding path files by simp
  let ?q = "\<lambda>k path i st. \<lparr>tr_kind = k, tr_relative_path = path, tr_sha256 = demo_sha, tr_expected_report_id = i,
     tr_expected_delivery_status = st\<rparr>"
  have make: "make_requirement REPORT_JSON ''reports/p/registration/r.json'' demo_sha (Some ''r'') None =
      Inr (?q REPORT_JSON ''reports/p/registration/r.json'' (Some ''r'') None)"
    "make_requirement REPORT_MARKDOWN ''reports/p/registration/r.md'' demo_sha None None =
      Inr (?q REPORT_MARKDOWN ''reports/p/registration/r.md'' None None)"
    "make_requirement NOTIFICATION_OUTBOX ''outbox/notification-registration_admin_appro.json'' demo_sha None (Some ''recorded'') =
      Inr (?q NOTIFICATION_OUTBOX ''outbox/notification-registration_admin_appro.json'' None (Some ''recorded''))"
    by (simp_all add: make_requirement_def validate_relative_path_def Let_def)
  let ?rs = "[?q REPORT_JSON ''reports/p/registration/r.json'' (Some ''r'') None,
     ?q REPORT_MARKDOWN ''reports/p/registration/r.md'' None None,
     ?q NOTIFICATION_OUTBOX ''outbox/notification-registration_admin_appro.json'' None (Some ''recorded'')]"
  have event: "\<lparr>ev_type = ''registration_admin_approval_requested'', ev_project_id = ''p'', ev_stage = ''registration'',
      ev_required_role = ''administrator'', ev_revision = Some 3, ev_report_ref = Some ''r''\<rparr> = demo_request_event"
    by (simp add: demo_request_event_def approval_request_def)
  have rel: "workspace_relative demo_service ''/w/reports/p/registration/r.json'' = Some ''reports/p/registration/r.json''"
    "workspace_relative demo_service ''/w/reports/p/registration/r.md'' = Some ''reports/p/registration/r.md''"
    by (simp_all add: workspace_relative_def tx)
  have req: "require_file demo_tx_env (tx_files (pj_ws s)) (Some ''reports/p/registration/r.json'') REPORT_JSON (Some ''r'') None = Inr (?rs ! 0)"
    "require_file demo_tx_env (tx_files (pj_ws s)) (Some ''reports/p/registration/r.md'') REPORT_MARKDOWN None None = Inr (?rs ! 1)"
    "require_file demo_tx_env (tx_files (pj_ws s)) (Some ''outbox/notification-registration_admin_appro.json'')
       NOTIFICATION_OUTBOX None (Some ''recorded'') = Inr (?rs ! 2)"
    unfolding require_file_def option.case json md box using make by (simp_all add: demo_tx_env_def)
  have fields: "pd_notifications (with_event uid demo_waiting) = [demo_request]"
    "pd_registration (with_event uid demo_waiting) = demo_review"
    by (simp_all add: with_event_def)
  have sha: "tx_sha_text demo_tx_env = (\<lambda>t. t)" by (simp add: demo_tx_env_def)
  have "transaction_requirements demo_service (with_event uid demo_waiting) 3 s = Inr ?rs"
    unfolding transaction_requirements_def gate_requirements_def Let_def tx sha fields stage_review_simps
    using req rel event path
    by (simp add: waiting_stage_def fields demo_request_def demo_review_def)
  moreover have "list_all requirement_valid ?rs" using make by (simp add: requirement_valid_def)
  moreover have "verify_requirements demo_tx_env (tx_files (pj_ws s)) ?rs = Inr ()"
    using json md box en(2)
    by (simp add: verify_requirement_def outbox_entry_json_def json_get_def) (simp add: demo_tx_env_def)
  ultimately show ?thesis unfolding tx by blast
qed


definition demo_pending :: project_dossier where
  "demo_pending = saved_dossier (with_event ''uaa'' demo_waiting) 5"

lemma demo_publish:
  assumes q: "quiet demo_service s es" and u: "new_uid demo_service s es ''uaa''"
    and load: "dossier_load ''p'' (pj_store s) = Inr demo_submitted"
    and s: "pj_outbox s = pj_outbox demo_start" "tx_files (pj_ws s) = Map.empty"
  shows "\<exists>r s'. publish_draft demo_service (demo_call 2) REGISTRATION demo_submitted (demo_profile demo_policy)
      (the (st_snapshot demo_review)) demo_report s = (Inr r, s') \<and>
    dossier_load ''p'' (pj_store s') = Inr demo_pending \<and> pr_report_markdown_uri r = Some ''/w/reports/p/registration/r.md''"
proof -
  let ?files = "Map.empty
      (''reports/p/registration/r.json'' \<mapsto> RegularFile (JsonText (JObj [(''report_id'', JStr ''r'')])),
       ''reports/p/registration/r.md'' \<mapsto> RegularFile (OtherText ''m''))"
  let ?s1 = "s\<lparr>pj_ws := (pj_ws s)\<lparr>tx_files := ?files\<rparr>\<rparr>"
  obtain ob en where send: "pj_send demo_service demo_request_event ?s1 =
      (Inr (), s\<lparr>pj_outbox := ob, pj_ws := (pj_ws s)\<lparr>tx_files := outbox_tree ''outbox'' ob ?files\<rparr>\<rparr>)"
    and en: "outbox_file ob (outbox_path_for (\<lambda>t. t) demo_request_event) = Some (Some en)" "oe_delivery_status en = ''recorded''"
    using demo_send [of ?s1 demo_request_event] s by auto
  let ?s2 = "s\<lparr>pj_outbox := ob, pj_ws := (pj_ws s)\<lparr>tx_files := outbox_tree ''outbox'' ob ?files\<rparr>\<rparr>"
  have q2: "quiet demo_service ?s2 es" and u2: "new_uid demo_service ?s2 es ''uaa''"
    using q u by (simp_all add: quiet_def new_uid_def fresh_uid_def fresh_tx_def)
  obtain rs where rs: "transaction_requirements demo_service (with_event ''uaa'' demo_waiting) 3 ?s2 = Inr rs"
    "list_all requirement_valid rs" "verify_requirements (pv_tx demo_service) (tx_files (pj_ws ?s2)) rs = Inr ()"
    using demo_required [of ?s2 ob en "''uaa''", OF _ en] by auto
  let ?details = "[(''notification_event'', ''registration_admin_approval_requested''), (''recommendation'', ''pass''),
     (''report_id'', ''r''), (''review_profile_sha256'', demo_sha), (''snapshot_id'', ''snap-p-2-'' @ take 12 demo_sha)]"
  have "\<exists>ws' event. save_event demo_service (\<lambda>i. int (i + 2)) ''uaa'' demo_waiting 2 ''registration_draft_published''
      ''system:offline-evaluator'' SYSTEM ?details ?s2 =
      (Inr (saved_dossier (with_event ''uaa'' demo_waiting) (int (3 + 2))), ?s2\<lparr>pj_ws := ws'\<rparr>) \<and>
    tx_store ws' = dossier_write (dossier_file (pd_project_id demo_waiting))
      (saved_dossier (with_event ''uaa'' demo_waiting) (int (3 + 2))) (pj_store ?s2) \<and>
    tx_files ws' = tx_files (pj_ws ?s2) \<and> quiet demo_service (?s2\<lparr>pj_ws := ws'\<rparr>) (es @ [event]) \<and>
    ae_event_id event = ''evt-'' @ ''uaa''"
    by (rule save_event_quiet [OF q2 u2, where base = demo_submitted and rs = rs]) (use load rs in simp_all)
  then obtain ws' where save: "save_event demo_service (\<lambda>i. int (i + 2)) ''uaa'' demo_waiting 2 ''registration_draft_published''
      ''system:offline-evaluator'' SYSTEM ?details ?s2 = (Inr demo_pending, ?s2\<lparr>pj_ws := ws'\<rparr>)"
    and ws': "tx_store ws' = dossier_write (dossier_file ''p'') demo_pending (pj_store s)"
    by (auto simp: demo_pending_def)
  let ?rd = "\<lparr>rd_report_id = ''r'', rd_json_path = ''/w/reports/p/registration/r.json'',
     rd_markdown_path = ''/w/reports/p/registration/r.md''\<rparr>"
  have report: "er_report_id demo_report = ''r''" "er_project_id demo_report = ''p''" "er_stage demo_report = REGISTRATION"
    "er_recommendation demo_report = PASS" by (simp_all add: demo_report_def)
  have env: "pv_workspace demo_service = ''/w''" "pv_dump_report demo_service demo_report = JObj [(''report_id'', JStr ''r'')]"
    "pv_markdown demo_service demo_report = ''m''"
    by (simp_all add: demo_service_def report)
  have render: "render_report demo_service demo_report s = (Inr ?rd, ?s1)"
    using s by (simp add: render_report_def report env Let_def)
  let ?mid = "(record_of demo_submitted)\<lparr>wr_status := REGISTRATION_UNDER_REVIEW\<rparr>"
  have start: "svc_transition demo_service demo_submitted ''start_registration_evaluation'' SYSTEM ?s1 = (Inr ?mid, ?s1)"
    by (simp add: svc_transition_def transition_def transition_guard_def pure_def TRANSITIONS_def mk_rule_def)
  have guard: "transition_guard ?mid ''publish_registration_draft'' SYSTEM =
      Inr (mk_rule REGISTRATION_UNDER_REVIEW REGISTRATION_HITL_PENDING {SYSTEM} (Some ''registration_admin_approval_requested''))"
    by (simp add: transition_guard_def TRANSITIONS_def) (simp add: mk_rule_def)
  have publish: "transition (Some (pj_send demo_service)) ?mid ''publish_registration_draft'' SYSTEM (Some 3) (Some ''r'') ?s1 =
      (Inr (?mid\<lparr>wr_status := REGISTRATION_HITL_PENDING\<rparr>), ?s2)"
    unfolding transition_def guard using send by (simp add: pure_def mk_rule_def demo_request_event_def)
  have waiting: "with_stage_review REGISTRATION demo_review
      (demo_submitted\<lparr>pd_status := REGISTRATION_HITL_PENDING, pd_notifications := [demo_request]\<rparr>) = demo_waiting"
    by (simp add: with_stage_review_def demo_waiting_def)
  have review: "demo_review = (pd_registration demo_submitted)\<lparr>st_snapshot := Some (the (st_snapshot demo_review)),
      st_report_id := Some ''r'', st_report_json_uri := Some ''/w/reports/p/registration/r.json'',
      st_report_markdown_uri := Some ''/w/reports/p/registration/r.md'',
      st_review_profile := Some (rv_ref (demo_profile demo_policy))\<rparr>"
    by (simp add: demo_review_def)
  have request: "\<lparr>nr_event_type = ''registration_admin_approval_requested'', nr_stage = REGISTRATION,
      nr_required_role = ''administrator'', nr_report_id = ''r'', nr_dossier_revision = 3,
      nr_delivery_status = ''recorded'', nr_recorded_at = 1\<rparr> = demo_request"
    by (simp add: demo_request_def)
  have call: "sc_t (demo_call 2) = int" "sc_uid (demo_call 2) 0 = ''uaa''"
    by (simp_all add: demo_call_def numeral_2_eq_2)
  have snap: "sn_snapshot_id (the (st_snapshot demo_review)) = ''snap-p-2-'' @ take 12 demo_sha" by (simp add: demo_review_def)
  have event: "nr_event_type demo_request = ''registration_admin_approval_requested''" by (simp add: demo_request_def)
  have "publish_draft demo_service (demo_call 2) REGISTRATION demo_submitted (demo_profile demo_policy)
      (the (st_snapshot demo_review)) demo_report s =
    (Inr (svc_result demo_service demo_pending (pv_text demo_service ''registration_draft_published'') (Some demo_report)
       [''approve'', ''reject'']), ?s2\<lparr>pj_ws := ws'\<rparr>)"
    unfolding publish_draft_def
    using start publish save
    by (simp add: render report review [symmetric] request waiting call snap demo_profile_facts Let_def event
        del: demo_submitted_simps(8))
  moreover have "pd_registration demo_pending = demo_review"
    by (simp add: demo_pending_def saved_dossier_def with_event_def)
  then have "pr_report_markdown_uri (svc_result demo_service demo_pending m (Some demo_report) cs) = Some ''/w/reports/p/registration/r.md''" for m cs
    by (simp add: svc_result_def report demo_review_def)
  moreover have "dossier_valid demo_pending" "pd_project_id demo_pending = ''p''"
    using demo_waiting_simps(4) by (simp_all add: demo_pending_def saved_dossier_def with_event_def dossier_valid_def)
  then have "dossier_load ''p'' (tx_store ws') = Inr demo_pending"
    using dossier_load_written [of demo_pending "pj_store s"] ws' by simp
  ultimately show ?thesis by (intro exI conjI) (assumption, simp_all)
qed

lemma demo_evaluated:
  assumes q: "quiet demo_service s es" and u: "new_uid demo_service s es ''uaa''"
    and load: "dossier_load ''p'' (pj_store s) = Inr demo_submitted"
    and s: "pj_outbox s = pj_outbox demo_start" "tx_files (pj_ws s) = Map.empty" "pj_snapshots s = Map.empty"
  shows "\<exists>r s'. svc_evaluate_registration demo_service (demo_call 2) ''p'' s = (Inr r, s') \<and>
    dossier_load ''p'' (pj_store s') = Inr demo_pending \<and> pr_report_markdown_uri r = Some ''/w/reports/p/registration/r.md''"
proof -
  let ?snap = "the (st_snapshot demo_review)"
  have two: "str_int 2 = ''2''" by code_simp
  obtain snaps where freeze: "on_snapshots (snapshot_freeze (tx_sha_dossier (pv_tx demo_service))
      (pv_workspace demo_service @ ''/snapshots'') demo_submitted) s = (Inr ?snap, s\<lparr>pj_snapshots := snaps\<rparr>)"
    using s(3) two by (simp add: on_snapshots_def snapshot_freeze_def validate_project_id_def demo_service_def demo_tx_env_def
        demo_review_def Let_def pure_def)
  have profile: "review_profile demo_service demo_submitted = Inr (demo_profile demo_policy)"
    using demo_resolves(2) by (simp add: review_profile_def)
  have artifact: "submission_artifact demo_submitted (st_submission_artifact_id (pd_registration demo_submitted)) = Inr demo_proposal"
    by (simp add: submission_artifact_def)
  obtain ed where ed: "svc_extract demo_service (demo_call 2) demo_proposal = Inr ed" using demo_extract by blast
  have ev: "vl_registration (pv_evaluator demo_service) t d sn e rp = Inr demo_report" for t d sn e rp
    by (simp add: demo_service_def)
  let ?s = "s\<lparr>pj_snapshots := snaps\<rparr>"
  have "quiet demo_service ?s es" "new_uid demo_service ?s es ''uaa''"
    using q u by (simp_all add: quiet_def new_uid_def fresh_uid_def fresh_tx_def)
  from demo_publish [OF this] load s obtain r s' where
    "publish_draft demo_service (demo_call 2) REGISTRATION demo_submitted (demo_profile demo_policy) ?snap demo_report ?s = (Inr r, s')"
    "dossier_load ''p'' (pj_store s') = Inr demo_pending" "pr_report_markdown_uri r = Some ''/w/reports/p/registration/r.md''"
    by auto
  then show ?thesis
    using load profile freeze artifact ed ev
    by (intro exI [of _ r] exI [of _ s']) (simp add: svc_evaluate_registration_def)
qed

end
