(* ===== verification/ProjectHistory.thy ===== *)
theory ProjectHistory
  imports ProjectProgress
begin

text \<open>
  Histories of the project service: any sequence of its operations, whether they return or raise, and of
  retries of its outbox.  An operation draws a uuid that has no transaction in the journal yet.
\<close>

section \<open>Runs of the service\<close>

datatype service_op =
    CreateProject string string "string option" "string option" "string option" "review_context option"
      string actor_role "string option" "string option"
  | SubmitRegistration string
  | EvaluateRegistration string
  | DecideRegistration string string string string "reviewer_adjustment list" "int option" string
  | AssignTheMentor string string
  | StartExecution string
  | RecordProgress string string "string option" "string option" "int option"
  | SubmitCompletion string string "string option" string actor_role
  | EvaluateCompletion string
  | DecideCompletion string string string string "reviewer_adjustment list" "int option" string

fun after_op :: "'n project_env \<Rightarrow> svc_call \<Rightarrow> service_op \<Rightarrow> 'n project_state \<Rightarrow> 'n project_state" where
  "after_op env c (CreateProject path title sidecar p profile ctx actor role ep es) s =
     snd (svc_create_project env c path title sidecar p profile ctx actor role ep es s)"
| "after_op env c (SubmitRegistration p) s = snd (svc_submit_registration env c p s)"
| "after_op env c (EvaluateRegistration p) s = snd (svc_evaluate_registration env c p s)"
| "after_op env c (DecideRegistration p command actor rationale adjustments revision authority) s =
     snd (svc_decide_registration env c p command actor rationale adjustments revision authority s)"
| "after_op env c (AssignTheMentor p m) s = snd (svc_assign_mentor env c p m s)"
| "after_op env c (StartExecution p) s = snd (svc_start_execution env c p s)"
| "after_op env c (RecordProgress p note path sidecar revision) s =
     snd (svc_record_progress env c p note path sidecar revision s)"
| "after_op env c (SubmitCompletion p path sidecar actor role) s =
     snd (svc_submit_completion env c p path sidecar actor role s)"
| "after_op env c (EvaluateCompletion p) s = snd (svc_evaluate_completion env c p s)"
| "after_op env c (DecideCompletion p command actor rationale adjustments revision authority) s =
     snd (svc_decide_completion env c p command actor rationale adjustments revision authority s)"

text \<open>The uuid of the operation's audit event.\<close>

fun op_uid :: "svc_call \<Rightarrow> service_op \<Rightarrow> string" where
  "op_uid c (CreateProject _ _ _ _ _ _ _ _ _ _) = sc_uid c 1"
| "op_uid c _ = sc_uid c 0"

definition after_retry :: "'n project_env \<Rightarrow> 'n project_state \<Rightarrow> 'n project_state" where
  "after_retry env s =
     (let ob = snd (retry_failed (pv_sha env) (pv_clock env) (pv_down env) (pj_outbox s))
      in s\<lparr>pj_outbox := ob, pj_ws := (pj_ws s)\<lparr>tx_files := outbox_tree ''outbox'' ob (tx_files (pj_ws s))\<rparr>\<rparr>)"

inductive service_run :: "'n project_env \<Rightarrow> 'n project_state \<Rightarrow> 'n project_state \<Rightarrow> bool" for env where
  service_start: "service_run env s s"
| service_step: "service_run env s s1 \<Longrightarrow> fresh_uid env s1 (op_uid c op) \<Longrightarrow> service_run env s (after_op env c op s1)"
| service_retry: "service_run env s s1 \<Longrightarrow> service_run env s (after_retry env s1)"

lemma op_sound:
  assumes "all_sound org env s" "fresh_uid env s (op_uid c op)"
  shows "all_sound org env (after_op env c op s)"
  using assms by (cases op)
    (simp_all add: create_sound submit_registration_sound evaluate_registration_sound decide_registration_sound
      assign_mentor_sound start_execution_sound record_progress_sound submit_completion_sound
      evaluate_completion_sound decide_completion_sound)

lemma retry_keeps_recorded:
  "delivery_recorded sha ob ev \<Longrightarrow> delivery_recorded sha (snd (retry_failed sha clock down ob)) ev"
proof -
  have "delivery_recorded sha ob ev \<Longrightarrow> delivery_recorded sha (snd (retry_paths sha clock down ps n ob)) ev" for ps n
  proof (induction sha clock down ps n ob rule: retry_paths.induct)
    case (2 sha clock down path paths delivered ob)
    show ?case
    proof (cases "outbox_load path ob")
      case (Inr en)
      obtain r ob' where send: "outbox_send sha clock down (outbox_event (the en)) ob = (r, ob')" by fastforce
      have "delivery_recorded sha ob' ev" using durable.send_keeps [OF send 2(4)] .
      then show ?thesis
        using 2 Inr send by (cases en; cases r) (auto simp: pure_def)
    qed (use 2 in \<open>simp add: pure_def\<close>)
  qed simp
  then show "delivery_recorded sha ob ev \<Longrightarrow> ?thesis" by (simp add: retry_failed_def)
qed

lemma retry_around: "around env s (after_retry env s)"
  by (simp add: around_def after_retry_def Let_def retry_keeps_recorded)

lemma service_run_sound: "service_run env s s' \<Longrightarrow> all_sound org env s \<Longrightarrow> all_sound org env s'"
proof (induction rule: service_run.induct)
  case (service_retry s s1)
  then show ?case using all_sound_around [OF _ retry_around] by blast
qed (simp_all add: op_sound)

lemma empty_store_sound: "pj_store s = Map.empty \<Longrightarrow> all_sound fresh_record env s"
  by (simp add: all_sound_def dossier_load_def split: sum.split)

lemma service_run_trans: "service_run env s1 s2 \<Longrightarrow> service_run env s0 s1 \<Longrightarrow> service_run env s0 s2"
  by (induction rule: service_run.induct) (auto intro: service_run.intros)

text \<open>The observation may begin anywhere.\<close>

lemma sound_from_here:
  assumes "all_sound fresh_record env s"
    and org: "\<And>p. org p = (case dossier_load p (pj_store s) of Inr d \<Rightarrow> record_of d | Inl _ \<Rightarrow> fresh_record p)"
  shows "all_sound org env s"
proof -
  have "project_sound org (pv_sha env) (pj_outbox s) d" if load: "dossier_load p (pj_store s) = Inr d" for p d
  proof -
    have "reached org p (record_of d)" unfolding reached_def using org [of p] load by (auto intro: run_start)
    with all_sound_load [OF assms(1) load] show ?thesis by (auto simp: project_sound_def)
  qed
  moreover have "org p = fresh_record p" if "pj_store s (dossier_file p) = None" for p
    using that org [of p] by (auto simp: dossier_load_def dossier_path_for_if)
  ultimately show ?thesis using assms(1) by (simp add: all_sound_def)
qed


section \<open>What an operation that returns has done\<close>

text \<open>The decisions at both gates.\<close>

definition decisions_of :: "project_dossier \<Rightarrow> human_decision option \<times> human_decision option" where
  "decisions_of d = (st_decision (pd_registration d), st_decision (pd_completion d))"

lemma saved_decisions [simp]:
  "decisions_of (saved_dossier d now) = decisions_of d" "decisions_of (with_event uid d) = decisions_of d"
  by (simp_all add: decisions_of_def saved_dossier_def with_event_def)

lemma save_returns:
  assumes "save_event env t uid e n ty actor role details s1 = (Inr v, s')" and "fresh_uid env s uid" "around env s s1"
  shows "pd_project_id v = pd_project_id e \<and> pd_status v = pd_status e \<and> decisions_of v = decisions_of e \<and>
    dossier_load (pd_project_id e) (pj_store s') = Inr v"
proof -
  have "fresh_uid env s1 uid" using assms(2,3) by (simp add: around_fresh)
  from save_event_effect [OF assms(1) this] have v: "v = saved_dossier (with_event uid e) (t 3)"
    "dossier_valid (with_event uid e)"
    "pj_store s' = dossier_write (dossier_file (pd_project_id e)) (saved_dossier (with_event uid e) (t 3)) (pj_store s1)"
    by (auto simp: Let_def)
  with dossier_load_saved [OF v(2), of "pd_project_id e" "t 3" "pj_store s1"] show ?thesis by simp
qed

lemma load_id: "dossier_load p dir = Inr d \<Longrightarrow> pd_project_id d = p"
  using dossier_load_valid by blast

text \<open>The operation took the dossier \<open>d\<close> of project \<open>p\<close> to \<open>e\<close>.\<close>

definition took :: "string \<Rightarrow> 'n project_state \<Rightarrow> project_dossier \<Rightarrow> project_dossier \<Rightarrow> 'n project_state \<Rightarrow> bool" where
  "took p s d e s' \<longleftrightarrow> dossier_load p (pj_store s) = Inr d \<and> dossier_load p (pj_store s') = Inr e"

lemma submit_registration_returns:
  assumes "svc_submit_registration env c p s = (Inr r, s')" "fresh_uid env s (sc_uid c 0)"
  shows "\<exists>d e. took p s d e s' \<and> pd_status e = REGISTRATION_READY \<and> decisions_of e = decisions_of d"
proof -
  from assms(1) obtain d r' s1 v where load: "dossier_load p (pj_store s) = Inr d"
    and tr: "transition (Some (pj_send env)) (record_of d) ''submit_registration'' SUBMITTER None None s = (Inr r', s1)"
    and save: "save_event env (sc_t c) (sc_uid c 0) (d\<lparr>pd_status := wr_status r'\<rparr>) (pd_revision d)
      ''registration_submitted'' ''submitter:local'' SUBMITTER [(''trigger'', ''submit_registration'')] s1 = (Inr v, s')"
    unfolding svc_submit_registration_def svc_transition_def by (auto simp: outcome_simps)
  have "wr_status r' = REGISTRATION_READY"
    using tr by (auto simp: transition_Inr transition_guard_Inr TRANSITIONS_def mk_rule_def)
  with save_returns [OF save assms(2) transition_around [OF tr]] load_id [OF load] load show ?thesis
    by (intro exI [of _ d] exI [of _ v]) (simp add: took_def decisions_of_def)
qed


lemma assign_mentor_returns:
  assumes "svc_assign_mentor env c p m s = (Inr r, s')" "fresh_uid env s (sc_uid c 0)"
  shows "\<exists>d e. took p s d e s' \<and> pd_status e = pd_status d \<and> decisions_of e = decisions_of d"
proof -
  from assms(1) obtain d v and r' :: workflow_record where load: "dossier_load p (pj_store s) = Inr d"
    and save: "save_event env (sc_t c) (sc_uid c 0)
      (d\<lparr>pd_execution := (pd_execution d)\<lparr>xr_mentor_ref := wr_mentor_ref r'\<rparr>\<rparr>) (pd_revision d)
      ''mentor_assigned'' ''project-owner:local'' PROJECT_OWNER [(''mentor_ref'', m)] s = (Inr v, s')"
    unfolding svc_assign_mentor_def by (auto simp: outcome_simps)
  from save_returns [OF save assms(2) around_refl] load_id [OF load] load show ?thesis
    by (intro exI [of _ d] exI [of _ v]) (simp add: took_def decisions_of_def)
qed

lemma start_execution_returns:
  assumes "svc_start_execution env c p s = (Inr r, s')" "fresh_uid env s (sc_uid c 0)"
  shows "\<exists>d e. took p s d e s' \<and> pd_status e = IN_PROGRESS \<and> decisions_of e = decisions_of d"
proof -
  from assms(1) obtain d r' s1 v where load: "dossier_load p (pj_store s) = Inr d"
    and tr: "transition (Some (pj_send env)) (record_of d) ''start_execution'' PROJECT_OWNER None None s = (Inr r', s1)"
    and save: "save_event env (\<lambda>i. sc_t c (Suc i)) (sc_uid c 0)
      (d\<lparr>pd_status := wr_status r', pd_execution := (pd_execution d)\<lparr>xr_started_at := Some (sc_t c 0)\<rparr>\<rparr>) (pd_revision d)
      ''execution_started'' ''project-owner:local'' PROJECT_OWNER [(''trigger'', ''start_execution'')] s1 = (Inr v, s')"
    unfolding svc_start_execution_def svc_transition_def by (auto simp: outcome_simps)
  have "wr_status r' = IN_PROGRESS"
    using tr by (auto simp: transition_Inr transition_guard_Inr TRANSITIONS_def mk_rule_def)
  with save_returns [OF save assms(2) transition_around [OF tr]] load_id [OF load] load show ?thesis
    by (intro exI [of _ d] exI [of _ v]) (simp add: took_def decisions_of_def)
qed

lemma submit_completion_returns:
  assumes "svc_submit_completion env c p path sidecar actor role s = (Inr r, s')" "fresh_uid env s (sc_uid c 0)"
  shows "\<exists>d e. took p s d e s' \<and> pd_status e = COMPLETION_REGISTERED \<and>
    decisions_of e = (st_decision (pd_registration d), None)"
proof -
  from assms(1) obtain d a r1 s1 r2 s2 r3 s3 v where load: "dossier_load p (pj_store s) = Inr d"
    and tr: "transition (Some (pj_send env)) (record_of d) ''request_completion'' PROJECT_OWNER None None s = (Inr r1, s1)"
      "transition (Some (pj_send env)) r1 ''request_completion_submission_approval'' PROJECT_OWNER None None s1 = (Inr r2, s2)"
      "transition (Some (pj_send env)) r2 ''approve_completion_submission'' role None None s2 = (Inr r3, s3)"
    and save: "save_event env (\<lambda>i. sc_t c (Suc i)) (sc_uid c 0)
      (d\<lparr>pd_status := wr_status r3, pd_artifacts := pd_artifacts d @ [a],
         pd_completion := empty_stage\<lparr>st_submission_artifact_id := Some (ar_artifact_id a),
           st_review_profile := pd_review_profile d\<rparr>,
         pd_execution := (pd_execution d)\<lparr>xr_completion_submitted_at := Some (sc_t c 0)\<rparr>\<rparr>) (pd_revision d)
      ''completion_registered'' actor role
      [(''approval_role'', role_value role), (''artifact_id'', ar_artifact_id a),
       (''artifact_sha256'', ar_sha256 a)] s3 = (Inr v, s')"
    unfolding svc_submit_completion_def svc_transition_def by (auto simp: outcome_simps)
  have "wr_status r3 = COMPLETION_REGISTERED"
    using tr(3) by (auto simp: transition_Inr transition_guard_Inr TRANSITIONS_def mk_rule_def)
  moreover have "around env s s3" using tr [THEN transition_around] around_trans by blast
  ultimately show ?thesis using save_returns [OF save assms(2)] load_id [OF load] load
    by (intro exI [of _ d] exI [of _ v]) (simp add: took_def decisions_of_def empty_stage_def)
qed

lemma publish_draft_returns:
  assumes "publish_draft env c st d profile snapshot report s1 = (Inr r, s')" "fresh_uid env s (sc_uid c 0)"
    "around env s s1" and load: "dossier_load p (pj_store s) = Inr d"
  shows "\<exists>e. took p s d e s' \<and> pd_status e = waiting_status st \<and> decisions_of e = decisions_of d"
proof -
  from assms(1) obtain rendered s2 r1 s3 r2 s4 ns ty actor role details v
    where ar: "render_report env report s1 = (Inr rendered, s2)"
    and tr: "transition (Some (pj_send env)) (record_of d) (''start_'' @ stage_value st @ ''_evaluation'') SYSTEM None None s2 = (Inr r1, s3)"
      "transition (Some (pj_send env)) r1 (''publish_'' @ stage_value st @ ''_draft'') SYSTEM (Some (pd_revision d + 1))
         (Some (er_report_id report)) s3 = (Inr r2, s4)"
    and save: "save_event env (\<lambda>i. sc_t c (i + 2)) (sc_uid c 0)
      (with_stage_review st ((stage_review_of st d)\<lparr>st_snapshot := Some snapshot, st_report_id := Some (er_report_id report),
         st_report_json_uri := Some (rd_json_path rendered), st_report_markdown_uri := Some (rd_markdown_path rendered),
         st_review_profile := Some (rv_ref profile)\<rparr>)
       (d\<lparr>pd_status := wr_status r2, pd_notifications := ns\<rparr>)) (pd_revision d) ty actor role details s4 = (Inr v, s')"
    unfolding publish_draft_def svc_transition_def Let_def by (auto simp: outcome_simps)
  have "wr_status r2 = waiting_status st"
    using tr(2) unfolding transition_Inr transition_guard_Inr gate_transitions
    by (cases st) (auto simp: mk_rule_def waiting_status_def)
  moreover have "around env s s4"
    using assms(3) render_around' [OF ar] tr [THEN transition_around] around_trans by blast
  ultimately show ?thesis using save_returns [OF save assms(2)] load_id [OF load] load
    by (intro exI [of _ v], cases st) (simp_all add: took_def decisions_of_def with_stage_review_def stage_review_of_def)
qed

lemma evaluate_registration_returns:
  assumes "svc_evaluate_registration env c p s = (Inr r, s')" "fresh_uid env s (sc_uid c 0)"
  shows "\<exists>d e. took p s d e s' \<and> pd_status e = REGISTRATION_HITL_PENDING \<and> decisions_of e = decisions_of d"
proof -
  from assms(1) obtain d profile snapshot s1 report where load: "dossier_load p (pj_store s) = Inr d"
    and snap: "on_snapshots (snapshot_freeze (tx_sha_dossier (pv_tx env)) (pv_workspace env @ ''/snapshots'') d) s = (Inr snapshot, s1)"
    and pub: "publish_draft env c REGISTRATION d profile snapshot report s1 = (Inr r, s')"
    unfolding svc_evaluate_registration_def by (auto simp: outcome_simps)
  from publish_draft_returns [OF pub assms(2) snapshots_around [OF snap] load] show ?thesis
    by (auto simp: waiting_status_def)
qed

lemma evaluate_completion_returns:
  assumes "svc_evaluate_completion env c p s = (Inr r, s')" "fresh_uid env s (sc_uid c 0)"
  shows "\<exists>d e. took p s d e s' \<and> pd_status e = COMPLETION_HITL_PENDING \<and> decisions_of e = decisions_of d"
proof -
  from assms(1) obtain d profile snapshot s1 report where load: "dossier_load p (pj_store s) = Inr d"
    and snap: "on_snapshots (snapshot_freeze (tx_sha_dossier (pv_tx env)) (pv_workspace env @ ''/snapshots'') d) s = (Inr snapshot, s1)"
    and pub: "publish_draft env c COMPLETION d profile snapshot report s1 = (Inr r, s')"
    unfolding svc_evaluate_completion_def by (auto simp: outcome_simps)
  from publish_draft_returns [OF pub assms(2) snapshots_around [OF snap] load] show ?thesis
    by (auto simp: waiting_status_def)
qed


text \<open>The status that a decision's command leads to.\<close>

definition decided_status :: "review_stage \<Rightarrow> string \<Rightarrow> project_status" where
  "decided_status st command = (case st of
     REGISTRATION \<Rightarrow> if command = ''approve'' then REGISTRATION_APPROVED else REGISTRATION_REJECTED
   | COMPLETION \<Rightarrow> if command = ''accept'' then COMPLETION_ACCEPTED else COMPLETION_NOT_ACCEPTED)"

lemma decided_transition:
  assumes "decides st trigger command"
    and "transition (Some send) (record_of d) trigger role rv rp s = (Inr r, s')"
  shows "wr_status r = decided_status st command"
  using assms by (cases st)
    (auto simp: decides_def decided_status_def transition_Inr transition_guard_Inr TRANSITIONS_def mk_rule_def
      split: if_splits)

definition decided_by :: "human_decision option \<Rightarrow> string \<Rightarrow> string \<Rightarrow> bool" where
  "decided_by h command actor \<longleftrightarrow>
     (\<exists>x. h = Some x \<and> hd_command x = command \<and> hd_actor_id x = actor \<and> hd_actor_role x = ''administrator'')"

lemma decide_returns:
  assumes "svc_decide env c st trigger p command actor rationale adjustments revision authority ty s = (Inr v, s')"
    and dec: "decides st trigger command" and fresh: "fresh_uid env s (sc_uid c 0)"
  shows "\<exists>d. took p s d v s' \<and> pd_status v = decided_status st command \<and>
    (case st of
       REGISTRATION \<Rightarrow> decided_by (fst (decisions_of v)) command actor \<and> snd (decisions_of v) = snd (decisions_of d)
     | COMPLETION \<Rightarrow> decided_by (snd (decisions_of v)) command actor \<and> fst (decisions_of v) = fst (decisions_of d))"
proof -
  from assms(1) obtain d r s1 h t n role details where load: "dossier_load p (pj_store s) = Inr d"
    and tr: "transition (Some (pj_send env)) (record_of d) trigger ADMINISTRATOR None None s = (Inr r, s1)"
    and h: "hd_command h = command" "hd_actor_id h = actor" "hd_actor_role h = ''administrator''"
    and save: "save_event env t (sc_uid c 0) (with_stage_review st ((stage_review_of st d)\<lparr>st_decision := Some h\<rparr>)
      (d\<lparr>pd_status := wr_status r\<rparr>)) n ty actor role details s1 = (Inr v, s')"
    unfolding svc_decide_def svc_transition_def Let_def
    by (auto simp: outcome_simps split: if_splits intro!: that)
  from save_returns [OF save fresh transition_around [OF tr]] load_id [OF load] load decided_transition [OF dec tr] h
  show ?thesis
    by (intro exI [of _ d], cases st)
      (simp_all add: took_def decisions_of_def decided_by_def with_stage_review_def stage_review_of_def)
qed

lemma decide_registration_returns:
  assumes "svc_decide_registration env c p command actor rationale adjustments revision authority s = (Inr r, s')"
    and "fresh_uid env s (sc_uid c 0)"
  shows "\<exists>d e. took p s d e s' \<and> pd_status e = decided_status REGISTRATION command \<and>
    decided_by (fst (decisions_of e)) command actor \<and> snd (decisions_of e) = snd (decisions_of d)"
  using assms(1) decide_returns [where st = REGISTRATION, OF _ _ assms(2)]
  unfolding svc_decide_registration_def by (fastforce simp: outcome_simps decides_def)

lemma decide_completion_returns:
  assumes "svc_decide_completion env c p command actor rationale adjustments revision authority s = (Inr r, s')"
    and "fresh_uid env s (sc_uid c 0)"
  shows "\<exists>d e. took p s d e s' \<and> pd_status e = decided_status COMPLETION command \<and>
    decided_by (snd (decisions_of e)) command actor \<and> fst (decisions_of e) = fst (decisions_of d)"
  using assms(1) decide_returns [where st = COMPLETION, OF _ _ assms(2)]
  unfolding svc_decide_completion_def by (fastforce simp: outcome_simps decides_def)

lemma create_returns:
  assumes "svc_create_project env c path title sidecar i profile context' actor role ep es s = (Inr d, s')"
    and "fresh_uid env s (sc_uid c 1)" "pj_store s (dossier_file (str_or i (sc_uid c 0))) = None"
  shows "dossier_load (pd_project_id d) (pj_store s') = Inr d \<and> pd_status d = DRAFT \<and> decisions_of d = (None, None)"
proof -
  from assms(1) obtain t e event command key where
    run: "on_ws (execute_create (pv_tx env) t e event command key []) s = (Inr d, s')"
    and e: "pd_status e = DRAFT" "decisions_of e = (None, None)" "ae_event_id event = ''evt-'' @ sc_uid c 1"
      "pd_project_id e = str_or i (sc_uid c 0)"
    unfolding svc_create_project_def Let_def
    by (auto simp: outcome_simps decisions_of_def empty_stage_def split: if_splits intro: that)
  then have ex: "execute_create (pv_tx env) t e event command key [] (pj_ws s) = (Inr d, pj_ws s')"
    by (auto simp: on_ws_def prod_eq_iff)
  have "fresh_tx (pv_tx env) (pj_ws s) (ae_event_id event)" using assms(2) e by (simp add: fresh_uid_def)
  from execute_create_store [OF this ex] dossier_load_written [of e "pj_store s"] e assms(3) show ?thesis by auto
qed


section \<open>The whole run at the service\<close>

text \<open>The calls of a run draw uuids that are new and name different journal files.\<close>

definition call_uid :: "(nat \<Rightarrow> svc_call) \<Rightarrow> nat \<Rightarrow> string" where
  "call_uid c i = (if i = 0 then sc_uid (c 0) 1 else sc_uid (c i) 0)"

definition own_journals :: "'n project_env \<Rightarrow> (nat \<Rightarrow> svc_call) \<Rightarrow> 'n project_state \<Rightarrow> bool" where
  "own_journals env c s \<longleftrightarrow>
     (\<forall>i < 9. fresh_uid env s (call_uid c i) \<and> (\<forall>j < i. apart env (call_uid c i) (call_uid c j)))"

text \<open>What the calls after the first \<open>i\<close> still need.\<close>

definition later_fresh :: "'n project_env \<Rightarrow> (nat \<Rightarrow> svc_call) \<Rightarrow> nat \<Rightarrow> 'n project_state \<Rightarrow> bool" where
  "later_fresh env c i s \<longleftrightarrow> (\<forall>j. i \<le> j \<longrightarrow> j < 9 \<longrightarrow> fresh_uid env s (call_uid c j))"

lemma later_step:
  assumes "own_journals env c s0" "later_fresh env c i s" "i < 9"
    and op: "\<And>u. fresh_uid env s u \<Longrightarrow> apart env u (call_uid c i) \<Longrightarrow> fresh_uid env (snd r) u"
  shows "later_fresh env c (Suc i) (snd r)"
  using assms unfolding later_fresh_def own_journals_def by (auto simp: Suc_le_eq)

lemma later_uid: "later_fresh env c i s \<Longrightarrow> 0 < i \<Longrightarrow> i < 9 \<Longrightarrow> fresh_uid env s (sc_uid (c i) 0)"
  unfolding later_fresh_def call_uid_def by auto

lemma later_skip: "later_fresh env c i s \<Longrightarrow> i \<le> j \<Longrightarrow> later_fresh env c j s"
  by (simp add: later_fresh_def)

lemma summary_Inr:
  "svc_summary env p u v s = Inr sm \<Longrightarrow> dossier_load p (pj_store s) = Inr d \<Longrightarrow>
   ws_final_status sm = pd_status d \<and> (ws_registration_decision sm, ws_completion_decision sm) = decisions_of d"
  by (auto simp: svc_summary_def decisions_of_def split: if_splits)

lemma gate_status [simp]:
  "decided_status REGISTRATION command = (if command = ''approve'' then REGISTRATION_APPROVED else REGISTRATION_REJECTED)"
  "decided_status COMPLETION command = (if command = ''accept'' then COMPLETION_ACCEPTED else COMPLETION_NOT_ACCEPTED)"
  by (simp_all add: decided_status_def)

lemma run_second_gate_returns:
  assumes run: "run_second_gate env c q p uri s = (Inr sm, s')"
    and own: "own_journals env c s0" "later_fresh env c 4 s"
    and load: "dossier_load p (pj_store s) = Inr d"
  shows "ws_registration_decision sm = fst (decisions_of d) \<and>
    (case tg_completion_decision q of
       None \<Rightarrow> ws_final_status sm = COMPLETION_HITL_PENDING \<and> ws_completion_decision sm = None
     | Some command \<Rightarrow> ws_final_status sm = decided_status COMPLETION command \<and>
         decided_by (ws_completion_decision sm) command (tg_administrator_id q))"
proof -
  from run obtain s1 r2 s2 path sidecar actor role r3 s3 r4 s4 s5 v and u1 u2 :: unit where
    1: "(if truthy (tg_mentor_ref q)
         then seq (svc_assign_mentor env (c 4) p (the (tg_mentor_ref q)) s) (\<lambda>_ s. (Inr (), s)) else (Inr (), s)) = (Inr u1, s1)"
    and 2: "svc_start_execution env (c 5) p s1 = (Inr r2, s2)"
    and 3: "svc_submit_completion env (c 6) p path sidecar actor role s2 = (Inr r3, s3)"
    and 4: "svc_evaluate_completion env (c 7) p s3 = (Inr r4, s4)"
    and 5: "(case tg_completion_decision q of None \<Rightarrow> (Inr (), s4)
      | Some command \<Rightarrow> seq (svc_decide_completion env (c 8) p command (tg_administrator_id q)
          (str_or (tg_completion_rationale q) '''') [] None ''offline_unverified_actor'' s4) (\<lambda>_ s. (Inr (), s))) = (Inr u2, s5)"
    and sm: "svc_summary env p uri v s5 = Inr sm"
    unfolding run_second_gate_def Let_def seq_Inr pure_eq
    by (elim exE conjE) (rule that)
  have "\<exists>e. dossier_load p (pj_store s1) = Inr e \<and> decisions_of e = decisions_of d" and f5: "later_fresh env c 5 s1"
  proof -
    consider "s1 = s" | r where "svc_assign_mentor env (c 4) p (the (tg_mentor_ref q)) s = (Inr r, s1)"
      using 1 by (auto simp: outcome_simps split: if_splits)
    then have "(\<exists>e. dossier_load p (pj_store s1) = Inr e \<and> decisions_of e = decisions_of d) \<and> later_fresh env c 5 s1"
    proof cases
      case 1
      with load later_skip [OF own(2), of 5] show ?thesis by simp
    next
      case 2
      from assign_mentor_returns [OF this later_uid [OF own(2)]] load
      have "\<exists>e. dossier_load p (pj_store s1) = Inr e \<and> decisions_of e = decisions_of d" by (auto simp: took_def)
      with later_step [OF own, of "(undefined, s1)"] op_fresh(4) [of env s _ "c 4" p "the (tg_mentor_ref q)"] 2
      show ?thesis by (simp add: call_uid_def)
    qed
    then show "\<exists>e. dossier_load p (pj_store s1) = Inr e \<and> decisions_of e = decisions_of d" "later_fresh env c 5 s1"
      by blast+
  qed
  then obtain d1 where d1: "dossier_load p (pj_store s1) = Inr d1" "decisions_of d1 = decisions_of d" by blast
  obtain d2 where d2: "dossier_load p (pj_store s2) = Inr d2" "decisions_of d2 = decisions_of d"
    using start_execution_returns [OF 2 later_uid [OF f5]] d1 by (auto simp: took_def)
  have f6: "later_fresh env c 6 s2"
    using later_step [OF own(1) f5, of "(undefined, s2)"] op_fresh(5) [of env s1 _ "c 5" p] 2 by (simp add: call_uid_def)
  obtain d3 where d3: "dossier_load p (pj_store s3) = Inr d3" "decisions_of d3 = (fst (decisions_of d), None)"
    using submit_completion_returns [OF 3 later_uid [OF f6]] d2 by (auto simp: took_def decisions_of_def)
  have f7: "later_fresh env c 7 s3"
    using later_step [OF own(1) f6, of "(undefined, s3)"] op_fresh(6) [of env s2 _ "c 6" p path sidecar actor role] 3 by (simp add: call_uid_def)
  obtain d4 where d4: "dossier_load p (pj_store s4) = Inr d4" "decisions_of d4 = (fst (decisions_of d), None)"
    "pd_status d4 = COMPLETION_HITL_PENDING"
    using evaluate_completion_returns [OF 4 later_uid [OF f7]] d3 by (auto simp: took_def)
  have f8: "later_fresh env c 8 s4"
    using later_step [OF own(1) f7, of "(undefined, s4)"] op_fresh(7) [of env s3 _ "c 7" p] 4 by (simp add: call_uid_def)
  show ?thesis
  proof (cases "tg_completion_decision q")
    case None
    with 5 summary_Inr [OF sm] d4 show ?thesis by simp
  next
    case (Some command)
    with 5 obtain r where "svc_decide_completion env (c 8) p command (tg_administrator_id q)
      (str_or (tg_completion_rationale q) '''') [] None ''offline_unverified_actor'' s4 = (Inr r, s5)"
      by (auto simp: outcome_simps)
    from decide_completion_returns [OF this later_uid [OF f8]] d4 obtain d5 where
      "dossier_load p (pj_store s5) = Inr d5" "pd_status d5 = decided_status COMPLETION command"
      "decided_by (snd (decisions_of d5)) command (tg_administrator_id q)"
      "fst (decisions_of d5) = fst (decisions_of d)"
      by (auto simp: took_def)
    with Some summary_Inr [OF sm, of d5] show ?thesis by (auto simp: prod_eq_iff)
  qed
qed


section \<open>The example\<close>

definition demo_two_gate :: two_gate_request where
  "demo_two_gate = \<lparr>tg_proposal_path = ''/p.pptx'', tg_title = ''T'', tg_proposal_sidecar_path = None, tg_final_path = None,
     tg_final_sidecar_path = None, tg_project_id = Some ''p'', tg_idempotency_key = None, tg_administrator_id = ''a'',
     tg_registration_decision = None, tg_registration_rationale = None, tg_completion_decision = None,
     tg_completion_rationale = None, tg_mentor_ref = None, tg_review_profile = ''axcalib.default@1.0.0'',
     tg_review_context = empty_context\<rparr>"

lemma demo_call_uid: "call_uid demo_call i = (if i = 0 then ''ub'' else ''u'' @ replicate i (CHR ''a''))"
  by (simp add: call_uid_def demo_call_def)

lemma demo_own_journals: "own_journals demo_service demo_call demo_start"
  unfolding own_journals_def
proof (intro allI impI conjI)
  fix i :: nat assume i: "i < 9"
  show "fresh_uid demo_service demo_start (call_uid demo_call i)"
    using i demo_new [of i 0] demo_new [of 0 1] by (auto simp: call_uid_def intro: new_uid_fresh)
  fix j assume j: "j < i"
  have ne: "sc_uid (demo_call i) 0 \<noteq> sc_uid (demo_call k) l" if "k \<noteq> i" "l < 2" "l = 0 \<or> k = 0" for k l
  proof
    assume "sc_uid (demo_call i) 0 = sc_uid (demo_call k) l"
    then have eq: "replicate i (CHR ''a'') = replicate k (CHR ''a'') @ replicate l (CHR ''b'')" by (simp add: demo_call_def)
    have "i = length (replicate i (CHR ''a''))" by simp
    also have "\<dots> = k + l" unfolding eq by simp
    finally have "i = k + l" .
    moreover have "l = 0" using arg_cong [OF eq, of "\<lambda>xs. CHR ''b'' \<in> set xs"] by (cases l) auto
    ultimately show False using that by simp
  qed
  show "apart demo_service (call_uid demo_call i) (call_uid demo_call j)"
    using i j ne [of j 0] ne [of 0 1] demo_apart [of i 0 j 0] demo_apart [of i 0 0 1] by (auto simp: call_uid_def)
qed

lemma demo_steps:
  "\<exists>s1 s2 s3 r2 r3. demo_create demo_start = (Inr demo_draft, s1) \<and>
    svc_submit_registration demo_service (demo_call 1) ''p'' s1 = (Inr r2, s2) \<and>
    svc_evaluate_registration demo_service (demo_call 2) ''p'' s2 = (Inr r3, s3) \<and>
    fresh_uid demo_service s1 ''ua'' \<and> fresh_uid demo_service s2 ''uaa'' \<and>
    dossier_load ''p'' (pj_store s1) = Inr demo_draft \<and>
    dossier_load ''p'' (pj_store s3) = Inr demo_pending \<and>
    pr_report_markdown_uri r3 = Some ''/w/reports/p/registration/r.md''"
proof -
  obtain ws e where 1: "demo_create demo_start = (Inr demo_draft, demo_start\<lparr>pj_ws := ws\<rparr>)"
    "dossier_load ''p'' (tx_store ws) = Inr demo_draft" "tx_files ws = Map.empty"
    "quiet demo_service (demo_start\<lparr>pj_ws := ws\<rparr>) [e]" "ae_event_id e = ''evt-ub''"
    using demo_created by blast
  let ?s1 = "demo_start\<lparr>pj_ws := ws\<rparr>"
  have uid: "sc_uid (demo_call 0) 1 = ''ub''" "sc_uid (demo_call 0) (Suc 0) = ''ub''" "sc_uid (demo_call (Suc 0)) 0 = ''ua''" "sc_uid (demo_call 2) 0 = ''uaa''"
    by (simp_all add: demo_call_def numeral_2_eq_2)
  have apart: "apart demo_service ''ua'' ''ub''" "apart demo_service ''uaa'' ''ub''" "apart demo_service ''uaa'' ''ua''"
    using demo_apart [of "Suc 0" 0 0 1] demo_apart [of 2 0 0 1] demo_apart [of 2 0 "Suc 0" 0] by (simp_all add: uid)
  have start: "new_uid demo_service demo_start [] ''ua''" "new_uid demo_service demo_start [] ''uaa''"
    using demo_new [of "Suc 0" 0] demo_new [of 2 0] by (simp_all add: uid)
  have tid: "is_transaction_id (''txn-evt-'' @ ''ua'')" "is_transaction_id (''txn-evt-'' @ ''uaa'')"
    using start unfolding new_uid_def by blast+
  have f1: "fresh_uid demo_service ?s1 ''ua''" "fresh_uid demo_service ?s1 ''uaa''"
    using create_fresh [of demo_service demo_start _ "demo_call 0"] 1(1) start [THEN new_uid_fresh] apart
    unfolding demo_create_def uid by (metis snd_conv)+
  have "new_uid demo_service ?s1 [e] ''ua''" using f1 1(5) tid by (simp add: new_uid_def)
  from demo_submit [OF 1(4) this] 1(2,3) obtain r2 ws2 e2 where
    2: "svc_submit_registration demo_service (demo_call 1) ''p'' ?s1 = (Inr r2, ?s1\<lparr>pj_ws := ws2\<rparr>)"
    "dossier_load ''p'' (tx_store ws2) = Inr demo_submitted" "tx_files ws2 = Map.empty"
    "quiet demo_service (?s1\<lparr>pj_ws := ws2\<rparr>) ([e] @ [e2])" "ae_event_id e2 = ''evt-ua''"
    by auto
  let ?s2 = "?s1\<lparr>pj_ws := ws2\<rparr>"
  have f2: "fresh_uid demo_service ?s2 ''uaa''"
    using op_fresh(1) [of demo_service ?s1 "''uaa''" "demo_call 1" "''p''"] f1(2) apart(3) 2(1) by (simp add: uid)
  have "new_uid demo_service ?s2 ([e] @ [e2]) ''uaa''" using f2 1(5) 2(5) tid by (simp add: new_uid_def)
  from demo_evaluated [OF 2(4) this] 2(2,3) obtain r3 s3 where
    3: "svc_evaluate_registration demo_service (demo_call 2) ''p'' ?s2 = (Inr r3, s3)"
    "dossier_load ''p'' (pj_store s3) = Inr demo_pending"
    "pr_report_markdown_uri r3 = Some ''/w/reports/p/registration/r.md''"
    by (auto simp: demo_start_def)
  have "dossier_load ''p'' (pj_store ?s1) = Inr demo_draft" using 1(2) by simp
  with 1(1) 2(1) 3 f1(1) f2 show ?thesis by blast
qed

lemma demo_history: 
  "\<exists>s1 s. service_run demo_service demo_start s1 \<and> dossier_load ''p'' (pj_store s1) = Inr demo_draft \<and>
     service_run demo_service s1 s \<and> dossier_load ''p'' (pj_store s) = Inr demo_pending"
proof -
  obtain s1 s2 s3 r2 r3 where st: "demo_create demo_start = (Inr demo_draft, s1)"
    "svc_submit_registration demo_service (demo_call 1) ''p'' s1 = (Inr r2, s2)"
    "svc_evaluate_registration demo_service (demo_call 2) ''p'' s2 = (Inr r3, s3)"
    "fresh_uid demo_service s1 ''ua''" "fresh_uid demo_service s2 ''uaa''"
    "dossier_load ''p'' (pj_store s3) = Inr demo_pending" "dossier_load ''p'' (pj_store s1) = Inr demo_draft"
    using demo_steps by blast
  let ?create = "CreateProject ''/p.pptx'' ''T'' None (Some ''p'') (Some ''axcalib.default@1.0.0'') (Some empty_context)
     ''submitter:local'' SUBMITTER None None"
  have uid: "sc_uid (demo_call 0) (Suc 0) = ''ub''" "sc_uid (demo_call (Suc 0)) 0 = ''ua''" "sc_uid (demo_call 2) 0 = ''uaa''"
    by (simp_all add: demo_call_def numeral_2_eq_2)
  have "fresh_uid demo_service demo_start ''ub''" using demo_new [of 0 1, THEN new_uid_fresh] by (simp add: uid)
  then have "service_run demo_service demo_start (after_op demo_service (demo_call 0) ?create demo_start)"
    by (intro service_step [OF service_start]) (simp add: uid)
  then have 1: "service_run demo_service demo_start s1" using st(1) by (simp add: demo_create_def)
  have "service_run demo_service s1 (after_op demo_service (demo_call 1) (SubmitRegistration ''p'') s1)"
    by (rule service_step [OF service_start]) (use st(4) in \<open>simp add: uid\<close>)
  then have "service_run demo_service s1 s2" using st(2) by simp
  then have "service_run demo_service s1 (after_op demo_service (demo_call 2) (EvaluateRegistration ''p'') s2)"
    by (rule service_step) (use st(5) in \<open>simp add: uid\<close>)
  then have "service_run demo_service s1 s3" using st(3) by simp
  with 1 st(6,7) show ?thesis by blast
qed

lemma demo_run: "\<exists>sm s'. run_two_gate demo_service demo_call demo_two_gate demo_start = (Inr sm, s')"
proof -
  obtain s1 s2 s3 r2 r3 where st: "demo_create demo_start = (Inr demo_draft, s1)"
    "svc_submit_registration demo_service (demo_call 1) ''p'' s1 = (Inr r2, s2)"
    "svc_evaluate_registration demo_service (demo_call 2) ''p'' s2 = (Inr r3, s3)"
    "dossier_load ''p'' (pj_store s3) = Inr demo_pending"
    "pr_report_markdown_uri r3 = Some ''/w/reports/p/registration/r.md''" using demo_steps by blast
  then show ?thesis
    by (simp add: run_two_gate_def demo_two_gate_def Let_def demo_create_def svc_summary_def pure_def)
qed

section \<open>Properties\<close>

text \<open>
  C4. Between any two moments of a history, whatever operations ran, in whatever order, returning or
  raising, with whatever retries of the outbox in between, a stored dossier went along the two-gate
  workflow: there is a run of the workflow from the earlier record to the later one, its transitions lead
  exactly from the one status to the other, and every approval, rejection, acceptance and declination
  among them was made by an administrator.  A project that was not there before went along it from a draft.
\<close>

theorem projects_follow_workflow:
  assumes "service_run env s0 s1" and "pj_store s0 = Map.empty" and later: "service_run env s1 s2"
    and load: "dossier_load p (pj_store s2) = Inr d"
  shows "\<exists>r tr events.
    r = (case dossier_load p (pj_store s1) of Inr d1 \<Rightarrow> record_of d1 | Inl _ \<Rightarrow> fresh_record p) \<and>
    workflow_run (Some recording_send) r [] tr (record_of d) events \<and>
    path_to (pd_status d) = path_to (wr_status r) @ map fst tr \<and>
    (\<forall>(trigger, actor) \<in> set tr. trigger \<in> decision_triggers \<longrightarrow> actor = ADMINISTRATOR)"
proof -
  define org where "org q = (case dossier_load q (pj_store s1) of Inr d1 \<Rightarrow> record_of d1 | Inl _ \<Rightarrow> fresh_record q)" for q
  have "all_sound fresh_record env s1"
    using service_run_sound [OF assms(1)] empty_store_sound [OF assms(2)] by blast
  then have "all_sound org env s1" by (rule sound_from_here) (simp add: org_def)
  then have "all_sound org env s2" using service_run_sound [OF later] by blast
  with load have "reached org p (record_of d)"
    using all_sound_load [of org env s2 p d] by (auto simp: project_sound_def)
  then obtain tr events where w: "workflow_run (Some recording_send) (org p) [] tr (record_of d) events"
    by (auto simp: reached_def)
  have "path_to (pd_status d) = path_to (wr_status (org p)) @ map fst tr" using workflow_run_path [OF w] by simp
  moreover have "\<forall>(trigger, actor) \<in> set tr. trigger \<in> decision_triggers \<longrightarrow> actor = ADMINISTRATOR"
    using workflow_run_roles [OF w] decision_roles by fastforce
  ultimately show ?thesis using w by (intro exI [of _ "org p"] exI [of _ tr] exI [of _ events]) (simp add: org_def)
qed

theorem projects_follow_workflow_witness:
  "\<exists>s1 s2 tr events. service_run demo_service s1 s2 \<and> dossier_load ''p'' (pj_store s1) = Inr demo_draft \<and>
     dossier_load ''p'' (pj_store s2) = Inr demo_pending \<and>
     workflow_run (Some recording_send) (record_of demo_draft) [] tr (record_of demo_pending) events \<and>
     map fst tr = registration_path"
proof -
  obtain s1 s2 where s: "service_run demo_service demo_start s1" "dossier_load ''p'' (pj_store s1) = Inr demo_draft"
    "service_run demo_service s1 s2" "dossier_load ''p'' (pj_store s2) = Inr demo_pending"
    using demo_history by blast
  have "pj_store demo_start = Map.empty" by (simp add: demo_start_def)
  from projects_follow_workflow [OF s(1) this s(3,4)] s(2) obtain tr events where
    w: "workflow_run (Some recording_send) (record_of demo_draft) [] tr (record_of demo_pending) events"
    "path_to (pd_status demo_pending) = path_to DRAFT @ map fst tr"
    by auto
  have "pd_status demo_pending = REGISTRATION_HITL_PENDING" by (simp add: demo_pending_def)
  with w(2) have "map fst tr = registration_path" by simp
  with s(2-4) w(1) show ?thesis by blast
qed

text \<open>
  C3. In every history of the service, no dossier waits at or is past a gate unless the request to the
  administrator, for the report that the dossier names, is recorded as delivered in the outbox; and no
  gate is decided unless the dossier carries an administrator's decision on that report with a rationale
  and the command that the status stands for.
\<close>

theorem gates_hold:
  assumes run: "service_run env s0 s" and "pj_store s0 = Map.empty"
    and load: "dossier_load p (pj_store s) = Inr d"
  shows "(gate_past st (pd_status d) \<longrightarrow>
       (\<exists>i revision. st_report_id (stage_review_of st d) = Some i \<and> revision \<le> pd_revision d \<and>
          delivery_recorded (tx_sha_text (pv_tx env)) (pj_outbox s)
            (approval_request (stage_value st @ ''_admin_approval_requested'') p (Some revision) (Some i)))) \<and>
    (\<forall>b. gate_decision st (pd_status d) = Some b \<longrightarrow>
       (\<exists>h. st_decision (stage_review_of st d) = Some h \<and> hd_stage h = st \<and> hd_actor_role h = ''administrator'' \<and>
          hd_rationale h \<noteq> [] \<and> Some (hd_report_id h) = st_report_id (stage_review_of st d) \<and>
          (hd_command h = (case st of REGISTRATION \<Rightarrow> ''approve'' | COMPLETION \<Rightarrow> ''accept'') \<longleftrightarrow> b)))"
proof -
  have "all_sound fresh_record env s"
    using service_run_sound [OF run] empty_store_sound [OF assms(2)] by blast
  from all_sound_load [OF this load] have "gate_sound (pv_sha env) (pj_outbox s) d st" "pd_project_id d = p"
    by (simp_all add: project_sound_def)
  then show ?thesis by (simp add: gate_sound_def gate_request_def agreeing_command_def)
qed

theorem gates_hold_witness:
  "\<exists>s d i revision. service_run demo_service demo_start s \<and> dossier_load ''p'' (pj_store s) = Inr d \<and>
     pd_status d = REGISTRATION_HITL_PENDING \<and> st_report_id (pd_registration d) = Some i \<and>
     delivery_recorded (tx_sha_text (pv_tx demo_service)) (pj_outbox s)
       (approval_request ''registration_admin_approval_requested'' ''p'' (Some revision) (Some i))"
proof -
  obtain s where s: "service_run demo_service demo_start s" "dossier_load ''p'' (pj_store s) = Inr demo_pending"
    using demo_history service_run_trans by blast
  have "pj_store demo_start = Map.empty" by (simp add: demo_start_def)
  have pending: "pd_status demo_pending = REGISTRATION_HITL_PENDING" "pd_registration demo_pending = demo_review"
    by (simp_all add: demo_pending_def saved_dossier_def with_event_def)
  from gates_hold [OF s(1) \<open>pj_store demo_start = Map.empty\<close> s(2), of REGISTRATION] pending obtain i revision where
    "st_report_id (pd_registration demo_pending) = Some i"
    "delivery_recorded (tx_sha_text (pv_tx demo_service)) (pj_outbox s)
       (approval_request ''registration_admin_approval_requested'' ''p'' (Some revision) (Some i))"
    by auto
  with s pending(1) show ?thesis by blast
qed

text \<open>The steps before the first gate.\<close>

lemma first_gate_returns:
  assumes 1: "svc_create_project env (c 0) path title sidecar i profile ctx actor role None None s = (Inr d, s1)"
    and 2: "svc_submit_registration env (c 1) (pd_project_id d) s1 = (Inr r2, s2)"
    and 3: "svc_evaluate_registration env (c 2) (pd_project_id d) s2 = (Inr r3, s3)"
    and own: "own_journals env c s" and new: "pj_store s (dossier_file (str_or i (sc_uid (c 0) 0))) = None"
  shows "later_fresh env c 3 s3 \<and> (\<exists>e. dossier_load (pd_project_id d) (pj_store s3) = Inr e \<and>
    decisions_of e = (None, None) \<and> pd_status e = REGISTRATION_HITL_PENDING)"
proof -
  let ?p = "pd_project_id d"
  have f0: "later_fresh env c 0 s" using own by (simp add: own_journals_def later_fresh_def)
  then have "fresh_uid env s (sc_uid (c 0) 1)"
    unfolding later_fresh_def call_uid_def by (auto dest: spec [of _ 0])
  from create_returns [OF 1 this new] have d1: "dossier_load ?p (pj_store s1) = Inr d" "decisions_of d = (None, None)"
    by simp_all
  have f1: "later_fresh env c 1 s1" using later_step [OF own f0, of "(undefined, s1)"] create_fresh [of env s _ "c 0"] 1
    by (simp add: call_uid_def) (metis snd_conv)
  obtain d2 where d2: "dossier_load ?p (pj_store s2) = Inr d2" "decisions_of d2 = (None, None)"
    using submit_registration_returns [OF 2 later_uid [OF f1]] d1 by (auto simp: took_def)
  have f2: "later_fresh env c 2 s2"
    using later_step [OF own f1, of "(undefined, s2)"] op_fresh(1) [of env s1 _ "c 1" ?p] 2
    by (simp add: call_uid_def numeral_2_eq_2)
  obtain d3 where d3: "dossier_load ?p (pj_store s3) = Inr d3" "decisions_of d3 = (None, None)"
      "pd_status d3 = REGISTRATION_HITL_PENDING"
    using evaluate_registration_returns [OF 3 later_uid [OF f2]] d2 by (auto simp: took_def)
  have f3: "later_fresh env c 3 s3"
    using later_step [OF own f2, of "(undefined, s3)"] op_fresh(2) [of env s2 _ "c 2" ?p] 3 by (simp add: call_uid_def)
  from f3 d3 show ?thesis by blast
qed

text \<open>
  C6. \<open>run_two_gate\<close> stops at a human gate: a run that returns has taken a new project exactly as far as
  the decisions in its request carry it.  Without a registration decision it ends at the first gate, with
  a refusal in \<open>registration_rejected\<close>, without a completion decision at the second gate; and the decisions
  in the summary are those of the request, in the name of its administrator.
\<close>

theorem run_stops_at_gates:
  assumes run: "run_two_gate env c q s = (Inr sm, s')" and own: "own_journals env c s"
    and new: "pj_store s (dossier_file (str_or (tg_project_id q) (sc_uid (c 0) 0))) = None"
    and valid: "two_gate_request_valid q"
  shows "case tg_registration_decision q of
      None \<Rightarrow> ws_final_status sm = REGISTRATION_HITL_PENDING \<and> ws_registration_decision sm = None \<and>
        ws_completion_decision sm = None
    | Some command \<Rightarrow> decided_by (ws_registration_decision sm) command (tg_administrator_id q) \<and>
        (if command = ''reject'' then ws_final_status sm = REGISTRATION_REJECTED \<and> ws_completion_decision sm = None
         else case tg_completion_decision q of
             None \<Rightarrow> ws_final_status sm = COMPLETION_HITL_PENDING \<and> ws_completion_decision sm = None
           | Some final \<Rightarrow> ws_final_status sm =
                 (if final = ''accept'' then COMPLETION_ACCEPTED else COMPLETION_NOT_ACCEPTED) \<and>
               decided_by (ws_completion_decision sm) final (tg_administrator_id q))"
proof -
  from run obtain d s1 r2 s2 r3 s3 where
    1: "svc_create_project env (c 0) (tg_proposal_path q) (tg_title q) (tg_proposal_sidecar_path q) (tg_project_id q)
      (Some (tg_review_profile q)) (Some (tg_review_context q)) ''submitter:local'' SUBMITTER None None s = (Inr d, s1)"
    and 2: "svc_submit_registration env (c 1) (pd_project_id d) s1 = (Inr r2, s2)"
    and 3: "svc_evaluate_registration env (c 2) (pd_project_id d) s2 = (Inr r3, s3)"
    and rest: "(case tg_registration_decision q of
       None \<Rightarrow> pure (svc_summary env (pd_project_id d) (pr_report_markdown_uri r3) None s3) s3
     | Some command \<Rightarrow>
         seq (svc_decide_registration env (c 3) (pd_project_id d) command (tg_administrator_id q)
                (str_or (tg_registration_rationale q) '''') [] None ''offline_unverified_actor'' s3) (\<lambda>_ s.
         if command = ''reject'' then pure (svc_summary env (pd_project_id d) (pr_report_markdown_uri r3) None s) s
         else run_second_gate env c q (pd_project_id d) (pr_report_markdown_uri r3) s)) = (Inr sm, s')"
    unfolding run_two_gate_def Let_def seq_Inr by (elim exE conjE) (rule that)
  let ?p = "pd_project_id d"
  from first_gate_returns [OF 1 2 3 own new] obtain d3 where f3: "later_fresh env c 3 s3"
    and d3: "dossier_load ?p (pj_store s3) = Inr d3" "decisions_of d3 = (None, None)"
      "pd_status d3 = REGISTRATION_HITL_PENDING" by blast
  show ?thesis
  proof (cases "tg_registration_decision q")
    case None
    with rest summary_Inr [of env ?p _ _ s3 sm, OF _ d3(1)] d3 show ?thesis by (auto simp: outcome_simps)
  next
    case (Some command)
    from rest obtain r4 s4 where
      4: "svc_decide_registration env (c 3) ?p command (tg_administrator_id q)
        (str_or (tg_registration_rationale q) '''') [] None ''offline_unverified_actor'' s3 = (Inr r4, s4)"
      and rest: "(if command = ''reject'' then pure (svc_summary env ?p (pr_report_markdown_uri r3) None s4) s4
         else run_second_gate env c q ?p (pr_report_markdown_uri r3) s4) = (Inr sm, s')"
      unfolding Some option.case seq_Inr by blast
    obtain d4 where d4: "dossier_load ?p (pj_store s4) = Inr d4" "pd_status d4 = decided_status REGISTRATION command"
      "decided_by (fst (decisions_of d4)) command (tg_administrator_id q)" "snd (decisions_of d4) = None"
      using decide_registration_returns [OF 4 later_uid [OF f3]] d3 by (auto simp: took_def)
    have f4: "later_fresh env c 4 s4"
      using later_step [OF own f3, of "(undefined, s4)"] op_fresh(3) [of env s3 _ "c 3" ?p command "tg_administrator_id q"
        "str_or (tg_registration_rationale q) ''''" "[]" None "''offline_unverified_actor''"] 4 by (simp add: call_uid_def)
    have "command = ''approve'' \<or> command = ''reject''" using valid Some by (simp add: two_gate_request_valid_def)
    then show ?thesis
    proof
      assume "command = ''reject''"
      with rest have "svc_summary env ?p (pr_report_markdown_uri r3) None s4 = Inr sm" by (simp add: pure_eq)
      from summary_Inr [OF this d4(1)] d4 Some \<open>command = _\<close> show ?thesis by (simp add: prod_eq_iff)
    next
      assume "command = ''approve''"
      with rest have "run_second_gate env c q ?p (pr_report_markdown_uri r3) s4 = (Inr sm, s')" by simp
      from run_second_gate_returns [OF this own f4 d4(1)] d4 Some \<open>command = _\<close> show ?thesis
        by (auto split: option.splits)
    qed
  qed
qed

theorem run_stops_at_gates_witness:
  "\<exists>sm s'. run_two_gate demo_service demo_call demo_two_gate demo_start = (Inr sm, s') \<and>
     ws_final_status sm = REGISTRATION_HITL_PENDING \<and> ws_registration_decision sm = None"
proof -
  obtain sm s' where run: "run_two_gate demo_service demo_call demo_two_gate demo_start = (Inr sm, s')"
    using demo_run by blast
  have "two_gate_request_valid demo_two_gate"
    by (simp add: two_gate_request_valid_def demo_two_gate_def decisions_require_rationales_def)
  moreover have "pj_store demo_start (dossier_file (str_or (tg_project_id demo_two_gate) (sc_uid (demo_call 0) 0))) = None"
    by (simp add: demo_start_def)
  ultimately have "ws_final_status sm = REGISTRATION_HITL_PENDING \<and> ws_registration_decision sm = None"
    using run_stops_at_gates [OF run demo_own_journals] by (simp add: demo_two_gate_def)
  with run show ?thesis by blast
qed

end
