(* ===== verification/GoldBenchmark.thy ===== *)
theory GoldBenchmark
  imports Policies "HOL-Library.Multiset"
begin

text \<open>
  \<open>calibration/gold_benchmark.py\<close>: packages of human labels that an evaluation owner has approved, and
  the comparison of evaluation reports with them.  A package directory maps the relative path of a file
  to what resolving it yields; a file has its size, its SHA-256 and its content as each of the readers
  sees it.  Hashes, the parser of the approval's frontmatter and the division of two counts as floats
  are parameters (\<open>gold_env\<close>).
\<close>

section \<open>Identities and locators\<close>

definition is_criterion_id :: "string \<Rightarrow> bool" where
  "is_criterion_id = matches_id is_upper (\<lambda>c. is_upper c \<or> is_digit c \<or> c \<in> set ''_-'') 2 127"

definition is_label_project_id :: "string \<Rightarrow> bool" where
  "is_label_project_id = matches_id is_alnum (\<lambda>c. is_alnum c \<or> c \<in> set ''_-'') 0 127"

definition is_slide_digits :: "string \<Rightarrow> bool" where
  "is_slide_digits s \<longleftrightarrow> s \<noteq> [] \<and> hd s \<noteq> CHR ''0'' \<and> list_all is_digit s"

definition is_slide_locator :: "string \<Rightarrow> bool" where
  "is_slide_locator s \<longleftrightarrow> starts_with ''pptx://slide/'' s \<and> is_slide_digits (drop 13 s)"

definition is_report_locator :: "string \<Rightarrow> bool" where
  "is_report_locator s \<longleftrightarrow> starts_with ''report:'' s \<and>
     matches_id is_alnum (\<lambda>c. is_alnum c \<or> c \<in> set ''._:-'') 1 255 (drop 7 s)"

definition is_artifact_locator :: "string \<Rightarrow> bool" where
  "is_artifact_locator s \<longleftrightarrow> starts_with ''artifact:sha256='' s \<and> is_sha256 (drop 16 s)"

definition is_stable_gold_locator :: "string \<Rightarrow> bool" where
  "is_stable_gold_locator s \<longleftrightarrow> is_slide_locator s \<or> is_report_locator s \<or> is_artifact_locator s"

text \<open>\<open>#slide=(N)$\<close>, searched for; \<open>$\<close> also matches before a last line break.\<close>

definition slide_fragment :: "string \<Rightarrow> string option" where
  "slide_fragment s =
     (let t = (if s \<noteq> [] \<and> last s = CHR 0x0A then butlast s else s);
          ds = rev (takeWhile is_digit (rev t)); before = take (length t - length ds) t
      in if is_slide_digits ds \<and> ends_with ''#slide='' before then Some ds else None)"

definition stable_prediction_locator :: "(string \<Rightarrow> string) \<Rightarrow> string \<Rightarrow> string" where
  "stable_prediction_locator sha s =
     (case slide_fragment s of
        Some n \<Rightarrow> ''pptx://slide/'' @ n
      | None \<Rightarrow> if is_report_locator s \<or> is_artifact_locator s then s else ''unresolved:sha256='' @ sha s)"

section \<open>Data\<close>

datatype benchmark_status = BM_DRAFT | BM_OFFLINE_REFERENCE | BM_APPROVED | BM_RETIRED

datatype benchmark_split = DEVELOPMENT | VALIDATION | TEST

datatype gold_label_status = SINGLE_REVIEW | DOUBLE_REVIEW | ADJUDICATED

datatype owner_decision = OWNER_PENDING | OWNER_APPROVE | OWNER_REJECT

record benchmark_policy_file =
  bp_path :: string
  bp_policy_id :: string
  bp_version :: string
  bp_canonical_sha256 :: string

record benchmark_labels_file =
  bl_path :: string
  bl_sha256 :: string
  bl_record_count :: int

record benchmark_approval_file =
  ba_path :: string
  ba_sha256 :: string

record benchmark_thresholds =
  bt_criterion_assessment_accuracy_min :: rat
  bt_recommendation_accuracy_min :: rat
  bt_evidence_locator_precision_min :: rat
  bt_evidence_locator_recall_min :: rat
  bt_insufficient_evidence_recall_min :: rat
  bt_required_risk_flag_recall_min :: rat
  bt_human_pre_adjudication_agreement_min :: rat
  bt_dangerous_positive_rate_max :: rat
  bt_unsupported_claim_rate_max :: rat

definition unit_interval :: "rat \<Rightarrow> bool" where
  "unit_interval x \<longleftrightarrow> 0 \<le> x \<and> x \<le> 1"

definition thresholds_valid :: "benchmark_thresholds \<Rightarrow> bool" where
  "thresholds_valid t \<longleftrightarrow> list_all unit_interval
     [bt_criterion_assessment_accuracy_min t, bt_recommendation_accuracy_min t,
      bt_evidence_locator_precision_min t, bt_evidence_locator_recall_min t,
      bt_insufficient_evidence_recall_min t, bt_required_risk_flag_recall_min t,
      bt_human_pre_adjudication_agreement_min t, bt_dangerous_positive_rate_max t,
      bt_unsupported_claim_rate_max t]"

record benchmark_manifest =
  bm_benchmark_id :: string
  bm_version :: string
  bm_status :: benchmark_status
  bm_owner_ref :: string
  bm_approval_ref :: "string option"
  bm_description :: string
  bm_evaluation_split :: benchmark_split
  bm_policy :: benchmark_policy_file
  bm_labels :: benchmark_labels_file
  bm_approval :: benchmark_approval_file
  bm_thresholds :: "benchmark_thresholds option"

abbreviation short_text :: "nat \<Rightarrow> string \<Rightarrow> bool" where
  "short_text n s \<equiv> 1 \<le> length s \<and> length s \<le> n"

text \<open>\<open>validate_approval_contract\<close>, and the whole model.\<close>

definition approval_contract :: "benchmark_manifest \<Rightarrow> bool" where
  "approval_contract m \<longleftrightarrow> (bm_status m = BM_APPROVED \<longrightarrow>
     truthy (bm_approval_ref m) \<and> bm_thresholds m \<noteq> None \<and> bm_evaluation_split m = TEST)"

definition benchmark_manifest_valid :: "benchmark_manifest \<Rightarrow> bool" where
  "benchmark_manifest_valid m \<longleftrightarrow>
     is_policy_id (bm_benchmark_id m) \<and> is_semver (bm_version m) \<and> short_text 200 (bm_owner_ref m) \<and>
     pred_option (\<lambda>s. length s \<le> 300) (bm_approval_ref m) \<and> short_text 2000 (bm_description m) \<and>
     short_text 300 (bp_path (bm_policy m)) \<and> is_policy_id (bp_policy_id (bm_policy m)) \<and>
     is_semver (bp_version (bm_policy m)) \<and> is_sha256 (bp_canonical_sha256 (bm_policy m)) \<and>
     short_text 300 (bl_path (bm_labels m)) \<and> is_sha256 (bl_sha256 (bm_labels m)) \<and> 1 \<le> bl_record_count (bm_labels m) \<and>
     short_text 300 (ba_path (bm_approval m)) \<and> is_sha256 (ba_sha256 (bm_approval m)) \<and>
     pred_option thresholds_valid (bm_thresholds m) \<and> approval_contract m"

record gold_reviewer_vote =
  gv_reviewer_ref :: string
  gv_assessment :: assessment

record gold_criterion_label =
  gc_criterion_id :: string
  gc_expected_assessment :: assessment
  gc_acceptable_evidence_locators :: "string list"
  gc_required_risk_flags :: "string list"
  gc_reviewer_votes :: "gold_reviewer_vote list"
  gc_rationale :: string

definition asserting :: "assessment list" where
  "asserting = [MET, PARTIALLY_MET, NOT_MET]"

definition sorted_set :: "string list \<Rightarrow> string list" where
  "sorted_set xs = sort (remdups xs)"

text \<open>\<open>validate_evidence_contract\<close>, after the field constraints.\<close>

definition evidence_contract :: "gold_criterion_label \<Rightarrow> bool" where
  "evidence_contract g \<longleftrightarrow>
     distinct (gc_acceptable_evidence_locators g) \<and>
     list_all is_stable_gold_locator (gc_acceptable_evidence_locators g) \<and>
     sorted_set (gc_required_risk_flags g) = gc_required_risk_flags g \<and>
     distinct (map gv_reviewer_ref (gc_reviewer_votes g)) \<and>
     (gc_expected_assessment g \<in> set asserting \<longrightarrow> gc_acceptable_evidence_locators g \<noteq> [])"

definition gold_criterion_valid :: "gold_criterion_label \<Rightarrow> bool" where
  "gold_criterion_valid g \<longleftrightarrow> is_criterion_id (gc_criterion_id g) \<and>
     list_all (\<lambda>v. short_text 200 (gv_reviewer_ref v)) (gc_reviewer_votes g) \<and>
     short_text 2000 (gc_rationale g) \<and> evidence_contract g"

record gold_case_label =
  gl_label_id :: string
  gl_project_id :: string
  gl_stage :: review_stage
  gl_split :: benchmark_split
  gl_snapshot_sha256 :: string
  gl_artifact_sha256 :: string
  gl_expected_recommendation :: agent_recommendation
  gl_criteria :: "gold_criterion_label list"
  gl_label_status :: gold_label_status
  gl_reviewer_refs :: "string list"
  gl_adjudication_ref :: "string option"
  gl_notes :: "string option"

definition recommendations_for_stage :: "review_stage \<Rightarrow> agent_recommendation list" where
  "recommendations_for_stage st =
     (if st = REGISTRATION then [PASS, NEEDS_CHANGES, REJECT] else [ACCEPT, NEEDS_CHANGES, NOT_ACCEPT])"

definition positive_recommendation :: "review_stage \<Rightarrow> agent_recommendation" where
  "positive_recommendation st = (if st = REGISTRATION then PASS else ACCEPT)"

definition gold_case_key :: "gold_case_label \<Rightarrow> string \<times> review_stage" where
  "gold_case_key l = (gl_project_id l, gl_stage l)"

text \<open>\<open>validate_label\<close>, after the field constraints.\<close>

definition label_contract :: "gold_case_label \<Rightarrow> bool" where
  "label_contract l \<longleftrightarrow>
     distinct (map gc_criterion_id (gl_criteria l)) \<and> sorted_set (gl_reviewer_refs l) = gl_reviewer_refs l \<and>
     (if gl_label_status l = SINGLE_REVIEW
      then length (gl_reviewer_refs l) = 1 \<and> \<not> truthy (gl_adjudication_ref l)
      else 2 \<le> length (gl_reviewer_refs l)) \<and>
     (gl_label_status l = ADJUDICATED \<longrightarrow> truthy (gl_adjudication_ref l)) \<and>
     gl_expected_recommendation l \<in> set (recommendations_for_stage (gl_stage l))"

definition gold_case_valid :: "gold_case_label \<Rightarrow> bool" where
  "gold_case_valid l \<longleftrightarrow>
     is_policy_id (gl_label_id l) \<and> is_label_project_id (gl_project_id l) \<and> is_sha256 (gl_snapshot_sha256 l) \<and>
     is_sha256 (gl_artifact_sha256 l) \<and> gl_criteria l \<noteq> [] \<and> list_all gold_criterion_valid (gl_criteria l) \<and>
     gl_reviewer_refs l \<noteq> [] \<and> pred_option (\<lambda>s. length s \<le> 300) (gl_adjudication_ref l) \<and>
     pred_option (\<lambda>s. length s \<le> 2000) (gl_notes l) \<and> label_contract l"

record owner_approval =
  oa_benchmark_id :: string
  oa_benchmark_version :: string
  oa_status :: benchmark_status
  oa_decision :: owner_decision
  oa_owner_ref :: string
  oa_approval_ref :: "string option"
  oa_approved_at :: "int option"
  oa_policy_id :: string
  oa_policy_version :: string
  oa_policy_sha256 :: string
  oa_labels_sha256 :: string
  oa_data_classification :: string
  oa_external_model_allowed :: bool

text \<open>\<open>validate_decision\<close>, and the whole model.\<close>

definition owner_decision_contract :: "owner_approval \<Rightarrow> bool" where
  "owner_decision_contract a \<longleftrightarrow>
     (oa_status a = BM_APPROVED \<longrightarrow>
        oa_decision a = OWNER_APPROVE \<and> truthy (oa_approval_ref a) \<and> oa_approved_at a \<noteq> None) \<and>
     (oa_status a = BM_DRAFT \<longrightarrow> oa_decision a = OWNER_PENDING)"

definition owner_approval_valid :: "owner_approval \<Rightarrow> bool" where
  "owner_approval_valid a \<longleftrightarrow>
     is_policy_id (oa_benchmark_id a) \<and> is_semver (oa_benchmark_version a) \<and> short_text 200 (oa_owner_ref a) \<and>
     pred_option (\<lambda>s. length s \<le> 300) (oa_approval_ref a) \<and> is_policy_id (oa_policy_id a) \<and>
     is_semver (oa_policy_version a) \<and> is_sha256 (oa_policy_sha256 a) \<and> is_sha256 (oa_labels_sha256 a) \<and>
     oa_data_classification a \<in> {''synthetic'', ''deidentified'', ''internal_restricted''} \<and> owner_decision_contract a"

record gold_package =
  gp_manifest_sha256 :: string
  gp_manifest :: benchmark_manifest
  gp_policy :: policy_pack
  gp_labels :: "gold_case_label list"
  gp_approval :: owner_approval

record predicted_criterion =
  pn_criterion_id :: string
  pn_assessment :: assessment
  pn_evidence_locators :: "string list"
  pn_risk_flags :: "string list"

record benchmark_prediction =
  bx_project_id :: string
  bx_stage :: review_stage
  bx_snapshot_sha256 :: string
  bx_artifact_sha256 :: string
  bx_policy_id :: string
  bx_policy_version :: string
  bx_policy_sha256 :: string
  bx_recommendation :: agent_recommendation
  bx_criteria :: "predicted_criterion list"
  bx_model :: "string option"
  bx_live_model :: bool

definition prediction_key :: "benchmark_prediction \<Rightarrow> string \<times> review_stage" where
  "prediction_key p = (bx_project_id p, bx_stage p)"

definition prediction_valid :: "benchmark_prediction \<Rightarrow> bool" where
  "prediction_valid p \<longleftrightarrow> is_sha256 (bx_snapshot_sha256 p) \<and> is_sha256 (bx_artifact_sha256 p) \<and>
     is_sha256 (bx_policy_sha256 p) \<and> list_all (\<lambda>c. is_criterion_id (pn_criterion_id c)) (bx_criteria p)"

record gold_env =
  gb_sha_policy :: "policy_pack \<Rightarrow> string"
  gb_sha_text :: "string \<Rightarrow> string"
  gb_div :: "nat \<Rightarrow> nat \<Rightarrow> rat"

definition gold_error :: "string \<Rightarrow> exn" where
  "gold_error msg = Exn GoldBenchmarkError msg"

section \<open>Predictions\<close>

definition prediction_from_report :: "gold_env \<Rightarrow> evaluation_report \<Rightarrow> benchmark_prediction res" where
  "prediction_from_report env r =
     (let p = \<lparr>bx_project_id = er_project_id r, bx_stage = er_stage r, bx_snapshot_sha256 = sn_dossier_sha256 (er_snapshot r),
        bx_artifact_sha256 = er_evaluated_artifact_sha256 r, bx_policy_id = rp_policy_id (er_review_profile r),
        bx_policy_version = rp_version (er_review_profile r), bx_policy_sha256 = rp_sha256 (er_review_profile r),
        bx_recommendation = er_recommendation r,
        bx_criteria = map (\<lambda>c. \<lparr>pn_criterion_id = cr_criterion_id c, pn_assessment = cr_assessment c,
          pn_evidence_locators = dict_fromkeys (map (\<lambda>l. stable_prediction_locator (gb_sha_text env) (el_locator l))
            (cr_evidence_refs c)),
          pn_risk_flags = cr_risk_flags c\<rparr>) (er_criteria r),
        bx_model = map_option mm_model (er_model_run r),
        bx_live_model = (case er_model_run r of None \<Rightarrow> False | Some m \<Rightarrow> mm_live m)\<rparr>
      in if prediction_valid p then Inr p else Inl (Exn ValidationError ''BenchmarkPrediction''))"

section \<open>Comparison\<close>

record bench_counts =
  bc_correct_criteria :: nat
  bc_criterion :: nat
  bc_correct_recommendations :: nat
  bc_gold_locator :: nat
  bc_predicted_locator :: nat
  bc_matched_locator :: nat
  bc_expected_insufficient :: nat
  bc_correct_insufficient :: nat
  bc_required_risk_flag :: nat
  bc_matched_risk_flag :: nat
  bc_human_vote_pair :: nat
  bc_human_agreeing_pair :: nat
  bc_negative_case :: nat
  bc_dangerous_positive :: nat
  bc_asserting_prediction :: nat
  bc_unsupported_claim :: nat
  bc_models :: "string list"
  bc_live_model_report :: nat

definition zero_counts :: bench_counts where
  "zero_counts = \<lparr>bc_correct_criteria = 0, bc_criterion = 0, bc_correct_recommendations = 0, bc_gold_locator = 0,
     bc_predicted_locator = 0, bc_matched_locator = 0, bc_expected_insufficient = 0, bc_correct_insufficient = 0,
     bc_required_risk_flag = 0, bc_matched_risk_flag = 0, bc_human_vote_pair = 0, bc_human_agreeing_pair = 0,
     bc_negative_case = 0, bc_dangerous_positive = 0, bc_asserting_prediction = 0, bc_unsupported_claim = 0,
     bc_models = [], bc_live_model_report = 0\<rparr>"

abbreviation bit :: "bool \<Rightarrow> nat" where
  "bit b \<equiv> (if b then 1 else 0)"

text \<open>\<open>len(set(xs))\<close>, and the pairs of votes.\<close>

definition set_size :: "'a list \<Rightarrow> nat" where
  "set_size xs = length (remdups xs)"

fun vote_pairs :: "gold_reviewer_vote list \<Rightarrow> (gold_reviewer_vote \<times> gold_reviewer_vote) list" where
  "vote_pairs [] = []"
| "vote_pairs (v # vs) = map (Pair v) vs @ vote_pairs vs"

definition count_criterion :: "gold_criterion_label \<Rightarrow> predicted_criterion \<Rightarrow> bench_counts \<Rightarrow> bench_counts" where
  "count_criterion g p c =
     (let insufficient = gc_expected_assessment g = INSUFFICIENT_EVIDENCE;
          pairs = vote_pairs (gc_reviewer_votes g);
          matched_flags = filter (\<lambda>f. f \<in> set (pn_risk_flags p)) (gc_required_risk_flags g);
          gold = gc_acceptable_evidence_locators g; predicted = pn_evidence_locators p;
          matched = set_size (filter (\<lambda>l. l \<in> set predicted) gold);
          claims = pn_assessment p \<in> set asserting
      in c\<lparr>bc_criterion := bc_criterion c + 1,
           bc_correct_criteria := bc_correct_criteria c + bit (pn_assessment p = gc_expected_assessment g),
           bc_expected_insufficient := bc_expected_insufficient c + bit insufficient,
           bc_correct_insufficient := bc_correct_insufficient c + bit (insufficient \<and> pn_assessment p = INSUFFICIENT_EVIDENCE),
           bc_required_risk_flag := bc_required_risk_flag c + set_size (gc_required_risk_flags g),
           bc_matched_risk_flag := bc_matched_risk_flag c + set_size matched_flags,
           bc_human_vote_pair := bc_human_vote_pair c + length pairs,
           bc_human_agreeing_pair := bc_human_agreeing_pair c +
             length (filter (\<lambda>(v, w). gv_assessment v = gv_assessment w) pairs),
           bc_gold_locator := bc_gold_locator c + set_size gold,
           bc_predicted_locator := bc_predicted_locator c + set_size predicted,
           bc_matched_locator := bc_matched_locator c + matched,
           bc_asserting_prediction := bc_asserting_prediction c + bit claims,
           bc_unsupported_claim := bc_unsupported_claim c +
             bit (claims \<and> (predicted = [] \<or> gold \<noteq> [] \<and> matched = 0))\<rparr>)"

definition validate_prediction_identity ::
  "gold_env \<Rightarrow> gold_package \<Rightarrow> gold_case_label \<Rightarrow> benchmark_prediction \<Rightarrow> unit res" where
  "validate_prediction_identity env pkg l p =
     (if (bx_snapshot_sha256 p, bx_artifact_sha256 p, bx_policy_id p, bx_policy_version p, bx_policy_sha256 p) \<noteq>
         (gl_snapshot_sha256 l, gl_artifact_sha256 l, pk_policy_id (gp_policy pkg), pk_version (gp_policy pkg),
          gb_sha_policy env (gp_policy pkg)) then
        Inl (gold_error ''prediction identity drifted from gold label'')
      else if bx_recommendation p \<notin> set (recommendations_for_stage (gl_stage l)) then
        Inl (gold_error ''prediction recommendation is invalid for the stage'')
      else Inr ())"

definition count_label ::
  "gold_env \<Rightarrow> gold_package \<Rightarrow> gold_case_label \<Rightarrow> benchmark_prediction \<Rightarrow> bench_counts \<Rightarrow> bench_counts res" where
  "count_label env pkg l p c =
     (case validate_prediction_identity env pkg l p of
        Inl e \<Rightarrow> Inl e
      | Inr _ \<Rightarrow>
          (let positive = positive_recommendation (gl_stage l);
               negative = gl_expected_recommendation l \<noteq> positive;
               c = c\<lparr>bc_correct_recommendations := bc_correct_recommendations c +
                       bit (bx_recommendation p = gl_expected_recommendation l),
                     bc_negative_case := bc_negative_case c + bit negative,
                     bc_dangerous_positive := bc_dangerous_positive c + bit (negative \<and> bx_recommendation p = positive)\<rparr>;
               gold_by_id = dict_by gc_criterion_id (gl_criteria l);
               predicted_by_id = dict_by pn_criterion_id (bx_criteria p)
           in if length predicted_by_id \<noteq> length (bx_criteria p) \<or>
                 set (map fst predicted_by_id) \<noteq> set (map fst gold_by_id) then
                Inl (gold_error ''prediction criteria do not match gold'')
              else
                (let c = fold (\<lambda>(i, g). count_criterion g (the (map_of predicted_by_id i))) gold_by_id c
                 in Inr (c\<lparr>bc_models := (if truthy (bx_model p) then List.insert (the (bx_model p)) (bc_models c) else bc_models c),
                           bc_live_model_report := bc_live_model_report c + bit (bx_live_model p)\<rparr>))))"

fun index_predictions ::
  "benchmark_prediction list \<Rightarrow> ((string \<times> review_stage) \<times> benchmark_prediction) list \<Rightarrow>
   ((string \<times> review_stage) \<times> benchmark_prediction) list res" where
  "index_predictions [] d = Inr d"
| "index_predictions (p # ps) d =
     (if map_of d (prediction_key p) \<noteq> None then
        Inl (gold_error ''prediction set contains a duplicate project/stage'')
      else index_predictions ps (dict_set (prediction_key p) p d))"

fun count_labels ::
  "gold_env \<Rightarrow> gold_package \<Rightarrow> ((string \<times> review_stage) \<Rightarrow> benchmark_prediction option) \<Rightarrow> gold_case_label list \<Rightarrow>
   bench_counts \<Rightarrow> bench_counts res" where
  "count_labels env pkg by_key [] c = Inr c"
| "count_labels env pkg by_key (l # ls) c =
     (case count_label env pkg l (the (by_key (gold_case_key l))) c of
        Inl e \<Rightarrow> Inl e | Inr c' \<Rightarrow> count_labels env pkg by_key ls c')"

text \<open>A rate over a count, with its value for an empty one.\<close>

definition rate :: "gold_env \<Rightarrow> rat \<Rightarrow> nat \<Rightarrow> nat \<Rightarrow> rat" where
  "rate env dflt n m = (if 0 < m then gb_div env n m else dflt)"

record gold_rates =
  gr_criterion_accuracy :: rat
  gr_recommendation_accuracy :: rat
  gr_locator_precision :: rat
  gr_locator_recall :: rat
  gr_insufficient_recall :: rat
  gr_risk_flag_recall :: rat
  gr_human_agreement :: rat
  gr_dangerous_rate :: rat
  gr_unsupported_rate :: rat

definition gold_rates_of :: "gold_env \<Rightarrow> nat \<Rightarrow> bench_counts \<Rightarrow> gold_rates" where
  "gold_rates_of env cases c =
     \<lparr>gr_criterion_accuracy = gb_div env (bc_correct_criteria c) (bc_criterion c),
      gr_recommendation_accuracy = gb_div env (bc_correct_recommendations c) cases,
      gr_locator_precision = rate env (if bc_gold_locator c = 0 then 1 else 0) (bc_matched_locator c) (bc_predicted_locator c),
      gr_locator_recall = rate env 1 (bc_matched_locator c) (bc_gold_locator c),
      gr_insufficient_recall = rate env 1 (bc_correct_insufficient c) (bc_expected_insufficient c),
      gr_risk_flag_recall = rate env 1 (bc_matched_risk_flag c) (bc_required_risk_flag c),
      gr_human_agreement = rate env 1 (bc_human_agreeing_pair c) (bc_human_vote_pair c),
      gr_dangerous_rate = rate env 0 (bc_dangerous_positive c) (bc_negative_case c),
      gr_unsupported_rate = rate env 0 (bc_unsupported_claim c) (bc_asserting_prediction c)\<rparr>"

definition threshold_checks :: "benchmark_thresholds \<Rightarrow> gold_rates \<Rightarrow> bench_counts \<Rightarrow> (string \<times> bool) list" where
  "threshold_checks t r c =
     [(''criterion_assessment_accuracy'', bt_criterion_assessment_accuracy_min t \<le> gr_criterion_accuracy r),
      (''recommendation_accuracy'', bt_recommendation_accuracy_min t \<le> gr_recommendation_accuracy r),
      (''evidence_locator_precision'', bt_evidence_locator_precision_min t \<le> gr_locator_precision r),
      (''evidence_locator_recall'', bt_evidence_locator_recall_min t \<le> gr_locator_recall r),
      (''insufficient_evidence_recall'', 0 < bc_expected_insufficient c \<and>
         bt_insufficient_evidence_recall_min t \<le> gr_insufficient_recall r),
      (''required_risk_flag_recall'', 0 < bc_required_risk_flag c \<and>
         bt_required_risk_flag_recall_min t \<le> gr_risk_flag_recall r),
      (''human_pre_adjudication_agreement'', 0 < bc_human_vote_pair c \<and>
         bt_human_pre_adjudication_agreement_min t \<le> gr_human_agreement r),
      (''dangerous_positive_rate'', 0 < bc_negative_case c \<and> gr_dangerous_rate r \<le> bt_dangerous_positive_rate_max t),
      (''unsupported_claim_rate'', gr_unsupported_rate r \<le> bt_unsupported_claim_rate_max t)]"

record quality_report =
  qr_benchmark_id :: string
  qr_benchmark_version :: string
  qr_benchmark_status :: benchmark_status
  qr_benchmark_split :: benchmark_split
  qr_manifest_sha256 :: string
  qr_policy_id :: string
  qr_policy_version :: string
  qr_policy_sha256 :: string
  qr_generated_at :: int
  qr_case_count :: nat
  qr_registration_case_count :: nat
  qr_completion_case_count :: nat
  qr_counts :: bench_counts
  qr_rates :: gold_rates
  qr_threshold_checks :: "(string \<times> bool) list"
  qr_official_quality_decision :: bool
  qr_passed :: "bool option"
  qr_quality_claim :: string

text \<open>\<open>validate_official_decision\<close>, and the whole model; counts are natural numbers.\<close>

definition official_decision :: "quality_report \<Rightarrow> bool" where
  "official_decision r \<longleftrightarrow>
     (let official = qr_benchmark_status r = BM_APPROVED in
      qr_official_quality_decision r = official \<and> (\<not> official \<longrightarrow> qr_passed r = None) \<and>
      (official \<longrightarrow> qr_threshold_checks r \<noteq> [] \<and> qr_passed r = Some (list_all snd (qr_threshold_checks r))))"

definition quality_report_valid :: "quality_report \<Rightarrow> bool" where
  "quality_report_valid r \<longleftrightarrow>
     is_sha256 (qr_manifest_sha256 r) \<and> is_sha256 (qr_policy_sha256 r) \<and> 1 \<le> qr_case_count r \<and>
     1 \<le> bc_criterion (qr_counts r) \<and>
     (let g = qr_rates r in list_all unit_interval
        [gr_criterion_accuracy g, gr_recommendation_accuracy g, gr_locator_precision g, gr_locator_recall g,
         gr_insufficient_recall g, gr_risk_flag_recall g, gr_human_agreement g, gr_dangerous_rate g, gr_unsupported_rate g]) \<and>
     official_decision r"

definition quality_claim :: "bool \<Rightarrow> string" where
  "quality_claim official =
     (if official then ''Owner-approved semantic benchmark comparison; this report evaluates Agent draft agreement '' @
        ''and evidence traceability, never a final certification decision.''
      else ''Offline-reference benchmark smoke only; no official quality pass/fail claim.'')"

definition quality_report_of ::
  "gold_env \<Rightarrow> int \<Rightarrow> gold_package \<Rightarrow> gold_case_label list \<Rightarrow> bench_counts \<Rightarrow> quality_report" where
  "quality_report_of env now pkg labels c =
     (let m = gp_manifest pkg; official = bm_status m = BM_APPROVED; rates = gold_rates_of env (length labels) c;
          checks = (case bm_thresholds m of None \<Rightarrow> [] | Some t \<Rightarrow> threshold_checks t rates c)
      in \<lparr>qr_benchmark_id = bm_benchmark_id m, qr_benchmark_version = bm_version m, qr_benchmark_status = bm_status m,
          qr_benchmark_split = bm_evaluation_split m, qr_manifest_sha256 = gp_manifest_sha256 pkg,
          qr_policy_id = pk_policy_id (gp_policy pkg), qr_policy_version = pk_version (gp_policy pkg),
          qr_policy_sha256 = gb_sha_policy env (gp_policy pkg), qr_generated_at = now, qr_case_count = length labels,
          qr_registration_case_count = length (filter (\<lambda>l. gl_stage l = REGISTRATION) labels),
          qr_completion_case_count = length (filter (\<lambda>l. gl_stage l = COMPLETION) labels),
          qr_counts = c\<lparr>bc_models := sort (bc_models c)\<rparr>, qr_rates = rates, qr_threshold_checks = checks,
          qr_official_quality_decision = official,
          qr_passed = (if official then Some (list_all snd checks) else None), qr_quality_claim = quality_claim official\<rparr>)"

definition evaluate_gold_benchmark ::
  "gold_env \<Rightarrow> int \<Rightarrow> gold_package \<Rightarrow> benchmark_prediction list \<Rightarrow> bool \<Rightarrow> quality_report res" where
  "evaluate_gold_benchmark env now pkg predictions allow_offline_reference =
     (let status = bm_status (gp_manifest pkg);
          labels = filter (\<lambda>l. gl_split l = bm_evaluation_split (gp_manifest pkg)) (gp_labels pkg)
      in if status \<noteq> BM_APPROVED \<and> \<not> (allow_offline_reference \<and> status = BM_OFFLINE_REFERENCE) then
           Inl (gold_error ''quality evaluation requires an approved benchmark'')
         else if labels = [] then Inl (gold_error ''benchmark evaluation split contains no labels'')
         else (case index_predictions predictions [] of
             Inl e \<Rightarrow> Inl e
           | Inr by_key \<Rightarrow>
               if set (map fst by_key) \<noteq> set (map gold_case_key labels) then
                 Inl (gold_error ''prediction set does not exactly cover gold project/stage keys'')
               else (case count_labels env pkg (map_of by_key) labels zero_counts of
                   Inl e \<Rightarrow> Inl e
                 | Inr c \<Rightarrow>
                     (let r = quality_report_of env now pkg labels c
                      in if quality_report_valid r then Inr r else Inl (Exn ValidationError ''GoldBenchmarkQualityReport'')))))"

section \<open>Packages\<close>

text \<open>A YAML text: the content of the model, another value or wrong content, or no YAML.\<close>

datatype 'a yaml_text = YamlContent 'a | YamlInvalid | YamlSyntax

text \<open>A line of the labels file: its size and its label, if it is JSON with the fields of one.\<close>

datatype label_line = BlankLabelLine | LabelLine int "gold_case_label option"

record package_file =
  kf_size :: "int option"
  kf_sha256 :: string
  kf_manifest :: "benchmark_manifest yaml_text"
  kf_policy :: policy_file
  kf_labels :: "label_line list option"
  kf_lines :: "string list option"

datatype package_entry = AbsolutePath | EscapesRoot | NoFile | PackageFile package_file

type_synonym package_dir = "string \<Rightarrow> package_entry"

definition MAX_MANIFEST_BYTES :: int where
  "MAX_MANIFEST_BYTES = 1000000"

definition MAX_POLICY_BYTES :: int where
  "MAX_POLICY_BYTES = 2000000"

definition MAX_APPROVAL_BYTES :: int where
  "MAX_APPROVAL_BYTES = 1000000"

definition MAX_LABELS_BYTES :: int where
  "MAX_LABELS_BYTES = 20000000"

definition MAX_LABEL_LINE_BYTES :: int where
  "MAX_LABEL_LINE_BYTES = 200000"

definition safe_package_file :: "package_dir \<Rightarrow> string \<Rightarrow> int \<Rightarrow> package_file res" where
  "safe_package_file dir relative maximum_bytes =
     (case dir relative of
        AbsolutePath \<Rightarrow> Inl (gold_error ''package file path must be relative'')
      | EscapesRoot \<Rightarrow> Inl (gold_error ''package file path escapes the package root'')
      | NoFile \<Rightarrow> Inl (gold_error ''package file is missing'')
      | PackageFile f \<Rightarrow>
          (case kf_size f of
             None \<Rightarrow> Inl (gold_error ''package file metadata is unavailable'')
           | Some bytes \<Rightarrow> if maximum_bytes < bytes then Inl (gold_error ''package file exceeds size limit'') else Inr f))"

definition load_manifest :: "package_file \<Rightarrow> benchmark_manifest res" where
  "load_manifest f =
     (case kf_manifest f of
        YamlContent m \<Rightarrow> if benchmark_manifest_valid m then Inr m else Inl (gold_error ''invalid benchmark manifest'')
      | YamlInvalid \<Rightarrow> Inl (gold_error ''invalid benchmark manifest'')
      | YamlSyntax \<Rightarrow> Inl (Exn ExceptionClass ''YAMLError''))"

fun load_label_lines :: "label_line list \<Rightarrow> gold_case_label list \<Rightarrow> gold_case_label list res" where
  "load_label_lines [] ls = Inr ls"
| "load_label_lines (BlankLabelLine # rest) ls = load_label_lines rest ls"
| "load_label_lines (LabelLine bytes l # rest) ls =
     (if MAX_LABEL_LINE_BYTES < bytes then Inl (gold_error ''gold label line exceeds size limit'')
      else (case l of
              None \<Rightarrow> Inl (gold_error ''invalid gold label at line'')
            | Some label \<Rightarrow>
                if gold_case_valid label then load_label_lines rest (ls @ [label])
                else Inl (gold_error ''invalid gold label at line'')))"

definition load_gold_labels :: "package_file \<Rightarrow> gold_case_label list res" where
  "load_gold_labels f =
     (case kf_labels f of
        None \<Rightarrow> Inl (Exn ValueError ''UnicodeDecodeError'')
      | Some ls \<Rightarrow>
          (case load_label_lines ls [] of
             Inl e \<Rightarrow> Inl e
           | Inr labels \<Rightarrow>
               if labels = [] then Inl (gold_error ''gold labels file is empty'')
               else if \<not> distinct (map gold_case_key labels) then
                 Inl (gold_error ''gold labels contain duplicate project/stage keys'')
               else if \<not> distinct (map gl_label_id labels) then
                 Inl (gold_error ''gold labels contain duplicate label_id values'')
               else Inr labels))"

text \<open>\<open>frontmatter\<close> reads the lines between the two markers.\<close>

definition load_owner_approval ::
  "(string list \<Rightarrow> owner_approval yaml_text) \<Rightarrow> package_file \<Rightarrow> owner_approval res" where
  "load_owner_approval frontmatter f =
     (case kf_lines f of
        None \<Rightarrow> Inl (Exn ValueError ''UnicodeDecodeError'')
      | Some lines \<Rightarrow>
          if lines = [] \<or> strip (hd lines) \<noteq> ''---'' then
            Inl (gold_error ''owner approval Markdown requires YAML frontmatter'')
          else if list_all (\<lambda>l. strip l \<noteq> ''---'') (tl lines) then
            Inl (gold_error ''owner approval Markdown frontmatter is not closed'')
          else (case frontmatter (takeWhile (\<lambda>l. strip l \<noteq> ''---'') (tl lines)) of
              YamlContent a \<Rightarrow> if owner_approval_valid a then Inr a else Inl (gold_error ''owner approval frontmatter is invalid'')
            | YamlInvalid \<Rightarrow> Inl (gold_error ''owner approval frontmatter is invalid'')
            | YamlSyntax \<Rightarrow> Inl (Exn ExceptionClass ''YAMLError'')))"

fun validate_label_list :: "bool \<Rightarrow> policy_pack \<Rightarrow> gold_case_label list \<Rightarrow> unit res" where
  "validate_label_list approved policy [] = Inr ()"
| "validate_label_list approved policy (l # ls) =
     (if set (map gc_criterion_id (gl_criteria l)) \<noteq>
         set (map cd_criterion_id (sp_criteria (for_stage (gl_stage l) policy))) then
        Inl (gold_error ''gold label criteria do not match policy'')
      else if approved \<and> gl_label_status l \<noteq> ADJUDICATED then
        Inl (gold_error ''approved benchmark requires adjudicated labels with two reviewers'')
      else if approved \<and> list_ex (\<lambda>g. set (map gv_reviewer_ref (gc_reviewer_votes g)) \<noteq> set (gl_reviewer_refs l)) (gl_criteria l) then
        Inl (gold_error ''approved benchmark requires every reviewer vote for every criterion'')
      else validate_label_list approved policy ls)"

definition validate_labels_against_policy ::
  "gold_case_label list \<Rightarrow> policy_pack \<Rightarrow> benchmark_split \<Rightarrow> bool \<Rightarrow> unit res" where
  "validate_labels_against_policy labels policy split approved =
     (if approved \<and> gl_stage ` set (filter (\<lambda>l. gl_split l = split) labels) \<noteq> {REGISTRATION, COMPLETION} then
        Inl (gold_error ''approved benchmark evaluation split must include registration and completion labels'')
      else (case validate_label_list approved policy labels of
          Inl e \<Rightarrow> Inl e
        | Inr _ \<Rightarrow>
            if approved \<and> list_all (\<lambda>l. list_all (\<lambda>g. gc_acceptable_evidence_locators g = []) (gl_criteria l)) labels then
              Inl (gold_error ''approved benchmark requires at least one stable evidence locator'')
            else Inr ()))"

definition approval_matches :: "gold_env \<Rightarrow> benchmark_manifest \<Rightarrow> policy_pack \<Rightarrow> owner_approval \<Rightarrow> bool" where
  "approval_matches env m policy a \<longleftrightarrow>
     (oa_benchmark_id a, oa_benchmark_version a, oa_status a, oa_owner_ref a, oa_approval_ref a, oa_policy_id a,
      oa_policy_version a, oa_policy_sha256 a, oa_labels_sha256 a) =
     (bm_benchmark_id m, bm_version m, bm_status m, bm_owner_ref m, bm_approval_ref m, pk_policy_id policy,
      pk_version policy, gb_sha_policy env policy, bl_sha256 (bm_labels m))"

definition validate_approval :: "gold_env \<Rightarrow> benchmark_manifest \<Rightarrow> policy_pack \<Rightarrow> owner_approval \<Rightarrow> unit res" where
  "validate_approval env m policy a =
     (if approval_matches env m policy a then Inr ()
      else Inl (gold_error ''owner approval record does not match manifest, policy, or labels''))"

fun policy_status_for :: "benchmark_status \<Rightarrow> review_policy_status" where
  "policy_status_for BM_DRAFT = POLICY_DRAFT"
| "policy_status_for BM_OFFLINE_REFERENCE = OFFLINE_REFERENCE"
| "policy_status_for BM_APPROVED = PUBLISHED"
| "policy_status_for BM_RETIRED = RETIRED"

definition validate_status_pair :: "benchmark_status \<Rightarrow> review_policy_status \<Rightarrow> unit res" where
  "validate_status_pair b p =
     (if p = policy_status_for b then Inr ()
      else Inl (gold_error ''benchmark and review policy lifecycle statuses are inconsistent''))"

definition load_package_policy :: "gold_env \<Rightarrow> benchmark_manifest \<Rightarrow> package_file \<Rightarrow> policy_pack res" where
  "load_package_policy env m f =
     (case fst (load_policy_file (gb_sha_policy env) (bp_path (bm_policy m), kf_policy f) []) of
        Inl e \<Rightarrow> Inl (if exn_is e [OSError, ValueError] then gold_error ''review policy failed strict validation'' else e)
      | Inr r \<Rightarrow>
          if pk_policy_id (rv_policy r) \<noteq> bp_policy_id (bm_policy m) \<or> pk_version (rv_policy r) \<noteq> bp_version (bm_policy m) \<or>
             rp_sha256 (rv_ref r) \<noteq> bp_canonical_sha256 (bm_policy m) then
            Inl (gold_error ''manifest review policy identity or hash drifted'')
          else Inr (rv_policy r))"

abbreviation bind_res :: "'a res \<Rightarrow> ('a \<Rightarrow> 'b res) \<Rightarrow> 'b res" where
  "bind_res r f \<equiv> (case r of Inl e \<Rightarrow> Inl e | Inr a \<Rightarrow> f a)"

definition load_package_labels :: "benchmark_manifest \<Rightarrow> package_file \<Rightarrow> gold_case_label list res" where
  "load_package_labels m f =
     (if kf_sha256 f \<noteq> bl_sha256 (bm_labels m) then Inl (gold_error ''gold labels file hash drifted'')
      else bind_res (load_gold_labels f) (\<lambda>labels.
        if int (length labels) \<noteq> bl_record_count (bm_labels m) then
          Inl (gold_error ''gold labels record_count does not match the file'')
        else Inr labels))"

definition load_package_approval ::
  "(string list \<Rightarrow> owner_approval yaml_text) \<Rightarrow> benchmark_manifest \<Rightarrow> package_file \<Rightarrow> owner_approval res" where
  "load_package_approval frontmatter m f =
     (if kf_sha256 f \<noteq> ba_sha256 (bm_approval m) then Inl (gold_error ''owner approval Markdown hash drifted'')
      else load_owner_approval frontmatter f)"

definition benchmark_executable :: "bool \<Rightarrow> bool \<Rightarrow> benchmark_status \<Rightarrow> bool" where
  "benchmark_executable allow_draft allow_offline_reference st \<longleftrightarrow>
     st = BM_APPROVED \<or> allow_draft \<and> st = BM_DRAFT \<or> allow_offline_reference \<and> st = BM_OFFLINE_REFERENCE"

definition load_gold_benchmark_package ::
  "gold_env \<Rightarrow> (string list \<Rightarrow> owner_approval yaml_text) \<Rightarrow> package_dir \<Rightarrow> bool \<Rightarrow> bool \<Rightarrow> gold_package res" where
  "load_gold_benchmark_package env frontmatter dir allow_draft allow_offline_reference =
     bind_res (safe_package_file dir ''benchmark-manifest.yaml'' MAX_MANIFEST_BYTES) (\<lambda>mf.
     bind_res (load_manifest mf) (\<lambda>m.
     if \<not> benchmark_executable allow_draft allow_offline_reference (bm_status m) then
       Inl (gold_error ''benchmark status is not executable in this mode'')
     else
       bind_res (safe_package_file dir (bp_path (bm_policy m)) MAX_POLICY_BYTES) (\<lambda>pf.
       bind_res (load_package_policy env m pf) (\<lambda>policy.
       bind_res (validate_status_pair (bm_status m) (pk_status policy)) (\<lambda>_.
       bind_res (safe_package_file dir (bl_path (bm_labels m)) MAX_LABELS_BYTES) (\<lambda>lf.
       bind_res (load_package_labels m lf) (\<lambda>labels.
       bind_res (validate_labels_against_policy labels policy (bm_evaluation_split m) (bm_status m = BM_APPROVED)) (\<lambda>_.
       bind_res (safe_package_file dir (ba_path (bm_approval m)) MAX_APPROVAL_BYTES) (\<lambda>af.
       bind_res (load_package_approval frontmatter m af) (\<lambda>a.
       bind_res (validate_approval env m policy a) (\<lambda>_.
       Inr \<lparr>gp_manifest_sha256 = kf_sha256 mf, gp_manifest = m, gp_policy = policy, gp_labels = labels,
            gp_approval = a\<rparr>)))))))))))"

section \<open>Predictions by key\<close>

abbreviation index_by_key :: "benchmark_prediction list \<Rightarrow> ((string \<times> review_stage) \<times> benchmark_prediction) list \<Rightarrow>
    ((string \<times> review_stage) \<times> benchmark_prediction) list" where
  "index_by_key ps d \<equiv> fold (\<lambda>p. dict_set (prediction_key p) p) ps d"

lemma index_predictions_eq:
  "index_predictions ps d =
     (if distinct (map prediction_key ps) \<and> (\<forall>p \<in> set ps. map_of d (prediction_key p) = None)
      then Inr (index_by_key ps d) else Inl (gold_error ''prediction set contains a duplicate project/stage''))"
  by (induction ps arbitrary: d) (auto intro: rev_image_eqI)

lemma map_of_index:
  "distinct (map prediction_key ps) \<Longrightarrow>
   map_of (index_by_key ps d) k = (case find (\<lambda>p. prediction_key p = k) ps of Some p \<Rightarrow> Some p | None \<Rightarrow> map_of d k)"
proof (induction ps arbitrary: d)
  case (Cons p ps)
  have "find (\<lambda>q. prediction_key q = prediction_key p) ps = None"
    using Cons.prems by (auto simp: find_None_iff intro: rev_image_eqI)
  with Cons show ?case by (auto simp: map_of_dict_set split: option.split)
qed simp

lemma map_eq_by_Some: "(\<And>k v. m k = Some v \<longleftrightarrow> n k = Some v) \<Longrightarrow> m = n"
  by (intro ext) (metis not_Some_eq)

lemma index_finds:
  assumes "distinct (map prediction_key ps)"
  shows "map_of (index_by_key ps []) k = Some p \<longleftrightarrow> p \<in> set ps \<and> prediction_key p = k"
proof -
  have "find (\<lambda>p. prediction_key p = k) ps = Some p \<longleftrightarrow> p \<in> set ps \<and> prediction_key p = k"
    using assms by (induction ps) auto
  then show ?thesis using map_of_index [OF assms, of "[]" k] by (auto split: option.split)
qed

lemma index_keys: "fst ` set (index_by_key ps d) = prediction_key ` set ps \<union> fst ` set d"
  by (induction ps arbitrary: d) (auto simp: keys_dict_set)

section \<open>What is counted\<close>

definition counts_ok :: "nat \<Rightarrow> bench_counts \<Rightarrow> bool" where
  "counts_ok n c \<longleftrightarrow>
     bc_correct_criteria c \<le> bc_criterion c \<and> bc_correct_recommendations c \<le> n \<and>
     bc_matched_locator c \<le> bc_gold_locator c \<and> bc_matched_locator c \<le> bc_predicted_locator c \<and>
     bc_correct_insufficient c \<le> bc_expected_insufficient c \<and> bc_matched_risk_flag c \<le> bc_required_risk_flag c \<and>
     bc_human_agreeing_pair c \<le> bc_human_vote_pair c \<and> bc_dangerous_positive c \<le> bc_negative_case c \<and>
     bc_unsupported_claim c \<le> bc_asserting_prediction c"

lemma set_size_card: "set_size xs = card (set xs)"
  by (simp add: set_size_def length_remdups_card_conv)

lemma set_size_filter: "set_size (filter P xs) \<le> set_size xs"
  by (auto simp: set_size_card intro: card_mono)

lemma set_size_matched: "set_size (filter (\<lambda>l. l \<in> set ys) xs) \<le> set_size ys"
  by (auto simp: set_size_card intro: card_mono)

lemma count_criterion_ok: "counts_ok n c \<Longrightarrow> counts_ok n (count_criterion g p c)"
  using set_size_filter [of "\<lambda>f. f \<in> set (pn_risk_flags p)" "gc_required_risk_flags g"]
    set_size_filter [of "\<lambda>l. l \<in> set (pn_evidence_locators p)" "gc_acceptable_evidence_locators g"]
    set_size_matched [of "pn_evidence_locators p" "gc_acceptable_evidence_locators g"]
  by (auto simp: counts_ok_def count_criterion_def Let_def intro!: add_mono le_SucI)

lemma count_criterion_fields [simp]:
  "bc_criterion (count_criterion g p c) = Suc (bc_criterion c)"
  "bc_correct_recommendations (count_criterion g p c) = bc_correct_recommendations c"
  "bc_negative_case (count_criterion g p c) = bc_negative_case c"
  "bc_dangerous_positive (count_criterion g p c) = bc_dangerous_positive c"
  by (simp_all add: count_criterion_def Let_def)

lemma count_criteria_fields [simp]:
  "bc_criterion (fold (\<lambda>(i, g). count_criterion g (f i)) gs c) = bc_criterion c + length gs"
  "bc_negative_case (fold (\<lambda>(i, g). count_criterion g (f i)) gs c) = bc_negative_case c"
  "bc_dangerous_positive (fold (\<lambda>(i, g). count_criterion g (f i)) gs c) = bc_dangerous_positive c"
  "bc_correct_recommendations (fold (\<lambda>(i, g). count_criterion g (f i)) gs c) = bc_correct_recommendations c"
  by (induction gs arbitrary: c) auto

lemma count_criteria_ok: "counts_ok n c \<Longrightarrow> counts_ok n (fold (\<lambda>(i, g). count_criterion g (f i)) gs c)"
  by (induction gs arbitrary: c) (auto simp: count_criterion_ok)

text \<open>The graded pairs: each criterion of a label, with the predicted criterion of that id.\<close>

definition criterion_answer :: "benchmark_prediction \<Rightarrow> string \<Rightarrow> predicted_criterion" where
  "criterion_answer p i = the (find (\<lambda>x. pn_criterion_id x = i) (bx_criteria p))"

definition graded :: "(gold_case_label \<Rightarrow> benchmark_prediction) \<Rightarrow> gold_case_label list \<Rightarrow>
    (gold_criterion_label \<times> predicted_criterion) list" where
  "graded f ls = concat (map (\<lambda>l. map (\<lambda>g. (g, criterion_answer (f l) (gc_criterion_id g))) (gl_criteria l)) ls)"

definition tally :: "(gold_criterion_label \<Rightarrow> predicted_criterion \<Rightarrow> bool) \<Rightarrow>
    (gold_criterion_label \<times> predicted_criterion) list \<Rightarrow> nat" where
  "tally P gs = length (filter (\<lambda>(g, p). P g p) gs)"

definition summed :: "(gold_criterion_label \<Rightarrow> predicted_criterion \<Rightarrow> nat) \<Rightarrow>
    (gold_criterion_label \<times> predicted_criterion) list \<Rightarrow> nat" where
  "summed d gs = sum_list (map (\<lambda>(g, p). d g p) gs)"

lemma tally_simps [simp]: "tally P [] = 0" "tally P ((g, p) # gs) = bit (P g p) + tally P gs"
  "tally P (gs @ hs) = tally P gs + tally P hs"
  by (simp_all add: tally_def)

lemma summed_simps [simp]: "summed d [] = 0" "summed d ((g, p) # gs) = d g p + summed d gs"
  "summed d (gs @ hs) = summed d gs + summed d hs"
  by (simp_all add: summed_def)

definition correct :: "gold_criterion_label \<Rightarrow> predicted_criterion \<Rightarrow> bool" where
  "correct g p \<longleftrightarrow> pn_assessment p = gc_expected_assessment g"

definition insufficient :: "gold_criterion_label \<Rightarrow> predicted_criterion \<Rightarrow> bool" where
  "insufficient g p \<longleftrightarrow> gc_expected_assessment g = INSUFFICIENT_EVIDENCE"

definition matched_locators :: "gold_criterion_label \<Rightarrow> predicted_criterion \<Rightarrow> nat" where
  "matched_locators g p = card (set (gc_acceptable_evidence_locators g) \<inter> set (pn_evidence_locators p))"

definition claims :: "gold_criterion_label \<Rightarrow> predicted_criterion \<Rightarrow> bool" where
  "claims g p \<longleftrightarrow> pn_assessment p \<in> set asserting"

definition unsupported :: "gold_criterion_label \<Rightarrow> predicted_criterion \<Rightarrow> bool" where
  "unsupported g p \<longleftrightarrow> claims g p \<and> (pn_evidence_locators p = [] \<or>
     gc_acceptable_evidence_locators g \<noteq> [] \<and>
     set (gc_acceptable_evidence_locators g) \<inter> set (pn_evidence_locators p) = {})"

definition agreeing_pairs :: "gold_criterion_label \<Rightarrow> nat" where
  "agreeing_pairs g = length (filter (\<lambda>(v, w). gv_assessment v = gv_assessment w) (vote_pairs (gc_reviewer_votes g)))"

text \<open>The counters of criteria, after pairs \<open>gs\<close>.\<close>

definition tallied :: "(gold_criterion_label \<times> predicted_criterion) list \<Rightarrow> bench_counts \<Rightarrow> bench_counts \<Rightarrow> bool" where
  "tallied gs c c' \<longleftrightarrow>
     bc_criterion c' = bc_criterion c + length gs \<and>
     bc_correct_criteria c' = bc_correct_criteria c + tally correct gs \<and>
     bc_expected_insufficient c' = bc_expected_insufficient c + tally insufficient gs \<and>
     bc_correct_insufficient c' = bc_correct_insufficient c + tally (\<lambda>g p. insufficient g p \<and> correct g p) gs \<and>
     bc_required_risk_flag c' = bc_required_risk_flag c + summed (\<lambda>g p. card (set (gc_required_risk_flags g))) gs \<and>
     bc_matched_risk_flag c' = bc_matched_risk_flag c +
       summed (\<lambda>g p. card (set (gc_required_risk_flags g) \<inter> set (pn_risk_flags p))) gs \<and>
     bc_human_vote_pair c' = bc_human_vote_pair c + summed (\<lambda>g p. length (vote_pairs (gc_reviewer_votes g))) gs \<and>
     bc_human_agreeing_pair c' = bc_human_agreeing_pair c + summed (\<lambda>g p. agreeing_pairs g) gs \<and>
     bc_gold_locator c' = bc_gold_locator c + summed (\<lambda>g p. card (set (gc_acceptable_evidence_locators g))) gs \<and>
     bc_predicted_locator c' = bc_predicted_locator c + summed (\<lambda>g p. card (set (pn_evidence_locators p))) gs \<and>
     bc_matched_locator c' = bc_matched_locator c + summed matched_locators gs \<and>
     bc_asserting_prediction c' = bc_asserting_prediction c + tally claims gs \<and>
     bc_unsupported_claim c' = bc_unsupported_claim c + tally unsupported gs"

lemma tallied_refl [simp]: "tallied [] c c"
  by (simp add: tallied_def)

lemma tallied_trans: "tallied gs c c1 \<Longrightarrow> tallied hs c1 c2 \<Longrightarrow> tallied (gs @ hs) c c2"
  by (simp add: tallied_def)

lemma tallied_one: "tallied [(g, p)] c (count_criterion g p c)"
proof -
  have inter: "{x \<in> A. x \<in> B} = A \<inter> B" for A B :: "string set" by blast
  show ?thesis
    by (simp add: tallied_def count_criterion_def Let_def set_size_card inter correct_def insufficient_def
        claims_def unsupported_def matched_locators_def agreeing_pairs_def split del: if_split)
      (auto simp: disjoint_iff)
qed

lemma tallied_fold: "tallied gs c (fold (\<lambda>(g, p). count_criterion g p) gs c)"
proof (induction gs arbitrary: c)
  case (Cons h gs)
  obtain g p where h: "h = (g, p)" by fastforce
  from tallied_trans [OF tallied_one [of g p c] Cons.IH] show ?case by (simp add: h)
qed simp

text \<open>What is known of a prediction that was compared with a label.\<close>

definition answers :: "gold_env \<Rightarrow> gold_package \<Rightarrow> gold_case_label \<Rightarrow> benchmark_prediction \<Rightarrow> bool" where
  "answers env pkg l p \<longleftrightarrow>
     bx_snapshot_sha256 p = gl_snapshot_sha256 l \<and> bx_artifact_sha256 p = gl_artifact_sha256 l \<and>
     bx_policy_id p = pk_policy_id (gp_policy pkg) \<and> bx_policy_version p = pk_version (gp_policy pkg) \<and>
     bx_policy_sha256 p = gb_sha_policy env (gp_policy pkg) \<and>
     bx_recommendation p \<in> set (recommendations_for_stage (gl_stage l))"

lemma identity_Inr: "validate_prediction_identity env pkg l p = Inr u \<longleftrightarrow> answers env pkg l p"
  by (auto simp: validate_prediction_identity_def answers_def)

lemma identity_Inl: "validate_prediction_identity env pkg l p = Inl e \<Longrightarrow> exn_cls e = GoldBenchmarkError"
  by (auto simp: validate_prediction_identity_def gold_error_def split: if_splits)

lemma count_label_Inl: "count_label env pkg l p c = Inl e \<Longrightarrow> exn_cls e = GoldBenchmarkError"
  using identity_Inl [of env pkg l p e]
  by (auto simp: count_label_def Let_def gold_error_def split: sum.splits if_splits)

text \<open>A positive answer to a label that is not.\<close>

definition dangerous :: "gold_case_label \<Rightarrow> benchmark_prediction \<Rightarrow> bool" where
  "dangerous l p \<longleftrightarrow> gl_expected_recommendation l \<noteq> positive_recommendation (gl_stage l) \<and>
     bx_recommendation p = positive_recommendation (gl_stage l)"

definition negative_label :: "gold_case_label \<Rightarrow> bool" where
  "negative_label l \<longleftrightarrow> gl_expected_recommendation l \<noteq> positive_recommendation (gl_stage l)"

lemma count_label_Inr:
  assumes "count_label env pkg l p c = Inr c'" and "counts_ok n c" and "gl_criteria l \<noteq> []"
  shows "counts_ok (Suc n) c' \<and> bc_criterion c < bc_criterion c' \<and> answers env pkg l p \<and>
    bc_negative_case c' = bc_negative_case c + bit (negative_label l) \<and>
    bc_dangerous_positive c' = bc_dangerous_positive c + bit (dangerous l p)"
proof -
  let ?c = "c\<lparr>bc_correct_recommendations := bc_correct_recommendations c +
      bit (bx_recommendation p = gl_expected_recommendation l),
    bc_negative_case := bc_negative_case c + bit (negative_label l),
    bc_dangerous_positive := bc_dangerous_positive c + bit (dangerous l p)\<rparr>"
  let ?d = "fold (\<lambda>(i, g). count_criterion g (the (map_of (dict_by pn_criterion_id (bx_criteria p)) i)))
     (dict_by gc_criterion_id (gl_criteria l)) ?c"
  have eq: "c' = ?d\<lparr>bc_models := bc_models c', bc_live_model_report := bc_live_model_report c'\<rparr>"
    and ans: "answers env pkg l p"
    using assms(1) identity_Inr [of env pkg l p]
    by (auto simp: count_label_def Let_def dangerous_def negative_label_def split: sum.splits if_splits)
  have "counts_ok (Suc n) ?c"
    using assms(2) by (auto simp: counts_ok_def dangerous_def negative_label_def)
  then have "counts_ok (Suc n) ?d" by (rule count_criteria_ok)
  then have "counts_ok (Suc n) c'" by (subst eq) (simp add: counts_ok_def)
  moreover have "dict_by gc_criterion_id (gl_criteria l) \<noteq> []" using assms(3) by (simp add: dict_by_Nil)
  then have "bc_criterion c < bc_criterion c'" by (subst eq) simp
  moreover have "bc_negative_case c' = bc_negative_case c + bit (negative_label l)"
    "bc_dangerous_positive c' = bc_dangerous_positive c + bit (dangerous l p)"
    by (subst eq, simp)+
  ultimately show ?thesis using ans by simp
qed

lemma map_of_keyed: "map_of (map (\<lambda>x. (key x, x)) xs) i = find (\<lambda>x. key x = i) xs"
  by (induction xs) auto

lemma count_label_tallied:
  assumes "count_label env pkg l p c = Inr c'" and "distinct (map gc_criterion_id (gl_criteria l))"
  shows "tallied (graded (\<lambda>_. p) [l]) c c' \<and>
    bc_correct_recommendations c' = bc_correct_recommendations c + bit (bx_recommendation p = gl_expected_recommendation l)"
proof -
  let ?c = "c\<lparr>bc_correct_recommendations := bc_correct_recommendations c +
      bit (bx_recommendation p = gl_expected_recommendation l),
    bc_negative_case := bc_negative_case c + bit (negative_label l),
    bc_dangerous_positive := bc_dangerous_positive c + bit (dangerous l p)\<rparr>"
  let ?gs = "dict_by gc_criterion_id (gl_criteria l)" and ?ps = "dict_by pn_criterion_id (bx_criteria p)"
  let ?d = "fold (\<lambda>(i, g). count_criterion g (the (map_of ?ps i))) ?gs ?c"
  have eq: "c' = ?d\<lparr>bc_models := bc_models c', bc_live_model_report := bc_live_model_report c'\<rparr>"
    and len: "length ?ps = length (bx_criteria p)"
    using assms(1) by (auto simp: count_label_def Let_def dangerous_def negative_label_def split: sum.splits if_splits)
  have gs: "?gs = map (\<lambda>g. (gc_criterion_id g, g)) (gl_criteria l)" by (rule dict_by_distinct [OF assms(2)])
  have ps: "the (map_of ?ps i) = criterion_answer p i" for i
  proof -
    have "distinct (map pn_criterion_id (bx_criteria p))" using len unfolding length_dict_by .
    from dict_by_distinct [OF this] show ?thesis by (simp add: map_of_keyed criterion_answer_def)
  qed
  have "?d = fold (\<lambda>(g, p). count_criterion g p) (graded (\<lambda>_. p) [l]) ?c"
    by (simp add: gs ps graded_def fold_map comp_def)
  then have "tallied (graded (\<lambda>_. p) [l]) ?c ?d" using tallied_fold by metis
  then have "tallied (graded (\<lambda>_. p) [l]) c c'" by (subst eq) (simp add: tallied_def)
  moreover have "bc_correct_recommendations c' = bc_correct_recommendations ?c" by (subst eq) simp
  ultimately show ?thesis by simp
qed

lemma count_labels_tallied:
  assumes "count_labels env pkg by_key ls c = Inr c'" "\<forall>l \<in> set ls. distinct (map gc_criterion_id (gl_criteria l))"
  shows "tallied (graded (\<lambda>l. the (by_key (gold_case_key l))) ls) c c' \<and>
    bc_correct_recommendations c' = bc_correct_recommendations c +
      length (filter (\<lambda>l. bx_recommendation (the (by_key (gold_case_key l))) = gl_expected_recommendation l) ls)"
  using assms
proof (induction ls arbitrary: c)
  case (Cons l ls)
  obtain c1 where c1: "count_label env pkg l (the (by_key (gold_case_key l))) c = Inr c1"
    "count_labels env pkg by_key ls c1 = Inr c'"
    using Cons.prems(1) by (auto split: sum.splits)
  have "distinct (map gc_criterion_id (gl_criteria l))" "\<forall>l \<in> set ls. distinct (map gc_criterion_id (gl_criteria l))"
    using Cons.prems(2) by simp_all
  note one = count_label_tallied [OF c1(1) this(1)] and rest = Cons.IH [OF c1(2) this(2)]
  from tallied_trans [OF conjunct1 [OF one] conjunct1 [OF rest]] one rest show ?case
    by (simp add: graded_def)
qed (simp add: graded_def)

lemma count_labels_Inl: "count_labels env pkg by_key ls c = Inl e \<Longrightarrow> exn_cls e = GoldBenchmarkError"
  using count_label_Inl by (induction ls arbitrary: c) (auto split: sum.splits)

lemma count_labels_Inr:
  assumes "count_labels env pkg by_key ls c = Inr c'" "counts_ok n c" "\<forall>l \<in> set ls. gl_criteria l \<noteq> []"
  shows "counts_ok (n + length ls) c' \<and> bc_criterion c + length ls \<le> bc_criterion c' \<and>
    (\<forall>l \<in> set ls. answers env pkg l (the (by_key (gold_case_key l)))) \<and>
    bc_negative_case c' = bc_negative_case c + length (filter negative_label ls) \<and>
    bc_dangerous_positive c' = bc_dangerous_positive c +
      length (filter (\<lambda>l. dangerous l (the (by_key (gold_case_key l)))) ls)"
  using assms
proof (induction ls arbitrary: c n)
  case (Cons l ls)
  obtain c1 where c1: "count_label env pkg l (the (by_key (gold_case_key l))) c = Inr c1"
    "count_labels env pkg by_key ls c1 = Inr c'"
    using Cons.prems(1) by (auto split: sum.splits)
  note one = count_label_Inr [OF c1(1) Cons.prems(2)]
  have "gl_criteria l \<noteq> []" using Cons.prems(3) by simp
  note one = one [OF this]
  have "counts_ok (Suc n) c1" "\<forall>l \<in> set ls. gl_criteria l \<noteq> []" using one Cons.prems(3) by auto
  from Cons.IH [OF c1(2) this] one show ?case by auto
qed (simp add: counts_ok_def)

lemma counts_ok_zero: "counts_ok 0 zero_counts"
  by (simp add: counts_ok_def zero_counts_def)

section \<open>Rates\<close>

text \<open>Division of floats: a quotient of counts that is at most one lies between zero and one.\<close>

definition sound_division :: "gold_env \<Rightarrow> bool" where
  "sound_division env \<longleftrightarrow> (\<forall>a b. 0 < b \<and> a \<le> b \<longrightarrow> unit_interval (gb_div env a b))"

lemma rate_unit: "sound_division env \<Longrightarrow> unit_interval d \<Longrightarrow> a \<le> b \<Longrightarrow> unit_interval (rate env d a b)"
  by (simp add: rate_def sound_division_def)

lemma rates_unit:
  assumes d: "sound_division env" and ok: "counts_ok n c" and "0 < n" "0 < bc_criterion c"
  shows "list_all unit_interval
    [gr_criterion_accuracy (gold_rates_of env n c), gr_recommendation_accuracy (gold_rates_of env n c),
     gr_locator_precision (gold_rates_of env n c), gr_locator_recall (gold_rates_of env n c),
     gr_insufficient_recall (gold_rates_of env n c), gr_risk_flag_recall (gold_rates_of env n c),
     gr_human_agreement (gold_rates_of env n c), gr_dangerous_rate (gold_rates_of env n c),
     gr_unsupported_rate (gold_rates_of env n c)]"
proof -
  have u: "unit_interval 0" "unit_interval 1" "unit_interval (if b then 1 else 0)" for b
    by (simp_all add: unit_interval_def)
  have q: "0 < b \<Longrightarrow> a \<le> b \<Longrightarrow> unit_interval (gb_div env a b)" for a b
    using d unfolding sound_division_def by blast
  note r = rate_unit [OF d]
  have le: "bc_correct_criteria c \<le> bc_criterion c" "bc_correct_recommendations c \<le> n"
    "bc_matched_locator c \<le> bc_gold_locator c" "bc_matched_locator c \<le> bc_predicted_locator c"
    "bc_correct_insufficient c \<le> bc_expected_insufficient c" "bc_matched_risk_flag c \<le> bc_required_risk_flag c"
    "bc_human_agreeing_pair c \<le> bc_human_vote_pair c" "bc_dangerous_positive c \<le> bc_negative_case c"
    "bc_unsupported_claim c \<le> bc_asserting_prediction c"
    using ok unfolding counts_ok_def by blast+
  note parts = q [OF assms(4) le(1)] q [OF assms(3) le(2)] r [OF u(3) le(4)] r [OF u(2) le(3)] r [OF u(2) le(5)]
    r [OF u(2) le(6)] r [OF u(2) le(7)] r [OF u(1) le(8)] r [OF u(1) le(9)]
  show ?thesis by (simp only: gold_rates_of_def gold_rates.simps list.pred_inject parts simp_thms)
qed

section \<open>Loaded packages\<close>

lemma bind_res_Inr: "bind_res r f = Inr b \<longleftrightarrow> (\<exists>a. r = Inr a \<and> f a = Inr b)"
  by (cases r) auto

lemma if_error_Inr: "(if P then Inl e else r) = Inr b \<longleftrightarrow> \<not> P \<and> r = Inr b"
  by simp

lemma safe_package_file_Inr:
  "safe_package_file dir relative n = Inr f \<Longrightarrow> dir relative = PackageFile f \<and> (\<exists>k \<le> n. kf_size f = Some k)"
  by (auto simp: safe_package_file_def split: package_entry.splits option.splits if_splits)

lemma load_manifest_Inr: "load_manifest f = Inr m \<Longrightarrow> benchmark_manifest_valid m"
  by (auto simp: load_manifest_def split: yaml_text.splits if_splits)

lemma load_label_lines_Inr:
  "load_label_lines xs ls = Inr ls' \<Longrightarrow> list_all gold_case_valid ls \<Longrightarrow> list_all gold_case_valid ls'"
  by (induction xs ls rule: load_label_lines.induct) (auto split: if_splits option.splits)

lemma load_gold_labels_Inr:
  "load_gold_labels f = Inr ls \<Longrightarrow> list_all gold_case_valid ls \<and> ls \<noteq> [] \<and> distinct (map gold_case_key ls) \<and>
     distinct (map gl_label_id ls)"
  using load_label_lines_Inr [of _ "[]" ls]
  by (auto simp: load_gold_labels_def split: option.splits sum.splits if_splits)

lemma load_package_labels_Inr:
  "load_package_labels m f = Inr ls \<Longrightarrow> kf_sha256 f = bl_sha256 (bm_labels m) \<and>
     int (length ls) = bl_record_count (bm_labels m) \<and> load_gold_labels f = Inr ls"
  by (auto simp: load_package_labels_def bind_res_Inr if_error_Inr simp del: not_None_eq)

lemma load_package_approval_Inr:
  "load_package_approval frontmatter m f = Inr a \<Longrightarrow> kf_sha256 f = ba_sha256 (bm_approval m) \<and> owner_approval_valid a"
  by (auto simp: load_package_approval_def load_owner_approval_def split: if_splits option.splits yaml_text.splits)

lemma load_policy_file_Inr:
  assumes "fst (load_policy_file sha f []) = Inr r"
  shows "rp_sha256 (rv_ref r) = sha (rv_policy r)" and "policy_pack_valid (rv_policy r)"
  using assms
  by (auto simp: load_policy_file_def register_profile_def Let_def split: policy_file.splits if_splits)

lemma load_package_policy_Inr:
  "load_package_policy env m f = Inr p \<Longrightarrow>
     pk_policy_id p = bp_policy_id (bm_policy m) \<and> pk_version p = bp_version (bm_policy m) \<and>
     gb_sha_policy env p = bp_canonical_sha256 (bm_policy m) \<and> policy_pack_valid p"
  using load_policy_file_Inr [of "gb_sha_policy env" "(bp_path (bm_policy m), kf_policy f)"]
  by (auto simp: load_package_policy_def split: sum.splits if_splits)

lemma validate_label_list_Inr:
  "validate_label_list b p ls = Inr u \<longleftrightarrow>
     (\<forall>l \<in> set ls. set (map gc_criterion_id (gl_criteria l)) = set (map cd_criterion_id (sp_criteria (for_stage (gl_stage l) p))) \<and>
       (b \<longrightarrow> gl_label_status l = ADJUDICATED \<and>
         (\<forall>g \<in> set (gl_criteria l). set (map gv_reviewer_ref (gc_reviewer_votes g)) = set (gl_reviewer_refs l))))"
  by (induction b p ls rule: validate_label_list.induct) (auto simp: list_ex_iff)

text \<open>What a package that was loaded promises.\<close>

definition policy_bound :: "gold_env \<Rightarrow> gold_package \<Rightarrow> bool" where
  "policy_bound env pkg \<longleftrightarrow>
     pk_policy_id (gp_policy pkg) = bp_policy_id (bm_policy (gp_manifest pkg)) \<and>
     pk_version (gp_policy pkg) = bp_version (bm_policy (gp_manifest pkg)) \<and>
     gb_sha_policy env (gp_policy pkg) = bp_canonical_sha256 (bm_policy (gp_manifest pkg)) \<and>
     pk_status (gp_policy pkg) = policy_status_for (bm_status (gp_manifest pkg))"

definition label_covers_policy :: "gold_package \<Rightarrow> gold_case_label \<Rightarrow> bool" where
  "label_covers_policy pkg l \<longleftrightarrow>
     set (map gc_criterion_id (gl_criteria l)) = set (map cd_criterion_id (sp_criteria (for_stage (gl_stage l) (gp_policy pkg))))"

definition fully_adjudicated :: "gold_case_label \<Rightarrow> bool" where
  "fully_adjudicated l \<longleftrightarrow> gl_label_status l = ADJUDICATED \<and> truthy (gl_adjudication_ref l) \<and>
     2 \<le> card (set (gl_reviewer_refs l)) \<and>
     (\<forall>g \<in> set (gl_criteria l). gv_reviewer_ref ` set (gc_reviewer_votes g) = set (gl_reviewer_refs l))"

lemma validate_labels_Inr:
  assumes "validate_labels_against_policy ls p split b = Inr u"
  shows "validate_label_list b p ls = Inr ()" and
    "b \<Longrightarrow> gl_stage ` set (filter (\<lambda>l. gl_split l = split) ls) = {REGISTRATION, COMPLETION}"
  using assms by (auto simp: validate_labels_against_policy_def split: sum.splits if_splits)

lemma adjudicated_label:
  assumes "gold_case_valid l" and "gl_label_status l = ADJUDICATED"
    and "\<forall>g \<in> set (gl_criteria l). set (map gv_reviewer_ref (gc_reviewer_votes g)) = set (gl_reviewer_refs l)"
  shows "fully_adjudicated l"
proof -
  have c: "label_contract l" using assms(1) by (simp add: gold_case_valid_def)
  then have "sorted_set (gl_reviewer_refs l) = gl_reviewer_refs l" "2 \<le> length (gl_reviewer_refs l)"
    "truthy (gl_adjudication_ref l)"
    using assms(2) by (simp_all add: label_contract_def)
  moreover have "distinct (gl_reviewer_refs l)"
    using calculation(1) by (metis sorted_set_def distinct_remdups distinct_sort)
  ultimately show ?thesis using assms(2,3) by (simp add: fully_adjudicated_def distinct_card)
qed

lemma load_package_Inr:
  assumes "load_gold_benchmark_package env frontmatter dir ad ao = Inr pkg"
  obtains mf pf lf af where
    "dir ''benchmark-manifest.yaml'' = PackageFile mf" "load_manifest mf = Inr (gp_manifest pkg)"
    "gp_manifest_sha256 pkg = kf_sha256 mf" "benchmark_executable ad ao (bm_status (gp_manifest pkg))"
    "load_package_policy env (gp_manifest pkg) pf = Inr (gp_policy pkg)"
    "validate_status_pair (bm_status (gp_manifest pkg)) (pk_status (gp_policy pkg)) = Inr ()"
    "dir (bl_path (bm_labels (gp_manifest pkg))) = PackageFile lf"
    "load_package_labels (gp_manifest pkg) lf = Inr (gp_labels pkg)"
    "validate_labels_against_policy (gp_labels pkg) (gp_policy pkg) (bm_evaluation_split (gp_manifest pkg))
       (bm_status (gp_manifest pkg) = BM_APPROVED) = Inr ()"
    "dir (ba_path (bm_approval (gp_manifest pkg))) = PackageFile af"
    "load_package_approval frontmatter (gp_manifest pkg) af = Inr (gp_approval pkg)"
    "validate_approval env (gp_manifest pkg) (gp_policy pkg) (gp_approval pkg) = Inr ()"
  using assms safe_package_file_Inr
  by (auto simp: load_gold_benchmark_package_def bind_res_Inr if_error_Inr simp del: not_None_eq) blast

lemma loaded_package:
  assumes "load_gold_benchmark_package env frontmatter dir ad ao = Inr pkg"
  shows "benchmark_manifest_valid (gp_manifest pkg)" and "policy_bound env pkg"
    and "\<forall>l \<in> set (gp_labels pkg). gold_case_valid l \<and> label_covers_policy pkg l"
    and "distinct (map gold_case_key (gp_labels pkg))"
    and "approval_matches env (gp_manifest pkg) (gp_policy pkg) (gp_approval pkg)"
    and "owner_approval_valid (gp_approval pkg)"
    and "\<exists>lf af. dir (bl_path (bm_labels (gp_manifest pkg))) = PackageFile lf \<and>
      kf_sha256 lf = bl_sha256 (bm_labels (gp_manifest pkg)) \<and>
      dir (ba_path (bm_approval (gp_manifest pkg))) = PackageFile af \<and>
      kf_sha256 af = ba_sha256 (bm_approval (gp_manifest pkg))"
    and "\<exists>mf. dir ''benchmark-manifest.yaml'' = PackageFile mf \<and> gp_manifest_sha256 pkg = kf_sha256 mf"
    and "bm_status (gp_manifest pkg) = BM_APPROVED \<Longrightarrow> \<forall>l \<in> set (gp_labels pkg). fully_adjudicated l"
    and "bm_status (gp_manifest pkg) = BM_APPROVED \<Longrightarrow>
      gl_stage ` set (filter (\<lambda>l. gl_split l = bm_evaluation_split (gp_manifest pkg)) (gp_labels pkg)) =
      {REGISTRATION, COMPLETION}"
    and "benchmark_executable ad ao (bm_status (gp_manifest pkg))"
proof -
  obtain mf pf lf af where l: "dir ''benchmark-manifest.yaml'' = PackageFile mf"
    "load_manifest mf = Inr (gp_manifest pkg)"
    "gp_manifest_sha256 pkg = kf_sha256 mf" "benchmark_executable ad ao (bm_status (gp_manifest pkg))"
    "load_package_policy env (gp_manifest pkg) pf = Inr (gp_policy pkg)"
    "validate_status_pair (bm_status (gp_manifest pkg)) (pk_status (gp_policy pkg)) = Inr ()"
    "dir (bl_path (bm_labels (gp_manifest pkg))) = PackageFile lf"
    "load_package_labels (gp_manifest pkg) lf = Inr (gp_labels pkg)"
    "validate_labels_against_policy (gp_labels pkg) (gp_policy pkg) (bm_evaluation_split (gp_manifest pkg))
       (bm_status (gp_manifest pkg) = BM_APPROVED) = Inr ()"
    "dir (ba_path (bm_approval (gp_manifest pkg))) = PackageFile af"
    "load_package_approval frontmatter (gp_manifest pkg) af = Inr (gp_approval pkg)"
    "validate_approval env (gp_manifest pkg) (gp_policy pkg) (gp_approval pkg) = Inr ()"
    using assms by (rule load_package_Inr)
  note labels = load_package_labels_Inr [OF l(8)]
  note gold = load_gold_labels_Inr [of lf "gp_labels pkg"] and checked = validate_labels_Inr [OF l(9)]
  note each = checked(1) [unfolded validate_label_list_Inr]
  show "benchmark_manifest_valid (gp_manifest pkg)" using l(2) by (rule load_manifest_Inr)
  show "policy_bound env pkg"
    using load_package_policy_Inr [OF l(5)] l(6) by (simp add: policy_bound_def validate_status_pair_def split: if_splits)
  show "\<forall>l \<in> set (gp_labels pkg). gold_case_valid l \<and> label_covers_policy pkg l"
    using labels gold each by (auto simp: label_covers_policy_def list_all_iff)
  then show "bm_status (gp_manifest pkg) = BM_APPROVED \<Longrightarrow> \<forall>l \<in> set (gp_labels pkg). fully_adjudicated l"
    using each by (auto intro: adjudicated_label)
  show "distinct (map gold_case_key (gp_labels pkg))" using labels gold by blast
  show "approval_matches env (gp_manifest pkg) (gp_policy pkg) (gp_approval pkg)"
    using l(12) by (simp add: validate_approval_def split: if_splits)
  show "owner_approval_valid (gp_approval pkg)" using load_package_approval_Inr [OF l(11)] by blast
  show "bm_status (gp_manifest pkg) = BM_APPROVED \<Longrightarrow>
      gl_stage ` set (filter (\<lambda>l. gl_split l = bm_evaluation_split (gp_manifest pkg)) (gp_labels pkg)) =
      {REGISTRATION, COMPLETION}" by (rule checked(2))
  show "benchmark_executable ad ao (bm_status (gp_manifest pkg))" by (rule l(4))
  show "\<exists>mf. dir ''benchmark-manifest.yaml'' = PackageFile mf \<and> gp_manifest_sha256 pkg = kf_sha256 mf"
    using l(1,3) by blast
  show "\<exists>lf af. dir (bl_path (bm_labels (gp_manifest pkg))) = PackageFile lf \<and>
      kf_sha256 lf = bl_sha256 (bm_labels (gp_manifest pkg)) \<and>
      dir (ba_path (bm_approval (gp_manifest pkg))) = PackageFile af \<and>
      kf_sha256 af = ba_sha256 (bm_approval (gp_manifest pkg))"
    using l(7,10) labels load_package_approval_Inr [OF l(11)] by blast
qed

section \<open>Evaluation\<close>

abbreviation evaluation_labels :: "gold_package \<Rightarrow> gold_case_label list" where
  "evaluation_labels pkg \<equiv> filter (\<lambda>l. gl_split l = bm_evaluation_split (gp_manifest pkg)) (gp_labels pkg)"

text \<open>The prediction that answers a label.\<close>

definition prediction_for :: "benchmark_prediction list \<Rightarrow> gold_case_label \<Rightarrow> benchmark_prediction" where
  "prediction_for ps l = the (find (\<lambda>p. prediction_key p = gold_case_key l) ps)"

lemma prediction_for_index:
  "distinct (map prediction_key ps) \<Longrightarrow> the (map_of (index_by_key ps []) (gold_case_key l)) = prediction_for ps l"
  using map_of_index [of ps "[]" "gold_case_key l"] by (simp add: prediction_for_def split: option.split)

lemma prediction_for_key:
  assumes "distinct (map prediction_key ps)" and "gold_case_key l \<in> prediction_key ` set ps"
  shows "prediction_for ps l \<in> set ps \<and> prediction_key (prediction_for ps l) = gold_case_key l"
proof -
  obtain p where "p \<in> set ps" "prediction_key p = gold_case_key l" using assms(2) by auto
  then show ?thesis
    using index_finds [OF assms(1), of "gold_case_key l" p] prediction_for_index [OF assms(1), of l] by simp
qed

lemma evaluated_counts:
  assumes "evaluate_gold_benchmark env now pkg ps allow = Inr r" and "\<forall>l \<in> set (gp_labels pkg). gl_criteria l \<noteq> []"
    and ids: "\<forall>l \<in> set (gp_labels pkg). distinct (map gc_criterion_id (gl_criteria l))"
  obtains c where "r = quality_report_of env now pkg (evaluation_labels pkg) c" "quality_report_valid r"
    "distinct (map prediction_key ps)"
    "prediction_key ` set ps = gold_case_key ` set (evaluation_labels pkg)"
    "counts_ok (length (evaluation_labels pkg)) c"
    "\<forall>l \<in> set (evaluation_labels pkg). answers env pkg l (prediction_for ps l)"
    "bc_negative_case c = length (filter negative_label (evaluation_labels pkg))"
    "bc_dangerous_positive c = length (filter (\<lambda>l. dangerous l (prediction_for ps l)) (evaluation_labels pkg))"
    "tallied (graded (prediction_for ps) (evaluation_labels pkg)) zero_counts c"
    "bc_correct_recommendations c =
        length (filter (\<lambda>l. bx_recommendation (prediction_for ps l) = gl_expected_recommendation l) (evaluation_labels pkg))"
proof -
  obtain c where d: "distinct (map prediction_key ps)"
    and k: "prediction_key ` set ps = gold_case_key ` set (evaluation_labels pkg)"
    and c: "count_labels env pkg (map_of (index_by_key ps [])) (evaluation_labels pkg) zero_counts = Inr c"
    and r: "r = quality_report_of env now pkg (evaluation_labels pkg) c" "quality_report_valid r"
    using assms(1) index_keys [of ps "[]"]
    by (auto simp: evaluate_gold_benchmark_def index_predictions_eq Let_def split: if_splits sum.splits)
  have "\<forall>l \<in> set (evaluation_labels pkg). gl_criteria l \<noteq> []" using assms(2) by simp
  note n = count_labels_Inr [OF c counts_ok_zero this, unfolded prediction_for_index [OF d]]
  have m: "tallied (graded (prediction_for ps) (evaluation_labels pkg)) zero_counts c \<and>
      bc_correct_recommendations c =
        length (filter (\<lambda>l. bx_recommendation (prediction_for ps l) = gl_expected_recommendation l) (evaluation_labels pkg))"
    using count_labels_tallied [OF c, unfolded prediction_for_index [OF d]] ids by (simp add: zero_counts_def)
  show ?thesis by (rule that [OF r d k]) (use n m in \<open>simp_all add: zero_counts_def\<close>)
qed

lemma counts_give_valid:
  assumes "counts_ok (length ls) c" "ls \<noteq> []" "0 < bc_criterion c" "sound_division env"
    and "is_sha256 (gp_manifest_sha256 pkg)" "is_sha256 (gb_sha_policy env (gp_policy pkg))"
    and "benchmark_manifest_valid (gp_manifest pkg)"
  shows "quality_report_valid (quality_report_of env now pkg ls c)"
proof -
  have "0 < length ls" using assms(2) by simp
  note rates = rates_unit [OF assms(4,1) this assms(3)]
  have "approval_contract (gp_manifest pkg)" using assms(7) by (simp add: benchmark_manifest_valid_def)
  then have "official_decision (quality_report_of env now pkg ls c)"
    by (auto simp: official_decision_def quality_report_of_def Let_def approval_contract_def threshold_checks_def)
  moreover have "1 \<le> length ls" "1 \<le> bc_criterion c" using assms(2,3) by (simp_all add: Suc_le_eq)
  ultimately show ?thesis using assms(5,6) rates
    by (simp add: quality_report_valid_def quality_report_of_def Let_def)
qed

section \<open>A small package\<close>

definition demo_gold_criterion :: "string \<Rightarrow> criterion_definition" where
  "demo_gold_criterion i = builtin_criterion (\<lambda>_. ''t'') (\<lambda>_. ''q'') i [''g''] True None"

definition demo_gold_policy :: policy_pack where
  "demo_gold_policy = demo_policy\<lparr>pk_status := PUBLISHED, pk_approval_ref := Some ''ap'',
     pk_registration := (pk_registration demo_policy)\<lparr>sp_criteria := [demo_gold_criterion ''REG-KPI'']\<rparr>,
     pk_completion := (pk_completion demo_policy)\<lparr>sp_criteria := [demo_gold_criterion ''COM-KPI'']\<rparr>\<rparr>"

definition demo_gold_env :: gold_env where
  "demo_gold_env = \<lparr>gb_sha_policy = (\<lambda>_. demo_sha), gb_sha_text = (\<lambda>_. demo_sha),
     gb_div = (\<lambda>a b. of_nat a / of_nat b)\<rparr>"

definition demo_thresholds :: benchmark_thresholds where
  "demo_thresholds = \<lparr>bt_criterion_assessment_accuracy_min = 1, bt_recommendation_accuracy_min = 1,
     bt_evidence_locator_precision_min = 1, bt_evidence_locator_recall_min = 1,
     bt_insufficient_evidence_recall_min = 1, bt_required_risk_flag_recall_min = 1,
     bt_human_pre_adjudication_agreement_min = 1, bt_dangerous_positive_rate_max = 0,
     bt_unsupported_claim_rate_max = 0\<rparr>"

definition demo_manifest :: benchmark_manifest where
  "demo_manifest = \<lparr>bm_benchmark_id = ''gold'', bm_version = ''1.0.0'', bm_status = BM_APPROVED, bm_owner_ref = ''o'',
     bm_approval_ref = Some ''ap'', bm_description = ''d'', bm_evaluation_split = TEST,
     bm_policy = \<lparr>bp_path = ''p'', bp_policy_id = ''axcalib.default'', bp_version = ''1.0.0'', bp_canonical_sha256 = demo_sha\<rparr>,
     bm_labels = \<lparr>bl_path = ''l'', bl_sha256 = demo_sha, bl_record_count = 2\<rparr>,
     bm_approval = \<lparr>ba_path = ''a'', ba_sha256 = demo_sha\<rparr>, bm_thresholds = Some demo_thresholds\<rparr>"

definition demo_gold_label :: "review_stage \<Rightarrow> gold_case_label" where
  "demo_gold_label st =
     (let first = st = REGISTRATION; a = (if first then INSUFFICIENT_EVIDENCE else MET)
      in \<lparr>gl_label_id = (if first then ''one'' else ''two''), gl_project_id = ''p'', gl_stage = st, gl_split = TEST,
          gl_snapshot_sha256 = demo_sha, gl_artifact_sha256 = demo_sha,
          gl_expected_recommendation = (if first then NEEDS_CHANGES else ACCEPT),
          gl_criteria = [\<lparr>gc_criterion_id = (if first then ''REG-KPI'' else ''COM-KPI''), gc_expected_assessment = a,
            gc_acceptable_evidence_locators = (if first then [] else [''pptx://slide/1'']),
            gc_required_risk_flags = (if first then [''f''] else []),
            gc_reviewer_votes = [\<lparr>gv_reviewer_ref = ''a'', gv_assessment = a\<rparr>, \<lparr>gv_reviewer_ref = ''b'', gv_assessment = a\<rparr>],
            gc_rationale = ''r''\<rparr>],
          gl_label_status = ADJUDICATED, gl_reviewer_refs = [''a'', ''b''], gl_adjudication_ref = Some ''j'', gl_notes = None\<rparr>)"

definition demo_owner_approval :: owner_approval where
  "demo_owner_approval = \<lparr>oa_benchmark_id = ''gold'', oa_benchmark_version = ''1.0.0'', oa_status = BM_APPROVED,
     oa_decision = OWNER_APPROVE, oa_owner_ref = ''o'', oa_approval_ref = Some ''ap'', oa_approved_at = Some 0,
     oa_policy_id = ''axcalib.default'', oa_policy_version = ''1.0.0'', oa_policy_sha256 = demo_sha,
     oa_labels_sha256 = demo_sha, oa_data_classification = ''synthetic'', oa_external_model_allowed = False\<rparr>"

definition demo_package_file :: package_file where
  "demo_package_file = \<lparr>kf_size = Some 9, kf_sha256 = demo_sha, kf_manifest = YamlContent demo_manifest,
     kf_policy = PolicyYaml demo_gold_policy,
     kf_labels = Some [LabelLine 9 (Some (demo_gold_label REGISTRATION)), BlankLabelLine,
       LabelLine 9 (Some (demo_gold_label COMPLETION))],
     kf_lines = Some [''---'', ''x'', ''---'']\<rparr>"

definition demo_package :: gold_package where
  "demo_package = \<lparr>gp_manifest_sha256 = demo_sha, gp_manifest = demo_manifest, gp_policy = demo_gold_policy,
     gp_labels = [demo_gold_label REGISTRATION, demo_gold_label COMPLETION], gp_approval = demo_owner_approval\<rparr>"

definition demo_prediction :: "review_stage \<Rightarrow> benchmark_prediction" where
  "demo_prediction st =
     (let l = demo_gold_label st; g = hd (gl_criteria l)
      in \<lparr>bx_project_id = ''p'', bx_stage = st, bx_snapshot_sha256 = demo_sha, bx_artifact_sha256 = demo_sha,
          bx_policy_id = ''axcalib.default'', bx_policy_version = ''1.0.0'', bx_policy_sha256 = demo_sha,
          bx_recommendation = gl_expected_recommendation l,
          bx_criteria = [\<lparr>pn_criterion_id = gc_criterion_id g, pn_assessment = gc_expected_assessment g,
            pn_evidence_locators = gc_acceptable_evidence_locators g, pn_risk_flags = gc_required_risk_flags g\<rparr>],
          bx_model = None, bx_live_model = False\<rparr>)"

abbreviation demo_dir :: package_dir where
  "demo_dir \<equiv> \<lambda>_. PackageFile demo_package_file"

lemma demo_ids [simp]:
  "is_policy_id ''gold''" "is_policy_id ''axcalib.default''" "is_policy_id ''one''" "is_policy_id ''two''"
  "is_semver ''1.0.0''" "is_label_project_id ''p''" "is_criterion_id ''REG-KPI''" "is_criterion_id ''COM-KPI''"
  "is_stable_gold_locator ''pptx://slide/1''" "sorted_set [''a'', ''b''] = [''a'', ''b'']" "sorted_set [] = []"
  "sorted_set [''f''] = [''f'']"
  by code_simp+

lemma demo_manifest_valid: "benchmark_manifest_valid demo_manifest"
  by (simp add: benchmark_manifest_valid_def demo_manifest_def approval_contract_def thresholds_valid_def
      unit_interval_def demo_thresholds_def)

lemma demo_owner_approval_valid: "owner_approval_valid demo_owner_approval"
  by (simp add: owner_approval_valid_def demo_owner_approval_def owner_decision_contract_def)

lemma demo_gold_label_valid: "gold_case_valid (demo_gold_label st)"
  by (cases st) (simp_all add: demo_gold_label_def gold_case_valid_def gold_criterion_valid_def evidence_contract_def
      label_contract_def recommendations_for_stage_def asserting_def)

lemma demo_gold_policy_loads:
  "load_package_policy demo_gold_env demo_manifest demo_package_file = Inr demo_gold_policy"
proof -
  have c: "criterion_definition_valid (demo_gold_criterion i)" if "is_criterion_id i" for i
    using that by (simp add: criterion_definition_valid_def demo_gold_criterion_def builtin_criterion_def is_criterion_id_def)
  have [simp]: "cd_blocking_recommendation (demo_gold_criterion i) = None" for i
    by (simp add: demo_gold_criterion_def builtin_criterion_def)
  have "policy_pack_valid demo_gold_policy"
    using demo_policy(1)
    by (auto simp: policy_pack_valid_def demo_gold_policy_def stage_policy_valid_def stage_semantics_def gate_binding_def
        Let_def c)
  moreover have "pk_policy_id demo_gold_policy = ''axcalib.default''" "pk_version demo_gold_policy = ''1.0.0''"
    by (simp_all add: demo_gold_policy_def demo_policy_def builtin_default_policy_def)
  ultimately show ?thesis
    by (simp add: load_package_policy_def load_policy_file_def register_profile_def profile_ref_of_def Let_def
        review_profile_ref_valid_def demo_package_file_def demo_manifest_def demo_gold_env_def)
qed

lemma demo_labels_load:
  "load_package_labels demo_manifest demo_package_file = Inr [demo_gold_label REGISTRATION, demo_gold_label COMPLETION]"
proof -
  have "gold_case_key (demo_gold_label REGISTRATION) \<noteq> gold_case_key (demo_gold_label COMPLETION)"
    "gl_label_id (demo_gold_label REGISTRATION) \<noteq> gl_label_id (demo_gold_label COMPLETION)"
    by (simp_all add: gold_case_key_def demo_gold_label_def)
  then show ?thesis
    by (simp add: load_package_labels_def load_gold_labels_def demo_package_file_def demo_manifest_def
        MAX_LABEL_LINE_BYTES_def demo_gold_label_valid)
qed

lemma demo_approval_loads:
  "load_package_approval (\<lambda>_. YamlContent demo_owner_approval) demo_manifest demo_package_file = Inr demo_owner_approval"
proof -
  have "strip ''---'' = ''---''" by code_simp
  then show ?thesis
    by (simp add: load_package_approval_def load_owner_approval_def demo_package_file_def demo_manifest_def
        demo_owner_approval_valid)
qed

lemma demo_checks:
  "validate_labels_against_policy [demo_gold_label REGISTRATION, demo_gold_label COMPLETION] demo_gold_policy TEST True = Inr ()"
  "validate_approval demo_gold_env demo_manifest demo_gold_policy demo_owner_approval = Inr ()"
  by code_simp+

lemma demo_loads:
  "load_gold_benchmark_package demo_gold_env (\<lambda>_. YamlContent demo_owner_approval) demo_dir False False = Inr demo_package"
proof -
  have files: "safe_package_file demo_dir i MAX_MANIFEST_BYTES = Inr demo_package_file"
    "safe_package_file demo_dir i MAX_POLICY_BYTES = Inr demo_package_file"
    "safe_package_file demo_dir i MAX_LABELS_BYTES = Inr demo_package_file"
    "safe_package_file demo_dir i MAX_APPROVAL_BYTES = Inr demo_package_file" for i
    by (simp_all add: safe_package_file_def demo_package_file_def MAX_MANIFEST_BYTES_def MAX_POLICY_BYTES_def
        MAX_LABELS_BYTES_def MAX_APPROVAL_BYTES_def)
  have "load_manifest demo_package_file = Inr demo_manifest" "kf_sha256 demo_package_file = demo_sha"
    "pk_status demo_gold_policy = PUBLISHED" "bm_status demo_manifest = BM_APPROVED" "bm_evaluation_split demo_manifest = TEST"
    by (simp_all add: load_manifest_def demo_package_file_def demo_gold_policy_def demo_manifest_valid)
      (simp_all add: demo_manifest_def)
  then show ?thesis
    by (simp add: load_gold_benchmark_package_def files benchmark_executable_def validate_status_pair_def demo_gold_policy_loads demo_labels_load
        demo_approval_loads demo_checks demo_package_def)
qed

lemma demo_passes:
  "map_sum exn_cls qr_passed (evaluate_gold_benchmark demo_gold_env 0 demo_package
     [demo_prediction COMPLETION, demo_prediction REGISTRATION] False) = Inr (Some True)"
  by code_simp

lemma demo_division: "sound_division demo_gold_env"
  by (simp add: sound_division_def demo_gold_env_def unit_interval_def divide_simps)

section \<open>Properties\<close>

text \<open>
  The order in which the predictions are handed over is irrelevant: the same predictions give the
  same report or the same error.
\<close>

theorem prediction_order_irrelevant:
  assumes "mset ps = mset qs"
  shows "evaluate_gold_benchmark env now pkg ps allow = evaluate_gold_benchmark env now pkg qs allow"
proof -
  have s: "set ps = set qs" using assms by (rule mset_eq_setD)
  have "mset (map prediction_key ps) = mset (map prediction_key qs)" using assms by simp
  then have d: "distinct (map prediction_key ps) \<longleftrightarrow> distinct (map prediction_key qs)"
    using mset_eq_imp_distinct_iff by blast
  show ?thesis
  proof (cases "distinct (map prediction_key ps)")
    case True
    with d have qs: "distinct (map prediction_key qs)" by simp
    have m: "map_of (index_by_key ps []) = map_of (index_by_key qs [])"
      using index_finds [OF True] index_finds [OF qs] s by (intro map_eq_by_Some) simp
    have "set (map fst (index_by_key ps [])) = set (map fst (index_by_key qs []))"
      using index_keys [of ps "[]"] index_keys [of qs "[]"] s by simp
    with True qs m show ?thesis by (simp add: evaluate_gold_benchmark_def index_predictions_eq Let_def)
  next
    case False
    with d show ?thesis by (simp add: evaluate_gold_benchmark_def index_predictions_eq Let_def)
  qed
qed

text \<open>
  A package loads only if everything in it agrees: the files have the pinned hashes, the policy is the
  pinned one in the matching lifecycle status, every label covers exactly the criteria of its stage, and
  the owner's record names this benchmark, this policy and these labels.  An approved package moreover
  has the owner's approval, thresholds, test labels of both gates, and every label adjudicated over the
  votes of at least two reviewers on every criterion.
\<close>

theorem package_fails_closed:
  assumes "load_gold_benchmark_package env frontmatter dir ad ao = Inr pkg"
  shows "benchmark_executable ad ao (bm_status (gp_manifest pkg)) \<and> policy_bound env pkg \<and>
    approval_matches env (gp_manifest pkg) (gp_policy pkg) (gp_approval pkg) \<and>
    (\<exists>lf af. dir (bl_path (bm_labels (gp_manifest pkg))) = PackageFile lf \<and>
      kf_sha256 lf = bl_sha256 (bm_labels (gp_manifest pkg)) \<and>
      dir (ba_path (bm_approval (gp_manifest pkg))) = PackageFile af \<and>
      kf_sha256 af = ba_sha256 (bm_approval (gp_manifest pkg))) \<and>
    (\<forall>l \<in> set (gp_labels pkg). gold_case_valid l \<and> label_covers_policy pkg l) \<and>
    distinct (map gold_case_key (gp_labels pkg)) \<and>
    (bm_status (gp_manifest pkg) = BM_APPROVED \<longrightarrow>
      oa_decision (gp_approval pkg) = OWNER_APPROVE \<and> oa_approved_at (gp_approval pkg) \<noteq> None \<and>
      bm_thresholds (gp_manifest pkg) \<noteq> None \<and> bm_evaluation_split (gp_manifest pkg) = TEST \<and>
      gl_stage ` set (evaluation_labels pkg) = {REGISTRATION, COMPLETION} \<and>
      (\<forall>l \<in> set (gp_labels pkg). fully_adjudicated l))"
proof -
  note l = loaded_package [OF assms]
  have "bm_status (gp_manifest pkg) = BM_APPROVED \<longrightarrow>
      oa_decision (gp_approval pkg) = OWNER_APPROVE \<and> oa_approved_at (gp_approval pkg) \<noteq> None \<and>
      bm_thresholds (gp_manifest pkg) \<noteq> None \<and> bm_evaluation_split (gp_manifest pkg) = TEST"
    using l(1,5,6)
    by (simp add: benchmark_manifest_valid_def approval_contract_def approval_matches_def owner_approval_valid_def
        owner_decision_contract_def)
  with l show ?thesis by blast
qed

text \<open>
  C23. What a pass means.  The benchmark is one its owner approved; exactly the labels of the evaluation
  split were answered, each by one prediction made from the labelled snapshot and artifact with the
  labelled policy; and each rate of the report, which is the quotient of the pairs of a labelled and a predicted
  criterion (or of the labels) that it names, reaches the owner's threshold.  Pairs that expect insufficient
  evidence, required risk flags, pairs of human votes and labels that should not pass are there to be counted;
  three rates have a value for an empty count instead: locator precision is 1 when neither side has a locator and 0
  when only the labels have one, locator recall is 1 when the labels have none, and the rate of unsupported claims
  is 0 when no prediction asserts anything.
\<close>

theorem benchmark_pass_means:
  assumes "load_gold_benchmark_package env frontmatter dir ad ao = Inr pkg"
    and "evaluate_gold_benchmark env now pkg ps allow = Inr r" and "qr_passed r = Some True"
  shows "oa_decision (gp_approval pkg) = OWNER_APPROVE \<and> distinct (map prediction_key ps) \<and>
    prediction_key ` set ps = gold_case_key ` set (evaluation_labels pkg) \<and>
    (\<forall>l \<in> set (evaluation_labels pkg). answers env pkg l (prediction_for ps l)) \<and>
    (\<exists>t. bm_thresholds (gp_manifest pkg) = Some t \<and>
      (let ls = evaluation_labels pkg; gs = graded (prediction_for ps) ls; rates = qr_rates r;
           matched = summed matched_locators gs;
           acceptable = summed (\<lambda>g p. card (set (gc_acceptable_evidence_locators g))) gs;
           cited = summed (\<lambda>g p. card (set (pn_evidence_locators p))) gs;
           required = summed (\<lambda>g p. card (set (gc_required_risk_flags g))) gs;
           raised = summed (\<lambda>g p. card (set (gc_required_risk_flags g) \<inter> set (pn_risk_flags p))) gs;
           votes = summed (\<lambda>g p. length (vote_pairs (gc_reviewer_votes g))) gs
       in gr_criterion_accuracy rates = gb_div env (tally correct gs) (length gs) \<and>
         bt_criterion_assessment_accuracy_min t \<le> gr_criterion_accuracy rates \<and>
         gr_recommendation_accuracy rates =
           gb_div env (length (filter (\<lambda>l. bx_recommendation (prediction_for ps l) = gl_expected_recommendation l) ls)) (length ls) \<and>
         bt_recommendation_accuracy_min t \<le> gr_recommendation_accuracy rates \<and>
         gr_locator_precision rates = (if 0 < cited then gb_div env matched cited else if acceptable = 0 then 1 else 0) \<and>
         bt_evidence_locator_precision_min t \<le> gr_locator_precision rates \<and>
         gr_locator_recall rates = (if 0 < acceptable then gb_div env matched acceptable else 1) \<and>
         bt_evidence_locator_recall_min t \<le> gr_locator_recall rates \<and>
         0 < tally insufficient gs \<and>
         gr_insufficient_recall rates = gb_div env (tally (\<lambda>g p. insufficient g p \<and> correct g p) gs) (tally insufficient gs) \<and>
         bt_insufficient_evidence_recall_min t \<le> gr_insufficient_recall rates \<and>
         0 < required \<and> gr_risk_flag_recall rates = gb_div env raised required \<and>
         bt_required_risk_flag_recall_min t \<le> gr_risk_flag_recall rates \<and>
         0 < votes \<and> gr_human_agreement rates = gb_div env (summed (\<lambda>g p. agreeing_pairs g) gs) votes \<and>
         bt_human_pre_adjudication_agreement_min t \<le> gr_human_agreement rates \<and>
         gr_unsupported_rate rates = (if 0 < tally claims gs then gb_div env (tally unsupported gs) (tally claims gs) else 0) \<and>
         gr_unsupported_rate rates \<le> bt_unsupported_claim_rate_max t \<and>
         0 < length (filter negative_label ls) \<and>
         gr_dangerous_rate rates = gb_div env (length (filter (\<lambda>l. dangerous l (prediction_for ps l)) ls))
           (length (filter negative_label ls)) \<and>
         gr_dangerous_rate rates \<le> bt_dangerous_positive_rate_max t))"
proof -
  note l = loaded_package [OF assms(1)]
  have ne: "\<forall>l \<in> set (gp_labels pkg). gl_criteria l \<noteq> []" and ids: "\<forall>l \<in> set (gp_labels pkg). distinct (map gc_criterion_id (gl_criteria l))"
    using l(3) by (simp_all add: gold_case_valid_def label_contract_def)
  from assms(2) ne ids obtain c where c: "r = quality_report_of env now pkg (evaluation_labels pkg) c"
    "distinct (map prediction_key ps)" "prediction_key ` set ps = gold_case_key ` set (evaluation_labels pkg)"
    "\<forall>l \<in> set (evaluation_labels pkg). answers env pkg l (prediction_for ps l)"
    "bc_negative_case c = length (filter negative_label (evaluation_labels pkg))"
    "bc_dangerous_positive c = length (filter (\<lambda>l. dangerous l (prediction_for ps l)) (evaluation_labels pkg))"
    and sums: "tallied (graded (prediction_for ps) (evaluation_labels pkg)) zero_counts c"
    and recs: "bc_correct_recommendations c =
        length (filter (\<lambda>l. bx_recommendation (prediction_for ps l) = gl_expected_recommendation l) (evaluation_labels pkg))"
    by (rule evaluated_counts)
  note sums = sums [unfolded tallied_def] recs
  have st: "bm_status (gp_manifest pkg) = BM_APPROVED"
    using assms(3) c(1) by (simp add: quality_report_of_def Let_def split: if_splits)
  then obtain t where t: "bm_thresholds (gp_manifest pkg) = Some t" and approved: "oa_decision (gp_approval pkg) = OWNER_APPROVE"
    using l(1,5,6)
    by (auto simp: benchmark_manifest_valid_def approval_contract_def approval_matches_def owner_approval_valid_def
        owner_decision_contract_def)
  have checks: "list_all snd (threshold_checks t (qr_rates r) c)"
    using assms(3) st t by (simp add: c(1) quality_report_of_def Let_def)
  have rates: "qr_rates r = gold_rates_of env (length (evaluation_labels pkg)) c"
    by (simp add: c(1) quality_report_of_def Let_def)
  define ls where "ls = evaluation_labels pkg"
  note [folded ls_def] = c(2-6) sums rates
  with checks approved show ?thesis
    unfolding t Let_def ls_def [symmetric]
    by (simp add: threshold_checks_def gold_rates_of_def rate_def zero_counts_def split: if_splits)
qed

text \<open>
  C24. Evaluating a loaded package never fails by its own arithmetic: it refuses with the benchmark's error,
  or the report it returns satisfies every bound of the report's schema, its decision included.
\<close>

theorem evaluation_reports_or_refuses:
  assumes "load_gold_benchmark_package env frontmatter dir ad ao = Inr pkg" and "sound_division env"
    and "\<forall>p. is_sha256 (gb_sha_policy env p)" and "\<forall>i f. dir i = PackageFile f \<longrightarrow> is_sha256 (kf_sha256 f)"
  shows "case evaluate_gold_benchmark env now pkg ps allow of
      Inl e \<Rightarrow> exn_cls e = GoldBenchmarkError | Inr r \<Rightarrow> quality_report_valid r"
proof -
  note l = loaded_package [OF assms(1)]
  have ne: "\<forall>l \<in> set (evaluation_labels pkg). gl_criteria l \<noteq> []" using l(3) by (simp add: gold_case_valid_def)
  have sha: "is_sha256 (gp_manifest_sha256 pkg)" using l(8) assms(4) by auto
  have "quality_report_valid (quality_report_of env now pkg (evaluation_labels pkg) c)"
    if "count_labels env pkg k (evaluation_labels pkg) zero_counts = Inr c" "evaluation_labels pkg \<noteq> []" for k c
  proof (rule counts_give_valid [OF _ that(2) _ assms(2) sha _ l(1)])
    note n = count_labels_Inr [OF that(1) counts_ok_zero ne]
    have "0 < length (evaluation_labels pkg)" using that(2) by simp
    then show "0 < bc_criterion c" using n by linarith
    show "counts_ok (length (evaluation_labels pkg)) c" using n by simp
  qed (use assms(3) in blast)
  then show ?thesis
    using count_labels_Inl
    by (auto simp: evaluate_gold_benchmark_def index_predictions_eq Let_def gold_error_def split: sum.splits)
qed

section \<open>Witnesses\<close>

lemma demo_report_exists:
  obtains r where "evaluate_gold_benchmark demo_gold_env 0 demo_package
     [demo_prediction COMPLETION, demo_prediction REGISTRATION] False = Inr r" "qr_passed r = Some True"
  using demo_passes
  by (cases "evaluate_gold_benchmark demo_gold_env 0 demo_package [demo_prediction COMPLETION, demo_prediction REGISTRATION] False") auto

theorem prediction_order_irrelevant_witness:
  "evaluate_gold_benchmark demo_gold_env 0 demo_package [demo_prediction COMPLETION, demo_prediction REGISTRATION] False =
   evaluate_gold_benchmark demo_gold_env 0 demo_package [demo_prediction REGISTRATION, demo_prediction COMPLETION] False"
  by (rule prediction_order_irrelevant) simp

theorem package_fails_closed_witness:
  "policy_bound demo_gold_env demo_package \<and> fully_adjudicated (demo_gold_label REGISTRATION) \<and>
   oa_decision (gp_approval demo_package) = OWNER_APPROVE"
  using package_fails_closed [OF demo_loads] by (simp add: demo_package_def demo_manifest_def)

theorem benchmark_pass_means_witness:
  "oa_decision (gp_approval demo_package) = OWNER_APPROVE \<and>
   0 < length (filter negative_label (evaluation_labels demo_package)) \<and>
   answers demo_gold_env demo_package (demo_gold_label COMPLETION)
     (prediction_for [demo_prediction COMPLETION, demo_prediction REGISTRATION] (demo_gold_label COMPLETION))"
proof -
  obtain r where r: "evaluate_gold_benchmark demo_gold_env 0 demo_package
     [demo_prediction COMPLETION, demo_prediction REGISTRATION] False = Inr r" "qr_passed r = Some True"
    by (rule demo_report_exists)
  have "demo_gold_label COMPLETION \<in> set (evaluation_labels demo_package)"
    by (simp add: demo_package_def demo_manifest_def demo_gold_label_def)
  note means = benchmark_pass_means [OF demo_loads r, unfolded Let_def]
  have "0 < length (filter negative_label (evaluation_labels demo_package))" using means by (elim conjE exE)
  with means \<open>demo_gold_label COMPLETION \<in> _\<close> show ?thesis by (elim conjE) simp
qed

theorem evaluation_reports_or_refuses_witness:
  "\<exists>r. evaluate_gold_benchmark demo_gold_env 0 demo_package [demo_prediction COMPLETION, demo_prediction REGISTRATION] False =
     Inr r \<and> quality_report_valid r"
proof -
  have "\<forall>p. is_sha256 (gb_sha_policy demo_gold_env p)" "\<forall>i f. demo_dir i = PackageFile f \<longrightarrow> is_sha256 (kf_sha256 f)"
    by (simp_all add: demo_gold_env_def demo_package_file_def)
  note e = evaluation_reports_or_refuses [OF demo_loads demo_division this]
  obtain r where r: "evaluate_gold_benchmark demo_gold_env 0 demo_package
     [demo_prediction COMPLETION, demo_prediction REGISTRATION] False = Inr r" "qr_passed r = Some True"
    by (rule demo_report_exists)
  then show ?thesis using e [of 0 "[demo_prediction COMPLETION, demo_prediction REGISTRATION]" False] by simp
qed

end
