(* ===== verification/Batch.thy ===== *)
theory Batch
  imports Execution "HOL-Library.Multiset"
begin

text \<open>
  \<open>runtime/batch.py\<close>: batches of pipeline requests on the local executor.  The files of the runner's
  directory are a map from file names, as in \<open>Execution\<close>.  The items of a batch run on a pool of threads;
  each run is one step here, in the order in which the runs end, which is a parameter.  A reading of the
  clock is \<open>t n\<close>, and the clock and the cancellation that the run of an item meets are functions of its id.
\<close>

section \<open>Manifests and results\<close>

record batch_item =
  bi_item_id :: string
  bi_pipeline_id :: string
  bi_pipeline_version :: string
  bi_payload :: "(string \<times> json) list"
  bi_idempotency_key :: string

definition MAX_BATCH_ITEMS :: nat where
  "MAX_BATCH_ITEMS = 10000"

definition MAX_BATCH_JSONL_BYTES :: int where
  "MAX_BATCH_JSONL_BYTES = 10 * 1024 * 1024"

definition batch_item_valid :: "batch_item \<Rightarrow> bool" where
  "batch_item_valid i \<longleftrightarrow> is_safe_id (bi_item_id i) \<and> is_safe_id (bi_idempotency_key i)"

record batch_manifest =
  bj_batch_id :: string
  bj_items :: "batch_item list"

definition batch_manifest_valid :: "batch_manifest \<Rightarrow> bool" where
  "batch_manifest_valid m \<longleftrightarrow> is_safe_id (bj_batch_id m) \<and> bj_items m \<noteq> [] \<and>
     length (bj_items m) \<le> MAX_BATCH_ITEMS \<and> list_all batch_item_valid (bj_items m) \<and>
     distinct (map bi_item_id (bj_items m))"

record batch_item_result =
  bs_item_id :: string
  bs_run_id :: string
  bs_status :: run_status
  bs_attempt :: nat
  bs_checkpoint_uri :: string
  bs_error_code :: "string option"
  bs_replayed :: bool

record batch_result =
  br_batch_id :: string
  br_manifest_sha256 :: string
  br_status :: string
  br_started_at :: int
  br_completed_at :: int
  br_items :: "batch_item_result list"
  br_result_uri :: string

record batch_checkpoint =
  bk_batch_id :: string
  bk_manifest_sha256 :: string
  bk_prepared_at :: int

text \<open>What a file of the directory holds; progress keeps the start, the update and the results so far.\<close>

datatype batch_file =
    BatchCheckpointFile batch_checkpoint
  | BatchProgressFile string int int "batch_item_result list"
  | BatchResultFile batch_result
  | OtherBatchFile string

record 'w batch_env =
  bv_sha_manifest :: "batch_manifest \<Rightarrow> string"
  bv_root :: string
  bv_exec :: "'w exec_env"
  bv_clock :: "string \<Rightarrow> nat \<Rightarrow> int"
  bv_cancel :: "string \<Rightarrow> string option"

record 'w batch_state =
  bz_files :: "string \<Rightarrow> batch_file option"
  bz_exec :: "'w exec_state"

section \<open>Paths\<close>

definition batch_checkpoint_name :: "string \<Rightarrow> string" where
  "batch_checkpoint_name batch_id = ''batch-'' @ batch_id @ ''.json''"

definition batch_progress_name :: "string \<Rightarrow> string" where
  "batch_progress_name batch_id = ''batch-'' @ batch_id @ ''.progress.json''"

definition batch_result_name :: "string \<Rightarrow> string" where
  "batch_result_name batch_id = ''batch-'' @ batch_id @ ''.result.json''"

text \<open>Every path is refused for an id that does not match \<open>BATCH_ID_PATTERN\<close>.\<close>

definition batch_path :: "(string \<Rightarrow> string) \<Rightarrow> string \<Rightarrow> string res" where
  "batch_path name batch_id =
     (if is_safe_id batch_id then Inr (name batch_id) else Inl (Exn ValueError ''invalid batch_id''))"

definition write_batch :: "string \<Rightarrow> batch_file \<Rightarrow> 'w batch_state \<Rightarrow> 'w batch_state" where
  "write_batch path f s = s\<lparr>bz_files := (bz_files s)(path \<mapsto> f)\<rparr>"

section \<open>The runner\<close>

definition parse_batch_checkpoint :: "batch_file \<Rightarrow> batch_checkpoint res" where
  "parse_batch_checkpoint f =
     (case f of
        BatchCheckpointFile k \<Rightarrow>
          if is_sha256 (bk_manifest_sha256 k) then Inr k else Inl (Exn ValidationError ''BatchCheckpoint'')
      | _ \<Rightarrow> Inl (Exn ValidationError ''BatchCheckpoint''))"

definition prepare_manifest ::
  "'w batch_env \<Rightarrow> int \<Rightarrow> batch_manifest \<Rightarrow> 'w batch_state \<Rightarrow> (batch_checkpoint, 'w batch_state) outcome" where
  "prepare_manifest env now m s =
     seq (pure (batch_path batch_checkpoint_name (bj_batch_id m)) s) (\<lambda>path s.
     let digest = bv_sha_manifest env m in
     case bz_files s path of
       Some f \<Rightarrow>
         seq (pure (parse_batch_checkpoint f) s) (\<lambda>current s.
         if bk_manifest_sha256 current \<noteq> digest then
           (Inl (Exn BatchConflictError ''batch ID was reused with a different manifest''), s)
         else (Inr current, s))
     | None \<Rightarrow>
         (let k = \<lparr>bk_batch_id = bj_batch_id m, bk_manifest_sha256 = digest, bk_prepared_at = now\<rparr>
          in (Inr k, write_batch path (BatchCheckpointFile k) s)))"

definition batch_run_id :: "string \<Rightarrow> batch_item \<Rightarrow> string" where
  "batch_run_id batch_id i = ''batch-'' @ batch_id @ ''-'' @ bi_item_id i"

definition batch_context :: "int \<Rightarrow> string \<Rightarrow> batch_item \<Rightarrow> pipeline_context" where
  "batch_context now batch_id i =
     \<lparr>pc_run_id = batch_run_id batch_id i, pc_actor_id = ''system:local'', pc_actor_role = ''system'',
      pc_idempotency_key = Some (bi_idempotency_key i), pc_expected_revision = None, pc_requested_at = now,
      pc_deadline_at = None, pc_cancel_requested = False,
      pc_metadata = [(''batch_id'', batch_id), (''item_id'', bi_item_id i)]\<rparr>"

definition item_result :: "batch_item \<Rightarrow> execution_result \<Rightarrow> batch_item_result" where
  "item_result i x =
     \<lparr>bs_item_id = bi_item_id i, bs_run_id = xr_run_id x, bs_status = xr_status x, bs_attempt = xr_attempt x,
      bs_checkpoint_uri = xr_checkpoint_uri x, bs_error_code = xr_error_code x, bs_replayed = xr_replayed x\<rparr>"

definition run_item ::
  "'w batch_env \<Rightarrow> string \<Rightarrow> batch_item \<Rightarrow> 'w exec_state \<Rightarrow> (batch_item_result, 'w exec_state) outcome" where
  "run_item env batch_id i s =
     (let t = bv_clock env (bi_item_id i); ctx = batch_context (t 0) batch_id i
      in if \<not> pipeline_context_valid ctx then (Inl (Exn ValidationError ''PipelineContext''), s)
         else seq (execute_run (bv_exec env) (\<lambda>n. t (Suc n)) (bi_pipeline_id i) (bi_pipeline_version i)
                     (JObj (bi_payload i)) ctx (bv_cancel env (bi_item_id i)) s)
                (\<lambda>x s. (Inr (item_result i x), s)))"

definition failed_item :: "'w batch_env \<Rightarrow> string \<Rightarrow> batch_item \<Rightarrow> exn \<Rightarrow> batch_item_result" where
  "failed_item env batch_id i e =
     \<lparr>bs_item_id = bi_item_id i, bs_run_id = batch_run_id batch_id i, bs_status = RUN_TERMINAL_FAILURE,
      bs_attempt = 0, bs_checkpoint_uri = bv_root env @ ''/'' @ batch_progress_name batch_id,
      bs_error_code = Some (class_name (exn_cls e)), bs_replayed = False\<rparr>"

definition sorted_results :: "batch_item_result list \<Rightarrow> batch_item_result list" where
  "sorted_results rs = sort_key bs_item_id rs"

definition write_progress ::
  "string \<Rightarrow> int \<Rightarrow> int \<Rightarrow> batch_item_result list \<Rightarrow> 'w batch_state \<Rightarrow> (unit, 'w batch_state) outcome" where
  "write_progress batch_id started now rs s =
     seq (pure (batch_path batch_progress_name batch_id) s) (\<lambda>path s.
     (Inr (), write_batch path (BatchProgressFile batch_id started now (sorted_results rs)) s))"

text \<open>An exception that is no \<open>Exception\<close> leaves the loop, but the pool still runs what was submitted.\<close>

fun run_rest :: "'w batch_env \<Rightarrow> string \<Rightarrow> batch_item list \<Rightarrow> 'w batch_state \<Rightarrow> 'w batch_state" where
  "run_rest env batch_id [] s = s"
| "run_rest env batch_id (i # is) s =
     run_rest env batch_id is (s\<lparr>bz_exec := snd (run_item env batch_id i (bz_exec s))\<rparr>)"

fun collect_items ::
  "'w batch_env \<Rightarrow> (nat \<Rightarrow> int) \<Rightarrow> int \<Rightarrow> string \<Rightarrow> batch_item list \<Rightarrow> batch_item_result list \<Rightarrow>
   'w batch_state \<Rightarrow> (batch_item_result list, 'w batch_state) outcome" where
  "collect_items env t started batch_id [] rs s = (Inr rs, s)"
| "collect_items env t started batch_id (i # is) rs s =
     (let (x, e) = run_item env batch_id i (bz_exec s); s = s\<lparr>bz_exec := e\<rparr>
      in case x of
           Inl exn \<Rightarrow>
             if is_instance exn ExceptionClass then
               (let rs = rs @ [failed_item env batch_id i exn]
                in seq (write_progress batch_id started (t (length rs)) rs s) (\<lambda>_ s.
                   collect_items env t started batch_id is rs s))
             else (Inl exn, run_rest env batch_id is s)
         | Inr r \<Rightarrow>
             (let rs = rs @ [r]
              in seq (write_progress batch_id started (t (length rs)) rs s) (\<lambda>_ s.
                 collect_items env t started batch_id is rs s)))"

definition aggregate_status :: "batch_item_result list \<Rightarrow> string" where
  "aggregate_status rs =
     (if list_all (\<lambda>r. bs_status r \<in> {RUN_SUCCEEDED, RUN_WAITING_HUMAN}) rs then ''succeeded''
      else if list_ex (\<lambda>r. bs_status r = RUN_RETRYABLE_FAILURE) rs then ''partial_retryable_failure''
      else ''partial_terminal_failure'')"

text \<open>\<open>ended\<close> is the items in the order in which their runs end.\<close>

definition batch_run ::
  "'w batch_env \<Rightarrow> (nat \<Rightarrow> int) \<Rightarrow> batch_item list \<Rightarrow> int \<Rightarrow> batch_manifest \<Rightarrow> 'w batch_state \<Rightarrow>
   (batch_result, 'w batch_state) outcome" where
  "batch_run env t ended max_concurrency m s =
     (if \<not> (1 \<le> max_concurrency \<and> max_concurrency \<le> 32) then
        (Inl (Exn ValueError ''max_concurrency must be between 1 and 32''), s)
      else
        seq (prepare_manifest env (t 0) m s) (\<lambda>checkpoint s.
        let started = t 1 in
        seq (collect_items env (\<lambda>n. t (Suc n)) started (bj_batch_id m) ended [] s) (\<lambda>rs s.
        let ordered = sorted_results rs; status = aggregate_status ordered; completed = t (length ended + 2) in
        seq (pure (batch_path batch_result_name (bj_batch_id m)) s) (\<lambda>path s.
        let r = \<lparr>br_batch_id = bj_batch_id m, br_manifest_sha256 = bk_manifest_sha256 checkpoint,
                 br_status = status, br_started_at = started, br_completed_at = completed, br_items = ordered,
                 br_result_uri = bv_root env @ ''/'' @ path\<rparr>
        in (Inr r, write_batch path (BatchResultFile r) s)))))"

section \<open>Manifests from a file\<close>

record batch_source =
  bf_size :: int
  bf_stem :: string
  bf_lines :: "string list option"

fun batch_lines :: "(string \<Rightarrow> batch_item option) \<Rightarrow> string list \<Rightarrow> batch_item list \<Rightarrow> batch_item list res" where
  "batch_lines parse [] items = Inr items"
| "batch_lines parse (l # ls) items =
     (if strip l = [] then batch_lines parse ls items
      else (case parse l of
              None \<Rightarrow> Inl (Exn ValueError ''invalid batch JSONL item at line'')
            | Some i \<Rightarrow>
                if \<not> batch_item_valid i then Inl (Exn ValueError ''invalid batch JSONL item at line'')
                else if MAX_BATCH_ITEMS < length (items @ [i]) then Inl (Exn ValueError ''batch JSONL supports at most 10000 items'')
                else batch_lines parse ls (items @ [i])))"

definition load_batch_jsonl ::
  "(string \<Rightarrow> batch_item option) \<Rightarrow> batch_source \<Rightarrow> string option \<Rightarrow> batch_manifest res" where
  "load_batch_jsonl parse source batch_id =
     (let resolved = str_or batch_id (bf_stem source)
      in if MAX_BATCH_JSONL_BYTES < bf_size source then
           Inl (Exn ValueError ''batch JSONL exceeds the 10 MiB local safety limit'')
         else if \<not> is_safe_id resolved then
           Inl (Exn ValueError ''batch_id must be supplied when the filename is not a valid ID'')
         else (case bf_lines source of
             None \<Rightarrow> Inl (Exn ValueError ''UnicodeDecodeError'')
           | Some ls \<Rightarrow>
               (case batch_lines parse ls [] of
                  Inl e \<Rightarrow> Inl e
                | Inr items \<Rightarrow>
                    if items = [] then Inl (Exn ValueError ''batch JSONL must contain at least one item'')
                    else (let m = \<lparr>bj_batch_id = resolved, bj_items = items\<rparr>
                          in if batch_manifest_valid m then Inr m else Inl (Exn ValidationError ''BatchManifest'')))))"

section \<open>What an execution stores\<close>

text \<open>Hashes are SHA-256 digests.\<close>

definition digests_ok :: "'w exec_env \<Rightarrow> bool" where
  "digests_ok env \<longleftrightarrow> (\<forall>v. is_sha256 (xv_sha_json env v)) \<and> (\<forall>f. is_sha256 (xv_sha_file env f))"

definition good_record :: "string \<Rightarrow> string \<Rightarrow> string \<Rightarrow> pipeline_context \<Rightarrow> run_record \<Rightarrow> bool" where
  "good_record pid v sha ctx r \<longleftrightarrow> run_record_valid r \<and> same_run pid v sha ctx r"

lemma good_update:
  assumes "good_record pid v sha ctx r" "exec_update now r st a u h e s = (r', s')"
    and "pred_option is_sha256 h" "(u = None) = (h = None)"
  shows "good_record pid v sha ctx r'"
  using assms by (auto simp: good_record_def exec_update_def Let_def run_record_valid_def same_run_def)

lemma good_store:
  assumes "good_record pid v sha ctx r" "store_result env now r st out s = (r', s')" "digests_ok env"
  shows "good_record pid v sha ctx r'"
proof (cases out)
  case None
  with assms(2) good_update [OF assms(1), of now st None None None None s r' s'] show ?thesis
    by (simp add: store_result_def)
next
  case (Some w)
  let ?path = "result_name (pc_run_id (rn_context r))"
  have "is_sha256 (xv_sha_file env (ResultFile w))" using assms(3) by (simp add: digests_ok_def)
  with assms(2) Some good_update [OF assms(1), of now st None "Some (xv_root env @ ''/'' @ ?path)"
      "Some (xv_sha_file env (ResultFile w))" None "write_file ?path (ResultFile w) s" r' s'] show ?thesis
    by (simp add: store_result_def Let_def)
qed

lemma good_prepare:
  assumes "exec_prepare now pid v sha ctx s = (Inr r, s')" "pipeline_context_valid ctx" "is_sha256 sha"
  shows "good_record pid v sha ctx r"
proof -
  have "run_record_valid r"
  proof (cases "xs_files s (record_name (pc_run_id ctx))")
    case None
    with assms show ?thesis
      by (auto simp: exec_prepare_def record_path_def validate_run_id_def Let_def run_record_valid_def split: if_splits)
  next
    case (Some f)
    with assms(1) have "parse_record f = Inr r"
      by (auto simp: exec_prepare_def record_path_def validate_run_id_def outcome_simps split: if_splits)
    then show ?thesis by (auto simp: parse_record_def split: run_file.splits if_splits)
  qed
  with exec_prepare_Inr [OF assms(1)] show ?thesis by (simp add: good_record_def)
qed

lemma execute_stores:
  assumes "execute_with entry env t pid v payload ctx c s = (Inr x, s')" and "filed s"
    and "pipeline_context_valid ctx" and "digests_ok env"
  shows "\<exists>r b. xs_files s' (record_name (pc_run_id ctx)) = Some (RunFile r) \<and>
    result_from_record env r b s' = Inr x \<and> good_record pid v (xv_sha_json env payload) ctx r"
proof -
  let ?k = "pc_run_id ctx" and ?good = "good_record pid v (xv_sha_json env payload) ctx"
  obtain z s1 where prep: "exec_prepare (t 0) pid v (xv_sha_json env payload) ctx s = (z, s1)" by fastforce
  with assms(1) obtain r where z: "z = Inr r" by (cases z) (auto simp: execute_with_def)
  have id: "pc_run_id (rn_context r) = ?k" using prepared_run_id prep z assms(2) by blast
  have g: "?good r" by (rule good_prepare [OF prep [unfolded z] assms(3)]) (use assms(4) in \<open>simp add: digests_ok_def\<close>)
  obtain r2 s2 where c: "exec_update (t 2) r RUN_CANCELLED None None None None s1 = (r2, s2)" by fastforce
  obtain r3 s3 where u: "exec_update (t 2) r RUN_RUNNING (Some (rn_attempt r + 1)) None None None s1 = (r3, s3)"
    by fastforce
  note id3 = exec_update_stored(2) [OF u id]
  have g2: "?good r2" and g3: "?good r3" using good_update [OF g c] good_update [OF g u] by simp_all
  obtain y s4 where run: "run_pipeline entry env (t 3) pid v payload ctx c s3 = (y, s4)" by fastforce
  have fin: "?good r4 \<and> xs_files s5 (record_name ?k) = Some (RunFile r4)"
    if "store_result env n r3 st out s4 = (r4, s5)" for n st out r4 s5
    using good_store [OF g3 that assms(4)] store_result_stored [OF that id3] by blast
  have err: "?good r4 \<and> xs_files s5 (record_name ?k) = Some (RunFile r4)"
    if "exec_update n r3 st None None None e s4 = (r4, s5)" for n st e r4 s5
    using good_update [OF g3 that] exec_update_stored(1) [OF that id3] by simp
  show ?thesis
    using assms(1) prep z c u run prepared_stored [OF prep [unfolded z]] g g2 exec_update_stored(1) [OF c id]
    by (auto simp: execute_with_def Let_def pure_def split: prod.splits sum.splits if_splits dest!: fin err)
qed

lemma result_replayed:
  assumes "result_from_record env r b s = Inr x"
  shows "rn_status r = xr_status x" and "result_from_record env r True s = Inr (x\<lparr>xr_replayed := True\<rparr>)"
  using assms
  by (auto simp: result_from_record_def Let_def split: if_splits option.splits sum.splits json.splits)

text \<open>A run that is over, with the answer that executing it again gives.\<close>

definition run_over ::
  "'w exec_env \<Rightarrow> string \<Rightarrow> string \<Rightarrow> json \<Rightarrow> pipeline_context \<Rightarrow> execution_result \<Rightarrow> 'w exec_state \<Rightarrow> bool" where
  "run_over env pid v payload ctx x s \<longleftrightarrow>
     (\<exists>r. exec_load (pc_run_id ctx) s = Inr r \<and> pc_run_id (rn_context r) = pc_run_id ctx \<and>
       rn_status r \<in> set TERMINAL_RUN_STATUSES \<and> same_run pid v (xv_sha_json env payload) ctx r \<and>
       result_from_record env r True s = Inr (x\<lparr>xr_replayed := True\<rparr>))"

lemma execute_over:
  assumes "execute_run env t pid v payload ctx c s = (Inr x, s')" and "filed s"
    and "pipeline_context_valid ctx" and "digests_ok env" and "xr_status x \<in> set TERMINAL_RUN_STATUSES"
  shows "run_over env pid v payload ctx x s'"
proof -
  have safe: "is_safe_id (pc_run_id ctx)" and x: "execute_with pb_run env t pid v payload ctx c s = (Inr x, s')"
    using assms(1) by (auto simp: execute_run_def validate_run_id_def split: if_splits)
  from execute_stores [OF x assms(2-4)] obtain r b where
    r: "xs_files s' (record_name (pc_run_id ctx)) = Some (RunFile r)" "result_from_record env r b s' = Inr x"
    "good_record pid v (xv_sha_json env payload) ctx r" by blast
  have "filed s'" using execute_run_own(1) [OF assms(2), of ctx env t pid v payload c] assms(1,2)
    by (simp add: own_step_def)
  with r safe result_replayed [OF r(2)] assms(5) show ?thesis
    by (auto simp: run_over_def exec_load_def record_path_def validate_run_id_def parse_record_def good_record_def
        filed_def)
qed

lemma run_over_again:
  assumes "run_over env pid v payload ctx x s" "pc_run_id ctx' = pc_run_id ctx"
    and "context_identity ctx' = context_identity ctx"
  shows "execute_run env t pid v payload ctx' c s = (Inr (x\<lparr>xr_replayed := True\<rparr>), s)"
proof -
  obtain r where r: "exec_load (pc_run_id ctx) s = Inr r" "rn_status r \<in> set TERMINAL_RUN_STATUSES"
    "same_run pid v (xv_sha_json env payload) ctx r" "result_from_record env r True s = Inr (x\<lparr>xr_replayed := True\<rparr>)"
    using assms(1) by (auto simp: run_over_def)
  have "is_safe_id (pc_run_id ctx)" using r(1)
    by (auto simp: exec_load_def record_path_def validate_run_id_def split: if_splits)
  with terminal_execute [OF r(1,2) assms(2)] r(3,4) assms(2,3) show ?thesis
    by (simp add: execute_run_def validate_run_id_def same_run_def)
qed

lemma run_over_keeps:
  assumes "run_over env pid v payload ctx x s" "same_run_files (pc_run_id ctx) s s'"
  shows "run_over env pid v payload ctx x s'"
proof -
  obtain r where r: "exec_load (pc_run_id ctx) s = Inr r" "pc_run_id (rn_context r) = pc_run_id ctx"
    "rn_status r \<in> set TERMINAL_RUN_STATUSES"
    "same_run pid v (xv_sha_json env payload) ctx r" "result_from_record env r True s = Inr (x\<lparr>xr_replayed := True\<rparr>)"
    using assms(1) by (auto simp: run_over_def)
  have "result_from_record env r True s' = result_from_record env r True s"
    using assms(2) r(2) by (simp add: result_from_record_def same_run_files_def)
  with r same_files_load [OF assms(2) r(1)] show ?thesis by (auto simp: run_over_def)
qed

section \<open>What a batch does\<close>

text \<open>Neither validity nor identity of an item's context depends on the clock.\<close>

definition item_context_ok :: "string \<Rightarrow> batch_item \<Rightarrow> bool" where
  "item_context_ok b i \<longleftrightarrow> pipeline_context_valid (batch_context 0 b i)"

definition item_identity :: "string \<Rightarrow> batch_item \<Rightarrow> string \<times> string \<times> string option \<times> int option \<times> (string \<times> string) list" where
  "item_identity b i = context_identity (batch_context 0 b i)"

lemma batch_context_simps [simp]:
  "pc_run_id (batch_context now b i) = batch_run_id b i"
  "context_identity (batch_context now b i) = item_identity b i"
  "pipeline_context_valid (batch_context now b i) \<longleftrightarrow> item_context_ok b i"
  by (simp_all add: item_identity_def item_context_ok_def batch_context_def context_identity_def pipeline_context_valid_def)

lemma batch_names_inj [simp]:
  "batch_checkpoint_name k = batch_checkpoint_name j \<longleftrightarrow> k = j"
  "batch_progress_name k = batch_progress_name j \<longleftrightarrow> k = j"
  "batch_result_name k = batch_result_name j \<longleftrightarrow> k = j"
  by (simp_all add: batch_checkpoint_name_def batch_progress_name_def batch_result_name_def)

lemma batch_side_names:
  "batch_progress_name k = batch_checkpoint_name (k @ ''.progress'')"
  "batch_result_name k = batch_checkpoint_name (k @ ''.result'')"
  by (simp_all add: batch_checkpoint_name_def batch_progress_name_def batch_result_name_def)

lemma batch_names_apart [simp]:
  "dotless j \<Longrightarrow> batch_checkpoint_name j \<noteq> batch_progress_name k"
  "dotless j \<Longrightarrow> batch_checkpoint_name j \<noteq> batch_result_name k"
  by (auto simp: batch_side_names dotless_def)

lemma batch_result_not_progress [simp]: "batch_result_name k \<noteq> batch_progress_name j" "batch_progress_name j \<noteq> batch_result_name k"
proof -
  have "rev (batch_result_name k) \<noteq> rev (batch_progress_name j)"
    by (simp add: batch_result_name_def batch_progress_name_def)
  then show "batch_result_name k \<noteq> batch_progress_name j" "batch_progress_name j \<noteq> batch_result_name k" by auto
qed

lemma own_run_item: "filed s \<Longrightarrow> own_step (batch_run_id b i) s (snd (run_item env b i s))"
proof -
  assume "filed s"
  note own = execute_run_own(1) [OF this]
  show ?thesis
  proof (cases "item_context_ok b i")
    case True
    obtain y s' where e: "execute_run (bv_exec env) (\<lambda>n. bv_clock env (bi_item_id i) (Suc n)) (bi_pipeline_id i)
        (bi_pipeline_version i) (JObj (bi_payload i)) (batch_context (bv_clock env (bi_item_id i) 0) b i)
        (bv_cancel env (bi_item_id i)) s = (y, s')" by fastforce
    with True have "snd (run_item env b i s) = s'" by (cases y) (simp_all add: run_item_def Let_def)
    with own [of "batch_context (bv_clock env (bi_item_id i) 0) b i" "bv_exec env"
        "\<lambda>n. bv_clock env (bi_item_id i) (Suc n)" "bi_pipeline_id i" "bi_pipeline_version i" "JObj (bi_payload i)"
        "bv_cancel env (bi_item_id i)"] e show ?thesis by simp
  qed (simp add: run_item_def Let_def)
qed

lemma run_item_Inr:
  assumes "run_item env b i s = (Inr r, s')"
  obtains x where "r = item_result i x" "item_context_ok b i"
    "execute_run (bv_exec env) (\<lambda>n. bv_clock env (bi_item_id i) (Suc n)) (bi_pipeline_id i)
        (bi_pipeline_version i) (JObj (bi_payload i)) (batch_context (bv_clock env (bi_item_id i) 0) b i)
        (bv_cancel env (bi_item_id i)) s = (Inr x, s')"
  using assms that by (auto simp: run_item_def Let_def outcome_simps split: if_splits)

lemma write_progress_eq:
  "is_safe_id b \<Longrightarrow> write_progress b st now rs s =
     (Inr (), write_batch (batch_progress_name b) (BatchProgressFile b st now (sorted_results rs)) s)"
  by (simp add: write_progress_def batch_path_def)

lemma write_batch_exec [simp]: "bz_exec (write_batch p f s) = bz_exec s"
  by (simp add: write_batch_def)

lemma item_ids [simp]: "bs_item_id (item_result i x) = bi_item_id i" "bs_item_id (failed_item env b i e) = bi_item_id i"
  by (simp_all add: item_result_def failed_item_def)

text \<open>One item of the loop: its result, and what is left to collect.\<close>

lemma collect_step:
  assumes "collect_items env t st b (i # is) rs s = (Inr rs', s')" and "is_safe_id b" and "run_item env b i (bz_exec s) = (y, e)"
  obtains r s1 where "bs_item_id r = bi_item_id i" "collect_items env t st b is (rs @ [r]) s1 = (Inr rs', s')"
    "bz_exec s1 = e" "bz_files s1 = (bz_files s)(batch_progress_name b \<mapsto>
        BatchProgressFile b st (t (Suc (length rs))) (sorted_results (rs @ [r])))"
    "\<And>v. y = Inr v \<Longrightarrow> r = v" "\<And>v. y = Inl v \<Longrightarrow> r = failed_item env b i v"
proof -
  let ?s = "\<lambda>r. write_batch (batch_progress_name b)
    (BatchProgressFile b st (t (Suc (length rs))) (sorted_results (rs @ [r]))) (s\<lparr>bz_exec := e\<rparr>)"
  have files: "bz_exec (?s r) = e" "bz_files (?s r) = (bz_files s)(batch_progress_name b \<mapsto>
      BatchProgressFile b st (t (Suc (length rs))) (sorted_results (rs @ [r])))" for r
    by (simp_all add: write_batch_def)
  show ?thesis
  proof (cases y)
    case (Inl v)
    then have "collect_items env t st b is (rs @ [failed_item env b i v]) (?s (failed_item env b i v)) = (Inr rs', s')"
      using assms by (auto simp: Let_def write_progress_eq split: if_splits)
    with Inl files show ?thesis by (intro that [of "failed_item env b i v"]) auto
  next
    case (Inr r)
    then obtain x where "r = item_result i x" using assms(3) by (auto elim: run_item_Inr)
    moreover have "collect_items env t st b is (rs @ [r]) (?s r) = (Inr rs', s')"
      using Inr assms by (simp add: Let_def write_progress_eq)
    ultimately show ?thesis using Inr files by (intro that [of r]) auto
  qed
qed

lemma collect_Inr:
  assumes "collect_items env t st b is rs s = (Inr rs', s')" and "is_safe_id b" and "filed (bz_exec s)"
  shows "\<exists>new. rs' = rs @ new \<and> map bs_item_id new = map bi_item_id is \<and> filed (bz_exec s') \<and>
    (\<forall>p. p \<noteq> batch_progress_name b \<longrightarrow> bz_files s' p = bz_files s p) \<and>
    (is \<noteq> [] \<longrightarrow> (\<exists>now. bz_files s' (batch_progress_name b) = Some (BatchProgressFile b st now (sorted_results rs'))))"
  using assms(1,3)
proof (induction "is" arbitrary: rs s)
  case (Cons i "is")
  obtain y e where y: "run_item env b i (bz_exec s) = (y, e)" by fastforce
  have "filed e" using own_run_item [OF Cons.prems(2), of b i env] y Cons.prems(2) by (simp add: own_step_def)
  obtain r s1 where r: "bs_item_id r = bi_item_id i" "collect_items env t st b is (rs @ [r]) s1 = (Inr rs', s')"
    "bz_exec s1 = e" "bz_files s1 = (bz_files s)(batch_progress_name b \<mapsto>
        BatchProgressFile b st (t (Suc (length rs))) (sorted_results (rs @ [r])))"
    by (rule collect_step [OF Cons.prems(1) assms(2) y]) blast
  with \<open>filed e\<close> Cons.IH [OF r(2)] obtain new where n: "rs' = (rs @ [r]) @ new" "map bs_item_id new = map bi_item_id is"
    "filed (bz_exec s')" "\<forall>p. p \<noteq> batch_progress_name b \<longrightarrow> bz_files s' p = bz_files s1 p"
    "is \<noteq> [] \<longrightarrow> (\<exists>now. bz_files s' (batch_progress_name b) = Some (BatchProgressFile b st now (sorted_results rs')))"
    by blast
  have "\<exists>now. bz_files s' (batch_progress_name b) = Some (BatchProgressFile b st now (sorted_results rs'))"
  proof (cases "is")
    case Nil
    with r(2) have "rs' = rs @ [r]" "s' = s1" by simp_all
    with r(4) show ?thesis by simp
  qed (use n(5) in blast)
  with n r(1,4) show ?case by (intro exI [of _ "r # new"]) simp
qed simp

text \<open>An item whose run is over, with the answer that running it again gives.\<close>

definition item_over :: "'w batch_env \<Rightarrow> string \<Rightarrow> batch_item \<Rightarrow> execution_result \<Rightarrow> 'w exec_state \<Rightarrow> bool" where
  "item_over env b i x s \<longleftrightarrow> item_context_ok b i \<and>
     run_over (bv_exec env) (bi_pipeline_id i) (bi_pipeline_version i) (JObj (bi_payload i)) (batch_context 0 b i) x s"

definition finished :: "batch_item_result \<Rightarrow> bool" where
  "finished r \<longleftrightarrow> bs_status r \<in> {RUN_SUCCEEDED, RUN_WAITING_HUMAN}"

definition replay :: "batch_item_result \<Rightarrow> batch_item_result" where
  "replay r = r\<lparr>bs_replayed := True\<rparr>"

lemma run_over_context:
  "pc_run_id ctx' = pc_run_id ctx \<Longrightarrow> context_identity ctx' = context_identity ctx \<Longrightarrow>
   run_over env pid v payload ctx' x s = run_over env pid v payload ctx x s"
  by (simp add: run_over_def same_run_def)

lemma run_item_over:
  assumes "run_item env b i s = (Inr r, s')" "filed s" "digests_ok (bv_exec env)" "finished r"
  shows "\<exists>x. r = item_result i x \<and> item_over env b i x s'"
proof -
  obtain x where x: "r = item_result i x" "item_context_ok b i"
    "execute_run (bv_exec env) (\<lambda>n. bv_clock env (bi_item_id i) (Suc n)) (bi_pipeline_id i)
        (bi_pipeline_version i) (JObj (bi_payload i)) (batch_context (bv_clock env (bi_item_id i) 0) b i)
        (bv_cancel env (bi_item_id i)) s = (Inr x, s')"
    using assms(1) by (rule run_item_Inr)
  have "xr_status x \<in> set TERMINAL_RUN_STATUSES"
    using assms(4) x(1) by (auto simp: finished_def item_result_def TERMINAL_RUN_STATUSES_def)
  from execute_over [OF x(3) assms(2) _ assms(3) this] x(2)
  have "run_over (bv_exec env) (bi_pipeline_id i) (bi_pipeline_version i) (JObj (bi_payload i))
      (batch_context (bv_clock env (bi_item_id i) 0) b i) x s'" by simp
  then have "item_over env b i x s'"
    unfolding item_over_def using x(2)
    by (metis run_over_context batch_context_simps(1,2))
  with x(1) show ?thesis by blast
qed

lemma run_item_again:
  assumes "item_over env b i x s"
  shows "run_item env b i s = (Inr (replay (item_result i x)), s)"
proof -
  have "execute_run (bv_exec env) (\<lambda>n. bv_clock env (bi_item_id i) (Suc n)) (bi_pipeline_id i)
        (bi_pipeline_version i) (JObj (bi_payload i)) (batch_context (bv_clock env (bi_item_id i) 0) b i)
        (bv_cancel env (bi_item_id i)) s = (Inr (x\<lparr>xr_replayed := True\<rparr>), s)"
    using assms by (intro run_over_again [where ctx = "batch_context 0 b i"]) (simp_all add: item_over_def)
  moreover have "item_context_ok b i" using assms by (simp add: item_over_def)
  ultimately show ?thesis by (simp add: run_item_def Let_def item_result_def replay_def)
qed

lemma item_over_keeps:
  assumes "item_over env b i x s" "own_step k s s'" "dotless (batch_run_id b i)" "dotless k" "k \<noteq> batch_run_id b i"
  shows "item_over env b i x s'"
proof -
  have "same_run_files (batch_run_id b i) s s'"
    using assms(2-5) by (intro touches_other [of k]) (simp_all add: own_step_def)
  with assms(1) run_over_keeps show ?thesis unfolding item_over_def by (metis batch_context_simps(1))
qed

lemma batch_run_id_inj [simp]: "batch_run_id b i = batch_run_id b j \<longleftrightarrow> bi_item_id i = bi_item_id j"
  by (simp add: batch_run_id_def)

lemma collect_others:
  assumes "collect_items env t st b is rs s = (Inr rs', s')" and "is_safe_id b" and "filed (bz_exec s)"
    and "item_over env b j x (bz_exec s)" and "bi_item_id j \<notin> bi_item_id ` set is"
    and "dotless (batch_run_id b j)" and "\<forall>i \<in> set is. dotless (batch_run_id b i)"
  shows "item_over env b j x (bz_exec s')"
  using assms(1,3-5,7)
proof (induction "is" arbitrary: rs s)
  case (Cons i "is")
  obtain y e where y: "run_item env b i (bz_exec s) = (y, e)" by fastforce
  have own: "own_step (batch_run_id b i) (bz_exec s) e" using own_run_item [OF Cons.prems(2), of b i env] y by simp
  obtain r s1 where r: "collect_items env t st b is (rs @ [r]) s1 = (Inr rs', s')" "bz_exec s1 = e"
    by (rule collect_step [OF Cons.prems(1) assms(2) y]) blast
  have "item_over env b j x e"
    using item_over_keeps [OF Cons.prems(3) own assms(6)] Cons.prems(4,5) by auto
  with own Cons.prems Cons.IH [OF r(1)] r(2) show ?case by (simp add: own_step_def)
qed simp

lemma collect_over:
  assumes "collect_items env t st b is rs s = (Inr (rs @ new), s')" and "is_safe_id b" and "filed (bz_exec s)"
    and "digests_ok (bv_exec env)" and "distinct (map bi_item_id is)" and "\<forall>i \<in> set is. dotless (batch_run_id b i)"
    and "list_all finished new"
  shows "\<exists>f. new = map (\<lambda>i. item_result i (f i)) is \<and> (\<forall>i \<in> set is. item_over env b i (f i) (bz_exec s'))"
  using assms(1,3,5-7)
proof (induction "is" arbitrary: rs s new)
  case (Cons i "is")
  obtain y e where y: "run_item env b i (bz_exec s) = (y, e)" by fastforce
  have "filed e" using own_run_item [OF Cons.prems(2), of b i env] y Cons.prems(2) by (simp add: own_step_def)
  obtain r s1 where r: "collect_items env t st b is (rs @ [r]) s1 = (Inr (rs @ new), s')" "bz_exec s1 = e"
    "\<And>v. y = Inr v \<Longrightarrow> r = v" "\<And>v. y = Inl v \<Longrightarrow> r = failed_item env b i v"
    by (rule collect_step [OF Cons.prems(1) assms(2) y]) blast
  obtain new' where n: "new = r # new'"
    using collect_Inr [OF r(1) assms(2)] \<open>filed e\<close> r(2) by auto
  have "finished r" "list_all finished new'" using Cons.prems(5) n by simp_all
  then obtain v where v: "y = Inr v" "r = v"
    using r(3,4) by (cases y) (auto simp: failed_item_def finished_def)
  obtain x where x: "r = item_result i x" "item_over env b i x e"
    using run_item_over [OF y [unfolded v(1)] Cons.prems(2) assms(4)] \<open>finished r\<close> v(2) by blast
  have dist: "bi_item_id i \<notin> bi_item_id ` set is" "distinct (map bi_item_id is)" using Cons.prems(3) by simp_all
  have rest: "collect_items env t st b is (rs @ [r]) s1 = (Inr ((rs @ [r]) @ new'), s')" using r(1) n by simp
  obtain f where f: "new' = map (\<lambda>i. item_result i (f i)) is" "\<forall>i \<in> set is. item_over env b i (f i) (bz_exec s')"
    using Cons.IH [OF rest _ dist(2)] \<open>filed e\<close> r(2) Cons.prems(4) \<open>list_all finished new'\<close> by auto
  have "item_over env b i x (bz_exec s')"
    by (rule collect_others [OF rest assms(2)]) (use \<open>filed e\<close> x(2) r(2) dist(1) Cons.prems(4) in auto)
  moreover have "\<forall>j \<in> set is. j \<noteq> i" using dist(1) by auto
  then have "\<forall>j \<in> set is. (f(i := x)) j = f j" by simp
  ultimately show ?case using f n x(1) by (intro exI [of _ "f(i := x)"]) simp
qed simp

lemma collect_again:
  assumes "\<forall>i \<in> set is. item_over env b i (f i) (bz_exec s)" and "is_safe_id b"
  shows "\<exists>s'. collect_items env t st b is rs s = (Inr (rs @ map (\<lambda>i. replay (item_result i (f i))) is), s') \<and>
    bz_exec s' = bz_exec s \<and> (\<forall>p. p \<noteq> batch_progress_name b \<longrightarrow> bz_files s' p = bz_files s p)"
  using assms(1)
proof (induction "is" arbitrary: rs s)
  case (Cons i "is")
  let ?r = "replay (item_result i (f i))"
  let ?s = "write_batch (batch_progress_name b)
    (BatchProgressFile b st (t (Suc (length rs))) (sorted_results (rs @ [?r]))) (s\<lparr>bz_exec := bz_exec s\<rparr>)"
  have "\<forall>i \<in> set is. item_over env b i (f i) (bz_exec ?s)" using Cons.prems by simp
  from Cons.IH [OF this, of "rs @ [?r]"] run_item_again [of env b i "f i" "bz_exec s"] Cons.prems assms(2)
  show ?case by (auto simp: write_progress_eq Let_def write_batch_def)
qed simp

lemma sorted_results_map:
  assumes "\<And>x. bs_item_id (g x) = key x" and "mset xs = mset ys" and "distinct (map key xs)" and "\<And>r. bs_item_id (h r) = bs_item_id r"
  shows "sorted_results (map (\<lambda>x. h (g x)) ys) = map h (sorted_results (map g xs))"
proof -
  have "map bs_item_id (map (\<lambda>x. h (g x)) ys) = map key ys" using assms(1,4) by simp
  moreover have "distinct (map key ys)" using assms(2,3) by (metis mset_eq_imp_distinct_iff mset_map)
  ultimately have inj: "inj_on bs_item_id (set (map (\<lambda>x. h (g x)) ys))" by (metis distinct_map)
  have "mset (map h (sorted_results (map g xs))) = mset (map (\<lambda>x. h (g x)) ys)"
    using assms(2) by (simp add: sorted_results_def image_mset.compositionality comp_def)
  moreover have "sorted (map bs_item_id (map h (sorted_results (map g xs))))"
    using assms(4) by (simp add: sorted_results_def comp_def)
  ultimately show ?thesis unfolding sorted_results_def
    by (intro sort_key_inj_key_eq inj) (simp_all add: sorted_results_def)
qed

section \<open>Histories of a directory\<close>

inductive batch_step :: "'w batch_env \<Rightarrow> 'w batch_state \<Rightarrow> 'w batch_state \<Rightarrow> bool" for env :: "'w batch_env" where
  batch_runs: "batch_run env t ended n m s = (x, s') \<Longrightarrow> dotless (bj_batch_id m) \<Longrightarrow> is_safe_id (bj_batch_id m) \<Longrightarrow>
    batch_step env s s'"
| elsewhere_runs: "batch_step env s (s\<lparr>bz_exec := e\<rparr>)"

lemma run_rest_files [simp]: "bz_files (run_rest env b is s) = bz_files s"
  by (induction "is" arbitrary: s) simp_all

lemma collect_files:
  assumes "is_safe_id b" and "p \<noteq> batch_progress_name b"
  shows "bz_files (snd (collect_items env t st b is rs s)) p = bz_files s p"
  using assms(2)
proof (induction "is" arbitrary: rs s)
  case (Cons i "is")
  show ?case
    using Cons assms(1)
    by (cases "run_item env b i (bz_exec s)"; cases "fst (run_item env b i (bz_exec s))")
       (auto simp: Let_def write_progress_eq write_batch_def)
qed simp

definition checkpoint_of :: "string \<Rightarrow> batch_checkpoint \<Rightarrow> 'w batch_state \<Rightarrow> bool" where
  "checkpoint_of b k s \<longleftrightarrow> bz_files s (batch_checkpoint_name b) = Some (BatchCheckpointFile k) \<and>
     is_sha256 (bk_manifest_sha256 k)"

lemma prepare_manifest_checked:
  assumes "checkpoint_of (bj_batch_id m) k s" and "is_safe_id (bj_batch_id m)"
  shows "prepare_manifest env now m s =
    (if bk_manifest_sha256 k \<noteq> bv_sha_manifest env m then
       (Inl (Exn BatchConflictError ''batch ID was reused with a different manifest''), s) else (Inr k, s))"
  using assms
  by (simp add: prepare_manifest_def batch_path_def checkpoint_of_def parse_batch_checkpoint_def Let_def)

lemma prepare_manifest_Inr:
  assumes "prepare_manifest env now m s = (Inr k, s')" and "\<forall>m. is_sha256 (bv_sha_manifest env m)"
  shows "checkpoint_of (bj_batch_id m) k s' \<and> bk_manifest_sha256 k = bv_sha_manifest env m \<and> bz_exec s' = bz_exec s \<and>
    is_safe_id (bj_batch_id m)"
  using assms
  by (auto simp: prepare_manifest_def batch_path_def checkpoint_of_def parse_batch_checkpoint_def Let_def
      outcome_simps write_batch_def split: if_splits option.splits batch_file.splits)

lemma prepare_manifest_files:
  "bz_files s (batch_checkpoint_name j) = Some f \<Longrightarrow>
   bz_files (snd (prepare_manifest env now m s)) (batch_checkpoint_name j) = Some f"
  by (auto simp: prepare_manifest_def batch_path_def Let_def write_batch_def pure_def seq_def
      split: option.split sum.split)

lemma batch_run_files:
  assumes "bz_files s (batch_checkpoint_name j) = Some f" "dotless j" "is_safe_id (bj_batch_id m)"
  shows "bz_files (snd (batch_run env t ended n m s)) (batch_checkpoint_name j) = Some f"
proof -
  obtain y s1 where p: "prepare_manifest env (t 0) m s = (y, s1)" by fastforce
  have f1: "bz_files s1 (batch_checkpoint_name j) = Some f"
    using prepare_manifest_files [OF assms(1), of env "t 0" m] p by simp
  obtain z s2 where c: "collect_items env (\<lambda>n. t (Suc n)) (t 1) (bj_batch_id m) ended [] s1 = (z, s2)" by fastforce
  have f2: "bz_files s2 (batch_checkpoint_name j) = Some f"
    using collect_files [OF assms(3), of "batch_checkpoint_name j" env "\<lambda>n. t (Suc n)" "t 1" ended "[]" s1] c f1 assms(2) by simp
  show ?thesis
    using assms p c f1 f2
    by (cases y; cases z) (simp_all add: batch_run_def Let_def batch_path_def write_batch_def)
qed

lemma batch_history_keeps:
  assumes "(batch_step env)\<^sup>*\<^sup>* s s'" and "checkpoint_of j k s" and "dotless j"
  shows "checkpoint_of j k s'"
  using assms(1)
proof (induction rule: rtranclp_induct)
  case (step y z)
  from step(2) show ?case
  proof (cases rule: batch_step.cases)
    case (batch_runs t ended n m x)
    with batch_run_files [of y j _ m env t ended n] step.IH assms(3) show ?thesis by (auto simp: checkpoint_of_def)
  qed (use step.IH in \<open>simp add: checkpoint_of_def\<close>)
qed (use assms(2) in simp)

lemma batch_run_Inr:
  assumes "batch_run env t ended n m s = (Inr r, s')" and "\<forall>m. is_sha256 (bv_sha_manifest env m)"
  obtains k s1 rs s2 where "prepare_manifest env (t 0) m s = (Inr k, s1)"
    "collect_items env (\<lambda>n. t (Suc n)) (t 1) (bj_batch_id m) ended [] s1 = (Inr rs, s2)"
    "br_items r = sorted_results rs" "br_status r = aggregate_status (sorted_results rs)"
    "br_manifest_sha256 r = bv_sha_manifest env m" "bz_exec s1 = bz_exec s" "is_safe_id (bj_batch_id m)"
    "s' = write_batch (batch_result_name (bj_batch_id m)) (BatchResultFile r) s2" "1 \<le> n" "n \<le> 32"
proof -
  obtain y s1 where p: "prepare_manifest env (t 0) m s = (y, s1)" by fastforce
  with assms(1) obtain k where k: "y = Inr k" by (cases y) (auto simp: batch_run_def split: if_splits)
  note checked = prepare_manifest_Inr [OF p [unfolded k] assms(2)]
  obtain z s2 where c: "collect_items env (\<lambda>n. t (Suc n)) (t 1) (bj_batch_id m) ended [] s1 = (z, s2)" by fastforce
  with assms(1) p k obtain rs where rs: "z = Inr rs" by (cases z) (auto simp: batch_run_def Let_def split: if_splits)
  show ?thesis
    using assms(1) checked p k c rs
    by (intro that [of k s1 rs s2]) (auto simp: batch_run_def Let_def batch_path_def split: if_splits)
qed

section \<open>Properties\<close>

text \<open>
  No item is lost and no failure is hidden: a batch that returns has exactly one result for every item,
  in the order of the ids; it says that it succeeded only if every item did or waits for a person; the
  result is on disk, and the last progress written has the same results.
\<close>

theorem batch_reports_every_item:
  assumes "batch_run env t ended n m s = (Inr r, s')" and "\<forall>m. is_sha256 (bv_sha_manifest env m)"
    and "batch_manifest_valid m" and "mset ended = mset (bj_items m)" and "filed (bz_exec s)"
  shows "map bs_item_id (br_items r) = sort (map bi_item_id (bj_items m)) \<and>
    br_manifest_sha256 r = bv_sha_manifest env m \<and>
    (br_status r = ''succeeded'' \<longleftrightarrow> (\<forall>i \<in> set (br_items r). finished i)) \<and>
    bz_files s' (batch_result_name (bj_batch_id m)) = Some (BatchResultFile r) \<and>
    (\<exists>now. bz_files s' (batch_progress_name (bj_batch_id m)) =
      Some (BatchProgressFile (bj_batch_id m) (t 1) now (br_items r)))"
proof -
  obtain k s1 rs s2 where p: "prepare_manifest env (t 0) m s = (Inr k, s1)"
    "collect_items env (\<lambda>n. t (Suc n)) (t 1) (bj_batch_id m) ended [] s1 = (Inr rs, s2)"
    "br_items r = sorted_results rs" "br_status r = aggregate_status (sorted_results rs)"
    "br_manifest_sha256 r = bv_sha_manifest env m" "bz_exec s1 = bz_exec s" "is_safe_id (bj_batch_id m)"
    "s' = write_batch (batch_result_name (bj_batch_id m)) (BatchResultFile r) s2" "1 \<le> n" "n \<le> 32"
    using assms(1,2) by (rule batch_run_Inr)
  have "ended \<noteq> []" using assms(3,4) by (auto simp: batch_manifest_valid_def)
  with collect_Inr [OF p(2,7)] assms(5) p(6) obtain now where c: "map bs_item_id rs = map bi_item_id ended"
    "bz_files s2 (batch_progress_name (bj_batch_id m)) =
       Some (BatchProgressFile (bj_batch_id m) (t 1) now (sorted_results rs))" by auto
  have "map bs_item_id (sorted_results rs) = sort (map bi_item_id (bj_items m))"
  proof (rule properties_for_sort [symmetric])
    have "mset (map bi_item_id ended) = mset (map bi_item_id (bj_items m))" using assms(4) by simp
    then show "mset (map bs_item_id (sorted_results rs)) = mset (map bi_item_id (bj_items m))"
      using c(1) by (metis mset_map mset_sort sorted_results_def)
  qed (simp add: sorted_results_def)
  moreover have "(''succeeded'' = ''partial_retryable_failure'') = False" "(''succeeded'' = ''partial_terminal_failure'') = False"
    by simp_all
  then have "br_status r = ''succeeded'' \<longleftrightarrow> (\<forall>i \<in> set (br_items r). finished i)"
    using p(3,4) by (auto simp: aggregate_status_def finished_def list_all_iff)
  moreover have "bz_files s' (batch_result_name (bj_batch_id m)) = Some (BatchResultFile r)"
    "bz_files s' (batch_progress_name (bj_batch_id m)) = bz_files s2 (batch_progress_name (bj_batch_id m))"
    by (simp_all add: p(8) write_batch_def)
  ultimately show ?thesis using c(2) p(3,5) by auto
qed

text \<open>
  C25. Resuming a batch that succeeded runs nothing, when neither its batch id nor the run ids of its items have a
  dot: the same manifest, in whatever order its items are taken up and with whatever concurrency, is answered from the
  checkpoints of its runs, with the same results marked as replays, and neither a run file nor the world of the
  pipelines changes.  Dots are allowed in both, and items \<open>k\<close> and \<open>k.result\<close>, or batches so named, share a file.
\<close>

theorem batch_resume_replays:
  assumes "batch_run env t ended n m s = (Inr r, s')" and "br_status r = ''succeeded''"
    and "\<forall>m. is_sha256 (bv_sha_manifest env m)" and "digests_ok (bv_exec env)" and "filed (bz_exec s)"
    and "batch_manifest_valid m" and "mset ended = mset (bj_items m)" and "mset ended' = mset (bj_items m)"
    and "\<forall>i \<in> set (bj_items m). dotless (batch_run_id (bj_batch_id m) i)" and "dotless (bj_batch_id m)"
    and "1 \<le> n'" and "n' \<le> 32"
  shows "\<exists>r' s''. batch_run env t' ended' n' m s' = (Inr r', s'') \<and> bz_exec s'' = bz_exec s' \<and>
    br_items r' = map replay (br_items r) \<and> br_status r' = ''succeeded''"
proof -
  let ?b = "bj_batch_id m"
  obtain k s1 rs s2 where p: "prepare_manifest env (t 0) m s = (Inr k, s1)"
    "collect_items env (\<lambda>n. t (Suc n)) (t 1) ?b ended [] s1 = (Inr rs, s2)"
    "br_items r = sorted_results rs" "br_status r = aggregate_status (sorted_results rs)"
    "br_manifest_sha256 r = bv_sha_manifest env m" "bz_exec s1 = bz_exec s" "is_safe_id ?b"
    "s' = write_batch (batch_result_name ?b) (BatchResultFile r) s2" "1 \<le> n" "n \<le> 32"
    using assms(1,3) by (rule batch_run_Inr)
  have set: "set ended = set (bj_items m)" "set ended' = set (bj_items m)" using assms(7,8) mset_eq_setD by blast+
  have dist: "distinct (map bi_item_id ended)"
    using assms(6,7) by (metis batch_manifest_valid_def mset_eq_imp_distinct_iff mset_map)
  have fin: "list_all finished rs"
    using assms(2) p(4) by (auto simp: aggregate_status_def finished_def list_all_iff sorted_results_def split: if_splits)
  have "filed (bz_exec s1)" "\<forall>i \<in> set ended. dotless (batch_run_id ?b i)" using assms(5,9) p(6) set(1) by simp_all
  note over = collect_over [OF _ p(7) this(1) assms(4) dist this(2) fin]
  have "collect_items env (\<lambda>n. t (Suc n)) (t 1) ?b ended [] s1 = (Inr ([] @ rs), s2)" using p(2) by simp
  from over [OF this] obtain f where
    f: "rs = map (\<lambda>i. item_result i (f i)) ended" "\<forall>i \<in> set ended. item_over env ?b i (f i) (bz_exec s2)" by blast
  have "checkpoint_of ?b k s1" "bk_manifest_sha256 k = bv_sha_manifest env m"
    using prepare_manifest_Inr [OF p(1) assms(3)] by blast+
  then have k: "checkpoint_of ?b k s'"
    using collect_files [OF p(7), of "batch_checkpoint_name ?b" env "\<lambda>n. t (Suc n)" "t 1" ended "[]" s1] p(2,8) assms(10)
    by (simp add: checkpoint_of_def write_batch_def)
  have "\<forall>i \<in> set ended'. item_over env ?b i (f i) (bz_exec s')" using f(2) set p(8) by simp
  from collect_again [OF this p(7), of "\<lambda>n. t' (Suc n)" "t' 1" "[]"] obtain s3 where
    s3: "collect_items env (\<lambda>n. t' (Suc n)) (t' 1) ?b ended' [] s' = (Inr (map (\<lambda>i. replay (item_result i (f i))) ended'), s3)"
    "bz_exec s3 = bz_exec s'" by auto
  have "mset ended = mset ended'" using assms(7,8) by simp
  then have items: "sorted_results (map (\<lambda>i. replay (item_result i (f i))) ended') = map replay (sorted_results rs)"
    unfolding f(1) by (intro sorted_results_map [where key = bi_item_id]) (use dist in \<open>simp_all add: replay_def\<close>)
  moreover have "aggregate_status (map replay (sorted_results rs)) = ''succeeded''"
    using fin by (auto simp: aggregate_status_def finished_def list_all_iff sorted_results_def replay_def)
  ultimately show ?thesis
    using s3 prepare_manifest_checked [OF k p(7), of env "t' 0"] \<open>bk_manifest_sha256 k = _\<close> assms(11,12) p(3,7)
    by (simp add: batch_run_def Let_def batch_path_def)
qed

text \<open>
  An id belongs to one manifest: once a batch has been run, a manifest with another digest is refused
  under its id for ever, whatever batches ran in between, and neither a file nor a run is touched.
\<close>

theorem batch_id_pins_manifest:
  assumes "batch_run env t ended n m s = (Inr r, s0)" and "(batch_step env)\<^sup>*\<^sup>* s0 s'"
    and "\<forall>m. is_sha256 (bv_sha_manifest env m)" and "dotless (bj_batch_id m)"
    and "bj_batch_id m' = bj_batch_id m" and "bv_sha_manifest env m' \<noteq> bv_sha_manifest env m" and "1 \<le> n'" and "n' \<le> 32"
  shows "batch_run env t' ended' n' m' s' =
    (Inl (Exn BatchConflictError ''batch ID was reused with a different manifest''), s')"
proof -
  let ?b = "bj_batch_id m"
  obtain k s1 rs s2 where p: "prepare_manifest env (t 0) m s = (Inr k, s1)"
    "collect_items env (\<lambda>n. t (Suc n)) (t 1) ?b ended [] s1 = (Inr rs, s2)"
    "br_items r = sorted_results rs" "br_status r = aggregate_status (sorted_results rs)"
    "br_manifest_sha256 r = bv_sha_manifest env m" "bz_exec s1 = bz_exec s" "is_safe_id ?b"
    "s0 = write_batch (batch_result_name ?b) (BatchResultFile r) s2" "1 \<le> n" "n \<le> 32"
    using assms(1,3) by (rule batch_run_Inr)
  have k: "checkpoint_of ?b k s1" "bk_manifest_sha256 k = bv_sha_manifest env m"
    using prepare_manifest_Inr [OF p(1) assms(3)] by blast+
  then have "checkpoint_of ?b k s0"
    using collect_files [OF p(7), of "batch_checkpoint_name ?b" env "\<lambda>n. t (Suc n)" "t 1" ended "[]" s1] p(2,8) assms(4)
    by (simp add: checkpoint_of_def write_batch_def)
  from batch_history_keeps [OF assms(2) this assms(4)] have "checkpoint_of (bj_batch_id m') k s'" using assms(5) by simp
  from prepare_manifest_checked [OF this, of env "t' 0"] show ?thesis
    using p(7) k(2) assms(5-8) by (simp add: batch_run_def)
qed

section \<open>Ids that cannot be used\<close>

text \<open>
  Two valid ids may be too long together: the run id has at most 128 characters, so the item fails without
  a run.
\<close>

theorem long_ids_never_run:
  assumes "121 < length b + length (bi_item_id i)"
  shows "run_item env b i s = (Inl (Exn ValidationError ''PipelineContext''), s)"
  using assms
  by (simp add: run_item_def Let_def item_context_ok_def pipeline_context_valid_def batch_context_def batch_run_id_def
      is_safe_id_def)

text \<open>
  The hyphen joins the ids of batch and item, and may occur in both: the run of one batch takes the id of
  the run of another, whose item then fails with a conflict.
\<close>

theorem run_ids_collide:
  assumes "item_over env b i x s" and "batch_run_id b' i' = batch_run_id b i" and "b' \<noteq> b" and "item_context_ok b' i'"
  shows "\<exists>msg. run_item env b' i' s = (Inl (Exn PipelineRunConflictError msg), s)"
proof -
  obtain r where r: "exec_load (batch_run_id b i) s = Inr r" "rn_status r \<in> set TERMINAL_RUN_STATUSES"
    "context_identity (rn_context r) = item_identity b i"
    using assms(1) by (auto simp: item_over_def run_over_def same_run_def)
  have "item_identity b' i' \<noteq> item_identity b i"
    using assms(3) by (simp add: item_identity_def context_identity_def batch_context_def)
  moreover have "is_safe_id (batch_run_id b i)" using r(1)
    by (auto simp: exec_load_def record_path_def validate_run_id_def split: if_splits)
  ultimately show ?thesis
    using terminal_execute [OF r(1,2)] r(3) assms(2,4)
    by (simp add: run_item_def Let_def execute_run_def validate_run_id_def same_run_def)
qed

section \<open>Witnesses\<close>

definition demo_batch_env :: "nat batch_env" where
  "demo_batch_env = \<lparr>bv_sha_manifest = (\<lambda>m. if length (bj_items m) = 1 then replicate 64 CHR ''b'' else demo_sha),
     bv_root = ''r'', bv_exec = demo_exec_env, bv_clock = (\<lambda>_ _. 0), bv_cancel = (\<lambda>_. None)\<rparr>"

definition demo_batch_item :: "string \<Rightarrow> batch_item" where
  "demo_batch_item i = \<lparr>bi_item_id = i, bi_pipeline_id = ''p'', bi_pipeline_version = ''v'', bi_payload = [],
     bi_idempotency_key = ''k''\<rparr>"

definition demo_batch :: batch_manifest where
  "demo_batch = \<lparr>bj_batch_id = ''b'', bj_items = [demo_batch_item ''i'', demo_batch_item ''j'']\<rparr>"

definition demo_ended :: "batch_item list" where
  "demo_ended = [demo_batch_item ''j'', demo_batch_item ''i'']"

definition demo_batch_start :: "nat batch_state" where
  "demo_batch_start = \<lparr>bz_files = Map.empty, bz_exec = demo_exec_start\<rparr>"

lemma demo_batch_runs:
  "map_sum exn_cls br_status (fst (batch_run demo_batch_env (\<lambda>_. 0) demo_ended 4 demo_batch demo_batch_start)) = Inr ''succeeded''"
  by code_simp

lemma demo_batch_facts:
  "\<forall>m. is_sha256 (bv_sha_manifest demo_batch_env m)" "digests_ok (bv_exec demo_batch_env)"
  "filed (bz_exec demo_batch_start)" "batch_manifest_valid demo_batch" "mset demo_ended = mset (bj_items demo_batch)"
  "\<forall>i \<in> set (bj_items demo_batch). dotless (batch_run_id (bj_batch_id demo_batch) i)" "dotless (bj_batch_id demo_batch)"
proof -
  have "is_sha256 (replicate 64 CHR ''b'')" by code_simp
  then show "\<forall>m. is_sha256 (bv_sha_manifest demo_batch_env m)" by (simp add: demo_batch_env_def)
  show "digests_ok (bv_exec demo_batch_env)" by (simp add: demo_batch_env_def demo_exec_env_def digests_ok_def)
  show "filed (bz_exec demo_batch_start)" by (simp add: demo_batch_start_def demo_exec_start_def filed_def)
  show "batch_manifest_valid demo_batch" by code_simp
  show "mset demo_ended = mset (bj_items demo_batch)" by (simp add: demo_ended_def demo_batch_def)
  show "\<forall>i \<in> set (bj_items demo_batch). dotless (batch_run_id (bj_batch_id demo_batch) i)" "dotless (bj_batch_id demo_batch)"
    by (simp_all add: demo_batch_def demo_batch_item_def batch_run_id_def dotless_def)
qed

lemma demo_batch_result:
  obtains r s' where "batch_run demo_batch_env (\<lambda>_. 0) demo_ended 4 demo_batch demo_batch_start = (Inr r, s')"
    "br_status r = ''succeeded''"
  using demo_batch_runs
  by (cases "batch_run demo_batch_env (\<lambda>_. 0) demo_ended 4 demo_batch demo_batch_start";
      cases "fst (batch_run demo_batch_env (\<lambda>_. 0) demo_ended 4 demo_batch demo_batch_start)") auto

theorem batch_reports_every_item_witness:
  "\<exists>r s'. batch_run demo_batch_env (\<lambda>_. 0) demo_ended 4 demo_batch demo_batch_start = (Inr r, s') \<and>
     map bs_item_id (br_items r) = sort [''i'', ''j''] \<and> bz_files s' (batch_result_name ''b'') = Some (BatchResultFile r)"
proof -
  obtain r s' where r: "batch_run demo_batch_env (\<lambda>_. 0) demo_ended 4 demo_batch demo_batch_start = (Inr r, s')"
    by (rule demo_batch_result)
  from batch_reports_every_item [OF r demo_batch_facts(1,4,5,3)]
  have "map bs_item_id (br_items r) = sort (map bi_item_id (bj_items demo_batch)) \<and>
      bz_files s' (batch_result_name (bj_batch_id demo_batch)) = Some (BatchResultFile r)" by blast
  with r show ?thesis by (intro exI [of _ r] exI [of _ s']) (simp add: demo_batch_def demo_batch_item_def)
qed

theorem batch_resume_replays_witness:
  "\<exists>r s' r' s''. batch_run demo_batch_env (\<lambda>_. 0) demo_ended 4 demo_batch demo_batch_start = (Inr r, s') \<and>
     batch_run demo_batch_env (\<lambda>_. 9) (bj_items demo_batch) 1 demo_batch s' = (Inr r', s'') \<and>
     bz_exec s'' = bz_exec s' \<and> br_items r' = map replay (br_items r)"
proof -
  obtain r s' where r: "batch_run demo_batch_env (\<lambda>_. 0) demo_ended 4 demo_batch demo_batch_start = (Inr r, s')"
    "br_status r = ''succeeded''" by (rule demo_batch_result)
  have "1 \<le> (1::int)" "(1::int) \<le> 32" by simp_all
  from batch_resume_replays [OF r demo_batch_facts(1-5) refl demo_batch_facts(6,7) this] r(1) show ?thesis by blast
qed

theorem batch_id_pins_manifest_witness:
  "\<exists>r s'. batch_run demo_batch_env (\<lambda>_. 0) demo_ended 4 demo_batch demo_batch_start = (Inr r, s') \<and>
     batch_run demo_batch_env (\<lambda>_. 9) [] 1 (demo_batch\<lparr>bj_items := [demo_batch_item ''i'']\<rparr>) s' =
       (Inl (Exn BatchConflictError ''batch ID was reused with a different manifest''), s')"
proof -
  obtain r s' where r: "batch_run demo_batch_env (\<lambda>_. 0) demo_ended 4 demo_batch demo_batch_start = (Inr r, s')"
    by (rule demo_batch_result)
  have "bv_sha_manifest demo_batch_env (demo_batch\<lparr>bj_items := [demo_batch_item ''i'']\<rparr>) \<noteq>
      bv_sha_manifest demo_batch_env demo_batch" "bj_batch_id (demo_batch\<lparr>bj_items := [demo_batch_item ''i'']\<rparr>) = bj_batch_id demo_batch"
    "1 \<le> (1::int)" "(1::int) \<le> 32"
    by (simp_all add: demo_batch_env_def demo_batch_def demo_sha_def numeral_nat)
  from batch_id_pins_manifest [OF r rtranclp.rtrancl_refl demo_batch_facts(1,7) this(2,1,3,4)] r show ?thesis by blast
qed

end
