(* ===== verification/Maintenance.thy ===== *)
theory Maintenance
  imports AuditLog "HOL-Library.Char_ord" "HOL-Library.List_Lexorder"
begin

text \<open>
  \<open>runtime/maintenance.py\<close>: the sweep over a workspace that moves stale locks, orphaned temporary files
  and closed journals aside.  The workspace is the list of its files by the parts of their relative path;
  a file keeps what the sweep reads of it: its modification time, its digest, its lines as \<open>splitlines\<close>
  gives them (\<open>None\<close> if it is not UTF-8) and as line feeds separate them with bad bytes replaced.  The
  answer of \<open>os.kill(pid, 0)\<close>, the JSON parser, \<open>str\<close> of a JSON value and the manifest file written for a
  result are parameters.  The audit log of the sweep, which no rule of the sweep matches, is kept apart.
\<close>

section \<open>The workspace\<close>

type_synonym ws_path = "string list"

record ws_file =
  wf_mtime :: rat
  wf_sha256 :: string
  wf_lines :: "string list option"
  wf_lf_lines :: "string list"

datatype maintenance_kind = STALE_LOCK | ORPHAN_TEMP | TRANSACTION_JOURNAL

datatype maintenance_decision = QUARANTINED | ARCHIVED | ACTIVE_OWNER | MANUAL_REVIEW_REQUIRED | CANDIDATE_ONLY

record maintenance_action =
  ma_kind :: maintenance_kind
  ma_relative_path :: ws_path
  ma_age_seconds :: rat
  ma_decision :: maintenance_decision
  ma_reason_code :: string
  ma_destination :: "ws_path option"
  ma_source_sha256 :: "string option"

record maintenance_result =
  mr_run_id :: string
  mr_apply :: bool
  mr_root :: string
  mr_stale_after_seconds :: rat
  mr_retention_seconds :: rat
  mr_actions :: "maintenance_action list"
  mr_manifest_uri :: string

text \<open>What sending the null signal does.\<close>

datatype signal_answer = SignalSent | ProcessLookupFailed | SignalDenied | SignalOSError | SignalOverflow

record maintenance_env =
  mv_root :: string
  mv_signal :: "int \<Rightarrow> signal_answer"
  mv_json :: "string \<Rightarrow> json option"
  mv_str :: "json \<Rightarrow> string"
  mv_manifest :: "maintenance_result \<Rightarrow> ws_file"

record maintenance_state =
  mw_files :: "(ws_path \<times> ws_file) list"
  mw_audit :: "audit_event audit_file"

record maintenance_options =
  mo_apply :: bool
  mo_stale_after_seconds :: rat
  mo_retention_seconds :: rat
  mo_quarantine_blocked_journals :: bool

definition path_name :: "ws_path \<Rightarrow> string" where
  "path_name p = (if p = [] then [] else last p)"

text \<open>\<open>path.parent.name\<close>, which for a file of the workspace itself is the name of its root.\<close>

definition parent_name :: "maintenance_env \<Rightarrow> ws_path \<Rightarrow> string" where
  "parent_name env p = path_name (rev (takeWhile (\<lambda>c. c \<noteq> CHR ''/'') (rev (mv_root env))) # butlast p)"

definition excluded :: "ws_path \<Rightarrow> bool" where
  "excluded p \<longleftrightarrow> {''archive'', ''quarantine'', ''maintenance''} \<inter> set p \<noteq> {}"

section \<open>Locks\<close>

fun digits_value :: "string \<Rightarrow> int" where
  "digits_value ds = fold (\<lambda>c n. 10 * n + (int (of_char c) - 48)) ds 0"

text \<open>The first match of \<open>^pid=(\d+)$\<close>; \<open>int\<close> refuses more than 4300 digits.\<close>

definition pid_line :: "string \<Rightarrow> bool" where
  "pid_line l \<longleftrightarrow> starts_with ''pid='' l \<and> drop 4 l \<noteq> [] \<and> list_all is_digit (drop 4 l)"

definition lock_pid :: "ws_file \<Rightarrow> int option res" where
  "lock_pid f =
     (case first_such pid_line (wf_lf_lines f) of
        None \<Rightarrow> Inr None
      | Some l \<Rightarrow> if 4300 < length (drop 4 l) then Inl (Exn ValueError ''Exceeds the limit for integer string conversion'')
                  else Inr (Some (digits_value (drop 4 l))))"

definition pid_alive :: "maintenance_env \<Rightarrow> int \<Rightarrow> bool res" where
  "pid_alive env pid =
     (if pid \<le> 0 then Inr False
      else (case mv_signal env pid of
              ProcessLookupFailed \<Rightarrow> Inr False
            | SignalDenied \<Rightarrow> Inr True
            | SignalOSError \<Rightarrow> Inr False
            | SignalOverflow \<Rightarrow> Inl (Exn ExceptionClass ''OverflowError'')
            | SignalSent \<Rightarrow> Inr True))"

section \<open>Actions\<close>

definition plain_action ::
  "ws_path \<Rightarrow> ws_file \<Rightarrow> rat \<Rightarrow> maintenance_kind \<Rightarrow> maintenance_decision \<Rightarrow> string \<Rightarrow> maintenance_action" where
  "plain_action path f age kind decision reason_code =
     \<lparr>ma_kind = kind, ma_relative_path = path, ma_age_seconds = age, ma_decision = decision,
      ma_reason_code = reason_code, ma_destination = None, ma_source_sha256 = Some (wf_sha256 f)\<rparr>"

text \<open>\<open>os.replace\<close>.\<close>

definition replace_file :: "ws_path \<Rightarrow> ws_path \<Rightarrow> ws_file \<Rightarrow> maintenance_state \<Rightarrow> maintenance_state" where
  "replace_file path destination f s =
     s\<lparr>mw_files := dict_set destination f (filter (\<lambda>x. fst x \<noteq> path) (mw_files s))\<rparr>"

definition move_action ::
  "ws_path \<Rightarrow> ws_file \<Rightarrow> rat \<Rightarrow> maintenance_kind \<Rightarrow> bool \<Rightarrow> string \<Rightarrow> string \<Rightarrow> string \<Rightarrow> maintenance_state \<Rightarrow>
   maintenance_action \<times> maintenance_state" where
  "move_action path f age kind apply' run_id target_root reason_code s =
     (if \<not> apply' then (plain_action path f age kind CANDIDATE_ONLY reason_code, s)
      else
        (let destination = target_root # run_id # path in
         (\<lparr>ma_kind = kind, ma_relative_path = path, ma_age_seconds = age,
           ma_decision = (if target_root = ''archive'' then ARCHIVED else QUARANTINED),
           ma_reason_code = reason_code, ma_destination = Some destination, ma_source_sha256 = Some (wf_sha256 f)\<rparr>,
          replace_file path destination f s)))"

definition handle_lock ::
  "maintenance_env \<Rightarrow> ws_path \<Rightarrow> ws_file \<Rightarrow> rat \<Rightarrow> bool \<Rightarrow> string \<Rightarrow> maintenance_state \<Rightarrow>
   (maintenance_action, maintenance_state) outcome" where
  "handle_lock env path f age apply' run_id s =
     seq (pure (lock_pid f) s) (\<lambda>pid s.
     seq (case pid of None \<Rightarrow> (Inr False, s) | Some n \<Rightarrow> pure (pid_alive env n) s) (\<lambda>alive s.
     if alive then (Inr (plain_action path f age STALE_LOCK ACTIVE_OWNER ''lock_owner_process_is_alive''), s)
     else
       (let (a, s) = move_action path f age STALE_LOCK apply' run_id ''quarantine''
              (if pid \<noteq> None then ''lock_owner_process_not_alive'' else ''invalid_lock_owner'') s
        in (Inr a, s))))"

definition journal_file_status :: "maintenance_env \<Rightarrow> ws_file \<Rightarrow> string res" where
  "journal_file_status env f =
     (case wf_lines f of
        None \<Rightarrow> Inl (Exn ValueError ''UnicodeDecodeError'')
      | Some ls \<Rightarrow>
          (let lines = filter (\<lambda>l. l \<noteq> []) ls in
           if lines = [] then Inr ''invalid''
           else (case mv_json env (last lines) of
                   Some (JObj ms) \<Rightarrow>
                     (case map_of ms ''status'' of
                        None \<Rightarrow> Inr ''invalid'' | Some (JStr st) \<Rightarrow> Inr st | Some v \<Rightarrow> Inr (mv_str env v))
                 | _ \<Rightarrow> Inr ''invalid'')))"

definition handle_journal ::
  "maintenance_env \<Rightarrow> ws_path \<Rightarrow> ws_file \<Rightarrow> rat \<Rightarrow> bool \<Rightarrow> string \<Rightarrow> bool \<Rightarrow> maintenance_state \<Rightarrow>
   (maintenance_action, maintenance_state) outcome" where
  "handle_journal env path f age apply' run_id quarantine_blocked s =
     seq (pure (journal_file_status env f) s) (\<lambda>status s.
     if status = ''committed'' then
       (let (a, s) = move_action path f age TRANSACTION_JOURNAL apply' run_id ''archive'' ''committed_journal_exceeded_retention'' s
        in (Inr a, s))
     else if quarantine_blocked \<and> (status = ''blocked'' \<or> status = ''reconcile_required'') then
       (let (a, s) = move_action path f age TRANSACTION_JOURNAL apply' run_id ''quarantine''
              (status @ ''_journal_explicitly_quarantined'') s
        in (Inr a, s))
     else (Inr (plain_action path f age TRANSACTION_JOURNAL MANUAL_REVIEW_REQUIRED
              (''journal_status_'' @ status @ ''_requires_reconciliation'')), s))"

section \<open>The sweep\<close>

definition is_journal_path :: "maintenance_env \<Rightarrow> ws_path \<Rightarrow> bool" where
  "is_journal_path env p \<longleftrightarrow> parent_name env p = ''transactions'' \<and> starts_with ''transaction-'' (path_name p) \<and>
     ends_with ''.jsonl'' (path_name p)"

definition file_age :: "rat \<Rightarrow> ws_file \<Rightarrow> rat" where
  "file_age now f = max 0 (now - wf_mtime f)"

text \<open>What the sweep does with one file: nothing, or an action.\<close>

definition sweep_file ::
  "maintenance_env \<Rightarrow> maintenance_options \<Rightarrow> rat \<Rightarrow> string \<Rightarrow> ws_path \<Rightarrow> ws_file \<Rightarrow> maintenance_state \<Rightarrow>
   (maintenance_action option, maintenance_state) outcome" where
  "sweep_file env opts now run_id path f s =
     (let age = file_age now f
      in if ends_with ''.lock'' (path_name path) \<and> mo_stale_after_seconds opts \<le> age then
           seq (handle_lock env path f age (mo_apply opts) run_id s) (\<lambda>a s. (Inr (Some a), s))
         else if ends_with ''.tmp'' (path_name path) \<and> mo_stale_after_seconds opts \<le> age then
           (let (a, s) = move_action path f age ORPHAN_TEMP (mo_apply opts) run_id ''quarantine''
                  ''orphan_temp_exceeded_stale_threshold'' s
            in (Inr (Some a), s))
         else if is_journal_path env path \<and> mo_retention_seconds opts \<le> age then
           seq (handle_journal env path f age (mo_apply opts) run_id (mo_quarantine_blocked_journals opts) s)
             (\<lambda>a s. (Inr (Some a), s))
         else (Inr None, s))"

fun sweep_paths ::
  "maintenance_env \<Rightarrow> maintenance_options \<Rightarrow> rat \<Rightarrow> string \<Rightarrow> ws_path list \<Rightarrow> maintenance_action list \<Rightarrow>
   maintenance_state \<Rightarrow> (maintenance_action list, maintenance_state) outcome" where
  "sweep_paths env opts now run_id [] actions s = (Inr actions, s)"
| "sweep_paths env opts now run_id (path # paths) actions s =
     (case map_of (mw_files s) path of
        None \<Rightarrow> sweep_paths env opts now run_id paths actions s
      | Some f \<Rightarrow>
          if excluded path then sweep_paths env opts now run_id paths actions s
          else seq (sweep_file env opts now run_id path f s) (\<lambda>a s.
               sweep_paths env opts now run_id paths (actions @ (case a of None \<Rightarrow> [] | Some a \<Rightarrow> [a])) s))"

definition sweep_event :: "int \<Rightarrow> maintenance_result \<Rightarrow> ws_file \<Rightarrow> audit_event" where
  "sweep_event occurred r manifest =
     \<lparr>ae_event_id = ''evt-'' @ mr_run_id r, ae_project_id = ''workspace'', ae_event_type = ''local_maintenance_completed'',
      ae_actor_id = ''operator:local-maintenance'', ae_actor_role = ''operator'', ae_dossier_revision = 1,
      ae_occurred_at = occurred,
      ae_details = [(''action_count'', JInt (int (length (mr_actions r)))), (''manifest_sha256'', JStr (wf_sha256 manifest)),
        (''mode'', JStr (if mr_apply r then ''apply'' else ''report''))]\<rparr>"

text \<open>\<open>occurred\<close> is the instant of the audit event; \<open>uid\<close> the fresh part of the id of the run.\<close>

definition run_maintenance ::
  "maintenance_env \<Rightarrow> string \<Rightarrow> int \<Rightarrow> maintenance_options \<Rightarrow> rat \<Rightarrow> maintenance_state \<Rightarrow>
   (maintenance_result, maintenance_state) outcome" where
  "run_maintenance env uid occurred opts now s =
     (if mo_stale_after_seconds opts \<le> 0 \<or> mo_retention_seconds opts \<le> 0 then
        (Inl (Exn ValueError ''maintenance age thresholds must be positive''), s)
      else
        (let run_id = ''maintenance-'' @ uid in
         seq (sweep_paths env opts now run_id (sort (map fst (mw_files s))) [] s) (\<lambda>actions s.
         let r = \<lparr>mr_run_id = run_id, mr_apply = mo_apply opts, mr_root = mv_root env,
                  mr_stale_after_seconds = mo_stale_after_seconds opts,
                  mr_retention_seconds = mo_retention_seconds opts, mr_actions = actions,
                  mr_manifest_uri = mv_root env @ ''/maintenance/'' @ run_id @ ''.json''\<rparr>;
             manifest = mv_manifest env r;
             s = s\<lparr>mw_files := dict_set [''maintenance'', run_id @ ''.json''] manifest (mw_files s)\<rparr>
         in case append_once ae_event_id (sweep_event occurred r manifest) (mw_audit s) of
              (Inl e, lg) \<Rightarrow> (Inl e, s\<lparr>mw_audit := lg\<rparr>)
            | (Inr _, lg) \<Rightarrow> (Inr r, s\<lparr>mw_audit := lg\<rparr>))))"

section \<open>Where a file goes\<close>

definition move_target :: "maintenance_env \<Rightarrow> maintenance_options \<Rightarrow> rat \<Rightarrow> ws_path \<Rightarrow> ws_file \<Rightarrow> string option" where
  "move_target env opts now path f =
     (let age = file_age now f
      in if excluded path \<or> \<not> mo_apply opts then None
         else if ends_with ''.lock'' (path_name path) \<and> mo_stale_after_seconds opts \<le> age then
           (case lock_pid f of
              Inl _ \<Rightarrow> None
            | Inr None \<Rightarrow> Some ''quarantine''
            | Inr (Some n) \<Rightarrow> if pid_alive env n = Inr False then Some ''quarantine'' else None)
         else if ends_with ''.tmp'' (path_name path) \<and> mo_stale_after_seconds opts \<le> age then Some ''quarantine''
         else if is_journal_path env path \<and> mo_retention_seconds opts \<le> age then
           (case journal_file_status env f of
              Inl _ \<Rightarrow> None
            | Inr st \<Rightarrow>
                if st = ''committed'' then Some ''archive''
                else if mo_quarantine_blocked_journals opts \<and> (st = ''blocked'' \<or> st = ''reconcile_required'') then Some ''quarantine''
                else None)
         else None)"

text \<open>What the sweep does with a file for which this is the target.\<close>

definition swept ::
  "string option \<Rightarrow> string \<Rightarrow> ws_path \<Rightarrow> ws_file \<Rightarrow> maintenance_state \<Rightarrow>
   (maintenance_action option, maintenance_state) outcome \<Rightarrow> bool" where
  "swept target run_id path f s r \<longleftrightarrow>
     (case target of
        None \<Rightarrow> snd r = s
      | Some t \<Rightarrow> snd r = replace_file path (t # run_id # path) f s \<and>
          (\<exists>a. fst r = Inr (Some a) \<and> ma_relative_path a = path \<and> ma_destination a = Some (t # run_id # path) \<and>
            ma_source_sha256 a = Some (wf_sha256 f)))"

lemma swept_move:
  "swept (if ap then Some t else None) run_id path f s
     (let (a, s) = move_action path f age kind ap run_id t reason s in (Inr (Some a), s))"
  by (simp add: swept_def move_action_def Let_def)

lemma swept_Some [simp]:
  "seq r (\<lambda>a s. (Inr (Some a), s)) = (map_sum id Some (fst r), snd r)"
  by (cases r; cases "fst r") auto

lemma swept_lock:
  "swept (case lock_pid f of
            Inl _ \<Rightarrow> None
          | Inr None \<Rightarrow> if ap then Some ''quarantine'' else None
          | Inr (Some n) \<Rightarrow> if pid_alive env n = Inr False then (if ap then Some ''quarantine'' else None) else None)
     run_id path f s (seq (handle_lock env path f age ap run_id s) (\<lambda>a s. (Inr (Some a), s)))"
proof (cases "lock_pid f")
  case (Inr pid)
  show ?thesis
  proof (cases pid)
    case (Some n)
    with Inr show ?thesis
      by (cases "pid_alive env n") (simp_all add: handle_lock_def swept_def move_action_def Let_def plain_action_def)
  qed (simp add: handle_lock_def swept_def move_action_def Let_def Inr)
qed (simp add: handle_lock_def swept_def)

lemma swept_journal:
  "swept (case journal_file_status env f of
            Inl _ \<Rightarrow> None
          | Inr st \<Rightarrow>
              if st = ''committed'' then (if ap then Some ''archive'' else None)
              else if qb \<and> (st = ''blocked'' \<or> st = ''reconcile_required'') then (if ap then Some ''quarantine'' else None)
              else None)
     run_id path f s (seq (handle_journal env path f age ap run_id qb s) (\<lambda>a s. (Inr (Some a), s)))"
proof (cases "journal_file_status env f")
  case (Inr st)
  show ?thesis
  proof (cases "st = ''committed''")
    case True
    with Inr show ?thesis by (simp add: handle_journal_def swept_def move_action_def Let_def)
  next
    case False
    show ?thesis
    proof (cases "qb \<and> (st = ''blocked'' \<or> st = ''reconcile_required'')")
      case True
      with Inr False show ?thesis by (simp add: handle_journal_def swept_def move_action_def Let_def)
    next
      case other: False
      show ?thesis
        by (simp only: Inr sum.case False other if_False handle_journal_def pure_def seq_simps swept_Some)
          (simp add: swept_def)
    qed
  qed
qed (simp add: handle_journal_def swept_def)

lemma if_None: "(if b then (if c then x else None) else None) = (if c then (if b then x else None) else None)"
  by simp

lemma sweep_file_swept:
  assumes "\<not> excluded path"
  shows "swept (move_target env opts now path f) run_id path f s (sweep_file env opts now run_id path f s)"
proof -
  let ?age = "file_age now f" and ?ap = "mo_apply opts"
  let ?lock = "ends_with ''.lock'' (path_name path) \<and> mo_stale_after_seconds opts \<le> ?age"
  let ?tmp = "ends_with ''.tmp'' (path_name path) \<and> mo_stale_after_seconds opts \<le> ?age"
  let ?journal = "is_journal_path env path \<and> mo_retention_seconds opts \<le> ?age"
  consider ?lock | "\<not> ?lock" ?tmp | "\<not> ?lock" "\<not> ?tmp" ?journal | "\<not> ?lock" "\<not> ?tmp" "\<not> ?journal" by blast
  then show ?thesis
  proof cases
    case 1
    have mt: "move_target env opts now path f = (case lock_pid f of Inl _ \<Rightarrow> None
          | Inr None \<Rightarrow> if ?ap then Some ''quarantine'' else None
          | Inr (Some n) \<Rightarrow> if pid_alive env n = Inr False then (if ?ap then Some ''quarantine'' else None) else None)"
      unfolding move_target_def Let_def using 1 assms
      by (cases ?ap; cases "lock_pid f") (simp_all split: option.split)
    have sf: "sweep_file env opts now run_id path f s =
        seq (handle_lock env path f ?age ?ap run_id s) (\<lambda>a s. (Inr (Some a), s))"
      unfolding sweep_file_def Let_def using 1 by (simp only: if_True simp_thms)
    show ?thesis unfolding mt sf by (rule swept_lock)
  next
    case 2
    have mt: "move_target env opts now path f = (if ?ap then Some ''quarantine'' else None)"
      unfolding move_target_def Let_def using 2 assms by auto
    have sf: "sweep_file env opts now run_id path f s = (let (a, s) = move_action path f ?age ORPHAN_TEMP ?ap run_id
        ''quarantine'' ''orphan_temp_exceeded_stale_threshold'' s in (Inr (Some a), s))"
      unfolding sweep_file_def Let_def using 2 by (simp only: if_True if_False simp_thms)
    show ?thesis unfolding mt sf by (rule swept_move)
  next
    case 3
    have mt: "move_target env opts now path f = (case journal_file_status env f of Inl _ \<Rightarrow> None
          | Inr st \<Rightarrow> if st = ''committed'' then (if ?ap then Some ''archive'' else None)
              else if mo_quarantine_blocked_journals opts \<and> (st = ''blocked'' \<or> st = ''reconcile_required'')
              then (if ?ap then Some ''quarantine'' else None) else None)"
      unfolding move_target_def Let_def using 3 assms by (auto split: sum.split)
    have sf: "sweep_file env opts now run_id path f s = seq (handle_journal env path f ?age ?ap run_id
        (mo_quarantine_blocked_journals opts) s) (\<lambda>a s. (Inr (Some a), s))"
      unfolding sweep_file_def Let_def using 3 by (simp only: if_True if_False simp_thms)
    show ?thesis unfolding mt sf by (rule swept_journal)
  next
    case 4
    have mt: "move_target env opts now path f = None"
      unfolding move_target_def Let_def using 4 by auto
    have sf: "sweep_file env opts now run_id path f s = (Inr None, s)"
      unfolding sweep_file_def Let_def using 4 by (simp only: if_False)
    show ?thesis unfolding mt sf by (simp add: swept_def)
  qed
qed

lemma target_root: "move_target env opts now path f = Some t \<Longrightarrow> t \<in> {''archive'', ''quarantine''} \<and> \<not> excluded path \<and> mo_apply opts"
  by (auto simp: move_target_def Let_def split: if_splits option.splits sum.splits)

lemma excluded_target: "t \<in> {''archive'', ''quarantine''} \<Longrightarrow> excluded (t # run_id # path)"
  by (auto simp: excluded_def)

text \<open>No file is where the run would put one.\<close>

definition fresh_run :: "string \<Rightarrow> maintenance_state \<Rightarrow> bool" where
  "fresh_run run_id s \<longleftrightarrow> (\<forall>t p. t # run_id # p \<notin> fst ` set (mw_files s)) \<and>
     [''maintenance'', run_id @ ''.json''] \<notin> fst ` set (mw_files s)"

text \<open>A file is in its place, or where it goes if it is done.\<close>

definition in_place :: "string option \<Rightarrow> string \<Rightarrow> bool \<Rightarrow> maintenance_state \<Rightarrow> ws_path \<Rightarrow> ws_file \<Rightarrow> bool" where
  "in_place target run_id ready s p f \<longleftrightarrow>
     (case target of
        None \<Rightarrow> map_of (mw_files s) p = Some f
      | Some t \<Rightarrow>
          if ready then map_of (mw_files s) p = None \<and> map_of (mw_files s) (t # run_id # p) = Some f
          else map_of (mw_files s) p = Some f)"

definition placed ::
  "maintenance_env \<Rightarrow> maintenance_options \<Rightarrow> rat \<Rightarrow> string \<Rightarrow> maintenance_state \<Rightarrow> ws_path set \<Rightarrow> maintenance_state \<Rightarrow> bool" where
  "placed env opts now run_id s0 ready s \<longleftrightarrow>
     (\<forall>p f. map_of (mw_files s0) p = Some f \<longrightarrow> in_place (move_target env opts now p f) run_id (p \<in> ready) s p f) \<and>
     (\<forall>q \<in> fst ` set (mw_files s). q \<in> fst ` set (mw_files s0) \<or> excluded q)"

lemma map_of_filter_key: "map_of (filter (\<lambda>x. fst x \<noteq> p) xs) q = (if q = p then None else map_of xs q)"
  by (induction xs) auto

lemma replaced_files:
  "map_of (mw_files (replace_file p d f s)) q =
     (if q = d then Some f else if q = p then None else map_of (mw_files s) q)"
  by (simp add: replace_file_def map_of_filter_key)

lemma replaced_keys: "fst ` set (mw_files (replace_file p d f s)) \<subseteq> insert d (fst ` set (mw_files s))"
  by (auto simp: replace_file_def keys_dict_set)

lemma bspec_mono: "A \<subseteq> B \<Longrightarrow> \<forall>x \<in> B. P x \<Longrightarrow> \<forall>x \<in> A. P x"
  by blast

lemma placed_skip:
  assumes "placed env opts now run_id s0 ready s" "map_of (mw_files s0) p = Some f" "move_target env opts now p f = None"
  shows "placed env opts now run_id s0 (insert p ready) s"
  unfolding placed_def
proof (intro conjI allI impI)
  fix q g
  assume "map_of (mw_files s0) q = Some g"
  with assms(1) have "in_place (move_target env opts now q g) run_id (q \<in> ready) s q g" by (simp add: placed_def)
  then show "in_place (move_target env opts now q g) run_id (q \<in> insert p ready) s q g"
    using assms(2,3) \<open>map_of (mw_files s0) q = Some g\<close> by (cases "q = p") (simp_all add: in_place_def)
qed (use assms(1) in \<open>simp add: placed_def\<close>)

lemma placed_move:
  assumes "placed env opts now run_id s0 ready s" "map_of (mw_files s0) p = Some f" "move_target env opts now p f = Some t"
    and "fresh_run run_id s0" "p \<notin> ready"
  shows "placed env opts now run_id s0 (insert p ready) (replace_file p (t # run_id # p) f s)"
  unfolding placed_def
proof (intro conjI allI impI)
  have new: "q \<noteq> t' # run_id # q'" if "map_of (mw_files s0) q = Some g" for q g t' q'
    using assms(4) map_of_SomeD [OF that] by (force simp: fresh_run_def)
  fix q g
  assume g: "map_of (mw_files s0) q = Some g"
  show "in_place (move_target env opts now q g) run_id (q \<in> insert p ready) (replace_file p (t # run_id # p) f s) q g"
  proof (cases "q = p")
    case True
    then have "g = f" using g assms(2) by simp
    with True assms(3) new [OF g] show ?thesis by (simp add: replaced_files in_place_def)
  next
    case False
    have "p \<noteq> t' # run_id # q" for t' by (rule new [OF assms(2)])
    then have not_p: "t' # run_id # q \<noteq> p" for t' by metis
    have "in_place (move_target env opts now q g) run_id (q \<in> ready) s q g"
      using assms(1) g unfolding placed_def by blast
    moreover have "q \<noteq> t # run_id # p" "t' # run_id # q \<noteq> t # run_id # p" for t'
      using False new [OF g] by simp_all
    ultimately have "map_of (mw_files (replace_file p (t # run_id # p) f s)) q = map_of (mw_files s) q"
      "map_of (mw_files (replace_file p (t # run_id # p) f s)) (t' # run_id # q) = map_of (mw_files s) (t' # run_id # q)" for t'
      using False not_p by (simp_all only: replaced_files if_False)
    with \<open>in_place (move_target env opts now q g) run_id (q \<in> ready) s q g\<close> False show ?thesis
      by (cases "move_target env opts now q g") (simp_all add: in_place_def)
  qed
next
  have "excluded (t # run_id # p)" using target_root [OF assms(3)] excluded_target by blast
  moreover have "\<forall>q \<in> fst ` set (mw_files s). q \<in> fst ` set (mw_files s0) \<or> excluded q"
    using assms(1) by (simp add: placed_def)
  ultimately have "\<forall>q \<in> insert (t # run_id # p) (fst ` set (mw_files s)). q \<in> fst ` set (mw_files s0) \<or> excluded q" by simp
  then show "\<forall>q \<in> fst ` set (mw_files (replace_file p (t # run_id # p) f s)). q \<in> fst ` set (mw_files s0) \<or> excluded q"
    by (rule bspec_mono [OF replaced_keys])
qed

definition reported ::
  "maintenance_env \<Rightarrow> maintenance_options \<Rightarrow> rat \<Rightarrow> string \<Rightarrow> ws_path \<Rightarrow> ws_file \<Rightarrow> maintenance_action list \<Rightarrow> bool" where
  "reported env opts now run_id p f as \<longleftrightarrow>
     (\<forall>t. move_target env opts now p f = Some t \<longrightarrow>
       (\<exists>a \<in> set as. ma_relative_path a = p \<and> ma_destination a = Some (t # run_id # p) \<and>
         ma_source_sha256 a = Some (wf_sha256 f)))"

lemma reported_mono: "reported env opts now run_id p f as \<Longrightarrow> set as \<subseteq> set bs \<Longrightarrow> reported env opts now run_id p f bs"
  unfolding reported_def by blast

lemma sweep_step:
  assumes "sweep_paths env opts now run_id (p # paths) acts s = (x, s')" and "placed env opts now run_id s0 ready s"
    and "map_of (mw_files s0) p = Some f" and "p \<notin> ready" and "fresh_run run_id s0"
  obtains e s1 where "x = Inl e" "s' = s1" "placed env opts now run_id s0 (insert p ready) s1"
  | acts1 s1 where "sweep_paths env opts now run_id paths acts1 s1 = (x, s')" "set acts \<subseteq> set acts1"
    "placed env opts now run_id s0 (insert p ready) s1" "reported env opts now run_id p f acts1"
proof -
  have "in_place (move_target env opts now p f) run_id (p \<in> ready) s p f" using assms(2,3) unfolding placed_def by blast
  then have here: "map_of (mw_files s) p = Some f"
    using assms(4) by (simp add: in_place_def split: option.splits)
  show ?thesis
  proof (cases "excluded p")
    case True
    then have none: "move_target env opts now p f = None" by (simp add: move_target_def)
    have "sweep_paths env opts now run_id paths acts s = (x, s')" using assms(1) here True by simp
    with placed_skip [OF assms(2,3) none] none show ?thesis by (intro that(2) [of acts s]) (simp_all add: reported_def)
  next
    case False
    obtain y s1 where y: "sweep_file env opts now run_id p f s = (y, s1)" by fastforce
    have swept: "swept (move_target env opts now p f) run_id p f s (y, s1)"
      using sweep_file_swept [OF False, of env opts now f run_id s] y by simp
    have pl: "placed env opts now run_id s0 (insert p ready) s1"
    proof (cases "move_target env opts now p f")
      case None
      with swept placed_skip [OF assms(2,3)] show ?thesis by (simp add: swept_def)
    next
      case (Some t)
      with swept placed_move [OF assms(2,3) Some assms(5,4)] show ?thesis by (simp add: swept_def)
    qed
    show ?thesis
    proof (cases y)
      case (Inl e)
      with assms(1) here False y pl show ?thesis by (intro that(1) [of e s1]) simp_all
    next
      case (Inr a)
      let ?acts = "acts @ (case a of None \<Rightarrow> [] | Some a \<Rightarrow> [a])"
      have "sweep_paths env opts now run_id paths ?acts s1 = (x, s')" using assms(1) here False y Inr by simp
      moreover have "reported env opts now run_id p f ?acts" using swept Inr by (auto simp: swept_def reported_def)
      ultimately show ?thesis using pl by (intro that(2) [of ?acts s1]) auto
    qed
  qed
qed

lemma map_of_key: "map_of xs p = Some f \<Longrightarrow> p \<in> fst ` set xs"
  by (metis map_of_SomeD fst_conv image_eqI)

lemma known_path: "set (p # paths) \<subseteq> fst ` set xs \<Longrightarrow> \<exists>f. map_of xs p = Some f"
  by (metis list.set_intros(1) map_of_eq_None_iff not_Some_eq set_map subsetD)

text \<open>How the sweep of some paths leaves the workspace.\<close>

definition sweep_ends ::
  "maintenance_env \<Rightarrow> maintenance_options \<Rightarrow> rat \<Rightarrow> string \<Rightarrow> maintenance_state \<Rightarrow> ws_path list \<Rightarrow>
   maintenance_action list res \<Rightarrow> maintenance_state \<Rightarrow> ws_path set \<Rightarrow> bool" where
  "sweep_ends env opts now run_id s0 paths x s' ready \<longleftrightarrow> placed env opts now run_id s0 ready s' \<and>
     (\<forall>as. x = Inr as \<longrightarrow> set paths \<subseteq> ready \<and>
       (\<forall>q \<in> set paths. \<forall>g. map_of (mw_files s0) q = Some g \<longrightarrow> reported env opts now run_id q g as))"

lemma sweep_placed:
  assumes "sweep_paths env opts now run_id paths acts s = (x, s')" and "placed env opts now run_id s0 ready s"
    and "set paths \<subseteq> fst ` set (mw_files s0)" and "distinct paths" and "set paths \<inter> ready = {}" and "fresh_run run_id s0"
  shows "\<exists>ready'. sweep_ends env opts now run_id s0 paths x s' ready' \<and> ready \<subseteq> ready' \<and> (\<forall>as. x = Inr as \<longrightarrow> set acts \<subseteq> set as)"
  using assms(1-5)
proof (induction paths arbitrary: acts s ready)
  case Nil
  then show ?case by (intro exI [of _ ready]) (auto simp: sweep_ends_def)
next
  case (Cons p paths)
  obtain f where f: "map_of (mw_files s0) p = Some f" using known_path [OF Cons.prems(3)] by blast
  have rest: "set paths \<subseteq> fst ` set (mw_files s0)" "distinct paths" "set paths \<inter> insert p ready = {}" "p \<notin> ready"
    using Cons.prems(3-5) by auto
  show ?case
  proof (rule sweep_step [OF Cons.prems(1,2) f rest(4) assms(6)])
    fix e s1
    assume "x = Inl e" "s' = s1" "placed env opts now run_id s0 (insert p ready) s1"
    then show ?thesis by (intro exI [of _ "insert p ready"]) (auto simp: sweep_ends_def)
  next
    fix acts1 s1
    assume a: "sweep_paths env opts now run_id paths acts1 s1 = (x, s')" "placed env opts now run_id s0 (insert p ready) s1"
      "set acts \<subseteq> set acts1" "reported env opts now run_id p f acts1"
    from Cons.IH [OF a(1,2) rest(1-3)] obtain ready' where r: "sweep_ends env opts now run_id s0 paths x s' ready' \<and>
      insert p ready \<subseteq> ready' \<and> (\<forall>as. x = Inr as \<longrightarrow> set acts1 \<subseteq> set as)" ..
    note e = r [THEN conjunct1, unfolded sweep_ends_def] and r = r [THEN conjunct2]
    have "set (p # paths) \<subseteq> ready' \<and>
       (\<forall>q \<in> set (p # paths). \<forall>g. map_of (mw_files s0) q = Some g \<longrightarrow> reported env opts now run_id q g as)" if "x = Inr as" for as
    proof (intro conjI ballI allI impI)
      note es = e [THEN conjunct2, rule_format, OF that] and rs = r [THEN conjunct2, rule_format, OF that]
      show "set (p # paths) \<subseteq> ready'" using es [THEN conjunct1] r by simp
      fix q g
      assume "q \<in> set (p # paths)" and g: "map_of (mw_files s0) q = Some g"
      then consider "q = p" | "q \<in> set paths" by auto
      then show "reported env opts now run_id q g as"
      proof cases
        case 1
        with f g have "g = f" by simp
        with 1 reported_mono [OF a(4) rs] show ?thesis by simp
      next
        case 2
        from es [THEN conjunct2, rule_format, OF this g] show ?thesis .
      qed
    qed
    then have "sweep_ends env opts now run_id s0 (p # paths) x s' ready'"
      unfolding sweep_ends_def using e [THEN conjunct1] by simp
    then show ?thesis using r a(3) by (intro exI [of _ ready']) auto
  qed
qed

lemma placed_start: "placed env opts now run_id s {} s"
  by (simp add: placed_def in_place_def split: option.split)

lemma sweep_whole:
  assumes "sweep_paths env opts now run_id (sort (map fst (mw_files s))) [] s = (x, s')"
    and "distinct (map fst (mw_files s))" and "fresh_run run_id s"
  obtains ready where "placed env opts now run_id s ready s'"
    "\<And>as. x = Inr as \<Longrightarrow> fst ` set (mw_files s) \<subseteq> ready"
    "\<And>as p f. x = Inr as \<Longrightarrow> map_of (mw_files s) p = Some f \<Longrightarrow> reported env opts now run_id p f as"
proof -
  let ?paths = "sort (map fst (mw_files s))"
  have "set ?paths \<subseteq> fst ` set (mw_files s)" "distinct ?paths" "set ?paths \<inter> {} = {}" using assms(2) by simp_all
  from sweep_placed [OF assms(1) placed_start this assms(3)] obtain ready where
    r: "sweep_ends env opts now run_id s ?paths x s' ready \<and> {} \<subseteq> ready \<and> (\<forall>as. x = Inr as \<longrightarrow> set [] \<subseteq> set as)" ..
  note r = r [THEN conjunct1, unfolded sweep_ends_def set_sort set_map]
  show ?thesis
  proof (rule that)
    show "placed env opts now run_id s ready s'" by (rule r [THEN conjunct1])
    show "fst ` set (mw_files s) \<subseteq> ready" if "x = Inr as" for as
      by (rule r [THEN conjunct2, rule_format, OF that, THEN conjunct1])
    show "reported env opts now run_id p f as" if "x = Inr as" "map_of (mw_files s) p = Some f" for as p f
      by (rule r [THEN conjunct2, rule_format, OF that(1), THEN conjunct2, rule_format, OF map_of_key [OF that(2)] that(2)])
  qed
qed

section \<open>Properties\<close>

text \<open>The run of an instant, and its manifest.\<close>

abbreviation run_of :: "string \<Rightarrow> string" where
  "run_of uid \<equiv> ''maintenance-'' @ uid"

abbreviation manifest_path :: "string \<Rightarrow> ws_path" where
  "manifest_path uid \<equiv> [''maintenance'', run_of uid @ ''.json'']"

lemma run_maintenance_swept:
  assumes "run_maintenance env uid occurred opts now s = (x, s')"
  obtains "s' = s" "\<exists>e. x = Inl e"
  | y s1 where "sweep_paths env opts now (run_of uid) (sort (map fst (mw_files s))) [] s = (y, s1)"
    "\<And>p. p \<noteq> manifest_path uid \<Longrightarrow> map_of (mw_files s') p = map_of (mw_files s1) p"
    "fst ` set (mw_files s') \<subseteq> insert (manifest_path uid) (fst ` set (mw_files s1))"
    "\<And>r. x = Inr r \<Longrightarrow> y = Inr (mr_actions r)"
    "\<And>r. x = Inr r \<Longrightarrow> map_of (mw_files s') (manifest_path uid) = Some (mv_manifest env r)"
proof (cases "mo_stale_after_seconds opts \<le> 0 \<or> mo_retention_seconds opts \<le> 0")
  case True
  with assms show ?thesis by (intro that(1)) (auto simp: run_maintenance_def)
next
  case False
  obtain y s1 where y: "sweep_paths env opts now (run_of uid) (sort (map fst (mw_files s))) [] s = (y, s1)" by fastforce
  show ?thesis
  proof (cases y)
    case (Inl e)
    with assms False y have "x = Inl e" "s' = s1" by (simp_all add: run_maintenance_def Let_def)
    then show ?thesis by (intro that(2) [OF y]) auto
  next
    case (Inr as)
    with assms False y obtain m where m: "mw_files s' = dict_set (manifest_path uid) m (mw_files s1)"
      "\<And>r. x = Inr r \<Longrightarrow> mr_actions r = as \<and> m = mv_manifest env r"
      by (auto simp: run_maintenance_def Let_def split: prod.splits sum.splits)
    show ?thesis
      by (rule that(2) [OF y]) (use m Inr in \<open>auto simp: keys_dict_set\<close>)
  qed
qed

lemma maintenance_effect:
  assumes "run_maintenance env uid occurred opts now s = (x, s')" and "distinct (map fst (mw_files s))"
    and "fresh_run (run_of uid) s" and "map_of (mw_files s) p = Some f"
  shows "(move_target env opts now p f = None \<longrightarrow> map_of (mw_files s') p = Some f) \<and>
    (\<forall>t. move_target env opts now p f = Some t \<longrightarrow>
      map_of (mw_files s') p = None \<and> map_of (mw_files s') (t # run_of uid # p) = Some f \<or>
      map_of (mw_files s') p = Some f \<and> (\<exists>e. x = Inl e)) \<and>
    (\<forall>r. x = Inr r \<longrightarrow> reported env opts now (run_of uid) p f (mr_actions r))"
  using assms(1)
proof (cases rule: run_maintenance_swept)
  case 1
  then obtain e where "x = Inl e" by blast
  with 1(1) assms(4) show ?thesis by simp
next
  case (2 y s1)
  obtain ready where ready: "placed env opts now (run_of uid) s ready s1"
    "\<And>as. y = Inr as \<Longrightarrow> fst ` set (mw_files s) \<subseteq> ready"
    "\<And>as p f. y = Inr as \<Longrightarrow> map_of (mw_files s) p = Some f \<Longrightarrow> reported env opts now (run_of uid) p f as"
    by (rule sweep_whole [OF 2(1) assms(2,3)], rule that) assumption+
  have in_dom: "p \<in> fst ` set (mw_files s)" using assms(4) by (rule map_of_key)
  then have "p \<noteq> manifest_path uid" using in_dom assms(3) unfolding fresh_run_def by blast
  then have same: "map_of (mw_files s') p = map_of (mw_files s1) p"
    "map_of (mw_files s') (t # run_of uid # p) = map_of (mw_files s1) (t # run_of uid # p)" for t
    using 2(2) [of p] 2(2) [of "t # run_of uid # p"] by simp_all
  have here: "in_place (move_target env opts now p f) (run_of uid) (p \<in> ready) s1 p f"
    using ready(1) assms(4) by (simp add: placed_def)
  have ready_all: "p \<in> ready" "reported env opts now (run_of uid) p f (mr_actions r)" if "x = Inr r" for r
    using subsetD [OF ready(2) [OF 2(4) [OF that]] in_dom] ready(3) [OF 2(4) [OF that] assms(4)] by simp_all
  show ?thesis
  proof (intro conjI allI impI)
    show "map_of (mw_files s') p = Some f" if "move_target env opts now p f = None"
      using here that unfolding same in_place_def by simp
    show "map_of (mw_files s') p = None \<and> map_of (mw_files s') (t # run_of uid # p) = Some f \<or>
      map_of (mw_files s') p = Some f \<and> (\<exists>e. x = Inl e)" if "move_target env opts now p f = Some t" for t
      using here that ready_all(1) unfolding same in_place_def by (cases x) (auto split: if_splits)
  qed (rule ready_all(2))
qed

text \<open>
  C26. Maintenance loses nothing: whether it returns or raises, every file that was there is still there
  with its content.  A file for which no rule says otherwise, and every file when the run only reports, is
  where it was; the others are there too, or under the directory of the run; and when the run returns
  they have all been moved, and every move is in the report with the digest of the file.
\<close>

theorem maintenance_loses_nothing:
  assumes "run_maintenance env uid occurred opts now s = (x, s')" and "distinct (map fst (mw_files s))"
    and "fresh_run (run_of uid) s" and "map_of (mw_files s) p = Some f"
  shows "(move_target env opts now p f = None \<longrightarrow> map_of (mw_files s') p = Some f) \<and>
    (\<forall>t. move_target env opts now p f = Some t \<longrightarrow>
      map_of (mw_files s') p = None \<and> map_of (mw_files s') (t # run_of uid # p) = Some f \<or>
      map_of (mw_files s') p = Some f \<and> (\<exists>e. x = Inl e)) \<and>
    (\<forall>r. x = Inr r \<longrightarrow> reported env opts now (run_of uid) p f (mr_actions r))"
  using assms by (rule maintenance_effect)

text \<open>
  Maintenance settles: after a run that moved things aside, running again at the same instant with the
  same answers about processes finds nothing more to move; every file stays where it is.
\<close>

theorem maintenance_settles:
  assumes "run_maintenance env uid occurred opts now s = (Inr r, s1)" and "distinct (map fst (mw_files s))"
    and "fresh_run (run_of uid) s" and "distinct (map fst (mw_files s1))" and "fresh_run (run_of uid') s1"
    and "run_maintenance env uid' occurred' opts now s1 = (x, s2)" and "map_of (mw_files s1) p = Some f"
  shows "map_of (mw_files s2) p = Some f"
proof -
  have "move_target env opts now p f = None"
  proof (cases "excluded p")
    case False
    from assms(1) show ?thesis
    proof (cases rule: run_maintenance_swept)
      case (2 y s0)
      obtain ready where r: "placed env opts now (run_of uid) s ready s0"
        "\<And>as. y = Inr as \<Longrightarrow> fst ` set (mw_files s) \<subseteq> ready" by (rule sweep_whole [OF 2(1) assms(2,3)]) blast
      note ready = r(1) r(2) [OF 2(4) [OF refl]]
      have "p \<noteq> manifest_path uid" using False by (auto simp: excluded_def)
      with 2(2,3) map_of_key [OF assms(7)] assms(7) have here: "map_of (mw_files s0) p = Some f" "p \<in> fst ` set (mw_files s0)"
        by auto
      have "p \<in> fst ` set (mw_files s)" using ready(1) False here(2) by (auto simp: placed_def)
      then have "p \<in> ready" by (rule subsetD [OF ready(2)])
      obtain g where g: "map_of (mw_files s) p = Some g"
        using \<open>p \<in> fst ` set (mw_files s)\<close> by (metis map_of_eq_None_iff not_Some_eq set_map)
      from ready(1) [unfolded placed_def, THEN conjunct1, rule_format, OF g] \<open>p \<in> ready\<close>
      have "in_place (move_target env opts now p g) (run_of uid) True s0 p g" by simp
      with here(1) show ?thesis by (cases "move_target env opts now p g") (simp_all add: in_place_def)
    qed auto
  qed (simp add: move_target_def)
  with maintenance_effect [OF assms(6,4,5,7)] show ?thesis by blast
qed

section \<open>Witnesses\<close>

definition demo_ws_file :: "string list \<Rightarrow> ws_file" where
  "demo_ws_file ls = \<lparr>wf_mtime = 0, wf_sha256 = demo_sha, wf_lines = Some ls, wf_lf_lines = ls\<rparr>"

definition demo_maintenance_env :: maintenance_env where
  "demo_maintenance_env = \<lparr>mv_root = ''w'', mv_signal = (\<lambda>pid. if pid = 7 then SignalSent else ProcessLookupFailed),
     mv_json = (\<lambda>l. Some (JObj [(''status'', JStr l)])), mv_str = (\<lambda>_. ''v''), mv_manifest = (\<lambda>_. demo_ws_file [''m''])\<rparr>"

definition demo_workspace :: maintenance_state where
  "demo_workspace = \<lparr>mw_files = [([''a.lock''], demo_ws_file [''pid=5'']), ([''b.lock''], demo_ws_file [''pid=7'']),
      ([''transactions'', ''transaction-1.jsonl''], demo_ws_file [''committed'']), ([''n''], demo_ws_file [])],
     mw_audit = []\<rparr>"

definition demo_options :: maintenance_options where
  "demo_options = \<lparr>mo_apply = True, mo_stale_after_seconds = 1, mo_retention_seconds = 1,
     mo_quarantine_blocked_journals = False\<rparr>"

lemma demo_maintenance:
  "map_sum exn_cls (\<lambda>r. map (\<lambda>a. (ma_decision a, ma_destination a)) (mr_actions r))
     (fst (run_maintenance demo_maintenance_env ''u'' 0 demo_options 9 demo_workspace)) =
   Inr [(QUARANTINED, Some [''quarantine'', ''maintenance-u'', ''a.lock'']), (ACTIVE_OWNER, None),
     (ARCHIVED, Some [''archive'', ''maintenance-u'', ''transactions'', ''transaction-1.jsonl''])]"
  "map fst (mw_files (snd (run_maintenance demo_maintenance_env ''u'' 0 demo_options 9 demo_workspace))) =
   [[''b.lock''], [''n''], [''quarantine'', ''maintenance-u'', ''a.lock''],
    [''archive'', ''maintenance-u'', ''transactions'', ''transaction-1.jsonl''], [''maintenance'', ''maintenance-u.json'']]"
  by code_simp+

lemma demo_fresh: "fresh_run (run_of ''u'') demo_workspace" "distinct (map fst (mw_files demo_workspace))"
  by (auto simp: fresh_run_def demo_workspace_def)

theorem maintenance_loses_nothing_witness:
  "\<exists>x s'. run_maintenance demo_maintenance_env ''u'' 0 demo_options 9 demo_workspace = (x, s') \<and>
     map_of (mw_files s') [''b.lock''] = Some (demo_ws_file [''pid=7''])"
proof -
  obtain x s' where r: "run_maintenance demo_maintenance_env ''u'' 0 demo_options 9 demo_workspace = (x, s')" by fastforce
  have "map_of (mw_files demo_workspace) [''b.lock''] = Some (demo_ws_file [''pid=7''])" by (simp add: demo_workspace_def)
  note m = maintenance_loses_nothing [OF r demo_fresh(2,1) this]
  have "move_target demo_maintenance_env demo_options 9 [''b.lock''] (demo_ws_file [''pid=7'']) = None" by code_simp
  from m [THEN conjunct1, rule_format, OF this] r show ?thesis by (intro exI conjI)
qed

theorem maintenance_settles_witness:
  "\<exists>r s1 x s2. run_maintenance demo_maintenance_env ''u'' 0 demo_options 9 demo_workspace = (Inr r, s1) \<and>
     run_maintenance demo_maintenance_env ''v'' 1 demo_options 9 s1 = (x, s2) \<and>
     map_of (mw_files s2) [''b.lock''] = map_of (mw_files s1) [''b.lock''] \<and> map_of (mw_files s1) [''b.lock''] \<noteq> None"
proof -
  obtain y s1 where y: "run_maintenance demo_maintenance_env ''u'' 0 demo_options 9 demo_workspace = (y, s1)" by fastforce
  then obtain r where r: "run_maintenance demo_maintenance_env ''u'' 0 demo_options 9 demo_workspace = (Inr r, s1)"
    using demo_maintenance(1) by (cases y) auto
  have keys: "map fst (mw_files s1) = [[''b.lock''], [''n''], [''quarantine'', ''maintenance-u'', ''a.lock''],
    [''archive'', ''maintenance-u'', ''transactions'', ''transaction-1.jsonl''], [''maintenance'', ''maintenance-u.json'']]"
    using demo_maintenance(2) r by simp
  obtain x s2 where x: "run_maintenance demo_maintenance_env ''v'' 1 demo_options 9 s1 = (x, s2)" by fastforce
  have "distinct (map fst (mw_files s1))" "fresh_run (run_of ''v'') s1"
    by (simp_all add: keys fresh_run_def flip: set_map)
  moreover obtain f where f: "map_of (mw_files s1) [''b.lock''] = Some f"
    using known_path [of "[''b.lock'']" "[]" "mw_files s1"] keys by (auto simp flip: set_map)
  ultimately have "map_of (mw_files s2) [''b.lock''] = Some f"
    using maintenance_settles [OF r demo_fresh(2,1) _ _ x f] by blast
  with r x f show ?thesis by auto
qed

end
