(* ===== verification/Pipelines.thy ===== *)
theory Pipelines
  imports ProjectHistory CourseRuns Maintenance Execution
begin

text \<open>
  The local pipelines: \<open>pipelines/dossier.py\<close>, \<open>pipelines/recovery.py\<close>, \<open>pipelines/education.py\<close> and the
  pipeline class of \<open>pipelines/project.py\<close>.  Each checks its context for a cancellation and calls the
  services; \<open>arun\<close> is \<open>run\<close> on another thread.  Other processes may act on a workspace between the load
  of a dossier and the operation on it: \<open>between\<close> is what they do.
\<close>

section \<open>Cancellation\<close>

definition start_pipeline :: "pipeline_context option \<Rightarrow> int \<Rightarrow> 's \<Rightarrow> (unit, 's) outcome" where
  "start_pipeline ctx now s =
     (if ctx \<noteq> None \<and> cancellation_requested (the ctx) now then
        (Inl (Exn ExnTimeoutError ''pipeline execution was cancelled before start''), s)
      else (Inr (), s))"

section \<open>Dossiers\<close>

record dossier_initialize_request =
  di_proposal_path :: string
  di_title :: string
  di_sidecar_path :: "string option"
  di_project_id :: "string option"
  di_review_profile :: "string option"
  di_review_context :: review_context

record dossier_update_request =
  du_project_id :: string
  du_expected_revision :: int
  du_progress_note :: string

record dossier_freeze_request =
  df_project_id :: string
  df_expected_revision :: int

definition dossier_initialize_request_valid :: "dossier_initialize_request \<Rightarrow> bool" where
  "dossier_initialize_request_valid q \<longleftrightarrow> 1 \<le> length (di_title q) \<and> length (di_title q) \<le> 300"

definition dossier_update_request_valid :: "dossier_update_request \<Rightarrow> bool" where
  "dossier_update_request_valid q \<longleftrightarrow> 1 \<le> du_expected_revision q \<and>
     1 \<le> length (du_progress_note q) \<and> length (du_progress_note q) \<le> 4000"

definition dossier_freeze_request_valid :: "dossier_freeze_request \<Rightarrow> bool" where
  "dossier_freeze_request_valid q \<longleftrightarrow> 1 \<le> df_expected_revision q"

definition dossier_initialize ::
  "'n project_env \<Rightarrow> svc_call \<Rightarrow> int \<Rightarrow> pipeline_context option \<Rightarrow> dossier_initialize_request \<Rightarrow> 'n project_state \<Rightarrow>
   (pipeline_result, 'n project_state) outcome" where
  "dossier_initialize env c now ctx q s =
     seq (start_pipeline ctx now s) (\<lambda>_ s.
     seq (svc_create_project env c (di_proposal_path q) (di_title q) (di_sidecar_path q) (di_project_id q)
            (di_review_profile q) (Some (di_review_context q)) ''submitter:local'' SUBMITTER None None s) (\<lambda>d s.
     (Inr \<lparr>pr_pipeline_id = ''dossier.initialize'', pr_pipeline_version = ''v1alpha1'', pr_status = SUCCEEDED,
           pr_project_id = pd_project_id d, pr_dossier_status = pd_status d, pr_dossier_revision = pd_revision d,
           pr_dossier_uri = dossier_uri env (pd_project_id d), pr_report_id = None, pr_report_json_uri = None,
           pr_report_markdown_uri = None, pr_allowed_commands = [], pr_message = pv_text env ''dossier_initialized''\<rparr>, s)))"

definition stale_result :: "'n project_env \<Rightarrow> int \<Rightarrow> project_dossier \<Rightarrow> pipeline_result" where
  "stale_result env expected d =
     \<lparr>pr_pipeline_id = ''dossier.update'', pr_pipeline_version = ''v1alpha1'', pr_status = STALE,
      pr_project_id = pd_project_id d, pr_dossier_status = pd_status d, pr_dossier_revision = pd_revision d,
      pr_dossier_uri = dossier_uri env (pd_project_id d), pr_report_id = None, pr_report_json_uri = None,
      pr_report_markdown_uri = None, pr_allowed_commands = [],
      pr_message = ''expected revision '' @ str_int expected @ ''; current revision is '' @ str_int (pd_revision d)\<rparr>"

definition dossier_update ::
  "'n project_env \<Rightarrow> svc_call \<Rightarrow> ('n project_state \<Rightarrow> 'n project_state) \<Rightarrow> int \<Rightarrow> pipeline_context option \<Rightarrow>
   dossier_update_request \<Rightarrow> 'n project_state \<Rightarrow> (pipeline_result, 'n project_state) outcome" where
  "dossier_update env c between now ctx q s =
     seq (start_pipeline ctx now s) (\<lambda>_ s.
     seq (pure (dossier_load (du_project_id q) (pj_store s)) s) (\<lambda>d s.
     if pd_revision d \<noteq> du_expected_revision q then (Inr (stale_result env (du_expected_revision q) d), s)
     else
       handle
         (seq (svc_record_progress env c (du_project_id q) (du_progress_note q) None None
                 (Some (du_expected_revision q)) (between s)) (\<lambda>r s.
          (Inr (r\<lparr>pr_pipeline_id := ''dossier.update'', pr_pipeline_version := ''v1alpha1''\<rparr>), s)))
         (\<lambda>e s. if is_instance e RevisionConflictError then
                  seq (pure (dossier_load (du_project_id q) (pj_store s)) s) (\<lambda>current s.
                  (Inr (stale_result env (du_expected_revision q) current), s))
                else (Inl e, s))))"

definition freeze_result ::
  "'n project_env \<Rightarrow> pipeline_status \<Rightarrow> int \<Rightarrow> project_dossier \<Rightarrow> snapshot_ref option \<Rightarrow> string \<Rightarrow> dossier_freeze_result" where
  "freeze_result env st expected d snapshot message =
     \<lparr>fr_pipeline_id = ''dossier.freeze'', fr_pipeline_version = ''v1alpha1'', fr_status = st,
      fr_project_id = pd_project_id d, fr_expected_revision = expected, fr_current_revision = pd_revision d,
      fr_snapshot = snapshot, fr_message = pv_text env message\<rparr>"

text \<open>The dossier is locked while its revision is compared and the snapshot written.\<close>

definition dossier_freeze ::
  "'n project_env \<Rightarrow> int \<Rightarrow> pipeline_context option \<Rightarrow> dossier_freeze_request \<Rightarrow> 'n project_state \<Rightarrow>
   (dossier_freeze_result, 'n project_state) outcome" where
  "dossier_freeze env now ctx q s =
     seq (start_pipeline ctx now s) (\<lambda>_ s.
     seq (pure (dossier_path_for (df_project_id q)) s) (\<lambda>_ s.
     seq (pure (dossier_load (df_project_id q) (pj_store s)) s) (\<lambda>d s.
     if pd_revision d \<noteq> df_expected_revision q then
       (Inr (freeze_result env STALE (df_expected_revision q) d None ''freeze_stale''), s)
     else
       seq (on_snapshots (snapshot_freeze (tx_sha_dossier (pv_tx env)) (pv_workspace env @ ''/snapshots'') d) s) (\<lambda>snapshot s.
       (Inr (freeze_result env SUCCEEDED (df_expected_revision q) d (Some snapshot) ''frozen''), s)))))"

definition two_gate_pipeline ::
  "'n project_env \<Rightarrow> (nat \<Rightarrow> svc_call) \<Rightarrow> int \<Rightarrow> pipeline_context option \<Rightarrow> two_gate_request \<Rightarrow> 'n project_state \<Rightarrow>
   (workflow_run_summary, 'n project_state) outcome" where
  "two_gate_pipeline env c now ctx q s =
     seq (start_pipeline ctx now s) (\<lambda>_ s. run_two_gate env c q s)"

section \<open>Reconciliation\<close>

type_synonym reconcile_request = "string option"

definition reconcile_request_valid :: "reconcile_request \<Rightarrow> bool" where
  "reconcile_request_valid q \<longleftrightarrow> pred_option is_safe_id q"

record reconcile_pipeline_result =
  rq_pipeline_id :: string
  rq_status :: pipeline_status
  rq_results :: "reconciliation_result list"
  rq_message :: string

definition reconcile_with ::
  "string \<Rightarrow> (string \<Rightarrow> string) \<Rightarrow> (string \<Rightarrow> 's \<Rightarrow> (reconciliation_result, 's) outcome) \<Rightarrow>
   ('s \<Rightarrow> (reconciliation_result list, 's) outcome) \<Rightarrow> int \<Rightarrow> pipeline_context option \<Rightarrow> reconcile_request \<Rightarrow> 's \<Rightarrow>
   (reconcile_pipeline_result, 's) outcome" where
  "reconcile_with pipeline text' one every now ctx q s =
     seq (start_pipeline ctx now s) (\<lambda>_ s.
     seq (if truthy q then seq (one (the q) s) (\<lambda>r s. (Inr [r], s)) else every s) (\<lambda>rs s.
     let blocked = list_ex (\<lambda>r. rr_status r = RECONCILED_BLOCKED) rs
     in (Inr \<lparr>rq_pipeline_id = pipeline, rq_status = (if blocked then BLOCKED else SUCCEEDED), rq_results = rs,
              rq_message = text' (if blocked then ''reconcile_blocked'' else ''reconciled'')\<rparr>, s)))"

definition transaction_reconcile ::
  "tx_env \<Rightarrow> (string \<Rightarrow> string) \<Rightarrow> (nat \<Rightarrow> nat \<Rightarrow> int) \<Rightarrow> int \<Rightarrow> pipeline_context option \<Rightarrow> reconcile_request \<Rightarrow> project_ws \<Rightarrow>
   (reconcile_pipeline_result, project_ws) outcome" where
  "transaction_reconcile env text' t =
     reconcile_with ''project.transaction.reconcile'' text' (tx_reconcile env (t 0)) (tx_reconcile_all env t)"

definition education_reconcile ::
  "etx_env \<Rightarrow> (string \<Rightarrow> string) \<Rightarrow> (nat \<Rightarrow> nat \<Rightarrow> int) \<Rightarrow> int \<Rightarrow> pipeline_context option \<Rightarrow> reconcile_request \<Rightarrow> enrollment_ws \<Rightarrow>
   (reconcile_pipeline_result, enrollment_ws) outcome" where
  "education_reconcile env text' t =
     reconcile_with ''education.transaction.reconcile'' text' (etx_reconcile env (t 0)) (etx_reconcile_all env t)"

definition maintenance_request_valid :: "maintenance_options \<Rightarrow> bool" where
  "maintenance_request_valid q \<longleftrightarrow> 0 < mo_stale_after_seconds q \<and> 0 < mo_retention_seconds q"

definition maintenance_pipeline ::
  "maintenance_env \<Rightarrow> string \<Rightarrow> int \<Rightarrow> rat \<Rightarrow> int \<Rightarrow> pipeline_context option \<Rightarrow> maintenance_options \<Rightarrow> maintenance_state \<Rightarrow>
   (maintenance_result, maintenance_state) outcome" where
  "maintenance_pipeline env uid occurred current now ctx q s =
     seq (start_pipeline ctx now s) (\<lambda>_ s. run_maintenance env uid occurred q current s)"

section \<open>Education commands\<close>

datatype education_command =
    EnrollCommand string string "string option" "string option" "string option"
  | StartMilestoneCommand string string string "int option"
  | ManualConfirmationCommand string string string string string string "int option"
  | RecordScoreCommand string string string rat string string string "int option"
  | BindProjectCommand string string string string "string option" "int option"
  | SyncProjectCommand string string string string "string option" "int option"
  | DecideProgramCompletionCommand string completion_command string string "string list" "int option"

record education_request =
  eq_idempotency_key :: "string option"
  eq_authority_context :: string
  eq_command :: education_command

definition revision_field :: "int option \<Rightarrow> bool" where
  "revision_field r \<longleftrightarrow> pred_option (\<lambda>n. 1 \<le> n) r"

definition reviewer_roles :: "string list" where
  "reviewer_roles = [''instructor'', ''mentor'', ''administrator'']"

fun education_command_valid :: "education_command \<Rightarrow> bool" where
  "education_command_valid (EnrollCommand selector learner e org actor) = True"
| "education_command_valid (StartMilestoneCommand e m actor rev') = revision_field rev'"
| "education_command_valid (ManualConfirmationCommand e m r actor role ref rev') =
     (role \<in> set reviewer_roles \<and> revision_field rev')"
| "education_command_valid (RecordScoreCommand e m r score actor role ref rev') =
     (0 \<le> score \<and> score \<le> 100 \<and> role \<in> set reviewer_roles \<and> revision_field rev')"
| "education_command_valid (BindProjectCommand e m p actor org rev') = revision_field rev'"
| "education_command_valid (SyncProjectCommand e m actor role org rev') =
     (role \<in> set ([''learner'', ''system''] @ reviewer_roles) \<and> revision_field rev')"
| "education_command_valid (DecideProgramCompletionCommand e command actor rationale ids rev') = revision_field rev'"

definition education_request_valid :: "education_request \<Rightarrow> bool" where
  "education_request_valid q \<longleftrightarrow> pred_option is_safe_id (eq_idempotency_key q) \<and> education_command_valid (eq_command q)"

definition education_pipeline ::
  "'n edu_env \<Rightarrow> (nat \<Rightarrow> int) \<Rightarrow> (nat \<Rightarrow> string) \<Rightarrow> int \<Rightarrow> pipeline_context option \<Rightarrow> education_request \<Rightarrow> 'n edu_state \<Rightarrow>
   (edu_result, 'n edu_state) outcome" where
  "education_pipeline env t uid now ctx q s =
     seq (start_pipeline ctx now s) (\<lambda>_ s.
     let authority = eq_authority_context q
     in case eq_command q of
          EnrollCommand selector learner e org actor \<Rightarrow> enroll env t uid selector learner e org actor authority s
        | StartMilestoneCommand e m actor rev' \<Rightarrow> start_milestone env t uid e m actor rev' authority s
        | ManualConfirmationCommand e m r actor role ref rev' \<Rightarrow>
            record_manual_confirmation env t uid e m r actor role ref rev' authority s
        | RecordScoreCommand e m r score actor role ref rev' \<Rightarrow>
            record_score env t uid e m r score actor role ref rev' authority s
        | BindProjectCommand e m p actor org rev' \<Rightarrow> bind_project env t uid e m p actor org rev' authority s
        | SyncProjectCommand e m actor role org rev' \<Rightarrow>
            sync_project_milestone env t uid e m actor role org rev' authority s
        | DecideProgramCompletionCommand e command actor rationale ids rev' \<Rightarrow>
            decide_program_completion env t uid e command actor rationale ids rev' authority s)"


section \<open>Snapshots stay\<close>

definition snapshots_kept :: "snapshot_dir \<Rightarrow> 'n project_state \<Rightarrow> bool" where
  "snapshots_kept dir s \<longleftrightarrow> (\<forall>path c. dir path = Some c \<longrightarrow> pj_snapshots s path = Some c)"

lemma snapshots_kept_self: "snapshots_kept (pj_snapshots s) s"
  by (simp add: snapshots_kept_def)

lemma same_snapshots: "pj_snapshots s' = pj_snapshots s \<Longrightarrow> snapshots_kept dir s \<Longrightarrow> snapshots_kept dir s'"
  by (simp add: snapshots_kept_def)

lemma kept_steps:
  assumes "snapshots_kept dir s"
  shows "snapshots_kept dir (snd (on_ws f s))"
    "snapshots_kept dir (snd (on_snapshots (snapshot_freeze h root_dir d) s))"
    "snapshots_kept dir (snd (render_report env report s))"
    "snapshots_kept dir (snd (pj_send env ev s))"
    "snapshots_kept dir (snd (transition (Some (pj_send env)) r trigger role rv rp s))"
    "snapshots_kept dir (snd (save_event env t uid e n ty actor role details s))"
proof -
  have send: "pj_snapshots (snd (pj_send env ev s)) = pj_snapshots s" for ev
    by (simp add: pj_send_def split: prod.split)
  show "snapshots_kept dir (snd (on_snapshots (snapshot_freeze h root_dir d) s))"
    using assms by (auto simp: snapshots_kept_def on_snapshots_def snapshot_freeze_def Let_def pure_def seq_def
        split: sum.split option.split)
  have "pj_snapshots (snd (transition (Some (pj_send env)) r trigger role rv rp s)) = pj_snapshots s"
    using send by (auto simp: transition_def pure_def seq_def split: sum.splits prod.splits) (metis snd_conv)+
  then show "snapshots_kept dir (snd (transition (Some (pj_send env)) r trigger role rv rp s))"
    using assms by (rule same_snapshots)
  show "snapshots_kept dir (snd (save_event env t uid e n ty actor role details s))"
    by (rule same_snapshots [OF _ assms]) (auto simp: save_event_def Let_def pure_def seq_def on_ws_def split: sum.split)
qed (rule same_snapshots [OF _ assms], simp add: on_ws_def render_report_def pj_send_def Let_def split: prod.split)+

lemma publish_draft_kept:
  "snapshots_kept dir s \<Longrightarrow> snapshots_kept dir (snd (publish_draft env c st d profile snapshot report s))"
  unfolding publish_draft_def svc_transition_def Let_def
  by (rule seq_keeps [where Q = "snapshots_kept dir"] kept_steps | assumption | simp)+

lemma op_kept:
  assumes s: "snapshots_kept dir s"
  shows "snapshots_kept dir (after_op env c op s)"
proof -
  let ?Q = "snapshots_kept dir"
  note steps = seq_pure_all [where Q = ?Q] seq_keeps [where Q = ?Q] if_keeps [where Q = ?Q] raise_all [where Q = ?Q]
    kept_steps publish_draft_kept
  have decide: "?Q (snd (svc_decide env c st trigger p command actor rationale adjustments revision authority ty s))"
    for st trigger p command actor rationale adjustments revision authority ty
    unfolding svc_decide_def svc_transition_def Let_def by (rule steps s | assumption | simp)+
  show ?thesis
  proof (cases op)
    case (CreateProject path title sidecar p profile ctx actor role ep es)
    show ?thesis
      unfolding CreateProject after_op.simps svc_create_project_def Let_def by (rule steps s | assumption | simp)+
  next
    case (SubmitRegistration p)
    show ?thesis
      unfolding SubmitRegistration after_op.simps svc_submit_registration_def svc_transition_def by (rule steps s | assumption | simp)+
  next
    case (EvaluateRegistration p)
    show ?thesis
      unfolding EvaluateRegistration after_op.simps svc_evaluate_registration_def by (rule steps s | assumption | simp)+
  next
    case (DecideRegistration p command actor rationale adjustments revision authority)
    show ?thesis
      unfolding DecideRegistration after_op.simps svc_decide_registration_def by (rule steps decide | assumption | simp)+
  next
    case (AssignTheMentor p m)
    show ?thesis
      unfolding AssignTheMentor after_op.simps svc_assign_mentor_def by (rule steps s | assumption | simp)+
  next
    case (StartExecution p)
    show ?thesis
      unfolding StartExecution after_op.simps svc_start_execution_def svc_transition_def by (rule steps s | assumption | simp)+
  next
    case (RecordProgress p what path sidecar revision)
    show ?thesis
      unfolding RecordProgress after_op.simps svc_record_progress_def by (rule steps s | assumption | (split prod.split, intro allI impI) | simp)+
  next
    case (SubmitCompletion p path sidecar actor role)
    show ?thesis
      unfolding SubmitCompletion after_op.simps svc_submit_completion_def svc_transition_def by (rule steps s | assumption | simp)+
  next
    case (EvaluateCompletion p)
    show ?thesis
      unfolding EvaluateCompletion after_op.simps svc_evaluate_completion_def by (rule steps s | assumption | simp)+
  next
    case (DecideCompletion p command actor rationale adjustments revision authority)
    show ?thesis
      unfolding DecideCompletion after_op.simps svc_decide_completion_def by (rule steps decide | assumption | simp)+
  qed
qed

lemma service_run_kept: "service_run env s s' \<Longrightarrow> snapshots_kept dir s \<Longrightarrow> snapshots_kept dir s'"
  by (induction rule: service_run.induct) (simp_all add: op_kept, simp add: snapshots_kept_def after_retry_def Let_def)


section \<open>What an update writes\<close>

definition noted :: "string \<Rightarrow> string \<Rightarrow> project_dossier \<Rightarrow> int \<Rightarrow> project_dossier" where
  "noted uid note' d now = saved_dossier (with_event uid
     (d\<lparr>pd_execution := (pd_execution d)\<lparr>xr_notes := xr_notes (pd_execution d) @ [strip note']\<rparr>\<rparr>)) now"

lemma record_progress_writes:
  assumes run: "svc_record_progress env c p note' None None (Some n) s = (Inr r, s')" and fresh: "fresh_uid env s (sc_uid c 0)"
  shows "\<exists>d. dossier_load p (pj_store s) = Inr d \<and> pd_revision d = n \<and> pd_status d = IN_PROGRESS \<and> strip note' \<noteq> [] \<and>
    dossier_load p (pj_store s') = Inr (noted (sc_uid c 0) note' d (sc_t c 3)) \<and>
    pr_status r = SUCCEEDED \<and> pr_dossier_revision r = n + 1"
proof -
  from run obtain d v where load: "dossier_load p (pj_store s) = Inr d"
    and guards: "pd_revision d = n" "pd_status d = IN_PROGRESS" "strip note' \<noteq> []"
    and save: "save_event env (sc_t c) (sc_uid c 0)
       (d\<lparr>pd_execution := (pd_execution d)\<lparr>xr_notes := xr_notes (pd_execution d) @ [strip note']\<rparr>\<rparr>) (pd_revision d)
       ''progress_recorded'' ''project-owner:local'' PROJECT_OWNER
       [(''artifact_id'', ''none''), (''note_length'', str_int (int (length (strip note'))))] s = (Inr v, s')"
    and r: "r = svc_result env v (pv_text env ''progress_recorded'') None []"
    unfolding svc_record_progress_def by (auto simp: outcome_simps split: if_splits)
  let ?d = "d\<lparr>pd_execution := (pd_execution d)\<lparr>xr_notes := xr_notes (pd_execution d) @ [strip note']\<rparr>\<rparr>"
  from save_event_effect [OF save fresh] have v: "v = saved_dossier (with_event (sc_uid c 0) ?d) (sc_t c 3)"
    "dossier_valid (with_event (sc_uid c 0) ?d)"
    "pj_store s' = dossier_write (dossier_file (pd_project_id d)) v (pj_store s)"
    by (auto simp: Let_def)
  with dossier_load_saved [OF v(2), of p "sc_t c 3" "pj_store s"] load_id [OF load] load guards r show ?thesis
    by (intro exI [of _ d]) (simp add: noted_def svc_result_def)
qed

section \<open>An example workspace\<close>

definition demo_stored :: "project_dossier \<Rightarrow> notification_event list project_state" where
  "demo_stored d = demo_start\<lparr>pj_ws := (pj_ws demo_start)\<lparr>tx_store := dossier_write (dossier_file (pd_project_id d)) d Map.empty\<rparr>\<rparr>"

lemma demo_stored_load: "dossier_valid d \<Longrightarrow> dossier_load (pd_project_id d) (pj_store (demo_stored d)) = Inr d"
  using dossier_load_written [of d Map.empty] by (simp add: demo_stored_def)

lemma demo_stored_new:
  "quiet demo_service (demo_stored d) []" "i < 9 \<Longrightarrow> j < 2 \<Longrightarrow> new_uid demo_service (demo_stored d) [] (sc_uid (demo_call i) j)"
  using demo_quiet demo_new [of i j]
  by (simp_all add: quiet_def new_uid_def fresh_uid_def fresh_tx_def demo_stored_def)

definition demo_started :: project_dossier where
  "demo_started = demo_draft\<lparr>pd_status := IN_PROGRESS\<rparr>"

lemma demo_started_simps [simp]:
  "pd_project_id demo_started = ''p''" "pd_revision demo_started = 1" "pd_status demo_started = IN_PROGRESS" "dossier_valid demo_started"
  using demo_draft_simps(4) by (simp_all add: demo_started_def dossier_valid_def)

lemma demo_noted:
  "\<exists>r s'. svc_record_progress demo_service (demo_call 1) ''p'' ''n'' None None (Some 1) (demo_stored demo_started) = (Inr r, s')"
proof -
  let ?d = "demo_started\<lparr>pd_execution := (pd_execution demo_started)\<lparr>xr_notes := xr_notes (pd_execution demo_started) @ [''n'']\<rparr>\<rparr>"
  have valid: "dossier_valid ?d" using demo_started_simps(4) by (simp add: dossier_valid_def)
  have load: "dossier_load ''p'' (pj_store (demo_stored demo_started)) = Inr demo_started"
    using demo_stored_load [of demo_started] by simp
  have "transaction_requirements demo_service (with_event u ?d) 2 (demo_stored demo_started) = Inr []" for u
    by (simp add: transaction_requirements_def waiting_stage_def)
  with demo_stored_new(2) [of "Suc 0" 0 demo_started] valid load
  have "\<exists>ws' event. save_event demo_service (sc_t (demo_call 1)) (sc_uid (demo_call 1) 0) ?d 1 ''progress_recorded''
      ''project-owner:local'' PROJECT_OWNER [(''artifact_id'', ''none''), (''note_length'', str_int 1)] (demo_stored demo_started) =
      (Inr (saved_dossier (with_event (sc_uid (demo_call 1) 0) ?d) (sc_t (demo_call 1) 3)), (demo_stored demo_started)\<lparr>pj_ws := ws'\<rparr>) \<and>
      tx_store ws' = dossier_write (dossier_file (pd_project_id ?d))
        (saved_dossier (with_event (sc_uid (demo_call 1) 0) ?d) (sc_t (demo_call 1) 3)) (pj_store (demo_stored demo_started)) \<and>
      tx_files ws' = tx_files (pj_ws (demo_stored demo_started)) \<and>
      quiet demo_service ((demo_stored demo_started)\<lparr>pj_ws := ws'\<rparr>) ([] @ [event]) \<and> ae_event_id event = ''evt-'' @ sc_uid (demo_call 1) 0"
    by (intro save_event_quiet [OF demo_stored_new(1), where base = demo_started and rs = "[]"]) simp_all
  then obtain ws' v where save: "save_event demo_service (sc_t (demo_call 1)) (sc_uid (demo_call 1) 0) ?d 1 ''progress_recorded''
      ''project-owner:local'' PROJECT_OWNER [(''artifact_id'', ''none''), (''note_length'', str_int 1)] (demo_stored demo_started) =
      (Inr v, (demo_stored demo_started)\<lparr>pj_ws := ws'\<rparr>)"
    by blast
  have "strip ''n'' = ''n''" by code_simp
  then show ?thesis using load save by (simp add: svc_record_progress_def)
qed

section \<open>Properties\<close>

text \<open>
  C27. A frozen revision stays: a freeze that succeeds has compared the expected revision with the stored dossier,
  leaves everything but the snapshots as it was, and after any history of operations and redeliveries of the
  service the snapshot file still holds that dossier under its revision and digest; a stale request changes nothing.
\<close>

theorem frozen_revision_stays:
  assumes run: "dossier_freeze env now ctx q s = (Inr r, s1)"
  shows "\<exists>d. dossier_load (df_project_id q) (pj_store s) = Inr d \<and> fr_current_revision r = pd_revision d \<and>
    (if pd_revision d \<noteq> df_expected_revision q then fr_status r = STALE \<and> fr_snapshot r = None \<and> s1 = s
     else \<exists>ref'. fr_status r = SUCCEEDED \<and> fr_snapshot r = Some ref' \<and>
       s1 = s\<lparr>pj_snapshots := pj_snapshots s1\<rparr> \<and>
       (\<forall>s2. service_run env s1 s2 \<longrightarrow> pj_snapshots s2 (sn_snapshot_id ref' @ ''.json'') =
          Some (Some \<lparr>se_snapshot_id = sn_snapshot_id ref', se_dossier_revision = df_expected_revision q,
                      se_dossier_sha256 = tx_sha_dossier (pv_tx env) d, se_dossier = d\<rparr>)))"
proof -
  from run obtain d where load: "dossier_load (df_project_id q) (pj_store s) = Inr d"
    and rest: "if pd_revision d \<noteq> df_expected_revision q then
        r = freeze_result env STALE (df_expected_revision q) d None ''freeze_stale'' \<and> s1 = s
      else \<exists>ref'. on_snapshots (snapshot_freeze (tx_sha_dossier (pv_tx env)) (pv_workspace env @ ''/snapshots'') d) s = (Inr ref', s1) \<and>
        r = freeze_result env SUCCEEDED (df_expected_revision q) d (Some ref') ''frozen''"
    unfolding dossier_freeze_def start_pipeline_def by (auto simp: outcome_simps split: if_splits)
  show ?thesis
  proof (cases "pd_revision d = df_expected_revision q")
    case False
    with load rest show ?thesis by (intro exI [of _ d]) (simp add: freeze_result_def)
  next
    case True
    with rest obtain ref' dir where frozen:
      "snapshot_freeze (tx_sha_dossier (pv_tx env)) (pv_workspace env @ ''/snapshots'') d (pj_snapshots s) = (Inr ref', dir)"
      "s1 = s\<lparr>pj_snapshots := dir\<rparr>" "r = freeze_result env SUCCEEDED (df_expected_revision q) d (Some ref') ''frozen''"
      by (auto simp: on_snapshots_def prod_eq_iff)
    from snapshot_freeze_immutable [OF frozen(1)] have "dir (sn_snapshot_id ref' @ ''.json'') =
        Some (Some \<lparr>se_snapshot_id = sn_snapshot_id ref', se_dossier_revision = df_expected_revision q,
                    se_dossier_sha256 = tx_sha_dossier (pv_tx env) d, se_dossier = d\<rparr>)"
      by (simp add: True)
    then have "pj_snapshots s2 (sn_snapshot_id ref' @ ''.json'') =
        Some (Some \<lparr>se_snapshot_id = sn_snapshot_id ref', se_dossier_revision = df_expected_revision q,
                    se_dossier_sha256 = tx_sha_dossier (pv_tx env) d, se_dossier = d\<rparr>)" if "service_run env s1 s2" for s2
      using service_run_kept [OF that snapshots_kept_self] frozen(2) by (simp add: snapshots_kept_def)
    with load frozen True show ?thesis by (intro exI [of _ d]) (simp add: freeze_result_def)
  qed
qed

theorem frozen_revision_stays_witness:
  "\<exists>r s1 ref'. dossier_freeze demo_service 0 None \<lparr>df_project_id = ''p'', df_expected_revision = 1\<rparr> (demo_stored demo_draft) = (Inr r, s1) \<and>
     fr_snapshot r = Some ref' \<and>
     pj_snapshots (after_op demo_service (demo_call 1) (SubmitRegistration ''p'') s1) (sn_snapshot_id ref' @ ''.json'') =
       Some (Some \<lparr>se_snapshot_id = sn_snapshot_id ref', se_dossier_revision = 1,
                   se_dossier_sha256 = demo_sha, se_dossier = demo_draft\<rparr>)"
proof -
  have load: "dossier_load ''p'' (pj_store (demo_stored demo_draft)) = Inr demo_draft"
    using demo_stored_load [of demo_draft] by simp
  let ?q = "\<lparr>df_project_id = ''p'', df_expected_revision = 1\<rparr>"
  obtain r s1 where run: "dossier_freeze demo_service 0 None ?q (demo_stored demo_draft) = (Inr r, s1)"
    using load by (simp add: dossier_freeze_def start_pipeline_def dossier_path_for_def validate_project_id_def pure_def
        on_snapshots_def snapshot_freeze_def Let_def demo_stored_def demo_start_def)
  from frozen_revision_stays [OF run] load obtain ref' where ref': "fr_snapshot r = Some ref'"
    "s1 = (demo_stored demo_draft)\<lparr>pj_snapshots := pj_snapshots s1\<rparr>"
    and stays: "\<And>s2. service_run demo_service s1 s2 \<Longrightarrow> pj_snapshots s2 (sn_snapshot_id ref' @ ''.json'') =
          Some (Some \<lparr>se_snapshot_id = sn_snapshot_id ref', se_dossier_revision = 1,
                      se_dossier_sha256 = tx_sha_dossier (pv_tx demo_service) demo_draft, se_dossier = demo_draft\<rparr>)"
    by auto
  have "fresh_uid demo_service (demo_stored demo_draft) (op_uid (demo_call 1) (SubmitRegistration ''p''))"
    using demo_stored_new(2) [of 1 0] by (simp add: new_uid_def)
  then have "fresh_uid demo_service s1 (op_uid (demo_call 1) (SubmitRegistration ''p''))"
    using ref'(2) by (simp add: fresh_uid_def) (metis project_state.select_convs(1) project_state.surjective project_state.update_convs(2))
  from stays [OF service_step [OF service_start this]] run ref'(1) show ?thesis
    by (intro exI conjI) (assumption, assumption, simp add: demo_service_def demo_tx_env_def)
qed

text \<open>
  An update lands on the revision it was asked for: with another stored revision it reports STALE with that
  revision and changes nothing; when it reports success, the dossier that another process may have left meanwhile
  still had the expected revision and was in progress, and the stored dossier is that one with the note appended,
  one audit event more and the next revision.
\<close>

theorem update_lands_on_expected_revision:
  assumes run: "dossier_update env c between now ctx q s = (Inr r, s')"
    and fresh: "fresh_uid env (between s) (sc_uid c 0)"
  shows "\<exists>d0. dossier_load (du_project_id q) (pj_store s) = Inr d0 \<and>
    (if pd_revision d0 \<noteq> du_expected_revision q then r = stale_result env (du_expected_revision q) d0 \<and> s' = s
     else pr_status r = STALE \<or>
       (\<exists>d. dossier_load (du_project_id q) (pj_store (between s)) = Inr d \<and> pd_revision d = du_expected_revision q \<and>
          pd_status d = IN_PROGRESS \<and>
          dossier_load (du_project_id q) (pj_store s') = Inr (noted (sc_uid c 0) (du_progress_note q) d (sc_t c 3)) \<and>
          pr_status r = SUCCEEDED \<and> pr_dossier_revision r = du_expected_revision q + 1))"
proof -
  from run obtain d0 where load: "dossier_load (du_project_id q) (pj_store s) = Inr d0"
    unfolding dossier_update_def start_pipeline_def by (auto simp: outcome_simps split: if_splits)
  show ?thesis
  proof (cases "pd_revision d0 = du_expected_revision q")
    case False
    with load run show ?thesis
      unfolding dossier_update_def start_pipeline_def by (auto simp: outcome_simps split: if_splits)
  next
    case True
    obtain o1 s1 where step: "svc_record_progress env c (du_project_id q) (du_progress_note q) None None
        (Some (du_expected_revision q)) (between s) = (o1, s1)" by fastforce
    show ?thesis
    proof (cases o1)
      case (Inr r0)
      from record_progress_writes [OF step [unfolded Inr] fresh] True load run step Inr show ?thesis
        unfolding dossier_update_def start_pipeline_def by (auto simp: outcome_simps split: if_splits)
    next
      case (Inl e)
      with True load run step have "pr_status r = STALE"
        unfolding dossier_update_def start_pipeline_def by (auto simp: outcome_simps stale_result_def split: if_splits)
      with True load show ?thesis by simp
    qed
  qed
qed

theorem update_lands_on_expected_revision_witness:
  "\<exists>r s' d. dossier_update demo_service (demo_call 1) (\<lambda>s. s) 0 None
       \<lparr>du_project_id = ''p'', du_expected_revision = 1, du_progress_note = ''n''\<rparr> (demo_stored demo_started) = (Inr r, s') \<and>
     dossier_load ''p'' (pj_store s') = Inr d \<and> xr_notes (pd_execution d) = xr_notes (pd_execution demo_started) @ [''n'']"
proof -
  let ?q = "\<lparr>du_project_id = ''p'', du_expected_revision = 1, du_progress_note = ''n''\<rparr>"
  have load: "dossier_load ''p'' (pj_store (demo_stored demo_started)) = Inr demo_started"
    using demo_stored_load [of demo_started] by simp
  obtain r0 s' where step: "svc_record_progress demo_service (demo_call 1) ''p'' ''n'' None None (Some 1) (demo_stored demo_started) = (Inr r0, s')"
    using demo_noted by blast
  then have ok: "pr_status r0 = SUCCEEDED"
    using record_progress_writes [OF step] demo_stored_new(2) [of 1 0, THEN new_uid_fresh] by auto
  from step load obtain r where run: "dossier_update demo_service (demo_call 1) (\<lambda>s. s) 0 None ?q (demo_stored demo_started) = (Inr r, s')"
    and r: "pr_status r = SUCCEEDED"
    using ok by (simp add: dossier_update_def start_pipeline_def)
  have "strip ''n'' = ''n''" by code_simp
  moreover have "fresh_uid demo_service (demo_stored demo_started) (sc_uid (demo_call 1) 0)"
    using demo_stored_new(2) [of 1 0, THEN new_uid_fresh] by simp
  ultimately show ?thesis
    using update_lands_on_expected_revision [OF run] run load r by (auto simp: noted_def saved_dossier_def with_event_def)
qed

text \<open>
  The reconciliation command is honest: asked for one transaction, it reports success only when the stored
  dossier has the transaction's audit event at the target revision or beyond and the audit log has the event, or
  when the transaction was committed before and nothing was written; blocked, it has written neither a dossier nor
  an audit event.
\<close>

theorem reconcile_command_honest:
  assumes "env_ok (tx_jenv env)" and "reconcile_request_valid (Some tid)"
    and run: "transaction_reconcile env text' t now ctx (Some tid) ws = (Inr r, ws')"
  shows "\<exists>p. journal_load (tx_jenv env) tid (tx_journal ws) = Inr p \<and>
    (if rq_status r = BLOCKED then tx_store ws' = tx_store ws \<and> tx_audit ws' = tx_audit ws
     else rq_status r = SUCCEEDED \<and>
       (latest_status p = COMMITTED \<and> ws' = ws \<or>
        (\<exists>d es. dossier_load (pp_project_id (jr_plan p)) (tx_store ws') = Inr d \<and>
           ae_event_id (pp_audit_event (jr_plan p)) \<in> set (pd_audit_event_ids d) \<and>
           pp_target_revision (jr_plan p) \<le> pd_revision d \<and>
           audit_read (tx_audit ws') = Inr es \<and> pp_audit_event (jr_plan p) \<in> set es)))"
proof -
  have "tid \<noteq> []" using assms(2) by (auto simp: reconcile_request_valid_def is_safe_id_def)
  with run obtain x where one: "tx_reconcile env (t 0) tid ws = (Inr x, ws')"
    and r: "rq_status r = (if rr_status x = RECONCILED_BLOCKED then BLOCKED else SUCCEEDED)"
    unfolding transaction_reconcile_def reconcile_with_def start_pipeline_def
    by (auto simp: outcome_simps Let_def split: if_splits)
  from reconcile_honest [OF assms(1) one] show ?thesis
    unfolding r by (cases "rr_status x") auto
qed

theorem reconcile_command_honest_witness:
  "\<exists>r ws' es. transaction_reconcile demo_tx_env (\<lambda>t. t) (\<lambda>_. int) 0 None (Some ''t1'') (demo_prepared_ws (tx_files demo_ws)) = (Inr r, ws') \<and>
     rq_status r = SUCCEEDED \<and> audit_read (tx_audit ws') = Inr es \<and> pp_audit_event demo_plan \<in> set es"
proof -
  let ?ws = "demo_prepared_ws (tx_files demo_ws)"
  let ?q = "prepared_record (tx_jenv demo_tx_env) demo_plan 0"
  obtain x ws' where one: "tx_reconcile demo_tx_env int ''t1'' ?ws = (Inr x, ws')" "rr_status x = RECONCILED_COMMITTED"
    using reconcile_honest_witness by blast
  then obtain r where run: "transaction_reconcile demo_tx_env (\<lambda>t. t) (\<lambda>_. int) 0 None (Some ''t1'') ?ws = (Inr r, ws')"
    and r: "rq_status r = SUCCEEDED"
    by (simp add: transaction_reconcile_def reconcile_with_def start_pipeline_def Let_def)
  have load: "journal_load (tx_jenv demo_tx_env) ''t1'' (tx_journal ?ws) = Inr ?q"
    using holds_load(1) [OF demo_prepared_holds] by simp
  have valid: "reconcile_request_valid (Some ''t1'')" by code_simp
  have "latest_status ?q \<noteq> COMMITTED" "jr_plan ?q = demo_plan" by (simp_all add: prepared_record_def latest_status_def Let_def)
  with reconcile_command_honest [OF demo_env_ok valid run] load r run show ?thesis by auto
qed

end
