(* ===== verification/CaseViews.thy ===== *)
theory CaseViews
  imports ProjectService
begin

text \<open>
  \<open>schemas/case.py\<close> and \<open>case.py\<close>: read views of a project, derived at every call from its latest dossier and from
  the report files its gates refer to.  The handle is built from callables: \<open>ce_load\<close> and \<open>ce_expected\<close> read the
  store, here the state \<open>'s\<close>; the bytes of a report are any type \<open>'b\<close> with a size, a digest and a parser.  A path
  is an absolute string and \<open>ce_resolve\<close> resolves it.  Korean literals are looked up by a key.
\<close>

section \<open>Views\<close>

datatype case_lifecycle_stage = CaseRegistration | CaseExecution | CaseCompletion

fun lifecycle_value :: "case_lifecycle_stage \<Rightarrow> string" where
  "lifecycle_value CaseRegistration = ''registration''"
| "lifecycle_value CaseExecution = ''execution''"
| "lifecycle_value CaseCompletion = ''completion''"

record case_next_action =
  cn_action_id :: string
  cn_required_role :: string
  cn_description :: string

record assessment_count =
  at_assessment :: assessment
  at_count :: int

record case_evidence_view =
  cv_artifact_id :: string
  cv_locator :: string
  cv_excerpt :: string
  cv_source :: string

record criterion_review_view =
  rw_criterion_id :: string
  rw_title :: string
  rw_agent_assessment :: assessment
  rw_effective_assessment :: assessment
  rw_human_adjusted :: bool
  rw_observation :: "string option"
  rw_evidence_refs :: "case_evidence_view list"
  rw_adjustment_reason :: "string option"

record human_decision_view =
  hv_command :: string
  hv_decided_at :: int
  hv_adjustment_count :: int
  hv_actor_id :: "string option"
  hv_rationale :: "string option"
  hv_authority_context :: "string option"

record gate_review_view =
  gv_stage :: review_stage
  gv_report_id :: "string option"
  gv_report_base_revision :: "int option"
  gv_snapshot_id :: "string option"
  gv_agent_recommendation :: "agent_recommendation option"
  gv_agent_summary :: "string option"
  gv_human_decision :: "human_decision_view option"
  gv_agent_assessments :: "assessment_count list"
  gv_effective_assessments :: "assessment_count list"
  gv_adjusted_criterion_count :: int
  gv_criteria :: "criterion_review_view list"

definition empty_gate_view :: "review_stage \<Rightarrow> gate_review_view" where
  "empty_gate_view st =
     \<lparr>gv_stage = st, gv_report_id = None, gv_report_base_revision = None, gv_snapshot_id = None,
      gv_agent_recommendation = None, gv_agent_summary = None, gv_human_decision = None,
      gv_agent_assessments = [], gv_effective_assessments = [], gv_adjusted_criterion_count = 0, gv_criteria = []\<rparr>"

record case_status =
  cs_project_id :: string
  cs_display_id :: string
  cs_title :: string
  cs_revision :: int
  cs_dossier_status :: project_status
  cs_lifecycle_stage :: case_lifecycle_stage
  cs_terminal :: bool
  cs_waiting_for :: "string option"
  cs_next_actions :: "case_next_action list"
  cs_latest_review :: "gate_review_view option"
  cs_updated_at :: int

record execution_summary =
  xm_started_at :: "int option"
  xm_completion_submitted_at :: "int option"
  xm_mentor_assigned :: bool
  xm_progress_note_count :: int
  xm_progress_notes :: "string list"

record case_artifact_view =
  av_artifact_id :: string
  av_role :: string
  av_media_type :: string
  av_sha256 :: string
  av_byte_size :: int

record case_notification_view =
  nv_stage :: review_stage
  nv_event_type :: string
  nv_required_role :: string
  nv_report_id :: string
  nv_dossier_revision :: int
  nv_delivery_status :: string
  nv_recorded_at :: int

record case_summary =
  cy_project_id :: string
  cy_display_id :: string
  cy_title :: string
  cy_revision :: int
  cy_dossier_status :: project_status
  cy_lifecycle_stage :: case_lifecycle_stage
  cy_terminal :: bool
  cy_review_profile :: "string option"
  cy_review_profile_sha256 :: "string option"
  cy_review_context :: review_context
  cy_registration :: gate_review_view
  cy_execution :: execution_summary
  cy_completion :: gate_review_view
  cy_artifact_count :: int
  cy_artifacts :: "case_artifact_view list"
  cy_notification_count :: int
  cy_notifications :: "case_notification_view list"
  cy_audit_event_count :: int
  cy_audit_event_ids :: "string list"
  cy_updated_at :: int

section \<open>Where a project stands\<close>

definition lifecycle_stage_of :: "project_status \<Rightarrow> case_lifecycle_stage" where
  "lifecycle_stage_of st =
     (if st \<in> {DRAFT, REGISTRATION_READY, REGISTRATION_UNDER_REVIEW, REGISTRATION_HITL_PENDING,
               REGISTRATION_APPROVED, REGISTRATION_REJECTED} then CaseRegistration
      else if st = IN_PROGRESS then CaseExecution else CaseCompletion)"

definition is_terminal :: "project_status \<Rightarrow> bool" where
  "is_terminal st \<longleftrightarrow> st \<in> {REGISTRATION_REJECTED, COMPLETION_ACCEPTED, COMPLETION_NOT_ACCEPTED}"

definition next_action :: "(string \<Rightarrow> string) \<Rightarrow> string \<Rightarrow> string \<Rightarrow> string \<Rightarrow> case_next_action" where
  "next_action text' action role key = \<lparr>cn_action_id = action, cn_required_role = role, cn_description = text' key\<rparr>"

definition completion_approver :: "project_dossier \<Rightarrow> string" where
  "completion_approver d =
     (if truthy (xr_mentor_ref (pd_execution d)) then ''assigned_mentor'' else ''project_owner_or_administrator'')"

definition guidance_actions :: "(string \<Rightarrow> string) \<Rightarrow> project_dossier \<Rightarrow> (project_status \<times> case_next_action list) list" where
  "guidance_actions text' d =
     [(DRAFT, [next_action text' ''submit_registration'' ''submitter_or_project_owner'' ''submit_registration'']),
      (REGISTRATION_READY, [next_action text' ''evaluate.registration'' ''system_or_operator'' ''evaluate.registration'']),
      (REGISTRATION_UNDER_REVIEW, [next_action text' ''reconcile_transactions'' ''operator'' ''reconcile_transactions'']),
      (REGISTRATION_HITL_PENDING,
        [next_action text' ''decide_registration.approve'' ''administrator'' ''decide_registration.approve'',
         next_action text' ''decide_registration.reject'' ''administrator'' ''decide_registration.reject'']),
      (REGISTRATION_APPROVED,
        [next_action text' ''start_execution'' ''project_owner_or_administrator'' ''start_execution'',
         next_action text' ''assign_mentor'' ''project_owner_or_administrator'' ''assign_mentor'']),
      (IN_PROGRESS,
        [next_action text' ''record_progress'' ''project_owner'' ''record_progress'',
         next_action text' ''submit_completion'' (completion_approver d) ''submit_completion'']),
      (COMPLETION_READY,
        [next_action text' ''approve_completion_submission'' (completion_approver d) ''approve_completion_submission'']),
      (COMPLETION_APPROVAL_PENDING,
        [next_action text' ''approve_completion_submission'' (completion_approver d) ''approve_completion_submission'']),
      (COMPLETION_REGISTERED, [next_action text' ''evaluate.completion'' ''system_or_operator'' ''evaluate.completion'']),
      (COMPLETION_UNDER_REVIEW, [next_action text' ''reconcile_transactions'' ''operator'' ''reconcile_transactions'']),
      (COMPLETION_HITL_PENDING,
        [next_action text' ''decide_completion.accept'' ''administrator'' ''decide_completion.accept'',
         next_action text' ''decide_completion.not_accept'' ''administrator'' ''decide_completion.not_accept''])]"

definition guidance_waiting :: "project_dossier \<Rightarrow> (project_status \<times> string) list" where
  "guidance_waiting d =
     [(REGISTRATION_READY, ''registration_evaluation''), (REGISTRATION_UNDER_REVIEW, ''system_or_recovery''),
      (REGISTRATION_HITL_PENDING, ''administrator''), (REGISTRATION_APPROVED, ''project_owner''),
      (IN_PROGRESS, ''project_execution''), (COMPLETION_READY, completion_approver d),
      (COMPLETION_APPROVAL_PENDING, completion_approver d), (COMPLETION_REGISTERED, ''completion_evaluation''),
      (COMPLETION_UNDER_REVIEW, ''system_or_recovery''), (COMPLETION_HITL_PENDING, ''administrator'')]"

definition status_guidance :: "(string \<Rightarrow> string) \<Rightarrow> project_dossier \<Rightarrow> string option \<times> case_next_action list" where
  "status_guidance text' d =
     (map_of (guidance_waiting d) (pd_status d),
      case map_of (guidance_actions text' d) (pd_status d) of None \<Rightarrow> [] | Some as \<Rightarrow> as)"

section \<open>The handle\<close>

record ('b, 's) case_env =
  ce_load :: "string \<Rightarrow> 's \<Rightarrow> project_dossier res"
  ce_expected :: "string \<Rightarrow> string \<Rightarrow> string \<Rightarrow> 's \<Rightarrow> string option res"
  ce_read :: "string \<Rightarrow> 's \<Rightarrow> 'b res"
  ce_resolve :: "string \<Rightarrow> string"
  ce_reports_root :: string
  ce_size :: "'b \<Rightarrow> nat"
  ce_sha :: "'b \<Rightarrow> string"
  ce_parse :: "'b \<Rightarrow> evaluation_report res"
  ce_text :: "string \<Rightarrow> string"

definition MAX_REPORT_BYTES :: nat where
  "MAX_REPORT_BYTES = 10 * 1024 * 1024"

definition case_error :: "string \<Rightarrow> exn" where
  "case_error message = Exn CaseIntegrityError message"

definition current_dossier :: "('b, 's) case_env \<Rightarrow> string \<Rightarrow> 's \<Rightarrow> project_dossier res" where
  "current_dossier env p s =
     (case ce_load env p s of
        Inl e \<Rightarrow> Inl e
      | Inr d \<Rightarrow>
          if pd_project_id d \<noteq> p then Inl (case_error ''loaded dossier project identity does not match the case'')
          else Inr d)"

text \<open>The handle that the constructor returns is the project id.\<close>

definition open_case :: "('b, 's) case_env \<Rightarrow> string \<Rightarrow> 's \<Rightarrow> string res" where
  "open_case env p s = map_sum id (\<lambda>_. p) (current_dossier env p s)"

section \<open>The report behind a gate\<close>

definition under_path :: "string \<Rightarrow> string \<Rightarrow> bool" where
  "under_path base path \<longleftrightarrow> path = base \<or> starts_with (base @ ''/'') path"

definition path_stem :: "string \<Rightarrow> string" where
  "path_stem p = take (length (path_name p) - length (path_suffix p)) (path_name p)"

definition read_case_report ::
  "('b, 's) case_env \<Rightarrow> string \<Rightarrow> string \<Rightarrow> string \<Rightarrow> 's \<Rightarrow> evaluation_report res" where
  "read_case_report env p report_id path s =
     (case ce_read env path s of
        Inl e \<Rightarrow> Inl e
      | Inr payload \<Rightarrow>
     (if MAX_REPORT_BYTES < ce_size env payload then
        Inl (case_error ''Agent report exceeds the local read limit'')
      else
     (case ce_expected env p report_id path s of
        Inl e \<Rightarrow> Inl e
      | Inr None \<Rightarrow> Inl (case_error ''Agent report has no committed transaction hash anchor'')
      | Inr (Some expected) \<Rightarrow>
          if ce_sha env payload \<noteq> expected then
            Inl (case_error ''Agent report does not match its committed hash anchor'')
          else ce_parse env payload)))"

text \<open>The two \<open>except\<close> clauses around it.\<close>

definition report_failure :: "exn \<Rightarrow> exn" where
  "report_failure e =
     (if exn_is e [OSError, UnicodeError, ValidationError] then case_error ''Agent report is missing or invalid''
      else if is_instance e RuntimeError then
        (if is_instance e CaseIntegrityError then e else case_error ''Agent report hash anchor is invalid'')
      else e)"

definition report_identity ::
  "project_dossier \<Rightarrow> stage_review \<Rightarrow> review_stage \<Rightarrow> evaluation_report \<Rightarrow> evaluation_report option res" where
  "report_identity d review st report =
     (if er_project_id report \<noteq> pd_project_id d \<or> er_stage report \<noteq> st \<or>
         Some (er_report_id report) \<noteq> st_report_id review \<or>
         er_base_revision report \<noteq> sn_dossier_revision (er_snapshot report) then
        Inl (case_error ''Agent report identity does not match the dossier'')
      else if st_snapshot review \<noteq> None \<and> st_snapshot review \<noteq> Some (er_snapshot report) then
        Inl (case_error ''Agent report snapshot does not match the dossier'')
      else if st_review_profile review \<noteq> None \<and> st_review_profile review \<noteq> Some (er_review_profile report) then
        Inl (case_error ''Agent report policy does not match the dossier'')
      else
        (case first_such (\<lambda>a. Some (ar_artifact_id a) = st_submission_artifact_id review) (pd_artifacts d) of
           None \<Rightarrow> Inl (case_error ''Agent report evidence hash does not match the dossier'')
         | Some a \<Rightarrow>
             if ar_sha256 a \<noteq> er_evaluated_artifact_sha256 report then
               Inl (case_error ''Agent report evidence hash does not match the dossier'')
             else Inr (Some report)))"

definition case_load_report ::
  "('b, 's) case_env \<Rightarrow> project_dossier \<Rightarrow> stage_review \<Rightarrow> review_stage \<Rightarrow> 's \<Rightarrow> evaluation_report option res" where
  "case_load_report env d review st s =
     (case (st_report_id review, st_report_json_uri review) of
        (None, None) \<Rightarrow> Inr None
      | (Some report_id, Some uri) \<Rightarrow>
          (let path = ce_resolve env uri
           in if \<not> under_path (ce_reports_root env) path then
                Inl (case_error ''Agent report reference is outside the case report store'')
              else if casefold (path_suffix path) \<noteq> ''.json'' \<or> path_stem path \<noteq> report_id then
                Inl (case_error ''Agent report filename does not match its dossier identity'')
              else
                (case read_case_report env (pd_project_id d) report_id path s of
                   Inl e \<Rightarrow> Inl (report_failure e)
                 | Inr report \<Rightarrow> report_identity d review st report))
      | _ \<Rightarrow> Inl (case_error ''dossier contains an incomplete Agent report reference''))"

section \<open>The view of a gate\<close>

definition assessments_in_order :: "assessment list" where
  "assessments_in_order = [MET, PARTIALLY_MET, NOT_MET, INSUFFICIENT_EVIDENCE, NOT_APPLICABLE]"

definition assessment_counts :: "assessment list \<Rightarrow> assessment_count list" where
  "assessment_counts xs =
     map (\<lambda>a. \<lparr>at_assessment = a, at_count = int (count_list xs a)\<rparr>)
       (filter (\<lambda>a. count_list xs a \<noteq> 0) assessments_in_order)"

definition is_safe_fragment :: "string \<Rightarrow> bool" where
  "is_safe_fragment f \<longleftrightarrow> 1 \<le> length f \<and> length f \<le> 128 \<and>
     list_all (\<lambda>c. is_alnum c \<or> c \<in> set ''_.:=,-'') f"

text \<open>\<open>rsplit("#", 1)[1]\<close>.\<close>

definition after_hash :: "string \<Rightarrow> string" where
  "after_hash s = rev (takeWhile (\<lambda>c. c \<noteq> CHR ''#'') (rev s))"

definition evidence_view :: "evidence_locator \<Rightarrow> case_evidence_view" where
  "evidence_view r =
     (let locator = el_locator r; plain = ''artifact:'' @ el_artifact_id r in
      \<lparr>cv_artifact_id = el_artifact_id r,
       cv_locator =
         (if CHR ''#'' \<in> set locator then
            (if is_safe_fragment (after_hash locator) then plain @ ''#'' @ after_hash locator else plain)
          else if \<not> starts_with ''artifact:'' locator \<and> \<not> starts_with ''report:'' locator then plain
          else locator),
       cv_excerpt = el_excerpt r, cv_source = el_source r\<rparr>)"

definition decision_commands :: "review_stage \<Rightarrow> string list" where
  "decision_commands st =
     (case st of REGISTRATION \<Rightarrow> [''approve'', ''reject''] | COMPLETION \<Rightarrow> [''accept'', ''not_accept''])"

definition check_decision :: "review_stage \<Rightarrow> evaluation_report \<Rightarrow> human_decision option \<Rightarrow> unit res" where
  "check_decision st report decision =
     (case decision of
        None \<Rightarrow> Inr ()
      | Some h \<Rightarrow>
          if hd_stage h \<noteq> st \<or> hd_report_id h \<noteq> er_report_id report then
            Inl (case_error ''human decision identity does not match the Agent report'')
          else if hd_command h \<notin> set (decision_commands st) then
            Inl (case_error ''human decision command is invalid for the review stage'')
          else Inr ())"

definition effective_assessment :: "(string \<times> reviewer_adjustment) list \<Rightarrow> criterion_result \<Rightarrow> assessment" where
  "effective_assessment adjustments c =
     (case map_of adjustments (cr_criterion_id c) of None \<Rightarrow> cr_assessment c | Some a \<Rightarrow> ra_to_assessment a)"

definition criterion_view :: "(string \<times> reviewer_adjustment) list \<Rightarrow> criterion_result \<Rightarrow> criterion_review_view" where
  "criterion_view adjustments c =
     \<lparr>rw_criterion_id = cr_criterion_id c, rw_title = cr_title c, rw_agent_assessment = cr_assessment c,
      rw_effective_assessment = effective_assessment adjustments c,
      rw_human_adjusted = (map_of adjustments (cr_criterion_id c) \<noteq> None), rw_observation = Some (cr_observation c),
      rw_evidence_refs = map evidence_view (cr_evidence_refs c),
      rw_adjustment_reason = map_option ra_reason (map_of adjustments (cr_criterion_id c))\<rparr>"

definition stale_adjustment :: "(string \<times> reviewer_adjustment) list \<Rightarrow> criterion_result \<Rightarrow> bool" where
  "stale_adjustment adjustments c \<longleftrightarrow>
     (case map_of adjustments (cr_criterion_id c) of None \<Rightarrow> False | Some a \<Rightarrow> ra_from_assessment a \<noteq> cr_assessment c)"

definition decision_view :: "bool \<Rightarrow> human_decision \<Rightarrow> human_decision_view" where
  "decision_view verbose h =
     \<lparr>hv_command = hd_command h, hv_decided_at = hd_decided_at h,
      hv_adjustment_count = int (length (hd_adjustments h)),
      hv_actor_id = (if verbose then Some (hd_actor_id h) else None),
      hv_rationale = (if verbose then Some (hd_rationale h) else None),
      hv_authority_context = (if verbose then Some (hd_authority_context h) else None)\<rparr>"

definition review_view ::
  "('b, 's) case_env \<Rightarrow> bool \<Rightarrow> project_dossier \<Rightarrow> review_stage \<Rightarrow> 's \<Rightarrow> gate_review_view res" where
  "review_view env verbose d st s =
     (let review = stage_review_of st d; decision = st_decision review in
      case case_load_report env d review st s of
        Inl e \<Rightarrow> Inl e
      | Inr None \<Rightarrow>
          if decision \<noteq> None then
            Inl (case_error ''a human decision exists without its immutable Agent report'')
          else Inr (empty_gate_view st)
      | Inr (Some report) \<Rightarrow>
     (case check_decision st report decision of
        Inl e \<Rightarrow> Inl e
      | Inr _ \<Rightarrow>
     (let recorded = (case decision of None \<Rightarrow> [] | Some h \<Rightarrow> hd_adjustments h);
          adjustments = dict_by ra_criterion_id recorded; criteria = er_criteria report
      in if length adjustments \<noteq> length recorded then
           Inl (case_error ''duplicate human criterion adjustments were recorded'')
         else if list_ex (stale_adjustment adjustments) criteria then
           Inl (case_error ''human adjustment no longer matches the Agent assessment'')
         else if list_ex (\<lambda>i. i \<notin> set (map cr_criterion_id criteria)) (map fst adjustments) then
           Inl (case_error ''human adjustment references an unknown Agent criterion'')
         else Inr
           \<lparr>gv_stage = st, gv_report_id = Some (er_report_id report),
            gv_report_base_revision = Some (er_base_revision report),
            gv_snapshot_id = Some (sn_snapshot_id (er_snapshot report)),
            gv_agent_recommendation = Some (er_recommendation report),
            gv_agent_summary = Some (er_recommendation_summary report),
            gv_human_decision = map_option (decision_view verbose) decision,
            gv_agent_assessments = assessment_counts (map cr_assessment criteria),
            gv_effective_assessments = assessment_counts (map (effective_assessment adjustments) criteria),
            gv_adjusted_criterion_count = int (length adjustments),
            gv_criteria = (if verbose then map (criterion_view adjustments) criteria else [])\<rparr>)))"

section \<open>Status and summary\<close>

definition case_status_of :: "('b, 's) case_env \<Rightarrow> project_dossier \<Rightarrow> gate_review_view option \<Rightarrow> case_status" where
  "case_status_of env d latest =
     \<lparr>cs_project_id = pd_project_id d, cs_display_id = pd_display_id d, cs_title = pd_title d,
      cs_revision = pd_revision d, cs_dossier_status = pd_status d,
      cs_lifecycle_stage = lifecycle_stage_of (pd_status d), cs_terminal = is_terminal (pd_status d),
      cs_waiting_for = fst (status_guidance (ce_text env) d), cs_next_actions = snd (status_guidance (ce_text env) d),
      cs_latest_review = latest, cs_updated_at = pd_updated_at d\<rparr>"

definition current_status :: "('b, 's) case_env \<Rightarrow> bool \<Rightarrow> string \<Rightarrow> 's \<Rightarrow> case_status res" where
  "current_status env verbose p s =
     (case current_dossier env p s of
        Inl e \<Rightarrow> Inl e
      | Inr d \<Rightarrow>
          if st_report_id (pd_completion d) \<noteq> None then
            map_sum id (\<lambda>v. case_status_of env d (Some v)) (review_view env verbose d COMPLETION s)
          else if st_report_id (pd_registration d) \<noteq> None then
            map_sum id (\<lambda>v. case_status_of env d (Some v)) (review_view env verbose d REGISTRATION s)
          else Inr (case_status_of env d None))"

definition execution_view :: "bool \<Rightarrow> execution_record \<Rightarrow> execution_summary" where
  "execution_view verbose x =
     \<lparr>xm_started_at = xr_started_at x, xm_completion_submitted_at = xr_completion_submitted_at x,
      xm_mentor_assigned = (xr_mentor_ref x \<noteq> None), xm_progress_note_count = int (length (xr_notes x)),
      xm_progress_notes = (if verbose then xr_notes x else [])\<rparr>"

definition artifact_view :: "artifact_ref \<Rightarrow> case_artifact_view" where
  "artifact_view a =
     \<lparr>av_artifact_id = ar_artifact_id a, av_role = ar_role a, av_media_type = ar_media_type a,
      av_sha256 = ar_sha256 a, av_byte_size = ar_byte_size a\<rparr>"

definition notification_view :: "notification_record \<Rightarrow> case_notification_view" where
  "notification_view n =
     \<lparr>nv_stage = nr_stage n, nv_event_type = nr_event_type n, nv_required_role = nr_required_role n,
      nv_report_id = nr_report_id n, nv_dossier_revision = nr_dossier_revision n,
      nv_delivery_status = nr_delivery_status n, nv_recorded_at = nr_recorded_at n\<rparr>"

definition case_summary_of :: "bool \<Rightarrow> project_dossier \<Rightarrow> gate_review_view \<Rightarrow> gate_review_view \<Rightarrow> case_summary" where
  "case_summary_of verbose d registration completion =
     \<lparr>cy_project_id = pd_project_id d, cy_display_id = pd_display_id d, cy_title = pd_title d,
      cy_revision = pd_revision d, cy_dossier_status = pd_status d,
      cy_lifecycle_stage = lifecycle_stage_of (pd_status d), cy_terminal = is_terminal (pd_status d),
      cy_review_profile = map_option profile_selector (pd_review_profile d),
      cy_review_profile_sha256 = map_option rp_sha256 (pd_review_profile d),
      cy_review_context = pd_review_context d, cy_registration = registration,
      cy_execution = execution_view verbose (pd_execution d), cy_completion = completion,
      cy_artifact_count = int (length (pd_artifacts d)),
      cy_artifacts = (if verbose then map artifact_view (pd_artifacts d) else []),
      cy_notification_count = int (length (pd_notifications d)),
      cy_notifications = (if verbose then map notification_view (pd_notifications d) else []),
      cy_audit_event_count = int (length (pd_audit_event_ids d)),
      cy_audit_event_ids = (if verbose then pd_audit_event_ids d else []),
      cy_updated_at = pd_updated_at d\<rparr>"

definition get_summary :: "('b, 's) case_env \<Rightarrow> bool \<Rightarrow> string \<Rightarrow> 's \<Rightarrow> case_summary res" where
  "get_summary env verbose p s =
     (case current_dossier env p s of
        Inl e \<Rightarrow> Inl e
      | Inr d \<Rightarrow>
     (case review_view env verbose d REGISTRATION s of
        Inl e \<Rightarrow> Inl e
      | Inr registration \<Rightarrow>
     (case review_view env verbose d COMPLETION s of
        Inl e \<Rightarrow> Inl e
      | Inr completion \<Rightarrow> Inr (case_summary_of verbose d registration completion))))"

text \<open>\<open>_format\<close>: the value itself, its JSON text or its Markdown.\<close>

datatype 'v case_output = CaseObject 'v | CaseText string

definition case_format ::
  "string \<Rightarrow> ('v \<Rightarrow> string) \<Rightarrow> ('v \<Rightarrow> string) \<Rightarrow> 'v \<Rightarrow> 'v case_output res" where
  "case_format format' json markdown v =
     (if format' = ''object'' then Inr (CaseObject v)
      else if format' = ''json'' then Inr (CaseText (json v @ [CHR 0x0A]))
      else if format' = ''md'' then Inr (CaseText (markdown v))
      else Inl (Exn ValueError ''format must be one of: object, json, md''))"

section \<open>What is offered is what the workflow allows\<close>

text \<open>The transition that an offered action stands for, and the roles that its text names.\<close>

definition action_trigger :: "string \<Rightarrow> string option" where
  "action_trigger = map_of
     [(''submit_registration'', ''submit_registration''), (''evaluate.registration'', ''start_registration_evaluation''),
      (''decide_registration.approve'', ''approve_registration''), (''decide_registration.reject'', ''reject_registration''),
      (''start_execution'', ''start_execution''), (''approve_completion_submission'', ''approve_completion_submission''),
      (''evaluate.completion'', ''start_completion_evaluation''), (''decide_completion.accept'', ''accept_completion''),
      (''decide_completion.not_accept'', ''decline_completion'')]"

definition roles_named :: "string \<Rightarrow> actor_role set" where
  "roles_named text' =
     (case map_of
        [(''submitter_or_project_owner'', {SUBMITTER, PROJECT_OWNER}), (''system_or_operator'', {SYSTEM}),
         (''administrator'', {ADMINISTRATOR}), (''project_owner'', {PROJECT_OWNER}),
         (''project_owner_or_administrator'', {PROJECT_OWNER, ADMINISTRATOR}), (''assigned_mentor'', {MENTOR})] text' of
        None \<Rightarrow> {} | Some rs \<Rightarrow> rs)"

definition may_fire :: "project_dossier \<Rightarrow> string \<Rightarrow> actor_role \<Rightarrow> bool" where
  "may_fire d trigger role \<longleftrightarrow> (\<exists>rule. transition_guard (record_of d) trigger role = Inr rule)"

lemma may_fire_simps:
  "may_fire d trigger role \<longleftrightarrow>
     (\<exists>rule. map_of TRANSITIONS trigger = Some rule \<and> pd_status d = rule_source rule \<and> role \<in> rule_roles rule \<and>
        (trigger = ''approve_completion_submission'' \<longrightarrow>
           (if truthy (xr_mentor_ref (pd_execution d)) then role = MENTOR else role \<in> {PROJECT_OWNER, ADMINISTRATOR})))"
  by (auto simp: may_fire_def transition_guard_def record_of_def split: option.split)

lemma fires:
  "may_fire d ''submit_registration'' role \<longleftrightarrow> pd_status d = DRAFT \<and> role \<in> {SUBMITTER, PROJECT_OWNER}"
  "may_fire d ''start_registration_evaluation'' role \<longleftrightarrow> pd_status d = REGISTRATION_READY \<and> role = SYSTEM"
  "may_fire d ''publish_registration_draft'' role \<longleftrightarrow> pd_status d = REGISTRATION_UNDER_REVIEW \<and> role = SYSTEM"
  "may_fire d ''approve_registration'' role \<longleftrightarrow> pd_status d = REGISTRATION_HITL_PENDING \<and> role = ADMINISTRATOR"
  "may_fire d ''reject_registration'' role \<longleftrightarrow> pd_status d = REGISTRATION_HITL_PENDING \<and> role = ADMINISTRATOR"
  "may_fire d ''start_execution'' role \<longleftrightarrow> pd_status d = REGISTRATION_APPROVED \<and> role \<in> {PROJECT_OWNER, ADMINISTRATOR}"
  "may_fire d ''request_completion'' role \<longleftrightarrow> pd_status d = IN_PROGRESS \<and> role = PROJECT_OWNER"
  "may_fire d ''request_completion_submission_approval'' role \<longleftrightarrow> pd_status d = COMPLETION_READY \<and> role = PROJECT_OWNER"
  "may_fire d ''start_completion_evaluation'' role \<longleftrightarrow> pd_status d = COMPLETION_REGISTERED \<and> role = SYSTEM"
  "may_fire d ''publish_completion_draft'' role \<longleftrightarrow> pd_status d = COMPLETION_UNDER_REVIEW \<and> role = SYSTEM"
  "may_fire d ''accept_completion'' role \<longleftrightarrow> pd_status d = COMPLETION_HITL_PENDING \<and> role = ADMINISTRATOR"
  "may_fire d ''decline_completion'' role \<longleftrightarrow> pd_status d = COMPLETION_HITL_PENDING \<and> role = ADMINISTRATOR"
  by (simp_all add: may_fire_simps TRANSITIONS_def) (simp_all add: mk_rule_def)

lemma fires_submission:
  "may_fire d ''approve_completion_submission'' role \<longleftrightarrow> pd_status d = COMPLETION_APPROVAL_PENDING \<and>
     (if truthy (xr_mentor_ref (pd_execution d)) then role = MENTOR else role \<in> {PROJECT_OWNER, ADMINISTRATOR})"
  by (simp add: may_fire_simps TRANSITIONS_def) (auto simp: mk_rule_def)

lemma rules_leave: "(trigger, rule) \<in> set TRANSITIONS \<Longrightarrow> \<not> is_terminal (rule_source rule)"
proof -
  have "list_all (\<lambda>x. \<not> is_terminal (rule_source (snd x))) TRANSITIONS"
    by (simp add: TRANSITIONS_def mk_rule_def is_terminal_def)
  then show "(trigger, rule) \<in> set TRANSITIONS \<Longrightarrow> ?thesis" by (auto simp: list_all_iff)
qed

lemma terminal_stuck: "is_terminal (pd_status d) \<longleftrightarrow> (\<forall>trigger role. \<not> may_fire d trigger role)"
proof
  assume "is_terminal (pd_status d)"
  then show "\<forall>trigger role. \<not> may_fire d trigger role"
    using rules_leave by (auto simp: may_fire_simps dest!: map_of_SomeD)
next
  assume stuck: "\<forall>trigger role. \<not> may_fire d trigger role"
  note s = stuck [rule_format]
  from s [of "''submit_registration''" SUBMITTER] s [of "''start_registration_evaluation''" SYSTEM]
    s [of "''publish_registration_draft''" SYSTEM] s [of "''approve_registration''" ADMINISTRATOR]
    s [of "''start_execution''" PROJECT_OWNER] s [of "''request_completion''" PROJECT_OWNER]
    s [of "''request_completion_submission_approval''" PROJECT_OWNER] s [of "''approve_completion_submission''" MENTOR]
    s [of "''approve_completion_submission''" PROJECT_OWNER] s [of "''start_completion_evaluation''" SYSTEM]
    s [of "''publish_completion_draft''" SYSTEM] s [of "''accept_completion''" ADMINISTRATOR]
  show "is_terminal (pd_status d)"
    unfolding fires fires_submission by (cases "pd_status d") (simp_all add: is_terminal_def split: if_splits)
qed

definition offer_exact :: "project_dossier \<Rightarrow> case_next_action \<Rightarrow> bool" where
  "offer_exact d a \<longleftrightarrow> (\<forall>trigger role. action_trigger (cn_action_id a) = Some trigger \<longrightarrow>
     (may_fire d trigger role \<longleftrightarrow> role \<in> roles_named (cn_required_role a)))"

lemma offer_exact_none: "action_trigger i = None \<Longrightarrow> offer_exact d \<lparr>cn_action_id = i, cn_required_role = r, cn_description = x\<rparr>"
  by (simp add: offer_exact_def)

lemma offer_exact_some:
  "action_trigger i = Some trigger \<Longrightarrow> (\<And>role. may_fire d trigger role \<longleftrightarrow> role \<in> roles_named r) \<Longrightarrow>
   offer_exact d \<lparr>cn_action_id = i, cn_required_role = r, cn_description = x\<rparr>"
  by (simp add: offer_exact_def)

lemma named:
  "roles_named ''submitter_or_project_owner'' = {SUBMITTER, PROJECT_OWNER}" "roles_named ''system_or_operator'' = {SYSTEM}"
  "roles_named ''administrator'' = {ADMINISTRATOR}" "roles_named ''assigned_mentor'' = {MENTOR}"
  "roles_named ''project_owner_or_administrator'' = {PROJECT_OWNER, ADMINISTRATOR}"
  by (simp_all add: roles_named_def)

lemma triggers:
  "action_trigger ''submit_registration'' = Some ''submit_registration''"
  "action_trigger ''evaluate.registration'' = Some ''start_registration_evaluation''"
  "action_trigger ''decide_registration.approve'' = Some ''approve_registration''"
  "action_trigger ''decide_registration.reject'' = Some ''reject_registration''"
  "action_trigger ''start_execution'' = Some ''start_execution''"
  "action_trigger ''approve_completion_submission'' = Some ''approve_completion_submission''"
  "action_trigger ''evaluate.completion'' = Some ''start_completion_evaluation''"
  "action_trigger ''decide_completion.accept'' = Some ''accept_completion''"
  "action_trigger ''decide_completion.not_accept'' = Some ''decline_completion''"
  "action_trigger ''reconcile_transactions'' = None" "action_trigger ''assign_mentor'' = None"
  "action_trigger ''record_progress'' = None" "action_trigger ''submit_completion'' = None"
  by (simp_all add: action_trigger_def)

lemma offered_exact:
  assumes "a \<in> set (snd (status_guidance tx d))" and "pd_status d \<noteq> COMPLETION_READY"
  shows "offer_exact d a"
proof -
  have "list_all (offer_exact d) (snd (status_guidance tx d))"
    using assms(2)
    by (cases "pd_status d")
      (simp_all add: status_guidance_def guidance_actions_def next_action_def completion_approver_def
        offer_exact_none offer_exact_some triggers fires fires_submission named)
  with assms(1) show ?thesis by (simp add: list_all_iff)
qed

section \<open>What a view rests on\<close>

text \<open>A report that was read for a gate: the bytes under the gate's reference, with the digest that a committed
  transaction recorded for that file, of the identity that the dossier records.\<close>

definition anchored ::
  "('b, 's) case_env \<Rightarrow> project_dossier \<Rightarrow> review_stage \<Rightarrow> 's \<Rightarrow> 'b \<Rightarrow> evaluation_report \<Rightarrow> bool" where
  "anchored env d st s payload report \<longleftrightarrow>
     (\<exists>uri. st_report_json_uri (stage_review_of st d) = Some uri \<and>
        st_report_id (stage_review_of st d) = Some (er_report_id report) \<and>
        under_path (ce_reports_root env) (ce_resolve env uri) \<and>
        ce_read env (ce_resolve env uri) s = Inr payload \<and> ce_size env payload \<le> MAX_REPORT_BYTES \<and>
        ce_expected env (pd_project_id d) (er_report_id report) (ce_resolve env uri) s = Inr (Some (ce_sha env payload))) \<and>
     ce_parse env payload = Inr report \<and> er_project_id report = pd_project_id d \<and> er_stage report = st \<and>
     er_base_revision report = sn_dossier_revision (er_snapshot report) \<and>
     (\<exists>a \<in> set (pd_artifacts d). Some (ar_artifact_id a) = st_submission_artifact_id (stage_review_of st d) \<and>
        ar_sha256 a = er_evaluated_artifact_sha256 report)"

lemma read_case_report_Inr:
  "read_case_report env p rid path s = Inr report \<longleftrightarrow>
     (\<exists>payload. ce_read env path s = Inr payload \<and> ce_size env payload \<le> MAX_REPORT_BYTES \<and>
        ce_expected env p rid path s = Inr (Some (ce_sha env payload)) \<and> ce_parse env payload = Inr report)"
  by (auto simp: read_case_report_def split: sum.splits option.splits if_splits)

lemma report_identity_Inr:
  "report_identity d rv st report = Inr x \<longleftrightarrow> x = Some report \<and> er_project_id report = pd_project_id d \<and>
     er_stage report = st \<and> st_report_id rv = Some (er_report_id report) \<and>
     er_base_revision report = sn_dossier_revision (er_snapshot report) \<and>
     st_snapshot rv \<in> {None, Some (er_snapshot report)} \<and> st_review_profile rv \<in> {None, Some (er_review_profile report)} \<and>
     (\<exists>a. first_such (\<lambda>a. Some (ar_artifact_id a) = st_submission_artifact_id rv) (pd_artifacts d) = Some a \<and>
        ar_sha256 a = er_evaluated_artifact_sha256 report)"
  by (auto simp: report_identity_def split: option.splits if_splits)

lemma case_load_report_Some:
  assumes "case_load_report env d (stage_review_of st d) st s = Inr (Some report)"
  shows "\<exists>payload. anchored env d st s payload report"
proof -
  let ?rv = "stage_review_of st d"
  from assms obtain rid uri where ids: "st_report_id ?rv = Some rid" "st_report_json_uri ?rv = Some uri"
    and under: "under_path (ce_reports_root env) (ce_resolve env uri)"
    and read: "read_case_report env (pd_project_id d) rid (ce_resolve env uri) s = Inr report"
    and ident: "report_identity d ?rv st report = Inr (Some report)"
    unfolding case_load_report_def
    by (auto simp: Let_def report_identity_Inr split: option.splits if_splits sum.splits)
  from read obtain payload where "ce_read env (ce_resolve env uri) s = Inr payload"
    "ce_size env payload \<le> MAX_REPORT_BYTES" "ce_parse env payload = Inr report"
    "ce_expected env (pd_project_id d) rid (ce_resolve env uri) s = Inr (Some (ce_sha env payload))"
    unfolding read_case_report_Inr by blast
  moreover from ident obtain a where "a \<in> set (pd_artifacts d)" "Some (ar_artifact_id a) = st_submission_artifact_id ?rv"
    "ar_sha256 a = er_evaluated_artifact_sha256 report"
    unfolding report_identity_Inr by (auto dest: first_such_Some)
  ultimately have "anchored env d st s payload report"
    using ids under ident unfolding anchored_def report_identity_Inr by auto
  then show ?thesis ..
qed

lemma case_load_report_None:
  "case_load_report env d rv st s = Inr None \<longleftrightarrow> st_report_id rv = None \<and> st_report_json_uri rv = None"
  by (auto simp: case_load_report_def Let_def report_identity_Inr split: option.splits sum.splits if_splits)

text \<open>What a returned view shows: of the report, of the decision, and of both together.\<close>

definition adjustments_of :: "project_dossier \<Rightarrow> review_stage \<Rightarrow> (string \<times> reviewer_adjustment) list" where
  "adjustments_of d st = (case st_decision (stage_review_of st d) of None \<Rightarrow> []
     | Some h \<Rightarrow> map (\<lambda>a. (ra_criterion_id a, a)) (hd_adjustments h))"

definition displays :: "bool \<Rightarrow> project_dossier \<Rightarrow> review_stage \<Rightarrow> evaluation_report \<Rightarrow> gate_review_view \<Rightarrow> bool" where
  "displays verbose d st report v \<longleftrightarrow>
     gv_stage v = st \<and> gv_report_id v = Some (er_report_id report) \<and>
     gv_report_base_revision v = Some (er_base_revision report) \<and>
     gv_snapshot_id v = Some (sn_snapshot_id (er_snapshot report)) \<and>
     gv_agent_recommendation v = Some (er_recommendation report) \<and>
     gv_agent_summary v = Some (er_recommendation_summary report) \<and>
     gv_agent_assessments v = assessment_counts (map cr_assessment (er_criteria report)) \<and>
     gv_human_decision v = map_option (decision_view verbose) (st_decision (stage_review_of st d)) \<and>
     gv_effective_assessments v = assessment_counts (map (effective_assessment (adjustments_of d st)) (er_criteria report)) \<and>
     gv_adjusted_criterion_count v = int (length (adjustments_of d st)) \<and>
     gv_criteria v = (if verbose then map (criterion_view (adjustments_of d st)) (er_criteria report) else [])"

definition fits :: "project_dossier \<Rightarrow> review_stage \<Rightarrow> evaluation_report \<Rightarrow> bool" where
  "fits d st report \<longleftrightarrow> distinct (map fst (adjustments_of d st)) \<and>
     (\<forall>(i, a) \<in> set (adjustments_of d st). i \<in> cr_criterion_id ` set (er_criteria report)) \<and>
     (\<forall>c \<in> set (er_criteria report). \<not> stale_adjustment (adjustments_of d st) c) \<and>
     check_decision st report (st_decision (stage_review_of st d)) = Inr ()"

lemma adjustments_dict:
  assumes "length (dict_by ra_criterion_id (case h0 of None \<Rightarrow> [] | Some h \<Rightarrow> hd_adjustments h)) =
    length (case h0 of None \<Rightarrow> [] | Some h \<Rightarrow> hd_adjustments h)"
    and "h0 = st_decision (stage_review_of st d)"
  shows "dict_by ra_criterion_id (case h0 of None \<Rightarrow> [] | Some h \<Rightarrow> hd_adjustments h) = adjustments_of d st \<and>
    distinct (map fst (adjustments_of d st))"
  using assms dict_by_distinct [of ra_criterion_id] unfolding length_dict_by adjustments_of_def
  by (cases "st_decision (stage_review_of st d)") (simp_all add: comp_def dict_by_Nil)

lemma review_view_Inr:
  assumes "review_view env verbose d st s = Inr v"
  shows "st_report_id (stage_review_of st d) = None \<and> st_report_json_uri (stage_review_of st d) = None \<and>
      st_decision (stage_review_of st d) = None \<and> v = empty_gate_view st \<or>
    (\<exists>report payload. anchored env d st s payload report \<and> fits d st report \<and> displays verbose d st report v)"
proof (cases "case_load_report env d (stage_review_of st d) st s")
  case (Inr x)
  show ?thesis
  proof (cases x)
    case None
    with Inr assms case_load_report_None [of env d "stage_review_of st d" st s] show ?thesis
      by (auto simp: review_view_def split: if_splits)
  next
    case (Some report)
    let ?dec = "st_decision (stage_review_of st d)"
    let ?as = "case ?dec of None \<Rightarrow> [] | Some h \<Rightarrow> hd_adjustments h"
    have checked: "check_decision st report ?dec = Inr ()" and len: "length (dict_by ra_criterion_id ?as) = length ?as"
      using assms Inr Some by (auto simp: review_view_def Let_def split: sum.splits if_splits)
    note dict = adjustments_dict [OF len refl]
    have "fits d st report \<and> displays verbose d st report v"
      using assms Inr Some checked len dict
      by (auto simp: review_view_def Let_def fits_def displays_def list_ex_iff split: if_splits)
    with case_load_report_Some [of env d st s report] Inr Some show ?thesis by auto
  qed
qed (use assms in \<open>simp add: review_view_def\<close>)


section \<open>Adding up\<close>

fun tally :: "assessment_count list \<Rightarrow> int" where
  "tally [] = 0"
| "tally (c # cs) = at_count c + tally cs"

lemma tally_counts: "tally (assessment_counts xs) = int (length xs)"
proof -
  have zero: "tally (map (\<lambda>a. \<lparr>at_assessment = a, at_count = int (count_list xs a)\<rparr>)
      (filter (\<lambda>a. count_list xs a \<noteq> 0) as)) = (\<Sum>a\<leftarrow>as. int (count_list xs a))" for as
    by (induction as) auto
  have "(\<Sum>a\<leftarrow>assessments_in_order. int (count_list xs a)) = int (length xs)"
  proof (induction xs)
    case (Cons x xs)
    then show ?case by (cases x) (simp_all add: assessments_in_order_def)
  qed (simp add: assessments_in_order_def)
  with zero show ?thesis by (simp add: assessment_counts_def)
qed

lemma tally_count_of:
  "c \<in> set (assessment_counts xs) \<Longrightarrow> at_count c = int (count_list xs (at_assessment c))"
  by (auto simp: assessment_counts_def)

lemma adjusted_le: "fits d st report \<Longrightarrow> length (adjustments_of d st) \<le> length (er_criteria report)"
proof -
  assume f: "fits d st report"
  then have "fst ` set (adjustments_of d st) \<subseteq> cr_criterion_id ` set (er_criteria report)"
    by (auto simp: fits_def)
  then have "card (fst ` set (adjustments_of d st)) \<le> card (cr_criterion_id ` set (er_criteria report))"
    by (rule card_mono [rotated]) simp
  also have "\<dots> \<le> length (er_criteria report)" by (meson card_image_le card_length le_trans finite_set)
  finally show ?thesis using f distinct_card [of "map fst (adjustments_of d st)"] by (simp add: fits_def)
qed

definition gate_view_of :: "case_summary \<Rightarrow> review_stage \<Rightarrow> gate_review_view" where
  "gate_view_of y st = (case st of REGISTRATION \<Rightarrow> cy_registration y | COMPLETION \<Rightarrow> cy_completion y)"

section \<open>An example case\<close>

definition demo_criterion :: criterion_result where
  "demo_criterion = \<lparr>cr_criterion_id = ''c'', cr_title = ''t'', cr_assessment = PARTIALLY_MET, cr_observation = ''o'',
     cr_evidence_refs = [\<lparr>el_artifact_id = ''a'', el_locator = ''/home/x/p.pptx#slide=1'', el_excerpt = ''e'', el_source = ''s''\<rparr>],
     cr_risk_flags = [], cr_follow_up_questions = []\<rparr>"

definition demo_case_report :: evaluation_report where
  "demo_case_report = \<lparr>er_schema_version = ''s'', er_report_id = ''r'', er_run_id = ''n'', er_project_id = ''p'',
     er_stage = REGISTRATION, er_base_revision = 2,
     er_snapshot = \<lparr>sn_snapshot_id = ''i'', sn_dossier_revision = 2, sn_dossier_sha256 = demo_sha, sn_uri = ''u''\<rparr>,
     er_review_profile = \<lparr>rp_policy_id = ''axcalib.default'', rp_version = ''1.0.0'', rp_sha256 = demo_sha,
       rp_status = OFFLINE_REFERENCE, rp_source_uri = ''b''\<rparr>,
     er_rubric_id = ''b'', er_rubric_version = ''1'', er_checklist_refs = [], er_reference_ids = [], er_evaluator_id = ''e'',
     er_model_run = None, er_parser_runs = [], er_generated_at = 0, er_criteria = [demo_criterion], er_recommendation = PASS,
     er_recommendation_summary = ''fine'',
     er_retrieval = \<lparr>rs_status = ''skipped'', rs_adapter = ''none'', rs_similarity_portion = 0, rs_corpus_snapshot_id = None,
       rs_case_ids = []\<rparr>,
     er_baseline_report_id = None, er_proposal_artifact_sha256 = None, er_evaluated_artifact_sha256 = demo_sha,
     er_evaluated_evidence_sha256 = demo_sha, er_limitations = []\<rparr>"

definition demo_case_decision :: human_decision where
  "demo_case_decision = \<lparr>hd_stage = REGISTRATION, hd_command = ''approve'', hd_actor_id = ''admin'',
     hd_actor_role = ''administrator'', hd_rationale = ''why'', hd_report_id = ''r'',
     hd_adjustments = [\<lparr>ra_criterion_id = ''c'', ra_from_assessment = PARTIALLY_MET, ra_to_assessment = MET,
       ra_reason = ''because'', ra_evidence_refs = []\<rparr>],
     hd_decided_at = 5, hd_source = ''x'', hd_authority_context = ''y''\<rparr>"

definition demo_case_dossier :: "string \<Rightarrow> project_dossier" where
  "demo_case_dossier note' = (demo_dossier ''p'' [''evt''])\<lparr>pd_status := REGISTRATION_APPROVED,
     pd_artifacts := [\<lparr>ar_artifact_id = ''a'', ar_role = ''registration_proposal'', ar_uri = ''/home/x/p.pptx'',
       ar_media_type = ''m'', ar_sha256 = demo_sha, ar_byte_size = 9, ar_metadata = []\<rparr>],
     pd_execution := empty_execution\<lparr>xr_notes := [note']\<rparr>,
     pd_registration := empty_stage\<lparr>st_submission_artifact_id := Some ''a'', st_report_id := Some ''r'',
       st_report_json_uri := Some ''/w/reports/r.json'', st_decision := Some demo_case_decision\<rparr>\<rparr>"

definition demo_case_env :: "(string, unit) case_env" where
  "demo_case_env = \<lparr>ce_load = (\<lambda>_ _. Inr (demo_case_dossier ''n'')), ce_expected = (\<lambda>_ _ _ _. Inr (Some ''bytes'')),
     ce_read = (\<lambda>_ _. Inr ''bytes''), ce_resolve = (\<lambda>u. u), ce_reports_root = ''/w/reports'', ce_size = length,
     ce_sha = (\<lambda>b. b), ce_parse = (\<lambda>_. Inr demo_case_report), ce_text = (\<lambda>t. t)\<rparr>"

lemma demo_case_view: "\<exists>v. review_view demo_case_env verbose (demo_case_dossier n) REGISTRATION () = Inr v \<and>
  gv_report_id v = Some ''r'' \<and> gv_adjusted_criterion_count v = 1 \<and>
  gv_effective_assessments v = [\<lparr>at_assessment = MET, at_count = 1\<rparr>]"
  by (cases verbose) (simp_all add: review_view_def case_load_report_def read_case_report_def report_identity_def
      demo_case_env_def demo_case_dossier_def demo_case_report_def demo_case_decision_def demo_criterion_def
      empty_stage_def under_path_def path_stem_def path_suffix_def path_name_def casefold_def casefold_char_def Let_def
      check_decision_def decision_commands_def dict_by_def stale_adjustment_def effective_assessment_def
      assessment_counts_def assessments_in_order_def MAX_REPORT_BYTES_def demo_dossier_def stage_review_of_def)

lemma demo_case_summary:
  "\<exists>y. get_summary demo_case_env verbose ''p'' () = Inr y \<and> gv_report_id (gate_view_of y REGISTRATION) = Some ''r''"
proof -
  obtain v where v: "review_view demo_case_env verbose (demo_case_dossier ''n'') REGISTRATION () = Inr v"
    "gv_report_id v = Some ''r''" using demo_case_view by blast
  have "review_view demo_case_env verbose (demo_case_dossier ''n'') COMPLETION () = Inr (empty_gate_view COMPLETION)"
    by (simp add: review_view_def case_load_report_def demo_case_dossier_def demo_dossier_def stage_review_of_def empty_stage_def)
  moreover have "ce_load demo_case_env ''p'' () = Inr (demo_case_dossier ''n'')" by (simp add: demo_case_env_def)
  moreover have "pd_project_id (demo_case_dossier ''n'') = ''p''" by (simp add: demo_case_dossier_def)
  ultimately show ?thesis
    using v by (simp add: get_summary_def current_dossier_def case_summary_of_def gate_view_of_def)
qed

section \<open>Properties\<close>

text \<open>
  What a summary rests on, for any anchors \<open>ce_expected\<close>: bytes with the anchored digest, of the very project, gate,
  snapshot revision and submitted artifact, and a decision among the gate's commands on this report.  \<open>Client\<close> has
  it for the handle that the client opens, whose anchors are those of the journals.
\<close>

lemma summary_rests_on_reports:
  assumes "get_summary env verbose p s = Inr y"
  shows "\<exists>d. ce_load env p s = Inr d \<and> pd_project_id d = p \<and>
    (let v = gate_view_of y st; rv = stage_review_of st d in
     st_report_id rv = None \<and> st_decision rv = None \<and> v = empty_gate_view st \<or>
     (\<exists>report payload. anchored env d st s payload report \<and> displays verbose d st report v \<and>
        (\<forall>h. st_decision rv = Some h \<longrightarrow> hd_stage h = st \<and> hd_report_id h = er_report_id report \<and>
           hd_command h \<in> set (decision_commands st))))"
proof -
  from assms obtain d r1 r2 where d: "current_dossier env p s = Inr d" and r: "review_view env verbose d REGISTRATION s = Inr r1"
    "review_view env verbose d COMPLETION s = Inr r2" and y: "y = case_summary_of verbose d r1 r2"
    by (auto simp: get_summary_def split: sum.splits)
  from d have load: "ce_load env p s = Inr d" "pd_project_id d = p"
    by (auto simp: current_dossier_def split: sum.splits if_splits)
  have "review_view env verbose d st s = Inr (gate_view_of y st)"
    using r y by (cases st) (simp_all add: gate_view_of_def case_summary_of_def)
  from review_view_Inr [OF this] load show ?thesis
    by (intro exI [of _ d]) (auto simp: Let_def fits_def check_decision_def split: if_splits)
qed

text \<open>
  What the agent said cannot change under a reader: two summaries that show the same report id for a gate, read
  from the same file at any two times between which the anchors of that file stayed what they are, show the same
  recommendation, summary, snapshot and assessments, whatever was done to the files, when the digest tells
  different bytes apart.
\<close>

theorem agent_view_cannot_change:
  assumes "get_summary env verbose p s = Inr y" "get_summary env verbose' p s' = Inr y'"
    and "ce_load env p s = Inr d" "ce_load env p s' = Inr d'"
    and "gv_report_id (gate_view_of y st) = Some rid" "gv_report_id (gate_view_of y' st) = Some rid"
    and "st_report_json_uri (stage_review_of st d') = st_report_json_uri (stage_review_of st d)"
    and same: "\<And>path. ce_expected env p rid path s' = ce_expected env p rid path s"
    and inj: "inj (ce_sha env)"
  shows "gv_agent_recommendation (gate_view_of y' st) = gv_agent_recommendation (gate_view_of y st) \<and>
    gv_agent_summary (gate_view_of y' st) = gv_agent_summary (gate_view_of y st) \<and>
    gv_snapshot_id (gate_view_of y' st) = gv_snapshot_id (gate_view_of y st) \<and>
    gv_agent_assessments (gate_view_of y' st) = gv_agent_assessments (gate_view_of y st)"
proof -
  have view: "\<exists>report payload. anchored env e st u payload report \<and> displays vb e st report (gate_view_of z st) \<and> pd_project_id e = p"
    if sum: "get_summary env vb p u = Inr z" and id: "gv_report_id (gate_view_of z st) = Some rid"
      and load: "ce_load env p u = Inr e" for vb u z e
  proof -
    from sum load obtain r1 r2 where "review_view env vb e REGISTRATION u = Inr r1" "review_view env vb e COMPLETION u = Inr r2"
      "z = case_summary_of vb e r1 r2" "pd_project_id e = p"
      by (auto simp: get_summary_def current_dossier_def split: sum.splits if_splits)
    then have "review_view env vb e st u = Inr (gate_view_of z st)" "pd_project_id e = p"
      by (cases st; simp add: gate_view_of_def case_summary_of_def)+
    with review_view_Inr [OF this(1)] id show ?thesis by (auto simp: empty_gate_view_def)
  qed
  obtain r b where r: "anchored env d st s b r" "displays verbose d st r (gate_view_of y st)" "pd_project_id d = p"
    using view [OF assms(1,5,3)] by blast
  obtain r' b' where r': "anchored env d' st s' b' r'" "displays verbose' d' st r' (gate_view_of y' st)" "pd_project_id d' = p"
    using view [OF assms(2,6,4)] by blast
  have "er_report_id r = rid" "er_report_id r' = rid"
    using r(2) r'(2) assms(5,6) by (simp_all add: displays_def)
  with r(1,3) r'(1,3) assms(7) same have "ce_sha env b' = ce_sha env b"
    unfolding anchored_def by auto
  with inj have "b' = b" by (simp add: inj_eq)
  with r(1) r'(1) have "r' = r" by (auto simp: anchored_def)
  with r(2) r'(2) show ?thesis by (simp add: displays_def)
qed

theorem agent_view_cannot_change_witness:
  "\<exists>y y'. get_summary demo_case_env False ''p'' () = Inr y \<and> get_summary demo_case_env True ''p'' () = Inr y' \<and>
     gv_agent_recommendation (gate_view_of y' REGISTRATION) = gv_agent_recommendation (gate_view_of y REGISTRATION)"
proof -
  obtain y where y: "get_summary demo_case_env False ''p'' () = Inr y" "gv_report_id (gate_view_of y REGISTRATION) = Some ''r''"
    using demo_case_summary by blast
  obtain y' where y': "get_summary demo_case_env True ''p'' () = Inr y'" "gv_report_id (gate_view_of y' REGISTRATION) = Some ''r''"
    using demo_case_summary by blast
  have d: "ce_load demo_case_env ''p'' () = Inr (demo_case_dossier ''n'')" by (simp add: demo_case_env_def)
  have "inj (ce_sha demo_case_env)" by (simp add: demo_case_env_def)
  from agent_view_cannot_change [OF y(1) y'(1) d d y(2) y'(2) refl refl this] y y' show ?thesis by blast
qed

text \<open>
  Assessments add up: in a view of a report the agent's assessments and the effective ones both count every
  criterion exactly once, no more criteria are reported as adjusted than there are, and with details every criterion
  that no recorded adjustment names has the agent's assessment as its effective one, while an adjusted one was
  adjusted from just that assessment.
\<close>

theorem assessments_add_up:
  assumes "review_view env verbose d st s = Inr v" and "gv_report_id v \<noteq> None"
  shows "\<exists>n. tally (gv_agent_assessments v) = int n \<and> tally (gv_effective_assessments v) = int n \<and>
    gv_adjusted_criterion_count v \<le> int n \<and> (verbose \<longrightarrow> length (gv_criteria v) = n) \<and>
    (\<forall>w \<in> set (gv_criteria v). rw_effective_assessment w =
       (case map_of (adjustments_of d st) (rw_criterion_id w) of None \<Rightarrow> rw_agent_assessment w
        | Some a \<Rightarrow> ra_to_assessment a) \<and>
       (\<forall>a. map_of (adjustments_of d st) (rw_criterion_id w) = Some a \<longrightarrow>
          ra_from_assessment a = rw_agent_assessment w \<and> rw_human_adjusted w))"
proof -
  from review_view_Inr [OF assms(1)] assms(2) obtain report where
    r: "fits d st report" "displays verbose d st report v" by (auto simp: empty_gate_view_def)
  with adjusted_le [OF r(1)] show ?thesis
    by (intro exI [of _ "length (er_criteria report)"])
      (auto simp: displays_def tally_counts criterion_view_def effective_assessment_def fits_def stale_adjustment_def
        split: option.splits)
qed


theorem assessments_add_up_witness:
  "\<exists>v n. review_view demo_case_env True (demo_case_dossier ''n'') REGISTRATION () = Inr v \<and>
     tally (gv_agent_assessments v) = int n \<and> length (gv_criteria v) = n"
proof -
  obtain v where v: "review_view demo_case_env True (demo_case_dossier ''n'') REGISTRATION () = Inr v"
    "gv_report_id v \<noteq> None" using demo_case_view by force
  from assessments_add_up [OF this] v show ?thesis by blast
qed

section \<open>What a summary without details tells\<close>

definition public_adjustment :: "reviewer_adjustment \<Rightarrow> reviewer_adjustment" where
  "public_adjustment a = a\<lparr>ra_reason := [], ra_evidence_refs := []\<rparr>"

definition public_decision :: "human_decision \<Rightarrow> human_decision" where
  "public_decision h = h\<lparr>hd_actor_id := [], hd_actor_role := [], hd_rationale := [], hd_source := [],
     hd_authority_context := [], hd_adjustments := map public_adjustment (hd_adjustments h)\<rparr>"

definition public_stage :: "stage_review \<Rightarrow> stage_review" where
  "public_stage rv = rv\<lparr>st_report_markdown_uri := None, st_decision := map_option public_decision (st_decision rv)\<rparr>"

definition public_artifact :: "artifact_ref \<Rightarrow> artifact_ref" where
  "public_artifact a = a\<lparr>ar_role := [], ar_uri := [], ar_media_type := [], ar_byte_size := 0, ar_metadata := []\<rparr>"

text \<open>What is left of a dossier: no note, no name, no rationale, no URI of an artifact, no event id, only how many.\<close>

definition public_part :: "project_dossier \<Rightarrow> project_dossier" where
  "public_part d = d\<lparr>pd_created_at := 0, pd_effective_config := None, pd_artifacts := map public_artifact (pd_artifacts d),
     pd_registration := public_stage (pd_registration d), pd_completion := public_stage (pd_completion d),
     pd_execution := (pd_execution d)\<lparr>xr_mentor_ref := map_option (\<lambda>_. []) (xr_mentor_ref (pd_execution d)),
       xr_notes := map (\<lambda>_. []) (xr_notes (pd_execution d))\<rparr>,
     pd_notifications := map (\<lambda>_. undefined) (pd_notifications d),
     pd_audit_event_ids := map (\<lambda>_. []) (pd_audit_event_ids d)\<rparr>"

lemma public_part_simps [simp]:
  "pd_project_id (public_part d) = pd_project_id d" "stage_review_of st (public_part d) = public_stage (stage_review_of st d)"
  "pd_artifacts (public_part d) = map public_artifact (pd_artifacts d)"
  by (cases st; simp add: public_part_def stage_review_of_def)+

lemma public_stage_simps [simp]:
  "st_report_id (public_stage rv) = st_report_id rv" "st_report_json_uri (public_stage rv) = st_report_json_uri rv"
  "st_snapshot (public_stage rv) = st_snapshot rv" "st_review_profile (public_stage rv) = st_review_profile rv"
  "st_submission_artifact_id (public_stage rv) = st_submission_artifact_id rv"
  "st_decision (public_stage rv) = map_option public_decision (st_decision rv)"
  by (simp_all add: public_stage_def)

lemma first_such_map: "first_such p (map f xs) = map_option f (first_such (\<lambda>x. p (f x)) xs)"
  by (induction xs) auto

lemma public_load: "case_load_report env (public_part d) (public_stage rv) st s = case_load_report env d rv st s"
proof -
  have ident: "report_identity (public_part d) (public_stage rv) st r = report_identity d rv st r" for r
    by (simp add: report_identity_def first_such_map public_artifact_def option.case_eq_if option.map_sel)
  show ?thesis unfolding case_load_report_def public_stage_simps public_part_simps ident ..
qed

lemma dict_set_map: "dict_set k (f v) (map (\<lambda>(i, x). (i, f x)) d) = map (\<lambda>(i, x). (i, f x)) (dict_set k v d)"
  by (induction d) auto

lemma dict_by_map:
  assumes "\<And>x. key (f x) = key x"
  shows "dict_by key (map f xs) = map (\<lambda>(i, x). (i, f x)) (dict_by key xs)"
proof -
  have "fold (\<lambda>x d. dict_set (key x) x d) (map f xs) (map (\<lambda>(i, x). (i, f x)) d) =
      map (\<lambda>(i, x). (i, f x)) (fold (\<lambda>x d. dict_set (key x) x d) xs d)" for d
    by (induction xs arbitrary: d) (simp_all add: assms dict_set_map)
  from this [of "[]"] show ?thesis by (simp add: dict_by_def)
qed

lemma public_adjustments:
  "dict_by ra_criterion_id (map public_adjustment xs) =
     map (\<lambda>(i, a). (i, public_adjustment a)) (dict_by ra_criterion_id xs)"
  by (rule dict_by_map) (simp add: public_adjustment_def)

lemma public_effective:
  "effective_assessment (map (\<lambda>(i, a). (i, public_adjustment a)) as) c = effective_assessment as c"
  "stale_adjustment (map (\<lambda>(i, a). (i, public_adjustment a)) as) c = stale_adjustment as c"
  by (simp_all add: effective_assessment_def stale_adjustment_def map_of_map public_adjustment_def option.case_eq_if
      option.map_sel split: prod.split)

lemma public_check: "check_decision st report (map_option public_decision h) = check_decision st report h"
  by (cases h) (simp_all add: check_decision_def public_decision_def)

lemma public_decision_view: "decision_view False (public_decision h) = decision_view False h"
  by (simp add: decision_view_def public_decision_def)

lemma public_view: "review_view env False (public_part d) st s = review_view env False d st s"
proof -
  have recorded: "(case map_option public_decision h of None \<Rightarrow> [] | Some h \<Rightarrow> hd_adjustments h) =
      map public_adjustment (case h of None \<Rightarrow> [] | Some h \<Rightarrow> hd_adjustments h)" for h
    by (cases h) (simp_all add: public_decision_def)
  have fst_map: "map fst (map (\<lambda>(i, a). (i, public_adjustment a)) as) = map fst as" for as
    by (induction as) auto
  have effective: "effective_assessment (map (\<lambda>(i, a). (i, public_adjustment a)) as) = effective_assessment as"
    "stale_adjustment (map (\<lambda>(i, a). (i, public_adjustment a)) as) = stale_adjustment as" for as
    by (simp_all add: fun_eq_iff public_effective)
  have view: "map_option (decision_view False) (map_option public_decision h) = map_option (decision_view False) h"
    "map_option public_decision h \<noteq> None \<longleftrightarrow> h \<noteq> None" for h
    by (cases h; simp add: public_decision_view)+
  show ?thesis
    unfolding review_view_def Let_def public_part_simps public_stage_simps public_load public_check recorded
      public_adjustments effective fst_map length_map view if_False ..
qed

lemma env_simps:
  "ce_read (env\<lparr>ce_load := l\<rparr>) = ce_read env" "ce_expected (env\<lparr>ce_load := l\<rparr>) = ce_expected env"
  "ce_resolve (env\<lparr>ce_load := l\<rparr>) = ce_resolve env" "ce_reports_root (env\<lparr>ce_load := l\<rparr>) = ce_reports_root env"
  "ce_size (env\<lparr>ce_load := l\<rparr>) = ce_size env" "ce_sha (env\<lparr>ce_load := l\<rparr>) = ce_sha env"
  "ce_parse (env\<lparr>ce_load := l\<rparr>) = ce_parse env" "ce_load (env\<lparr>ce_load := l\<rparr>) = l"
  by simp_all

lemma other_load: "review_view (env\<lparr>ce_load := l\<rparr>) v e st s = review_view env v e st s"
  unfolding review_view_def case_load_report_def read_case_report_def env_simps ..

lemma public_summary: "case_summary_of False (public_part d) r c = case_summary_of False d r c"
  by (simp add: case_summary_of_def public_part_def execution_view_def)

lemma summary_of:
  assumes "ce_load env p s = Inr d" "pd_project_id d = p"
  shows "get_summary env v p s =
    (case review_view env v d REGISTRATION s of
        Inl e \<Rightarrow> Inl e
      | Inr registration \<Rightarrow>
     (case review_view env v d COMPLETION s of
        Inl e \<Rightarrow> Inl e
      | Inr completion \<Rightarrow> Inr (case_summary_of v d registration completion)))"
  using assms by (simp add: get_summary_def current_dossier_def)

text \<open>
  C28. A summary without details hides them: two dossiers that agree but for who decided, why and with what reasons,
  for the notes, the mentor's name, the URIs and metadata of the artifacts, the contents of the notifications and the
  event ids, and so agree in how many of each there are, give the same answer, errors included.
\<close>

theorem summary_hides_details:
  assumes "ce_load env p s = Inr d" and "load' p s = Inr d'" and "public_part d' = public_part d"
  shows "get_summary (env\<lparr>ce_load := load'\<rparr>) False p s = get_summary env False p s"
proof -
  have id: "pd_project_id d' = pd_project_id d"
    using arg_cong [OF assms(3), of pd_project_id] by simp
  have view: "review_view env False d' st s = review_view env False d st s" for st
    using public_view [of env d' st s] public_view [of env d st s] assms(3) by simp
  have sum: "case_summary_of False d' r c = case_summary_of False d r c" for r c
    using public_summary [of d' r c] public_summary [of d r c] assms(3) by simp
  show ?thesis
  proof (cases "pd_project_id d = p")
    case True
    have new: "ce_load (env\<lparr>ce_load := load'\<rparr>) p s = Inr d'" "pd_project_id d' = p" using assms(2) id True by simp_all
    show ?thesis unfolding summary_of [OF assms(1) True] summary_of [OF new] other_load view sum ..
  qed (simp add: get_summary_def current_dossier_def assms(1,2) id)
qed

theorem summary_hides_details_witness:
  "get_summary (demo_case_env\<lparr>ce_load := \<lambda>_ _. Inr (demo_case_dossier ''other'')\<rparr>) False ''p'' () =
     get_summary demo_case_env False ''p'' ()"
  by (rule summary_hides_details [of _ _ _ "demo_case_dossier ''n''" _ "demo_case_dossier ''other''"])
    (simp_all add: demo_case_env_def public_part_def demo_case_dossier_def)

text \<open>
  No storage path of an evidence reference is shown: the locator of a view is the artifact's id, with a fragment
  of at most 128 harmless characters or without, unless the recorded locator had no fragment and was already one of
  an artifact or a report.
\<close>

theorem locators_show_no_path:
  "(let v = cv_locator (evidence_view r); plain = ''artifact:'' @ el_artifact_id r in
    v = plain \<or>
    (\<exists>f. v = plain @ ''#'' @ f \<and> is_safe_fragment f \<and> CHR ''/'' \<notin> set f \<and> CHR ''#'' \<notin> set f) \<or>
    (v = el_locator r \<and> CHR ''#'' \<notin> set v \<and> (starts_with ''artifact:'' v \<or> starts_with ''report:'' v)))"
proof -
  have safe: "CHR ''/'' \<notin> set f \<and> CHR ''#'' \<notin> set f" if "is_safe_fragment f" for f
    using that by (auto simp: is_safe_fragment_def list_all_iff is_alnum_def char_class_defs)
  show ?thesis using safe [of "after_hash (el_locator r)"] by (simp add: evidence_view_def Let_def)
qed

text \<open>
  The guidance is exact: nothing is offered exactly in the statuses that are reported as final, which are those
  that no transition of the workflow leaves; and outside the status that is left within one submission, an offered
  action that stands for a transition may be taken now by exactly the roles that its text names.
\<close>

theorem guidance_is_exact:
  "(is_terminal (pd_status d) \<longleftrightarrow> snd (status_guidance tx d) = []) \<and>
   (is_terminal (pd_status d) \<longleftrightarrow> (\<forall>trigger role. \<not> may_fire d trigger role)) \<and>
   (\<forall>a trigger role. a \<in> set (snd (status_guidance tx d)) \<longrightarrow> action_trigger (cn_action_id a) = Some trigger \<longrightarrow>
      pd_status d \<noteq> COMPLETION_READY \<longrightarrow> (may_fire d trigger role \<longleftrightarrow> role \<in> roles_named (cn_required_role a)))"
proof -
  have "is_terminal (pd_status d) \<longleftrightarrow> snd (status_guidance tx d) = []"
    by (cases "pd_status d") (simp_all add: is_terminal_def status_guidance_def guidance_actions_def)
  then show ?thesis using terminal_stuck [of d] offered_exact [of _ tx d] by (simp add: offer_exact_def)
qed

theorem guidance_is_exact_witness:
  "may_fire (demo_case_dossier ''n'') ''start_execution'' PROJECT_OWNER \<and>
   \<not> may_fire (demo_case_dossier ''n'') ''start_execution'' SUBMITTER"
proof -
  let ?d = "demo_case_dossier ''n''"
  let ?a = "next_action (\<lambda>t. t) ''start_execution'' ''project_owner_or_administrator'' ''start_execution''"
  have "?a \<in> set (snd (status_guidance (\<lambda>t. t) ?d))" "pd_status ?d \<noteq> COMPLETION_READY"
    by (simp_all add: demo_case_dossier_def status_guidance_def guidance_actions_def)
  moreover have "action_trigger (cn_action_id ?a) = Some ''start_execution''"
    "roles_named (cn_required_role ?a) = {PROJECT_OWNER, ADMINISTRATOR}" by (simp_all add: next_action_def triggers named)
  ultimately show ?thesis
    using guidance_is_exact [of ?d "\<lambda>t. t", THEN conjunct2, THEN conjunct2] by auto
qed

text \<open>What is offered in \<open>completion_ready\<close> is refused to every role.\<close>

theorem completion_ready_guidance_fails:
  assumes "pd_status d = COMPLETION_READY"
  shows "snd (status_guidance tx d) \<noteq> [] \<and> (\<forall>a \<in> set (snd (status_guidance tx d)).
     action_trigger (cn_action_id a) = Some ''approve_completion_submission'' \<and>
     (\<forall>role. \<not> may_fire d ''approve_completion_submission'' role))"
  using assms
  by (simp add: status_guidance_def guidance_actions_def next_action_def triggers fires_submission)

end
