(* ===== verification/Markdown.thy ===== *)
theory Markdown
  imports CaseViews
begin

text \<open>
  The Markdown texts for people: \<open>reports/case.py\<close> renders the case views and \<open>reports/render.py\<close> the evaluation
  reports.  A text is a list of lines joined with newlines.  Korean literals are looked up by a key in \<open>tx\<close>, the
  text of a point in time is \<open>dt\<close>, and that of a float \<open>flt\<close>.
\<close>

section \<open>Escaping\<close>

definition LF :: char where
  "LF = CHR 0x0A"

definition CR :: char where
  "CR = CHR 0x0D"

definition backslash :: char where
  "backslash = CHR 0x5C"

definition backtick :: char where
  "backtick = CHR 0x60"

text \<open>\<open>html.escape(value, quote=False)\<close>.\<close>

definition html_escape :: "string \<Rightarrow> string" where
  "html_escape s = concat (map (\<lambda>c.
     if c = CHR ''&'' then ''&amp;'' else if c = CHR ''<'' then ''&lt;'' else if c = CHR ''>'' then ''&gt;'' else [c]) s)"

definition is_markdown_control :: "char \<Rightarrow> bool" where
  "is_markdown_control c \<longleftrightarrow> c \<in> set (backslash # backtick # ''*_[]()!'')"

definition md_escaped :: "string \<Rightarrow> string" where
  "md_escaped s = concat (map (\<lambda>c. if is_markdown_control c then [backslash, c] else [c]) (html_escape s))"

text \<open>\<open>str.splitlines\<close> on characters below 256; a line end of two characters is one.\<close>

definition is_line_end :: "char \<Rightarrow> bool" where
  "is_line_end c \<longleftrightarrow> (of_char c :: nat) \<in> set [10, 11, 12, 13, 28, 29, 30, 133]"

fun lines_after :: "string \<Rightarrow> string \<Rightarrow> string list" where
  "lines_after cur [] = (if cur = [] then [] else [cur])"
| "lines_after cur [c] = (if is_line_end c then [cur] else [cur @ [c]])"
| "lines_after cur (c # d # cs) =
     (if c = CR \<and> d = LF then cur # lines_after [] cs
      else if is_line_end c then cur # lines_after [] (d # cs)
      else lines_after (cur @ [c]) (d # cs))"

definition splitlines :: "string \<Rightarrow> string list" where
  "splitlines s = lines_after [] s"

definition md_plain :: "string \<Rightarrow> string" where
  "md_plain s = join_with '' '' (splitlines (md_escaped s))"

fun unify_newlines :: "string \<Rightarrow> string" where
  "unify_newlines [] = []"
| "unify_newlines [c] = [if c = CR then LF else c]"
| "unify_newlines (c # d # cs) =
     (if c = CR \<and> d = LF then LF # unify_newlines cs
      else (if c = CR then LF else c) # unify_newlines (d # cs))"

text \<open>\<open>.replace("|", "\\|").replace("\n", "<br>")\<close>.\<close>

definition cell_text :: "string \<Rightarrow> string" where
  "cell_text s = concat (map (\<lambda>c. if c = CHR ''|'' then [backslash, c] else if c = LF then ''<br>'' else [c]) s)"

definition md_cell :: "string \<Rightarrow> string" where
  "md_cell s = cell_text (unify_newlines (md_escaped s))"

definition md_code :: "string \<Rightarrow> string" where
  "md_code s = [backtick] @ md_plain (map (\<lambda>c. if c = backtick then CHR 0x27 else c) s) @ [backtick]"

definition raw_code :: "string \<Rightarrow> string" where
  "raw_code s = [backtick] @ s @ [backtick]"

text \<open>\<open>"| " + " | ".join(cells) + " |"\<close>.\<close>

definition table_row :: "string list \<Rightarrow> string" where
  "table_row cells = ''| '' @ join_with '' | '' cells @ '' |''"

definition rstrip :: "string \<Rightarrow> string" where
  "rstrip s = rev (dropWhile py_space (rev s))"

definition joined_lines :: "string list \<Rightarrow> string" where
  "joined_lines ls = join_with [LF] ls"

section \<open>Case views\<close>

fun assessment_value :: "assessment \<Rightarrow> string" where
  "assessment_value MET = ''met''"
| "assessment_value PARTIALLY_MET = ''partially_met''"
| "assessment_value NOT_MET = ''not_met''"
| "assessment_value INSUFFICIENT_EVIDENCE = ''insufficient_evidence''"
| "assessment_value NOT_APPLICABLE = ''not_applicable''"

definition decision_text :: "(string \<Rightarrow> string) \<Rightarrow> gate_review_view \<Rightarrow> string" where
  "decision_text tx v = (case gv_human_decision v of None \<Rightarrow> tx ''undecided'' | Some h \<Rightarrow> hv_command h)"

definition recommendation_text :: "(string \<Rightarrow> string) \<Rightarrow> gate_review_view \<Rightarrow> string" where
  "recommendation_text tx v =
     (case gv_agent_recommendation v of None \<Rightarrow> tx ''no_draft'' | Some r \<Rightarrow> recommendation_value r)"

definition some_int :: "int option \<Rightarrow> string" where
  "some_int x = (case x of None \<Rightarrow> ''none'' | Some n \<Rightarrow> if n = 0 then ''none'' else str_int n)"

definition criterion_detail :: "(string \<Rightarrow> string) \<Rightarrow> criterion_review_view \<Rightarrow> string" where
  "criterion_detail tx w =
     str_or (rw_observation w) [] @ [LF] @ ''locators: '' @
     str_or (Some (join_with '', '' (map cv_locator (rw_evidence_refs w)))) (tx ''nothing'') @
     (if truthy (rw_adjustment_reason w)
      then [LF] @ tx ''human_adjustment'' @ the (rw_adjustment_reason w) else [])"

definition criterion_row :: "(string \<Rightarrow> string) \<Rightarrow> criterion_review_view \<Rightarrow> string" where
  "criterion_row tx w = table_row
     [md_cell (rw_criterion_id w @ tx ''dash'' @ rw_title w), assessment_value (rw_agent_assessment w),
      assessment_value (rw_effective_assessment w), md_cell (criterion_detail tx w)]"

definition review_lines :: "(string \<Rightarrow> string) \<Rightarrow> gate_review_view \<Rightarrow> string list" where
  "review_lines tx v =
     [''### '' @ stage_value (gv_stage v), '''',
      tx ''agent_proposal'' @ ''**'' @ recommendation_text tx v @ ''**'',
      tx ''human_decision'' @ ''**'' @ decision_text tx v @ ''**'',
      ''- Report: '' @ md_code (str_or (gv_report_id v) ''none''),
      tx ''base_revision'' @ md_code (some_int (gv_report_base_revision v)),
      tx ''adjusted'' @ raw_code (str_int (gv_adjusted_criterion_count v))] @
     (if truthy (gv_agent_summary v) then [tx ''agent_summary'' @ md_plain (the (gv_agent_summary v))] else []) @
     (case gv_human_decision v of
        None \<Rightarrow> []
      | Some h \<Rightarrow>
          (case hv_actor_id h of None \<Rightarrow> [] | Some a \<Rightarrow> [tx ''decided_by'' @ md_code a]) @
          (case hv_rationale h of None \<Rightarrow> [] | Some r \<Rightarrow> [tx ''rationale'' @ md_plain r]) @
          (case hv_authority_context h of None \<Rightarrow> [] | Some a \<Rightarrow> [tx ''authority'' @ md_code a])) @
     (if gv_criteria v \<noteq> [] then
        ['''', tx ''criteria_header'', ''|---|---|---|---|''] @ map (criterion_row tx) (gv_criteria v)
      else []) @ ['''']"

definition yes_no :: "bool \<Rightarrow> string" where
  "yes_no b = (if b then ''yes'' else ''no'')"

definition action_line :: "(string \<Rightarrow> string) \<Rightarrow> case_next_action \<Rightarrow> string" where
  "action_line tx a =
     ''- '' @ raw_code (cn_action_id a) @ tx ''dash'' @ cn_description a @ '' (required role: '' @
     md_code (cn_required_role a) @ '')''"

definition status_lines :: "(string \<Rightarrow> string) \<Rightarrow> case_status \<Rightarrow> string list" where
  "status_lines tx v =
     [tx ''status_heading'', '''', tx ''status_notice'', '''',
      ''- Project: '' @ md_code (cs_project_id v),
      ''- Display ID: '' @ md_code (cs_display_id v),
      tx ''title'' @ md_plain (cs_title v),
      ''- Dossier revision: '' @ raw_code (str_int (cs_revision v)),
      tx ''status'' @ ''**'' @ status_value (cs_dossier_status v) @ ''**'',
      ''- Lifecycle stage: '' @ raw_code (lifecycle_value (cs_lifecycle_stage v)),
      tx ''final'' @ raw_code (yes_no (cs_terminal v)),
      tx ''waiting'' @ raw_code (str_or (cs_waiting_for v) ''none''), '''', tx ''next_heading'', ''''] @
     (if cs_next_actions v \<noteq> [] then map (action_line tx) (cs_next_actions v) else [tx ''no_action'']) @ [''''] @
     (case cs_latest_review v of None \<Rightarrow> [] | Some r \<Rightarrow> [tx ''review_heading'', ''''] @ review_lines tx r)"

definition finished_text :: "string list \<Rightarrow> string" where
  "finished_text ls = rstrip (joined_lines ls) @ [LF]"

definition status_markdown :: "(string \<Rightarrow> string) \<Rightarrow> case_status \<Rightarrow> string" where
  "status_markdown tx v = finished_text (status_lines tx v)"

definition gate_row :: "(string \<Rightarrow> string) \<Rightarrow> string \<Rightarrow> gate_review_view \<Rightarrow> string" where
  "gate_row tx name v =
     ''| '' @ name @ '' | '' @ recommendation_text tx v @ '' | '' @ decision_text tx v @ '' | '' @
     str_int (gv_adjusted_criterion_count v) @ '' |''"

definition some_time :: "(int \<Rightarrow> string) \<Rightarrow> int option \<Rightarrow> string" where
  "some_time dt t = (case t of None \<Rightarrow> ''none'' | Some n \<Rightarrow> dt n)"

definition execution_lines :: "(string \<Rightarrow> string) \<Rightarrow> (int \<Rightarrow> string) \<Rightarrow> execution_summary \<Rightarrow> string list" where
  "execution_lines tx dt x =
     [tx ''execution_heading'', '''',
      tx ''started'' @ raw_code (some_time dt (xm_started_at x)),
      tx ''submitted'' @ raw_code (some_time dt (xm_completion_submitted_at x)),
      tx ''mentor'' @ raw_code (yes_no (xm_mentor_assigned x)),
      ''- Progress note: '' @ raw_code (str_int (xm_progress_note_count x))] @
     (if xm_progress_notes x \<noteq> [] then
        ['''', ''### Progress notes'', ''''] @ map (\<lambda>n. ''- '' @ md_plain n) (xm_progress_notes x)
      else [])"

definition artifact_row :: "case_artifact_view \<Rightarrow> string" where
  "artifact_row a = table_row
     [md_cell (av_artifact_id a), md_cell (av_role a), md_cell (av_media_type a), av_sha256 a, str_int (av_byte_size a)]"

definition notification_row :: "case_notification_view \<Rightarrow> string" where
  "notification_row n = table_row
     [stage_value (nv_stage n), md_cell (nv_event_type n), md_cell (nv_required_role n), md_cell (nv_delivery_status n),
      str_int (nv_dossier_revision n)]"

definition summary_lines :: "(string \<Rightarrow> string) \<Rightarrow> (int \<Rightarrow> string) \<Rightarrow> case_summary \<Rightarrow> string list" where
  "summary_lines tx dt v =
     [tx ''summary_heading'', '''', tx ''summary_notice'', '''', tx ''case_heading'', '''',
      ''- Project: '' @ md_code (cy_project_id v),
      ''- Display ID: '' @ md_code (cy_display_id v),
      tx ''title'' @ md_plain (cy_title v),
      ''- Dossier revision: '' @ raw_code (str_int (cy_revision v)),
      tx ''status'' @ ''**'' @ status_value (cy_dossier_status v) @ ''**'',
      ''- Review profile: '' @ raw_code (str_or (cy_review_profile v) ''none''),
      ''- Artifact / notification / audit event: '' @ raw_code (str_int (cy_artifact_count v)) @ '' / '' @
        raw_code (str_int (cy_notification_count v)) @ '' / '' @ raw_code (str_int (cy_audit_event_count v)), '''',
      tx ''gates_heading'', '''', tx ''gates_header'', ''|---|---|---|---:|'',
      gate_row tx ''registration'' (cy_registration v), gate_row tx ''completion'' (cy_completion v), '''',
      tx ''registration_heading'', ''''] @
     review_lines tx (cy_registration v) @ execution_lines tx dt (cy_execution v) @
     ['''', tx ''completion_heading'', ''''] @ review_lines tx (cy_completion v) @
     (if cy_artifacts v \<noteq> [] then
        [tx ''artifacts_heading'', '''', ''| Artifact | Role | Media type | SHA-256 | Bytes |'', ''|---|---|---|---|---:|''] @
        map artifact_row (cy_artifacts v) @ ['''']
      else []) @
     (if cy_notifications v \<noteq> [] then
        [tx ''notifications_heading'', '''', ''| Stage | Event | Required role | Delivery | Revision |'', ''|---|---|---|---|---:|''] @
        map notification_row (cy_notifications v) @ ['''']
      else [])"

definition summary_markdown :: "(string \<Rightarrow> string) \<Rightarrow> (int \<Rightarrow> string) \<Rightarrow> case_summary \<Rightarrow> string" where
  "summary_markdown tx dt v = finished_text (summary_lines tx dt v)"

text \<open>\<open>Case.get_current_status\<close> and \<open>Case.get_summary\<close> with a format.\<close>

definition get_status_as ::
  "('b, 's) case_env \<Rightarrow> (string \<Rightarrow> string) \<Rightarrow> (case_status \<Rightarrow> string) \<Rightarrow> string \<Rightarrow> bool \<Rightarrow> string \<Rightarrow> 's \<Rightarrow>
   case_status case_output res" where
  "get_status_as env tx json format' verbose p s =
     (case current_status env verbose p s of
        Inl e \<Rightarrow> Inl e | Inr v \<Rightarrow> case_format format' json (status_markdown tx) v)"

definition get_summary_as ::
  "('b, 's) case_env \<Rightarrow> (string \<Rightarrow> string) \<Rightarrow> (int \<Rightarrow> string) \<Rightarrow> (case_summary \<Rightarrow> string) \<Rightarrow> string \<Rightarrow> bool \<Rightarrow> string \<Rightarrow> 's \<Rightarrow>
   case_summary case_output res" where
  "get_summary_as env tx dt json format' verbose p s =
     (case get_summary env verbose p s of
        Inl e \<Rightarrow> Inl e | Inr v \<Rightarrow> case_format format' json (summary_markdown tx dt) v)"

section \<open>Evaluation reports\<close>

definition report_cell :: "string \<Rightarrow> string" where
  "report_cell s = cell_text s"

definition parser_line :: "parser_run_manifest \<Rightarrow> string" where
  "parser_line m = ''- Parser: '' @ raw_code (pm_parser_id m) @ '' status='' @ raw_code (pm_status m) @ '' pages='' @
     raw_code (str_int (pm_page_count m)) @ '' text-pages='' @ raw_code (str_int (pm_pages_with_text m))"

definition report_row :: "(string \<Rightarrow> string) \<Rightarrow> criterion_result \<Rightarrow> string" where
  "report_row tx c =
     (let locators = str_or (Some (join_with ''<br>'' (map (\<lambda>r. raw_code (report_cell (el_locator r)) @ '' ('' @
            report_cell (el_source r) @ '')'') (cr_evidence_refs c)))) (tx ''nothing'')
      in table_row [report_cell (cr_criterion_id c @ tx ''dash'' @ cr_title c), assessment_value (cr_assessment c),
           report_cell (cr_observation c), locators])"

definition report_criterion_lines :: "(string \<Rightarrow> string) \<Rightarrow> criterion_result \<Rightarrow> string list" where
  "report_criterion_lines tx c =
     [report_row tx c] @
     (if cr_follow_up_questions c \<noteq> [] then
        ['''', ''### '' @ cr_criterion_id c @ tx ''follow_up'', ''''] @ map (\<lambda>q. ''- '' @ q) (cr_follow_up_questions c)
      else [])"

definition report_lines :: "(string \<Rightarrow> string) \<Rightarrow> (rat \<Rightarrow> string) \<Rightarrow> evaluation_report \<Rightarrow> string list" where
  "report_lines tx flt r =
     [''# AXCalib '' @ stage_value (er_stage r) @ tx ''draft'', '''', tx ''report_notice'', '''', tx ''ids_heading'', '''',
      ''- Project: '' @ raw_code (er_project_id r), ''- Report: '' @ raw_code (er_report_id r),
      ''- Run: '' @ raw_code (er_run_id r), ''- Dossier revision: '' @ raw_code (str_int (er_base_revision r)),
      ''- Snapshot: '' @ raw_code (sn_snapshot_id (er_snapshot r)),
      ''- Review profile: '' @ raw_code (profile_selector (er_review_profile r)),
      ''- Review profile SHA-256: '' @ raw_code (rp_sha256 (er_review_profile r)),
      ''- Rubric: '' @ raw_code (er_rubric_id r @ ''@'' @ er_rubric_version r),
      ''- Evaluator: '' @ raw_code (er_evaluator_id r),
      ''- Evidence SHA-256: '' @ raw_code (er_evaluated_evidence_sha256 r),
      ''- Checklists: '' @ raw_code (str_or (Some (join_with '', '' (er_checklist_refs r))) ''none''),
      ''- References: '' @ raw_code (str_or (Some (join_with '', '' (er_reference_ids r))) ''none'')] @
     map parser_line (er_parser_runs r) @
     ['''', tx ''proposal_heading'', '''',
      ''- Recommendation: **'' @ recommendation_value (er_recommendation r) @ ''**'',
      ''- Summary: '' @ er_recommendation_summary r, '''', tx ''criteria_heading'', '''',
      ''| Criterion | Assessment | Observation | Evidence locator |'', ''|---|---|---|---|''] @
     concat (map (report_criterion_lines tx) (er_criteria r)) @
     ['''', tx ''retrieval_heading'', '''', ''- Status: '' @ raw_code (rs_status (er_retrieval r)),
      ''- Adapter: '' @ raw_code (rs_adapter (er_retrieval r)),
      ''- Similarity portion: '' @ raw_code (flt (rs_similarity_portion (er_retrieval r))),
      ''- Corpus snapshot: '' @ raw_code (str_or (rs_corpus_snapshot_id (er_retrieval r)) ''none''), '''',
      tx ''limits_heading'', ''''] @ map (\<lambda>l. ''- '' @ l) (er_limitations r) @
     ['''', tx ''hitl_heading'', '''', tx ''hitl_notice'', '''']"

definition report_markdown :: "(string \<Rightarrow> string) \<Rightarrow> (rat \<Rightarrow> string) \<Rightarrow> evaluation_report \<Rightarrow> string" where
  "report_markdown tx flt r = joined_lines (report_lines tx flt r)"


section \<open>Reading a table row back\<close>

text \<open>A row is split at pipes that no backslash escapes; a cell's text is what its escapes stand for.\<close>

fun row_cells :: "string \<Rightarrow> string \<Rightarrow> string list" where
  "row_cells cur [] = [cur]"
| "row_cells cur [c] = (if c = CHR ''|'' then [cur, []] else [cur @ [c]])"
| "row_cells cur (c # d # s) =
     (if c = backslash then row_cells (cur @ [c, d]) s
      else if c = CHR ''|'' then cur # row_cells [] (d # s)
      else row_cells (cur @ [c]) (d # s))"

fun unescape_cell :: "string \<Rightarrow> string" where
  "unescape_cell [] = []"
| "unescape_cell (c # s) =
     (if c = backslash then (case s of [] \<Rightarrow> [c] | d # s' \<Rightarrow> d # unescape_cell s')
      else if c = CHR ''&'' \<and> take 4 s = ''amp;'' then c # unescape_cell (drop 4 s)
      else if c = CHR ''&'' \<and> take 3 s = ''lt;'' then CHR ''<'' # unescape_cell (drop 3 s)
      else if c = CHR ''&'' \<and> take 3 s = ''gt;'' then CHR ''>'' # unescape_cell (drop 3 s)
      else if c = CHR ''<'' \<and> take 3 s = ''br>'' then LF # unescape_cell (drop 3 s)
      else c # unescape_cell s)"

definition unpad :: "string \<Rightarrow> string" where
  "unpad s = butlast (tl s)"

definition read_row :: "string \<Rightarrow> string list" where
  "read_row s = map (\<lambda>c. unescape_cell (unpad c)) (butlast (tl (row_cells [] s)))"

text \<open>Every escape is complete and every pipe is escaped.\<close>

fun closed_cell :: "string \<Rightarrow> bool" where
  "closed_cell [] = True"
| "closed_cell [c] = (c \<noteq> backslash \<and> c \<noteq> CHR ''|'')"
| "closed_cell (c # d # s) = (if c = backslash then closed_cell s else c \<noteq> CHR ''|'' \<and> closed_cell (d # s))"

lemma char_facts [simp]:
  "backslash \<noteq> CHR ''|''" "backslash \<noteq> LF" "backslash \<noteq> CR" "LF \<noteq> CR" "CR \<noteq> LF" "LF \<noteq> CHR ''|''" "CR \<noteq> CHR ''|''"
  "backtick \<noteq> LF" "backtick \<noteq> CR" "backtick \<noteq> CHR ''|''" "backtick \<noteq> backslash"
  "CHR ''|'' \<noteq> backslash" "CHR ''|'' \<noteq> LF" "CHR ''|'' \<noteq> CR"
  by (simp_all add: backslash_def LF_def CR_def backtick_def)

lemma row_cells_pipe: "row_cells cur (CHR ''|'' # s) = cur # row_cells [] s"
  by (cases s) (simp_all add: backslash_def)

lemma row_cells_char: "c \<noteq> backslash \<Longrightarrow> c \<noteq> CHR ''|'' \<Longrightarrow> row_cells cur (c # s) = row_cells (cur @ [c]) s"
  by (cases s) simp_all

lemma row_cells_closed: "closed_cell t \<Longrightarrow> row_cells cur (t @ s) = row_cells (cur @ t) s"
proof (induction t arbitrary: cur rule: closed_cell.induct)
  case (3 c d t)
  then show ?case by (cases "c = backslash") (simp_all add: row_cells_char)
qed (simp_all add: row_cells_char)

lemma closed_append: "closed_cell a \<Longrightarrow> closed_cell b \<Longrightarrow> closed_cell (a @ b)"
proof (induction a rule: closed_cell.induct)
  case (2 c)
  then show ?case by (cases b) auto
qed (auto split: if_splits)

lemma closed_concat: "(\<And>x. x \<in> set xs \<Longrightarrow> closed_cell (f x)) \<Longrightarrow> closed_cell (concat (map f xs))"
  by (induction xs) (simp_all add: closed_append)

lemma row_cells_row:
  assumes "cells \<noteq> []" "\<And>c. c \<in> set cells \<Longrightarrow> closed_cell c"
  shows "row_cells [] (table_row cells) = [] # map (\<lambda>c. '' '' @ c @ '' '') cells @ [[]]"
proof -
  have "row_cells '' '' (join_with '' | '' cs @ '' |'') = map (\<lambda>c. '' '' @ c @ '' '') cs @ [[]]"
    if "cs \<noteq> []" "\<And>c. c \<in> set cs \<Longrightarrow> closed_cell c" for cs
    using that
  proof (induction cs rule: induct_list012)
    case (2 x)
    then show ?case by (simp add: row_cells_closed row_cells_char row_cells_pipe backslash_def)
  next
    case (3 x y zs)
    then show ?case by (simp add: row_cells_closed row_cells_char row_cells_pipe backslash_def)
  qed simp
  from this [OF assms] show ?thesis by (simp add: table_row_def row_cells_pipe row_cells_char backslash_def)
qed

section \<open>Escaping in one pass\<close>

definition escape_unit :: "char \<Rightarrow> string" where
  "escape_unit c =
     (if c = CHR ''&'' then ''&amp;'' else if c = CHR ''<'' then ''&lt;'' else if c = CHR ''>'' then ''&gt;''
      else if is_markdown_control c then [backslash, c] else [c])"

definition cell_unit :: "char \<Rightarrow> string" where
  "cell_unit c = (if c = CHR ''|'' then [backslash, c] else if c = LF then ''<br>'' else escape_unit c)"

lemma md_escaped_units: "md_escaped s = concat (map escape_unit s)"
  by (induction s) (auto simp: md_escaped_def html_escape_def escape_unit_def is_markdown_control_def backslash_def backtick_def)

lemma line_chars:
  "c \<noteq> LF \<Longrightarrow> c \<noteq> CR \<Longrightarrow> LF \<notin> set (escape_unit c) \<and> CR \<notin> set (escape_unit c)"
  "escape_unit LF = [LF]" "escape_unit CR = [CR]"
  by (auto simp: escape_unit_def is_markdown_control_def LF_def CR_def backslash_def backtick_def)

lemma escape_unit_nonempty [simp]: "escape_unit c \<noteq> []"
  by (simp add: escape_unit_def)

lemma unify_plain: "LF \<notin> set t \<Longrightarrow> CR \<notin> set t \<Longrightarrow> unify_newlines (t @ s) = t @ unify_newlines s"
proof (induction t)
  case (Cons c t)
  then show ?case by (cases "t @ s") auto
qed simp

lemma unify_CR: "unify_newlines (CR # s) = LF # unify_newlines (if s \<noteq> [] \<and> hd s = LF then tl s else s)"
  by (cases s) simp_all

lemma unify_char: "c \<noteq> CR \<Longrightarrow> unify_newlines (c # s) = c # unify_newlines s"
  by (cases s) simp_all

lemma unify_escaped: "unify_newlines (concat (map escape_unit s)) = concat (map escape_unit (unify_newlines s))"
proof (induction s rule: unify_newlines.induct)
  case (2 c)
  show ?case
  proof (cases "c = CR \<or> c = LF")
    case False
    with unify_plain [of "escape_unit c" "[]"] line_chars(1) [of c] show ?thesis by simp
  qed (auto simp: line_chars)
next
  case (3 c d s)
  consider "c = CR" "d = LF" | "c = CR" "d \<noteq> LF" | "c = LF" | "c \<noteq> CR" "c \<noteq> LF" by blast
  then show ?case
  proof cases
    case 1
    with 3 show ?thesis by (simp add: line_chars)
  next
    case 2
    then have "escape_unit d @ concat (map escape_unit s) = [] \<or> hd (escape_unit d @ concat (map escape_unit s)) \<noteq> LF"
      using line_chars(1) [of d] line_chars(3) by (cases "d = CR"; cases "escape_unit d") auto
    with 2 3 show ?thesis by (auto simp: line_chars unify_CR)
  next
    case 3
    with "3.IH" show ?thesis by (simp add: line_chars unify_char)
  next
    case 4
    with 3 unify_plain [of "escape_unit c"] line_chars(1) [of c] show ?thesis by simp
  qed
qed simp

lemma cell_text_append: "cell_text (s @ t) = cell_text s @ cell_text t"
  by (simp add: cell_text_def)

lemma cell_text_unit: "cell_text (escape_unit c) = cell_unit c"
  by (auto simp: cell_text_def escape_unit_def cell_unit_def is_markdown_control_def backslash_def backtick_def LF_def)

lemma md_cell_units: "md_cell s = concat (map cell_unit (unify_newlines s))"
proof -
  have "cell_text (concat (map escape_unit t)) = concat (map cell_unit t)" for t
    by (induction t) (simp_all add: cell_text_append cell_text_unit, simp add: cell_text_def)
  then show ?thesis by (simp add: md_cell_def md_escaped_units unify_escaped)
qed

lemma no_CR: "CR \<notin> set (unify_newlines s)"
  by (induction s rule: unify_newlines.induct) auto

lemma closed_unit: "closed_cell (cell_unit c)"
  by (auto simp: cell_unit_def escape_unit_def is_markdown_control_def backslash_def backtick_def LF_def)

lemma closed_md_cell: "closed_cell (md_cell s)"
  unfolding md_cell_units by (rule closed_concat) (rule closed_unit)

lemma unescape_unit: "unescape_cell (cell_unit c @ t) = c # unescape_cell t"
  by (auto simp: cell_unit_def escape_unit_def is_markdown_control_def backslash_def LF_def backtick_def)

lemma unescape_md_cell: "unescape_cell (md_cell s) = unify_newlines s"
proof -
  have "unescape_cell (concat (map cell_unit t)) = t" for t
    by (induction t) (simp_all add: unescape_unit)
  then show ?thesis by (simp add: md_cell_units)
qed

lemma read_row_cells:
  assumes "cells \<noteq> []" "\<And>c. c \<in> set cells \<Longrightarrow> closed_cell c"
  shows "read_row (table_row cells) = map unescape_cell cells"
proof -
  have "butlast (tl (row_cells [] (table_row cells))) = map (\<lambda>c. '' '' @ c @ '' '') cells"
    by (simp add: row_cells_row [OF assms])
  moreover have "unpad ('' '' @ c @ '' '') = c" for c by (simp add: unpad_def)
  ultimately show ?thesis by (simp add: read_row_def comp_def)
qed


section \<open>Lines\<close>

definition one_line :: "string \<Rightarrow> bool" where
  "one_line s \<longleftrightarrow> LF \<notin> set s \<and> CR \<notin> set s"

lemma one_line_append [simp]: "one_line (s @ t) \<longleftrightarrow> one_line s \<and> one_line t"
  by (auto simp: one_line_def)

lemma one_line_Cons: "one_line (c # s) \<longleftrightarrow> c \<noteq> LF \<and> c \<noteq> CR \<and> one_line s"
  by (auto simp: one_line_def)

lemma one_line_Nil [simp]: "one_line []"
  by (simp add: one_line_def)

lemma one_line_join: "one_line sep \<Longrightarrow> (\<And>x. x \<in> set xs \<Longrightarrow> one_line x) \<Longrightarrow> one_line (join_with sep xs)"
  by (induction sep xs rule: join_with.induct) auto

lemma line_ends: "is_line_end LF" "is_line_end CR"
  by (simp_all add: is_line_end_def LF_def CR_def)

lemma lines_after_ends:
  "list_all (\<lambda>c. \<not> is_line_end c) cur \<Longrightarrow> list_all (list_all (\<lambda>c. \<not> is_line_end c)) (lines_after cur s)"
proof (induction cur s rule: lines_after.induct)
  case (3 cur c d cs)
  then show ?case by (cases "c = CR \<and> d = LF"; cases "is_line_end c") (simp_all del: char_facts)
qed simp_all

lemmas line_simps = one_line_Cons LF_def CR_def backtick_def

lemma one_line_plain: "one_line (md_plain s)"
proof -
  have "one_line x" if "x \<in> set (lines_after [] t)" for x t
  proof -
    have "\<forall>c \<in> set x. \<not> is_line_end c" using lines_after_ends [of "[]" t] that by (simp add: list_all_iff)
    with line_ends show ?thesis unfolding one_line_def by blast
  qed
  then show ?thesis
    unfolding md_plain_def splitlines_def by (rule one_line_join [rotated]) (simp_all add: line_simps)
qed

lemma one_line_code: "one_line (md_code s)"
  by (simp add: md_code_def one_line_plain line_simps)

lemma one_line_raw: "one_line (raw_code s) \<longleftrightarrow> one_line s"
  by (simp add: raw_code_def line_simps)

lemma one_line_cell: "one_line (md_cell s)"
proof -
  have "one_line (cell_unit c)" if "c \<noteq> CR" for c
    using that by (auto simp: one_line_def cell_unit_def escape_unit_def is_markdown_control_def backslash_def
        backtick_def LF_def CR_def)
  then have "CR \<notin> set t \<Longrightarrow> one_line (concat (map cell_unit t))" for t by (induction t) auto
  then show ?thesis by (simp add: md_cell_units no_CR)
qed

lemma one_line_row: "(\<And>c. c \<in> set cells \<Longrightarrow> one_line c) \<Longrightarrow> one_line (table_row cells)"
  using one_line_join [of "'' | ''" cells] by (simp add: table_row_def line_simps)

lemma one_line_dec: "one_line (Prelude.dec n)"
proof (induction n rule: dec.induct)
  case (1 n)
  have "one_line [digit m]" if "m < 10" for m
  proof -
    have "of_char (digit m) = 48 + m" using that by (simp add: digit_def of_char_mod_256)
    moreover have "of_char LF = (10 :: nat)" "of_char CR = (13 :: nat)" by (simp_all add: LF_def CR_def)
    ultimately show ?thesis by (auto simp: one_line_def)
  qed
  with 1 show ?case by (cases "n < 10") (simp_all add: dec_small dec_large)
qed

lemma one_line_int: "one_line (str_int n)"
  by (simp add: str_int_def one_line_dec line_simps)

lemma one_line_assessment: "one_line (assessment_value a)"
  by (cases a) (simp_all add: line_simps)

lemma one_line_recommendation: "one_line (recommendation_value r)"
  by (cases r) (simp_all add: line_simps)

lemma one_line_stage: "one_line (stage_value st)"
  by (cases st) (simp_all add: line_simps)

lemma one_line_status: "one_line (status_value ps)"
  by (cases ps) (simp_all add: line_simps)

lemma one_line_lifecycle: "one_line (lifecycle_value l)"
  by (cases l) (simp_all add: line_simps)

lemma one_line_yes_no: "one_line (yes_no b)"
  by (simp add: yes_no_def line_simps)

lemmas one_lines = one_line_plain one_line_code one_line_raw one_line_cell one_line_int one_line_assessment
  one_line_recommendation one_line_stage one_line_status one_line_lifecycle one_line_yes_no


text \<open>The lines of a text stay what they are, whatever the fields of the view are.\<close>

definition command_line :: "gate_review_view \<Rightarrow> bool" where
  "command_line v \<longleftrightarrow> pred_option (\<lambda>h. one_line (hv_command h)) (gv_human_decision v)"

lemma one_line_review:
  assumes "\<And>k. one_line (tx k)" and "command_line v"
  shows "list_all one_line (review_lines tx v)"
proof -
  have "one_line (decision_text tx v)" "one_line (recommendation_text tx v)"
    using assms by (auto simp: decision_text_def recommendation_text_def command_line_def one_line_recommendation
        split: option.split)
  moreover have "one_line (criterion_row tx w)" for w
    unfolding criterion_row_def by (rule one_line_row) (auto simp: one_line_cell one_line_assessment)
  ultimately show ?thesis
    using assms(1) by (simp add: review_lines_def one_lines line_simps list.pred_map list.pred_True comp_def split: option.split)
qed

lemma one_line_execution:
  "(\<And>k. one_line (tx k)) \<Longrightarrow> (\<And>n. one_line (dt n)) \<Longrightarrow> list_all one_line (execution_lines tx dt x)"
  by (simp add: execution_lines_def some_time_def one_lines line_simps list.pred_map list.pred_True comp_def split: option.split)

definition one_line_fields :: "case_summary \<Rightarrow> bool" where
  "one_line_fields y \<longleftrightarrow> command_line (cy_registration y) \<and> command_line (cy_completion y) \<and>
     pred_option one_line (cy_review_profile y) \<and> list_all (\<lambda>a. one_line (av_sha256 a)) (cy_artifacts y)"

lemma one_line_summary:
  assumes tx: "\<And>k. one_line (tx k)" and dt: "\<And>n. one_line (dt n)" and y: "one_line_fields y"
  shows "list_all one_line (summary_lines tx dt y)"
proof -
  have c: "command_line (cy_registration y)" "command_line (cy_completion y)" using y by (simp_all add: one_line_fields_def)
  have gate: "one_line (gate_row tx name v)" if "command_line v" "one_line name" for name v
    using that tx by (auto simp: gate_row_def decision_text_def recommendation_text_def command_line_def one_lines
        line_simps split: option.split)
  have profile: "one_line (str_or (cy_review_profile y) ''none'')"
    using y by (cases "cy_review_profile y") (simp_all add: one_line_fields_def str_or_def line_simps)
  have "one_line (artifact_row a)" if "a \<in> set (cy_artifacts y)" for a
    unfolding artifact_row_def
    by (rule one_line_row) (use that y in \<open>auto simp: one_line_fields_def list_all_iff one_lines\<close>)
  then have artifact: "list_all (\<lambda>a. one_line (artifact_row a)) (cy_artifacts y)" by (simp add: list_all_iff)
  have notification: "one_line (notification_row n)" for n
    unfolding notification_row_def by (rule one_line_row) (auto simp: one_lines)
  have head: "list_all one_line
     [tx ''summary_heading'', '''', tx ''summary_notice'', '''', tx ''case_heading'', '''',
      ''- Project: '' @ md_code (cy_project_id y), ''- Display ID: '' @ md_code (cy_display_id y),
      tx ''title'' @ md_plain (cy_title y), ''- Dossier revision: '' @ raw_code (str_int (cy_revision y)),
      tx ''status'' @ ''**'' @ status_value (cy_dossier_status y) @ ''**'',
      ''- Review profile: '' @ raw_code (str_or (cy_review_profile y) ''none''),
      ''- Artifact / notification / audit event: '' @ raw_code (str_int (cy_artifact_count y)) @ '' / '' @
        raw_code (str_int (cy_notification_count y)) @ '' / '' @ raw_code (str_int (cy_audit_event_count y)), '''',
      tx ''gates_heading'', '''', tx ''gates_header'', ''|---|---|---|---:|'',
      gate_row tx ''registration'' (cy_registration y), gate_row tx ''completion'' (cy_completion y), '''',
      tx ''registration_heading'', '''']"
    using tx c by (simp add: gate profile one_lines line_simps)
  show ?thesis
    unfolding summary_lines_def list_all_append
    using head tx artifact one_line_review [of tx, OF tx c(1)] one_line_review [of tx, OF tx c(2)]
      one_line_execution [of tx dt, OF tx dt]
    by (simp add: list.pred_map list.pred_True comp_def notification line_simps)
qed

text \<open>What is rendered without an escape is of one line in every summary of a valid dossier.\<close>

lemma sha_one_line: "is_sha256 s \<Longrightarrow> one_line s"
  by (auto simp: is_sha256_def one_line_def list_all_iff char_class_defs LF_def CR_def)


lemma matches_one_line:
  "matches_id first rest lo hi s \<Longrightarrow> (\<And>c. first c \<Longrightarrow> c \<noteq> LF \<and> c \<noteq> CR) \<Longrightarrow> (\<And>c. rest c \<Longrightarrow> c \<noteq> LF \<and> c \<noteq> CR) \<Longrightarrow> one_line s"
  by (cases s) (auto simp: one_line_def list_all_iff)

lemma alnum_line: "is_alnum c \<Longrightarrow> c \<noteq> LF \<and> c \<noteq> CR" "is_digit c \<Longrightarrow> c \<noteq> LF \<and> c \<noteq> CR" "is_lower c \<Longrightarrow> c \<noteq> LF \<and> c \<noteq> CR"
  by (auto simp: char_class_defs LF_def CR_def)

lemma eat_number_line: "eat_number s = Some t \<Longrightarrow> one_line t \<Longrightarrow> one_line s"
proof -
  assume "eat_number s = Some t" "one_line t"
  then have "one_line (dropWhile is_digit s)" by (simp add: eat_number_def split: if_splits)
  moreover have "one_line (takeWhile is_digit s)"
    using set_takeWhileD [of _ is_digit s] alnum_line(2) unfolding one_line_def by blast
  ultimately have "one_line (takeWhile is_digit s @ dropWhile is_digit s)" by (simp only: one_line_append)
  then show "one_line s" by simp
qed

lemma eat_dot_line: "eat_dot (Some s) = Some t \<Longrightarrow> one_line t \<Longrightarrow> one_line s"
  by (cases s) (auto simp: eat_dot_def line_simps split: if_splits)

lemma semver_one_line: "is_semver s \<Longrightarrow> one_line s"
proof -
  assume "is_semver s"
  then obtain a b c d e where s: "eat_number s = Some a" "eat_dot (Some a) = Some b" "eat_number b = Some c"
    "eat_dot (Some c) = Some d" "eat_number d = Some e"
    and e: "e = [] \<or> hd e = CHR ''-'' \<and> list_all (\<lambda>c. is_alnum c \<or> c = CHR ''.'' \<or> c = CHR ''-'') (tl e)"
    by (cases "eat_number s"; cases "eat_dot (eat_number s)") 
      (auto simp: is_semver_def bind_eq_Some_conv eat_dot_def split: option.splits list.splits)
  have "one_line e"
    using e alnum_line(1) by (cases e) (auto simp: one_line_def list_all_iff LF_def CR_def)
  with s show "one_line s" using eat_number_line eat_dot_line by blast
qed

lemma selector_one_line: "review_profile_ref_valid r \<Longrightarrow> one_line (profile_selector r)"
proof -
  assume r: "review_profile_ref_valid r"
  have "one_line (rp_policy_id r)"
  proof (rule matches_one_line)
    show "matches_id (\<lambda>c. is_lower c \<or> is_digit c) (\<lambda>c. is_lower c \<or> is_digit c \<or> c \<in> set ''._-'') 2 127 (rp_policy_id r)"
      using r by (simp add: review_profile_ref_valid_def is_policy_id_def)
  qed (use alnum_line in \<open>auto simp: LF_def CR_def\<close>)
  with r semver_one_line show ?thesis
    by (simp add: profile_selector_def review_profile_ref_valid_def line_simps)
qed

lemma case_fields:
  assumes sum: "get_summary env verbose p s = Inr y" and load: "ce_load env p s = Inr d" and valid: "dossier_valid d"
  shows "one_line_fields y"
proof -
  from sum load obtain r1 r2 where v: "review_view env verbose d REGISTRATION s = Inr r1"
    "review_view env verbose d COMPLETION s = Inr r2" "y = case_summary_of verbose d r1 r2"
    by (auto simp: get_summary_def current_dossier_def split: sum.splits if_splits)
  have "command_line v" if "review_view env verbose d st s = Inr v" for st v
  proof -
    have "one_line h" if "h \<in> set (decision_commands st)" for h
      using that by (cases st) (auto simp: decision_commands_def line_simps)
    then show ?thesis
      using review_view_Inr [OF that]
      by (auto simp: command_line_def empty_gate_view_def displays_def fits_def check_decision_def decision_view_def
          split: if_splits option.splits)
  qed
  with v valid show ?thesis
    by (cases "pd_review_profile d")
      (auto simp: one_line_fields_def case_summary_of_def dossier_valid_def selector_one_line sha_one_line
        list_all_iff artifact_view_def artifact_ref_valid_def)
qed


section \<open>Properties\<close>

lemma closed_values: "closed_cell (assessment_value a)" "unescape_cell (assessment_value a) = assessment_value a"
  by (cases a; simp add: backslash_def)+

text \<open>
  C29. A criterion's row of a case view reads back: whatever text its fields hold, pipes, line breaks, backslashes, tags
  and emphasis included, the row is one line and splits into exactly its four cells, whose texts are the fields' texts
  with line breaks in one form.
\<close>

theorem criterion_rows_read_back:
  "one_line (criterion_row tx w) \<and> read_row (criterion_row tx w) =
     [unify_newlines (rw_criterion_id w @ tx ''dash'' @ rw_title w), assessment_value (rw_agent_assessment w),
      assessment_value (rw_effective_assessment w), unify_newlines (criterion_detail tx w)]"
proof
  show "one_line (criterion_row tx w)"
    unfolding criterion_row_def by (rule one_line_row) (auto simp: one_line_cell one_line_assessment)
  show "read_row (criterion_row tx w) = [unify_newlines (rw_criterion_id w @ tx ''dash'' @ rw_title w),
      assessment_value (rw_agent_assessment w), assessment_value (rw_effective_assessment w), unify_newlines (criterion_detail tx w)]"
    unfolding criterion_row_def
    by (subst read_row_cells) (auto simp: closed_md_cell closed_values unescape_md_cell)
qed

text \<open>
  Text cannot change the shape of a summary: every line of the Markdown summary of a valid dossier, as it is laid
  out, is one line of the text, so titles, notes, rationales, names and observations add no heading, row or list item.
\<close>

theorem summary_keeps_its_lines:
  assumes "get_summary env verbose p s = Inr y" and "ce_load env p s = Inr d" and "dossier_valid d"
    and "\<And>k. one_line (tx k)" and "\<And>n. one_line (dt n)"
  shows "list_all one_line (summary_lines tx dt y)"
  by (rule one_line_summary [OF assms(4,5) case_fields [OF assms(1-3)]])

theorem summary_keeps_its_lines_witness:
  "\<exists>y. get_summary demo_case_env True ''p'' () = Inr y \<and> list_all one_line (summary_lines (\<lambda>_. ''x'') (\<lambda>_. ''t'') y)"
proof -
  obtain y where y: "get_summary demo_case_env True ''p'' () = Inr y" using demo_case_summary by blast
  have d: "ce_load demo_case_env ''p'' () = Inr (demo_case_dossier ''n'')" by (simp add: demo_case_env_def)
  have valid: "dossier_valid (demo_case_dossier ''n'')"
    by (simp add: demo_case_dossier_def dossier_valid_def demo_dossier_def artifact_ref_valid_def empty_stage_def
        stage_review_valid_def demo_case_decision_def human_decision_valid_def reviewer_adjustment_valid_def)
  have "list_all one_line (summary_lines (\<lambda>_. ''x'') (\<lambda>_. ''t'') y)"
    by (rule summary_keeps_its_lines [OF y d valid]) (simp_all add: line_simps)
  with y show ?thesis by blast
qed

text \<open>
  In a code span a backslash is an ordinary character, so the escapes of \<open>_code\<close> are shown: every underscore, star or
  parenthesis of an id or a role gets a backslash in front of it.
\<close>

theorem code_spans_show_escapes:
  "md_code ''project_owner'' = [backtick] @ ''project'' @ [backslash] @ ''_owner'' @ [backtick]"
  by (simp add: md_code_def md_plain_def md_escaped_def html_escape_def is_markdown_control_def splitlines_def
      is_line_end_def backslash_def backtick_def CR_def LF_def)

text \<open>
  The renderer of evaluation reports escapes pipes but not backslashes: a backslash before a pipe makes a cell more.
\<close>

theorem report_cell_breaks_row:
  assumes "cr_observation c = [backslash, CHR ''|'']" and "cr_evidence_refs c = []" and "tx ''nothing'' = ''-''"
    and "closed_cell (report_cell (cr_criterion_id c @ tx ''dash'' @ cr_title c))"
  shows "length (row_cells [] (report_row tx c)) = 7"
  using assms row_cells_closed [OF assms(4), of "'' ''"]
  by (cases "cr_assessment c")
    (simp_all add: report_row_def table_row_def str_or_def row_cells_pipe row_cells_char backslash_def report_cell_def
      cell_text_def LF_def)

text \<open>Follow-up questions are written between the rows: the next criterion's row comes after a heading and a list.\<close>

theorem follow_up_splits_table:
  assumes "cr_follow_up_questions c = [q]"
  shows "concat (map (report_criterion_lines tx) [c, c']) =
    [report_row tx c, '''', ''### '' @ cr_criterion_id c @ tx ''follow_up'', '''', ''- '' @ q] @ report_criterion_lines tx c'"
  using assms by (simp add: report_criterion_lines_def)

end
