(* ===== verification/Client.thy ===== *)
theory Client
  imports Pipelines Markdown Idempotency
begin

text \<open>
  \<open>client.py\<close>: the facade over one workspace.  It registers the pipelines, answers keyed commands from the
  idempotency store, and hands out read handles.  Its world is the project workspace together with the education
  workspace, which uses the dossiers and the outbox of the former.  The JSON forms of requests and results are
  parameters, but for the identity of a decision, which the client builds itself.  The asynchronous variants run
  the same functions on another thread.
\<close>

section \<open>The workspace of a client\<close>

record 'n client_world =
  cw_project :: "'n project_state"
  cw_programs :: program_dir
  cw_enrollments :: enrollment_ws

type_synonym 'n client_state = "'n client_world idem_state"

record 'n client_env =
  cl_project :: "'n project_env"
  cl_education :: "'n edu_env"
  cl_idempotency :: idem_env
  cl_archive :: archive
  cl_file_size :: "file_content \<Rightarrow> nat"
  cl_resolve :: "string \<Rightarrow> string"
  cl_dump_result :: "pipeline_result \<Rightarrow> json"
  cl_parse_result :: "json \<Rightarrow> pipeline_result res"
  cl_dump_run_request :: "two_gate_request \<Rightarrow> json"
  cl_dump_summary :: "workflow_run_summary \<Rightarrow> json"
  cl_parse_summary :: "json \<Rightarrow> workflow_run_summary res"
  cl_dump_education_request :: "education_request \<Rightarrow> json"
  cl_dump_education_result :: "edu_result \<Rightarrow> json"
  cl_parse_education_result :: "json \<Rightarrow> edu_result res"

definition on_project ::
  "('n project_state \<Rightarrow> ('a, 'n project_state) outcome) \<Rightarrow> 'n client_world \<Rightarrow> ('a, 'n client_world) outcome" where
  "on_project f w = (fst (f (cw_project w)), w\<lparr>cw_project := snd (f (cw_project w))\<rparr>)"

text \<open>The education service on the dossiers and the outbox of the project service.\<close>

definition education_view :: "'n client_world \<Rightarrow> 'n edu_state" where
  "education_view w = \<lparr>es_programs = cw_programs w, es_dossiers = pj_store (cw_project w), es_tx = cw_enrollments w,
     es_outbox = pj_outbox (cw_project w)\<rparr>"

definition after_education :: "'n edu_state \<Rightarrow> 'n client_world \<Rightarrow> 'n client_world" where
  "after_education e w =
     (let p = cw_project w; ws = (pj_ws p)\<lparr>tx_files := outbox_tree ''outbox'' (es_outbox e) (tx_files (pj_ws p))\<rparr>
      in w\<lparr>cw_project := p\<lparr>pj_outbox := es_outbox e, pj_ws := ws\<rparr>, cw_programs := es_programs e,
           cw_enrollments := es_tx e\<rparr>)"

definition on_education ::
  "('n edu_state \<Rightarrow> ('a, 'n edu_state) outcome) \<Rightarrow> 'n client_world \<Rightarrow> ('a, 'n client_world) outcome" where
  "on_education f w = (fst (f (education_view w)), after_education (snd (f (education_view w))) w)"

text \<open>A call on the world beside the idempotency store.\<close>

definition on_world :: "('w \<Rightarrow> ('a, 'w) outcome) \<Rightarrow> 'w idem_state \<Rightarrow> ('a, 'w idem_state) outcome" where
  "on_world f s = (fst (f (is_world s)), s\<lparr>is_world := snd (f (is_world s))\<rparr>)"

section \<open>Pipelines\<close>

definition client_pipelines :: "(string \<times> string) list" where
  "client_pipelines = [(''two-gate-pptx'', ''v1alpha1''), (''dossier.initialize'', ''v1alpha1''),
     (''dossier.update'', ''v1alpha1''), (''dossier.freeze'', ''v1alpha1''), (''education-program-runtime'', ''v1alpha1''),
     (''project.transaction.reconcile'', ''v1alpha1''), (''education.transaction.reconcile'', ''v1alpha1''),
     (''workspace.maintenance'', ''v1alpha1'')]"

text \<open>The registrations of the constructor; \<open>binding\<close> is what is bound to each.\<close>

fun register_all ::
  "(string \<times> string \<Rightarrow> 'w pipeline_binding) \<Rightarrow> (string \<times> string) list \<Rightarrow> 'w pipeline_registry \<Rightarrow>
   (unit, 'w pipeline_registry) outcome" where
  "register_all binding [] reg = (Inr (), reg)"
| "register_all binding (k # ks) reg =
     seq (register_pipeline (fst k) (snd k) (binding k) reg) (\<lambda>_ reg. register_all binding ks reg)"

definition client_registry ::
  "(string \<times> string \<Rightarrow> 'w pipeline_binding) \<Rightarrow> (unit, 'w pipeline_registry) outcome" where
  "client_registry binding = register_all binding client_pipelines []"

definition run_pptx ::
  "'n client_env \<Rightarrow> (nat \<Rightarrow> int) \<Rightarrow> (nat \<Rightarrow> svc_call) \<Rightarrow> int \<Rightarrow> two_gate_request \<Rightarrow> 'n client_state \<Rightarrow>
   (workflow_run_summary, 'n client_state) outcome" where
  "run_pptx env t c now q s =
     (let call = on_project (two_gate_pipeline (cl_project env) c now None q) in
      if truthy (tg_idempotency_key q) then
        idem_execute (cl_idempotency env) t (the (tg_idempotency_key q)) ''two-gate-pptx@v1alpha1''
          (cl_dump_run_request env q) (cl_dump_summary env) (cl_parse_summary env) call s
      else on_world call s)"

fun education_action :: "education_command \<Rightarrow> string" where
  "education_action (EnrollCommand _ _ _ _ _) = ''enroll''"
| "education_action (StartMilestoneCommand _ _ _ _) = ''start_milestone''"
| "education_action (ManualConfirmationCommand _ _ _ _ _ _ _) = ''record_manual_confirmation''"
| "education_action (RecordScoreCommand _ _ _ _ _ _ _ _) = ''record_score''"
| "education_action (BindProjectCommand _ _ _ _ _ _) = ''bind_project''"
| "education_action (SyncProjectCommand _ _ _ _ _ _) = ''sync_project''"
| "education_action (DecideProgramCompletionCommand _ _ _ _ _ _) = ''decide_program_completion''"

definition run_education ::
  "'n client_env \<Rightarrow> (nat \<Rightarrow> int) \<Rightarrow> (nat \<Rightarrow> int) \<Rightarrow> (nat \<Rightarrow> string) \<Rightarrow> int \<Rightarrow> education_request \<Rightarrow> 'n client_state \<Rightarrow>
   (edu_result, 'n client_state) outcome" where
  "run_education env t te uid now q s =
     (let call = on_education (education_pipeline (cl_education env) te uid now None q) in
      if truthy (eq_idempotency_key q) then
        idem_execute (cl_idempotency env) t (the (eq_idempotency_key q))
          (''education-program-runtime@v1alpha1:'' @ education_action (eq_command q))
          (cl_dump_education_request env q) (cl_dump_education_result env) (cl_parse_education_result env) call s
      else on_world call s)"

definition run_reconcile ::
  "'n client_env \<Rightarrow> (nat \<Rightarrow> nat \<Rightarrow> int) \<Rightarrow> int \<Rightarrow> reconcile_request \<Rightarrow> 'n client_state \<Rightarrow>
   (reconcile_pipeline_result, 'n client_state) outcome" where
  "run_reconcile env t now q s =
     (if \<not> reconcile_request_valid q then (Inl (Exn ValidationError ''TransactionReconcileRequest''), s)
      else on_world (on_project (on_ws
             (transaction_reconcile (pv_tx (cl_project env)) (pv_text (cl_project env)) t now None q))) s)"

definition run_education_reconcile ::
  "'n client_env \<Rightarrow> (nat \<Rightarrow> nat \<Rightarrow> int) \<Rightarrow> int \<Rightarrow> reconcile_request \<Rightarrow> 'n client_state \<Rightarrow>
   (reconcile_pipeline_result, 'n client_state) outcome" where
  "run_education_reconcile env t now q s =
     (if \<not> reconcile_request_valid q then (Inl (Exn ValidationError ''TransactionReconcileRequest''), s)
      else on_world (on_education (on_tx
             (education_reconcile (ed_tx (cl_education env)) (pv_text (cl_project env)) t now None q))) s)"

section \<open>Cases\<close>

text \<open>What a read handle is built from: the store, the anchors of the journal, and the files of the workspace.\<close>

definition read_workspace_file :: "'n project_env \<Rightarrow> string \<Rightarrow> 'n project_state \<Rightarrow> file_content res" where
  "read_workspace_file env path s =
     (case Option.bind (workspace_relative env path) (tx_files (pj_ws s)) of
        Some (RegularFile f) \<Rightarrow> Inr f | _ \<Rightarrow> Inl (Exn FileNotFoundError path))"

definition parse_report_file :: "'n project_env \<Rightarrow> file_content \<Rightarrow> evaluation_report res" where
  "parse_report_file env f =
     (case f of JsonText j \<Rightarrow> pv_parse_report env j | OtherText _ \<Rightarrow> Inl (Exn ValidationError ''EvaluationReport''))"

definition client_case_env :: "'n client_env \<Rightarrow> (file_content, 'n project_state) case_env" where
  "client_case_env env = (let pv = cl_project env in
     \<lparr>ce_load = (\<lambda>p s. dossier_load p (pj_store s)), ce_expected = svc_expected_report_sha256 pv (cl_archive env),
      ce_read = read_workspace_file pv, ce_resolve = cl_resolve env, ce_reports_root = pv_workspace pv @ ''/reports'',
      ce_size = cl_file_size env, ce_sha = tx_sha_file (pv_tx pv), ce_parse = parse_report_file pv,
      ce_text = pv_text pv\<rparr>)"

text \<open>
  C19. A view never shows a report that was changed after its transaction: whatever a summary shows of a gate, through a
  handle that the client opened, comes from bytes whose digest is the one that a committed transaction of the
  project, in the active or an archived journal, required of that very file and report id; the report is of this
  project, gate, snapshot revision and submitted artifact, and the human decision beside it is one of the gate's
  commands on this report; without a report nothing is shown and no decision is recorded.
\<close>

theorem summaries_are_anchored:
  assumes "get_summary (client_case_env env) verbose p s = Inr y"
  shows "\<exists>d. dossier_load p (pj_store s) = Inr d \<and> pd_project_id d = p \<and>
    (let v = gate_view_of y st; rv = stage_review_of st d in
     st_report_id rv = None \<and> st_decision rv = None \<and> v = empty_gate_view st \<or>
     (\<exists>report payload uri relative q. anchored (client_case_env env) d st s payload report \<and>
        displays verbose d st report v \<and> st_report_json_uri rv = Some uri \<and>
        workspace_relative (cl_project env) (cl_resolve env uri) = Some relative \<and>
        committed_requirement (pv_tx (cl_project env)) (cl_archive env) (tx_journal (pj_ws s)) p q \<and>
        tr_kind q = REPORT_JSON \<and> validate_relative_path relative = Inr (tr_relative_path q) \<and>
        tr_expected_report_id q = Some (er_report_id report) \<and>
        tr_sha256 q = tx_sha_file (pv_tx (cl_project env)) payload \<and>
        (\<forall>h. st_decision rv = Some h \<longrightarrow> hd_stage h = st \<and> hd_report_id h = er_report_id report \<and>
           hd_command h \<in> set (decision_commands st))))"
proof -
  note fields = client_case_env_def Let_def
  have anchor: "\<exists>uri relative q. st_report_json_uri (stage_review_of st d) = Some uri \<and>
      workspace_relative (cl_project env) (cl_resolve env uri) = Some relative \<and>
      committed_requirement (pv_tx (cl_project env)) (cl_archive env) (tx_journal (pj_ws s)) (pd_project_id d) q \<and>
      tr_kind q = REPORT_JSON \<and> validate_relative_path relative = Inr (tr_relative_path q) \<and>
      tr_expected_report_id q = Some (er_report_id report) \<and> tr_sha256 q = tx_sha_file (pv_tx (cl_project env)) payload"
    if "anchored (client_case_env env) d st s payload report" for d payload report
  proof -
    from that obtain uri where uri: "st_report_json_uri (stage_review_of st d) = Some uri"
        "svc_expected_report_sha256 (cl_project env) (cl_archive env) (pd_project_id d) (er_report_id report)
          (cl_resolve env uri) s = Inr (Some (tx_sha_file (pv_tx (cl_project env)) payload))"
      by (auto simp: anchored_def fields)
    from uri(2) obtain relative where "workspace_relative (cl_project env) (cl_resolve env uri) = Some relative"
        "expected_artifact_sha256 (pv_tx (cl_project env)) (cl_archive env) (tx_journal (pj_ws s)) (pd_project_id d)
          REPORT_JSON relative (Some (er_report_id report)) = Inr (Some (tx_sha_file (pv_tx (cl_project env)) payload))"
      by (auto simp: svc_expected_report_sha256_def split: option.splits)
    with expected_artifact_Some [OF this(2)] uri(1) show ?thesis by blast
  qed
  from summary_rests_on_reports [OF assms, of st] obtain d where
    d: "dossier_load p (pj_store s) = Inr d" "pd_project_id d = p"
    and cases: "st_report_id (stage_review_of st d) = None \<and> st_decision (stage_review_of st d) = None \<and>
        gate_view_of y st = empty_gate_view st \<or>
      (\<exists>report payload. anchored (client_case_env env) d st s payload report \<and> displays verbose d st report (gate_view_of y st) \<and>
        (\<forall>h. st_decision (stage_review_of st d) = Some h \<longrightarrow> hd_stage h = st \<and> hd_report_id h = er_report_id report \<and>
           hd_command h \<in> set (decision_commands st)))"
    by (auto simp: fields)
  from cases show ?thesis
  proof
    assume "\<exists>report payload. anchored (client_case_env env) d st s payload report \<and> displays verbose d st report (gate_view_of y st) \<and>
        (\<forall>h. st_decision (stage_review_of st d) = Some h \<longrightarrow> hd_stage h = st \<and> hd_report_id h = er_report_id report \<and>
           hd_command h \<in> set (decision_commands st))"
    then obtain report payload where r: "anchored (client_case_env env) d st s payload report"
        "displays verbose d st report (gate_view_of y st)"
        "\<forall>h. st_decision (stage_review_of st d) = Some h \<longrightarrow> hd_stage h = st \<and> hd_report_id h = er_report_id report \<and>
           hd_command h \<in> set (decision_commands st)" by blast
    with anchor [OF r(1)] d show ?thesis unfolding Let_def by blast
  qed (use d in \<open>simp add: Let_def\<close>)
qed

definition client_open_case :: "'n client_env \<Rightarrow> string \<Rightarrow> 'n client_state \<Rightarrow> string res" where
  "client_open_case env p s = open_case (client_case_env env) p (cw_project (is_world s))"

definition client_create_project ::
  "'n client_env \<Rightarrow> svc_call \<Rightarrow> string \<Rightarrow> string \<Rightarrow> string option \<Rightarrow> string option \<Rightarrow> string option \<Rightarrow>
   review_context option \<Rightarrow> string \<Rightarrow> actor_role \<Rightarrow> string option \<Rightarrow> string option \<Rightarrow> 'n client_state \<Rightarrow>
   (project_dossier, 'n client_state) outcome" where
  "client_create_project env c proposal title sidecar p profile ctx actor_id role ep es s =
     on_world (on_project (svc_create_project (cl_project env) c proposal title
       (if truthy sidecar then sidecar else None) p profile ctx actor_id role ep es)) s"

definition register_case ::
  "'n client_env \<Rightarrow> svc_call \<Rightarrow> string \<Rightarrow> string \<Rightarrow> string option \<Rightarrow> string option \<Rightarrow> string option \<Rightarrow>
   review_context option \<Rightarrow> string \<Rightarrow> actor_role \<Rightarrow> string option \<Rightarrow> string option \<Rightarrow> 'n client_state \<Rightarrow>
   (string, 'n client_state) outcome" where
  "register_case env c proposal title sidecar p profile ctx actor_id role ep es s =
     seq (client_create_project env c proposal title sidecar p profile ctx actor_id role ep es s) (\<lambda>d s.
     pure (client_open_case env (pd_project_id d) s) s)"

text \<open>\<open>ReviewStage(stage)\<close>.\<close>

definition review_stage_named :: "string \<Rightarrow> review_stage res" where
  "review_stage_named v =
     (case first_such (\<lambda>st. stage_value st = v) [REGISTRATION, COMPLETION] of
        None \<Rightarrow> Inl (Exn ValueError ''is not a valid ReviewStage'') | Some st \<Rightarrow> Inr st)"

definition client_evaluate ::
  "'n client_env \<Rightarrow> svc_call \<Rightarrow> string \<Rightarrow> string \<Rightarrow> 'n client_state \<Rightarrow> (pipeline_result, 'n client_state) outcome" where
  "client_evaluate env c p stage s =
     seq (pure (review_stage_named stage) s) (\<lambda>normalized s.
     on_world (on_project
       (case normalized of REGISTRATION \<Rightarrow> svc_evaluate_registration (cl_project env) c p
        | COMPLETION \<Rightarrow> svc_evaluate_completion (cl_project env) c p)) s)"

section \<open>Decisions\<close>

text \<open>\<open>_ProjectDecisionReplayInput\<close>: what a key stands for.  Members are in key order.\<close>

definition dump_locator :: "evidence_locator \<Rightarrow> json" where
  "dump_locator e = JObj [(''artifact_id'', JStr (el_artifact_id e)), (''excerpt'', JStr (el_excerpt e)),
     (''locator'', JStr (el_locator e)), (''source'', JStr (el_source e))]"

definition dump_adjustment :: "reviewer_adjustment \<Rightarrow> json" where
  "dump_adjustment a = JObj [(''criterion_id'', JStr (ra_criterion_id a)),
     (''evidence_refs'', JList (map dump_locator (ra_evidence_refs a))),
     (''from_assessment'', JStr (assessment_value (ra_from_assessment a))), (''reason'', JStr (ra_reason a)),
     (''to_assessment'', JStr (assessment_value (ra_to_assessment a)))]"

definition replay_input ::
  "string \<Rightarrow> review_stage \<Rightarrow> string \<Rightarrow> string \<Rightarrow> int \<Rightarrow> string \<Rightarrow> string \<Rightarrow> reviewer_adjustment list \<Rightarrow> json" where
  "replay_input p st actor_id authority expected_revision command rationale adjustments =
     JObj [(''actor_id'', JStr actor_id), (''adjustments'', JList (map dump_adjustment adjustments)),
       (''authority_context'', JStr authority), (''command'', JStr command), (''expected_revision'', JInt expected_revision),
       (''project_id'', JStr p), (''rationale'', JStr rationale), (''stage'', JStr (stage_value st))]"

text \<open>Both decisions: the stage, the service's operation and the name of the operation differ.\<close>

definition decide_with ::
  "(string \<Rightarrow> string \<Rightarrow> string \<Rightarrow> string \<Rightarrow> reviewer_adjustment list \<Rightarrow> int option \<Rightarrow> string \<Rightarrow>
     'n project_state \<Rightarrow> (pipeline_result, 'n project_state) outcome) \<Rightarrow> review_stage \<Rightarrow> string \<Rightarrow>
   'n client_env \<Rightarrow> (nat \<Rightarrow> int) \<Rightarrow> string \<Rightarrow> string \<Rightarrow> string \<Rightarrow> string \<Rightarrow> reviewer_adjustment list \<Rightarrow>
   int option \<Rightarrow> string \<Rightarrow> string option \<Rightarrow> 'n client_state \<Rightarrow> (pipeline_result, 'n client_state) outcome" where
  "decide_with svc st operation env t p command actor_id rationale adjustments expected_revision authority key s =
     (let call = on_project (svc p command actor_id rationale adjustments expected_revision authority)
      in case key of
           None \<Rightarrow> on_world call s
         | Some k \<Rightarrow>
             (case expected_revision of
                None \<Rightarrow> (Inl (Exn ValueError ''expected_revision is required with an idempotency key''), s)
              | Some n \<Rightarrow>
                  idem_execute (cl_idempotency env) t k operation
                    (replay_input p st actor_id authority n command (strip rationale) adjustments)
                    (cl_dump_result env) (cl_parse_result env) call s))"

definition decision_operation :: "review_stage \<Rightarrow> string" where
  "decision_operation st = (case st of
     REGISTRATION \<Rightarrow> ''project.decision.registration@v1alpha1'' | COMPLETION \<Rightarrow> ''project.decision.completion@v1alpha1'')"

definition client_decide_registration where
  "client_decide_registration env t c = decide_with (svc_decide_registration (cl_project env) c) REGISTRATION
     (decision_operation REGISTRATION) env t"

definition client_decide_completion where
  "client_decide_completion env t c = decide_with (svc_decide_completion (cl_project env) c) COMPLETION
     (decision_operation COMPLETION) env t"

section \<open>The registry\<close>

lemma register_fresh:
  assumes "list_all (\<lambda>k. fst k \<noteq> [] \<and> snd k \<noteq> []) ks" "distinct ks" "set ks \<inter> fst ` set reg = {}"
  shows "register_all binding ks reg = (Inr (), reg @ map (\<lambda>k. (k, binding k)) ks)"
  using assms
proof (induction ks arbitrary: reg)
  case (Cons k ks)
  then have "map_of reg k = None" by (simp add: map_of_eq_None_iff)
  then have "register_pipeline (fst k) (snd k) (binding k) reg = (Inr (), reg @ [(k, binding k)])"
    using Cons.prems by (simp add: register_pipeline_def dict_set_fresh)
  moreover have "set ks \<inter> fst ` set (reg @ [(k, binding k)]) = {}" using Cons.prems by auto
  ultimately show ?case using Cons.IH [of "reg @ [(k, binding k)]"] Cons.prems by simp
qed simp

text \<open>The constructor registers all pipelines and none twice, so each of them can be created.\<close>

lemma client_registry_complete:
  "client_registry binding = (Inr (), map (\<lambda>k. (k, binding k)) client_pipelines)"
  unfolding client_registry_def by (subst register_fresh) (simp_all add: client_pipelines_def)

lemma client_pipeline_creates:
  assumes "k \<in> set client_pipelines" "pb_factory (binding k) = Inr ()"
  shows "registry_create (fst k) (snd k) (snd (client_registry binding)) = Inr (binding k)"
proof -
  have "map_of (map (\<lambda>k. (k, binding k)) ks) k = (if k \<in> set ks then Some (binding k) else None)" for ks
    by (induction ks) auto
  with assms show ?thesis by (simp add: client_registry_complete registry_create_def)
qed

section \<open>Decisions and the service\<close>

definition client_decide where
  "client_decide env t c st = (case st of REGISTRATION \<Rightarrow> client_decide_registration env t c
     | COMPLETION \<Rightarrow> client_decide_completion env t c)"

definition svc_decision ::
  "'n project_env \<Rightarrow> svc_call \<Rightarrow> review_stage \<Rightarrow> string \<Rightarrow> string \<Rightarrow> string \<Rightarrow> string \<Rightarrow> reviewer_adjustment list \<Rightarrow>
   int option \<Rightarrow> string \<Rightarrow> 'n project_state \<Rightarrow> (pipeline_result, 'n project_state) outcome" where
  "svc_decision env c st = (case st of REGISTRATION \<Rightarrow> svc_decide_registration env c | COMPLETION \<Rightarrow> svc_decide_completion env c)"

lemma client_decide_with:
  "client_decide env t c st = decide_with (svc_decision (cl_project env) c st) st (decision_operation st) env t"
  by (cases st) (simp_all add: client_decide_def svc_decision_def client_decide_registration_def client_decide_completion_def)

lemma client_decide_keyed:
  "client_decide env t c st p command actor_id rationale adjustments (Some n) authority (Some k) s =
     idem_execute (cl_idempotency env) t k (decision_operation st)
       (replay_input p st actor_id authority n command (strip rationale) adjustments)
       (cl_dump_result env) (cl_parse_result env)
       (on_project (svc_decision (cl_project env) c st p command actor_id rationale adjustments (Some n) authority)) s"
  by (simp add: client_decide_with decide_with_def)

text \<open>A key stands for one decision.\<close>

lemma dumps_inj: "inj dump_locator" "inj assessment_value" "inj dump_adjustment"
proof -
  show loc: "inj dump_locator"
    by (rule injI) (simp add: dump_locator_def)
  show ass: "inj assessment_value"
  proof (rule injI)
    fix x y show "assessment_value x = assessment_value y \<Longrightarrow> x = y" by (cases x; cases y) simp_all
  qed
  show "inj dump_adjustment"
    by (rule injI) (simp add: dump_adjustment_def inj_map_eq_map [OF loc] inj_eq [OF ass])
qed

lemma replay_input_inj:
  "replay_input p st a u n c r as = replay_input p' st' a' u' n' c' r' as' \<longleftrightarrow>
    p = p' \<and> st = st' \<and> a = a' \<and> u = u' \<and> n = n' \<and> c = c' \<and> r = r' \<and> as = as'"
proof -
  have "stage_value st = stage_value st' \<longleftrightarrow> st = st'" by (cases st; cases st') simp_all
  then show ?thesis by (auto simp: replay_input_def inj_map_eq_map [OF dumps_inj(3)])
qed

lemma decision_operation_inj [simp]: "decision_operation st = decision_operation st' \<longleftrightarrow> st = st'"
  by (cases st; cases st') (simp_all add: decision_operation_def)

text \<open>A run that reaches its call makes it once, on the world it found.\<close>

lemma idem_execute_world:
  "is_world (snd (idem_execute env t key operation request dump validate call s)) \<in>
     {is_world s, snd (call (is_world s))}"
  by (auto simp: idem_execute_def Let_def seq_def pure_def split: sum.split option.split prod.split)

text \<open>What a command does to the project workspace is nothing or one operation of the service.\<close>

fun decision_op :: "review_stage \<Rightarrow> string \<Rightarrow> string \<Rightarrow> string \<Rightarrow> string \<Rightarrow> reviewer_adjustment list \<Rightarrow> int option \<Rightarrow>
   string \<Rightarrow> service_op" where
  "decision_op REGISTRATION = DecideRegistration"
| "decision_op COMPLETION = DecideCompletion"

lemma client_decide_step:
  "cw_project (is_world (snd (client_decide env t c st p command actor_id rationale adjustments revision authority key s))) \<in>
     {cw_project (is_world s),
      after_op (cl_project env) c (decision_op st p command actor_id rationale adjustments revision authority)
        (cw_project (is_world s))}"
proof -
  let ?f = "svc_decision (cl_project env) c st p command actor_id rationale adjustments revision authority"
  have op: "snd (?f x) = after_op (cl_project env) c (decision_op st p command actor_id rationale adjustments revision authority) x"
    for x by (cases st) (simp_all add: svc_decision_def)
  have "is_world (snd (client_decide env t c st p command actor_id rationale adjustments revision authority key s)) \<in>
      {is_world s, snd (on_project ?f (is_world s))}"
  proof (cases key)
    case (Some k)
    then show ?thesis
      by (cases revision) (simp_all add: client_decide_with decide_with_def idem_execute_world [simplified])
  qed (simp add: client_decide_with decide_with_def on_world_def Let_def)
  then show ?thesis using op by (auto simp: on_project_def)
qed

section \<open>A registered case\<close>

lemma created_dossier:
  assumes run: "svc_create_project env c path title sidecar i profile context' actor role ep es s = (Inr d, s')"
    and "fresh_uid env s (sc_uid c 1)" "pj_store s (dossier_file (str_or i (sc_uid c 0))) = None"
  shows "dossier_load (pd_project_id d) (pj_store s') = Inr d \<and> pd_project_id d = str_or i (sc_uid c 0) \<and>
    pd_status d = DRAFT \<and> st_report_id (pd_registration d) = None \<and> st_report_id (pd_completion d) = None"
proof -
  from run obtain t e event command key where
    save: "on_ws (execute_create (pv_tx env) t e event command key []) s = (Inr d, s')"
    and e: "pd_status e = DRAFT" "st_report_id (pd_registration e) = None" "st_report_id (pd_completion e) = None"
      "ae_event_id event = ''evt-'' @ sc_uid c 1" "pd_project_id e = str_or i (sc_uid c 0)"
    unfolding svc_create_project_def Let_def
    by (auto simp: outcome_simps empty_stage_def split: if_splits intro: that)
  then have ex: "execute_create (pv_tx env) t e event command key [] (pj_ws s) = (Inr d, pj_ws s')"
    by (auto simp: on_ws_def prod_eq_iff)
  have "fresh_tx (pv_tx env) (pj_ws s) (ae_event_id event)" using assms(2) e by (simp add: fresh_uid_def)
  from execute_create_store [OF this ex] dossier_load_written [of e "pj_store s"] e assms(3) show ?thesis by auto
qed

section \<open>Properties\<close>

text \<open>
  C30. A key makes one decision: once a keyed decision has returned, whatever commands ran since, under whatever
  keys, and whatever happened to the workspace, a decision with that key changes nothing: the very same command
  returns the same result again; any other, of either gate, project, actor, authority, revision, command,
  rationale or adjustments, is refused as a conflict; and one without an expected revision is refused before the key
  is looked at.
\<close>

theorem key_decides_once:
  assumes decided: "client_decide env t c st p command actor rationale adjustments revision authority (Some k) s = (Inr r, s1)"
    and roundtrip: "cl_parse_result env (cl_dump_result env r) = Inr r"
    and unique: "\<And>v. iv_sha_json (cl_idempotency env) v = iv_sha_json (cl_idempotency env)
      (replay_input p st actor authority (the revision) command (strip rationale) adjustments) \<Longrightarrow>
      v = replay_input p st actor authority (the revision) command (strip rationale) adjustments"
    and later: "(idem_step (cl_idempotency env))\<^sup>*\<^sup>* s1 s2"
  shows "client_decide env t' c' st' p' command' actor' rationale' adjustments' revision' authority' (Some k) s2 =
    (if revision' = None then Inl (Exn ValueError ''expected_revision is required with an idempotency key'')
     else if st' = st \<and> p' = p \<and> command' = command \<and> actor' = actor \<and> strip rationale' = strip rationale \<and>
        adjustments' = adjustments \<and> revision' = revision \<and> authority' = authority then Inr r
     else Inl (Exn IdempotencyConflictError ''idempotency key was already used for a different request''), s2)"
proof (cases revision')
  case None
  then show ?thesis by (simp add: client_decide_with decide_with_def)
next
  case (Some n')
  let ?v = "cl_idempotency env"
  obtain n where n: "revision = Some n"
    using decided by (cases revision) (auto simp: client_decide_with decide_with_def)
  let ?q = "replay_input p st actor authority n command (strip rationale) adjustments"
  let ?q' = "replay_input p' st' actor' authority' n' command' (strip rationale') adjustments'"
  note run = decided [unfolded n client_decide_keyed] and unique = unique [unfolded n option.sel]
  from idem_execute_Inr [OF run] obtain v where key: "is_idempotency_key k"
    and v: "v = cl_dump_result env r \<or> cl_parse_result env v = Inr r"
    and holds: "idem_holds (decision_operation st) (iv_sha_json ?v ?q) v (is_files s1 (idem_path ?v k))" by blast
  note held = idem_run_keeps(2) [OF later holds]
  show ?thesis
  proof (cases "st' = st \<and> ?q' = ?q")
    case True
    with held have here: "idem_holds (decision_operation st') (iv_sha_json ?v ?q') v (is_files s2 (idem_path ?v k))"
      using True by (elim conjE) (simp only:)
    from v roundtrip have "cl_parse_result env v = Inr r" by blast
    moreover from True have "st' = st \<and> p' = p \<and> command' = command \<and> actor' = actor \<and> strip rationale' = strip rationale \<and>
        adjustments' = adjustments \<and> n' = n \<and> authority' = authority" unfolding replay_input_inj by blast
    ultimately show ?thesis unfolding Some n client_decide_keyed idem_execute_replay [OF key here] by simp
  next
    case False
    have binds: "idem_binds (decision_operation st) (iv_sha_json ?v ?q) (is_files s2 (idem_path ?v k))"
      using held by (rule idem_holds_binds)
    have other: "decision_operation st' \<noteq> decision_operation st \<or> iv_sha_json ?v ?q' \<noteq> iv_sha_json ?v ?q"
      using False unique [of ?q'] by auto
    have "\<not> (st' = st \<and> p' = p \<and> command' = command \<and> actor' = actor \<and> strip rationale' = strip rationale \<and>
        adjustments' = adjustments \<and> n' = n \<and> authority' = authority)"
      using False unfolding replay_input_inj by blast
    then show ?thesis unfolding Some n client_decide_keyed idem_execute_conflict [OF key binds other] by simp
  qed
qed

text \<open>
  A registered case can be read at once: its handle opens, and its status is a draft that waits for nobody, offers
  the submission and nothing else, and shows no review.
\<close>

theorem registered_case_reads:
  assumes "register_case env c path title sidecar i profile ctx actor role ep es s = (Inr p, s')"
    and "fresh_uid (cl_project env) (cw_project (is_world s)) (sc_uid c 1)"
    and "pj_store (cw_project (is_world s)) (dossier_file (str_or i (sc_uid c 0))) = None"
  shows "p = str_or i (sc_uid c 0) \<and> client_open_case env p s' = Inr p \<and>
    (\<exists>v. current_status (client_case_env env) verbose p (cw_project (is_world s')) = Inr v \<and>
       cs_project_id v = p \<and> cs_dossier_status v = DRAFT \<and> cs_lifecycle_stage v = CaseRegistration \<and> \<not> cs_terminal v \<and>
       cs_waiting_for v = None \<and> map cn_action_id (cs_next_actions v) = [''submit_registration''] \<and>
       cs_latest_review v = None)"
proof -
  let ?f = "\<lambda>sc. svc_create_project (cl_project env) c path title sc i profile ctx actor role ep es (cw_project (is_world s))"
  from assms(1) obtain d sc where run: "?f sc = (Inr d, cw_project (is_world s'))"
    and open': "client_open_case env (pd_project_id d) s' = Inr p"
    by (auto simp: register_case_def client_create_project_def on_world_def on_project_def outcome_simps
        intro!: that prod_eqI)
  note d = created_dossier [OF run assms(2,3)]
  have current: "current_dossier (client_case_env env) (pd_project_id d) (cw_project (is_world s')) = Inr d"
    using d unfolding current_dossier_def client_case_env_def Let_def by auto
  with open' have "pd_project_id d = p" by (simp add: client_open_case_def open_case_def)
  with current d open' show ?thesis
    by (auto simp: current_status_def case_status_of_def lifecycle_stage_of_def is_terminal_def status_guidance_def
        guidance_waiting_def guidance_actions_def next_action_def)
qed

section \<open>The example\<close>

definition demo_result :: pipeline_result where
  "demo_result = svc_result demo_service demo_pending ''m'' None []"

definition demo_decision_input :: json where
  "demo_decision_input = replay_input ''p'' REGISTRATION ''a'' ''u'' 3 ''approve'' ''why'' []"

definition demo_client :: "notification_event list client_env" where
  "demo_client = \<lparr>cl_project = demo_service, cl_education = \<lparr>ed_tx = demo_etx_env, ed_programs = ed_programs demo_edu_env, ed_notifier = DurableOutbox int recording_send,
       ed_outbox_dir = None, ed_enrollment_root = ''e'', ed_dossier_root = ''d'', ed_format_score = (\<lambda>_. '''')\<rparr>,
     cl_idempotency = \<lparr>iv_sha_json = (\<lambda>v. if v = demo_decision_input then ''1'' else ''0''), iv_sha_str = (\<lambda>x. x), iv_iso = (\<lambda>_. ''t'')\<rparr>,
     cl_archive = [], cl_file_size = (\<lambda>_. 1), cl_resolve = (\<lambda>u. u), cl_dump_result = (\<lambda>r. JStr (pr_message r)),
     cl_parse_result = (\<lambda>_. Inr demo_result), cl_dump_run_request = (\<lambda>_. JNull), cl_dump_summary = (\<lambda>_. JNull),
     cl_parse_summary = (\<lambda>_. Inl (Exn ValidationError ''s'')), cl_dump_education_request = (\<lambda>_. JNull),
     cl_dump_education_result = (\<lambda>_. JNull), cl_parse_education_result = (\<lambda>_. Inl (Exn ValidationError ''e''))\<rparr>"

text \<open>A workspace whose store has the record of a decision, or nothing.\<close>

definition demo_client_state :: "(string \<Rightarrow> idem_file option) \<Rightarrow> notification_event list client_state" where
  "demo_client_state files = \<lparr>is_files = files, is_world = \<lparr>cw_project = demo_start, cw_programs = es_programs demo_edu_start,
     cw_enrollments = es_tx demo_edu_start\<rparr>\<rparr>"

definition demo_decided :: "notification_event list client_state" where
  "demo_decided = demo_client_state [idem_path (cl_idempotency demo_client) ''k'' \<mapsto>
     IdemJson (idem_succeeded ''k'' (decision_operation REGISTRATION) ''1'' (JStr ''m'') ''t'')]"

lemma demo_decision:
  "client_decide demo_client t c REGISTRATION ''p'' ''approve'' ''a'' ''why'' [] (Some 3) ''u'' (Some ''k'') demo_decided =
     (Inr demo_result, demo_decided)"
proof -
  have "is_idempotency_key ''k''" by code_simp
  moreover have "strip ''why'' = ''why''" by code_simp
  moreover have "idem_holds (decision_operation REGISTRATION) (iv_sha_json (cl_idempotency demo_client) demo_decision_input)
      (JStr ''m'') (is_files demo_decided (idem_path (cl_idempotency demo_client) ''k''))"
    by (simp add: demo_decided_def demo_client_state_def demo_client_def)
  ultimately show ?thesis
    using idem_execute_replay [of "''k''" "decision_operation REGISTRATION" "cl_idempotency demo_client" demo_decision_input "JStr ''m''" demo_decided]
    unfolding client_decide_keyed demo_decision_input_def by (simp add: demo_client_def)
qed

theorem key_decides_once_witness:
  "client_decide demo_client int (ProjectProgress.demo_call 0) COMPLETION ''p'' ''accept'' ''a'' ''why'' [] (Some 3) ''u'' (Some ''k'') demo_decided =
     (Inl (Exn IdempotencyConflictError ''idempotency key was already used for a different request''), demo_decided) \<and>
   client_decide demo_client int (ProjectProgress.demo_call 0) REGISTRATION ''p'' ''approve'' ''a'' ''why '' [] (Some 3) ''u'' (Some ''k'') demo_decided =
     (Inr demo_result, demo_decided) \<and>
   client_decide demo_client int (ProjectProgress.demo_call 0) REGISTRATION ''p'' ''approve'' ''a'' ''why'' [] None ''u'' (Some ''k'') demo_decided =
     (Inl (Exn ValueError ''expected_revision is required with an idempotency key''), demo_decided)"
proof -
  have why: "strip ''why'' = ''why''" "strip ''why '' = ''why''" by code_simp+
  have unique: "iv_sha_json (cl_idempotency demo_client) v = iv_sha_json (cl_idempotency demo_client)
      (replay_input ''p'' REGISTRATION ''a'' ''u'' (the (Some 3)) ''approve'' (strip ''why'') []) \<Longrightarrow>
      v = replay_input ''p'' REGISTRATION ''a'' ''u'' (the (Some 3)) ''approve'' (strip ''why'') []" for v
    by (simp add: why demo_client_def demo_decision_input_def split: if_splits)
  have "cl_parse_result demo_client (cl_dump_result demo_client demo_result) = Inr demo_result"
    by (simp add: demo_client_def)
  note once = key_decides_once [OF demo_decision this unique rtranclp.rtrancl_refl]
  show ?thesis by (simp add: once why)
qed

theorem registered_case_reads_witness:
  "\<exists>s' v. register_case demo_client (ProjectProgress.demo_call 0) ''/p.pptx'' ''T'' None (Some ''p'') (Some ''axcalib.default@1.0.0'')
       (Some empty_context) ''submitter:local'' SUBMITTER None None (demo_client_state Map.empty) = (Inr ''p'', s') \<and>
     current_status (client_case_env demo_client) False ''p'' (cw_project (is_world s')) = Inr v \<and>
     map cn_action_id (cs_next_actions v) = [''submit_registration'']"
proof -
  have start: "cw_project (is_world (demo_client_state Map.empty)) = demo_start" "cl_project demo_client = demo_service"
    by (simp_all add: demo_client_state_def demo_client_def)
  obtain ws where ws: "demo_create demo_start = (Inr demo_draft, demo_start\<lparr>pj_ws := ws\<rparr>)"
    "dossier_load ''p'' (tx_store ws) = Inr demo_draft" using demo_created by blast
  define s' where "s' = (demo_client_state Map.empty)\<lparr>is_world :=
    (is_world (demo_client_state Map.empty))\<lparr>cw_project := demo_start\<lparr>pj_ws := ws\<rparr>\<rparr>\<rparr>"
  have "client_open_case demo_client ''p'' s' = Inr ''p''"
    using ws(2) by (simp add: client_open_case_def open_case_def current_dossier_def client_case_env_def Let_def s'_def)
  then have run: "register_case demo_client (ProjectProgress.demo_call 0) ''/p.pptx'' ''T'' None (Some ''p'') (Some ''axcalib.default@1.0.0'')
      (Some empty_context) ''submitter:local'' SUBMITTER None None (demo_client_state Map.empty) = (Inr ''p'', s')"
    using ws(1) unfolding register_case_def client_create_project_def
    by (simp add: on_world_def on_project_def start demo_create_def s'_def pure_def)
  have "fresh_uid demo_service demo_start (sc_uid (ProjectProgress.demo_call 0) 1)" using demo_new [of 0 1] new_uid_fresh by simp
  moreover have "pj_store demo_start x = None" for x by (simp add: demo_start_def)
  ultimately show ?thesis
    using registered_case_reads [OF run, of False] run by (auto simp: start)
qed

text \<open>
  A workspace with one committed transaction that required the report \<open>r\<close>; the digest tells that report's file
  from every other file.
\<close>

definition demo_report_file :: file_content where
  "demo_report_file = JsonText (JObj [(''report_id'', JStr ''r'')])"

definition demo_reading :: "notification_event list client_env" where
  "demo_reading = demo_client\<lparr>cl_project := demo_service\<lparr>
     pv_tx := demo_tx_env\<lparr>tx_sha_file := (\<lambda>f. if f = demo_report_file then demo_sha else replicate 64 (CHR ''f''))\<rparr>,
     pv_parse_report := (\<lambda>j. if JsonText j = demo_report_file then Inr demo_case_report
       else Inl (Exn ValidationError ''EvaluationReport''))\<rparr>\<rparr>"

definition demo_report_requirement :: artifact_requirement where
  "demo_report_requirement = \<lparr>tr_kind = REPORT_JSON, tr_relative_path = ''reports/r.json'', tr_sha256 = demo_sha,
     tr_expected_report_id = Some ''r'', tr_expected_delivery_status = None\<rparr>"

definition demo_report_plan :: project_plan where
  "demo_report_plan = demo_plan\<lparr>pp_candidate_dossier := demo_case_dossier ''n'', pp_audit_event := demo_event ''evt'' ''p'' 1,
     pp_required_artifacts := [demo_report_requirement]\<rparr>"

definition demo_report_record :: "project_plan journal_record" where
  "demo_report_record = (let e = tx_jenv (pv_tx (cl_project demo_reading)) in
     add_event e (add_event e (prepared_record e demo_report_plan 0) APPLYING None 1) COMMITTED None 2)"

definition demo_reported :: "notification_event list project_state" where
  "demo_reported = demo_start\<lparr>pj_ws :=
     \<lparr>tx_journal = extended_dir (tx_jenv (pv_tx (cl_project demo_reading))) demo_report_record [],
      tx_audit = [EventLine (demo_event ''evt'' ''p'' 1)], tx_store = plan_effect demo_report_plan 1 Map.empty,
      tx_files = [''reports/r.json'' \<mapsto> RegularFile demo_report_file]\<rparr>\<rparr>"

lemma demo_reading_simps [simp]:
  "pv_workspace (cl_project demo_reading) = ''/w''" "cl_archive demo_reading = []" "cl_resolve demo_reading u = u"
  "cl_file_size demo_reading f = 1" "tx_sha_file (pv_tx (cl_project demo_reading)) demo_report_file = demo_sha"
  "pv_parse_report (cl_project demo_reading) (JObj [(''report_id'', JStr ''r'')]) = Inr demo_case_report"
  by (simp_all add: demo_reading_def demo_client_def demo_service_def demo_report_file_def)

lemma demo_report_plan_readable: "plan_readable demo_report_plan"
  using demo_tid
  by (simp add: plan_readable_def plan_constructible_def plan_integrity_def demo_report_plan_def demo_plan_def
      demo_event_def audit_event_valid_def requirement_valid_def demo_report_requirement_def
      make_requirement_def validate_relative_path_def Let_def demo_case_dossier_def dossier_valid_def demo_dossier_def
      empty_stage_def stage_review_valid_def artifact_ref_valid_def demo_case_decision_def human_decision_valid_def
      reviewer_adjustment_valid_def)

lemma demo_report_committed:
  "record_ok (tx_jenv (pv_tx (cl_project demo_reading))) demo_report_record"
  "latest_status demo_report_record = COMMITTED" "jr_plan demo_report_record = demo_report_plan"
proof -
  have "env_ok (tx_jenv (pv_tx (cl_project demo_reading)))"
    by (simp add: demo_reading_def env_ok_def demo_tx_env_def)
  moreover have "record_ok (tx_jenv (pv_tx (cl_project demo_reading)))
      (prepared_record (tx_jenv (pv_tx (cl_project demo_reading))) demo_report_plan 0)"
    using demo_report_plan_readable demo_tid
    by (intro record_ok_prepared calculation) (simp_all add: demo_report_plan_def demo_plan_def)
  ultimately show "record_ok (tx_jenv (pv_tx (cl_project demo_reading))) demo_report_record"
    unfolding demo_report_record_def Let_def by (intro record_ok_add_event) simp_all
qed (simp_all add: demo_report_record_def Let_def)

lemma demo_anchor:
  "svc_expected_report_sha256 (cl_project demo_reading) [] ''p'' ''r'' ''/w/reports/r.json'' demo_reported = Inr (Some demo_sha)"
proof -
  let ?e = "tx_jenv (pv_tx (cl_project demo_reading))"
  let ?path = "journal_file_of ?e (jn_tid ?e (jr_plan demo_report_record))"
  have "journal_read ?e ?path [(?path, map line_of (jr_events demo_report_record))] = Inr demo_report_record"
    using demo_report_committed(1) by (simp add: journal_read_Inr)
  then have "journal_records ?e (extended_dir ?e demo_report_record []) = Inr [demo_report_record]"
    by (simp add: journal_records_def extended_dir_def dict_set_fresh del: tx_jenv_simps)
  moreover have "validate_relative_path ''reports/r.json'' = Inr ''reports/r.json''"
    by (simp add: validate_relative_path_def Let_def)
  moreover have "artifact_matches ''p'' REPORT_JSON ''reports/r.json'' (Some ''r'') [demo_report_record] = [demo_sha]"
    by (simp add: artifact_matches_def demo_report_committed demo_report_plan_def demo_plan_def demo_report_requirement_def)
  ultimately show ?thesis
    by (simp add: svc_expected_report_sha256_def workspace_relative_def expected_artifact_sha256_def demo_reported_def)
qed

lemma demo_report_read:
  "read_case_report (client_case_env demo_reading) ''p'' ''r'' ''/w/reports/r.json'' demo_reported = Inr demo_case_report"
proof -
  have "read_workspace_file (cl_project demo_reading) ''/w/reports/r.json'' demo_reported = Inr demo_report_file"
    by (simp add: read_workspace_file_def workspace_relative_def demo_reported_def)
  moreover have "parse_report_file (cl_project demo_reading) demo_report_file = Inr demo_case_report"
    by (simp add: parse_report_file_def demo_report_file_def)
  ultimately show ?thesis
    using demo_anchor by (simp add: read_case_report_def client_case_env_def Let_def MAX_REPORT_BYTES_def)
qed

lemma demo_reported_dossier:
  "dossier_load ''p'' (pj_store demo_reported) = Inr (demo_case_dossier ''n'')"
  using load_plan_effect [OF demo_report_plan_readable, of 1 Map.empty]
  by (simp add: demo_reported_def demo_report_plan_def demo_plan_def target_dossier_def)

lemma demo_reported_summary:
  "\<exists>y. get_summary (client_case_env demo_reading) False ''p'' demo_reported = Inr y"
proof -
  have fields: "ce_resolve (client_case_env demo_reading) u = u" "ce_reports_root (client_case_env demo_reading) = ''/w/reports''" for u
    by (simp_all add: client_case_env_def Let_def)
  have "\<exists>v. review_view (client_case_env demo_reading) False (demo_case_dossier ''n'') REGISTRATION demo_reported = Inr v"
    using demo_report_read
    by (simp add: review_view_def case_load_report_def report_identity_def fields
      demo_case_dossier_def demo_case_report_def demo_case_decision_def demo_criterion_def
      empty_stage_def under_path_def path_stem_def path_suffix_def Ingest.path_name_def casefold_def casefold_char_def Let_def
      check_decision_def decision_commands_def dict_by_def stale_adjustment_def effective_assessment_def
      assessment_counts_def assessments_in_order_def demo_dossier_def stage_review_of_def)
  moreover have "review_view (client_case_env demo_reading) False (demo_case_dossier ''n'') COMPLETION demo_reported =
      Inr (empty_gate_view COMPLETION)"
    by (simp add: review_view_def case_load_report_def demo_case_dossier_def demo_dossier_def stage_review_of_def empty_stage_def)
  moreover have "current_dossier (client_case_env demo_reading) ''p'' demo_reported = Inr (demo_case_dossier ''n'')"
    using demo_reported_dossier
    by (simp add: current_dossier_def client_case_env_def Let_def demo_case_dossier_def)
  ultimately show ?thesis by (auto simp: get_summary_def)
qed

theorem summaries_are_anchored_witness:
  "\<exists>y q report. get_summary (client_case_env demo_reading) False ''p'' demo_reported = Inr y \<and>
     displays False (demo_case_dossier ''n'') REGISTRATION report (gate_view_of y REGISTRATION) \<and>
     committed_requirement (pv_tx (cl_project demo_reading)) [] (tx_journal (pj_ws demo_reported)) ''p'' q \<and>
     tr_expected_report_id q = Some (er_report_id report)"
proof -
  obtain y where y: "get_summary (client_case_env demo_reading) False ''p'' demo_reported = Inr y"
    using demo_reported_summary by blast
  have "st_report_id (stage_review_of REGISTRATION (demo_case_dossier ''n'')) = Some ''r''"
    by (simp add: demo_case_dossier_def stage_review_of_def)
  with summaries_are_anchored [OF y, of REGISTRATION] y demo_reported_dossier show ?thesis
    by (auto simp: Let_def)
qed

end
