(* ===== verification/ApiIdentity.thy ===== *)
theory ApiIdentity
  imports Execution
begin

text \<open>
  \<open>api/auth.py\<close>, \<open>api/oidc.py\<close>, \<open>api/problems.py\<close> and the authentication of \<open>api/app.py\<close>: who a caller is.
  A problem is an exception whose message is its status and its code.  PyJWT is a parameter: how it
  reads an unverified header, builds a key, and what it decodes under a key and the required options.
\<close>

section \<open>Problems\<close>

definition api_problem :: "nat \<Rightarrow> string \<Rightarrow> exn" where
  "api_problem status code = Exn ApiProblemError (dec status @ '' '' @ code)"

section \<open>Principals and grants\<close>

datatype api_role =
    API_VIEWER | API_OPERATOR | API_PROJECT_OWNER | API_LEARNER | API_MENTOR | API_INSTRUCTOR | API_ADMINISTRATOR

fun api_role_value :: "api_role \<Rightarrow> string" where
  "api_role_value API_VIEWER = ''viewer''"
| "api_role_value API_OPERATOR = ''operator''"
| "api_role_value API_PROJECT_OWNER = ''project_owner''"
| "api_role_value API_LEARNER = ''learner''"
| "api_role_value API_MENTOR = ''mentor''"
| "api_role_value API_INSTRUCTOR = ''instructor''"
| "api_role_value API_ADMINISTRATOR = ''administrator''"

datatype execution_mode = API_INLINE | API_QUEUED

record api_principal =
  ap_subject :: string
  ap_role :: api_role
  ap_organization_id :: "string option"
  ap_scopes :: "string set"

definition api_principal_valid :: "api_principal \<Rightarrow> bool" where
  "api_principal_valid p \<longleftrightarrow> 1 \<le> length (ap_subject p) \<and> length (ap_subject p) \<le> 300 \<and>
     pred_option (\<lambda>x. 1 \<le> length x \<and> length x \<le> 200) (ap_organization_id p)"

record api_grant =
  ag_pipeline_id :: string
  ag_pipeline_version :: string
  ag_execution_mode :: execution_mode
  ag_execute_roles :: "api_role list"

definition resource_bound_roles :: "api_role list" where
  "resource_bound_roles = [API_PROJECT_OWNER, API_LEARNER, API_MENTOR, API_INSTRUCTOR]"

definition api_grant_valid :: "api_grant \<Rightarrow> bool" where
  "api_grant_valid g \<longleftrightarrow> is_safe_id (ag_pipeline_id g) \<and> is_safe_id (ag_pipeline_version g) \<and>
     ag_execute_roles g \<noteq> [] \<and> API_VIEWER \<notin> set (ag_execute_roles g) \<and>
     list_all (\<lambda>r. r \<notin> set resource_bound_roles) (ag_execute_roles g)"

text \<open>What is left of the roles.\<close>

lemma grant_roles: "api_grant_valid g \<Longrightarrow> set (ag_execute_roles g) \<subseteq> {API_OPERATOR, API_ADMINISTRATOR}"
proof
  fix r assume "api_grant_valid g" "r \<in> set (ag_execute_roles g)"
  then show "r \<in> {API_OPERATOR, API_ADMINISTRATOR}"
    by (cases r) (auto simp: api_grant_valid_def resource_bound_roles_def list_all_iff)
qed

type_synonym token_verifier = "string \<Rightarrow> api_principal option res"

definition reject_all_tokens :: token_verifier where
  "reject_all_tokens token = Inr None"

section \<open>Identity URIs\<close>

record split_url =
  su_scheme :: string
  su_netloc :: string
  su_query :: string
  su_fragment :: string

definition lower_char :: "char \<Rightarrow> char" where
  "lower_char c = (if is_upper c then char_of (of_char c + 32 :: nat) else c)"

text \<open>\<open>s.partition(c)\<close> without the separator.\<close>

definition before :: "char \<Rightarrow> string \<Rightarrow> string" where
  "before c s = takeWhile (\<lambda>x. x \<noteq> c) s"

definition after :: "char \<Rightarrow> string \<Rightarrow> string" where
  "after c s = drop 1 (dropWhile (\<lambda>x. x \<noteq> c) s)"

text \<open>
  \<open>urllib.parse.urlsplit\<close>: \<open>bracketed\<close> is what it accepts between brackets.  No character below 256 turns into
  a delimiter under its normalisation.
\<close>

definition is_scheme_char :: "char \<Rightarrow> bool" where
  "is_scheme_char c \<longleftrightarrow> is_alnum c \<or> c \<in> set ''+-.''"

definition clean_url :: "string \<Rightarrow> string" where
  "clean_url u = filter (\<lambda>c. (of_char c :: nat) \<notin> {9, 10, 13}) (dropWhile (\<lambda>c. (of_char c :: nat) \<le> 32) u)"

definition url_scheme :: "string \<Rightarrow> string \<times> string" where
  "url_scheme u =
     (let s = before (CHR '':'') u in
      if CHR '':'' \<in> set u \<and> s \<noteq> [] \<and> (is_lower (hd s) \<or> is_upper (hd s)) \<and> list_all is_scheme_char s
      then (map lower_char s, after (CHR '':'') u) else ([], u))"

definition urlsplit :: "(string \<Rightarrow> bool) \<Rightarrow> string \<Rightarrow> split_url res" where
  "urlsplit bracketed url =
     (let (scheme, u) = url_scheme (clean_url url);
          (netloc, rest) = (if starts_with ''//'' u
             then (takeWhile (\<lambda>c. c \<notin> set ''/?#'') (drop 2 u), dropWhile (\<lambda>c. c \<notin> set ''/?#'') (drop 2 u))
             else ([], u))
      in if (CHR ''['' \<in> set netloc) \<noteq> (CHR '']'' \<in> set netloc) then Inl (Exn ValueError ''Invalid IPv6 URL'')
         else if CHR ''['' \<in> set netloc \<and> \<not> bracketed netloc then Inl (Exn ValueError ''Invalid IPv6 URL'')
         else Inr \<lparr>su_scheme = scheme, su_netloc = netloc,
           su_query = after (CHR ''?'') (before (CHR ''#'') rest), su_fragment = after (CHR ''#'') rest\<rparr>)"

text \<open>\<open>rpartition("@")\<close>: the part in front is there when the sign is.\<close>

definition url_userinfo :: "split_url \<Rightarrow> bool" where
  "url_userinfo u \<longleftrightarrow> CHR ''@'' \<in> set (su_netloc u)"

text \<open>Whether a host is there; its case does not matter for that.\<close>

definition url_hostname :: "split_url \<Rightarrow> string" where
  "url_hostname u =
     (let hostinfo = rev (before (CHR ''@'') (rev (su_netloc u)))
      in if CHR ''['' \<in> set hostinfo then before (CHR '']'') (after (CHR ''['') hostinfo)
         else before (CHR '':'') hostinfo)"

definition require_https_identity_uri :: "(string \<Rightarrow> bool) \<Rightarrow> string \<Rightarrow> unit res" where
  "require_https_identity_uri bracketed value' =
     (case urlsplit bracketed value' of
        Inl e \<Rightarrow> Inl e
      | Inr u \<Rightarrow>
          if su_scheme u \<noteq> ''https'' \<or> url_hostname u = [] \<or> url_userinfo u \<or> su_query u \<noteq> [] \<or> su_fragment u \<noteq> []
          then Inl (Exn ValueError ''must be an exact HTTPS URI without userinfo/query/fragment'') else Inr ())"

section \<open>Identity policies\<close>

definition ASYMMETRIC_ALGORITHMS :: "string list" where
  "ASYMMETRIC_ALGORITHMS = [''RS256'', ''PS256'', ''ES256'']"

definition ACCESS_TOKEN_TYPES :: "string list" where
  "ACCESS_TOKEN_TYPES = [''at+jwt'', ''application/at+jwt'']"

definition FORBIDDEN_JOSE_HEADERS :: "string list" where
  "FORBIDDEN_JOSE_HEADERS = [''jku'', ''x5u'', ''x5c'']"

definition CORE_CLAIMS :: "string list" where
  "CORE_CLAIMS = [''iss'', ''sub'', ''aud'', ''exp'', ''iat'', ''jti'', ''client_id'']"

record oidc_role_binding =
  ob_role_value :: string
  ob_role :: api_role

record oidc_scope_binding =
  ob_scope_value :: string
  ob_api_scope :: string

definition binding_char :: "char \<Rightarrow> bool" where
  "binding_char c \<longleftrightarrow> is_alnum c \<or> c \<in> set ''._:-''"

definition oidc_role_binding_valid :: "oidc_role_binding \<Rightarrow> bool" where
  "oidc_role_binding_valid b \<longleftrightarrow> matches_id is_alnum binding_char 0 127 (ob_role_value b)"

definition oidc_scope_binding_valid :: "oidc_scope_binding \<Rightarrow> bool" where
  "oidc_scope_binding_valid b \<longleftrightarrow> matches_id is_alnum binding_char 0 255 (ob_scope_value b) \<and>
     matches_id is_alnum (\<lambda>c. binding_char c \<or> c = CHR ''*'') 0 255 (ob_api_scope b)"

record oidc_policy =
  op_policy_id :: string
  op_policy_version :: string
  op_issuer :: string
  op_audience :: string
  op_jwks_uri :: string
  op_allowed_algorithms :: "string list"
  op_role_claim :: string
  op_scope_claim :: string
  op_organization_claim :: string
  op_role_bindings :: "oidc_role_binding list"
  op_scope_bindings :: "oidc_scope_binding list"
  op_require_organization :: bool
  op_clock_skew_seconds :: int
  op_max_token_lifetime_seconds :: int
  op_max_token_bytes :: int

definition is_claim_name :: "string \<Rightarrow> bool" where
  "is_claim_name = matches_id (\<lambda>c. is_lower c \<or> is_upper c) binding_char 0 127"

text \<open>The constraints of the fields.\<close>

definition oidc_fields_valid :: "oidc_policy \<Rightarrow> bool" where
  "oidc_fields_valid p \<longleftrightarrow> is_safe_id (op_policy_id p) \<and> is_safe_id (op_policy_version p) \<and>
     1 \<le> length (op_issuer p) \<and> length (op_issuer p) \<le> 500 \<and>
     1 \<le> length (op_audience p) \<and> length (op_audience p) \<le> 500 \<and>
     1 \<le> length (op_jwks_uri p) \<and> length (op_jwks_uri p) \<le> 1000 \<and>
     is_claim_name (op_role_claim p) \<and> is_claim_name (op_scope_claim p) \<and> is_claim_name (op_organization_claim p) \<and>
     list_all oidc_role_binding_valid (op_role_bindings p) \<and> list_all oidc_scope_binding_valid (op_scope_bindings p) \<and>
     0 \<le> op_clock_skew_seconds p \<and> op_clock_skew_seconds p \<le> 300 \<and>
     60 \<le> op_max_token_lifetime_seconds p \<and> op_max_token_lifetime_seconds p \<le> 86400 \<and>
     1024 \<le> op_max_token_bytes p \<and> op_max_token_bytes p \<le> 65536"

definition require_unique :: "string list \<Rightarrow> unit res" where
  "require_unique vs = (if distinct vs then Inr () else Inl (Exn ValueError ''must be unique''))"

definition then_check :: "unit res \<Rightarrow> unit res \<Rightarrow> unit res" where
  "then_check a b = (case a of Inl e \<Rightarrow> Inl e | Inr _ \<Rightarrow> b)"

definition check_that :: "bool \<Rightarrow> string \<Rightarrow> unit res" where
  "check_that ok message = (if ok then Inr () else Inl (Exn ValueError message))"

definition validate_policy :: "(string \<Rightarrow> bool) \<Rightarrow> oidc_policy \<Rightarrow> unit res" where
  "validate_policy bracketed p =
     (let algorithms = op_allowed_algorithms p; claims = [op_role_claim p, op_scope_claim p, op_organization_claim p] in
      then_check (require_https_identity_uri bracketed (op_issuer p))
      (then_check (require_https_identity_uri bracketed (op_jwks_uri p))
      (then_check (check_that (algorithms \<noteq> []) ''allowed_algorithms must not be empty'')
      (then_check (check_that (distinct algorithms) ''allowed_algorithms must be unique'')
      (then_check (check_that (list_all (\<lambda>a. a \<in> set ASYMMETRIC_ALGORITHMS) algorithms)
        ''allowed_algorithms may only contain RS256, PS256, or ES256'')
      (then_check (check_that (distinct claims \<and> list_all (\<lambda>c. c \<notin> set CORE_CLAIMS) claims)
        ''authorization claim names must be distinct from core claims'')
      (then_check (check_that (op_role_bindings p \<noteq> []) ''role_bindings must not be empty'')
      (then_check (check_that (op_scope_bindings p \<noteq> []) ''scope_bindings must not be empty'')
      (then_check (require_unique (map ob_role_value (op_role_bindings p)))
      (then_check (require_unique (map ob_scope_value (op_scope_bindings p)))
      (require_unique (map ob_api_scope (op_scope_bindings p)))))))))))))"

definition oidc_policy_valid :: "(string \<Rightarrow> bool) \<Rightarrow> oidc_policy \<Rightarrow> bool" where
  "oidc_policy_valid bracketed p \<longleftrightarrow> oidc_fields_valid p \<and> validate_policy bracketed p = Inr ()"

definition policy_reference :: "oidc_policy \<Rightarrow> string" where
  "policy_reference p = op_policy_id p @ ''@'' @ op_policy_version p"

section \<open>Keys\<close>

record json_web_key =
  jk_kid :: string
  jk_kty :: string
  jk_alg :: string
  jk_use :: string
  jk_key_ops :: "string list option"
  jk_n :: "string option"
  jk_e :: "string option"
  jk_crv :: "string option"
  jk_x :: "string option"
  jk_y :: "string option"

definition json_web_key_valid :: "json_web_key \<Rightarrow> bool" where
  "json_web_key_valid k \<longleftrightarrow> is_safe_id (jk_kid k) \<and> jk_alg k \<in> set ASYMMETRIC_ALGORITHMS \<and> jk_use k = ''sig'' \<and>
     pred_option (\<lambda>ops. ''verify'' \<in> set ops \<and> ''sign'' \<notin> set ops) (jk_key_ops k) \<and>
     (if jk_alg k \<in> set [''RS256'', ''PS256'']
      then jk_kty k = ''RSA'' \<and> truthy (jk_n k) \<and> truthy (jk_e k) \<and>
        jk_crv k = None \<and> jk_x k = None \<and> jk_y k = None
      else jk_kty k = ''EC'' \<and> jk_crv k = Some ''P-256'' \<and> truthy (jk_x k) \<and> truthy (jk_y k) \<and>
        jk_n k = None \<and> jk_e k = None)"

text \<open>\<open>model_dump(exclude_none=True)\<close>, its members in key order.\<close>

definition verification_dict :: "json_web_key \<Rightarrow> (string \<times> json) list" where
  "verification_dict k =
     (let member = (\<lambda>name v. case v of None \<Rightarrow> [] | Some s \<Rightarrow> [(name, JStr s)]) in
      [(''alg'', JStr (jk_alg k))] @ member ''crv'' (jk_crv k) @ member ''e'' (jk_e k) @
      (case jk_key_ops k of None \<Rightarrow> [] | Some ops \<Rightarrow> [(''key_ops'', JList (map JStr ops))]) @
      [(''kid'', JStr (jk_kid k)), (''kty'', JStr (jk_kty k))] @ member ''n'' (jk_n k) @
      [(''use'', JStr (jk_use k))] @ member ''x'' (jk_x k) @ member ''y'' (jk_y k))"

record jwk_set_snapshot =
  js_issuer :: string
  js_jwks_uri :: string
  js_version :: string
  js_keys :: "json_web_key list"

definition validate_snapshot :: "(string \<Rightarrow> bool) \<Rightarrow> jwk_set_snapshot \<Rightarrow> unit res" where
  "validate_snapshot bracketed s =
     then_check (require_https_identity_uri bracketed (js_issuer s))
     (then_check (require_https_identity_uri bracketed (js_jwks_uri s))
     (then_check (check_that (js_keys s \<noteq> []) ''keys must not be empty'')
     (require_unique (map jk_kid (js_keys s)))))"

definition jwk_set_snapshot_valid :: "(string \<Rightarrow> bool) \<Rightarrow> jwk_set_snapshot \<Rightarrow> bool" where
  "jwk_set_snapshot_valid bracketed s \<longleftrightarrow> 1 \<le> length (js_issuer s) \<and> length (js_issuer s) \<le> 500 \<and>
     1 \<le> length (js_jwks_uri s) \<and> length (js_jwks_uri s) \<le> 1000 \<and> is_safe_id (js_version s) \<and>
     list_all json_web_key_valid (js_keys s) \<and> validate_snapshot bracketed s = Inr ()"

type_synonym jwk_set_provider = "string \<Rightarrow> string \<Rightarrow> jwk_set_snapshot res"

definition static_jwk_set :: "jwk_set_snapshot \<Rightarrow> jwk_set_provider" where
  "static_jwk_set snapshot issuer jwks_uri =
     (if issuer \<noteq> js_issuer snapshot \<or> jwks_uri \<noteq> js_jwks_uri snapshot
      then Inl (Exn JwkSetUnavailableError ''issuer/JWKS binding does not match the snapshot'') else Inr snapshot)"

section \<open>Verifying a token\<close>

text \<open>\<open>str.split()\<close>.\<close>

fun words_from :: "string \<Rightarrow> string \<Rightarrow> string list" where
  "words_from cur [] = (if cur = [] then [] else [cur])"
| "words_from cur (c # cs) =
     (if py_space c then (if cur = [] then words_from [] cs else cur # words_from [] cs)
      else words_from (cur @ [c]) cs)"

definition split_words :: "string \<Rightarrow> string list" where
  "split_words s = words_from [] s"

text \<open>The strings of a list of JSON values, if all of them are strings and none is empty.\<close>

fun claim_strings :: "json list \<Rightarrow> string list option" where
  "claim_strings [] = Some []"
| "claim_strings (v # vs) =
     (case v of JStr s \<Rightarrow> if s = [] then None else map_option (\<lambda>ss. s # ss) (claim_strings vs) | _ \<Rightarrow> None)"

definition claim_values :: "bool \<Rightarrow> json \<Rightarrow> string list option" where
  "claim_values split_space_delimited v =
     (case (case v of
              JStr s \<Rightarrow> claim_strings (if split_space_delimited then map JStr (split_words s) else [JStr s])
            | JList vs \<Rightarrow> claim_strings vs
            | _ \<Rightarrow> None) of
        None \<Rightarrow> None
      | Some values \<Rightarrow> if values = [] \<or> \<not> distinct values then None else Some values)"

text \<open>\<open>isinstance(v, str) and v\<close>.\<close>

definition text_claim :: "json \<Rightarrow> string option" where
  "text_claim v = (case v of JStr s \<Rightarrow> if s = [] then None else Some s | _ \<Rightarrow> None)"

text \<open>The claims every token carries: the subject, of a token whose lifetime is in bounds.\<close>

definition claimed_subject :: "oidc_policy \<Rightarrow> (string \<times> json) list \<Rightarrow> string option" where
  "claimed_subject p claims =
     (case (text_claim (json_get claims ''sub''), text_claim (json_get claims ''client_id''),
            text_claim (json_get claims ''jti''), json_get claims ''iat'', json_get claims ''exp'') of
        (Some subject, Some _, Some _, JInt issued_at, JInt expires_at) \<Rightarrow>
          if 300 < length subject \<or> expires_at \<le> issued_at \<or>
             expires_at - issued_at > op_max_token_lifetime_seconds p then None else Some subject
      | _ \<Rightarrow> None)"

definition role_map :: "oidc_policy \<Rightarrow> (string \<times> api_role) list" where
  "role_map p = map (\<lambda>(k, b). (k, ob_role b)) (dict_by ob_role_value (op_role_bindings p))"

definition scope_map :: "oidc_policy \<Rightarrow> (string \<times> string) list" where
  "scope_map p = map (\<lambda>(k, b). (k, ob_api_scope b)) (dict_by ob_scope_value (op_scope_bindings p))"

text \<open>The outer option is the \<open>return None\<close>, the inner one the organization.\<close>

definition claimed_organization :: "oidc_policy \<Rightarrow> (string \<times> json) list \<Rightarrow> string option option" where
  "claimed_organization p claims =
     (case json_get claims (op_organization_claim p) of
        JNull \<Rightarrow> if op_require_organization p then None else Some None
      | JStr s \<Rightarrow> if strip s = [] \<or> 200 < length s then None else Some (Some s)
      | _ \<Rightarrow> None)"

definition map_principal :: "oidc_policy \<Rightarrow> (string \<times> json) list \<Rightarrow> api_principal option" where
  "map_principal p claims =
     (case claimed_subject p claims of
        None \<Rightarrow> None
      | Some subject \<Rightarrow>
     (case (claim_values False (json_get claims (op_role_claim p)), claim_values True (json_get claims (op_scope_claim p))) of
        (Some roles, Some scopes) \<Rightarrow>
          if list_ex (\<lambda>v. map_of (role_map p) v = None) roles \<or> list_ex (\<lambda>v. map_of (scope_map p) v = None) scopes then None
          else
            (let mapped_roles = remdups (map (\<lambda>v. the (map_of (role_map p) v)) roles) in
             if length mapped_roles \<noteq> 1 then None
             else
               (case claimed_organization p claims of
                  None \<Rightarrow> None
                | Some organization \<Rightarrow>
                    (let caller = \<lparr>ap_subject = subject, ap_role = hd mapped_roles, ap_organization_id = organization,
                           ap_scopes = (\<lambda>v. the (map_of (scope_map p) v)) ` set scopes\<rparr>
                     in if api_principal_valid caller then Some caller else None)))
      | _ \<Rightarrow> None))"

record jwt_options =
  jo_algorithms :: "string list"
  jo_audience :: string
  jo_issuer :: string
  jo_leeway :: int
  jo_require :: "string list"

text \<open>PyJWT; nothing is an exception that the verifier catches.\<close>

record 'k jwt_env =
  jv_header :: "string \<Rightarrow> json option"
  jv_key :: "(string \<times> json) list \<Rightarrow> string \<Rightarrow> 'k option"
  jv_decode :: "string \<Rightarrow> 'k \<Rightarrow> jwt_options \<Rightarrow> (string \<times> json) list option"

definition read_header :: "'k jwt_env \<Rightarrow> string \<Rightarrow> (string \<times> json) list option" where
  "read_header jwt token = (case jv_header jwt token of Some (JObj ms) \<Rightarrow> Some ms | _ \<Rightarrow> None)"

text \<open>The algorithm and key id of a header that is acceptable.\<close>

definition accepted_header :: "oidc_policy \<Rightarrow> (string \<times> json) list \<Rightarrow> (string \<times> string) option" where
  "accepted_header p header =
     (case (json_get header ''alg'', json_get header ''typ'', json_get header ''kid'') of
        (JStr algorithm, JStr token_type, JStr key_id) \<Rightarrow>
          if algorithm \<notin> set (op_allowed_algorithms p) \<or> casefold token_type \<notin> set ACCESS_TOKEN_TYPES \<or>
             key_id = [] \<or> 128 < length key_id \<or>
             list_ex (\<lambda>name. map_of header name \<noteq> None) FORBIDDEN_JOSE_HEADERS \<or>
             json_get header ''crit'' \<notin> {JNull, JList []}
          then None else Some (algorithm, key_id)
      | _ \<Rightarrow> None)"

definition decode_options :: "oidc_policy \<Rightarrow> jwt_options" where
  "decode_options p =
     \<lparr>jo_algorithms = op_allowed_algorithms p, jo_audience = op_audience p, jo_issuer = op_issuer p,
      jo_leeway = op_clock_skew_seconds p,
      jo_require = CORE_CLAIMS @ [op_role_claim p, op_scope_claim p] @
        (if op_require_organization p then [op_organization_claim p] else [])\<rparr>"

definition oidc_verify :: "'k jwt_env \<Rightarrow> oidc_policy \<Rightarrow> jwk_set_provider \<Rightarrow> token_verifier" where
  "oidc_verify jwt p provider token =
     (if \<not> list_all (\<lambda>c. (of_char c :: nat) < 128) token then Inr None
      else if token = [] \<or> op_max_token_bytes p < int (length token) then Inr None
      else
     (case Option.bind (read_header jwt token) (accepted_header p) of
        None \<Rightarrow> Inr None
      | Some (algorithm, key_id) \<Rightarrow>
     (case provider (op_issuer p) (op_jwks_uri p) of
        Inl e \<Rightarrow> Inl e
      | Inr snapshot \<Rightarrow>
          if js_issuer snapshot \<noteq> op_issuer p \<or> js_jwks_uri snapshot \<noteq> op_jwks_uri p then
            Inl (Exn JwkSetUnavailableError ''provider returned an unbound JWK snapshot'')
          else
            (case filter (\<lambda>k. jk_kid k = key_id \<and> jk_alg k = algorithm) (js_keys snapshot) of
               [k] \<Rightarrow> Inr (Option.bind (Option.bind (jv_key jwt (verification_dict k) algorithm)
                         (\<lambda>key. jv_decode jwt token key (decode_options p))) (map_principal p))
             | _ \<Rightarrow> Inr None))))"

section \<open>Authentication\<close>

text \<open>The credentials are the scheme and the token of the header.\<close>

definition authenticate :: "token_verifier \<Rightarrow> (string \<times> string) option \<Rightarrow> api_principal res" where
  "authenticate verifier credentials =
     (case credentials of
        None \<Rightarrow> Inl (api_problem 401 ''authentication_required'')
      | Some (scheme, token) \<Rightarrow>
          if map lower_char scheme \<noteq> ''bearer'' then Inl (api_problem 401 ''authentication_required'')
          else
            (case verifier token of
               Inl e \<Rightarrow> if is_instance e ExceptionClass then Inl (api_problem 503 ''authentication_unavailable'') else Inl e
             | Inr None \<Rightarrow> Inl (api_problem 401 ''invalid_bearer_token'')
             | Inr (Some caller) \<Rightarrow>
                 if api_principal_valid caller then Inr caller
                 else Inl (api_problem 503 ''authentication_unavailable'')))"

section \<open>What a verified caller is\<close>

lemma map_of_dict_by:
  assumes "map_of (dict_by key xs) k = Some x" shows "x \<in> set xs \<and> key x = k"
proof -
  have "map_of (fold (\<lambda>x d. dict_set (key x) x d) xs d) k = Some x \<Longrightarrow>
      x \<in> set xs \<and> key x = k \<or> map_of d k = Some x" for d
    by (induction xs arbitrary: d) (fastforce split: if_splits)+
  with assms show ?thesis by (fastforce simp: dict_by_def)
qed

lemma map_of_values: "map_of (map (\<lambda>(k, b). (k, f b)) xs) k = map_option f (map_of xs k)"
  by (induction xs) auto

lemma role_map_bound: "map_of (role_map p) v = Some r \<Longrightarrow> \<exists>b \<in> set (op_role_bindings p). ob_role_value b = v \<and> ob_role b = r"
  unfolding role_map_def map_of_values using map_of_dict_by by fastforce

lemma scope_map_bound:
  "map_of (scope_map p) v = Some x \<Longrightarrow> \<exists>b \<in> set (op_scope_bindings p). ob_scope_value b = v \<and> ob_api_scope b = x"
  unfolding scope_map_def map_of_values using map_of_dict_by by fastforce

lemma claim_values_nonempty: "claim_values b v = Some xs \<Longrightarrow> xs \<noteq> []"
  by (auto simp: claim_values_def split: option.splits if_splits)

text \<open>The constructor of the principal never raises, so its \<open>except\<close> is not reached.\<close>

lemma claimed_fields:
  "claimed_subject p claims = Some subject \<Longrightarrow> subject \<noteq> [] \<and> length subject \<le> 300 \<and>
    json_get claims ''sub'' = JStr subject \<and> (\<exists>issued_at expires_at. json_get claims ''iat'' = JInt issued_at \<and>
      json_get claims ''exp'' = JInt expires_at \<and> issued_at < expires_at \<and>
      expires_at \<le> issued_at + op_max_token_lifetime_seconds p)"
  "claimed_organization p claims = Some organization \<Longrightarrow>
    (case organization of None \<Rightarrow> \<not> op_require_organization p
     | Some x \<Rightarrow> x \<noteq> [] \<and> length x \<le> 200 \<and> json_get claims (op_organization_claim p) = JStr x)"
  by (auto simp: claimed_subject_def text_claim_def claimed_organization_def split: option.splits json.splits if_splits)

lemma map_principal_valid: "map_principal p claims = Some a \<Longrightarrow> api_principal_valid a"
  by (auto simp: map_principal_def Let_def split: option.splits if_splits)

text \<open>What the claims of a mapped principal say.\<close>

definition claims_of_principal :: "oidc_policy \<Rightarrow> (string \<times> json) list \<Rightarrow> api_principal \<Rightarrow> bool" where
  "claims_of_principal p claims a \<longleftrightarrow>
     json_get claims ''sub'' = JStr (ap_subject a) \<and> ap_subject a \<noteq> [] \<and>
     (\<exists>issued_at expires_at. json_get claims ''iat'' = JInt issued_at \<and> json_get claims ''exp'' = JInt expires_at \<and>
        issued_at < expires_at \<and> expires_at \<le> issued_at + op_max_token_lifetime_seconds p) \<and>
     (\<exists>roles. claim_values False (json_get claims (op_role_claim p)) = Some roles \<and> roles \<noteq> [] \<and>
        (\<forall>v \<in> set roles. \<exists>b \<in> set (op_role_bindings p). ob_role_value b = v \<and> ob_role b = ap_role a)) \<and>
     (\<exists>scopes. claim_values True (json_get claims (op_scope_claim p)) = Some scopes \<and>
        (\<forall>v \<in> set scopes. \<exists>b \<in> set (op_scope_bindings p). ob_scope_value b = v \<and> ob_api_scope b \<in> ap_scopes a) \<and>
        (\<forall>x \<in> ap_scopes a. \<exists>b \<in> set (op_scope_bindings p). ob_scope_value b \<in> set scopes \<and> ob_api_scope b = x)) \<and>
     (case ap_organization_id a of None \<Rightarrow> \<not> op_require_organization p
      | Some x \<Rightarrow> x \<noteq> [] \<and> json_get claims (op_organization_claim p) = JStr x)"

lemma map_principal_claims:
  assumes "map_principal p claims = Some a" shows "claims_of_principal p claims a"
proof -
  from assms obtain subject roles scopes organization where
    subject: "claimed_subject p claims = Some subject"
    and roles: "claim_values False (json_get claims (op_role_claim p)) = Some roles"
    and scopes: "claim_values True (json_get claims (op_scope_claim p)) = Some scopes"
    and bound: "\<forall>v \<in> set roles. map_of (role_map p) v \<noteq> None" "\<forall>v \<in> set scopes. map_of (scope_map p) v \<noteq> None"
    and one: "length (remdups (map (\<lambda>v. the (map_of (role_map p) v)) roles)) = 1"
    and organization: "claimed_organization p claims = Some organization"
    and a: "a = \<lparr>ap_subject = subject, ap_role = hd (remdups (map (\<lambda>v. the (map_of (role_map p) v)) roles)),
      ap_organization_id = organization, ap_scopes = (\<lambda>v. the (map_of (scope_map p) v)) ` set scopes\<rparr>"
    by (auto simp: map_principal_def Let_def list_ex_iff split: option.splits if_splits)
  have role: "\<exists>b \<in> set (op_role_bindings p). ob_role_value b = v \<and> ob_role b = ap_role a" if v: "v \<in> set roles" for v
  proof -
    obtain r where r: "map_of (role_map p) v = Some r" using bound(1) v by auto
    obtain x where x: "remdups (map (\<lambda>v. the (map_of (role_map p) v)) roles) = [x]"
      using one by (auto simp: length_Suc_conv)
    have "r \<in> set (remdups (map (\<lambda>v. the (map_of (role_map p) v)) roles))" using v r by force
    then have "r = ap_role a" unfolding a x by simp
    with role_map_bound [OF r] show ?thesis by simp
  qed
  have scope: "\<exists>b \<in> set (op_scope_bindings p). ob_scope_value b = v \<and> ob_api_scope b = the (map_of (scope_map p) v)"
    if "v \<in> set scopes" for v
    using bound(2) that scope_map_bound [of p v] by fastforce
  have "(\<forall>v \<in> set scopes. \<exists>b \<in> set (op_scope_bindings p). ob_scope_value b = v \<and> ob_api_scope b \<in> ap_scopes a) \<and>
      (\<forall>x \<in> ap_scopes a. \<exists>b \<in> set (op_scope_bindings p). ob_scope_value b \<in> set scopes \<and> ob_api_scope b = x)"
    using scope unfolding a by fastforce
  moreover have "ap_subject a = subject" "ap_organization_id a = organization" by (simp_all add: a)
  ultimately show ?thesis
    using claimed_fields(1) [OF subject] claimed_fields(2) [OF organization] roles scopes role claim_values_nonempty [OF roles]
    unfolding claims_of_principal_def by (auto split: option.splits)
qed

lemma oidc_verify_Some:
  assumes "oidc_verify jwt p provider token = Inr (Some a)"
  shows "\<exists>snapshot k key claims. provider (op_issuer p) (op_jwks_uri p) = Inr snapshot \<and>
    js_issuer snapshot = op_issuer p \<and> js_jwks_uri snapshot = op_jwks_uri p \<and> k \<in> set (js_keys snapshot) \<and>
    jk_alg k \<in> set (op_allowed_algorithms p) \<and> jv_key jwt (verification_dict k) (jk_alg k) = Some key \<and>
    jv_decode jwt token key (decode_options p) = Some claims \<and> map_principal p claims = Some a"
proof -
  from assms obtain algorithm key_id header snapshot k where
    header: "accepted_header p header = Some (algorithm, key_id)"
    and provider: "provider (op_issuer p) (op_jwks_uri p) = Inr snapshot" "js_issuer snapshot = op_issuer p"
      "js_jwks_uri snapshot = op_jwks_uri p"
    and k: "filter (\<lambda>k. jk_kid k = key_id \<and> jk_alg k = algorithm) (js_keys snapshot) = [k]"
    and r: "Option.bind (Option.bind (jv_key jwt (verification_dict k) algorithm)
      (\<lambda>key. jv_decode jwt token key (decode_options p))) (map_principal p) = Some a"
    unfolding oidc_verify_def
    by (auto split: if_splits option.splits sum.splits list.splits simp: bind_eq_Some_conv)
  have "k \<in> set (filter (\<lambda>k. jk_kid k = key_id \<and> jk_alg k = algorithm) (js_keys snapshot))" unfolding k by simp
  then have "k \<in> set (js_keys snapshot)" "jk_alg k = algorithm" by simp_all
  moreover have "algorithm \<in> set (op_allowed_algorithms p)"
    using header by (auto simp: accepted_header_def split: json.splits if_splits)
  ultimately show ?thesis using provider r by (auto simp: bind_eq_Some_conv)
qed

text \<open>No scope that a policy can bind has the sign that separates a program's id from its version.\<close>

lemma bound_scope_chars:
  assumes "oidc_policy_valid bracketed p" "b \<in> set (op_scope_bindings p)" shows "CHR ''@'' \<notin> set (ob_api_scope b)"
proof -
  have "oidc_scope_binding_valid b"
    using assms by (simp add: oidc_policy_valid_def oidc_fields_valid_def list_all_iff)
  then show ?thesis
    by (cases "ob_api_scope b")
       (auto simp: oidc_scope_binding_valid_def binding_char_def char_class_defs list_all_iff)
qed

lemma oidc_scope_chars:
  assumes "oidc_policy_valid bracketed p" "oidc_verify jwt p provider token = Inr (Some a)" "x \<in> ap_scopes a"
  shows "CHR ''@'' \<notin> set x"
proof -
  obtain claims where "claims_of_principal p claims a"
    using oidc_verify_Some [OF assms(2)] map_principal_claims by blast
  then obtain b where "b \<in> set (op_scope_bindings p)" "ob_api_scope b = x"
    using assms(3) unfolding claims_of_principal_def by blast
  with bound_scope_chars [OF assms(1)] show ?thesis by blast
qed

section \<open>An example\<close>

definition demo_policy :: oidc_policy where
  "demo_policy = \<lparr>op_policy_id = ''p'', op_policy_version = ''1'', op_issuer = ''https://i'', op_audience = ''a'',
     op_jwks_uri = ''https://i/k'', op_allowed_algorithms = [''RS256''], op_role_claim = ''roles'', op_scope_claim = ''scope'',
     op_organization_claim = ''organization_id'', op_role_bindings = [\<lparr>ob_role_value = ''adm'', ob_role = API_ADMINISTRATOR\<rparr>],
     op_scope_bindings = [\<lparr>ob_scope_value = ''d'', ob_api_scope = ''projects:decide:any''\<rparr>,
       \<lparr>ob_scope_value = ''r'', ob_api_scope = ''projects:read:any''\<rparr>],
     op_require_organization = True, op_clock_skew_seconds = 30, op_max_token_lifetime_seconds = 900,
     op_max_token_bytes = 16384\<rparr>"

definition demo_key :: json_web_key where
  "demo_key = \<lparr>jk_kid = ''k'', jk_kty = ''RSA'', jk_alg = ''RS256'', jk_use = ''sig'', jk_key_ops = None, jk_n = Some ''n'',
     jk_e = Some ''e'', jk_crv = None, jk_x = None, jk_y = None\<rparr>"

definition demo_keys :: jwk_set_snapshot where
  "demo_keys = \<lparr>js_issuer = ''https://i'', js_jwks_uri = ''https://i/k'', js_version = ''1'', js_keys = [demo_key]\<rparr>"

definition demo_claims :: "string \<Rightarrow> (string \<times> json) list" where
  "demo_claims scopes = [(''iss'', JStr ''https://i''), (''sub'', JStr ''u''), (''aud'', JStr ''a''), (''exp'', JInt 160),
     (''iat'', JInt 100), (''jti'', JStr ''t''), (''client_id'', JStr ''c''), (''roles'', JList [JStr ''adm'']),
     (''scope'', JStr scopes), (''organization_id'', JStr ''o'')]"

definition demo_jwt :: "string \<Rightarrow> unit jwt_env" where
  "demo_jwt scopes = \<lparr>jv_header = (\<lambda>_. Some (JObj [(''alg'', JStr ''RS256''), (''kid'', JStr ''k''), (''typ'', JStr ''at+jwt'')])),
     jv_key = (\<lambda>_ _. Some ()), jv_decode = (\<lambda>_ _ _. Some (demo_claims scopes))\<rparr>"

definition demo_administrator :: api_principal where
  "demo_administrator = \<lparr>ap_subject = ''u'', ap_role = API_ADMINISTRATOR, ap_organization_id = Some ''o'',
     ap_scopes = {''projects:decide:any'', ''projects:read:any''}\<rparr>"

lemma demo_policy_valid: "oidc_policy_valid bracketed demo_policy \<and> jwk_set_snapshot_valid bracketed demo_keys"
proof -
  have "require_https_identity_uri bracketed ''https://i'' = Inr ()" "require_https_identity_uri bracketed ''https://i/k'' = Inr ()"
    by code_simp+
  moreover have "oidc_fields_valid demo_policy" by code_simp
  moreover have "json_web_key_valid demo_key" "is_safe_id ''1''" by code_simp+
  ultimately show ?thesis
    by (simp add: oidc_policy_valid_def validate_policy_def demo_policy_def then_check_def check_that_def
        require_unique_def ASYMMETRIC_ALGORITHMS_def CORE_CLAIMS_def jwk_set_snapshot_valid_def validate_snapshot_def
        demo_keys_def)
qed

lemma demo_authenticates:
  "authenticate (oidc_verify (demo_jwt ''d r'') demo_policy (static_jwk_set demo_keys)) (Some (''Bearer'', ''x.y.z''))
     = Inr demo_administrator"
  by code_simp

section \<open>Properties\<close>

text \<open>
  C31. A caller that authentication lets through is exactly who the token says: the token was decoded with a key of
  the issuer's own key set and an algorithm that the policy allows, its subject is the caller's, its lifetime
  is within the policy's bound, every role in it is bound to the caller's one role, every scope of the caller is
  bound to a scope in it and every scope in it to one of the caller's, and the organization is its own.
\<close>

theorem callers_are_bound:
  assumes "authenticate (oidc_verify jwt p provider) credentials = Inr a"
  shows "\<exists>scheme token snapshot k key claims. credentials = Some (scheme, token) \<and>
    provider (op_issuer p) (op_jwks_uri p) = Inr snapshot \<and> js_issuer snapshot = op_issuer p \<and>
    k \<in> set (js_keys snapshot) \<and> jk_alg k \<in> set (op_allowed_algorithms p) \<and>
    jv_key jwt (verification_dict k) (jk_alg k) = Some key \<and>
    jv_decode jwt token key (decode_options p) = Some claims \<and> claims_of_principal p claims a"
proof -
  from assms obtain scheme token where c: "credentials = Some (scheme, token)"
    and v: "oidc_verify jwt p provider token = Inr (Some a)"
    by (auto simp: authenticate_def split: option.splits prod.splits sum.splits if_splits)
  from oidc_verify_Some [OF v] map_principal_claims c show ?thesis by blast
qed

theorem callers_are_bound_witness:
  "\<exists>claims. jv_decode (demo_jwt ''d r'') ''x.y.z'' () (decode_options demo_policy) = Some claims \<and>
     claims_of_principal demo_policy claims demo_administrator"
proof -
  obtain token key claims where "token = ''x.y.z''" "(key :: unit) = ()"
    "jv_decode (demo_jwt ''d r'') token key (decode_options demo_policy) = Some claims"
    "claims_of_principal demo_policy claims demo_administrator"
    using callers_are_bound [OF demo_authenticates] by auto
  then show ?thesis by auto
qed

text \<open>A role or scope without a binding makes the whole token invalid.\<close>

theorem unbound_claims_refused:
  assumes "claim_values False (json_get claims (op_role_claim p)) = Some roles"
    and "claim_values True (json_get claims (op_scope_claim p)) = Some scopes"
    and "v \<in> set roles \<and> v \<notin> ob_role_value ` set (op_role_bindings p) \<or>
         v \<in> set scopes \<and> v \<notin> ob_scope_value ` set (op_scope_bindings p)"
  shows "map_principal p claims = None"
proof -
  have "v \<notin> ob_role_value ` set (op_role_bindings p) \<Longrightarrow> map_of (role_map p) v = None"
    "v \<notin> ob_scope_value ` set (op_scope_bindings p) \<Longrightarrow> map_of (scope_map p) v = None"
    by (metis imageI not_Some_eq role_map_bound) (metis imageI not_Some_eq scope_map_bound)
  with assms(3) have "list_ex (\<lambda>v. map_of (role_map p) v = None) roles \<or> list_ex (\<lambda>v. map_of (scope_map p) v = None) scopes"
    unfolding list_ex_iff by blast
  then show ?thesis using assms(1,2) by (cases "claimed_subject p claims") (simp_all add: map_principal_def)
qed

theorem unbound_claims_refused_witness:
  "oidc_verify (demo_jwt ''d x'') demo_policy (static_jwk_set demo_keys) ''x.y.z'' = Inr None"
proof -
  have "claim_values False (json_get (demo_claims ''d x'') (op_role_claim demo_policy)) = Some [''adm'']"
    "claim_values True (json_get (demo_claims ''d x'') (op_scope_claim demo_policy)) = Some [''d'', ''x'']"
    by code_simp+
  from unbound_claims_refused [OF this, of "''x''"]
  have "map_principal demo_policy (demo_claims ''d x'') = None" by (simp add: demo_policy_def)
  moreover have "Option.bind (read_header (demo_jwt ''d x'') ''x.y.z'') (accepted_header demo_policy) = Some (''RS256'', ''k'')"
    "static_jwk_set demo_keys (op_issuer demo_policy) (op_jwks_uri demo_policy) = Inr demo_keys" by code_simp+
  moreover have "jv_decode (demo_jwt ''d x'') t u v = Some (demo_claims ''d x'')" "jv_key (demo_jwt ''d x'') w a = Some ()" for t u v w a
    by (simp_all add: demo_jwt_def)
  ultimately show ?thesis
    by (simp add: oidc_verify_def demo_keys_def demo_key_def demo_policy_def)
qed

end
