(* ===== verification/ProjectApi.thy ===== *)
theory ProjectApi
  imports Client ApiIdentity
begin

text \<open>
  \<open>api/project_routes.py\<close> with the request and response models of \<open>api/models.py\<close> that it uses: registering a
  project, reading it, and deciding its gates, each for an authenticated principal.  A handler takes what the
  framework has validated and returns a response or raises, with the state it leaves.  Other processes may act
  between its steps: \<open>between i\<close> is what they do before the \<open>i\<close>-th.  The artifact staging service is a parameter; so is
  the digest \<open>h\<close> of a text.
\<close>

section \<open>Requests\<close>

record staged_artifact_ref =
  sa_artifact_id :: string
  sa_sha256 :: string
  sa_byte_size :: int
  sa_media_type :: string

definition staged_artifact_ref_valid :: "staged_artifact_ref \<Rightarrow> bool" where
  "staged_artifact_ref_valid a \<longleftrightarrow> is_safe_id (sa_artifact_id a) \<and> is_sha256 (sa_sha256 a) \<and> 1 \<le> sa_byte_size a \<and>
     1 \<le> length (sa_media_type a) \<and> length (sa_media_type a) \<le> 200"

record registration_request =
  gq_title :: string
  gq_proposal :: staged_artifact_ref
  gq_sidecar :: "staged_artifact_ref option"
  gq_review_profile :: "string option"
  gq_certification_level :: "string option"

text \<open>A policy id, \<open>@\<close> and a version: neither contains the sign.\<close>

definition is_profile_selector :: "string \<Rightarrow> bool" where
  "is_profile_selector s \<longleftrightarrow> CHR ''@'' \<in> set s \<and> is_policy_id (before (CHR ''@'') s) \<and> is_semver (after (CHR ''@'') s)"

definition registration_request_valid :: "registration_request \<Rightarrow> bool" where
  "registration_request_valid q \<longleftrightarrow> 1 \<le> length (gq_title q) \<and> length (gq_title q) \<le> 300 \<and>
     staged_artifact_ref_valid (gq_proposal q) \<and> pred_option staged_artifact_ref_valid (gq_sidecar q) \<and>
     pred_option is_profile_selector (gq_review_profile q) \<and>
     pred_option (\<lambda>x. 1 \<le> length x \<and> length x \<le> 100) (gq_certification_level q)"

record decision_request =
  dq_expected_revision :: int
  dq_command :: string
  dq_rationale :: string
  dq_adjustments :: "reviewer_adjustment list"

definition decision_request_valid :: "review_stage \<Rightarrow> decision_request \<Rightarrow> bool" where
  "decision_request_valid st q \<longleftrightarrow> 1 \<le> dq_expected_revision q \<and> dq_command q \<in> set (decision_commands st) \<and>
     1 \<le> length (dq_rationale q) \<and> length (dq_rationale q) \<le> 4000 \<and> list_all reviewer_adjustment_valid (dq_adjustments q)"

section \<open>Views\<close>

record project_artifact_view =
  fv_artifact_id :: string
  fv_role :: string
  fv_media_type :: string
  fv_sha256 :: string
  fv_byte_size :: int

record project_registration_response =
  gs_project_id :: string
  gs_display_id :: string
  gs_title :: string
  gs_status :: project_status
  gs_revision :: int
  gs_proposer_org_id :: string
  gs_artifact :: project_artifact_view
  gs_replayed :: bool

record project_stage_view =
  sv_submission_artifact_id :: "string option"
  sv_report_id :: "string option"
  sv_review_profile_selector :: "string option"
  sv_review_profile_sha256 :: "string option"
  sv_decision_command :: "string option"
  sv_decision_recorded_at :: "int option"

record project_execution_view =
  ev_started_at :: "int option"
  ev_completion_submitted_at :: "int option"
  ev_mentor_assigned :: bool
  ev_progress_note_count :: int

record project_resource_view =
  uv_project_id :: string
  uv_display_id :: string
  uv_title :: string
  uv_status :: project_status
  uv_revision :: int
  uv_created_at :: int
  uv_updated_at :: int
  uv_proposer_org_id :: string
  uv_certification_level :: "string option"
  uv_artifacts :: "project_artifact_view list"
  uv_registration :: project_stage_view
  uv_execution :: project_execution_view
  uv_completion :: project_stage_view
  uv_notification_event_types :: "string list"

record project_command_response =
  ps_project_id :: string
  ps_status :: string
  ps_dossier_status :: project_status
  ps_dossier_revision :: int
  ps_report_id :: "string option"
  ps_allowed_commands :: "string list"
  ps_message :: string

fun pipeline_status_value :: "pipeline_status \<Rightarrow> string" where
  "pipeline_status_value SUCCEEDED = ''succeeded''"
| "pipeline_status_value WAITING_HUMAN = ''waiting_human''"
| "pipeline_status_value BLOCKED = ''blocked''"
| "pipeline_status_value STALE = ''stale''"
| "pipeline_status_value RETRYABLE_FAILURE = ''retryable_failure''"
| "pipeline_status_value TERMINAL_FAILURE = ''terminal_failure''"
| "pipeline_status_value CANCELLED = ''cancelled''"

definition project_artifact_view_of :: "artifact_ref \<Rightarrow> project_artifact_view" where
  "project_artifact_view_of a =
     \<lparr>fv_artifact_id = ar_artifact_id a, fv_role = ar_role a, fv_media_type = ar_media_type a, fv_sha256 = ar_sha256 a,
      fv_byte_size = ar_byte_size a\<rparr>"

definition project_command_view :: "pipeline_result \<Rightarrow> project_command_response" where
  "project_command_view r =
     \<lparr>ps_project_id = pr_project_id r, ps_status = pipeline_status_value (pr_status r),
      ps_dossier_status = pr_dossier_status r, ps_dossier_revision = pr_dossier_revision r, ps_report_id = pr_report_id r,
      ps_allowed_commands = pr_allowed_commands r, ps_message = pr_message r\<rparr>"

definition project_registration_view :: "project_dossier \<Rightarrow> bool \<Rightarrow> project_registration_response res" where
  "project_registration_view d replayed =
     (case pd_artifacts d of
        [] \<Rightarrow> Inl (Exn IndexError ''tuple index out of range'')
      | a # _ \<Rightarrow>
          (case rc_proposer_org_id (pd_review_context d) of
             None \<Rightarrow> Inl (Exn RuntimeError ''API-created dossier is missing proposer organization'')
           | Some organization \<Rightarrow> Inr
               \<lparr>gs_project_id = pd_project_id d, gs_display_id = pd_display_id d, gs_title = pd_title d,
                gs_status = pd_status d, gs_revision = pd_revision d, gs_proposer_org_id = organization,
                gs_artifact = project_artifact_view_of a, gs_replayed = replayed\<rparr>))"

definition project_stage_view_of :: "stage_review \<Rightarrow> project_stage_view" where
  "project_stage_view_of rv =
     \<lparr>sv_submission_artifact_id = st_submission_artifact_id rv, sv_report_id = st_report_id rv,
      sv_review_profile_selector = map_option profile_selector (st_review_profile rv),
      sv_review_profile_sha256 = map_option rp_sha256 (st_review_profile rv),
      sv_decision_command = map_option hd_command (st_decision rv),
      sv_decision_recorded_at = map_option hd_decided_at (st_decision rv)\<rparr>"

definition project_resource_view_of :: "project_dossier \<Rightarrow> project_resource_view res" where
  "project_resource_view_of d =
     (case rc_proposer_org_id (pd_review_context d) of
        None \<Rightarrow> Inl (Exn RuntimeError ''API-readable dossier is missing proposer organization'')
      | Some organization \<Rightarrow> Inr
          \<lparr>uv_project_id = pd_project_id d, uv_display_id = pd_display_id d, uv_title = pd_title d,
           uv_status = pd_status d, uv_revision = pd_revision d, uv_created_at = pd_created_at d,
           uv_updated_at = pd_updated_at d, uv_proposer_org_id = organization,
           uv_certification_level = rc_certification_level (pd_review_context d),
           uv_artifacts = map project_artifact_view_of (pd_artifacts d),
           uv_registration = project_stage_view_of (pd_registration d),
           uv_execution = \<lparr>ev_started_at = xr_started_at (pd_execution d),
             ev_completion_submitted_at = xr_completion_submitted_at (pd_execution d),
             ev_mentor_assigned = (xr_mentor_ref (pd_execution d) \<noteq> None),
             ev_progress_note_count = int (length (xr_notes (pd_execution d)))\<rparr>,
           uv_completion = project_stage_view_of (pd_completion d),
           uv_notification_event_types = map nr_event_type (pd_notifications d)\<rparr>)"

section \<open>Identities\<close>

definition NUL :: char where
  "NUL = CHR 0x00"

definition api_project_id :: "(string \<Rightarrow> string) \<Rightarrow> api_principal \<Rightarrow> string \<Rightarrow> string" where
  "api_project_id h caller key =
     ''api-'' @ take 32 (h (ap_subject caller @ [NUL] @ ''projects:create'' @ [NUL] @ key))"

definition decision_idempotency_key :: "(string \<Rightarrow> string) \<Rightarrow> string \<Rightarrow> string" where
  "decision_idempotency_key h raw_key = ''api-project-decision-'' @ take 40 (h raw_key)"

definition metadata_get :: "artifact_ref option \<Rightarrow> string \<Rightarrow> string option" where
  "metadata_get a k = (case a of None \<Rightarrow> None | Some a \<Rightarrow> map_of (ar_metadata a) k)"

definition matches_project_registration ::
  "project_dossier \<Rightarrow> registration_request \<Rightarrow> review_context \<Rightarrow> bool" where
  "matches_project_registration d q ctx \<longleftrightarrow>
     (let a = (case pd_artifacts d of [] \<Rightarrow> None | a # _ \<Rightarrow> Some a) in
      pd_title d = strip (gq_title q) \<and> pd_review_context d = ctx \<and>
      (case a of None \<Rightarrow> False
       | Some a \<Rightarrow> ar_sha256 a = sa_sha256 (gq_proposal q) \<and> ar_byte_size a = sa_byte_size (gq_proposal q) \<and>
           ar_media_type a = sa_media_type (gq_proposal q)) \<and>
      metadata_get a ''sidecar_sha256'' = map_option sa_sha256 (gq_sidecar q) \<and>
      metadata_get a ''sidecar_byte_size'' = map_option (\<lambda>x. str_int (sa_byte_size x)) (gq_sidecar q) \<and>
      metadata_get a ''sidecar_media_type'' = map_option sa_media_type (gq_sidecar q) \<and>
      (gq_review_profile q = None \<or> map_option profile_selector (pd_review_profile d) = gq_review_profile q))"

definition is_creation_event :: "api_principal \<Rightarrow> project_dossier \<Rightarrow> audit_event \<Rightarrow> bool" where
  "is_creation_event caller d e \<longleftrightarrow> ae_event_id e \<in> set (pd_audit_event_ids d) \<and> ae_project_id e = pd_project_id d \<and>
     ae_event_type e = ''project_created'' \<and> ae_actor_id e = ap_subject caller \<and>
     ae_actor_role e = api_role_value (ap_role caller) \<and> ae_dossier_revision e = 1"

definition has_principal_creation_audit :: "api_principal \<Rightarrow> project_dossier \<Rightarrow> 'n client_state \<Rightarrow> bool res" where
  "has_principal_creation_audit caller d s =
     map_sum id (list_ex (is_creation_event caller d)) (audit_entries (tx_audit (pj_ws (cw_project (is_world s)))))"

section \<open>Staged artifacts\<close>

definition JSON_MEDIA_TYPE :: string where
  "JSON_MEDIA_TYPE = ''application/json''"

definition MAX_STAGED_PPTX_BYTES :: int where
  "MAX_STAGED_PPTX_BYTES = 64 * 1024 * 1024"

definition MAX_STAGED_SIDECAR_BYTES :: int where
  "MAX_STAGED_SIDECAR_BYTES = 2 * 1024 * 1024"

datatype artifact_purpose = REGISTRATION_PROPOSAL | PPTX_SIDECAR

type_synonym staged_artifact_resolver =
  "staged_artifact_ref \<Rightarrow> api_principal \<Rightarrow> artifact_purpose \<Rightarrow> string option res"

definition reject_all_artifacts :: staged_artifact_resolver where
  "reject_all_artifacts artifact caller purpose = Inr None"

record 'n api_env =
  ai_client :: "'n client_env"
  ai_hash :: "string \<Rightarrow> string"
  ai_resolver :: staged_artifact_resolver
  ai_sources :: source_dir

definition integrity_failure :: exn where
  "integrity_failure = api_problem 409 ''staged_artifact_integrity_failure''"

definition validate_staged_artifact_claim :: "artifact_purpose \<Rightarrow> staged_artifact_ref \<Rightarrow> string res" where
  "validate_staged_artifact_claim purpose a =
     (let (media, maximum, suffix) = (case purpose of
            REGISTRATION_PROPOSAL \<Rightarrow> (PPTX_MEDIA_TYPE, MAX_STAGED_PPTX_BYTES, ''.pptx'')
          | PPTX_SIDECAR \<Rightarrow> (JSON_MEDIA_TYPE, MAX_STAGED_SIDECAR_BYTES, ''.json''))
      in if sa_media_type a \<noteq> media then Inl (api_problem 422 ''staged_artifact_media_type_invalid'')
         else if sa_byte_size a > maximum then Inl (api_problem 413 ''staged_artifact_too_large'')
         else Inr suffix)"

definition resolve_staged_artifact ::
  "'n api_env \<Rightarrow> api_principal \<Rightarrow> artifact_purpose \<Rightarrow> staged_artifact_ref \<Rightarrow> string res" where
  "resolve_staged_artifact api caller purpose a =
     (case validate_staged_artifact_claim purpose a of
        Inl e \<Rightarrow> Inl e
      | Inr suffix \<Rightarrow>
     (case ai_resolver api a caller purpose of
        Inl e \<Rightarrow> if is_instance e ExceptionClass then Inl (api_problem 503 ''staged_artifact_service_unavailable'') else Inl e
      | Inr None \<Rightarrow> Inl (api_problem 404 ''staged_artifact_not_found'')
      | Inr (Some path) \<Rightarrow>
     (case ai_sources api path of
        None \<Rightarrow> Inl integrity_failure
      | Some f \<Rightarrow>
          if casefold (path_suffix path) \<noteq> suffix \<or> sf_size f \<noteq> sa_byte_size a then Inl integrity_failure
          else if sf_sha256 f \<noteq> sa_sha256 a then Inl integrity_failure
          else Inr path)))"

section \<open>Who may do what\<close>

definition require_project_creation :: "api_principal \<Rightarrow> string res" where
  "require_project_creation caller =
     (if ap_role caller \<notin> {API_PROJECT_OWNER, API_ADMINISTRATOR} then Inl (api_problem 403 ''project_creation_role_forbidden'')
      else if ''projects:create'' \<notin> ap_scopes caller then Inl (api_problem 403 ''project_creation_scope_forbidden'')
      else (case ap_organization_id caller of
              None \<Rightarrow> Inl (api_problem 403 ''project_organization_required'') | Some organization \<Rightarrow> Inr organization))"

definition stored_project :: "string \<Rightarrow> 'n client_state \<Rightarrow> project_dossier res" where
  "stored_project p s = dossier_load p (pj_store (cw_project (is_world s)))"

definition load_project :: "string \<Rightarrow> 'n client_state \<Rightarrow> project_dossier res" where
  "load_project p s =
     (case stored_project p s of
        Inl e \<Rightarrow> if is_instance e DossierNotFoundError then Inl (api_problem 404 ''project_not_found'') else Inl e
      | Inr d \<Rightarrow> Inr d)"

definition organization_allowed :: "api_principal \<Rightarrow> project_dossier \<Rightarrow> bool" where
  "organization_allowed caller d \<longleftrightarrow> ''organizations:any'' \<in> ap_scopes caller \<or>
     (case rc_proposer_org_id (pd_review_context d) of
        None \<Rightarrow> False
      | Some x \<Rightarrow> ''organization:'' @ x @ '':access'' \<in> ap_scopes caller \<or> ap_organization_id caller = Some x)"

definition require_project_organization :: "api_principal \<Rightarrow> project_dossier \<Rightarrow> unit res" where
  "require_project_organization caller d =
     (if organization_allowed caller d then Inr () else Inl (api_problem 403 ''project_organization_forbidden''))"

definition load_authorized_read_project :: "api_principal \<Rightarrow> string \<Rightarrow> 'n client_state \<Rightarrow> project_dossier res" where
  "load_authorized_read_project caller p s =
     (if ap_role caller = API_PROJECT_OWNER \<and> ''projects:read:own'' \<notin> ap_scopes caller then
        Inl (api_problem 403 ''project_read_scope_forbidden'')
      else if ap_role caller = API_ADMINISTRATOR \<and> ''projects:read:any'' \<notin> ap_scopes caller \<and>
        ''project:'' @ p @ '':read'' \<notin> ap_scopes caller then
        Inl (api_problem 403 ''project_read_scope_forbidden'')
      else if ap_role caller \<notin> {API_PROJECT_OWNER, API_ADMINISTRATOR} then
        Inl (api_problem 403 ''project_read_role_forbidden'')
      else
     (case load_project p s of
        Inl e \<Rightarrow> Inl e
      | Inr d \<Rightarrow>
     (case require_project_organization caller d of
        Inl e \<Rightarrow> Inl e
      | Inr _ \<Rightarrow>
          if ap_role caller = API_PROJECT_OWNER then
            (case has_principal_creation_audit caller d s of
               Inl e \<Rightarrow> Inl e
             | Inr owner \<Rightarrow> if owner then Inr d else Inl (api_problem 403 ''project_owner_read_forbidden''))
          else Inr d)))"

definition load_authorized_decision_project :: "api_principal \<Rightarrow> string \<Rightarrow> 'n client_state \<Rightarrow> project_dossier res" where
  "load_authorized_decision_project caller p s =
     (if ap_role caller \<noteq> API_ADMINISTRATOR then Inl (api_problem 403 ''administrator_role_required'')
      else if ''projects:decide:any'' \<notin> ap_scopes caller \<and> ''project:'' @ p @ '':decide'' \<notin> ap_scopes caller then
        Inl (api_problem 403 ''project_decision_scope_forbidden'')
      else
     (case load_project p s of
        Inl e \<Rightarrow> Inl e
      | Inr d \<Rightarrow> (case require_project_organization caller d of Inl e \<Rightarrow> Inl e | Inr _ \<Rightarrow> Inr d)))"

section \<open>Handlers\<close>

definition decision_event_type :: "review_stage \<Rightarrow> string" where
  "decision_event_type st = (case st of REGISTRATION \<Rightarrow> ''registration_decided'' | COMPLETION \<Rightarrow> ''completion_decided'')"

definition expected_decision_status :: "string \<Rightarrow> project_status option" where
  "expected_decision_status = map_of [(''approve'', REGISTRATION_APPROVED), (''reject'', REGISTRATION_REJECTED),
     (''accept'', COMPLETION_ACCEPTED), (''not_accept'', COMPLETION_NOT_ACCEPTED)]"

definition expected_decision_message :: "string \<Rightarrow> string option" where
  "expected_decision_message = map_of [(''approve'', ''registration_approved''), (''reject'', ''registration_rejected''),
     (''accept'', ''completion_decided''), (''not_accept'', ''completion_decided'')]"

definition is_decision_event :: "api_principal \<Rightarrow> string \<Rightarrow> review_stage \<Rightarrow> decision_request \<Rightarrow> project_dossier \<Rightarrow> audit_event \<Rightarrow> bool" where
  "is_decision_event caller p st q d e \<longleftrightarrow> ae_event_id e \<in> set (pd_audit_event_ids d) \<and> ae_project_id e = p \<and>
     ae_event_type e = decision_event_type st \<and> ae_actor_id e = ap_subject caller \<and>
     ae_actor_role e = api_role_value API_ADMINISTRATOR \<and> ae_dossier_revision e = dq_expected_revision q + 1 \<and>
     json_get (ae_details e) ''command'' = JStr (dq_command q)"

text \<open>What a stored decision must be for a result to be returned; the literals are looked up in \<open>text'\<close>.\<close>

definition result_fits :: "(string \<Rightarrow> string) \<Rightarrow> string \<Rightarrow> decision_request \<Rightarrow> pipeline_result \<Rightarrow> bool" where
  "result_fits text' p q r \<longleftrightarrow> pr_pipeline_id r = ''two-gate-pptx'' \<and> pr_pipeline_version r = ''v1alpha1'' \<and>
     pr_status r = SUCCEEDED \<and> pr_project_id r = p \<and>
     Some (pr_dossier_status r) = expected_decision_status (dq_command q) \<and>
     pr_dossier_revision r = dq_expected_revision q + 1 \<and> pr_report_id r = None \<and> pr_allowed_commands r = [] \<and>
     Some (pr_message r) = map_option text' (expected_decision_message (dq_command q))"

definition decision_fits :: "api_principal \<Rightarrow> review_stage \<Rightarrow> decision_request \<Rightarrow> human_decision \<Rightarrow> bool" where
  "decision_fits caller st q h \<longleftrightarrow> hd_stage h = st \<and> hd_command h = dq_command q \<and> hd_actor_id h = ap_subject caller \<and>
     hd_actor_role h = api_role_value API_ADMINISTRATOR \<and> hd_rationale h = strip (dq_rationale q) \<and>
     hd_adjustments h = dq_adjustments q \<and> hd_authority_context h = ''verified_api_principal''"

definition verify_decision_result ::
  "'n api_env \<Rightarrow> api_principal \<Rightarrow> string \<Rightarrow> review_stage \<Rightarrow> decision_request \<Rightarrow> pipeline_result \<Rightarrow> 'n client_state \<Rightarrow> unit res" where
  "verify_decision_result api caller p st q r s =
     (case load_project p s of
        Inl e \<Rightarrow> Inl e
      | Inr d \<Rightarrow>
     (case audit_entries (tx_audit (pj_ws (cw_project (is_world s)))) of
        Inl e \<Rightarrow> Inl e
      | Inr es \<Rightarrow>
          if \<not> result_fits (pv_text (cl_project (ai_client api))) p q r \<or> pd_revision d < pr_dossier_revision r \<or>
             (case st_decision (stage_review_of st d) of None \<Rightarrow> True | Some h \<Rightarrow> \<not> decision_fits caller st q h) \<or>
             \<not> list_ex (is_decision_event caller p st q d) es
          then Inl (api_problem 409 ''project_decision_replay_integrity_failure'') else Inr ()))"

text \<open>The \<open>except\<close> clauses around a decision.\<close>

definition decision_problem :: "exn \<Rightarrow> exn" where
  "decision_problem e =
     (if is_instance e IdempotencyConflictError then api_problem 409 ''project_decision_idempotency_conflict''
      else if is_instance e IdempotencyError then api_problem 409 ''project_decision_idempotency_integrity_failure''
      else if is_instance e RevisionConflictError then api_problem 409 ''stale_project_revision''
      else if is_instance e WorkflowError then api_problem 409 ''project_transition_conflict''
      else if is_instance e ValueError then api_problem 422 ''project_decision_invalid''
      else if exn_is e [TransactionBlockedError, TransactionConflictError, TransactionIntegrityError] then
        api_problem 409 ''project_decision_transaction_integrity_failure''
      else e)"

definition decide_project ::
  "'n api_env \<Rightarrow> (nat \<Rightarrow> int) \<Rightarrow> svc_call \<Rightarrow> (nat \<Rightarrow> 'n client_state \<Rightarrow> 'n client_state) \<Rightarrow> review_stage \<Rightarrow> api_principal \<Rightarrow>
   string \<Rightarrow> decision_request \<Rightarrow> string \<Rightarrow> 'n client_state \<Rightarrow> (project_command_response, 'n client_state) outcome" where
  "decide_project api t c between st caller p q idempotency_key s =
     seq (pure (load_authorized_decision_project caller p s) s) (\<lambda>_ s.
     seq (handle
            (client_decide (ai_client api) t c st p (dq_command q) (ap_subject caller) (dq_rationale q) (dq_adjustments q)
               (Some (dq_expected_revision q)) ''verified_api_principal''
               (Some (decision_idempotency_key (ai_hash api) idempotency_key)) (between 0 s))
            (\<lambda>e s. (Inl (decision_problem e), s))) (\<lambda>r s.
     let s = between 1 s in
     seq (pure (verify_decision_result api caller p st q r s) s) (\<lambda>_ s.
     (Inr (project_command_view r), s))))"

definition get_project :: "api_principal \<Rightarrow> string \<Rightarrow> 'n client_state \<Rightarrow> project_resource_view res" where
  "get_project caller p s =
     (case load_authorized_read_project caller p s of
        Inl e \<Rightarrow> Inl e
      | Inr d \<Rightarrow>
          (case project_resource_view_of d of
             Inl e \<Rightarrow> if is_instance e RuntimeError then Inl (api_problem 409 ''project_resource_integrity_failure'') else Inl e
           | Inr v \<Rightarrow> Inr v))"

text \<open>What a registration answers when the project is there already.\<close>

definition answer_existing ::
  "api_principal \<Rightarrow> registration_request \<Rightarrow> review_context \<Rightarrow> project_dossier \<Rightarrow> 'n client_state \<Rightarrow>
   project_registration_response res" where
  "answer_existing caller q ctx d s =
     (case has_principal_creation_audit caller d s of
        Inl e \<Rightarrow> Inl e
      | Inr own \<Rightarrow>
          if \<not> own then Inl (api_problem 409 ''project_registration_integrity_failure'')
          else if \<not> matches_project_registration d q ctx then Inl (api_problem 409 ''project_registration_conflict'')
          else project_registration_view d True)"

definition registration_problem :: "exn \<Rightarrow> exn" where
  "registration_problem e =
     (if is_instance e ApiProblemError then e
      else if is_instance e ProjectSourceIntegrityError then integrity_failure
      else if exn_is e [KeyError, PptxSourceError, ValueError] then api_problem 422 ''project_registration_invalid''
      else e)"

definition creator_role :: "api_principal \<Rightarrow> actor_role" where
  "creator_role caller = (if ap_role caller = API_PROJECT_OWNER then PROJECT_OWNER else ADMINISTRATOR)"

definition registration_context :: "string \<Rightarrow> registration_request \<Rightarrow> review_context" where
  "registration_context organization q =
     empty_context\<lparr>rc_proposer_org_id := Some organization, rc_certification_level := gq_certification_level q\<rparr>"

text \<open>Everything up to the resolved paths: an answer, or the two paths.\<close>

definition staged_paths ::
  "'n api_env \<Rightarrow> api_principal \<Rightarrow> registration_request \<Rightarrow> (string \<times> string option) res" where
  "staged_paths api caller q =
     (case resolve_staged_artifact api caller REGISTRATION_PROPOSAL (gq_proposal q) of
        Inl e \<Rightarrow> Inl e
      | Inr path \<Rightarrow>
          (case gq_sidecar q of
             None \<Rightarrow> Inr (path, None)
           | Some a \<Rightarrow> map_sum id (\<lambda>x. (path, Some x)) (resolve_staged_artifact api caller PPTX_SIDECAR a)))"

definition register_project ::
  "'n api_env \<Rightarrow> svc_call \<Rightarrow> (nat \<Rightarrow> 'n client_state \<Rightarrow> 'n client_state) \<Rightarrow> api_principal \<Rightarrow> registration_request \<Rightarrow> string \<Rightarrow>
   'n client_state \<Rightarrow> (project_registration_response, 'n client_state) outcome" where
  "register_project api c between caller q idempotency_key s =
     seq (pure (require_project_creation caller) s) (\<lambda>organization s.
     seq (pure (validate_staged_artifact_claim REGISTRATION_PROPOSAL (gq_proposal q)) s) (\<lambda>_ s.
     seq (pure (case gq_sidecar q of None \<Rightarrow> Inr [] | Some a \<Rightarrow> validate_staged_artifact_claim PPTX_SIDECAR a) s) (\<lambda>_ s.
     let p = api_project_id (ai_hash api) caller idempotency_key; ctx = registration_context organization q;
         create = (\<lambda>s. seq (pure (staged_paths api caller q) s) (\<lambda>(proposal, sidecar) s.
           handle
             (seq (register_case (ai_client api) c proposal (gq_title q) sidecar (Some p) (gq_review_profile q) (Some ctx)
                     (ap_subject caller) (creator_role caller) (Some (sa_sha256 (gq_proposal q)))
                     (map_option sa_sha256 (gq_sidecar q)) (between 0 s)) (\<lambda>case_id s.
              let s = between 1 s in
              seq (pure (current_dossier (client_case_env (ai_client api)) case_id (cw_project (is_world s))) s) (\<lambda>d s.
              pure (project_registration_view d False) s)))
             (\<lambda>e s.
                if exn_is e [DossierAlreadyExistsError, TransactionBlockedError] then
                  (case stored_project p s of
                     Inl e \<Rightarrow> (Inl (if is_instance e DossierNotFoundError then api_problem 409 ''project_registration_conflict'' else e), s)
                   | Inr d \<Rightarrow> pure (answer_existing caller q ctx d s) s)
                else (Inl (registration_problem e), s))))
     in case stored_project p s of
          Inl e \<Rightarrow> if is_instance e DossierNotFoundError then create s else (Inl e, s)
        | Inr d \<Rightarrow> pure (answer_existing caller q ctx d s) s)))"

section \<open>What a handler guarantees\<close>

text \<open>Whom the decision routes admit.\<close>

definition may_decide :: "api_principal \<Rightarrow> string \<Rightarrow> project_dossier \<Rightarrow> bool" where
  "may_decide caller p d \<longleftrightarrow> ap_role caller = API_ADMINISTRATOR \<and>
     (''projects:decide:any'' \<in> ap_scopes caller \<or> ''project:'' @ p @ '':decide'' \<in> ap_scopes caller) \<and>
     organization_allowed caller d"

lemma authorized_decision:
  "load_authorized_decision_project caller p s = Inr d \<longleftrightarrow> stored_project p s = Inr d \<and> may_decide caller p d"
  by (auto simp: load_authorized_decision_project_def load_project_def may_decide_def require_project_organization_def
      split: sum.splits if_splits)

text \<open>Whom reading admits: an owner only to the projects whose audited creation names them.\<close>

definition may_read :: "api_principal \<Rightarrow> string \<Rightarrow> project_dossier \<Rightarrow> 'n client_state \<Rightarrow> bool" where
  "may_read caller p d s \<longleftrightarrow> organization_allowed caller d \<and>
     (if ap_role caller = API_PROJECT_OWNER then ''projects:read:own'' \<in> ap_scopes caller \<and>
        (\<exists>es. audit_entries (tx_audit (pj_ws (cw_project (is_world s)))) = Inr es \<and> (\<exists>e\<in>set es. is_creation_event caller d e))
      else ap_role caller = API_ADMINISTRATOR \<and>
        (''projects:read:any'' \<in> ap_scopes caller \<or> ''project:'' @ p @ '':read'' \<in> ap_scopes caller))"

lemma authorized_read:
  "load_authorized_read_project caller p s = Inr d \<longleftrightarrow> stored_project p s = Inr d \<and> may_read caller p d s"
proof (cases "stored_project p s")
  case (Inl e)
  then have "\<exists>e. load_project p s = Inl e" by (auto simp: load_project_def)
  with Inl show ?thesis by (auto simp: load_authorized_read_project_def)
next
  case (Inr d')
  then have "load_project p s = Inr d'" by (simp add: load_project_def)
  with Inr show ?thesis
    unfolding load_authorized_read_project_def may_read_def require_project_organization_def
    by (cases "ap_role caller"; cases "audit_entries (tx_audit (pj_ws (cw_project (is_world s))))")
      (auto simp: has_principal_creation_audit_def list_ex_iff)
qed

lemma decided_runs:
  assumes "decide_project api t c between st caller p q key s = (x, s')"
    and "load_authorized_decision_project caller p s = Inr d"
  obtains y s1 where "client_decide (ai_client api) t c st p (dq_command q) (ap_subject caller) (dq_rationale q)
      (dq_adjustments q) (Some (dq_expected_revision q)) ''verified_api_principal''
      (Some (decision_idempotency_key (ai_hash api) key)) (between 0 s) = (y, s1)"
    "s' \<in> {s1, between 1 s1}"
    "\<And>v. x = Inr v \<Longrightarrow> \<exists>r. y = Inr r \<and> s' = between 1 s1 \<and> v = project_command_view r \<and>
       verify_decision_result api caller p st q r s' = Inr ()"
proof -
  let ?run = "client_decide (ai_client api) t c st p (dq_command q) (ap_subject caller) (dq_rationale q)
      (dq_adjustments q) (Some (dq_expected_revision q)) ''verified_api_principal''
      (Some (decision_idempotency_key (ai_hash api) key)) (between 0 s)"
  obtain y s1 where run: "?run = (y, s1)" by fastforce
  with assms show thesis
    by (intro that [of y s1])
      (auto simp: decide_project_def seq_def pure_def handle_def Let_def split: sum.splits prod.splits)
qed

text \<open>
  C32. Only authority decides: a decision request either is refused and changes nothing, or the stored project exists, the
  caller is an administrator whose scopes cover deciding it and whose organisation may see it, and the project
  workspace afterwards is what other processes left of the one before, with at most the decision of this
  gate added, in the caller's name and as a verified principal.
\<close>

theorem decisions_need_authority:
  assumes "decide_project api t c between st caller p q key s = (x, s')"
  shows "((\<nexists>d. stored_project p s = Inr d \<and> may_decide caller p d) \<and> (\<exists>e. x = Inl e) \<and> s' = s) \<or>
    (\<exists>d s1. stored_project p s = Inr d \<and> may_decide caller p d \<and> s' \<in> {s1, between 1 s1} \<and>
      cw_project (is_world s1) \<in> {cw_project (is_world (between 0 s)),
        after_op (cl_project (ai_client api)) c (decision_op st p (dq_command q) (ap_subject caller) (dq_rationale q)
          (dq_adjustments q) (Some (dq_expected_revision q)) ''verified_api_principal'') (cw_project (is_world (between 0 s)))})"
proof (cases "load_authorized_decision_project caller p s")
  case (Inl e)
  with assms have "x = Inl e \<and> s' = s" by (simp add: decide_project_def seq_def pure_def)
  moreover have "\<nexists>d. stored_project p s = Inr d \<and> may_decide caller p d" using Inl authorized_decision [of caller p s] by simp
  ultimately show ?thesis by blast
next
  case (Inr d)
  obtain y s1 where run: "client_decide (ai_client api) t c st p (dq_command q) (ap_subject caller) (dq_rationale q)
      (dq_adjustments q) (Some (dq_expected_revision q)) ''verified_api_principal''
      (Some (decision_idempotency_key (ai_hash api) key)) (between 0 s) = (y, s1)" and s': "s' \<in> {s1, between 1 s1}"
    by (rule decided_runs [OF assms Inr])
  then show ?thesis
    using client_decide_step [of "ai_client api" t c st p "dq_command q" "ap_subject caller" "dq_rationale q"
        "dq_adjustments q" "Some (dq_expected_revision q)" "''verified_api_principal''"
        "Some (decision_idempotency_key (ai_hash api) key)" "between 0 s"] Inr
    unfolding run snd_conv authorized_decision by blast
qed

lemma verified_decision:
  "verify_decision_result api caller p st q r s = Inr () \<longleftrightarrow>
     (\<exists>d es h e. stored_project p s = Inr d \<and> audit_entries (tx_audit (pj_ws (cw_project (is_world s)))) = Inr es \<and>
       result_fits (pv_text (cl_project (ai_client api))) p q r \<and> pr_dossier_revision r \<le> pd_revision d \<and>
       st_decision (stage_review_of st d) = Some h \<and> decision_fits caller st q h \<and>
       e \<in> set es \<and> is_decision_event caller p st q d e)"
  by (auto simp: verify_decision_result_def load_project_def list_ex_iff not_less split: sum.splits if_splits option.splits)

text \<open>
  C33. An answered decision is on record: when a decision request is answered, the stored dossier holds at this
  gate exactly the decision the caller sent, in the caller's name, the audit log holds its event, linked from the
  dossier, with the revision it made, and the answer states the status the command leads to, at that revision.
\<close>

theorem answered_decisions_are_recorded:
  assumes "decide_project api t c between st caller p q key s = (Inr v, s')"
  shows "\<exists>d es h e. stored_project p s' = Inr d \<and> st_decision (stage_review_of st d) = Some h \<and>
    hd_stage h = st \<and> hd_command h = dq_command q \<and> hd_actor_id h = ap_subject caller \<and>
    hd_rationale h = strip (dq_rationale q) \<and> hd_adjustments h = dq_adjustments q \<and>
    hd_authority_context h = ''verified_api_principal'' \<and>
    audit_entries (tx_audit (pj_ws (cw_project (is_world s')))) = Inr es \<and> e \<in> set es \<and>
    ae_event_id e \<in> set (pd_audit_event_ids d) \<and> ae_event_type e = decision_event_type st \<and> ae_project_id e = p \<and>
    ae_actor_id e = ap_subject caller \<and> ae_dossier_revision e = dq_expected_revision q + 1 \<and>
    ps_project_id v = p \<and> ps_status v = ''succeeded'' \<and> ps_allowed_commands v = [] \<and>
    Some (ps_dossier_status v) = expected_decision_status (dq_command q) \<and>
    ps_dossier_revision v = dq_expected_revision q + 1 \<and> dq_expected_revision q + 1 \<le> pd_revision d"
proof (cases "load_authorized_decision_project caller p s")
  case (Inl e)
  with assms show ?thesis by (simp add: decide_project_def seq_def pure_def)
next
  case (Inr d)
  from decided_runs [OF assms Inr] obtain r where "v = project_command_view r"
    "verify_decision_result api caller p st q r s' = Inr ()" by (metis (no_types))
  then show ?thesis
    unfolding verified_decision
    by (auto simp: project_command_view_def result_fits_def decision_fits_def is_decision_event_def)
qed

section \<open>Registration\<close>

lemma missing_project:
  assumes "dossier_load p dir = Inl e" "is_instance e DossierNotFoundError"
  shows "dir (dossier_file p) = None \<and> is_project_id p"
proof -
  have raw: "exn_cls e' \<in> {ValidationError, DossierError, KeyError, ValueError}" if "dossier_from_raw raw = Inl e'" for raw e'
    using that by (auto simp: dossier_from_raw_def dossier_model_validate_def migrate_def default_dossier_migrations_def
        register_migration_def migrate_v1alpha1_to_v1alpha2_def Let_def split: if_splits option.splits sum.splits)
  have no: "\<not> is_instance e' DossierNotFoundError" if "exn_cls e' \<in> {ValidationError, DossierError, KeyError, ValueError}" for e'
    using that by (cases e') (auto simp: is_instance_def ancestors_def)
  from assms show ?thesis
    by (auto simp: dossier_load_def dossier_path_for_if no dest!: raw split: if_splits option.splits stored_yaml.splits sum.splits)
qed

lemma execute_create_audit:
  assumes "fresh_tx env ws (ae_event_id event)"
    and "execute_create env t d event command key [] ws = (Inr v, ws')"
  shows "\<exists>es. audit_entries (tx_audit ws') = Inr es \<and> event \<in> set es"
proof -
  from assms(2) obtain plan where "co_event (project_coordinator env) plan = event"
    "co_tid (project_coordinator env) plan = ''txn-'' @ ae_event_id event"
    "co_execute (project_coordinator env) t plan ws = (Inr v, ws')"
    by (auto simp: execute_create_def construct_plan_def tx_execute_def outcome_simps split: if_splits intro!: that)
  with co_execute_fresh [of ws "project_coordinator env" plan t "Inr v" ws'] assms(1) show ?thesis
    by (auto simp: fresh_tx_def audit_entries_def)
qed

text \<open>A created project is stored as asked for, and its creation is in the log.\<close>

lemma created_as_asked:
  assumes run: "svc_create_project env c path title sidecar (Some p) profile (Some ctx) actor role ep es s = (Inr d, s')"
    and fresh: "fresh_uid env s (sc_uid c 1)" "pj_store s (dossier_file p) = None" "p \<noteq> []"
  shows "dossier_load p (pj_store s') = Inr d \<and> pd_project_id d = p \<and> pd_title d = strip title \<and> pd_review_context d = ctx \<and>
    (\<exists>a. pd_artifacts d = [a] \<and> pptx_artifact_ref (sc_src c) path ''registration_proposal'' sidecar = Inr a \<and>
       (ep = None \<or> Some (ar_sha256 a) = ep) \<and> (es = None \<or> map_of (ar_metadata a) ''sidecar_sha256'' = es)) \<and>
    (\<exists>rv. resolve_profile (str_or profile (pv_default_profile env)) None True (pv_profiles env) = Inr rv \<and>
       pd_review_profile d = Some (rv_ref rv)) \<and>
    (\<exists>log e. audit_entries (tx_audit (pj_ws s')) = Inr log \<and> e \<in> set log \<and> ae_event_id e \<in> set (pd_audit_event_ids d) \<and>
       ae_project_id e = p \<and> ae_event_type e = ''project_created'' \<and> ae_actor_id e = actor \<and> ae_actor_role e = role_value role \<and>
       ae_dossier_revision e = 1)"
proof -
  have p: "str_or (Some p) x = p" for x using fresh(3) by (simp add: str_or_def)
  from run obtain t e event command key a rv where
    save: "on_ws (execute_create (pv_tx env) t e event command key []) s = (Inr d, s')"
    and e: "pd_project_id e = p" "pd_title e = strip title" "pd_review_context e = ctx" "pd_artifacts e = [a]"
      "pd_review_profile e = Some (rv_ref rv)" "pd_audit_event_ids e = [ae_event_id event]"
    and event: "ae_event_id event = ''evt-'' @ sc_uid c 1" "ae_project_id event = p" "ae_event_type event = ''project_created''"
      "ae_actor_id event = actor" "ae_actor_role event = role_value role" "ae_dossier_revision event = 1"
    and a: "pptx_artifact_ref (sc_src c) path ''registration_proposal'' sidecar = Inr a"
      "ep = None \<or> Some (ar_sha256 a) = ep" "es = None \<or> map_of (ar_metadata a) ''sidecar_sha256'' = es"
    and rv: "resolve_profile (str_or profile (pv_default_profile env)) None True (pv_profiles env) = Inr rv"
    unfolding svc_create_project_def Let_def p
    by (auto simp: outcome_simps split: if_splits intro: that)
  then have ex: "execute_create (pv_tx env) t e event command key [] (pj_ws s) = (Inr d, pj_ws s')"
    by (auto simp: on_ws_def prod_eq_iff)
  have new: "fresh_tx (pv_tx env) (pj_ws s) (ae_event_id event)" using fresh(1) event by (simp add: fresh_uid_def)
  from execute_create_store [OF new ex] fresh(2) e(1) have "d = e" "pj_store s' = dossier_write (dossier_file p) e (pj_store s)"
    "dossier_valid e" by auto
  with dossier_load_written [of e "pj_store s"] e(1) have "dossier_load p (pj_store s') = Inr d" by simp
  with \<open>d = e\<close> e event a rv execute_create_audit [OF new ex] show ?thesis by auto
qed

lemma rsplit_at_Some: "Policies.rsplit_at s = Some (i, v) \<Longrightarrow> s = i @ ''@'' @ v"
proof -
  assume at: "Policies.rsplit_at s = Some (i, v)"
  let ?P = "\<lambda>c. c \<noteq> CHR ''@''"
  have "rev s = takeWhile ?P (rev s) @ dropWhile ?P (rev s)" by simp
  moreover from at have "CHR ''@'' \<in> set (rev s)" by (auto simp: Policies.rsplit_at_def split: if_splits)
  then have "dropWhile ?P (rev s) \<noteq> []" "dropWhile ?P (rev s) = CHR ''@'' # tl (dropWhile ?P (rev s))"
    using hd_dropWhile [of ?P "rev s"] by (cases "dropWhile ?P (rev s)"; auto simp: dropWhile_eq_Nil_conv)+
  ultimately have "rev s = rev v @ CHR ''@'' # rev i"
    using at by (auto simp: Policies.rsplit_at_def split: if_splits)
  then have "rev (rev s) = i @ CHR ''@'' # v" by simp
  then show ?thesis by simp
qed

lemma resolved_selector:
  assumes "resolve_profile s e allow reg = Inr rv" "registry_ok sha reg"
  shows "profile_selector (rv_ref rv) = s"
proof -
  from assms(1) obtain i v where "Policies.rsplit_at s = Some (i, v)" "map_of reg (i, v) = Some rv"
    by (auto simp: resolve_profile_def split: option.splits if_splits)
  moreover obtain uri where "(i, v) = (pk_policy_id (rv_policy rv), pk_version (rv_policy rv))"
    "rv_ref rv = profile_ref_of sha (rv_policy rv) uri"
    using calculation(2) assms(2) unfolding registry_ok_def by blast
  ultimately show ?thesis using rsplit_at_Some [of s i v] by (simp add: profile_selector_def profile_ref_of_def)
qed

lemma resolved_artifact:
  assumes "resolve_staged_artifact api caller purpose a = Inr path"
  shows "sa_media_type a = (case purpose of REGISTRATION_PROPOSAL \<Rightarrow> PPTX_MEDIA_TYPE | PPTX_SIDECAR \<Rightarrow> JSON_MEDIA_TYPE) \<and>
    path \<noteq> [] \<and> (\<exists>f. ai_sources api path = Some f \<and> sf_size f = sa_byte_size a \<and> sf_sha256 f = sa_sha256 a)"
  using assms
  by (auto simp: resolve_staged_artifact_def validate_staged_artifact_claim_def Let_def path_suffix_def Ingest.path_name_def casefold_def
      split: sum.splits option.splits if_splits artifact_purpose.splits)

lemma api_project_id_nonempty: "api_project_id h caller key \<noteq> []"
  by (simp add: api_project_id_def)

lemma register_case_runs:
  assumes "register_case env c path title sidecar i profile ctx actor role ep es s = (Inr p, s')"
  obtains d where "svc_create_project (cl_project env) c path title (if truthy sidecar then sidecar else None) i profile ctx
      actor role ep es (cw_project (is_world s)) = (Inr d, cw_project (is_world s'))" "p = pd_project_id d"
proof -
  let ?f = "svc_create_project (cl_project env) c path title (if truthy sidecar then sidecar else None) i profile ctx actor role ep es"
  obtain r x where run: "?f (cw_project (is_world s)) = (r, x)" by fastforce
  with assms obtain d where "r = Inr d" "x = cw_project (is_world s')" "client_open_case env (pd_project_id d) s' = Inr p"
    by (cases r) (auto simp: register_case_def client_create_project_def on_world_def on_project_def outcome_simps)
  then show thesis
    using run by (cases "current_dossier (client_case_env env) (pd_project_id d) (cw_project (is_world s'))")
      (auto simp: client_open_case_def open_case_def intro!: that)
qed

text \<open>An answer that is not a replay comes from the creation.\<close>

lemma registration_runs:
  assumes "register_project api c between caller q key s = (Inr v, s')" "\<not> gs_replayed v"
    and "p = api_project_id (ai_hash api) caller key"
  obtains organization proposal sidecar s1 d e i where "ap_organization_id caller = Some organization"
    "require_project_creation caller = Inr organization"
    "stored_project p s = Inl e" "is_instance e DossierNotFoundError"
    "staged_paths api caller q = Inr (proposal, sidecar)"
    "register_case (ai_client api) c proposal (gq_title q) sidecar (Some p) (gq_review_profile q)
       (Some (registration_context organization q)) (ap_subject caller) (creator_role caller) (Some (sa_sha256 (gq_proposal q)))
       (map_option sa_sha256 (gq_sidecar q)) (between 0 s) = (Inr i, s1)"
    "s' = between 1 s1" "current_dossier (client_case_env (ai_client api)) i (cw_project (is_world s')) = Inr d"
    "project_registration_view d False = Inr v"
proof -
  have replay: "answer_existing caller q ctx d x \<noteq> Inr v" for ctx d x
    using assms(2) by (auto simp: answer_existing_def project_registration_view_def split: sum.splits list.splits option.splits)
  have fallback: "\<not> (if b then (case r of Inl e \<Rightarrow> (Inl (g e), x) | Inr d \<Rightarrow> pure (answer_existing caller q ctx d x) x)
      else (Inl y, x)) = (Inr v, s')" for b r g x ctx y
    by (cases r) (auto simp: replay outcome_simps)
  have org: "ap_organization_id caller = Some organization" if "require_project_creation caller = Inr organization" for organization
    using that by (auto simp: require_project_creation_def split: if_splits option.splits)
  show thesis
  proof (cases "stored_project p s")
    case (Inr d)
    with assms(1) show thesis
      by (auto simp: register_project_def assms(3) [symmetric] Let_def outcome_simps replay)
  next
    case (Inl e)
    with assms(1) have e: "is_instance e DossierNotFoundError"
      by (auto simp: register_project_def assms(3) [symmetric] Let_def outcome_simps split: if_splits)
    show thesis
      using assms(1) Inl e
      by (auto simp: register_project_def assms(3) [symmetric] Let_def outcome_simps fallback intro!: that org)
  qed
qed

text \<open>What is registered from staged artifacts matches the request that named them.\<close>

lemma registered_matches:
  assumes paths: "staged_paths api caller q = Inr (proposal, sidecar)"
    and a: "pptx_artifact_ref (ai_sources api) proposal role (if truthy sidecar then sidecar else None) = Inr a"
    and d: "pd_artifacts d = [a]" "pd_title d = strip (gq_title q)" "pd_review_context d = ctx"
    and profile: "gq_review_profile q = None \<or> map_option profile_selector (pd_review_profile d) = gq_review_profile q"
  shows "matches_project_registration d q ctx"
proof -
  from paths have proposal: "resolve_staged_artifact api caller REGISTRATION_PROPOSAL (gq_proposal q) = Inr proposal"
    and sidecar: "case gq_sidecar q of None \<Rightarrow> sidecar = None
      | Some x \<Rightarrow> \<exists>sp. sidecar = Some sp \<and> resolve_staged_artifact api caller PPTX_SIDECAR x = Inr sp"
    by (auto simp: staged_paths_def map_sum_Inr split: sum.splits option.splits)
  from resolved_artifact [OF proposal] obtain f where f: "ai_sources api proposal = Some f" "sf_size f = sa_byte_size (gq_proposal q)"
    "sf_sha256 f = sa_sha256 (gq_proposal q)" "sa_media_type (gq_proposal q) = PPTX_MEDIA_TYPE" by auto
  show ?thesis
  proof (cases "gq_sidecar q")
    case None
    with sidecar a f d profile show ?thesis
      by (auto simp: matches_project_registration_def metadata_get_def pptx_artifact_ref_def Let_def split: if_splits)
  next
    case (Some x)
    with sidecar obtain sp where sp: "sidecar = Some sp" "resolve_staged_artifact api caller PPTX_SIDECAR x = Inr sp" by auto
    from resolved_artifact [OF sp(2)] obtain g where "ai_sources api sp = Some g" "sf_size g = sa_byte_size x"
      "sf_sha256 g = sa_sha256 x" "sa_media_type x = ''application/json''" "sp \<noteq> []" by (auto simp: JSON_MEDIA_TYPE_def)
    with Some sp(1) a f d profile show ?thesis
      by (auto simp: matches_project_registration_def metadata_get_def pptx_artifact_ref_def Let_def split: if_splits)
  qed
qed

lemma creator_role_value:
  "require_project_creation caller = Inr organization \<Longrightarrow> role_value (creator_role caller) = api_role_value (ap_role caller)"
  by (auto simp: require_project_creation_def creator_role_def split: if_splits)

lemma staged_claims:
  assumes "staged_paths api caller q = Inr paths"
  shows "\<exists>x. validate_staged_artifact_claim REGISTRATION_PROPOSAL (gq_proposal q) = Inr x"
    "\<exists>y. (case gq_sidecar q of None \<Rightarrow> Inr [] | Some a \<Rightarrow> validate_staged_artifact_claim PPTX_SIDECAR a) = Inr y"
proof -
  have claim: "\<exists>x. validate_staged_artifact_claim purpose a = Inr x" if "resolve_staged_artifact api caller purpose a = Inr path"
    for purpose a path using that by (auto simp: resolve_staged_artifact_def split: sum.splits)
  from assms show "\<exists>x. validate_staged_artifact_claim REGISTRATION_PROPOSAL (gq_proposal q) = Inr x"
    by (auto simp: staged_paths_def dest: claim split: sum.splits)
  from assms show "\<exists>y. (case gq_sidecar q of None \<Rightarrow> Inr [] | Some a \<Rightarrow> validate_staged_artifact_claim PPTX_SIDECAR a) = Inr y"
    by (auto simp: staged_paths_def map_sum_Inr dest: claim split: sum.splits option.splits)
qed

text \<open>
  C36. A registration can be sent again: when nobody else touches the workspace meanwhile, the staged files stay as they
  are and the transaction is new, a registration that has been answered is stored as asked for, in the name of
  the caller's organisation and with the staged file of the claimed hash, and the same request with the
  same key returns the same answer, marked as a replay, and changes nothing, whatever clock, uuids and files it then meets.
\<close>

theorem registration_replays:
  assumes valid: "registration_request_valid q"
    and run: "register_project api c (\<lambda>_ x. x) caller q key s = (Inr v, s')" and first: "\<not> gs_replayed v"
    and files: "sc_src c = ai_sources api"
    and fresh: "fresh_uid (cl_project (ai_client api)) (cw_project (is_world s)) (sc_uid c 1)"
    and registry: "registry_ok sha (pv_profiles (cl_project (ai_client api)))"
  shows "register_project api c' between' caller q key s' = (Inr (v\<lparr>gs_replayed := True\<rparr>), s') \<and>
    gs_project_id v = api_project_id (ai_hash api) caller key \<and> gs_title v = strip (gq_title q) \<and>
    ap_organization_id caller = Some (gs_proposer_org_id v) \<and> fv_sha256 (gs_artifact v) = sa_sha256 (gq_proposal q) \<and>
    fv_byte_size (gs_artifact v) = sa_byte_size (gq_proposal q)"
proof -
  define p where "p = api_project_id (ai_hash api) caller key"
  have p: "p \<noteq> []" by (simp add: p_def api_project_id_nonempty)
  obtain organization proposal sidecar e i d where org: "ap_organization_id caller = Some organization"
    "require_project_creation caller = Inr organization"
    and none: "stored_project p s = Inl e" "is_instance e DossierNotFoundError"
    and paths: "staged_paths api caller q = Inr (proposal, sidecar)"
    and case': "register_case (ai_client api) c proposal (gq_title q) sidecar (Some p) (gq_review_profile q)
       (Some (registration_context organization q)) (ap_subject caller) (creator_role caller) (Some (sa_sha256 (gq_proposal q)))
       (map_option sa_sha256 (gq_sidecar q)) s = (Inr i, s')"
    and current: "current_dossier (client_case_env (ai_client api)) i (cw_project (is_world s')) = Inr d"
    and view: "project_registration_view d False = Inr v"
    by (rule registration_runs [OF run first p_def]) auto
  let ?ctx = "registration_context organization q"
  from register_case_runs [OF case'] obtain d' where svc: "svc_create_project (cl_project (ai_client api)) c proposal (gq_title q)
      (if truthy sidecar then sidecar else None) (Some p) (gq_review_profile q) (Some ?ctx) (ap_subject caller)
      (creator_role caller) (Some (sa_sha256 (gq_proposal q))) (map_option sa_sha256 (gq_sidecar q)) (cw_project (is_world s)) =
        (Inr d', cw_project (is_world s'))" and i: "i = pd_project_id d'" .
  have absent: "pj_store (cw_project (is_world s)) (dossier_file p) = None"
    using missing_project [of p _ e] none by (simp add: stored_project_def)
  note made = created_as_asked [OF svc fresh absent p]
  have d: "d = d'" using made current i by (simp add: current_dossier_def client_case_env_def Let_def)
  have stored: "stored_project p s' = Inr d" using made d by (simp add: stored_project_def)
  obtain a where a: "pd_artifacts d = [a]"
    "pptx_artifact_ref (ai_sources api) proposal ''registration_proposal'' (if truthy sidecar then sidecar else None) = Inr a"
    using made d files by auto
  have profile: "gq_review_profile q = None \<or> map_option profile_selector (pd_review_profile d) = gq_review_profile q"
  proof (cases "gq_review_profile q")
    case (Some x)
    with valid have "x \<noteq> []" by (auto simp: registration_request_valid_def is_profile_selector_def)
    with Some made d resolved_selector [OF _ registry, of x] show ?thesis by (auto simp: str_or_def)
  qed simp
  have match: "matches_project_registration d q ?ctx"
    by (rule registered_matches [OF paths a(2,1) _ _ profile]) (use made d in auto)
  have own: "has_principal_creation_audit caller d s' = Inr True"
    using made d creator_role_value [OF org(2)]
    by (auto simp: has_principal_creation_audit_def is_creation_event_def list_ex_iff)
  have again: "project_registration_view d True = Inr (v\<lparr>gs_replayed := True\<rparr>)"
    using view by (auto simp: project_registration_view_def split: list.splits option.splits)
  obtain x where claim: "validate_staged_artifact_claim REGISTRATION_PROPOSAL (gq_proposal q) = Inr x"
    using staged_claims(1) [OF paths] by blast
  obtain y where claim': "(case gq_sidecar q of None \<Rightarrow> Inr [] | Some a \<Rightarrow> validate_staged_artifact_claim PPTX_SIDECAR a) = Inr y"
    using staged_claims(2) [OF paths] by blast
  have "answer_existing caller q ?ctx d s' = Inr (v\<lparr>gs_replayed := True\<rparr>)"
    by (simp add: answer_existing_def own match again)
  then have "register_project api c' between' caller q key s' = (Inr (v\<lparr>gs_replayed := True\<rparr>), s')"
    using stored by (simp add: register_project_def org(2) claim claim' p_def [symmetric] pure_def)
  moreover have "gs_project_id v = p \<and> gs_title v = strip (gq_title q) \<and> organization = gs_proposer_org_id v \<and>
      gs_artifact v = project_artifact_view_of a"
    using view made d a(1) by (auto simp: project_registration_view_def registration_context_def)
  ultimately show ?thesis
    using match a(1) org(1)
    by (auto simp: p_def project_artifact_view_of_def matches_project_registration_def Let_def)
qed

section \<open>Reading\<close>

text \<open>A dossier without what its readers are not shown.\<close>

definition redacted_artifact :: "artifact_ref \<Rightarrow> artifact_ref" where
  "redacted_artifact a = a\<lparr>ar_uri := [], ar_metadata := []\<rparr>"

definition redacted_stage :: "stage_review \<Rightarrow> stage_review" where
  "redacted_stage rv = rv\<lparr>st_snapshot := None, st_report_json_uri := None, st_report_markdown_uri := None,
     st_review_profile := map_option (\<lambda>r. r\<lparr>rp_source_uri := []\<rparr>) (st_review_profile rv),
     st_decision := map_option (\<lambda>h. h\<lparr>hd_actor_id := [], hd_rationale := [], hd_adjustments := [], hd_authority_context := []\<rparr>)
       (st_decision rv)\<rparr>"

definition redacted :: "project_dossier \<Rightarrow> project_dossier" where
  "redacted d = d\<lparr>pd_review_profile := None, pd_effective_config := None, pd_artifacts := map redacted_artifact (pd_artifacts d),
     pd_registration := redacted_stage (pd_registration d), pd_completion := redacted_stage (pd_completion d),
     pd_execution := (pd_execution d)\<lparr>xr_mentor_ref := map_option (\<lambda>_. []) (xr_mentor_ref (pd_execution d)),
       xr_notes := map (\<lambda>_. []) (xr_notes (pd_execution d))\<rparr>,
     pd_notifications := map (\<lambda>n. n\<lparr>nr_required_role := [], nr_report_id := [], nr_delivery_status := []\<rparr>) (pd_notifications d),
     pd_audit_event_ids := []\<rparr>"

lemma view_redacted: "project_resource_view_of (redacted d) = project_resource_view_of d"
proof -
  have artifact: "project_artifact_view_of (redacted_artifact a) = project_artifact_view_of a" for a
    by (simp add: project_artifact_view_of_def redacted_artifact_def)
  have stage: "project_stage_view_of (redacted_stage rv) = project_stage_view_of rv" for rv
    by (cases "st_review_profile rv"; cases "st_decision rv")
      (simp_all add: project_stage_view_of_def redacted_stage_def profile_selector_def)
  show ?thesis
    by (simp add: project_resource_view_of_def redacted_def stage artifact comp_def split: option.split)
qed

text \<open>
  C35. Reading is confined: a project is shown exactly to the callers who may read it (administrators with the
  scope for it, and an owner with theirs whose audited creation it is, of an organisation that may see it),
  and what is shown depends on nothing but the redacted dossier: no location of a file, no metadata, no note, no mentor,
  no rationale, actor or adjustment of a decision.
\<close>

theorem reads_are_confined:
  "get_project caller p s = Inr v \<longleftrightarrow>
     (\<exists>d. stored_project p s = Inr d \<and> may_read caller p d s \<and> project_resource_view_of (redacted d) = Inr v)"
proof (cases "load_authorized_read_project caller p s")
  case (Inl e)
  with authorized_read [of caller p s] show ?thesis by (auto simp: get_project_def)
next
  case (Inr d)
  with authorized_read [of caller p s] have d: "stored_project p s = Inr d" "may_read caller p d s" by auto
  have "get_project caller p s = Inr v \<longleftrightarrow> project_resource_view_of d = Inr v"
    by (simp add: get_project_def Inr split: sum.split)
  with d show ?thesis by (simp add: view_redacted)
qed

section \<open>Decisions that are made are answered\<close>

lemma save_event_audit:
  assumes run: "save_event env t uid d n ty actor role details s = (Inr v, s')" and fresh: "fresh_uid env s uid"
  shows "\<exists>es. audit_entries (tx_audit (pj_ws s')) = Inr es \<and>
    \<lparr>ae_event_id = ''evt-'' @ uid, ae_project_id = pd_project_id d, ae_event_type = ty,
     ae_actor_id = actor, ae_actor_role = role_value role, ae_dossier_revision = n + 1,
     ae_occurred_at = t 0, ae_details = str_details details\<rparr> \<in> set es"
proof -
  from run obtain e c k rs where ex: "on_ws (execute_update (pv_tx env) (\<lambda>i. t (Suc i)) e n
     \<lparr>ae_event_id = ''evt-'' @ uid, ae_project_id = pd_project_id d, ae_event_type = ty,
      ae_actor_id = actor, ae_actor_role = role_value role, ae_dossier_revision = n + 1,
      ae_occurred_at = t 0, ae_details = str_details details\<rparr> c k rs) s = (Inr v, s')"
    unfolding save_event_def Let_def by (auto simp: outcome_simps split: if_splits)
  then have "execute_update (pv_tx env) (\<lambda>i. t (Suc i)) e n
     \<lparr>ae_event_id = ''evt-'' @ uid, ae_project_id = pd_project_id d, ae_event_type = ty,
      ae_actor_id = actor, ae_actor_role = role_value role, ae_dossier_revision = n + 1,
      ae_occurred_at = t 0, ae_details = str_details details\<rparr> c k rs (pj_ws s) = (Inr v, pj_ws s')"
    by (auto simp: on_ws_def prod_eq_iff)
  from execute_update_store [OF _ this] fresh show ?thesis by (auto simp: fresh_uid_def audit_entries_def)
qed

lemma decision_recorded:
  assumes run: "svc_decide env c st trigger p command actor rationale adjustments revision authority ty s = (Inr v, s')"
    and dec: "decides st trigger command" and fresh: "fresh_uid env s (sc_uid c 0)"
  shows "\<exists>d h es e. dossier_load p (pj_store s) = Inr d \<and> (revision = None \<or> revision = Some (pd_revision d)) \<and>
    dossier_load p (pj_store s') = Inr v \<and> pd_revision v = pd_revision d + 1 \<and> pd_status v = decided_status st command \<and>
    pd_project_id v = p \<and> st_decision (stage_review_of st v) = Some h \<and> hd_stage h = st \<and> hd_command h = command \<and>
    hd_actor_id h = actor \<and> hd_actor_role h = role_value ADMINISTRATOR \<and> hd_rationale h = strip rationale \<and>
    hd_adjustments h = adjustments \<and> hd_authority_context h = authority \<and>
    audit_entries (tx_audit (pj_ws s')) = Inr es \<and> e \<in> set es \<and> ae_event_id e \<in> set (pd_audit_event_ids v) \<and>
    ae_project_id e = p \<and> ae_event_type e = ty \<and> ae_actor_id e = actor \<and> ae_actor_role e = role_value ADMINISTRATOR \<and>
    ae_dossier_revision e = pd_revision d + 1 \<and> json_get (ae_details e) ''command'' = JStr command"
proof -
  from run obtain d r s1 h t details where load: "dossier_load p (pj_store s) = Inr d"
    and revision: "revision = None \<or> revision = Some (pd_revision d)"
    and tr: "transition (Some (pj_send env)) (record_of d) trigger ADMINISTRATOR None None s = (Inr r, s1)"
    and h: "hd_stage h = st" "hd_command h = command" "hd_actor_id h = actor" "hd_actor_role h = role_value ADMINISTRATOR"
      "hd_rationale h = strip rationale" "hd_adjustments h = adjustments" "hd_authority_context h = authority"
    and details: "json_get (str_details details) ''command'' = JStr command"
    and save: "save_event env t (sc_uid c 0) (with_stage_review st ((stage_review_of st d)\<lparr>st_decision := Some h\<rparr>)
      (d\<lparr>pd_status := wr_status r\<rparr>)) (pd_revision d) ty actor ADMINISTRATOR details s1 = (Inr v, s')"
    unfolding svc_decide_def svc_transition_def Let_def
    by (auto simp: outcome_simps str_details_def json_get_def split: if_splits intro!: that)
  have fresh': "fresh_uid env s1 (sc_uid c 0)" using fresh transition_around [OF tr] by (simp add: around_fresh)
  from save_event_effect [OF save this] have v: "v = saved_dossier (with_event (sc_uid c 0) (with_stage_review st
      ((stage_review_of st d)\<lparr>st_decision := Some h\<rparr>) (d\<lparr>pd_status := wr_status r\<rparr>))) (t 3)" by (auto simp: Let_def)
  let ?x = "with_stage_review st ((stage_review_of st d)\<lparr>st_decision := Some h\<rparr>) (d\<lparr>pd_status := wr_status r\<rparr>)"
  have x: "pd_project_id ?x = p" "pd_status ?x = decided_status st command"
    using decided_transition [OF dec tr] load_id [OF load] by (cases st; simp add: with_stage_review_def)+
  obtain es e where es: "audit_entries (tx_audit (pj_ws s')) = Inr es" "e \<in> set es"
    "ae_event_id e = ''evt-'' @ sc_uid c 0" "ae_project_id e = p" "ae_event_type e = ty" "ae_actor_id e = actor"
    "ae_actor_role e = role_value ADMINISTRATOR" "ae_dossier_revision e = pd_revision d + 1"
    "json_get (ae_details e) ''command'' = JStr command"
    using save_event_audit [OF save fresh'] x(1) details by fastforce
  have "pd_revision v = pd_revision d + 1" "st_decision (stage_review_of st v) = Some h" "ae_event_id e \<in> set (pd_audit_event_ids v)"
    unfolding v using es(3) by (cases st; simp add: saved_dossier_def with_event_def with_stage_review_def stage_review_of_def)+
  with save_returns [OF save fresh transition_around [OF tr]] x load revision h es show ?thesis by auto
qed

text \<open>A keyed run under a key without a record is its call.\<close>

lemma idem_execute_first:
  assumes "idem_execute env t key operation request dump validate call s = (Inr r, s')"
    and "is_files s (idem_path env key) = None"
  shows "call (is_world s) = (Inr r, is_world s')"
  using assms
  by (auto simp: idem_execute_def Let_def idem_load_def idem_existing_def split: if_splits prod.splits sum.splits)

lemma made_decision_answered:
  assumes valid: "decision_request_valid st q"
    and may: "stored_project p s = Inr d" "may_decide caller p d"
    and new: "is_files s (idem_path (cl_idempotency (ai_client api)) (decision_idempotency_key (ai_hash api) key)) = None"
      "fresh_uid (cl_project (ai_client api)) (cw_project (is_world s)) (sc_uid c 0)"
    and made: "client_decide (ai_client api) t c st p (dq_command q) (ap_subject caller) (dq_rationale q)
      (dq_adjustments q) (Some (dq_expected_revision q)) ''verified_api_principal''
      (Some (decision_idempotency_key (ai_hash api) key)) s = (Inr r, s')"
  shows "decide_project api t c (\<lambda>_ x. x) st caller p q key s = (Inr (project_command_view r), s')"
proof -
  let ?env = "cl_project (ai_client api)" and ?w = "cw_project (is_world s)" and ?w' = "cw_project (is_world s')"
  have "on_project (svc_decision ?env c st p (dq_command q) (ap_subject caller) (dq_rationale q) (dq_adjustments q)
      (Some (dq_expected_revision q)) ''verified_api_principal'') (is_world s) = (Inr r, is_world s')"
    using made new(1) unfolding client_decide_keyed by (rule idem_execute_first)
  then have run: "svc_decision ?env c st p (dq_command q) (ap_subject caller) (dq_rationale q) (dq_adjustments q)
      (Some (dq_expected_revision q)) ''verified_api_principal'' ?w = (Inr r, ?w')"
    by (auto simp: on_project_def prod_eq_iff dest: arg_cong [where f = cw_project])
  have command: "dq_command q \<in> set (decision_commands st)" using valid by (simp add: decision_request_valid_def)
  obtain v trigger where decided: "svc_decide ?env c st trigger p (dq_command q) (ap_subject caller) (dq_rationale q)
      (dq_adjustments q) (Some (dq_expected_revision q)) ''verified_api_principal'' (decision_event_type st) ?w = (Inr v, ?w')"
    and dec: "decides st trigger (dq_command q)"
    and r: "r = svc_result ?env v (pv_text ?env (the (expected_decision_message (dq_command q)))) None []"
    using run command
    by (cases st) (auto simp: svc_decision_def svc_decide_registration_def svc_decide_completion_def outcome_simps
        decides_def decision_event_type_def decision_commands_def expected_decision_message_def intro!: that)
  have status: "Some (decided_status st (dq_command q)) = expected_decision_status (dq_command q) \<and>
      expected_decision_message (dq_command q) \<noteq> None"
    using command by (cases st)
      (auto simp: decision_commands_def decided_status_def expected_decision_status_def expected_decision_message_def)
  have "verify_decision_result api caller p st q r s' = Inr ()"
    unfolding verified_decision stored_project_def
    using decision_recorded [OF decided dec new(2)] status may(2)
    by (auto simp: result_fits_def decision_fits_def is_decision_event_def r svc_result_def PIPELINE_ID_def PIPELINE_VERSION_def
        map_option_case split: option.split)
  moreover have "load_authorized_decision_project caller p s = Inr d" using may by (simp add: authorized_decision)
  ultimately show ?thesis by (simp add: decide_project_def made pure_def)
qed

text \<open>
  C34. A decision that is made is answered: when the caller may decide, the request is valid, its key is new, the
  transaction is new, nobody else touches the workspace and the decision goes through, the checks of the
  stored decision, of its event and of the result all pass, and the answer states this decision.
\<close>

theorem made_decisions_are_answered:
  assumes valid: "decision_request_valid st q"
    and may: "stored_project p s = Inr d" "may_decide caller p d"
    and new: "is_files s (idem_path (cl_idempotency (ai_client api)) (decision_idempotency_key (ai_hash api) key)) = None"
      "fresh_uid (cl_project (ai_client api)) (cw_project (is_world s)) (sc_uid c 0)"
    and made: "client_decide (ai_client api) t c st p (dq_command q) (ap_subject caller) (dq_rationale q)
      (dq_adjustments q) (Some (dq_expected_revision q)) ''verified_api_principal''
      (Some (decision_idempotency_key (ai_hash api) key)) s = (Inr r, s')"
  shows "decide_project api t c (\<lambda>_ x. x) st caller p q key s = (Inr (project_command_view r), s')"
  by (rule made_decision_answered [OF assms])

section \<open>The example\<close>

definition demo_api :: "notification_event list api_env" where
  "demo_api = \<lparr>ai_client = demo_client, ai_hash = (\<lambda>_. ''0a''), ai_resolver = (\<lambda>_ _ _. Inr (Some ''/p.pptx'')),
     ai_sources = demo_sources\<rparr>"

definition demo_caller :: api_principal where
  "demo_caller = \<lparr>ap_subject = ''u'', ap_role = API_ADMINISTRATOR, ap_organization_id = Some ''o'',
     ap_scopes = {''projects:create'', ''project:p:decide'', ''organizations:any''}\<rparr>"

text \<open>A workspace with a project that waits for the registration gate.\<close>

definition demo_gate :: "notification_event list project_state" where
  "demo_gate = demo_start\<lparr>pj_ws := \<lparr>tx_journal = [], tx_audit = [],
     tx_store = dossier_write (dossier_file ''p'') demo_pending Map.empty,
     tx_files = [''reports/p/registration/r.json'' \<mapsto> RegularFile (JsonText (JObj [(''report_id'', JStr ''r'')]))]\<rparr>\<rparr>"

definition demo_office :: "notification_event list client_state" where
  "demo_office = (demo_client_state Map.empty)\<lparr>is_world := (is_world (demo_client_state Map.empty))\<lparr>cw_project := demo_gate\<rparr>\<rparr>"

definition demo_approval :: decision_request where
  "demo_approval = \<lparr>dq_expected_revision = 3, dq_command = ''approve'', dq_rationale = ''why'', dq_adjustments = []\<rparr>"

lemma demo_pending_stored: "dossier_load ''p'' (pj_store demo_gate) = Inr demo_pending"
  "pd_revision demo_pending = 3" "pd_status demo_pending = REGISTRATION_HITL_PENDING" "dossier_valid demo_pending"
  "pd_project_id demo_pending = ''p''" "pd_registration demo_pending = demo_review"
proof -
  show *: "dossier_valid demo_pending" "pd_project_id demo_pending = ''p''"
    using demo_waiting_simps(4) by (simp_all add: demo_pending_def saved_dossier_def with_event_def dossier_valid_def)
  show "dossier_load ''p'' (pj_store demo_gate) = Inr demo_pending"
    using dossier_load_written [OF *(1), of Map.empty] *(2) by (simp add: demo_gate_def)
qed (simp_all add: demo_pending_def saved_dossier_def with_event_def)

lemma demo_approved:
  "\<exists>r s'. svc_decide_registration demo_service (ProjectProgress.demo_call 3) ''p'' ''approve'' ''u'' ''why'' [] (Some 3)
     ''verified_api_principal'' demo_gate = (Inr r, s')"
proof -
  let ?c = "ProjectProgress.demo_call 3"
  let ?h = "\<lparr>hd_stage = REGISTRATION, hd_command = ''approve'', hd_actor_id = ''u'', hd_actor_role = role_value ADMINISTRATOR,
     hd_rationale = ''why'', hd_report_id = ''r'', hd_adjustments = [], hd_decided_at = 0, hd_source = ''explicit_command_input'',
     hd_authority_context = ''verified_api_principal''\<rparr>"
  let ?e = "with_stage_review REGISTRATION (demo_review\<lparr>st_decision := Some ?h\<rparr>) (demo_pending\<lparr>pd_status := REGISTRATION_APPROVED\<rparr>)"
  have why: "strip ''why'' = ''why''" by code_simp
  have e: "dossier_valid ?e" "pd_project_id ?e = ''p''" "pd_revision ?e = 3" "pd_status ?e = REGISTRATION_APPROVED"
    using demo_pending_stored
    by (simp_all add: with_stage_review_def dossier_valid_def stage_review_valid_def human_decision_valid_def)
  have q: "quiet demo_service demo_gate []" using demo_quiet by (simp add: quiet_def demo_gate_def demo_start_def)
  have u: "new_uid demo_service demo_gate [] (sc_uid ?c 0)"
    using demo_new [of 3 0] by (simp add: new_uid_def fresh_uid_def fresh_tx_def demo_gate_def demo_start_def)
  have tr: "svc_transition demo_service demo_pending ''approve_registration'' ADMINISTRATOR demo_gate =
      (Inr ((record_of demo_pending)\<lparr>wr_status := REGISTRATION_APPROVED\<rparr>), demo_gate)"
    using demo_pending_stored
    by (simp add: svc_transition_def transition_def transition_guard_def pure_def TRANSITIONS_def mk_rule_def)
  have report: "load_report demo_service ?c demo_review demo_gate = Inr demo_report"
    by (simp add: load_report_def demo_review_def read_json_text_def workspace_relative_def demo_service_def demo_gate_def)
  have id: "required_report_id demo_review = Inr ''r''" by (simp add: required_report_id_def demo_review_def)
  let ?ds = "[(''adjusted_criteria'', join_with '','' []), (''adjustment_count'', str_int 0), (''command'', ''approve''), (''report_id'', ''r'')]"
  have t: "sc_t ?c = int" by (simp add: ProjectProgress.demo_call_def)
  have "\<exists>ws' event. save_event demo_service (\<lambda>i. int (Suc i)) (sc_uid ?c 0) ?e 3 ''registration_decided'' ''u'' ADMINISTRATOR ?ds demo_gate =
      (Inr (saved_dossier (with_event (sc_uid ?c 0) ?e) (int (Suc 3))), demo_gate\<lparr>pj_ws := ws'\<rparr>) \<and>
    tx_store ws' = dossier_write (dossier_file (pd_project_id ?e)) (saved_dossier (with_event (sc_uid ?c 0) ?e) (int (Suc 3))) (pj_store demo_gate) \<and>
    tx_files ws' = tx_files (pj_ws demo_gate) \<and> quiet demo_service (demo_gate\<lparr>pj_ws := ws'\<rparr>) ([] @ [event]) \<and>
    ae_event_id event = ''evt-'' @ sc_uid ?c 0"
    by (rule save_event_quiet [OF q u e(1,3), where base = demo_pending and rs = "[]"])
      (use e(2,4) demo_pending_stored in \<open>simp_all add: transaction_requirements_def waiting_stage_def with_event_def\<close>)
  then obtain v s' where save: "save_event demo_service (\<lambda>i. int (Suc i)) (sc_uid ?c 0) ?e 3 ''registration_decided'' ''u'' ADMINISTRATOR
      ?ds demo_gate = (Inr v, s')" by blast
  show ?thesis
    using save tr report id
    by (simp add: svc_decide_registration_def svc_decide_def demo_pending_stored Let_def why t stage_review_of_def
        validate_adjustments_def)
qed

lemma idem_execute_runs:
  assumes "is_idempotency_key key" "is_files s (idem_path env key) = None" "call (is_world s) = (Inr r, w)"
  shows "\<exists>s'. idem_execute env t key operation request dump validate call s = (Inr r, s')"
  using assms by (simp add: idem_execute_def Let_def idem_load_def idem_existing_def)

lemma demo_client_decides:
  "\<exists>r s'. client_decide (ai_client demo_api) int (ProjectProgress.demo_call 3) REGISTRATION ''p'' (dq_command demo_approval)
     (ap_subject demo_caller) (dq_rationale demo_approval) (dq_adjustments demo_approval)
     (Some (dq_expected_revision demo_approval)) ''verified_api_principal''
     (Some (decision_idempotency_key (ai_hash demo_api) ''k'')) demo_office = (Inr r, s')"
proof -
  obtain r s' where run: "svc_decide_registration demo_service (ProjectProgress.demo_call 3) ''p'' ''approve'' ''u'' ''why'' [] (Some 3)
     ''verified_api_principal'' demo_gate = (Inr r, s')" using demo_approved by blast
  have key: "is_idempotency_key (decision_idempotency_key (\<lambda>_. ''0a'') ''k'')" by code_simp
  have env: "ai_client demo_api = demo_client" "ai_hash demo_api = (\<lambda>_. ''0a'')" "cl_project demo_client = demo_service"
    "is_files demo_office = Map.empty" "cw_project (is_world demo_office) = demo_gate"
    by (simp_all add: demo_api_def demo_client_def demo_office_def demo_client_state_def)
  have approval: "dq_command demo_approval = ''approve''" "dq_rationale demo_approval = ''why''" "dq_adjustments demo_approval = []"
    "dq_expected_revision demo_approval = 3" "ap_subject demo_caller = ''u''"
    by (simp_all add: demo_approval_def demo_caller_def)
  show ?thesis
    unfolding client_decide_keyed env approval
    by (rule exI [of _ r], rule idem_execute_runs [OF key, where w = "(is_world demo_office)\<lparr>cw_project := s'\<rparr>"])
      (simp_all add: env svc_decision_def on_project_def run)
qed

lemma demo_decision_ready:
  "decision_request_valid REGISTRATION demo_approval" "stored_project ''p'' demo_office = Inr demo_pending"
  "may_decide demo_caller ''p'' demo_pending" "is_files demo_office x = None"
  "fresh_uid (cl_project (ai_client demo_api)) (cw_project (is_world demo_office)) (sc_uid (ProjectProgress.demo_call 3) 0)"
proof -
  have env: "cl_project (ai_client demo_api) = demo_service" "cw_project (is_world demo_office) = demo_gate"
    by (simp_all add: demo_api_def demo_client_def demo_office_def)
  show "fresh_uid (cl_project (ai_client demo_api)) (cw_project (is_world demo_office)) (sc_uid (ProjectProgress.demo_call 3) 0)"
    using demo_new [of 3 0] unfolding env by (simp add: new_uid_def fresh_uid_def fresh_tx_def demo_gate_def demo_start_def)
  show "stored_project ''p'' demo_office = Inr demo_pending" unfolding stored_project_def env by (rule demo_pending_stored)
qed (simp_all add: decision_request_valid_def demo_approval_def decision_commands_def may_decide_def demo_caller_def
  organization_allowed_def demo_office_def demo_client_state_def)

theorem made_decisions_are_answered_witness:
  "\<exists>r s'. decide_project demo_api int (ProjectProgress.demo_call 3) (\<lambda>_ x. x) REGISTRATION demo_caller ''p'' demo_approval ''k''
     demo_office = (Inr (project_command_view r), s')"
proof -
  obtain r s' where made: "client_decide (ai_client demo_api) int (ProjectProgress.demo_call 3) REGISTRATION ''p'' (dq_command demo_approval)
     (ap_subject demo_caller) (dq_rationale demo_approval) (dq_adjustments demo_approval)
     (Some (dq_expected_revision demo_approval)) ''verified_api_principal''
     (Some (decision_idempotency_key (ai_hash demo_api) ''k'')) demo_office = (Inr r, s')" using demo_client_decides by blast
  show ?thesis using made_decisions_are_answered [OF demo_decision_ready made] by blast
qed

theorem answered_decisions_are_recorded_witness:
  "\<exists>v s' d h. decide_project demo_api int (ProjectProgress.demo_call 3) (\<lambda>_ x. x) REGISTRATION demo_caller ''p'' demo_approval ''k''
     demo_office = (Inr v, s') \<and> stored_project ''p'' s' = Inr d \<and> st_decision (stage_review_of REGISTRATION d) = Some h \<and>
     hd_actor_id h = ''u'' \<and> hd_command h = ''approve'' \<and> ps_dossier_status v = REGISTRATION_APPROVED \<and>
     ps_dossier_revision v = 4"
proof -
  obtain r s' where made: "client_decide (ai_client demo_api) int (ProjectProgress.demo_call 3) REGISTRATION ''p'' (dq_command demo_approval)
     (ap_subject demo_caller) (dq_rationale demo_approval) (dq_adjustments demo_approval)
     (Some (dq_expected_revision demo_approval)) ''verified_api_principal''
     (Some (decision_idempotency_key (ai_hash demo_api) ''k'')) demo_office = (Inr r, s')" using demo_client_decides by blast
  note run = made_decision_answered [OF demo_decision_ready made]
  from answered_decisions_are_recorded [OF run] run show ?thesis
    by (auto simp: demo_approval_def demo_caller_def expected_decision_status_def)
qed

theorem decisions_need_authority_witness:
  "\<exists>e. decide_project demo_api int (ProjectProgress.demo_call 3) (\<lambda>_ x. x) REGISTRATION
     (demo_caller\<lparr>ap_scopes := {''project:q:decide'', ''organizations:any''}\<rparr>) ''p'' demo_approval ''k'' demo_office =
     (Inl e, demo_office)"
proof -
  let ?caller = "demo_caller\<lparr>ap_scopes := {''project:q:decide'', ''organizations:any''}\<rparr>"
  obtain x s' where run: "decide_project demo_api int (ProjectProgress.demo_call 3) (\<lambda>_ x. x) REGISTRATION ?caller ''p''
      demo_approval ''k'' demo_office = (x, s')" by fastforce
  have "\<not> may_decide ?caller ''p'' d" for d by (simp add: may_decide_def)
  with decisions_need_authority [OF run] have "\<exists>e. x = Inl e" "s' = demo_office" by auto
  with run show ?thesis by auto
qed

definition demo_staged :: registration_request where
  "demo_staged = \<lparr>gq_title = ''T'', gq_proposal = \<lparr>sa_artifact_id = ''a'', sa_sha256 = demo_sha, sa_byte_size = 9,
     sa_media_type = PPTX_MEDIA_TYPE\<rparr>, gq_sidecar = None, gq_review_profile = None, gq_certification_level = None\<rparr>"

definition demo_staged_draft :: project_dossier where
  "demo_staged_draft = demo_draft\<lparr>pd_project_id := ''api-0a'', pd_display_id := ''AXC-API-0A'',
     pd_review_context := empty_context\<lparr>rc_proposer_org_id := Some ''o''\<rparr>\<rparr>"

lemma demo_staged_simps [simp]:
  "pd_project_id demo_staged_draft = ''api-0a''" "pd_revision demo_staged_draft = 1" "dossier_valid demo_staged_draft"
proof -
  show "dossier_valid demo_staged_draft"
    using demo_draft_simps(4) unfolding demo_staged_draft_def
    by (simp add: dossier_valid_def is_project_id_def is_safe_id_def list_all_iff char_class_defs)
qed (simp_all add: demo_staged_draft_def)

lemma demo_staged_created:
  "\<exists>s'. svc_create_project demo_service (ProjectProgress.demo_call 0) ''/p.pptx'' ''T'' None (Some ''api-0a'') None
     (Some (empty_context\<lparr>rc_proposer_org_id := Some ''o''\<rparr>)) ''u'' ADMINISTRATOR (Some demo_sha) None demo_start =
     (Inr demo_staged_draft, s') \<and> dossier_load ''api-0a'' (pj_store s') = Inr demo_staged_draft"
proof -
  have uid: "sc_uid (ProjectProgress.demo_call 0) 1 = ''ub''" "sc_uid (ProjectProgress.demo_call 0) (Suc 0) = ''ub''"
    by (simp_all add: ProjectProgress.demo_call_def)
  have call: "sc_src (ProjectProgress.demo_call 0) = demo_sources" "sc_t (ProjectProgress.demo_call 0) = int"
    "pv_config demo_service = None" "pv_default_profile demo_service = ''axcalib.default@1.0.0''"
    "ar_sha256 demo_proposal = demo_sha"
    by (simp_all add: ProjectProgress.demo_call_def demo_service_def demo_proposal_def)
  have up: "upper_ascii ''api-0a'' = ''API-0A''" by code_simp
  have id: "is_project_id ''api-0a''" by code_simp
  define event where "event = \<lparr>ae_event_id = ''evt-ub'', ae_project_id = ''api-0a'', ae_event_type = ''project_created'',
     ae_actor_id = ''u'', ae_actor_role = role_value ADMINISTRATOR, ae_dossier_revision = 1,
     ae_occurred_at = 2, ae_details = str_details
       [(''artifact_id'', ar_artifact_id demo_proposal), (''artifact_sha256'', demo_sha),
        (''review_profile'', ''axcalib.default@1.0.0''), (''review_profile_sha256'', demo_sha)]\<rparr>"
  have "\<exists>ws'. on_ws (execute_create (pv_tx demo_service) (\<lambda>i. int (i + 3)) demo_staged_draft event ''project_created'' (''evt-'' @ ''ub'') []) demo_start
      = (Inr demo_staged_draft, demo_start\<lparr>pj_ws := ws'\<rparr>) \<and>
    tx_store ws' = dossier_write (dossier_file (pd_project_id demo_staged_draft)) demo_staged_draft (pj_store demo_start) \<and>
    tx_files ws' = tx_files (pj_ws demo_start) \<and> quiet demo_service (demo_start\<lparr>pj_ws := ws'\<rparr>) ([] @ [event])"
  proof (intro create_quiet [OF demo_quiet])
    show "new_uid demo_service demo_start [] ''ub''" using demo_new [of 0 1] by (simp add: uid)
    show "''evt-'' @ ''ub'' \<in> set (pd_audit_event_ids demo_staged_draft)" by (simp add: demo_staged_draft_def demo_draft_def)
  qed (simp_all add: event_def demo_start_def)
  then obtain ws' where ws': "on_ws (execute_create (pv_tx demo_service) (\<lambda>i. int (i + 3)) demo_staged_draft event ''project_created'' ''evt-ub'' []) demo_start
      = (Inr demo_staged_draft, demo_start\<lparr>pj_ws := ws'\<rparr>)"
    "tx_store ws' = dossier_write (dossier_file ''api-0a'') demo_staged_draft (pj_store demo_start)"
    by (auto simp: demo_start_def)
  have "svc_create_project demo_service (ProjectProgress.demo_call 0) ''/p.pptx'' ''T'' None (Some ''api-0a'') None
     (Some (empty_context\<lparr>rc_proposer_org_id := Some ''o''\<rparr>)) ''u'' ADMINISTRATOR (Some demo_sha) None demo_start =
      on_ws (execute_create (pv_tx demo_service) (\<lambda>i. int (i + 3)) demo_staged_draft event ''project_created'' ''evt-ub'' []) demo_start"
    using demo_resolves(1) demo_proposal_ref demo_profile_facts
    by (simp add: svc_create_project_def Let_def uid up id call event_def demo_staged_draft_def demo_draft_def demo_dossier_def
        strip_def py_space_def str_or_def)
  with ws' dossier_load_written [of demo_staged_draft "pj_store demo_start"] show ?thesis by simp
qed

lemma demo_registered:
  "\<exists>v s'. register_project demo_api (ProjectProgress.demo_call 0) (\<lambda>_ x. x) demo_caller demo_staged ''k'' (demo_client_state Map.empty)
     = (Inr v, s') \<and> \<not> gs_replayed v"
proof -
  let ?s = "demo_client_state Map.empty"
  have env: "ai_client demo_api = demo_client" "cl_project demo_client = demo_service" "cw_project (is_world ?s) = demo_start"
    by (simp_all add: demo_api_def demo_client_def demo_client_state_def)
  have id: "api_project_id (ai_hash demo_api) demo_caller ''k'' = ''api-0a''" by (simp add: api_project_id_def demo_api_def)
  have create: "require_project_creation demo_caller = Inr ''o''" by (simp add: require_project_creation_def demo_caller_def)
  have claim: "validate_staged_artifact_claim REGISTRATION_PROPOSAL (gq_proposal demo_staged) = Inr ''.pptx''"
    by (simp add: validate_staged_artifact_claim_def demo_staged_def MAX_STAGED_PPTX_BYTES_def)
  have "resolve_staged_artifact demo_api demo_caller REGISTRATION_PROPOSAL (gq_proposal demo_staged) = Inr ''/p.pptx''"
    using claim by (simp add: resolve_staged_artifact_def demo_api_def demo_sources_def demo_staged_def path_suffix_def
        Ingest.path_name_def Let_def casefold_def casefold_char_def)
  then have paths: "staged_paths demo_api demo_caller demo_staged = Inr (''/p.pptx'', None)"
    by (simp add: staged_paths_def) (simp add: demo_staged_def)
  obtain x where x: "svc_create_project demo_service (ProjectProgress.demo_call 0) ''/p.pptx'' ''T'' None (Some ''api-0a'') None
     (Some (empty_context\<lparr>rc_proposer_org_id := Some ''o''\<rparr>)) ''u'' ADMINISTRATOR (Some demo_sha) None demo_start =
     (Inr demo_staged_draft, x)" "dossier_load ''api-0a'' (pj_store x) = Inr demo_staged_draft"
    using demo_staged_created by blast
  define s' where "s' = ?s\<lparr>is_world := (is_world ?s)\<lparr>cw_project := x\<rparr>\<rparr>"
  have current: "current_dossier (client_case_env demo_client) ''api-0a'' x = Inr demo_staged_draft"
    using x(2) by (simp add: current_dossier_def client_case_env_def Let_def)
  have staged: "gq_title demo_staged = ''T''" "gq_review_profile demo_staged = None" "gq_sidecar demo_staged = None"
    "sa_sha256 (gq_proposal demo_staged) = demo_sha" "registration_context ''o'' demo_staged = empty_context\<lparr>rc_proposer_org_id := Some ''o''\<rparr>"
    "ap_subject demo_caller = ''u''" "creator_role demo_caller = ADMINISTRATOR"
    by (simp_all add: demo_staged_def registration_context_def demo_caller_def creator_role_def empty_context_def)
  have run: "register_case demo_client (ProjectProgress.demo_call 0) ''/p.pptx'' ''T'' None (Some ''api-0a'') None
      (Some (empty_context\<lparr>rc_proposer_org_id := Some ''o''\<rparr>)) ''u'' ADMINISTRATOR (Some demo_sha) None ?s = (Inr ''api-0a'', s')"
    using x(1) current
    by (simp add: register_case_def client_create_project_def on_world_def on_project_def env client_open_case_def open_case_def
        s'_def pure_def)
  have "stored_project ''api-0a'' ?s = Inl (Exn DossierNotFoundError ''dossier not found'')"
  proof -
    have "is_project_id ''api-0a''" by code_simp
    then show ?thesis by (simp add: stored_project_def env demo_start_def dossier_load_def dossier_path_for_if)
  qed
  moreover have "\<exists>v. project_registration_view demo_staged_draft False = Inr v \<and> \<not> gs_replayed v"
    by (simp add: project_registration_view_def demo_staged_draft_def demo_draft_def)
  moreover have "cw_project (is_world s') = x" by (simp add: s'_def)
  ultimately show ?thesis
    using run current
    by (auto simp: register_project_def id create claim paths staged env pure_def)
qed

theorem registration_replays_witness:
  "\<exists>v s'. register_project demo_api (ProjectProgress.demo_call 0) (\<lambda>_ x. x) demo_caller demo_staged ''k'' (demo_client_state Map.empty)
     = (Inr v, s') \<and>
   register_project demo_api (ProjectProgress.demo_call 5) (\<lambda>_ x. x) demo_caller demo_staged ''k'' s' =
     (Inr (v\<lparr>gs_replayed := True\<rparr>), s') \<and> gs_proposer_org_id v = ''o''"
proof -
  obtain v s' where run: "register_project demo_api (ProjectProgress.demo_call 0) (\<lambda>_ x. x) demo_caller demo_staged ''k''
      (demo_client_state Map.empty) = (Inr v, s')" "\<not> gs_replayed v" using demo_registered by blast
  have env: "cl_project (ai_client demo_api) = demo_service" "cw_project (is_world (demo_client_state Map.empty)) = demo_start"
    by (simp_all add: demo_api_def demo_client_def demo_client_state_def)
  have valid: "registration_request_valid demo_staged"
    by (simp add: registration_request_valid_def demo_staged_def staged_artifact_ref_valid_def is_safe_id_def PPTX_MEDIA_TYPE_def
        list_all_iff char_class_defs)
  have files: "sc_src (ProjectProgress.demo_call 0) = ai_sources demo_api" by (simp add: ProjectProgress.demo_call_def demo_api_def)
  have fresh: "fresh_uid (cl_project (ai_client demo_api)) (cw_project (is_world (demo_client_state Map.empty))) (sc_uid (ProjectProgress.demo_call 0) 1)"
    using demo_new [of 0 1] new_uid_fresh unfolding env by simp
  have registry: "registry_ok (\<lambda>_. demo_sha) (pv_profiles (cl_project (ai_client demo_api)))"
    using Policies.demo_policy(1) unfolding env
    by (auto simp: registry_ok_def demo_service_def demo_profile_def Policies.demo_policy_def builtin_default_policy_def)
  from registration_replays [OF valid run files fresh registry, of "ProjectProgress.demo_call 5" "\<lambda>_ x. x"] run(1)
  show ?thesis by (auto simp: demo_caller_def)
qed

end
