(* ===== verification/EducationApi.thy ===== *)
theory EducationApi
  imports ProjectApi
begin

text \<open>
  \<open>api/education_routes.py\<close> with its request and response models: programs, enrollments and the commands on them,
  each for an authenticated principal.  A command's actor, role and organization come from the principal and from
  the audited enrollment, never from the request.  As for the project routes, \<open>between i\<close> is what other
  processes do before the \<open>i\<close>-th step; the reads of one enrollment, its program and the audit log follow each other
  directly in the source and are taken of one moment here.  The text of a result is not part of the model of the
  service.
\<close>

section \<open>Requests and views\<close>

record confirmation_request =
  cq_expected_revision :: int
  cq_requirement_id :: string
  cq_evidence_id :: string

definition is_evidence_id :: "string \<Rightarrow> bool" where
  "is_evidence_id = matches_id is_alnum (\<lambda>c. is_alnum c \<or> c \<in> set ''._:-'') 0 255"

definition confirmation_request_valid :: "confirmation_request \<Rightarrow> bool" where
  "confirmation_request_valid q \<longleftrightarrow> 1 \<le> cq_expected_revision q \<and> is_identifier (cq_requirement_id q) \<and>
     is_evidence_id (cq_evidence_id q)"

definition score_request_valid :: "confirmation_request \<Rightarrow> rat \<Rightarrow> bool" where
  "score_request_valid q score \<longleftrightarrow> confirmation_request_valid q \<and> 0 \<le> score \<and> score \<le> 100"

record completion_request =
  lq_expected_revision :: int
  lq_command :: completion_command
  lq_rationale :: string
  lq_reopen :: "string list"

definition completion_request_valid :: "completion_request \<Rightarrow> bool" where
  "completion_request_valid q \<longleftrightarrow> 1 \<le> lq_expected_revision q \<and> 1 \<le> length (lq_rationale q) \<and> length (lq_rationale q) \<le> 4000"

record education_command_response =
  er_enrollment_id :: string
  er_enrollment_status :: enrollment_status
  er_enrollment_revision :: int
  er_active_milestone_ids :: "string list"
  er_allowed_commands :: "string list"
  er_status :: string

record education_program_view =
  pw_selector :: string
  pw_sha256 :: string
  pw_program :: education_program

record education_enrollment_view =
  nv_enrollment_id :: string
  nv_learner_ref :: string
  nv_organization_id :: string
  nv_program_selector :: string
  nv_program_sha256 :: string
  nv_revision :: int
  nv_status :: enrollment_status
  nv_created_at :: int
  nv_updated_at :: int
  nv_milestones :: "milestone_progress list"
  nv_notifications :: "program_notification list"
  nv_completion_decisions :: "completion_decision list"

record enrollment_context =
  xc_enrollment :: education_enrollment
  xc_program :: education_program
  xc_program_ref :: program_ref
  xc_organization_id :: string

definition scoped_idempotency_key :: "(string \<Rightarrow> string) \<Rightarrow> api_principal \<Rightarrow> string \<Rightarrow> string" where
  "scoped_idempotency_key h caller raw_key =
     ''api-edu-'' @ take 40 (h (ap_subject caller @ [NUL] @ ''education'' @ [NUL] @ raw_key))"

definition stable_enrollment_id :: "(string \<Rightarrow> string) \<Rightarrow> api_principal \<Rightarrow> string \<Rightarrow> string" where
  "stable_enrollment_id h caller raw_key =
     ''enrollment-api-'' @ take 32 (h (ap_subject caller @ [NUL] @ ''education:enroll'' @ [NUL] @ raw_key))"

definition education_command_view :: "edu_result \<Rightarrow> education_command_response" where
  "education_command_view r =
     \<lparr>er_enrollment_id = xe_enrollment_id r, er_enrollment_status = xe_enrollment_status r,
      er_enrollment_revision = xe_revision r, er_active_milestone_ids = xe_active_milestones r,
      er_allowed_commands = xe_allowed_commands r, er_status = xe_status r\<rparr>"

definition enrollment_view :: "enrollment_context \<Rightarrow> education_enrollment_view" where
  "enrollment_view x = (let e = xc_enrollment x in
     \<lparr>nv_enrollment_id = ee_enrollment_id e, nv_learner_ref = ee_learner_ref e, nv_organization_id = xc_organization_id x,
      nv_program_selector = program_selector (ee_program e), nv_program_sha256 = pf_sha256 (ee_program e),
      nv_revision = ee_revision e, nv_status = ee_status e, nv_created_at = ee_created_at e,
      nv_updated_at = ee_updated_at e, nv_milestones = ee_milestones e, nv_notifications = ee_notifications e,
      nv_completion_decisions = ee_decisions e\<rparr>)"

section \<open>Milestones and requirements\<close>

definition api_milestone :: "education_program \<Rightarrow> string \<Rightarrow> milestone_spec res" where
  "api_milestone p milestone_id =
     (case first_such (\<lambda>m. ml_milestone_id m = milestone_id) (map snd (program_milestones p)) of
        None \<Rightarrow> Inl (api_problem 404 ''education_milestone_not_found'')
      | Some m \<Rightarrow> Inr m)"

datatype requirement_kind = KIND_MANUAL | KIND_SCORE

definition required_role :: "education_program \<Rightarrow> string \<Rightarrow> string \<Rightarrow> requirement_kind \<Rightarrow> string res" where
  "required_role p milestone_id requirement_id expected_kind =
     (case api_milestone p milestone_id of
        Inl e \<Rightarrow> Inl e
      | Inr m \<Rightarrow>
     (case first_such (\<lambda>r. rq_id r = requirement_id) (ml_requirements m) of
        None \<Rightarrow> Inl (api_problem 404 ''education_requirement_not_found'')
      | Some r \<Rightarrow>
          (case (expected_kind, r) of
             (KIND_MANUAL, ManualConfirmation _ _ role _) \<Rightarrow> Inr role
           | (KIND_SCORE, ScoreAtLeast _ _ _ role _) \<Rightarrow> Inr role
           | _ \<Rightarrow> Inl (api_problem 409 ''education_requirement_kind_conflict''))))"

section \<open>Loading\<close>

definition program_integrity_failure :: exn where
  "program_integrity_failure = api_problem 409 ''education_program_integrity_failure''"

definition load_program ::
  "'n api_env \<Rightarrow> string \<Rightarrow> string \<Rightarrow> 'n client_state \<Rightarrow> (education_program \<times> program_ref) res" where
  "load_program api program_id program_version s =
     (case program_resolve (ed_programs (cl_education (ai_client api))) (program_id @ ''@'' @ program_version)
             (cw_programs (is_world s)) of
        Inl e \<Rightarrow>
          if is_instance e ProgramRepositoryError then
            Inl (if str_in ''not found'' (exn_msg e) then api_problem 404 ''education_program_not_found''
                 else program_integrity_failure)
          else if exn_is e [ValidationError, UnicodeError] then Inl program_integrity_failure
          else Inl e
      | Inr x \<Rightarrow> Inr x)"

definition is_enrollment_event :: "education_enrollment \<Rightarrow> program_audit_event \<Rightarrow> bool" where
  "is_enrollment_event e v \<longleftrightarrow> pa_event_id v \<in> set (ee_audit_event_ids e) \<and> pa_enrollment_id v = ee_enrollment_id e \<and>
     pa_event_type v = ''learner_enrolled'' \<and> pa_enrollment_revision v = 1"

text \<open>The checks of a loaded enrollment against its program and the audit log; \<open>ValueError\<close> where one fails.\<close>

definition bound_enrollment ::
  "education_enrollment \<Rightarrow> education_program \<Rightarrow> program_ref \<Rightarrow> program_audit_event list \<Rightarrow> enrollment_context res" where
  "bound_enrollment e p reference events =
     (case first_such (is_enrollment_event e) events of
        None \<Rightarrow> Inl (Exn ValueError ''principal-bound enrollment audit is missing'')
      | Some creation \<Rightarrow>
          if pa_actor_id creation \<noteq> ee_learner_ref e then
            Inl (Exn ValueError ''principal-bound enrollment audit is missing'')
          else
            (case json_get (pa_details creation) ''organization_id'' of
               JStr organization \<Rightarrow>
                 if organization = [] then Inl (Exn ValueError ''enrollment organization binding is missing'')
                 else if json_get (pa_details creation) ''program'' \<noteq> JStr (program_selector (ee_program e)) \<or>
                   json_get (pa_details creation) ''program_sha256'' \<noteq> JStr (pf_sha256 (ee_program e)) then
                   Inl (Exn ValueError ''enrollment program audit does not match'')
                 else Inr \<lparr>xc_enrollment = e, xc_program = p, xc_program_ref = reference, xc_organization_id = organization\<rparr>
             | _ \<Rightarrow> Inl (Exn ValueError ''enrollment organization binding is missing'')))"

definition read_enrollment :: "'n api_env \<Rightarrow> string \<Rightarrow> 'n client_state \<Rightarrow> enrollment_context res" where
  "read_enrollment api enrollment_id s =
     (case enrollment_load enrollment_id (tx_store (cw_enrollments (is_world s))) of
        Inl x \<Rightarrow> Inl x
      | Inr e \<Rightarrow>
     (case program_resolve (ed_programs (cl_education (ai_client api))) (program_selector (ee_program e))
             (cw_programs (is_world s)) of
        Inl x \<Rightarrow> Inl x
      | Inr (p, reference) \<Rightarrow>
          if pf_sha256 reference \<noteq> pf_sha256 (ee_program e) then
            Inl (Exn ValueError ''program hash changed after enrollment'')
          else
            (case audit_entries (tx_audit (cw_enrollments (is_world s))) of
               Inl x \<Rightarrow> Inl x | Inr events \<Rightarrow> bound_enrollment e p reference events)))"

definition enrollment_integrity_failure :: exn where
  "enrollment_integrity_failure = api_problem 409 ''education_enrollment_integrity_failure''"

definition load_enrollment :: "'n api_env \<Rightarrow> string \<Rightarrow> 'n client_state \<Rightarrow> enrollment_context res" where
  "load_enrollment api enrollment_id s =
     (case read_enrollment api enrollment_id s of
        Inl e \<Rightarrow>
          if is_instance e ProgramRepositoryError then
            Inl (if str_in ''not found'' (exn_msg e) then api_problem 404 ''education_enrollment_not_found''
                 else enrollment_integrity_failure)
          else if exn_is e [ValidationError, UnicodeError, ValueError] then Inl enrollment_integrity_failure
          else Inl e
      | Inr x \<Rightarrow> Inr x)"

section \<open>Who may do what\<close>

definition require_organization :: "api_principal \<Rightarrow> enrollment_context \<Rightarrow> unit res" where
  "require_organization caller x =
     (if ap_organization_id caller \<noteq> Some (xc_organization_id x) \<and>
         \<not> (ap_role caller = API_ADMINISTRATOR \<and> ''education:organization:any'' \<in> ap_scopes caller)
      then Inl (api_problem 403 ''education_organization_forbidden'') else Inr ())"

definition and_then :: "unit res \<Rightarrow> 'a res \<Rightarrow> 'a res" where
  "and_then r r' = (case r of Inl e \<Rightarrow> Inl e | Inr _ \<Rightarrow> r')"

definition learner_scope :: "api_principal \<Rightarrow> enrollment_context \<Rightarrow> bool" where
  "learner_scope caller x \<longleftrightarrow> ap_subject caller = ee_learner_ref (xc_enrollment x) \<and> ''education:progress:self'' \<in> ap_scopes caller"

definition require_learner :: "api_principal \<Rightarrow> enrollment_context \<Rightarrow> unit res" where
  "require_learner caller x = and_then (require_organization caller x)
     (if ap_role caller \<noteq> API_LEARNER \<or> \<not> learner_scope caller x then Inl (api_problem 403 ''education_learner_scope_forbidden'')
      else Inr ())"

definition is_administrator :: "api_principal \<Rightarrow> enrollment_context \<Rightarrow> bool" where
  "is_administrator caller x \<longleftrightarrow> ap_role caller = API_ADMINISTRATOR \<and>
     (''education:admin:any'' \<in> ap_scopes caller \<or>
      ''education:enrollment:'' @ ee_enrollment_id (xc_enrollment x) @ '':admin'' \<in> ap_scopes caller)"

definition mentor_scope :: "enrollment_context \<Rightarrow> string" where
  "mentor_scope x = ''education:enrollment:'' @ ee_enrollment_id (xc_enrollment x) @ '':mentor''"

definition instructor_scope :: "enrollment_context \<Rightarrow> string" where
  "instructor_scope x = ''education:program:'' @ program_selector (ee_program (xc_enrollment x)) @ '':instructor''"

definition require_assigned_actor :: "api_principal \<Rightarrow> enrollment_context \<Rightarrow> unit res" where
  "require_assigned_actor caller x = and_then (require_organization caller x)
     (let assigned = (case ap_role caller of
            API_LEARNER \<Rightarrow> learner_scope caller x
          | API_MENTOR \<Rightarrow> mentor_scope x \<in> ap_scopes caller
          | API_INSTRUCTOR \<Rightarrow> instructor_scope x \<in> ap_scopes caller
          | API_ADMINISTRATOR \<Rightarrow> is_administrator caller x
          | _ \<Rightarrow> False)
      in if \<not> assigned then Inl (api_problem 403 ''education_assignment_scope_forbidden'') else Inr ())"

definition require_reviewer :: "api_principal \<Rightarrow> enrollment_context \<Rightarrow> string \<Rightarrow> unit res" where
  "require_reviewer caller x role = and_then (require_organization caller x)
     (if is_administrator caller x then Inr ()
      else
        (let role_matches = (api_role_value (ap_role caller) = role);
             assigned = (case ap_role caller of
               API_MENTOR \<Rightarrow> mentor_scope x \<in> ap_scopes caller
             | API_INSTRUCTOR \<Rightarrow> instructor_scope x \<in> ap_scopes caller
             | _ \<Rightarrow> False)
         in if \<not> role_matches \<or> \<not> assigned then Inl (api_problem 403 ''education_reviewer_scope_forbidden'') else Inr ()))"

definition require_administrator :: "api_principal \<Rightarrow> enrollment_context \<Rightarrow> unit res" where
  "require_administrator caller x = and_then (require_organization caller x)
     (if \<not> is_administrator caller x then Inl (api_problem 403 ''education_administrator_scope_forbidden'') else Inr ())"

section \<open>Running a command\<close>

definition education_problem :: "exn \<Rightarrow> exn" where
  "education_problem e =
     (if is_instance e IdempotencyConflictError then api_problem 409 ''education_idempotency_conflict''
      else if is_instance e EnrollmentRevisionConflictError then api_problem 409 ''stale_enrollment_revision''
      else if is_instance e EducationProgramError then
        (if str_in ''expected enrollment revision'' (exn_msg e) then api_problem 409 ''stale_enrollment_revision''
         else api_problem 409 ''education_command_conflict'')
      else if is_instance e ProgramRepositoryError then
        (if str_in ''not found'' (exn_msg e) then api_problem 404 ''education_resource_not_found''
         else api_problem 409 ''education_resource_integrity_failure'')
      else if exn_is e [TransactionBlockedError, TransactionConflictError, TransactionIntegrityError, ValidationError, UnicodeError]
        then api_problem 409 ''education_transaction_integrity_failure''
      else e)"

text \<open>What a call of the service reads from outside: the clocks, the uuids and the time it starts at.\<close>

record edu_call =
  dc_t :: "nat \<Rightarrow> int"
  dc_te :: "nat \<Rightarrow> int"
  dc_uid :: "nat \<Rightarrow> string"
  dc_now :: int

definition execute_command ::
  "'n api_env \<Rightarrow> edu_call \<Rightarrow> education_request \<Rightarrow> 'n client_state \<Rightarrow> (education_command_response, 'n client_state) outcome" where
  "execute_command api c q s =
     seq (handle (run_education (ai_client api) (dc_t c) (dc_te c) (dc_uid c) (dc_now c) q s)
            (\<lambda>e s. (Inl (education_problem e), s))) (\<lambda>r s.
     (Inr (education_command_view r), s))"

text \<open>The constructor of a command validates it.\<close>

definition principal_request :: "'n api_env \<Rightarrow> api_principal \<Rightarrow> string \<Rightarrow> education_command \<Rightarrow> education_request res" where
  "principal_request api caller key command =
     (let q = \<lparr>eq_idempotency_key = Some (scoped_idempotency_key (ai_hash api) caller key),
               eq_authority_context = ''verified_api_principal'', eq_command = command\<rparr>
      in if education_request_valid q then Inr q else Inl (Exn ValidationError ''EducationCommand''))"

section \<open>Handlers\<close>

text \<open>A command on an enrollment: load it, check the caller, build the command, run it.\<close>

definition guarded_command ::
  "'n api_env \<Rightarrow> edu_call \<Rightarrow> (nat \<Rightarrow> 'n client_state \<Rightarrow> 'n client_state) \<Rightarrow> (enrollment_context \<Rightarrow> unit res) \<Rightarrow>
   (enrollment_context \<Rightarrow> education_command) \<Rightarrow> api_principal \<Rightarrow> string \<Rightarrow> string \<Rightarrow> 'n client_state \<Rightarrow>
   (education_command_response, 'n client_state) outcome" where
  "guarded_command api c between check command caller enrollment_id key s =
     seq (pure (load_enrollment api enrollment_id s) s) (\<lambda>x s.
     seq (pure (check x) s) (\<lambda>_ s.
     seq (pure (principal_request api caller key (command x)) s) (\<lambda>q s.
     execute_command api c q (between 0 s))))"

definition milestone_there :: "enrollment_context \<Rightarrow> string \<Rightarrow> unit res" where
  "milestone_there x milestone_id = map_sum id (\<lambda>_. ()) (api_milestone (xc_program x) milestone_id)"

definition review_check :: "api_principal \<Rightarrow> string \<Rightarrow> string \<Rightarrow> requirement_kind \<Rightarrow> enrollment_context \<Rightarrow> unit res" where
  "review_check caller milestone_id requirement_id kind x = and_then (require_organization caller x)
     (case required_role (xc_program x) milestone_id requirement_id kind of
        Inl e \<Rightarrow> Inl e | Inr role \<Rightarrow> require_reviewer caller x role)"

definition api_start_milestone where
  "api_start_milestone api c between caller enrollment_id milestone_id revision key =
     guarded_command api c between (\<lambda>x. and_then (require_learner caller x) (milestone_there x milestone_id))
       (\<lambda>x. StartMilestoneCommand enrollment_id milestone_id (ap_subject caller) (Some revision)) caller enrollment_id key"

definition api_record_manual_confirmation where
  "api_record_manual_confirmation api c between caller enrollment_id milestone_id q key =
     guarded_command api c between (review_check caller milestone_id (cq_requirement_id q) KIND_MANUAL)
       (\<lambda>x. ManualConfirmationCommand enrollment_id milestone_id (cq_requirement_id q) (ap_subject caller)
          (api_role_value (ap_role caller)) (''evidence:'' @ cq_evidence_id q) (Some (cq_expected_revision q)))
       caller enrollment_id key"

definition api_record_score where
  "api_record_score api c between caller enrollment_id milestone_id q score key =
     guarded_command api c between (review_check caller milestone_id (cq_requirement_id q) KIND_SCORE)
       (\<lambda>x. RecordScoreCommand enrollment_id milestone_id (cq_requirement_id q) score (ap_subject caller)
          (api_role_value (ap_role caller)) (''evidence:'' @ cq_evidence_id q) (Some (cq_expected_revision q)))
       caller enrollment_id key"

definition api_bind_project where
  "api_bind_project api c between caller enrollment_id milestone_id project_id revision key =
     guarded_command api c between (\<lambda>x. and_then (require_learner caller x) (milestone_there x milestone_id))
       (\<lambda>x. BindProjectCommand enrollment_id milestone_id project_id (ap_subject caller) (Some (xc_organization_id x)) (Some revision))
       caller enrollment_id key"

definition api_sync_project where
  "api_sync_project api c between caller enrollment_id milestone_id revision key =
     guarded_command api c between (\<lambda>x. and_then (require_assigned_actor caller x) (milestone_there x milestone_id))
       (\<lambda>x. SyncProjectCommand enrollment_id milestone_id (ap_subject caller) (api_role_value (ap_role caller))
          (Some (xc_organization_id x)) (Some revision))
       caller enrollment_id key"

definition api_decide_completion where
  "api_decide_completion api c between caller enrollment_id q key =
     guarded_command api c between (require_administrator caller)
       (\<lambda>x. DecideProgramCompletionCommand enrollment_id (lq_command q) (ap_subject caller) (lq_rationale q)
          (lq_reopen q) (Some (lq_expected_revision q)))
       caller enrollment_id key"

definition api_get_program ::
  "'n api_env \<Rightarrow> api_principal \<Rightarrow> string \<Rightarrow> string \<Rightarrow> 'n client_state \<Rightarrow> education_program_view res" where
  "api_get_program api caller program_id program_version s =
     (if ''education:programs:read'' \<notin> ap_scopes caller then Inl (api_problem 403 ''education_program_read_forbidden'')
      else map_sum id (\<lambda>(p, reference). \<lparr>pw_selector = program_selector reference, pw_sha256 = pf_sha256 reference, pw_program = p\<rparr>)
             (load_program api program_id program_version s))"

definition api_get_enrollment :: "'n api_env \<Rightarrow> api_principal \<Rightarrow> string \<Rightarrow> 'n client_state \<Rightarrow> education_enrollment_view res" where
  "api_get_enrollment api caller enrollment_id s =
     (case load_enrollment api enrollment_id s of
        Inl e \<Rightarrow> Inl e
      | Inr x \<Rightarrow> and_then (require_assigned_actor caller x) (Inr (enrollment_view x)))"

definition api_create_enrollment ::
  "'n api_env \<Rightarrow> edu_call \<Rightarrow> (nat \<Rightarrow> 'n client_state \<Rightarrow> 'n client_state) \<Rightarrow> api_principal \<Rightarrow> string \<Rightarrow> string \<Rightarrow> string \<Rightarrow>
   string \<Rightarrow> 'n client_state \<Rightarrow> (education_command_response, 'n client_state) outcome" where
  "api_create_enrollment api c between caller program_id program_version expected_sha256 key s =
     (if ap_role caller \<noteq> API_LEARNER \<or> ''education:enroll:self'' \<notin> ap_scopes caller then
        (Inl (api_problem 403 ''education_enrollment_scope_forbidden''), s)
      else case ap_organization_id caller of
        None \<Rightarrow> (Inl (api_problem 403 ''education_organization_required''), s)
      | Some organization \<Rightarrow>
          seq (pure (load_program api program_id program_version s) s) (\<lambda>(_, reference) s.
          if pf_sha256 reference \<noteq> expected_sha256 then (Inl (api_problem 409 ''education_program_hash_conflict''), s)
          else
            seq (pure (principal_request api caller key (EnrollCommand (program_selector reference) (ap_subject caller)
                   (Some (stable_enrollment_id (ai_hash api) caller key)) (Some organization) (Some (ap_subject caller)))) s) (\<lambda>q s.
            seq (execute_command api c q (between 0 s)) (\<lambda>response s.
            let s = between 1 s in
            seq (pure (load_enrollment api (er_enrollment_id response) s) s) (\<lambda>x s.
            if ee_learner_ref (xc_enrollment x) \<noteq> ap_subject caller \<or> xc_organization_id x \<noteq> organization \<or>
               program_selector (xc_program_ref x) \<noteq> program_selector reference \<or>
               pf_sha256 (xc_program_ref x) \<noteq> pf_sha256 reference
            then (Inl enrollment_integrity_failure, s)
            else (Inr response, s))))))"

text \<open>The commands on one enrollment.\<close>

datatype education_route =
    StartMilestone string int
  | Confirm string confirmation_request
  | Score string confirmation_request rat
  | BindProject string string int
  | SyncProject string int
  | DecideProgram completion_request

fun education_route_valid :: "education_route \<Rightarrow> bool" where
  "education_route_valid (StartMilestone m n) = (1 \<le> n)"
| "education_route_valid (Confirm m q) = confirmation_request_valid q"
| "education_route_valid (Score m q score) = score_request_valid q score"
| "education_route_valid (BindProject m p n) = (1 \<le> n \<and> is_project_id p)"
| "education_route_valid (SyncProject m n) = (1 \<le> n)"
| "education_route_valid (DecideProgram q) = completion_request_valid q"

fun run_route where
  "run_route api c between caller e key (StartMilestone m n) = api_start_milestone api c between caller e m n key"
| "run_route api c between caller e key (Confirm m q) = api_record_manual_confirmation api c between caller e m q key"
| "run_route api c between caller e key (Score m q score) = api_record_score api c between caller e m q score key"
| "run_route api c between caller e key (BindProject m p n) = api_bind_project api c between caller e m p n key"
| "run_route api c between caller e key (SyncProject m n) = api_sync_project api c between caller e m n key"
| "run_route api c between caller e key (DecideProgram q) = api_decide_completion api c between caller e q key"

section \<open>Who may act\<close>

definition same_organization :: "api_principal \<Rightarrow> enrollment_context \<Rightarrow> bool" where
  "same_organization caller x \<longleftrightarrow> ap_organization_id caller = Some (xc_organization_id x) \<or>
     ap_role caller = API_ADMINISTRATOR \<and> ''education:organization:any'' \<in> ap_scopes caller"

definition may_follow :: "api_principal \<Rightarrow> enrollment_context \<Rightarrow> bool" where
  "may_follow caller x \<longleftrightarrow> same_organization caller x \<and>
     (ap_role caller = API_LEARNER \<and> learner_scope caller x \<or> ap_role caller = API_MENTOR \<and> mentor_scope x \<in> ap_scopes caller \<or>
      ap_role caller = API_INSTRUCTOR \<and> instructor_scope x \<in> ap_scopes caller \<or> is_administrator caller x)"

definition may_review :: "api_principal \<Rightarrow> enrollment_context \<Rightarrow> string \<Rightarrow> string \<Rightarrow> requirement_kind \<Rightarrow> bool" where
  "may_review caller x m r kind \<longleftrightarrow> same_organization caller x \<and>
     (\<exists>role. required_role (xc_program x) m r kind = Inr role \<and>
        (is_administrator caller x \<or>
         ap_role caller = API_MENTOR \<and> role = ''mentor'' \<and> mentor_scope x \<in> ap_scopes caller \<or>
         ap_role caller = API_INSTRUCTOR \<and> role = ''instructor'' \<and> instructor_scope x \<in> ap_scopes caller))"

fun may_act :: "education_route \<Rightarrow> api_principal \<Rightarrow> enrollment_context \<Rightarrow> bool" where
  "may_act (StartMilestone m n) caller x = (same_organization caller x \<and> ap_role caller = API_LEARNER \<and> learner_scope caller x \<and>
     (\<exists>y. api_milestone (xc_program x) m = Inr y))"
| "may_act (Confirm m q) caller x = may_review caller x m (cq_requirement_id q) KIND_MANUAL"
| "may_act (Score m q score) caller x = may_review caller x m (cq_requirement_id q) KIND_SCORE"
| "may_act (BindProject m p n) caller x = (same_organization caller x \<and> ap_role caller = API_LEARNER \<and> learner_scope caller x \<and>
     (\<exists>y. api_milestone (xc_program x) m = Inr y))"
| "may_act (SyncProject m n) caller x = (may_follow caller x \<and> (\<exists>y. api_milestone (xc_program x) m = Inr y))"
| "may_act (DecideProgram q) caller x = (same_organization caller x \<and> is_administrator caller x)"

text \<open>The command a route runs: all of its authority is the caller's and the enrollment's.\<close>

fun command_of :: "education_route \<Rightarrow> api_principal \<Rightarrow> string \<Rightarrow> enrollment_context \<Rightarrow> education_command" where
  "command_of (StartMilestone m n) caller e = (\<lambda>x. StartMilestoneCommand e m (ap_subject caller) (Some n))"
| "command_of (Confirm m q) caller e = (\<lambda>x. ManualConfirmationCommand e m (cq_requirement_id q) (ap_subject caller)
     (api_role_value (ap_role caller)) (''evidence:'' @ cq_evidence_id q) (Some (cq_expected_revision q)))"
| "command_of (Score m q score) caller e = (\<lambda>x. RecordScoreCommand e m (cq_requirement_id q) score (ap_subject caller)
     (api_role_value (ap_role caller)) (''evidence:'' @ cq_evidence_id q) (Some (cq_expected_revision q)))"
| "command_of (BindProject m p n) caller e = (\<lambda>x. BindProjectCommand e m p (ap_subject caller) (Some (xc_organization_id x)) (Some n))"
| "command_of (SyncProject m n) caller e = (\<lambda>x. SyncProjectCommand e m (ap_subject caller) (api_role_value (ap_role caller))
     (Some (xc_organization_id x)) (Some n))"
| "command_of (DecideProgram q) caller e = (\<lambda>x. DecideProgramCompletionCommand e (lq_command q) (ap_subject caller)
     (lq_rationale q) (lq_reopen q) (Some (lq_expected_revision q)))"

fun check_of :: "education_route \<Rightarrow> api_principal \<Rightarrow> enrollment_context \<Rightarrow> unit res" where
  "check_of (StartMilestone m n) caller = (\<lambda>x. and_then (require_learner caller x) (milestone_there x m))"
| "check_of (Confirm m q) caller = (\<lambda>x. review_check caller m (cq_requirement_id q) KIND_MANUAL x)"
| "check_of (Score m q score) caller = (\<lambda>x. review_check caller m (cq_requirement_id q) KIND_SCORE x)"
| "check_of (BindProject m p n) caller = (\<lambda>x. and_then (require_learner caller x) (milestone_there x m))"
| "check_of (SyncProject m n) caller = (\<lambda>x. and_then (require_assigned_actor caller x) (milestone_there x m))"
| "check_of (DecideProgram q) caller = (\<lambda>x. require_administrator caller x)"

lemma run_route_guarded:
  "run_route api c between caller e key r = guarded_command api c between (check_of r caller) (command_of r caller e) caller e key"
  by (cases r)
    (simp_all add: api_start_milestone_def api_record_manual_confirmation_def api_record_score_def api_bind_project_def
      api_sync_project_def api_decide_completion_def)

lemma and_then_Inr [simp]: "and_then r r' = Inr y \<longleftrightarrow> r = Inr () \<and> r' = Inr y"
  by (cases r) (auto simp: and_then_def)

lemma require_organization_Inr [simp]: "require_organization caller x = Inr u \<longleftrightarrow> same_organization caller x"
  by (auto simp: require_organization_def same_organization_def)

lemma milestone_there_Inr [simp]: "milestone_there x m = Inr u \<longleftrightarrow> (\<exists>y. api_milestone (xc_program x) m = Inr y)"
  by (cases "api_milestone (xc_program x) m") (auto simp: milestone_there_def)

lemma assigned_Inr [simp]: "require_assigned_actor caller x = Inr u \<longleftrightarrow> may_follow caller x"
  by (cases "ap_role caller") (auto simp: require_assigned_actor_def may_follow_def is_administrator_def Let_def)

lemma reviewer_Inr:
  "require_reviewer caller x role = Inr u \<longleftrightarrow> same_organization caller x \<and> (is_administrator caller x \<or>
     ap_role caller = API_MENTOR \<and> role = ''mentor'' \<and> mentor_scope x \<in> ap_scopes caller \<or>
     ap_role caller = API_INSTRUCTOR \<and> role = ''instructor'' \<and> instructor_scope x \<in> ap_scopes caller)"
  by (cases "ap_role caller") (auto simp: require_reviewer_def is_administrator_def Let_def)

lemma check_may: "check_of r caller x = Inr u \<longleftrightarrow> may_act r caller x"
proof -
  have review: "review_check caller m i kind x = Inr u \<longleftrightarrow> may_review caller x m i kind" for m i kind u
    by (cases "required_role (xc_program x) m i kind") (auto simp: review_check_def may_review_def reviewer_Inr)
  show ?thesis
    by (cases r) (auto simp: review require_learner_def require_administrator_def)
qed

text \<open>A caller who may run a command sends a valid one.\<close>

lemma scoped_key_safe:
  assumes "is_sha256 (h x)" "x = ap_subject caller @ [NUL] @ ''education'' @ [NUL] @ key"
  shows "is_safe_id (scoped_idempotency_key h caller key)"
proof -
  have "list_all (\<lambda>c. is_digit c \<or> char_between (CHR ''a'') (CHR ''f'') c) (take 40 (h x))"
    using assms(1) by (auto simp: is_sha256_def list_all_iff dest!: in_set_takeD)
  then have "list_all (\<lambda>c. is_alnum c) (take 40 (h x))"
    by (auto simp: list_all_iff is_alnum_def char_class_defs)
  moreover have "is_alnum (CHR ''a'')" "is_alnum (CHR ''p'')" "is_alnum (CHR ''i'')" "is_alnum (CHR ''e'')" "is_alnum (CHR ''d'')" "is_alnum (CHR ''u'')"
    by (simp_all add: is_alnum_def char_class_defs)
  ultimately show ?thesis
    unfolding scoped_idempotency_key_def assms(2) [symmetric]
    by (auto simp: is_safe_id_def list_all_iff)
qed

lemma route_request:
  assumes "\<And>x. is_sha256 (ai_hash api x)" "education_route_valid r" "may_act r caller x"
  shows "principal_request api caller key (command_of r caller e x) =
    Inr \<lparr>eq_idempotency_key = Some (scoped_idempotency_key (ai_hash api) caller key),
         eq_authority_context = ''verified_api_principal'', eq_command = command_of r caller e x\<rparr>"
proof -
  have "education_command_valid (command_of r caller e x)"
    using assms(2,3)
    by (cases r)
      (auto simp: revision_field_def Pipelines.reviewer_roles_def confirmation_request_valid_def score_request_valid_def
        completion_request_valid_def may_review_def may_follow_def is_administrator_def)
  then show ?thesis
    using scoped_key_safe [OF assms(1) refl] by (simp add: principal_request_def education_request_valid_def)
qed

text \<open>What running a command does to the world is nothing or one command of the education service.\<close>

lemma run_education_world:
  "is_world (snd (run_education env t te uid now q s)) \<in>
     {is_world s, after_education (snd (education_pipeline (cl_education env) te uid now None q (education_view (is_world s)))) (is_world s)}"
proof -
  let ?f = "on_education (education_pipeline (cl_education env) te uid now None q)"
  have call: "snd (?f (is_world s)) =
      after_education (snd (education_pipeline (cl_education env) te uid now None q (education_view (is_world s)))) (is_world s)"
    by (simp add: on_education_def)
  have "is_world (snd (run_education env t te uid now q s)) \<in> {is_world s, snd (?f (is_world s))}"
  proof (cases "truthy (eq_idempotency_key q)")
    case True
    then show ?thesis using idem_execute_world by (simp only: run_education_def Let_def if_True)
  next
    case False
    then show ?thesis by (simp add: run_education_def Let_def on_world_def)
  qed
  then show ?thesis by (simp only: call)
qed

lemma execute_command_world:
  "is_world (snd (execute_command api c q s)) =
     is_world (snd (run_education (ai_client api) (dc_t c) (dc_te c) (dc_uid c) (dc_now c) q s))"
  by (simp add: execute_command_def seq_def handle_def split: sum.split prod.split)

lemma guarded_refused:
  assumes "\<And>x. load_enrollment api e s = Inr x \<Longrightarrow> \<exists>y. check x = Inl y"
  shows "\<exists>y. guarded_command api c between check command caller e key s = (Inl y, s)"
  using assms by (cases "load_enrollment api e s") (auto simp: guarded_command_def pure_def)

text \<open>
  C37. No command without authority: a command on an enrollment is refused and changes nothing, unless the enrollment loads
  with its program and its audited creation and the caller may give this command: the learner of the enrollment
  starts milestones and binds projects, the mentor of the enrollment or the instructor of the program confirms or scores
  a requirement that the program gives to that role, an administrator of the enrollment decides; all from the
  organization of the enrollment.  Then the world changes by at most this one command of the education
  service, given by the caller in the caller's own role, with the organization of the enrollment.
\<close>

theorem education_needs_authority:
  assumes hash: "\<And>x. is_sha256 (ai_hash api x)" and valid: "education_route_valid r"
    and run: "run_route api c between caller e key r s = (y, s')"
  shows "(\<nexists>x. load_enrollment api e s = Inr x \<and> may_act r caller x) \<and> (\<exists>z. y = Inl z) \<and> s' = s \<or>
    (\<exists>x q. load_enrollment api e s = Inr x \<and> may_act r caller x \<and> eq_command q = command_of r caller e x \<and>
       eq_authority_context q = ''verified_api_principal'' \<and>
       (let w = is_world (between 0 s) in is_world s' \<in>
         {w, after_education (snd (education_pipeline (cl_education (ai_client api)) (dc_te c) (dc_uid c) (dc_now c) None q
               (education_view w))) w}))"
proof (cases "\<exists>x. load_enrollment api e s = Inr x \<and> may_act r caller x")
  case True
  then obtain x where x: "load_enrollment api e s = Inr x" "may_act r caller x" by blast
  let ?q = "\<lparr>eq_idempotency_key = Some (scoped_idempotency_key (ai_hash api) caller key),
     eq_authority_context = ''verified_api_principal'', eq_command = command_of r caller e x\<rparr>"
  have "check_of r caller x = Inr ()" using x(2) by (simp add: check_may)
  then have "run_route api c between caller e key r s = execute_command api c ?q (between 0 s)"
    using x(1) route_request [OF hash valid x(2)] by (simp add: run_route_guarded guarded_command_def pure_def)
  then have "snd (execute_command api c ?q (between 0 s)) = s'" using run by (metis snd_conv)
  then have "is_world s' = is_world (snd (run_education (ai_client api) (dc_t c) (dc_te c) (dc_uid c) (dc_now c) ?q (between 0 s)))"
    using execute_command_world [of api c ?q "between 0 s"] by simp
  with run_education_world [of "ai_client api" "dc_t c" "dc_te c" "dc_uid c" "dc_now c" ?q "between 0 s"] x show ?thesis
    unfolding Let_def by (intro disjI2 exI [of _ x] exI [of _ ?q]) simp
next
  case False
  have "\<exists>z. check_of r caller x = Inl z" if "load_enrollment api e s = Inr x" for x
    using False that check_may [of r caller x] by (cases "check_of r caller x") auto
  then have "\<exists>z. run_route api c between caller e key r s = (Inl z, s)"
    unfolding run_route_guarded by (cases "load_enrollment api e s") (auto intro!: guarded_refused)
  with run False show ?thesis by auto
qed

text \<open>
  C38. An instructor cannot act: whoever the OIDC verifier lets through as an instructor, under whatever valid policy and
  token, is refused every command on every enrollment, and may not even look at one: the scope the routes ask for
  contains a character that no scope a policy can bind contains.
\<close>

theorem instructors_are_locked_out:
  assumes policy: "oidc_policy_valid bracketed p" and verified: "oidc_verify jwt p provider token = Inr (Some caller)"
    and instructor: "ap_role caller = API_INSTRUCTOR"
  shows "(\<exists>z. run_route api c between caller e key r s = (Inl z, s)) \<and> (\<exists>z. api_get_enrollment api caller e s = Inl z)"
proof -
  have "CHR ''@'' \<in> set (instructor_scope x)" for x by (simp add: instructor_scope_def program_selector_def)
  then have no: "instructor_scope x \<notin> ap_scopes caller" for x
    using oidc_scope_chars [OF policy verified] by blast
  then have not: "\<not> may_follow caller x" "\<not> may_act r caller x" for x
    using instructor by (cases r; simp add: may_follow_def may_review_def is_administrator_def)+
  then have "\<exists>z. check_of r caller x = Inl z" "\<exists>z. require_assigned_actor caller x = Inl z" for x
    using check_may [of r caller x] assigned_Inr [of caller x] by (cases "check_of r caller x"; cases "require_assigned_actor caller x"; auto)+
  then show ?thesis
    unfolding run_route_guarded using not
    by (cases "load_enrollment api e s") (auto intro!: guarded_refused simp: api_get_enrollment_def and_then_def split: sum.split)
qed

text \<open>
  An enrollment is the caller's own: when an enrollment request is answered, the caller is a learner with the scope
  for it, and the enrollment the answer names is stored for this learner and this learner's organization, of the requested
  program with the requested content, and the first event of it in the audit log is the caller's own enrollment.
\<close>

theorem enrollments_are_own:
  assumes run: "api_create_enrollment api c between caller program_id version sha key s = (Inr v, s')"
  shows "ap_role caller = API_LEARNER \<and> ''education:enroll:self'' \<in> ap_scopes caller \<and>
    (\<exists>x es ev. load_enrollment api (er_enrollment_id v) s' = Inr x \<and> ee_enrollment_id (xc_enrollment x) = er_enrollment_id v \<and>
       ee_learner_ref (xc_enrollment x) = ap_subject caller \<and> ap_organization_id caller = Some (xc_organization_id x) \<and>
       pf_sha256 (ee_program (xc_enrollment x)) = sha \<and>
       audit_entries (tx_audit (cw_enrollments (is_world s'))) = Inr es \<and> ev \<in> set es \<and>
       is_enrollment_event (xc_enrollment x) ev \<and> pa_actor_id ev = ap_subject caller \<and>
       json_get (pa_details ev) ''organization_id'' = JStr (xc_organization_id x) \<and>
       json_get (pa_details ev) ''program_sha256'' = JStr sha)"
proof -
  from run obtain organization p reference x where
    caller: "ap_role caller = API_LEARNER" "''education:enroll:self'' \<in> ap_scopes caller" "ap_organization_id caller = Some organization"
    and program: "load_program api program_id version s = Inr (p, reference)" "pf_sha256 reference = sha"
    and x: "load_enrollment api (er_enrollment_id v) s' = Inr x" "ee_learner_ref (xc_enrollment x) = ap_subject caller"
      "xc_organization_id x = organization" "pf_sha256 (xc_program_ref x) = pf_sha256 reference"
    by (auto simp: api_create_enrollment_def outcome_simps Let_def split: if_splits option.splits)
  from x(1) have "read_enrollment api (er_enrollment_id v) s' = Inr x"
    by (auto simp: load_enrollment_def split: sum.splits if_splits)
  then obtain e q r es where e: "enrollment_load (er_enrollment_id v) (tx_store (cw_enrollments (is_world s'))) = Inr e"
    and r: "pf_sha256 r = pf_sha256 (ee_program e)"
    and es: "audit_entries (tx_audit (cw_enrollments (is_world s'))) = Inr es" and bound: "bound_enrollment e q r es = Inr x"
    by (auto simp: read_enrollment_def split: sum.splits if_splits)
  from bound obtain ev where ev: "first_such (is_enrollment_event e) es = Some ev" "pa_actor_id ev = ee_learner_ref e"
    "json_get (pa_details ev) ''organization_id'' = JStr (xc_organization_id x)" "json_get (pa_details ev) ''program_sha256'' = JStr (pf_sha256 (ee_program e))"
    "xc_enrollment x = e" "xc_program_ref x = r"
    by (auto simp: bound_enrollment_def split: option.splits if_splits json.splits)
  have "ee_enrollment_id e = er_enrollment_id v"
    using e by (auto simp: enrollment_load_def split: sum.splits option.splits if_splits)
  with caller program x es ev r first_such_Some [OF ev(1)] show ?thesis by auto
qed

text \<open>
  Looking is confined as well: an enrollment is shown exactly to the learner, the mentor, the instructor and the administrators
  it is assigned to, of its organization.
\<close>

theorem enrollments_are_shown_to_assigned:
  "api_get_enrollment api caller e s = Inr v \<longleftrightarrow>
     (\<exists>x. load_enrollment api e s = Inr x \<and> may_follow caller x \<and> v = enrollment_view x)"
  by (cases "load_enrollment api e s") (auto simp: api_get_enrollment_def)

text \<open>The error of a missing dossier is none of those the routes translate: it leaves the route as it is.\<close>

lemma missing_dossier_escapes:
  assumes "exn_cls e = DossierNotFoundError"
  shows "education_problem e = e"
  using assms by (cases e) (simp add: education_problem_def is_instance_def ancestors_def exn_is_def)

section \<open>The example\<close>

text \<open>A workspace with the enrollment \<open>n\<close> of the learner \<open>l\<close>, and a key under which it was created.\<close>

definition demo_enrolled_event :: program_audit_event where
  "demo_enrolled_event = edu_event (edu_event_id ''a1'') ''n'' 1 ''learner_enrolled'' ''l'' ''learner''
     [(''authority_context'', JStr ''verified_api_principal''), (''organization_id'', JStr ''o''),
      (''program'', JStr ''g@1.0.0''), (''program_sha256'', JStr demo_sha)] 0"

definition demo_enrollment_result :: edu_result where
  "demo_enrollment_result = \<lparr>xe_status = ''succeeded'', xe_enrollment_id = ''n'', xe_enrollment_status = EN_ACTIVE, xe_revision = 1,
     xe_uri = ''e'', xe_active_milestones = [''x''], xe_allowed_commands = []\<rparr>"

definition demo_school_api :: "notification_event list api_env" where
  "demo_school_api = demo_api\<lparr>ai_client := demo_client\<lparr>cl_parse_education_result := (\<lambda>_. Inr demo_enrollment_result)\<rparr>,
     ai_hash := (\<lambda>_. demo_sha)\<rparr>"

definition demo_learner :: api_principal where
  "demo_learner = \<lparr>ap_subject = ''l'', ap_role = API_LEARNER, ap_organization_id = Some ''o'',
     ap_scopes = {''education:enroll:self'', ''education:progress:self''}\<rparr>"

definition demo_school :: "notification_event list client_state" where
  "demo_school = \<lparr>is_files = [idem_path (cl_idempotency demo_client) (scoped_idempotency_key (\<lambda>_. demo_sha) demo_learner ''k'') \<mapsto>
       IdemJson (idem_succeeded (scoped_idempotency_key (\<lambda>_. demo_sha) demo_learner ''k'') ''education-program-runtime@v1alpha1:enroll'' ''0'' JNull ''t'')],
     is_world = \<lparr>cw_project = demo_start, cw_programs = es_programs demo_edu_start,
       cw_enrollments = \<lparr>tx_journal = [], tx_audit = [EventLine demo_enrolled_event],
         tx_store = [enrollment_file ''n'' \<mapsto> Some demo_first], tx_files = Map.empty\<rparr>\<rparr>\<rparr>"

definition demo_context :: enrollment_context where
  "demo_context = \<lparr>xc_enrollment = demo_first, xc_program = small_program, xc_program_ref = ee_program demo_first, xc_organization_id = ''o''\<rparr>"

definition demo_calls :: edu_call where
  "demo_calls = \<lparr>dc_t = int, dc_te = int, dc_uid = demo_uid ''b'', dc_now = 0\<rparr>"

lemma demo_school_loads: "load_enrollment demo_school_api ''n'' demo_school = Inr demo_context"
proof -
  have e: "ee_enrollment_id demo_first = ''n''" "program_selector (ee_program demo_first) = ''g@1.0.0''"
    "pf_sha256 (ee_program demo_first) = demo_sha" "ee_learner_ref demo_first = ''l''" "ee_audit_event_ids demo_first = [edu_event_id ''a1'']"
    by (simp_all add: demo_first_def program_selector_def)
  have load: "enrollment_load ''n'' (tx_store (cw_enrollments (is_world demo_school))) = Inr demo_first"
    using stored_load [OF demo_first_valid, of "tx_store (cw_enrollments (is_world demo_school))"] by (simp add: e demo_school_def)
  have programs: "ed_programs (cl_education (ai_client demo_school_api)) = ed_programs demo_edu_env"
    "cw_programs (is_world demo_school) = es_programs demo_edu_start"
    by (simp_all add: demo_school_api_def demo_client_def demo_school_def)
  have bound: "bound_enrollment demo_first small_program (ee_program demo_first) [demo_enrolled_event] = Inr demo_context"
    by (simp add: bound_enrollment_def is_enrollment_event_def demo_enrolled_event_def edu_event_def e json_get_def demo_context_def)
  have "audit_entries (tx_audit (cw_enrollments (is_world demo_school))) = Inr [demo_enrolled_event]"
    by (simp add: demo_school_def audit_entries_def)
  then show ?thesis
    by (simp add: load_enrollment_def read_enrollment_def load programs e small_program_facts(3) bound)
qed

theorem education_needs_authority_witness:
  "\<exists>x q y s'. run_route demo_school_api demo_calls (\<lambda>_ x. x) demo_learner ''n'' ''k2'' (StartMilestone ''x'' 1) demo_school = (y, s') \<and>
     load_enrollment demo_school_api ''n'' demo_school = Inr x \<and>
     eq_command q = StartMilestoneCommand ''n'' ''x'' ''l'' (Some 1) \<and>
     is_world s' \<in> {is_world demo_school, after_education (snd (education_pipeline (cl_education (ai_client demo_school_api)) int
       (demo_uid ''b'') 0 None q (education_view (is_world demo_school)))) (is_world demo_school)}"
proof -
  obtain y s' where run: "run_route demo_school_api demo_calls (\<lambda>_ x. x) demo_learner ''n'' ''k2'' (StartMilestone ''x'' 1) demo_school = (y, s')"
    by fastforce
  have hash: "is_sha256 (ai_hash demo_school_api x)" for x by (simp add: demo_school_api_def)
  have may: "may_act (StartMilestone ''x'' 1) demo_learner demo_context"
    by (simp add: same_organization_def demo_learner_def demo_context_def learner_scope_def api_milestone_def small_program_facts(1))
      (simp add: demo_first_def demo_milestone_def)
  have "education_route_valid (StartMilestone ''x'' 1)" by simp
  from education_needs_authority [OF hash this run] may demo_school_loads obtain q where
    "eq_command q = command_of (StartMilestone ''x'' 1) demo_learner ''n'' demo_context"
    "is_world s' \<in> {is_world demo_school, after_education (snd (education_pipeline (cl_education (ai_client demo_school_api)) int
       (demo_uid ''b'') 0 None q (education_view (is_world demo_school)))) (is_world demo_school)}"
    by (auto simp: demo_calls_def Let_def)
  with run demo_school_loads show ?thesis by (auto simp: demo_learner_def)
qed

lemma demo_enrollment_created:
  "api_create_enrollment demo_school_api demo_calls (\<lambda>_ x. x) demo_learner ''g'' ''1.0.0'' demo_sha ''k'' demo_school =
     (Inr (education_command_view demo_enrollment_result), demo_school)"
proof -
  let ?key = "scoped_idempotency_key (\<lambda>_. demo_sha) demo_learner ''k''"
  let ?q = "\<lparr>eq_idempotency_key = Some ?key, eq_authority_context = ''verified_api_principal'',
     eq_command = EnrollCommand ''g@1.0.0'' ''l'' (Some (stable_enrollment_id (\<lambda>_. demo_sha) demo_learner ''k'')) (Some ''o'') (Some ''l'')\<rparr>"
  have env: "ai_hash demo_school_api = (\<lambda>_. demo_sha)" "cl_idempotency (ai_client demo_school_api) = cl_idempotency demo_client"
    "cl_dump_education_request (ai_client demo_school_api) = (\<lambda>_. JNull)"
    "cl_parse_education_result (ai_client demo_school_api) = (\<lambda>_. Inr demo_enrollment_result)"
    "ed_programs (cl_education (ai_client demo_school_api)) = ed_programs demo_edu_env"
    "cw_programs (is_world demo_school) = es_programs demo_edu_start"
    by (simp_all add: demo_school_api_def demo_client_def demo_school_def)
  have reference: "program_selector (ee_program demo_first) = ''g@1.0.0''" "pf_sha256 (ee_program demo_first) = demo_sha"
    "ee_learner_ref demo_first = ''l''"
    by (simp_all add: demo_first_def program_selector_def)
  have program: "load_program demo_school_api ''g'' ''1.0.0'' demo_school = Inr (small_program, ee_program demo_first)"
    by (simp add: load_program_def env small_program_facts(3))
  have safe: "is_safe_id ?key" using scoped_key_safe [of "\<lambda>_. demo_sha" _ demo_learner "''k''"] by simp
  have request: "principal_request demo_school_api demo_learner ''k'' (EnrollCommand ''g@1.0.0'' ''l''
      (Some (stable_enrollment_id (\<lambda>_. demo_sha) demo_learner ''k'')) (Some ''o'') (Some ''l'')) = Inr ?q"
    using safe by (simp add: principal_request_def education_request_valid_def env)
  have key: "is_idempotency_key ?key" by code_simp
  have holds: "idem_holds ''education-program-runtime@v1alpha1:enroll'' (iv_sha_json (cl_idempotency demo_client) JNull) JNull
      (is_files demo_school (idem_path (cl_idempotency demo_client) ?key))"
    by (simp add: demo_school_def demo_client_def demo_decision_input_def replay_input_def)
  have "run_education (ai_client demo_school_api) int int (demo_uid ''b'') 0 ?q demo_school = (Inr demo_enrollment_result, demo_school)"
  proof -
    have "truthy (Some ?key)" by (simp add: scoped_idempotency_key_def)
    then show ?thesis
      using idem_execute_replay [OF key holds] by (simp add: run_education_def Let_def env)
  qed
  then have "execute_command demo_school_api demo_calls ?q demo_school = (Inr (education_command_view demo_enrollment_result), demo_school)"
    by (simp add: execute_command_def demo_calls_def)
  moreover have "er_enrollment_id (education_command_view demo_enrollment_result) = ''n''"
    by (simp add: education_command_view_def demo_enrollment_result_def)
  ultimately show ?thesis
    using program request demo_school_loads
    by (simp add: api_create_enrollment_def demo_learner_def [THEN arg_cong [of _ _ ap_role]]
        demo_learner_def [THEN arg_cong [of _ _ ap_scopes]] demo_learner_def [THEN arg_cong [of _ _ ap_organization_id]]
        demo_learner_def [THEN arg_cong [of _ _ ap_subject]] env reference demo_context_def pure_def)
qed

theorem enrollments_are_own_witness:
  "\<exists>v s' x. api_create_enrollment demo_school_api demo_calls (\<lambda>_ x. x) demo_learner ''g'' ''1.0.0'' demo_sha ''k'' demo_school = (Inr v, s') \<and>
     load_enrollment demo_school_api ''n'' s' = Inr x \<and> ee_learner_ref (xc_enrollment x) = ''l'' \<and> xc_organization_id x = ''o''"
proof -
  have "er_enrollment_id (education_command_view demo_enrollment_result) = ''n''"
    by (simp add: education_command_view_def demo_enrollment_result_def)
  with enrollments_are_own [OF demo_enrollment_created] demo_enrollment_created show ?thesis
    by (auto simp: demo_learner_def)
qed

definition demo_teaching_policy :: oidc_policy where
  "demo_teaching_policy = ApiIdentity.demo_policy\<lparr>op_role_bindings := [\<lparr>ob_role_value = ''adm'', ob_role = API_INSTRUCTOR\<rparr>]\<rparr>"

lemma demo_teaching_policy_valid: "oidc_policy_valid bracketed demo_teaching_policy"
proof -
  have "require_https_identity_uri bracketed ''https://i'' = Inr ()" "require_https_identity_uri bracketed ''https://i/k'' = Inr ()"
    by code_simp+
  moreover have "oidc_fields_valid demo_teaching_policy" by code_simp
  ultimately show ?thesis
    by (simp add: oidc_policy_valid_def validate_policy_def demo_teaching_policy_def ApiIdentity.demo_policy_def then_check_def
        check_that_def require_unique_def ASYMMETRIC_ALGORITHMS_def CORE_CLAIMS_def)
qed

lemma demo_instructor_verified:
  "oidc_verify (demo_jwt ''d r'') demo_teaching_policy (static_jwk_set demo_keys) ''x.y.z'' =
     Inr (Some (demo_administrator\<lparr>ap_role := API_INSTRUCTOR\<rparr>))"
  by code_simp

theorem instructors_are_locked_out_witness:
  "\<exists>caller z. oidc_verify (demo_jwt ''d r'') demo_teaching_policy (static_jwk_set demo_keys) ''x.y.z'' = Inr (Some caller) \<and>
     ap_role caller = API_INSTRUCTOR \<and> ap_organization_id caller = Some ''o'' \<and>
     run_route demo_school_api demo_calls (\<lambda>_ x. x) caller ''n'' ''k''
       (Confirm ''x'' \<lparr>cq_expected_revision = 1, cq_requirement_id = ''r'', cq_evidence_id = ''v''\<rparr>) demo_school = (Inl z, demo_school)"
proof -
  have valid: "oidc_policy_valid (\<lambda>_. True) demo_teaching_policy" by (rule demo_teaching_policy_valid)
  have role: "ap_role (demo_administrator\<lparr>ap_role := API_INSTRUCTOR\<rparr>) = API_INSTRUCTOR"
    "ap_organization_id (demo_administrator\<lparr>ap_role := API_INSTRUCTOR\<rparr>) = Some ''o''" by (simp_all add: demo_administrator_def)
  note locked = instructors_are_locked_out [OF valid demo_instructor_verified role(1), of demo_school_api demo_calls "\<lambda>_ x. x" "''n''" "''k''"
    "Confirm ''x'' \<lparr>cq_expected_revision = 1, cq_requirement_id = ''r'', cq_evidence_id = ''v''\<rparr>" demo_school]
  then show ?thesis using demo_instructor_verified role by blast
qed

end
