(* ===== verification/RuntimeApi.thy ===== *)
theory RuntimeApi
  imports EducationApi JobQueue
begin

text \<open>
  The rest of \<open>api/app.py\<close>, with its models of \<open>api/models.py\<close>: the grants that expose pipelines, and the routes that run a
  pipeline, inline or through the queue, inspect a run and cancel it.  A payload is JSON; the request adapter of a
  pipeline and the execution itself are those of \<open>Execution\<close> and \<open>JobQueue\<close>.  As for the other routes,
  \<open>between i\<close> is what other processes do before the \<open>i\<close>-th step.
\<close>

section \<open>Authority fields and local references\<close>

definition RESERVED_AUTHORITY_FIELDS :: "string list" where
  "RESERVED_AUTHORITY_FIELDS = [''actor_id'', ''actor_role'', ''administrator_id'', ''registration_decision'',
     ''completion_decision'', ''approval_actor_id'', ''approval_actor_role'', ''authority_context'', ''learner_ref'',
     ''organization_id'']"

definition LOCAL_REFERENCE_FIELDS :: "string list" where
  "LOCAL_REFERENCE_FIELDS = [''destination'', ''root'', ''uri'']"

definition RESOURCE_BOUND_PIPELINES :: "(string \<times> string) list" where
  "RESOURCE_BOUND_PIPELINES = [(''education-program-runtime'', ''v1alpha1'')]"

text \<open>\<open>index\<close> counts the items of a list from where it is.\<close>

fun reserved_locations :: "string \<Rightarrow> json \<Rightarrow> string list"
  and reserved_members :: "string \<Rightarrow> (string \<times> json) list \<Rightarrow> string list"
  and reserved_items :: "string \<Rightarrow> nat \<Rightarrow> json list \<Rightarrow> string list" where
  "reserved_locations prefix (JObj ms) = reserved_members prefix ms"
| "reserved_locations prefix (JList vs) = reserved_items prefix 0 vs"
| "reserved_locations prefix _ = []"
| "reserved_members prefix [] = []"
| "reserved_members prefix ((k, v) # ms) =
     (if k \<in> set RESERVED_AUTHORITY_FIELDS then [prefix @ ''.'' @ k] else []) @
     reserved_locations (prefix @ ''.'' @ k) v @ reserved_members prefix ms"
| "reserved_items prefix index [] = []"
| "reserved_items prefix index (v # vs) =
     reserved_locations (prefix @ ''.'' @ dec index) v @ reserved_items prefix (Suc index) vs"

definition is_local_reference :: "string \<Rightarrow> bool" where
  "is_local_reference k \<longleftrightarrow> k \<in> set LOCAL_REFERENCE_FIELDS \<or> ends_with ''_path'' k \<or> ends_with ''_uri'' k"

fun redact_references :: "json \<Rightarrow> json"
  and redact_members :: "(string \<times> json) list \<Rightarrow> (string \<times> json) list"
  and redact_items :: "json list \<Rightarrow> json list" where
  "redact_references (JObj ms) = JObj (redact_members ms)"
| "redact_references (JList vs) = JList (redact_items vs)"
| "redact_references v = v"
| "redact_members [] = []"
| "redact_members ((k, v) # ms) =
     (if is_local_reference k then redact_members ms else (k, redact_references v) # redact_members ms)"
| "redact_items [] = []"
| "redact_items (v # vs) = redact_references v # redact_items vs"

section \<open>Requests and views\<close>

record run_request =
  nq_run_id :: "string option"
  nq_idempotency_key :: "string option"
  nq_expected_revision :: "int option"
  nq_payload :: "(string \<times> json) list"

definition run_request_valid :: "run_request \<Rightarrow> bool" where
  "run_request_valid q \<longleftrightarrow> pred_option is_safe_id (nq_run_id q) \<and> pred_option is_safe_id (nq_idempotency_key q) \<and>
     pred_option (\<lambda>n. 1 \<le> n) (nq_expected_revision q)"

record run_view =
  wv_run_id :: string
  wv_pipeline_id :: string
  wv_pipeline_version :: string
  wv_status :: run_status
  wv_attempt :: nat
  wv_output :: "json option"
  wv_error_code :: "string option"
  wv_replayed :: bool
  wv_queue_status :: "job_status option"
  wv_updated_at :: "int option"

definition from_execution :: "execution_result \<Rightarrow> job_status option \<Rightarrow> int option \<Rightarrow> run_view" where
  "from_execution x queue_status updated_at =
     \<lparr>wv_run_id = xr_run_id x, wv_pipeline_id = xr_pipeline_id x, wv_pipeline_version = xr_pipeline_version x,
      wv_status = xr_status x, wv_attempt = xr_attempt x, wv_output = map_option redact_references (xr_output x),
      wv_error_code = xr_error_code x, wv_replayed = xr_replayed x, wv_queue_status = queue_status,
      wv_updated_at = updated_at\<rparr>"

record cancel_response =
  kr_run_id :: string
  kr_status :: run_status

definition stable_run_id :: "(string \<Rightarrow> string) \<Rightarrow> string \<Rightarrow> run_request \<Rightarrow> api_principal \<Rightarrow> string option \<Rightarrow> string" where
  "stable_run_id h uuid q caller key =
     (case nq_run_id q of
        Some run_id \<Rightarrow> run_id
      | None \<Rightarrow>
          (case key of
             Some k \<Rightarrow> ''api-'' @ take 32 (h (ap_subject caller @ [NUL] @ k))
           | None \<Rightarrow> ''api-'' @ uuid))"

section \<open>Grants\<close>

type_synonym grant_table = "((string \<times> string) \<times> api_grant) list"

text \<open>The loop of \<open>create_app\<close>.\<close>

fun accept_grants :: "(string \<times> string) list \<Rightarrow> api_grant list \<Rightarrow> grant_table \<Rightarrow> grant_table res" where
  "accept_grants registered [] grants = Inr grants"
| "accept_grants registered (g # gs) grants =
     (let key = (ag_pipeline_id g, ag_pipeline_version g) in
      if key \<notin> set registered then Inl (Exn ValueError ''API pipeline grant is not registered'')
      else if map_of grants key \<noteq> None then Inl (Exn ValueError ''duplicate API pipeline grant'')
      else if key \<in> set RESOURCE_BOUND_PIPELINES then
        Inl (Exn ValueError ''education program runtime must use principal-bound resource endpoints'')
      else accept_grants registered gs (dict_set key g grants))"

record 'w app_env =
  ax_queue :: "'w queue_env"
  ax_grants :: grant_table
  ax_hash :: "string \<Rightarrow> string"

definition create_app :: "'w queue_env \<Rightarrow> (string \<Rightarrow> string) \<Rightarrow> api_grant list \<Rightarrow> 'w app_env res" where
  "create_app queue h pipeline_grants =
     map_sum id (\<lambda>grants. \<lparr>ax_queue = queue, ax_grants = grants, ax_hash = h\<rparr>)
       (accept_grants (registry_keys (xv_registry (qv_exec queue))) pipeline_grants [])"

definition list_pipelines :: "'w app_env \<Rightarrow> pipeline_descriptor list \<times> ((string \<times> string) \<times> execution_mode) list" where
  "list_pipelines app =
     (filter (\<lambda>d. map_of (ax_grants app) (Execution.pd_pipeline_id d, Execution.pd_pipeline_version d) \<noteq> None)
        (registry_descriptors (xv_registry (qv_exec (ax_queue app)))),
      map (\<lambda>(k, g). (k, ag_execution_mode g))
        (sort_key (\<lambda>x. fst (fst x)) (sort_key (\<lambda>x. snd (fst x)) (ax_grants app))))"

section \<open>Running\<close>

text \<open>\<open>getattr(request, "expected_revision", None)\<close>, when it is an integer.\<close>

definition domain_revision :: "json \<Rightarrow> int option" where
  "domain_revision v = (case v of JObj ms \<Rightarrow> (case json_get ms ''expected_revision'' of JInt n \<Rightarrow> Some n | _ \<Rightarrow> None) | _ \<Rightarrow> None)"

text \<open>What a call reads from outside, and who cancels the run meanwhile.\<close>

record run_call =
  wc_now :: int
  wc_t :: "nat \<Rightarrow> int"
  wc_uuid :: string
  wc_cancel :: "string option"

definition run_context ::
  "'w app_env \<Rightarrow> run_call \<Rightarrow> api_principal \<Rightarrow> run_request \<Rightarrow> string option \<Rightarrow> int option \<Rightarrow> pipeline_context" where
  "run_context app c caller q key revision =
     \<lparr>pc_run_id = stable_run_id (ax_hash app) (wc_uuid c) q caller key, pc_actor_id = ap_subject caller,
      pc_actor_role = api_role_value (ap_role caller), pc_idempotency_key = key, pc_expected_revision = revision,
      pc_requested_at = wc_now c, pc_deadline_at = None, pc_cancel_requested = False,
      pc_metadata = [(''transport'', ''api'')]\<rparr>"

definition run_problem :: "exn \<Rightarrow> exn" where
  "run_problem e =
     (if is_instance e PipelineRunConflictError then api_problem 409 ''run_conflict''
      else if is_instance e PipelineJobConflictError then api_problem 409 ''job_conflict''
      else if is_instance e PipelineJobPayloadRejectedError then api_problem 422 ''queued_payload_forbidden''
      else if is_instance e PipelineJobIntegrityError then api_problem 409 ''job_integrity_failure''
      else if exn_is e [PipelineRunIntegrityError, ValidationError, UnicodeError] then api_problem 409 ''run_integrity_failure''
      else e)"

definition on_exec :: "('w exec_state \<Rightarrow> ('a, 'w exec_state) outcome) \<Rightarrow> 'w queue_state \<Rightarrow> ('a, 'w queue_state) outcome" where
  "on_exec f q = (fst (f (qs_exec q)), q\<lparr>qs_exec := snd (f (qs_exec q))\<rparr>)"

text \<open>The checks before the context; what is left is the grant, the key, the validated request and the revision.\<close>

definition checked_run ::
  "'w app_env \<Rightarrow> api_principal \<Rightarrow> run_request \<Rightarrow> string \<Rightarrow> string \<Rightarrow> string option \<Rightarrow>
   (api_grant \<times> string option \<times> json \<times> int option) res" where
  "checked_run app caller q pipeline_id version header =
     (case map_of (ax_grants app) (pipeline_id, version) of
        None \<Rightarrow> Inl (api_problem 404 ''pipeline_not_found'')
      | Some g \<Rightarrow>
          if ap_role caller \<notin> set (ag_execute_roles g) then Inl (api_problem 403 ''pipeline_role_forbidden'')
          else if reserved_locations ''payload'' (JObj (nq_payload q)) \<noteq> [] then Inl (api_problem 422 ''authority_field_forbidden'')
          else if nq_idempotency_key q \<noteq> None \<and> header \<noteq> None \<and> nq_idempotency_key q \<noteq> header then
            Inl (api_problem 422 ''idempotency_key_conflict'')
          else
            (case validate_request pipeline_id version (JObj (nq_payload q)) (xv_registry (qv_exec (ax_queue app))) of
               Inl e \<Rightarrow> Inl (if is_instance e ValidationError then api_problem 422 ''pipeline_request_invalid'' else e)
             | Inr validated \<Rightarrow>
                 (let domain = domain_revision validated in
                  if nq_expected_revision q \<noteq> None \<and> domain \<noteq> None \<and> nq_expected_revision q \<noteq> domain then
                    Inl (api_problem 422 ''revision_context_conflict'')
                  else Inr (g, if truthy header then header else nq_idempotency_key q, validated,
                    if nq_expected_revision q = None then domain else nq_expected_revision q))))"

definition api_run_pipeline ::
  "'w app_env \<Rightarrow> run_call \<Rightarrow> (nat \<Rightarrow> 'w queue_state \<Rightarrow> 'w queue_state) \<Rightarrow> api_principal \<Rightarrow> run_request \<Rightarrow> string \<Rightarrow>
   string \<Rightarrow> string option \<Rightarrow> 'w queue_state \<Rightarrow> (nat \<times> run_view, 'w queue_state) outcome" where
  "api_run_pipeline app c between caller q pipeline_id version header s =
     seq (pure (checked_run app caller q pipeline_id version header) s) (\<lambda>(g, key, validated, revision) s.
     let ctx = run_context app c caller q key revision; env = ax_queue app in
     if \<not> pipeline_context_valid ctx then (Inl (Exn ValidationError ''PipelineContext''), s)
     else
       handle
         (case ag_execution_mode g of
            API_QUEUED \<Rightarrow>
              seq (enqueue env between (wc_t c) pipeline_id version validated ctx s) (\<lambda>x s.
              let s = between 3 s in
              seq (pure (job_load env (xr_run_id x) (qs_jobs s)) s) (\<lambda>job s.
              (Inr (202, (from_execution x (Some (jb_status job)) None)\<lparr>wv_output := None\<rparr>), s)))
          | API_INLINE \<Rightarrow>
              seq (on_exec (aexecute_run (qv_exec env) (wc_t c) pipeline_id version validated ctx (wc_cancel c)) (between 0 s)) (\<lambda>x s.
              (Inr (200, from_execution x None None), s)))
         (\<lambda>e s. (Inl (run_problem e), s)))"

section \<open>Inspecting and cancelling\<close>

definition load_run :: "string \<Rightarrow> 'w queue_state \<Rightarrow> run_record res" where
  "load_run run_id s =
     (case exec_load run_id (qs_exec s) of
        Inl e \<Rightarrow>
          if is_instance e FileNotFoundError then Inl (api_problem 404 ''run_not_found'')
          else if exn_is e [ValidationError, UnicodeError] then Inl (api_problem 409 ''run_integrity_failure'')
          else Inl e
      | Inr r \<Rightarrow> Inr r)"

definition run_access :: "api_principal \<Rightarrow> string \<Rightarrow> run_record \<Rightarrow> bool" where
  "run_access caller scope r \<longleftrightarrow> ap_role caller = API_ADMINISTRATOR \<or> scope \<in> ap_scopes caller \<or>
     pc_actor_id (rn_context r) = ap_subject caller"

definition queue_status_of :: "'w queue_env \<Rightarrow> string \<Rightarrow> 'w queue_state \<Rightarrow> job_status option res" where
  "queue_status_of env run_id s =
     (case job_load env run_id (qs_jobs s) of
        Inl e \<Rightarrow>
          if is_instance e FileNotFoundError then Inr None
          else if exn_is e [PipelineJobIntegrityError, ValidationError, UnicodeError] then
            Inl (api_problem 409 ''job_integrity_failure'')
          else Inl e
      | Inr j \<Rightarrow> Inr (Some (jb_status j)))"

definition api_get_run ::
  "'w app_env \<Rightarrow> (nat \<Rightarrow> 'w queue_state \<Rightarrow> 'w queue_state) \<Rightarrow> api_principal \<Rightarrow> string \<Rightarrow> 'w queue_state \<Rightarrow>
   (run_view, 'w queue_state) outcome" where
  "api_get_run app between caller run_id s =
     seq (pure (load_run run_id s) s) (\<lambda>r s.
     if \<not> run_access caller ''runs:read:any'' r then (Inl (api_problem 403 ''run_access_forbidden''), s)
     else
       let s = between 0 s in
       seq (pure (queue_status_of (ax_queue app) run_id s) s) (\<lambda>queue_status s.
       let s = between 1 s in
       handle
         (seq (pure (exec_inspect (qv_exec (ax_queue app)) run_id (qs_exec s)) s) (\<lambda>x s.
          (Inr (from_execution x queue_status (Some (rn_updated_at r))), s)))
         (\<lambda>e s. (Inl (if exn_is e [PipelineRunIntegrityError, ValidationError, UnicodeError]
                      then api_problem 409 ''run_integrity_failure'' else e), s))))"

definition api_cancel_run ::
  "int \<Rightarrow> (nat \<Rightarrow> 'w queue_state \<Rightarrow> 'w queue_state) \<Rightarrow> api_principal \<Rightarrow> string \<Rightarrow> 'w queue_state \<Rightarrow>
   (cancel_response, 'w queue_state) outcome" where
  "api_cancel_run now between caller run_id s =
     seq (pure (load_run run_id s) s) (\<lambda>r s.
     if ap_role caller = API_VIEWER then (Inl (api_problem 403 ''operator_role_required''), s)
     else if \<not> run_access caller ''runs:cancel:any'' r then (Inl (api_problem 403 ''run_access_forbidden''), s)
     else
       seq (on_exec (request_cancel now run_id (ap_subject caller)) (between 0 s)) (\<lambda>_ s.
       (Inr \<lparr>kr_run_id = run_id, kr_status = rn_status r\<rparr>, s)))"

section \<open>What the API lets through\<close>

text \<open>The keys of a value, at any depth.\<close>

fun json_keys :: "json \<Rightarrow> string set"
  and member_keys :: "(string \<times> json) list \<Rightarrow> string set"
  and item_keys :: "json list \<Rightarrow> string set" where
  "json_keys (JObj ms) = member_keys ms"
| "json_keys (JList vs) = item_keys vs"
| "json_keys _ = {}"
| "member_keys [] = {}"
| "member_keys ((k, v) # ms) = insert k (json_keys v \<union> member_keys ms)"
| "item_keys [] = {}"
| "item_keys (v # vs) = json_keys v \<union> item_keys vs"

lemma reserved_locations_empty:
  "reserved_locations p v = [] \<longleftrightarrow> json_keys v \<inter> set RESERVED_AUTHORITY_FIELDS = {}"
  "reserved_members p ms = [] \<longleftrightarrow> member_keys ms \<inter> set RESERVED_AUTHORITY_FIELDS = {}"
  "reserved_items p i vs = [] \<longleftrightarrow> item_keys vs \<inter> set RESERVED_AUTHORITY_FIELDS = {}"
  by (induction p v and p ms and p i vs rule: reserved_locations_reserved_members_reserved_items.induct) auto

lemma redacted_keys:
  "json_keys (redact_references v) \<inter> Collect is_local_reference = {}"
  "member_keys (redact_members ms) \<inter> Collect is_local_reference = {}"
  "item_keys (redact_items vs) \<inter> Collect is_local_reference = {}"
  by (induction v and ms and vs rule: redact_references_redact_members_redact_items.induct) auto

lemma accept_grants_Inr:
  assumes "accept_grants registered gs grants = Inr grants'"
    and "\<And>k g. map_of grants k = Some g \<Longrightarrow> P k g"
    and "\<And>g. g \<in> set gs \<Longrightarrow> (ag_pipeline_id g, ag_pipeline_version g) \<in> set registered \<Longrightarrow>
      (ag_pipeline_id g, ag_pipeline_version g) \<notin> set RESOURCE_BOUND_PIPELINES \<Longrightarrow>
      P (ag_pipeline_id g, ag_pipeline_version g) g"
    and "map_of grants' k = Some g"
  shows "P k g"
  using assms
proof (induction gs arbitrary: grants)
  case (Cons a gs)
  let ?k = "(ag_pipeline_id a, ag_pipeline_version a)"
  from Cons.prems(1) have a: "?k \<in> set registered" "?k \<notin> set RESOURCE_BOUND_PIPELINES"
    and rest: "accept_grants registered gs (dict_set ?k a grants) = Inr grants'"
    by (auto simp: Let_def split: if_splits)
  show ?case
  proof (rule Cons.IH [OF rest _ _ Cons.prems(4)])
    show "P k g" if "map_of (dict_set ?k a grants) k = Some g" for k g
      using that Cons.prems(2,3) a by (auto simp: map_of_dict_set split: if_splits)
  qed (use Cons.prems(3) in auto)
qed simp

text \<open>A pipeline the caller was granted, with a payload that carries no authority of its own.\<close>

definition granted_run :: "api_grant list \<Rightarrow> api_principal \<Rightarrow> run_request \<Rightarrow> string \<Rightarrow> string \<Rightarrow> bool" where
  "granted_run gs caller q pipeline_id version \<longleftrightarrow>
     (\<exists>g \<in> set gs. ag_pipeline_id g = pipeline_id \<and> ag_pipeline_version g = version \<and>
        ap_role caller \<in> set (ag_execute_roles g)) \<and>
     (pipeline_id, version) \<notin> set RESOURCE_BOUND_PIPELINES \<and>
     ap_role caller \<in> {API_OPERATOR, API_ADMINISTRATOR} \<and>
     json_keys (JObj (nq_payload q)) \<inter> set RESERVED_AUTHORITY_FIELDS = {}"

lemma app_grant:
  assumes "create_app queue h gs = Inr app" "map_of (ax_grants app) (pid, v) = Some g"
  shows "g \<in> set gs" "ag_pipeline_id g = pid" "ag_pipeline_version g = v"
    "(pid, v) \<in> set (registry_keys (xv_registry (qv_exec queue)))" "(pid, v) \<notin> set RESOURCE_BOUND_PIPELINES"
proof -
  obtain grants where acc: "accept_grants (registry_keys (xv_registry (qv_exec queue))) gs [] = Inr grants" "ax_grants app = grants"
    using assms(1)
    by (cases "accept_grants (registry_keys (xv_registry (qv_exec queue))) gs []") (auto simp: create_app_def)
  have "g \<in> set gs \<and> (pid, v) = (ag_pipeline_id g, ag_pipeline_version g) \<and>
      (pid, v) \<in> set (registry_keys (xv_registry (qv_exec queue))) \<and> (pid, v) \<notin> set RESOURCE_BOUND_PIPELINES"
    by (rule accept_grants_Inr [OF acc(1), where P = "\<lambda>k g. g \<in> set gs \<and> k = (ag_pipeline_id g, ag_pipeline_version g) \<and>
      k \<in> set (registry_keys (xv_registry (qv_exec queue))) \<and> k \<notin> set RESOURCE_BOUND_PIPELINES"])
      (use assms(2) acc(2) in auto)
  then show "g \<in> set gs" "ag_pipeline_id g = pid" "ag_pipeline_version g = v"
    "(pid, v) \<in> set (registry_keys (xv_registry (qv_exec queue)))" "(pid, v) \<notin> set RESOURCE_BOUND_PIPELINES" by auto
qed

lemma checked_run_Inr:
  assumes "checked_run app caller q pid v header = Inr (g, key, validated, revision)"
  shows "map_of (ax_grants app) (pid, v) = Some g" "ap_role caller \<in> set (ag_execute_roles g)"
    "json_keys (JObj (nq_payload q)) \<inter> set RESERVED_AUTHORITY_FIELDS = {}"
  using assms
  by (auto simp: checked_run_def Let_def reserved_locations_empty simp del: reserved_locations.simps json_keys.simps
      split: option.splits if_splits sum.splits)

text \<open>
  C39. Nothing runs without a grant: a generic run request is refused, with nothing changed, unless the pipeline is one
  the application was granted for the caller's role, an operator or administrator, is not bound to resources, and
  its payload carries no field of human authority at any depth.
\<close>

theorem generic_runs_need_grant:
  assumes "create_app queue h gs = Inr app" and "list_all api_grant_valid gs"
  shows "granted_run gs caller q pid v \<or> (\<exists>e. api_run_pipeline app c between caller q pid v header s = (Inl e, s))"
proof (cases "checked_run app caller q pid v header")
  case (Inl e)
  then show ?thesis by (simp add: api_run_pipeline_def)
next
  case (Inr x)
  then obtain g key validated revision where "checked_run app caller q pid v header = Inr (g, key, validated, revision)"
    by (cases x) auto
  note checked = checked_run_Inr [OF this] app_grant [OF assms(1) checked_run_Inr(1) [OF this]]
  moreover have "ap_role caller \<in> {API_OPERATOR, API_ADMINISTRATOR}"
    using grant_roles [of g] checked(2,4) assms(2) by (auto simp: list_all_iff)
  ultimately show ?thesis unfolding granted_run_def by blast
qed

text \<open>What an answered run leaves, with the mode of its grant.\<close>

lemma api_run_answer:
  assumes "api_run_pipeline app c between caller q pid v header s = (Inr (n, w), s')"
  obtains (queued) key validated revision x job s1 where
      "enqueue (ax_queue app) between (wc_t c) pid v validated (run_context app c caller q key revision) s = (Inr x, s1)"
      "s' = between 3 s1" "job_load (ax_queue app) (xr_run_id x) (qs_jobs s') = Inr job" "n = 202"
      "w = (from_execution x (Some (jb_status job)) None)\<lparr>wv_output := None\<rparr>"
  | (inline) key validated revision x s1 where
      "aexecute_run (qv_exec (ax_queue app)) (wc_t c) pid v validated (run_context app c caller q key revision) (wc_cancel c)
        (qs_exec (between 0 s)) = (Inr x, s1)"
      "s' = (between 0 s)\<lparr>qs_exec := s1\<rparr>" "n = 200" "w = from_execution x None None"
proof -
  from assms obtain g key validated revision where
    checked: "checked_run app caller q pid v header = Inr (g, key, validated, revision)"
    by (cases "checked_run app caller q pid v header") (auto simp: api_run_pipeline_def)
  let ?ctx = "run_context app c caller q key revision"
  show thesis
  proof (cases "ag_execution_mode g")
    case API_INLINE
    obtain r s1 where run: "aexecute_run (qv_exec (ax_queue app)) (wc_t c) pid v validated ?ctx (wc_cancel c)
        (qs_exec (between 0 s)) = (r, s1)" by fastforce
    have "api_run_pipeline app c between caller q pid v header s =
        (if \<not> pipeline_context_valid ?ctx then (Inl (Exn ValidationError ''PipelineContext''), s)
         else handle (seq (r, (between 0 s)\<lparr>qs_exec := s1\<rparr>) (\<lambda>x s. (Inr (200, from_execution x None None), s)))
           (\<lambda>e s. (Inl (run_problem e), s)))"
      by (simp add: api_run_pipeline_def checked API_INLINE on_exec_def run)
    with assms obtain x where x: "r = Inr x" "s' = (between 0 s)\<lparr>qs_exec := s1\<rparr>" "n = 200" "w = from_execution x None None"
      by (cases r) (auto split: if_splits)
    from inline [OF run [unfolded x(1)] x(2-)] show thesis .
  next
    case API_QUEUED
    obtain r s1 where run: "enqueue (ax_queue app) between (wc_t c) pid v validated ?ctx s = (r, s1)" by fastforce
    have "api_run_pipeline app c between caller q pid v header s =
        (if \<not> pipeline_context_valid ?ctx then (Inl (Exn ValidationError ''PipelineContext''), s)
         else handle (seq (r, s1) (\<lambda>x s.
              let s = between 3 s in
              seq (pure (job_load (ax_queue app) (xr_run_id x) (qs_jobs s)) s) (\<lambda>job s.
              (Inr (202, (from_execution x (Some (jb_status job)) None)\<lparr>wv_output := None\<rparr>), s))))
           (\<lambda>e s. (Inl (run_problem e), s)))"
      by (simp add: api_run_pipeline_def checked API_QUEUED run)
    with assms have "\<exists>x job. r = Inr x \<and> s' = between 3 s1 \<and>
        job_load (ax_queue app) (xr_run_id x) (qs_jobs s') = Inr job \<and> n = 202 \<and>
        w = (from_execution x (Some (jb_status job)) None)\<lparr>wv_output := None\<rparr>"
      by (cases r) (auto simp: Let_def outcome_simps split: if_splits)
    then obtain x job where x: "r = Inr x" "s' = between 3 s1" "job_load (ax_queue app) (xr_run_id x) (qs_jobs s') = Inr job"
        "n = 202" "w = (from_execution x (Some (jb_status job)) None)\<lparr>wv_output := None\<rparr>"
      by blast
    from queued [OF run [unfolded x(1)] x(2-)] show thesis .
  qed
qed

lemma api_get_run_answer:
  assumes "api_get_run app between caller run_id s = (Inr w, s')"
  shows "\<exists>r x queue_status. exec_load run_id (qs_exec s) = Inr r \<and> run_access caller ''runs:read:any'' r \<and>
    exec_inspect (qv_exec (ax_queue app)) run_id (qs_exec s') = Inr x \<and> s' = between 1 (between 0 s) \<and>
    w = from_execution x queue_status (Some (rn_updated_at r))"
proof -
  obtain r where r: "load_run run_id s = Inr r" "run_access caller ''runs:read:any'' r"
    using assms by (cases "load_run run_id s") (auto simp: api_get_run_def split: if_splits)
  from r(1) have load: "exec_load run_id (qs_exec s) = Inr r"
    by (cases "exec_load run_id (qs_exec s)") (auto simp: load_run_def split: if_splits)
  show ?thesis
    using assms r load
    by (auto simp: api_get_run_def Let_def outcome_simps split: if_splits)
qed

text \<open>
  Local references stay local: no view of a run, of the call that ran it or of a later inspection, has a key that names a
  file, a root or a URI, at any depth of its output.
\<close>

theorem run_views_hide_references:
  assumes "fst (api_run_pipeline app c between caller q pid v header s) = Inr (n, w) \<or>
      fst (api_get_run app between caller run_id s) = Inr w"
    and "wv_output w = Some out"
  shows "json_keys out \<inter> Collect is_local_reference = {}"
  using assms(1)
proof
  assume "fst (api_run_pipeline app c between caller q pid v header s) = Inr (n, w)"
  then obtain s' where "api_run_pipeline app c between caller q pid v header s = (Inr (n, w), s')" by (metis prod.collapse)
  then show ?thesis
    by (cases rule: api_run_answer) (use assms(2) redacted_keys(1) in \<open>auto simp: from_execution_def\<close>)
next
  assume "fst (api_get_run app between caller run_id s) = Inr w"
  then obtain s' where "api_get_run app between caller run_id s = (Inr w, s')" by (metis prod.collapse)
  from api_get_run_answer [OF this] obtain x queue_status updated where "w = from_execution x queue_status updated" by blast
  with assms(2) obtain v where "out = redact_references v" by (auto simp: from_execution_def)
  then show ?thesis by (simp only: redacted_keys(1))
qed

section \<open>Whose runs they are\<close>

text \<open>Other processes do not hand a run or a job to another actor, and keep checkpoints in the files of their runs.\<close>

definition keeps_owners :: "'w queue_state \<Rightarrow> 'w queue_state \<Rightarrow> bool" where
  "keeps_owners q q' \<longleftrightarrow> (filed (qs_exec q) \<longrightarrow> filed (qs_exec q')) \<and>
     (\<forall>n r. xs_files (qs_exec q) n = Some (RunFile r) \<longrightarrow>
        (\<exists>r'. xs_files (qs_exec q') n = Some (RunFile r') \<and> rn_context r' = rn_context r)) \<and>
     (\<forall>n j. map_of (qs_jobs q) n = Some (JobFile j) \<longrightarrow>
        (\<exists>j'. map_of (qs_jobs q') n = Some (JobFile j') \<and> jb_context j' = jb_context j))"

lemma keeps_owners_refl [simp]: "keeps_owners q q"
  by (simp add: keeps_owners_def)

text \<open>The executor keeps the context of a run it finds, and gives a new one the caller's.\<close>

definition run_identity :: "string \<Rightarrow> pipeline_context \<Rightarrow> 'w exec_state \<Rightarrow> bool" where
  "run_identity k ctx s \<longleftrightarrow> (\<exists>r. xs_files s (record_name k) = Some (RunFile r) \<and>
     pc_run_id (rn_context r) = k \<and> context_identity (rn_context r) = context_identity ctx)"

lemma exec_update_identity:
  assumes "exec_update now r st a u h e s = (r', s')" "pc_run_id (rn_context r) = k"
    "context_identity (rn_context r) = context_identity ctx"
  shows "run_identity k ctx s'" "context_identity (rn_context r') = context_identity ctx"
  using assms by (auto simp: exec_update_def Let_def write_file_def run_identity_def)

lemma store_result_identity:
  assumes "store_result env now r st out s = (r', s')" "pc_run_id (rn_context r) = k"
    "context_identity (rn_context r) = context_identity ctx"
  shows "run_identity k ctx s'"
  using assms
  by (cases out) (auto simp: store_result_def Let_def exec_update_def write_file_def run_identity_def)

lemma execute_with_identity:
  assumes "execute_with entry env t pid v payload ctx c s = (Inr x, s')" and "filed s"
  shows "run_identity (pc_run_id ctx) ctx s'" "xr_run_id x = pc_run_id ctx"
proof -
  let ?k = "pc_run_id ctx"
  obtain z s1 where prep: "exec_prepare (t 0) pid v (xv_sha_json env payload) ctx s = (z, s1)" by fastforce
  with assms(1) obtain r where z: "z = Inr r" by (cases z) (auto simp: execute_with_def)
  have id: "pc_run_id (rn_context r) = ?k" using prepared_run_id prep z assms(2) by blast
  have ctx: "context_identity (rn_context r) = context_identity ctx"
    using exec_prepare_Inr [OF prep [unfolded z]] by (simp add: same_run_def)
  have first: "run_identity ?k ctx s1" using prepared_stored [OF prep [unfolded z]] id ctx by (auto simp: run_identity_def)
  obtain r3 s3 where u: "exec_update (t 2) r RUN_RUNNING (Some (rn_attempt r + 1)) None None None s1 = (r3, s3)"
    by fastforce
  note id3 = exec_update_stored(2) [OF u id] and ctx3 = exec_update_identity(2) [OF u id ctx]
  obtain y s4 where run: "run_pipeline entry env (t 3) pid v payload ctx c s3 = (y, s4)" by fastforce
  show "run_identity ?k ctx s'"
    using assms(1) prep z u run first
    by (auto simp: execute_with_def Let_def pure_def split: prod.splits sum.splits if_splits
        intro: exec_update_identity(1) [OF _ id ctx] exec_update_identity(1) [OF _ id3 ctx3] store_result_identity [OF _ id3 ctx3])
  have "filed s'" using own_execute [OF assms(2), of ctx entry env t pid v payload c] assms by (simp add: own_step_def)
  moreover from execute_answer [OF assms] obtain r b where
    "xs_files s' (record_name ?k) = Some (RunFile r)" "result_from_record env r b s' = Inr x" by blast
  ultimately show "xr_run_id x = ?k"
    by (auto simp: filed_def result_from_record_def Let_def split: if_splits option.splits sum.splits json.splits)
qed


lemma inspected_run_id:
  assumes "exec_inspect env k s = Inr x" "filed s"
  shows "xr_run_id x = k"
proof -
  obtain f r where "xs_files s (record_name k) = Some f" "parse_record f = Inr r" "result_from_record env r False s = Inr x"
    using assms(1)
    by (auto simp: exec_inspect_def exec_load_def record_path_def validate_run_id_def split: sum.splits if_splits option.splits)
  then show ?thesis
    using assms(2)
    by (auto simp: filed_def parse_record_def result_from_record_def Let_def
        split: run_file.splits if_splits option.splits sum.splits json.splits)
qed

lemma prepared_result_id:
  assumes "prepare_run env now pid v payload ctx s = (Inr x, s')" "filed s"
  shows "xr_run_id x = pc_run_id ctx"
proof -
  obtain request r s1 b where "exec_prepare now pid v (xv_sha_json env request) ctx s = (Inr r, s1)"
      "result_from_record env r b s1 = Inr x"
    using assms(1) by (auto simp: prepare_run_def Let_def outcome_simps)
  with prepared_run_id [OF this(1) assms(2)] show ?thesis
    by (auto simp: result_from_record_def Let_def split: if_splits option.splits sum.splits json.splits)
qed

definition job_identity :: "string \<Rightarrow> pipeline_context \<Rightarrow> 'w queue_state \<Rightarrow> bool" where
  "job_identity k ctx q \<longleftrightarrow> (\<exists>j. map_of (qs_jobs q) (job_name k) = Some (JobFile j) \<and>
     context_identity (jb_context j) = context_identity ctx)"

lemma existing_job_identity:
  assumes "existing_job env (job_name (pc_run_id ctx)) pid v sha ctx q = (Inr x, q')" "filed (qs_exec q)"
  shows "job_identity (pc_run_id ctx) ctx q'" "xr_run_id x = pc_run_id ctx"
proof -
  obtain j y where j: "load_job env (job_name (pc_run_id ctx)) (qs_jobs q) = Inr j" "verify_identity env j pid v sha ctx = Inr ()"
      "exec_inspect (qv_exec env) (pc_run_id ctx) (qs_exec q) = Inr y" "x = y\<lparr>xr_replayed := True\<rparr>" "q' = q"
    using assms(1) by (auto simp: existing_job_def outcome_simps)
  from j(1) have "map_of (qs_jobs q) (job_name (pc_run_id ctx)) = Some (JobFile j)"
    by (auto simp: load_job_def split: option.splits job_file.splits if_splits sum.splits)
  with j(2,5) show "job_identity (pc_run_id ctx) ctx q'"
    by (auto simp: job_identity_def verify_identity_def split: if_splits)
  show "xr_run_id x = pc_run_id ctx" using inspected_run_id [OF j(3) assms(2)] j(4) by simp
qed

lemma enqueue_commit_identity:
  assumes "enqueue_commit env now pid v sha payload ctx prepared q = (Inr x, q')" "filed (qs_exec q)"
    and "xr_run_id prepared = pc_run_id ctx"
  shows "job_identity (pc_run_id ctx) ctx q'" "xr_run_id x = pc_run_id ctx"
proof -
  have "jb_context (queued_job env now pid v sha payload ctx prepared) = ctx"
    by (simp add: queued_job_def Let_def split: prod.split)
  then have "job_identity (pc_run_id ctx) ctx q' \<and> xr_run_id x = pc_run_id ctx"
    using assms existing_job_identity
    by (fastforce simp: enqueue_commit_def Let_def job_identity_def write_job_def split: if_splits)
  then show "job_identity (pc_run_id ctx) ctx q'" "xr_run_id x = pc_run_id ctx" by blast+
qed

lemma enqueue_identity:
  assumes "enqueue env between t pid v payload ctx q = (Inr x, q')" and "filed (qs_exec q)"
    and others: "\<forall>i q. filed (qs_exec q) \<longrightarrow> filed (qs_exec (between i q))"
  shows "job_identity (pc_run_id ctx) ctx q' \<and> xr_run_id x = pc_run_id ctx"
proof -
  obtain validated value' where v: "validate_request pid v payload (xv_registry (qv_exec env)) = Inr validated"
      "payload_value validated = Inr value'" "validate_payload (qv_json_size env) value' = Inr ()"
      and safe: "is_safe_id (pc_run_id ctx)"
    using assms(1) by (auto simp: enqueue_def outcome_simps Let_def job_path_def validate_run_id_def split: if_splits)
  let ?path = "job_name (pc_run_id ctx)" and ?sha = "xv_sha_json (qv_exec env) (JObj value')"
  let ?q0 = "between 0 q" and ?q1 = "between 1 (between 0 q)"
  have filed: "filed (qs_exec ?q0)" "filed (qs_exec ?q1)" using assms(2) others by blast+
  show ?thesis
  proof (cases "map_of (qs_jobs ?q0) ?path")
    case (Some f)
    then have "existing_job env ?path pid v ?sha ctx ?q0 = (Inr x, q')"
      using assms(1) v safe by (simp add: enqueue_def Let_def job_path_def validate_run_id_def)
    from existing_job_identity [OF this filed(1)] show ?thesis by blast
  next
    case None
    obtain r e where prep: "prepare_run (qv_exec env) (t 0) pid v validated ctx (qs_exec ?q1) = (r, e)" by fastforce
    obtain prepared where r: "r = Inr prepared"
        and commit: "enqueue_commit env (t 1) pid v ?sha value' ctx prepared (between 2 (?q1\<lparr>qs_exec := e\<rparr>)) = (Inr x, q')"
      using assms(1) v safe prep None
      by (cases r) (auto simp: enqueue_def Let_def job_path_def validate_run_id_def split: if_splits)
    have "filed e" using prepare_run_own [of ctx "qs_exec ?q1" "qv_exec env" "t 0" pid v validated] prep filed(2)
      by (simp add: own_step_def)
    then have "filed (qs_exec (between 2 (?q1\<lparr>qs_exec := e\<rparr>)))" using others by simp
    from enqueue_commit_identity [OF commit this prepared_result_id [OF prep [unfolded r] filed(2)]] show ?thesis by blast
  qed
qed

text \<open>
  C40. A run is its caller's: whatever run identifier or idempotency key a request names, an answered request leaves, under the
  run identifier of the answer, a checkpoint (or, when it was queued, a job) that records the caller as its actor, with
  the caller's role.  A run or a job of another actor is never answered with.
\<close>

theorem runs_belong_to_caller:
  assumes "\<forall>i q. keeps_owners q (between i q)" and "filed (qs_exec s)"
    and "api_run_pipeline app c between caller q pid v header s = (Inr (n, w), s')"
  shows "\<exists>ctx. pc_actor_id ctx = ap_subject caller \<and> pc_actor_role ctx = api_role_value (ap_role caller) \<and>
    (if n = 202 then job_identity (wv_run_id w) ctx s' else run_identity (wv_run_id w) ctx (qs_exec s'))"
proof -
  have filed: "filed (qs_exec (between 0 s))" using assms(1,2) by (simp add: keeps_owners_def)
  from assms(3) show ?thesis
  proof (cases rule: api_run_answer)
    case (queued key validated revision x job s1)
    let ?ctx = "run_context app c caller q key revision"
    have others: "\<forall>i q. filed (qs_exec q) \<longrightarrow> filed (qs_exec (between i q))"
      using assms(1) by (simp add: keeps_owners_def)
    from enqueue_identity [OF queued(1) assms(2) others] have id: "job_identity (pc_run_id ?ctx) ?ctx s1" "xr_run_id x = pc_run_id ?ctx"
      by blast+
    from id(1) assms(1) queued(2) have "job_identity (pc_run_id ?ctx) ?ctx s'"
      unfolding job_identity_def keeps_owners_def by metis
    with id(2) queued(4,5) show ?thesis
      by (intro exI [of _ ?ctx]) (simp add: run_context_def from_execution_def)
  next
    case (inline key validated revision x s1)
    let ?ctx = "run_context app c caller q key revision"
    from inline(1) have "execute_with pb_arun (qv_exec (ax_queue app)) (wc_t c) pid v validated ?ctx (wc_cancel c)
        (qs_exec (between 0 s)) = (Inr x, s1)"
      by (auto simp: aexecute_run_def validate_run_id_def split: if_splits)
    from execute_with_identity [OF this filed] inline(2-4) show ?thesis
      by (intro exI [of _ ?ctx]) (simp add: run_context_def from_execution_def)
  qed
qed

text \<open>
  Runs are private: a run is shown, and cancelled, only for an administrator, the holder of the scope, or the actor its
  checkpoint records; a viewer cancels none; and cancelling writes at most the one file that names the caller as the one who asked.
\<close>

theorem runs_are_private:
  "((\<exists>r. exec_load run_id (qs_exec s) = Inr r \<and> run_access caller ''runs:read:any'' r) \<or>
      (\<exists>e. fst (api_get_run app between caller run_id s) = Inl e)) \<and>
   (snd (api_cancel_run now between caller run_id s) \<in> {s, between 0 s} \<or>
    ap_role caller \<in> - {API_VIEWER} \<and>
    (\<exists>r. exec_load run_id (qs_exec s) = Inr r \<and> run_access caller ''runs:cancel:any'' r) \<and>
    snd (api_cancel_run now between caller run_id s) =
      (between 0 s)\<lparr>qs_exec := write_file (cancel_name run_id) (CancelFile (ap_subject caller) now) (qs_exec (between 0 s))\<rparr>)"
  (is "?get \<and> ?cancel")
proof
  show ?get
  proof (cases "fst (api_get_run app between caller run_id s)")
    case (Inr w)
    then obtain s' where "api_get_run app between caller run_id s = (Inr w, s')" by (metis prod.collapse)
    from api_get_run_answer [OF this] show ?thesis by blast
  qed blast
  show ?cancel
  proof (cases "load_run run_id s")
    case (Inl e)
    then show ?thesis by (simp add: api_cancel_run_def)
  next
    case (Inr r)
    then have load: "exec_load run_id (qs_exec s) = Inr r"
      by (cases "exec_load run_id (qs_exec s)") (auto simp: load_run_def split: if_splits)
    show ?thesis
      by (auto simp: api_cancel_run_def on_exec_def request_cancel_def Let_def Inr load)
  qed
qed

section \<open>Witnesses\<close>

text \<open>A pipeline whose output names a file, granted to operators.\<close>

definition demo_reporting :: "nat exec_env" where
  "demo_reporting = demo_exec_env\<lparr>xv_registry := [((''p'', ''v''), demo_binding\<lparr>pb_arun := (\<lambda>_ _ n.
     (Inr (JObj [(''uri'', JStr ''x''), (''n'', JInt 1)]), n + 1))\<rparr>)]\<rparr>"

definition demo_granted :: api_grant where
  "demo_granted = \<lparr>ag_pipeline_id = ''p'', ag_pipeline_version = ''v'', ag_execution_mode = API_INLINE, ag_execute_roles = [API_OPERATOR]\<rparr>"

definition demo_run_app :: "nat app_env" where
  "demo_run_app = \<lparr>ax_queue = demo_queue_env\<lparr>qv_exec := demo_reporting\<rparr>, ax_grants = [((''p'', ''v''), demo_granted)],
     ax_hash = (\<lambda>_. demo_sha)\<rparr>"

definition demo_operator :: api_principal where
  "demo_operator = \<lparr>ap_subject = ''a'', ap_role = API_OPERATOR, ap_organization_id = None, ap_scopes = {}\<rparr>"

definition demo_wanted :: run_request where
  "demo_wanted = \<lparr>nq_run_id = Some ''k'', nq_idempotency_key = None, nq_expected_revision = None, nq_payload = []\<rparr>"

definition demo_timing :: run_call where
  "demo_timing = \<lparr>wc_now = 0, wc_t = (\<lambda>_. 0), wc_uuid = ''u'', wc_cancel = None\<rparr>"

definition demo_idle :: "nat queue_state" where
  "demo_idle = \<lparr>qs_jobs = [], qs_exec = demo_exec_start\<rparr>"

definition demo_answer :: "(nat \<times> run_view, nat queue_state) outcome" where
  "demo_answer = api_run_pipeline demo_run_app demo_timing (\<lambda>_ x. x) demo_operator demo_wanted ''p'' ''v'' None demo_idle"

lemma demo_run_app: "create_app (demo_queue_env\<lparr>qv_exec := demo_reporting\<rparr>) (\<lambda>_. demo_sha) [demo_granted] = Inr demo_run_app"
  by (simp add: create_app_def registry_keys_def registry_sorted_def demo_reporting_def demo_granted_def
      RESOURCE_BOUND_PIPELINES_def demo_run_app_def dict_set_fresh)

lemma demo_answered:
  "map_sum id (\<lambda>(n, w). (n, wv_run_id w, wv_output w)) (fst demo_answer) = Inr (200, ''k'', Some (JObj [(''n'', JInt 1)]))"
  by code_simp


lemma demo_grants_valid: "list_all api_grant_valid [demo_granted]"
  by code_simp

lemma demo_answer_shape:
  "\<exists>w s'. demo_answer = (Inr (200, w), s') \<and> wv_run_id w = ''k'' \<and> wv_output w = Some (JObj [(''n'', JInt 1)])"
proof -
  obtain r s' where r: "demo_answer = (r, s')" by fastforce
  have "map_sum id (\<lambda>(n, w). (n, wv_run_id w, wv_output w)) r = Inr (200, ''k'', Some (JObj [(''n'', JInt 1)]))"
    using demo_answered unfolding r by simp
  with r show ?thesis by (cases r) auto
qed

text \<open>A payload that claims an actor is refused, before anything happens.\<close>

theorem generic_runs_need_grant_witness:
  "\<exists>e. api_run_pipeline demo_run_app demo_timing (\<lambda>_ x. x) demo_operator
     (demo_wanted\<lparr>nq_payload := [(''x'', JList [JObj [(''actor_id'', JNull)]])]\<rparr>) ''p'' ''v'' None demo_idle = (Inl e, demo_idle)"
proof -
  let ?q = "demo_wanted\<lparr>nq_payload := [(''x'', JList [JObj [(''actor_id'', JNull)]])]\<rparr>"
  have "\<not> granted_run [demo_granted] demo_operator ?q ''p'' ''v''"
    by (simp add: granted_run_def RESERVED_AUTHORITY_FIELDS_def)
  with generic_runs_need_grant [OF demo_run_app demo_grants_valid, of demo_operator ?q "''p''" "''v''" demo_timing
      "\<lambda>_ x. x" None demo_idle]
  show ?thesis by blast
qed

theorem run_views_hide_references_witness:
  "\<exists>n w out. fst (api_run_pipeline demo_run_app demo_timing (\<lambda>_ x. x) demo_operator demo_wanted ''p'' ''v'' None demo_idle) = Inr (n, w) \<and>
     wv_output w = Some out \<and> json_keys out \<inter> Collect is_local_reference = {}"
proof -
  obtain w s' where w: "demo_answer = (Inr (200, w), s')" "wv_output w = Some (JObj [(''n'', JInt 1)])"
    using demo_answer_shape by blast
  then have "fst (api_run_pipeline demo_run_app demo_timing (\<lambda>_ x. x) demo_operator demo_wanted ''p'' ''v'' None demo_idle) = Inr (200, w)"
    by (simp add: demo_answer_def)
  with run_views_hide_references [OF disjI1 [OF this] w(2)] w(2) show ?thesis by blast
qed

theorem runs_belong_to_caller_witness:
  "\<exists>w s' ctx. api_run_pipeline demo_run_app demo_timing (\<lambda>_ x. x) demo_operator demo_wanted ''p'' ''v'' None demo_idle = (Inr (200, w), s') \<and>
     wv_run_id w = ''k'' \<and> pc_actor_id ctx = ''a'' \<and> run_identity ''k'' ctx (qs_exec s')"
proof -
  obtain w s' where w: "demo_answer = (Inr (200, w), s')" "wv_run_id w = ''k''" using demo_answer_shape by blast
  have keeps: "\<forall>(i::nat) q. keeps_owners q q" by simp
  have filed: "filed (qs_exec demo_idle)" by (simp add: filed_def demo_idle_def demo_exec_start_def)
  from runs_belong_to_caller [OF keeps filed w(1) [unfolded demo_answer_def]] w show ?thesis
    by (auto simp: demo_answer_def demo_operator_def)
qed

end
