(* ===== verification/Spec2Isabelle.thy ===== *)
theory Spec2Isabelle
  imports TwoGate ProjectTransactions Outbox CourseRuns JobQueue Idempotency ProjectHistory GoldBenchmark Batch Maintenance
    Pipelines Markdown RuntimeApi
begin

text \<open>
  A model of the core of AXCalib, the library under \<open>src/src/axcalib\<close> that carries a project
  through two human-approved gates, keeps the evidence of every step in revision-checked files,
  and runs education programs on top of it.

  \<^bold>\<open>The program.\<close>  A project is a dossier in a workspace directory.  Its status moves through a
  fixed table of transitions (\<open>workflows/two_gate.py\<close>); each gate opens with a notification that
  goes through a durable outbox (\<open>notifications/outbox.py\<close>) and closes with the decision of a
  person.  A change of the dossier is a transaction (\<open>runtime/transactions.py\<close>): a plan is written
  to a hash-chained journal, the artifacts it needs are verified, the dossier is saved against its
  revision (\<open>dossier/repository.py\<close>), the audit event is appended once (\<open>audit/log.py\<close>), and the
  journal is closed.  A run that was interrupted anywhere is finished by reconciliation.  Education
  programs (\<open>programs/service.py\<close>) use the same machinery for enrollments
  (\<open>runtime/enrollment_transactions.py\<close>) over immutable program versions
  (\<open>programs/repository.py\<close>).

  \<^bold>\<open>The theories.\<close>
    \<^item> \<open>Prelude\<close>: Python exceptions with their class hierarchy, outcomes (a result or an exception,
      with the state it leaves), insertion-ordered dictionaries, string classes and patterns.
    \<^item> \<open>TwoGate\<close>: the transition table and the two record operations; what any run of them can reach.
    \<^item> \<open>Domain\<close>: the records of \<open>schemas/domain.py\<close> with their validators.
    \<^item> \<open>DossierStore\<close>: dossiers, snapshots, schema migrations, the lock loop and the replace retry;
      the contract \<open>cas_repository\<close> of a revision-checked store.
    \<^item> \<open>AuditLog\<close>: the append-once log; the contract \<open>append_once_log\<close>.
    \<^item> \<open>Outbox\<close>: the durable outbox as a notification port.
    \<^item> \<open>Journal\<close>: the hash-chained journal, shared by both kinds of transaction: the source has the
      class twice, with a different plan.
    \<^item> \<open>Coordinator\<close>: execution and reconciliation over a record of the steps that differ between the
      two kinds; the contract \<open>recoverable_store\<close> and crash recovery, proved once.
    \<^item> \<open>ProjectTransactions\<close> and \<open>EnrollmentTransactions\<close>: the two instances.
    \<^item> \<open>EducationSchema\<close>, \<open>ProgramStore\<close>, \<open>EducationService\<close>: programs and their prerequisite graph,
      the two repositories, and the operations of the service.
    \<^item> \<open>Lifecycle\<close> and \<open>CourseRuns\<close>: the life cycle an enrollment is meant to have, and the proof that
      every run of the service moves stored enrollments only along it.
    \<^item> \<open>Execution\<close>: pipelines and their local executor, with its checkpoint, result and cancellation files.
    \<^item> \<open>JobQueue\<close>: the job queue and the worker; the locked sections of several processes interleave, those of one
      scan and one claim included.
    \<^item> \<open>Batch\<close>: batches of runs with their checkpoint, progress and result files.
    \<^item> \<open>Maintenance\<close>: the sweep that moves stale locks, orphans and closed journals aside.
    \<^item> \<open>Pipelines\<close>: the commands a caller may run: dossiers, reconciliation, maintenance, education.
    \<^item> \<open>CaseViews\<close> and \<open>Markdown\<close>: the read views of a project, and the texts of views and reports.
    \<^item> \<open>Idempotency\<close>: the store that answers a repeated request from a file.
    \<^item> \<open>Policies\<close>: review policies, their validators, and the registry that resolves frozen references.
    \<^item> \<open>Retrieval\<close> and \<open>Evaluator\<close>: lexical retrieval and the deterministic evaluator of both gates.
    \<^item> \<open>Ingest\<close>: evidence from a presentation and its sidecar; \<open>OutboxFiles\<close>: the outbox in the workspace.
    \<^item> \<open>ProjectService\<close>: the project service (\<open>pipelines/project.py\<close>), with reports and the whole run.
    \<^item> \<open>ProjectRuns\<close>, \<open>ProjectProgress\<close>, \<open>ProjectHistory\<close>: what every operation of the service keeps, what
      it does on a quiet workspace, and the properties of whole histories.
    \<^item> \<open>Client\<close>: the facade over one workspace (\<open>client.py\<close>), with keyed decisions, and the read handle whose
      reports are anchored in the committed transactions of its journals.
    \<^item> \<open>ApiIdentity\<close>: callers of the HTTP interface: principals, the OIDC policy and verifier, authentication.
    \<^item> \<open>ProjectApi\<close>: the project routes: who may register, read and decide, and what an answer guarantees.
    \<^item> \<open>EducationApi\<close>: the education routes: which caller may give which command on which enrollment.
    \<^item> \<open>RuntimeApi\<close>: the run routes: grants, generic runs inline and queued, whose runs they are, what a view shows.
    \<^item> \<open>GoldBenchmark\<close>: packages of owner-approved human labels and the comparison of reports with them.

  \<^bold>\<open>Correspondence.\<close>  A class of the source is a record with one field per attribute and a
  prefix for the class; constant attributes such as \<open>schema_version\<close> are left out unless the code
  reads them.  Field constraints are bool-valued validators, applied where the code validates.  An
  operation returns an \<^typ>\<open>('a, 's) outcome\<close>: the value or the exception that escapes, with the
  state it leaves.  Messages of exceptions are the fixed part of the source's message.  A locked
  section is one atomic step.  Clock readings and fresh identifiers are functions of the number of
  the reading, and hashes are functions of the value: they are parameters, and a property that needs
  a hash to separate values says so.  A crash is an exception that \<open>except Exception\<close> does not
  catch, injected at the boundaries the source names.  Strings are char lists; an integer of Python
  is an \<^typ>\<open>int\<close>, and a float of a score is a \<^typ>\<open>rat\<close>.

  Journals, audit logs and label files are lists of lines.  The source finds the lines with \<open>str.splitlines\<close> and
  writes JSON without escaping U+0085, U+2028 and U+2029, at which that also splits; what is proved of stored events
  is about texts without these characters.  File names are the strings that the source builds: as its identifiers may
  have dots, two runs or batches can share a file, and the properties of runs and batches say where that is excluded.

  \<^bold>\<open>Not modelled.\<close>  The framework of the HTTP interface and its OpenAPI document, the JWT library
  (a parameter), model backends, file parsers and renderers, the command line and the evaluation scripts; bytes of JSON and YAML files (a file holds
  the parsed value or a mark that it does not parse).
\<close>

end
